(* ===== verification/Go_Prelude.thy ===== *)
theory Go_Prelude
  imports Main "HOL-Library.AList" "HOL-Library.Monad_Syntax"
begin

text \<open>
  What the components of the development share: the fragment of Go and of its standard library
  that the operator's sources use.

  \<^item> A Go \<^verbatim>\<open>error\<close> is its message: a function returning \<^verbatim>\<open>error\<close> returns
    a \<open>string option\<close> (\<open>None\<close> is \<^verbatim>\<open>nil\<close>), a function returning
    \<^verbatim>\<open>(T, error)\<close> returns \<open>string + T\<close>.
  \<^item> A pointer that is only tested for \<^verbatim>\<open>nil\<close> and read is an \<open>option\<close>.
  \<^item> A slice whose nil-ness the code tests is a \<open>list option\<close>, any other slice a \<open>list\<close>.
  \<^item> A map is an optional association list: \<open>None\<close> is the nil map, which reads as the
    empty map and panics on a store. The order of the list is one of the orders in which
    \<^verbatim>\<open>range\<close> may visit the map, which Go leaves open.
\<close>

named_theorems go_defs \<open>definitions of the Go primitives\<close>

type_synonym err = string
type_synonym ('k, 'v) gomap = "('k \<times> 'v) list option"

section \<open>Maps\<close>

definition go_items :: "('k, 'v) gomap \<Rightarrow> ('k \<times> 'v) list" where
  "go_items m = (case m of None \<Rightarrow> [] | Some kvs \<Rightarrow> kvs)"

definition go_get :: "('k, 'v) gomap \<Rightarrow> 'k \<Rightarrow> 'v option" where
  "go_get m k = map_of (go_items m) k"

text \<open>A store into the nil map panics, which is the outer \<open>None\<close>.\<close>

definition go_put :: "('k, 'v) gomap \<Rightarrow> 'k \<Rightarrow> 'v \<Rightarrow> ('k, 'v) gomap option" where
  "go_put m k v = (case m of None \<Rightarrow> None | Some kvs \<Rightarrow> Some (Some (AList.update k v kvs)))"

definition go_delete :: "('k, 'v) gomap \<Rightarrow> 'k \<Rightarrow> ('k, 'v) gomap" where
  "go_delete m k = map_option (AList.delete k) m"

text \<open>A map value holds every key once.\<close>

definition go_map_ok :: "('k, 'v) gomap \<Rightarrow> bool" where
  "go_map_ok m \<longleftrightarrow> distinct (map fst (go_items m))"

lemma go_items_simps [simp]:
  "go_items None = []" "go_items (Some kvs) = kvs"
  by (simp_all add: go_items_def)

lemma go_get_None [simp]: "go_get None k = None"
  by (simp add: go_get_def)

lemma go_get_Some: "go_get (Some kvs) = map_of kvs"
  by (simp add: go_get_def fun_eq_iff)

lemma go_put_simps [simp]:
  "go_put None k v = None"
  "go_put (Some kvs) k v = Some (Some (AList.update k v kvs))"
  by (simp_all add: go_put_def)

lemma go_put_panics_iff: "go_put m k v = None \<longleftrightarrow> m = None"
  by (cases m) simp_all

lemma go_get_put: "go_put m k v = Some m' \<Longrightarrow> go_get m' = (go_get m)(k \<mapsto> v)"
  by (cases m) (auto simp: go_get_Some update_conv')

lemma go_get_delete [simp]: "go_get (go_delete m k) = (go_get m)(k := None)"
  by (cases m) (auto simp: go_delete_def go_get_Some delete_conv' fun_eq_iff)

lemma go_get_not_nil: "go_get m k = Some v \<Longrightarrow> m \<noteq> None"
  by (cases m) simp_all

lemma go_put_not_nil:
  assumes "m \<noteq> None"
  obtains m' where "go_put m k v = Some m'" "go_get m' = (go_get m)(k \<mapsto> v)"
proof -
  from assms obtain kvs where "m = Some kvs" by blast
  then have p: "go_put m k v = Some (Some (AList.update k v kvs))" by simp
  show thesis by (rule that [OF p go_get_put [OF p]])
qed

lemma go_map_ok_put: "go_put m k v = Some m' \<Longrightarrow> go_map_ok m \<Longrightarrow> go_map_ok m'"
  by (cases m) (auto simp: go_map_ok_def distinct_update)

lemma go_map_ok_delete: "go_map_ok m \<Longrightarrow> go_map_ok (go_delete m k)"
  by (cases m) (auto simp: go_map_ok_def go_delete_def distinct_delete)

lemma go_get_eq_Some_iff: "go_map_ok m \<Longrightarrow> go_get m k = Some v \<longleftrightarrow> (k, v) \<in> set (go_items m)"
  by (simp add: go_map_ok_def go_get_def)

text \<open>
  The order in which \<^verbatim>\<open>range\<close> visits a map is not observable through lookups: two
  association lists that are permutations of each other are the same map.
\<close>

lemma map_of_set_eq:
  assumes "set xs = set ys" "distinct (map fst xs)" "distinct (map fst ys)"
  shows "map_of xs = map_of ys"
  using assms by (simp add: map_of_inject_set)

section \<open>Strings\<close>

text \<open>\<^verbatim>\<open>strings.Split\<close> at a separator of one character.\<close>

fun strings_split :: "char \<Rightarrow> string \<Rightarrow> string list" where
  "strings_split c [] = [[]]"
| "strings_split c (x # xs) =
     (if x = c then [] # strings_split c xs
      else case strings_split c xs of [] \<Rightarrow> [[x]] | p # ps \<Rightarrow> (x # p) # ps)"

lemma strings_split_not_in: "c \<notin> set a \<Longrightarrow> strings_split c a = [a]"
  by (induction a) auto

lemma strings_split_at: "c \<notin> set a \<Longrightarrow> strings_split c (a @ c # b) = a # strings_split c b"
  by (induction a) auto

text \<open>
  \<^verbatim>\<open>strings.Cut\<close> around a separator of one character: the text before the first
  occurrence, the text after it, and whether it was found.
\<close>

definition strings_cut :: "char \<Rightarrow> string \<Rightarrow> string \<times> string \<times> bool" where
  "strings_cut c s = (takeWhile (\<lambda>x. x \<noteq> c) s,
              (case dropWhile (\<lambda>x. x \<noteq> c) s of [] \<Rightarrow> [] | _ # rest \<Rightarrow> rest),
              c \<in> set s)"

lemma strings_cut_not_in: "c \<notin> set s \<Longrightarrow> strings_cut c s = (s, [], False)"
proof -
  assume c: "c \<notin> set s"
  then have d: "dropWhile (\<lambda>x. x \<noteq> c) s = []" and t: "takeWhile (\<lambda>x. x \<noteq> c) s = s"
    by (induction s) auto
  show ?thesis unfolding strings_cut_def d t using c by simp
qed

lemma strings_cut_at: "c \<notin> set a \<Longrightarrow> strings_cut c (a @ c # b) = (a, b, True)"
proof -
  assume "c \<notin> set a"
  then have "dropWhile (\<lambda>x. x \<noteq> c) (a @ c # b) = c # b" "takeWhile (\<lambda>x. x \<noteq> c) (a @ c # b) = a"
    by (induction a) auto
  then show ?thesis by (simp add: strings_cut_def)
qed

lemma strings_cut_cases:
  obtains "strings_cut c s = (s, [], False)" "c \<notin> set s"
  | a b where "s = a @ c # b" "c \<notin> set a" "strings_cut c s = (a, b, True)"
proof (cases "c \<in> set s")
  case True
  then obtain a b where "s = a @ c # b" "c \<notin> set a"
    by (meson split_list_first)
  then show ?thesis using that(2) strings_cut_at by blast
next
  case False
  then show ?thesis using that(1) strings_cut_not_in by blast
qed

text \<open>\<^verbatim>\<open>strconv.FormatBool\<close> and \<^verbatim>\<open>strconv.FormatInt(i, 10)\<close>.\<close>

definition format_bool :: "bool \<Rightarrow> string" where
  "format_bool b = (if b then ''true'' else ''false'')"

definition digit_char :: "nat \<Rightarrow> char" where
  "digit_char d = char_of (48 + d)"

fun format_nat :: "nat \<Rightarrow> string" where
  "format_nat n = (if n < 10 then [digit_char n] else format_nat (n div 10) @ [digit_char (n mod 10)])"

declare format_nat.simps [simp del]

definition format_int :: "int \<Rightarrow> string" where
  "format_int i = (if i < 0 then CHR ''-'' # format_nat (nat (- i)) else format_nat (nat i))"

lemma format_bool_inject [simp]: "format_bool a = format_bool b \<longleftrightarrow> a = b"
  by (auto simp: format_bool_def)

lemma format_bool_not_empty [simp]: "format_bool b \<noteq> []"
  by (simp add: format_bool_def)

lemma of_char_digit_char: "d < 10 \<Longrightarrow> of_char (digit_char d) = 48 + d"
  by (simp add: digit_char_def take_bit_nat_eq_self)

lemma digit_char_inject: "a < 10 \<Longrightarrow> b < 10 \<Longrightarrow> digit_char a = digit_char b \<longleftrightarrow> a = b"
  by (metis of_char_digit_char add_left_cancel)

lemma digit_char_not_minus: "d < 10 \<Longrightarrow> digit_char d \<noteq> CHR ''-''"
  by (auto dest: of_char_digit_char)

lemma format_nat_not_empty [simp]: "format_nat n \<noteq> []"
  by (subst format_nat.simps) simp

lemma length_format_nat: "n < 10 ^ k \<Longrightarrow> 0 < k \<Longrightarrow> length (format_nat n) \<le> k"
proof (induction k arbitrary: n)
  case 0
  then show ?case by simp
next
  case (Suc k)
  show ?case
  proof (cases "n < 10")
    case True
    then show ?thesis by (subst format_nat.simps) simp
  next
    case False
    then have "k \<noteq> 0" using Suc.prems by (cases k) auto
    moreover have "n div 10 < 10 ^ k" using Suc.prems(1) by (simp add: less_mult_imp_div_less mult.commute)
    ultimately have "length (format_nat (n div 10)) \<le> k" using Suc.IH by simp
    then show ?thesis using False by (subst format_nat.simps) simp
  qed
qed

lemma format_nat_digits: "c \<in> set (format_nat n) \<Longrightarrow> \<exists>d < 10. c = digit_char d"
proof (induction n rule: format_nat.induct)
  case (1 n)
  from "1.prems" consider "n < 10" "c = digit_char n" | "\<not> n < 10" "c \<in> set (format_nat (n div 10))"
    | "c = digit_char (n mod 10)"
    by (subst (asm) format_nat.simps) (auto split: if_splits)
  then show ?case
  proof cases
    case 2
    then show ?thesis by (rule "1.IH")
  qed (auto intro: exI [where x = "n mod 10"])
qed

lemma format_nat_inject [simp]: "format_nat a = format_nat b \<longleftrightarrow> a = b"
proof
  show "format_nat a = format_nat b \<Longrightarrow> a = b"
  proof (induction a arbitrary: b rule: format_nat.induct)
    case (1 a)
    have single: "m < 10 \<Longrightarrow> n \<ge> 10 \<Longrightarrow> format_nat m \<noteq> format_nat n" for m n
      using format_nat.simps [of m] format_nat.simps [of n] format_nat_not_empty [of "n div 10"]
      by (auto simp del: format_nat_not_empty)
    show ?case
    proof (cases "a < 10 \<or> b < 10")
      case True
      then have "a < 10 \<and> b < 10"
        using "1.prems" single by (metis not_less)
      then show ?thesis
        using "1.prems" by (simp add: format_nat.simps [of a] format_nat.simps [of b] digit_char_inject)
    next
      case False
      then have "format_nat (a div 10) @ [digit_char (a mod 10)] = format_nat (b div 10) @ [digit_char (b mod 10)]"
        using "1.prems" by (simp add: format_nat.simps [of a] format_nat.simps [of b])
      then have "format_nat (a div 10) = format_nat (b div 10)" "a mod 10 = b mod 10"
        by (simp_all add: digit_char_inject)
      moreover from this have "a div 10 = b div 10" using "1.IH" False by blast
      ultimately show ?thesis by (metis div_mult_mod_eq)
    qed
  qed
qed simp

lemma format_int_inject [simp]: "format_int a = format_int b \<longleftrightarrow> a = b"
proof -
  have neq: "CHR ''-'' # xs \<noteq> format_nat n" for xs n
  proof
    assume "CHR ''-'' # xs = format_nat n"
    then have "CHR ''-'' \<in> set (format_nat n)" by (metis list.set_intros(1))
    then show False using format_nat_digits digit_char_not_minus by metis
  qed
  show ?thesis
    using neq neq [symmetric] by (auto simp: format_int_def eq_nat_nat_iff split: if_splits)
qed

lemma format_int_not_empty [simp]: "format_int i \<noteq> []"
  by (simp add: format_int_def)

section \<open>Sequences of checks\<close>

text \<open>
  A Go loop \<^verbatim>\<open>for _, x := range xs { if err := f(x); err != nil { return err } }\<close> returns
  the first error: \<open>first_err f xs\<close>.
\<close>

fun first_err :: "('a \<Rightarrow> err option) \<Rightarrow> 'a list \<Rightarrow> err option" where
  "first_err f [] = None"
| "first_err f (x # xs) = (case f x of Some e \<Rightarrow> Some e | None \<Rightarrow> first_err f xs)"

lemma first_err_None_iff: "first_err f xs = None \<longleftrightarrow> (\<forall>x \<in> set xs. f x = None)"
  by (induction xs) (auto split: option.splits)

lemma first_err_SomeD: "first_err f xs = Some e \<Longrightarrow> \<exists>x \<in> set xs. f x = Some e"
  by (induction xs) (auto split: option.splits)

lemma first_err_append:
  "first_err f (xs @ ys) = (case first_err f xs of Some e \<Rightarrow> Some e | None \<Rightarrow> first_err f ys)"
  by (induction xs) (auto split: option.splits)

lemma first_err_cong [fundef_cong]:
  "xs = ys \<Longrightarrow> (\<And>x. x \<in> set ys \<Longrightarrow> f x = g x) \<Longrightarrow> first_err f xs = first_err g ys"
  by (induction xs arbitrary: ys) (auto split: option.splits)

section \<open>Results that may panic\<close>

text \<open>
  Code that can also panic (a nil pointer is dereferenced) has a result of its own: a value, an
  error or a panic.
\<close>

datatype 'a go_result = Ok 'a | Err err | Panic

fun go_bind :: "'a go_result \<Rightarrow> ('a \<Rightarrow> 'b go_result) \<Rightarrow> 'b go_result" where
  "go_bind (Ok x) f = f x"
| "go_bind (Err e) f = Err e"
| "go_bind Panic f = Panic"

definition of_sum :: "err + 'a \<Rightarrow> 'a go_result" where
  "of_sum x = (case x of Inl e \<Rightarrow> Err e | Inr y \<Rightarrow> Ok y)"

text \<open>\<^verbatim>\<open>if err != nil { return ..., fmt.Errorf(prefix + ": %w", err) }\<close>\<close>

fun wrap_err :: "string \<Rightarrow> 'a go_result \<Rightarrow> 'a go_result" where
  "wrap_err p (Err e) = Err (p @ e)"
| "wrap_err p r = r"

fun go_all :: "('a \<Rightarrow> 'b go_result) \<Rightarrow> 'a list \<Rightarrow> 'b list go_result" where
  "go_all f [] = Ok []"
| "go_all f (x # xs) = go_bind (f x) (\<lambda>y. go_bind (go_all f xs) (\<lambda>ys. Ok (y # ys)))"

lemma of_sum_simps [simp]: "of_sum (Inl e) = Err e" "of_sum (Inr y) = Ok y" "of_sum x \<noteq> Panic"
  by (simp_all add: of_sum_def split: sum.split)

lemma of_sum_Ok_iff [simp]: "of_sum x = Ok y \<longleftrightarrow> x = Inr y"
  by (cases x) simp_all

lemma go_bind_Ok_iff: "go_bind r f = Ok y \<longleftrightarrow> (\<exists>x. r = Ok x \<and> f x = Ok y)"
  by (cases r) simp_all

lemma go_bind_Panic_iff: "go_bind r f = Panic \<longleftrightarrow> r = Panic \<or> (\<exists>x. r = Ok x \<and> f x = Panic)"
  by (cases r) simp_all

lemma wrap_err_iff [simp]: "wrap_err p r = Ok y \<longleftrightarrow> r = Ok y" "wrap_err p r = Panic \<longleftrightarrow> r = Panic"
  by (cases r; simp)+

lemma go_all_Ok_iff: "go_all f xs = Ok ys \<longleftrightarrow> list_all2 (\<lambda>x y. f x = Ok y) xs ys"
  by (induction xs arbitrary: ys) (auto simp: go_bind_Ok_iff list_all2_Cons1)

lemma go_all_Panic: "go_all f xs = Panic \<Longrightarrow> \<exists>x \<in> set xs. f x = Panic"
  by (induction xs) (auto simp: go_bind_Panic_iff)

lemmas [go_defs] = go_get_def go_put_def go_delete_def

text \<open>Errors that are passed on.\<close>

lemma map_sum_id_Inr: "map_sum id f x = Inr z \<longleftrightarrow> (\<exists>y. x = Inr y \<and> z = f y)"
  by (cases x) auto

lemma find_Some_mem: "find P xs = Some x \<Longrightarrow> x \<in> set xs \<and> P x"
  by (induction xs) (auto split: if_splits)

end
