(* ===== verification/K8s_Types.thy ===== *)
theory K8s_Types
  imports Go_Prelude
begin

text \<open>
  The fields of the Kubernetes API structs (\<^verbatim>\<open>k8s.io/api/core/v1\<close>) that the operator
  reads or writes. A value the operator only passes on is \<open>opaque\<close>: its serialised text. The
  type parameter \<open>'q\<close> stands for \<^verbatim>\<open>resource.Quantity\<close>.
\<close>

datatype opaque = Opaque string

record 'q ResourceRequirements =
  rr_Limits :: "(string, 'q) gomap"
  rr_Requests :: "(string, 'q) gomap"
  rr_Claims :: "(string \<times> string) list"  \<comment> \<open>\<^verbatim>\<open>ResourceClaim\<close>: name and request\<close>

definition no_resources :: "'q ResourceRequirements" where
  "no_resources = \<lparr>rr_Limits = None, rr_Requests = None, rr_Claims = []\<rparr>"

definition ResourceCPU :: string where "ResourceCPU = ''cpu''"
definition ResourceMemory :: string where "ResourceMemory = ''memory''"

lemma resource_names_distinct [simp]: "ResourceCPU \<noteq> ResourceMemory" "ResourceMemory \<noteq> ResourceCPU"
  by (simp_all add: ResourceCPU_def ResourceMemory_def)

record Probe =
  pr_SuccessThreshold :: int
  pr_FailureThreshold :: int
  pr_PeriodSeconds :: int
  pr_TimeoutSeconds :: int
  pr_Handler :: opaque

record EnvFromSource =
  ef_ConfigMapRef :: "string option"  \<comment> \<open>the name in the reference\<close>
  ef_SecretRef :: "string option"

record EnvVar =
  ev_Name :: string
  ev_Value :: string
  ev_ValueFrom :: "opaque option"

record VolumeMount =
  vm_Name :: string
  vm_ReadOnly :: bool
  vm_RecursiveReadOnly :: "string option"
  vm_MountPath :: string
  vm_SubPath :: string
  vm_MountPropagation :: "string option"
  vm_SubPathExpr :: string

record VolumeDevice =
  vd_Name :: string
  vd_DevicePath :: string

record Capabilities =
  cap_Add :: "string list"
  cap_Drop :: "string list"

record SecurityContext =
  sc_Capabilities :: "Capabilities option"
  sc_Privileged :: "bool option"
  sc_SELinuxOptions :: "opaque option"
  sc_RunAsUser :: "int option"
  sc_RunAsGroup :: "int option"
  sc_RunAsNonRoot :: "bool option"
  sc_ReadOnlyRootFilesystem :: "bool option"
  sc_AllowPrivilegeEscalation :: "bool option"
  sc_ProcMount :: "string option"
  sc_SeccompProfile :: "opaque option"
  sc_AppArmorProfile :: "opaque option"

definition no_security_context :: SecurityContext where
  "no_security_context = \<lparr>sc_Capabilities = None, sc_Privileged = None, sc_SELinuxOptions = None,
     sc_RunAsUser = None, sc_RunAsGroup = None, sc_RunAsNonRoot = None,
     sc_ReadOnlyRootFilesystem = None, sc_AllowPrivilegeEscalation = None, sc_ProcMount = None,
     sc_SeccompProfile = None, sc_AppArmorProfile = None\<rparr>"

record ContainerPort =
  cp_Name :: string
  cp_ContainerPort :: int
  cp_Protocol :: string

text \<open>A lifecycle handler that runs a command, or another kind of handler.\<close>

datatype LifecycleHandler = ExecHandler "string list" | OtherHandler opaque

record Lifecycle =
  lc_PostStart :: "LifecycleHandler option"
  lc_PreStop :: "LifecycleHandler option"
  lc_StopSignal :: "string option"

definition empty_lifecycle :: Lifecycle where
  "empty_lifecycle = \<lparr>lc_PostStart = None, lc_PreStop = None, lc_StopSignal = None\<rparr>"

record 'q Container =
  c_Name :: string
  c_Image :: string
  c_Command :: "string list option"
  c_Args :: "string list option"
  c_WorkingDir :: string
  c_Ports :: "ContainerPort list option"
  c_EnvFrom :: "EnvFromSource list"
  c_Env :: "EnvVar list option"
  c_Resources :: "'q ResourceRequirements"
  c_ResizePolicy :: "opaque list"
  c_RestartPolicy :: "string option"
  c_RestartPolicyRules :: "opaque list"
  c_VolumeMounts :: "VolumeMount list"
  c_VolumeDevices :: "VolumeDevice list"
  c_LivenessProbe :: "Probe option"
  c_ReadinessProbe :: "Probe option"
  c_StartupProbe :: "Probe option"
  c_Lifecycle :: "Lifecycle option"
  c_TerminationMessagePath :: string
  c_TerminationMessagePolicy :: string
  c_ImagePullPolicy :: string
  c_SecurityContext :: "SecurityContext option"
  c_Stdin :: bool
  c_StdinOnce :: bool
  c_TTY :: bool

text \<open>The zero value of \<^verbatim>\<open>corev1.Container\<close>.\<close>

definition empty_container :: "'q Container" where
  "empty_container = \<lparr>c_Name = [], c_Image = [], c_Command = None, c_Args = None, c_WorkingDir = [],
     c_Ports = None, c_EnvFrom = [], c_Env = None, c_Resources = no_resources, c_ResizePolicy = [],
     c_RestartPolicy = None, c_RestartPolicyRules = [], c_VolumeMounts = [], c_VolumeDevices = [],
     c_LivenessProbe = None, c_ReadinessProbe = None, c_StartupProbe = None, c_Lifecycle = None,
     c_TerminationMessagePath = [], c_TerminationMessagePolicy = [], c_ImagePullPolicy = [],
     c_SecurityContext = None, c_Stdin = False, c_StdinOnce = False, c_TTY = False\<rparr>"

record PodSecurityContext =
  psc_SELinuxOptions :: "opaque option"
  psc_RunAsUser :: "int option"
  psc_RunAsGroup :: "int option"
  psc_RunAsNonRoot :: "bool option"
  psc_SupplementalGroups :: "int list"
  psc_SupplementalGroupsPolicy :: "string option"
  psc_FSGroup :: "int option"
  psc_Sysctls :: "(string \<times> string) list"  \<comment> \<open>name and value\<close>
  psc_FSGroupChangePolicy :: "string option"
  psc_SeccompProfile :: "opaque option"
  psc_AppArmorProfile :: "opaque option"
  psc_SELinuxChangePolicy :: "string option"

definition no_pod_security_context :: PodSecurityContext where
  "no_pod_security_context = \<lparr>psc_SELinuxOptions = None, psc_RunAsUser = None, psc_RunAsGroup = None,
     psc_RunAsNonRoot = None, psc_SupplementalGroups = [], psc_SupplementalGroupsPolicy = None,
     psc_FSGroup = None, psc_Sysctls = [], psc_FSGroupChangePolicy = None, psc_SeccompProfile = None,
     psc_AppArmorProfile = None, psc_SELinuxChangePolicy = None\<rparr>"

text \<open>
  \<^verbatim>\<open>corev1.VolumeSource\<close> is a struct with one pointer per kind of volume; here it is the
  function that gives the pointer of each kind.
\<close>

datatype VolumeKind = HostPath | EmptyDir | Secret | ConfigMap | PersistentVolumeClaim | Projected
  | DownwardAPI | CSI | Ephemeral | NFS | FC | ImageVolume | ISCSI | GCEPersistentDisk
  | AWSElasticBlockStore | GitRepo | Glusterfs | RBD | FlexVolume | Cinder | CephFS | Flocker
  | AzureFile | VsphereVolume | Quobyte | AzureDisk | PhotonPersistentDisk | PortworxVolume
  | ScaleIO | StorageOS

instantiation VolumeKind :: enum
begin

definition enum_VolumeKind :: "VolumeKind list" where
  "enum_VolumeKind = [HostPath, EmptyDir, Secret, ConfigMap, PersistentVolumeClaim, Projected, DownwardAPI, CSI, Ephemeral, NFS, FC,
     ImageVolume, ISCSI, GCEPersistentDisk, AWSElasticBlockStore, GitRepo, Glusterfs, RBD, FlexVolume, Cinder, CephFS, Flocker,
     AzureFile, VsphereVolume, Quobyte, AzureDisk, PhotonPersistentDisk, PortworxVolume, ScaleIO, StorageOS]"

definition enum_all_VolumeKind :: "(VolumeKind \<Rightarrow> bool) \<Rightarrow> bool" where
  "enum_all_VolumeKind P \<longleftrightarrow> list_all P enum_class.enum"

definition enum_ex_VolumeKind :: "(VolumeKind \<Rightarrow> bool) \<Rightarrow> bool" where
  "enum_ex_VolumeKind P \<longleftrightarrow> list_ex P enum_class.enum"

instance
proof
  have "k \<in> set enum_class.enum" for k :: VolumeKind
    by (cases k) (simp_all add: enum_VolumeKind_def)
  then show UNIV: "UNIV = set (enum_class.enum :: VolumeKind list)" by blast
  show "distinct (enum_class.enum :: VolumeKind list)" by (simp add: enum_VolumeKind_def)
  show "enum_class.enum_all P \<longleftrightarrow> Ball UNIV P" for P :: "VolumeKind \<Rightarrow> bool"
    unfolding enum_all_VolumeKind_def list_all_iff UNIV ..
  show "enum_class.enum_ex P \<longleftrightarrow> Bex UNIV P" for P :: "VolumeKind \<Rightarrow> bool"
    unfolding enum_ex_VolumeKind_def list_ex_iff UNIV ..
qed

end

record KeyToPath =
  ktp_Key :: string
  ktp_Path :: string
  ktp_Mode :: "int option"

text \<open>A projected source: a secret or a config map with the name and the items, or a service account token with audience, expiration and path.\<close>

datatype VolumeProjection =
    SecretProjection string "KeyToPath list"
  | ConfigMapProjection string "KeyToPath list"
  | TokenProjection string int string

text \<open>
  The volume sources that the operator makes or reads: an empty directory with its size limit, a claim with its name and whether it is
  read-only, a secret and a config map with name, items and default mode (and whether the config map is optional), and a projection of several of these.
\<close>

datatype 'q VolumeData =
    EmptyDirData "'q option"
  | ClaimData string bool
  | SecretData string "KeyToPath list" "int option"
  | ConfigMapData string "KeyToPath list" "int option" "bool option"
  | ProjectedData "VolumeProjection list" "int option"
  | OtherData opaque

record 'q Volume =
  v_Name :: string
  v_Source :: "VolumeKind \<Rightarrow> 'q VolumeData option"

definition volume_of :: "string \<Rightarrow> VolumeKind \<Rightarrow> 'q VolumeData \<Rightarrow> 'q Volume" where
  "volume_of name kind source = \<lparr>v_Name = name, v_Source = (\<lambda>_. None)(kind := Some source)\<rparr>"

lemma volume_of_simps [simp]:
  "v_Name (volume_of n k d) = n" "v_Source (volume_of n k d) k' = (if k' = k then Some d else None)"
  by (simp_all add: volume_of_def)

record PodResourceClaim =
  prc_Name :: string
  prc_ResourceClaimName :: "string option"
  prc_ResourceClaimTemplateName :: "string option"

record 'q PodSpec =
  p_Volumes :: "'q Volume list option"
  p_InitContainers :: "'q Container list option"
  p_Containers :: "'q Container list option"
  p_EphemeralContainers :: "opaque list"
  p_RestartPolicy :: string
  p_TerminationGracePeriodSeconds :: "int option"
  p_ActiveDeadlineSeconds :: "int option"
  p_DNSPolicy :: string
  p_NodeSelector :: "(string \<times> string) list"
  p_ServiceAccountName :: string
  p_DeprecatedServiceAccount :: string
  p_AutomountServiceAccountToken :: "bool option"
  p_NodeName :: string
  p_HostNetwork :: bool
  p_HostPID :: bool
  p_HostIPC :: bool
  p_ShareProcessNamespace :: "bool option"
  p_SecurityContext :: "PodSecurityContext option"
  p_ImagePullSecrets :: "string list"
  p_Hostname :: string
  p_Subdomain :: string
  p_Affinity :: "opaque option"
  p_SchedulerName :: string
  p_Tolerations :: "opaque list"
  p_HostAliases :: "opaque list"
  p_PriorityClassName :: string
  p_Priority :: "int option"
  p_DNSConfig :: "opaque option"
  p_ReadinessGates :: "opaque list"
  p_RuntimeClassName :: "string option"
  p_EnableServiceLinks :: "bool option"
  p_PreemptionPolicy :: "string option"
  p_Overhead :: "(string, 'q) gomap"
  p_TopologySpreadConstraints :: "opaque list"
  p_SetHostnameAsFQDN :: "bool option"
  p_OS :: "opaque option"
  p_HostUsers :: "bool option"
  p_SchedulingGates :: "opaque list"
  p_ResourceClaims :: "PodResourceClaim list"
  p_Resources :: "'q ResourceRequirements option"
  p_HostnameOverride :: "string option"
  p_SchedulingGroup :: "opaque option"

text \<open>The zero value of \<^verbatim>\<open>corev1.PodSpec\<close>.\<close>

definition empty_pod_spec :: "'q PodSpec" where
  "empty_pod_spec = \<lparr>p_Volumes = None, p_InitContainers = None, p_Containers = None,
     p_EphemeralContainers = [], p_RestartPolicy = [], p_TerminationGracePeriodSeconds = None,
     p_ActiveDeadlineSeconds = None, p_DNSPolicy = [], p_NodeSelector = [], p_ServiceAccountName = [],
     p_DeprecatedServiceAccount = [], p_AutomountServiceAccountToken = None, p_NodeName = [],
     p_HostNetwork = False, p_HostPID = False, p_HostIPC = False, p_ShareProcessNamespace = None,
     p_SecurityContext = None, p_ImagePullSecrets = [], p_Hostname = [], p_Subdomain = [],
     p_Affinity = None, p_SchedulerName = [], p_Tolerations = [], p_HostAliases = [],
     p_PriorityClassName = [], p_Priority = None, p_DNSConfig = None, p_ReadinessGates = [],
     p_RuntimeClassName = None, p_EnableServiceLinks = None, p_PreemptionPolicy = None,
     p_Overhead = None, p_TopologySpreadConstraints = [], p_SetHostnameAsFQDN = None, p_OS = None,
     p_HostUsers = None, p_SchedulingGates = [], p_ResourceClaims = [], p_Resources = None,
     p_HostnameOverride = None, p_SchedulingGroup = None\<rparr>"

text \<open>A pod template with the metadata that the operator sets, and a deployment without its metadata.\<close>

record 'q PodTemplateSpec =
  pt_Name :: string
  pt_Namespace :: string
  pt_Labels :: "(string, string) gomap"
  pt_Annotations :: "(string, string) gomap"
  pt_Metadata :: opaque  \<comment> \<open>the other fields\<close>
  pt_Spec :: "'q PodSpec"

record DeploymentCondition =
  dc_Reason :: string
  dc_Message :: string

record 'q Deployment =
  d_Generation :: int
  d_Replicas :: "int option"
  d_Selector :: "(string, string) gomap"
  d_StrategyType :: string
  d_RollingUpdate :: "(int \<times> int) option"  \<comment> \<open>maximum of unavailable and of surplus pods\<close>
  d_ProgressDeadlineSeconds :: "int option"
  d_Template :: "'q PodTemplateSpec"
  d_ObservedGeneration :: int
  d_ReadyReplicas :: int
  d_UpdatedReplicas :: int
  d_AvailableReplicas :: int
  d_Conditions :: "DeploymentCondition list"

definition empty_template :: "'q PodTemplateSpec" where
  "empty_template = \<lparr>pt_Name = [], pt_Namespace = [], pt_Labels = None, pt_Annotations = None, pt_Metadata = Opaque [], pt_Spec = empty_pod_spec\<rparr>"

definition empty_deployment :: "'q Deployment" where
  "empty_deployment = \<lparr>d_Generation = 0, d_Replicas = None, d_Selector = None, d_StrategyType = [], d_RollingUpdate = None,
     d_ProgressDeadlineSeconds = None, d_Template = empty_template, d_ObservedGeneration = 0, d_ReadyReplicas = 0, d_UpdatedReplicas = 0,
     d_AvailableReplicas = 0, d_Conditions = []\<rparr>"

text \<open>\<^verbatim>\<open>PodAdditions\<close> of the operator's API: what a component contributes to the pod of a workspace.\<close>

record 'q PodAdditions =
  pa_Annotations :: "(string, string) gomap"
  pa_Labels :: "(string, string) gomap"
  pa_Containers :: "'q Container list"
  pa_InitContainers :: "'q Container list"
  pa_Volumes :: "'q Volume list"
  pa_VolumeMounts :: "VolumeMount list"
  pa_PullSecrets :: "string list"
  pa_ServiceAccountAnnotations :: "(string, string) gomap"

definition empty_pod_additions :: "'q PodAdditions" where
  "empty_pod_additions = \<lparr>pa_Annotations = None, pa_Labels = None, pa_Containers = [], pa_InitContainers = [], pa_Volumes = [],
     pa_VolumeMounts = [], pa_PullSecrets = [], pa_ServiceAccountAnnotations = None\<rparr>"

end
