(* ===== verification/Devfile.thy ===== *)
theory Devfile
  imports K8s_Types
begin

text \<open>
  The fields of the devfile API structs (\<^verbatim>\<open>github.com/devfile/api/v2\<close>) that the operator
  reads or writes. Attributes are a map from keys to raw JSON text, here an association list.
\<close>

type_synonym attributes = "(string \<times> string) list"

abbreviation attr_exists :: "attributes \<Rightarrow> string \<Rightarrow> bool" where
  "attr_exists as k \<equiv> map_of as k \<noteq> None"

record DwEnvVar =
  dev_Name :: string
  dev_Value :: string

record DwVolumeMount =
  dvm_Name :: string
  dvm_Path :: string

record Endpoint =
  ep_Name :: string
  ep_TargetPort :: int
  ep_Exposure :: string
  ep_Protocol :: string
  ep_Secure :: "bool option"
  ep_Path :: string
  ep_Attributes :: attributes
  ep_Annotations :: "(string, string) gomap"

record ContainerComponent =
  cc_Image :: string
  cc_Env :: "DwEnvVar list"
  cc_VolumeMounts :: "DwVolumeMount list"
  cc_MemoryLimit :: string
  cc_MemoryRequest :: string
  cc_CpuLimit :: string
  cc_CpuRequest :: string
  cc_Command :: "string list option"
  cc_Args :: "string list option"
  cc_MountSources :: "bool option"
  cc_SourceMapping :: string
  cc_Endpoints :: "Endpoint list"
  cc_DeploymentAnnotations :: "(string, string) gomap"  \<comment> \<open>\<^verbatim>\<open>Annotation.Deployment\<close>, nil without annotations\<close>

record VolumeComponent =
  vc_Size :: string
  vc_Ephemeral :: "bool option"

record K8sLikeComponent =
  k8_Uri :: string
  k8_Inlined :: string
  k8_DeployByDefault :: bool

text \<open>
  A reference to another devfile or template: by URI, by an ID in a registry or by an object of the cluster. A plugin and the parent
  may override parts of what they import; the operator passes the overrides on and tests them for nil.
\<close>

record KubernetesReference =
  kir_Name :: string
  kir_Namespace :: string

record ImportReference =
  imp_ImportReferenceType :: string  \<comment> \<open>the discriminator of the union\<close>
  imp_Uri :: string
  imp_Id :: string
  imp_Kubernetes :: "KubernetesReference option"
  imp_RegistryUrl :: string
  imp_Version :: string

record ParentOverrides =
  ov_Components :: "opaque list option"
  ov_Commands :: "opaque list option"
  ov_Projects :: "opaque list option"
  ov_StarterProjects :: "opaque list option"
  ov_DependentProjects :: "opaque list option"
  ov_Attributes :: "opaque option"
  ov_Variables :: "opaque option"

record PluginComponent =
  pl_Import :: ImportReference
  pl_Components :: "opaque list option"
  pl_Commands :: "opaque list option"

record Parent =
  par_Import :: ImportReference
  par_Overrides :: ParentOverrides

text \<open>A component is one pointer per kind.\<close>

record DevfileComponent =
  comp_Name :: string
  comp_Attributes :: attributes
  comp_Container :: "ContainerComponent option"
  comp_Plugin :: "PluginComponent option"
  comp_Volume :: "VolumeComponent option"
  comp_Kubernetes :: "K8sLikeComponent option"
  comp_Openshift :: "K8sLikeComponent option"

record ExecCommand =
  ex_CommandLine :: string
  ex_Component :: string
  ex_WorkingDir :: string
  ex_Env :: "DwEnvVar list"

record ApplyCommand =
  ap_Component :: string

record Command =
  cmd_Id :: string
  cmd_Exec :: "ExecCommand option"
  cmd_Apply :: "ApplyCommand option"
  cmd_Composite :: "opaque option"
  cmd_Custom :: "opaque option"
  cmd_Attributes :: attributes

text \<open>\<^verbatim>\<open>dw.CommandType\<close>, the discriminator that \<^verbatim>\<open>Command.Normalize\<close> fills in.\<close>

datatype CommandType = ExecCommandType | ApplyCommandType | CompositeCommandType | CustomCommandType

record Events =
  events_PreStart :: "string list"
  events_PostStart :: "string list"
  events_PreStop :: "string list"
  events_PostStop :: "string list"

record CheckoutFrom =
  co_Revision :: string
  co_Remote :: string

record GitProjectSource =
  gs_Remotes :: "(string, string) gomap"
  gs_CheckoutFrom :: "CheckoutFrom option"

record ZipProjectSource =
  zs_Location :: string

record Project =
  prj_Name :: string
  prj_ClonePath :: string
  prj_Attributes :: attributes
  prj_Git :: "GitProjectSource option"
  prj_Zip :: "ZipProjectSource option"

record StarterProject =
  sp_Name :: string
  sp_Attributes :: attributes
  sp_SubDir :: string
  sp_Git :: "GitProjectSource option"
  sp_Zip :: "ZipProjectSource option"

record DevWorkspaceTemplateSpec =
  ts_Parent :: "Parent option"
  ts_Attributes :: attributes
  ts_Components :: "DevfileComponent list"
  ts_Commands :: "Command list option"
  ts_Events :: "Events option"
  ts_Projects :: "Project list"
  ts_StarterProjects :: "StarterProject list"
  ts_DependentProjects :: "Project list"
  ts_Variables :: "(string, string) gomap"

abbreviation ts_commands :: "DevWorkspaceTemplateSpec \<Rightarrow> Command list" where
  "ts_commands w \<equiv> case_option [] (\<lambda>cs. cs) (ts_Commands w)"

end
