(* ===== verification/Config_Types.thy ===== *)
theory Config_Types
  imports Devfile
begin

text \<open>
  \<^verbatim>\<open>src/apis/controller/v1alpha1/devworkspaceoperatorconfig_types.go\<close>: the operator's
  configuration, and \<^verbatim>\<open>src/pkg/config/defaults.go\<close>: its default value. A pointer field is an
  \<open>option\<close>, a slice field whose nil-ness the merge tests is a \<open>list option\<close>.
\<close>

record Proxy =
  px_HttpProxy :: "string option"
  px_HttpsProxy :: "string option"
  px_NoProxy :: "string option"

record ConfigmapReference =
  cmr_Name :: string
  cmr_Namespace :: string

record RoutingConfig =
  DefaultRoutingClass :: string
  ClusterHostSuffix :: string
  ProxyConfig :: "Proxy option"
  TLSCertificateConfigmapRef :: "ConfigmapReference option"

record WebhookConfig =
  NodeSelector :: "(string, string) gomap"
  Tolerations :: "opaque list option"
  Replicas :: "int option"

record ServiceAccountToken =
  sat_Name :: string
  sat_MountPath :: string
  sat_Path :: string
  sat_Audience :: string
  sat_ExpirationSeconds :: int

record ServiceAccountConfig =
  ServiceAccountName :: string
  DisableCreation :: "bool option"
  ServiceAccountTokens :: "ServiceAccountToken list option"

record 'q StorageSizes =
  ss_Common :: "'q option"
  ss_PerWorkspace :: "'q option"

record PersistentHomeConfig =
  ph_Enabled :: "bool option"
  ph_DisableInitContainer :: "bool option"

record 'q ProjectCloneConfig =
  pcc_Image :: string
  pcc_ImagePullPolicy :: string
  pcc_Resources :: "'q ResourceRequirements option"
  pcc_Env :: "EnvVar list option"

record 'q RestoreConfig =
  rc_ImagePullPolicy :: string
  rc_Resources :: "'q ResourceRequirements option"
  rc_Env :: "EnvVar list option"

record CleanupCronJobConfig =
  cj_Enable :: "bool option"
  cj_RetainTime :: "int option"
  cj_DryRun :: "bool option"
  cj_Schedule :: string

record RegistryConfig =
  reg_Path :: string
  reg_AuthSecret :: string

record OrasConfig =
  oras_ExtraArgs :: string

record BackupCronJobConfig =
  bj_Enable :: "bool option"
  bj_Registry :: "RegistryConfig option"
  bj_OrasConfig :: "OrasConfig option"
  bj_Schedule :: string
  bj_BackoffLimit :: "int option"

record OverrideConfig =
  RestrictedContainerOverrideFields :: "string list option"
  RestrictedPodOverrideFields :: "string list option"

record 'q WorkspaceConfig =
  wc_ProjectCloneConfig :: "'q ProjectCloneConfig option"
  wc_RestoreConfig :: "'q RestoreConfig option"
  wc_ImagePullPolicy :: string
  wc_DeploymentStrategy :: string
  wc_PVCName :: string
  wc_ServiceAccount :: "ServiceAccountConfig option"
  wc_StorageClassName :: "string option"
  wc_DefaultStorageSize :: "'q StorageSizes option"
  wc_StorageAccessMode :: "string list option"
  wc_PersistUserHome :: "PersistentHomeConfig option"
  wc_IdleTimeout :: string
  wc_ProgressTimeout :: string
  wc_IgnoredUnrecoverableEvents :: "string list option"
  wc_CleanupOnStop :: "bool option"
  wc_PodSecurityContext :: "PodSecurityContext option"
  wc_ContainerSecurityContext :: "SecurityContext option"
  wc_DefaultTemplate :: "DevWorkspaceTemplateSpec option"
  wc_SchedulerName :: string
  wc_DefaultContainerResources :: "'q ResourceRequirements option"
  wc_ContainerResourceCaps :: "'q ResourceRequirements option"
  wc_PodAnnotations :: "(string, string) gomap"
  wc_RuntimeClassName :: "string option"
  wc_CleanupCronJob :: "CleanupCronJobConfig option"
  wc_BackupCronJob :: "BackupCronJobConfig option"
  wc_PostStartTimeout :: string
  wc_HostUsers :: "bool option"
  wc_InitContainers :: "'q Container list option"
  wc_Overrides :: "OverrideConfig option"

record 'q OperatorConfiguration =
  oc_Routing :: "RoutingConfig option"
  oc_Workspace :: "'q WorkspaceConfig option"
  oc_Webhook :: "WebhookConfig option"
  oc_EnableExperimentalFeatures :: "bool option"

record 'q DevWorkspaceOperatorConfig =
  dwoc_Name :: string
  dwoc_Namespace :: string
  dwoc_Config :: "'q OperatorConfiguration option"

section \<open>Zero values\<close>

definition zero_RoutingConfig :: RoutingConfig where
  "zero_RoutingConfig = \<lparr>DefaultRoutingClass = [], ClusterHostSuffix = [], ProxyConfig = None,
     TLSCertificateConfigmapRef = None\<rparr>"

definition zero_WebhookConfig :: WebhookConfig where
  "zero_WebhookConfig = \<lparr>NodeSelector = None, Tolerations = None, Replicas = None\<rparr>"

definition zero_ServiceAccountConfig :: ServiceAccountConfig where
  "zero_ServiceAccountConfig = \<lparr>ServiceAccountName = [], DisableCreation = None, ServiceAccountTokens = None\<rparr>"

definition zero_WorkspaceConfig :: "'q WorkspaceConfig" where
  "zero_WorkspaceConfig = \<lparr>wc_ProjectCloneConfig = None, wc_RestoreConfig = None, wc_ImagePullPolicy = [],
     wc_DeploymentStrategy = [], wc_PVCName = [], wc_ServiceAccount = None, wc_StorageClassName = None,
     wc_DefaultStorageSize = None, wc_StorageAccessMode = None, wc_PersistUserHome = None,
     wc_IdleTimeout = [], wc_ProgressTimeout = [], wc_IgnoredUnrecoverableEvents = None,
     wc_CleanupOnStop = None, wc_PodSecurityContext = None, wc_ContainerSecurityContext = None,
     wc_DefaultTemplate = None, wc_SchedulerName = [], wc_DefaultContainerResources = None,
     wc_ContainerResourceCaps = None, wc_PodAnnotations = None, wc_RuntimeClassName = None,
     wc_CleanupCronJob = None, wc_BackupCronJob = None, wc_PostStartTimeout = [], wc_HostUsers = None,
     wc_InitContainers = None, wc_Overrides = None\<rparr>"

definition zero_OperatorConfiguration :: "'q OperatorConfiguration" where
  "zero_OperatorConfiguration = \<lparr>oc_Routing = None, oc_Workspace = None, oc_Webhook = None,
     oc_EnableExperimentalFeatures = None\<rparr>"

section \<open>Defaults\<close>

text \<open>
  The quantities of the defaults, by the text they are parsed from: \<open>mustParse\<close> stands for
  \<^verbatim>\<open>resource.MustParse\<close>.
\<close>

definition defaultConfig :: "(string \<Rightarrow> 'q) \<Rightarrow> 'q OperatorConfiguration" where
  "defaultConfig mustParse = \<lparr>
     oc_Routing = Some \<lparr>DefaultRoutingClass = ''basic'', ClusterHostSuffix = [], ProxyConfig = None,
                        TLSCertificateConfigmapRef = None\<rparr>,
     oc_Workspace = Some (zero_WorkspaceConfig\<lparr>
       wc_ImagePullPolicy := ''Always'',
       wc_DeploymentStrategy := ''Recreate'',
       wc_PVCName := ''claim-devworkspace'',
       wc_ServiceAccount := Some (zero_ServiceAccountConfig\<lparr>DisableCreation := Some False\<rparr>),
       wc_DefaultStorageSize := Some \<lparr>ss_Common = Some (mustParse ''10Gi''), ss_PerWorkspace = Some (mustParse ''10Gi'')\<rparr>,
       wc_PersistUserHome := Some \<lparr>ph_Enabled = Some False, ph_DisableInitContainer = Some False\<rparr>,
       wc_IdleTimeout := ''15m'',
       wc_ProgressTimeout := ''5m'',
       wc_CleanupOnStop := Some False,
       wc_ProjectCloneConfig := Some \<lparr>pcc_Image = [], pcc_ImagePullPolicy = [],
         pcc_Resources = Some \<lparr>
           rr_Limits = Some [(ResourceMemory, mustParse ''1Gi''), (ResourceCPU, mustParse ''1000m'')],
           rr_Requests = Some [(ResourceMemory, mustParse ''128Mi''), (ResourceCPU, mustParse ''100m'')],
           rr_Claims = []\<rparr>,
         pcc_Env = None\<rparr>,
       wc_RestoreConfig := Some \<lparr>rc_ImagePullPolicy = [],
         rc_Resources = Some \<lparr>
           rr_Limits = Some [(ResourceMemory, mustParse ''1Gi''), (ResourceCPU, mustParse ''500m'')],
           rr_Requests = Some [(ResourceMemory, mustParse ''128Mi''), (ResourceCPU, mustParse ''100m'')],
           rr_Claims = []\<rparr>,
         rc_Env = None\<rparr>,
       wc_DefaultContainerResources := Some \<lparr>
         rr_Limits = Some [(ResourceMemory, mustParse ''256Mi'')],
         rr_Requests = Some [(ResourceMemory, mustParse ''128Mi'')],
         rr_Claims = []\<rparr>,
       wc_CleanupCronJob := Some \<lparr>cj_Enable = Some False, cj_RetainTime = Some 2592000,
         cj_DryRun = Some False, cj_Schedule = ''0 0 1 * *''\<rparr>,
       wc_BackupCronJob := Some \<lparr>bj_Enable = Some False, bj_Registry = None, bj_OrasConfig = None,
         bj_Schedule = ''0 0 1 * *'', bj_BackoffLimit = Some 1\<rparr>\<rparr>),
     oc_Webhook = Some (zero_WebhookConfig\<lparr>Replicas := Some 2\<rparr>),
     oc_EnableExperimentalFeatures = None\<rparr>"

definition defaultKubernetesPodSecurityContext :: PodSecurityContext where
  "defaultKubernetesPodSecurityContext = no_pod_security_context\<lparr>psc_RunAsUser := Some 1234,
     psc_RunAsGroup := Some 0, psc_RunAsNonRoot := Some True, psc_FSGroup := Some 1234\<rparr>"

definition defaultKubernetesContainerSecurityContext :: SecurityContext where
  "defaultKubernetesContainerSecurityContext = no_security_context"

definition defaultOpenShiftPodSecurityContext :: PodSecurityContext where
  "defaultOpenShiftPodSecurityContext = no_pod_security_context"

definition defaultOpenShiftContainerSecurityContext :: SecurityContext where
  "defaultOpenShiftContainerSecurityContext = no_security_context\<lparr>sc_ReadOnlyRootFilesystem := Some False,
     sc_RunAsNonRoot := Some True, sc_AllowPrivilegeEscalation := Some False,
     sc_Capabilities := Some \<lparr>cap_Add = [], cap_Drop = [''ALL'']\<rparr>\<rparr>"

definition defaultOpenShiftOverrideConfig :: OverrideConfig where
  "defaultOpenShiftOverrideConfig =
     \<lparr>RestrictedContainerOverrideFields = Some [], RestrictedPodOverrideFields = Some []\<rparr>"

definition defaultKubernetesOverrideConfig :: OverrideConfig where
  "defaultKubernetesOverrideConfig = \<lparr>
     RestrictedContainerOverrideFields = Some [
       ''securityContext.privileged=true'',
       ''securityContext.runAsNonRoot=false'',
       ''securityContext.runAsUser=0'',
       ''securityContext.allowPrivilegeEscalation=true'',
       ''securityContext.procMount=Unmasked'',
       ''securityContext.capabilities.add''],
     RestrictedPodOverrideFields = Some [
       ''hostNetwork=true'',
       ''hostPID=true'',
       ''hostIPC=true'',
       ''securityContext.runAsNonRoot=false'',
       ''securityContext.runAsUser=0'',
       ''volumes.hostPath'']\<rparr>"

text \<open>
  The three setters change \<^verbatim>\<open>defaultConfig.Workspace\<close> in place by platform. They fail where
  the platform has not been detected; a nil \<^verbatim>\<open>Workspace\<close> would panic, and the default is never
  nil.
\<close>

datatype platform = Undetected | Kubernetes | OpenShift

definition with_workspace ::
  "('q WorkspaceConfig \<Rightarrow> 'q WorkspaceConfig) \<Rightarrow> 'q OperatorConfiguration \<Rightarrow> 'q OperatorConfiguration" where
  "with_workspace f c = c\<lparr>oc_Workspace := map_option f (oc_Workspace c)\<rparr>"

definition setDefaultPodSecurityContext ::
  "platform \<Rightarrow> 'q OperatorConfiguration \<Rightarrow> err + 'q OperatorConfiguration" where
  "setDefaultPodSecurityContext pf d =
     (if pf = Undetected then Inl ''can not set default pod security context, infrastructure not detected''
      else if pf = OpenShift
      then Inr (with_workspace (\<lambda>w. w\<lparr>wc_PodSecurityContext := Some defaultOpenShiftPodSecurityContext\<rparr>) d)
      else Inr (with_workspace (\<lambda>w. w\<lparr>wc_PodSecurityContext := Some defaultKubernetesPodSecurityContext\<rparr>) d))"

definition setDefaultContainerSecurityContext ::
  "platform \<Rightarrow> 'q OperatorConfiguration \<Rightarrow> err + 'q OperatorConfiguration" where
  "setDefaultContainerSecurityContext pf d =
     (if pf = Undetected then Inl ''can not set default container security context, infrastructure not detected''
      else if pf = OpenShift
      then Inr (with_workspace (\<lambda>w. w\<lparr>wc_ContainerSecurityContext := Some defaultOpenShiftContainerSecurityContext\<rparr>) d)
      else Inr (with_workspace (\<lambda>w. w\<lparr>wc_ContainerSecurityContext := Some defaultKubernetesContainerSecurityContext\<rparr>) d))"

definition setDefaultOverrideConfig ::
  "platform \<Rightarrow> 'q OperatorConfiguration \<Rightarrow> err + 'q OperatorConfiguration" where
  "setDefaultOverrideConfig pf d =
     (if pf = Undetected then Inl ''can not set default override config, infrastructure not detected''
      else if pf = OpenShift
      then Inr (with_workspace (\<lambda>w. w\<lparr>wc_Overrides := Some defaultOpenShiftOverrideConfig\<rparr>) d)
      else Inr (with_workspace (\<lambda>w. w\<lparr>wc_Overrides := Some defaultKubernetesOverrideConfig\<rparr>) d))"

end
