(* ===== verification/Config_Merge.thy ===== *)
theory Config_Merge
  imports Config_Types
begin

text \<open>
  Merging configurations: \<^verbatim>\<open>MergeProxyConfigs\<close> and \<^verbatim>\<open>GetClusterProxyConfig\<close> of
  \<^verbatim>\<open>src/pkg/config/proxy/openshift.go\<close> and \<^verbatim>\<open>mergeConfig\<close> of
  \<^verbatim>\<open>src/pkg/config/sync.go\<close>. The JSON round trip through
  \<^verbatim>\<open>strategicpatch.StrategicMergePatch\<close> that merges security contexts is a parameter.
\<close>

named_theorems merge_defs \<open>definitions of the merge functions\<close>

section \<open>Proxy configuration\<close>

definition removeEmptyStrings :: "Proxy option \<Rightarrow> Proxy option" where
  "removeEmptyStrings proxyConfig =
     (case proxyConfig of None \<Rightarrow> None | Some p \<Rightarrow>
        Some \<lparr>px_HttpProxy = (if px_HttpProxy p \<noteq> None \<and> px_HttpProxy p \<noteq> Some [] then px_HttpProxy p else None),
              px_HttpsProxy = (if px_HttpsProxy p \<noteq> None \<and> px_HttpsProxy p \<noteq> Some [] then px_HttpsProxy p else None),
              px_NoProxy = (if px_NoProxy p \<noteq> None \<and> px_NoProxy p \<noteq> Some [] then px_NoProxy p else None)\<rparr>)"

definition MergeProxyConfigs :: "Proxy option \<Rightarrow> Proxy option \<Rightarrow> Proxy option" where
  "MergeProxyConfigs operatorConfig clusterConfig =
     (case clusterConfig of None \<Rightarrow> removeEmptyStrings operatorConfig | Some c \<Rightarrow>
      (case operatorConfig of None \<Rightarrow> removeEmptyStrings clusterConfig | Some p \<Rightarrow>
         removeEmptyStrings (Some \<lparr>
           px_HttpProxy = (if px_HttpProxy p = None then px_HttpProxy c else px_HttpProxy p),
           px_HttpsProxy = (if px_HttpsProxy p = None then px_HttpsProxy c else px_HttpsProxy p),
           px_NoProxy =
             (case px_NoProxy p of None \<Rightarrow> px_NoProxy c
              | Some np \<Rightarrow>
                  if np \<noteq> [] then
                    (case px_NoProxy c of Some cnp \<Rightarrow> Some (cnp @ '','' @ np) | None \<Rightarrow> px_NoProxy p)
                  else px_NoProxy p)\<rparr>)))"

text \<open>
  The cluster's proxy object, read on OpenShift only: \<open>Inl\<close> an error of the client, \<open>Inr None\<close> not
  found, else the three fields of its status.
\<close>

definition GetClusterProxyConfig ::
  "bool \<Rightarrow> err + (string \<times> string \<times> string) option \<Rightarrow> err + Proxy option" where
  "GetClusterProxyConfig isOpenShift got =
     (if \<not> isOpenShift then Inr None
      else case got of
        Inl e \<Rightarrow> Inl e
      | Inr None \<Rightarrow> Inr None
      | Inr (Some (http, https, noProxy)) \<Rightarrow>
          if http = [] \<and> https = [] \<and> noProxy = [] then Inr None
          else Inr (Some \<lparr>px_HttpProxy = Some http, px_HttpsProxy = Some https, px_NoProxy = Some noProxy\<rparr>))"

section \<open>Helpers of mergeConfig\<close>

text \<open>\<open>if from != nil { to = from }\<close> and \<open>if from != "" { to = from }\<close>.\<close>

definition set_opt :: "'a option \<Rightarrow> 'a option \<Rightarrow> 'a option" where
  "set_opt from to = (if from \<noteq> None then from else to)"

definition set_str :: "string \<Rightarrow> string \<Rightarrow> string" where
  "set_str from to = (if from \<noteq> [] then from else to)"

text \<open>
  \<open>if from != nil { if to == nil { to = &T{} }; ... }\<close>: merging a nested struct, with \<open>z\<close> the
  zero value of its type.
\<close>

definition merge_struct :: "'a \<Rightarrow> ('a \<Rightarrow> 'a \<Rightarrow> 'a) \<Rightarrow> 'a option \<Rightarrow> 'a option \<Rightarrow> 'a option" where
  "merge_struct z f from to =
     (case from of None \<Rightarrow> to
      | Some x \<Rightarrow> Some (f x (case to of None \<Rightarrow> z | Some y \<Rightarrow> y)))"

definition merge_rlist :: "(string, 'q) gomap \<Rightarrow> (string, 'q) gomap \<Rightarrow> (string, 'q) gomap" where
  "merge_rlist from to =
     (case from of None \<Rightarrow> to | Some f \<Rightarrow>
        (let t0 = (case to of None \<Rightarrow> [] | Some t \<Rightarrow> t);
             t1 = (case map_of f ResourceCPU of Some cpu \<Rightarrow> AList.update ResourceCPU cpu t0 | None \<Rightarrow> t0);
             t2 = (case map_of f ResourceMemory of Some memory \<Rightarrow> AList.update ResourceMemory memory t1 | None \<Rightarrow> t1)
         in Some t2))"

definition mergeResources ::
  "'q ResourceRequirements \<Rightarrow> 'q ResourceRequirements \<Rightarrow> 'q ResourceRequirements" where
  "mergeResources from to =
     to\<lparr>rr_Limits := merge_rlist (rr_Limits from) (rr_Limits to),
        rr_Requests := merge_rlist (rr_Requests from) (rr_Requests to)\<rparr>"

definition mergeTLSCertificateConfigmapRef ::
  "ConfigmapReference option \<Rightarrow> ConfigmapReference option \<Rightarrow> ConfigmapReference option" where
  "mergeTLSCertificateConfigmapRef operatorConfig clusterConfig =
     (case clusterConfig of None \<Rightarrow> operatorConfig | Some c \<Rightarrow>
      (case operatorConfig of None \<Rightarrow> clusterConfig | Some p \<Rightarrow>
         Some \<lparr>cmr_Name = (if cmr_Name p = [] then cmr_Name c else cmr_Name p),
               cmr_Namespace = (if cmr_Namespace p = [] then cmr_Namespace c else cmr_Namespace p)\<rparr>))"

text \<open>The JSON encoding, the strategic merge patch and the decoding of the two security contexts.\<close>

record k8s_json =
  marshalPSC :: "PodSecurityContext option \<Rightarrow> err + string"
  patchPSC :: "string \<Rightarrow> string \<Rightarrow> err + string"
  unmarshalPSC :: "string \<Rightarrow> err + PodSecurityContext"
  marshalSC :: "SecurityContext option \<Rightarrow> err + string"
  patchSC :: "string \<Rightarrow> string \<Rightarrow> err + string"
  unmarshalSC :: "string \<Rightarrow> err + SecurityContext"

definition patched_or_base ::
  "('a option \<Rightarrow> err + string) \<Rightarrow> (string \<Rightarrow> string \<Rightarrow> err + string) \<Rightarrow> (string \<Rightarrow> err + 'a) \<Rightarrow>
   'a option \<Rightarrow> 'a option \<Rightarrow> 'a option" where
  "patched_or_base marshal apply_patch unmarshal base patch =
     (case marshal base of Inl _ \<Rightarrow> base | Inr baseBytes \<Rightarrow>
      (case marshal patch of Inl _ \<Rightarrow> base | Inr patchBytes \<Rightarrow>
       (case apply_patch baseBytes patchBytes of Inl _ \<Rightarrow> base | Inr patchedBytes \<Rightarrow>
        (case unmarshal patchedBytes of Inl _ \<Rightarrow> base | Inr patched \<Rightarrow> Some patched))))"

definition mergePodSecurityContext ::
  "k8s_json \<Rightarrow> PodSecurityContext option \<Rightarrow> PodSecurityContext option \<Rightarrow> PodSecurityContext option" where
  "mergePodSecurityContext J base patch =
     patched_or_base (marshalPSC J) (patchPSC J) (unmarshalPSC J) base patch"

definition mergeContainerSecurityContext ::
  "k8s_json \<Rightarrow> SecurityContext option \<Rightarrow> SecurityContext option \<Rightarrow> SecurityContext option" where
  "mergeContainerSecurityContext J base patch =
     patched_or_base (marshalSC J) (patchSC J) (unmarshalSC J) base patch"

section \<open>mergeConfig\<close>

text \<open>One definition per nested struct that \<^verbatim>\<open>mergeConfig\<close> descends into.\<close>

definition merge_webhook :: "WebhookConfig \<Rightarrow> WebhookConfig \<Rightarrow> WebhookConfig" where
  "merge_webhook from to = to\<lparr>
     NodeSelector := set_opt (NodeSelector from) (NodeSelector to),
     Tolerations := set_opt (Tolerations from) (Tolerations to),
     Replicas := set_opt (Replicas from) (Replicas to)\<rparr>"

text \<open>\<open>dr\<close> is \<^verbatim>\<open>defaultConfig.Routing\<close>: proxy and certificate are merged with the default, not with
  \<open>to\<close>.\<close>

definition merge_routing :: "RoutingConfig \<Rightarrow> RoutingConfig \<Rightarrow> RoutingConfig \<Rightarrow> RoutingConfig" where
  "merge_routing dr from to = to\<lparr>
     DefaultRoutingClass := set_str (DefaultRoutingClass from) (DefaultRoutingClass to),
     ClusterHostSuffix := set_str (ClusterHostSuffix from) (ClusterHostSuffix to),
     ProxyConfig := (if ProxyConfig from \<noteq> None
                     then MergeProxyConfigs (ProxyConfig from) (ProxyConfig dr) else ProxyConfig to),
     TLSCertificateConfigmapRef :=
       (if TLSCertificateConfigmapRef from \<noteq> None
        then mergeTLSCertificateConfigmapRef (TLSCertificateConfigmapRef from) (TLSCertificateConfigmapRef dr)
        else TLSCertificateConfigmapRef to)\<rparr>"

definition merge_serviceaccount :: "ServiceAccountConfig \<Rightarrow> ServiceAccountConfig \<Rightarrow> ServiceAccountConfig" where
  "merge_serviceaccount from to = to\<lparr>
     ServiceAccountName := set_str (ServiceAccountName from) (ServiceAccountName to),
     DisableCreation := set_opt (DisableCreation from) (DisableCreation to),
     ServiceAccountTokens := set_opt (ServiceAccountTokens from) (ServiceAccountTokens to)\<rparr>"

definition merge_storagesize :: "'q StorageSizes \<Rightarrow> 'q StorageSizes \<Rightarrow> 'q StorageSizes" where
  "merge_storagesize from to = to\<lparr>
     ss_Common := set_opt (ss_Common from) (ss_Common to),
     ss_PerWorkspace := set_opt (ss_PerWorkspace from) (ss_PerWorkspace to)\<rparr>"

definition merge_userhome :: "PersistentHomeConfig \<Rightarrow> PersistentHomeConfig \<Rightarrow> PersistentHomeConfig" where
  "merge_userhome from to = to\<lparr>
     ph_Enabled := set_opt (ph_Enabled from) (ph_Enabled to),
     ph_DisableInitContainer := set_opt (ph_DisableInitContainer from) (ph_DisableInitContainer to)\<rparr>"

definition merge_projectclone :: "'q ProjectCloneConfig \<Rightarrow> 'q ProjectCloneConfig \<Rightarrow> 'q ProjectCloneConfig" where
  "merge_projectclone from to = to\<lparr>
     pcc_Image := set_str (pcc_Image from) (pcc_Image to),
     pcc_ImagePullPolicy := set_str (pcc_ImagePullPolicy from) (pcc_ImagePullPolicy to),
     pcc_Resources := merge_struct no_resources mergeResources (pcc_Resources from) (pcc_Resources to),
     pcc_Env := set_opt (pcc_Env from) (pcc_Env to)\<rparr>"

definition merge_restore :: "'q RestoreConfig \<Rightarrow> 'q RestoreConfig \<Rightarrow> 'q RestoreConfig" where
  "merge_restore from to = to\<lparr>
     rc_ImagePullPolicy := set_str (rc_ImagePullPolicy from) (rc_ImagePullPolicy to),
     rc_Resources := merge_struct no_resources mergeResources (rc_Resources from) (rc_Resources to),
     rc_Env := set_opt (rc_Env from) (rc_Env to)\<rparr>"

definition merge_podannotations :: "(string, string) gomap \<Rightarrow> (string, string) gomap \<Rightarrow> (string, string) gomap" where
  "merge_podannotations from to =
     (case from of None \<Rightarrow> to
      | Some kvs \<Rightarrow> Some (foldl (\<lambda>m (k, v). AList.update k v m) (case to of None \<Rightarrow> [] | Some m \<Rightarrow> m) kvs))"

definition merge_cleanup :: "CleanupCronJobConfig \<Rightarrow> CleanupCronJobConfig \<Rightarrow> CleanupCronJobConfig" where
  "merge_cleanup from to = to\<lparr>
     cj_Enable := set_opt (cj_Enable from) (cj_Enable to),
     cj_DryRun := set_opt (cj_DryRun from) (cj_DryRun to),
     cj_RetainTime := set_opt (cj_RetainTime from) (cj_RetainTime to),
     cj_Schedule := set_str (cj_Schedule from) (cj_Schedule to)\<rparr>"

definition merge_backup :: "BackupCronJobConfig \<Rightarrow> BackupCronJobConfig \<Rightarrow> BackupCronJobConfig" where
  "merge_backup from to = to\<lparr>
     bj_Enable := set_opt (bj_Enable from) (bj_Enable to),
     bj_Schedule := set_str (bj_Schedule from) (bj_Schedule to),
     bj_Registry := merge_struct \<lparr>reg_Path = [], reg_AuthSecret = []\<rparr>
       (\<lambda>f t. t\<lparr>reg_Path := set_str (reg_Path f) (reg_Path t),
                reg_AuthSecret := set_str (reg_AuthSecret f) (reg_AuthSecret t)\<rparr>)
       (bj_Registry from) (bj_Registry to),
     bj_OrasConfig := merge_struct \<lparr>oras_ExtraArgs = []\<rparr>
       (\<lambda>f t. t\<lparr>oras_ExtraArgs := set_str (oras_ExtraArgs f) (oras_ExtraArgs t)\<rparr>)
       (bj_OrasConfig from) (bj_OrasConfig to),
     bj_BackoffLimit := set_opt (bj_BackoffLimit from) (bj_BackoffLimit to)\<rparr>"

definition merge_overrides :: "OverrideConfig \<Rightarrow> OverrideConfig \<Rightarrow> OverrideConfig" where
  "merge_overrides from to = to\<lparr>
     RestrictedContainerOverrideFields :=
       set_opt (RestrictedContainerOverrideFields from) (RestrictedContainerOverrideFields to),
     RestrictedPodOverrideFields :=
       set_opt (RestrictedPodOverrideFields from) (RestrictedPodOverrideFields to)\<rparr>"

definition merge_workspace ::
  "k8s_json \<Rightarrow> 'q WorkspaceConfig \<Rightarrow> 'q WorkspaceConfig \<Rightarrow> 'q WorkspaceConfig" where
  "merge_workspace J from to = to\<lparr>
     wc_StorageClassName := set_opt (wc_StorageClassName from) (wc_StorageClassName to),
     wc_RuntimeClassName := set_opt (wc_RuntimeClassName from) (wc_RuntimeClassName to),
     wc_PVCName := set_str (wc_PVCName from) (wc_PVCName to),
     wc_ServiceAccount := merge_struct zero_ServiceAccountConfig merge_serviceaccount
       (wc_ServiceAccount from) (wc_ServiceAccount to),
     wc_ImagePullPolicy := set_str (wc_ImagePullPolicy from) (wc_ImagePullPolicy to),
     wc_DeploymentStrategy := set_str (wc_DeploymentStrategy from) (wc_DeploymentStrategy to),
     wc_IdleTimeout := set_str (wc_IdleTimeout from) (wc_IdleTimeout to),
     wc_ProgressTimeout := set_str (wc_ProgressTimeout from) (wc_ProgressTimeout to),
     wc_IgnoredUnrecoverableEvents :=
       set_opt (wc_IgnoredUnrecoverableEvents from) (wc_IgnoredUnrecoverableEvents to),
     wc_CleanupOnStop := set_opt (wc_CleanupOnStop from) (wc_CleanupOnStop to),
     wc_PodSecurityContext :=
       (if wc_PodSecurityContext from \<noteq> None
        then mergePodSecurityContext J (wc_PodSecurityContext to) (wc_PodSecurityContext from)
        else wc_PodSecurityContext to),
     wc_ContainerSecurityContext :=
       (if wc_ContainerSecurityContext from \<noteq> None
        then mergeContainerSecurityContext J (wc_ContainerSecurityContext to) (wc_ContainerSecurityContext from)
        else wc_ContainerSecurityContext to),
     wc_StorageAccessMode := set_opt (wc_StorageAccessMode from) (wc_StorageAccessMode to),
     wc_DefaultStorageSize := merge_struct \<lparr>ss_Common = None, ss_PerWorkspace = None\<rparr> merge_storagesize
       (wc_DefaultStorageSize from) (wc_DefaultStorageSize to),
     wc_PersistUserHome := merge_struct \<lparr>ph_Enabled = None, ph_DisableInitContainer = None\<rparr> merge_userhome
       (wc_PersistUserHome from) (wc_PersistUserHome to),
     wc_DefaultTemplate := set_opt (wc_DefaultTemplate from) (wc_DefaultTemplate to),
     wc_SchedulerName := set_str (wc_SchedulerName from) (wc_SchedulerName to),
     wc_ProjectCloneConfig := merge_struct
       \<lparr>pcc_Image = [], pcc_ImagePullPolicy = [], pcc_Resources = None, pcc_Env = None\<rparr> merge_projectclone
       (wc_ProjectCloneConfig from) (wc_ProjectCloneConfig to),
     wc_RestoreConfig := merge_struct
       \<lparr>rc_ImagePullPolicy = [], rc_Resources = None, rc_Env = None\<rparr> merge_restore
       (wc_RestoreConfig from) (wc_RestoreConfig to),
     wc_DefaultContainerResources := merge_struct no_resources mergeResources
       (wc_DefaultContainerResources from) (wc_DefaultContainerResources to),
     wc_ContainerResourceCaps := merge_struct no_resources mergeResources
       (wc_ContainerResourceCaps from) (wc_ContainerResourceCaps to),
     wc_PodAnnotations := merge_podannotations (wc_PodAnnotations from) (wc_PodAnnotations to),
     wc_CleanupCronJob := merge_struct
       \<lparr>cj_Enable = None, cj_RetainTime = None, cj_DryRun = None, cj_Schedule = []\<rparr> merge_cleanup
       (wc_CleanupCronJob from) (wc_CleanupCronJob to),
     wc_BackupCronJob := merge_struct
       \<lparr>bj_Enable = None, bj_Registry = None, bj_OrasConfig = None, bj_Schedule = [], bj_BackoffLimit = None\<rparr>
       merge_backup (wc_BackupCronJob from) (wc_BackupCronJob to),
     wc_PostStartTimeout := set_str (wc_PostStartTimeout from) (wc_PostStartTimeout to),
     wc_HostUsers := set_opt (wc_HostUsers from) (wc_HostUsers to),
     wc_InitContainers := set_opt (wc_InitContainers from) (wc_InitContainers to),
     wc_Overrides := merge_struct
       \<lparr>RestrictedContainerOverrideFields = None, RestrictedPodOverrideFields = None\<rparr> merge_overrides
       (wc_Overrides from) (wc_Overrides to)\<rparr>"

text \<open>
  \<^verbatim>\<open>mergeConfig(from, to)\<close>, for the non-nil \<open>to\<close> that every caller passes; \<open>d\<close> is the global
  \<^verbatim>\<open>defaultConfig\<close>, whose \<^verbatim>\<open>Routing\<close> is set by its declaration and never unset.
\<close>

definition mergeConfig ::
  "k8s_json \<Rightarrow> 'q OperatorConfiguration \<Rightarrow> 'q OperatorConfiguration option \<Rightarrow>
   'q OperatorConfiguration \<Rightarrow> 'q OperatorConfiguration" where
  "mergeConfig J d fromo to =
     (case fromo of None \<Rightarrow> to | Some from \<Rightarrow> to\<lparr>
        oc_EnableExperimentalFeatures := set_opt (oc_EnableExperimentalFeatures from) (oc_EnableExperimentalFeatures to),
        oc_Webhook := merge_struct zero_WebhookConfig merge_webhook (oc_Webhook from) (oc_Webhook to),
        oc_Routing := merge_struct zero_RoutingConfig
          (merge_routing (case oc_Routing d of None \<Rightarrow> zero_RoutingConfig | Some r \<Rightarrow> r))
          (oc_Routing from) (oc_Routing to),
        oc_Workspace := merge_struct zero_WorkspaceConfig (merge_workspace J) (oc_Workspace from) (oc_Workspace to)\<rparr>)"

lemmas [merge_defs] = set_opt_def set_str_def merge_struct_def merge_webhook_def merge_routing_def
  merge_serviceaccount_def merge_storagesize_def merge_userhome_def merge_projectclone_def
  merge_restore_def merge_cleanup_def merge_backup_def merge_overrides_def

section \<open>Merging the same configuration twice\<close>

text \<open>
  The contract of a merge of one struct: merging the same configuration again changes nothing. A
  merge with this contract keeps it when it is lifted to optional structs.
\<close>

locale idempotent_merge =
  fixes m :: "'a \<Rightarrow> 'a \<Rightarrow> 'a"
    and ok :: "'a \<Rightarrow> bool"  \<comment> \<open>the configurations the contract is for\<close>
  assumes idem: "ok f \<Longrightarrow> m f (m f t) = m f t"
begin

lemma struct_idem:
  "(\<And>x. f = Some x \<Longrightarrow> ok x) \<Longrightarrow> merge_struct z m f (merge_struct z m f t) = merge_struct z m f t"
  by (cases f) (simp_all add: merge_struct_def idem)

lemma struct_not_nil: "t \<noteq> None \<Longrightarrow> merge_struct z m f t \<noteq> None"
  by (cases f) (simp_all add: merge_struct_def)

end

lemma set_opt_idem [simp]: "set_opt f (set_opt f t) = set_opt f t"
  by (simp add: set_opt_def)

lemma set_str_idem [simp]: "set_str f (set_str f t) = set_str f t"
  by (simp add: set_str_def)

lemma set_opt_not_None: "t \<noteq> None \<Longrightarrow> set_opt f t \<noteq> None"
  by (simp add: set_opt_def)

lemma update_present: "map_of al k = Some v \<Longrightarrow> AList.update k v al = al"
  by (induction al) (auto split: if_splits)

lemma merge_rlist_idem [simp]: "merge_rlist f (merge_rlist f t) = merge_rlist f t"
proof (cases f)
  case (Some kvs)
  then show ?thesis
    by (auto simp: merge_rlist_def Let_def update_present update_conv split: option.splits)
qed (simp add: merge_rlist_def)

interpretation resources_merge: idempotent_merge mergeResources "\<lambda>_. True"
  by unfold_locales (simp add: mergeResources_def)

interpretation webhook_merge: idempotent_merge merge_webhook "\<lambda>_. True"
  by unfold_locales (simp add: merge_webhook_def)

interpretation routing_merge: idempotent_merge "merge_routing dr" "\<lambda>_. True"
  by unfold_locales (simp add: merge_routing_def)

interpretation serviceaccount_merge: idempotent_merge merge_serviceaccount "\<lambda>_. True"
  by unfold_locales (simp add: merge_serviceaccount_def)

interpretation storagesize_merge: idempotent_merge merge_storagesize "\<lambda>_. True"
  by unfold_locales (simp add: merge_storagesize_def)

interpretation userhome_merge: idempotent_merge merge_userhome "\<lambda>_. True"
  by unfold_locales (simp add: merge_userhome_def)

interpretation projectclone_merge: idempotent_merge merge_projectclone "\<lambda>_. True"
  by unfold_locales (simp add: merge_projectclone_def resources_merge.struct_idem)

interpretation restore_merge: idempotent_merge merge_restore "\<lambda>_. True"
  by unfold_locales (simp add: merge_restore_def resources_merge.struct_idem)

interpretation cleanup_merge: idempotent_merge merge_cleanup "\<lambda>_. True"
  by unfold_locales (simp add: merge_cleanup_def)

interpretation backup_merge: idempotent_merge merge_backup "\<lambda>_. True"
  by unfold_locales (auto simp: merge_backup_def merge_struct_def split: option.splits)

interpretation overrides_merge: idempotent_merge merge_overrides "\<lambda>_. True"
  by unfold_locales (simp add: merge_overrides_def)

lemma foldl_update_get:
  assumes "distinct (map fst kvs)"
  shows "map_of (foldl (\<lambda>m (k, v). AList.update k v m) m kvs) =
         (\<lambda>k. case map_of kvs k of Some v \<Rightarrow> Some v | None \<Rightarrow> map_of m k)"
  using assms
proof (induction kvs arbitrary: m)
  case Nil
  show ?case by simp
next
  case (Cons x kvs)
  obtain k v where x: "x = (k, v)" by (cases x)
  have "map_of kvs k = None" using Cons.prems x by (simp add: map_of_eq_None_iff)
  then show ?case using Cons x by (auto simp: fun_eq_iff update_conv split: option.splits)
qed

lemma foldl_update_present:
  "(\<And>k v. (k, v) \<in> set kvs \<Longrightarrow> map_of m k = Some v) \<Longrightarrow> foldl (\<lambda>m (k, v). AList.update k v m) m kvs = m"
  by (induction kvs) (auto simp: update_present)

lemma merge_podannotations_idem:
  assumes "go_map_ok f"
  shows "merge_podannotations f (merge_podannotations f t) = merge_podannotations f t"
proof (cases f)
  case (Some kvs)
  then have d: "distinct (map fst kvs)" using assms by (simp add: go_map_ok_def)
  have "(k, v) \<in> set kvs \<Longrightarrow>
      map_of (foldl (\<lambda>m (k, v). AList.update k v m) t0 kvs) k = Some v" for k v t0
    by (simp add: foldl_update_get [OF d] d)
  then show ?thesis using Some by (simp add: merge_podannotations_def foldl_update_present)
qed (simp add: merge_podannotations_def)

text \<open>What the strategic merge patch of the security contexts promises: patching twice is patching
  once.\<close>

definition json_idempotent :: "k8s_json \<Rightarrow> bool" where
  "json_idempotent J \<longleftrightarrow>
     (\<forall>b p. mergePodSecurityContext J (mergePodSecurityContext J b p) p = mergePodSecurityContext J b p) \<and>
     (\<forall>b p. mergeContainerSecurityContext J (mergeContainerSecurityContext J b p) p = mergeContainerSecurityContext J b p)"

lemma merge_workspace_idem:
  assumes "json_idempotent J" "go_map_ok (wc_PodAnnotations f)"
  shows "merge_workspace J f (merge_workspace J f t) = merge_workspace J f t"
  using assms
  by (simp add: merge_workspace_def json_idempotent_def merge_podannotations_idem
      serviceaccount_merge.struct_idem storagesize_merge.struct_idem userhome_merge.struct_idem
      projectclone_merge.struct_idem restore_merge.struct_idem resources_merge.struct_idem
      cleanup_merge.struct_idem backup_merge.struct_idem overrides_merge.struct_idem)

text \<open>Merging a configuration twice gives the same configuration as merging it once: repeated
  update events for an unchanged object do not change the operator's configuration.\<close>

theorem mergeConfig_idempotent:
  assumes "json_idempotent J"
    and "\<And>c w. from = Some c \<Longrightarrow> oc_Workspace c = Some w \<Longrightarrow> go_map_ok (wc_PodAnnotations w)"
  shows "mergeConfig J d from (mergeConfig J d from to) = mergeConfig J d from to"
proof (cases "from")
  case (Some c)
  have "merge_struct zero_WorkspaceConfig (merge_workspace J) (oc_Workspace c)
      (merge_struct zero_WorkspaceConfig (merge_workspace J) (oc_Workspace c) t) =
      merge_struct zero_WorkspaceConfig (merge_workspace J) (oc_Workspace c) t" for t
    using assms Some by (cases "oc_Workspace c") (simp_all add: merge_struct_def merge_workspace_idem)
  then show ?thesis
    using Some by (simp add: mergeConfig_def webhook_merge.struct_idem routing_merge.struct_idem)
qed (simp add: mergeConfig_def)

text \<open>A concrete JSON layer, in which a patch replaces the whole context by the empty one.\<close>

definition replacing_json :: k8s_json where
  "replacing_json = \<lparr>
     marshalPSC = (\<lambda>c. Inr (if c = None then ''null'' else ''{}'')),
     patchPSC = (\<lambda>b p. Inr p),
     unmarshalPSC = (\<lambda>s. if s = ''null'' then Inl ''null'' else Inr no_pod_security_context),
     marshalSC = (\<lambda>c. Inr (if c = None then ''null'' else ''{}'')),
     patchSC = (\<lambda>b p. Inr p),
     unmarshalSC = (\<lambda>s. if s = ''null'' then Inl ''null'' else Inr no_security_context)\<rparr>"

lemma replacing_json_idempotent: "json_idempotent replacing_json"
  by (auto simp: json_idempotent_def replacing_json_def mergePodSecurityContext_def
      mergeContainerSecurityContext_def patched_or_base_def split: option.splits sum.splits if_splits)

theorem mergeConfig_idempotent_witness:
  "mergeConfig replacing_json (defaultConfig (\<lambda>_. 0 :: int))
     (Some (zero_OperatorConfiguration\<lparr>oc_Workspace := Some (zero_WorkspaceConfig\<lparr>wc_PodAnnotations := Some [(''a'', ''b'')]\<rparr>)\<rparr>))
     (mergeConfig replacing_json (defaultConfig (\<lambda>_. 0))
        (Some (zero_OperatorConfiguration\<lparr>oc_Workspace := Some (zero_WorkspaceConfig\<lparr>wc_PodAnnotations := Some [(''a'', ''b'')]\<rparr>)\<rparr>))
        (defaultConfig (\<lambda>_. 0))) =
   mergeConfig replacing_json (defaultConfig (\<lambda>_. 0))
     (Some (zero_OperatorConfiguration\<lparr>oc_Workspace := Some (zero_WorkspaceConfig\<lparr>wc_PodAnnotations := Some [(''a'', ''b'')]\<rparr>)\<rparr>))
     (defaultConfig (\<lambda>_. 0))"
  by (rule mergeConfig_idempotent [OF replacing_json_idempotent])
     (auto simp: zero_OperatorConfiguration_def go_map_ok_def)

section \<open>Proxy settings\<close>

text \<open>One setting: the operator's where it sets one, else the cluster's; an empty one is none.\<close>

definition proxy_setting :: "string option \<Rightarrow> string option \<Rightarrow> string option" where
  "proxy_setting oper clus =
     (let v = (if oper = None then clus else oper) in if v = Some [] then None else v)"

lemma nonempty_setting: "(if v \<noteq> None \<and> v \<noteq> Some [] then v else None) = proxy_setting None v"
  by (auto simp: proxy_setting_def)

lemma proxy_fallback: "proxy_setting None (if x = None then y else x) = proxy_setting x y"
  by (simp add: proxy_setting_def)

text \<open>The merged proxy never carries an empty setting, takes a setting of the operator's
  configuration over the cluster's, reads an empty string of the operator as ``no proxy'' even
  where the cluster sets one, and falls back to the cluster where the operator is silent.\<close>

theorem MergeProxyConfigs_precedence:
  "MergeProxyConfigs (Some oper) (Some clus) = Some \<lparr>
     px_HttpProxy = proxy_setting (px_HttpProxy oper) (px_HttpProxy clus),
     px_HttpsProxy = proxy_setting (px_HttpsProxy oper) (px_HttpsProxy clus),
     px_NoProxy = (case (px_NoProxy oper, px_NoProxy clus) of
         (Some (c # cs), Some np) \<Rightarrow> Some (np @ '','' @ c # cs)
       | (np, np') \<Rightarrow> proxy_setting np np')\<rparr>"
proof -
  have "proxy_setting None (case np of None \<Rightarrow> np' | Some v \<Rightarrow>
      if v \<noteq> [] then (case np' of Some c \<Rightarrow> Some (c @ '','' @ v) | None \<Rightarrow> np) else np) =
      (case (np, np') of (Some (c # cs), Some v) \<Rightarrow> Some (v @ '','' @ c # cs) | (x, y) \<Rightarrow> proxy_setting x y)" for np np'
    by (auto simp: proxy_setting_def split: option.split list.split)
  then show ?thesis
    unfolding MergeProxyConfigs_def removeEmptyStrings_def option.case nonempty_setting Proxy.simps
    by (simp only: proxy_fallback)
qed

text \<open>The cluster's proxy object always gives all three settings as strings, so an empty
  \<^verbatim>\<open>noProxy\<close> of the cluster is joined like a real one: the operator's list gets a leading
  comma.\<close>

theorem cluster_noProxy_leading_comma:
  assumes "http \<noteq> []" "np \<noteq> []"
  shows "\<exists>cl p. GetClusterProxyConfig True (Inr (Some (http, https, []))) = Inr (Some cl) \<and>
    MergeProxyConfigs (Some \<lparr>px_HttpProxy = None, px_HttpsProxy = None, px_NoProxy = Some np\<rparr>) (Some cl) = Some p \<and>
    px_NoProxy p = Some (CHR '','' # np)"
  using assms by (simp add: GetClusterProxyConfig_def MergeProxyConfigs_def removeEmptyStrings_def)

theorem cluster_noProxy_leading_comma_witness:
  "\<exists>cl p. GetClusterProxyConfig True (Inr (Some (''http://p'', [], []))) = Inr (Some cl) \<and>
    MergeProxyConfigs (Some \<lparr>px_HttpProxy = None, px_HttpsProxy = None, px_NoProxy = Some ''.local''\<rparr>) (Some cl) = Some p \<and>
    px_NoProxy p = Some '',.local''"
  using cluster_noProxy_leading_comma [of "''http://p''" "''.local''" "[]"] by simp

section \<open>Completeness\<close>

text \<open>
  The parts of a configuration that the operator dereferences without a nil check: the nested
  structs of the default configuration and the pointers in them.
\<close>

definition struct_with :: "('a \<Rightarrow> bool) \<Rightarrow> 'a option \<Rightarrow> bool" where
  "struct_with P x = (case x of None \<Rightarrow> False | Some y \<Rightarrow> P y)"

lemma struct_with_simps [simp]: "\<not> struct_with P None" "struct_with P (Some y) = P y"
  by (simp_all add: struct_with_def)

lemma struct_with_merge:
  "struct_with P t \<Longrightarrow> (\<And>x y. P y \<Longrightarrow> P (m x y)) \<Longrightarrow> struct_with P (merge_struct z m f t)"
  by (cases t; cases f) (simp_all add: merge_struct_def)

definition workspace_complete :: "'q WorkspaceConfig \<Rightarrow> bool" where
  "workspace_complete w \<longleftrightarrow>
     struct_with (\<lambda>sa. DisableCreation sa \<noteq> None) (wc_ServiceAccount w) \<and>
     struct_with (\<lambda>ss. ss_Common ss \<noteq> None \<and> ss_PerWorkspace ss \<noteq> None) (wc_DefaultStorageSize w) \<and>
     struct_with (\<lambda>ph. ph_Enabled ph \<noteq> None \<and> ph_DisableInitContainer ph \<noteq> None) (wc_PersistUserHome w) \<and>
     wc_CleanupOnStop w \<noteq> None \<and>
     struct_with (\<lambda>pc. pcc_Resources pc \<noteq> None) (wc_ProjectCloneConfig w) \<and>
     struct_with (\<lambda>rc. rc_Resources rc \<noteq> None) (wc_RestoreConfig w) \<and>
     wc_DefaultContainerResources w \<noteq> None \<and>
     struct_with (\<lambda>cj. cj_Enable cj \<noteq> None \<and> cj_DryRun cj \<noteq> None \<and> cj_RetainTime cj \<noteq> None) (wc_CleanupCronJob w) \<and>
     struct_with (\<lambda>bj. bj_Enable bj \<noteq> None \<and> bj_BackoffLimit bj \<noteq> None) (wc_BackupCronJob w)"

definition config_complete :: "'q OperatorConfiguration \<Rightarrow> bool" where
  "config_complete c \<longleftrightarrow> oc_Routing c \<noteq> None \<and>
     struct_with (\<lambda>wh. Replicas wh \<noteq> None) (oc_Webhook c) \<and>
     struct_with workspace_complete (oc_Workspace c)"

lemma defaultConfig_complete: "config_complete (defaultConfig mustParse)"
  by (auto simp: config_complete_def workspace_complete_def defaultConfig_def zero_WorkspaceConfig_def
      zero_ServiceAccountConfig_def zero_WebhookConfig_def)

lemma merge_workspace_complete:
  assumes "workspace_complete t"
  shows "workspace_complete (merge_workspace J f t)"
proof -
  note parts = assms [unfolded workspace_complete_def]
  have "struct_with (\<lambda>sa. DisableCreation sa \<noteq> None)
      (merge_struct zero_ServiceAccountConfig merge_serviceaccount (wc_ServiceAccount f) (wc_ServiceAccount t))"
    using parts by (intro struct_with_merge) (simp_all add: merge_serviceaccount_def set_opt_def)
  moreover have "struct_with (\<lambda>ss. ss_Common ss \<noteq> None \<and> ss_PerWorkspace ss \<noteq> None)
      (merge_struct \<lparr>ss_Common = None, ss_PerWorkspace = None\<rparr> merge_storagesize (wc_DefaultStorageSize f) (wc_DefaultStorageSize t))"
    using parts by (intro struct_with_merge) (simp_all add: merge_storagesize_def set_opt_def)
  moreover have "struct_with (\<lambda>ph. ph_Enabled ph \<noteq> None \<and> ph_DisableInitContainer ph \<noteq> None)
      (merge_struct \<lparr>ph_Enabled = None, ph_DisableInitContainer = None\<rparr> merge_userhome (wc_PersistUserHome f) (wc_PersistUserHome t))"
    using parts by (intro struct_with_merge) (simp_all add: merge_userhome_def set_opt_def)
  moreover have "struct_with (\<lambda>pc. pcc_Resources pc \<noteq> None)
      (merge_struct \<lparr>pcc_Image = [], pcc_ImagePullPolicy = [], pcc_Resources = None, pcc_Env = None\<rparr>
         merge_projectclone (wc_ProjectCloneConfig f) (wc_ProjectCloneConfig t))"
    using parts resources_merge.struct_not_nil
    by (intro struct_with_merge) (simp_all add: merge_projectclone_def)
  moreover have "struct_with (\<lambda>rc. rc_Resources rc \<noteq> None)
      (merge_struct \<lparr>rc_ImagePullPolicy = [], rc_Resources = None, rc_Env = None\<rparr> merge_restore
         (wc_RestoreConfig f) (wc_RestoreConfig t))"
    using parts resources_merge.struct_not_nil
    by (intro struct_with_merge) (simp_all add: merge_restore_def)
  moreover have "struct_with (\<lambda>cj. cj_Enable cj \<noteq> None \<and> cj_DryRun cj \<noteq> None \<and> cj_RetainTime cj \<noteq> None)
      (merge_struct \<lparr>cj_Enable = None, cj_RetainTime = None, cj_DryRun = None, cj_Schedule = []\<rparr> merge_cleanup
         (wc_CleanupCronJob f) (wc_CleanupCronJob t))"
    using parts by (intro struct_with_merge) (simp_all add: merge_cleanup_def set_opt_def)
  moreover have "struct_with (\<lambda>bj. bj_Enable bj \<noteq> None \<and> bj_BackoffLimit bj \<noteq> None)
      (merge_struct \<lparr>bj_Enable = None, bj_Registry = None, bj_OrasConfig = None, bj_Schedule = [], bj_BackoffLimit = None\<rparr>
         merge_backup (wc_BackupCronJob f) (wc_BackupCronJob t))"
    using parts by (intro struct_with_merge) (simp_all add: merge_backup_def set_opt_def)
  moreover have "set_opt (wc_CleanupOnStop f) (wc_CleanupOnStop t) \<noteq> None"
    using parts by (simp add: set_opt_def)
  moreover have "merge_struct no_resources mergeResources (wc_DefaultContainerResources f) (wc_DefaultContainerResources t) \<noteq> None"
    using parts by (intro resources_merge.struct_not_nil) simp
  ultimately show ?thesis by (simp add: workspace_complete_def merge_workspace_def)
qed

lemma mergeConfig_complete:
  assumes "config_complete t"
  shows "config_complete (mergeConfig J d f t)"
proof (cases f)
  case (Some c)
  have "struct_with (\<lambda>wh. Replicas wh \<noteq> None) (merge_struct zero_WebhookConfig merge_webhook (oc_Webhook c) (oc_Webhook t))"
    using assms by (intro struct_with_merge) (simp_all add: config_complete_def merge_webhook_def set_opt_def)
  moreover have "struct_with workspace_complete
      (merge_struct zero_WorkspaceConfig (merge_workspace J) (oc_Workspace c) (oc_Workspace t))"
    using assms by (intro struct_with_merge) (simp_all add: config_complete_def merge_workspace_complete)
  ultimately show ?thesis
    using assms Some routing_merge.struct_not_nil by (simp add: config_complete_def mergeConfig_def)
qed (use assms in \<open>simp add: mergeConfig_def\<close>)

end
