(* ===== verification/Config_Sync.thy ===== *)
theory Config_Sync
  imports Config_Merge
begin

text \<open>
  The operator's configuration over time: \<^verbatim>\<open>src/pkg/config/sync.go\<close> and
  \<^verbatim>\<open>src/pkg/config/predicates.go\<close>. The state is the package's global variables; every event on
  a \<^verbatim>\<open>DevWorkspaceOperatorConfig\<close> object is a step. Answers of the cluster are parameters.
\<close>

section \<open>State and operations\<close>

record 'q config_state =
  cs_default :: "'q OperatorConfiguration"  \<comment> \<open>\<^verbatim>\<open>defaultConfig\<close>\<close>
  cs_internal :: "'q OperatorConfiguration option"  \<comment> \<open>\<^verbatim>\<open>internalConfig\<close>\<close>
  cs_namespace :: string  \<comment> \<open>\<^verbatim>\<open>configNamespace\<close>\<close>

definition OperatorConfigName :: string where
  "OperatorConfigName = ''devworkspace-operator-config''"

definition openShiftTestRouteName :: string where
  "openShiftTestRouteName = ''devworkspace-controller-test-route''"

definition ExternalDevWorkspaceConfiguration :: string where
  "ExternalDevWorkspaceConfiguration = ''controller.devfile.io/devworkspace-config''"

definition getMergedConfig ::
  "k8s_json \<Rightarrow> 'q OperatorConfiguration \<Rightarrow> 'q OperatorConfiguration option \<Rightarrow>
   'q OperatorConfiguration option \<Rightarrow> 'q OperatorConfiguration option" where
  "getMergedConfig J d from to = map_option (mergeConfig J d from) to"

text \<open>
  The workspace's configuration attribute is absent, unreadable or names an object; \<open>get\<close> fetches
  the object of a namespace and a name.
\<close>

definition ResolveConfigForWorkspace ::
  "k8s_json \<Rightarrow> (err + string \<times> string) option \<Rightarrow> (string \<Rightarrow> string \<Rightarrow> err + 'q DevWorkspaceOperatorConfig) \<Rightarrow>
   'q config_state \<Rightarrow> err + 'q OperatorConfiguration option" where
  "ResolveConfigForWorkspace J attr get s =
     (case attr of None \<Rightarrow> Inr (cs_internal s)
      | Some (Inl e) \<Rightarrow> Inl (''failed to read attribute '' @ ExternalDevWorkspaceConfiguration @
                              '' in DevWorkspace attributes: '' @ e)
      | Some (Inr (namespace, nm)) \<Rightarrow>
          if nm = [] then
            Inl ([CHR 0x27] @ ''name'' @ [CHR 0x27] @ '' must be set for attribute '' @
                 ExternalDevWorkspaceConfiguration @ '' in DevWorkspace attributes'')
          else if namespace = [] then
            Inl ([CHR 0x27] @ ''namespace'' @ [CHR 0x27] @ '' must be set for attribute '' @
                 ExternalDevWorkspaceConfiguration @ '' in DevWorkspace attributes'')
          else case get namespace nm of
              Inl e \<Rightarrow> Inl (''could not fetch external DWOC with name '' @ nm @ '' in namespace '' @
                            namespace @ '': '' @ e)
            | Inr externalDWOC \<Rightarrow>
                Inr (getMergedConfig J (cs_default s) (dwoc_Config externalDWOC) (cs_internal s)))"

definition syncConfigFrom ::
  "k8s_json \<Rightarrow> 'q DevWorkspaceOperatorConfig option \<Rightarrow> 'q config_state \<Rightarrow> 'q config_state" where
  "syncConfigFrom J newConfig s =
     (case newConfig of None \<Rightarrow> s | Some c \<Rightarrow>
        if dwoc_Name c \<noteq> OperatorConfigName \<or> dwoc_Namespace c \<noteq> cs_namespace s then s
        else s\<lparr>cs_internal := Some (mergeConfig J (cs_default s) (dwoc_Config c) (cs_default s))\<rparr>)"

definition restoreDefaultConfig :: "'q config_state \<Rightarrow> 'q config_state" where
  "restoreDefaultConfig s = s\<lparr>cs_internal := Some (cs_default s)\<rparr>"

text \<open>The watch events: \<open>OtherObject\<close> is an event on an object of another type.\<close>

datatype 'q dwoc_event =
    Updated "'q DevWorkspaceOperatorConfig"
  | Created "'q DevWorkspaceOperatorConfig"
  | Deleted "'q DevWorkspaceOperatorConfig"
  | Generic
  | OtherObject

fun Predicates :: "k8s_json \<Rightarrow> 'q dwoc_event \<Rightarrow> 'q config_state \<Rightarrow> 'q config_state" where
  "Predicates J (Updated c) s = syncConfigFrom J (Some c) s"
| "Predicates J (Created c) s = syncConfigFrom J (Some c) s"
| "Predicates J (Deleted c) s =
     (if dwoc_Name c = OperatorConfigName \<and> dwoc_Namespace c = cs_namespace s
      then restoreDefaultConfig s else s)"
| "Predicates J Generic s = s"
| "Predicates J OtherObject s = s"

section \<open>Start-up\<close>

datatype create_outcome = RouteCreated string | RouteExists | RouteError err

definition trim_prefix :: "string \<Rightarrow> string \<Rightarrow> string" where
  "trim_prefix pre s = (if take (length pre) s = pre then drop (length pre) s else s)"

text \<open>The host of the temporary route, from its creation or, where it exists, from reading it.\<close>

definition discoverRouteSuffix :: "platform \<Rightarrow> string \<Rightarrow> create_outcome \<Rightarrow> err + string \<Rightarrow> err + string" where
  "discoverRouteSuffix pf ns create get =
     (if pf \<noteq> OpenShift then Inr []
      else case (case create of RouteCreated host \<Rightarrow> Inr host | RouteExists \<Rightarrow> get | RouteError e \<Rightarrow> Inl e) of
        Inl e \<Rightarrow> Inl e
      | Inr host \<Rightarrow> Inr (trim_prefix (openShiftTestRouteName @ ''-'' @ ns @ ''.'') host))"

text \<open>What a client answers when it is asked for one object.\<close>

datatype 'a get_result = Found 'a | NotFound | GetError err

definition getClusterConfig ::
  "string \<Rightarrow> (string \<Rightarrow> string \<Rightarrow> 'q DevWorkspaceOperatorConfig get_result) \<Rightarrow> err + 'q DevWorkspaceOperatorConfig option" where
  "getClusterConfig namespace get =
     (case get namespace OperatorConfigName of
        Found c \<Rightarrow> Inr (Some c) | NotFound \<Rightarrow> Inr None | GetError e \<Rightarrow> Inl e)"

record 'q setup_env =
  se_platform :: platform
  se_namespace :: "err + string"  \<comment> \<open>\<^verbatim>\<open>infrastructure.GetNamespace\<close>\<close>
  se_config :: "string \<Rightarrow> string \<Rightarrow> 'q DevWorkspaceOperatorConfig get_result"  \<comment> \<open>by namespace and name\<close>
  se_create :: create_outcome
  se_get :: "err + string"
  se_proxy :: "err + (string \<times> string \<times> string) option"

definition with_routing ::
  "(RoutingConfig \<Rightarrow> RoutingConfig) \<Rightarrow> 'q OperatorConfiguration \<Rightarrow> 'q OperatorConfiguration" where
  "with_routing f c = c\<lparr>oc_Routing := map_option f (oc_Routing c)\<rparr>"

text \<open>
  The global state is changed as the function goes along, also where it then fails, so the result
  is the state with the error.
\<close>

definition SetupControllerConfig ::
  "k8s_json \<Rightarrow> 'q setup_env \<Rightarrow> 'q config_state \<Rightarrow> 'q config_state \<times> err option" where
  "SetupControllerConfig J env s0 =
     (if cs_internal s0 \<noteq> None then (s0, Some ''internal controller configuration is already set up'')
      else case setDefaultPodSecurityContext (se_platform env) (cs_default s0) of
        Inl e \<Rightarrow> (s0, Some e)
      | Inr d1 \<Rightarrow> let s1 = s0\<lparr>cs_default := d1\<rparr> in
      case setDefaultContainerSecurityContext (se_platform env) (cs_default s1) of
        Inl e \<Rightarrow> (s1, Some e)
      | Inr d2 \<Rightarrow> let s2 = s1\<lparr>cs_default := d2\<rparr> in
      case setDefaultOverrideConfig (se_platform env) (cs_default s2) of
        Inl e \<Rightarrow> (s2, Some e)
      | Inr d3 \<Rightarrow> let s3 = s2\<lparr>cs_default := d3, cs_internal := Some zero_OperatorConfiguration\<rparr> in
      case se_namespace env of
        Inl e \<Rightarrow> (s3, Some e)
      | Inr ns \<Rightarrow> let s4 = s3\<lparr>cs_namespace := ns\<rparr> in
      case getClusterConfig ns (se_config env) of
        Inl e \<Rightarrow> (s4, Some e)
      | Inr config \<Rightarrow>
        let s5 = (case config of None \<Rightarrow> restoreDefaultConfig s4 | Some c \<Rightarrow> syncConfigFrom J (Some c) s4) in
      case discoverRouteSuffix (se_platform env) ns (se_create env) (se_get env) of
        Inl e \<Rightarrow> (s5, Some e)
      | Inr suffix \<Rightarrow>
        let s6 = s5\<lparr>cs_default := with_routing (\<lambda>r. r\<lparr>ClusterHostSuffix := suffix\<rparr>) (cs_default s5),
                    cs_internal := map_option (with_routing (\<lambda>r.
                      if ClusterHostSuffix r = [] then r\<lparr>ClusterHostSuffix := suffix\<rparr> else r)) (cs_internal s5)\<rparr> in
      case GetClusterProxyConfig (se_platform env = OpenShift) (se_proxy env) of
        Inl e \<Rightarrow> (s6, Some e)
      | Inr clusterProxy \<Rightarrow>
        (s6\<lparr>cs_default := with_routing (\<lambda>r. r\<lparr>ProxyConfig := clusterProxy\<rparr>) (cs_default s6),
            cs_internal := map_option (with_routing (\<lambda>r.
              r\<lparr>ProxyConfig := MergeProxyConfigs clusterProxy (ProxyConfig r)\<rparr>)) (cs_internal s6)\<rparr>, None))"

definition IsSetUp :: "'q config_state \<Rightarrow> bool" where
  "IsSetUp s \<longleftrightarrow> cs_internal s \<noteq> None"

definition ExperimentalFeaturesEnabled :: "'q config_state \<Rightarrow> bool" where
  "ExperimentalFeaturesEnabled s =
     (case cs_internal s of None \<Rightarrow> False
      | Some c \<Rightarrow> (case oc_EnableExperimentalFeatures c of None \<Rightarrow> False | Some b \<Rightarrow> b))"

section \<open>Reachable configurations\<close>

definition initial_state :: "(string \<Rightarrow> 'q) \<Rightarrow> 'q config_state" where
  "initial_state mustParse = \<lparr>cs_default = defaultConfig mustParse, cs_internal = None, cs_namespace = []\<rparr>"

text \<open>A client that finds an object finds the one it was asked for.\<close>

definition env_honest :: "'q setup_env \<Rightarrow> bool" where
  "env_honest env \<longleftrightarrow> (\<forall>ns nm c. se_config env ns nm = Found c \<longrightarrow> dwoc_Name c = nm \<and> dwoc_Namespace c = ns)"

inductive reachable :: "k8s_json \<Rightarrow> (string \<Rightarrow> 'q) \<Rightarrow> 'q config_state \<Rightarrow> bool"
  for J :: k8s_json and mustParse :: "string \<Rightarrow> 'q" where
  start: "env_honest env \<Longrightarrow> SetupControllerConfig J env (initial_state mustParse) = (s, None) \<Longrightarrow>
    reachable J mustParse s"
| event: "reachable J mustParse s \<Longrightarrow> reachable J mustParse (Predicates J e s)"

definition state_complete :: "'q config_state \<Rightarrow> bool" where
  "state_complete s \<longleftrightarrow> config_complete (cs_default s) \<and> struct_with config_complete (cs_internal s)"

lemma with_routing_complete [simp]: "config_complete (with_routing f c) = config_complete c"
  by (simp add: config_complete_def with_routing_def)

lemma struct_with_map [simp]: "struct_with P (map_option f x) = struct_with (\<lambda>y. P (f y)) x"
  by (cases x) simp_all

lemma workspace_complete_security [simp]:
  "workspace_complete (w\<lparr>wc_PodSecurityContext := x\<rparr>) = workspace_complete w"
  "workspace_complete (w\<lparr>wc_ContainerSecurityContext := y\<rparr>) = workspace_complete w"
  "workspace_complete (w\<lparr>wc_Overrides := z\<rparr>) = workspace_complete w"
  by (simp_all add: workspace_complete_def)

lemma with_workspace_complete:
  "config_complete c \<Longrightarrow> (\<And>w. workspace_complete (f w) = workspace_complete w) \<Longrightarrow> config_complete (with_workspace f c)"
  by (simp add: config_complete_def with_workspace_def)

lemma setters_complete:
  "config_complete d \<Longrightarrow> setDefaultPodSecurityContext pf d = Inr d' \<Longrightarrow> config_complete d'"
  "config_complete d \<Longrightarrow> setDefaultContainerSecurityContext pf d = Inr d' \<Longrightarrow> config_complete d'"
  "config_complete d \<Longrightarrow> setDefaultOverrideConfig pf d = Inr d' \<Longrightarrow> config_complete d'"
  by (auto simp: setDefaultPodSecurityContext_def setDefaultContainerSecurityContext_def
      setDefaultOverrideConfig_def with_workspace_complete split: if_splits)

lemma syncConfigFrom_complete:
  "state_complete s \<Longrightarrow> state_complete (syncConfigFrom J c s)"
  by (auto simp: state_complete_def syncConfigFrom_def mergeConfig_complete split: option.splits)

lemma restoreDefaultConfig_complete: "config_complete (cs_default s) \<Longrightarrow> state_complete (restoreDefaultConfig s)"
  by (simp add: state_complete_def restoreDefaultConfig_def)

lemma state_complete_default: "state_complete s \<Longrightarrow> config_complete (cs_default s)"
  by (simp add: state_complete_def)

lemma Predicates_complete: "state_complete s \<Longrightarrow> state_complete (Predicates J e s)"
  by (cases e) (simp_all add: syncConfigFrom_complete restoreDefaultConfig_complete state_complete_default)

text \<open>A set-up that succeeds, cut into what it does to the defaults and to the configuration.\<close>

lemma SetupControllerConfig_success:
  assumes "SetupControllerConfig J env s = (s', None)"
  obtains d1 d2 d3 ns config suffix clusterProxy s4 s5 where
    "cs_internal s = None"
    "setDefaultPodSecurityContext (se_platform env) (cs_default s) = Inr d1"
    "setDefaultContainerSecurityContext (se_platform env) d1 = Inr d2"
    "setDefaultOverrideConfig (se_platform env) d2 = Inr d3"
    "se_namespace env = Inr ns"
    "getClusterConfig ns (se_config env) = Inr config"
    "s4 = s\<lparr>cs_default := d3, cs_internal := Some zero_OperatorConfiguration, cs_namespace := ns\<rparr>"
    "s5 = (case config of None \<Rightarrow> restoreDefaultConfig s4 | Some c \<Rightarrow> syncConfigFrom J (Some c) s4)"
    "discoverRouteSuffix (se_platform env) ns (se_create env) (se_get env) = Inr suffix"
    "GetClusterProxyConfig (se_platform env = OpenShift) (se_proxy env) = Inr clusterProxy"
    "s' = s5\<lparr>cs_default := with_routing (\<lambda>r. r\<lparr>ClusterHostSuffix := suffix, ProxyConfig := clusterProxy\<rparr>) (cs_default s5),
             cs_internal := map_option (with_routing (\<lambda>r.
               (if ClusterHostSuffix r = [] then r\<lparr>ClusterHostSuffix := suffix\<rparr> else r)
                 \<lparr>ProxyConfig := MergeProxyConfigs clusterProxy (ProxyConfig r)\<rparr>)) (cs_internal s5)\<rparr>"
proof -
  have compose: "with_routing f (with_routing g c) = with_routing (\<lambda>r. f (g r)) c" for f g and c :: "'a OperatorConfiguration"
    by (cases "oc_Routing c") (simp_all add: with_routing_def)
  have proxy: "ProxyConfig (if b then r\<lparr>ClusterHostSuffix := x\<rparr> else r) = ProxyConfig r" for b r x
    by simp
  show thesis
    using assms
    by (auto simp: SetupControllerConfig_def Let_def compose proxy option.map_comp comp_def
        split: if_splits sum.splits intro!: that)
qed


section \<open>The configuration in force is always complete\<close>

lemma getClusterConfig_honest:
  "env_honest env \<Longrightarrow> getClusterConfig ns (se_config env) = Inr (Some c) \<Longrightarrow>
   dwoc_Name c = OperatorConfigName \<and> dwoc_Namespace c = ns"
  by (auto simp: getClusterConfig_def env_honest_def split: get_result.splits)

lemma SetupControllerConfig_complete:
  assumes "env_honest env" "config_complete (cs_default s)" "SetupControllerConfig J env s = (s', None)"
  shows "state_complete s'"
  using assms(3)
proof (rule SetupControllerConfig_success)
  fix d1 d2 d3 ns config suffix clusterProxy s4 s5
  assume set: "setDefaultPodSecurityContext (se_platform env) (cs_default s) = Inr d1"
    "setDefaultContainerSecurityContext (se_platform env) d1 = Inr d2"
    "setDefaultOverrideConfig (se_platform env) d2 = Inr d3"
  assume config: "getClusterConfig ns (se_config env) = Inr config"
  assume s4: "s4 = s\<lparr>cs_default := d3, cs_internal := Some zero_OperatorConfiguration, cs_namespace := ns\<rparr>"
  assume s5: "s5 = (case config of None \<Rightarrow> restoreDefaultConfig s4 | Some c \<Rightarrow> syncConfigFrom J (Some c) s4)"
  assume s': "s' = s5\<lparr>cs_default := with_routing (\<lambda>r. r\<lparr>ClusterHostSuffix := suffix, ProxyConfig := clusterProxy\<rparr>) (cs_default s5),
             cs_internal := map_option (with_routing (\<lambda>r.
               (if ClusterHostSuffix r = [] then r\<lparr>ClusterHostSuffix := suffix\<rparr> else r)
                 \<lparr>ProxyConfig := MergeProxyConfigs clusterProxy (ProxyConfig r)\<rparr>)) (cs_internal s5)\<rparr>"
  have d3: "config_complete d3"
    using set assms(2) setters_complete by blast
  have "state_complete s5"
  proof (cases config)
    case None
    then show ?thesis by (simp add: s5 restoreDefaultConfig_complete s4 d3)
  next
    case (Some c)
    with config assms(1) have "dwoc_Name c = OperatorConfigName" "dwoc_Namespace c = ns"
      using getClusterConfig_honest by blast+
    with Some show ?thesis
      by (simp add: s5 s4 syncConfigFrom_def state_complete_def mergeConfig_complete d3)
  qed
  then show "state_complete s'"
    by (simp add: s' state_complete_def)
qed

lemma reachable_state_complete: "reachable J mustParse s \<Longrightarrow> state_complete s"
proof (induction rule: reachable.induct)
  case (start env s)
  then show ?case
    using SetupControllerConfig_complete [OF start(1) _ start(2)]
    by (simp add: initial_state_def defaultConfig_complete)
next
  case (event s e)
  then show ?case by (simp add: Predicates_complete)
qed

text \<open>(C18) Whatever the cluster answers at start-up and whatever events follow, the configuration in
  force has every field the controllers read without a nil check: the routing section, the webhook
  replicas, the service account and storage sections, the home and cron job settings. Stated for
  a client whose answers are the objects it was asked for.\<close>

theorem reachable_complete:
  "reachable J mustParse s \<Longrightarrow> state_complete s"
  by (rule reachable_state_complete)

text \<open>An OpenShift cluster with a proxy, and an operator configuration with a proxy of its own.\<close>

definition sample_dwoc :: "int DevWorkspaceOperatorConfig" where
  "sample_dwoc = \<lparr>dwoc_Name = OperatorConfigName, dwoc_Namespace = ''ns'',
     dwoc_Config = Some (zero_OperatorConfiguration\<lparr>oc_Routing := Some (zero_RoutingConfig
       \<lparr>ProxyConfig := Some \<lparr>px_HttpProxy = Some ''http://operator'', px_HttpsProxy = None, px_NoProxy = None\<rparr>\<rparr>)\<rparr>)\<rparr>"

definition sample_env :: "int setup_env" where
  "sample_env = \<lparr>se_platform = OpenShift, se_namespace = Inr ''ns'',
     se_config = (\<lambda>ns nm. if ns = ''ns'' \<and> nm = OperatorConfigName then Found sample_dwoc else NotFound),
     se_create = RouteCreated ''devworkspace-controller-test-route-ns.apps.example.com'', se_get = Inl [],
     se_proxy = Inr (Some (''http://cluster'', [], []))\<rparr>"

lemma sample_env_honest: "env_honest sample_env"
  by (simp add: env_honest_def sample_env_def sample_dwoc_def)

lemma sample_setup_ok:
  "snd (SetupControllerConfig replacing_json sample_env (initial_state (\<lambda>_. 0))) = None"
  by (simp add: SetupControllerConfig_def sample_env_def initial_state_def Let_def
      setDefaultPodSecurityContext_def setDefaultContainerSecurityContext_def setDefaultOverrideConfig_def
      getClusterConfig_def discoverRouteSuffix_def GetClusterProxyConfig_def)

lemma sample_setup:
  "SetupControllerConfig replacing_json sample_env (initial_state (\<lambda>_. 0)) =
   (fst (SetupControllerConfig replacing_json sample_env (initial_state (\<lambda>_. 0))), None)"
  using sample_setup_ok by (metis prod.collapse)

theorem reachable_complete_witness:
  "state_complete (Predicates replacing_json (Deleted sample_dwoc)
     (fst (SetupControllerConfig replacing_json sample_env (initial_state (\<lambda>_. 0)))))"
  by (rule reachable_complete [of replacing_json "\<lambda>_. 0"])
     (rule reachable.event, rule reachable.start [OF sample_env_honest sample_setup])

section \<open>The configuration in force is a function of the last relevant event\<close>

text \<open>
  What an event says of the operator's own configuration object in namespace \<open>ns\<close>: nothing, that it
  is now \<open>c\<close>, or that it is gone.
\<close>

fun own_event :: "string \<Rightarrow> 'q dwoc_event \<Rightarrow> 'q OperatorConfiguration option option" where
  "own_event ns (Updated c) =
     (if dwoc_Name c = OperatorConfigName \<and> dwoc_Namespace c = ns then Some (dwoc_Config c) else None)"
| "own_event ns (Created c) =
     (if dwoc_Name c = OperatorConfigName \<and> dwoc_Namespace c = ns then Some (dwoc_Config c) else None)"
| "own_event ns (Deleted c) =
     (if dwoc_Name c = OperatorConfigName \<and> dwoc_Namespace c = ns then Some None else None)"
| "own_event ns Generic = None"
| "own_event ns OtherObject = None"

fun last_own :: "string \<Rightarrow> 'q dwoc_event list \<Rightarrow> 'q OperatorConfiguration option option" where
  "last_own ns [] = None"
| "last_own ns (e # es) = (case last_own ns es of None \<Rightarrow> own_event ns e | Some c \<Rightarrow> Some c)"

lemma Predicates_own_event:
  "Predicates J e s =
     (case own_event (cs_namespace s) e of None \<Rightarrow> s
      | Some c \<Rightarrow> s\<lparr>cs_internal := Some (mergeConfig J (cs_default s) c (cs_default s))\<rparr>)"
  by (cases e) (simp_all add: syncConfigFrom_def restoreDefaultConfig_def mergeConfig_def)

text \<open>Events never change the defaults or the operator's namespace, and after any sequence of them
  the configuration in force is the defaults merged with the last state of the operator's own
  object: nothing of earlier versions of it survives, a deleted object leaves the plain defaults,
  and events on other objects have no effect.\<close>

theorem events_last_wins:
  "fold (Predicates J) es s =
     (case last_own (cs_namespace s) es of None \<Rightarrow> s
      | Some c \<Rightarrow> s\<lparr>cs_internal := Some (mergeConfig J (cs_default s) c (cs_default s))\<rparr>)"
proof (induction es arbitrary: s)
  case Nil
  then show ?case by simp
next
  case (Cons e es)
  show ?case
    by (cases "own_event (cs_namespace s) e"; cases "last_own (cs_namespace s) es")
       (simp_all add: Cons.IH Predicates_own_event [of J e s])
qed

section \<open>The cluster's proxy at start-up\<close>

definition httpProxy_in_force :: "'q config_state \<Rightarrow> string option" where
  "httpProxy_in_force s =
     Option.bind (cs_internal s) (\<lambda>c. Option.bind (oc_Routing c) (\<lambda>r. Option.bind (ProxyConfig r) px_HttpProxy))"

lemma MergeProxyConfigs_http:
  "px_HttpProxy p = Some h \<Longrightarrow> h \<noteq> [] \<Longrightarrow> Option.bind (MergeProxyConfigs (Some p) x) px_HttpProxy = Some h"
  by (cases x) (simp_all add: MergeProxyConfigs_def removeEmptyStrings_def)

lemma mergeConfig_http:
  assumes "oc_Routing oc = Some r" "ProxyConfig r = Some p" "px_HttpProxy p = Some q" "q \<noteq> []"
  shows "Option.bind (oc_Routing (mergeConfig J d (Some oc) d)) (\<lambda>r. Option.bind (ProxyConfig r) px_HttpProxy) = Some q"
  using assms by (simp add: mergeConfig_def merge_struct_def merge_routing_def MergeProxyConfigs_http)

lemma setup_http_cluster:
  assumes "env_honest env" "config_complete (cs_default s0)" "SetupControllerConfig J env s0 = (s, None)"
    and "se_platform env = OpenShift" "se_proxy env = Inr (Some (h, hs, np))" "h \<noteq> []"
  shows "httpProxy_in_force s = Some h"
  using assms(3)
proof (rule SetupControllerConfig_success)
  fix s5 :: "'a config_state" and suffix clusterProxy
  assume cl: "GetClusterProxyConfig (se_platform env = OpenShift) (se_proxy env) = Inr clusterProxy"
  assume s: "s = s5\<lparr>cs_default := with_routing (\<lambda>r. r\<lparr>ClusterHostSuffix := suffix, ProxyConfig := clusterProxy\<rparr>) (cs_default s5),
             cs_internal := map_option (with_routing (\<lambda>r.
               (if ClusterHostSuffix r = [] then r\<lparr>ClusterHostSuffix := suffix\<rparr> else r)
                 \<lparr>ProxyConfig := MergeProxyConfigs clusterProxy (ProxyConfig r)\<rparr>)) (cs_internal s5)\<rparr>"
  have "clusterProxy = Some \<lparr>px_HttpProxy = Some h, px_HttpsProxy = Some hs, px_NoProxy = Some np\<rparr>"
    using cl assms(4-6) by (simp add: GetClusterProxyConfig_def)
  moreover have "state_complete s"
    by (rule SetupControllerConfig_complete [OF assms(1-3)])
  ultimately show ?thesis
    by (cases "cs_internal s5"; cases "oc_Routing (the (cs_internal s5))")
       (auto simp: s state_complete_def config_complete_def httpProxy_in_force_def with_routing_def
         MergeProxyConfigs_http assms(6))
qed

lemma setup_namespace:
  "SetupControllerConfig J env s0 = (s, None) \<Longrightarrow> se_namespace env = Inr ns \<Longrightarrow> cs_namespace s = ns"
  by (erule SetupControllerConfig_success)
     (auto simp: restoreDefaultConfig_def syncConfigFrom_def split: option.split)

text \<open>The same configuration object has two effects. At start-up the two proxies are merged with
  the cluster's in the operator's place, so the cluster's HTTP proxy is in force; the first update
  event of the unchanged object merges them the documented way round and puts the operator's
  proxy in force.\<close>

theorem setup_prefers_cluster_proxy:
  assumes "env_honest env" "config_complete (cs_default s0)" "SetupControllerConfig J env s0 = (s, None)"
    and "se_platform env = OpenShift" "se_proxy env = Inr (Some (h, hs, np))" "h \<noteq> []"
    and "se_namespace env = Inr ns" "se_config env ns OperatorConfigName = Found c"
    and "dwoc_Config c = Some oc" "oc_Routing oc = Some r" "ProxyConfig r = Some p"
    and "px_HttpProxy p = Some q" "q \<noteq> []"
  shows "httpProxy_in_force s = Some h \<and> httpProxy_in_force (Predicates J (Updated c) s) = Some q"
proof
  show "httpProxy_in_force s = Some h"
    by (rule setup_http_cluster [OF assms(1-6)])
  have "dwoc_Name c = OperatorConfigName" "dwoc_Namespace c = cs_namespace s"
    using assms(1,8) setup_namespace [OF assms(3,7)] by (auto simp: env_honest_def)
  then show "httpProxy_in_force (Predicates J (Updated c) s) = Some q"
    using assms(9) mergeConfig_http [OF assms(10-13)]
    by (simp add: syncConfigFrom_def httpProxy_in_force_def)
qed

theorem setup_prefers_cluster_proxy_witness:
  "let s = fst (SetupControllerConfig replacing_json sample_env (initial_state (\<lambda>_. 0))) in
   httpProxy_in_force s = Some ''http://cluster'' \<and>
   httpProxy_in_force (Predicates replacing_json (Updated sample_dwoc) s) = Some ''http://operator''"
  unfolding Let_def
  by (rule setup_prefers_cluster_proxy [OF sample_env_honest _ sample_setup, where ns = "''ns''" and c = sample_dwoc
        and oc = "the (dwoc_Config sample_dwoc)" and r = "the (oc_Routing (the (dwoc_Config sample_dwoc)))"
        and p = "the (ProxyConfig (the (oc_Routing (the (dwoc_Config sample_dwoc)))))"])
     (simp_all add: sample_env_def sample_dwoc_def initial_state_def defaultConfig_complete)

section \<open>Configuration of one workspace\<close>

lemma mergeConfig_None [simp]: "mergeConfig J d None t = t"
  by (simp add: mergeConfig_def)

text \<open>A workspace gets the operator's configuration, or that configuration overlaid with the object
  its attribute names; a workspace that names one it cannot have gets an error and never the
  plain configuration. In every state the operator can reach, the configuration it gets is
  complete.\<close>

theorem ResolveConfigForWorkspace_complete:
  assumes "reachable J mustParse s"
  shows "case ResolveConfigForWorkspace J attr get s of
      Inl e \<Rightarrow> (\<exists>a. attr = Some a \<and> (\<forall>ns nm c. a = Inr (ns, nm) \<longrightarrow> get ns nm = Inr c \<longrightarrow> ns = [] \<or> nm = []))
    | Inr c \<Rightarrow> struct_with config_complete c \<and>
        (attr = None \<longrightarrow> c = cs_internal s) \<and>
        (\<forall>a. attr = Some a \<longrightarrow> (\<exists>ns nm ext base. a = Inr (ns, nm) \<and> get ns nm = Inr ext \<and>
           cs_internal s = Some base \<and> c = Some (mergeConfig J (cs_default s) (dwoc_Config ext) base)))"
proof -
  have "state_complete s"
    by (rule reachable_state_complete [OF assms])
  then obtain base where base: "cs_internal s = Some base" "config_complete base"
    by (cases "cs_internal s") (simp_all add: state_complete_def)
  show ?thesis
  proof (cases attr)
    case None
    then show ?thesis by (simp add: ResolveConfigForWorkspace_def base)
  next
    case (Some a)
    show ?thesis
    proof (cases a)
      case (Inl e)
      then show ?thesis by (simp add: ResolveConfigForWorkspace_def Some)
    next
      case (Inr x)
      obtain ns nm where x: "x = (ns, nm)" by (cases x)
      show ?thesis
        by (cases "nm = []"; cases "ns = []"; cases "get ns nm")
           (simp_all add: ResolveConfigForWorkspace_def Some Inr x base getMergedConfig_def mergeConfig_complete)
    qed
  qed
qed

theorem ResolveConfigForWorkspace_complete_witness:
  "struct_with config_complete (cs_internal (fst (SetupControllerConfig replacing_json sample_env (initial_state (\<lambda>_. 0)))))"
  using ResolveConfigForWorkspace_complete [OF reachable.start [OF sample_env_honest sample_setup], of None "\<lambda>_ _. Inl []"]
  by (simp add: ResolveConfigForWorkspace_def)

end
