(* ===== verification/Metadata_Keys.thy ===== *)
theory Metadata_Keys
  imports Go_Prelude
begin

text \<open>
  Labels, annotations and attributes of \<^verbatim>\<open>src/pkg/constants\<close> that several components read or write.
\<close>

definition DevWorkspaceIDLabel :: string where
  "DevWorkspaceIDLabel = ''controller.devfile.io/devworkspace_id''"

definition DevWorkspaceNameLabel :: string where
  "DevWorkspaceNameLabel = ''controller.devfile.io/devworkspace_name''"

definition DevWorkspaceCreatorLabel :: string where
  "DevWorkspaceCreatorLabel = ''controller.devfile.io/creator''"

definition DevWorkspaceRestrictedAccessAnnotation :: string where
  "DevWorkspaceRestrictedAccessAnnotation = ''controller.devfile.io/restricted-access''"

definition DevWorkspaceStartedStatusAnnotation :: string where
  "DevWorkspaceStartedStatusAnnotation = ''controller.devfile.io/devworkspace-started''"

definition WorkspaceSCCAttribute :: string where
  "WorkspaceSCCAttribute = ''controller.devfile.io/scc''"

definition MergeContributionAttribute :: string where
  "MergeContributionAttribute = ''controller.devfile.io/merge-contribution''"

definition ContainerContributionAttribute :: string where
  "ContainerContributionAttribute = ''controller.devfile.io/container-contribution''"

definition MergedContributionsAttribute :: string where
  "MergedContributionsAttribute = ''controller.devfile.io/merged-contributions''"

definition PluginSourceAttribute :: string where
  "PluginSourceAttribute = ''controller.devfile.io/imported-by''"

lemmas contribution_keys = MergeContributionAttribute_def ContainerContributionAttribute_def MergedContributionsAttribute_def PluginSourceAttribute_def

lemmas metadata_keys = DevWorkspaceIDLabel_def DevWorkspaceNameLabel_def DevWorkspaceCreatorLabel_def DevWorkspaceRestrictedAccessAnnotation_def
  DevWorkspaceStartedStatusAnnotation_def WorkspaceSCCAttribute_def

end
