(* ===== verification/Conditions.thy ===== *)
theory Conditions
  imports Metadata_Keys "HOL-Library.Multiset" "HOL-Library.Char_ord" "HOL-Library.List_Lexorder" "HOL-Library.Product_Lexorder"
begin

text \<open>
  The conditions of a workspace: \<^verbatim>\<open>src/controllers/workspace/condition.go\<close>,
  \<^verbatim>\<open>src/pkg/conditions/conditions.go\<close> and the condition part of
  \<^verbatim>\<open>src/controllers/workspace/status.go\<close>. Times are nanoseconds, zero being Go's zero time.
\<close>

section \<open>Conditions\<close>

datatype ConditionStatus = ConditionTrue | ConditionFalse | ConditionUnknown

record Condition =
  cond_Type :: string
  cond_Status :: ConditionStatus
  cond_Time :: int  \<comment> \<open>\<^verbatim>\<open>LastTransitionTime\<close>\<close>
  cond_Message :: string
  cond_Reason :: string

definition Started :: string where "Started = ''Started''"
definition PullSecretsReady :: string where "PullSecretsReady = ''PullSecretsReady''"
definition DevWorkspaceResolved :: string where "DevWorkspaceResolved = ''DevWorkspaceResolved''"
definition StorageReady :: string where "StorageReady = ''StorageReady''"
definition KubeComponentsReady :: string where "KubeComponentsReady = ''KubernetesComponentsProvisioned''"
definition DeploymentReady :: string where "DeploymentReady = ''DeploymentReady''"
definition DevWorkspaceWarning :: string where "DevWorkspaceWarning = ''DevWorkspaceWarning''"

text \<open>Condition types of the devfile API.\<close>

definition RoutingReady :: string where "RoutingReady = ''RoutingReady''"
definition ServiceAccountReady :: string where "ServiceAccountReady = ''ServiceAccountReady''"
definition Ready :: string where "Ready = ''Ready''"
definition FailedStart :: string where "FailedStart = ''FailedStart''"
definition DevWorkspaceError :: string where "DevWorkspaceError = ''Error''"

lemmas condition_types = Started_def PullSecretsReady_def DevWorkspaceResolved_def StorageReady_def KubeComponentsReady_def
  DeploymentReady_def DevWorkspaceWarning_def RoutingReady_def ServiceAccountReady_def Ready_def FailedStart_def
  DevWorkspaceError_def

definition GetConditionByType :: "Condition list \<Rightarrow> string \<Rightarrow> Condition option" where
  "GetConditionByType conditions t = find (\<lambda>condition. cond_Type condition = t) conditions"

definition CountWarningConditions :: "Condition list \<Rightarrow> nat" where
  "CountWarningConditions conditions =
     length [condition \<leftarrow> conditions. cond_Type condition = DevWorkspaceWarning \<and> cond_Status condition = ConditionTrue]"

definition conditionOrder :: "string list" where
  "conditionOrder = [Started, DevWorkspaceResolved, StorageReady, RoutingReady, ServiceAccountReady,
     PullSecretsReady, KubeComponentsReady, DeploymentReady, Ready]"

text \<open>\<^verbatim>\<open>workspaceConditions\<close>: a nil condition map reads as the empty one and is created on the first store.\<close>

record workspaceConditions =
  wc_conditions :: "(string \<times> Condition) list"
  wc_warnings :: "Condition list"

definition no_conditions :: workspaceConditions where
  "no_conditions = \<lparr>wc_conditions = [], wc_warnings = []\<rparr>"

definition workspaceConditionsFromClusterObject :: "Condition list \<Rightarrow> workspaceConditions" where
  "workspaceConditionsFromClusterObject clusterConditions =
     fold (\<lambda>condition c.
       if cond_Type condition = DevWorkspaceWarning then c\<lparr>wc_warnings := wc_warnings c @ [condition]\<rparr>
       else c\<lparr>wc_conditions := AList.update (cond_Type condition) condition (wc_conditions c)\<rparr>)
     clusterConditions no_conditions"

text \<open>Upper-casing the first character, for ASCII letters.\<close>

definition capitalizeMessage :: "string \<Rightarrow> string" where
  "capitalizeMessage msg =
     (case msg of [] \<Rightarrow> []
      | c # cs \<Rightarrow> (let n = of_char c :: nat in if 97 \<le> n \<and> n \<le> 122 then char_of (n - 32) else c) # cs)"

definition setCondition :: "string \<Rightarrow> Condition \<Rightarrow> workspaceConditions \<Rightarrow> workspaceConditions" where
  "setCondition conditionType dwCondition c = c\<lparr>wc_conditions := AList.update conditionType dwCondition (wc_conditions c)\<rparr>"

definition setConditionTrueWithReason :: "string \<Rightarrow> string \<Rightarrow> string \<Rightarrow> workspaceConditions \<Rightarrow> workspaceConditions" where
  "setConditionTrueWithReason conditionType msg reason c =
     setCondition conditionType
       \<lparr>cond_Type = [], cond_Status = ConditionTrue, cond_Time = 0, cond_Message = capitalizeMessage msg, cond_Reason = reason\<rparr> c"

definition setConditionTrue :: "string \<Rightarrow> string \<Rightarrow> workspaceConditions \<Rightarrow> workspaceConditions" where
  "setConditionTrue conditionType msg c = setConditionTrueWithReason conditionType msg [] c"

definition setConditionFalse :: "string \<Rightarrow> string \<Rightarrow> workspaceConditions \<Rightarrow> workspaceConditions" where
  "setConditionFalse conditionType msg c =
     setCondition conditionType
       \<lparr>cond_Type = [], cond_Status = ConditionFalse, cond_Time = 0, cond_Message = msg, cond_Reason = []\<rparr> c"

definition addWarningWithReason :: "string \<Rightarrow> string \<Rightarrow> workspaceConditions \<Rightarrow> workspaceConditions" where
  "addWarningWithReason msg reason c =
     c\<lparr>wc_warnings := wc_warnings c @
       [\<lparr>cond_Type = [], cond_Status = ConditionTrue, cond_Time = 0, cond_Message = msg, cond_Reason = reason\<rparr>]\<rparr>"

definition addWarning :: "string \<Rightarrow> workspaceConditions \<Rightarrow> workspaceConditions" where
  "addWarning msg c = addWarningWithReason msg [] c"

definition getFirstFalse :: "workspaceConditions \<Rightarrow> Condition option" where
  "getFirstFalse c =
     Option.bind (find (\<lambda>t. map_option cond_Status (map_of (wc_conditions c) t) = Some ConditionFalse) conditionOrder)
       (map_of (wc_conditions c))"

definition getLastTrue :: "workspaceConditions \<Rightarrow> Condition option" where
  "getLastTrue c =
     fold (\<lambda>t latestCondition.
       case map_of (wc_conditions c) t of
         Some condition \<Rightarrow> if cond_Status condition = ConditionTrue then Some condition else latestCondition
       | None \<Rightarrow> latestCondition) conditionOrder None"

fun index_in :: "string \<Rightarrow> string list \<Rightarrow> int \<Rightarrow> int" where
  "index_in x [] i = -1"
| "index_in x (y # ys) i = (if y = x then i else index_in x ys (i + 1))"

definition getConditionIndexInOrder :: "string \<Rightarrow> int" where
  "getConditionIndexInOrder condType = index_in condType conditionOrder 0"

section \<open>Synchronising conditions\<close>

text \<open>The condition on the cluster, updated where the observed one differs.\<close>

definition update_condition :: "int \<Rightarrow> Condition \<Rightarrow> Condition \<Rightarrow> Condition" where
  "update_condition now workspaceCondition currCondition =
     (if cond_Status workspaceCondition \<noteq> cond_Status currCondition \<or> cond_Message workspaceCondition \<noteq> cond_Message currCondition
         \<or> cond_Reason workspaceCondition \<noteq> cond_Reason currCondition
      then workspaceCondition\<lparr>cond_Time := now, cond_Status := cond_Status currCondition,
             cond_Message := cond_Message currCondition, cond_Reason := cond_Reason currCondition\<rparr>
      else workspaceCondition)"

definition sync_existing :: "int \<Rightarrow> (string \<times> Condition) list \<Rightarrow> Condition \<Rightarrow> Condition" where
  "sync_existing now conditions workspaceCondition =
     (case map_of conditions (cond_Type workspaceCondition) of
        None \<Rightarrow>
          if cond_Status workspaceCondition = ConditionUnknown then workspaceCondition
          else workspaceCondition\<lparr>cond_Time := now, cond_Status := ConditionUnknown, cond_Message := [], cond_Reason := []\<rparr>
      | Some currCondition \<Rightarrow> update_condition now workspaceCondition currCondition)"

definition sync_warning :: "int \<Rightarrow> (string \<rightharpoonup> Condition) \<Rightarrow> Condition \<Rightarrow> Condition" where
  "sync_warning now existingWarnings warningCond =
     (case existingWarnings (cond_Message warningCond) of
        Some existingWarning \<Rightarrow>
          if cond_Status existingWarning \<noteq> cond_Status warningCond \<or> cond_Reason existingWarning \<noteq> cond_Reason warningCond
          then existingWarning\<lparr>cond_Time := now, cond_Status := cond_Status warningCond, cond_Reason := cond_Reason warningCond\<rparr>
          else existingWarning
      | None \<Rightarrow> \<lparr>cond_Type = DevWorkspaceWarning, cond_Status = ConditionTrue, cond_Time = now,
                 cond_Message = cond_Message warningCond, cond_Reason = cond_Reason warningCond\<rparr>)"

definition is_warning :: "Condition \<Rightarrow> bool" where
  "is_warning c \<longleftrightarrow> cond_Type c = DevWorkspaceWarning"

text \<open>The last warning of the list with a message, as the loop that fills the map leaves it.\<close>

definition existing_warnings :: "Condition list \<Rightarrow> string \<rightharpoonup> Condition" where
  "existing_warnings cs = map_of (rev (map (\<lambda>c. (cond_Message c, c)) (filter is_warning cs)))"

definition condition_key :: "Condition \<Rightarrow> int \<times> string" where
  "condition_key c = (getConditionIndexInOrder (cond_Type c), cond_Message c)"

definition new_condition :: "int \<Rightarrow> string \<times> Condition \<Rightarrow> Condition" where
  "new_condition now p = (case p of (condType, cond) \<Rightarrow>
     \<lparr>cond_Type = condType, cond_Status = cond_Status cond, cond_Time = now,
      cond_Message = cond_Message cond, cond_Reason = cond_Reason cond\<rparr>)"

text \<open>
  \<^verbatim>\<open>sort.SliceStable\<close> with this comparison is the stable sort by index and message; \<open>iter\<close> is the
  order in which the map of observed conditions is visited.
\<close>

definition syncConditions ::
  "((string \<times> Condition) list \<Rightarrow> (string \<times> Condition) list) \<Rightarrow> int \<Rightarrow> workspaceConditions \<Rightarrow> Condition list \<Rightarrow> Condition list" where
  "syncConditions iter now current workspaceConditions =
     (let existing = [c \<leftarrow> workspaceConditions. \<not> is_warning c];
          updated = map (sync_existing now (wc_conditions current)) existing;
          added = map (new_condition now)
            [p \<leftarrow> iter (wc_conditions current). fst p \<notin> cond_Type ` set existing];
          warnings = map (sync_warning now (existing_warnings workspaceConditions)) (wc_warnings current)
      in sort_key condition_key (updated @ added @ warnings))"

section \<open>Synchronising twice changes nothing\<close>

lemma update_condition_type [simp]: "cond_Type (update_condition now c d) = cond_Type c"
  by (simp add: update_condition_def)

lemma sync_existing_type [simp]: "cond_Type (sync_existing now m c) = cond_Type c"
  by (simp add: sync_existing_def split: option.split)

lemma update_condition_same:
  "update_condition now' (update_condition now c d) d = update_condition now c d"
  by (simp add: update_condition_def)

lemma sync_existing_same: "sync_existing now' m (sync_existing now m c) = sync_existing now m c"
  by (cases "map_of m (cond_Type c)") (simp_all add: sync_existing_def update_condition_same)

text \<open>Observed conditions as the controller builds them: no warnings among the typed conditions, every
  type once, and warnings that are true and give no reason.\<close>

definition conditions_ok :: "workspaceConditions \<Rightarrow> bool" where
  "conditions_ok c \<longleftrightarrow> distinct (map fst (wc_conditions c)) \<and> DevWorkspaceWarning \<notin> fst ` set (wc_conditions c) \<and>
     (\<forall>w \<in> set (wc_warnings c). cond_Status w = ConditionTrue \<and> cond_Reason w = [])"

lemma no_conditions_ok: "conditions_ok no_conditions"
  by (simp add: conditions_ok_def no_conditions_def)

lemma setCondition_ok: "conditions_ok c \<Longrightarrow> t \<noteq> DevWorkspaceWarning \<Longrightarrow> conditions_ok (setCondition t d c)"
  by (auto simp: conditions_ok_def setCondition_def distinct_update dom_update)

lemma set_conditions_ok:
  "conditions_ok c \<Longrightarrow> t \<noteq> DevWorkspaceWarning \<Longrightarrow> conditions_ok (setConditionTrueWithReason t m r c)"
  "conditions_ok c \<Longrightarrow> t \<noteq> DevWorkspaceWarning \<Longrightarrow> conditions_ok (setConditionTrue t m c)"
  "conditions_ok c \<Longrightarrow> t \<noteq> DevWorkspaceWarning \<Longrightarrow> conditions_ok (setConditionFalse t m c)"
  by (simp_all add: setConditionTrue_def setConditionTrueWithReason_def setConditionFalse_def setCondition_ok)

lemma addWarning_ok: "conditions_ok c \<Longrightarrow> conditions_ok (addWarning m c)"
  by (auto simp: conditions_ok_def addWarning_def addWarningWithReason_def)

lemma sort_key_partition:
  assumes "\<forall>x \<in> set xs. \<not> P x" "\<forall>y \<in> set ys. P y"
  shows "sort_key f (filter (\<lambda>x. \<not> P x) (sort_key f (xs @ ys)) @ ys) = sort_key f (xs @ ys)"
proof (rule properties_for_sort_key)
  have none: "filter (\<lambda>x. \<not> P x) ys = []" using assms(2) by (simp add: filter_empty_conv)
  have all: "filter (\<lambda>x. \<not> P x) xs = xs" using assms(1) by simp
  have "mset (filter (\<lambda>x. \<not> P x) (sort_key f (xs @ ys))) = mset (filter (\<lambda>x. \<not> P x) (xs @ ys))"
    by (simp add: mset_filter)
  then show "mset (sort_key f (xs @ ys)) = mset (filter (\<lambda>x. \<not> P x) (sort_key f (xs @ ys)) @ ys)"
    by (simp add: none all)
  show "sorted (map f (sort_key f (xs @ ys)))" by simp
next
  fix k
  have none: "filter (\<lambda>x. \<not> P x) (filter Q ys) = []" for Q using assms(2) by (auto simp: filter_empty_conv)
  have all: "filter (\<lambda>x. \<not> P x) (filter Q xs) = filter Q xs" for Q
    using assms(1) by (intro filter_True) auto
  have stable: "filter (\<lambda>x. f k = f x) (sort_key f zs) = filter (\<lambda>x. f k = f x) zs" for zs
    using sort_key_stable [of f "f k" zs] by (simp add: eq_commute)
  have "filter (\<lambda>x. f k = f x) (filter (\<lambda>x. \<not> P x) (sort_key f (xs @ ys))) =
      filter (\<lambda>x. \<not> P x) (filter (\<lambda>x. f k = f x) (sort_key f (xs @ ys)))"
    by (simp add: conj_commute)
  also have "\<dots> = filter (\<lambda>x. f k = f x) xs"
    unfolding stable by (simp only: filter_append none all append_Nil2)
  finally show "filter (\<lambda>x. f k = f x) (sort_key f (xs @ ys)) =
      filter (\<lambda>x. f k = f x) (filter (\<lambda>x. \<not> P x) (sort_key f (xs @ ys)) @ ys)"
    unfolding stable by (simp only: filter_append)
qed

lemma filter_partition_sets:
  assumes "\<forall>x \<in> set xs. \<not> P x" "\<forall>y \<in> set ys. P y"
  shows "set (filter (\<lambda>x. \<not> P x) (sort_key f (xs @ ys))) = set xs" "set (filter P (sort_key f (xs @ ys))) = set ys"
  using assms by auto

lemma existing_warnings_Some:
  assumes "existing_warnings cs m = Some e"
  shows "e \<in> set cs \<and> is_warning e \<and> cond_Message e = m"
  using map_of_SomeD [OF assms [unfolded existing_warnings_def]] by auto

lemma existing_warnings_dom: "c \<in> set cs \<Longrightarrow> is_warning c \<Longrightarrow> existing_warnings cs (cond_Message c) \<noteq> None"
  unfolding existing_warnings_def by (auto simp: map_of_eq_None_iff image_image)

lemma sync_warning_shape:
  assumes "cond_Status w = ConditionTrue" "cond_Reason w = []"
  shows "is_warning (sync_warning now (existing_warnings cs) w)"
    "cond_Message (sync_warning now (existing_warnings cs) w) = cond_Message w"
    "cond_Status (sync_warning now (existing_warnings cs) w) = ConditionTrue"
    "cond_Reason (sync_warning now (existing_warnings cs) w) = []"
proof -
  let ?r = "sync_warning now (existing_warnings cs) w"
  have "is_warning ?r \<and> cond_Message ?r = cond_Message w \<and> cond_Status ?r = ConditionTrue \<and> cond_Reason ?r = []"
  proof (cases "existing_warnings cs (cond_Message w)")
    case None
    with assms show ?thesis by (simp add: sync_warning_def is_warning_def)
  next
    case (Some e)
    from existing_warnings_Some [OF Some] assms Some show ?thesis
      by (simp add: sync_warning_def is_warning_def)
  qed
  then show "is_warning ?r" "cond_Message ?r = cond_Message w" "cond_Status ?r = ConditionTrue" "cond_Reason ?r = []"
    by simp_all
qed

lemma sync_warning_message:
  assumes "cond_Status w = cond_Status v" "cond_Reason w = cond_Reason v" "cond_Message w = cond_Message v"
  shows "sync_warning now ew w = sync_warning now ew v"
  unfolding sync_warning_def assms ..

lemma warnings_resync:
  assumes ok: "\<forall>w \<in> set ws. cond_Status w = ConditionTrue \<and> cond_Reason w = []"
    and S: "set (filter is_warning S) = sync_warning now (existing_warnings cs) ` set ws"
  shows "map (sync_warning now' (existing_warnings S)) ws = map (sync_warning now (existing_warnings cs)) ws"
proof (rule map_cong [OF refl])
  fix w assume w: "w \<in> set ws"
  let ?g = "sync_warning now (existing_warnings cs)"
  note shape = sync_warning_shape [of w now cs]
  have "?g w \<in> set S" "is_warning (?g w)" using S w by auto
  then obtain e where e: "existing_warnings S (cond_Message w) = Some e"
    using existing_warnings_dom [of "?g w" S] shape ok w by auto
  then have "e \<in> ?g ` set ws" "cond_Message e = cond_Message w"
    using existing_warnings_Some [OF e] S by auto
  then obtain v where v: "v \<in> set ws" "e = ?g v" by blast
  then have "cond_Message v = cond_Message w"
    using sync_warning_shape [of v now cs] ok \<open>cond_Message e = cond_Message w\<close> by auto
  then have "e = ?g w"
    using v w ok sync_warning_message [of v w now "existing_warnings cs"] by simp
  with e shape ok w show "sync_warning now' (existing_warnings S) w = ?g w"
    by (simp add: sync_warning_def [of now'])
qed

lemma sync_added_same:
  "map_of m t = Some c \<Longrightarrow> sync_existing now' m (new_condition now (t, c)) = new_condition now (t, c)"
  by (simp add: sync_existing_def new_condition_def update_condition_def)

text \<open>Synchronising the same observations a second time leaves the conditions exactly as they
  are, whatever has become of the clock and of the iteration order of maps: transition times are
  kept, nothing is reordered, so an unchanged workspace is not written again and again.\<close>

theorem syncConditions_idempotent:
  assumes ok: "conditions_ok current" and iter: "\<And>m. set (iter m) = set m" "\<And>m. set (iter' m) = set m"
  shows "syncConditions iter' now' current (syncConditions iter now current cs) = syncConditions iter now current cs"
proof -
  let ?m = "wc_conditions current" and ?ws = "wc_warnings current"
  let ?existing = "[c \<leftarrow> cs. \<not> is_warning c]"
  let ?U = "map (sync_existing now ?m) ?existing"
  let ?A = "map (new_condition now) [p \<leftarrow> iter ?m. fst p \<notin> cond_Type ` set ?existing]"
  let ?W = "map (sync_warning now (existing_warnings cs)) ?ws"
  let ?S = "sort_key condition_key ((?U @ ?A) @ ?W)"
  have S: "syncConditions iter now current cs = ?S"
    by (simp add: syncConditions_def Let_def)
  have oks: "\<forall>w \<in> set ?ws. cond_Status w = ConditionTrue \<and> cond_Reason w = []"
    and keys: "distinct (map fst ?m)" "DevWorkspaceWarning \<notin> fst ` set ?m"
    using ok by (auto simp: conditions_ok_def)
  have UA: "\<forall>x \<in> set (?U @ ?A). \<not> is_warning x"
  proof -
    have "(DevWorkspaceWarning, b) \<notin> set ?m" for b using keys(2) by force
    with iter(1) [of ?m] show ?thesis by (auto simp: is_warning_def new_condition_def)
  qed
  have W: "\<forall>y \<in> set ?W. is_warning y"
    using oks by (auto intro: sync_warning_shape)
  have setS: "set [c \<leftarrow> ?S. \<not> is_warning c] = set (?U @ ?A)" "set (filter is_warning ?S) = set ?W"
    by (rule filter_partition_sets [OF UA W])+
  have same: "sync_existing now' ?m x = x" if x: "x \<in> set (?U @ ?A)" for x
  proof -
    consider c where "x = sync_existing now ?m c" | t c where "x = new_condition now (t, c)" "(t, c) \<in> set ?m"
      using x iter(1) [of ?m] by auto
    then show ?thesis
      using keys(1) by cases (simp_all add: sync_existing_same sync_added_same)
  qed
  have updated: "map (sync_existing now' ?m) [c \<leftarrow> ?S. \<not> is_warning c] = [c \<leftarrow> ?S. \<not> is_warning c]"
    using same setS(1) by (intro map_idI) blast
  have "fst p \<in> cond_Type ` set (?U @ ?A)" if p: "p \<in> set ?m" for p
  proof (cases "fst p \<in> cond_Type ` set ?existing")
    case True
    then obtain c where c: "c \<in> set ?existing" "fst p = cond_Type c" by blast
    then have "sync_existing now ?m c \<in> set (?U @ ?A)" by auto
    moreover have "cond_Type (sync_existing now ?m c) = fst p" using c(2) by simp
    ultimately show ?thesis by (metis image_eqI)
  next
    case False
    with p iter(1) [of ?m] have "p \<in> set [p \<leftarrow> iter ?m. fst p \<notin> cond_Type ` set ?existing]" by simp
    then have "new_condition now p \<in> set ?A" unfolding set_map by (rule imageI)
    moreover have "cond_Type (new_condition now p) = fst p" by (cases p) (simp add: new_condition_def)
    ultimately show ?thesis by (metis UnI2 image_eqI set_append)
  qed
  then have added: "[p \<leftarrow> iter' ?m. fst p \<notin> cond_Type ` set [c \<leftarrow> ?S. \<not> is_warning c]] = []"
    unfolding setS(1) using iter(2) [of ?m] by (auto simp: filter_empty_conv)
  have warnings: "map (sync_warning now' (existing_warnings ?S)) ?ws = ?W"
    using setS(2) by (intro warnings_resync [OF oks]) simp
  have "syncConditions iter' now' current ?S = sort_key condition_key ([c \<leftarrow> ?S. \<not> is_warning c] @ ?W)"
    by (simp only: syncConditions_def Let_def updated added warnings list.map append_Nil)
  also have "\<dots> = ?S"
    by (rule sort_key_partition [OF UA W])
  finally show ?thesis unfolding S .
qed

theorem syncConditions_idempotent_witness:
  "let current = addWarning ''low disk'' (setConditionTrue Started ''starting'' no_conditions);
       cs = syncConditions id 5 current [] in
   syncConditions rev 9 current cs = cs"
  unfolding Let_def
  by (rule syncConditions_idempotent)
     (simp_all add: addWarning_ok set_conditions_ok no_conditions_ok condition_types)

section \<open>What the conditions say\<close>

lemma sync_existing_reports:
  "case map_of m (cond_Type c) of
     None \<Rightarrow> cond_Status (sync_existing now m c) = ConditionUnknown
   | Some d \<Rightarrow> cond_Status (sync_existing now m c) = cond_Status d \<and> cond_Message (sync_existing now m c) = cond_Message d \<and>
       cond_Reason (sync_existing now m c) = cond_Reason d"
  by (cases "map_of m (cond_Type c)") (simp_all add: sync_existing_def update_condition_def)

lemma sync_times:
  "cond_Time (sync_existing now m c) = now \<or> sync_existing now m c = c"
  by (cases "map_of m (cond_Type c)") (simp_all add: sync_existing_def update_condition_def)

lemma sync_warning_times:
  "cond_Time (sync_warning now (existing_warnings cs) w) = now \<or> sync_warning now (existing_warnings cs) w \<in> set cs"
proof (cases "existing_warnings cs (cond_Message w)")
  case None
  then show ?thesis by (simp add: sync_warning_def)
next
  case (Some e)
  with existing_warnings_Some [OF Some] show ?thesis by (simp add: sync_warning_def)
qed

text \<open>After a synchronisation every condition other than a warning reports exactly what was observed
  for its type, or is unknown where nothing was observed; every observed type is reported; and a
  condition that is not literally one of the previous ones carries the current time.\<close>

theorem syncConditions_reports:
  assumes ok: "conditions_ok current" and iter: "\<And>m. set (iter m) = set m"
  shows "let result = syncConditions iter now current cs in (\<forall>c \<in> set result. \<not> is_warning c \<longrightarrow>
      (case map_of (wc_conditions current) (cond_Type c) of None \<Rightarrow> cond_Status c = ConditionUnknown
       | Some d \<Rightarrow> cond_Status c = cond_Status d \<and> cond_Message c = cond_Message d \<and> cond_Reason c = cond_Reason d)) \<and>
    fst ` set (wc_conditions current) \<subseteq> cond_Type ` set result \<and>
    (\<forall>c \<in> set result. cond_Time c = now \<or> c \<in> set cs)"
proof -
  define result where "result = syncConditions iter now current cs"
  let ?m = "wc_conditions current"
  let ?U = "sync_existing now ?m ` {c \<in> set cs. \<not> is_warning c}"
  let ?A = "new_condition now ` {p \<in> set ?m. fst p \<notin> cond_Type ` {c \<in> set cs. \<not> is_warning c}}"
  let ?W = "sync_warning now (existing_warnings cs) ` set (wc_warnings current)"
  have set: "set result = ?U \<union> ?A \<union> ?W"
    unfolding result_def syncConditions_def Let_def using iter [of ?m] by (simp add: Un_assoc)
  have W: "is_warning c" if "c \<in> ?W" for c
    using that ok by (auto simp: conditions_ok_def intro: sync_warning_shape(1))
  have 1: "case map_of ?m (cond_Type c) of None \<Rightarrow> cond_Status c = ConditionUnknown
       | Some d \<Rightarrow> cond_Status c = cond_Status d \<and> cond_Message c = cond_Message d \<and> cond_Reason c = cond_Reason d"
    if "c \<in> set result" "\<not> is_warning c" for c
  proof -
    have "c \<in> ?U \<union> ?A" using that W [of c] unfolding set by blast
    then consider e where "c = sync_existing now ?m e" | t d where "c = new_condition now (t, d)" "(t, d) \<in> set ?m"
      by auto
    then show ?thesis
    proof cases
      case 1
      show ?thesis
        unfolding 1 sync_existing_type using sync_existing_reports [where m = ?m and c = e and now = now] .
    next
      case 2
      then have "map_of ?m t = Some d" using ok by (simp add: conditions_ok_def)
      with 2 show ?thesis by (simp add: new_condition_def)
    qed
  qed
  have 2: "fst p \<in> cond_Type ` set result" if p: "p \<in> set ?m" for p
  proof (cases "fst p \<in> cond_Type ` {c \<in> set cs. \<not> is_warning c}")
    case True
    then obtain c where c: "c \<in> {c \<in> set cs. \<not> is_warning c}" "fst p = cond_Type c" by blast
    then have "sync_existing now ?m c \<in> set result" unfolding set by blast
    moreover have "cond_Type (sync_existing now ?m c) = fst p" using c(2) by simp
    ultimately show ?thesis by (metis image_eqI)
  next
    case False
    with p have "new_condition now p \<in> set result" unfolding set by blast
    moreover have "cond_Type (new_condition now p) = fst p" by (cases p) (simp add: new_condition_def)
    ultimately show ?thesis by (metis image_eqI)
  qed
  have 3: "cond_Time c = now \<or> c \<in> set cs" if "c \<in> set result" for c
  proof -
    consider e where "c = sync_existing now ?m e" "e \<in> set cs" | p where "c = new_condition now p"
      | w where "c = sync_warning now (existing_warnings cs) w"
      using \<open>c \<in> set result\<close> unfolding set by blast
    then show ?thesis
    proof cases
      case 1
      then show ?thesis using sync_times [where m = ?m and c = e and now = now] by auto
    next
      case 2
      then show ?thesis by (cases p) (simp add: new_condition_def)
    next
      case 3
      then show ?thesis using sync_warning_times [of now cs w] by simp
    qed
  qed
  show ?thesis unfolding Let_def result_def [symmetric] using 1 2 3 by blast
qed

theorem syncConditions_reports_witness:
  "list_all (\<lambda>c. cond_Time c = 5 \<or> c \<in> set []) (syncConditions id 5 (setConditionTrue Started ''starting'' no_conditions) [])"
proof -
  have "conditions_ok (setConditionTrue Started ''starting'' no_conditions)"
    by (rule set_conditions_ok(2) [OF no_conditions_ok]) (simp add: condition_types)
  from syncConditions_reports [OF this, of id 5 "[]"] show ?thesis by (simp add: Let_def list_all_iff)
qed

end
