(* ===== verification/DW_Errors.thy ===== *)
theory DW_Errors
  imports Go_Prelude
begin

text \<open>
  The error types of \<^verbatim>\<open>src/pkg/dwerrors/errors.go\<close>, which tell the workspace controller whether to
  retry, to fail the workspace or to warn, with the text they print, and any other error.
\<close>

datatype dw_error = RetryError string int | FailError string | WarningError string | OtherError string

fun error_text :: "dw_error \<Rightarrow> string" where
  "error_text (RetryError m _) = m"
| "error_text (FailError m) = m"
| "error_text (WarningError m) = m"
| "error_text (OtherError m) = m"

text \<open>The text of an error with a message and an underlying error.\<close>

definition wrapped_text :: "string \<Rightarrow> err \<Rightarrow> string" where
  "wrapped_text m e = (if m \<noteq> [] then m @ '': '' @ e else e)"

text \<open>The result of a function that may also panic, e.g. on a nil pointer of the configuration.\<close>

datatype 'a dw_result = DwOk 'a | DwErr dw_error | DwPanic

fun dw_bind :: "'a dw_result \<Rightarrow> ('a \<Rightarrow> 'b dw_result) \<Rightarrow> 'b dw_result" where
  "dw_bind (DwOk x) f = f x"
| "dw_bind (DwErr e) f = DwErr e"
| "dw_bind DwPanic f = DwPanic"

lemma dw_bind_Ok_iff: "dw_bind m f = DwOk y \<longleftrightarrow> (\<exists>x. m = DwOk x \<and> f x = DwOk y)"
  by (cases m) simp_all

text \<open>The error of another package, passed on or wrapped.\<close>

fun dw_plain :: "err + 'a \<Rightarrow> 'a dw_result" where
  "dw_plain (Inl e) = DwErr (OtherError e)"
| "dw_plain (Inr x) = DwOk x"

fun dw_fail :: "string \<Rightarrow> err + 'a \<Rightarrow> 'a dw_result" where
  "dw_fail m (Inl e) = DwErr (FailError (wrapped_text m e))"
| "dw_fail m (Inr x) = DwOk x"

lemma dw_plain_Ok_iff: "dw_plain r = DwOk x \<longleftrightarrow> r = Inr x"
  by (cases r) simp_all

lemma dw_fail_Ok_iff: "dw_fail m r = DwOk x \<longleftrightarrow> r = Inr x"
  by (cases r) simp_all

lemmas dw_results = dw_bind_Ok_iff dw_plain_Ok_iff dw_fail_Ok_iff

end
