(* ===== verification/Workspace_Controller.thy ===== *)
theory Workspace_Controller
  imports Conditions DW_Errors
begin

text \<open>
  The controller of a workspace: \<^verbatim>\<open>src/controllers/workspace/devworkspace_controller.go\<close>,
  \<^verbatim>\<open>status.go\<close>, \<^verbatim>\<open>cleanup.go\<close> and \<^verbatim>\<open>validation.go\<close>.

  One reconcile is a function from the stored workspace and the answers of everything the
  controller asks during it (the API server, the provisioning packages, the clock) to the stored
  workspace afterwards and the result it returns.
\<close>

section \<open>Data\<close>

datatype Phase = NoPhase | PhaseStarting | PhaseRunning | PhaseStopping | PhaseStopped | PhaseFailing | PhaseFailed
  | PhaseError | PhaseTerminating

fun phase_name :: "Phase \<Rightarrow> string" where
  "phase_name NoPhase = []"
| "phase_name PhaseStarting = ''Starting''"
| "phase_name PhaseRunning = ''Running''"
| "phase_name PhaseStopping = ''Stopping''"
| "phase_name PhaseStopped = ''Stopped''"
| "phase_name PhaseFailing = ''Failing''"
| "phase_name PhaseFailed = ''Failed''"
| "phase_name PhaseError = ''Error''"
| "phase_name PhaseTerminating = ''Terminating''"

record WorkspaceStatus =
  ws_Id :: string
  ws_Conditions :: "Condition list"
  ws_MainUrl :: string
  ws_Phase :: Phase
  ws_Message :: string

record DevWorkspace =
  dw_UID :: string
  dw_Started :: bool  \<comment> \<open>\<^verbatim>\<open>spec.started\<close>\<close>
  dw_Deleted :: bool  \<comment> \<open>a deletion timestamp is set\<close>
  dw_Created :: int
  dw_Annotations :: "(string \<times> string) list"
  dw_Labels :: "(string \<times> string) list"
  dw_Finalizers :: "string list"
  dw_Status :: WorkspaceStatus

abbreviation dw_Phase :: "DevWorkspace \<Rightarrow> Phase" where "dw_Phase w \<equiv> ws_Phase (dw_Status w)"

record currentStatus =
  st_conditions :: workspaceConditions
  st_phase :: Phase

record Result =
  res_Requeue :: bool
  res_RequeueAfter :: int

definition no_result :: Result where "no_result = \<lparr>res_Requeue = False, res_RequeueAfter = 0\<rparr>"
definition requeue :: Result where "requeue = \<lparr>res_Requeue = True, res_RequeueAfter = 0\<rparr>"

datatype update_result = UpdateOk | UpdateConflict err | UpdateError err

fun update_err :: "update_result \<Rightarrow> err option" where
  "update_err UpdateOk = None"
| "update_err (UpdateConflict e) = Some e"
| "update_err (UpdateError e) = Some e"

datatype FailureReason = BadRequest | InfrastructureFailure | WorkspaceEngineFailure | UnknownReason

fun reason_name :: "FailureReason \<Rightarrow> string" where
  "reason_name BadRequest = ''BadRequest''"
| "reason_name InfrastructureFailure = ''InfrastructureFailure''"
| "reason_name WorkspaceEngineFailure = ''WorkspaceEngineFailure''"
| "reason_name UnknownReason = ''Unknown''"

abbreviation on_conditions :: "(workspaceConditions \<Rightarrow> workspaceConditions) \<Rightarrow> currentStatus \<Rightarrow> currentStatus" where
  "on_conditions f s \<equiv> s\<lparr>st_conditions := f (st_conditions s)\<rparr>"

section \<open>Status\<close>

definition getInfoMessage :: "DevWorkspace \<Rightarrow> currentStatus \<Rightarrow> string" where
  "getInfoMessage workspace status =
     (case map_of (wc_conditions (st_conditions status)) DevWorkspaceError of Some cond \<Rightarrow> cond_Message cond | None \<Rightarrow>
     (case map_of (wc_conditions (st_conditions status)) FailedStart of Some cond \<Rightarrow> cond_Message cond | None \<Rightarrow>
      if dw_Phase workspace = PhaseRunning then
        (if ws_MainUrl (dw_Status workspace) = [] then ''Workspace is running'' else ws_MainUrl (dw_Status workspace))
      else if dw_Phase workspace = PhaseStopped \<or> dw_Phase workspace = PhaseStopping then phase_name (dw_Phase workspace)
      else case getFirstFalse (st_conditions status) of Some cond \<Rightarrow> cond_Message cond | None \<Rightarrow>
        (case getLastTrue (st_conditions status) of Some cond \<Rightarrow> cond_Message cond | None \<Rightarrow> [])))"

text \<open>The status that a reconcile wants the workspace to have.\<close>

definition desired_status ::
  "((string \<times> Condition) list \<Rightarrow> (string \<times> Condition) list) \<Rightarrow> int \<Rightarrow> currentStatus \<Rightarrow> DevWorkspace \<Rightarrow> WorkspaceStatus" where
  "desired_status iter now status workspace =
     (let s = (dw_Status workspace)\<lparr>
            ws_Conditions := syncConditions iter now (st_conditions status) (ws_Conditions (dw_Status workspace)),
            ws_Phase := st_phase status\<rparr>;
          infoMessage = getInfoMessage (workspace\<lparr>dw_Status := s\<rparr>) status;
          numWarnings = CountWarningConditions (ws_Conditions s);
          infoMessage = (if numWarnings > 0
                         then infoMessage @ '' ('' @ format_nat numWarnings @ '' warnings)'' else infoMessage)
      in s\<lparr>ws_Message := infoMessage\<rparr>)"

text \<open>
  The stored workspace afterwards and the result. The write is skipped where nothing changed; an
  error of the write becomes the reconcile's error unless it already has one or the write was a
  conflict.
\<close>

definition updateWorkspaceStatus ::
  "((string \<times> Condition) list \<Rightarrow> (string \<times> Condition) list) \<Rightarrow> int \<Rightarrow> update_result \<Rightarrow> DevWorkspace \<Rightarrow> currentStatus \<Rightarrow>
   Result \<Rightarrow> err option \<Rightarrow> DevWorkspace \<times> Result \<times> err option" where
  "updateWorkspaceStatus iter now update workspace status reconcileResult reconcileError =
     (let s = desired_status iter now status workspace in
      if s = dw_Status workspace then (workspace, reconcileResult, reconcileError)
      else case update of
          UpdateOk \<Rightarrow> (workspace\<lparr>dw_Status := s\<rparr>, reconcileResult, reconcileError)
        | UpdateConflict _ \<Rightarrow> (workspace, reconcileResult, reconcileError)
        | UpdateError e \<Rightarrow> (workspace, reconcileResult, if reconcileError = None then Some e else reconcileError))"

definition last_transition :: "Condition list \<Rightarrow> int" where
  "last_transition conditions =
     fold (\<lambda>condition lastUpdateTime. if cond_Time condition > lastUpdateTime then cond_Time condition else lastUpdateTime) conditions 0"

definition fmtStartTimeoutMessage :: "string \<Rightarrow> DevWorkspace \<Rightarrow> err" where
  "fmtStartTimeoutMessage progressTimeout workspace =
     (let status = workspaceConditionsFromClusterObject (ws_Conditions (dw_Status workspace));
          after = [CHR 0x27] @ '' for longer than timeout ('' @ progressTimeout @ '')'' in
      case getFirstFalse status of
        Some c \<Rightarrow> ''DevWorkspace failed to progress past step '' @ [CHR 0x27] @ cond_Message c @ after
      | None \<Rightarrow> (case getLastTrue status of
          Some c \<Rightarrow> ''DevWorkspace failed to progress past step '' @ [CHR 0x27] @ cond_Message c @ after
        | None \<Rightarrow> ''DevWorkspace failed to progress past phase '' @ [CHR 0x27] @ phase_name (dw_Phase workspace) @ after))"

text \<open>\<open>duration\<close> is \<^verbatim>\<open>time.ParseDuration\<close>, in nanoseconds.\<close>

definition checkForStartTimeout :: "(string \<Rightarrow> err + int) \<Rightarrow> string \<Rightarrow> int \<Rightarrow> DevWorkspace \<Rightarrow> err option" where
  "checkForStartTimeout duration progressTimeout now workspace =
     (if dw_Phase workspace \<noteq> PhaseStarting then None
      else case duration progressTimeout of
        Inl e \<Rightarrow> Some (''invalid duration specified for timeout: '' @ e)
      | Inr timeout \<Rightarrow>
          let lastUpdateTime = last_transition (ws_Conditions (dw_Status workspace)) in
          if lastUpdateTime \<noteq> 0 \<and> lastUpdateTime + timeout < now
          then Some (fmtStartTimeoutMessage progressTimeout workspace) else None)"

definition checkForFailingTimeout :: "(string \<Rightarrow> err + int) \<Rightarrow> string \<Rightarrow> int \<Rightarrow> DevWorkspace \<Rightarrow> err + bool" where
  "checkForFailingTimeout duration progressTimeout now workspace =
     (if dw_Phase workspace \<noteq> PhaseFailing then Inr False
      else case duration progressTimeout of
        Inl e \<Rightarrow> Inl (''invalid duration specified for timeout: '' @ e)
      | Inr timeout \<Rightarrow>
          let failedTime = fold (\<lambda>condition failedTime.
                if cond_Type condition = FailedStart then cond_Time condition else failedTime)
                (ws_Conditions (dw_Status workspace)) 0
          in Inr (failedTime \<noteq> 0 \<and> failedTime + timeout < now))"

text \<open>
  The endpoints that the routing exposes, by machine; \<open>ee_Type\<close> is the string attribute
  \<^verbatim>\<open>type\<close> of the endpoint, empty where it is absent. The list is the map in the order
  in which it is visited.
\<close>

record ExposedEndpoint =
  ee_Name :: string
  ee_Url :: string
  ee_Type :: string

definition MainEndpointType :: string where "MainEndpointType = ''main''"

fun first_main :: "ExposedEndpoint list \<Rightarrow> string option" where
  "first_main [] = None"
| "first_main (endpoint # endpoints) = (if ee_Type endpoint = MainEndpointType then Some (ee_Url endpoint) else first_main endpoints)"

fun getMainUrl :: "(string \<times> ExposedEndpoint list) list \<Rightarrow> string" where
  "getMainUrl [] = []"
| "getMainUrl ((_, endpoints) # exposedEndpoints) =
     (case first_main endpoints of Some url \<Rightarrow> url | None \<Rightarrow> getMainUrl exposedEndpoints)"

section \<open>Errors\<close>

definition failWorkspace :: "bool \<Rightarrow> string \<Rightarrow> FailureReason \<Rightarrow> currentStatus \<Rightarrow> Result \<times> currentStatus" where
  "failWorkspace started msg reason status =
     (if started then requeue else no_result,
      (on_conditions (setConditionTrueWithReason FailedStart msg (reason_name reason)) status)\<lparr>st_phase := PhaseFailing\<rparr>)"

text \<open>Whether to return, with what, and the status; \<open>reason\<close> is a parameter of the Go function.\<close>

definition checkDWError ::
  "bool \<Rightarrow> dw_error option \<Rightarrow> string \<Rightarrow> FailureReason \<Rightarrow> currentStatus \<Rightarrow> (Result \<times> err option) option \<times> currentStatus" where
  "checkDWError started error failHint reason status =
     (case error of
        None \<Rightarrow> (None, status)
      | Some (RetryError m after) \<Rightarrow> (Some (\<lparr>res_Requeue = True, res_RequeueAfter = after\<rparr>, None), status)
      | Some (FailError m) \<Rightarrow>
          (let (res, status') = failWorkspace started (failHint @ '': '' @ m) InfrastructureFailure status
           in (Some (res, None), status'))
      | Some (WarningError m) \<Rightarrow> (None, on_conditions (addWarning m) status)
      | Some (OtherError m) \<Rightarrow> (Some (no_result, Some m), status))"

section \<open>Stopping\<close>

text \<open>An object found by the workspace's label: its name and the identities of its owners.\<close>

record labelled_object =
  lo_Name :: string
  lo_Owners :: "string list"

datatype delete_result = DeleteOk | DeleteNotFound | DeleteError err

text \<open>The inner function \<^verbatim>\<open>deleteObj\<close>: the error, and whether the object is gone afterwards.\<close>

definition deleteObj :: "(labelled_object \<Rightarrow> delete_result) \<Rightarrow> string \<Rightarrow> labelled_object \<Rightarrow> err option \<times> bool" where
  "deleteObj del uid obj =
     (case lo_Owners obj of
        [owner] \<Rightarrow>
          if owner \<noteq> uid then (None, False)
          else (case del obj of DeleteOk \<Rightarrow> (None, True) | DeleteNotFound \<Rightarrow> (None, True) | DeleteError e \<Rightarrow> (Some e, False))
      | _ \<Rightarrow> (None, False))"

text \<open>One of the four loops, with the objects that are left and the result so far.\<close>

fun delete_loop ::
  "(labelled_object \<Rightarrow> delete_result) \<Rightarrow> string \<Rightarrow> labelled_object list \<Rightarrow> bool \<Rightarrow> labelled_object list \<times> (err + bool)" where
  "delete_loop del uid [] didDelete = ([], Inr didDelete)"
| "delete_loop del uid (obj # rest) didDelete =
     (case deleteObj del uid obj of
        (Some e, _) \<Rightarrow> (obj # rest, Inl e)
      | (None, gone) \<Rightarrow>
          (let (left, res) = delete_loop del uid rest True in ((if gone then left else obj # left), res)))"

text \<open>
  The four kinds of objects one after the other; \<open>list_err\<close> says where a list call fails. The
  result is what is left of each list and whether to requeue.
\<close>

fun delete_kinds ::
  "(nat \<Rightarrow> err option) \<Rightarrow> (labelled_object \<Rightarrow> delete_result) \<Rightarrow> string \<Rightarrow> nat \<Rightarrow> labelled_object list list \<Rightarrow> bool \<Rightarrow>
   labelled_object list list \<times> (err + bool)" where
  "delete_kinds list_err del uid i [] didDelete = ([], Inr didDelete)"
| "delete_kinds list_err del uid i (kind # kinds) didDelete =
     (case list_err i of
        Some e \<Rightarrow> (kind # kinds, Inl e)
      | None \<Rightarrow>
          (case delete_loop del uid kind didDelete of
             (left, Inl e) \<Rightarrow> (left # kinds, Inl e)
           | (left, Inr didDelete') \<Rightarrow>
               (let (lefts, res) = delete_kinds list_err del uid (Suc i) kinds didDelete' in (left # lefts, res))))"

definition deleteWorkspaceOwnedObjects ::
  "(nat \<Rightarrow> err option) \<Rightarrow> (labelled_object \<Rightarrow> delete_result) \<Rightarrow> string \<Rightarrow> labelled_object list list \<Rightarrow>
   labelled_object list list \<times> (err + bool)" where
  "deleteWorkspaceOwnedObjects list_err del uid kinds = delete_kinds list_err del uid 0 kinds False"

text \<open>What belongs to the workspace on the cluster, as far as stopping it is concerned.\<close>

record cluster =
  cl_Objects :: "labelled_object list list"  \<comment> \<open>deployments, config maps, secrets, routings by label\<close>
  cl_Routing :: "(string \<times> string) list option option"  \<comment> \<open>its annotations (nil or a map), if it exists\<close>
  cl_Deployment :: "(int option \<times> int) option"  \<comment> \<open>\<^verbatim>\<open>spec.replicas\<close> and \<^verbatim>\<open>status.replicas\<close>, if it exists\<close>

text \<open>How the API server answers the calls of a stop.\<close>

record stop_api =
  sa_list :: "nat \<Rightarrow> err option"
  sa_delete :: "labelled_object \<Rightarrow> delete_result"
  sa_getRouting :: "err option"
  sa_updateRouting :: update_result
  sa_getDeployment :: "err option"
  sa_scale :: update_result

text \<open>The update of the routing: nothing to do, done, or left for the next reconcile.\<close>

definition stop_routing :: "stop_api \<Rightarrow> cluster \<Rightarrow> cluster \<times> (err + bool) option" where
  "stop_routing api cl =
     (case cl_Routing cl of
        Some (Some annotations) \<Rightarrow>
          if map_of annotations DevWorkspaceStartedStatusAnnotation \<noteq> Some ''false'' then
            (case sa_updateRouting api of
               UpdateOk \<Rightarrow> (cl\<lparr>cl_Routing := Some (Some (AList.update DevWorkspaceStartedStatusAnnotation ''false'' annotations))\<rparr>, None)
             | UpdateConflict _ \<Rightarrow> (cl, Some (Inr False))
             | UpdateError e \<Rightarrow> (cl, Some (Inl e)))
          else (cl, None)
      | _ \<Rightarrow> (cl, None))"

definition doStop :: "stop_api \<Rightarrow> bool \<Rightarrow> string \<Rightarrow> cluster \<Rightarrow> cluster \<times> (err + bool)" where
  "doStop api cleanupOnStop uid cl =
     (if cleanupOnStop then
        (case deleteWorkspaceOwnedObjects (sa_list api) (sa_delete api) uid (cl_Objects cl) of
           (left, Inl e) \<Rightarrow> (cl\<lparr>cl_Objects := left\<rparr>, Inl e)
         | (left, Inr again) \<Rightarrow> (cl\<lparr>cl_Objects := left\<rparr>, Inr (\<not> again)))
      else case sa_getRouting api of
        Some e \<Rightarrow> (cl, Inl e)
      | None \<Rightarrow>
      (case stop_routing api cl of
         (cl1, Some res) \<Rightarrow> (cl1, res)
       | (cl1, None) \<Rightarrow>
      (case sa_getDeployment api of
         Some e \<Rightarrow> (cl1, Inl e)
       | None \<Rightarrow>
      (case cl_Deployment cl1 of
         None \<Rightarrow> (cl1, Inr True)
       | Some (replicas, statusReplicas) \<Rightarrow>
           if (case replicas of None \<Rightarrow> True | Some n \<Rightarrow> n > 0) then
             (case sa_scale api of
                UpdateOk \<Rightarrow> (cl1\<lparr>cl_Deployment := Some (Some 0, statusReplicas)\<rparr>, Inr False)
              | UpdateConflict _ \<Rightarrow> (cl1, Inr False)
              | UpdateError e \<Rightarrow> (cl1, Inl e))
           else (cl1, Inr (statusReplicas = 0))))))"

definition stop_status :: "DevWorkspace \<Rightarrow> currentStatus" where
  "stop_status workspace =
     (let status = \<lparr>st_conditions = no_conditions, st_phase = PhaseStopping\<rparr> in
      if dw_Phase workspace = PhaseFailing \<or> dw_Phase workspace = PhaseFailed then
        let status = status\<lparr>st_phase := dw_Phase workspace\<rparr> in
        (case GetConditionByType (ws_Conditions (dw_Status workspace)) FailedStart of
           None \<Rightarrow> status
         | Some failedCondition \<Rightarrow> on_conditions (setCondition FailedStart failedCondition) status)
      else status)"

definition stopped_status :: "currentStatus \<Rightarrow> currentStatus" where
  "stopped_status status =
     (if st_phase status = PhaseFailing \<or> st_phase status = PhaseFailed
      then (on_conditions (setConditionFalse Started ''Workspace stopped due to error'') status)\<lparr>st_phase := PhaseFailed\<rparr>
      else (on_conditions (setConditionFalse Started ''Workspace is stopped'') status)\<lparr>st_phase := PhaseStopped\<rparr>)"

definition stopWorkspace ::
  "((string \<times> Condition) list \<Rightarrow> (string \<times> Condition) list) \<Rightarrow> int \<Rightarrow> update_result \<Rightarrow> stop_api \<Rightarrow> bool \<Rightarrow>
   DevWorkspace \<Rightarrow> cluster \<Rightarrow> cluster \<times> DevWorkspace \<times> Result \<times> err option" where
  "stopWorkspace iter now update api cleanupOnStop workspace cl =
     (let status = stop_status workspace in
      case doStop api cleanupOnStop (dw_UID workspace) cl of
        (cl', Inl e) \<Rightarrow> (cl', workspace, no_result, Some e)
      | (cl', Inr stopped) \<Rightarrow>
          (cl', updateWorkspaceStatus iter now update workspace
                  (if stopped then stopped_status status else status) no_result None))"

end
