(* ===== verification/Finalize.thy ===== *)
theory Finalize
  imports Workspace_Controller
begin

text \<open>
  The deletion of a workspace, \<^verbatim>\<open>src/controllers/workspace/finalize.go\<close>: one finalizer per
  reconcile, in the order of the list, each removed only once its clean-up is done. A workspace
  without finalizers is removed by the API server, which is the value \<open>None\<close>.
\<close>

section \<open>Definitions\<close>

definition StorageCleanupFinalizer :: string where
  "StorageCleanupFinalizer = ''storage.controller.devfile.io''"
definition ServiceAccountCleanupFinalizer :: string where
  "ServiceAccountCleanupFinalizer = ''serviceaccount.controller.devfile.io''"
definition RBACCleanupFinalizer :: string where
  "RBACCleanupFinalizer = ''rbac.controller.devfile.io''"

lemmas finalizer_defs = StorageCleanupFinalizer_def ServiceAccountCleanupFinalizer_def RBACCleanupFinalizer_def

text \<open>What the calls of a finalization answer.\<close>

record finalize_api =
  fa_deleteDeployment :: "err + bool"  \<comment> \<open>whether to wait for the deployment\<close>
  fa_terminating :: "err + bool"  \<comment> \<open>\<^verbatim>\<open>namespaceIsTerminating\<close>\<close>
  fa_provisioner :: "err option"
  fa_cleanupStorage :: "dw_error option"
  fa_finalizeRBAC :: "dw_error option"
  fa_finalizeServiceAccount :: "err + bool"  \<comment> \<open>whether to retry\<close>
  fa_update :: update_result  \<comment> \<open>the write without the finalizer\<close>

definition workspaceNeedsFinalize :: "DevWorkspace \<Rightarrow> bool" where
  "workspaceNeedsFinalize workspace \<longleftrightarrow>
     (\<exists>finalizer \<in> set (dw_Finalizers workspace).
        finalizer = StorageCleanupFinalizer \<or> finalizer = ServiceAccountCleanupFinalizer)"

text \<open>
  The state of a finalization: the workspace in memory, whether it was written without the
  finalizer, and the status so far.
\<close>

record fstate =
  fs_memory :: DevWorkspace
  fs_written :: bool
  fs_status :: currentStatus

type_synonym fresult = "fstate \<times> Result \<times> err option"

definition RemoveFinalizer :: "string \<Rightarrow> DevWorkspace \<Rightarrow> DevWorkspace" where
  "RemoveFinalizer finalizer workspace =
     workspace\<lparr>dw_Finalizers := filter (\<lambda>f. f \<noteq> finalizer) (dw_Finalizers workspace)\<rparr>"

text \<open>\<^verbatim>\<open>controllerutil.RemoveFinalizer(...); return reconcile.Result{}, r.Update(...)\<close>\<close>

definition clear_finalizer :: "finalize_api \<Rightarrow> string \<Rightarrow> fstate \<Rightarrow> fresult" where
  "clear_finalizer api finalizer s =
     (s\<lparr>fs_memory := RemoveFinalizer finalizer (fs_memory s), fs_written := fa_update api = UpdateOk\<rparr>,
      no_result, update_err (fa_update api))"

definition finalize_error :: "err \<Rightarrow> fstate \<Rightarrow> fresult" where
  "finalize_error e s =
     (s\<lparr>fs_status := (on_conditions (setConditionTrue DevWorkspaceError e) (fs_status s))\<lparr>st_phase := PhaseError\<rparr>\<rparr>,
      no_result, None)"

definition finalizeStorage :: "finalize_api \<Rightarrow> fstate \<Rightarrow> fresult" where
  "finalizeStorage api s =
     (case fa_deleteDeployment api of
        Inl e \<Rightarrow> (s, no_result, Some e)
      | Inr True \<Rightarrow> (s, requeue, None)
      | Inr False \<Rightarrow>
     (case fa_terminating api of
        Inl e \<Rightarrow> (s, no_result, Some e)
      | Inr True \<Rightarrow> clear_finalizer api StorageCleanupFinalizer s
      | Inr False \<Rightarrow>
     (case fa_provisioner api of
        Some e \<Rightarrow> finalize_error e s
      | None \<Rightarrow>
     (case fa_cleanupStorage api of
        None \<Rightarrow> clear_finalizer api StorageCleanupFinalizer s
      | Some (RetryError m after) \<Rightarrow> (s, \<lparr>res_Requeue = False, res_RequeueAfter = after\<rparr>, None)
      | Some (FailError m) \<Rightarrow> finalize_error m s
      | Some e \<Rightarrow> (s, no_result, Some (error_text e))))))"

definition finalizeRBAC :: "finalize_api \<Rightarrow> fstate \<Rightarrow> fresult" where
  "finalizeRBAC api s =
     (case fa_terminating api of
        Inl e \<Rightarrow> (s, no_result, Some e)
      | Inr True \<Rightarrow> clear_finalizer api RBACCleanupFinalizer s
      | Inr False \<Rightarrow>
     (case fa_finalizeRBAC api of
        None \<Rightarrow> clear_finalizer api RBACCleanupFinalizer s
      | Some (RetryError m after) \<Rightarrow> (s, requeue, None)
      | Some (FailError m) \<Rightarrow> finalize_error m s
      | Some e \<Rightarrow> (s, no_result, Some (error_text e))))"

definition finalizeServiceAccount :: "finalize_api \<Rightarrow> fstate \<Rightarrow> fresult" where
  "finalizeServiceAccount api s =
     (case fa_finalizeServiceAccount api of
        Inl e \<Rightarrow> finalize_error e s
      | Inr True \<Rightarrow> (s, requeue, None)
      | Inr False \<Rightarrow> clear_finalizer api ServiceAccountCleanupFinalizer s)"

text \<open>The loop over the finalizers returns at the first one that it knows.\<close>

fun finalize_loop :: "finalize_api \<Rightarrow> string list \<Rightarrow> fstate \<Rightarrow> fresult" where
  "finalize_loop api [] s = (s, no_result, None)"
| "finalize_loop api (finalizer # finalizers) s =
     (if finalizer = StorageCleanupFinalizer then finalizeStorage api s
      else if finalizer = ServiceAccountCleanupFinalizer then finalizeServiceAccount api s
      else if finalizer = RBACCleanupFinalizer then finalizeRBAC api s
      else finalize_loop api finalizers s)"

text \<open>
  What the cluster holds afterwards: a workspace without finalizers that was written is gone.
\<close>

definition stored_after :: "DevWorkspace \<Rightarrow> fstate \<Rightarrow> DevWorkspace option" where
  "stored_after w s =
     (if fs_written s then (if dw_Finalizers (fs_memory s) = [] then None else Some (fs_memory s)) else Some w)"

text \<open>The result of the deferred status update is dropped, as in \<^verbatim>\<open>Reconcile\<close>.\<close>

definition finalize ::
  "((string \<times> Condition) list \<Rightarrow> (string \<times> Condition) list) \<Rightarrow> int \<Rightarrow> update_result \<Rightarrow> finalize_api \<Rightarrow> DevWorkspace \<Rightarrow>
   DevWorkspace option \<times> Result \<times> err option" where
  "finalize iter now update api workspace =
     (let status = \<lparr>st_conditions = setConditionTrue Started ''Cleaning up resources for deletion'' no_conditions,
                    st_phase = PhaseTerminating\<rparr>;
          (s, res, e) = finalize_loop api (dw_Finalizers workspace)
                          \<lparr>fs_memory = workspace, fs_written = False, fs_status = status\<rparr>
      in if dw_Finalizers (fs_memory s) = [] then (stored_after workspace s, res, e)
         else
           let updated = fst (updateWorkspaceStatus iter now update (fs_memory s) (fs_status s) res e) in
           (map_option (\<lambda>w. if dw_Status updated = dw_Status (fs_memory s) then w else w\<lparr>dw_Status := dw_Status updated\<rparr>)
              (stored_after workspace s), res, e))"

end
