(* ===== verification/Reconcile.thy ===== *)
theory Reconcile
  imports Finalize
begin

text \<open>
  \<^verbatim>\<open>Reconcile\<close> of \<^verbatim>\<open>src/controllers/workspace/devworkspace_controller.go\<close> and the finalizers
  of \<^verbatim>\<open>finalize.go\<close>. The body of a start is a list of steps over the status that is being collected, the workspace
  in memory and the workspace stored on the cluster; a step either goes on or returns. What
  the provisioning packages answer is a record of parameters.
\<close>

section \<open>Answers\<close>

record answers =
  an_now :: int
  an_iter :: "(string \<times> Condition) list \<Rightarrow> (string \<times> Condition) list"
  an_duration :: "string \<Rightarrow> err + int"
  an_progressTimeout :: string
  an_configWarning :: "err option"  \<comment> \<open>\<^verbatim>\<open>ResolveConfigForWorkspace\<close> failed\<close>
  an_webhooks :: "err + int"  \<comment> \<open>\<^verbatim>\<open>webhook.GetWebhooksCreationTimestamp\<close>\<close>
  an_removeStopReason :: update_result
  an_flatten :: "err + string option"  \<comment> \<open>an error, or warnings about variables\<close>
  an_experimental :: bool
  an_needsSsh :: "err + bool"
  an_addSsh :: "err option"
  an_components :: "err option"
  an_provisioner :: "err option"
  an_home :: "err option"
  an_needsStorage :: bool
  an_addStorageFinalizer :: update_result
  an_containers :: "err option"
  an_env :: "err option"
  an_projects :: "err option"
  an_restore :: bool
  an_clone :: "err option"
  an_mergeInit :: "err option"
  an_homeInit :: "err option"
  an_tokens :: "err option"
  an_askPass :: "err option"
  an_deployment :: "err option"
  an_automount :: "dw_error option"
  an_storage :: "dw_error option"
  an_addRbacFinalizer :: update_result
  an_rbac :: "dw_error option"
  an_routing :: "dw_error option"
  an_routingMsg :: string
  an_endpoints :: "(string \<times> ExposedEndpoint list) list"  \<comment> \<open>in the order of the iteration\<close>
  an_updateMainUrl :: update_result
  an_metadata :: "dw_error option"
  an_saDisabled :: bool
  an_saName :: string
  an_routingAnnotations :: bool
  an_routingClass :: string
  an_sa :: "dw_error option"
  an_pullSecrets :: "dw_error option"
  an_hasPullSecrets :: bool
  an_hasKube :: bool
  an_kube :: "dw_error option"
  an_deploy :: "dw_error option"
  an_deployReason :: FailureReason
  an_url :: "err option"
  an_http :: "err + int"
  an_ignoredEvents :: string
  an_eventReason :: FailureReason
  an_updateStatus :: update_result
  an_startedAt :: string
  an_updateStartedAt :: update_result
  an_uuid :: "string \<Rightarrow> err + string"  \<comment> \<open>\<^verbatim>\<open>uuid.Parse\<close> and its canonical text\<close>
  an_ids :: "err + string list"  \<comment> \<open>the IDs of the workspaces in the namespace\<close>
  an_updateId :: update_result
  an_patchStop :: update_result
  an_removeStartedAt :: update_result
  an_cleanupOnStop :: bool
  an_stop :: stop_api
  an_updateStarting :: update_result
  an_get :: "err option"  \<comment> \<open>the workspace cannot be read\<close>
  an_finalize :: finalize_api

definition DevWorkspaceStopReasonAnnotation :: string where
  "DevWorkspaceStopReasonAnnotation = ''controller.devfile.io/stopped-by''"
definition DevWorkspaceDebugStartAnnotation :: string where
  "DevWorkspaceDebugStartAnnotation = ''controller.devfile.io/debug-start''"
definition DevWorkspaceStartedAtAnnotation :: string where
  "DevWorkspaceStartedAtAnnotation = ''controller.devfile.io/started-at''"
definition WorkspaceIdOverrideAnnotation :: string where
  "WorkspaceIdOverrideAnnotation = ''controller.devfile.io/devworkspace_id_override''"

section \<open>Steps\<close>

record rstate =
  rs_status :: currentStatus
  rs_memory :: DevWorkspace
  rs_stored :: DevWorkspace

type_synonym step = "rstate \<Rightarrow> rstate \<times> (Result \<times> err option) option"

fun run_steps :: "step list \<Rightarrow> rstate \<Rightarrow> rstate \<times> Result \<times> err option" where
  "run_steps [] s = (s, no_result, None)"
| "run_steps (st # sts) s = (case st s of (s', Some r) \<Rightarrow> (s', r) | (s', None) \<Rightarrow> run_steps sts s')"

text \<open>\<^verbatim>\<open>return r.failWorkspace(...), nil\<close> on an error, with the text before the error.\<close>

definition fail_step :: "string \<Rightarrow> FailureReason \<Rightarrow> err option \<Rightarrow> step" where
  "fail_step hint reason e s =
     (case e of None \<Rightarrow> (s, None)
      | Some m \<Rightarrow>
          (let (res, st) = failWorkspace (dw_Started (rs_memory s)) (hint @ m) reason (rs_status s)
           in (s\<lparr>rs_status := st\<rparr>, Some (res, None))))"

text \<open>\<^verbatim>\<open>if shouldReturn, ... := r.checkDWError(...); shouldReturn { ...; return ... }\<close>\<close>

definition dw_step ::
  "string \<Rightarrow> FailureReason \<Rightarrow> (workspaceConditions \<Rightarrow> workspaceConditions) \<Rightarrow> dw_error option \<Rightarrow> step" where
  "dw_step hint reason onReturn e s =
     (case checkDWError (dw_Started (rs_memory s)) e hint reason (rs_status s) of
        (None, st) \<Rightarrow> (s\<lparr>rs_status := st\<rparr>, None)
      | (Some r, st) \<Rightarrow> (s\<lparr>rs_status := on_conditions onReturn st\<rparr>, Some r))"

definition set_step :: "(workspaceConditions \<Rightarrow> workspaceConditions) \<Rightarrow> step" where
  "set_step f s = (s\<lparr>rs_status := on_conditions f (rs_status s)\<rparr>, None)"

definition stop_with :: "err option \<Rightarrow> step" where
  "stop_with e s = (case e of None \<Rightarrow> (s, None) | Some m \<Rightarrow> (s, Some (no_result, Some m)))"

text \<open>\<^verbatim>\<open>r.Update\<close> of the workspace in memory: a success stores everything but the status.\<close>

definition update_meta :: "update_result \<Rightarrow> rstate \<Rightarrow> rstate" where
  "update_meta u s =
     (case u of UpdateOk \<Rightarrow> s\<lparr>rs_stored := (rs_memory s)\<lparr>dw_Status := dw_Status (rs_stored s)\<rparr>\<rparr> | _ \<Rightarrow> s)"

definition finalizer_step :: "bool \<Rightarrow> string \<Rightarrow> update_result \<Rightarrow> step" where
  "finalizer_step needed finalizer u s =
     (if needed \<and> finalizer \<notin> set (dw_Finalizers (rs_memory s)) then
        let s = s\<lparr>rs_memory := (rs_memory s)\<lparr>dw_Finalizers := dw_Finalizers (rs_memory s) @ [finalizer]\<rparr>\<rparr> in
        stop_with (update_err u) (update_meta u s)
      else (s, None))"

definition validateCreatorLabel :: "err + int \<Rightarrow> DevWorkspace \<Rightarrow> string option" where
  "validateCreatorLabel webhooksTimestamp workspace =
     (if map_of (dw_Labels workspace) DevWorkspaceCreatorLabel = None
      then Some ''DevWorkspace was created without creator ID label. It must be recreated to resolve the issue''
      else case webhooksTimestamp of
        Inl _ \<Rightarrow> Some (''Could not read devworkspace webhooks on cluster. Contact an administrator '' @
                      ''to check logs and fix Operator installation.'')
      | Inr ts \<Rightarrow> if dw_Created workspace < ts
                 then Some ''DevWorkspace was created before current webhooks were installed and must be recreated to successfully start''
                 else None)"

definition creator_step :: "answers \<Rightarrow> step" where
  "creator_step a s =
     (if map_of (dw_Annotations (rs_memory s)) DevWorkspaceRestrictedAccessAnnotation = Some ''true''
      then fail_step [] WorkspaceEngineFailure (validateCreatorLabel (an_webhooks a) (rs_memory s)) s
      else (s, None))"

definition stop_reason_step :: "answers \<Rightarrow> step" where
  "stop_reason_step a s =
     (if map_of (dw_Annotations (rs_memory s)) DevWorkspaceStopReasonAnnotation \<noteq> None then
        let s = s\<lparr>rs_memory := (rs_memory s)\<lparr>dw_Annotations :=
                    AList.delete DevWorkspaceStopReasonAnnotation (dw_Annotations (rs_memory s))\<rparr>\<rparr> in
        (update_meta (an_removeStopReason a) s, Some (requeue, update_err (an_removeStopReason a)))
      else (s, None))"

definition warn_step :: "string \<Rightarrow> err option \<Rightarrow> step" where
  "warn_step hint e = (case e of None \<Rightarrow> set_step (\<lambda>c. c) | Some m \<Rightarrow> set_step (addWarning (hint @ m)))"

definition flatten_step :: "answers \<Rightarrow> step" where
  "flatten_step a =
     (case an_flatten a of
        Inl e \<Rightarrow> fail_step ''Error processing devfile: '' BadRequest (Some e)
      | Inr warnings \<Rightarrow> warn_step [] warnings)"

definition ssh_step :: "answers \<Rightarrow> step" where
  "ssh_step a =
     (if an_experimental a \<and> an_needsSsh a = Inr True
      then fail_step ''Failed to add ssh-agent initialization postStart event'' WorkspaceEngineFailure
             (map_option (\<lambda>_. []) (an_addSsh a))
      else (\<lambda>s. (s, None)))"

definition debug_step :: step where
  "debug_step s =
     (if map_of (dw_Annotations (rs_memory s)) DevWorkspaceDebugStartAnnotation = Some ''true''
      then set_step (setConditionTrue Started ''DevWorkspace is starting in debug mode'') s
      else (s, None))"

definition main_url_step :: "answers \<Rightarrow> step" where
  "main_url_step a s =
     (let mainUrl = getMainUrl (an_endpoints a) in
      if ws_MainUrl (dw_Status (rs_memory s)) = mainUrl then (s, None)
      else let s = s\<lparr>rs_memory := (rs_memory s)\<lparr>dw_Status := (dw_Status (rs_memory s))\<lparr>ws_MainUrl := mainUrl\<rparr>\<rparr>\<rparr> in
        case an_updateMainUrl a of
          UpdateOk \<Rightarrow> (s\<lparr>rs_stored := (rs_stored s)\<lparr>dw_Status := dw_Status (rs_memory s)\<rparr>\<rparr>, Some (requeue, None))
        | u \<Rightarrow> (s, Some (no_result, update_err u)))"

definition service_account_steps :: "answers \<Rightarrow> step list" where
  "service_account_steps a =
     (if an_saDisabled a then
        [fail_step [] BadRequest
           (if an_saName a = [] then Some ''Configured ServiceAccount name is required when ServiceAccount creation is disabled'' else None),
         fail_step [] BadRequest
           (if an_routingAnnotations a
            then Some (''Disabling ServiceAccount creation is incompatible with workspace routingClass '' @ an_routingClass a) else None),
         set_step (setConditionTrue ServiceAccountReady (''Using existing ServiceAccount '' @ an_saName a))]
      else
        [dw_step ''Error setting up DevWorkspace ServiceAccount'' InfrastructureFailure
           (setConditionFalse ServiceAccountReady ''Waiting for DevWorkspace ServiceAccount'') (an_sa a),
         set_step (setConditionTrue ServiceAccountReady ''DevWorkspace serviceaccount ready'')])"

definition kube_steps :: "answers \<Rightarrow> step list" where
  "kube_steps a =
     (if an_hasKube a then
        [dw_step ''Error provisioning workspace Kubernetes components'' InfrastructureFailure
           (setConditionFalse KubeComponentsReady ''Waiting for DevWorkspace Kubernetes components to be created on cluster'') (an_kube a),
         set_step (setConditionTrue KubeComponentsReady ''Kubernetes components ready'')]
      else [])"

text \<open>\<^verbatim>\<open>checkServerStatus\<close>: an error, or whether the server is ready.\<close>

definition checkServerStatus :: "answers \<Rightarrow> string \<Rightarrow> dw_error + bool" where
  "checkServerStatus a mainUrl =
     (if mainUrl = [] then Inr True
      else case an_url a of
        Some e \<Rightarrow> Inl (OtherError e)
      | None \<Rightarrow>
          (case an_http a of
             Inl e \<Rightarrow> Inl (RetryError (''Failed to check server status: '' @ e) 1000000000)
           | Inr statusCode \<Rightarrow> if statusCode div 100 = 4 then Inr True else Inr (statusCode div 100 = 2)))"

definition server_step :: "answers \<Rightarrow> step" where
  "server_step a s =
     (case checkServerStatus a (ws_MainUrl (dw_Status (rs_memory s))) of
        Inl e \<Rightarrow> dw_step ''Error checking server status'' InfrastructureFailure
                  (setConditionFalse Ready ''Waiting for workspace health check to become available'') (Some e) s
      | Inr True \<Rightarrow> (s, None)
      | Inr False \<Rightarrow>
          (fst (set_step (setConditionFalse Ready ''Waiting for editor to start'') s),
           Some (\<lparr>res_Requeue = False, res_RequeueAfter = 1000000000\<rparr>, None)))"

definition running_step :: step where
  "running_step s =
     (s\<lparr>rs_status := (on_conditions (setConditionTrue Ready []) (rs_status s))\<lparr>st_phase := PhaseRunning\<rparr>\<rparr>, Some (no_result, None))"

definition deployment_message :: "DevWorkspace \<Rightarrow> string" where
  "deployment_message workspace =
     (if map_of (dw_Annotations workspace) DevWorkspaceDebugStartAnnotation = Some ''true''
      then ''Debug mode: failed postStart commands will be trapped; inspect logs/exec to debug''
      else ''Waiting for workspace deployment'')"

text \<open>From the creator check to the pod additions: everything that only reads the devfile and the configuration.\<close>

definition prepare_steps :: "answers \<Rightarrow> step list" where
  "prepare_steps a =
     [creator_step a,
      stop_reason_step a,
      flatten_step a,
      ssh_step a,
      set_step (setConditionTrue DevWorkspaceResolved ''Resolved plugins and parents from DevWorkspace''),
      fail_step [] BadRequest (an_components a),
      fail_step ''Error provisioning storage: '' BadRequest (an_provisioner a),
      warn_step ''Info: unable to setup home persistence: '' (an_home a),
      finalizer_step (an_needsStorage a) StorageCleanupFinalizer (an_addStorageFinalizer a),
      debug_step,
      fail_step ''Error processing devfile: '' BadRequest (an_containers a),
      fail_step ''Failed to process workspace environment variables: '' BadRequest (an_env a),
      fail_step ''Invalid devfile: '' BadRequest (an_projects a),
      fail_step (if an_restore a then ''Failed to set up workspace-restore init container: ''
                 else ''Failed to set up project-clone init container: '') InfrastructureFailure (an_clone a),
      fail_step ''Failed to merge init containers: '' BadRequest (an_mergeInit a),
      fail_step ''Failed to configure init-persistent-home container: '' BadRequest (an_homeInit a),
      fail_step ''Failed to mount ServiceAccount tokens to workspace: '' BadRequest (an_tokens a),
      fail_step ''Failed to mount SSH askpass script to workspace: '' WorkspaceEngineFailure (an_askPass a)]"

text \<open>From the automount resources to the main URL: what has to exist before the deployment.\<close>

definition provision_steps :: "answers \<Rightarrow> DevWorkspace \<Rightarrow> step list" where
  "provision_steps a w =
     [stop_with (if dw_Phase w = PhaseRunning then an_deployment a else None),
      dw_step ''Failed to process automount resources'' BadRequest (\<lambda>c. c) (an_automount a),
      dw_step ''Error provisioning storage'' InfrastructureFailure
        (setConditionFalse StorageReady (''Provisioning storage: '' @ (case an_storage a of None \<Rightarrow> [] | Some e \<Rightarrow> error_text e))) (an_storage a),
      set_step (setConditionTrue StorageReady ''Storage ready''),
      finalizer_step True RBACCleanupFinalizer (an_addRbacFinalizer a),
      dw_step ''Error provisioning rbac'' InfrastructureFailure (\<lambda>c. c) (an_rbac a),
      dw_step ''Failed to set up networking for workspace'' InfrastructureFailure
        (setConditionFalse RoutingReady (if an_routingMsg a = [] then ''Preparing networking'' else an_routingMsg a)) (an_routing a),
      set_step (setConditionTrue RoutingReady ''Networking ready''),
      main_url_step a,
      dw_step ''Error provisioning metadata configmap'' InfrastructureFailure (\<lambda>c. c) (an_metadata a)]"

text \<open>From the service account to the health check.\<close>

definition deploy_steps :: "answers \<Rightarrow> DevWorkspace \<Rightarrow> step list" where
  "deploy_steps a w =
     service_account_steps a @
     [dw_step ''Error getting DevWorkspace image pull secrets'' InfrastructureFailure
        (setConditionFalse PullSecretsReady ''Waiting for DevWorkspace pull secrets'') (an_pullSecrets a),
      set_step (if an_hasPullSecrets a then setConditionTrue PullSecretsReady ''DevWorkspace secrets ready'' else (\<lambda>c. c))] @
     kube_steps a @
     [dw_step ''Error creating DevWorkspace deployment'' (an_deployReason a)
        (setConditionFalse DeploymentReady (deployment_message w)) (an_deploy a),
      set_step (setConditionTrue DeploymentReady ''DevWorkspace deployment ready''),
      server_step a]"

section \<open>One reconcile\<close>

text \<open>The check for the timeout in the deferred function, only where there is no error.\<close>

definition check_timeout :: "answers \<Rightarrow> rstate \<Rightarrow> Result \<Rightarrow> err option \<Rightarrow> rstate \<times> Result" where
  "check_timeout a s res e =
     (case (if e = None then checkForStartTimeout (an_duration a) (an_progressTimeout a) (an_now a) (rs_memory s) else None) of
        None \<Rightarrow> (s, res)
      | Some timeoutErr \<Rightarrow>
          let (r, st) =
            (if an_ignoredEvents a \<noteq> []
             then failWorkspace (dw_Started (rs_memory s)) (timeoutErr @ ''. Ignored events: '' @ an_ignoredEvents a) (an_eventReason a) (rs_status s)
             else failWorkspace (dw_Started (rs_memory s)) timeoutErr InfrastructureFailure (rs_status s))
          in (s\<lparr>rs_status := st\<rparr>, r))"

text \<open>The stored workspace after the status update of the deferred function.\<close>

definition write_status :: "answers \<Rightarrow> rstate \<Rightarrow> Result \<Rightarrow> err option \<Rightarrow> DevWorkspace" where
  "write_status a s res e =
     (let updated = fst (updateWorkspaceStatus (an_iter a) (an_now a) (an_updateStatus a) (rs_memory s) (rs_status s) res e)
      in if dw_Status updated = dw_Status (rs_memory s) then rs_stored s
         else (rs_stored s)\<lparr>dw_Status := dw_Status updated\<rparr>)"

definition syncStartedAtToCluster :: "update_result \<Rightarrow> string \<Rightarrow> DevWorkspace \<Rightarrow> DevWorkspace \<Rightarrow> DevWorkspace" where
  "syncStartedAtToCluster u time memory stored =
     (if map_of (dw_Annotations memory) DevWorkspaceStartedAtAnnotation = None \<and> u = UpdateOk
      then stored\<lparr>dw_Annotations := AList.update DevWorkspaceStartedAtAnnotation time (dw_Annotations memory),
                  dw_Finalizers := dw_Finalizers memory\<rparr>
      else stored)"

text \<open>The deferred function: the timeout, then the status and the annotation. Its own result is dropped.\<close>

definition deferred :: "answers \<Rightarrow> rstate \<times> Result \<times> err option \<Rightarrow> DevWorkspace \<times> Result \<times> err option" where
  "deferred a x =
     (let (s, res, e) = x;
          (s, res) = check_timeout a s res e;
          stored = write_status a s res e
      in (if st_phase (rs_status s) = PhaseRunning
          then syncStartedAtToCluster (an_updateStartedAt a) (an_startedAt a) (rs_memory s) stored else stored, res, e))"

definition start_workspace :: "answers \<Rightarrow> DevWorkspace \<Rightarrow> DevWorkspace \<times> Result \<times> err option" where
  "start_workspace a w =
     (let status = \<lparr>st_conditions = setConditionTrue Started ''DevWorkspace is starting''
                      (case an_configWarning a of None \<Rightarrow> no_conditions
                       | Some e \<Rightarrow> addWarning (''Error applying external DevWorkspace-Operator configuration: '' @ e) no_conditions),
                    st_phase = PhaseStarting\<rparr>
      in deferred a (run_steps (prepare_steps a @ provision_steps a w @ deploy_steps a w @ [running_step])
           \<lparr>rs_status = status, rs_memory = w, rs_stored = w\<rparr>))"

definition removeStartedAtFromCluster :: "update_result \<Rightarrow> DevWorkspace \<Rightarrow> DevWorkspace" where
  "removeStartedAtFromCluster u w =
     (if u = UpdateOk then w\<lparr>dw_Annotations := AList.delete DevWorkspaceStartedAtAnnotation (dw_Annotations w)\<rparr> else w)"

text \<open>The ID of a workspace, from its annotation or its UID.\<close>

definition getWorkspaceId :: "(string \<Rightarrow> err + string) \<Rightarrow> err + string list \<Rightarrow> DevWorkspace \<Rightarrow> err + string" where
  "getWorkspaceId uuid ids w =
     (case map_of (dw_Annotations w) WorkspaceIdOverrideAnnotation of
        Some (c # cs) \<Rightarrow>
          let idOverride = c # cs in
          if length idOverride > 25 then Inl ''maximum length for DevWorkspace ID override is 25 characters''
          else (case ids of
              Inl e \<Rightarrow> Inl (''failed to check DevWorkspace ID override: '' @ e)
            | Inr existing \<Rightarrow>
                if idOverride \<in> set existing then Inl ''DevWorkspace ID specified in override already exists in namespace''
                else Inr idOverride)
      | _ \<Rightarrow>
          (case uuid (dw_UID w) of
             Inl e \<Rightarrow> Inl e
           | Inr u \<Rightarrow> Inr (''workspace'' @ concat (take 3 (strings_split CHR 0x2D u)))))"

text \<open>A workspace that is not being deleted, with the cluster objects that a stop changes.\<close>

definition reconcile_live :: "answers \<Rightarrow> DevWorkspace \<Rightarrow> cluster \<Rightarrow> cluster \<times> DevWorkspace \<times> Result \<times> err option" where
  "reconcile_live a w cl =
     (if ws_Id (dw_Status w) = [] then
        (case getWorkspaceId (an_uuid a) (an_ids a) w of
           Inl e \<Rightarrow>
             (cl, (if an_updateId a = UpdateOk
                   then w\<lparr>dw_Status := (dw_Status w)\<lparr>ws_Phase := PhaseFailed, ws_Message := ''Failed to set DevWorkspace ID: '' @ e\<rparr>\<rparr> else w),
              no_result, update_err (an_updateId a))
         | Inr workspaceId \<Rightarrow>
             (cl, (if an_updateId a = UpdateOk then w\<lparr>dw_Status := (dw_Status w)\<lparr>ws_Id := workspaceId\<rparr>\<rparr> else w),
              requeue, update_err (an_updateId a)))
      else if dw_Phase w = PhaseFailing \<and> dw_Started w then
        (let wait = (if map_of (dw_Annotations w) DevWorkspaceDebugStartAnnotation = Some ''true''
                     then checkForFailingTimeout (an_duration a) (an_progressTimeout a) (an_now a) w else Inr True) in
         case wait of
           Inl e \<Rightarrow> (cl, w, no_result, Some e)
         | Inr False \<Rightarrow> (cl, w, no_result, None)
         | Inr True \<Rightarrow>
             (case an_patchStop a of
                UpdateOk \<Rightarrow> (cl, w\<lparr>dw_Started := False\<rparr>, requeue, None)
              | u \<Rightarrow> (cl, w, no_result, update_err u)))
      else if \<not> dw_Started w then
        stopWorkspace (an_iter a) (an_now a) (an_updateStatus a) (an_stop a) (an_cleanupOnStop a)
          (removeStartedAtFromCluster (an_removeStartedAt a) w) cl
      else if dw_Phase w \<noteq> PhaseStarting \<and> dw_Phase w \<noteq> PhaseRunning then
        (cl, (if an_updateStarting a = UpdateOk
              then w\<lparr>dw_Status := (dw_Status w)\<lparr>ws_Phase := PhaseStarting, ws_Message := ''Initializing DevWorkspace'',
                     ws_Conditions := [\<lparr>cond_Type = Started, cond_Status = ConditionTrue, cond_Time = an_now a,
                                        cond_Message = ''DevWorkspace is starting'', cond_Reason = []\<rparr>]\<rparr>\<rparr>
              else w), no_result, update_err (an_updateStarting a))
      else (cl, start_workspace a w))"

text \<open>The whole handler; a workspace that is gone is \<^const>\<open>None\<close>.\<close>

definition Reconcile :: "answers \<Rightarrow> DevWorkspace option \<Rightarrow> cluster \<Rightarrow> cluster \<times> DevWorkspace option \<times> Result \<times> err option" where
  "Reconcile a stored cl =
     (case an_get a of
        Some e \<Rightarrow> (cl, stored, no_result, Some e)
      | None \<Rightarrow>
     (case stored of
        None \<Rightarrow> (cl, None, no_result, None)
      | Some w \<Rightarrow>
          if dw_Deleted w then (cl, finalize (an_iter a) (an_now a) (an_updateStatus a) (an_finalize a) w)
          else (case reconcile_live a w cl of (cl', w', res) \<Rightarrow> (cl', Some w', res))))"

section \<open>Steps that cannot make a workspace run\<close>

text \<open>
  What all steps before the last have in common: they never set the phase to running, only a step that
  returns may change it (to failing), the stored phase stays that of the workspace in memory,
  whose conditions do not change, and a step that goes on leaves the main URL in memory alone.
\<close>

definition calm :: "step \<Rightarrow> bool" where
  "calm st \<longleftrightarrow> (\<forall>s. dw_Phase (rs_stored s) = dw_Phase (rs_memory s) \<longrightarrow> (case st s of (s', r) \<Rightarrow>
     (st_phase (rs_status s') = st_phase (rs_status s) \<or> r \<noteq> None \<and> st_phase (rs_status s') = PhaseFailing) \<and>
     dw_Phase (rs_stored s') = dw_Phase (rs_stored s) \<and> dw_Phase (rs_memory s') = dw_Phase (rs_memory s) \<and>
     ws_Conditions (dw_Status (rs_memory s')) = ws_Conditions (dw_Status (rs_memory s)) \<and>
     (r = None \<longrightarrow> ws_MainUrl (dw_Status (rs_memory s')) = ws_MainUrl (dw_Status (rs_memory s)))))"

named_theorems calm_steps \<open>steps that are calm\<close>

lemma calm_fail_step [calm_steps]: "calm (fail_step h r e)"
  by (cases e) (simp_all add: calm_def fail_step_def failWorkspace_def)

lemma calm_checkDWError:
  "case checkDWError b e h r st of (None, st') \<Rightarrow> st_phase st' = st_phase st
   | (Some x, st') \<Rightarrow> st_phase st' = st_phase st \<or> st_phase st' = PhaseFailing"
  by (cases e; cases "the e") (simp_all add: checkDWError_def failWorkspace_def)

lemma calm_dw_step [calm_steps]: "calm (dw_step h r f e)"
  by (cases e; cases "the e") (simp_all add: calm_def dw_step_def checkDWError_def failWorkspace_def)

lemma calm_set_step [calm_steps]: "calm (set_step f)"
  by (simp add: calm_def set_step_def)

lemma calm_id [calm_steps]: "calm (\<lambda>s. (s, None))"
  by (simp add: calm_def)

lemma calm_stop_with [calm_steps]: "calm (stop_with e)"
  by (cases e) (simp_all add: calm_def stop_with_def)

lemma update_meta_frame [simp]:
  "rs_status (update_meta u s) = rs_status s" "rs_memory (update_meta u s) = rs_memory s"
  "dw_Phase (rs_stored (update_meta u s)) = dw_Phase (rs_stored s)"
  by (cases u; simp add: update_meta_def)+

lemma calm_finalizer_step [calm_steps]: "calm (finalizer_step b f u)"
  unfolding calm_def finalizer_step_def by (cases u) (simp_all add: stop_with_def Let_def)

lemma calm_creator_step [calm_steps]: "calm (creator_step a)"
  unfolding calm_def creator_step_def using calm_fail_step [unfolded calm_def] by simp

lemma calm_stop_reason_step [calm_steps]: "calm (stop_reason_step a)"
  by (simp add: calm_def stop_reason_step_def Let_def)

lemma calm_warn_step [calm_steps]: "calm (warn_step h e)"
  by (cases e) (simp_all add: warn_step_def calm_set_step)

lemma calm_flatten_step [calm_steps]: "calm (flatten_step a)"
  by (cases "an_flatten a") (simp_all add: flatten_step_def calm_fail_step calm_warn_step)

lemma calm_ssh_step [calm_steps]: "calm (ssh_step a)"
  by (simp add: ssh_step_def calm_fail_step calm_id)

lemma calm_debug_step [calm_steps]: "calm debug_step"
  by (simp add: calm_def debug_step_def set_step_def)

lemma calm_main_url_step [calm_steps]: "calm (main_url_step a)"
  unfolding calm_def main_url_step_def by (cases "an_updateMainUrl a") (simp_all add: Let_def)

lemma calm_server_step [calm_steps]: "calm (server_step a)"
  unfolding calm_def
proof (intro allI impI)
  fix s :: rstate
  assume same: "dw_Phase (rs_stored s) = dw_Phase (rs_memory s)"
  note dw = calm_dw_step [unfolded calm_def, rule_format, OF same]
  let ?server = "checkServerStatus a (ws_MainUrl (dw_Status (rs_memory s)))"
  consider e where "?server = Inl e" | "?server = Inr True" | "?server = Inr False"
    by (cases ?server) auto
  then show "case server_step a s of (s', r) \<Rightarrow>
     (st_phase (rs_status s') = st_phase (rs_status s) \<or> r \<noteq> None \<and> st_phase (rs_status s') = PhaseFailing) \<and>
     dw_Phase (rs_stored s') = dw_Phase (rs_stored s) \<and> dw_Phase (rs_memory s') = dw_Phase (rs_memory s) \<and>
     ws_Conditions (dw_Status (rs_memory s')) = ws_Conditions (dw_Status (rs_memory s)) \<and>
     (r = None \<longrightarrow> ws_MainUrl (dw_Status (rs_memory s')) = ws_MainUrl (dw_Status (rs_memory s)))"
    by cases (use dw same in \<open>simp_all add: server_step_def set_step_def\<close>)
qed

lemma calm_lists:
  "\<forall>st \<in> set (prepare_steps a). calm st" "\<forall>st \<in> set (provision_steps a w). calm st"
  "\<forall>st \<in> set (deploy_steps a w). calm st"
proof -
  show "\<forall>st \<in> set (prepare_steps a). calm st" by (simp add: prepare_steps_def calm_steps)
  show "\<forall>st \<in> set (provision_steps a w). calm st" by (simp add: provision_steps_def calm_steps)
  have "\<forall>st \<in> set (service_account_steps a). calm st" by (simp add: service_account_steps_def calm_steps)
  moreover have "\<forall>st \<in> set (kube_steps a). calm st" by (auto simp: kube_steps_def calm_steps)
  ultimately show "\<forall>st \<in> set (deploy_steps a w). calm st"
    unfolding deploy_steps_def set_append ball_Un by (simp add: calm_steps)
qed

lemma run_steps_calm:
  assumes "\<forall>st \<in> set sts. calm st" "run_steps (sts @ [running_step]) s = (s', res, e)"
    "st_phase (rs_status s) = PhaseStarting" "dw_Phase (rs_stored s) = dw_Phase (rs_memory s)"
  shows "st_phase (rs_status s') \<in> {PhaseStarting, PhaseFailing, PhaseRunning} \<and>
    dw_Phase (rs_stored s') = dw_Phase (rs_stored s) \<and> dw_Phase (rs_memory s') = dw_Phase (rs_memory s) \<and>
     ws_Conditions (dw_Status (rs_memory s')) = ws_Conditions (dw_Status (rs_memory s)) \<and>
    (st_phase (rs_status s') = PhaseRunning \<longrightarrow> res = no_result \<and> e = None \<and>
      (\<forall>st \<in> set sts. \<exists>t t'. st t = (t', None) \<and> ws_MainUrl (dw_Status (rs_memory t)) = ws_MainUrl (dw_Status (rs_memory s))))"
  using assms
proof (induction sts arbitrary: s)
  case Nil
  then show ?case by (auto simp: running_step_def)
next
  case (Cons st sts)
  obtain t r where t: "st s = (t, r)" by (cases "st s")
  have "calm st" using Cons.prems(1) by simp
  then have c: "(st_phase (rs_status t) = st_phase (rs_status s) \<or> r \<noteq> None \<and> st_phase (rs_status t) = PhaseFailing) \<and>
     dw_Phase (rs_stored t) = dw_Phase (rs_stored s) \<and> dw_Phase (rs_memory t) = dw_Phase (rs_memory s) \<and>
     ws_Conditions (dw_Status (rs_memory t)) = ws_Conditions (dw_Status (rs_memory s)) \<and>
     (r = None \<longrightarrow> ws_MainUrl (dw_Status (rs_memory t)) = ws_MainUrl (dw_Status (rs_memory s)))"
    unfolding calm_def using Cons.prems(4) t by (auto dest!: spec [of _ s])
  show ?case
  proof (cases r)
    case None
    with Cons.prems(2) t have "run_steps (sts @ [running_step]) t = (s', res, e)" by simp
    note ih = Cons.IH [OF _ this]
    have "\<forall>st \<in> set sts. calm st" "st_phase (rs_status t) = PhaseStarting" "dw_Phase (rs_stored t) = dw_Phase (rs_memory t)"
      using Cons.prems c None by auto
    from ih [OF this] c None t show ?thesis by auto
  next
    case (Some x)
    with Cons.prems(2,3) t c show ?thesis by auto
  qed
qed

end
