(* ===== verification/Workspace_Phases.thy ===== *)
theory Workspace_Phases
  imports Reconcile "HOL-Library.Multiset"
begin

text \<open>
  The life of a workspace under the controller: the phases one reconcile can lead to, what a
  running workspace has gone through, how a stop and a deletion end, and where the status writes
  of the controller are lost.
\<close>

section \<open>Sample answers\<close>

text \<open>An API server and packages that answer every call without an error.\<close>

definition ok_stop_api :: stop_api where
  "ok_stop_api = \<lparr>sa_list = (\<lambda>_. None), sa_delete = (\<lambda>_. DeleteOk), sa_getRouting = None, sa_updateRouting = UpdateOk,
     sa_getDeployment = None, sa_scale = UpdateOk\<rparr>"

definition ok_finalize_api :: finalize_api where
  "ok_finalize_api = \<lparr>fa_deleteDeployment = Inr False, fa_terminating = Inr False, fa_provisioner = None, fa_cleanupStorage = None,
     fa_finalizeRBAC = None, fa_finalizeServiceAccount = Inr False, fa_update = UpdateOk\<rparr>"

definition ok_answers :: answers where
  "ok_answers = \<lparr>an_now = 1000, an_iter = (\<lambda>x. x), an_duration = (\<lambda>_. Inr 300), an_progressTimeout = ''5m'', an_configWarning = None,
     an_webhooks = Inr 0, an_removeStopReason = UpdateOk, an_flatten = Inr None, an_experimental = False, an_needsSsh = Inr False,
     an_addSsh = None, an_components = None, an_provisioner = None, an_home = None, an_needsStorage = True,
     an_addStorageFinalizer = UpdateOk, an_containers = None, an_env = None, an_projects = None, an_restore = False, an_clone = None,
     an_mergeInit = None, an_homeInit = None, an_tokens = None, an_askPass = None, an_deployment = None, an_automount = None,
     an_storage = None, an_addRbacFinalizer = UpdateOk, an_rbac = None, an_routing = None, an_routingMsg = [],
     an_endpoints = [(''editor'', [\<lparr>ee_Name = ''ide'', ee_Url = ''http://ide'', ee_Type = ''main''\<rparr>])],
     an_updateMainUrl = UpdateOk, an_metadata = None, an_saDisabled = False, an_saName = [], an_routingAnnotations = False,
     an_routingClass = ''basic'', an_sa = None, an_pullSecrets = None, an_hasPullSecrets = False, an_hasKube = False, an_kube = None,
     an_deploy = None, an_deployReason = InfrastructureFailure, an_url = None, an_http = Inr 200, an_ignoredEvents = [],
     an_eventReason = UnknownReason, an_updateStatus = UpdateOk, an_startedAt = ''1000'', an_updateStartedAt = UpdateOk,
     an_uuid = Inr, an_ids = Inr [], an_updateId = UpdateOk, an_patchStop = UpdateOk, an_removeStartedAt = UpdateOk,
     an_cleanupOnStop = False, an_stop = ok_stop_api, an_updateStarting = UpdateOk, an_get = None, an_finalize = ok_finalize_api\<rparr>"

definition sample_dw :: DevWorkspace where
  "sample_dw = \<lparr>dw_UID = ''uid'', dw_Started = True, dw_Deleted = False, dw_Created = 1, dw_Annotations = [], dw_Labels = [],
     dw_Finalizers = [], dw_Status = \<lparr>ws_Id = ''workspace1'', ws_Conditions = [], ws_MainUrl = ''http://ide'',
       ws_Phase = PhaseStarting, ws_Message = []\<rparr>\<rparr>"

definition sample_cluster :: cluster where
  "sample_cluster = \<lparr>cl_Objects = [[\<lparr>lo_Name = ''deploy'', lo_Owners = [''uid'']\<rparr>], [], [], []],
     cl_Routing = Some (Some []), cl_Deployment = Some (Some 1, 1)\<rparr>"

section \<open>Status updates\<close>

lemma desired_status_Phase [simp]: "ws_Phase (desired_status iter now status w) = st_phase status"
  by (simp add: desired_status_def Let_def)

lemma updateWorkspaceStatus_Phase:
  "dw_Phase (fst (updateWorkspaceStatus iter now u w status res e)) \<in> {dw_Phase w, st_phase status}"
  by (cases u) (simp_all add: updateWorkspaceStatus_def Let_def)

lemma updateWorkspaceStatus_result:
  assumes "updateWorkspaceStatus iter now u w status res e = (w', res', e')"
  shows "res' = res" "e' \<noteq> None \<Longrightarrow> e = None \<Longrightarrow> w' = w" "e \<noteq> None \<Longrightarrow> e' = e"
  using assms by (cases u; cases "desired_status iter now status w = dw_Status w";
    auto simp: updateWorkspaceStatus_def Let_def)+

section \<open>Phases\<close>

text \<open>The phases that a workspace can have after one reconcile, by its phase and whether it is to run.\<close>

definition phase_step :: "DevWorkspace \<Rightarrow> Phase \<Rightarrow> bool" where
  "phase_step w p \<longleftrightarrow>
     p = dw_Phase w \<or>
     (if ws_Id (dw_Status w) = [] then p = PhaseFailed
      else if \<not> dw_Started w then
        (if dw_Phase w \<in> {PhaseFailing, PhaseFailed} then p = PhaseFailed else p \<in> {PhaseStopping, PhaseStopped})
      else if dw_Phase w \<in> {PhaseStarting, PhaseRunning} then p \<in> {PhaseStarting, PhaseRunning, PhaseFailing}
      else dw_Phase w \<noteq> PhaseFailing \<and> p = PhaseStarting)"

lemma stop_status_phase:
  "st_phase (stop_status w) = (if dw_Phase w \<in> {PhaseFailing, PhaseFailed} then dw_Phase w else PhaseStopping)"
  by (cases "GetConditionByType (ws_Conditions (dw_Status w)) FailedStart") (simp_all add: stop_status_def Let_def)

lemma stopped_status_phase:
  "st_phase (stopped_status s) = (if st_phase s \<in> {PhaseFailing, PhaseFailed} then PhaseFailed else PhaseStopped)"
  by (simp add: stopped_status_def)

lemma stopWorkspace_phase:
  assumes "stopWorkspace iter now u api c w cl = (cl', w', r)"
  shows "dw_Phase w' = dw_Phase w \<or>
    (if dw_Phase w \<in> {PhaseFailing, PhaseFailed} then dw_Phase w' = PhaseFailed else dw_Phase w' \<in> {PhaseStopping, PhaseStopped})"
proof -
  obtain cl2 x where d: "doStop api c (dw_UID w) cl = (cl2, x)" by (cases "doStop api c (dw_UID w) cl")
  show ?thesis
  proof (cases x)
    case (Inl e)
    with assms d show ?thesis by (simp add: stopWorkspace_def)
  next
    case (Inr stopped)
    define st where "st = (if stopped then stopped_status (stop_status w) else stop_status w)"
    have "w' = fst (updateWorkspaceStatus iter now u w st no_result None)"
      using assms d Inr unfolding stopWorkspace_def st_def by (simp add: Let_def split: if_splits)
    with updateWorkspaceStatus_Phase [of iter now u w st no_result None]
    show ?thesis by (auto simp: st_def stop_status_phase stopped_status_phase split: if_splits)
  qed
qed

lemma checkForStartTimeout_cong:
  assumes "dw_Phase w = dw_Phase v" "ws_Conditions (dw_Status w) = ws_Conditions (dw_Status v)"
  shows "checkForStartTimeout d p now w = checkForStartTimeout d p now v"
  unfolding checkForStartTimeout_def fmtStartTimeoutMessage_def assms ..

lemma check_timeout_frame:
  assumes "check_timeout a s res e = (s', res')"
  shows "rs_memory s' = rs_memory s" "rs_stored s' = rs_stored s"
    "s' = s \<and> res' = res \<or> st_phase (rs_status s') = PhaseFailing"
  using assms unfolding check_timeout_def
  by (auto simp: failWorkspace_def split: option.splits if_splits)

lemma check_timeout_none:
  assumes "check_timeout a s res None = (s', res')" "st_phase (rs_status s') \<noteq> PhaseFailing"
  shows "checkForStartTimeout (an_duration a) (an_progressTimeout a) (an_now a) (rs_memory s) = None"
proof (rule ccontr)
  assume "\<not> ?thesis"
  with assms(1) have "st_phase (rs_status s') = PhaseFailing"
    by (auto simp: check_timeout_def failWorkspace_def split: if_splits)
  with assms(2) show False by simp
qed

lemma write_status_phase:
  "dw_Phase (rs_stored s) = dw_Phase (rs_memory s) \<Longrightarrow>
   dw_Phase (write_status a s res e) \<in> {dw_Phase (rs_memory s), st_phase (rs_status s)}"
  using updateWorkspaceStatus_Phase [of "an_iter a" "an_now a" "an_updateStatus a" "rs_memory s" "rs_status s" res e]
  by (simp add: write_status_def Let_def)

lemma syncStartedAtToCluster_Status [simp]: "dw_Status (syncStartedAtToCluster u t m w) = dw_Status w"
  by (simp add: syncStartedAtToCluster_def)

lemma deferred_phase:
  assumes "deferred a (s, res, e) = (w', res', e')" "dw_Phase (rs_stored s) = dw_Phase (rs_memory s)"
  shows "dw_Phase w' \<in> {dw_Phase (rs_memory s), st_phase (rs_status s), PhaseFailing}"
proof -
  obtain s2 r2 where t: "check_timeout a s res e = (s2, r2)" by (cases "check_timeout a s res e")
  note f = check_timeout_frame [OF t]
  have "dw_Status w' = dw_Status (write_status a s2 r2 e)"
    using assms(1) t by (auto simp: deferred_def Let_def)
  with write_status_phase [of s2 a r2 e] f assms(2) show ?thesis by auto
qed

lemma removeStartedAt_Status [simp]:
  "dw_Status (removeStartedAtFromCluster u w) = dw_Status w" "dw_Started (removeStartedAtFromCluster u w) = dw_Started w"
  "dw_UID (removeStartedAtFromCluster u w) = dw_UID w"
  by (simp_all add: removeStartedAtFromCluster_def)

section \<open>Running\<close>

text \<open>What a step needs to go on.\<close>

definition goes_on :: "dw_error option \<Rightarrow> bool" where
  "goes_on e \<longleftrightarrow> (case e of None \<Rightarrow> True | Some (WarningError _) \<Rightarrow> True | _ \<Rightarrow> False)"

named_theorems on_steps \<open>what it says of the answers that a step goes on\<close>

lemma fail_step_on [on_steps]: "fail_step h r e t = (t', None) \<Longrightarrow> e = None"
  by (cases e) (simp_all add: fail_step_def failWorkspace_def)

lemma dw_step_on [on_steps]: "dw_step h r f e t = (t', None) \<Longrightarrow> goes_on e"
  by (cases e; cases "the e") (simp_all add: dw_step_def checkDWError_def failWorkspace_def goes_on_def)

lemma flatten_step_on [on_steps]: "flatten_step a t = (t', None) \<Longrightarrow> \<exists>warnings. an_flatten a = Inr warnings"
  by (cases "an_flatten a") (simp_all add: flatten_step_def fail_step_def failWorkspace_def)

lemma main_url_step_on [on_steps]:
  "main_url_step a t = (t', None) \<Longrightarrow> ws_MainUrl (dw_Status (rs_memory t)) = getMainUrl (an_endpoints a)"
  by (cases "an_updateMainUrl a") (simp_all add: main_url_step_def Let_def split: if_splits)

lemma server_step_on [on_steps]:
  assumes "server_step a t = (t', None)"
  shows "checkServerStatus a (ws_MainUrl (dw_Status (rs_memory t))) = Inr True"
proof (cases "checkServerStatus a (ws_MainUrl (dw_Status (rs_memory t)))")
  case (Inl e)
  then have "goes_on (Some e)" using assms dw_step_on by (simp add: server_step_def)
  with Inl show ?thesis
    by (auto simp: checkServerStatus_def goes_on_def split: if_splits option.splits sum.splits)
next
  case (Inr b)
  with assms show ?thesis by (cases b) (simp_all add: server_step_def)
qed

text \<open>Every package has done its part, and the editor answers at the main URL of the workspace.\<close>

definition provisioned :: "answers \<Rightarrow> DevWorkspace \<Rightarrow> bool" where
  "provisioned a w \<longleftrightarrow>
     (\<exists>warnings. an_flatten a = Inr warnings) \<and> an_components a = None \<and> an_provisioner a = None \<and> an_containers a = None \<and>
     an_env a = None \<and> an_projects a = None \<and> an_clone a = None \<and> an_mergeInit a = None \<and> an_homeInit a = None \<and>
     an_tokens a = None \<and> an_askPass a = None \<and>
     list_all goes_on [an_automount a, an_storage a, an_rbac a, an_routing a, an_metadata a, an_pullSecrets a, an_deploy a] \<and>
     (if an_saDisabled a then an_saName a \<noteq> [] \<and> \<not> an_routingAnnotations a else goes_on (an_sa a)) \<and>
     (an_hasKube a \<longrightarrow> goes_on (an_kube a)) \<and>
     ws_MainUrl (dw_Status w) = getMainUrl (an_endpoints a) \<and> checkServerStatus a (ws_MainUrl (dw_Status w)) = Inr True"

lemma steps_on_provisioned:
  assumes "\<forall>st \<in> set (prepare_steps a @ provision_steps a w @ deploy_steps a w).
    \<exists>t t'. st t = (t', None) \<and> ws_MainUrl (dw_Status (rs_memory t)) = ws_MainUrl (dw_Status w)"
  shows "provisioned a w"
proof -
  have on: "\<exists>t t'. st t = (t', None) \<and> ws_MainUrl (dw_Status (rs_memory t)) = ws_MainUrl (dw_Status w)"
    if "st \<in> set (prepare_steps a) \<or> st \<in> set (provision_steps a w) \<or> st \<in> set (deploy_steps a w)" for st
    using assms that by auto
  have fail: "e = None" if "fail_step h r e \<in> set (prepare_steps a) \<or> fail_step h r e \<in> set (deploy_steps a w)" for h r e
    using on [of "fail_step h r e"] that fail_step_on by blast
  have dw: "goes_on e" if "dw_step h r f e \<in> set (provision_steps a w) \<or> dw_step h r f e \<in> set (deploy_steps a w)" for h r f e
    using on [of "dw_step h r f e"] that dw_step_on by blast
  have "\<exists>warnings. an_flatten a = Inr warnings"
    using on [of "flatten_step a"] flatten_step_on by (auto simp: prepare_steps_def)
  moreover have "ws_MainUrl (dw_Status w) = getMainUrl (an_endpoints a)"
    using on [of "main_url_step a"] main_url_step_on by (force simp: provision_steps_def)
  moreover have "checkServerStatus a (ws_MainUrl (dw_Status w)) = Inr True"
    using on [of "server_step a"] server_step_on by (force simp: deploy_steps_def)
  moreover have "an_components a = None" "an_provisioner a = None" "an_containers a = None" "an_env a = None" "an_projects a = None"
    "an_clone a = None" "an_mergeInit a = None" "an_homeInit a = None" "an_tokens a = None" "an_askPass a = None"
    by (rule fail, rule disjI1, simp only: prepare_steps_def list.set insert_iff, blast)+
  moreover have "goes_on (an_automount a)" "goes_on (an_storage a)" "goes_on (an_rbac a)" "goes_on (an_routing a)" "goes_on (an_metadata a)"
    by (rule dw, rule disjI1, simp only: provision_steps_def list.set insert_iff, blast)+
  moreover have "goes_on (an_pullSecrets a)" "goes_on (an_deploy a)"
    by (rule dw, rule disjI2, simp only: deploy_steps_def list.set set_append Un_iff insert_iff, blast)+
  moreover have "if an_saDisabled a then an_saName a \<noteq> [] \<and> \<not> an_routingAnnotations a else goes_on (an_sa a)"
  proof (cases "an_saDisabled a")
    case True
    have "(if an_saName a = [] then Some ''Configured ServiceAccount name is required when ServiceAccount creation is disabled'' else None) = None"
      by (rule fail [where h = "[]" and r = BadRequest]) (simp add: deploy_steps_def service_account_steps_def True)
    moreover have "(if an_routingAnnotations a
            then Some (''Disabling ServiceAccount creation is incompatible with workspace routingClass '' @ an_routingClass a) else None) = None"
      by (rule fail [where h = "[]" and r = BadRequest]) (simp add: deploy_steps_def service_account_steps_def True)
    ultimately show ?thesis using True by (simp split: if_splits)
  next
    case False
    have "goes_on (an_sa a)"
      by (rule dw, rule disjI2, simp only: deploy_steps_def service_account_steps_def False if_False list.set set_append Un_iff insert_iff, blast)
    with False show ?thesis by simp
  qed
  moreover have "goes_on (an_kube a)" if "an_hasKube a"
    by (rule dw, rule disjI2, simp only: deploy_steps_def kube_steps_def that if_True list.set set_append Un_iff insert_iff, blast)
  ultimately show ?thesis unfolding provisioned_def by simp
qed

lemma start_workspace_run:
  obtains s res e where "start_workspace a w = deferred a (s, res, e)" "dw_Phase (rs_stored s) = dw_Phase w"
    "dw_Phase (rs_memory s) = dw_Phase w" "ws_Conditions (dw_Status (rs_memory s)) = ws_Conditions (dw_Status w)"
    "st_phase (rs_status s) \<in> {PhaseStarting, PhaseFailing, PhaseRunning}"
    "st_phase (rs_status s) = PhaseRunning \<Longrightarrow> res = no_result \<and> e = None \<and> provisioned a w"
proof -
  define sts where "sts = prepare_steps a @ provision_steps a w @ deploy_steps a w"
  have calm: "\<forall>st \<in> set sts. calm st" using calm_lists [of a] by (auto simp: sts_def)
  define s0 where "s0 = \<lparr>rs_status = \<lparr>st_conditions = setConditionTrue Started ''DevWorkspace is starting''
                      (case an_configWarning a of None \<Rightarrow> no_conditions
                       | Some e \<Rightarrow> addWarning (''Error applying external DevWorkspace-Operator configuration: '' @ e) no_conditions),
                    st_phase = PhaseStarting\<rparr>, rs_memory = w, rs_stored = w\<rparr>"
  obtain s res e where run: "run_steps (sts @ [running_step]) s0 = (s, res, e)" by (metis prod_cases3)
  have s0: "st_phase (rs_status s0) = PhaseStarting" "rs_stored s0 = w" "rs_memory s0 = w" by (simp_all add: s0_def)
  note c = run_steps_calm [OF calm run s0(1), unfolded s0, OF refl]
  have "start_workspace a w = deferred a (s, res, e)"
    using run unfolding start_workspace_def Let_def s0_def [symmetric] sts_def by simp
  moreover have "provisioned a w" if "st_phase (rs_status s) = PhaseRunning"
    using c that by (intro steps_on_provisioned) (simp add: sts_def)
  ultimately show thesis using that c by blast
qed

lemma start_workspace_phase: "dw_Phase (fst (start_workspace a w)) \<in> {dw_Phase w, PhaseStarting, PhaseFailing, PhaseRunning}"
proof -
  obtain s res e where s: "start_workspace a w = deferred a (s, res, e)" "dw_Phase (rs_stored s) = dw_Phase w"
    "dw_Phase (rs_memory s) = dw_Phase w" "st_phase (rs_status s) \<in> {PhaseStarting, PhaseFailing, PhaseRunning}"
    by (rule start_workspace_run [of a w]) blast
  obtain w' res' e' where d: "deferred a (s, res, e) = (w', res', e')" by (metis prod_cases3)
  from deferred_phase [OF d] s d show ?thesis by auto
qed

lemma reconcile_phase_step_aux: "phase_step w (dw_Phase (fst (snd (reconcile_live a w cl))))"
proof -
  obtain cl' w' r where assms: "reconcile_live a w cl = (cl', w', r)" by (metis prod_cases3)
  consider (id) "ws_Id (dw_Status w) = []"
    | (failing) "ws_Id (dw_Status w) \<noteq> []" "dw_Phase w = PhaseFailing" "dw_Started w"
    | (stop) "ws_Id (dw_Status w) \<noteq> []" "\<not> dw_Started w"
    | (init) "ws_Id (dw_Status w) \<noteq> []" "dw_Started w" "dw_Phase w \<notin> {PhaseFailing, PhaseStarting, PhaseRunning}"
    | (start) "ws_Id (dw_Status w) \<noteq> []" "dw_Started w" "dw_Phase w \<in> {PhaseStarting, PhaseRunning}"
    by auto
  then have "phase_step w (dw_Phase w')"
  proof cases
    case id
    with assms show ?thesis
      by (cases "getWorkspaceId (an_uuid a) (an_ids a) w") (auto simp: reconcile_live_def phase_step_def split: if_splits)
  next
    case failing
    with assms have "dw_Phase w' = dw_Phase w"
      by (auto simp: reconcile_live_def Let_def split: sum.splits bool.splits update_result.splits)
    then show ?thesis by (simp add: phase_step_def)
  next
    case stop
    with assms have "stopWorkspace (an_iter a) (an_now a) (an_updateStatus a) (an_stop a) (an_cleanupOnStop a)
          (removeStartedAtFromCluster (an_removeStartedAt a) w) cl = (cl', w', r)"
      by (simp add: reconcile_live_def)
    from stopWorkspace_phase [OF this] stop show ?thesis by (auto simp: phase_step_def split: if_splits)
  next
    case init
    with assms show ?thesis by (auto simp: reconcile_live_def phase_step_def split: if_splits)
  next
    case start
    with assms have "start_workspace a w = (w', r)" by (auto simp: reconcile_live_def)
    with start_workspace_phase [of a w] start show ?thesis by (auto simp: phase_step_def)
  qed
  with assms show ?thesis by simp
qed

text \<open>
  (C1) One reconcile changes the phase of a workspace that is not being deleted only along the table \<^const>\<open>phase_step\<close>,
  whatever the API server, the provisioning packages and the clock answer: a workspace starts running only from
  starting or running, a failing one that is still to run keeps its phase until the controller has
  stopped it, a stop of a failing or failed workspace ends in failed and never in stopped, and
  a failed or stopped workspace that is started again goes through starting.
\<close>

theorem reconcile_phase_step: "phase_step w (dw_Phase (fst (snd (reconcile_live a w cl))))"
  by (rule reconcile_phase_step_aux)

text \<open>
  (C2) A workspace that was not running runs after a reconcile only if every step of the start succeeded or only
  warned: the devfile was flattened and validated, every object was provisioned, the main URL is that of the exposed main endpoint and the server answers there, and
  the start has not timed out. The reconcile then returns no error.
\<close>

theorem running_only_if_provisioned:
  assumes "dw_Phase w \<noteq> PhaseRunning" "dw_Phase (fst (snd (reconcile_live a w cl))) = PhaseRunning"
  shows "provisioned a w \<and> checkForStartTimeout (an_duration a) (an_progressTimeout a) (an_now a) w = None \<and>
    snd (snd (reconcile_live a w cl)) = (no_result, None)"
proof -
  have "phase_step w PhaseRunning" using reconcile_phase_step_aux [of w a cl] assms(2) by simp
  with assms(1) have st: "dw_Started w" "dw_Phase w = PhaseStarting" "ws_Id (dw_Status w) \<noteq> []"
    by (auto simp: phase_step_def split: if_splits)
  then have r: "reconcile_live a w cl = (cl, start_workspace a w)" by (simp add: reconcile_live_def)
  obtain s res e where s: "start_workspace a w = deferred a (s, res, e)" "dw_Phase (rs_stored s) = dw_Phase w"
    "dw_Phase (rs_memory s) = dw_Phase w" "ws_Conditions (dw_Status (rs_memory s)) = ws_Conditions (dw_Status w)"
    "st_phase (rs_status s) = PhaseRunning \<Longrightarrow> res = no_result \<and> e = None \<and> provisioned a w"
    by (rule start_workspace_run [of a w]) blast
  obtain s2 r2 where t: "check_timeout a s res e = (s2, r2)" by (cases "check_timeout a s res e")
  note f = check_timeout_frame [OF t]
  have "dw_Phase (write_status a s2 r2 e) = PhaseRunning" and snd: "snd (start_workspace a w) = (r2, e)"
    using assms(2) r s(1) t by (auto simp: deferred_def Let_def split: if_splits)
  with write_status_phase [of s2 a r2 e] f s st have run: "st_phase (rs_status s2) = PhaseRunning" by auto
  with f(3) have eq: "s2 = s" "r2 = res" by auto
  with run s(5) have ok: "res = no_result" "e = None" "provisioned a w" by simp_all
  have "checkForStartTimeout (an_duration a) (an_progressTimeout a) (an_now a) (rs_memory s) = None"
    using check_timeout_none [of a s res s2 r2] t ok run by simp
  with checkForStartTimeout_cong [OF s(3,4)]
  have "checkForStartTimeout (an_duration a) (an_progressTimeout a) (an_now a) w = None" by simp
  with ok eq snd r show ?thesis by simp
qed

theorem running_only_if_provisioned_witness:
  "dw_Phase sample_dw = PhaseStarting \<and> provisioned ok_answers sample_dw"
proof -
  have "dw_Phase (fst (snd (reconcile_live ok_answers sample_dw sample_cluster))) = PhaseRunning" by code_simp
  moreover have "dw_Phase sample_dw = PhaseStarting" by (simp add: sample_dw_def)
  ultimately show ?thesis using running_only_if_provisioned [of sample_dw ok_answers sample_cluster] by simp
qed

section \<open>Status writes\<close>

lemma steps_ignore_status_write [simp]:
  "prepare_steps (a\<lparr>an_updateStatus := u\<rparr>) = prepare_steps a" "provision_steps (a\<lparr>an_updateStatus := u\<rparr>) = provision_steps a"
  "deploy_steps (a\<lparr>an_updateStatus := u\<rparr>) = deploy_steps a" "check_timeout (a\<lparr>an_updateStatus := u\<rparr>) = check_timeout a"
proof -
  have "creator_step (a\<lparr>an_updateStatus := u\<rparr>) = creator_step a" "stop_reason_step (a\<lparr>an_updateStatus := u\<rparr>) = stop_reason_step a"
    "flatten_step (a\<lparr>an_updateStatus := u\<rparr>) = flatten_step a" "ssh_step (a\<lparr>an_updateStatus := u\<rparr>) = ssh_step a"
    by (simp_all add: fun_eq_iff creator_step_def stop_reason_step_def flatten_step_def ssh_step_def Let_def)
  then show "prepare_steps (a\<lparr>an_updateStatus := u\<rparr>) = prepare_steps a" by (simp add: prepare_steps_def)
  have "main_url_step (a\<lparr>an_updateStatus := u\<rparr>) = main_url_step a" by (simp add: fun_eq_iff main_url_step_def Let_def)
  then show "provision_steps (a\<lparr>an_updateStatus := u\<rparr>) = provision_steps a" by (simp add: fun_eq_iff provision_steps_def)
  have "checkServerStatus (a\<lparr>an_updateStatus := u\<rparr>) = checkServerStatus a"
    by (simp add: fun_eq_iff checkServerStatus_def split: option.split)
  then have "server_step (a\<lparr>an_updateStatus := u\<rparr>) = server_step a" by (simp add: fun_eq_iff server_step_def)
  then show "deploy_steps (a\<lparr>an_updateStatus := u\<rparr>) = deploy_steps a"
    by (simp add: fun_eq_iff deploy_steps_def service_account_steps_def kube_steps_def)
  show "check_timeout (a\<lparr>an_updateStatus := u\<rparr>) = check_timeout a"
    by (simp add: fun_eq_iff check_timeout_def split: option.split)
qed

lemma deferred_snd:
  "snd (deferred (a\<lparr>an_updateStatus := u\<rparr>) x) = snd (deferred a x)"
  by (cases x; cases "check_timeout a (fst x) (fst (snd x)) (snd (snd x))") (simp add: deferred_def Let_def)

text \<open>
  The result of a start does not depend on its status write: \<^verbatim>\<open>updateWorkspaceStatus\<close> would turn an error
  of the write into the error of the reconcile, as its comment says and as a stop does, but the deferred function that calls it
  has its results dropped. So a start whose status was not written returns as if it had been.
\<close>

theorem start_drops_status_error:
  "snd (start_workspace (a\<lparr>an_updateStatus := UpdateError msg\<rparr>) w) = snd (start_workspace a w)"
  by (simp add: start_workspace_def Let_def deferred_snd)

lemma updateWorkspaceStatus_reports:
  "desired_status iter now status w \<noteq> dw_Status w \<Longrightarrow>
   updateWorkspaceStatus iter now (UpdateError msg) w status res None = (w, res, Some msg)"
  by (simp add: updateWorkspaceStatus_def)

section \<open>Timeouts\<close>

lemma last_transition_fold:
  "fold (\<lambda>c t. if cond_Time c > t then cond_Time c else t) cs t0 = Max (insert t0 (cond_Time ` set cs))"
proof -
  have "fold (\<lambda>c t. if cond_Time c > t then cond_Time c else t) cs t0 = fold (\<lambda>c. max (cond_Time c)) cs t0"
    by (rule fold_cong) (auto simp: max_def)
  also have "\<dots> = fold max (map cond_Time cs) t0" by (simp add: fold_map comp_def)
  also have "\<dots> = Max (insert t0 (cond_Time ` set cs))" using Max.set_eq_fold [of t0 "map cond_Time cs"] by simp
  finally show ?thesis .
qed

text \<open>
  A starting workspace has timed out exactly if it has a condition and all its conditions changed longer ago than
  the configured timeout. Times are after the zero time, which Go uses for a time that is not set.
\<close>

theorem start_timeout_iff:
  assumes "dw_Phase w = PhaseStarting" "duration progressTimeout = Inr timeout"
    "list_all (\<lambda>c. cond_Time c > 0) (ws_Conditions (dw_Status w))"
  shows "checkForStartTimeout duration progressTimeout now w \<noteq> None \<longleftrightarrow>
    ws_Conditions (dw_Status w) \<noteq> [] \<and> list_all (\<lambda>c. cond_Time c + timeout < now) (ws_Conditions (dw_Status w))"
proof (cases "ws_Conditions (dw_Status w)")
  case Nil
  with assms show ?thesis by (simp add: checkForStartTimeout_def last_transition_def)
next
  case (Cons c cs)
  define T where "T = cond_Time ` set (ws_Conditions (dw_Status w))"
  have T: "finite T" "T \<noteq> {}" "\<forall>t \<in> T. t > 0" using Cons assms(3) by (auto simp: T_def list_all_iff)
  have pos: "Max T > 0" using T Max_in [OF T(1,2)] by blast
  have "Max (insert 0 T) = max 0 (Max T)" using T by simp
  also have "\<dots> = Max T" by (rule max_absorb2 [OF less_imp_le [OF pos]])
  finally have "Max (insert 0 T) = Max T" .
  then have "last_transition (ws_Conditions (dw_Status w)) = Max T"
    unfolding last_transition_def last_transition_fold T_def by simp
  moreover have "Max T + timeout < now \<longleftrightarrow> (\<forall>t \<in> T. t + timeout < now)"
    using T Max_less_iff [of T "now - timeout"] by (auto simp: algebra_simps)
  ultimately show ?thesis using assms Cons pos
    by (simp add: checkForStartTimeout_def Let_def T_def list_all_iff del: Max_less_iff)
qed

theorem start_timeout_iff_witness:
  "checkForStartTimeout (\<lambda>_. Inr 300) ''5m'' 1000 (sample_dw\<lparr>dw_Status := (dw_Status sample_dw)\<lparr>ws_Conditions :=
     [\<lparr>cond_Type = Started, cond_Status = ConditionTrue, cond_Time = 600, cond_Message = ''m'', cond_Reason = []\<rparr>]\<rparr>\<rparr>) \<noteq> None"
  by (subst start_timeout_iff [where timeout = 300]) (simp_all add: sample_dw_def)

section \<open>The main URL\<close>

fun main_urls :: "(string \<times> ExposedEndpoint list) list \<Rightarrow> string list" where
  "main_urls [] = []"
| "main_urls ((_, endpoints) # eps) = (case first_main endpoints of None \<Rightarrow> main_urls eps | Some u \<Rightarrow> u # main_urls eps)"

lemma getMainUrl_first: "getMainUrl eps = (case main_urls eps of [] \<Rightarrow> [] | u # _ \<Rightarrow> u)"
  by (induction eps rule: getMainUrl.induct) (simp_all split: option.split)

lemma set_main_urls: "set (main_urls eps) = {u. \<exists>m endpoints. (m, endpoints) \<in> set eps \<and> first_main endpoints = Some u}"
proof (induction eps)
  case (Cons e eps)
  then show ?case by (cases e; cases "first_main (snd e)") auto
qed simp

text \<open>
  The main URL does not depend on the order in which Go visits the map of exposed endpoints
  exactly if all machines that have a main endpoint give the same URL. With two main endpoints on
  different machines the stored main URL changes with the order.
\<close>

theorem main_url_order:
  "(\<forall>eps'. mset eps' = mset eps \<longrightarrow> getMainUrl eps' = getMainUrl eps) \<longleftrightarrow>
   (\<forall>u \<in> set (main_urls eps). \<forall>v \<in> set (main_urls eps). u = v)"
proof
  assume same: "\<forall>eps'. mset eps' = mset eps \<longrightarrow> getMainUrl eps' = getMainUrl eps"
  have "u = getMainUrl eps" if u: "u \<in> set (main_urls eps)" for u
  proof -
    obtain m endpoints where e: "(m, endpoints) \<in> set eps" "first_main endpoints = Some u"
      using u by (auto simp: set_main_urls)
    have "mset ((m, endpoints) # remove1 (m, endpoints) eps) = mset eps" using e(1) by simp
    with same have "getMainUrl ((m, endpoints) # remove1 (m, endpoints) eps) = getMainUrl eps" by blast
    with e(2) show ?thesis by simp
  qed
  then show "\<forall>u \<in> set (main_urls eps). \<forall>v \<in> set (main_urls eps). u = v" by blast
next
  assume same: "\<forall>u \<in> set (main_urls eps). \<forall>v \<in> set (main_urls eps). u = v"
  show "\<forall>eps'. mset eps' = mset eps \<longrightarrow> getMainUrl eps' = getMainUrl eps"
  proof (intro allI impI)
    fix eps' assume "mset eps' = mset eps"
    then have "set eps' = set eps" by (rule mset_eq_setD)
    then have urls: "set (main_urls eps') = set (main_urls eps)" by (simp add: set_main_urls)
    show "getMainUrl eps' = getMainUrl eps"
      using urls same by (cases "main_urls eps'"; cases "main_urls eps") (auto simp: getMainUrl_first)
  qed
qed

theorem main_url_order_witness:
  "\<exists>eps'. mset eps' = mset [(''a'', [\<lparr>ee_Name = ''x'', ee_Url = ''http://x'', ee_Type = ''main''\<rparr>]),
      (''b'', [\<lparr>ee_Name = ''y'', ee_Url = ''http://y'', ee_Type = ''main''\<rparr>])] \<and> getMainUrl eps' \<noteq> ''http://x''"
  using main_url_order [of "[(''a'', [\<lparr>ee_Name = ''x'', ee_Url = ''http://x'', ee_Type = ''main''\<rparr>]),
      (''b'', [\<lparr>ee_Name = ''y'', ee_Url = ''http://y'', ee_Type = ''main''\<rparr>])]"]
  by (simp add: MainEndpointType_def)

section \<open>The workspace ID\<close>

text \<open>The canonical text of a UUID: groups of 8, 4, 4, 4 and 12 digits.\<close>

definition canonical_uuid :: "(string \<Rightarrow> err + string) \<Rightarrow> bool" where
  "canonical_uuid uuid \<longleftrightarrow> (\<forall>x u. uuid x = Inr u \<longrightarrow>
     (\<exists>a b c rest. u = a @ CHR 0x2D # b @ CHR 0x2D # c @ CHR 0x2D # rest \<and> length a = 8 \<and> length b = 4 \<and> length c = 4 \<and>
        CHR 0x2D \<notin> set a \<union> set b \<union> set c))"

text \<open>
  An ID has at least one and at most 25 characters. One that comes from the annotation is not the ID of another
  workspace in the namespace.
\<close>

theorem workspace_id_bounds:
  assumes "canonical_uuid uuid" "getWorkspaceId uuid ids w = Inr i"
  shows "0 < length i \<and> length i \<le> 25 \<and>
    (map_of (dw_Annotations w) WorkspaceIdOverrideAnnotation = Some i \<longrightarrow> (\<exists>existing. ids = Inr existing \<and> i \<notin> set existing))"
proof (cases "map_of (dw_Annotations w) WorkspaceIdOverrideAnnotation \<in> {None, Some []}")
  case True
  with assms(2) obtain u where u: "uuid (dw_UID w) = Inr u" "i = ''workspace'' @ concat (take 3 (strings_split CHR 0x2D u))"
    by (auto simp: getWorkspaceId_def split: sum.splits)
  from assms(1) u(1) obtain a b c rest where c: "u = a @ CHR 0x2D # b @ CHR 0x2D # c @ CHR 0x2D # rest"
    "length a = 8" "length b = 4" "length c = 4" "CHR 0x2D \<notin> set a" "CHR 0x2D \<notin> set b" "CHR 0x2D \<notin> set c"
    unfolding canonical_uuid_def by blast
  then have "i = ''workspace'' @ a @ b @ c" using u(2) by (simp add: strings_split_at eval_nat_numeral)
  with c True show ?thesis by auto
next
  case False
  then obtain x xs where o: "map_of (dw_Annotations w) WorkspaceIdOverrideAnnotation = Some (x # xs)"
    by (cases "map_of (dw_Annotations w) WorkspaceIdOverrideAnnotation") (auto simp: neq_Nil_conv)
  with assms(2) show ?thesis by (auto simp: getWorkspaceId_def Let_def split: if_splits sum.splits)
qed

theorem workspace_id_bounds_witness:
  "length ''workspaceaaaaaaaabbbbcccc'' \<le> 25 \<and>
   getWorkspaceId (\<lambda>_. Inr ''aaaaaaaa-bbbb-cccc-dddd-eeeeeeeeeeee'') (Inr []) sample_dw = Inr ''workspaceaaaaaaaabbbbcccc''"
proof -
  define f :: "string \<Rightarrow> err + string" where "f = (\<lambda>_. Inr ''aaaaaaaa-bbbb-cccc-dddd-eeeeeeeeeeee'')"
  have "''aaaaaaaa-bbbb-cccc-dddd-eeeeeeeeeeee'' = ''aaaaaaaa'' @ CHR 0x2D # ''bbbb'' @ CHR 0x2D # ''cccc'' @ CHR 0x2D # ''dddd-eeeeeeeeeeee'' \<and>
    length ''aaaaaaaa'' = 8 \<and> length ''bbbb'' = 4 \<and> length ''cccc'' = 4 \<and> CHR 0x2D \<notin> set ''aaaaaaaa'' \<union> set ''bbbb'' \<union> set ''cccc''"
    by simp
  then have "canonical_uuid f" unfolding canonical_uuid_def f_def sum.inject by blast
  moreover have id: "getWorkspaceId f (Inr []) sample_dw = Inr ''workspaceaaaaaaaabbbbcccc''"
    unfolding f_def by code_simp
  ultimately have "length ''workspaceaaaaaaaabbbbcccc'' \<le> 25" using workspace_id_bounds by blast
  with id show ?thesis by (simp add: f_def)
qed

end
