(* ===== verification/Workspace_Stop.thy ===== *)
theory Workspace_Stop
  imports Workspace_Phases
begin

text \<open>
  How a stop and a deletion end: with an API server that answers, a stop is over after two
  reconciles, and the deletion removes one of its own finalizers per reconcile. An object that carries the workspace's
  label without being owned by it keeps a stop with clean-up from ever ending.
\<close>

section \<open>The clean-up\<close>

lemma delete_loop_flag:
  assumes "delete_loop del uid objs d = (left, Inr b)"
  shows "b \<longleftrightarrow> d \<or> objs \<noteq> []"
  using assms
proof (induction objs arbitrary: d left)
  case (Cons obj objs)
  obtain left' r where r: "delete_loop del uid objs True = (left', r)" by (cases "delete_loop del uid objs True")
  obtain e g where d: "deleteObj del uid obj = (e, g)" by (cases "deleteObj del uid obj")
  from Cons.prems r d have "r = Inr b" by (auto split: option.splits)
  with Cons.IH [of True left'] r show ?case by simp
qed simp

lemma deleteObj_foreign: "lo_Owners obj \<noteq> [uid] \<Longrightarrow> deleteObj del uid obj = (None, False)"
  by (auto simp: deleteObj_def split: list.splits)

lemma delete_loop_keeps_foreign:
  assumes "delete_loop del uid objs d = (left, r)" "obj \<in> set objs" "lo_Owners obj \<noteq> [uid]"
  shows "obj \<in> set left"
  using assms
proof (induction objs arbitrary: d left r)
  case (Cons x objs)
  obtain left' r' where r: "delete_loop del uid objs True = (left', r')" by (cases "delete_loop del uid objs True")
  obtain e g where d: "deleteObj del uid x = (e, g)" by (cases "deleteObj del uid x")
  show ?case
  proof (cases "x = obj")
    case True
    with Cons.prems r deleteObj_foreign [of obj uid del] show ?thesis by auto
  next
    case False
    with Cons.prems have "obj \<in> set objs" by simp
    with Cons.IH [OF r] Cons.prems(3) have "obj \<in> set left'" by simp
    with Cons.prems(1,2) r d \<open>obj \<in> set objs\<close> show ?thesis by (auto split: option.splits if_splits)
  qed
qed simp

lemma delete_kinds_Cons:
  assumes "delete_kinds list_err del uid i (kind # kinds) d = (left, r)"
  obtains (list) e where "list_err i = Some e" "left = kind # kinds" "r = Inl e"
  | (err) l e where "delete_loop del uid kind d = (l, Inl e)" "left = l # kinds" "r = Inl e"
  | (rest) l b left' where "delete_loop del uid kind d = (l, Inr b)"
      "delete_kinds list_err del uid (Suc i) kinds b = (left', r)" "left = l # left'"
proof (cases "list_err i")
  case None
  obtain l x where l: "delete_loop del uid kind d = (l, x)" by (cases "delete_loop del uid kind d")
  show thesis
  proof (cases x)
    case (Inl e)
    with err l None assms show ?thesis by simp
  next
    case (Inr b)
    obtain left' r' where k: "delete_kinds list_err del uid (Suc i) kinds b = (left', r')"
      by (cases "delete_kinds list_err del uid (Suc i) kinds b")
    with l None Inr assms have "left = l # left'" "r = r'" by simp_all
    with rest l Inr k show ?thesis by simp
  qed
qed (use list assms in simp)

lemma delete_kinds_flag: "delete_kinds list_err del uid i kinds True = (left, r) \<Longrightarrow> r \<noteq> Inr False"
proof (induction kinds arbitrary: i left)
  case (Cons kind kinds)
  from Cons.prems show ?case
  proof (cases rule: delete_kinds_Cons)
    case (rest l b left')
    with delete_loop_flag have "b" by blast
    with rest Cons.IH show ?thesis by simp
  qed simp_all
qed auto

lemma delete_kinds_foreign:
  assumes "delete_kinds list_err del uid i kinds d = (left, r)" "obj \<in> set (concat kinds)" "lo_Owners obj \<noteq> [uid]"
  shows "obj \<in> set (concat left) \<and> r \<noteq> Inr False"
  using assms(1,2)
proof (induction kinds arbitrary: i d left)
  case (Cons kind kinds)
  have mem: "obj \<in> set kind \<or> obj \<in> set (concat kinds)" using Cons.prems(2) by simp
  note keep = delete_loop_keeps_foreign [OF _ _ assms(3)]
  from Cons.prems(1) show ?case
  proof (cases rule: delete_kinds_Cons)
    case (list e)
    with Cons.prems(2) show ?thesis by simp
  next
    case (err l e)
    with keep [OF err(1)] mem show ?thesis by auto
  next
    case (rest l b left')
    show ?thesis
    proof (cases "obj \<in> set kind")
      case True
      then have "b" using delete_loop_flag [OF rest(1)] by auto
      with True rest keep [OF rest(1)] delete_kinds_flag show ?thesis by auto
    next
      case False
      with mem Cons.IH [OF rest(2)] rest show ?thesis by auto
    qed
  qed
qed simp

section \<open>Sequences of reconciles\<close>

fun reconciles :: "answers list \<Rightarrow> DevWorkspace \<Rightarrow> cluster \<Rightarrow> DevWorkspace \<times> cluster" where
  "reconciles [] w cl = (w, cl)"
| "reconciles (a # as) w cl = (case reconcile_live a w cl of (cl', w', _) \<Rightarrow> reconciles as w' cl')"

text \<open>A workspace that is to be stopped and has an ID.\<close>

definition to_stop :: "DevWorkspace \<Rightarrow> bool" where
  "to_stop w \<longleftrightarrow> \<not> dw_Started w \<and> ws_Id (dw_Status w) \<noteq> []"

lemma desired_status_Id [simp]: "ws_Id (desired_status iter now st w) = ws_Id (dw_Status w)"
  by (simp add: desired_status_def Let_def)

lemma updateWorkspaceStatus_frame:
  assumes "updateWorkspaceStatus iter now u w st res e = (w', r)"
  shows "dw_Started w' = dw_Started w" "dw_UID w' = dw_UID w" "ws_Id (dw_Status w') = ws_Id (dw_Status w)"
  using assms by (cases u; cases "desired_status iter now st w = dw_Status w"; auto simp: updateWorkspaceStatus_def Let_def)+

lemma reconcile_to_stop:
  assumes "to_stop w"
  shows "reconcile_live a w cl = stopWorkspace (an_iter a) (an_now a) (an_updateStatus a) (an_stop a) (an_cleanupOnStop a)
          (removeStartedAtFromCluster (an_removeStartedAt a) w) cl"
  using assms by (simp add: reconcile_live_def to_stop_def)

lemma stopWorkspace_cases:
  assumes "stopWorkspace iter now u api c w cl = (cl', w', r)"
  obtains (err) e where "doStop api c (dw_UID w) cl = (cl', Inl e)" "w' = w" "r = (no_result, Some e)"
  | (went) stopped where "doStop api c (dw_UID w) cl = (cl', Inr stopped)"
      "updateWorkspaceStatus iter now u w (if stopped then stopped_status (stop_status w) else stop_status w) no_result None = (w', r)"
proof -
  obtain cl2 x where d: "doStop api c (dw_UID w) cl = (cl2, x)" by (cases "doStop api c (dw_UID w) cl")
  show thesis
  proof (cases x)
    case (Inl e)
    with assms d have "cl2 = cl'" "w' = w" "r = (no_result, Some e)" by (simp_all add: stopWorkspace_def Let_def)
    with d Inl err show ?thesis by blast
  next
    case (Inr stopped)
    with assms d have "cl2 = cl'"
      "updateWorkspaceStatus iter now u w (if stopped then stopped_status (stop_status w) else stop_status w) no_result None = (w', r)"
      by (simp_all add: stopWorkspace_def Let_def split: if_splits)
    with d Inr went show ?thesis by blast
  qed
qed

lemma reconcile_to_stop_frame:
  assumes "to_stop w" "reconcile_live a w cl = (cl', w', r)"
  shows "to_stop w'" "dw_UID w' = dw_UID w"
proof -
  define v where "v = removeStartedAtFromCluster (an_removeStartedAt a) w"
  have s: "stopWorkspace (an_iter a) (an_now a) (an_updateStatus a) (an_stop a) (an_cleanupOnStop a) v cl = (cl', w', r)"
    using assms by (simp add: reconcile_to_stop v_def)
  have v: "to_stop v" "dw_UID v = dw_UID w" using assms(1) by (simp_all add: v_def to_stop_def)
  from s have "to_stop w' \<and> dw_UID w' = dw_UID w"
  proof (cases rule: stopWorkspace_cases)
    case (err e)
    with v show ?thesis by simp
  next
    case (went stopped)
    from updateWorkspaceStatus_frame [OF went(2)] v show ?thesis by (simp add: to_stop_def)
  qed
  then show "to_stop w'" "dw_UID w' = dw_UID w" by simp_all
qed

lemma cleanup_step_stuck:
  assumes "to_stop w" "an_cleanupOnStop a" "obj \<in> set (concat (cl_Objects cl))" "lo_Owners obj \<noteq> [dw_UID w]"
    "dw_Phase w \<notin> {PhaseStopped, PhaseFailed}" "reconcile_live a w cl = (cl', w', r)"
  shows "obj \<in> set (concat (cl_Objects cl'))" "dw_Phase w' \<notin> {PhaseStopped, PhaseFailed}"
proof -
  define v where "v = removeStartedAtFromCluster (an_removeStartedAt a) w"
  have v: "dw_UID v = dw_UID w" "dw_Phase v = dw_Phase w" by (simp_all add: v_def)
  have s: "stopWorkspace (an_iter a) (an_now a) (an_updateStatus a) (an_stop a) True v cl = (cl', w', r)"
    using assms by (simp add: reconcile_to_stop v_def)
  obtain left x where d: "deleteWorkspaceOwnedObjects (sa_list (an_stop a)) (sa_delete (an_stop a)) (dw_UID w) (cl_Objects cl) = (left, x)"
    by (metis surj_pair)
  note f = delete_kinds_foreign [OF d [unfolded deleteWorkspaceOwnedObjects_def] assms(3,4)]
  from s have "obj \<in> set (concat (cl_Objects cl')) \<and> dw_Phase w' \<notin> {PhaseStopped, PhaseFailed}"
  proof (cases rule: stopWorkspace_cases)
    case (err e)
    with d f v assms(5) show ?thesis by (auto simp: doStop_def split: sum.splits)
  next
    case (went stopped)
    with d f v have n: "\<not> stopped" "cl' = cl\<lparr>cl_Objects := left\<rparr>" by (auto simp: doStop_def split: sum.splits)
    have "dw_Phase w' \<in> {dw_Phase v, st_phase (stop_status v)}"
      using went(2) n updateWorkspaceStatus_Phase [of "an_iter a" "an_now a" "an_updateStatus a" v "stop_status v" no_result None] by simp
    with v assms(5) have "dw_Phase w' \<notin> {PhaseStopped, PhaseFailed}" by (auto simp: stop_status_phase split: if_splits)
    with n f show ?thesis by simp
  qed
  then show "obj \<in> set (concat (cl_Objects cl'))" "dw_Phase w' \<notin> {PhaseStopped, PhaseFailed}" by simp_all
qed

text \<open>
  A stop with clean-up never ends while the cluster holds an object with the workspace's label that the
  workspace does not own alone: however many reconciles run and whatever the API server answers,
  the object stays and the workspace is neither stopped nor failed, because the loop counts the
  objects it skips as deleted.
\<close>

theorem cleanup_never_stops:
  assumes "to_stop w" "dw_Phase w \<notin> {PhaseStopped, PhaseFailed}" "list_all an_cleanupOnStop as"
    "obj \<in> set (concat (cl_Objects cl))" "lo_Owners obj \<noteq> [dw_UID w]"
  shows "dw_Phase (fst (reconciles as w cl)) \<notin> {PhaseStopped, PhaseFailed} \<and>
    obj \<in> set (concat (cl_Objects (snd (reconciles as w cl))))"
  using assms
proof (induction as arbitrary: w cl)
  case (Cons a as)
  obtain cl' w' r where s: "reconcile_live a w cl = (cl', w', r)" by (metis prod_cases3)
  note frame = reconcile_to_stop_frame [OF Cons.prems(1) s]
  have "an_cleanupOnStop a" "list_all an_cleanupOnStop as" using Cons.prems(3) by simp_all
  note stuck = cleanup_step_stuck [OF Cons.prems(1) this(1) Cons.prems(4,5,2) s]
  from Cons.IH [OF frame(1) stuck(2) \<open>list_all an_cleanupOnStop as\<close> stuck(1)] Cons.prems(5) frame(2) s show ?case by simp
qed simp

theorem cleanup_never_stops_witness:
  "dw_Phase (fst (reconciles [ok_answers\<lparr>an_cleanupOnStop := True\<rparr>, ok_answers\<lparr>an_cleanupOnStop := True\<rparr>]
     (sample_dw\<lparr>dw_Started := False\<rparr>)
     (sample_cluster\<lparr>cl_Objects := [[], [], [\<lparr>lo_Name = ''s'', lo_Owners = [''other'']\<rparr>], []]\<rparr>))) \<notin> {PhaseStopped, PhaseFailed}"
  by (rule cleanup_never_stops [where obj = "\<lparr>lo_Name = ''s'', lo_Owners = [''other'']\<rparr>", THEN conjunct1])
    (simp_all add: to_stop_def sample_dw_def)

section \<open>A stop that ends\<close>

text \<open>What the rest of the cluster does between two reconciles: the pods of the deployment end.\<close>

definition pods_gone :: "cluster \<Rightarrow> cluster" where
  "pods_gone cl = cl\<lparr>cl_Deployment := map_option (\<lambda>(replicas, _). (replicas, 0)) (cl_Deployment cl)\<rparr>"

definition scaled_to_zero :: "cluster \<Rightarrow> bool" where
  "scaled_to_zero cl \<longleftrightarrow>
     (case cl_Deployment cl of None \<Rightarrow> True | Some (replicas, _) \<Rightarrow> (case replicas of None \<Rightarrow> False | Some n \<Rightarrow> n \<le> 0))"

definition owned_by :: "string \<Rightarrow> cluster \<Rightarrow> bool" where
  "owned_by uid cl \<longleftrightarrow> list_all (\<lambda>obj. lo_Owners obj = [uid]) (concat (cl_Objects cl))"

lemma stop_routing_ok:
  obtains cl1 where "stop_routing ok_stop_api cl = (cl1, None)" "cl_Deployment cl1 = cl_Deployment cl"
proof -
  have ok: "sa_updateRouting ok_stop_api = UpdateOk" by (simp add: ok_stop_api_def)
  have "\<exists>cl1. stop_routing ok_stop_api cl = (cl1, None) \<and> cl_Deployment cl1 = cl_Deployment cl"
    by (auto simp: stop_routing_def ok split: option.split)
  then show thesis using that by blast
qed

lemma doStop_scales:
  obtains cl' b where "doStop ok_stop_api False uid cl = (cl', Inr b)" "scaled_to_zero cl'"
    "scaled_to_zero cl \<Longrightarrow> cl_Deployment cl = map_option (\<lambda>(replicas, _). (replicas, 0)) (cl_Deployment cl) \<Longrightarrow> b"
proof -
  obtain cl1 where r: "stop_routing ok_stop_api cl = (cl1, None)" "cl_Deployment cl1 = cl_Deployment cl"
    by (rule stop_routing_ok)
  have ok: "sa_getRouting ok_stop_api = None" "sa_getDeployment ok_stop_api = None" "sa_scale ok_stop_api = UpdateOk"
    by (simp_all add: ok_stop_api_def)
  show thesis
  proof (cases "cl_Deployment cl")
    case None
    with r ok show ?thesis by (intro that [of cl1 True]) (simp_all add: doStop_def scaled_to_zero_def)
  next
    case (Some dep)
    obtain replicas running where dep: "dep = (replicas, running)" by (cases dep)
    show ?thesis
    proof (cases "case replicas of None \<Rightarrow> True | Some n \<Rightarrow> n > 0")
      case True
      with r ok Some dep show ?thesis
        by (intro that [of "cl1\<lparr>cl_Deployment := Some (Some 0, running)\<rparr>" False])
          (auto simp: doStop_def scaled_to_zero_def split: option.splits)
    next
      case False
      with r ok Some dep show ?thesis
        by (intro that [of cl1 "running = 0"]) (auto simp: doStop_def scaled_to_zero_def split: option.splits)
    qed
  qed
qed

lemma delete_loop_owned:
  "list_all (\<lambda>obj. lo_Owners obj = [uid]) objs \<Longrightarrow> delete_loop (\<lambda>_. DeleteOk) uid objs d = ([], Inr (d \<or> objs \<noteq> []))"
  by (induction objs arbitrary: d) (simp_all add: deleteObj_def)

lemma delete_kinds_owned:
  "list_all (\<lambda>obj. lo_Owners obj = [uid]) (concat kinds) \<Longrightarrow>
   delete_kinds (\<lambda>_. None) (\<lambda>_. DeleteOk) uid i kinds d = (map (\<lambda>_. []) kinds, Inr (d \<or> concat kinds \<noteq> []))"
  by (induction kinds arbitrary: i d) (auto simp: delete_loop_owned)

lemma doStop_owned:
  assumes "owned_by uid cl"
  obtains cl' b where "doStop ok_stop_api True uid cl = (cl', Inr b)" "concat (cl_Objects cl') = []" "concat (cl_Objects cl) = [] \<Longrightarrow> b"
  using assms that [of "cl\<lparr>cl_Objects := map (\<lambda>_. []) (cl_Objects cl)\<rparr>" "concat (cl_Objects cl) = []"]
  by (simp add: doStop_def deleteWorkspaceOwnedObjects_def ok_stop_api_def owned_by_def delete_kinds_owned)

text \<open>The two modes of a stop give the same promise: the first pass succeeds, and once the pods are gone the second one is the last.\<close>

lemma doStop_twice:
  assumes "c \<Longrightarrow> owned_by uid cl"
  obtains cl1 b cl2 where "doStop ok_stop_api c uid cl = (cl1, Inr b)" "doStop ok_stop_api c uid (pods_gone cl1) = (cl2, Inr True)"
proof (cases c)
  case True
  with assms obtain cl1 b where 1: "doStop ok_stop_api True uid cl = (cl1, Inr b)" "concat (cl_Objects cl1) = []"
    using doStop_owned by metis
  have empty: "concat (cl_Objects (pods_gone cl1)) = []" using 1 by (simp add: pods_gone_def)
  then have "owned_by uid (pods_gone cl1)" unfolding owned_by_def empty by simp
  then obtain cl2 where 2: "doStop ok_stop_api True uid (pods_gone cl1) = (cl2, Inr True)"
    using doStop_owned empty by metis
  show thesis by (rule that [of cl1 b cl2]) (use 1 2 True in simp_all)
next
  case False
  obtain cl1 b where 1: "doStop ok_stop_api False uid cl = (cl1, Inr b)" "scaled_to_zero cl1" by (rule doStop_scales)
  have zero: "scaled_to_zero (pods_gone cl1)" using 1 by (auto simp: scaled_to_zero_def pods_gone_def split: option.splits)
  have gone: "cl_Deployment (pods_gone cl1) = map_option (\<lambda>(replicas, _). (replicas, 0)) (cl_Deployment (pods_gone cl1))"
    by (cases "cl_Deployment cl1") (auto simp: pods_gone_def)
  obtain cl2 b2 where "doStop ok_stop_api False uid (pods_gone cl1) = (cl2, Inr b2)" b2
    by (rule doStop_scales [of uid "pods_gone cl1"]) (use zero gone in blast)
  then have 2: "doStop ok_stop_api False uid (pods_gone cl1) = (cl2, Inr True)" by simp
  show thesis by (rule that [of cl1 b cl2]) (use 1 2 False in simp_all)
qed

definition ended :: "DevWorkspace \<Rightarrow> Phase" where
  "ended w = (if dw_Phase w \<in> {PhaseFailing, PhaseFailed} then PhaseFailed else PhaseStopped)"

lemma updateWorkspaceStatus_ok:
  "updateWorkspaceStatus iter now UpdateOk w st res e = (w\<lparr>dw_Status := desired_status iter now st w\<rparr>, res, e)"
  by (simp add: updateWorkspaceStatus_def Let_def)

lemma stopWorkspace_ok:
  assumes "doStop api c (dw_UID w) cl = (cl', Inr b)"
  shows "\<exists>w'. stopWorkspace iter now UpdateOk api c w cl = (cl', w', no_result, None) \<and>
    (b \<longrightarrow> dw_Phase w' = ended w) \<and> ended w' = ended w"
  using assms
  by (auto simp: stopWorkspace_def Let_def updateWorkspaceStatus_ok ended_def stop_status_phase stopped_status_phase)

text \<open>
  (C3) With an API server that answers, a stop ends: the first reconcile returns no error, and once the
  pods of the deployment are gone the second one leaves the workspace stopped, or failed if it was failing or had failed.
  With clean-up this needs every labelled object to be owned by the workspace alone.
\<close>

theorem stop_completes:
  assumes "to_stop w" "an_stop a = ok_stop_api" "an_updateStatus a = UpdateOk"
    "an_cleanupOnStop a \<Longrightarrow> owned_by (dw_UID w) cl"
  shows "case reconcile_live a w cl of (cl1, w1, r1) \<Rightarrow> case reconcile_live a w1 (pods_gone cl1) of (cl2, w2, r2) \<Rightarrow>
    r1 = (no_result, None) \<and> r2 = (no_result, None) \<and> dw_Phase w2 = ended w"
proof -
  define v where "v w = removeStartedAtFromCluster (an_removeStartedAt a) w" for w
  have v: "dw_UID (v w) = dw_UID w" "ended (v w) = ended w" for w by (simp_all add: v_def ended_def)
  obtain cl1 b cl2 where d: "doStop ok_stop_api (an_cleanupOnStop a) (dw_UID w) cl = (cl1, Inr b)"
    "doStop ok_stop_api (an_cleanupOnStop a) (dw_UID w) (pods_gone cl1) = (cl2, Inr True)"
    using doStop_twice [OF assms(4)] by blast
  obtain w1 where 1: "reconcile_live a w cl = (cl1, w1, no_result, None)" "ended w1 = ended w"
    using stopWorkspace_ok [of ok_stop_api "an_cleanupOnStop a" "v w" cl cl1 b "an_iter a" "an_now a"] d(1) assms v
    by (auto simp: reconcile_to_stop v_def)
  note f = reconcile_to_stop_frame [OF assms(1) 1(1)]
  obtain w2 where "reconcile_live a w1 (pods_gone cl1) = (cl2, w2, no_result, None)" "dw_Phase w2 = ended w1"
    using stopWorkspace_ok [of ok_stop_api "an_cleanupOnStop a" "v w1" "pods_gone cl1" cl2 True "an_iter a" "an_now a"] d(2) assms v f
    by (auto simp: reconcile_to_stop v_def)
  with 1 show ?thesis by simp
qed

theorem stop_completes_witness:
  "case reconcile_live ok_answers (sample_dw\<lparr>dw_Started := False\<rparr>) sample_cluster of (cl1, w1, r1) \<Rightarrow>
   case reconcile_live ok_answers w1 (pods_gone cl1) of (cl2, w2, r2) \<Rightarrow>
    r1 = (no_result, None) \<and> r2 = (no_result, None) \<and> dw_Phase w2 = PhaseStopped"
proof -
  have "to_stop (sample_dw\<lparr>dw_Started := False\<rparr>)" "an_stop ok_answers = ok_stop_api" "an_updateStatus ok_answers = UpdateOk"
    "\<not> an_cleanupOnStop ok_answers" "ended (sample_dw\<lparr>dw_Started := False\<rparr>) = PhaseStopped"
    by (simp_all add: to_stop_def sample_dw_def ok_answers_def ended_def)
  with stop_completes [of "sample_dw\<lparr>dw_Started := False\<rparr>" ok_answers sample_cluster] show ?thesis by simp
qed

section \<open>Deletion\<close>

definition own_finalizer :: "string \<Rightarrow> bool" where
  "own_finalizer f \<longleftrightarrow> f \<in> {StorageCleanupFinalizer, ServiceAccountCleanupFinalizer, RBACCleanupFinalizer}"

text \<open>When the clean-up that a finalizer stands for is over.\<close>

definition cleaned_up :: "finalize_api \<Rightarrow> string \<Rightarrow> bool" where
  "cleaned_up api f \<longleftrightarrow>
     (if f = StorageCleanupFinalizer then
        fa_deleteDeployment api = Inr False \<and>
        (fa_terminating api = Inr True \<or> fa_terminating api = Inr False \<and> fa_provisioner api = None \<and> fa_cleanupStorage api = None)
      else if f = ServiceAccountCleanupFinalizer then fa_finalizeServiceAccount api = Inr False
      else f = RBACCleanupFinalizer \<and>
        (fa_terminating api = Inr True \<or> fa_terminating api = Inr False \<and> fa_finalizeRBAC api = None))"

text \<open>One finalizer: the workspace is unchanged, or the clean-up is over and only this finalizer goes.\<close>

definition clears :: "finalize_api \<Rightarrow> string \<Rightarrow> fstate \<Rightarrow> fresult \<Rightarrow> bool" where
  "clears api f s x \<longleftrightarrow>
     (if cleaned_up api f then x = clear_finalizer api f s
      else fs_memory (fst x) = fs_memory s \<and> fs_written (fst x) = fs_written s)"

lemma finalizer_distinct [simp]:
  "StorageCleanupFinalizer \<noteq> ServiceAccountCleanupFinalizer" "StorageCleanupFinalizer \<noteq> RBACCleanupFinalizer"
  "ServiceAccountCleanupFinalizer \<noteq> StorageCleanupFinalizer" "RBACCleanupFinalizer \<noteq> StorageCleanupFinalizer"
  "ServiceAccountCleanupFinalizer \<noteq> RBACCleanupFinalizer" "RBACCleanupFinalizer \<noteq> ServiceAccountCleanupFinalizer"
  by (simp_all add: finalizer_defs)

lemma finalizers_clear:
  "clears api StorageCleanupFinalizer s (finalizeStorage api s)"
  "clears api ServiceAccountCleanupFinalizer s (finalizeServiceAccount api s)"
  "clears api RBACCleanupFinalizer s (finalizeRBAC api s)"
  by (auto simp: clears_def cleaned_up_def finalizeStorage_def finalizeServiceAccount_def finalizeRBAC_def finalize_error_def
      split: sum.split bool.split option.split dw_error.split)

lemma finalize_loop_first:
  "finalize_loop api fs s = (s, no_result, None) \<and> filter own_finalizer fs = [] \<or>
   (\<exists>f rest. filter own_finalizer fs = f # rest \<and> clears api f s (finalize_loop api fs s))"
  by (induction fs) (auto simp: own_finalizer_def finalizers_clear)

text \<open>The finalizers of the stored workspace after one pass.\<close>

definition finalizers_left :: "DevWorkspace option \<Rightarrow> string list" where
  "finalizers_left w = (case w of None \<Rightarrow> [] | Some v \<Rightarrow> dw_Finalizers v)"

lemma finalize_finalizers:
  assumes "finalize_loop api (dw_Finalizers w) \<lparr>fs_memory = w, fs_written = False,
      fs_status = \<lparr>st_conditions = setConditionTrue Started ''Cleaning up resources for deletion'' no_conditions, st_phase = PhaseTerminating\<rparr>\<rparr>
    = (s, res, e)"
  shows "finalizers_left (fst (finalize iter now u api w)) = (if fs_written s then dw_Finalizers (fs_memory s) else dw_Finalizers w)"
    "fst (finalize iter now u api w) = None \<longleftrightarrow> fs_written s \<and> dw_Finalizers (fs_memory s) = []"
  using assms by (auto simp: finalize_def Let_def stored_after_def finalizers_left_def)

lemma finalize_pass:
  "finalizers_left (fst (finalize iter now u api w)) =
     (case filter own_finalizer (dw_Finalizers w) of
        [] \<Rightarrow> dw_Finalizers w
      | f # _ \<Rightarrow> if cleaned_up api f \<and> fa_update api = UpdateOk then filter (\<lambda>x. x \<noteq> f) (dw_Finalizers w) else dw_Finalizers w)"
  "fst (finalize iter now u api w) = None \<Longrightarrow> finalizers_left (fst (finalize iter now u api w)) = []"
proof -
  define s0 where "s0 = \<lparr>fs_memory = w, fs_written = False,
      fs_status = \<lparr>st_conditions = setConditionTrue Started ''Cleaning up resources for deletion'' no_conditions, st_phase = PhaseTerminating\<rparr>\<rparr>"
  obtain s res e where l: "finalize_loop api (dw_Finalizers w) s0 = (s, res, e)" by (metis prod_cases3)
  note f = finalize_finalizers [OF l [unfolded s0_def]]
  have s0: "fs_memory s0 = w" "\<not> fs_written s0" by (simp_all add: s0_def)
  show "finalizers_left (fst (finalize iter now u api w)) =
     (case filter own_finalizer (dw_Finalizers w) of
        [] \<Rightarrow> dw_Finalizers w
      | f # _ \<Rightarrow> if cleaned_up api f \<and> fa_update api = UpdateOk then filter (\<lambda>x. x \<noteq> f) (dw_Finalizers w) else dw_Finalizers w)"
    using finalize_loop_first [of api "dw_Finalizers w" s0] l f(1) s0
    by (auto simp: clears_def clear_finalizer_def RemoveFinalizer_def split: if_splits)
  show "fst (finalize iter now u api w) = None \<Longrightarrow> finalizers_left (fst (finalize iter now u api w)) = []"
    by (simp add: finalizers_left_def)
qed

text \<open>
  (C4) A pass over a deleted workspace takes off only a finalizer whose clean-up is over: the storage finalizer
  once the deployment is gone and the storage cleaned or the namespace terminating, the others likewise. So the workspace
  disappears only after every clean-up that its finalizers stand for.
\<close>

theorem finalize_after_cleanup:
  assumes "f \<in> set (dw_Finalizers w)" "f \<notin> set (finalizers_left (fst (finalize iter now u api w)))"
  shows "own_finalizer f \<and> cleaned_up api f"
proof -
  obtain g rest where g: "filter own_finalizer (dw_Finalizers w) = g # rest" "cleaned_up api g"
    "finalizers_left (fst (finalize iter now u api w)) = filter (\<lambda>x. x \<noteq> g) (dw_Finalizers w)"
    using assms finalize_pass(1) [of iter now u api w]
    by (cases "filter own_finalizer (dw_Finalizers w)") (auto split: if_splits)
  then have "f = g" using assms by auto
  moreover have "own_finalizer g" using g(1) by (auto simp: filter_eq_Cons_iff)
  ultimately show ?thesis using g by simp
qed

theorem finalize_after_cleanup_witness:
  "own_finalizer StorageCleanupFinalizer \<and> cleaned_up ok_finalize_api StorageCleanupFinalizer"
proof (rule finalize_after_cleanup [where iter = "\<lambda>x. x" and now = 1 and u = UpdateOk and w = "sample_dw\<lparr>dw_Finalizers := [StorageCleanupFinalizer]\<rparr>"])
  have "cleaned_up ok_finalize_api StorageCleanupFinalizer" "fa_update ok_finalize_api = UpdateOk" "own_finalizer StorageCleanupFinalizer"
    by (simp_all add: cleaned_up_def ok_finalize_api_def own_finalizer_def)
  then show "StorageCleanupFinalizer \<notin> set (finalizers_left (fst (finalize (\<lambda>x. x) 1 UpdateOk ok_finalize_api
      (sample_dw\<lparr>dw_Finalizers := [StorageCleanupFinalizer]\<rparr>))))"
    by (simp add: finalize_pass)
qed simp

fun finalize_passes :: "((string \<times> Condition) list \<Rightarrow> (string \<times> Condition) list) \<Rightarrow> int \<Rightarrow> update_result \<Rightarrow> finalize_api \<Rightarrow> nat \<Rightarrow>
    DevWorkspace option \<Rightarrow> DevWorkspace option" where
  "finalize_passes iter now u api 0 w = w"
| "finalize_passes iter now u api (Suc n) w =
     (case w of None \<Rightarrow> None | Some v \<Rightarrow> finalize_passes iter now u api n (fst (finalize iter now u api v)))"

lemma ok_cleaned_up: "own_finalizer f \<Longrightarrow> cleaned_up ok_finalize_api f"
  by (auto simp: own_finalizer_def cleaned_up_def ok_finalize_api_def)

lemma finalize_ok_pass:
  assumes "filter own_finalizer (dw_Finalizers w) = f # rest"
  shows "finalizers_left (fst (finalize iter now u ok_finalize_api w)) = filter (\<lambda>x. x \<noteq> f) (dw_Finalizers w)"
proof -
  have "own_finalizer f" using assms by (auto simp: filter_eq_Cons_iff)
  then have "cleaned_up ok_finalize_api f" by (rule ok_cleaned_up)
  moreover have "fa_update ok_finalize_api = UpdateOk" by (simp add: ok_finalize_api_def)
  ultimately show ?thesis using assms by (simp add: finalize_pass)
qed

text \<open>
  (C5) With clean-ups that succeed, a deletion takes at most one pass per finalizer of the operator: afterwards only the
  finalizers of others are left, whatever the status writes answer.
\<close>

theorem finalize_completes:
  assumes "length (filter own_finalizer (dw_Finalizers w)) \<le> n"
  shows "finalizers_left (finalize_passes iter now u ok_finalize_api n (Some w)) = filter (\<lambda>f. \<not> own_finalizer f) (dw_Finalizers w)"
  using assms
proof (induction n arbitrary: w)
  case 0
  then show ?case by (simp add: finalizers_left_def filter_id_conv filter_empty_conv)
next
  case (Suc n)
  define v where "v = fst (finalize iter now u ok_finalize_api w)"
  have left: "length (filter own_finalizer (finalizers_left v)) \<le> n \<and>
    filter (\<lambda>f. \<not> own_finalizer f) (finalizers_left v) = filter (\<lambda>f. \<not> own_finalizer f) (dw_Finalizers w)"
  proof (cases "filter own_finalizer (dw_Finalizers w)")
    case Nil
    then have "finalizers_left v = dw_Finalizers w" by (simp add: finalize_pass v_def)
    with Nil show ?thesis by simp
  next
    case (Cons f rest)
    have own: "own_finalizer f" using Cons by (auto simp: filter_eq_Cons_iff)
    have l: "finalizers_left v = filter (\<lambda>x. x \<noteq> f) (dw_Finalizers w)" unfolding v_def by (rule finalize_ok_pass [OF Cons])
    have "filter own_finalizer (finalizers_left v) = filter (\<lambda>x. x \<noteq> f) rest"
      using arg_cong [OF Cons, of "filter (\<lambda>x. x \<noteq> f)"] by (simp add: l conj_commute)
    moreover have "length rest \<le> n" using Cons Suc.prems by simp
    ultimately have "length (filter own_finalizer (finalizers_left v)) \<le> n"
      using order_trans [OF length_filter_le [of "\<lambda>x. x \<noteq> f" rest]] by simp
    moreover have "filter (\<lambda>f. \<not> own_finalizer f) (finalizers_left v) = filter (\<lambda>f. \<not> own_finalizer f) (dw_Finalizers w)"
      using own by (auto simp: l intro: filter_cong)
    ultimately show ?thesis by simp
  qed
  show ?case
  proof (cases v)
    case None
    have "finalize_passes iter now u ok_finalize_api n None = None" by (cases n) simp_all
    with left None show ?thesis by (simp add: v_def [symmetric] finalizers_left_def)
  next
    case (Some x)
    with Suc.IH [of x] left show ?thesis by (simp add: v_def [symmetric] finalizers_left_def)
  qed
qed

theorem finalize_completes_witness:
  "finalizers_left (finalize_passes (\<lambda>x. x) 1 UpdateOk ok_finalize_api 2
     (Some (sample_dw\<lparr>dw_Finalizers := [RBACCleanupFinalizer, ''other'', StorageCleanupFinalizer]\<rparr>))) = [''other'']"
proof -
  have "\<not> own_finalizer ''other''" "own_finalizer RBACCleanupFinalizer" "own_finalizer StorageCleanupFinalizer"
    by (simp_all add: own_finalizer_def finalizer_defs)
  with finalize_completes [of "sample_dw\<lparr>dw_Finalizers := [RBACCleanupFinalizer, ''other'', StorageCleanupFinalizer]\<rparr>" 2]
  show ?thesis by simp
qed

end
