(* ===== verification/Naming.thy ===== *)
theory Naming
  imports Config_Types Devfile Metadata_Keys
begin

text \<open>
  \<^verbatim>\<open>src/pkg/common/naming.go\<close>: the names of the objects a workspace owns, and what makes them
  usable as Kubernetes and DNS names. A Go string is its bytes; \<^verbatim>\<open>strings.ToLower\<close> is modelled on
  ASCII letters (every other byte of an endpoint name becomes part of a dash).
\<close>

section \<open>Strings\<close>

definition alnum :: "char \<Rightarrow> bool" where
  "alnum c \<longleftrightarrow> (let n = of_char c :: nat in 97 \<le> n \<and> n \<le> 122 \<or> 48 \<le> n \<and> n \<le> 57)"

definition lower_char :: "char \<Rightarrow> char" where
  "lower_char c = (let n = of_char c :: nat in if 65 \<le> n \<and> n \<le> 90 then char_of (n + 32) else c)"

text \<open>\<^verbatim>\<open>NonAlphaNumRegexp.ReplaceAllString(name, "-")\<close>: every maximal run of other characters.\<close>

function replace_runs :: "string \<Rightarrow> string" where
  "replace_runs [] = []"
| "replace_runs (c # cs) =
     (if alnum c then c # replace_runs cs else CHR ''-'' # replace_runs (dropWhile (\<lambda>x. \<not> alnum x) cs))"
  by pat_completeness auto
termination
  by (relation "measure length") (auto simp: le_imp_less_Suc length_dropWhile_le)

definition trim_char :: "char \<Rightarrow> string \<Rightarrow> string" where
  "trim_char c s = rev (dropWhile (\<lambda>x. x = c) (rev (dropWhile (\<lambda>x. x = c) s)))"

definition trim_suffix_char :: "char \<Rightarrow> string \<Rightarrow> string" where
  "trim_suffix_char c s = (if s \<noteq> [] \<and> last s = c then butlast s else s)"

section \<open>The names\<close>

definition DevWorkspaceRoutingName :: "string \<Rightarrow> string" where
  "DevWorkspaceRoutingName workspaceId = ''routing-'' @ workspaceId"

definition EndpointName :: "string \<Rightarrow> string" where
  "EndpointName endpointName = trim_char (CHR ''-'') (replace_runs (map lower_char endpointName))"

definition PortName :: "Endpoint \<Rightarrow> string" where
  "PortName endpoint =
     (if length (ep_Name endpoint) \<le> 15 then ep_Name endpoint
      else format_int (ep_TargetPort endpoint) @ ''-'' @ ep_Protocol endpoint)"

definition ServiceName :: "string \<Rightarrow> string" where
  "ServiceName workspaceId = workspaceId @ ''-'' @ ''service''"

text \<open>The workspace's configuration, its identity in the status and its name.\<close>

definition ServiceAccountName_of :: "ServiceAccountConfig \<Rightarrow> string \<Rightarrow> string" where
  "ServiceAccountName_of sa devWorkspaceId =
     (if ServiceAccountName sa \<noteq> [] then ServiceAccountName sa else devWorkspaceId @ ''-'' @ ''sa'')"

definition ServiceAccountLabels :: "ServiceAccountConfig \<Rightarrow> string \<Rightarrow> string \<Rightarrow> (string \<times> string) list" where
  "ServiceAccountLabels sa devWorkspaceId nm =
     (if ServiceAccountName sa \<noteq> [] then [(DevWorkspaceIDLabel, [])]
      else [(DevWorkspaceIDLabel, devWorkspaceId), (DevWorkspaceNameLabel, nm)])"

definition endpoint_label :: "string \<Rightarrow> string \<Rightarrow> int \<Rightarrow> string" where
  "endpoint_label workspaceId endpointName endpointPort =
     (let hostname = workspaceId @ ''-'' @ endpointName @ ''-'' @ format_int endpointPort in
      if length hostname > 63 then trim_suffix_char (CHR ''-'') (take 63 hostname) else hostname)"

definition EndpointHostname :: "string \<Rightarrow> string \<Rightarrow> string \<Rightarrow> int \<Rightarrow> string" where
  "EndpointHostname routingSuffix workspaceId endpointName endpointPort =
     endpoint_label workspaceId endpointName endpointPort @ ''.'' @ routingSuffix"

definition WorkspaceHostname :: "string \<Rightarrow> string \<Rightarrow> string" where
  "WorkspaceHostname routingSuffix workspaceId =
     (let hostname = workspaceId;
          hostname = (if length hostname > 63 then trim_suffix_char (CHR ''-'') (take 63 hostname) else hostname)
      in hostname @ ''.'' @ routingSuffix)"

definition EndpointPath :: "string \<Rightarrow> string" where
  "EndpointPath endpointName = ''/'' @ endpointName @ ''/''"

definition RouteName :: "string \<Rightarrow> string \<Rightarrow> string" where
  "RouteName workspaceId endpointName = workspaceId @ ''-'' @ endpointName"

definition DeploymentName :: "string \<Rightarrow> string" where
  "DeploymentName workspaceId = workspaceId"

definition PVCCleanupJobName :: "string \<Rightarrow> string" where
  "PVCCleanupJobName workspaceId = ''cleanup-'' @ workspaceId"

definition PerWorkspacePVCName :: "string \<Rightarrow> string" where
  "PerWorkspacePVCName workspaceId = ''storage-'' @ workspaceId"

definition MetadataConfigMapName :: "string \<Rightarrow> string" where
  "MetadataConfigMapName workspaceId = workspaceId @ ''-metadata''"

definition AutoMountConfigMapVolumeName :: "string \<Rightarrow> string" where
  "AutoMountConfigMapVolumeName volumeName = volumeName"

definition AutoMountSecretVolumeName :: "string \<Rightarrow> string" where
  "AutoMountSecretVolumeName volumeName = volumeName"

definition AutoMountPVCVolumeName :: "string \<Rightarrow> string" where
  "AutoMountPVCVolumeName pvcName = pvcName"

text \<open>\<open>sha\<close> gives the first ten bytes of the SHA-256 hash in hexadecimal.\<close>

definition AutoMountProjectedVolumeName :: "(string \<Rightarrow> string) \<Rightarrow> string \<Rightarrow> string" where
  "AutoMountProjectedVolumeName sha mountPath = ''projected-'' @ sha mountPath"

definition ServiceAccountTokenProjectionName :: "(string \<Rightarrow> string) \<Rightarrow> string \<Rightarrow> string" where
  "ServiceAccountTokenProjectionName sha mountPath = ''sa-token-projected-'' @ sha mountPath"

definition WorkspaceSCCRoleName :: "string \<Rightarrow> string" where
  "WorkspaceSCCRoleName sccName = ''devworkspace-use-'' @ sccName"

definition WorkspaceSCCRolebindingName :: "string \<Rightarrow> string" where
  "WorkspaceSCCRolebindingName sccName = ''devworkspace-use-'' @ sccName"

definition ServingCertVolumeName :: "string \<Rightarrow> string" where
  "ServingCertVolumeName serviceName = ''devworkspace-serving-cert-'' @ serviceName"

definition WorkspaceRoleName :: string where
  "WorkspaceRoleName = ''devworkspace-default-role''"

definition WorkspaceRolebindingName :: string where
  "WorkspaceRolebindingName = ''devworkspace-default-rolebinding''"

definition RegistryImagePullerRolebindingName :: "string \<Rightarrow> string" where
  "RegistryImagePullerRolebindingName namespace = ''devworkspace-registry-image-puller-'' @ namespace @ ''-binding''"

section \<open>Endpoint names\<close>

fun no_double_dash :: "string \<Rightarrow> bool" where
  "no_double_dash (c # d # cs) \<longleftrightarrow> \<not> (c = CHR ''-'' \<and> d = CHR ''-'') \<and> no_double_dash (d # cs)"
| "no_double_dash _ \<longleftrightarrow> True"

text \<open>Non-empty groups of lower-case letters and digits, joined by single dashes.\<close>

definition dns_groups :: "string \<Rightarrow> bool" where
  "dns_groups s \<longleftrightarrow> s = [] \<or>
     (alnum (hd s) \<and> alnum (last s) \<and> (\<forall>c \<in> set s. alnum c \<or> c = CHR ''-'') \<and> no_double_dash s)"

lemma alnum_not_dash [simp]: "\<not> alnum (CHR ''-'')"
  by (simp add: alnum_def)

lemma lower_alnum: "alnum c \<Longrightarrow> lower_char c = c"
  by (auto simp: alnum_def lower_char_def Let_def)

lemma lower_dash [simp]: "lower_char (CHR ''-'') = CHR ''-''"
  by (simp add: lower_char_def)

lemma replace_runs_chars: "c \<in> set (replace_runs s) \<Longrightarrow> alnum c \<or> c = CHR ''-''"
  by (induction s rule: replace_runs.induct) (auto split: if_splits)

lemma no_double_dash_Cons:
  "no_double_dash (c # s) \<longleftrightarrow> no_double_dash s \<and> (s \<noteq> [] \<longrightarrow> \<not> (c = CHR ''-'' \<and> hd s = CHR ''-''))"
  by (cases s) auto

lemma hd_replace_runs: "s \<noteq> [] \<Longrightarrow> alnum (hd s) \<Longrightarrow> hd (replace_runs s) = hd s"
  by (cases s) auto

lemma replace_runs_no_double: "no_double_dash (replace_runs s)"
proof (induction s rule: replace_runs.induct)
  case (2 c cs)
  let ?rest = "dropWhile (\<lambda>x. \<not> alnum x) cs"
  show ?case
  proof (cases "alnum c")
    case True
    with 2 show ?thesis by (auto simp: no_double_dash_Cons)
  next
    case False
    have "?rest \<noteq> [] \<Longrightarrow> alnum (hd ?rest)"
      using hd_dropWhile by blast
    then have "replace_runs ?rest \<noteq> [] \<Longrightarrow> hd (replace_runs ?rest) \<noteq> CHR ''-''"
      using hd_replace_runs by (metis alnum_not_dash replace_runs.simps(1))
    with False 2 show ?thesis by (auto simp: no_double_dash_Cons)
  qed
qed simp

lemma no_double_dash_append: "no_double_dash (s @ t) \<Longrightarrow> no_double_dash s \<and> no_double_dash t"
  by (induction s) (auto simp: no_double_dash_Cons hd_append split: if_splits)

lemma trim_char_infix: "\<exists>a b. s = a @ trim_char c s @ b"
proof -
  obtain a where a: "s = a @ dropWhile (\<lambda>x. x = c) s"
    by (metis takeWhile_dropWhile_id)
  obtain b where "rev (dropWhile (\<lambda>x. x = c) s) = b @ dropWhile (\<lambda>x. x = c) (rev (dropWhile (\<lambda>x. x = c) s))"
    by (metis takeWhile_dropWhile_id)
  then have "dropWhile (\<lambda>x. x = c) s = trim_char c s @ rev b"
    unfolding trim_char_def by (metis rev_append rev_rev_ident)
  with a show ?thesis by metis
qed

lemma trim_char_ends:
  assumes "trim_char c s \<noteq> []"
  shows "hd (trim_char c s) \<noteq> c" "last (trim_char c s) \<noteq> c"
proof -
  let ?d = "dropWhile (\<lambda>x. x = c) s"
  let ?e = "dropWhile (\<lambda>x. x = c) (rev ?d)"
  have e: "?e \<noteq> []" using assms by (simp add: trim_char_def)
  then have "hd ?e \<noteq> c" using hd_dropWhile by blast
  with e show "last (trim_char c s) \<noteq> c" by (simp add: trim_char_def last_rev)
  have "?d \<noteq> []" using e by (metis dropWhile.simps(1) rev.simps(1))
  then have "hd ?d \<noteq> c" using hd_dropWhile by blast
  moreover have "last ?e = hd ?d"
  proof -
    obtain b where "rev ?d = b @ ?e" by (metis takeWhile_dropWhile_id)
    then have "last (rev ?d) = last ?e" using e by (metis last_appendR)
    then show ?thesis using \<open>?d \<noteq> []\<close> by (simp add: last_rev)
  qed
  ultimately show "hd (trim_char c s) \<noteq> c" using e by (simp add: trim_char_def hd_rev)
qed

lemma EndpointName_groups: "dns_groups (EndpointName s)"
proof (cases "EndpointName s = []")
  case False
  let ?r = "replace_runs (map lower_char s)"
  obtain a b where r: "?r = a @ EndpointName s @ b"
    using trim_char_infix [of ?r "CHR ''-''"] by (auto simp: EndpointName_def)
  have chars: "\<forall>c \<in> set (EndpointName s). alnum c \<or> c = CHR ''-''"
  proof
    fix c assume "c \<in> set (EndpointName s)"
    then have "c \<in> set ?r" using r by simp
    then show "alnum c \<or> c = CHR ''-''" by (rule replace_runs_chars)
  qed
  have "no_double_dash (EndpointName s)"
    using replace_runs_no_double [of "map lower_char s"] r no_double_dash_append by metis
  moreover have "hd (EndpointName s) \<noteq> CHR ''-''" "last (EndpointName s) \<noteq> CHR ''-''"
    using trim_char_ends [of "CHR ''-''" ?r] False by (auto simp: EndpointName_def)
  ultimately show ?thesis
    using chars False by (auto simp: dns_groups_def)
qed (simp add: dns_groups_def)

lemma replace_runs_id:
  "\<forall>c \<in> set s. alnum c \<or> c = CHR ''-'' \<Longrightarrow> no_double_dash s \<Longrightarrow> replace_runs s = s"
proof (induction s rule: replace_runs.induct)
  case (2 c cs)
  show ?case
  proof (cases "alnum c")
    case True
    with 2 show ?thesis by (auto simp: no_double_dash_Cons)
  next
    case False
    with 2 have c: "c = CHR ''-''" by auto
    have "dropWhile (\<lambda>x. \<not> alnum x) cs = cs"
      using 2(3,4) c by (cases cs) auto
    with False c 2 show ?thesis by (auto simp: no_double_dash_Cons)
  qed
qed simp

lemma EndpointName_id: "dns_groups s \<Longrightarrow> EndpointName s = s"
proof (cases "s = []")
  case False
  assume g: "dns_groups s"
  with False have ends: "hd s \<noteq> CHR ''-''" "last s \<noteq> CHR ''-''"
    by (auto simp: dns_groups_def)
  have "map lower_char s = s"
    using g by (intro map_idI) (auto simp: dns_groups_def lower_alnum)
  moreover have "replace_runs s = s"
    using g False by (intro replace_runs_id) (auto simp: dns_groups_def)
  moreover have "trim_char (CHR ''-'') s = s"
  proof -
    have "dropWhile (\<lambda>x. x = CHR ''-'') s = s"
      using ends False by (cases s) auto
    moreover have "dropWhile (\<lambda>x. x = CHR ''-'') (rev s) = rev s"
      using ends False by (cases "rev s") (auto simp: last_rev [symmetric] hd_rev)
    ultimately show ?thesis by (simp add: trim_char_def)
  qed
  ultimately show ?thesis by (simp add: EndpointName_def)
qed (simp add: EndpointName_def trim_char_def)

text \<open>A sanitised endpoint name is empty or consists of non-empty groups of lower-case letters and
  digits joined by single dashes, as a DNS label has to be; names already of that form are left
  alone, so sanitising twice is sanitising once.\<close>

theorem EndpointName_sanitises:
  "dns_groups (EndpointName s) \<and> EndpointName (EndpointName s) = EndpointName s"
  using EndpointName_groups [of s] EndpointName_id [OF EndpointName_groups [of s]] by blast

section \<open>Port names and host names\<close>

lemma length_format_port: "0 \<le> p \<Longrightarrow> p \<le> 65535 \<Longrightarrow> length (format_int p) \<le> 5"
proof -
  assume "0 \<le> p" "p \<le> 65535"
  then have "nat p < 10 ^ 5" by simp
  then have "length (format_nat (nat p)) \<le> 5" by (rule length_format_nat) simp
  with \<open>0 \<le> p\<close> show ?thesis by (simp add: format_int_def)
qed

text \<open>The name of a container or service port never exceeds the fifteen characters Kubernetes
  allows: a longer endpoint name is replaced by port and protocol, for every port number and
  every protocol the devfile API has.\<close>

theorem PortName_length:
  assumes "0 \<le> ep_TargetPort e" "ep_TargetPort e \<le> 65535"
    and "ep_Protocol e \<in> {''http'', ''https'', ''ws'', ''wss'', ''tcp'', ''udp''}"
  shows "length (PortName e) \<le> 15"
proof -
  have "length (ep_Protocol e) \<le> 5" using assms(3) by auto
  with length_format_port [OF assms(1,2)] show ?thesis
    by (simp add: PortName_def)
qed

theorem PortName_length_witness:
  "length (PortName \<lparr>ep_Name = ''a-rather-long-endpoint-name'', ep_TargetPort = 65535, ep_Exposure = ''public'',
     ep_Protocol = ''https'', ep_Secure = None, ep_Path = [], ep_Attributes = [], ep_Annotations = None\<rparr>) \<le> 15"
  by (rule PortName_length) simp_all

lemma split_at_last_dash:
  assumes "CHR ''-'' \<notin> set q" "CHR ''-'' \<notin> set q'" "a @ ''-'' @ q = a' @ ''-'' @ q'"
  shows "a = a' \<and> q = q'"
proof -
  have tail: "rev (takeWhile (\<lambda>x. x \<noteq> CHR ''-'') (rev (b @ ''-'' @ r))) = r" if "CHR ''-'' \<notin> set r" for b r
  proof -
    have "takeWhile (\<lambda>x. x \<noteq> CHR ''-'') (rev r @ CHR ''-'' # rev b) = rev r"
      using that by (subst takeWhile_append2) auto
    then show ?thesis by simp
  qed
  have "q = q'"
    using tail [OF assms(1), of a] tail [OF assms(2), of a'] assms(3) by metis
  with assms(3) show ?thesis by simp
qed

lemma format_port_no_dash: "0 \<le> p \<Longrightarrow> CHR ''-'' \<notin> set (format_int p)"
proof
  assume "0 \<le> p" "CHR ''-'' \<in> set (format_int p)"
  then obtain d where "d < 10" "CHR ''-'' = digit_char d"
    using format_nat_digits [of "CHR ''-''" "nat p"] by (auto simp: format_int_def)
  then show False using digit_char_not_minus by metis
qed

text \<open>The first label of an endpoint's host name has at most 63 characters, and as long as the full
  label fits, two endpoints of a workspace share a host name only if they are the same name and
  port.\<close>

theorem EndpointHostname_label:
  "length (endpoint_label ws nm p) \<le> 63 \<and>
   (0 \<le> p \<longrightarrow> 0 \<le> p' \<longrightarrow> length (ws @ ''-'' @ nm @ ''-'' @ format_int p) \<le> 63 \<longrightarrow>
    length (ws @ ''-'' @ nm' @ ''-'' @ format_int p') \<le> 63 \<longrightarrow>
    EndpointHostname suffix ws nm p = EndpointHostname suffix ws nm' p' \<longrightarrow> nm = nm' \<and> p = p')"
proof (intro conjI impI)
  show "length (endpoint_label ws nm p) \<le> 63"
    by (auto simp: endpoint_label_def trim_suffix_char_def Let_def)
next
  assume p: "0 \<le> p" "0 \<le> p'"
    and len: "length (ws @ ''-'' @ nm @ ''-'' @ format_int p) \<le> 63"
      "length (ws @ ''-'' @ nm' @ ''-'' @ format_int p') \<le> 63"
    and eq: "EndpointHostname suffix ws nm p = EndpointHostname suffix ws nm' p'"
  from eq len have "nm @ ''-'' @ format_int p = nm' @ ''-'' @ format_int p'"
    by (simp add: EndpointHostname_def endpoint_label_def Let_def)
  then show "nm = nm'" "p = p'"
    using split_at_last_dash format_port_no_dash p format_int_inject by blast+
qed

theorem EndpointHostname_label_witness:
  "EndpointHostname ''apps.example.com'' ''workspace1'' ''ide'' 3100 \<noteq> EndpointHostname ''apps.example.com'' ''workspace1'' ''ide'' 3101"
  using EndpointHostname_label [of "''workspace1''" "''ide''" 3100 3101 "''ide''" "''apps.example.com''"]
    length_format_port [of 3100] length_format_port [of 3101]
  by auto

lemma dns_groups_no_double: "dns_groups s \<Longrightarrow> no_double_dash s"
  by (auto simp: dns_groups_def)

lemma no_double_dash_join:
  "no_double_dash s \<Longrightarrow> no_double_dash t \<Longrightarrow> s = [] \<or> t = [] \<or> last s \<noteq> CHR ''-'' \<or> hd t \<noteq> CHR ''-'' \<Longrightarrow>
   no_double_dash (s @ t)"
  by (induction s) (auto simp: no_double_dash_Cons hd_append split: if_splits)

lemma dns_groups_join:
  assumes "dns_groups s" "dns_groups t" "s \<noteq> []" "t \<noteq> []"
  shows "dns_groups (s @ ''-'' @ t)"
proof -
  have ends: "alnum (hd s)" "alnum (last s)" "alnum (hd t)" "alnum (last t)"
    using assms by (auto simp: dns_groups_def)
  have "no_double_dash (''-'' @ t)"
    using assms ends by (intro no_double_dash_join) (auto simp: dns_groups_no_double)
  then have "no_double_dash (s @ ''-'' @ t)"
    using assms ends by (intro no_double_dash_join) (auto simp: dns_groups_no_double)
  then show ?thesis
    using assms ends by (auto simp: dns_groups_def)
qed

lemma digits_alnum: "d < 10 \<Longrightarrow> alnum (digit_char d)"
  by (simp add: alnum_def of_char_digit_char Let_def)

lemma no_dash_no_double: "CHR ''-'' \<notin> set s \<Longrightarrow> no_double_dash s"
  by (induction s) (auto simp: no_double_dash_Cons)

lemma dns_groups_port: "0 \<le> p \<Longrightarrow> dns_groups (format_int p) \<and> format_int p \<noteq> []"
proof -
  assume p: "0 \<le> p"
  have al: "c \<in> set (format_int p) \<Longrightarrow> alnum c" for c
    using p format_nat_digits [of c "nat p"] digits_alnum by (auto simp: format_int_def)
  then show ?thesis
    using format_port_no_dash [OF p] hd_in_set [of "format_int p"] last_in_set [of "format_int p"]
    by (auto simp: dns_groups_def no_dash_no_double)
qed

lemma dns_groups_cut:
  assumes "dns_groups s" "n < length s" "1 < n"
  shows "dns_groups (trim_suffix_char (CHR ''-'') (take n s)) \<and> trim_suffix_char (CHR ''-'') (take n s) \<noteq> []"
proof -
  let ?t = "take n s"
  let ?c = "trim_suffix_char (CHR ''-'') ?t"
  have t: "no_double_dash ?t"
    using no_double_dash_append [of ?t "drop n s"] dns_groups_no_double [OF assms(1)] by simp
  have "length ?t = n" using assms(2) by simp
  then obtain u x where u: "?t = u @ [x]" "u \<noteq> []"
    using assms(3) by (cases ?t rule: rev_cases) auto
  have pre: "?c = u \<and> x = CHR ''-'' \<or> ?c = ?t \<and> x \<noteq> CHR ''-''"
    using u by (auto simp: trim_suffix_char_def)
  have last: "last ?c \<noteq> CHR ''-''"
  proof (cases "x = CHR ''-''")
    case True
    obtain v y where v: "u = v @ [y]" using u(2) by (cases u rule: rev_cases) auto
    have "no_double_dash ([y] @ [x])"
      using t unfolding u v by (metis append.assoc no_double_dash_append)
    with True v pre show ?thesis by auto
  next
    case False
    with pre u show ?thesis by auto
  qed
  have nonempty: "?c \<noteq> []" using pre u by auto
  have "no_double_dash ?c" using pre t u no_double_dash_append by metis
  moreover have sub: "set ?c \<subseteq> set s"
    using pre set_take_subset [of n s] unfolding u(1) by auto
  moreover have "hd ?c = hd s"
  proof -
    have "hd ?c = hd ?t" using pre u by auto
    then show ?thesis using assms(3) by (simp add: hd_take)
  qed
  moreover have "alnum (last ?c)"
    using assms(1) last sub last_in_set [OF nonempty] by (auto simp: dns_groups_def)
  ultimately show ?thesis
    using assms(1) nonempty by (auto simp: dns_groups_def)
qed

text \<open>For a workspace id and an endpoint name in sanitised form, the first label of the host name
  is again such a name, starts and ends with a letter or digit and has at most 63 characters, also where
  it had to be cut: trimming a single dash is enough.\<close>

theorem endpoint_label_dns:
  assumes "dns_groups ws" "ws \<noteq> []" "dns_groups nm" "nm \<noteq> []" "0 \<le> p"
  shows "dns_groups (endpoint_label ws nm p) \<and> endpoint_label ws nm p \<noteq> [] \<and> length (endpoint_label ws nm p) \<le> 63"
proof -
  let ?h = "ws @ ''-'' @ nm @ ''-'' @ format_int p"
  have "dns_groups (nm @ ''-'' @ format_int p)"
    using assms dns_groups_port [OF assms(5)] by (intro dns_groups_join) auto
  then have h: "dns_groups ?h"
    using assms by (intro dns_groups_join [of ws "nm @ ''-'' @ format_int p"]) auto
  have len: "length (endpoint_label ws nm p) \<le> 63"
    by (auto simp: endpoint_label_def trim_suffix_char_def Let_def)
  show ?thesis
  proof (cases "63 < length ?h")
    case True
    then have "endpoint_label ws nm p = trim_suffix_char (CHR ''-'') (take 63 ?h)"
      by (simp only: endpoint_label_def Let_def if_True)
    with dns_groups_cut [OF h True] len show ?thesis by simp
  next
    case False
    then have "endpoint_label ws nm p = ?h"
      by (simp only: endpoint_label_def Let_def if_False)
    with h len show ?thesis by simp
  qed
qed

theorem endpoint_label_dns_witness:
  "dns_groups (endpoint_label ''workspace1'' (EndpointName ''My IDE!'') 3100) \<and>
   endpoint_label ''workspace1'' (EndpointName ''My IDE!'') 3100 \<noteq> [] \<and>
   length (endpoint_label ''workspace1'' (EndpointName ''My IDE!'') 3100) \<le> 63"
  by (rule endpoint_label_dns)
     (simp_all add: EndpointName_groups, code_simp+)

text \<open>A host name that is cut loses its port and the end of the endpoint's name, so distinct endpoints
  of one workspace then share one host: all endpoints whose names agree on the first
  characters that fit.\<close>

theorem truncated_hostnames_collide:
  assumes "63 \<le> length (ws @ ''-'' @ common)"
  shows "EndpointHostname suffix ws (common @ x) p = EndpointHostname suffix ws (common @ y) p'"
proof -
  have "length (ws @ ''-'' @ (common @ z) @ ''-'' @ format_int q) > 63"
    and "take 63 (ws @ ''-'' @ (common @ z) @ ''-'' @ format_int q) = take 63 (ws @ ''-'' @ common)" for z q
    using assms take_append [of 63 "ws @ ''-'' @ common" "z @ ''-'' @ format_int q"] by auto
  then show ?thesis
    by (simp only: EndpointHostname_def endpoint_label_def Let_def if_True)
qed

theorem truncated_hostnames_collide_witness:
  "EndpointHostname ''apps'' (replicate 25 (CHR ''w'')) (replicate 37 (CHR ''e'') @ ''-one'') 8080 =
   EndpointHostname ''apps'' (replicate 25 (CHR ''w'')) (replicate 37 (CHR ''e'') @ ''-two'') 9090"
  by (rule truncated_hostnames_collide) simp

end
