(* ===== verification/Webhook.thy ===== *)
theory Webhook
  imports Naming
begin

text \<open>
  The admission webhooks of \<^verbatim>\<open>src/webhook/workspace\<close>: what they admit, deny and patch when a
  DevWorkspace, a pod, a deployment or another object of a workspace is created, updated or executed in.

  An object is decoded by the admission library, so a handler takes the decoded objects, or the
  error of decoding them. The review of an access by the API server, the reading of the type of an inlined object
  and the serialisation of a patched object are parameters.
\<close>

section \<open>Objects and requests\<close>

record ObjectMeta =
  om_Labels :: "(string, string) gomap"
  om_Annotations :: "(string, string) gomap"

definition serviceCAUsername :: string where
  "serviceCAUsername = ''system:serviceaccount:openshift-service-ca:service-ca''"

text \<open>Reading a missing key gives the zero value.\<close>

definition label :: "ObjectMeta \<Rightarrow> string \<Rightarrow> string" where
  "label m k = (case go_get (om_Labels m) k of None \<Rightarrow> [] | Some v \<Rightarrow> v)"

definition restricted :: "ObjectMeta \<Rightarrow> bool" where
  "restricted m \<longleftrightarrow> go_get (om_Annotations m) DevWorkspaceRestrictedAccessAnnotation = Some ''true''"

record UserInfo =
  ui_Username :: string
  ui_UID :: string
  ui_Groups :: "string list"

text \<open>
  What the webhooks read of a component: of its attributes only the merge-contribution attribute (the error or the Boolean
  that reading it gives), of its container only the two unsupported fields.
\<close>

record WebhookContainer =
  wc_ServiceAnnotation :: bool
  wc_DedicatedPod :: "bool option"

record WebhookComponent =
  wcomp_Name :: string
  wcomp_Container :: "WebhookContainer option"
  wcomp_Merge :: "(err + bool) option"
  wcomp_Kubernetes :: "K8sLikeComponent option"
  wcomp_Openshift :: "K8sLikeComponent option"
  wcomp_Image :: bool
  wcomp_Custom :: bool

text \<open>The attribute for the SCC is absent, or reading it gives an error or a string; \<open>wt_Rest\<close> is everything else.\<close>

record 'r WebhookTemplate =
  wt_Components :: "WebhookComponent list"
  wt_SCC :: "(err + string) option"
  wt_PostStop :: "string list option"
  wt_Rest :: 'r

text \<open>A workspace of either API version; \<open>ww_Rest\<close> is everything but metadata, \<^verbatim>\<open>started\<close>, template and ID.\<close>

record 'r WebhookWorkspace =
  ww_Meta :: ObjectMeta
  ww_Started :: bool
  ww_Template :: "'r WebhookTemplate"
  ww_Id :: string
  ww_Rest :: 'r

record WebhookHandler =
  ControllerUID :: string
  ControllerSAName :: string

record SubjectAccess =
  sar_User :: string
  sar_UID :: string
  sar_Groups :: "string list"
  sar_Verb :: string
  sar_Group :: string
  sar_Version :: string
  sar_Resource :: string
  sar_Name :: string

text \<open>The type of an inlined object, with the text that \<^verbatim>\<open>GroupVersionKind().String()\<close> gives.\<close>

record TypeMeta =
  tm_Kind :: string
  tm_Group :: string
  tm_Version :: string
  tm_String :: string

text \<open>
  What the handlers ask: a review (an error, or whether the access is allowed and the reason),
  the type of inlined content, whether the cluster is OpenShift, an order in which Go visits a map.
\<close>

record webhook_env =
  we_review :: "SubjectAccess \<Rightarrow> err + bool \<times> string"
  we_typeMeta :: "string \<Rightarrow> err + TypeMeta"
  we_openshift :: bool
  we_iter :: "(string \<times> K8sLikeComponent) list \<Rightarrow> (string \<times> K8sLikeComponent) list"

text \<open>A verdict, which may patch the object, and warnings.\<close>

datatype 'a verdict = Allowed string | Denied string | Errored nat err | Patched 'a

type_synonym 'a response = "'a verdict \<times> string list"

text \<open>The object that is stored, if the request is admitted.\<close>

fun admitted :: "'a \<Rightarrow> 'a verdict \<Rightarrow> 'a option" where
  "admitted obj (Allowed _) = Some obj"
| "admitted obj (Patched obj') = Some obj'"
| "admitted obj (Denied _) = None"
| "admitted obj (Errored _ _) = None"

text \<open>\<open>marshal\<close> is the error of \<^verbatim>\<open>json.Marshal\<close>, if any.\<close>

definition returnPatched :: "('a \<Rightarrow> err option) \<Rightarrow> 'a \<Rightarrow> 'a verdict" where
  "returnPatched marshal obj = (case marshal obj of Some e \<Rightarrow> Errored 500 e | None \<Rightarrow> Patched obj)"

section \<open>Labels of workspace objects\<close>

definition mutateMetadataOnCreate :: "ObjectMeta \<Rightarrow> err option" where
  "mutateMetadataOnCreate o' =
     (case go_get (om_Labels o') DevWorkspaceIDLabel of
        None \<Rightarrow> Some ([CHR 0x27] @ DevWorkspaceIDLabel @ [CHR 0x27] @ '' label is missing'')
      | Some devworkspaceId \<Rightarrow>
          if go_get (om_Labels o') DevWorkspaceCreatorLabel = None \<and> devworkspaceId \<noteq> []
          then Some ([CHR 0x27] @ DevWorkspaceCreatorLabel @ [CHR 0x27] @ '' label is missing'') else None)"

text \<open>The functions that change the new labels return them with the flag; the map is not nil here.\<close>

type_synonym labels = "(string \<times> string) list"

definition required :: "string \<Rightarrow> err" where
  "required k = [CHR 0x27] @ k @ [CHR 0x27] @ '' label is required. Update Controller and restart your DevWorkspace''"

definition mutateWorkspaceIdLabel :: "(string, string) gomap \<Rightarrow> labels \<Rightarrow> err + labels \<times> bool" where
  "mutateWorkspaceIdLabel old new =
     (case (map_of new DevWorkspaceIDLabel, go_get old DevWorkspaceIDLabel) of
        (None, None) \<Rightarrow> Inl (required DevWorkspaceIDLabel)
      | (None, Some oldWorkspaceId) \<Rightarrow> Inr (AList.update DevWorkspaceIDLabel oldWorkspaceId new, True)
      | (Some _, None) \<Rightarrow> Inr (new, False)
      | (Some newWorkspaceId, Some oldWorkspaceId) \<Rightarrow>
          if newWorkspaceId \<noteq> oldWorkspaceId
          then Inl (''the '' @ [CHR 0x27] @ DevWorkspaceIDLabel @ [CHR 0x27] @ '' label is assigned when a devworkspace is created and is immutable'')
          else Inr (new, False))"

definition mutateCreatorLabel :: "(string, string) gomap \<Rightarrow> labels \<Rightarrow> err + labels \<times> bool" where
  "mutateCreatorLabel old new =
     (let devworkspaceId = (case go_get old DevWorkspaceIDLabel of None \<Rightarrow> [] | Some i \<Rightarrow> i);
          oldCreator = (case go_get old DevWorkspaceCreatorLabel of None \<Rightarrow> [] | Some c \<Rightarrow> c) in
      if go_get old DevWorkspaceCreatorLabel = None \<and> devworkspaceId \<noteq> [] then Inl (required DevWorkspaceCreatorLabel)
      else if map_of new DevWorkspaceCreatorLabel = None \<and> devworkspaceId \<noteq> []
      then Inr (AList.update DevWorkspaceCreatorLabel oldCreator new, True)
      else if (case map_of new DevWorkspaceCreatorLabel of None \<Rightarrow> [] | Some c \<Rightarrow> c) \<noteq> oldCreator
      then Inl (''label '' @ [CHR 0x27] @ DevWorkspaceCreatorLabel @ [CHR 0x27] @ '' is assigned once devworkspace is created and is immutable'')
      else Inr (new, False))"

definition mutateLabelsOnUpdate :: "(string, string) gomap \<Rightarrow> labels \<Rightarrow> err + labels \<times> bool" where
  "mutateLabelsOnUpdate old new =
     (case mutateWorkspaceIdLabel old new of
        Inl e \<Rightarrow> Inl e
      | Inr (new1, modifiedWorkspaceId) \<Rightarrow>
     (case mutateCreatorLabel old new1 of
        Inl e \<Rightarrow> Inl e
      | Inr (new2, modifiedCreator) \<Rightarrow> Inr (new2, modifiedWorkspaceId \<or> modifiedCreator)))"

definition mutateMetadataOnUpdate :: "ObjectMeta \<Rightarrow> ObjectMeta \<Rightarrow> err + ObjectMeta \<times> bool" where
  "mutateMetadataOnUpdate oldMeta newMeta =
     (case mutateLabelsOnUpdate (om_Labels oldMeta) (go_items (om_Labels newMeta)) of
        Inl e \<Rightarrow> Inl e
      | Inr (labels, updated) \<Rightarrow> Inr (newMeta\<lparr>om_Labels := Some labels\<rparr>, updated))"

section \<open>Changes to objects\<close>

definition changePermitted :: "ObjectMeta \<Rightarrow> ObjectMeta \<Rightarrow> bool \<times> string" where
  "changePermitted oldMeta newMeta =
     (if label oldMeta DevWorkspaceCreatorLabel \<noteq> label newMeta DevWorkspaceCreatorLabel
      then (False, ''Label '' @ [CHR 0x27] @ DevWorkspaceCreatorLabel @ [CHR 0x27] @ '' is set by the controller and cannot be updated'')
      else if restricted oldMeta \<and> \<not> restricted newMeta
      then (False, ''Cannot change annotation '' @ [CHR 0x27] @ DevWorkspaceRestrictedAccessAnnotation @ [CHR 0x27] @
                   '' after it is set to '' @ [CHR 0x27] @ ''true'' @ [CHR 0x27])
      else (True, []))"

definition handleImmutableObj :: "WebhookHandler \<Rightarrow> ObjectMeta \<Rightarrow> ObjectMeta \<Rightarrow> string \<Rightarrow> bool \<times> string" where
  "handleImmutableObj h oldObj newObj uid = (if uid = ControllerUID h then (True, []) else changePermitted oldObj newObj)"

definition handleImmutableRoute :: "WebhookHandler \<Rightarrow> ObjectMeta \<Rightarrow> ObjectMeta \<Rightarrow> string \<Rightarrow> bool \<times> string" where
  "handleImmutableRoute h oldObj newObj username =
     (if username = ControllerSAName h then (True, []) else changePermitted oldObj newObj)"

definition handleImmutableService :: "WebhookHandler \<Rightarrow> ObjectMeta \<Rightarrow> ObjectMeta \<Rightarrow> string \<Rightarrow> string \<Rightarrow> bool \<times> string" where
  "handleImmutableService h oldObj newObj uid username =
     (if uid = ControllerUID h \<or> username = serviceCAUsername then (True, []) else changePermitted oldObj newObj)"

text \<open>A pod: its metadata and the names and images of its containers.\<close>

record WebhookPod =
  wp_Meta :: ObjectMeta
  wp_Containers :: "(string \<times> string) list"
  wp_InitContainers :: "(string \<times> string) list"

text \<open>The image of the last container of a name, as the loop over the containers leaves it in the map.\<close>

definition image_of :: "(string \<times> string) list \<Rightarrow> string \<Rightarrow> string" where
  "image_of cs n = (case map_of (rev cs) n of None \<Rightarrow> [] | Some i \<Rightarrow> i)"

definition handleImmutablePod :: "WebhookHandler \<Rightarrow> WebhookPod \<Rightarrow> WebhookPod \<Rightarrow> string \<Rightarrow> bool \<times> string" where
  "handleImmutablePod h oldObj newObj uid =
     (if uid = ControllerUID h then (True, [])
      else if \<not> restricted (wp_Meta oldObj) then (True, [])
      else if label (wp_Meta oldObj) DevWorkspaceCreatorLabel = uid then (True, [])
      else if list_ex (\<lambda>(n, i). image_of (wp_Containers newObj) n \<noteq> i) (wp_Containers oldObj)
      then (False, ''Not permitted to update container images for restricted-access pod'')
      else if list_ex (\<lambda>(n, i). image_of (wp_Containers newObj) n \<noteq> i) (wp_InitContainers oldObj)
      then (False, ''Not permitted to update init container images for restricted-access pod'')
      else (True, []))"

definition MutatePodOnCreate :: "err + WebhookPod \<Rightarrow> WebhookPod verdict" where
  "MutatePodOnCreate decoded =
     (case decoded of
        Inl e \<Rightarrow> Denied (''.metadata validation failed: '' @ e)
      | Inr p \<Rightarrow> (case mutateMetadataOnCreate (wp_Meta p) of
          Some e \<Rightarrow> Errored 400 e
        | None \<Rightarrow> Allowed ''The object is valid''))"

definition MutatePodOnUpdate ::
  "(WebhookPod \<Rightarrow> err option) \<Rightarrow> WebhookHandler \<Rightarrow> UserInfo \<Rightarrow> err + WebhookPod \<times> WebhookPod \<Rightarrow> WebhookPod verdict" where
  "MutatePodOnUpdate marshal h user decoded =
     (case decoded of
        Inl e \<Rightarrow> Denied e
      | Inr (oldP, newP) \<Rightarrow>
     (case handleImmutableObj h (wp_Meta oldP) (wp_Meta newP) (ui_UID user) of
        (False, msg) \<Rightarrow> Denied msg
      | (True, _) \<Rightarrow>
     (case handleImmutablePod h oldP newP (ui_UID user) of
        (False, msg) \<Rightarrow> Denied msg
      | (True, _) \<Rightarrow>
     (case mutateMetadataOnUpdate (wp_Meta oldP) (wp_Meta newP) of
        Inl e \<Rightarrow> Denied (''.metadata validation failed: '' @ e)
      | Inr (meta, patched) \<Rightarrow>
          if patched then returnPatched marshal (newP\<lparr>wp_Meta := meta\<rparr>) else Allowed ''The object is valid''))))"

record WebhookDeployment =
  wd_Meta :: ObjectMeta
  wd_Template :: ObjectMeta

definition MutateDeploymentOnCreate :: "err + WebhookDeployment \<Rightarrow> WebhookDeployment verdict" where
  "MutateDeploymentOnCreate decoded =
     (case decoded of
        Inl e \<Rightarrow> Errored 400 e
      | Inr d \<Rightarrow>
     (case mutateMetadataOnCreate (wd_Meta d) of
        Some e \<Rightarrow> Denied (''.metadata validation failed: '' @ e)
      | None \<Rightarrow>
     (case mutateMetadataOnCreate (wd_Template d) of
        Some e \<Rightarrow> Denied (''.spec.template.metadata validation failed: '' @ e)
      | None \<Rightarrow> Allowed ''The deployment is valid'')))"

definition MutateDeploymentOnUpdate ::
  "(WebhookDeployment \<Rightarrow> err option) \<Rightarrow> WebhookHandler \<Rightarrow> UserInfo \<Rightarrow> err + WebhookDeployment \<times> WebhookDeployment \<Rightarrow>
   WebhookDeployment verdict" where
  "MutateDeploymentOnUpdate marshal h user decoded =
     (case decoded of
        Inl e \<Rightarrow> Denied e
      | Inr (oldD, newD) \<Rightarrow>
     (case handleImmutableObj h (wd_Meta oldD) (wd_Meta newD) (ui_UID user) of
        (False, msg) \<Rightarrow> Denied msg
      | (True, _) \<Rightarrow>
     (case mutateMetadataOnUpdate (wd_Meta oldD) (wd_Meta newD) of
        Inl e \<Rightarrow> Denied (''.metadata validation failed: '' @ e)
      | Inr (meta, patchedMeta) \<Rightarrow>
     (case mutateMetadataOnUpdate (wd_Template oldD) (wd_Template newD) of
        Inl e \<Rightarrow> Denied (''.spec.template.metadata validation failed: '' @ e)
      | Inr (templ, patchedTemplate) \<Rightarrow>
          if patchedMeta \<or> patchedTemplate then returnPatched marshal (newD\<lparr>wd_Meta := meta, wd_Template := templ\<rparr>)
          else Allowed ''The deployment is valid''))))"

text \<open>Other objects; the first argument says whether the request is about a route or a service.\<close>

datatype other_kind = RouteKind | ServiceKind | IngressKind | JobKind | ComponentKind | RoutingKind

definition HandleRestrictedAccessUpdate ::
  "other_kind \<Rightarrow> WebhookHandler \<Rightarrow> UserInfo \<Rightarrow> err + ObjectMeta \<Rightarrow> err + ObjectMeta \<times> ObjectMeta \<Rightarrow> ObjectMeta verdict" where
  "HandleRestrictedAccessUpdate kind h user annotated parsed =
     (case annotated of
        Inl e \<Rightarrow> Denied e
      | Inr obj \<Rightarrow>
          if \<not> restricted obj then Allowed ''Workspace does not have restricted-access annotation''
          else (case parsed of
             Inl e \<Rightarrow> Denied e
           | Inr (oldObj, newObj) \<Rightarrow>
               (let (allowed, msg) =
                  (case kind of
                     RouteKind \<Rightarrow> handleImmutableRoute h oldObj newObj (ui_Username user)
                   | ServiceKind \<Rightarrow> handleImmutableService h oldObj newObj (ui_UID user) (ui_Username user)
                   | _ \<Rightarrow> handleImmutableObj h oldObj newObj (ui_UID user))
                in if allowed then Allowed msg else Denied msg)))"

definition HandleRestrictedAccessCreate :: "other_kind \<Rightarrow> WebhookHandler \<Rightarrow> UserInfo \<Rightarrow> err + ObjectMeta \<Rightarrow> ObjectMeta verdict" where
  "HandleRestrictedAccessCreate kind h user annotated =
     (case annotated of
        Inl e \<Rightarrow> Denied e
      | Inr obj \<Rightarrow>
          if \<not> restricted obj then Allowed ''Workspace does not have restricted-access annotation''
          else if kind = RouteKind \<and> ui_Username user = ControllerSAName h
          then Allowed ''Object created by workspace controller service account.''
          else if ui_UID user = ControllerUID h then Allowed ''Object created by workspace controller service account.''
          else Denied ''Only the workspace controller can create workspace objects.'')"

text \<open>\<open>pod\<close> is the pod in which to execute: an error, not found, or its metadata.\<close>

definition ValidateExecOnConnect :: "err + ObjectMeta option \<Rightarrow> UserInfo \<Rightarrow> ObjectMeta verdict" where
  "ValidateExecOnConnect pod user =
     (case pod of
        Inl e \<Rightarrow> Errored 500 e
      | Inr None \<Rightarrow> Allowed ''Not restricted-access DevWorkspace pod''
      | Inr (Some p) \<Rightarrow>
          if go_get (om_Labels p) DevWorkspaceIDLabel = None then Allowed ''Not a devworkspace related pod''
          else (case go_get (om_Labels p) DevWorkspaceCreatorLabel of
             None \<Rightarrow> Denied ''The workspace info is missing in the devworkspace-related pod''
           | Some creator \<Rightarrow>
               if restricted p \<and> creator \<noteq> ui_UID user then Denied ''The only devworkspace creator has exec access''
               else Allowed ''The current user and devworkspace are matched''))"

end
