(* ===== verification/Webhook_Workspace.thy ===== *)
theory Webhook_Workspace
  imports Webhook "HOL-Library.Char_ord" "HOL-Library.List_Lexorder"
begin

text \<open>
  The webhooks of DevWorkspaces themselves: restricted access, the SCC attribute, the permissions for
  Kubernetes components, warnings, and the two dispatchers.
\<close>

section \<open>Restricted access and SCC\<close>

text \<open>
  \<^verbatim>\<open>cmp.Equal\<close> with the options \<^verbatim>\<open>RestrictedAccessDiffOptions\<close>: equality of everything but the
  metadata and \<^verbatim>\<open>started\<close>.
\<close>

definition same_but_started :: "'r WebhookWorkspace \<Rightarrow> 'r WebhookWorkspace \<Rightarrow> bool" where
  "same_but_started a b \<longleftrightarrow> ww_Template a = ww_Template b \<and> ww_Id a = ww_Id b \<and> ww_Rest a = ww_Rest b"

definition checkRestrictedWorkspaceMetadata :: "ObjectMeta \<Rightarrow> ObjectMeta \<Rightarrow> bool \<times> string" where
  "checkRestrictedWorkspaceMetadata oldMeta newMeta =
     (if restricted oldMeta \<and> \<not> restricted newMeta then (False, ''cannot disable restricted-access once it is set'')
      else (True, ''permitted change to workspace''))"

definition checkRestrictedAccessWorkspaceV1alpha2 ::
  "WebhookHandler \<Rightarrow> 'r WebhookWorkspace \<Rightarrow> 'r WebhookWorkspace \<Rightarrow> string \<Rightarrow> bool \<times> string" where
  "checkRestrictedAccessWorkspaceV1alpha2 h oldWksp newWksp uid =
     (if \<not> restricted (ww_Meta oldWksp) then (True, ''workspace does not have restricted access configured'')
      else if uid = label (ww_Meta oldWksp) DevWorkspaceCreatorLabel \<or> uid = ControllerUID h
      then (True, ''workspace with restricted-access is updated by owner or controller'')
      else if \<not> same_but_started oldWksp newWksp
      then (False, ''workspace has restricted-access enabled and can only be modified by its creator.'')
      else checkRestrictedWorkspaceMetadata (ww_Meta oldWksp) (ww_Meta newWksp))"

text \<open>The same code over the types of the older version.\<close>

definition checkRestrictedAccessWorkspaceV1alpha1 ::
  "WebhookHandler \<Rightarrow> 'r WebhookWorkspace \<Rightarrow> 'r WebhookWorkspace \<Rightarrow> string \<Rightarrow> bool \<times> string" where
  "checkRestrictedAccessWorkspaceV1alpha1 h oldWksp newWksp uid =
     (if \<not> restricted (ww_Meta oldWksp) then (True, ''workspace does not have restricted access configured'')
      else if uid = label (ww_Meta oldWksp) DevWorkspaceCreatorLabel \<or> uid = ControllerUID h
      then (True, ''workspace with restricted-access is updated by owner or controller'')
      else if \<not> same_but_started oldWksp newWksp
      then (False, ''workspace has restricted-access enabled and can only be modified by its creator.'')
      else checkRestrictedWorkspaceMetadata (ww_Meta oldWksp) (ww_Meta newWksp))"

definition validateOpenShiftSCC :: "webhook_env \<Rightarrow> UserInfo \<Rightarrow> string \<Rightarrow> err option" where
  "validateOpenShiftSCC env user scc =
     (if \<not> we_openshift env then Some ''specifying additional SCCs is only permitted on OpenShift''
      else if scc = [] then Some (''empty value for attribute '' @ WorkspaceSCCAttribute @ '' is invalid'')
      else case we_review env \<lparr>sar_User = ui_Username user, sar_UID = ui_UID user, sar_Groups = ui_Groups user, sar_Verb = ''use'',
                sar_Group = ''security.openshift.io'', sar_Version = [], sar_Resource = ''securitycontextconstraints'', sar_Name = scc\<rparr> of
          Inl e \<Rightarrow> Some (''failed to create subjectaccessreview for request: '' @ e)
        | Inr (True, _) \<Rightarrow> None
        | Inr (False, reason) \<Rightarrow>
            if reason \<noteq> [] then Some (''user is not permitted to use the '' @ scc @ '' SCC: '' @ reason)
            else Some (''user is not permitted use the '' @ scc @ '' SCC''))"

definition validateUserPermissions ::
  "webhook_env \<Rightarrow> UserInfo \<Rightarrow> 'r WebhookWorkspace \<Rightarrow> 'r WebhookWorkspace option \<Rightarrow> err option" where
  "validateUserPermissions env user newWksp oldWksp =
     (case wt_SCC (ww_Template newWksp) of
        None \<Rightarrow> None
      | Some (Inl e) \<Rightarrow> Some (''failed to read '' @ WorkspaceSCCAttribute @ '' attribute in DevWorkspace: '' @ e)
      | Some (Inr newSCCAttr) \<Rightarrow>
     (case (case oldWksp of None \<Rightarrow> None | Some w \<Rightarrow> wt_SCC (ww_Template w)) of
        Some (Inl e) \<Rightarrow> Some (''failed to read '' @ WorkspaceSCCAttribute @ '' attribute in DevWorkspace: '' @ e)
      | Some (Inr oldSCCAttr) \<Rightarrow>
          if oldSCCAttr = newSCCAttr then None
          else Some (WorkspaceSCCAttribute @ '' attribute cannot be modified after being set -- workspace must be deleted'')
      | None \<Rightarrow> validateOpenShiftSCC env user newSCCAttr))"

section \<open>Kubernetes components\<close>

definition userVerbs :: "string list" where
  "userVerbs = [''get'', ''create'', ''update'', ''delete'']"

definition getKubeLikeComponent :: "WebhookComponent \<Rightarrow> K8sLikeComponent option" where
  "getKubeLikeComponent component =
     (case wcomp_Kubernetes component of Some k \<Rightarrow> Some k | None \<Rightarrow> wcomp_Openshift component)"

fun kube_loop :: "WebhookComponent list \<Rightarrow> (string \<times> K8sLikeComponent) list \<Rightarrow> (string \<times> K8sLikeComponent) list" where
  "kube_loop [] acc = acc"
| "kube_loop (component # components) acc =
     (case getKubeLikeComponent component of
        None \<Rightarrow> kube_loop components acc
      | Some k \<Rightarrow> kube_loop components (AList.update (wcomp_Name component) k acc))"

definition getKubeComponentsFromWorkspace :: "'r WebhookTemplate \<Rightarrow> (string \<times> K8sLikeComponent) list" where
  "getKubeComponentsFromWorkspace wksp = kube_loop (wt_Components wksp) []"

definition user_sar :: "UserInfo \<Rightarrow> TypeMeta \<Rightarrow> string \<Rightarrow> string \<Rightarrow> SubjectAccess" where
  "user_sar user typeMeta resourceType verb =
     \<lparr>sar_User = ui_Username user, sar_UID = ui_UID user, sar_Groups = ui_Groups user, sar_Verb = verb,
      sar_Group = tm_Group typeMeta, sar_Version = tm_Version typeMeta, sar_Resource = resourceType, sar_Name = []\<rparr>"

definition controller_sar :: "WebhookHandler \<Rightarrow> TypeMeta \<Rightarrow> string \<Rightarrow> SubjectAccess" where
  "controller_sar h typeMeta resourceType =
     \<lparr>sar_User = ControllerSAName h, sar_UID = ControllerUID h, sar_Groups = [], sar_Verb = ''*'',
      sar_Group = tm_Group typeMeta, sar_Version = tm_Version typeMeta, sar_Resource = resourceType, sar_Name = []\<rparr>"

definition checkSAR :: "webhook_env \<Rightarrow> UserInfo \<Rightarrow> TypeMeta \<Rightarrow> string \<Rightarrow> string \<Rightarrow> string \<Rightarrow> err option" where
  "checkSAR env user typeMeta resourceType componentName verb =
     (case we_review env (user_sar user typeMeta resourceType verb) of
        Inl e \<Rightarrow> Some (''failed to create subjectaccessreview for request: '' @ e)
      | Inr (allowed, _) \<Rightarrow>
          if allowed then None
          else Some (''user '' @ (if ui_Username user = [] then ui_UID user else ui_Username user) @ '' does not have permissions to '' @
                     [CHR 0x27] @ verb @ [CHR 0x27] @ '' objects of kind '' @ tm_String typeMeta @ '' defined in component '' @ componentName))"

definition validatePermissionsOnObject ::
  "webhook_env \<Rightarrow> WebhookHandler \<Rightarrow> UserInfo \<Rightarrow> string \<Rightarrow> string \<Rightarrow> err option" where
  "validatePermissionsOnObject env h user componentName component =
     (case we_typeMeta env component of
        Inl _ \<Rightarrow> Some (''failed to read content for component '' @ componentName)
      | Inr typeMeta \<Rightarrow>
          let kind = tm_Kind typeMeta; resourceType = map lower_char (tm_Kind typeMeta) @ ''s'' in
          if kind = ''List'' then Some ''lists are not supported in Kubernetes or OpenShift components''
          else if kind \<in> {''Role'', ''Rolebinding'', ''ClusterRole'', ''ClusterRoleBinding''}
          then Some ''kubernetes RBAC objects are not permitted within DevWorkspace components''
          else if kind \<in> {''DevWorkspace'', ''DevWorkspaceTemplate''}
          then Some ''DevWorkspace objects are not permitted within DevWorkspace components''
          else case first_err (checkSAR env user typeMeta resourceType componentName) userVerbs of
            Some e \<Rightarrow> Some e
          | None \<Rightarrow>
              (case we_review env (controller_sar h typeMeta resourceType) of
                 Inl e \<Rightarrow> Some (''failed to create subjectaccessreview for request: '' @ e)
               | Inr (True, _) \<Rightarrow> None
               | Inr (False, _) \<Rightarrow>
                   Some (''devworkspace controller serviceaccount does not have permissions to manage kind '' @ kind @
                         '' defined in component '' @ componentName @ '' -- an administrator needs to grant the devworkspace operator permissions ('' @
                         [CHR 0x27] @ ''*'' @ [CHR 0x27] @ '') '' @ tm_String typeMeta @ '' to use this DevWorkspace'')))"

definition validateKubernetesObjectPermissionsOnCreate ::
  "webhook_env \<Rightarrow> WebhookHandler \<Rightarrow> UserInfo \<Rightarrow> 'r WebhookTemplate \<Rightarrow> err option" where
  "validateKubernetesObjectPermissionsOnCreate env h user wksp =
     first_err (\<lambda>(componentName, component).
       if \<not> k8_DeployByDefault component then None
       else if k8_Uri component \<noteq> [] then None
       else if k8_Inlined component = [] then Some ''kubernetes component does not define inlined content''
       else validatePermissionsOnObject env h user componentName (k8_Inlined component))
     (we_iter env (getKubeComponentsFromWorkspace wksp))"

definition validateKubernetesObjectPermissionsOnUpdate ::
  "webhook_env \<Rightarrow> WebhookHandler \<Rightarrow> UserInfo \<Rightarrow> 'r WebhookTemplate \<Rightarrow> 'r WebhookTemplate \<Rightarrow> err option" where
  "validateKubernetesObjectPermissionsOnUpdate env h user newWksp oldWksp =
     first_err (\<lambda>(componentName, newComponent).
       if \<not> k8_DeployByDefault newComponent then None
       else if k8_Uri newComponent \<noteq> [] then None
       else if k8_Inlined newComponent = [] then Some ''kubernetes component does not define inlined content''
       else case map_of (getKubeComponentsFromWorkspace oldWksp) componentName of
           None \<Rightarrow> validatePermissionsOnObject env h user componentName (k8_Inlined newComponent)
         | Some oldComponent \<Rightarrow>
             if k8_Inlined oldComponent \<noteq> k8_Inlined newComponent
             then validatePermissionsOnObject env h user componentName (k8_Inlined newComponent) else None)
     (we_iter env (getKubeComponentsFromWorkspace newWksp))"

text \<open>
  The older version has no \<^verbatim>\<open>deployByDefault\<close> and refuses a URI; its components carry
  their name inside.
\<close>

definition validateKubernetesObjectPermissionsOnCreate_v1alpha1 ::
  "webhook_env \<Rightarrow> WebhookHandler \<Rightarrow> UserInfo \<Rightarrow> 'r WebhookTemplate \<Rightarrow> err option" where
  "validateKubernetesObjectPermissionsOnCreate_v1alpha1 env h user wksp =
     first_err (\<lambda>(componentName, component).
       if k8_Uri component \<noteq> [] then Some ''kubenetes components specified via URI are unsupported''
       else if k8_Inlined component = [] then Some ''kubernetes component does not define inlined content''
       else validatePermissionsOnObject env h user componentName (k8_Inlined component))
     (we_iter env (getKubeComponentsFromWorkspace wksp))"

definition validateKubernetesObjectPermissionsOnUpdate_v1alpha1 ::
  "webhook_env \<Rightarrow> WebhookHandler \<Rightarrow> UserInfo \<Rightarrow> 'r WebhookTemplate \<Rightarrow> 'r WebhookTemplate \<Rightarrow> err option" where
  "validateKubernetesObjectPermissionsOnUpdate_v1alpha1 env h user newWksp oldWksp =
     first_err (\<lambda>(componentName, newComponent).
       if k8_Uri newComponent \<noteq> [] then Some ''kubenetes components specified via URI are unsupported''
       else if k8_Inlined newComponent = [] then Some ''kubernetes component does not define inlined content''
       else case map_of (getKubeComponentsFromWorkspace oldWksp) componentName of
           None \<Rightarrow> validatePermissionsOnObject env h user componentName (k8_Inlined newComponent)
         | Some oldComponent \<Rightarrow>
             if k8_Inlined oldComponent \<noteq> k8_Inlined newComponent
             then validatePermissionsOnObject env h user componentName (k8_Inlined newComponent) else None)
     (we_iter env (getKubeComponentsFromWorkspace newWksp))"

section \<open>Attributes and warnings\<close>

fun merge_targets :: "WebhookComponent list \<Rightarrow> err + string list" where
  "merge_targets [] = Inr []"
| "merge_targets (component # components) =
     (case (if wcomp_Container component = None then None else wcomp_Merge component) of
        Some (Inl _) \<Rightarrow> Inl (''failed to parse '' @ MergeContributionAttribute @ '' attribute on component '' @ wcomp_Name component @
                          '' as true or false'')
      | Some (Inr True) \<Rightarrow> (case merge_targets components of Inl e \<Rightarrow> Inl e | Inr ns \<Rightarrow> Inr (wcomp_Name component # ns))
      | _ \<Rightarrow> merge_targets components)"

fun join_names :: "string list \<Rightarrow> string" where
  "join_names [] = []"
| "join_names [n] = n"
| "join_names (n # ns) = n @ '', '' @ join_names ns"

definition checkMultipleContainerContributionTargets :: "'r WebhookTemplate \<Rightarrow> err option" where
  "checkMultipleContainerContributionTargets spec =
     (case merge_targets (wt_Components spec) of
        Inl e \<Rightarrow> Some e
      | Inr componentNames \<Rightarrow>
          if length componentNames > 1
          then Some (''only a single component may have the '' @ MergeContributionAttribute @
                     '' attribute set to true. The following '' @ format_nat (length componentNames) @ '' components have the '' @
                     MergeContributionAttribute @ '' attribute set to true: '' @ join_names componentNames)
          else None)"

text \<open>The sets of names that use unsupported features, each a list of the keys of the Go map.\<close>

record unsupportedWarnings =
  uw_serviceAnnotations :: "string list"
  uw_dedicatedPod :: "string list"
  uw_imageComponent :: "string list"
  uw_customComponent :: "string list"
  uw_eventPostStop :: "string list"

definition names_where :: "(WebhookComponent \<Rightarrow> bool) \<Rightarrow> WebhookComponent list \<Rightarrow> string list" where
  "names_where P components = remdups (map wcomp_Name (filter P components))"

definition checkUnsupportedFeatures :: "'r WebhookTemplate \<Rightarrow> unsupportedWarnings" where
  "checkUnsupportedFeatures spec =
     \<lparr>uw_serviceAnnotations = names_where (\<lambda>c. case wcomp_Container c of Some k \<Rightarrow> wc_ServiceAnnotation k | None \<Rightarrow> False) (wt_Components spec),
      uw_dedicatedPod = names_where (\<lambda>c. case wcomp_Container c of Some k \<Rightarrow> wc_DedicatedPod k = Some True | None \<Rightarrow> False) (wt_Components spec),
      uw_imageComponent = names_where wcomp_Image (wt_Components spec),
      uw_customComponent = names_where wcomp_Custom (wt_Components spec),
      uw_eventPostStop = (case wt_PostStop spec of None \<Rightarrow> [] | Some events \<Rightarrow> remdups events)\<rparr>"

definition unsupportedWarningsPresent :: "unsupportedWarnings \<Rightarrow> bool" where
  "unsupportedWarningsPresent warnings \<longleftrightarrow>
     uw_serviceAnnotations warnings \<noteq> [] \<or> uw_dedicatedPod warnings \<noteq> [] \<or> uw_imageComponent warnings \<noteq> [] \<or>
     uw_customComponent warnings \<noteq> [] \<or> uw_eventPostStop warnings \<noteq> []"

definition checkForAddedUnsupportedFeatures :: "'r WebhookTemplate \<Rightarrow> 'r WebhookTemplate \<Rightarrow> unsupportedWarnings" where
  "checkForAddedUnsupportedFeatures oldWksp newWksp =
     (let old = checkUnsupportedFeatures oldWksp; new = checkUnsupportedFeatures newWksp;
          added = (\<lambda>old new. filter (\<lambda>n. n \<notin> set old) new) in
      \<lparr>uw_serviceAnnotations = added (uw_serviceAnnotations old) (uw_serviceAnnotations new),
       uw_dedicatedPod = added (uw_dedicatedPod old) (uw_dedicatedPod new),
       uw_imageComponent = added (uw_imageComponent old) (uw_imageComponent new),
       uw_customComponent = added (uw_customComponent old) (uw_customComponent new),
       uw_eventPostStop = added (uw_eventPostStop old) (uw_eventPostStop new)\<rparr>)"

text \<open>\<^const>\<open>sort\<close> is \<^verbatim>\<open>sort.Strings\<close>: strings are ordered by their bytes.\<close>

definition formatUnsupportedFeaturesWarning :: "unsupportedWarnings \<Rightarrow> string" where
  "formatUnsupportedFeaturesWarning warnings =
     (let part = (\<lambda>prefix names. if names = [] then [] else [prefix @ join_names (sort names)]);
          msg = part ''components[].container.annotation.service, used by components: '' (uw_serviceAnnotations warnings) @
                part ''components[].container.dedicatedPod, used by components: '' (uw_dedicatedPod warnings) @
                part ''components[].image, used by components: '' (uw_imageComponent warnings) @
                part ''components[].custom, used by components: '' (uw_customComponent warnings) @
                part ''events.postStop: '' (uw_eventPostStop warnings)
      in ''Unsupported Devfile features are present in this workspace. The following features will have no effect: '' @
         concat (case msg of [] \<Rightarrow> [] | m # ms \<Rightarrow> m # map (\<lambda>x. ''; '' @ x) ms))"

section \<open>Workspaces\<close>

text \<open>\<^verbatim>\<open>maputils.Append(wksp.Labels, ...)\<close>\<close>

definition with_creator :: "string \<Rightarrow> 'r WebhookWorkspace \<Rightarrow> 'r WebhookWorkspace" where
  "with_creator creator w =
     w\<lparr>ww_Meta := (ww_Meta w)\<lparr>om_Labels := Some (AList.update DevWorkspaceCreatorLabel creator (go_items (om_Labels (ww_Meta w))))\<rparr>\<rparr>"

definition creator_missing :: err where
  "creator_missing = ''label '' @ [CHR 0x27] @ DevWorkspaceCreatorLabel @ [CHR 0x27] @
     '' is missing. Please recreate devworkspace to get it initialized''"
definition creator_immutable :: err where
  "creator_immutable = ''label '' @ [CHR 0x27] @ DevWorkspaceCreatorLabel @ [CHR 0x27] @ '' is assigned once devworkspace is created and is immutable''"

definition MutateWorkspaceV1alpha1OnCreate ::
  "webhook_env \<Rightarrow> ('r WebhookWorkspace \<Rightarrow> err option) \<Rightarrow> WebhookHandler \<Rightarrow> UserInfo \<Rightarrow> err + 'r WebhookWorkspace \<Rightarrow> 'r WebhookWorkspace response" where
  "MutateWorkspaceV1alpha1OnCreate env marshal h user decoded =
     (case decoded of
        Inl e \<Rightarrow> (Errored 400 e, [])
      | Inr wksp \<Rightarrow>
          let wksp = with_creator (ui_UID user) wksp in
          (case validateKubernetesObjectPermissionsOnCreate_v1alpha1 env h user (ww_Template wksp) of
             Some e \<Rightarrow> (Denied e, [])
           | None \<Rightarrow> (returnPatched marshal wksp, [])))"

definition MutateWorkspaceV1alpha2OnCreate ::
  "webhook_env \<Rightarrow> ('r WebhookWorkspace \<Rightarrow> err option) \<Rightarrow> WebhookHandler \<Rightarrow> UserInfo \<Rightarrow>
   err + 'r WebhookWorkspace \<Rightarrow> 'r WebhookWorkspace response" where
  "MutateWorkspaceV1alpha2OnCreate env marshal h user decoded =
     (case decoded of
        Inl e \<Rightarrow> (Errored 400 e, [])
      | Inr wksp \<Rightarrow>
          let wksp = with_creator (ui_UID user) wksp in
          (case validateUserPermissions env user wksp None of
             Some e \<Rightarrow> (Denied e, [])
           | None \<Rightarrow>
          (case validateKubernetesObjectPermissionsOnCreate env h user (ww_Template wksp) of
             Some e \<Rightarrow> (Denied e, [])
           | None \<Rightarrow>
          (case checkMultipleContainerContributionTargets (ww_Template wksp) of
             Some e \<Rightarrow> (Denied e, [])
           | None \<Rightarrow>
               (returnPatched marshal wksp,
                if unsupportedWarningsPresent (checkUnsupportedFeatures (ww_Template wksp))
                then [formatUnsupportedFeaturesWarning (checkUnsupportedFeatures (ww_Template wksp))] else [])))))"

text \<open>The end of an update: the creator is filled in where it is missing and must not change.\<close>

definition creator_verdict ::
  "('r WebhookWorkspace \<Rightarrow> err option) \<Rightarrow> 'r WebhookWorkspace \<Rightarrow> 'r WebhookWorkspace \<Rightarrow> string \<Rightarrow> 'r WebhookWorkspace verdict" where
  "creator_verdict marshal oldWksp newWksp msg =
     (case go_get (om_Labels (ww_Meta oldWksp)) DevWorkspaceCreatorLabel of
        None \<Rightarrow> Denied creator_missing
      | Some oldCreator \<Rightarrow>
          (case go_get (om_Labels (ww_Meta newWksp)) DevWorkspaceCreatorLabel of
             None \<Rightarrow> returnPatched marshal (with_creator oldCreator newWksp)
           | Some newCreator \<Rightarrow> if newCreator \<noteq> oldCreator then Denied creator_immutable else Allowed msg))"

definition MutateWorkspaceV1alpha1OnUpdate ::
  "webhook_env \<Rightarrow> ('r WebhookWorkspace \<Rightarrow> err option) \<Rightarrow> WebhookHandler \<Rightarrow> UserInfo \<Rightarrow>
   err + 'r WebhookWorkspace \<times> 'r WebhookWorkspace \<Rightarrow> 'r WebhookWorkspace response" where
  "MutateWorkspaceV1alpha1OnUpdate env marshal h user parsed =
     (case parsed of
        Inl e \<Rightarrow> (Errored 400 e, [])
      | Inr (oldWksp, newWksp) \<Rightarrow>
          if ww_Id oldWksp \<noteq> [] \<and> ww_Id newWksp \<noteq> ww_Id oldWksp then (Denied ''DevWorkspace ID cannot be changed once it is set'', [])
          else (case checkRestrictedAccessWorkspaceV1alpha1 h oldWksp newWksp (ui_UID user) of
             (False, msg) \<Rightarrow> (Denied msg, [])
           | (True, _) \<Rightarrow>
          (case validateKubernetesObjectPermissionsOnUpdate_v1alpha1 env h user (ww_Template newWksp) (ww_Template oldWksp) of
             Some e \<Rightarrow> (Denied e, [])
           | None \<Rightarrow>
               (creator_verdict marshal oldWksp newWksp ''new devworkspace has the same devworkspace creator as old one'', []))))"

definition MutateWorkspaceV1alpha2OnUpdate ::
  "webhook_env \<Rightarrow> ('r WebhookWorkspace \<Rightarrow> err option) \<Rightarrow> WebhookHandler \<Rightarrow> UserInfo \<Rightarrow>
   err + 'r WebhookWorkspace \<times> 'r WebhookWorkspace \<Rightarrow> 'r WebhookWorkspace response" where
  "MutateWorkspaceV1alpha2OnUpdate env marshal h user parsed =
     (case parsed of
        Inl e \<Rightarrow> (Errored 400 e, [])
      | Inr (oldWksp, newWksp) \<Rightarrow>
          if ww_Id oldWksp \<noteq> [] \<and> ww_Id newWksp \<noteq> ww_Id oldWksp then (Denied ''DevWorkspace ID cannot be changed once it is set'', [])
          else
          let features = checkForAddedUnsupportedFeatures (ww_Template oldWksp) (ww_Template newWksp);
              warnings = (if unsupportedWarningsPresent features then [formatUnsupportedFeaturesWarning features] else []) in
          (case checkRestrictedAccessWorkspaceV1alpha2 h oldWksp newWksp (ui_UID user) of
             (False, msg) \<Rightarrow> (Denied msg, [])
           | (True, _) \<Rightarrow>
          (case validateUserPermissions env user newWksp (Some oldWksp) of
             Some e \<Rightarrow> (Denied e, [])
           | None \<Rightarrow>
          (case validateKubernetesObjectPermissionsOnUpdate env h user (ww_Template newWksp) (ww_Template oldWksp) of
             Some e \<Rightarrow> (Denied e, [])
           | None \<Rightarrow>
          (case checkMultipleContainerContributionTargets (ww_Template newWksp) of
             Some e \<Rightarrow> (Denied e, [])
           | None \<Rightarrow>
               (case creator_verdict marshal oldWksp newWksp
                       (if warnings \<noteq> [] then [] else ''new workspace has the same devworkspace as old one'') of
                  Denied e \<Rightarrow> (Denied e, [])
                | v \<Rightarrow> (v, warnings)))))))"

section \<open>Dispatch\<close>

text \<open>
  The validation of a devfile by its library: the errors of events, projects, dependent projects and
  starter projects, each absent where the field is nil or valid.
\<close>

record devfile_errors =
  de_events :: "err option"
  de_projects :: "err option"
  de_dependentProjects :: "err option"
  de_starterProjects :: "err option"

definition ValidateDevfile :: "err + devfile_errors \<Rightarrow> 'a verdict" where
  "ValidateDevfile decoded =
     (case decoded of
        Inl e \<Rightarrow> Errored 500 e
      | Inr d \<Rightarrow>
          let devfileErrors = List.map_filter (\<lambda>x. x) [de_events d, de_projects d, de_dependentProjects d, de_starterProjects d] in
          (case devfileErrors of
             [] \<Rightarrow> Allowed ''No Devfile errors were found''
           | e # es \<Rightarrow> Denied ([CHR 0x0A] @ e @ concat (map (\<lambda>x. CHR 0x0A # x) es) @ [CHR 0x0A])))"

datatype Operation = CreateOp | UpdateOp | DeleteOp | ConnectOp

text \<open>A request by its kind, with the object as decoded for a creation and the two objects as parsed for an update.\<close>

datatype 'r request =
    DevWorkspaceV1alpha1 "err + 'r WebhookWorkspace" "err + 'r WebhookWorkspace \<times> 'r WebhookWorkspace"
  | DevWorkspaceV1alpha2 "err + 'r WebhookWorkspace" "err + 'r WebhookWorkspace \<times> 'r WebhookWorkspace"
  | PodRequest "err + WebhookPod" "err + WebhookPod \<times> WebhookPod"
  | DeploymentRequest "err + WebhookDeployment" "err + WebhookDeployment \<times> WebhookDeployment"
  | OtherRequest other_kind "err + ObjectMeta" "err + ObjectMeta \<times> ObjectMeta"
  | UnknownRequest string

text \<open>The group, version and kind of a request, as it is printed; an unknown one carries its text.\<close>

fun other_kind_text :: "other_kind \<Rightarrow> string" where
  "other_kind_text RouteKind = ''route.openshift.io/v1, Kind=Route''"
| "other_kind_text ServiceKind = ''/v1, Kind=Service''"
| "other_kind_text IngressKind = ''networking.k8s.io/v1, Kind=Ingress''"
| "other_kind_text JobKind = ''batch/v1, Kind=Job''"
| "other_kind_text ComponentKind = ''controller.devfile.io/v1alpha1, Kind=Component''"
| "other_kind_text RoutingKind = ''controller.devfile.io/v1alpha1, Kind=DevWorkspaceRouting''"

fun kind_text :: "'r request \<Rightarrow> string" where
  "kind_text (DevWorkspaceV1alpha1 _ _) = ''workspace.devfile.io/v1alpha1, Kind=DevWorkspace''"
| "kind_text (DevWorkspaceV1alpha2 _ _) = ''workspace.devfile.io/v1alpha2, Kind=DevWorkspace''"
| "kind_text (PodRequest _ _) = ''/v1, Kind=Pod''"
| "kind_text (DeploymentRequest _ _) = ''apps/v1, Kind=Deployment''"
| "kind_text (OtherRequest kind _ _) = other_kind_text kind"
| "kind_text (UnknownRequest text) = text"

fun operation_text :: "Operation \<Rightarrow> string" where
  "operation_text CreateOp = ''CREATE''"
| "operation_text UpdateOp = ''UPDATE''"
| "operation_text DeleteOp = ''DELETE''"
| "operation_text ConnectOp = ''CONNECT''"

datatype 'r stored = StoredWorkspace "'r WebhookWorkspace" | StoredPod WebhookPod | StoredDeployment WebhookDeployment | StoredOther ObjectMeta

text \<open>The annotation is read from the old object where there is one.\<close>

definition old_meta :: "err + ObjectMeta \<times> ObjectMeta \<Rightarrow> err + ObjectMeta" where
  "old_meta parsed = map_sum (\<lambda>e. e) fst parsed"

record 'r serializers =
  ser_workspace :: "'r WebhookWorkspace \<Rightarrow> err option"
  ser_pod :: "WebhookPod \<Rightarrow> err option"
  ser_deployment :: "WebhookDeployment \<Rightarrow> err option"

abbreviation on_verdict :: "('a \<Rightarrow> 'b) \<Rightarrow> 'a response \<Rightarrow> 'b response" where
  "on_verdict f \<equiv> map_prod (map_verdict f) (\<lambda>ws. ws)"

definition not_designed :: "Operation \<Rightarrow> 'r request \<Rightarrow> string" where
  "not_designed operation req =
     ''This admission controller is not designed to handle '' @ operation_text operation @ '' operation for '' @ kind_text req @
     ''. Notify an administrator about this issue''"

definition Handle :: "webhook_env \<Rightarrow> 'r serializers \<Rightarrow> WebhookHandler \<Rightarrow> UserInfo \<Rightarrow> Operation \<Rightarrow> 'r request \<Rightarrow> 'r stored response" where
  "Handle env ser m user operation req =
     (case operation of
        CreateOp \<Rightarrow>
          (case req of
             DevWorkspaceV1alpha1 decoded _ \<Rightarrow> on_verdict StoredWorkspace (MutateWorkspaceV1alpha1OnCreate env (ser_workspace ser) m user decoded)
           | DevWorkspaceV1alpha2 decoded _ \<Rightarrow> on_verdict StoredWorkspace (MutateWorkspaceV1alpha2OnCreate env (ser_workspace ser) m user decoded)
           | PodRequest decoded _ \<Rightarrow> (map_verdict StoredPod (MutatePodOnCreate decoded), [])
           | DeploymentRequest decoded _ \<Rightarrow> (map_verdict StoredDeployment (MutateDeploymentOnCreate decoded), [])
           | OtherRequest kind decoded _ \<Rightarrow> (map_verdict StoredOther (HandleRestrictedAccessCreate kind m user decoded), [])
           | UnknownRequest _ \<Rightarrow> (Denied (not_designed operation req), []))
      | UpdateOp \<Rightarrow>
          (case req of
             DevWorkspaceV1alpha1 _ parsed \<Rightarrow> on_verdict StoredWorkspace (MutateWorkspaceV1alpha1OnUpdate env (ser_workspace ser) m user parsed)
           | DevWorkspaceV1alpha2 _ parsed \<Rightarrow> on_verdict StoredWorkspace (MutateWorkspaceV1alpha2OnUpdate env (ser_workspace ser) m user parsed)
           | PodRequest _ parsed \<Rightarrow> (map_verdict StoredPod (MutatePodOnUpdate (ser_pod ser) m user parsed), [])
           | DeploymentRequest _ parsed \<Rightarrow> (map_verdict StoredDeployment (MutateDeploymentOnUpdate (ser_deployment ser) m user parsed), [])
           | OtherRequest kind _ parsed \<Rightarrow> (map_verdict StoredOther (HandleRestrictedAccessUpdate kind m user (old_meta parsed) parsed), [])
           | UnknownRequest _ \<Rightarrow> (Denied (not_designed operation req), []))
      | _ \<Rightarrow> (Denied (not_designed operation req), []))"

end
