(* ===== verification/Webhook_Access.thy ===== *)
theory Webhook_Access
  imports Webhook_Workspace
begin

text \<open>
  What the webhooks guarantee: the creator and the ID of an object do not change, restricted access cannot be taken
  away, a workspace with restricted access is changed only by its creator, only the creator executes
  in its pods, and a Kubernetes component is deployed only after its author's permissions were
  reviewed --- except on the paths where the code misses it.
\<close>

section \<open>Labels\<close>

lemma AList_map_of_update: "map_of (AList.update k v al) k' = (if k' = k then Some v else map_of al k')"
  by (simp add: update_conv')

lemma ID_not_creator [simp]: "DevWorkspaceIDLabel \<noteq> DevWorkspaceCreatorLabel" "DevWorkspaceCreatorLabel \<noteq> DevWorkspaceIDLabel"
  by (simp_all add: DevWorkspaceIDLabel_def DevWorkspaceCreatorLabel_def)

lemma mutateWorkspaceIdLabel_keeps:
  assumes "mutateWorkspaceIdLabel old new = Inr (new', b)"
  shows "map_of new' DevWorkspaceIDLabel \<noteq> None"
    "go_get old DevWorkspaceIDLabel = Some i \<Longrightarrow> map_of new' DevWorkspaceIDLabel = Some i"
    "map_of new' DevWorkspaceCreatorLabel = map_of new DevWorkspaceCreatorLabel" "\<not> b \<Longrightarrow> new' = new"
  using assms by (auto simp: mutateWorkspaceIdLabel_def AList_map_of_update split: option.splits if_splits)

lemma mutateCreatorLabel_keeps:
  assumes "mutateCreatorLabel old new = Inr (new', b)"
  shows "map_of new' DevWorkspaceIDLabel = map_of new DevWorkspaceIDLabel" "\<not> b \<Longrightarrow> new' = new"
    "go_get old DevWorkspaceIDLabel = Some i \<Longrightarrow> i \<noteq> [] \<Longrightarrow>
       map_of new' DevWorkspaceCreatorLabel = go_get old DevWorkspaceCreatorLabel \<and> go_get old DevWorkspaceCreatorLabel \<noteq> None"
  using assms by (auto simp: mutateCreatorLabel_def Let_def AList_map_of_update split: option.splits if_splits)

text \<open>Metadata of an object that belongs to one workspace: it has its ID and its creator.\<close>

definition identity :: "ObjectMeta \<Rightarrow> (string \<times> string) option" where
  "identity m = (case (go_get (om_Labels m) DevWorkspaceIDLabel, go_get (om_Labels m) DevWorkspaceCreatorLabel) of
     (Some i, Some c) \<Rightarrow> if i = [] then None else Some (i, c) | _ \<Rightarrow> None)"

lemma mutateMetadataOnUpdate_cases:
  assumes "mutateMetadataOnUpdate old new = Inr x"
  obtains ls1 b1 ls2 b2 where "mutateWorkspaceIdLabel (om_Labels old) (go_items (om_Labels new)) = Inr (ls1, b1)"
    "mutateCreatorLabel (om_Labels old) ls1 = Inr (ls2, b2)" "x = (new\<lparr>om_Labels := Some ls2\<rparr>, b1 \<or> b2)"
  using assms by (auto simp: mutateMetadataOnUpdate_def mutateLabelsOnUpdate_def split: sum.splits prod.splits)

lemma mutateMetadataOnUpdate_identity:
  assumes "mutateMetadataOnUpdate old new = Inr (m, b)" "identity old = Some ic"
  shows "identity m = Some ic" "om_Annotations m = om_Annotations new" "\<not> b \<Longrightarrow> identity new = Some ic"
proof -
  obtain i c where ic: "ic = (i, c)" "go_get (om_Labels old) DevWorkspaceIDLabel = Some i"
    "go_get (om_Labels old) DevWorkspaceCreatorLabel = Some c" "i \<noteq> []"
    using assms(2) by (auto simp: identity_def split: option.splits if_splits)
  obtain ls1 b1 ls2 b2 where 1: "mutateWorkspaceIdLabel (om_Labels old) (go_items (om_Labels new)) = Inr (ls1, b1)"
    and 2: "mutateCreatorLabel (om_Labels old) ls1 = Inr (ls2, b2)" and x: "(m, b) = (new\<lparr>om_Labels := Some ls2\<rparr>, b1 \<or> b2)"
    by (rule mutateMetadataOnUpdate_cases [OF assms(1)])
  have m: "m = new\<lparr>om_Labels := Some ls2\<rparr>" and b: "b = (b1 \<or> b2)" using x by simp_all
  note k1 = mutateWorkspaceIdLabel_keeps [OF 1] and k2 = mutateCreatorLabel_keeps [OF 2]
  have "map_of ls2 DevWorkspaceIDLabel = Some i" "map_of ls2 DevWorkspaceCreatorLabel = Some c"
    using k1(2) [OF ic(2)] k2(1) k2(3) [OF ic(2,4)] ic(3) by simp_all
  then show id: "identity m = Some ic" by (simp add: m identity_def go_get_Some ic)
  show "om_Annotations m = om_Annotations new" by (simp add: m)
  show "identity new = Some ic" if "\<not> b"
  proof -
    have "ls2 = go_items (om_Labels new)" using that b k1(4) k2(2) by simp
    then have "go_get (om_Labels m) = go_get (om_Labels new)" by (simp add: m go_get_def fun_eq_iff)
    with id show ?thesis by (simp add: identity_def)
  qed
qed

lemma changePermitted_restricted:
  "changePermitted old new = (True, msg) \<Longrightarrow> restricted old \<Longrightarrow> restricted new"
  by (auto simp: changePermitted_def split: if_splits)

section \<open>Updates of guarded objects\<close>

text \<open>A history of update requests: each is a user and the new object, and is stored if it is admitted.\<close>

fun run_updates :: "(UserInfo \<Rightarrow> 'a \<Rightarrow> 'a \<Rightarrow> 'a verdict) \<Rightarrow> (UserInfo \<times> 'a) list \<Rightarrow> 'a \<Rightarrow> 'a" where
  "run_updates update [] obj = obj"
| "run_updates update ((user, new) # rest) obj =
     (case admitted new (update user obj new) of None \<Rightarrow> run_updates update rest obj | Some obj' \<Rightarrow> run_updates update rest obj')"

text \<open>
  What the handlers of updates have in common: an update that they admit keeps who the object belongs to, and
  it keeps restricted access unless a privileged user made it, where being privileged depends only on whom
  the object belongs to.
\<close>

locale guarded_update =
  fixes update :: "UserInfo \<Rightarrow> 'a \<Rightarrow> 'a \<Rightarrow> 'a verdict"
    and meta :: "'a \<Rightarrow> ObjectMeta"
    and owner :: "'a \<Rightarrow> 'i option"
    and privileged :: "UserInfo \<Rightarrow> 'a \<Rightarrow> bool"
  assumes keeps_owner: "admitted new (update user old new) = Some obj \<Longrightarrow> owner old = Some ic \<Longrightarrow> owner obj = Some ic"
    and keeps_restricted: "admitted new (update user old new) = Some obj \<Longrightarrow> \<not> privileged user old \<Longrightarrow>
      restricted (meta old) \<Longrightarrow> restricted (meta obj)"
    and privileged_owner: "owner old = Some ic \<Longrightarrow> owner obj = Some ic \<Longrightarrow> privileged user old = privileged user obj"
begin

lemma run_owner: "owner obj = Some ic \<Longrightarrow> owner (run_updates update requests obj) = Some ic"
proof (induction requests arbitrary: obj)
  case (Cons request rest)
  then show ?case using keeps_owner by (cases request) (auto split: option.split)
qed simp

lemma run_restricted:
  "owner obj = Some ic \<Longrightarrow> restricted (meta obj) \<Longrightarrow> \<forall>(user, new) \<in> set requests. \<not> privileged user obj \<Longrightarrow>
   restricted (meta (run_updates update requests obj))"
proof (induction requests arbitrary: obj)
  case (Cons request rest)
  obtain user new where r: "request = (user, new)" by (cases request)
  show ?case
  proof (cases "admitted new (update user obj new)")
    case None
    with Cons r show ?thesis by simp
  next
    case (Some obj')
    note o = keeps_owner [OF Some Cons.prems(1)]
    have "restricted (meta obj')" using keeps_restricted [OF Some _ Cons.prems(2)] Cons.prems(3) r by simp
    with Cons.IH [OF o] Cons.prems(3) privileged_owner [OF Cons.prems(1) o] r Some show ?thesis by simp
  qed
qed simp

end

text \<open>Where a user who is not privileged cannot change the content of a restricted object either, no history of such users does.\<close>

locale frozen_update = guarded_update +
  fixes content :: "'a \<Rightarrow> 'c"
  assumes keeps_content: "admitted new (update user old new) = Some obj \<Longrightarrow> \<not> privileged user old \<Longrightarrow> restricted (meta old) \<Longrightarrow>
    content obj = content old"
begin

lemma run_content:
  "owner obj = Some ic \<Longrightarrow> restricted (meta obj) \<Longrightarrow> \<forall>(user, new) \<in> set requests. \<not> privileged user obj \<Longrightarrow>
   content (run_updates update requests obj) = content obj"
proof (induction requests arbitrary: obj)
  case (Cons request rest)
  obtain user new where r: "request = (user, new)" by (cases request)
  show ?case
  proof (cases "admitted new (update user obj new)")
    case None
    with Cons r show ?thesis by simp
  next
    case (Some obj')
    note o = keeps_owner [OF Some Cons.prems(1)]
    have np: "\<not> privileged user obj" using Cons.prems(3) r by simp
    have "restricted (meta obj')" "content obj' = content obj"
      using keeps_restricted [OF Some np] keeps_content [OF Some np] Cons.prems(2) by simp_all
    with Cons.IH [OF o] Cons.prems(3) privileged_owner [OF Cons.prems(1) o] r Some show ?thesis by simp
  qed
qed simp

end

section \<open>Pods and deployments\<close>

definition pod_update :: "(WebhookPod \<Rightarrow> err option) \<Rightarrow> WebhookHandler \<Rightarrow> UserInfo \<Rightarrow> WebhookPod \<Rightarrow> WebhookPod \<Rightarrow> WebhookPod verdict" where
  "pod_update marshal h user old new = MutatePodOnUpdate marshal h user (Inr (old, new))"

definition deployment_update ::
  "(WebhookDeployment \<Rightarrow> err option) \<Rightarrow> WebhookHandler \<Rightarrow> UserInfo \<Rightarrow> WebhookDeployment \<Rightarrow> WebhookDeployment \<Rightarrow> WebhookDeployment verdict" where
  "deployment_update marshal h user old new = MutateDeploymentOnUpdate marshal h user (Inr (old, new))"

definition by_controller :: "WebhookHandler \<Rightarrow> UserInfo \<Rightarrow> 'a \<Rightarrow> bool" where
  "by_controller h user obj \<longleftrightarrow> ui_UID user = ControllerUID h"

lemma admitted_returnPatched: "admitted new (returnPatched marshal obj) = Some obj' \<Longrightarrow> obj' = obj"
  by (cases "marshal obj") (simp_all add: returnPatched_def)

lemma handleImmutableObj_restricted:
  "handleImmutableObj h old new uid = (True, msg) \<Longrightarrow> uid \<noteq> ControllerUID h \<Longrightarrow> restricted old \<Longrightarrow> restricted new"
  by (auto simp: handleImmutableObj_def dest: changePermitted_restricted split: if_splits)

lemma pod_update_admitted:
  assumes "admitted new (pod_update marshal h user old new) = Some obj"
  shows "fst (handleImmutableObj h (wp_Meta old) (wp_Meta new) (ui_UID user))" "fst (handleImmutablePod h old new (ui_UID user))"
    "\<exists>m b. mutateMetadataOnUpdate (wp_Meta old) (wp_Meta new) = Inr (m, b) \<and> obj = (if b then new\<lparr>wp_Meta := m\<rparr> else new)"
  using assms by (auto simp: pod_update_def MutatePodOnUpdate_def split: prod.splits bool.splits sum.splits if_splits
      dest: admitted_returnPatched)

lemma deployment_update_admitted:
  assumes "admitted new (deployment_update marshal h user old new) = Some obj"
  shows "fst (handleImmutableObj h (wd_Meta old) (wd_Meta new) (ui_UID user))"
    "\<exists>m b t c. mutateMetadataOnUpdate (wd_Meta old) (wd_Meta new) = Inr (m, b) \<and> mutateMetadataOnUpdate (wd_Template old) (wd_Template new) = Inr (t, c) \<and>
      obj = (if b \<or> c then new\<lparr>wd_Meta := m, wd_Template := t\<rparr> else new)"
  using assms by (auto simp: deployment_update_def MutateDeploymentOnUpdate_def split: prod.splits bool.splits sum.splits if_splits
      dest: admitted_returnPatched)

interpretation pods: guarded_update "pod_update marshal h" wp_Meta "\<lambda>p. identity (wp_Meta p)" "by_controller h"
proof
  fix user and old new obj :: WebhookPod and ic
  assume adm: "admitted new (pod_update marshal h user old new) = Some obj"
  note a = pod_update_admitted [OF adm]
  obtain m b where m: "mutateMetadataOnUpdate (wp_Meta old) (wp_Meta new) = Inr (m, b)" "obj = (if b then new\<lparr>wp_Meta := m\<rparr> else new)"
    using a(3) by blast
  show "identity (wp_Meta old) = Some ic \<Longrightarrow> identity (wp_Meta obj) = Some ic"
    using mutateMetadataOnUpdate_identity [OF m(1)] m(2) by (cases b) simp_all
  have "om_Annotations (wp_Meta obj) = om_Annotations (wp_Meta new)"
    using m by (auto elim: mutateMetadataOnUpdate_cases)
  then have "restricted (wp_Meta obj) = restricted (wp_Meta new)" by (simp add: restricted_def)
  with a(1) show "\<not> by_controller h user old \<Longrightarrow> restricted (wp_Meta old) \<Longrightarrow> restricted (wp_Meta obj)"
    using handleImmutableObj_restricted [of h "wp_Meta old" "wp_Meta new" "ui_UID user"]
    by (cases "handleImmutableObj h (wp_Meta old) (wp_Meta new) (ui_UID user)") (simp add: by_controller_def)
qed (simp add: by_controller_def)

interpretation deployments: guarded_update "deployment_update marshal h" wd_Meta
  "\<lambda>d. case (identity (wd_Meta d), identity (wd_Template d)) of (Some i, Some j) \<Rightarrow> Some (i, j) | _ \<Rightarrow> None" "by_controller h"
proof
  fix user and old new obj :: WebhookDeployment and ic
  assume adm: "admitted new (deployment_update marshal h user old new) = Some obj"
  note a = deployment_update_admitted [OF adm]
  obtain m b t c where m: "mutateMetadataOnUpdate (wd_Meta old) (wd_Meta new) = Inr (m, b)"
    "mutateMetadataOnUpdate (wd_Template old) (wd_Template new) = Inr (t, c)" "obj = (if b \<or> c then new\<lparr>wd_Meta := m, wd_Template := t\<rparr> else new)"
    using a(2) by blast
  show "(case (identity (wd_Meta old), identity (wd_Template old)) of (Some i, Some j) \<Rightarrow> Some (i, j) | _ \<Rightarrow> None) = Some ic \<Longrightarrow>
    (case (identity (wd_Meta obj), identity (wd_Template obj)) of (Some i, Some j) \<Rightarrow> Some (i, j) | _ \<Rightarrow> None) = Some ic"
    using mutateMetadataOnUpdate_identity [OF m(1)] mutateMetadataOnUpdate_identity [OF m(2)] m(3)
    by (cases b; cases c) (auto split: option.splits)
  have "om_Annotations (wd_Meta obj) = om_Annotations (wd_Meta new)"
    using m by (auto elim: mutateMetadataOnUpdate_cases)
  then have "restricted (wd_Meta obj) = restricted (wd_Meta new)" by (simp add: restricted_def)
  with a(1) show "\<not> by_controller h user old \<Longrightarrow> restricted (wd_Meta old) \<Longrightarrow> restricted (wd_Meta obj)"
    using handleImmutableObj_restricted [of h "wd_Meta old" "wd_Meta new" "ui_UID user"]
    by (cases "handleImmutableObj h (wd_Meta old) (wd_Meta new) (ui_UID user)") (simp add: by_controller_def)
qed (simp add: by_controller_def)

section \<open>Workspaces\<close>

definition workspace_update ::
  "webhook_env \<Rightarrow> ('r WebhookWorkspace \<Rightarrow> err option) \<Rightarrow> WebhookHandler \<Rightarrow> UserInfo \<Rightarrow> 'r WebhookWorkspace \<Rightarrow> 'r WebhookWorkspace \<Rightarrow>
   'r WebhookWorkspace verdict" where
  "workspace_update env marshal h user old new = fst (MutateWorkspaceV1alpha2OnUpdate env marshal h user (Inr (old, new)))"

definition workspace_creator :: "'r WebhookWorkspace \<Rightarrow> string option" where
  "workspace_creator w = go_get (om_Labels (ww_Meta w)) DevWorkspaceCreatorLabel"

definition by_creator :: "WebhookHandler \<Rightarrow> UserInfo \<Rightarrow> 'r WebhookWorkspace \<Rightarrow> bool" where
  "by_creator h user w \<longleftrightarrow> ui_UID user = label (ww_Meta w) DevWorkspaceCreatorLabel \<or> ui_UID user = ControllerUID h"

definition workspace_content :: "'r WebhookWorkspace \<Rightarrow> 'r WebhookTemplate \<times> string \<times> 'r" where
  "workspace_content w = (ww_Template w, ww_Id w, ww_Rest w)"

lemma creator_verdict_admitted:
  assumes "admitted new (creator_verdict marshal old new msg) = Some obj"
  shows "workspace_creator old \<noteq> None" "workspace_creator obj = workspace_creator old" "om_Annotations (ww_Meta obj) = om_Annotations (ww_Meta new)"
    "workspace_content obj = workspace_content new"
  using assms by (auto simp: creator_verdict_def workspace_creator_def workspace_content_def with_creator_def go_get_Some AList_map_of_update
      split: option.splits if_splits dest!: admitted_returnPatched)

lemma fst_with_warnings:
  "fst (case v of Allowed m \<Rightarrow> (Allowed m, ws) | Denied e \<Rightarrow> (Denied e, []) | Errored n e \<Rightarrow> (Errored n e, ws) | Patched obj \<Rightarrow> (Patched obj, ws)) = v"
  by (cases v) simp_all

lemma workspace_update_admitted:
  assumes "admitted new (workspace_update env marshal h user old new) = Some obj"
  shows "ww_Id old = [] \<or> ww_Id new = ww_Id old" "fst (checkRestrictedAccessWorkspaceV1alpha2 h old new (ui_UID user))"
    "validateUserPermissions env user new (Some old) = None"
    "validateKubernetesObjectPermissionsOnUpdate env h user (ww_Template new) (ww_Template old) = None"
    "\<exists>msg. admitted new (creator_verdict marshal old new msg) = Some obj"
proof -
  obtain ok msg where r: "checkRestrictedAccessWorkspaceV1alpha2 h old new (ui_UID user) = (ok, msg)"
    by (cases "checkRestrictedAccessWorkspaceV1alpha2 h old new (ui_UID user)")
  note d = workspace_update_def MutateWorkspaceV1alpha2OnUpdate_def Let_def r
  show 1: "ww_Id old = [] \<or> ww_Id new = ww_Id old" using assms by (rule contrapos_pp) (simp add: d)
  show 2: "fst (checkRestrictedAccessWorkspaceV1alpha2 h old new (ui_UID user))"
    using assms 1 by (cases ok) (auto simp: d)
  then have ok by (simp add: r)
  show 3: "validateUserPermissions env user new (Some old) = None"
    using assms 1 \<open>ok\<close> by (cases "validateUserPermissions env user new (Some old)") (auto simp: d)
  show 4: "validateKubernetesObjectPermissionsOnUpdate env h user (ww_Template new) (ww_Template old) = None"
    using assms 1 \<open>ok\<close> 3
    by (cases "validateKubernetesObjectPermissionsOnUpdate env h user (ww_Template new) (ww_Template old)") (auto simp: d)
  have "checkMultipleContainerContributionTargets (ww_Template new) = None"
    using assms 1 \<open>ok\<close> 3 4 by (cases "checkMultipleContainerContributionTargets (ww_Template new)") (auto simp: d)
  with assms 1 \<open>ok\<close> 3 4 show "\<exists>msg. admitted new (creator_verdict marshal old new msg) = Some obj"
    by (auto simp: d fst_with_warnings)
qed

interpretation workspaces: frozen_update "workspace_update env (marshal :: 'r WebhookWorkspace \<Rightarrow> err option) h" ww_Meta workspace_creator "by_creator h" workspace_content
proof
  fix user and old new obj :: "'r WebhookWorkspace" and c
  assume adm: "admitted new (workspace_update env marshal h user old new) = Some obj"
  note a = workspace_update_admitted [OF adm]
  obtain msg where v: "admitted new (creator_verdict marshal old new msg) = Some obj" using a(5) by blast
  note v = creator_verdict_admitted [OF v]
  show "workspace_creator old = Some c \<Longrightarrow> workspace_creator obj = Some c" using v(2) by simp
  have "restricted (ww_Meta obj) = restricted (ww_Meta new)" using v(3) by (simp add: restricted_def)
  with a(2) show "\<not> by_creator h user old \<Longrightarrow> restricted (ww_Meta old) \<Longrightarrow> restricted (ww_Meta obj)"
    by (auto simp: by_creator_def checkRestrictedAccessWorkspaceV1alpha2_def checkRestrictedWorkspaceMetadata_def split: if_splits)
  show "\<not> by_creator h user old \<Longrightarrow> restricted (ww_Meta old) \<Longrightarrow> workspace_content obj = workspace_content old"
    using a(2) v(4) by (auto simp: by_creator_def checkRestrictedAccessWorkspaceV1alpha2_def same_but_started_def workspace_content_def split: if_splits)
qed (simp add: by_creator_def workspace_creator_def label_def)

text \<open>
  (C13) A workspace with restricted access is changed only by its creator and the controller: whatever others request, and however
  often, its template, its ID and the rest of its specification and status stay, and so do its creator and the restriction.
  Only \<^verbatim>\<open>started\<close> and other metadata may change.
\<close>

theorem restricted_workspace_frozen:
  assumes "workspace_creator w = Some c" "restricted (ww_Meta w)"
    "list_all (\<lambda>(user, new). ui_UID user \<notin> {c, ControllerUID h}) requests"
  shows "let w' = run_updates (workspace_update env marshal h) requests w in
    workspace_content w' = workspace_content w \<and> workspace_creator w' = Some c \<and> restricted (ww_Meta w')"
proof -
  have "\<forall>(user, new) \<in> set requests. \<not> by_creator h user w"
    using assms by (auto simp: by_creator_def workspace_creator_def label_def list_all_iff)
  with assms(1,2) show ?thesis unfolding Let_def
    by (intro conjI workspaces.run_content workspaces.run_owner workspaces.run_restricted)
qed

text \<open>
  The creator of a pod and the ID of its workspace never change by an admitted update, not even by one of the controller,
  and only the controller can take restricted access from it.
\<close>

theorem pod_identity_kept:
  assumes "identity (wp_Meta p) = Some ic"
  shows "identity (wp_Meta (run_updates (pod_update marshal h) requests p)) = Some ic \<and>
    (restricted (wp_Meta p) \<and> list_all (\<lambda>(user, new). ui_UID user \<noteq> ControllerUID h) requests \<longrightarrow>
     restricted (wp_Meta (run_updates (pod_update marshal h) requests p)))"
proof -
  have "\<forall>(user, new) \<in> set requests. \<not> by_controller h user p"
    if "list_all (\<lambda>(user, new). ui_UID user \<noteq> ControllerUID h) requests"
    using that by (auto simp: by_controller_def list_all_iff)
  with assms show ?thesis using pods.run_owner pods.run_restricted by blast
qed

text \<open>
  (C14) In a pod of a workspace with restricted access exactly the creator may execute.
\<close>

theorem exec_only_by_creator:
  assumes "identity p = Some (i, c)" "restricted p"
  shows "admitted p (ValidateExecOnConnect (Inr (Some p)) user) \<noteq> None \<longleftrightarrow> ui_UID user = c"
  using assms by (auto simp: ValidateExecOnConnect_def identity_def split: option.splits if_splits)

section \<open>Kubernetes components\<close>

definition allows :: "webhook_env \<Rightarrow> SubjectAccess \<Rightarrow> bool" where
  "allows env sar \<longleftrightarrow> (case we_review env sar of Inr (allowed, _) \<Rightarrow> allowed | Inl _ \<Rightarrow> False)"

text \<open>
  The content may be deployed for the user: it has a type that is not refused, and the user may get, create, update and delete such objects and
  the controller may do everything with them.
\<close>

definition permitted :: "webhook_env \<Rightarrow> WebhookHandler \<Rightarrow> UserInfo \<Rightarrow> string \<Rightarrow> bool" where
  "permitted env h user content \<longleftrightarrow>
     (case we_typeMeta env content of
        Inl _ \<Rightarrow> False
      | Inr tm \<Rightarrow>
          tm_Kind tm \<notin> {''List'', ''Role'', ''Rolebinding'', ''ClusterRole'', ''ClusterRoleBinding'', ''DevWorkspace'', ''DevWorkspaceTemplate''} \<and>
          list_all (\<lambda>verb. allows env (user_sar user tm (map lower_char (tm_Kind tm) @ ''s'') verb)) userVerbs \<and>
          allows env (controller_sar h tm (map lower_char (tm_Kind tm) @ ''s'')))"

lemma checkSAR_None_iff: "checkSAR env user tm rt name verb = None \<longleftrightarrow> allows env (user_sar user tm rt verb)"
  by (auto simp: checkSAR_def allows_def split: sum.split)

lemma validatePermissionsOnObject_iff: "validatePermissionsOnObject env h user name content = None \<longleftrightarrow> permitted env h user content"
proof (cases "we_typeMeta env content")
  case (Inr tm)
  let ?rt = "map lower_char (tm_Kind tm) @ ''s''"
  have verbs: "first_err (checkSAR env user tm ?rt name) userVerbs = None \<longleftrightarrow> list_all (\<lambda>verb. allows env (user_sar user tm ?rt verb)) userVerbs"
    by (simp add: first_err_None_iff checkSAR_None_iff list_all_iff)
  show ?thesis
  proof (cases "first_err (checkSAR env user tm ?rt name) userVerbs")
    case None
    with verbs Inr show ?thesis
      by (auto simp: validatePermissionsOnObject_def permitted_def Let_def allows_def split: sum.split bool.split)
  next
    case (Some e)
    with verbs Inr show ?thesis by (auto simp: validatePermissionsOnObject_def permitted_def Let_def)
  qed
qed (simp add: validatePermissionsOnObject_def permitted_def)

text \<open>The components that the operator will deploy.\<close>

definition deployed :: "'r WebhookTemplate \<Rightarrow> string \<Rightarrow> K8sLikeComponent \<Rightarrow> bool" where
  "deployed t n k \<longleftrightarrow> (n, k) \<in> set (getKubeComponentsFromWorkspace t) \<and> k8_DeployByDefault k \<and> k8_Uri k = []"

lemma create_reviewed:
  assumes "validateKubernetesObjectPermissionsOnCreate env h user t = None" "deployed t n k" "\<And>m. set (we_iter env m) = set m"
  shows "k8_Inlined k \<noteq> []" "permitted env h user (k8_Inlined k)"
  using assms by (auto simp: validateKubernetesObjectPermissionsOnCreate_def first_err_None_iff deployed_def validatePermissionsOnObject_iff
      split: if_splits)

lemma update_reviewed:
  assumes "validateKubernetesObjectPermissionsOnUpdate env h user t old = None" "deployed t n k" "\<And>m. set (we_iter env m) = set m"
  shows "permitted env h user (k8_Inlined k) \<or>
    (\<exists>k'. map_of (getKubeComponentsFromWorkspace old) n = Some k' \<and> k8_Inlined k' = k8_Inlined k)"
  using assms by (auto simp: validateKubernetesObjectPermissionsOnUpdate_def first_err_None_iff deployed_def validatePermissionsOnObject_iff
      split: if_splits option.splits)

lemma workspace_create_admitted:
  assumes "admitted w (fst (MutateWorkspaceV1alpha2OnCreate env marshal h user (Inr w))) = Some obj"
  shows "obj = with_creator (ui_UID user) w" "validateUserPermissions env user obj None = None"
    "validateKubernetesObjectPermissionsOnCreate env h user (ww_Template w) = None"
proof -
  let ?w = "with_creator (ui_UID user) w"
  have t: "ww_Template ?w = ww_Template w" by (simp add: with_creator_def)
  note d = MutateWorkspaceV1alpha2OnCreate_def Let_def t
  have 1: "validateUserPermissions env user ?w None = None"
    using assms by (cases "validateUserPermissions env user ?w None") (simp_all add: d)
  show 2: "validateKubernetesObjectPermissionsOnCreate env h user (ww_Template w) = None"
    using assms 1 by (cases "validateKubernetesObjectPermissionsOnCreate env h user (ww_Template w)") (simp_all add: d)
  have "checkMultipleContainerContributionTargets (ww_Template w) = None"
    using assms 1 2 by (cases "checkMultipleContainerContributionTargets (ww_Template w)") (simp_all add: d)
  with assms 1 2 show "obj = ?w" by (auto simp: d dest: admitted_returnPatched)
  with 1 show "validateUserPermissions env user obj None = None" by simp
qed

text \<open>
  (C15) A workspace is created only with its user as creator, and with Kubernetes components for the operator to deploy
  only if their content has a permitted type and both the user and the controller passed the reviews of access to it.
\<close>

theorem create_only_reviewed_components:
  assumes "admitted w (fst (MutateWorkspaceV1alpha2OnCreate env marshal h user (Inr w))) = Some obj" "\<And>m. set (we_iter env m) = set m"
  shows "workspace_creator obj = Some (ui_UID user) \<and>
    (\<forall>n k. deployed (ww_Template obj) n k \<longrightarrow> permitted env h user (k8_Inlined k))"
proof -
  note a = workspace_create_admitted [OF assms(1)]
  have t: "ww_Template obj = ww_Template w" by (simp add: a(1) with_creator_def)
  have "permitted env h user (k8_Inlined k)" if "deployed (ww_Template obj) n k" for n k
    using create_reviewed [OF a(3) that [unfolded t] assms(2)] by simp
  then show ?thesis by (simp add: a(1) workspace_creator_def with_creator_def go_get_Some AList_map_of_update)
qed

text \<open>The same template with \<^verbatim>\<open>deployByDefault\<close> set on all its Kubernetes components.\<close>

definition deploying :: "bool \<Rightarrow> 'r WebhookTemplate \<Rightarrow> 'r WebhookTemplate" where
  "deploying b t = t\<lparr>wt_Components := map (\<lambda>c. c\<lparr>
     wcomp_Kubernetes := map_option (\<lambda>k. k\<lparr>k8_DeployByDefault := b\<rparr>) (wcomp_Kubernetes c),
     wcomp_Openshift := map_option (\<lambda>k. k\<lparr>k8_DeployByDefault := b\<rparr>) (wcomp_Openshift c)\<rparr>) (wt_Components t)\<rparr>"

lemma AList_update_map: "AList.update k (g v) (map (apsnd g) al) = map (apsnd g) (AList.update k v al)"
  by (induction al) auto

lemma kube_loop_map:
  assumes "\<And>c. getKubeLikeComponent (f c) = map_option g (getKubeLikeComponent c)" "\<And>c. wcomp_Name (f c) = wcomp_Name c"
  shows "kube_loop (map f cs) (map (apsnd g) acc) = map (apsnd g) (kube_loop cs acc)"
proof (induction cs arbitrary: acc)
  case (Cons c cs)
  then show ?case by (cases "getKubeLikeComponent c") (simp_all add: assms AList_update_map)
qed simp

lemma kube_deploying:
  "getKubeComponentsFromWorkspace (deploying b t) = map (apsnd (\<lambda>k. k\<lparr>k8_DeployByDefault := b\<rparr>)) (getKubeComponentsFromWorkspace t)"
  unfolding getKubeComponentsFromWorkspace_def deploying_def
  using kube_loop_map [of _ "\<lambda>k. k\<lparr>k8_DeployByDefault := b\<rparr>" "wt_Components t" "[]"]
  by (auto simp: getKubeLikeComponent_def split: option.split)

lemma merge_targets_map:
  assumes "\<And>c. wcomp_Name (f c) = wcomp_Name c" "\<And>c. wcomp_Container (f c) = wcomp_Container c" "\<And>c. wcomp_Merge (f c) = wcomp_Merge c"
  shows "merge_targets (map f cs) = merge_targets cs"
proof (induction cs)
  case (Cons c cs)
  then show ?case by (cases "wcomp_Merge c") (auto simp: assms split: sum.split bool.split)
qed simp

lemma merge_targets_deploying: "merge_targets (wt_Components (deploying b t)) = merge_targets (wt_Components t)"
  by (simp add: deploying_def merge_targets_map)

lemma kube_distinct: "distinct (map fst (getKubeComponentsFromWorkspace t))"
proof -
  have "distinct (map fst acc) \<Longrightarrow> distinct (map fst (kube_loop cs acc))" for cs acc
    by (induction cs acc rule: kube_loop.induct) (auto split: option.split simp: distinct_update)
  then show ?thesis by (simp add: getKubeComponentsFromWorkspace_def)
qed

lemma map_of_map_apsnd: "distinct (map fst al) \<Longrightarrow> (n, k) \<in> set al \<Longrightarrow> map_of (map (apsnd g) al) n = Some (g k)"
  by (induction al) force+

section \<open>Witnesses\<close>

definition owner_meta :: ObjectMeta where
  "owner_meta = \<lparr>om_Labels = Some [(DevWorkspaceIDLabel, ''workspace1''), (DevWorkspaceCreatorLabel, ''alice'')],
     om_Annotations = Some [(DevWorkspaceRestrictedAccessAnnotation, ''true'')]\<rparr>"

definition some_handler :: WebhookHandler where "some_handler = \<lparr>ControllerUID = ''controller'', ControllerSAName = ''sa''\<rparr>"
definition mallory :: UserInfo where "mallory = \<lparr>ui_Username = ''mallory'', ui_UID = ''mallory'', ui_Groups = []\<rparr>"

definition some_env :: webhook_env where
  "some_env = \<lparr>we_review = (\<lambda>_. Inr (True, [])), we_typeMeta = (\<lambda>t. Inr \<lparr>tm_Kind = t, tm_Group = [], tm_Version = ''v1'', tm_String = t\<rparr>),
     we_openshift = True, we_iter = (\<lambda>x. x)\<rparr>"

definition no_env :: webhook_env where
  "no_env = \<lparr>we_review = (\<lambda>_. Inr (False, [])), we_typeMeta = (\<lambda>t. Inr \<lparr>tm_Kind = t, tm_Group = [], tm_Version = ''v1'', tm_String = t\<rparr>),
     we_openshift = True, we_iter = (\<lambda>x. x)\<rparr>"

definition some_workspace :: "unit WebhookWorkspace" where
  "some_workspace = \<lparr>ww_Meta = owner_meta, ww_Started = True, ww_Template = \<lparr>wt_Components = [], wt_SCC = None, wt_PostStop = None, wt_Rest = ()\<rparr>,
     ww_Id = ''workspace1'', ww_Rest = ()\<rparr>"

theorem restricted_workspace_frozen_witness:
  "restricted (ww_Meta (run_updates (workspace_update some_env (\<lambda>_. None) some_handler)
     [(mallory, some_workspace\<lparr>ww_Meta := owner_meta\<lparr>om_Annotations := None\<rparr>\<rparr>), (mallory, some_workspace\<lparr>ww_Started := False\<rparr>)] some_workspace))"
proof -
  have "workspace_creator some_workspace = Some ''alice''" "restricted (ww_Meta some_workspace)"
    by (simp_all add: workspace_creator_def some_workspace_def owner_meta_def go_get_Some restricted_def)
  from restricted_workspace_frozen [OF this, where h = some_handler and env = some_env and marshal = "\<lambda>_. None" and
      requests = "[(mallory, some_workspace\<lparr>ww_Meta := owner_meta\<lparr>om_Annotations := None\<rparr>\<rparr>), (mallory, some_workspace\<lparr>ww_Started := False\<rparr>)]"]
  show ?thesis by (simp add: Let_def some_handler_def mallory_def)
qed

definition some_pod :: WebhookPod where
  "some_pod = \<lparr>wp_Meta = owner_meta, wp_Containers = [(''tools'', ''image'')], wp_InitContainers = [(''clone'', ''cloner'')]\<rparr>"

lemma owner_meta_facts: "identity owner_meta = Some (''workspace1'', ''alice'')" "restricted owner_meta"
  by (simp_all add: identity_def owner_meta_def go_get_Some restricted_def)

lemma owner_meta_label: "label owner_meta DevWorkspaceCreatorLabel = ''alice''"
  by (simp add: label_def owner_meta_def go_get_Some)

theorem pod_identity_kept_witness:
  "identity (wp_Meta (run_updates (pod_update (\<lambda>_. None) some_handler) [(mallory, some_pod\<lparr>wp_Meta := owner_meta\<lparr>om_Labels := None\<rparr>\<rparr>)] some_pod))
   = Some (''workspace1'', ''alice'')"
  by (rule pod_identity_kept [THEN conjunct1]) (simp add: some_pod_def owner_meta_facts)

theorem exec_only_by_creator_witness:
  "admitted owner_meta (ValidateExecOnConnect (Inr (Some owner_meta)) mallory) = None"
  using exec_only_by_creator [OF owner_meta_facts, of mallory] by (simp add: mallory_def)

section \<open>Where the checks fall short\<close>

text \<open>
  A restricted pod with an init container that is not also one of its containers cannot be updated by anyone but its creator and
  the controller, not even without a change: the loop over the init containers looks their images
  up among the images of the containers.
\<close>

theorem init_containers_block_updates:
  assumes "restricted (wp_Meta p)" "(n, i) \<in> set (wp_InitContainers p)" "i \<noteq> []" "n \<notin> fst ` set (wp_Containers p)"
    "ui_UID user \<notin> {label (wp_Meta p) DevWorkspaceCreatorLabel, ControllerUID h}"
  shows "admitted p (pod_update marshal h user p p) = None"
proof -
  have "image_of (wp_Containers p) n = []"
  proof (cases "map_of (rev (wp_Containers p)) n")
    case (Some j)
    then have "(n, j) \<in> set (wp_Containers p)" using map_of_SomeD by fastforce
    then have "n \<in> fst ` set (wp_Containers p)" by force
    with assms(4) show ?thesis by simp
  qed (simp add: image_of_def)
  with assms(2,3) have "list_ex (\<lambda>(n, i). image_of (wp_Containers p) n \<noteq> i) (wp_InitContainers p)"
    unfolding list_ex_iff by (intro bexI [where x = "(n, i)"]) simp_all
  with assms have "\<not> fst (handleImmutablePod h p p (ui_UID user))" by (auto simp: handleImmutablePod_def)
  then show ?thesis using pod_update_admitted(2) by (cases "admitted p (pod_update marshal h user p p)") blast+
qed

theorem init_containers_block_updates_witness: "admitted some_pod (pod_update (\<lambda>_. None) some_handler mallory some_pod some_pod) = None"
  by (rule init_containers_block_updates [where n = "''clone''" and i = "''cloner''"])
    (simp_all add: some_pod_def owner_meta_facts mallory_def some_handler_def owner_meta_label)

text \<open>
  Setting \<^verbatim>\<open>deployByDefault\<close> after the creation evades the reviews: a workspace whose Kubernetes components are not
  to be deployed is created without any review, and an update that only sets the flag is admitted
  without any, because the content has not changed. Nothing is asked of the review server, which may refuse everything.
\<close>

theorem deploy_by_default_bypasses_review:
  fixes w :: "'r WebhookWorkspace"
  assumes "wt_SCC (ww_Template w) = None" "checkMultipleContainerContributionTargets (ww_Template w) = None"
    "list_all (\<lambda>(n, k). k8_Inlined k \<noteq> []) (getKubeComponentsFromWorkspace (ww_Template w))" "\<And>m. set (we_iter env m) = set m"
    "ww_Template w = deploying False t"
  shows "let obj = with_creator (ui_UID user) w; new = obj\<lparr>ww_Template := deploying True t\<rparr> in
    admitted w (fst (MutateWorkspaceV1alpha2OnCreate env (\<lambda>_. None) h user (Inr w))) = Some obj \<and>
    admitted new (workspace_update env (\<lambda>_. None) h user obj new) = Some new"
proof -
  define obj where "obj = with_creator (ui_UID user) w"
  define new where "new = obj\<lparr>ww_Template := deploying True t\<rparr>"
  have t: "ww_Template obj = ww_Template w" "ww_Template new = deploying True t" "ww_Id new = ww_Id obj"
    by (simp_all add: obj_def new_def with_creator_def)
  have creator: "workspace_creator obj = Some (ui_UID user)" "workspace_creator new = Some (ui_UID user)"
    by (simp_all add: obj_def new_def workspace_creator_def with_creator_def go_get_Some AList_map_of_update)
  have scc: "wt_SCC (ww_Template obj) = None" "wt_SCC (ww_Template new) = None"
    using assms(1,5) by (simp_all add: t deploying_def)
  have targets: "checkMultipleContainerContributionTargets (ww_Template new) = None"
    using assms(2,5) by (simp add: t checkMultipleContainerContributionTargets_def merge_targets_deploying)
  have kube: "getKubeComponentsFromWorkspace (ww_Template new) = map (apsnd (\<lambda>k. k\<lparr>k8_DeployByDefault := True\<rparr>)) (getKubeComponentsFromWorkspace t)"
    "getKubeComponentsFromWorkspace (ww_Template w) = map (apsnd (\<lambda>k. k\<lparr>k8_DeployByDefault := False\<rparr>)) (getKubeComponentsFromWorkspace t)"
    using assms(5) by (simp_all add: t kube_deploying)
  have "validateKubernetesObjectPermissionsOnCreate env h user (ww_Template w) = None"
    using assms(4) by (auto simp: validateKubernetesObjectPermissionsOnCreate_def first_err_None_iff kube)
  then have 1: "admitted w (fst (MutateWorkspaceV1alpha2OnCreate env (\<lambda>_. None) h user (Inr w))) = Some obj"
    using scc assms(2) t(1)
    by (simp add: MutateWorkspaceV1alpha2OnCreate_def Let_def obj_def validateUserPermissions_def returnPatched_def)
  have "distinct (map fst (getKubeComponentsFromWorkspace t))" by (rule kube_distinct)
  then have "validateKubernetesObjectPermissionsOnUpdate env h user (ww_Template new) (ww_Template obj) = None"
    using assms(3,4) by (auto simp: validateKubernetesObjectPermissionsOnUpdate_def first_err_None_iff t(1) kube list_all_iff map_of_map_apsnd)
  moreover have "fst (checkRestrictedAccessWorkspaceV1alpha2 h obj new (ui_UID user))"
    using creator(1) by (simp add: checkRestrictedAccessWorkspaceV1alpha2_def label_def workspace_creator_def)
  ultimately have "workspace_update env (\<lambda>_. None) h user obj new =
      creator_verdict (\<lambda>_. None) obj new (if unsupportedWarningsPresent (checkForAddedUnsupportedFeatures (ww_Template obj) (ww_Template new))
        then [] else ''new workspace has the same devworkspace as old one'')"
    using scc targets t(3)
    by (cases "checkRestrictedAccessWorkspaceV1alpha2 h obj new (ui_UID user)")
      (simp add: workspace_update_def MutateWorkspaceV1alpha2OnUpdate_def Let_def validateUserPermissions_def fst_with_warnings)
  then have "admitted new (workspace_update env (\<lambda>_. None) h user obj new) = Some new"
    using creator by (simp add: creator_verdict_def workspace_creator_def)
  with 1 show ?thesis by (simp add: Let_def obj_def new_def)
qed

definition kube_template :: "unit WebhookTemplate" where
  "kube_template = \<lparr>wt_Components = [\<lparr>wcomp_Name = ''secret'', wcomp_Container = None, wcomp_Merge = None,
     wcomp_Kubernetes = Some \<lparr>k8_Uri = [], k8_Inlined = ''Secret'', k8_DeployByDefault = True\<rparr>, wcomp_Openshift = None, wcomp_Image = False, wcomp_Custom = False\<rparr>],
     wt_SCC = None, wt_PostStop = None, wt_Rest = ()\<rparr>"

theorem create_only_reviewed_components_witness:
  "permitted some_env some_handler mallory ''Secret''"
proof -
  let ?w = "some_workspace\<lparr>ww_Template := kube_template\<rparr>"
  let ?o = "with_creator (ui_UID mallory) ?w"
  have "admitted ?w (fst (MutateWorkspaceV1alpha2OnCreate some_env (\<lambda>_. None) some_handler mallory (Inr ?w))) = Some ?o"
    by code_simp
  from create_only_reviewed_components [OF this] 
  have "deployed (ww_Template ?o) ''secret'' k \<Longrightarrow> permitted some_env some_handler mallory (k8_Inlined k)" for k
    by (simp add: some_env_def)
  from this [of "\<lparr>k8_Uri = [], k8_Inlined = ''Secret'', k8_DeployByDefault = True\<rparr>"] show ?thesis
    by (simp add: deployed_def with_creator_def kube_template_def getKubeComponentsFromWorkspace_def getKubeLikeComponent_def)
qed

theorem deploy_by_default_bypasses_review_witness:
  "let w = some_workspace\<lparr>ww_Template := deploying False kube_template\<rparr>; obj = with_creator (ui_UID mallory) w;
     new = obj\<lparr>ww_Template := kube_template\<rparr> in
   admitted w (fst (MutateWorkspaceV1alpha2OnCreate no_env (\<lambda>_. None) some_handler mallory (Inr w))) = Some obj \<and>
   admitted new (workspace_update no_env (\<lambda>_. None) some_handler mallory obj new) = Some new"
proof -
  have k: "deploying True kube_template = kube_template" by (simp add: deploying_def kube_template_def)
  show ?thesis
    using deploy_by_default_bypasses_review [where w = "some_workspace\<lparr>ww_Template := deploying False kube_template\<rparr>" and t = kube_template
        and env = no_env and h = some_handler and user = mallory]
    unfolding k by (simp add: deploying_def kube_template_def no_env_def getKubeComponentsFromWorkspace_def getKubeLikeComponent_def
        checkMultipleContainerContributionTargets_def)
qed

end
