(* ===== verification/Restrictions.thy ===== *)
theory Restrictions
  imports K8s_Types
begin

text \<open>
  \<^verbatim>\<open>src/pkg/library/overrides/restrictions.go\<close>: a restriction on one field of an override and
  the checks that compare field values with it, the resource checks that container and pod
  overrides share, and the contract of both restriction loops as a locale.
\<close>

section \<open>A restriction on one field\<close>

record FieldRestriction =
  fr_name :: string
  restrictedValue :: string
  getRestrictionErr :: "string \<Rightarrow> err"

definition checkAny :: "FieldRestriction \<Rightarrow> err option" where
  "checkAny r = (if restrictedValue r = [] then Some (getRestrictionErr r (fr_name r)) else None)"

definition checkRestrictedValue :: "string \<Rightarrow> FieldRestriction \<Rightarrow> err option" where
  "checkRestrictedValue v r =
     (if restrictedValue r = v
      then Some (getRestrictionErr r (fr_name r @ ''='' @ restrictedValue r)) else None)"

definition checkString :: "string option \<Rightarrow> FieldRestriction \<Rightarrow> err option" where
  "checkString fieldValue r =
     (case fieldValue of
        None \<Rightarrow> None
      | Some v \<Rightarrow>
          if v = [] then None
          else if restrictedValue r = [] then Some (getRestrictionErr r (fr_name r))
          else checkRestrictedValue v r)"

definition checkBool :: "bool option \<Rightarrow> FieldRestriction \<Rightarrow> err option" where
  "checkBool fieldValue r =
     (case fieldValue of
        None \<Rightarrow> None
      | Some v \<Rightarrow>
          if restrictedValue r = [] then Some (getRestrictionErr r (fr_name r))
          else checkRestrictedValue (format_bool v) r)"

definition checkInt32 :: "int option \<Rightarrow> FieldRestriction \<Rightarrow> err option" where
  "checkInt32 fieldValue r =
     (case fieldValue of
        None \<Rightarrow> None
      | Some v \<Rightarrow>
          if restrictedValue r = [] then Some (getRestrictionErr r (fr_name r))
          else checkRestrictedValue (format_int v) r)"

definition checkInt64 :: "int option \<Rightarrow> FieldRestriction \<Rightarrow> err option" where
  "checkInt64 fieldValue r =
     (case fieldValue of
        None \<Rightarrow> None
      | Some v \<Rightarrow>
          if restrictedValue r = [] then Some (getRestrictionErr r (fr_name r))
          else checkRestrictedValue (format_int v) r)"

section \<open>Resources\<close>

definition checkResourceList :: "(string, 'q) gomap \<Rightarrow> string \<Rightarrow> FieldRestriction \<Rightarrow> err option" where
  "checkResourceList resources field r =
     (if go_items resources = [] then None
      else first_err (\<lambda>(resource, _). if field = resource then checkAny r else None)
             (go_items resources))"

definition checkContainerResourceClaims ::
  "(string \<times> string) list \<Rightarrow> string \<Rightarrow> FieldRestriction \<Rightarrow> err option" where
  "checkContainerResourceClaims claims field r =
     (if claims = [] then None
      else first_err (\<lambda>(_, request). if field = ''request'' then checkString (Some request) r else None)
             claims)"

definition checkResources ::
  "'q ResourceRequirements option \<Rightarrow> string \<Rightarrow> FieldRestriction \<Rightarrow> err option" where
  "checkResources resources field r =
     (case resources of None \<Rightarrow> None | Some res \<Rightarrow>
        (let (root, remaining, _) = strings_cut (CHR ''.'') field in
         if remaining = [] then
           (if root = ''limits'' then (if rr_Limits res \<noteq> None then checkAny r else None)
            else if root = ''requests'' then (if rr_Requests res \<noteq> None then checkAny r else None)
            else if root = ''claims'' then (if rr_Claims res \<noteq> [] then checkAny r else None)
            else None)
         else if root = ''limits'' then checkResourceList (rr_Limits res) remaining r
         else if root = ''requests'' then checkResourceList (rr_Requests res) remaining r
         else if root = ''claims'' then checkContainerResourceClaims (rr_Claims res) remaining r
         else None))"

section \<open>Lawful checks\<close>

text \<open>
  What every check of a field promises, whatever the field: restricting every value is the
  strongest restriction, and an error is built from the restriction's own name and value.
\<close>

definition lawful_check :: "(FieldRestriction \<Rightarrow> err option) \<Rightarrow> bool" where
  "lawful_check chk \<longleftrightarrow>
     (\<forall>r r'. restrictedValue r = [] \<longrightarrow> chk r = None \<longrightarrow> chk r' = None) \<and>
     (\<forall>r e. chk r = Some e \<longrightarrow>
        (restrictedValue r = [] \<and> e = getRestrictionErr r (fr_name r)) \<or>
        (restrictedValue r \<noteq> [] \<and> e = getRestrictionErr r (fr_name r @ ''='' @ restrictedValue r)))"

lemma lawful_anyD:
  "lawful_check chk \<Longrightarrow> chk r = None \<Longrightarrow> restrictedValue r = [] \<Longrightarrow> chk r' = None"
  unfolding lawful_check_def by blast

lemma lawful_errD:
  "lawful_check chk \<Longrightarrow> chk r = Some e \<Longrightarrow>
     (restrictedValue r = [] \<and> e = getRestrictionErr r (fr_name r)) \<or>
     (restrictedValue r \<noteq> [] \<and> e = getRestrictionErr r (fr_name r @ ''='' @ restrictedValue r))"
  unfolding lawful_check_def by blast

named_theorems lawful \<open>closure rules of lawful checks\<close>

lemma lawful_None [lawful]: "lawful_check (\<lambda>r. None)"
  by (simp add: lawful_check_def)

lemma lawful_checkAny [lawful]: "lawful_check (\<lambda>r. checkAny r)"
  by (simp add: lawful_check_def checkAny_def)

lemma lawful_checkString [lawful]: "lawful_check (\<lambda>r. checkString v r)"
  by (auto simp: lawful_check_def checkString_def checkRestrictedValue_def split: option.splits if_splits)

lemma lawful_checkBool [lawful]: "lawful_check (\<lambda>r. checkBool v r)"
  by (auto simp: lawful_check_def checkBool_def checkRestrictedValue_def split: option.splits if_splits)

lemma lawful_checkInt32 [lawful]: "lawful_check (\<lambda>r. checkInt32 v r)"
  by (auto simp: lawful_check_def checkInt32_def checkRestrictedValue_def split: option.splits if_splits)

lemma lawful_checkInt64 [lawful]: "lawful_check (\<lambda>r. checkInt64 v r)"
  by (auto simp: lawful_check_def checkInt64_def checkRestrictedValue_def split: option.splits if_splits)

lemma lawful_if [lawful]:
  "lawful_check a \<Longrightarrow> lawful_check b \<Longrightarrow> lawful_check (\<lambda>r. if P then a r else b r)"
  by (cases P) simp_all

lemma lawful_case_option [lawful]:
  "lawful_check a \<Longrightarrow> (\<And>x. lawful_check (\<lambda>r. f x r)) \<Longrightarrow>
   lawful_check (\<lambda>r. case v of None \<Rightarrow> a r | Some x \<Rightarrow> f x r)"
  by (cases v) simp_all

lemma lawful_case_prod [lawful]:
  "(\<And>x y. lawful_check (\<lambda>r. f x y r)) \<Longrightarrow> lawful_check (\<lambda>r. case p of (x, y) \<Rightarrow> f x y r)"
  by (cases p) simp

lemma lawful_Let [lawful]:
  "(\<And>x. lawful_check (\<lambda>r. f x r)) \<Longrightarrow> lawful_check (\<lambda>r. let x = v in f x r)"
  by simp

lemma lawful_seq [lawful]:
  assumes "lawful_check a" "lawful_check b"
  shows "lawful_check (\<lambda>r. case a r of None \<Rightarrow> b r | Some e \<Rightarrow> Some e)"
  unfolding lawful_check_def
proof (intro conjI allI impI)
  fix r r' assume r: "restrictedValue r = []" and "(case a r of None \<Rightarrow> b r | Some e \<Rightarrow> Some e) = None"
  then have "a r = None" "b r = None" by (auto split: option.splits)
  then have "a r' = None" "b r' = None"
    using lawful_anyD [OF assms(1) _ r] lawful_anyD [OF assms(2) _ r] by blast+
  then show "(case a r' of None \<Rightarrow> b r' | Some e \<Rightarrow> Some e) = None" by simp
next
  fix r e assume "(case a r of None \<Rightarrow> b r | Some e \<Rightarrow> Some e) = Some e"
  then have "a r = Some e \<or> b r = Some e" by (auto split: option.splits)
  then show "restrictedValue r = [] \<and> e = getRestrictionErr r (fr_name r) \<or>
     restrictedValue r \<noteq> [] \<and> e = getRestrictionErr r (fr_name r @ ''='' @ restrictedValue r)"
    using lawful_errD [OF assms(1)] lawful_errD [OF assms(2)] by blast
qed

lemma lawful_first_err [lawful]:
  assumes "\<And>x. lawful_check (\<lambda>r. f x r)"
  shows "lawful_check (\<lambda>r. first_err (\<lambda>x. f x r) xs)"
proof (induction xs)
  case Nil
  show ?case by (simp add: lawful_None)
next
  case (Cons x xs)
  have "lawful_check (\<lambda>r. case f x r of None \<Rightarrow> first_err (\<lambda>x. f x r) xs | Some e \<Rightarrow> Some e)"
    by (rule lawful_seq [OF assms Cons])
  then show ?case by simp
qed

lemma lawful_checkResourceList [lawful]: "lawful_check (\<lambda>r. checkResourceList m f r)"
  unfolding checkResourceList_def by (intro lawful)

lemma lawful_checkContainerResourceClaims [lawful]:
  "lawful_check (\<lambda>r. checkContainerResourceClaims cs f r)"
  unfolding checkContainerResourceClaims_def by (intro lawful)

lemma lawful_checkResources [lawful]: "lawful_check (\<lambda>r. checkResources res f r)"
  unfolding checkResources_def by (intro lawful)

section \<open>The restriction loop\<close>

text \<open>
  One entry of a restriction list: \<open>name\<close> restricts the field entirely, \<open>name=value\<close> one value.
  Both \<^verbatim>\<open>restrictContainerOverride\<close> and \<^verbatim>\<open>restrictPodOverride\<close> split it this
  way and look the field up by the part of its name before the first dot.
\<close>

definition entry_check ::
  "('o \<Rightarrow> string \<Rightarrow> string \<Rightarrow> FieldRestriction \<Rightarrow> err option) \<Rightarrow> (string \<Rightarrow> err) \<Rightarrow> 'o \<Rightarrow> string \<Rightarrow> err option" where
  "entry_check check mk ov entry =
     (let (fieldName, fieldValue, _) = strings_cut (CHR ''='') entry in
      if fieldName = [] then None
      else let (root, remaining, _) = strings_cut (CHR ''.'') fieldName in
        check ov root remaining
          \<lparr>fr_name = fieldName, restrictedValue = fieldValue, getRestrictionErr = mk\<rparr>)"

locale override_restriction =
  fixes implicit :: "'o \<Rightarrow> err option"  \<comment> \<open>the fields no configuration can permit\<close>
    and check :: "'o \<Rightarrow> string \<Rightarrow> string \<Rightarrow> FieldRestriction \<Rightarrow> err option"
    and mk :: "string \<Rightarrow> err"
    and restrict :: "'o \<Rightarrow> string list \<Rightarrow> err option"
  assumes restrict_eq:
      "restrict ov fs = (case implicit ov of Some e \<Rightarrow> Some e
                         | None \<Rightarrow> first_err (entry_check check mk ov) fs)"
    and lawful_field: "lawful_check (check ov root remaining)"
begin

lemma accepts_iff:
  "restrict ov fs = None \<longleftrightarrow> implicit ov = None \<and> (\<forall>f \<in> set fs. entry_check check mk ov f = None)"
  by (auto simp: restrict_eq first_err_None_iff split: option.splits)

lemma accepts_antimono:
  "set fs \<subseteq> set gs \<Longrightarrow> restrict ov gs = None \<Longrightarrow> restrict ov fs = None"
  by (auto simp: accepts_iff)

lemma accepts_append:
  "restrict ov (fs @ gs) = None \<longleftrightarrow> restrict ov fs = None \<and> restrict ov gs = None"
  by (auto simp: accepts_iff)

lemma entry_field_stronger:
  assumes "CHR ''='' \<notin> set f" "entry_check check mk ov f = None"
  shows "entry_check check mk ov (f @ ''='' @ v) = None"
proof -
  obtain root remaining b where c: "strings_cut (CHR ''.'') f = (root, remaining, b)"
    by (metis prod_cases3)
  from assms(1) have "strings_cut (CHR ''='') (f @ CHR ''='' # v) = (f, v, True)"
    and "strings_cut (CHR ''='') f = (f, [], False)"
    by (simp_all add: strings_cut_at strings_cut_not_in)
  with assms(2) c show ?thesis
    by (auto simp: entry_check_def dest: lawful_anyD [OF lawful_field] split: if_splits)
qed

lemma field_restriction_stronger:
  assumes "CHR ''='' \<notin> set f" "restrict ov (fs @ [f]) = None"
  shows "restrict ov (fs @ [f @ ''='' @ v]) = None"
  using assms entry_field_stronger [OF assms(1)] by (simp add: accepts_iff)

lemma entry_error:
  assumes "entry_check check mk ov f = Some e"
  shows "e = mk (fst (strings_cut (CHR ''='') f)) \<or> e = mk f"
proof -
  obtain n v b where c: "strings_cut (CHR ''='') f = (n, v, b)" by (metis prod_cases3)
  then have "v \<noteq> [] \<Longrightarrow> f = n @ ''='' @ v"
    by (cases rule: strings_cut_cases [of "CHR ''=''" f]) auto
  moreover obtain root remaining b' where "strings_cut (CHR ''.'') n = (root, remaining, b')"
    by (metis prod_cases3)
  ultimately show ?thesis
    using assms c by (auto simp: entry_check_def dest!: lawful_errD [OF lawful_field] split: if_splits)
qed

lemma rejection_provenance:
  assumes "restrict ov fs = Some e"
  shows "implicit ov = Some e \<or> (\<exists>f \<in> set fs. e = mk (fst (strings_cut (CHR ''='') f)) \<or> e = mk f)"
  using assms
  by (auto simp: restrict_eq split: option.splits dest!: first_err_SomeD entry_error)

end

end
