(* ===== verification/Container_Restrictions.thy ===== *)
theory Container_Restrictions
  imports Restrictions
begin

text \<open>
  \<^verbatim>\<open>src/pkg/library/overrides/container_restrictions.go\<close>: which container overrides a list of
  restricted fields rejects.
\<close>

definition getContainerRestrictionErr :: "string \<Rightarrow> err" where
  "getContainerRestrictionErr msg = ''cannot use container-overrides to override container '' @ msg"

definition checkConfigMapRef :: "string option \<Rightarrow> string \<Rightarrow> FieldRestriction \<Rightarrow> err option" where
  "checkConfigMapRef cmRef field r =
     (case cmRef of None \<Rightarrow> None
      | Some nm \<Rightarrow> if field = ''name'' then checkString (Some nm) r else None)"

definition checkSecretRef :: "string option \<Rightarrow> string \<Rightarrow> FieldRestriction \<Rightarrow> err option" where
  "checkSecretRef secretRef field r =
     (case secretRef of None \<Rightarrow> None
      | Some nm \<Rightarrow> if field = ''name'' then checkString (Some nm) r else None)"

definition checkEnvFrom :: "EnvFromSource \<Rightarrow> string \<Rightarrow> string \<Rightarrow> FieldRestriction \<Rightarrow> err option" where
  "checkEnvFrom envFrom root remaining r =
     (if remaining = [] then
        (if root = ''configMapRef'' then (if ef_ConfigMapRef envFrom \<noteq> None then checkAny r else None)
         else if root = ''secretRef'' then (if ef_SecretRef envFrom \<noteq> None then checkAny r else None)
         else None)
      else if root = ''configMapRef'' then checkConfigMapRef (ef_ConfigMapRef envFrom) remaining r
      else if root = ''secretRef'' then checkSecretRef (ef_SecretRef envFrom) remaining r
      else None)"

definition checkEnvsFrom :: "EnvFromSource list \<Rightarrow> string \<Rightarrow> FieldRestriction \<Rightarrow> err option" where
  "checkEnvsFrom envsFrom field r =
     (if envsFrom = [] then None
      else let (root, remaining, _) = strings_cut (CHR ''.'') field in
        first_err (\<lambda>envFrom. checkEnvFrom envFrom root remaining r) envsFrom)"

definition checkVolumeMount :: "VolumeMount \<Rightarrow> string \<Rightarrow> FieldRestriction \<Rightarrow> err option" where
  "checkVolumeMount mount field r =
     (if field = ''readOnly'' then checkBool (Some (vm_ReadOnly mount)) r
      else if field = ''recursiveReadOnly'' then checkString (vm_RecursiveReadOnly mount) r
      else if field = ''mountPropagation'' then checkString (vm_MountPropagation mount) r
      else if field = ''name'' then checkString (Some (vm_Name mount)) r
      else if field = ''mountPath'' then checkString (Some (vm_MountPath mount)) r
      else if field = ''subPath'' then checkString (Some (vm_SubPath mount)) r
      else if field = ''subPathExpr'' then checkString (Some (vm_SubPathExpr mount)) r
      else None)"

definition checkVolumeMounts :: "VolumeMount list \<Rightarrow> string \<Rightarrow> FieldRestriction \<Rightarrow> err option" where
  "checkVolumeMounts mounts field r =
     (if mounts = [] then None else first_err (\<lambda>mount. checkVolumeMount mount field r) mounts)"

definition checkVolumeDevice :: "VolumeDevice \<Rightarrow> string \<Rightarrow> FieldRestriction \<Rightarrow> err option" where
  "checkVolumeDevice device field r =
     (if field = ''name'' then checkString (Some (vd_Name device)) r
      else if field = ''devicePath'' then checkString (Some (vd_DevicePath device)) r
      else None)"

definition checkVolumeDevices :: "VolumeDevice list \<Rightarrow> string \<Rightarrow> FieldRestriction \<Rightarrow> err option" where
  "checkVolumeDevices devices field r =
     (if devices = [] then None else first_err (\<lambda>device. checkVolumeDevice device field r) devices)"

definition checkCapabilities :: "Capabilities option \<Rightarrow> string \<Rightarrow> FieldRestriction \<Rightarrow> err option" where
  "checkCapabilities caps field r =
     (case caps of None \<Rightarrow> None | Some cs \<Rightarrow>
        if field = ''add'' then first_err (\<lambda>capAdd. checkString (Some capAdd) r) (cap_Add cs)
        else if field = ''drop'' then first_err (\<lambda>capDrop. checkString (Some capDrop) r) (cap_Drop cs)
        else None)"

definition checkContainerSecurityContext ::
  "SecurityContext option \<Rightarrow> string \<Rightarrow> FieldRestriction \<Rightarrow> err option" where
  "checkContainerSecurityContext sco field r =
     (case sco of None \<Rightarrow> None | Some sc \<Rightarrow>
        (let (root, remaining, _) = strings_cut (CHR ''.'') field in
         if remaining = [] then
           (if root = ''capabilities'' then (if sc_Capabilities sc \<noteq> None then checkAny r else None)
            else if root = ''privileged'' then checkBool (sc_Privileged sc) r
            else if root = ''seLinuxOptions'' then (if sc_SELinuxOptions sc \<noteq> None then checkAny r else None)
            else if root = ''runAsUser'' then checkInt64 (sc_RunAsUser sc) r
            else if root = ''runAsGroup'' then checkInt64 (sc_RunAsGroup sc) r
            else if root = ''runAsNonRoot'' then checkBool (sc_RunAsNonRoot sc) r
            else if root = ''readOnlyRootFilesystem'' then checkBool (sc_ReadOnlyRootFilesystem sc) r
            else if root = ''allowPrivilegeEscalation'' then checkBool (sc_AllowPrivilegeEscalation sc) r
            else if root = ''procMount'' then checkString (sc_ProcMount sc) r
            else if root = ''seccompProfile'' then (if sc_SeccompProfile sc \<noteq> None then checkAny r else None)
            else if root = ''appArmorProfile'' then (if sc_AppArmorProfile sc \<noteq> None then checkAny r else None)
            else None)
         else if root = ''capabilities'' then checkCapabilities (sc_Capabilities sc) remaining r
         else None))"

definition checkContainer ::
  "'q Container \<Rightarrow> string \<Rightarrow> string \<Rightarrow> FieldRestriction \<Rightarrow> err option" where
  "checkContainer ov root remaining r =
     (if remaining = [] then
        (if root = ''workingDir'' then checkString (Some (c_WorkingDir ov)) r
         else if root = ''restartPolicy'' then checkString (c_RestartPolicy ov) r
         else if root = ''terminationMessagePath'' then checkString (Some (c_TerminationMessagePath ov)) r
         else if root = ''terminationMessagePolicy'' then checkString (Some (c_TerminationMessagePolicy ov)) r
         else if root = ''imagePullPolicy'' then checkString (Some (c_ImagePullPolicy ov)) r
         else if root = ''stdin'' then checkBool (Some (c_Stdin ov)) r
         else if root = ''stdinOnce'' then checkBool (Some (c_StdinOnce ov)) r
         else if root = ''tty'' then checkBool (Some (c_TTY ov)) r
         else if root = ''envFrom'' then (if c_EnvFrom ov \<noteq> [] then checkAny r else None)
         else if root = ''restartPolicyRules'' then (if c_RestartPolicyRules ov \<noteq> [] then checkAny r else None)
         else if root = ''resizePolicy'' then (if c_ResizePolicy ov \<noteq> [] then checkAny r else None)
         else if root = ''readinessProbe'' then (if c_ReadinessProbe ov \<noteq> None then checkAny r else None)
         else if root = ''startupProbe'' then (if c_StartupProbe ov \<noteq> None then checkAny r else None)
         else if root = ''livenessProbe'' then (if c_LivenessProbe ov \<noteq> None then checkAny r else None)
         else if root = ''lifecycle'' then (if c_Lifecycle ov \<noteq> None then checkAny r else None)
         else if root = ''resources'' then
           (if rr_Limits (c_Resources ov) \<noteq> None \<or> rr_Requests (c_Resources ov) \<noteq> None
               \<or> rr_Claims (c_Resources ov) \<noteq> [] then checkAny r else None)
         else if root = ''volumeMounts'' then (if c_VolumeMounts ov \<noteq> [] then checkAny r else None)
         else if root = ''volumeDevices'' then (if c_VolumeDevices ov \<noteq> [] then checkAny r else None)
         else if root = ''securityContext'' then (if c_SecurityContext ov \<noteq> None then checkAny r else None)
         else None)
      else if root = ''envFrom'' then checkEnvsFrom (c_EnvFrom ov) remaining r
      else if root = ''resources'' then checkResources (Some (c_Resources ov)) remaining r
      else if root = ''volumeMounts'' then checkVolumeMounts (c_VolumeMounts ov) remaining r
      else if root = ''volumeDevices'' then checkVolumeDevices (c_VolumeDevices ov) remaining r
      else if root = ''securityContext'' then checkContainerSecurityContext (c_SecurityContext ov) remaining r
      else None)"

definition restrictContainerOverride :: "'q Container \<Rightarrow> string list \<Rightarrow> err option" where
  "restrictContainerOverride ov restrictedFields =
     (if c_Name ov \<noteq> [] then Some (getContainerRestrictionErr ''name'')
      else if c_Image ov \<noteq> [] then Some (getContainerRestrictionErr ''image'')
      else if c_Command ov \<noteq> None then Some (getContainerRestrictionErr ''command'')
      else if c_Args ov \<noteq> None then Some (getContainerRestrictionErr ''args'')
      else if c_Ports ov \<noteq> None then Some (getContainerRestrictionErr ''ports'')
      else if c_Env ov \<noteq> None then Some (getContainerRestrictionErr ''env'')
      else first_err (\<lambda>restrictedField.
        let (fieldName, fieldValue, _) = strings_cut (CHR ''='') restrictedField in
        if fieldName = [] then None
        else let (root, remaining, _) = strings_cut (CHR ''.'') fieldName in
          checkContainer ov root remaining
            \<lparr>fr_name = fieldName, restrictedValue = fieldValue,
             getRestrictionErr = getContainerRestrictionErr\<rparr>) restrictedFields)"

section \<open>The restriction contract for containers\<close>

text \<open>The fields that are rejected whatever the configuration says.\<close>

definition container_implicit :: "'q Container \<Rightarrow> err option" where
  "container_implicit ov =
     first_err (\<lambda>(set, nm). if set then Some (getContainerRestrictionErr nm) else None)
       [(c_Name ov \<noteq> [], ''name''), (c_Image ov \<noteq> [], ''image''), (c_Command ov \<noteq> None, ''command''),
        (c_Args ov \<noteq> None, ''args''), (c_Ports ov \<noteq> None, ''ports''), (c_Env ov \<noteq> None, ''env'')]"

lemma lawful_checkEnvsFrom [lawful]: "lawful_check (\<lambda>r. checkEnvsFrom es f r)"
  unfolding checkEnvsFrom_def checkEnvFrom_def checkConfigMapRef_def checkSecretRef_def
  by (intro lawful)

lemma lawful_checkVolumeMounts [lawful]: "lawful_check (\<lambda>r. checkVolumeMounts ms f r)"
  unfolding checkVolumeMounts_def checkVolumeMount_def by (intro lawful)

lemma lawful_checkVolumeDevices [lawful]: "lawful_check (\<lambda>r. checkVolumeDevices ds f r)"
  unfolding checkVolumeDevices_def checkVolumeDevice_def by (intro lawful)

lemma lawful_checkContainerSecurityContext [lawful]:
  "lawful_check (\<lambda>r. checkContainerSecurityContext sc f r)"
  unfolding checkContainerSecurityContext_def checkCapabilities_def by (intro lawful)

lemma lawful_checkContainer [lawful]: "lawful_check (\<lambda>r. checkContainer ov root remaining r)"
  unfolding checkContainer_def by (intro lawful)

interpretation container: override_restriction
  container_implicit checkContainer getContainerRestrictionErr restrictContainerOverride
proof
  fix ov :: "'q Container" and fs
  show "restrictContainerOverride ov fs =
      (case container_implicit ov of Some e \<Rightarrow> Some e
       | None \<Rightarrow> first_err (entry_check checkContainer getContainerRestrictionErr ov) fs)"
    by (simp add: restrictContainerOverride_def container_implicit_def entry_check_def [abs_def])
next
  fix ov :: "'q Container" and root remaining
  show "lawful_check (checkContainer ov root remaining)"
    using lawful_checkContainer [of ov root remaining] by (simp add: eta_contract_eq)
qed

lemma container_implicit_None_iff:
  "container_implicit ov = None \<longleftrightarrow> c_Name ov = [] \<and> c_Image ov = [] \<and> c_Command ov = None \<and>
     c_Args ov = None \<and> c_Ports ov = None \<and> c_Env ov = None"
  by (auto simp: container_implicit_def)

end
