(* ===== verification/Pod_Restrictions.thy ===== *)
theory Pod_Restrictions
  imports Restrictions
begin

text \<open>
  \<^verbatim>\<open>src/pkg/library/overrides/pod_restrictions.go\<close>: which pod overrides a list of restricted
  fields rejects.
\<close>

abbreviation pod_volumes :: "'q PodSpec \<Rightarrow> 'q Volume list" where
  "pod_volumes ov \<equiv> case_option [] (\<lambda>vs. vs) (p_Volumes ov)"

definition getPodRestrictionErr :: "string \<Rightarrow> err" where
  "getPodRestrictionErr msg = ''cannot use pod-overrides to override pod '' @ msg"

definition volumeSourceType :: "'q Volume \<Rightarrow> string" where
  "volumeSourceType vol =
     (let src = v_Source vol in
      if src HostPath \<noteq> None then ''hostPath''
      else if src EmptyDir \<noteq> None then ''emptyDir''
      else if src Secret \<noteq> None then ''secret''
      else if src ConfigMap \<noteq> None then ''configMap''
      else if src PersistentVolumeClaim \<noteq> None then ''persistentVolumeClaim''
      else if src Projected \<noteq> None then ''projected''
      else if src DownwardAPI \<noteq> None then ''downwardAPI''
      else if src CSI \<noteq> None then ''csi''
      else if src Ephemeral \<noteq> None then ''ephemeral''
      else if src NFS \<noteq> None then ''nfs''
      else if src FC \<noteq> None then ''fc''
      else if src ImageVolume \<noteq> None then ''image''
      else if src ISCSI \<noteq> None then ''iscsi''
      else if src GCEPersistentDisk \<noteq> None then ''gcePersistentDisk''
      else if src AWSElasticBlockStore \<noteq> None then ''awsElasticBlockStore''
      else if src GitRepo \<noteq> None then ''gitRepo''
      else if src Glusterfs \<noteq> None then ''glusterfs''
      else if src RBD \<noteq> None then ''rbd''
      else if src FlexVolume \<noteq> None then ''flexVolume''
      else if src Cinder \<noteq> None then ''cinder''
      else if src CephFS \<noteq> None then ''cephfs''
      else if src Flocker \<noteq> None then ''flocker''
      else if src AzureFile \<noteq> None then ''azureFile''
      else if src VsphereVolume \<noteq> None then ''vsphereVolume''
      else if src Quobyte \<noteq> None then ''quobyte''
      else if src AzureDisk \<noteq> None then ''azureDisk''
      else if src PhotonPersistentDisk \<noteq> None then ''photonPersistentDisk''
      else if src PortworxVolume \<noteq> None then ''portworxVolume''
      else if src ScaleIO \<noteq> None then ''scaleIO''
      else if src StorageOS \<noteq> None then ''storageos''
      else [])"

definition checkVolume :: "'q Volume \<Rightarrow> string \<Rightarrow> FieldRestriction \<Rightarrow> err option" where
  "checkVolume volume field r =
     (if field = ''name'' then checkString (Some (v_Name volume)) r
      else let volType = volumeSourceType volume in
        if volType \<noteq> [] \<and> volType = field then checkAny r else None)"

definition checkVolumes :: "'q Volume list \<Rightarrow> string \<Rightarrow> FieldRestriction \<Rightarrow> err option" where
  "checkVolumes volumes field r =
     (if volumes = [] then None else first_err (\<lambda>volume. checkVolume volume field r) volumes)"

definition checkSysctls :: "(string \<times> string) list \<Rightarrow> string \<Rightarrow> FieldRestriction \<Rightarrow> err option" where
  "checkSysctls sysctls field r =
     (if sysctls = [] then None
      else case checkAny r of
          None \<Rightarrow> if field = ''name'' then first_err (\<lambda>(nm, _). checkString (Some nm) r) sysctls else None
        | Some e \<Rightarrow> Some e)"

definition checkSupplementalGroups :: "int list \<Rightarrow> string \<Rightarrow> FieldRestriction \<Rightarrow> err option" where
  "checkSupplementalGroups groups field r =
     (if groups = [] then None
      else case checkAny r of
          None \<Rightarrow> if field = [] then first_err (\<lambda>g. checkInt64 (Some g) r) groups else None
        | Some e \<Rightarrow> Some e)"

definition checkPodSecurityContext ::
  "PodSecurityContext option \<Rightarrow> string \<Rightarrow> FieldRestriction \<Rightarrow> err option" where
  "checkPodSecurityContext sco field r =
     (case sco of None \<Rightarrow> None | Some sc \<Rightarrow>
        (let (root, remaining, _) = strings_cut (CHR ''.'') field in
         if root = ''seLinuxOptions'' then (if psc_SELinuxOptions sc \<noteq> None then checkAny r else None)
         else if root = ''runAsUser'' then checkInt64 (psc_RunAsUser sc) r
         else if root = ''runAsGroup'' then checkInt64 (psc_RunAsGroup sc) r
         else if root = ''runAsNonRoot'' then checkBool (psc_RunAsNonRoot sc) r
         else if root = ''supplementalGroups'' then checkSupplementalGroups (psc_SupplementalGroups sc) remaining r
         else if root = ''supplementalGroupsPolicy'' then checkString (psc_SupplementalGroupsPolicy sc) r
         else if root = ''fsGroup'' then checkInt64 (psc_FSGroup sc) r
         else if root = ''sysctls'' then checkSysctls (psc_Sysctls sc) remaining r
         else if root = ''fsGroupChangePolicy'' then checkString (psc_FSGroupChangePolicy sc) r
         else if root = ''seccompProfile'' then (if psc_SeccompProfile sc \<noteq> None then checkAny r else None)
         else if root = ''appArmorProfile'' then (if psc_AppArmorProfile sc \<noteq> None then checkAny r else None)
         else if root = ''seLinuxChangePolicy'' then checkString (psc_SELinuxChangePolicy sc) r
         else None))"

definition checkResourceClaim :: "PodResourceClaim \<Rightarrow> string \<Rightarrow> FieldRestriction \<Rightarrow> err option" where
  "checkResourceClaim claim field r =
     (if field = ''name'' then checkString (Some (prc_Name claim)) r
      else if field = ''resourceClaimName'' then checkString (prc_ResourceClaimName claim) r
      else if field = ''resourceClaimTemplateName'' then checkString (prc_ResourceClaimTemplateName claim) r
      else None)"

definition checkResourceClaims :: "PodResourceClaim list \<Rightarrow> string \<Rightarrow> FieldRestriction \<Rightarrow> err option" where
  "checkResourceClaims claims field r =
     (if claims = [] then None else first_err (\<lambda>claim. checkResourceClaim claim field r) claims)"

definition checkImagePullSecrets :: "string list \<Rightarrow> string \<Rightarrow> FieldRestriction \<Rightarrow> err option" where
  "checkImagePullSecrets secrets field r =
     (if secrets = [] then None
      else if field = ''name'' then first_err (\<lambda>secret. checkString (Some secret) r) secrets
      else None)"

definition checkPodField :: "'q PodSpec \<Rightarrow> string \<Rightarrow> string \<Rightarrow> FieldRestriction \<Rightarrow> err option" where
  "checkPodField ov root remaining r =
     (if remaining = [] then
        (if root = ''restartPolicy'' then checkString (Some (p_RestartPolicy ov)) r
         else if root = ''terminationGracePeriodSeconds'' then checkInt64 (p_TerminationGracePeriodSeconds ov) r
         else if root = ''activeDeadlineSeconds'' then checkInt64 (p_ActiveDeadlineSeconds ov) r
         else if root = ''dnsPolicy'' then checkString (Some (p_DNSPolicy ov)) r
         else if root = ''nodeSelector'' then (if p_NodeSelector ov \<noteq> [] then checkAny r else None)
         else if root = ''serviceAccountName'' then checkString (Some (p_ServiceAccountName ov)) r
         else if root = ''deprecatedServiceAccount'' then checkString (Some (p_DeprecatedServiceAccount ov)) r
         else if root = ''automountServiceAccountToken'' then checkBool (p_AutomountServiceAccountToken ov) r
         else if root = ''nodeName'' then checkString (Some (p_NodeName ov)) r
         else if root = ''hostIPC'' then checkBool (Some (p_HostIPC ov)) r
         else if root = ''hostPID'' then checkBool (Some (p_HostPID ov)) r
         else if root = ''hostNetwork'' then checkBool (Some (p_HostNetwork ov)) r
         else if root = ''shareProcessNamespace'' then checkBool (p_ShareProcessNamespace ov) r
         else if root = ''hostname'' then checkString (Some (p_Hostname ov)) r
         else if root = ''subdomain'' then checkString (Some (p_Subdomain ov)) r
         else if root = ''schedulerName'' then checkString (Some (p_SchedulerName ov)) r
         else if root = ''priorityClassName'' then checkString (Some (p_PriorityClassName ov)) r
         else if root = ''priority'' then checkInt32 (p_Priority ov) r
         else if root = ''runtimeClassName'' then checkString (p_RuntimeClassName ov) r
         else if root = ''enableServiceLinks'' then checkBool (p_EnableServiceLinks ov) r
         else if root = ''preemptionPolicy'' then checkString (p_PreemptionPolicy ov) r
         else if root = ''setHostnameAsFQDN'' then checkBool (p_SetHostnameAsFQDN ov) r
         else if root = ''hostUsers'' then checkBool (p_HostUsers ov) r
         else if root = ''hostnameOverride'' then checkString (p_HostnameOverride ov) r
         else if root = ''ephemeralContainers'' then (if p_EphemeralContainers ov \<noteq> [] then checkAny r else None)
         else if root = ''affinity'' then (if p_Affinity ov \<noteq> None then checkAny r else None)
         else if root = ''tolerations'' then (if p_Tolerations ov \<noteq> [] then checkAny r else None)
         else if root = ''hostAliases'' then (if p_HostAliases ov \<noteq> [] then checkAny r else None)
         else if root = ''dnsConfig'' then (if p_DNSConfig ov \<noteq> None then checkAny r else None)
         else if root = ''readinessGates'' then (if p_ReadinessGates ov \<noteq> [] then checkAny r else None)
         else if root = ''topologySpreadConstraints'' then (if p_TopologySpreadConstraints ov \<noteq> [] then checkAny r else None)
         else if root = ''os'' then (if p_OS ov \<noteq> None then checkAny r else None)
         else if root = ''schedulingGates'' then (if p_SchedulingGates ov \<noteq> [] then checkAny r else None)
         else if root = ''schedulingGroup'' then (if p_SchedulingGroup ov \<noteq> None then checkAny r else None)
         else if root = ''volumes'' then (if pod_volumes ov \<noteq> [] then checkAny r else None)
         else if root = ''securityContext'' then (if p_SecurityContext ov \<noteq> None then checkAny r else None)
         else if root = ''imagePullSecrets'' then (if p_ImagePullSecrets ov \<noteq> [] then checkAny r else None)
         else if root = ''overhead'' then (if go_items (p_Overhead ov) \<noteq> [] then checkAny r else None)
         else if root = ''resourceClaims'' then (if p_ResourceClaims ov \<noteq> [] then checkAny r else None)
         else if root = ''resources'' then (if p_Resources ov \<noteq> None then checkAny r else None)
         else None)
      else if root = ''volumes'' then checkVolumes (pod_volumes ov) remaining r
      else if root = ''securityContext'' then checkPodSecurityContext (p_SecurityContext ov) remaining r
      else if root = ''imagePullSecrets'' then checkImagePullSecrets (p_ImagePullSecrets ov) remaining r
      else if root = ''overhead'' then checkResourceList (p_Overhead ov) remaining r
      else if root = ''resourceClaims'' then checkResourceClaims (p_ResourceClaims ov) remaining r
      else if root = ''resources'' then checkResources (p_Resources ov) remaining r
      else None)"

definition restrictPodOverride :: "'q PodSpec \<Rightarrow> string list \<Rightarrow> err option" where
  "restrictPodOverride ov restrictedFields =
     (if p_Containers ov \<noteq> None then Some (getPodRestrictionErr ''containers'')
      else if p_InitContainers ov \<noteq> None then Some (getPodRestrictionErr ''initContainers'')
      else first_err (\<lambda>field.
        let (fieldName, fieldValue, _) = strings_cut (CHR ''='') field in
        if fieldName = [] then None
        else let (root, remaining, _) = strings_cut (CHR ''.'') fieldName in
          checkPodField ov root remaining
            \<lparr>fr_name = fieldName, restrictedValue = fieldValue,
             getRestrictionErr = getPodRestrictionErr\<rparr>) restrictedFields)"

section \<open>The restriction contract for pods\<close>

definition pod_implicit :: "'q PodSpec \<Rightarrow> err option" where
  "pod_implicit ov =
     first_err (\<lambda>(set, nm). if set then Some (getPodRestrictionErr nm) else None)
       [(p_Containers ov \<noteq> None, ''containers''), (p_InitContainers ov \<noteq> None, ''initContainers'')]"

lemma lawful_checkVolumes [lawful]: "lawful_check (\<lambda>r. checkVolumes vs f r)"
  unfolding checkVolumes_def checkVolume_def by (intro lawful)

lemma lawful_checkSysctls [lawful]: "lawful_check (\<lambda>r. checkSysctls ss f r)"
  unfolding checkSysctls_def by (intro lawful)

lemma lawful_checkSupplementalGroups [lawful]: "lawful_check (\<lambda>r. checkSupplementalGroups gs f r)"
  unfolding checkSupplementalGroups_def by (intro lawful)

lemma lawful_checkPodSecurityContext [lawful]: "lawful_check (\<lambda>r. checkPodSecurityContext sc f r)"
  unfolding checkPodSecurityContext_def by (intro lawful)

lemma lawful_checkResourceClaims [lawful]: "lawful_check (\<lambda>r. checkResourceClaims cs f r)"
  unfolding checkResourceClaims_def checkResourceClaim_def by (intro lawful)

lemma lawful_checkImagePullSecrets [lawful]: "lawful_check (\<lambda>r. checkImagePullSecrets ss f r)"
  unfolding checkImagePullSecrets_def by (intro lawful)

lemma lawful_checkPodField [lawful]: "lawful_check (\<lambda>r. checkPodField ov root remaining r)"
  unfolding checkPodField_def by (intro lawful)

interpretation pod: override_restriction
  pod_implicit checkPodField getPodRestrictionErr restrictPodOverride
proof
  fix ov :: "'q PodSpec" and fs
  show "restrictPodOverride ov fs =
      (case pod_implicit ov of Some e \<Rightarrow> Some e
       | None \<Rightarrow> first_err (entry_check checkPodField getPodRestrictionErr ov) fs)"
    by (simp add: restrictPodOverride_def pod_implicit_def entry_check_def [abs_def])
next
  fix ov :: "'q PodSpec" and root remaining
  show "lawful_check (checkPodField ov root remaining)"
    using lawful_checkPodField [of ov root remaining] by (simp add: eta_contract_eq)
qed

lemma pod_implicit_None_iff:
  "pod_implicit ov = None \<longleftrightarrow> p_Containers ov = None \<and> p_InitContainers ov = None"
  by (auto simp: pod_implicit_def)

lemma volumeSourceType_hostPath [simp]:
  "volumeSourceType vol = ''hostPath'' \<longleftrightarrow> v_Source vol HostPath \<noteq> None"
  by (simp add: volumeSourceType_def Let_def)

end
