(* ===== verification/Overrides.thy ===== *)
theory Overrides
  imports Container_Restrictions Pod_Restrictions Config_Types Devfile
begin

text \<open>
  \<^verbatim>\<open>src/pkg/library/overrides/containers.go\<close> and \<^verbatim>\<open>pods.go\<close>: applying the container
  and pod overrides of a devfile. The JSON encoding of the Kubernetes structs and the strategic
  merge patch are parameters, collected in one record.
\<close>

section \<open>Parameters and data\<close>

record 'q override_json =
  getIntoContainer :: "attributes \<Rightarrow> string \<Rightarrow> err + 'q Container"
  marshalContainer :: "'q Container \<Rightarrow> err + string"
  mergePatchContainer :: "string \<Rightarrow> string \<Rightarrow> err + string"
  unmarshalContainer :: "string \<Rightarrow> err + 'q Container"
  getIntoPod :: "attributes \<Rightarrow> string \<Rightarrow> err + 'q PodTemplateSpec"
  marshalPod :: "'q PodTemplateSpec \<Rightarrow> err + string"
  mergePatchPod :: "string \<Rightarrow> string \<Rightarrow> err + string"
  unmarshalPod :: "string \<Rightarrow> err + 'q PodTemplateSpec"

definition ContainerOverridesAttribute :: string where
  "ContainerOverridesAttribute = ''container-overrides''"

definition PodOverridesAttribute :: string where
  "PodOverridesAttribute = ''pod-overrides''"

text \<open>The raw text of an attribute; reading an absent one gives the empty text.\<close>

abbreviation attr_raw :: "attributes \<Rightarrow> string \<Rightarrow> string" where
  "attr_raw as k \<equiv> case_option [] (\<lambda>v. v) (map_of as k)"

section \<open>Container overrides\<close>

definition NeedsContainerOverride :: "DevfileComponent \<Rightarrow> bool" where
  "NeedsContainerOverride component \<longleftrightarrow>
     comp_Container component \<noteq> None \<and> attr_exists (comp_Attributes component) ContainerOverridesAttribute"

definition setProbeFields :: "Probe \<Rightarrow> Probe" where
  "setProbeFields p =
     (let p = (if pr_SuccessThreshold p = 0 then p\<lparr>pr_SuccessThreshold := 1\<rparr> else p);
          p = (if pr_FailureThreshold p = 0 then p\<lparr>pr_FailureThreshold := 3\<rparr> else p);
          p = (if pr_PeriodSeconds p = 0 then p\<lparr>pr_PeriodSeconds := 10\<rparr> else p)
      in (if pr_TimeoutSeconds p = 0 then p\<lparr>pr_TimeoutSeconds := 1\<rparr> else p))"

definition handleDefaultedContainerFields :: "'q Container \<Rightarrow> 'q Container" where
  "handleDefaultedContainerFields patched = patched\<lparr>
     c_ReadinessProbe := map_option setProbeFields (c_ReadinessProbe patched),
     c_LivenessProbe := map_option setProbeFields (c_LivenessProbe patched),
     c_StartupProbe := map_option setProbeFields (c_StartupProbe patched)\<rparr>"

definition ApplyContainerOverrides ::
  "'q override_json \<Rightarrow> DevfileComponent \<Rightarrow> 'q Container \<Rightarrow> string list \<Rightarrow> err + 'q Container" where
  "ApplyContainerOverrides J component container restrictedFields =
     (case getIntoContainer J (comp_Attributes component) ContainerOverridesAttribute of
        Inl e \<Rightarrow> Inl (''failed to parse '' @ ContainerOverridesAttribute @ '' attribute on component '' @
                     comp_Name component @ '': '' @ e)
      | Inr ovr \<Rightarrow>
     (case restrictContainerOverride ovr restrictedFields of
        Some e \<Rightarrow> Inl (''invalid '' @ ContainerOverridesAttribute @ '' attribute on component '' @
                      comp_Name component @ '': '' @ e)
      | None \<Rightarrow>
     (case marshalContainer J container of
        Inl e \<Rightarrow> Inl (''failed to marshal container to yaml: '' @ e)
      | Inr originalBytes \<Rightarrow>
     (case mergePatchContainer J originalBytes (attr_raw (comp_Attributes component) ContainerOverridesAttribute) of
        Inl e \<Rightarrow> Inl (''failed to apply container overrides: '' @ e)
      | Inr patchedBytes \<Rightarrow>
     (case unmarshalContainer J patchedBytes of
        Inl e \<Rightarrow> Inl (''error applying container overrides: '' @ e)
      | Inr patched \<Rightarrow>
          Inr (handleDefaultedContainerFields
                 (patched\<lparr>c_Name := c_Name container, c_Image := c_Image container\<rparr>)))))))"

section \<open>Pod overrides\<close>

definition GetRestrictedContainerOverrideFields :: "'q OperatorConfiguration option \<Rightarrow> string list" where
  "GetRestrictedContainerOverrideFields config =
     (case config of None \<Rightarrow> [] | Some c \<Rightarrow>
      (case oc_Workspace c of None \<Rightarrow> [] | Some w \<Rightarrow>
      (case wc_Overrides w of None \<Rightarrow> [] | Some ov \<Rightarrow>
       (case RestrictedContainerOverrideFields ov of None \<Rightarrow> [] | Some fs \<Rightarrow> fs))))"

definition GetRestrictedPodOverrideFields :: "'q OperatorConfiguration option \<Rightarrow> string list" where
  "GetRestrictedPodOverrideFields config =
     (case config of None \<Rightarrow> [] | Some c \<Rightarrow>
      (case oc_Workspace c of None \<Rightarrow> [] | Some w \<Rightarrow>
      (case wc_Overrides w of None \<Rightarrow> [] | Some ov \<Rightarrow>
       (case RestrictedPodOverrideFields ov of None \<Rightarrow> [] | Some fs \<Rightarrow> fs))))"

definition NeedsPodOverrides :: "DevWorkspaceTemplateSpec \<Rightarrow> bool" where
  "NeedsPodOverrides workspace \<longleftrightarrow>
     attr_exists (ts_Attributes workspace) PodOverridesAttribute \<or>
     list_ex (\<lambda>component. attr_exists (comp_Attributes component) PodOverridesAttribute) (ts_Components workspace)"

text \<open>One block of the collection: the attribute is parsed and restricted, then its raw text kept.\<close>

definition podOverrideIn ::
  "'q override_json \<Rightarrow> string \<Rightarrow> attributes \<Rightarrow> string list \<Rightarrow> err + string" where
  "podOverrideIn J place as restrictedFields =
     (case getIntoPod J as PodOverridesAttribute of
        Inl e \<Rightarrow> Inl (''failed to parse '' @ PodOverridesAttribute @ '' attribute '' @ place @ '': '' @ e)
      | Inr ovr \<Rightarrow>
     (case restrictPodOverride (pt_Spec ovr) restrictedFields of
        Some e \<Rightarrow> Inl (''invalid '' @ PodOverridesAttribute @ '' attribute '' @ place @ '': '' @ e)
      | None \<Rightarrow> Inr (attr_raw as PodOverridesAttribute)))"

fun componentPodOverrides ::
  "'q override_json \<Rightarrow> string list \<Rightarrow> DevfileComponent list \<Rightarrow> err + string list" where
  "componentPodOverrides J restrictedFields [] = Inr []"
| "componentPodOverrides J restrictedFields (component # rest) =
     (if attr_exists (comp_Attributes component) PodOverridesAttribute then
        (case podOverrideIn J (''on component '' @ comp_Name component) (comp_Attributes component) restrictedFields of
           Inl e \<Rightarrow> Inl e
         | Inr raw \<Rightarrow>
        (case componentPodOverrides J restrictedFields rest of
           Inl e \<Rightarrow> Inl e
         | Inr raws \<Rightarrow> Inr (raw # raws)))
      else componentPodOverrides J restrictedFields rest)"

definition getPodOverrides ::
  "'q override_json \<Rightarrow> DevWorkspaceTemplateSpec \<Rightarrow> string list \<Rightarrow> err + string list" where
  "getPodOverrides J workspace restrictedFields =
     (case componentPodOverrides J restrictedFields (ts_Components workspace) of
        Inl e \<Rightarrow> Inl e
      | Inr raws \<Rightarrow>
          if attr_exists (ts_Attributes workspace) PodOverridesAttribute then
            (case podOverrideIn J ''for workspace'' (ts_Attributes workspace) restrictedFields of
               Inl e \<Rightarrow> Inl e
             | Inr raw \<Rightarrow> Inr (raws @ [raw]))
          else Inr raws)"

fun patch_all :: "(string \<Rightarrow> string \<Rightarrow> err + string) \<Rightarrow> string list \<Rightarrow> string \<Rightarrow> err + string" where
  "patch_all patch [] bytes = Inr bytes"
| "patch_all patch (raw # raws) bytes =
     (case patch bytes raw of
        Inl e \<Rightarrow> Inl (''error applying pod overrides: '' @ e)
      | Inr bytes' \<Rightarrow> patch_all patch raws bytes')"

definition ApplyPodOverrides ::
  "'q override_json \<Rightarrow> DevWorkspaceTemplateSpec \<Rightarrow> 'q OperatorConfiguration option \<Rightarrow> 'q Deployment \<Rightarrow>
   err + 'q Deployment" where
  "ApplyPodOverrides J workspace config deployment =
     (case getPodOverrides J workspace (GetRestrictedPodOverrideFields config) of
        Inl e \<Rightarrow> Inl e
      | Inr overrides \<Rightarrow>
        let originalContainers = p_Containers (pt_Spec (d_Template deployment));
            originalInitContainers = p_InitContainers (pt_Spec (d_Template deployment)) in
     (case marshalPod J (d_Template deployment) of
        Inl e \<Rightarrow> Inl (''failed to marshal deployment to yaml: '' @ e)
      | Inr patchedTemplateBytes \<Rightarrow>
     (case patch_all (mergePatchPod J) overrides patchedTemplateBytes of
        Inl e \<Rightarrow> Inl e
      | Inr patchedTemplateBytes' \<Rightarrow>
     (case unmarshalPod J patchedTemplateBytes' of
        Inl e \<Rightarrow> Inl (''error applying pod overrides: '' @ e)
      | Inr patchedPodSpecTemplate \<Rightarrow>
          Inr (deployment\<lparr>d_Template := patchedPodSpecTemplate\<lparr>pt_Spec :=
                 (pt_Spec patchedPodSpecTemplate)\<lparr>p_Containers := originalContainers,
                                                  p_InitContainers := originalInitContainers\<rparr>\<rparr>\<rparr>)))))"

fun volumes_loop ::
  "'q override_json \<Rightarrow> string list \<Rightarrow> string list \<Rightarrow> err + string list" where
  "volumes_loop J [] overrideVolumes = Inr overrideVolumes"
| "volumes_loop J (raw # raws) overrideVolumes =
     (case unmarshalPod J raw of
        Inl e \<Rightarrow> Inl (''error unmarshalling: '' @ e)
      | Inr podSpecTemplate \<Rightarrow>
          volumes_loop J raws (fold List.insert (map v_Name (pod_volumes (pt_Spec podSpecTemplate))) overrideVolumes))"

text \<open>The Go result is a set written as a map to \<^verbatim>\<open>true\<close>, here its list of keys.\<close>

definition GetVolumesFromOverrides ::
  "'q override_json \<Rightarrow> DevWorkspaceTemplateSpec \<Rightarrow> string list \<Rightarrow> err + string list" where
  "GetVolumesFromOverrides J workspace restrictedFields =
     (case getPodOverrides J workspace restrictedFields of
        Inl e \<Rightarrow> Inl e
      | Inr overrides \<Rightarrow> volumes_loop J overrides [])"

section \<open>What the default configuration of Kubernetes accepts\<close>

lemma checkString_value_None_iff:
  "v \<noteq> [] \<Longrightarrow> checkString s \<lparr>fr_name = n, restrictedValue = v, getRestrictionErr = mk\<rparr> = None \<longleftrightarrow> s \<noteq> Some v"
  by (auto simp: checkString_def checkRestrictedValue_def split: option.splits)

lemma checkBool_value_None_iff:
  "checkBool b \<lparr>fr_name = n, restrictedValue = ''true'', getRestrictionErr = mk\<rparr> = None \<longleftrightarrow> b \<noteq> Some True"
  "checkBool b \<lparr>fr_name = n, restrictedValue = ''false'', getRestrictionErr = mk\<rparr> = None \<longleftrightarrow> b \<noteq> Some False"
  by (auto simp: checkBool_def checkRestrictedValue_def format_bool_def split: option.splits)

lemma checkInt64_zero_None_iff:
  "checkInt64 i \<lparr>fr_name = n, restrictedValue = ''0'', getRestrictionErr = mk\<rparr> = None \<longleftrightarrow> i \<noteq> Some 0"
proof -
  have "''0'' = format_int 0"
    by code_simp
  then show ?thesis
    by (auto simp: checkInt64_def checkRestrictedValue_def split: option.splits)
qed

lemma checkString_any_None_iff:
  "checkString s \<lparr>fr_name = n, restrictedValue = [], getRestrictionErr = mk\<rparr> = None \<longleftrightarrow> s = None \<or> s = Some []"
  by (auto simp: checkString_def split: option.splits)

lemmas value_None_iff = checkString_value_None_iff checkBool_value_None_iff checkInt64_zero_None_iff
  checkString_any_None_iff

lemma security_context_entries:
  "entry_check checkContainer mk ov ''securityContext.privileged=true'' = None \<longleftrightarrow>
     (\<forall>sc. c_SecurityContext ov = Some sc \<longrightarrow> sc_Privileged sc \<noteq> Some True)"
  "entry_check checkContainer mk ov ''securityContext.runAsNonRoot=false'' = None \<longleftrightarrow>
     (\<forall>sc. c_SecurityContext ov = Some sc \<longrightarrow> sc_RunAsNonRoot sc \<noteq> Some False)"
  "entry_check checkContainer mk ov ''securityContext.runAsUser=0'' = None \<longleftrightarrow>
     (\<forall>sc. c_SecurityContext ov = Some sc \<longrightarrow> sc_RunAsUser sc \<noteq> Some 0)"
  "entry_check checkContainer mk ov ''securityContext.allowPrivilegeEscalation=true'' = None \<longleftrightarrow>
     (\<forall>sc. c_SecurityContext ov = Some sc \<longrightarrow> sc_AllowPrivilegeEscalation sc \<noteq> Some True)"
  "entry_check checkContainer mk ov ''securityContext.procMount=Unmasked'' = None \<longleftrightarrow>
     (\<forall>sc. c_SecurityContext ov = Some sc \<longrightarrow> sc_ProcMount sc \<noteq> Some ''Unmasked'')"
  by (cases "c_SecurityContext ov";
      simp add: entry_check_def strings_cut_def checkContainer_def checkContainerSecurityContext_def value_None_iff)+

lemma capabilities_entry:
  "entry_check checkContainer mk ov ''securityContext.capabilities.add'' = None \<longleftrightarrow>
     (\<forall>sc cs. c_SecurityContext ov = Some sc \<longrightarrow> sc_Capabilities sc = Some cs \<longrightarrow> (\<forall>cap \<in> set (cap_Add cs). cap = []))"
  by (cases "c_SecurityContext ov"; cases "sc_Capabilities (the (c_SecurityContext ov))";
      simp add: entry_check_def strings_cut_def checkContainer_def checkContainerSecurityContext_def
        checkCapabilities_def first_err_None_iff value_None_iff)

lemma pod_entries:
  "entry_check checkPodField mk ov ''hostNetwork=true'' = None \<longleftrightarrow> \<not> p_HostNetwork ov"
  "entry_check checkPodField mk ov ''hostPID=true'' = None \<longleftrightarrow> \<not> p_HostPID ov"
  "entry_check checkPodField mk ov ''hostIPC=true'' = None \<longleftrightarrow> \<not> p_HostIPC ov"
  by (simp_all add: entry_check_def strings_cut_def checkPodField_def value_None_iff)

lemma pod_security_context_entries:
  "entry_check checkPodField mk ov ''securityContext.runAsNonRoot=false'' = None \<longleftrightarrow>
     (\<forall>sc. p_SecurityContext ov = Some sc \<longrightarrow> psc_RunAsNonRoot sc \<noteq> Some False)"
  "entry_check checkPodField mk ov ''securityContext.runAsUser=0'' = None \<longleftrightarrow>
     (\<forall>sc. p_SecurityContext ov = Some sc \<longrightarrow> psc_RunAsUser sc \<noteq> Some 0)"
  by (cases "p_SecurityContext ov";
      simp add: entry_check_def strings_cut_def checkPodField_def checkPodSecurityContext_def value_None_iff)+

lemma hostPath_entry:
  fixes ov :: "'q PodSpec"
  shows "entry_check checkPodField mk ov ''volumes.hostPath'' = None \<longleftrightarrow>
     (\<forall>vol \<in> set (pod_volumes ov). v_Source vol HostPath = None)"
proof -
  have "checkVolume vol ''hostPath'' \<lparr>fr_name = ''volumes.hostPath'', restrictedValue = [], getRestrictionErr = mk\<rparr> = None
     \<longleftrightarrow> v_Source vol HostPath = None" for vol :: "'q Volume"
    by (cases "volumeSourceType vol = ''hostPath''")
       (simp_all add: checkVolume_def checkAny_def Let_def del: volumeSourceType_hostPath,
        simp_all)
  then show ?thesis
    by (cases "p_Volumes ov")
       (simp_all add: entry_check_def strings_cut_def checkPodField_def checkVolumes_def first_err_None_iff)
qed

text \<open>The security settings the default configuration of Kubernetes rules out.\<close>

definition container_unprivileged :: "'q Container \<Rightarrow> bool" where
  "container_unprivileged ov \<longleftrightarrow>
     (case c_SecurityContext ov of None \<Rightarrow> True | Some sc \<Rightarrow>
        sc_Privileged sc \<noteq> Some True \<and> sc_RunAsNonRoot sc \<noteq> Some False \<and> sc_RunAsUser sc \<noteq> Some 0 \<and>
        sc_AllowPrivilegeEscalation sc \<noteq> Some True \<and> sc_ProcMount sc \<noteq> Some ''Unmasked'' \<and>
        (case sc_Capabilities sc of None \<Rightarrow> True | Some cs \<Rightarrow> \<forall>cap \<in> set (cap_Add cs). cap = []))"

definition pod_unprivileged :: "'q PodSpec \<Rightarrow> bool" where
  "pod_unprivileged ov \<longleftrightarrow>
     \<not> p_HostNetwork ov \<and> \<not> p_HostPID ov \<and> \<not> p_HostIPC ov \<and>
     (case p_SecurityContext ov of None \<Rightarrow> True | Some sc \<Rightarrow>
        psc_RunAsNonRoot sc \<noteq> Some False \<and> psc_RunAsUser sc \<noteq> Some 0) \<and>
     (\<forall>vol \<in> set (pod_volumes ov). v_Source vol HostPath = None)"

lemma container_default_entries:
  "(\<forall>f \<in> set (the (RestrictedContainerOverrideFields defaultKubernetesOverrideConfig)).
      entry_check checkContainer mk ov f = None) \<longleftrightarrow> container_unprivileged ov"
  unfolding defaultKubernetesOverrideConfig_def container_unprivileged_def
  by (cases "c_SecurityContext ov"; cases "sc_Capabilities (the (c_SecurityContext ov))")
     (simp_all add: security_context_entries capabilities_entry conj_assoc)

lemma pod_default_entries:
  "(\<forall>f \<in> set (the (RestrictedPodOverrideFields defaultKubernetesOverrideConfig)).
      entry_check checkPodField mk ov f = None) \<longleftrightarrow> pod_unprivileged ov"
  unfolding defaultKubernetesOverrideConfig_def pod_unprivileged_def
  by (cases "p_SecurityContext ov")
     (simp_all add: pod_entries pod_security_context_entries hostPath_entry conj_assoc)

text \<open>(C6) With the configuration the operator ships for Kubernetes, a container override is accepted
  exactly when it leaves name, image, command, arguments, ports and environment alone and asks
  for no privileged container, no root user, no privilege escalation, no unmasked
  \<^verbatim>\<open>/proc\<close> and no added capability.\<close>

theorem kubernetes_default_container_overrides:
  "restrictContainerOverride ov (the (RestrictedContainerOverrideFields defaultKubernetesOverrideConfig)) = None \<longleftrightarrow>
     c_Name ov = [] \<and> c_Image ov = [] \<and> c_Command ov = None \<and> c_Args ov = None \<and> c_Ports ov = None \<and>
     c_Env ov = None \<and> container_unprivileged ov"
  unfolding container.accepts_iff container_default_entries container_implicit_None_iff
  by (simp only: conj_assoc)

text \<open>(C7) With the configuration the operator ships for Kubernetes, a pod override is accepted exactly
  when it sets no containers and asks for none of the host's namespaces, no root user and no
  volume from the host's file system.\<close>

theorem kubernetes_default_pod_overrides:
  "restrictPodOverride ov (the (RestrictedPodOverrideFields defaultKubernetesOverrideConfig)) = None \<longleftrightarrow>
     p_Containers ov = None \<and> p_InitContainers ov = None \<and> pod_unprivileged ov"
  unfolding pod.accepts_iff pod_default_entries pod_implicit_None_iff
  by (simp only: conj_assoc)

section \<open>How restrictions compose\<close>

text \<open>More restricted fields never admit more container overrides, and a restriction of a field to
  no value at all is at least as strong as one of the field to a single value: an administrator
  who adds entries or drops values from them only ever tightens the policy.\<close>

theorem container_restrictions_tighten:
  assumes "restrictContainerOverride ov (fs @ [f]) = None" "CHR ''='' \<notin> set f" "set gs \<subseteq> set fs"
  shows "restrictContainerOverride ov (gs @ [f @ ''='' @ v]) = None"
proof -
  have "restrictContainerOverride ov (fs @ [f @ ''='' @ v]) = None"
    by (rule container.field_restriction_stronger [OF assms(2,1)])
  then show ?thesis
    by (rule container.accepts_antimono [rotated]) (use assms(3) in auto)
qed

theorem container_restrictions_tighten_witness:
  "restrictContainerOverride (empty_container :: int Container) [''workingDir=/tmp''] = None"
  using container_restrictions_tighten [of "empty_container :: int Container" "[''imagePullPolicy'']" "''workingDir''" "[]" "''/tmp''"]
  by (simp add: restrictContainerOverride_def empty_container_def strings_cut_def checkContainer_def checkString_def)

text \<open>The same for pod overrides.\<close>

theorem pod_restrictions_tighten:
  assumes "restrictPodOverride ov (fs @ [f]) = None" "CHR ''='' \<notin> set f" "set gs \<subseteq> set fs"
  shows "restrictPodOverride ov (gs @ [f @ ''='' @ v]) = None"
proof -
  have "restrictPodOverride ov (fs @ [f @ ''='' @ v]) = None"
    by (rule pod.field_restriction_stronger [OF assms(2,1)])
  then show ?thesis
    by (rule pod.accepts_antimono [rotated]) (use assms(3) in auto)
qed

theorem pod_restrictions_tighten_witness:
  "restrictPodOverride (empty_pod_spec :: int PodSpec) [''nodeName=n1''] = None"
  using pod_restrictions_tighten [of "empty_pod_spec :: int PodSpec" "[''hostname'']" "''nodeName''" "[]" "''n1''"]
  by (simp add: restrictPodOverride_def empty_pod_spec_def strings_cut_def checkPodField_def checkString_def)

text \<open>A rejected container override is rejected for a field that can never be overridden or for
  an entry of the configured list, and the message names that entry's field.\<close>

theorem container_rejection_names_entry:
  assumes "restrictContainerOverride ov fs = Some e"
  shows "(\<exists>nm \<in> {''name'', ''image'', ''command'', ''args'', ''ports'', ''env''}. e = getContainerRestrictionErr nm) \<or>
    (\<exists>f \<in> set fs. e = getContainerRestrictionErr (fst (strings_cut (CHR ''='') f)) \<or> e = getContainerRestrictionErr f)"
proof -
  have "\<exists>nm \<in> {''name'', ''image'', ''command'', ''args'', ''ports'', ''env''}. e = getContainerRestrictionErr nm"
    if "container_implicit ov = Some e"
    using that by (auto simp: container_implicit_def split: if_splits)
  then show ?thesis
    using container.rejection_provenance [OF assms] by blast
qed

theorem container_rejection_names_entry_witness:
  "(\<exists>nm \<in> {''name'', ''image'', ''command'', ''args'', ''ports'', ''env''}.
      getContainerRestrictionErr ''workingDir=/'' = getContainerRestrictionErr nm) \<or>
    (\<exists>f \<in> set [''workingDir=/'']. getContainerRestrictionErr ''workingDir=/'' = getContainerRestrictionErr (fst (strings_cut (CHR ''='') f)) \<or>
      getContainerRestrictionErr ''workingDir=/'' = getContainerRestrictionErr f)"
  by (rule container_rejection_names_entry [of "(empty_container :: int Container)\<lparr>c_WorkingDir := ''/''\<rparr>"])
     (simp add: restrictContainerOverride_def empty_container_def strings_cut_def checkContainer_def checkString_def
       checkRestrictedValue_def)

lemma bare_bool_entries:
  "entry_check checkContainer mk ov ''stdin'' \<noteq> None"
  "entry_check checkContainer mk ov ''stdinOnce'' \<noteq> None"
  "entry_check checkContainer mk ov ''tty'' \<noteq> None"
  by (simp_all add: entry_check_def strings_cut_def checkContainer_def checkBool_def)

text \<open>The Boolean fields of a container that are not pointers have no unset value: restricting one of
  them to no value at all rejects every container override, also one that does not mention the
  field, and naming the value \<^verbatim>\<open>false\<close> rejects every override that does not set it to true.\<close>

theorem bare_bool_rejects_every_container_override:
  assumes "f \<in> {''stdin'', ''stdinOnce'', ''tty''}"
  shows "restrictContainerOverride ov (fs @ [f]) \<noteq> None \<and>
    (restrictContainerOverride ov [''tty=false''] = None \<longrightarrow> c_TTY ov)"
proof
  have "entry_check checkContainer getContainerRestrictionErr ov f \<noteq> None"
    using assms bare_bool_entries by auto
  then show "restrictContainerOverride ov (fs @ [f]) \<noteq> None"
    by (simp add: container.accepts_iff)
  show "restrictContainerOverride ov [''tty=false''] = None \<longrightarrow> c_TTY ov"
    by (simp add: container.accepts_iff entry_check_def strings_cut_def checkContainer_def value_None_iff)
qed

theorem bare_bool_rejects_every_container_override_witness:
  "restrictContainerOverride (empty_container :: int Container) ([] @ [''tty'']) \<noteq> None \<and>
    (restrictContainerOverride (empty_container :: int Container) [''tty=false''] = None \<longrightarrow> c_TTY (empty_container :: int Container))"
  by (rule bare_bool_rejects_every_container_override) simp

section \<open>Applying overrides\<close>

lemma handleDefaulted_fields [simp]:
  "c_Name (handleDefaultedContainerFields c) = c_Name c"
  "c_Image (handleDefaultedContainerFields c) = c_Image c"
  by (simp_all add: handleDefaultedContainerFields_def)

lemma ApplyContainerOverrides_Inr:
  assumes "ApplyContainerOverrides J component container fs = Inr c"
  shows "c_Name c = c_Name container \<and> c_Image c = c_Image container \<and>
    (\<exists>ovr. getIntoContainer J (comp_Attributes component) ContainerOverridesAttribute = Inr ovr \<and>
       restrictContainerOverride ovr fs = None)"
  using assms unfolding ApplyContainerOverrides_def by (auto split: sum.splits option.splits)

text \<open>Applying container overrides either fails or gives a container with the original name and
  image, and only after the parsed override has passed the restrictions: an override that the
  configured fields reject is never applied.\<close>

theorem ApplyContainerOverrides_restricted:
  "case ApplyContainerOverrides J component container fs of
     Inl _ \<Rightarrow> True
   | Inr c \<Rightarrow> c_Name c = c_Name container \<and> c_Image c = c_Image container \<and>
       (\<exists>ovr. getIntoContainer J (comp_Attributes component) ContainerOverridesAttribute = Inr ovr \<and>
          restrictContainerOverride ovr fs = None)"
  using ApplyContainerOverrides_Inr [of J component container fs]
  by (cases "ApplyContainerOverrides J component container fs") simp_all

definition probe_defaulted :: "Probe \<Rightarrow> bool" where
  "probe_defaulted p \<longleftrightarrow> pr_SuccessThreshold p \<noteq> 0 \<and> pr_FailureThreshold p \<noteq> 0 \<and>
     pr_PeriodSeconds p \<noteq> 0 \<and> pr_TimeoutSeconds p \<noteq> 0"

lemma setProbeFields_eq:
  "setProbeFields p = p\<lparr>
     pr_SuccessThreshold := (if pr_SuccessThreshold p = 0 then 1 else pr_SuccessThreshold p),
     pr_FailureThreshold := (if pr_FailureThreshold p = 0 then 3 else pr_FailureThreshold p),
     pr_PeriodSeconds := (if pr_PeriodSeconds p = 0 then 10 else pr_PeriodSeconds p),
     pr_TimeoutSeconds := (if pr_TimeoutSeconds p = 0 then 1 else pr_TimeoutSeconds p)\<rparr>"
  by (cases p) (simp add: setProbeFields_def)

lemma setProbeFields_defaulted: "probe_defaulted (setProbeFields p)"
  by (simp add: probe_defaulted_def setProbeFields_eq)

lemma setProbeFields_id: "probe_defaulted p \<Longrightarrow> setProbeFields p = p"
  by (cases p) (simp add: probe_defaulted_def setProbeFields_eq)

text \<open>Defaulting the probes fills every probe completely, changes nothing on a container whose
  probes the cluster has already defaulted, and so reaches a fixed point in one step: an override with a partial
  probe does not make the operator reconcile for ever.\<close>

theorem handleDefaultedContainerFields_fixpoint:
  fixes c :: "'q Container"
  shows "(let c' = handleDefaultedContainerFields c in
    pred_option probe_defaulted (c_ReadinessProbe c') \<and> pred_option probe_defaulted (c_LivenessProbe c') \<and>
    pred_option probe_defaulted (c_StartupProbe c') \<and> handleDefaultedContainerFields c' = c')"
proof -
  have idem: "setProbeFields (setProbeFields p) = setProbeFields p" for p
    by (rule setProbeFields_id [OF setProbeFields_defaulted])
  have "pred_option probe_defaulted (map_option setProbeFields x)" for x
    by (cases x) (simp_all add: setProbeFields_defaulted)
  moreover have "map_option setProbeFields (map_option setProbeFields x) = map_option setProbeFields x" for x
    by (cases x) (simp_all add: idem)
  ultimately show ?thesis
    by (simp add: Let_def handleDefaultedContainerFields_def)
qed

lemma podOverrideIn_ok:
  "podOverrideIn J place as fs = Inr raw \<Longrightarrow>
     raw = attr_raw as PodOverridesAttribute \<and>
     (\<exists>t. getIntoPod J as PodOverridesAttribute = Inr t \<and> restrictPodOverride (pt_Spec t) fs = None)"
  by (auto simp: podOverrideIn_def split: sum.splits option.splits)

text \<open>The attribute sets of a workspace that carry pod overrides, in the order they apply.\<close>

definition pod_override_sources :: "DevWorkspaceTemplateSpec \<Rightarrow> attributes list" where
  "pod_override_sources w =
     [as \<leftarrow> map comp_Attributes (ts_Components w) @ [ts_Attributes w]. attr_exists as PodOverridesAttribute]"

lemma componentPodOverrides_ok:
  "componentPodOverrides J fs cs = Inr raws \<Longrightarrow>
     raws = map (\<lambda>as. attr_raw as PodOverridesAttribute)
       [as \<leftarrow> map comp_Attributes cs. attr_exists as PodOverridesAttribute] \<and>
     (\<forall>c \<in> set cs. attr_exists (comp_Attributes c) PodOverridesAttribute \<longrightarrow>
        (\<exists>t. getIntoPod J (comp_Attributes c) PodOverridesAttribute = Inr t \<and> restrictPodOverride (pt_Spec t) fs = None))"
proof (induction cs arbitrary: raws)
  case Nil
  then show ?case by simp
next
  case (Cons c cs)
  show ?case
  proof (cases "attr_exists (comp_Attributes c) PodOverridesAttribute")
    case False
    with Cons show ?thesis by simp
  next
    case True
    with Cons.prems obtain raw raws' where
      "podOverrideIn J (''on component '' @ comp_Name c) (comp_Attributes c) fs = Inr raw"
      "componentPodOverrides J fs cs = Inr raws'" "raws = raw # raws'"
      by (auto split: sum.splits)
    with Cons.IH [of raws'] True podOverrideIn_ok show ?thesis by fastforce
  qed
qed

lemma getPodOverrides_ok:
  assumes "getPodOverrides J w fs = Inr raws"
  shows "raws = map (\<lambda>as. attr_raw as PodOverridesAttribute) (pod_override_sources w)"
    and "\<forall>as \<in> set (pod_override_sources w).
      \<exists>t. getIntoPod J as PodOverridesAttribute = Inr t \<and> restrictPodOverride (pt_Spec t) fs = None"
proof -
  obtain craws where c: "componentPodOverrides J fs (ts_Components w) = Inr craws"
    using assms by (auto simp: getPodOverrides_def split: sum.splits)
  note cs = componentPodOverrides_ok [OF c]
  have g: "raws = map (\<lambda>as. attr_raw as PodOverridesAttribute) (pod_override_sources w) \<and>
    (\<forall>as \<in> set (pod_override_sources w).
      \<exists>t. getIntoPod J as PodOverridesAttribute = Inr t \<and> restrictPodOverride (pt_Spec t) fs = None)"
  proof (cases "attr_exists (ts_Attributes w) PodOverridesAttribute")
    case False
    with assms c cs show ?thesis
      by (auto simp: getPodOverrides_def pod_override_sources_def)
  next
    case True
    with assms c obtain raw where
      r: "podOverrideIn J ''for workspace'' (ts_Attributes w) fs = Inr raw" "raws = craws @ [raw]"
      by (auto simp: getPodOverrides_def split: sum.splits)
    with podOverrideIn_ok [OF r(1)] True cs show ?thesis
      by (auto simp: pod_override_sources_def)
  qed
  then show "raws = map (\<lambda>as. attr_raw as PodOverridesAttribute) (pod_override_sources w)"
    and "\<forall>as \<in> set (pod_override_sources w).
      \<exists>t. getIntoPod J as PodOverridesAttribute = Inr t \<and> restrictPodOverride (pt_Spec t) fs = None"
    by blast+
qed

lemma NeedsPodOverrides_sources: "NeedsPodOverrides w \<longleftrightarrow> pod_override_sources w \<noteq> []"
  by (auto simp: NeedsPodOverrides_def pod_override_sources_def list_ex_iff filter_empty_conv)

text \<open>Applying pod overrides never touches the deployment's containers and init containers nor
  anything outside the pod template; every override that takes part has passed the restrictions,
  and they are patched in the order of the components, the workspace's own override last.\<close>

theorem ApplyPodOverrides_restricted:
  "case ApplyPodOverrides J w config d of
     Inl _ \<Rightarrow> True
   | Inr d' \<Rightarrow>
       p_Containers (pt_Spec (d_Template d')) = p_Containers (pt_Spec (d_Template d)) \<and>
       p_InitContainers (pt_Spec (d_Template d')) = p_InitContainers (pt_Spec (d_Template d)) \<and>
       (\<exists>template. d' = d\<lparr>d_Template := template\<rparr>) \<and>
       (\<forall>as \<in> set (pod_override_sources w). \<exists>t. getIntoPod J as PodOverridesAttribute = Inr t \<and>
          restrictPodOverride (pt_Spec t) (GetRestrictedPodOverrideFields config) = None) \<and>
       (\<exists>bytes bytes' t. marshalPod J (d_Template d) = Inr bytes \<and>
          patch_all (mergePatchPod J) (map (\<lambda>as. attr_raw as PodOverridesAttribute) (pod_override_sources w)) bytes = Inr bytes' \<and>
          unmarshalPod J bytes' = Inr t \<and> pt_Labels (d_Template d') = pt_Labels t \<and> pt_Annotations (d_Template d') = pt_Annotations t \<and>
          pt_Spec (d_Template d') = (pt_Spec t)\<lparr>p_Containers := p_Containers (pt_Spec (d_Template d)),
                                              p_InitContainers := p_InitContainers (pt_Spec (d_Template d))\<rparr>)"
proof (cases "ApplyPodOverrides J w config d")
  case (Inl e)
  then show ?thesis by simp
next
  case (Inr d')
  then obtain raws where raws: "getPodOverrides J w (GetRestrictedPodOverrideFields config) = Inr raws"
    by (cases "getPodOverrides J w (GetRestrictedPodOverrideFields config)") (auto simp: ApplyPodOverrides_def)
  with Inr obtain bytes bytes' t where
    "marshalPod J (d_Template d) = Inr bytes" "patch_all (mergePatchPod J) raws bytes = Inr bytes'"
    "unmarshalPod J bytes' = Inr t"
    "d' = d\<lparr>d_Template := t\<lparr>pt_Spec := (pt_Spec t)\<lparr>p_Containers := p_Containers (pt_Spec (d_Template d)),
                                              p_InitContainers := p_InitContainers (pt_Spec (d_Template d))\<rparr>\<rparr>\<rparr>"
    by (auto simp: ApplyPodOverrides_def Let_def split: sum.splits)
  with Inr getPodOverrides_ok [OF raws] show ?thesis by auto
qed

text \<open>A JSON layer with one volume in every pod template it reads, and a workspace with overrides.\<close>

definition sample_template :: "int PodTemplateSpec" where
  "sample_template = empty_template\<lparr>pt_Spec := empty_pod_spec
     \<lparr>p_Volumes := Some [volume_of ''data'' EmptyDir (EmptyDirData None)]\<rparr>\<rparr>"

definition sample_json :: "int override_json" where
  "sample_json = \<lparr>getIntoContainer = (\<lambda>_ _. Inr empty_container), marshalContainer = (\<lambda>_. Inr []),
     mergePatchContainer = (\<lambda>_ r. Inr r), unmarshalContainer = (\<lambda>_. Inr empty_container),
     getIntoPod = (\<lambda>_ _. Inr sample_template), marshalPod = (\<lambda>_. Inr []), mergePatchPod = (\<lambda>_ r. Inr r),
     unmarshalPod = (\<lambda>_. Inr sample_template)\<rparr>"

definition sample_workspace :: DevWorkspaceTemplateSpec where
  "sample_workspace = \<lparr>ts_Parent = None, ts_Attributes = [(PodOverridesAttribute, ''{}'')], ts_Components = [],
     ts_Commands = None, ts_Events = None, ts_Projects = [], ts_StarterProjects = [], ts_DependentProjects = [], ts_Variables = None\<rparr>"

lemma sample_getPodOverrides:
  "getPodOverrides sample_json sample_workspace [] = Inr [''{}'']"
  by (simp add: getPodOverrides_def sample_workspace_def podOverrideIn_def sample_json_def sample_template_def
      restrictPodOverride_def empty_pod_spec_def)

theorem ApplyPodOverrides_restricted_witness:
  "\<exists>d'. ApplyPodOverrides sample_json sample_workspace None (empty_deployment\<lparr>d_Template := sample_template\<rparr>) = Inr d' \<and>
     p_Containers (pt_Spec (d_Template d')) = None"
proof -
  let ?d = "empty_deployment\<lparr>d_Template := sample_template\<rparr>"
  have "GetRestrictedPodOverrideFields (None :: int OperatorConfiguration option) = []"
    by (simp add: GetRestrictedPodOverrideFields_def)
  then obtain d' where d': "ApplyPodOverrides sample_json sample_workspace None ?d = Inr d'"
    by (simp add: ApplyPodOverrides_def sample_getPodOverrides) (simp add: sample_json_def)
  then show ?thesis
    using ApplyPodOverrides_restricted [where J = sample_json and w = sample_workspace and config = None and d = ?d]
    by (simp add: sample_template_def empty_pod_spec_def)
qed

lemma volumes_loop_ok:
  "volumes_loop J raws acc = Inr vs \<Longrightarrow>
     set vs = set acc \<union> (\<Union>raw \<in> set raws. case unmarshalPod J raw of
        Inl _ \<Rightarrow> {} | Inr t \<Rightarrow> v_Name ` set (pod_volumes (pt_Spec t)))"
proof (induction raws arbitrary: acc)
  case Nil
  then show ?case by simp
next
  case (Cons raw raws)
  have fold_insert: "set (fold List.insert xs ys) = set xs \<union> set ys" for xs ys :: "string list"
    by (induction xs arbitrary: ys) auto
  from Cons.prems obtain t where t: "unmarshalPod J raw = Inr t"
    "volumes_loop J raws (fold List.insert (map v_Name (pod_volumes (pt_Spec t))) acc) = Inr vs"
    by (auto split: sum.splits)
  from Cons.IH [OF t(2)] t(1) show ?case
    by (auto simp: fold_insert)
qed

text \<open>The volumes that storage provisioning must leave to the overrides are exactly the volumes
  named by some pod override of the workspace or of one of its components.\<close>

theorem GetVolumesFromOverrides_names:
  assumes "GetVolumesFromOverrides J w fs = Inr vs"
  shows "nm \<in> set vs \<longleftrightarrow> (\<exists>as \<in> set (pod_override_sources w). \<exists>t.
    unmarshalPod J (attr_raw as PodOverridesAttribute) = Inr t \<and> nm \<in> v_Name ` set (pod_volumes (pt_Spec t)))"
proof -
  obtain raws where raws: "getPodOverrides J w fs = Inr raws" "volumes_loop J raws [] = Inr vs"
    using assms by (auto simp: GetVolumesFromOverrides_def split: sum.splits)
  have *: "nm \<in> (case x of Inl (_ :: err) \<Rightarrow> {} | Inr t \<Rightarrow> f t) \<longleftrightarrow> (\<exists>t. x = Inr t \<and> nm \<in> f t)" for x f
    by (cases x) auto
  show ?thesis
    unfolding volumes_loop_ok [OF raws(2)] getPodOverrides_ok(1) [OF raws(1)] by (simp add: *)
qed

theorem GetVolumesFromOverrides_names_witness:
  "''data'' \<in> set [''data''] \<longleftrightarrow> (\<exists>as \<in> set (pod_override_sources sample_workspace). \<exists>t.
    unmarshalPod sample_json (attr_raw as PodOverridesAttribute) = Inr t \<and> ''data'' \<in> v_Name ` set (pod_volumes (pt_Spec t)))"
  by (rule GetVolumesFromOverrides_names [of _ _ "[]"])
     (simp add: GetVolumesFromOverrides_def sample_getPodOverrides, simp add: sample_json_def sample_template_def)

end
