(* ===== verification/Resources.thy ===== *)
theory Resources
  imports Devfile
begin

text \<open>
  \<^verbatim>\<open>src/pkg/library/resources/helper.go\<close>: the resource limits and requests of a workspace
  container, parsed from its component, completed with the operator's defaults, capped and
  validated.

  A \<^verbatim>\<open>resource.Quantity\<close> is an element of a linearly ordered group: \<^verbatim>\<open>Cmp\<close>,
  \<^verbatim>\<open>Equal\<close>, \<^verbatim>\<open>IsZero\<close> and \<^verbatim>\<open>Add\<close> are its order, equality, zero and sum.
  Its parser and printer are parameters. A result of type \<open>_ option\<close> is \<open>None\<close> where the Go code would panic
  on a store into a nil map.
\<close>

abbreviation (input) rr_at :: "(string, 'q::zero) gomap \<Rightarrow> string \<Rightarrow> 'q" where
  "rr_at m k \<equiv> case_option 0 (\<lambda>q. q) (go_get m k)"

section \<open>Parsing\<close>

text \<open>One of the four blocks of the parser: an empty string leaves the resource unset.\<close>

definition parse_one ::
  "(string \<Rightarrow> err + 'q) \<Rightarrow> string \<Rightarrow> string \<Rightarrow> string \<Rightarrow> string \<Rightarrow> (string, 'q) gomap \<Rightarrow> err + (string, 'q) gomap" where
  "parse_one parse what nm s k m =
     (if s = [] then Inr m
      else case parse s of
        Inl e \<Rightarrow> Inl (''failed to parse '' @ what @ '' for container component '' @ nm @ '': '' @ e)
      | Inr q \<Rightarrow> Inr (map_option (AList.update k q) m))"

definition ParseResourcesFromComponent ::
  "(string \<Rightarrow> err + 'q) \<Rightarrow> DevfileComponent \<Rightarrow> err + 'q ResourceRequirements" where
  "ParseResourcesFromComponent parse component =
     (case comp_Container component of
        None \<Rightarrow> Inl ''attempted to parse resource requirements from a non-container component''
      | Some cc \<Rightarrow>
         (case parse_one parse ''memory limit'' (comp_Name component) (cc_MemoryLimit cc) ResourceMemory (Some []) of
            Inl e \<Rightarrow> Inl e
          | Inr limits \<Rightarrow>
         (case parse_one parse ''memory request'' (comp_Name component) (cc_MemoryRequest cc) ResourceMemory (Some []) of
            Inl e \<Rightarrow> Inl e
          | Inr requests \<Rightarrow>
         (case parse_one parse ''CPU limit'' (comp_Name component) (cc_CpuLimit cc) ResourceCPU limits of
            Inl e \<Rightarrow> Inl e
          | Inr limits' \<Rightarrow>
         (case parse_one parse ''CPU request'' (comp_Name component) (cc_CpuRequest cc) ResourceCPU requests of
            Inl e \<Rightarrow> Inl e
          | Inr requests' \<Rightarrow>
              Inr \<lparr>rr_Limits = limits', rr_Requests = requests', rr_Claims = []\<rparr>)))))"

definition ApplyResourceRequirementsToComponent ::
  "('q::zero \<Rightarrow> string) \<Rightarrow> ContainerComponent \<Rightarrow> 'q ResourceRequirements \<Rightarrow> ContainerComponent" where
  "ApplyResourceRequirementsToComponent qstring container resources =
     (let memLimit = rr_at (rr_Limits resources) ResourceMemory;
          container = (if memLimit \<noteq> 0 then container\<lparr>cc_MemoryLimit := qstring memLimit\<rparr> else container);
          cpuLimit = rr_at (rr_Limits resources) ResourceCPU;
          container = (if cpuLimit \<noteq> 0 then container\<lparr>cc_CpuLimit := qstring cpuLimit\<rparr> else container);
          memRequest = rr_at (rr_Requests resources) ResourceMemory;
          container = (if memRequest \<noteq> 0 then container\<lparr>cc_MemoryRequest := qstring memRequest\<rparr> else container);
          cpuRequest = rr_at (rr_Requests resources) ResourceCPU
      in (if cpuRequest \<noteq> 0 then container\<lparr>cc_CpuRequest := qstring cpuRequest\<rparr> else container))"

section \<open>Adding, filtering, defaulting, capping\<close>

fun add_loop :: "(string \<times> 'q::plus) list \<Rightarrow> (string, 'q) gomap \<Rightarrow> (string, 'q) gomap \<Rightarrow> (string, 'q) gomap option" where
  "add_loop [] toAdd result = Some result"
| "add_loop ((resourceName, limit) # rest) toAdd result =
     (case go_get toAdd resourceName of
        Some componentLimit \<Rightarrow>
          do { result' \<leftarrow> go_put result resourceName (limit + componentLimit); add_loop rest toAdd result' }
      | None \<Rightarrow> add_loop rest toAdd result)"

definition AddResourceRequirements ::
  "'q::plus ResourceRequirements \<Rightarrow> 'q ResourceRequirements \<Rightarrow> 'q ResourceRequirements option" where
  "AddResourceRequirements resources toAdd =
     do { limits \<leftarrow> add_loop (go_items (rr_Limits resources)) (rr_Limits toAdd) (rr_Limits resources);
          requests \<leftarrow> add_loop (go_items (rr_Requests resources)) (rr_Requests toAdd) (rr_Requests resources);
          Some (resources\<lparr>rr_Limits := limits, rr_Requests := requests\<rparr>) }"

text \<open>\<open>delete_zero m k\<close>: \<^verbatim>\<open>if m.k().IsZero() { delete(m, k) }\<close>, an absent key reading as zero.\<close>

definition delete_zero :: "(string, 'q::zero) gomap \<Rightarrow> string \<Rightarrow> (string, 'q) gomap" where
  "delete_zero m k = (if rr_at m k = 0 then go_delete m k else m)"

definition FilterResources :: "'q::zero ResourceRequirements \<Rightarrow> 'q ResourceRequirements" where
  "FilterResources resources =
     (let limits = delete_zero (delete_zero (rr_Limits resources) ResourceMemory) ResourceCPU;
          requests = delete_zero (delete_zero (rr_Requests resources) ResourceMemory) ResourceCPU
      in resources\<lparr>rr_Limits := (if go_items limits = [] then None else limits),
                   rr_Requests := (if go_items requests = [] then None else requests)\<rparr>)"

fun defaults_loop :: "(string \<times> 'q::zero) list \<Rightarrow> (string, 'q) gomap \<Rightarrow> (string, 'q) gomap option" where
  "defaults_loop [] result = Some result"
| "defaults_loop ((resource, quantity) # rest) result =
     (let result1 = (if result = None then Some [] else result) in
      if go_get result1 resource = None \<and> quantity \<noteq> 0
      then do { result2 \<leftarrow> go_put result1 resource quantity; defaults_loop rest result2 }
      else defaults_loop rest result1)"

text \<open>The correction for one resource where a default makes the request exceed the limit.\<close>

definition defaults_edge ::
  "string \<Rightarrow> 'q::linordered_ab_group_add ResourceRequirements \<Rightarrow> 'q ResourceRequirements \<Rightarrow> 'q ResourceRequirements option" where
  "defaults_edge k resources result =
     (let lim = rr_at (rr_Limits result) k; req = rr_at (rr_Requests result) k in
      if lim \<noteq> 0 \<and> req \<noteq> 0 \<and> lim < req then
        let originalLimit = rr_at (rr_Limits resources) k;
            originalRequest = rr_at (rr_Requests resources) k
        in if originalLimit = 0 \<and> originalRequest \<noteq> 0
           then map_option (\<lambda>m. result\<lparr>rr_Limits := m\<rparr>) (go_put (rr_Limits result) k originalRequest)
           else if originalLimit \<noteq> 0 \<and> originalRequest = 0
           then map_option (\<lambda>m. result\<lparr>rr_Requests := m\<rparr>) (go_put (rr_Requests result) k originalLimit)
           else Some result
      else Some result)"

definition ApplyDefaults ::
  "'q::linordered_ab_group_add ResourceRequirements \<Rightarrow> 'q ResourceRequirements option \<Rightarrow> 'q ResourceRequirements option" where
  "ApplyDefaults resources dflts =
     (case dflts of None \<Rightarrow> Some resources | Some defaults \<Rightarrow>
        do { limits \<leftarrow> defaults_loop (go_items (rr_Limits defaults)) (rr_Limits resources);
             requests \<leftarrow> defaults_loop (go_items (rr_Requests defaults)) (rr_Requests resources);
             result \<leftarrow> defaults_edge ResourceMemory resources
                         (resources\<lparr>rr_Limits := limits, rr_Requests := requests\<rparr>);
             defaults_edge ResourceCPU resources result })"

fun caps_loop :: "(string \<times> 'q::linordered_ab_group_add) list \<Rightarrow> (string, 'q) gomap \<Rightarrow> (string, 'q) gomap option" where
  "caps_loop [] result = Some result"
| "caps_loop ((resourceName, capLimit) # rest) result =
     (if capLimit = 0 then caps_loop rest result
      else case go_get result resourceName of
          Some existingLimit \<Rightarrow>
            if existingLimit > capLimit
            then do { result' \<leftarrow> go_put result resourceName capLimit; caps_loop rest result' }
            else caps_loop rest result
        | None \<Rightarrow> caps_loop rest result)"

definition handleCapsEdgeCase ::
  "'q::linordered_ab_group_add ResourceRequirements \<Rightarrow> 'q ResourceRequirements \<Rightarrow> string \<Rightarrow> 'q ResourceRequirements option" where
  "handleCapsEdgeCase resources caps k =
     (let resLimit = rr_at (rr_Limits resources) k; resRequest = rr_at (rr_Requests resources) k in
      if resLimit \<noteq> 0 \<and> resRequest \<noteq> 0 \<and> resLimit < resRequest then
        let capResLimit = rr_at (rr_Limits caps) k; capResRequest = rr_at (rr_Requests caps) k
        in if capResLimit \<noteq> 0 \<and> capResRequest = 0 then
             (if resLimit = capResLimit
              then map_option (\<lambda>m. resources\<lparr>rr_Requests := m\<rparr>) (go_put (rr_Requests resources) k capResLimit)
              else Some resources)
           else if capResLimit = 0 \<and> capResRequest \<noteq> 0 then
             (if resRequest = capResRequest
              then map_option (\<lambda>m. resources\<lparr>rr_Limits := m\<rparr>) (go_put (rr_Limits resources) k capResRequest)
              else Some resources)
           else Some resources
      else Some resources)"

definition ApplyCaps ::
  "'q::linordered_ab_group_add ResourceRequirements \<Rightarrow> 'q ResourceRequirements option \<Rightarrow> 'q ResourceRequirements option" where
  "ApplyCaps resources capso =
     (case capso of None \<Rightarrow> Some resources | Some caps \<Rightarrow>
        do { limits \<leftarrow> caps_loop (go_items (rr_Limits caps)) (rr_Limits resources);
             requests \<leftarrow> caps_loop (go_items (rr_Requests caps)) (rr_Requests resources);
             result \<leftarrow> handleCapsEdgeCase (resources\<lparr>rr_Limits := limits, rr_Requests := requests\<rparr>)
                         caps ResourceMemory;
             handleCapsEdgeCase result caps ResourceCPU })"

definition ValidateResources ::
  "('q::linorder \<Rightarrow> string) \<Rightarrow> 'q ResourceRequirements \<Rightarrow> err option" where
  "ValidateResources qstring resources =
     (let memErr =
        (case (go_get (rr_Limits resources) ResourceMemory, go_get (rr_Requests resources) ResourceMemory) of
           (Some memLimit, Some memRequest) \<Rightarrow>
             if memRequest > memLimit
             then Some (''memory request ('' @ qstring memRequest @ '') must be less than or equal to limit ('' @ qstring memLimit @ '')'')
             else None
         | _ \<Rightarrow> None)
      in case memErr of Some e \<Rightarrow> Some e | None \<Rightarrow>
        (case (go_get (rr_Limits resources) ResourceCPU, go_get (rr_Requests resources) ResourceCPU) of
           (Some cpuLimit, Some cpuRequest) \<Rightarrow>
             if cpuRequest > cpuLimit
             then Some (''CPU request ('' @ qstring cpuRequest @ '') must be less than or equal to limit ('' @ qstring cpuLimit @ '')'')
             else None
         | _ \<Rightarrow> None))"

section \<open>Lookups after each step\<close>

text \<open>
  Each step is described by the lookups it changes. No step panics, whatever the nil-ness of the
  maps, so every description starts with the result the step returns.
\<close>

definition request_within_limit :: "'q::ord ResourceRequirements \<Rightarrow> string \<Rightarrow> bool" where
  "request_within_limit r k \<longleftrightarrow>
     (\<forall>l q. go_get (rr_Limits r) k = Some l \<longrightarrow> go_get (rr_Requests r) k = Some q \<longrightarrow> q \<le> l)"

lemma ValidateResources_None_iff:
  "ValidateResources s r = None \<longleftrightarrow>
     request_within_limit r ResourceMemory \<and> request_within_limit r ResourceCPU"
  by (cases "go_get (rr_Limits r) ResourceMemory"; cases "go_get (rr_Requests r) ResourceMemory";
      cases "go_get (rr_Limits r) ResourceCPU"; cases "go_get (rr_Requests r) ResourceCPU";
      auto simp: ValidateResources_def request_within_limit_def not_less)

lemma go_put_present:
  assumes "go_get m k = Some v"
  obtains m' where "go_put m k w = Some m'" "go_get m' = (go_get m)(k \<mapsto> w)"
  by (rule go_put_not_nil [OF go_get_not_nil [OF assms], of k w])

lemma defaults_loop_get:
  assumes "distinct (map fst xs)"
  shows "\<exists>m'. defaults_loop xs m = Some m' \<and>
    go_get m' = (\<lambda>k. case go_get m k of Some q \<Rightarrow> Some q
                      | None \<Rightarrow> Option.bind (map_of xs k) (\<lambda>q. if q = 0 then None else Some q))"
  using assms
proof (induction xs arbitrary: m)
  case Nil
  show ?case by (auto simp: fun_eq_iff split: option.splits)
next
  case (Cons x xs)
  obtain k q where x: "x = (k, q)" by (cases x)
  define m1 where "m1 = (if m = None then Some [] else m)"
  have m1: "go_get m1 = go_get m" "m1 \<noteq> None" by (auto simp: go_get_Some fun_eq_iff m1_def)
  have step: "defaults_loop (x # xs) m =
      (if go_get m k = None \<and> q \<noteq> 0 then do { m2 \<leftarrow> go_put m1 k q; defaults_loop xs m2 } else defaults_loop xs m1)"
    by (simp only: x defaults_loop.simps Let_def m1_def [symmetric] m1(1))
  have k: "map_of xs k = None" using Cons.prems x by (simp add: map_of_eq_None_iff)
  show ?case
  proof (cases "go_get m k = None \<and> q \<noteq> 0")
    case True
    obtain m2 where m2: "go_put m1 k q = Some m2" "go_get m2 = (go_get m)(k \<mapsto> q)"
      using go_put_not_nil [OF m1(2)] m1(1) by metis
    obtain m' where "defaults_loop xs m2 = Some m'" and
      "go_get m' = (\<lambda>k. case go_get m2 k of Some q \<Rightarrow> Some q
         | None \<Rightarrow> Option.bind (map_of xs k) (\<lambda>q. if q = 0 then None else Some q))"
      using Cons.IH [of m2] Cons.prems by auto
    then show ?thesis unfolding step using True m2 k x
      by (auto simp: fun_eq_iff split: option.splits)
  next
    case False
    obtain m' where "defaults_loop xs m1 = Some m'" and
      "go_get m' = (\<lambda>k. case go_get m k of Some q \<Rightarrow> Some q
         | None \<Rightarrow> Option.bind (map_of xs k) (\<lambda>q. if q = 0 then None else Some q))"
      using Cons.IH [of m1] Cons.prems m1 by auto
    then show ?thesis unfolding step using False k x
      by (auto simp: fun_eq_iff split: option.splits)
  qed
qed

lemma caps_loop_get:
  assumes "distinct (map fst xs)"
  shows "\<exists>m'. caps_loop xs m = Some m' \<and>
    go_get m' = (\<lambda>k. Option.bind (go_get m k) (\<lambda>e. Some
                   (case map_of xs k of None \<Rightarrow> e | Some c \<Rightarrow> if c \<noteq> 0 \<and> c < e then c else e)))"
  using assms
proof (induction xs arbitrary: m)
  case Nil
  show ?case by (auto simp: fun_eq_iff)
next
  case (Cons x xs)
  obtain k c where x: "x = (k, c)" by (cases x)
  have k: "map_of xs k = None" using Cons.prems x by (simp add: map_of_eq_None_iff)
  show ?case
  proof (cases "c \<noteq> 0 \<and> (\<exists>e. go_get m k = Some e \<and> c < e)")
    case True
    then obtain e where e: "go_get m k = Some e" "c < e" by auto
    obtain m1 where m1: "go_put m k c = Some m1" "go_get m1 = (go_get m)(k \<mapsto> c)"
      using go_put_present [OF e(1)] .
    obtain m' where "caps_loop xs m1 = Some m'" and
      "go_get m' = (\<lambda>k. Option.bind (go_get m1 k) (\<lambda>e. Some
         (case map_of xs k of None \<Rightarrow> e | Some c \<Rightarrow> if c \<noteq> 0 \<and> c < e then c else e)))"
      using Cons by auto
    then show ?thesis using True e m1 k x by (auto simp: fun_eq_iff)
  next
    case False
    obtain m' where "caps_loop xs m = Some m'" and
      "go_get m' = (\<lambda>k. Option.bind (go_get m k) (\<lambda>e. Some
         (case map_of xs k of None \<Rightarrow> e | Some c \<Rightarrow> if c \<noteq> 0 \<and> c < e then c else e)))"
      using Cons by auto
    then show ?thesis using False k x
      by (auto simp: fun_eq_iff split: option.splits)
  qed
qed

lemma add_loop_get:
  assumes "distinct (map fst xs)" "\<And>k. k \<in> fst ` set xs \<Longrightarrow> go_get m k \<noteq> None"
  shows "\<exists>m'. add_loop xs toAdd m = Some m' \<and>
    go_get m' = (\<lambda>k. case (map_of xs k, go_get toAdd k) of (Some a, Some b) \<Rightarrow> Some (a + b) | _ \<Rightarrow> go_get m k)"
  using assms
proof (induction xs arbitrary: m)
  case Nil
  show ?case by (auto simp: fun_eq_iff)
next
  case (Cons x xs)
  obtain k a where x: "x = (k, a)" by (cases x)
  have k: "map_of xs k = None" using Cons.prems x by (simp add: map_of_eq_None_iff)
  show ?case
  proof (cases "go_get toAdd k")
    case None
    have "go_get m k' \<noteq> None" if "k' \<in> fst ` set xs" for k'
      using Cons.prems(2) that by simp
    note IH = Cons.IH [OF _ this]
    obtain m' where "add_loop xs toAdd m = Some m'" and
      "go_get m' = (\<lambda>k. case (map_of xs k, go_get toAdd k) of (Some a, Some b) \<Rightarrow> Some (a + b) | _ \<Rightarrow> go_get m k)"
      using IH Cons.prems(1) by auto
    then show ?thesis using None k x by (auto simp: fun_eq_iff split: option.splits)
  next
    case (Some b)
    obtain v where "go_get m k = Some v" using Cons.prems(2) [of k] x by auto
    then obtain m1 where m1: "go_put m k (a + b) = Some m1" "go_get m1 = (go_get m)(k \<mapsto> a + b)"
      by (rule go_put_present)
    have "go_get m1 k' \<noteq> None" if "k' \<in> fst ` set xs" for k'
      using Cons.prems(2) that by (simp add: m1(2))
    note IH = Cons.IH [OF _ this]
    obtain m' where "add_loop xs toAdd m1 = Some m'" and
      "go_get m' = (\<lambda>k. case (map_of xs k, go_get toAdd k) of (Some a, Some b) \<Rightarrow> Some (a + b) | _ \<Rightarrow> go_get m1 k)"
      using IH Cons.prems(1) by auto
    then show ?thesis using Some m1 k x by (auto simp: fun_eq_iff split: option.splits)
  qed
qed

lemma defaults_edge_get:
  fixes resources result k
  defines "lim \<equiv> rr_at (rr_Limits result) k" and "req \<equiv> rr_at (rr_Requests result) k"
    and "oL \<equiv> rr_at (rr_Limits resources) k" and "oR \<equiv> rr_at (rr_Requests resources) k"
  defines "bad \<equiv> lim \<noteq> 0 \<and> req \<noteq> 0 \<and> lim < req"
  shows "\<exists>r'. defaults_edge k resources result = Some r' \<and> rr_Claims r' = rr_Claims result \<and>
    go_get (rr_Limits r') =
      (if bad \<and> oL = 0 \<and> oR \<noteq> 0 then (go_get (rr_Limits result))(k \<mapsto> oR) else go_get (rr_Limits result)) \<and>
    go_get (rr_Requests r') =
      (if bad \<and> oL \<noteq> 0 \<and> oR = 0 then (go_get (rr_Requests result))(k \<mapsto> oL) else go_get (rr_Requests result))"
proof -
  have put: "\<exists>m'. go_put m k w = Some m' \<and> go_get m' = (go_get m)(k \<mapsto> w)"
    if "rr_at m k \<noteq> 0" for m :: "(string, 'a) gomap" and w
    using that by (cases "go_get m k") (auto elim!: go_put_present [where w = w])
  show ?thesis
    using put [of "rr_Limits result" oR] put [of "rr_Requests result" oL]
    unfolding defaults_edge_def assms Let_def by fastforce
qed

lemma handleCapsEdgeCase_get:
  fixes resources caps k
  defines "lim \<equiv> rr_at (rr_Limits resources) k" and "req \<equiv> rr_at (rr_Requests resources) k"
    and "cL \<equiv> rr_at (rr_Limits caps) k" and "cR \<equiv> rr_at (rr_Requests caps) k"
  defines "bad \<equiv> lim \<noteq> 0 \<and> req \<noteq> 0 \<and> lim < req"
  shows "\<exists>r'. handleCapsEdgeCase resources caps k = Some r' \<and> rr_Claims r' = rr_Claims resources \<and>
    go_get (rr_Limits r') =
      (if bad \<and> cL = 0 \<and> cR \<noteq> 0 \<and> req = cR then (go_get (rr_Limits resources))(k \<mapsto> cR)
       else go_get (rr_Limits resources)) \<and>
    go_get (rr_Requests r') =
      (if bad \<and> cL \<noteq> 0 \<and> cR = 0 \<and> lim = cL then (go_get (rr_Requests resources))(k \<mapsto> cL)
       else go_get (rr_Requests resources))"
proof -
  have put: "\<exists>m'. go_put m k w = Some m' \<and> go_get m' = (go_get m)(k \<mapsto> w)"
    if "rr_at m k \<noteq> 0" for m :: "(string, 'a) gomap" and w
    using that by (cases "go_get m k") (auto elim!: go_put_present [where w = w])
  show ?thesis
    using put [of "rr_Limits resources" cR] put [of "rr_Requests resources" cL]
    unfolding handleCapsEdgeCase_def assms Let_def by fastforce
qed

section \<open>Defaults refine their specification\<close>

text \<open>
  What \<^verbatim>\<open>ApplyDefaults\<close> promises for one resource, given the container's limit and request
  and the defaults: a value the container sets is kept; an unset one takes the non-zero default,
  moved to the container's other bound where the default alone would put the request above the
  limit.
\<close>

definition spec_limit :: "'q::linordered_ab_group_add option \<Rightarrow> 'q option \<Rightarrow> 'q option \<Rightarrow> 'q option" where
  "spec_limit l r d =
     (case l of Some q \<Rightarrow> Some q
      | None \<Rightarrow> (case d of None \<Rightarrow> None | Some d \<Rightarrow>
          if d = 0 then None
          else (case r of Some q \<Rightarrow> Some (if q = 0 then d else max d q) | None \<Rightarrow> Some d)))"

definition spec_request :: "'q::linordered_ab_group_add option \<Rightarrow> 'q option \<Rightarrow> 'q option \<Rightarrow> 'q option" where
  "spec_request l r d =
     (case r of Some q \<Rightarrow> Some q
      | None \<Rightarrow> (case d of None \<Rightarrow> None | Some d \<Rightarrow>
          if d = 0 then None
          else (case l of Some q \<Rightarrow> Some (if q = 0 then d else min d q) | None \<Rightarrow> Some d)))"

definition resources_ok :: "'q ResourceRequirements \<Rightarrow> bool" where
  "resources_ok r \<longleftrightarrow> go_map_ok (rr_Limits r) \<and> go_map_ok (rr_Requests r)"

lemma defaults_edge_other:
  "defaults_edge j resources r = Some r' \<Longrightarrow> k \<noteq> j \<Longrightarrow>
     go_get (rr_Limits r') k = go_get (rr_Limits r) k \<and> go_get (rr_Requests r') k = go_get (rr_Requests r) k"
  using defaults_edge_get [of j resources r] by auto

abbreviation (input) fill :: "'q::zero option \<Rightarrow> 'q option \<Rightarrow> 'q option" where
  "fill x d \<equiv> case x of Some q \<Rightarrow> Some q | None \<Rightarrow> Option.bind d (\<lambda>q. if q = 0 then None else Some q)"

lemma defaults_edge_same:
  assumes e: "defaults_edge k resources r = Some r'"
    and l: "go_get (rr_Limits resources) k = l" and q: "go_get (rr_Requests resources) k = q"
    and L: "go_get (rr_Limits r) k = fill l dl" and R: "go_get (rr_Requests r) k = fill q dr"
  shows "go_get (rr_Limits r') k = spec_limit l q dl \<and> go_get (rr_Requests r') k = spec_request l q dr"
  using defaults_edge_get [of k resources r] unfolding e l q L R
  by (cases l; cases q; cases dl; cases dr; auto simp: spec_limit_def spec_request_def max_def min_def L R)

lemma ApplyDefaults_at:
  fixes resources d :: "'q::linordered_ab_group_add ResourceRequirements"
  assumes "resources_ok d" and k: "k = ResourceMemory \<or> k = ResourceCPU"
  shows "\<exists>r. ApplyDefaults resources (Some d) = Some r \<and>
    go_get (rr_Limits r) k = spec_limit (go_get (rr_Limits resources) k) (go_get (rr_Requests resources) k) (go_get (rr_Limits d) k) \<and>
    go_get (rr_Requests r) k = spec_request (go_get (rr_Limits resources) k) (go_get (rr_Requests resources) k) (go_get (rr_Requests d) k)"
proof -
  have ok: "distinct (map fst (go_items (rr_Limits d)))" "distinct (map fst (go_items (rr_Requests d)))"
    using assms(1) by (simp_all add: resources_ok_def go_map_ok_def)
  obtain L where L: "defaults_loop (go_items (rr_Limits d)) (rr_Limits resources) = Some L"
    "go_get L = (\<lambda>k. case go_get (rr_Limits resources) k of Some q \<Rightarrow> Some q
       | None \<Rightarrow> Option.bind (go_get (rr_Limits d) k) (\<lambda>q. if q = 0 then None else Some q))"
    using defaults_loop_get [OF ok(1)] unfolding go_get_def [symmetric] by blast
  obtain R where R: "defaults_loop (go_items (rr_Requests d)) (rr_Requests resources) = Some R"
    "go_get R = (\<lambda>k. case go_get (rr_Requests resources) k of Some q \<Rightarrow> Some q
       | None \<Rightarrow> Option.bind (go_get (rr_Requests d) k) (\<lambda>q. if q = 0 then None else Some q))"
    using defaults_loop_get [OF ok(2)] unfolding go_get_def [symmetric] by blast
  let ?r0 = "resources\<lparr>rr_Limits := L, rr_Requests := R\<rparr>"
  obtain r1 where r1: "defaults_edge ResourceMemory resources ?r0 = Some r1"
    using defaults_edge_get by blast
  obtain r2 where r2: "defaults_edge ResourceCPU resources r1 = Some r2"
    using defaults_edge_get by blast
  have "ApplyDefaults resources (Some d) = Some r2"
    using L R r1 r2 by (simp add: ApplyDefaults_def)
  moreover have "go_get (rr_Limits r2) k = spec_limit (go_get (rr_Limits resources) k) (go_get (rr_Requests resources) k) (go_get (rr_Limits d) k) \<and>
    go_get (rr_Requests r2) k = spec_request (go_get (rr_Limits resources) k) (go_get (rr_Requests resources) k) (go_get (rr_Requests d) k)"
    using k
  proof
    assume k: "k = ResourceMemory"
    show ?thesis unfolding k
      using defaults_edge_same [OF r1 refl refl, of "go_get (rr_Limits d) ResourceMemory" "go_get (rr_Requests d) ResourceMemory"]
        defaults_edge_other [OF r2, of ResourceMemory] by (simp add: L(2) R(2))
  next
    assume k: "k = ResourceCPU"
    show ?thesis unfolding k
      using defaults_edge_same [OF r2 refl refl, of "go_get (rr_Limits d) ResourceCPU" "go_get (rr_Requests d) ResourceCPU"]
        defaults_edge_other [OF r1, of ResourceCPU] by (simp add: L(2) R(2))
  qed
  ultimately show ?thesis by blast
qed

text \<open>Defaulting never touches a resource other than memory and CPU beyond filling it in.\<close>

lemma ApplyDefaults_other:
  fixes resources d :: "'q::linordered_ab_group_add ResourceRequirements"
  assumes "resources_ok d" "k \<noteq> ResourceMemory" "k \<noteq> ResourceCPU" "ApplyDefaults resources (Some d) = Some r"
  shows "go_get (rr_Limits r) k = fill (go_get (rr_Limits resources) k) (go_get (rr_Limits d) k) \<and>
    go_get (rr_Requests r) k = fill (go_get (rr_Requests resources) k) (go_get (rr_Requests d) k)"
proof -
  have ok: "distinct (map fst (go_items (rr_Limits d)))" "distinct (map fst (go_items (rr_Requests d)))"
    using assms(1) by (simp_all add: resources_ok_def go_map_ok_def)
  obtain L R r1 where
    L: "defaults_loop (go_items (rr_Limits d)) (rr_Limits resources) = Some L" and
    R: "defaults_loop (go_items (rr_Requests d)) (rr_Requests resources) = Some R" and
    r1: "defaults_edge ResourceMemory resources (resources\<lparr>rr_Limits := L, rr_Requests := R\<rparr>) = Some r1" and
    r: "defaults_edge ResourceCPU resources r1 = Some r"
    using assms(4) by (auto simp: ApplyDefaults_def bind_eq_Some_conv)
  show ?thesis
    using defaults_edge_other [OF r1 assms(2)] defaults_edge_other [OF r assms(3)]
      defaults_loop_get [OF ok(1), of "rr_Limits resources"] defaults_loop_get [OF ok(2), of "rr_Requests resources"]
    unfolding L R go_get_def [symmetric] by auto
qed

text \<open>(C16) The defaults refine their specification for memory and CPU, and applying them never
  panics, whichever of the maps is nil: the four lookups of the result are the specified ones.\<close>

theorem ApplyDefaults_refines_spec:
  assumes "resources_ok d"
  shows "\<exists>r. ApplyDefaults resources (Some d) = Some r \<and>
    (\<forall>k \<in> {ResourceMemory, ResourceCPU}.
       go_get (rr_Limits r) k = spec_limit (go_get (rr_Limits resources) k) (go_get (rr_Requests resources) k) (go_get (rr_Limits d) k) \<and>
       go_get (rr_Requests r) k = spec_request (go_get (rr_Limits resources) k) (go_get (rr_Requests resources) k) (go_get (rr_Requests d) k))"
  using ApplyDefaults_at [OF assms, of ResourceMemory resources] ApplyDefaults_at [OF assms, of ResourceCPU resources]
  by auto

theorem ApplyDefaults_refines_spec_witness:
  "\<exists>r. ApplyDefaults \<lparr>rr_Limits = Some [(ResourceMemory, 64)], rr_Requests = None, rr_Claims = []\<rparr>
        (Some \<lparr>rr_Limits = Some [(ResourceMemory, 256)], rr_Requests = Some [(ResourceMemory, 128 :: int)], rr_Claims = []\<rparr>)
        = Some r \<and> go_get (rr_Limits r) ResourceMemory = Some 64 \<and> go_get (rr_Requests r) ResourceMemory = Some 64"
  using ApplyDefaults_refines_spec [of
      "\<lparr>rr_Limits = Some [(ResourceMemory, 256)], rr_Requests = Some [(ResourceMemory, 128 :: int)], rr_Claims = []\<rparr>"
      "\<lparr>rr_Limits = Some [(ResourceMemory, 64)], rr_Requests = None, rr_Claims = []\<rparr>"]
  by (auto simp: resources_ok_def go_map_ok_def spec_limit_def spec_request_def go_get_Some)

lemma spec_values_valid:
  assumes "\<And>a b. l = Some a \<Longrightarrow> r = Some b \<Longrightarrow> b \<le> a" "\<And>a b. dl = Some a \<Longrightarrow> dr = Some b \<Longrightarrow> b \<le> a"
    and "l \<noteq> Some 0" "\<And>a. dl = Some a \<Longrightarrow> 0 \<le> a"
    and "spec_limit l r dl = Some x" "spec_request l r dr = Some y"
  shows "y \<le> x"
  using assms by (auto simp: spec_limit_def spec_request_def split: option.splits if_splits)

text \<open>Applying valid defaults to valid resources gives valid resources, as long as no limit
  is explicitly zero and no default limit is negative: the error that \<^verbatim>\<open>ValidateResources\<close>
  reports is never caused by the defaults.\<close>

theorem ApplyDefaults_valid:
  assumes "ValidateResources qs resources = None" "ValidateResources qs d = None" "resources_ok d"
    and nonzero: "\<forall>k \<in> {ResourceMemory, ResourceCPU}. go_get (rr_Limits resources) k \<noteq> Some 0"
    and nonneg: "\<forall>k \<in> {ResourceMemory, ResourceCPU}. \<forall>q. go_get (rr_Limits d) k = Some q \<longrightarrow> 0 \<le> q"
  shows "\<exists>r. ApplyDefaults resources (Some d) = Some r \<and> ValidateResources qs r = None"
proof -
  obtain r where r: "ApplyDefaults resources (Some d) = Some r"
    using ApplyDefaults_at [OF assms(3)] by blast
  have "request_within_limit r k" if "k = ResourceMemory \<or> k = ResourceCPU" for k
  proof -
    have v: "request_within_limit resources k" "request_within_limit d k"
      using assms(1,2) that by (auto simp: ValidateResources_None_iff)
    have "y \<le> x" if "go_get (rr_Limits r) k = Some x" "go_get (rr_Requests r) k = Some y" for x y
    proof (rule spec_values_valid [of "go_get (rr_Limits resources) k" "go_get (rr_Requests resources) k"
            "go_get (rr_Limits d) k" "go_get (rr_Requests d) k"])
      show "go_get (rr_Limits resources) k \<noteq> Some 0"
        using nonzero \<open>k = ResourceMemory \<or> k = ResourceCPU\<close> by blast
      show "go_get (rr_Limits d) k = Some a \<Longrightarrow> 0 \<le> a" for a
        using nonneg \<open>k = ResourceMemory \<or> k = ResourceCPU\<close> by blast
    qed (use v ApplyDefaults_at [OF assms(3) \<open>k = ResourceMemory \<or> k = ResourceCPU\<close>, of resources] r that
          in \<open>auto simp: request_within_limit_def\<close>)
    then show ?thesis by (simp add: request_within_limit_def)
  qed
  with r show ?thesis by (auto simp: ValidateResources_None_iff)
qed

theorem ApplyDefaults_valid_witness:
  "\<exists>r. ApplyDefaults \<lparr>rr_Limits = Some [(ResourceMemory, 64)], rr_Requests = None, rr_Claims = []\<rparr>
        (Some \<lparr>rr_Limits = Some [(ResourceMemory, 256)], rr_Requests = Some [(ResourceMemory, 128 :: int)], rr_Claims = []\<rparr>)
        = Some r \<and> ValidateResources (\<lambda>_. []) r = None"
  by (rule ApplyDefaults_valid)
     (auto simp: ValidateResources_def go_get_Some resources_ok_def go_map_ok_def)

section \<open>Caps\<close>

abbreviation (input) capped :: "'q::linordered_ab_group_add option \<Rightarrow> 'q option \<Rightarrow> 'q option" where
  "capped x c \<equiv> Option.bind x (\<lambda>e. Some (case c of None \<Rightarrow> e | Some c \<Rightarrow> if c \<noteq> 0 \<and> c < e then c else e))"

lemma caps_edge_other:
  "handleCapsEdgeCase r caps j = Some r' \<Longrightarrow> k \<noteq> j \<Longrightarrow>
     go_get (rr_Limits r') k = go_get (rr_Limits r) k \<and> go_get (rr_Requests r') k = go_get (rr_Requests r) k"
  using handleCapsEdgeCase_get [of r caps j] by auto

text \<open>What one resource is after capping, as a relation between the limits and requests around it.\<close>

definition caps_outcome ::
  "'q::linordered_ab_group_add option \<Rightarrow> 'q option \<Rightarrow> 'q option \<Rightarrow> 'q option \<Rightarrow> 'q option \<Rightarrow> 'q option \<Rightarrow> bool" where
  "caps_outcome l r cl cr L R \<longleftrightarrow>
     (let lim = case_option 0 (\<lambda>q. q) (capped l cl); req = case_option 0 (\<lambda>q. q) (capped r cr);
          cL = case_option 0 (\<lambda>q. q) cl; cR = case_option 0 (\<lambda>q. q) cr;
          bad = (lim \<noteq> 0 \<and> req \<noteq> 0 \<and> lim < req)
      in L = (if bad \<and> cL = 0 \<and> cR \<noteq> 0 \<and> req = cR then Some cR else capped l cl) \<and>
         R = (if bad \<and> cL \<noteq> 0 \<and> cR = 0 \<and> lim = cL then Some cL else capped r cr))"

lemma caps_edge_same:
  assumes e: "handleCapsEdgeCase r caps k = Some r'"
    and "go_get (rr_Limits r) k = capped l (go_get (rr_Limits caps) k)"
    and "go_get (rr_Requests r) k = capped q (go_get (rr_Requests caps) k)"
  shows "caps_outcome l q (go_get (rr_Limits caps) k) (go_get (rr_Requests caps) k)
           (go_get (rr_Limits r') k) (go_get (rr_Requests r') k)"
  using handleCapsEdgeCase_get [of r caps k] unfolding e assms(2,3)
  by (auto simp: caps_outcome_def Let_def assms(2,3))

lemma ApplyCaps_at:
  fixes resources caps :: "'q::linordered_ab_group_add ResourceRequirements"
  assumes "resources_ok caps"
  shows "\<exists>r. ApplyCaps resources (Some caps) = Some r \<and>
    (\<forall>k. if k = ResourceMemory \<or> k = ResourceCPU
         then caps_outcome (go_get (rr_Limits resources) k) (go_get (rr_Requests resources) k)
                (go_get (rr_Limits caps) k) (go_get (rr_Requests caps) k)
                (go_get (rr_Limits r) k) (go_get (rr_Requests r) k)
         else go_get (rr_Limits r) k = capped (go_get (rr_Limits resources) k) (go_get (rr_Limits caps) k) \<and>
              go_get (rr_Requests r) k = capped (go_get (rr_Requests resources) k) (go_get (rr_Requests caps) k))"
proof -
  have ok: "distinct (map fst (go_items (rr_Limits caps)))" "distinct (map fst (go_items (rr_Requests caps)))"
    using assms by (simp_all add: resources_ok_def go_map_ok_def)
  obtain L where L: "caps_loop (go_items (rr_Limits caps)) (rr_Limits resources) = Some L"
    "go_get L = (\<lambda>k. capped (go_get (rr_Limits resources) k) (go_get (rr_Limits caps) k))"
    using caps_loop_get [OF ok(1)] unfolding go_get_def [symmetric] by blast
  obtain R where R: "caps_loop (go_items (rr_Requests caps)) (rr_Requests resources) = Some R"
    "go_get R = (\<lambda>k. capped (go_get (rr_Requests resources) k) (go_get (rr_Requests caps) k))"
    using caps_loop_get [OF ok(2)] unfolding go_get_def [symmetric] by blast
  obtain r1 where r1: "handleCapsEdgeCase (resources\<lparr>rr_Limits := L, rr_Requests := R\<rparr>) caps ResourceMemory = Some r1"
    using handleCapsEdgeCase_get by blast
  obtain r2 where r2: "handleCapsEdgeCase r1 caps ResourceCPU = Some r2"
    using handleCapsEdgeCase_get by blast
  have "ApplyCaps resources (Some caps) = Some r2"
    using L R r1 r2 by (simp add: ApplyCaps_def)
  moreover have mem: "caps_outcome (go_get (rr_Limits resources) ResourceMemory) (go_get (rr_Requests resources) ResourceMemory)
      (go_get (rr_Limits caps) ResourceMemory) (go_get (rr_Requests caps) ResourceMemory)
      (go_get (rr_Limits r2) ResourceMemory) (go_get (rr_Requests r2) ResourceMemory)"
    using caps_edge_same [OF r1] caps_edge_other [OF r2, of ResourceMemory] by (simp add: L(2) R(2))
  moreover have cpu: "caps_outcome (go_get (rr_Limits resources) ResourceCPU) (go_get (rr_Requests resources) ResourceCPU)
      (go_get (rr_Limits caps) ResourceCPU) (go_get (rr_Requests caps) ResourceCPU)
      (go_get (rr_Limits r2) ResourceCPU) (go_get (rr_Requests r2) ResourceCPU)"
    using caps_edge_same [OF r2] caps_edge_other [OF r1, of ResourceCPU] by (simp add: L(2) R(2))
  moreover have "go_get (rr_Limits r2) k = go_get L k \<and> go_get (rr_Requests r2) k = go_get R k"
    if "k \<noteq> ResourceMemory" "k \<noteq> ResourceCPU" for k
    using caps_edge_other [OF r1 that(1)] caps_edge_other [OF r2 that(2)] by simp
  ultimately show ?thesis using L(2) R(2) by (intro exI [of _ r2]) auto
qed

lemma caps_outcome_bounds:
  assumes "caps_outcome l r cl cr L R"
  shows "cl = Some c \<Longrightarrow> c \<noteq> 0 \<Longrightarrow> L = Some x \<Longrightarrow> x \<le> c"
    and "cr = Some c \<Longrightarrow> c \<noteq> 0 \<Longrightarrow> R = Some y \<Longrightarrow> y \<le> c"
    and "(L = None) = (l = None)" and "(R = None) = (r = None)"
  using assms
  by (cases l; cases r; cases cl; cases cr; auto simp: caps_outcome_def Let_def split: if_splits)+

lemma caps_outcome_valid:
  assumes "caps_outcome l r cl cr L R"
    and "\<forall>a b. l = Some a \<longrightarrow> r = Some b \<longrightarrow> b \<le> a" "\<forall>a b. cl = Some a \<longrightarrow> cr = Some b \<longrightarrow> b \<le> a"
    and "\<forall>a. cl = Some a \<longrightarrow> 0 \<le> a" "L = Some x" "R = Some y"
  shows "y \<le> x"
  using assms
  by (cases l; cases r; cases cl; cases cr)
     (auto simp: caps_outcome_def Let_def split: if_splits)

lemma ApplyCaps_within:
  assumes "resources_ok caps"
  shows "\<exists>r. ApplyCaps resources (Some caps) = Some r \<and>
    (\<forall>k c x. go_get (rr_Limits caps) k = Some c \<longrightarrow> c \<noteq> 0 \<longrightarrow> go_get (rr_Limits r) k = Some x \<longrightarrow> x \<le> c) \<and>
    (\<forall>k c y. go_get (rr_Requests caps) k = Some c \<longrightarrow> c \<noteq> 0 \<longrightarrow> go_get (rr_Requests r) k = Some y \<longrightarrow> y \<le> c) \<and>
    dom (go_get (rr_Limits r)) = dom (go_get (rr_Limits resources)) \<and>
    dom (go_get (rr_Requests r)) = dom (go_get (rr_Requests resources))"
proof -
  obtain r where r: "ApplyCaps resources (Some caps) = Some r" and
    at: "\<And>k. if k = ResourceMemory \<or> k = ResourceCPU
         then caps_outcome (go_get (rr_Limits resources) k) (go_get (rr_Requests resources) k)
                (go_get (rr_Limits caps) k) (go_get (rr_Requests caps) k)
                (go_get (rr_Limits r) k) (go_get (rr_Requests r) k)
         else go_get (rr_Limits r) k = capped (go_get (rr_Limits resources) k) (go_get (rr_Limits caps) k) \<and>
              go_get (rr_Requests r) k = capped (go_get (rr_Requests resources) k) (go_get (rr_Requests caps) k)"
    using ApplyCaps_at [OF assms] by blast
  have k: "(\<forall>c x. go_get (rr_Limits caps) k = Some c \<longrightarrow> c \<noteq> 0 \<longrightarrow> go_get (rr_Limits r) k = Some x \<longrightarrow> x \<le> c) \<and>
    (\<forall>c y. go_get (rr_Requests caps) k = Some c \<longrightarrow> c \<noteq> 0 \<longrightarrow> go_get (rr_Requests r) k = Some y \<longrightarrow> y \<le> c) \<and>
    (go_get (rr_Limits r) k = None \<longleftrightarrow> go_get (rr_Limits resources) k = None) \<and>
    (go_get (rr_Requests r) k = None \<longleftrightarrow> go_get (rr_Requests resources) k = None)" for k
  proof (cases "k = ResourceMemory \<or> k = ResourceCPU")
    case True
    with at [of k] show ?thesis by (simp add: caps_outcome_bounds)
  next
    case False
    with at [of k] show ?thesis by (auto split: option.splits Option.bind_splits)
  qed
  show ?thesis using r k by (intro exI [of _ r]) (auto simp: dom_def)
qed

text \<open>(C17) Capping never exceeds a non-zero cap, for every resource, and neither adds nor removes
  a limit or a request; it never panics.\<close>

theorem ApplyCaps_bounded:
  assumes "resources_ok caps"
  shows "\<exists>r. ApplyCaps resources (Some caps) = Some r \<and>
    (\<forall>k c x. go_get (rr_Limits caps) k = Some c \<longrightarrow> c \<noteq> 0 \<longrightarrow> go_get (rr_Limits r) k = Some x \<longrightarrow> x \<le> c) \<and>
    (\<forall>k c y. go_get (rr_Requests caps) k = Some c \<longrightarrow> c \<noteq> 0 \<longrightarrow> go_get (rr_Requests r) k = Some y \<longrightarrow> y \<le> c) \<and>
    dom (go_get (rr_Limits r)) = dom (go_get (rr_Limits resources)) \<and>
    dom (go_get (rr_Requests r)) = dom (go_get (rr_Requests resources))"
  by (rule ApplyCaps_within [OF assms])

theorem ApplyCaps_bounded_witness:
  "\<exists>r. ApplyCaps \<lparr>rr_Limits = Some [(ResourceCPU, 9 :: int)], rr_Requests = Some [(ResourceCPU, 7)], rr_Claims = []\<rparr>
        (Some \<lparr>rr_Limits = Some [(ResourceCPU, 4)], rr_Requests = None, rr_Claims = []\<rparr>) = Some r \<and>
     (\<exists>x. go_get (rr_Limits r) ResourceCPU = Some x \<and> x \<le> 4)"
proof -
  let ?caps = "\<lparr>rr_Limits = Some [(ResourceCPU, 4 :: int)], rr_Requests = None, rr_Claims = []\<rparr>"
  let ?res = "\<lparr>rr_Limits = Some [(ResourceCPU, 9 :: int)], rr_Requests = Some [(ResourceCPU, 7)], rr_Claims = []\<rparr>"
  have ok: "resources_ok ?caps" by (simp add: resources_ok_def go_map_ok_def)
  obtain r where r: "ApplyCaps ?res (Some ?caps) = Some r" "dom (go_get (rr_Limits r)) = {ResourceCPU}"
    "\<forall>k c x. go_get (rr_Limits ?caps) k = Some c \<longrightarrow> c \<noteq> 0 \<longrightarrow> go_get (rr_Limits r) k = Some x \<longrightarrow> x \<le> c"
    using ApplyCaps_bounded [OF ok, of ?res] by (auto simp: go_get_Some)
  then obtain x where "go_get (rr_Limits r) ResourceCPU = Some x" by blast
  with r show ?thesis by (auto simp: go_get_Some)
qed

text \<open>Capping valid resources with caps that are themselves valid (no request cap above the
  limit cap) gives valid resources: the request is lowered with the limit where only the limit is
  capped.\<close>

theorem ApplyCaps_valid:
  assumes "ValidateResources qs resources = None" "ValidateResources qs caps = None" "resources_ok caps"
    and nonneg: "\<forall>k \<in> {ResourceMemory, ResourceCPU}. \<forall>q. go_get (rr_Limits caps) k = Some q \<longrightarrow> 0 \<le> q"
  shows "\<exists>r. ApplyCaps resources (Some caps) = Some r \<and> ValidateResources qs r = None"
proof -
  obtain r where r: "ApplyCaps resources (Some caps) = Some r" and
    all: "\<And>k. if k = ResourceMemory \<or> k = ResourceCPU
         then caps_outcome (go_get (rr_Limits resources) k) (go_get (rr_Requests resources) k)
                (go_get (rr_Limits caps) k) (go_get (rr_Requests caps) k)
                (go_get (rr_Limits r) k) (go_get (rr_Requests r) k)
         else go_get (rr_Limits r) k = capped (go_get (rr_Limits resources) k) (go_get (rr_Limits caps) k) \<and>
              go_get (rr_Requests r) k = capped (go_get (rr_Requests resources) k) (go_get (rr_Requests caps) k)"
    using ApplyCaps_at [OF assms(3), of resources] by blast
  have at: "caps_outcome (go_get (rr_Limits resources) k) (go_get (rr_Requests resources) k)
                (go_get (rr_Limits caps) k) (go_get (rr_Requests caps) k)
                (go_get (rr_Limits r) k) (go_get (rr_Requests r) k)"
    if "k = ResourceMemory \<or> k = ResourceCPU" for k
    using all [of k] that by simp
  have "request_within_limit r k" if k: "k = ResourceMemory \<or> k = ResourceCPU" for k
  proof -
    have "request_within_limit resources k" "request_within_limit caps k"
      using assms(1,2) k by (auto simp: ValidateResources_None_iff)
    moreover have "\<forall>q. go_get (rr_Limits caps) k = Some q \<longrightarrow> 0 \<le> q"
      using nonneg k by blast
    ultimately show ?thesis
      unfolding request_within_limit_def
      by (intro allI impI) (rule caps_outcome_valid [OF at [OF k]])
  qed
  with r show ?thesis by (auto simp: ValidateResources_None_iff)
qed

theorem ApplyCaps_valid_witness:
  "\<exists>r. ApplyCaps \<lparr>rr_Limits = Some [(ResourceCPU, 9 :: int)], rr_Requests = Some [(ResourceCPU, 7)], rr_Claims = []\<rparr>
        (Some \<lparr>rr_Limits = Some [(ResourceCPU, 4)], rr_Requests = None, rr_Claims = []\<rparr>) = Some r \<and>
     ValidateResources (\<lambda>_. []) r = None"
  by (rule ApplyCaps_valid) (auto simp: ValidateResources_def go_get_Some resources_ok_def go_map_ok_def)

text \<open>Where the request cap lies above the limit cap, capping turns valid resources into
  invalid ones, which the last branch of \<^verbatim>\<open>handleCapsEdgeCase\<close> attributes to the original
  resources.\<close>

theorem ApplyCaps_crossed_caps_invalid:
  "let resources = \<lparr>rr_Limits = Some [(ResourceCPU, 10 :: int)], rr_Requests = Some [(ResourceCPU, 8)], rr_Claims = []\<rparr>;
       caps = \<lparr>rr_Limits = Some [(ResourceCPU, 4)], rr_Requests = Some [(ResourceCPU, 6)], rr_Claims = []\<rparr>
   in ValidateResources qs resources = None \<and>
      (\<exists>r. ApplyCaps resources (Some caps) = Some r \<and> ValidateResources qs r \<noteq> None)"
  by (simp add: ApplyCaps_def handleCapsEdgeCase_def ValidateResources_def go_get_Some Let_def)

section \<open>Filtering and adding\<close>

lemma go_get_delete_zero:
  "go_get (delete_zero m j) k = (if k = j \<and> go_get m j = Some 0 then None else go_get m k)"
  by (auto simp: delete_zero_def split: option.splits)

lemma go_get_nonempty: "go_get (if go_items m = [] then None else m) k = go_get m k"
  by (auto simp: go_get_def)

text \<open>Filtering removes exactly the zero limits and requests of memory and CPU and keeps every
  other entry.\<close>

theorem FilterResources_lookup:
  "go_get (rr_Limits (FilterResources r)) k =
     (if k \<in> {ResourceMemory, ResourceCPU} \<and> go_get (rr_Limits r) k = Some 0 then None else go_get (rr_Limits r) k) \<and>
   go_get (rr_Requests (FilterResources r)) k =
     (if k \<in> {ResourceMemory, ResourceCPU} \<and> go_get (rr_Requests r) k = Some 0 then None else go_get (rr_Requests r) k)"
  by (auto simp: FilterResources_def Let_def go_get_nonempty go_get_delete_zero)

text \<open>Adding requirements sums exactly the resources set on both sides, leaves the others of
  the first argument as they are, adds no new resource, and never panics.\<close>

theorem AddResourceRequirements_lookup:
  assumes "resources_ok resources"
  shows "\<exists>r. AddResourceRequirements resources toAdd = Some r \<and> rr_Claims r = rr_Claims resources \<and>
    (\<forall>k. go_get (rr_Limits r) k = (case (go_get (rr_Limits resources) k, go_get (rr_Limits toAdd) k) of
            (Some a, Some b) \<Rightarrow> Some (a + b) | (x, _) \<Rightarrow> x)) \<and>
    (\<forall>k. go_get (rr_Requests r) k = (case (go_get (rr_Requests resources) k, go_get (rr_Requests toAdd) k) of
            (Some a, Some b) \<Rightarrow> Some (a + b) | (x, _) \<Rightarrow> x))"
proof -
  have add: "\<exists>m'. add_loop (go_items m) n m = Some m' \<and>
      go_get m' = (\<lambda>k. case (go_get m k, go_get n k) of (Some a, Some b) \<Rightarrow> Some (a + b) | _ \<Rightarrow> go_get m k)"
    if "go_map_ok m" for m n :: "(string, 'a) gomap"
    using add_loop_get [of "go_items m" m n] that
    by (auto simp: go_map_ok_def go_get_def map_of_eq_None_iff)
  obtain L where L: "add_loop (go_items (rr_Limits resources)) (rr_Limits toAdd) (rr_Limits resources) = Some L"
    and L': "go_get L = (\<lambda>k. case (go_get (rr_Limits resources) k, go_get (rr_Limits toAdd) k) of
        (Some a, Some b) \<Rightarrow> Some (a + b) | _ \<Rightarrow> go_get (rr_Limits resources) k)"
    using add assms by (auto simp: resources_ok_def)
  obtain R where R: "add_loop (go_items (rr_Requests resources)) (rr_Requests toAdd) (rr_Requests resources) = Some R"
    and R': "go_get R = (\<lambda>k. case (go_get (rr_Requests resources) k, go_get (rr_Requests toAdd) k) of
        (Some a, Some b) \<Rightarrow> Some (a + b) | _ \<Rightarrow> go_get (rr_Requests resources) k)"
    using add assms by (auto simp: resources_ok_def)
  show ?thesis
    using L R L' R' by (auto simp: AddResourceRequirements_def split: option.splits)
qed

theorem AddResourceRequirements_lookup_witness:
  "\<exists>r. AddResourceRequirements
        \<lparr>rr_Limits = Some [(ResourceCPU, 9 :: int)], rr_Requests = None, rr_Claims = []\<rparr>
        \<lparr>rr_Limits = Some [(ResourceCPU, 2), (ResourceMemory, 5)], rr_Requests = None, rr_Claims = []\<rparr> = Some r \<and>
     go_get (rr_Limits r) ResourceCPU = Some 11 \<and> go_get (rr_Limits r) ResourceMemory = None"
  using AddResourceRequirements_lookup [of
      "\<lparr>rr_Limits = Some [(ResourceCPU, 9 :: int)], rr_Requests = None, rr_Claims = []\<rparr>"
      "\<lparr>rr_Limits = Some [(ResourceCPU, 2), (ResourceMemory, 5)], rr_Requests = None, rr_Claims = []\<rparr>"]
  by (auto simp: resources_ok_def go_map_ok_def go_get_Some)

end
