(* ===== verification/Lifecycle.thy ===== *)
theory Lifecycle
  imports Devfile "HOL-Library.Multiset"
begin

text \<open>
  \<^verbatim>\<open>src/pkg/library/lifecycle\<close>: which components run as init containers
  (\<^verbatim>\<open>prestart.go\<close>), and the hooks that the postStart and preStop events put on containers
  (\<^verbatim>\<open>poststart.go\<close>, \<^verbatim>\<open>prestop.go\<close>).

  Parameters: \<open>Normalize\<close> is \<^verbatim>\<open>Command.Normalize\<close> of the devfile library, which finds the
  type of a command or fails; \<open>seconds\<close> reads a Go duration as whole seconds; \<open>quote\<close> is the
  \<^verbatim>\<open>%q\<close> format; \<open>iter\<close> is the order in which \<^verbatim>\<open>range\<close> visits a map.
\<close>

definition nl :: string where "nl = [CHR 0x0A]"
definition sq :: string where "sq = [CHR 0x27]"
definition dq :: string where "dq = [CHR 0x22]"

fun strings_join :: "string \<Rightarrow> string list \<Rightarrow> string" where
  "strings_join sep [] = []"
| "strings_join sep [x] = x"
| "strings_join sep (x # y # ys) = x @ sep @ strings_join sep (y # ys)"

section \<open>Commands\<close>

definition getCommandType :: "(Command \<Rightarrow> err + CommandType) \<Rightarrow> Command \<Rightarrow> err + CommandType" where
  "getCommandType Normalize command = Normalize command"

definition getCommandByKey :: "string \<Rightarrow> Command list \<Rightarrow> err + Command" where
  "getCommandByKey key commands =
     (case find (\<lambda>command. cmd_Id command = key) commands of
        Some command \<Rightarrow> Inr command
      | None \<Rightarrow> Inl (''no command with ID '' @ key @ '' is defined''))"

fun getCommandsForKeys :: "string list \<Rightarrow> Command list \<Rightarrow> err + Command list" where
  "getCommandsForKeys [] commands = Inr []"
| "getCommandsForKeys (key # keys) commands =
     (case getCommandByKey key commands of Inl e \<Rightarrow> Inl e
      | Inr resolvedCommand \<Rightarrow>
          (case getCommandsForKeys keys commands of Inl e \<Rightarrow> Inl e
           | Inr resolvedCommands \<Rightarrow> Inr (resolvedCommand # resolvedCommands)))"

text \<open>The keys of the Go map, which is used as a set.\<close>

fun commandListToComponentKeys ::
  "(Command \<Rightarrow> err + CommandType) \<Rightarrow> Command list \<Rightarrow> string list go_result" where
  "commandListToComponentKeys Normalize [] = Ok []"
| "commandListToComponentKeys Normalize (command # rest) =
     go_bind (of_sum (getCommandType Normalize command)) (\<lambda>commandType.
     go_bind (case commandType of
                ApplyCommandType \<Rightarrow> (case cmd_Apply command of None \<Rightarrow> Panic | Some c \<Rightarrow> Ok [ap_Component c])
              | ExecCommandType \<Rightarrow> (case cmd_Exec command of None \<Rightarrow> Panic | Some c \<Rightarrow> Ok [ex_Component c])
              | _ \<Rightarrow> Ok []) (\<lambda>key.
     go_bind (commandListToComponentKeys Normalize rest) (\<lambda>keys. Ok (key @ keys))))"

definition listContains :: "string \<Rightarrow> string list \<Rightarrow> bool" where
  "listContains query list = list_ex (\<lambda>elem. query = elem) list"

definition removeCommandsByKeys :: "string list \<Rightarrow> Command list \<Rightarrow> Command list" where
  "removeCommandsByKeys keys commands = [command \<leftarrow> commands. \<not> listContains (cmd_Id command) keys]"

section \<open>Init containers\<close>

definition HomeInitComponentName :: string where
  "HomeInitComponentName = ''init-persistent-home''"

fun checkPreStartEventCommandsValidity :: "(Command \<Rightarrow> err + CommandType) \<Rightarrow> Command list \<Rightarrow> err option" where
  "checkPreStartEventCommandsValidity Normalize [] = None"
| "checkPreStartEventCommandsValidity Normalize (cmd # rest) =
     (case getCommandType Normalize cmd of
        Inl e \<Rightarrow> Some e
      | Inr ApplyCommandType \<Rightarrow> checkPreStartEventCommandsValidity Normalize rest
      | Inr _ \<Rightarrow> Some ''only apply-type commands are supported in the prestart lifecycle binding'')"

definition setHomeInitContainerToFront :: "DevfileComponent list \<Rightarrow> DevfileComponent list" where
  "setHomeInitContainerToFront initContainers =
     (case List.extract (\<lambda>c. comp_Name c = HomeInitComponentName) initContainers of
        None \<Rightarrow> initContainers
      | Some (before, home, after) \<Rightarrow> home # before @ after)"

fun partition_loop ::
  "string list \<Rightarrow> string list \<Rightarrow> DevfileComponent list \<Rightarrow> DevfileComponent list \<times> DevfileComponent list" where
  "partition_loop initKeys mainKeys [] = ([], [])"
| "partition_loop initKeys mainKeys (component # rest) =
     (let (initContainers, mainComponents) = partition_loop initKeys mainKeys rest in
      if comp_Name component \<in> set initKeys then
        (component # initContainers,
         if comp_Name component \<in> set mainKeys then component # mainComponents else mainComponents)
      else (initContainers, component # mainComponents))"

definition GetInitContainers ::
  "(Command \<Rightarrow> err + CommandType) \<Rightarrow> DevWorkspaceTemplateSpec \<Rightarrow>
   (DevfileComponent list \<times> DevfileComponent list) go_result" where
  "GetInitContainers Normalize devfile =
     (case (ts_Events devfile, ts_Commands devfile) of
        (Some events, Some commands) \<Rightarrow>
          go_bind (of_sum (getCommandsForKeys (events_PreStart events) commands)) (\<lambda>initCommands.
          case checkPreStartEventCommandsValidity Normalize initCommands of Some e \<Rightarrow> Err e | None \<Rightarrow>
          go_bind (commandListToComponentKeys Normalize initCommands) (\<lambda>initComponentKeys.
          let nonInitCommands = removeCommandsByKeys (events_PreStart events) commands in
          go_bind (commandListToComponentKeys Normalize nonInitCommands) (\<lambda>mainComponentKeys.
          let (initContainers, mainComponents) =
                partition_loop initComponentKeys mainComponentKeys (ts_Components devfile) in
          Ok (setHomeInitContainerToFront initContainers, mainComponents))))
      | _ \<Rightarrow> Ok ([], ts_Components devfile))"

section \<open>Scripts of the hooks\<close>

text \<open>\<^verbatim>\<open>regexp `\btrap\b.*\bERR\b`\<close>: a word \<open>trap\<close> and a word \<open>ERR\<close> after it on the same line.\<close>

definition word_char :: "char \<Rightarrow> bool" where
  "word_char c \<longleftrightarrow> (let n = of_char c :: nat in 97 \<le> n \<and> n \<le> 122 \<or> 65 \<le> n \<and> n \<le> 90 \<or> 48 \<le> n \<and> n \<le> 57 \<or> n = 95)"

definition word_at :: "string \<Rightarrow> char option \<Rightarrow> string \<Rightarrow> bool" where
  "word_at w prev s \<longleftrightarrow>
     (case prev of None \<Rightarrow> True | Some c \<Rightarrow> \<not> word_char c) \<and> take (length w) s = w \<and>
     (case drop (length w) s of [] \<Rightarrow> True | c # _ \<Rightarrow> \<not> word_char c)"

fun err_follows :: "char option \<Rightarrow> string \<Rightarrow> bool" where
  "err_follows prev [] = False"
| "err_follows prev (c # cs) =
     (word_at ''ERR'' prev (c # cs) \<or> c \<noteq> CHR 0x0A \<and> err_follows (Some c) cs)"

fun trap_err_from :: "char option \<Rightarrow> string \<Rightarrow> bool" where
  "trap_err_from prev [] = False"
| "trap_err_from prev (c # cs) =
     (word_at ''trap'' prev (c # cs) \<and> err_follows (Some (CHR ''p'')) (drop 3 cs) \<or> trap_err_from (Some c) cs)"

definition trapErrRegex :: "string \<Rightarrow> bool" where
  "trapErrRegex s = trap_err_from None s"

definition parsePostStartFailureDebugSleepDurationToSeconds :: "(string \<Rightarrow> err + int) \<Rightarrow> string \<Rightarrow> int" where
  "parsePostStartFailureDebugSleepDurationToSeconds seconds durationStr =
     (if durationStr = [] then 0 else case seconds durationStr of Inl _ \<Rightarrow> 0 | Inr n \<Rightarrow> n)"

fun buildUserScript_lines :: "(string \<Rightarrow> string) \<Rightarrow> Command list \<Rightarrow> err + string list" where
  "buildUserScript_lines quote [] = Inr []"
| "buildUserScript_lines quote (command # rest) =
     (case cmd_Exec command of
        None \<Rightarrow> Inl (''exec command is nil for command ID '' @ cmd_Id command)
      | Some execCmd \<Rightarrow>
          let singleCommandParts =
                map (\<lambda>envVar. ''export '' @ dev_Name envVar @ ''='' @ quote (dev_Value envVar)) (ex_Env execCmd) @
                (if ex_WorkingDir execCmd \<noteq> [] then [''cd '' @ quote (ex_WorkingDir execCmd)] else []) @
                (if ex_CommandLine execCmd \<noteq> [] then [ex_CommandLine execCmd] else [])
          in case buildUserScript_lines quote rest of
               Inl e \<Rightarrow> Inl e
             | Inr commandScriptLines \<Rightarrow>
                 Inr (if singleCommandParts \<noteq> []
                      then strings_join '' && '' singleCommandParts # commandScriptLines
                      else commandScriptLines))"

definition buildUserScript :: "(string \<Rightarrow> string) \<Rightarrow> Command list \<Rightarrow> err + string" where
  "buildUserScript quote commands =
     (case buildUserScript_lines quote commands of Inl e \<Rightarrow> Inl e
      | Inr commandScriptLines \<Rightarrow> Inr (strings_join nl commandScriptLines))"

text \<open>The text around the values that \<^verbatim>\<open>generateScriptWithTimeout\<close> formats into its script.\<close>

definition timeout_script_1 :: string where
  "timeout_script_1 =
     nl @ ''export POSTSTART_TIMEOUT_DURATION='' @ dq"

definition timeout_script_2 :: string where
  "timeout_script_2 =
     dq @ nl @ ''export POSTSTART_KILL_AFTER_DURATION='' @ dq @ ''5'' @ dq @ nl @ ''export DEBUG_ENABLED='' @ dq"

definition timeout_script_3_before :: string where
  "timeout_script_3_before =
     dq @ nl @ nl @ ''_TIMEOUT_COMMAND_PART='' @ dq @ dq @ nl @ ''_WAS_TIMEOUT_USED='' @ dq @ ''false'' @ dq @
     '' # Use strings '' @ dq @ ''true'' @ dq @ '' or '' @ dq @ ''false'' @ dq @ '' for shell boolean'' @ nl @
     nl @ ''if command -v timeout >/dev/null 2>&1; then'' @ nl @ ''  echo '' @ dq @
     ''[postStart hook] Executing commands with timeout: ${POSTSTART_TIMEOUT_DURATION} seconds, kill after: ${POSTSTART_KILL_AFTER_DURATION} seconds'' @
     dq @ '' >&2'' @ nl @ ''  _TIMEOUT_COMMAND_PART='' @ dq @
     ''timeout --preserve-status --kill-after=${POSTSTART_KILL_AFTER_DURATION} ${POSTSTART_TIMEOUT_DURATION}'' @
     dq @ nl @ ''  _WAS_TIMEOUT_USED='' @ dq @ ''true'' @ dq @ nl @ ''else'' @ nl @ ''  echo '' @ dq @
     ''[postStart hook] WARNING: '' @ sq @ ''timeout'' @ sq @
     '' utility not found. Executing commands without timeout.'' @ dq @ '' >&2'' @ nl @ ''fi'' @ nl @ nl @
     ''# Execute the user'' @ sq @ ''s script'' @ nl @ ''${_TIMEOUT_COMMAND_PART} ''"

definition timeout_script_3 :: string where
  "timeout_script_3 = timeout_script_3_before @ ''/bin/sh -c '' @ sq"

definition timeout_script_4_after :: string where
  "timeout_script_4_after =
     nl @ ''exit_code=$?'' @ nl @ nl @ ''if [ '' @ dq @ ''$DEBUG_ENABLED'' @ dq @ '' = '' @ dq @ ''true'' @
     dq @ '' ] && [ $exit_code -ne 0 ]; then'' @ nl @ ''  echo '' @ dq @
     ''[postStart] failure encountered, sleep for debugging'' @ dq @ '' >&2'' @ nl @ ''  sleep ''"

definition timeout_script_4 :: string where
  "timeout_script_4 = sq @ timeout_script_4_after"

definition timeout_script_5 :: string where
  "timeout_script_5 =
     nl @ ''fi'' @ nl @ nl @ ''# Check the exit code based on whether timeout was attempted'' @ nl @
     ''if [ '' @ dq @ ''$_WAS_TIMEOUT_USED'' @ dq @ '' = '' @ dq @ ''true'' @ dq @ '' ]; then'' @ nl @
     ''  if [ $exit_code -eq 143 ]; then # 128 + 15 (SIGTERM)'' @ nl @ ''    echo '' @ dq @
     ''[postStart hook] Commands terminated by SIGTERM (likely timed out after ${POSTSTART_TIMEOUT_DURATION}s). Exit code 143.'' @
     dq @ '' >&2'' @ nl @ ''  elif [ $exit_code -eq 137 ]; then # 128 + 9 (SIGKILL)'' @ nl @ ''    echo '' @
     dq @
     ''[postStart hook] Commands forcefully killed by SIGKILL (likely after --kill-after ${POSTSTART_KILL_AFTER_DURATION}s expired). Exit code 137.'' @
     dq @ '' >&2'' @ nl @ ''  elif [ $exit_code -ne 0 ]; then # Catches any other non-zero exit code'' @ nl @
     ''    echo '' @ dq @ ''[postStart hook] Commands failed with exit code $exit_code.'' @ dq @ '' >&2'' @
     nl @ ''  else'' @ nl @ ''    echo '' @ dq @
     ''[postStart hook] Commands completed successfully within the time limit.'' @ dq @ '' >&2'' @ nl @
     ''  fi'' @ nl @ ''else'' @ nl @ ''  if [ $exit_code -ne 0 ]; then'' @ nl @ ''    echo '' @ dq @
     ''[postStart hook] Commands failed with exit code $exit_code (no timeout).'' @ dq @ '' >&2'' @ nl @
     ''  else'' @ nl @ ''    echo '' @ dq @
     ''[postStart hook] Commands completed successfully (no timeout).'' @ dq @ '' >&2'' @ nl @ ''  fi'' @ nl @
     ''fi'' @ nl @ nl @ ''exit $exit_code'' @ nl"

definition generateScriptWithTimeout ::
  "(string \<Rightarrow> err + int) \<Rightarrow> string \<Rightarrow> string \<Rightarrow> string \<Rightarrow> string" where
  "generateScriptWithTimeout seconds escapedUserScript postStartTimeout postStartDebugTrapSleepDuration =
     (let timeoutSeconds =
            (if postStartTimeout \<noteq> [] \<and> postStartTimeout \<noteq> ''0'' then
               (case seconds postStartTimeout of Inl _ \<Rightarrow> 0 | Inr n \<Rightarrow> n)
             else 0);
          postStartFailureDebugSleepSeconds =
            parsePostStartFailureDebugSleepDurationToSeconds seconds postStartDebugTrapSleepDuration
      in timeout_script_1 @ format_int timeoutSeconds @
         timeout_script_2 @ format_bool (postStartFailureDebugSleepSeconds > 0) @
         timeout_script_3 @ escapedUserScript @
         timeout_script_4 @ format_int postStartFailureDebugSleepSeconds @ timeout_script_5)"

definition redirectOutput_before :: string where
  "redirectOutput_before =
     ''{'' @ nl @ ''  # This script block ensures its exit code is preserved'' @ nl @
     ''  # while its stdout and stderr are tee'' @ sq @ ''d.'' @ nl @ ''  _script_to_run() {'' @ nl @ ''    ''"

definition redirectOutput_after :: string where
  "redirectOutput_after =
     '' # This will be replaced by scriptWithTimeout'' @ nl @ ''  }'' @ nl @ ''  _script_to_run'' @ nl @
     ''} 1> >(tee -a '' @ dq @ ''/tmp/poststart-stdout.txt'' @ dq @ '') 2> >(tee -a '' @ dq @
     ''/tmp/poststart-stderr.txt'' @ dq @ '' >&2)'' @ nl"

definition noTimeoutRedirect_before :: string where
  "noTimeoutRedirect_before =
     ''{'' @ nl"

definition noTimeoutRedirect_after :: string where
  "noTimeoutRedirect_after =
     nl @ ''} 1>/tmp/poststart-stdout.txt 2>/tmp/poststart-stderr.txt'' @ nl"

text \<open>\<^verbatim>\<open>strings.ReplaceAll(script, "'", `'\''`)\<close>\<close>

definition escape_single_quotes :: "string \<Rightarrow> string" where
  "escape_single_quotes s = concat (map (\<lambda>c. if c = CHR 0x27 then [CHR 0x27, CHR 0x5C, CHR 0x27, CHR 0x27] else [c]) s)"

fun plain_command_lines :: "string \<Rightarrow> Command list \<Rightarrow> string list go_result" where
  "plain_command_lines event [] = Ok []"
| "plain_command_lines event (command # rest) =
     (case cmd_Exec command of None \<Rightarrow> Panic | Some execCmd \<Rightarrow>
        if ex_Env execCmd \<noteq> [] then Err (''env vars in '' @ event @ '' command '' @ cmd_Id command @ '' are unsupported'')
        else go_bind (plain_command_lines event rest) (\<lambda>dwCommands.
          Ok ((if ex_WorkingDir execCmd \<noteq> [] then [''cd '' @ ex_WorkingDir execCmd] else []) @
              ex_CommandLine execCmd # dwCommands)))"

abbreviation exec_line :: "Command \<Rightarrow> string" where
  "exec_line command \<equiv> case_option [] ex_CommandLine (cmd_Exec command)"

definition processCommandsWithoutTimeoutFallback ::
  "(string \<Rightarrow> err + int) \<Rightarrow> Command list \<Rightarrow> string \<Rightarrow> LifecycleHandler go_result" where
  "processCommandsWithoutTimeoutFallback seconds commands postStartDebugTrapSleepDuration =
     (let postStartFailureDebugSleepSeconds =
            parsePostStartFailureDebugSleepDurationToSeconds seconds postStartDebugTrapSleepDuration in
      go_bind (plain_command_lines ''postStart'' commands) (\<lambda>dwCommands.
      let hasErrTrapInUserScript = list_ex (\<lambda>command. trapErrRegex (exec_line command)) commands;
          debugTrapLine = ''trap '' @ sq @ ''echo '' @ dq @ ''[postStart] failure encountered, sleep for debugging'' @ dq @
            ''; sleep '' @ format_int postStartFailureDebugSleepSeconds @ sq @ '' ERR'';
          dwCommands' = (if postStartFailureDebugSleepSeconds > 0 \<and> \<not> hasErrTrapInUserScript
                         then [''set -e'', debugTrapLine] @ dwCommands else dwCommands)
      in Ok (ExecHandler [''/bin/sh'', ''-c'',
               noTimeoutRedirect_before @ strings_join nl dwCommands' @ noTimeoutRedirect_after])))"

definition processCommandsForPostStart ::
  "(string \<Rightarrow> err + int) \<Rightarrow> (string \<Rightarrow> string) \<Rightarrow> Command list \<Rightarrow> string \<Rightarrow> string \<Rightarrow> LifecycleHandler go_result" where
  "processCommandsForPostStart seconds quote commands postStartTimeout postStartDebugTrapSleepDuration =
     (if postStartTimeout = [] then
        processCommandsWithoutTimeoutFallback seconds commands postStartDebugTrapSleepDuration
      else
        go_bind (wrap_err ''failed to build aggregated user script: '' (of_sum (buildUserScript quote commands)))
          (\<lambda>originalUserScript.
        let scriptToExecute = ''set -e'' @ nl @ originalUserScript;
            fullScriptWithTimeout = generateScriptWithTimeout seconds (escape_single_quotes scriptToExecute)
              postStartTimeout postStartDebugTrapSleepDuration
        in Ok (ExecHandler [''/bin/sh'', ''-c'', redirectOutput_before @ fullScriptWithTimeout @ redirectOutput_after])))"

definition processCommandsForPreStop :: "Command list \<Rightarrow> LifecycleHandler go_result" where
  "processCommandsForPreStop commands =
     go_bind (plain_command_lines ''preStop'' commands) (\<lambda>dwCommands.
       Ok (ExecHandler [''/bin/sh'', ''-c'', ''{'' @ nl @ strings_join nl dwCommands @ nl @ ''}'' @ nl]))"

section \<open>Hooks\<close>

definition getContainerWithName :: "string \<Rightarrow> 'q Container list \<Rightarrow> err + nat" where
  "getContainerWithName nm containers =
     (case find (\<lambda>idx. c_Name (containers ! idx) = nm) [0..<length containers] of
        Some idx \<Rightarrow> Inr idx
      | None \<Rightarrow> Inl (''container component with name '' @ nm @ '' not found''))"

text \<open>\<^verbatim>\<open>componentToCommands[k] = append(componentToCommands[k], command)\<close>\<close>

definition append_at :: "string \<Rightarrow> 'a \<Rightarrow> (string \<times> 'a list) list \<Rightarrow> (string \<times> 'a list) list" where
  "append_at k x m = AList.update k (case_option [] (\<lambda>xs. xs) (map_of m k) @ [x]) m"

definition command_type_name :: "CommandType \<Rightarrow> string" where
  "command_type_name t = (case t of ExecCommandType \<Rightarrow> ''Exec'' | ApplyCommandType \<Rightarrow> ''Apply''
     | CompositeCommandType \<Rightarrow> ''Composite'' | CustomCommandType \<Rightarrow> ''Custom'')"

fun group_commands ::
  "(Command \<Rightarrow> err + CommandType) \<Rightarrow> string \<Rightarrow> Command list \<Rightarrow> string list \<Rightarrow> (string \<times> Command list) list \<Rightarrow>
   (string \<times> Command list) list go_result" where
  "group_commands Normalize event commands [] componentToCommands = Ok componentToCommands"
| "group_commands Normalize event commands (commandName # rest) componentToCommands =
     go_bind (wrap_err (''could not resolve command for '' @ event @ '' event '' @ sq @ commandName @ sq @ '': '')
                (of_sum (getCommandByKey commandName commands))) (\<lambda>command.
     go_bind (wrap_err (''could not determine command type for '' @ sq @ cmd_Id command @ sq @ '': '')
                (of_sum (getCommandType Normalize command))) (\<lambda>cmdType.
     if cmdType \<noteq> ExecCommandType
     then Err (''can not use '' @ command_type_name cmdType @ ''-type command in '' @ event @ '' lifecycle event'')
     else case cmd_Exec command of None \<Rightarrow> Panic | Some execCmd \<Rightarrow>
       group_commands Normalize event commands rest (append_at (ex_Component execCmd) command componentToCommands)))"

definition with_lifecycle :: "(Lifecycle \<Rightarrow> Lifecycle) \<Rightarrow> 'q Container \<Rightarrow> 'q Container" where
  "with_lifecycle f c = c\<lparr>c_Lifecycle := Some (f (case c_Lifecycle c of None \<Rightarrow> empty_lifecycle | Some l \<Rightarrow> l))\<rparr>"

text \<open>The second loop of both functions; \<open>process\<close> builds the handler, \<open>put\<close> stores it.\<close>

fun hook_loop ::
  "(string \<Rightarrow> string) \<Rightarrow> (Command list \<Rightarrow> LifecycleHandler go_result) \<Rightarrow> (LifecycleHandler \<Rightarrow> Lifecycle \<Rightarrow> Lifecycle) \<Rightarrow>
   (string \<times> Command list) list \<Rightarrow> 'q Container list \<Rightarrow> 'q Container list go_result" where
  "hook_loop failed process put [] containers = Ok containers"
| "hook_loop failed process put ((componentName, commands) # rest) containers =
     go_bind (wrap_err (failed (cmd_Id (hd commands))) (of_sum (getContainerWithName componentName containers))) (\<lambda>idx.
     go_bind (wrap_err (failed (cmd_Id (hd commands))) (process commands)) (\<lambda>handler.
     hook_loop failed process put rest
       (containers[idx := with_lifecycle (put handler) (containers ! idx)])))"

definition AddPostStartLifecycleHooks ::
  "(Command \<Rightarrow> err + CommandType) \<Rightarrow> (string \<Rightarrow> err + int) \<Rightarrow> (string \<Rightarrow> string) \<Rightarrow>
   ((string \<times> Command list) list \<Rightarrow> (string \<times> Command list) list) \<Rightarrow> DevWorkspaceTemplateSpec \<Rightarrow>
   'q Container list \<Rightarrow> string \<Rightarrow> string \<Rightarrow> 'q Container list go_result" where
  "AddPostStartLifecycleHooks Normalize seconds quote iter wksp containers postStartTimeout postStartDebugTrapSleepDuration =
     (case ts_Events wksp of None \<Rightarrow> Ok containers | Some events \<Rightarrow>
        if events_PostStart events = [] then Ok containers
        else go_bind (group_commands Normalize ''postStart'' (ts_commands wksp) (events_PostStart events) [])
          (\<lambda>componentToCommands.
        hook_loop (\<lambda>i. ''failed to process postStart event '' @ i @ '': '')
          (\<lambda>cmds. processCommandsForPostStart seconds quote cmds postStartTimeout postStartDebugTrapSleepDuration)
          (\<lambda>h l. l\<lparr>lc_PostStart := Some h\<rparr>) (iter componentToCommands) containers))"

definition AddPreStopLifecycleHooks ::
  "(Command \<Rightarrow> err + CommandType) \<Rightarrow> ((string \<times> Command list) list \<Rightarrow> (string \<times> Command list) list) \<Rightarrow>
   DevWorkspaceTemplateSpec \<Rightarrow> 'q Container list \<Rightarrow> 'q Container list go_result" where
  "AddPreStopLifecycleHooks Normalize iter wksp containers =
     (case ts_Events wksp of None \<Rightarrow> Ok containers | Some events \<Rightarrow>
        if events_PreStop events = [] then Ok containers
        else go_bind (group_commands Normalize ''preStop'' (ts_commands wksp) (events_PreStop events) [])
          (\<lambda>componentToCommands.
        hook_loop (\<lambda>i. ''failed to process preStop event '' @ sq @ i @ sq @ '': '')
          processCommandsForPreStop (\<lambda>h l. l\<lparr>lc_PreStop := Some h\<rparr>) (iter componentToCommands) containers))"

section \<open>Which components become init containers\<close>

lemma partition_loop_eq:
  "partition_loop ik mk cs =
     ([c \<leftarrow> cs. comp_Name c \<in> set ik], [c \<leftarrow> cs. comp_Name c \<notin> set ik \<or> comp_Name c \<in> set mk])"
  by (induction cs) auto

lemma setHome_mset: "mset (setHomeInitContainerToFront cs) = mset cs"
proof (cases "List.extract (\<lambda>c. comp_Name c = HomeInitComponentName) cs")
  case None
  then show ?thesis by (simp add: setHomeInitContainerToFront_def)
next
  case (Some x)
  then obtain b h a where x: "x = (b, h, a)" by (cases x)
  with Some have "cs = b @ h # a" by (simp add: extract_Some_iff)
  with Some x show ?thesis by (simp add: setHomeInitContainerToFront_def)
qed

lemma setHome_first:
  "\<exists>c \<in> set cs. comp_Name c = HomeInitComponentName \<Longrightarrow>
   setHomeInitContainerToFront cs \<noteq> [] \<and> comp_Name (hd (setHomeInitContainerToFront cs)) = HomeInitComponentName"
  by (cases "List.extract (\<lambda>c. comp_Name c = HomeInitComponentName) cs")
     (auto simp: setHomeInitContainerToFront_def extract_None_iff extract_Some_iff)

text \<open>Some command of a list is bound to a component.\<close>

definition bound_to :: "(Command \<Rightarrow> err + CommandType) \<Rightarrow> Command \<Rightarrow> string \<Rightarrow> bool" where
  "bound_to Normalize cmd k \<longleftrightarrow>
     Normalize cmd = Inr ApplyCommandType \<and> map_option ap_Component (cmd_Apply cmd) = Some k \<or>
     Normalize cmd = Inr ExecCommandType \<and> map_option ex_Component (cmd_Exec cmd) = Some k"

lemma commandListToComponentKeys_bound:
  "commandListToComponentKeys N cmds = Ok keys \<Longrightarrow> k \<in> set keys \<longleftrightarrow> (\<exists>cmd \<in> set cmds. bound_to N cmd k)"
proof (induction cmds arbitrary: keys)
  case Nil
  then show ?case by simp
next
  case (Cons cmd cmds)
  then obtain t key keys' where t: "N cmd = Inr t" and keys: "commandListToComponentKeys N cmds = Ok keys'" "keys = key @ keys'"
    and key: "(case t of ApplyCommandType \<Rightarrow> (case cmd_Apply cmd of None \<Rightarrow> Panic | Some c \<Rightarrow> Ok [ap_Component c])
              | ExecCommandType \<Rightarrow> (case cmd_Exec cmd of None \<Rightarrow> Panic | Some c \<Rightarrow> Ok [ex_Component c])
              | _ \<Rightarrow> Ok []) = Ok key"
    by (auto simp: go_bind_Ok_iff getCommandType_def)
  from key have "k \<in> set key \<longleftrightarrow> bound_to N cmd k"
    by (auto simp: bound_to_def t split: CommandType.splits option.splits)
  with Cons.IH [OF keys(1)] keys(2) show ?case by auto
qed

lemma getCommandsForKeys_ok:
  "getCommandsForKeys keys cmds = Inr res \<Longrightarrow> list_all2 (\<lambda>k r. getCommandByKey k cmds = Inr r) keys res"
  by (induction keys arbitrary: res) (auto split: sum.splits)

lemma checkPreStart_None:
  "checkPreStartEventCommandsValidity N cmds = None \<longleftrightarrow> (\<forall>c \<in> set cmds. N c = Inr ApplyCommandType)"
  by (induction cmds) (auto simp: getCommandType_def split: sum.splits CommandType.splits)

lemma GetInitContainers_Ok:
  assumes "ts_Events w = Some ev" "ts_Commands w = Some cmds" "GetInitContainers N w = Ok (inits, mains)"
  obtains initCommands ik mk where
    "list_all2 (\<lambda>k r. getCommandByKey k cmds = Inr r) (events_PreStart ev) initCommands"
    "\<forall>c \<in> set initCommands. N c = Inr ApplyCommandType"
    "commandListToComponentKeys N initCommands = Ok ik"
    "commandListToComponentKeys N (removeCommandsByKeys (events_PreStart ev) cmds) = Ok mk"
    "inits = setHomeInitContainerToFront [c \<leftarrow> ts_Components w. comp_Name c \<in> set ik]"
    "mains = [c \<leftarrow> ts_Components w. comp_Name c \<notin> set ik \<or> comp_Name c \<in> set mk]"
  using assms
  by (auto simp: GetInitContainers_def go_bind_Ok_iff partition_loop_eq Let_def checkPreStart_None
      split: option.splits dest!: getCommandsForKeys_ok)

lemma list_all2_range:
  "list_all2 (\<lambda>k r. f k = Inr r) ks rs \<Longrightarrow> (\<exists>r \<in> set rs. P r) \<longleftrightarrow> (\<exists>k \<in> set ks. \<exists>r. f k = Inr r \<and> P r)"
  by (induction ks rs rule: list_all2_induct) auto

text \<open>A preStart event, or a command outside of it, refers to a component.\<close>

definition prestart_applies :: "(Command \<Rightarrow> err + CommandType) \<Rightarrow> Events \<Rightarrow> Command list \<Rightarrow> string \<Rightarrow> bool" where
  "prestart_applies N ev cmds k \<longleftrightarrow>
     (\<exists>key \<in> set (events_PreStart ev). \<exists>cmd. getCommandByKey key cmds = Inr cmd \<and> bound_to N cmd k)"

definition other_command_uses :: "(Command \<Rightarrow> err + CommandType) \<Rightarrow> Events \<Rightarrow> Command list \<Rightarrow> string \<Rightarrow> bool" where
  "other_command_uses N ev cmds k \<longleftrightarrow>
     (\<exists>cmd \<in> set cmds. cmd_Id cmd \<notin> set (events_PreStart ev) \<and> bound_to N cmd k)"

text \<open>The components that run as init containers are exactly those a preStart command applies,
  with the persistent-home initialiser first; the components of the main deployment are all
  others and those another command of the devfile refers to, in their original order. No
  component is lost or duplicated within a list.\<close>

theorem GetInitContainers_partition:
  assumes "ts_Events w = Some ev" "ts_Commands w = Some cmds" "GetInitContainers N w = Ok (inits, mains)"
  shows "mset inits = mset [c \<leftarrow> ts_Components w. prestart_applies N ev cmds (comp_Name c)] \<and>
    mains = [c \<leftarrow> ts_Components w. \<not> prestart_applies N ev cmds (comp_Name c) \<or> other_command_uses N ev cmds (comp_Name c)] \<and>
    ((\<exists>c \<in> set inits. comp_Name c = HomeInitComponentName) \<longrightarrow> comp_Name (hd inits) = HomeInitComponentName)"
proof -
  from assms(1-3) obtain initCommands ik mk where
    r: "list_all2 (\<lambda>k r. getCommandByKey k cmds = Inr r) (events_PreStart ev) initCommands"
    and ik: "commandListToComponentKeys N initCommands = Ok ik"
    and mk: "commandListToComponentKeys N (removeCommandsByKeys (events_PreStart ev) cmds) = Ok mk"
    and inits: "inits = setHomeInitContainerToFront [c \<leftarrow> ts_Components w. comp_Name c \<in> set ik]"
    and mains: "mains = [c \<leftarrow> ts_Components w. comp_Name c \<notin> set ik \<or> comp_Name c \<in> set mk]"
    by (rule GetInitContainers_Ok)
  have i: "k \<in> set ik \<longleftrightarrow> prestart_applies N ev cmds k" for k
    unfolding commandListToComponentKeys_bound [OF ik] prestart_applies_def by (rule list_all2_range [OF r])
  have m: "k \<in> set mk \<longleftrightarrow> other_command_uses N ev cmds k" for k
    unfolding commandListToComponentKeys_bound [OF mk] other_command_uses_def
    by (auto simp: removeCommandsByKeys_def listContains_def list_ex_iff)
  have "comp_Name (hd inits) = HomeInitComponentName" if "\<exists>c \<in> set inits. comp_Name c = HomeInitComponentName"
  proof -
    have "\<exists>c \<in> set [c \<leftarrow> ts_Components w. comp_Name c \<in> set ik]. comp_Name c = HomeInitComponentName"
      using that setHome_mset [of "[c \<leftarrow> ts_Components w. comp_Name c \<in> set ik]"] unfolding inits
      by (metis mset_eq_setD)
    then show ?thesis unfolding inits using setHome_first by blast
  qed
  then show ?thesis
    by (simp add: inits setHome_mset i mains m)
qed

text \<open>A devfile whose preStart event applies the second of three components.\<close>

definition sample_normalize :: "Command \<Rightarrow> err + CommandType" where
  "sample_normalize c =
     (if cmd_Exec c \<noteq> None then Inr ExecCommandType
      else if cmd_Apply c \<noteq> None then Inr ApplyCommandType
      else if cmd_Composite c \<noteq> None then Inr CompositeCommandType else Inl ''no command type'')"

definition sample_component :: "string \<Rightarrow> DevfileComponent" where
  "sample_component nm = \<lparr>comp_Name = nm, comp_Attributes = [],
     comp_Container = Some \<lparr>cc_Image = ''quay.io/tools'', cc_Env = [], cc_VolumeMounts = [], cc_MemoryLimit = [],
       cc_MemoryRequest = [], cc_CpuLimit = [], cc_CpuRequest = [], cc_Command = None, cc_Args = None,
       cc_MountSources = None, cc_SourceMapping = [], cc_Endpoints = [], cc_DeploymentAnnotations = None\<rparr>,
     comp_Plugin = None, comp_Volume = None, comp_Kubernetes = None, comp_Openshift = None\<rparr>"

definition sample_commands :: "Command list" where
  "sample_commands =
     [\<lparr>cmd_Id = ''init'', cmd_Exec = None, cmd_Apply = Some \<lparr>ap_Component = ''tools''\<rparr>, cmd_Composite = None, cmd_Custom = None, cmd_Attributes = []\<rparr>,
      \<lparr>cmd_Id = ''greet'', cmd_Exec = Some \<lparr>ex_CommandLine = ''echo hello'', ex_Component = ''ide'', ex_WorkingDir = [], ex_Env = []\<rparr>,
       cmd_Apply = None, cmd_Composite = None, cmd_Custom = None, cmd_Attributes = []\<rparr>]"

definition sample_events :: Events where
  "sample_events = \<lparr>events_PreStart = [''init''], events_PostStart = [''greet''], events_PreStop = [''greet''], events_PostStop = []\<rparr>"

definition sample_devfile :: DevWorkspaceTemplateSpec where
  "sample_devfile = \<lparr>ts_Parent = None, ts_Attributes = [],
     ts_Components = [sample_component ''ide'', sample_component ''tools''],
     ts_Commands = Some sample_commands, ts_Events = Some sample_events,
     ts_Projects = [], ts_StarterProjects = [], ts_DependentProjects = [], ts_Variables = None\<rparr>"

lemma sample_GetInitContainers:
  "GetInitContainers sample_normalize sample_devfile = Ok ([sample_component ''tools''], [sample_component ''ide''])"
  by (simp add: GetInitContainers_def sample_devfile_def sample_events_def sample_commands_def getCommandByKey_def
      getCommandType_def sample_normalize_def removeCommandsByKeys_def listContains_def sample_component_def
      setHomeInitContainerToFront_def HomeInitComponentName_def extract_Cons_code extract_Nil_code)

theorem GetInitContainers_partition_witness:
  "mset [sample_component ''tools''] =
     mset [c \<leftarrow> ts_Components sample_devfile. prestart_applies sample_normalize sample_events sample_commands (comp_Name c)]"
  using GetInitContainers_partition [OF _ _ sample_GetInitContainers, of sample_events sample_commands]
  by (simp add: sample_devfile_def)

text \<open>A preStart event that names a command which does not exist, or whose command is not an
  apply command, is an error: nothing is silently skipped.\<close>

theorem GetInitContainers_rejects:
  assumes "ts_Events w = Some ev" "ts_Commands w = Some cmds"
    and "key \<in> set (events_PreStart ev)" "\<forall>cmd. getCommandByKey key cmds = Inr cmd \<longrightarrow> N cmd \<noteq> Inr ApplyCommandType"
  shows "\<exists>e. GetInitContainers N w = Err e"
proof (cases "getCommandsForKeys (events_PreStart ev) cmds")
  case (Inl e)
  with assms(1,2) show ?thesis by (simp add: GetInitContainers_def)
next
  case (Inr initCommands)
  then have "\<exists>r \<in> set initCommands. getCommandByKey key cmds = Inr r"
    using getCommandsForKeys_ok [OF Inr] assms(3) by (auto simp: list_all2_conv_all_nth in_set_conv_nth)
  with assms(4) have "checkPreStartEventCommandsValidity N initCommands \<noteq> None"
    by (auto simp: checkPreStart_None)
  with assms(1,2) Inr show ?thesis by (auto simp: GetInitContainers_def)
qed

theorem GetInitContainers_rejects_witness:
  "\<exists>e. GetInitContainers sample_normalize
     (sample_devfile\<lparr>ts_Events := Some (sample_events\<lparr>events_PreStart := [''greet'']\<rparr>)\<rparr>) = Err e"
  by (rule GetInitContainers_rejects [where ev = "sample_events\<lparr>events_PreStart := [''greet'']\<rparr>"
        and cmds = sample_commands and key = "''greet''"])
     (simp_all add: sample_devfile_def sample_commands_def getCommandByKey_def sample_normalize_def)

section \<open>The shell word of the user's script\<close>

text \<open>
  How a POSIX shell reads a word made of single-quoted parts and backslash escapes: inside
  quotes every character stands for itself up to the next quote.
\<close>

fun sh_word :: "bool \<Rightarrow> string \<Rightarrow> string option" where
  "sh_word False [] = Some []"
| "sh_word True [] = None"
| "sh_word True (c # cs) = (if c = CHR 0x27 then sh_word False cs else map_option ((#) c) (sh_word True cs))"
| "sh_word False (c # cs) =
     (if c = CHR 0x27 then sh_word True cs
      else if c = CHR 0x5C then (case cs of [] \<Rightarrow> None | d # ds \<Rightarrow> map_option ((#) d) (sh_word False ds)) else None)"

lemma sh_word_quoted: "sh_word True (escape_single_quotes s @ [CHR 0x27]) = Some s"
  by (induction s) (auto simp: escape_single_quotes_def)

lemma sh_word_escape: "sh_word False (sq @ escape_single_quotes s @ sq) = Some s"
  using sh_word_quoted [of s] by (simp add: sq_def)

text \<open>(C19) Whatever quotes the user's commands contain, the postStart hook with a timeout passes exactly
  the aggregated script, after \<^verbatim>\<open>set -e\<close>, as one word to the inner shell: the commands cannot
  break out of the quoting and none of their text is lost.\<close>

theorem postStart_script_quoted:
  assumes "timeout \<noteq> []" "buildUserScript quote cmds = Inr script"
  shows "\<exists>before word after.
    processCommandsForPostStart seconds quote cmds timeout debug =
      Ok (ExecHandler [''/bin/sh'', ''-c'', before @ ''/bin/sh -c '' @ word @ after]) \<and>
    sh_word False word = Some (''set -e'' @ nl @ script)"
proof -
  let ?w = "sq @ escape_single_quotes (''set -e'' @ nl @ script) @ sq"
  have "\<exists>before after. generateScriptWithTimeout seconds (escape_single_quotes (''set -e'' @ nl @ script)) timeout debug =
      before @ ''/bin/sh -c '' @ ?w @ after"
    unfolding generateScriptWithTimeout_def Let_def timeout_script_3_def timeout_script_4_def
    by (metis append.assoc)
  then obtain before after where
    g: "generateScriptWithTimeout seconds (escape_single_quotes (''set -e'' @ nl @ script)) timeout debug =
      before @ ''/bin/sh -c '' @ ?w @ after"
    by blast
  have "processCommandsForPostStart seconds quote cmds timeout debug =
      Ok (ExecHandler [''/bin/sh'', ''-c'', (redirectOutput_before @ before) @ ''/bin/sh -c '' @ ?w @ (after @ redirectOutput_after)])"
    using assms unfolding processCommandsForPostStart_def by (simp only: if_False of_sum_simps wrap_err.simps go_bind.simps Let_def g append.assoc)
  with sh_word_escape show ?thesis by blast
qed

theorem postStart_script_quoted_witness:
  "\<exists>before word after.
    processCommandsForPostStart (\<lambda>_. Inr 30) id (tl sample_commands) ''30s'' [] =
      Ok (ExecHandler [''/bin/sh'', ''-c'', before @ ''/bin/sh -c '' @ word @ after]) \<and>
    sh_word False word = Some (''set -e'' @ nl @ ''echo hello'')"
  by (rule postStart_script_quoted) (simp_all add: buildUserScript_def sample_commands_def)

section \<open>Hooks do not depend on the iteration order\<close>

lemma getContainerWithName_names:
  "map c_Name cs = map c_Name cs' \<Longrightarrow> getContainerWithName k cs = getContainerWithName k cs'"
proof -
  assume names: "map c_Name cs = map c_Name cs'"
  then have len: "length cs = length cs'" by (metis length_map)
  have "find (\<lambda>i. c_Name (cs ! i) = k) xs = find (\<lambda>i. c_Name (cs' ! i) = k) xs"
    if "\<forall>i \<in> set xs. i < length cs" for xs
    using that names len by (induction xs) (auto, (metis nth_map)+)
  then have "find (\<lambda>i. c_Name (cs ! i) = k) [0..<length cs] = find (\<lambda>i. c_Name (cs' ! i) = k) [0..<length cs]"
    by auto
  then show ?thesis by (simp add: getContainerWithName_def len)
qed

lemma getContainerWithName_Inr:
  "getContainerWithName k cs = Inr i \<Longrightarrow> i < length cs \<and> c_Name (cs ! i) = k"
  by (auto simp: getContainerWithName_def find_Some_iff split: option.splits)

lemma with_lifecycle_name [simp]: "c_Name (with_lifecycle f c) = c_Name c"
  by (simp add: with_lifecycle_def)

lemma update_names: "i < length cs \<Longrightarrow> map c_Name (cs[i := with_lifecycle f (cs ! i)]) = map c_Name cs"
  by (simp add: map_update) (metis list_update_id nth_map)

text \<open>What the hook loop does to the container at one index, without reference to an order.\<close>

definition hooked ::
  "(Command list \<Rightarrow> LifecycleHandler go_result) \<Rightarrow> (LifecycleHandler \<Rightarrow> Lifecycle \<Rightarrow> Lifecycle) \<Rightarrow>
   (string \<rightharpoonup> Command list) \<Rightarrow> 'q Container list \<Rightarrow> nat \<Rightarrow> 'q Container" where
  "hooked process put groups cs i =
     (case groups (c_Name (cs ! i)) of None \<Rightarrow> cs ! i | Some cmds \<Rightarrow>
        if getContainerWithName (c_Name (cs ! i)) cs = Inr i then
          (case process cmds of Ok h \<Rightarrow> with_lifecycle (put h) (cs ! i) | _ \<Rightarrow> cs ! i)
        else cs ! i)"

lemma hook_step:
  assumes "getContainerWithName k cs = Inr i" "process cmds = Ok h" "k \<notin> dom groups" "j < length cs"
  shows "hooked process put groups (cs[i := with_lifecycle (put h) (cs ! i)]) j =
    hooked process put (groups(k \<mapsto> cmds)) cs j"
proof -
  note i = getContainerWithName_Inr [OF assms(1)]
  have names: "getContainerWithName n (cs[i := with_lifecycle (put h) (cs ! i)]) = getContainerWithName n cs" for n
    using i by (intro getContainerWithName_names update_names) simp
  have none: "groups k = None" using assms(3) by auto
  show ?thesis
  proof (cases "j = i")
    case True
    with i none assms(1,2) show ?thesis by (simp add: hooked_def)
  next
    case False
    then have same: "cs[i := with_lifecycle (put h) (cs ! i)] ! j = cs ! j" by simp
    show ?thesis
      unfolding hooked_def names same
      using False i none assms(1) by (cases "groups (c_Name (cs ! j))") simp_all
  qed
qed

lemma hook_loop_Ok_iff:
  assumes "distinct (map fst groups)"
  shows "hook_loop failed process put groups cs = Ok cs' \<longleftrightarrow>
    (\<forall>(k, cmds) \<in> set groups. (\<exists>i. getContainerWithName k cs = Inr i) \<and> (\<exists>h. process cmds = Ok h)) \<and>
    cs' = map (hooked process put (map_of groups) cs) [0..<length cs]"
  using assms
proof (induction groups arbitrary: cs)
  case Nil
  show ?case by (auto simp: hooked_def map_nth)
next
  case (Cons g groups)
  obtain k cmds where g: "g = (k, cmds)" by (cases g)
  show ?case
  proof (cases "(\<exists>i. getContainerWithName k cs = Inr i) \<and> (\<exists>h. process cmds = Ok h)")
    case False
    then show ?thesis by (auto simp: g go_bind_Ok_iff)
  next
    case True
    then obtain i h where i: "getContainerWithName k cs = Inr i" and h: "process cmds = Ok h" by blast
    let ?cs = "cs[i := with_lifecycle (put h) (cs ! i)]"
    have "k \<notin> dom (map_of groups)"
      using Cons.prems by (simp add: g dom_map_of_conv_image_fst)
    then have maps: "map (hooked process put (map_of groups) ?cs) [0..<length ?cs] =
        map (hooked process put (map_of (g # groups)) cs) [0..<length cs]"
      using hook_step [where process = process and put = put and cs = cs and cmds = cmds, OF i h] by (simp add: g)
    have names: "getContainerWithName n ?cs = getContainerWithName n cs" for n
      using getContainerWithName_Inr [OF i] by (intro getContainerWithName_names update_names) simp
    have "hook_loop failed process put (g # groups) cs = hook_loop failed process put groups ?cs"
      using i h by (simp add: g)
    moreover have "distinct (map fst groups)" using Cons.prems by simp
    ultimately show ?thesis
      unfolding Cons.IH [OF \<open>distinct (map fst groups)\<close>, of ?cs] maps names
      by (simp only: Cons.IH maps names) (use i h in \<open>simp only: g list.set ball_simps prod.case simp_thms sum.inject go_result.inject\<close>)
  qed
qed

lemma append_at_distinct: "distinct (map fst m) \<Longrightarrow> distinct (map fst (append_at k x m))"
  by (simp add: append_at_def distinct_update)

lemma append_at_set:
  assumes "(k', xs) \<in> set (append_at k x m)"
  shows "(k', xs) \<in> set m \<or> xs = [x] \<or> (\<exists>ys. xs = ys @ [x] \<and> (k, ys) \<in> set m)"
proof -
  have update: "(k', xs) \<in> set (AList.update k v m) \<Longrightarrow> (k', xs) \<in> set m \<or> xs = v" for v
    by (induction m) (auto split: if_splits)
  show ?thesis
    using update [of "case_option [] (\<lambda>xs. xs) (map_of m k) @ [x]"] assms
    by (cases "map_of m k") (auto simp: append_at_def dest: map_of_SomeD)
qed

text \<open>Every group holds exec commands only.\<close>

definition groups_ok :: "(string \<times> Command list) list \<Rightarrow> bool" where
  "groups_ok m \<longleftrightarrow> distinct (map fst m) \<and> (\<forall>(k, cmds) \<in> set m. \<forall>c \<in> set cmds. cmd_Exec c \<noteq> None)"

lemma append_at_groups_ok: "groups_ok m \<Longrightarrow> cmd_Exec c \<noteq> None \<Longrightarrow> groups_ok (append_at k c m)"
  unfolding groups_ok_def using append_at_distinct [of m k c] append_at_set [of _ _ k c m] by (fastforce split: prod.splits)

lemma group_commands_ok:
  "group_commands N event cmds names m = Ok m' \<Longrightarrow> groups_ok m \<Longrightarrow> groups_ok m'"
proof (induction names arbitrary: m)
  case Nil
  then show ?case by simp
next
  case (Cons name names)
  from Cons.prems(1) obtain c x where "cmd_Exec c = Some x"
    "group_commands N event cmds names (append_at (ex_Component x) c m) = Ok m'"
    by (auto simp: go_bind_Ok_iff split: if_splits option.splits)
  with Cons.IH append_at_groups_ok [OF Cons.prems(2), of c "ex_Component x"] show ?case by simp
qed

text \<open>An iteration order visits every entry of the map once.\<close>

definition iteration_order :: "('a list \<Rightarrow> 'a list) \<Rightarrow> bool" where
  "iteration_order iter \<longleftrightarrow> (\<forall>m. mset (iter m) = mset m)"

lemma iteration_order_groups:
  assumes "iteration_order iter" "groups_ok m"
  shows "distinct (map fst (iter m))" "set (iter m) = set m" "map_of (iter m) = map_of m"
proof -
  have mset: "mset (iter m) = mset m" using assms(1) by (simp add: iteration_order_def)
  then show set: "set (iter m) = set m" by (rule mset_eq_setD)
  have "mset (map fst (iter m)) = mset (map fst m)" using mset by simp
  then show d: "distinct (map fst (iter m))"
    using assms(2) by (metis groups_ok_def mset_eq_imp_distinct_iff)
  show "map_of (iter m) = map_of m"
    using d assms(2) set by (intro map_of_set_eq) (simp_all add: groups_ok_def)
qed

lemma hook_loop_order:
  assumes "iteration_order iter" "groups_ok m"
  shows "hook_loop failed process put (iter m) cs = Ok cs' \<longleftrightarrow> hook_loop failed process put m cs = Ok cs'"
  using iteration_order_groups [OF assms] assms(2)
  by (simp only: hook_loop_Ok_iff groups_ok_def)

lemma groups_ok_Nil: "groups_ok []"
  by (simp add: groups_ok_def)

text \<open>Go visits the map from components to commands in no fixed order. The hooks a successful run
  puts on the containers do not depend on it, for both lifecycle events, and neither does
  whether the run succeeds: the deployment the operator builds is the same on every reconcile.\<close>

theorem hooks_deterministic:
  assumes "iteration_order iter" "iteration_order iter'"
  shows "(AddPostStartLifecycleHooks N seconds quote iter w cs timeout debug = Ok cs' \<longleftrightarrow>
          AddPostStartLifecycleHooks N seconds quote iter' w cs timeout debug = Ok cs') \<and>
    (AddPreStopLifecycleHooks N iter w cs = Ok cs' \<longleftrightarrow> AddPreStopLifecycleHooks N iter' w cs = Ok cs')"
proof -
  have *: "go_bind (group_commands N event cmds names []) (\<lambda>m. hook_loop failed process put (it m) cs) = Ok cs' \<longleftrightarrow>
      go_bind (group_commands N event cmds names []) (\<lambda>m. hook_loop failed process put m cs) = Ok cs'"
    if "iteration_order it" for it event cmds names failed process put
    using hook_loop_order [OF that] group_commands_ok [OF _ groups_ok_Nil] by (fastforce simp: go_bind_Ok_iff)
  show ?thesis
    unfolding AddPostStartLifecycleHooks_def AddPreStopLifecycleHooks_def
    by (cases "ts_Events w") (simp_all add: * [OF assms(1)] * [OF assms(2)])
qed

theorem hooks_deterministic_witness:
  "AddPreStopLifecycleHooks sample_normalize rev sample_devfile
     [(empty_container :: int Container)\<lparr>c_Name := ''ide''\<rparr>] =
   AddPreStopLifecycleHooks sample_normalize id sample_devfile [empty_container\<lparr>c_Name := ''ide''\<rparr>]"
proof -
  let ?c = "(empty_container :: int Container)\<lparr>c_Name := ''ide''\<rparr>"
  obtain cs' where "AddPreStopLifecycleHooks sample_normalize id sample_devfile [?c] = Ok cs'"
    by (simp add: AddPreStopLifecycleHooks_def sample_devfile_def sample_events_def sample_commands_def getCommandByKey_def
        getCommandType_def sample_normalize_def append_at_def getContainerWithName_def empty_container_def
        processCommandsForPreStop_def)
  then show ?thesis
    using hooks_deterministic [of rev id sample_normalize "\<lambda>_. Inl []" id sample_devfile "[?c]" "[]" "[]" cs']
    by (simp add: iteration_order_def)
qed

section \<open>No panics\<close>

text \<open>The devfile library gives a command a type only where it has the matching part.\<close>

definition normalize_sound :: "(Command \<Rightarrow> err + CommandType) \<Rightarrow> bool" where
  "normalize_sound N \<longleftrightarrow>
     (\<forall>c. (N c = Inr ExecCommandType \<longrightarrow> cmd_Exec c \<noteq> None) \<and> (N c = Inr ApplyCommandType \<longrightarrow> cmd_Apply c \<noteq> None))"

lemma commandListToComponentKeys_no_panic:
  "normalize_sound N \<Longrightarrow> commandListToComponentKeys N cmds \<noteq> Panic"
proof (induction cmds)
  case (Cons c cmds)
  then show ?case
    by (auto simp: go_bind_Panic_iff getCommandType_def normalize_sound_def split: CommandType.splits option.splits)
qed simp

lemma GetInitContainers_no_panic: "normalize_sound N \<Longrightarrow> GetInitContainers N w \<noteq> Panic"
  by (cases "ts_Events w"; cases "ts_Commands w")
     (auto simp: GetInitContainers_def go_bind_Panic_iff commandListToComponentKeys_no_panic Let_def
       split: option.splits prod.splits)

lemma plain_command_lines_no_panic:
  "\<forall>c \<in> set cmds. cmd_Exec c \<noteq> None \<Longrightarrow> plain_command_lines event cmds \<noteq> Panic"
  by (induction cmds) (auto simp: go_bind_Panic_iff split: if_splits)

lemma process_no_panic:
  assumes "\<forall>c \<in> set cmds. cmd_Exec c \<noteq> None"
  shows "processCommandsForPostStart seconds quote cmds timeout debug \<noteq> Panic" "processCommandsForPreStop cmds \<noteq> Panic"
  using plain_command_lines_no_panic [OF assms]
  by (auto simp: processCommandsForPostStart_def processCommandsWithoutTimeoutFallback_def processCommandsForPreStop_def
      go_bind_Panic_iff Let_def)

lemma group_commands_no_panic: "normalize_sound N \<Longrightarrow> group_commands N event cmds names m \<noteq> Panic"
proof (induction names arbitrary: m)
  case (Cons name names)
  then show ?case
    by (auto simp: go_bind_Panic_iff getCommandType_def normalize_sound_def split: option.splits)
qed simp

lemma hook_loop_no_panic:
  "\<forall>(k, cmds) \<in> set groups. process cmds \<noteq> Panic \<Longrightarrow> hook_loop failed process put groups cs \<noteq> Panic"
  by (induction groups arbitrary: cs) (auto simp: go_bind_Panic_iff)

lemma hooks_no_panic:
  assumes "normalize_sound N" "iteration_order iter"
  shows "AddPostStartLifecycleHooks N seconds quote iter w cs timeout debug \<noteq> Panic"
    and "AddPreStopLifecycleHooks N iter w cs \<noteq> Panic"
proof -
  have *: "go_bind (group_commands N event cmds names []) (\<lambda>m. hook_loop failed process put (iter m) cs) \<noteq> Panic"
    if p: "\<And>cmds. \<forall>c \<in> set cmds. cmd_Exec c \<noteq> None \<Longrightarrow> process cmds \<noteq> Panic" for event cmds names failed process put
  proof -
    have "hook_loop failed process put (iter m) cs \<noteq> Panic" if "group_commands N event cmds names [] = Ok m" for m
    proof -
      have ok: "groups_ok m" by (rule group_commands_ok [OF that groups_ok_Nil])
      then have "\<forall>(k, cmds) \<in> set (iter m). process cmds \<noteq> Panic"
        using p iteration_order_groups(2) [OF assms(2) ok] by (fastforce simp: groups_ok_def)
      then show ?thesis by (rule hook_loop_no_panic)
    qed
    then show ?thesis using group_commands_no_panic [OF assms(1)] by (auto simp: go_bind_Panic_iff)
  qed
  show "AddPostStartLifecycleHooks N seconds quote iter w cs timeout debug \<noteq> Panic"
    unfolding AddPostStartLifecycleHooks_def
    by (cases "ts_Events w") (auto intro!: * process_no_panic)
  show "AddPreStopLifecycleHooks N iter w cs \<noteq> Panic"
    unfolding AddPreStopLifecycleHooks_def
    by (cases "ts_Events w") (auto intro!: * process_no_panic)
qed

end
