(* ===== verification/Containers.thy ===== *)
theory Containers
  imports Overrides Resources Lifecycle Naming
begin

text \<open>
  \<^verbatim>\<open>src/pkg/library/container\<close> and \<^verbatim>\<open>src/pkg/library/projects/clone.go\<close>: the containers
  of a workspace pod, built from the components of its devfile. What belongs to other modules is
  collected in one record of parameters: the devfile library, the JSON layer, quantities,
  durations and the iteration order of maps.
\<close>

record 'q library =
  lib_Normalize :: "Command \<Rightarrow> err + CommandType"
  lib_seconds :: "string \<Rightarrow> err + int"
  lib_quote :: "string \<Rightarrow> string"
  lib_iter :: "(string \<times> Command list) list \<Rightarrow> (string \<times> Command list) list"
  lib_getString :: "attributes \<Rightarrow> string \<Rightarrow> err + string"
  lib_parse :: "string \<Rightarrow> err + 'q"
  lib_qstring :: "'q \<Rightarrow> string"
  lib_json :: "'q override_json"

definition of_option :: "'a option \<Rightarrow> 'a go_result" where
  "of_option x = (case x of None \<Rightarrow> Panic | Some y \<Rightarrow> Ok y)"

definition check_err :: "err option \<Rightarrow> unit go_result" where
  "check_err x = (case x of None \<Rightarrow> Ok () | Some e \<Rightarrow> Err e)"

section \<open>Paths\<close>

text \<open>\<^verbatim>\<open>path.Clean\<close> and \<^verbatim>\<open>path.Join\<close> of the standard library.\<close>

fun split_char :: "char \<Rightarrow> string \<Rightarrow> string list" where
  "split_char c [] = [[]]"
| "split_char c (x # xs) =
     (if x = c then [] # split_char c xs
      else case split_char c xs of [] \<Rightarrow> [[x]] | p # ps \<Rightarrow> (x # p) # ps)"

fun clean_parts :: "bool \<Rightarrow> string list \<Rightarrow> string list \<Rightarrow> string list" where
  "clean_parts rooted [] acc = rev acc"
| "clean_parts rooted (p # ps) acc =
     (if p = [] \<or> p = ''.'' then clean_parts rooted ps acc
      else if p = ''..'' then
        (case acc of
           a # as \<Rightarrow> if a = ''..'' then clean_parts rooted ps (p # acc) else clean_parts rooted ps as
         | [] \<Rightarrow> clean_parts rooted ps (if rooted then [] else [p]))
      else clean_parts rooted ps (p # acc))"

definition path_Clean :: "string \<Rightarrow> string" where
  "path_Clean s =
     (if s = [] then ''.''
      else let rooted = (hd s = CHR ''/''); parts = clean_parts rooted (split_char (CHR ''/'') s) [] in
        if rooted then ''/'' @ strings_join ''/'' parts
        else if parts = [] then ''.'' else strings_join ''/'' parts)"

definition path_Join :: "string list \<Rightarrow> string" where
  "path_Join elems =
     (let nonempty = [e \<leftarrow> elems. e \<noteq> []] in
      if nonempty = [] then [] else path_Clean (strings_join ''/'' nonempty))"

section \<open>Projects\<close>

definition StarterProjectAttribute :: string where
  "StarterProjectAttribute = ''controller.devfile.io/use-starter-project''"

definition ProjectCloneAttribute :: string where
  "ProjectCloneAttribute = ''controller.devfile.io/project-clone''"

definition ProjectsVolumeName :: string where "ProjectsVolumeName = ''projects''"
definition DefaultProjectsSourcesRoot :: string where "DefaultProjectsSourcesRoot = ''/projects''"

definition GetClonePath :: "Project \<Rightarrow> string" where
  "GetClonePath project = (if prj_ClonePath project \<noteq> [] then prj_ClonePath project else prj_Name project)"

definition GetStarterProject :: "'q library \<Rightarrow> DevWorkspaceTemplateSpec \<Rightarrow> err + StarterProject option" where
  "GetStarterProject L workspace =
     (if \<not> attr_exists (ts_Attributes workspace) StarterProjectAttribute then Inr None
      else case lib_getString L (ts_Attributes workspace) StarterProjectAttribute of
        Inl e \<Rightarrow> Inl (''failed to read '' @ StarterProjectAttribute @ '' attribute on workspace: '' @ e)
      | Inr selectedStarterProject \<Rightarrow>
          (case find (\<lambda>p. sp_Name p = selectedStarterProject) (ts_StarterProjects workspace) of
             Some p \<Rightarrow> Inr (Some p)
           | None \<Rightarrow> Inl (''selected starter project '' @ selectedStarterProject @
                          '' not found in workspace starterProjects'')))"

text \<open>
  The two maps of \<^verbatim>\<open>ValidateAllProjects\<close>, from names and from clone paths to the places they are
  used in, and the search for a key used twice; \<open>iter\<close> is the iteration order of a map.
\<close>

definition project_names :: "DevWorkspaceTemplateSpec \<Rightarrow> StarterProject option \<Rightarrow> (string \<times> string list) list" where
  "project_names workspace starter =
     fold (\<lambda>(k, x). append_at k x)
       (map (\<lambda>p. (prj_Name p, ''projects'')) (ts_Projects workspace) @
        map (\<lambda>p. (prj_Name p, ''dependentProjects'')) (ts_DependentProjects workspace) @
        (case starter of None \<Rightarrow> [] | Some p \<Rightarrow> [(sp_Name p, ''starterProjects'')])) []"

definition project_clone_paths :: "DevWorkspaceTemplateSpec \<Rightarrow> StarterProject option \<Rightarrow> (string \<times> string list) list" where
  "project_clone_paths workspace starter =
     fold (\<lambda>(k, x). append_at k x)
       (map (\<lambda>p. (GetClonePath p, ''project '' @ prj_Name p)) (ts_Projects workspace) @
        map (\<lambda>p. (GetClonePath p, ''dependentProject '' @ prj_Name p)) (ts_DependentProjects workspace) @
        (case starter of None \<Rightarrow> [] | Some p \<Rightarrow> [(sp_Name p, ''starterProject '' @ sp_Name p)])) []"

definition ValidateAllProjects ::
  "'q library \<Rightarrow> ((string \<times> string list) list \<Rightarrow> (string \<times> string list) list) \<Rightarrow> DevWorkspaceTemplateSpec \<Rightarrow> err option" where
  "ValidateAllProjects L iter workspace =
     (case GetStarterProject L workspace of
        Inl e \<Rightarrow> Some e
      | Inr starterProject \<Rightarrow>
          (case first_err (\<lambda>(projectName, projectTypes).
             if length projectTypes > 1
             then Some (''found multiple projects with the same name '' @ sq @ projectName @ sq @ '' in: '' @
                        strings_join '', '' projectTypes)
             else None) (iter (project_names workspace starterProject)) of
             Some e \<Rightarrow> Some e
           | None \<Rightarrow>
               first_err (\<lambda>(clonePath, projects).
                 if length projects > 1
                 then Some (''found multiple projects with the same clone path ('' @ clonePath @ ''): '' @
                            strings_join '', '' projects)
                 else None) (iter (project_clone_paths workspace starterProject))))"

definition hasContainerComponents :: "DevWorkspaceTemplateSpec \<Rightarrow> bool" where
  "hasContainerComponents workspace = list_ex (\<lambda>component. comp_Container component \<noteq> None) (ts_Components workspace)"

record 'q clone_options =
  opt_Image :: string
  opt_PullPolicy :: string
  opt_Resources :: "'q ResourceRequirements"
  opt_Env :: "EnvVar list option"

text \<open>\<open>defaultImage\<close> is \<^verbatim>\<open>images.GetProjectCloneImage\<close>, which reads the operator's environment.\<close>

definition GetProjectCloneInitContainer ::
  "'q::linordered_ab_group_add library \<Rightarrow> string \<Rightarrow> DevWorkspaceTemplateSpec \<Rightarrow> 'q clone_options \<Rightarrow> err + 'q Container option" where
  "GetProjectCloneInitContainer L defaultImage workspace options =
     (case GetStarterProject L workspace of
        Inl e \<Rightarrow> Inl e
      | Inr starterProject \<Rightarrow>
          if ts_Projects workspace = [] \<and> ts_DependentProjects workspace = [] \<and> starterProject = None then Inr None
          else if lib_getString L (ts_Attributes workspace) ProjectCloneAttribute = Inr ''disable'' then Inr None
          else if \<not> hasContainerComponents workspace then Inr None
          else
            let cloneImage = (if opt_Image options \<noteq> [] then opt_Image options else defaultImage) in
            if cloneImage = [] then Inr None
            else
              let resources = FilterResources (opt_Resources options) in
              case ValidateResources (lib_qstring L) resources of
                Some e \<Rightarrow> Inl (''invalid resources for project clone container: '' @ e)
              | None \<Rightarrow> Inr (Some (empty_container\<lparr>
                  c_Name := ''project-clone'', c_Image := cloneImage, c_Env := opt_Env options,
                  c_Resources := resources,
                  c_VolumeMounts := [\<lparr>vm_Name = ProjectsVolumeName, vm_ReadOnly = False, vm_RecursiveReadOnly = None,
                    vm_MountPath = DefaultProjectsSourcesRoot, vm_SubPath = [], vm_MountPropagation = None, vm_SubPathExpr = []\<rparr>],
                  c_ImagePullPolicy := opt_PullPolicy options\<rparr>)))"

section \<open>Conversion\<close>

definition int32 :: "int \<Rightarrow> int" where
  "int32 n = (n + 2 ^ 31) mod 2 ^ 32 - 2 ^ 31"

fun ports_loop :: "Endpoint list \<Rightarrow> int list \<Rightarrow> ContainerPort list" where
  "ports_loop [] exposedPorts = []"
| "ports_loop (endpoint # rest) exposedPorts =
     (if ep_TargetPort endpoint \<in> set exposedPorts then ports_loop rest exposedPorts
      else \<lparr>cp_Name = PortName endpoint, cp_ContainerPort = int32 (ep_TargetPort endpoint), cp_Protocol = ''TCP''\<rparr>
           # ports_loop rest (ep_TargetPort endpoint # exposedPorts))"

definition devfileEndpointsToContainerPorts :: "Endpoint list \<Rightarrow> ContainerPort list option" where
  "devfileEndpointsToContainerPorts endpoints =
     (let containerPorts = ports_loop endpoints [] in if containerPorts = [] then None else Some containerPorts)"

definition plain_mount :: "string \<Rightarrow> string \<Rightarrow> VolumeMount" where
  "plain_mount nm path = \<lparr>vm_Name = nm, vm_ReadOnly = False, vm_RecursiveReadOnly = None, vm_MountPath = path,
     vm_SubPath = [], vm_MountPropagation = None, vm_SubPathExpr = []\<rparr>"

definition devfileVolumeMountsToContainerVolumeMounts :: "DwVolumeMount list \<Rightarrow> VolumeMount list" where
  "devfileVolumeMountsToContainerVolumeMounts devfileVolumeMounts =
     map (\<lambda>vm. plain_mount (dvm_Name vm) (if dvm_Path vm = [] then ''/'' @ dvm_Name vm else dvm_Path vm)) devfileVolumeMounts"

definition plain_env :: "string \<Rightarrow> string \<Rightarrow> EnvVar" where
  "plain_env nm v = \<lparr>ev_Name = nm, ev_Value = v, ev_ValueFrom = None\<rparr>"

definition devfileEnvToContainerEnv :: "string \<Rightarrow> DwEnvVar list \<Rightarrow> EnvVar list" where
  "devfileEnvToContainerEnv componentName devfileEnvVars =
     plain_env ''DEVWORKSPACE_COMPONENT_NAME'' componentName #
     map (\<lambda>devfileEnv. plain_env (dev_Name devfileEnv) (dev_Value devfileEnv)) devfileEnvVars"

definition convertContainerToK8s ::
  "'q::linordered_ab_group_add library \<Rightarrow> DevfileComponent \<Rightarrow> SecurityContext option \<Rightarrow> string \<Rightarrow>
   'q ResourceRequirements option \<Rightarrow> 'q Container go_result" where
  "convertContainerToK8s L devfileComponent securityContext pullPolicy defaultResources =
     (case comp_Container devfileComponent of
        None \<Rightarrow> Err ''cannot get k8s container from non-container component''
      | Some devfileContainer \<Rightarrow>
          go_bind (wrap_err (''failed to get resources for container '' @ comp_Name devfileComponent @ '': '')
                     (of_sum (ParseResourcesFromComponent (lib_parse L) devfileComponent))) (\<lambda>parsed.
          go_bind (of_option (ApplyDefaults parsed defaultResources)) (\<lambda>containerResources.
          go_bind (wrap_err (''container resources are invalid for component '' @ comp_Name devfileComponent @ '': '')
                     (check_err (ValidateResources (lib_qstring L) containerResources))) (\<lambda>_.
          Ok (empty_container\<lparr>
            c_Name := comp_Name devfileComponent,
            c_Image := cc_Image devfileContainer,
            c_Command := cc_Command devfileContainer,
            c_Args := cc_Args devfileContainer,
            c_Resources := containerResources,
            c_Ports := devfileEndpointsToContainerPorts (cc_Endpoints devfileContainer),
            c_Env := Some (devfileEnvToContainerEnv (comp_Name devfileComponent) (cc_Env devfileContainer)),
            c_VolumeMounts := devfileVolumeMountsToContainerVolumeMounts (cc_VolumeMounts devfileContainer),
            c_ImagePullPolicy := pullPolicy,
            c_SecurityContext := securityContext\<rparr>)))))"

section \<open>Project sources\<close>

definition HasMountSources :: "ContainerComponent \<Rightarrow> bool" where
  "HasMountSources devfileContainer = (case cc_MountSources devfileContainer of None \<Rightarrow> True | Some b \<Rightarrow> b)"

definition AnyMountSources :: "DevfileComponent list \<Rightarrow> bool" where
  "AnyMountSources devfileComponents =
     list_ex (\<lambda>component. case comp_Container component of None \<Rightarrow> False | Some c \<Rightarrow> HasMountSources c) devfileComponents"

definition getProjectsVolumeMount :: "'q Container \<Rightarrow> VolumeMount option" where
  "getProjectsVolumeMount k8sContainer = find (\<lambda>vm. vm_Name vm = ProjectsVolumeName) (c_VolumeMounts k8sContainer)"

definition getProjectSourcePath :: "'q library \<Rightarrow> DevWorkspaceTemplateSpec \<Rightarrow> err + string" where
  "getProjectSourcePath L workspace =
     (case ts_Projects workspace of
        p # _ \<Rightarrow> Inr (GetClonePath p)
      | [] \<Rightarrow>
          (case GetStarterProject L workspace of
             Inl e \<Rightarrow> Inl e
           | Inr (Some selectedStarterProject) \<Rightarrow> Inr (sp_Name selectedStarterProject)
           | Inr None \<Rightarrow>
               (case ts_DependentProjects workspace of p # _ \<Rightarrow> Inr (GetClonePath p) | [] \<Rightarrow> Inr [])))"

definition handleMountSources ::
  "'q library \<Rightarrow> 'q Container \<Rightarrow> ContainerComponent \<Rightarrow> DevWorkspaceTemplateSpec \<Rightarrow> err + 'q Container" where
  "handleMountSources L k8sContainer devfileContainer workspace =
     (if \<not> HasMountSources devfileContainer then Inr k8sContainer
      else
        let (sourceMapping, k8sContainer) =
              (case getProjectsVolumeMount k8sContainer of
                 Some vm \<Rightarrow> (vm_MountPath vm, k8sContainer)
               | None \<Rightarrow>
                   let sourceMapping = (if cc_SourceMapping devfileContainer = [] then DefaultProjectsSourcesRoot
                                        else cc_SourceMapping devfileContainer)
                   in (sourceMapping,
                       k8sContainer\<lparr>c_VolumeMounts := c_VolumeMounts k8sContainer @ [plain_mount ProjectsVolumeName sourceMapping]\<rparr>))
        in case getProjectSourcePath L workspace of
             Inl e \<Rightarrow> Inl e
           | Inr projectsSourcePath \<Rightarrow>
               Inr (k8sContainer\<lparr>c_Env := Some (
                 [plain_env ''PROJECTS_ROOT'' sourceMapping,
                  plain_env ''PROJECT_SOURCE'' (path_Join [sourceMapping, projectsSourcePath])] @
                 case_option [] (\<lambda>es. es) (c_Env k8sContainer))\<rparr>))"

section \<open>The containers of a workspace\<close>

definition DevWorkspaceIsFlattened :: "DevWorkspaceTemplateSpec option \<Rightarrow> 'c list \<Rightarrow> bool" where
  "DevWorkspaceIsFlattened devworkspace contributions =
     (case devworkspace of None \<Rightarrow> contributions = []
      | Some w \<Rightarrow> ts_Parent w = None \<and> contributions = [] \<and>
          list_all (\<lambda>component. comp_Plugin component = None) (ts_Components w))"

text \<open>The part of both loops that is the same: convert, mount the sources, apply the overrides.\<close>

definition build_container ::
  "'q::linordered_ab_group_add library \<Rightarrow> DevWorkspaceTemplateSpec \<Rightarrow> SecurityContext option \<Rightarrow> string \<Rightarrow>
   'q ResourceRequirements option \<Rightarrow> string list \<Rightarrow> DevfileComponent \<Rightarrow> 'q Container go_result" where
  "build_container L workspace securityContext pullPolicy defaultResources restrictedFields component =
     go_bind (convertContainerToK8s L component securityContext pullPolicy defaultResources) (\<lambda>k8sContainer.
     case comp_Container component of None \<Rightarrow> Panic | Some devfileContainer \<Rightarrow>
     go_bind (of_sum (handleMountSources L k8sContainer devfileContainer workspace)) (\<lambda>k8sContainer.
     if NeedsContainerOverride component
     then of_sum (ApplyContainerOverrides (lib_json L) component k8sContainer restrictedFields)
     else Ok k8sContainer))"

definition build_main_container ::
  "'q::linordered_ab_group_add library \<Rightarrow> DevWorkspaceTemplateSpec \<Rightarrow> SecurityContext option \<Rightarrow> string \<Rightarrow>
   'q ResourceRequirements option \<Rightarrow> 'q ResourceRequirements option \<Rightarrow> string list \<Rightarrow> DevfileComponent \<Rightarrow>
   'q Container go_result" where
  "build_main_container L workspace securityContext pullPolicy defaultResources resourceCaps restrictedFields component =
     go_bind (build_container L workspace securityContext pullPolicy defaultResources restrictedFields component)
       (\<lambda>k8sContainer.
     go_bind (of_option (ApplyCaps (c_Resources k8sContainer) resourceCaps)) (\<lambda>resources.
     go_bind (wrap_err (''container resources are invalid for component '' @ comp_Name component @ '': '')
                (check_err (ValidateResources (lib_qstring L) resources))) (\<lambda>_.
     Ok (k8sContainer\<lparr>c_Resources := resources\<rparr>))))"

abbreviation container_additions :: "'q Container list \<Rightarrow> 'q Container list \<Rightarrow> 'q PodAdditions" where
  "container_additions cs ics \<equiv> empty_pod_additions\<lparr>pa_Containers := cs, pa_InitContainers := ics\<rparr>"

definition GetKubeContainersFromDevfile ::
  "'q::linordered_ab_group_add library \<Rightarrow> DevWorkspaceTemplateSpec \<Rightarrow> SecurityContext option \<Rightarrow> string \<Rightarrow>
   'q ResourceRequirements option \<Rightarrow> 'q ResourceRequirements option \<Rightarrow> string \<Rightarrow> string list \<Rightarrow> string \<Rightarrow>
   'q PodAdditions go_result" where
  "GetKubeContainersFromDevfile L workspace securityContext pullPolicy defaultResources resourceCaps postStartTimeout
       restrictedFields postStartDebugTrapSleepDuration =
     (if \<not> DevWorkspaceIsFlattened (Some workspace) ([] :: unit list) then Err ''devfile is not flattened''
      else
        go_bind (GetInitContainers (lib_Normalize L) workspace) (\<lambda>(initComponents, mainComponents).
        go_bind (go_all (build_main_container L workspace securityContext pullPolicy defaultResources resourceCaps restrictedFields)
                   [component \<leftarrow> mainComponents. comp_Container component \<noteq> None]) (\<lambda>containers.
        go_bind (AddPostStartLifecycleHooks (lib_Normalize L) (lib_seconds L) (lib_quote L) (lib_iter L) workspace
                   containers postStartTimeout postStartDebugTrapSleepDuration) (\<lambda>containers.
        go_bind (AddPreStopLifecycleHooks (lib_Normalize L) (lib_iter L) workspace containers) (\<lambda>containers.
        go_bind (go_all (build_container L workspace securityContext pullPolicy defaultResources restrictedFields)
                   initComponents) (\<lambda>initContainers.
        Ok (container_additions containers initContainers)))))))"

section \<open>Properties of single containers\<close>

lemma check_err_Ok [simp]: "check_err x = Ok u \<longleftrightarrow> x = None" "check_err x \<noteq> Panic"
  by (cases x; simp add: check_err_def)+

lemma of_option_iff [simp]: "of_option x = Ok y \<longleftrightarrow> x = Some y" "of_option x = Panic \<longleftrightarrow> x = None"
  by (cases x; simp add: of_option_def)+

lemma convertContainerToK8s_Ok:
  assumes "convertContainerToK8s L component sc pp defaults = Ok c"
  obtains cc where "comp_Container component = Some cc" "c_Name c = comp_Name component" "c_Image c = cc_Image cc"
  using assms
  by (cases "comp_Container component") (auto simp: convertContainerToK8s_def go_bind_Ok_iff)

lemma handleMountSources_Inr:
  "handleMountSources L c cc w = Inr c' \<Longrightarrow> c_Name c' = c_Name c \<and> c_Image c' = c_Image c"
  by (auto simp: handleMountSources_def Let_def split: if_splits option.splits sum.splits)

lemma build_container_Ok:
  assumes "build_container L w sc pp defaults fs component = Ok c"
  shows "c_Name c = comp_Name component \<and> map_option cc_Image (comp_Container component) = Some (c_Image c) \<and>
    (NeedsContainerOverride component \<longrightarrow>
       (\<exists>ovr. getIntoContainer (lib_json L) (comp_Attributes component) ContainerOverridesAttribute = Inr ovr \<and>
          restrictContainerOverride ovr fs = None))"
proof -
  obtain c1 cc c2 where c1: "convertContainerToK8s L component sc pp defaults = Ok c1"
    and cc: "comp_Container component = Some cc" and c2: "handleMountSources L c1 cc w = Inr c2"
    and c: "(if NeedsContainerOverride component then of_sum (ApplyContainerOverrides (lib_json L) component c2 fs) else Ok c2) = Ok c"
    using assms by (auto simp: build_container_def go_bind_Ok_iff split: option.splits)
  have "c_Name c2 = comp_Name component \<and> c_Image c2 = cc_Image cc"
    using handleMountSources_Inr [OF c2] c1 cc by (metis convertContainerToK8s_Ok option.inject)
  then show ?thesis
    using c cc ApplyContainerOverrides_Inr [of "lib_json L" component c2 fs c] by (auto split: if_splits)
qed

lemma build_main_container_Ok:
  assumes "build_main_container L w sc pp defaults caps fs component = Ok c"
  obtains c0 where "build_container L w sc pp defaults fs component = Ok c0"
    "ApplyCaps (c_Resources c0) caps = Some (c_Resources c)"
    "ValidateResources (lib_qstring L) (c_Resources c) = None"
    "c_Name c = c_Name c0" "c_Image c = c_Image c0"
  using assms by (auto simp: build_main_container_def go_bind_Ok_iff)

lemma no_lifecycle_fields:
  assumes "c\<lparr>c_Lifecycle := None\<rparr> = c'\<lparr>c_Lifecycle := None\<rparr>"
  shows "c_Name c = c_Name c' \<and> c_Image c = c_Image c' \<and> c_Resources c = c_Resources c'"
  using arg_cong [OF assms, of c_Name] arg_cong [OF assms, of c_Image] arg_cong [OF assms, of c_Resources] by simp

lemma hook_loop_frame:
  "hook_loop failed process put groups cs = Ok cs' \<Longrightarrow>
   map (\<lambda>c. c\<lparr>c_Lifecycle := None\<rparr>) cs' = map (\<lambda>c. c\<lparr>c_Lifecycle := None\<rparr>) cs"
proof (induction groups arbitrary: cs)
  case Nil
  then show ?case by simp
next
  case (Cons g groups)
  obtain k cmds where g: "g = (k, cmds)" by (cases g)
  with Cons.prems obtain i h where i: "getContainerWithName k cs = Inr i"
    and loop: "hook_loop failed process put groups (cs[i := with_lifecycle (put h) (cs ! i)]) = Ok cs'"
    by (auto simp: go_bind_Ok_iff)
  have "(with_lifecycle f c)\<lparr>c_Lifecycle := None\<rparr> = c\<lparr>c_Lifecycle := None\<rparr>" for f and c :: "'a Container"
    by (simp add: with_lifecycle_def)
  then have "map (\<lambda>c. c\<lparr>c_Lifecycle := None\<rparr>) (cs[i := with_lifecycle (put h) (cs ! i)]) = map (\<lambda>c. c\<lparr>c_Lifecycle := None\<rparr>) cs"
    using getContainerWithName_Inr [OF i] by (simp add: map_update) (metis list_update_id nth_map)
  with Cons.IH [OF loop] show ?case by simp
qed

lemma hooks_frame:
  "AddPostStartLifecycleHooks N seconds quote iter w cs timeout debug = Ok cs' \<Longrightarrow>
     map (\<lambda>c. c\<lparr>c_Lifecycle := None\<rparr>) cs' = map (\<lambda>c. c\<lparr>c_Lifecycle := None\<rparr>) cs"
  "AddPreStopLifecycleHooks N iter w cs = Ok cs' \<Longrightarrow>
     map (\<lambda>c. c\<lparr>c_Lifecycle := None\<rparr>) cs' = map (\<lambda>c. c\<lparr>c_Lifecycle := None\<rparr>) cs"
  unfolding AddPostStartLifecycleHooks_def AddPreStopLifecycleHooks_def
  by (auto simp: go_bind_Ok_iff split: option.splits if_splits dest: hook_loop_frame)

section \<open>Properties of the pod\<close>

text \<open>A successful run, cut into its phases.\<close>

lemma GetKube_Ok:
  assumes "GetKubeContainersFromDevfile L w sc pp defaults caps timeout fs debug = Ok pa"
  obtains inits mains built where
    "GetInitContainers (lib_Normalize L) w = Ok (inits, mains)"
    "list_all2 (\<lambda>component c. build_main_container L w sc pp defaults caps fs component = Ok c)
       [component \<leftarrow> mains. comp_Container component \<noteq> None] built"
    "map (\<lambda>c. c\<lparr>c_Lifecycle := None\<rparr>) (pa_Containers pa) = map (\<lambda>c. c\<lparr>c_Lifecycle := None\<rparr>) built"
    "list_all2 (\<lambda>component c. build_container L w sc pp defaults fs component = Ok c) inits (pa_InitContainers pa)"
proof -
  from assms obtain inits mains built cs1 cs2 ics where
    r: "GetInitContainers (lib_Normalize L) w = Ok (inits, mains)"
      "go_all (build_main_container L w sc pp defaults caps fs) [component \<leftarrow> mains. comp_Container component \<noteq> None] = Ok built"
      "AddPostStartLifecycleHooks (lib_Normalize L) (lib_seconds L) (lib_quote L) (lib_iter L) w built timeout debug = Ok cs1"
      "AddPreStopLifecycleHooks (lib_Normalize L) (lib_iter L) w cs1 = Ok cs2"
      "go_all (build_container L w sc pp defaults fs) inits = Ok ics"
      "pa = (container_additions cs2 ics)"
    by (auto simp: GetKubeContainersFromDevfile_def go_bind_Ok_iff split: if_splits)
  then show thesis
    using hooks_frame(1) [OF r(3)] hooks_frame(2) [OF r(4)]
    by (intro that [of inits mains built]) (simp_all add: go_all_Ok_iff)
qed

lemma list_all2_frame:
  assumes "list_all2 P xs built" "map (\<lambda>c. c\<lparr>c_Lifecycle := None\<rparr>) cs = map (\<lambda>c. c\<lparr>c_Lifecycle := None\<rparr>) built"
    and "\<And>x c c'. P x c \<Longrightarrow> c_Name c' = c_Name c \<and> c_Image c' = c_Image c \<and> c_Resources c' = c_Resources c \<Longrightarrow> Q x c'"
  shows "list_all2 Q xs cs"
proof -
  have "length cs = length built" using assms(2) by (metis length_map)
  moreover have "c_Name (cs ! i) = c_Name (built ! i) \<and> c_Image (cs ! i) = c_Image (built ! i) \<and>
      c_Resources (cs ! i) = c_Resources (built ! i)" if "i < length cs" for i
    using that assms(2) \<open>length cs = length built\<close> by (intro no_lifecycle_fields) (metis nth_map)
  ultimately show ?thesis
    using assms(1,3) by (auto simp: list_all2_conv_all_nth)
qed

lemma list_all2_ignore: "list_all2 (\<lambda>_. Q) xs ys \<Longrightarrow> y \<in> set ys \<Longrightarrow> Q y"
  by (induction xs ys rule: list_all2_induct) auto

text \<open>What the pipeline promises of the container built from one component.\<close>

definition container_of ::
  "'q library \<Rightarrow> string list \<Rightarrow> DevfileComponent \<Rightarrow> 'q Container \<Rightarrow> bool" where
  "container_of L fs component c \<longleftrightarrow>
     c_Name c = comp_Name component \<and> map_option cc_Image (comp_Container component) = Some (c_Image c) \<and>
     (NeedsContainerOverride component \<longrightarrow>
        (\<exists>ovr. getIntoContainer (lib_json L) (comp_Attributes component) ContainerOverridesAttribute = Inr ovr \<and>
           restrictContainerOverride ovr fs = None))"

text \<open>The pod of a workspace has one container for every container component of the main
  deployment and one init container for every component a preStart command applies, in order,
  each with the name and the image of its component whatever the overrides and hooks do; and no
  component takes part whose container overrides the restricted fields reject.\<close>

theorem GetKubeContainers_components:
  assumes "GetKubeContainersFromDevfile L w sc pp defaults caps timeout fs debug = Ok pa"
  shows "\<exists>inits mains. GetInitContainers (lib_Normalize L) w = Ok (inits, mains) \<and>
    list_all2 (container_of L fs) [component \<leftarrow> mains. comp_Container component \<noteq> None] (pa_Containers pa) \<and>
    list_all2 (container_of L fs) inits (pa_InitContainers pa)"
  using assms
proof (rule GetKube_Ok)
  fix inits mains built
  assume i: "GetInitContainers (lib_Normalize L) w = Ok (inits, mains)"
    and built: "list_all2 (\<lambda>component c. build_main_container L w sc pp defaults caps fs component = Ok c)
       [component \<leftarrow> mains. comp_Container component \<noteq> None] built"
    and frame: "map (\<lambda>c. c\<lparr>c_Lifecycle := None\<rparr>) (pa_Containers pa) = map (\<lambda>c. c\<lparr>c_Lifecycle := None\<rparr>) built"
    and ics: "list_all2 (\<lambda>component c. build_container L w sc pp defaults fs component = Ok c) inits (pa_InitContainers pa)"
  have "container_of L fs component c'"
    if b: "build_main_container L w sc pp defaults caps fs component = Ok c"
      and s: "c_Name c' = c_Name c \<and> c_Image c' = c_Image c \<and> c_Resources c' = c_Resources c" for component c c'
    using b
  proof (rule build_main_container_Ok)
    fix c0
    assume "build_container L w sc pp defaults fs component = Ok c0" "c_Name c = c_Name c0" "c_Image c = c_Image c0"
    with build_container_Ok [of L w sc pp defaults fs component c0] s show ?thesis
      by (simp add: container_of_def)
  qed
  then have "list_all2 (container_of L fs) [component \<leftarrow> mains. comp_Container component \<noteq> None] (pa_Containers pa)"
    by (rule list_all2_frame [OF built frame])
  moreover have "list_all2 (container_of L fs) inits (pa_InitContainers pa)"
    using ics by (rule list_all2_mono) (simp add: container_of_def build_container_Ok)
  ultimately show ?thesis using i by blast
qed

text \<open>Every container of the main deployment has valid resources, requests within limits for memory and
  CPU, and no limit or request above a non-zero cap, also where a container override asked for
  more: the caps are applied after the overrides.\<close>

theorem GetKubeContainers_resources:
  assumes "GetKubeContainersFromDevfile L w sc pp defaults (Some caps) timeout fs debug = Ok pa"
    and "resources_ok caps" "c \<in> set (pa_Containers pa)"
  shows "ValidateResources (lib_qstring L) (c_Resources c) = None \<and>
    (\<forall>k cap x. go_get (rr_Limits caps) k = Some cap \<longrightarrow> cap \<noteq> 0 \<longrightarrow> go_get (rr_Limits (c_Resources c)) k = Some x \<longrightarrow> x \<le> cap) \<and>
    (\<forall>k cap x. go_get (rr_Requests caps) k = Some cap \<longrightarrow> cap \<noteq> 0 \<longrightarrow> go_get (rr_Requests (c_Resources c)) k = Some x \<longrightarrow> x \<le> cap)"
    (is "?ok c")
  using assms(1)
proof (rule GetKube_Ok)
  fix inits mains built
  assume built: "list_all2 (\<lambda>component c. build_main_container L w sc pp defaults (Some caps) fs component = Ok c)
       [component \<leftarrow> mains. comp_Container component \<noteq> None] built"
    and frame: "map (\<lambda>c. c\<lparr>c_Lifecycle := None\<rparr>) (pa_Containers pa) = map (\<lambda>c. c\<lparr>c_Lifecycle := None\<rparr>) built"
  have "?ok c'"
    if b: "build_main_container L w sc pp defaults (Some caps) fs component = Ok c"
      and s: "c_Name c' = c_Name c \<and> c_Image c' = c_Image c \<and> c_Resources c' = c_Resources c" for component c c'
    using b
  proof (rule build_main_container_Ok)
    fix c0
    assume "ApplyCaps (c_Resources c0) (Some caps) = Some (c_Resources c)"
      and "ValidateResources (lib_qstring L) (c_Resources c) = None"
    with ApplyCaps_within [OF assms(2), of "c_Resources c0"] s show ?thesis by simp
  qed
  then have "list_all2 (\<lambda>_. ?ok) [component \<leftarrow> mains. comp_Container component \<noteq> None] (pa_Containers pa)"
    by (rule list_all2_frame [OF built frame])
  then show "?ok c"
    by (rule list_all2_ignore [OF _ assms(3)])
qed

section \<open>No panics\<close>

definition resources_opt_ok :: "'q ResourceRequirements option \<Rightarrow> bool" where
  "resources_opt_ok x \<longleftrightarrow> (case x of None \<Rightarrow> True | Some r \<Rightarrow> resources_ok r)"

lemma ApplyDefaults_not_None: "resources_opt_ok d \<Longrightarrow> ApplyDefaults r d \<noteq> None"
  using ApplyDefaults_at [of _ ResourceMemory r]
  by (cases d) (fastforce simp: resources_opt_ok_def ApplyDefaults_def)+

lemma ApplyCaps_not_None: "resources_opt_ok caps \<Longrightarrow> ApplyCaps r caps \<noteq> None"
  using ApplyCaps_within [of _ r]
  by (cases caps) (fastforce simp: resources_opt_ok_def ApplyCaps_def)+

lemma build_container_no_panic:
  assumes "resources_opt_ok defaults"
  shows "build_container L w sc pp defaults fs component \<noteq> Panic"
proof -
  have "convertContainerToK8s L component sc pp defaults \<noteq> Panic"
    using ApplyDefaults_not_None [OF assms]
    by (cases "comp_Container component") (auto simp: convertContainerToK8s_def go_bind_Panic_iff)
  moreover have "comp_Container component \<noteq> None" if "convertContainerToK8s L component sc pp defaults = Ok c" for c
    using that by (auto simp: convertContainerToK8s_def split: option.splits)
  ultimately show ?thesis
    by (cases "comp_Container component") (auto simp: build_container_def go_bind_Panic_iff)
qed

lemma build_main_container_no_panic:
  assumes "resources_opt_ok defaults" "resources_opt_ok caps"
  shows "build_main_container L w sc pp defaults caps fs component \<noteq> Panic"
  using build_container_no_panic [OF assms(1)] ApplyCaps_not_None [OF assms(2)]
  by (auto simp: build_main_container_def go_bind_Panic_iff)

text \<open>Building the containers of a workspace never panics, whatever the devfile, the overrides and
  the configuration say: no nil component, command or resource map is dereferenced or stored
  into. It relies on the devfile library typing commands by the part they have.\<close>

theorem GetKubeContainers_no_panic:
  assumes "normalize_sound (lib_Normalize L)" "iteration_order (lib_iter L)"
    and "resources_opt_ok defaults" "resources_opt_ok caps"
  shows "GetKubeContainersFromDevfile L w sc pp defaults caps timeout fs debug \<noteq> Panic"
proof -
  have main: "go_all (build_main_container L w sc pp defaults caps fs) cs \<noteq> Panic" for cs
    using go_all_Panic build_main_container_no_panic [OF assms(3,4)] by blast
  have init: "go_all (build_container L w sc pp defaults fs) cs \<noteq> Panic" for cs
    using go_all_Panic build_container_no_panic [OF assms(3)] by blast
  show ?thesis
    by (auto simp: GetKubeContainersFromDevfile_def go_bind_Panic_iff GetInitContainers_no_panic [OF assms(1)]
        main init hooks_no_panic [OF assms(1,2)] split: prod.splits)
qed

section \<open>A sample run\<close>

definition sample_library :: "int library" where
  "sample_library = \<lparr>lib_Normalize = sample_normalize, lib_seconds = (\<lambda>_. Inr 30), lib_quote = id, lib_iter = id,
     lib_getString = (\<lambda>_ _. Inl ''no such attribute''), lib_parse = (\<lambda>_. Inr 1), lib_qstring = format_int, lib_json = sample_json\<rparr>"

definition sample_caps :: "int ResourceRequirements" where
  "sample_caps = \<lparr>rr_Limits = Some [(ResourceMemory, 64)], rr_Requests = None, rr_Claims = []\<rparr>"

definition sample_defaults :: "int ResourceRequirements" where
  "sample_defaults = \<lparr>rr_Limits = Some [(ResourceMemory, 128)], rr_Requests = Some [(ResourceMemory, 32)], rr_Claims = []\<rparr>"

lemma sample_normalize_sound: "normalize_sound sample_normalize"
  by (simp add: normalize_sound_def sample_normalize_def)

theorem GetKubeContainers_no_panic_witness:
  "GetKubeContainersFromDevfile sample_library sample_devfile None [] (Some sample_defaults) (Some sample_caps) ''30s'' [] [] \<noteq> Panic"
  by (rule GetKubeContainers_no_panic)
     (simp_all add: sample_library_def sample_normalize_sound iteration_order_def resources_opt_ok_def resources_ok_def
       go_map_ok_def sample_caps_def sample_defaults_def)

lemma sample_run_shape:
  "case GetKubeContainersFromDevfile sample_library sample_devfile None [] (Some sample_defaults) (Some sample_caps)
     [] [] [] of Ok pa \<Rightarrow> length (pa_Containers pa) = 1 \<and> length (pa_InitContainers pa) = 1 | _ \<Rightarrow> False"
  by code_simp

lemma GetKubeContainers_shape:
  "GetKubeContainersFromDevfile L w sc pp ds caps t fs d = Ok pa \<Longrightarrow> \<exists>cs ics. pa = container_additions cs ics"
  by (auto simp: GetKubeContainersFromDevfile_def go_bind_Ok_iff split: if_splits)

lemma sample_run:
  "\<exists>c ic. GetKubeContainersFromDevfile sample_library sample_devfile None [] (Some sample_defaults) (Some sample_caps)
     [] [] [] = Ok (container_additions [c] [ic])"
proof -
  obtain pa where "GetKubeContainersFromDevfile sample_library sample_devfile None [] (Some sample_defaults) (Some sample_caps)
     [] [] [] = Ok pa" "length (pa_Containers pa) = 1" "length (pa_InitContainers pa) = 1"
    using sample_run_shape by (auto split: go_result.splits)
  moreover from this obtain cs ics where "pa = container_additions cs ics" using GetKubeContainers_shape by blast
  ultimately show ?thesis by (auto simp: length_Suc_conv)
qed

theorem GetKubeContainers_components_witness:
  "\<exists>pa. GetKubeContainersFromDevfile sample_library sample_devfile None [] (Some sample_defaults) (Some sample_caps) [] [] [] = Ok pa \<and>
     map c_Name (pa_Containers pa) = [''ide''] \<and> map c_Name (pa_InitContainers pa) = [''tools'']"
proof -
  obtain c ic where run: "GetKubeContainersFromDevfile sample_library sample_devfile None [] (Some sample_defaults)
      (Some sample_caps) [] [] [] = Ok (container_additions [c] [ic])"
    using sample_run by blast
  from GetKubeContainers_components [OF run]
  have "c_Name c = ''ide'' \<and> c_Name ic = ''tools''"
    by (simp add: sample_library_def sample_GetInitContainers container_of_def sample_component_def)
  with run show ?thesis by simp
qed

theorem GetKubeContainers_resources_witness:
  "\<exists>pa c. GetKubeContainersFromDevfile sample_library sample_devfile None [] (Some sample_defaults) (Some sample_caps) [] [] [] = Ok pa \<and>
     pa_Containers pa = [c] \<and> ValidateResources format_int (c_Resources c) = None"
proof -
  obtain c ic where run: "GetKubeContainersFromDevfile sample_library sample_devfile None [] (Some sample_defaults)
      (Some sample_caps) [] [] [] = Ok (container_additions [c] [ic])"
    using sample_run by blast
  have "resources_ok sample_caps" by (simp add: resources_ok_def go_map_ok_def sample_caps_def)
  from GetKubeContainers_resources [OF run this, of c] run show ?thesis
    by (auto simp: sample_library_def)
qed

section \<open>Ports, mounts and projects\<close>

lemma int32_id: "0 \<le> n \<Longrightarrow> n \<le> 65535 \<Longrightarrow> int32 n = n"
  by (simp add: int32_def)

lemma ports_loop_ports:
  assumes "\<forall>e \<in> set es. 0 \<le> ep_TargetPort e \<and> ep_TargetPort e \<le> 65535"
  shows "distinct (map cp_ContainerPort (ports_loop es seen)) \<and>
    cp_ContainerPort ` set (ports_loop es seen) = ep_TargetPort ` set es - set seen"
  using assms
proof (induction es arbitrary: seen)
  case Nil
  then show ?case by simp
next
  case (Cons e es)
  show ?case
  proof (cases "ep_TargetPort e \<in> set seen")
    case True
    with Cons show ?thesis by auto
  next
    case False
    with Cons.prems Cons.IH [of "ep_TargetPort e # seen"] show ?thesis by (auto simp: int32_id)
  qed
qed

text \<open>A container gets exactly the ports of its endpoints, each once, however many endpoints share a
  port; a component without endpoints gets no port list at all.\<close>

theorem container_ports:
  assumes "\<forall>e \<in> set endpoints. 0 \<le> ep_TargetPort e \<and> ep_TargetPort e \<le> 65535"
  shows "case devfileEndpointsToContainerPorts endpoints of
      None \<Rightarrow> endpoints = []
    | Some ports \<Rightarrow> endpoints \<noteq> [] \<and> distinct (map cp_ContainerPort ports) \<and>
        cp_ContainerPort ` set ports = ep_TargetPort ` set endpoints"
proof (cases "ports_loop endpoints [] = []")
  case True
  then show ?thesis
    using ports_loop_ports [OF assms, of "[]"] by (simp add: devfileEndpointsToContainerPorts_def)
next
  case False
  then have "endpoints \<noteq> []" by auto
  with False ports_loop_ports [OF assms, of "[]"] show ?thesis
    by (simp add: devfileEndpointsToContainerPorts_def)
qed

theorem container_ports_witness:
  "devfileEndpointsToContainerPorts [] = None"
  using container_ports [of "[]"] by (simp add: devfileEndpointsToContainerPorts_def)

lemma find_append_None: "find P xs = None \<Longrightarrow> find P (xs @ ys) = find P ys"
  by (induction xs) auto

text \<open>A container that mounts the sources has the projects volume mounted, exactly where its
  \<^verbatim>\<open>PROJECTS_ROOT\<close> says, and \<^verbatim>\<open>PROJECTS_ROOT\<close> and \<^verbatim>\<open>PROJECT_SOURCE\<close> precede every
  other variable, so that those can refer to them.\<close>

theorem handleMountSources_mounts:
  assumes "HasMountSources cc" "handleMountSources L c cc w = Inr c'"
  shows "\<exists>vm src. getProjectsVolumeMount c' = Some vm \<and>
    c_Env c' = Some (plain_env ''PROJECTS_ROOT'' (vm_MountPath vm) # plain_env ''PROJECT_SOURCE'' src #
                     case_option [] (\<lambda>es. es) (c_Env c))"
proof (cases "getProjectsVolumeMount c")
  case (Some vm)
  with assms show ?thesis
    by (auto simp: handleMountSources_def getProjectsVolumeMount_def split: sum.splits)
next
  case None
  then have "find (\<lambda>vm. vm_Name vm = ProjectsVolumeName) (c_VolumeMounts c @ [plain_mount ProjectsVolumeName p]) =
      Some (plain_mount ProjectsVolumeName p)" for p
    by (simp add: getProjectsVolumeMount_def find_append_None) (simp add: plain_mount_def)
  with None assms show ?thesis
    by (auto simp: handleMountSources_def getProjectsVolumeMount_def Let_def plain_mount_def split: sum.splits)
qed

lemma sample_mount_run:
  "case handleMountSources sample_library empty_container (the (comp_Container (sample_component ''ide''))) sample_devfile of
     Inl _ \<Rightarrow> False | Inr _ \<Rightarrow> True"
  by code_simp

theorem handleMountSources_mounts_witness:
  "\<exists>c' vm. handleMountSources sample_library empty_container (the (comp_Container (sample_component ''ide''))) sample_devfile = Inr c' \<and>
     getProjectsVolumeMount c' = Some vm"
proof -
  obtain c' where c': "handleMountSources sample_library empty_container (the (comp_Container (sample_component ''ide''))) sample_devfile = Inr c'"
    using sample_mount_run by (auto split: sum.splits)
  have "HasMountSources (the (comp_Container (sample_component ''ide'')))"
    by (simp add: HasMountSources_def sample_component_def)
  from handleMountSources_mounts [OF this c'] c' show ?thesis by blast
qed

abbreviation values_at :: "('k \<times> 'v) list \<Rightarrow> 'k \<Rightarrow> 'v list" where
  "values_at kvs k \<equiv> map snd (filter (\<lambda>p. fst p = k) kvs)"

lemma map_of_append_at: "map_of (append_at k x m) = (map_of m)(k \<mapsto> case_option [] (\<lambda>xs. xs) (map_of m k) @ [x])"
  by (simp add: append_at_def update_conv')

lemma fold_append_at:
  "map_of (fold (\<lambda>(k, x). append_at k x) kvs m) k =
     (if values_at kvs k = [] then map_of m k
      else Some (case_option [] (\<lambda>xs. xs) (map_of m k) @ values_at kvs k))"
  by (induction kvs arbitrary: m) (auto simp: map_of_append_at)

lemma fold_append_at_distinct:
  "distinct (map fst m) \<Longrightarrow> distinct (map fst (fold (\<lambda>(k, x). append_at k x) kvs m))"
  by (induction kvs arbitrary: m) (auto simp: append_at_distinct)

lemma distinct_values_at: "distinct (map fst kvs) \<longleftrightarrow> (\<forall>k. length (values_at kvs k) \<le> 1)"
proof -
  have "length (values_at kvs k) = count (mset (map fst kvs)) k" for k
    by (induction kvs) auto
  moreover have "count M a \<le> 1 \<longleftrightarrow> count M a = (if a \<in># M then 1 else 0)" for M and a :: 'a
  proof (cases "a \<in># M")
    case True
    then have "Suc 0 \<le> count M a" by (simp add: Suc_le_eq)
    with True show ?thesis by (simp only: if_True One_nat_def) linarith
  next
    case False
    then show ?thesis by (simp add: not_in_iff)
  qed
  ultimately show ?thesis
    by (simp add: distinct_count_atmost_1)
qed

lemma groups_small:
  assumes "\<And>m. mset (iter m) = mset m"
  shows "(\<forall>(k, xs) \<in> set (iter (fold (\<lambda>(k, x). append_at k x) kvs [])). length xs \<le> 1) \<longleftrightarrow> distinct (map fst kvs)"
proof -
  let ?m = "fold (\<lambda>(k, x). append_at k x) kvs []"
  have member: "(k, xs) \<in> set ?m \<longleftrightarrow> values_at kvs k \<noteq> [] \<and> xs = values_at kvs k" for k xs
    unfolding map_of_eq_Some_iff [OF fold_append_at_distinct, of "[]" kvs k xs, simplified, symmetric] fold_append_at
    by auto
  have "(\<forall>(k, xs) \<in> set (iter ?m). length xs \<le> 1) \<longleftrightarrow> (\<forall>k xs. (k, xs) \<in> set ?m \<longrightarrow> length xs \<le> 1)"
    using mset_eq_setD [OF assms, of ?m] by auto
  also have "\<dots> \<longleftrightarrow> (\<forall>k. values_at kvs k \<noteq> [] \<longrightarrow> length (values_at kvs k) \<le> 1)"
    by (simp only: member) blast
  also have "\<dots> \<longleftrightarrow> (\<forall>k. length (values_at kvs k) \<le> 1)"
    by (metis le_zero_eq linorder_linear list.size(3))
  finally show ?thesis unfolding distinct_values_at .
qed

definition starter_names :: "StarterProject option \<Rightarrow> string list" where
  "starter_names starter = (case starter of None \<Rightarrow> [] | Some p \<Rightarrow> [sp_Name p])"

lemma first_err_long:
  "first_err (\<lambda>(k, xs). if length xs > 1 then Some (msg k xs) else None) m = None \<longleftrightarrow> (\<forall>(k, xs) \<in> set m. length xs \<le> 1)"
  by (auto simp: first_err_None_iff not_less split: if_splits)

text \<open>A workspace passes the project check exactly when its projects, its dependent projects and the
  selected starter project have pairwise different names and are cloned to pairwise different
  paths, and the selected starter project exists; the answer does not depend on the order in
  which the maps are visited.\<close>

theorem ValidateAllProjects_distinct:
  assumes "iteration_order iter"
  shows "ValidateAllProjects L iter w = None \<longleftrightarrow>
    (\<exists>starter. GetStarterProject L w = Inr starter \<and>
       distinct (map prj_Name (ts_Projects w) @ map prj_Name (ts_DependentProjects w) @ starter_names starter) \<and>
       distinct (map GetClonePath (ts_Projects w) @ map GetClonePath (ts_DependentProjects w) @ starter_names starter))"
proof (cases "GetStarterProject L w")
  case (Inl e)
  then show ?thesis by (simp add: ValidateAllProjects_def)
next
  case (Inr starter)
  have iter: "mset (iter m) = mset m" for m using assms by (simp add: iteration_order_def)
  have names: "(\<forall>(k, xs) \<in> set (iter (project_names w starter)). length xs \<le> 1) \<longleftrightarrow>
      distinct (map prj_Name (ts_Projects w) @ map prj_Name (ts_DependentProjects w) @ starter_names starter)"
    unfolding project_names_def groups_small [OF iter]
    by (cases starter) (simp_all add: starter_names_def comp_def)
  have paths: "(\<forall>(k, xs) \<in> set (iter (project_clone_paths w starter)). length xs \<le> 1) \<longleftrightarrow>
      distinct (map GetClonePath (ts_Projects w) @ map GetClonePath (ts_DependentProjects w) @ starter_names starter)"
    unfolding project_clone_paths_def groups_small [OF iter]
    by (cases starter) (simp_all add: starter_names_def comp_def)
  have "ValidateAllProjects L iter w = None \<longleftrightarrow>
      (\<forall>(k, xs) \<in> set (iter (project_names w starter)). length xs \<le> 1) \<and>
      (\<forall>(k, xs) \<in> set (iter (project_clone_paths w starter)). length xs \<le> 1)"
    unfolding first_err_long [symmetric, where msg = "\<lambda>k xs. ''found multiple projects with the same name '' @ sq @ k @ sq @ '' in: '' @ strings_join '', '' xs" and m = "iter (project_names w starter)"]
      first_err_long [symmetric, where msg = "\<lambda>k xs. ''found multiple projects with the same clone path ('' @ k @ ''): '' @ strings_join '', '' xs" and m = "iter (project_clone_paths w starter)"]
    by (simp only: ValidateAllProjects_def Inr sum.case) (simp split: option.split)
  with names paths Inr show ?thesis by simp
qed

theorem ValidateAllProjects_distinct_witness:
  "ValidateAllProjects sample_library id
     (sample_devfile\<lparr>ts_Projects := [\<lparr>prj_Name = ''a'', prj_ClonePath = [], prj_Attributes = [], prj_Git = None, prj_Zip = None\<rparr>, \<lparr>prj_Name = ''b'', prj_ClonePath = ''a'', prj_Attributes = [], prj_Git = None, prj_Zip = None\<rparr>]\<rparr>) \<noteq> None"
  using ValidateAllProjects_distinct [of id sample_library
      "sample_devfile\<lparr>ts_Projects := [\<lparr>prj_Name = ''a'', prj_ClonePath = [], prj_Attributes = [], prj_Git = None, prj_Zip = None\<rparr>, \<lparr>prj_Name = ''b'', prj_ClonePath = ''a'', prj_Attributes = [], prj_Git = None, prj_Zip = None\<rparr>]\<rparr>"]
  by (simp add: iteration_order_def GetClonePath_def)

end
