(* ===== verification/Cluster_Objects.thy ===== *)
theory Cluster_Objects
  imports Devfile
begin

text \<open>
  The objects that the operator keeps on the cluster: the parts of the Kubernetes and OpenShift types that it sets or reads, the
  routing of a workspace, and their common metadata.
\<close>

section \<open>Contents\<close>

record OwnerReference =
  or_Kind :: string
  or_Name :: string
  or_UID :: string
  or_Controller :: "bool option"

record ServicePort =
  spt_Name :: string
  spt_Protocol :: string
  spt_AppProtocol :: "string option"
  spt_Port :: int
  spt_TargetPort :: string
  spt_NodePort :: int

record Service =
  svc_Selector :: "(string, string) gomap"
  svc_Ports :: "ServicePort list"
  svc_Type :: string
  svc_ClusterIP :: string
  svc_Rest :: opaque

record 'q PVCSpec =
  pvc_AccessModes :: "string list"
  pvc_Storage :: 'q
  pvc_StorageClassName :: "string option"

record 'q Job =
  job_Completions :: "int option"
  job_BackoffLimit :: "int option"
  job_TTLSecondsAfterFinished :: "int option"
  job_TemplateLabels :: "(string, string) gomap"
  job_TemplateAnnotations :: "(string, string) gomap"
  job_PodSpec :: "'q PodSpec"
  job_Conditions :: "(string \<times> string) list"  \<comment> \<open>of the status: type and status\<close>

record IngressPath =
  ip_Service :: string
  ip_Port :: int
  ip_PathType :: string
  ip_Path :: string

record IngressRule =
  ir_Host :: string
  ir_Paths :: "IngressPath list"

record Ingress =
  ig_ClassName :: "string option"
  ig_Rules :: "IngressRule list"

record Route =
  rt_Host :: string
  rt_Path :: string
  rt_TLS :: "(string \<times> string) option"  \<comment> \<open>termination and policy for insecure requests\<close>
  rt_ToKind :: string
  rt_ToName :: string
  rt_TargetPort :: "string option"

record PolicyRule =
  ru_Resources :: "string list"
  ru_APIGroups :: "string list"
  ru_Verbs :: "string list"
  ru_ResourceNames :: "string list"

record Subject =
  sj_Kind :: string
  sj_Name :: string
  sj_Namespace :: string

record RoleBinding =
  rb_RoleKind :: string
  rb_RoleName :: string
  rb_Subjects :: "Subject list"

record ServiceAccount =
  sa_Created :: int  \<comment> \<open>the creation timestamp, in nanoseconds\<close>
  sa_AutomountToken :: "bool option"
  sa_ImagePullSecrets :: "string list"

text \<open>
  The routing of a workspace (\<^verbatim>\<open>src/apis/controller/v1alpha1/devworkspacerouting_types.go\<close>), with its finalizers. The maps from
  machines to endpoints are in the order in which Go visits them.
\<close>

record RoutingEndpoint =
  re_Name :: string
  re_TargetPort :: int
  re_Exposure :: string
  re_Protocol :: string
  re_Secure :: bool
  re_Path :: string
  re_Attributes :: attributes
  re_Annotations :: "(string, string) gomap"

type_synonym endpoints = "(string \<times> RoutingEndpoint list) list"

record ExposedUrl =
  xe_Name :: string
  xe_Url :: string
  xe_Attributes :: attributes

type_synonym exposed = "(string \<times> ExposedUrl list) list"

datatype RoutingPhase = NoRoutingPhase | RoutingPhaseReady | RoutingPhasePreparing | RoutingPhaseFailed | RoutingPhaseStopped

record 'q Routing =
  rg_Finalizers :: "string list"
  rg_DevWorkspaceId :: string
  rg_RoutingClass :: string
  rg_Endpoints :: endpoints
  rg_PodSelector :: "(string, string) gomap"
  rg_PodAdditions :: "'q PodAdditions option"
  rg_ExposedEndpoints :: "exposed option"
  rg_Phase :: RoutingPhase
  rg_Message :: string

datatype obj_kind = RoleObj | RoleBindingObj | ServiceAccountObj | DeploymentObj | PodObj | ConfigMapObj | SecretObj | RoutingObj
  | JobObj | ServiceObj | IngressObj | RouteObj | PVCObj | UnrecognizedObj string

text \<open>The part of an object besides its metadata.\<close>

datatype 'q content =
    PodContent "'q PodSpec"
  | DeploymentContent "'q Deployment"
  | RoutingContent "'q Routing"
  | ServiceContent Service
  | JobContent "'q Job"
  | ConfigMapContent "(string, string) gomap"
  | SecretContent "(string, string) gomap"
  | PVCContent "'q PVCSpec"
  | RoleContent "PolicyRule list" | RoleBindingContent RoleBinding | ServiceAccountContent ServiceAccount | IngressContent Ingress | RouteContent Route
  | UnrecognizedContent string opaque

fun kind_of :: "'q content \<Rightarrow> obj_kind" where
  "kind_of (PodContent _) = PodObj"
| "kind_of (DeploymentContent _) = DeploymentObj"
| "kind_of (RoutingContent _) = RoutingObj"
| "kind_of (ServiceContent _) = ServiceObj"
| "kind_of (JobContent _) = JobObj"
| "kind_of (ConfigMapContent _) = ConfigMapObj"
| "kind_of (SecretContent _) = SecretObj"
| "kind_of (PVCContent _) = PVCObj"
| "kind_of (RoleContent _) = RoleObj"
| "kind_of (RoleBindingContent _) = RoleBindingObj"
| "kind_of (ServiceAccountContent _) = ServiceAccountObj"
| "kind_of (IngressContent _) = IngressObj"
| "kind_of (RouteContent _) = RouteObj"
| "kind_of (UnrecognizedContent k _) = UnrecognizedObj k"

record 'q object =
  o_Name :: string
  o_Namespace :: string
  o_Labels :: "(string, string) gomap"
  o_Annotations :: "(string, string) gomap"
  o_OwnerReferences :: "OwnerReference list"
  o_UID :: string
  o_ResourceVersion :: string
  o_Terminating :: bool  \<comment> \<open>the deletion timestamp is set\<close>
  o_Finalizers :: "string list"
  o_Content :: "'q content"

type_synonym obj_key = "obj_kind \<times> string \<times> string"
type_synonym 'q objects = "obj_key \<Rightarrow> 'q object option"

definition obj_key_of :: "'q object \<Rightarrow> obj_key" where
  "obj_key_of obj = (kind_of (o_Content obj), o_Namespace obj, o_Name obj)"

text \<open>The finalizers of an object; those of a routing stand with its content.\<close>

definition finalizers_of :: "'q object \<Rightarrow> string list" where
  "finalizers_of obj = o_Finalizers obj @ (case o_Content obj of RoutingContent r \<Rightarrow> rg_Finalizers r | _ \<Rightarrow> [])"

text \<open>
  \<^verbatim>\<open>upsertOwnerRef\<close> of controller-runtime: a reference to an owner of the same kind and name is replaced, otherwise the new one is
  appended.
\<close>

fun upsert_owner :: "OwnerReference \<Rightarrow> OwnerReference list \<Rightarrow> OwnerReference list" where
  "upsert_owner ref [] = [ref]"
| "upsert_owner ref (r # refs) = (if or_Kind r = or_Kind ref \<and> or_Name r = or_Name ref then ref # refs else r # upsert_owner ref refs)"

text \<open>The name that \<^verbatim>\<open>reflect\<close> prints for the Go type of an object.\<close>

fun type_name :: "obj_kind \<Rightarrow> string" where
  "type_name RoleObj = ''v1.Role''"
| "type_name RoleBindingObj = ''v1.RoleBinding''"
| "type_name ServiceAccountObj = ''v1.ServiceAccount''"
| "type_name DeploymentObj = ''v1.Deployment''"
| "type_name PodObj = ''v1.Pod''"
| "type_name ConfigMapObj = ''v1.ConfigMap''"
| "type_name SecretObj = ''v1.Secret''"
| "type_name RoutingObj = ''v1alpha1.DevWorkspaceRouting''"
| "type_name JobObj = ''v1.Job''"
| "type_name ServiceObj = ''v1.Service''"
| "type_name IngressObj = ''v1.Ingress''"
| "type_name RouteObj = ''v1.Route''"
| "type_name PVCObj = ''v1.PersistentVolumeClaim''"
| "type_name (UnrecognizedObj k) = k"

end
