(* ===== verification/Sync.thy ===== *)
theory Sync
  imports Cluster_Objects DW_Errors "HOL-Library.Char_ord" "HOL-Library.List_Lexorder"
begin

text \<open>
  Synchronisation of objects with the cluster (\<^verbatim>\<open>src/pkg/provision/sync\<close>): how the operator compares the object
  it wants with the object on the cluster (\<^verbatim>\<open>diff.go\<close>, \<^verbatim>\<open>diffopts.go\<close>), what it writes
  (\<^verbatim>\<open>update.go\<close>) and how it creates, updates or deletes (\<^verbatim>\<open>sync.go\<close>).

  The cluster is the map of its objects. The comparison libraries (\<^verbatim>\<open>go-cmp\<close>, \<^verbatim>\<open>equality.Semantic\<close>), the
  faults of the API server, the content of the client's cache and what the server stores of a written
  object are parameters, the record \<open>api_env\<close>.
\<close>

section \<open>The API server\<close>

text \<open>An error of the server, as \<^verbatim>\<open>k8sErrors\<close> classifies it.\<close>

datatype api_err = NotFound err | AlreadyExists err | Conflict err | Invalid err | Forbidden err | OtherApiErr err

fun api_err_text :: "api_err \<Rightarrow> err" where
  "api_err_text (NotFound e) = e"
| "api_err_text (AlreadyExists e) = e"
| "api_err_text (Conflict e) = e"
| "api_err_text (Invalid e) = e"
| "api_err_text (Forbidden e) = e"
| "api_err_text (OtherApiErr e) = e"

datatype api_call = GetCall obj_key | CreateCall obj_key | UpdateCall obj_key | DeleteCall obj_key | ListCall obj_kind

datatype cmp_option = IgnoreFields string "string list" | SortSlices string

text \<open>
  \<open>ae_fault\<close> is the error with which a call fails, if any. \<open>ae_cached\<close> tells whether the caching client sees an object.
  \<open>ae_store\<close> is the object that the server stores, from the one it had, if any, and the one written. The others
  are \<^verbatim>\<open>cmp.Equal\<close> with options and \<^verbatim>\<open>equality.Semantic.DeepDerivative\<close> by type.
\<close>

record 'q api_env =
  ae_fault :: "api_call \<Rightarrow> api_err option"
  ae_cached :: "'q object \<Rightarrow> bool"
  ae_store :: "'q object option \<Rightarrow> 'q object \<Rightarrow> 'q object"
  ae_cmp :: "cmp_option list \<Rightarrow> 'q content \<Rightarrow> 'q content \<Rightarrow> bool"
  ae_derivative_pod :: "'q PodSpec \<Rightarrow> 'q PodSpec \<Rightarrow> bool"
  ae_derivative_volume :: "'q Volume \<Rightarrow> 'q Volume \<Rightarrow> bool"
  ae_derivative_container :: "'q Container \<Rightarrow> 'q Container \<Rightarrow> bool"
  ae_derivative_job :: "'q Job \<Rightarrow> 'q Job \<Rightarrow> bool"

definition client_Get :: "'q api_env \<Rightarrow> obj_key \<Rightarrow> 'q objects \<Rightarrow> api_err + 'q object" where
  "client_Get env key cl =
     (case ae_fault env (GetCall key) of
        Some e \<Rightarrow> Inl e
      | None \<Rightarrow> (case cl key of
          None \<Rightarrow> Inl (NotFound ''not found'')
        | Some obj \<Rightarrow> if ae_cached env obj then Inr obj else Inl (NotFound ''not found'')))"

definition client_Create :: "'q api_env \<Rightarrow> 'q object \<Rightarrow> 'q objects \<Rightarrow> api_err option \<times> 'q objects" where
  "client_Create env obj cl =
     (case ae_fault env (CreateCall (obj_key_of obj)) of
        Some e \<Rightarrow> (Some e, cl)
      | None \<Rightarrow>
          if cl (obj_key_of obj) \<noteq> None then (Some (AlreadyExists ''already exists''), cl)
          else (None, cl(obj_key_of obj \<mapsto> ae_store env None obj)))"

text \<open>An update with a resource version is refused when the stored object has another one.\<close>

definition client_Update :: "'q api_env \<Rightarrow> 'q object \<Rightarrow> 'q objects \<Rightarrow> api_err option \<times> 'q objects" where
  "client_Update env obj cl =
     (case ae_fault env (UpdateCall (obj_key_of obj)) of
        Some e \<Rightarrow> (Some e, cl)
      | None \<Rightarrow> (case cl (obj_key_of obj) of
          None \<Rightarrow> (Some (NotFound ''not found''), cl)
        | Some old \<Rightarrow>
            if o_ResourceVersion obj \<noteq> [] \<and> o_ResourceVersion obj \<noteq> o_ResourceVersion old
            then (Some (Conflict ''the object has been modified''), cl)
            else (None, cl(obj_key_of obj \<mapsto> ae_store env (Some old) obj))))"

text \<open>An object with finalizers is not removed but marked as terminating.\<close>

definition deleted_object :: "'q object \<Rightarrow> 'q object option" where
  "deleted_object old = (if finalizers_of old = [] then None else Some (old\<lparr>o_Terminating := True\<rparr>))"

definition client_Delete :: "'q api_env \<Rightarrow> 'q object \<Rightarrow> 'q objects \<Rightarrow> api_err option \<times> 'q objects" where
  "client_Delete env obj cl =
     (case ae_fault env (DeleteCall (obj_key_of obj)) of
        Some e \<Rightarrow> (Some e, cl)
      | None \<Rightarrow> (case cl (obj_key_of obj) of
          None \<Rightarrow> (Some (NotFound ''not found''), cl)
        | Some old \<Rightarrow> (None, cl(obj_key_of obj := deleted_object old))))"

section \<open>Comparison\<close>

text \<open>\<^verbatim>\<open>m[k]\<close>: the empty string where the key is absent.\<close>

definition go_at :: "(string, string) gomap \<Rightarrow> string \<Rightarrow> string" where
  "go_at m k = (case go_get m k of None \<Rightarrow> [] | Some v \<Rightarrow> v)"

text \<open>Equality of maps as \<^verbatim>\<open>cmp.Equal\<close> decides it: a nil map is not equal to an empty one.\<close>

definition go_map_eq :: "('k, 'v) gomap \<Rightarrow> ('k, 'v) gomap \<Rightarrow> bool" where
  "go_map_eq m n \<longleftrightarrow> (m = None) = (n = None) \<and> list_all (\<lambda>(k, _). go_get m k = go_get n k) (go_items m @ go_items n)"

definition roleDiffOpts :: "cmp_option list" where
  "roleDiffOpts = [IgnoreFields ''Role'' [''TypeMeta'', ''ObjectMeta'']]"

definition rolebindingDiffOpts :: "cmp_option list" where
  "rolebindingDiffOpts = [IgnoreFields ''RoleBinding'' [''TypeMeta'', ''ObjectMeta''], IgnoreFields ''RoleRef'' [''APIGroup''],
     IgnoreFields ''Subject'' [''APIGroup'']]"

definition deploymentDiffOpts :: "cmp_option list" where
  "deploymentDiffOpts =
     [IgnoreFields ''Deployment'' [''TypeMeta'', ''ObjectMeta'', ''Status''],
      IgnoreFields ''DeploymentSpec'' [''RevisionHistoryLimit'', ''ProgressDeadlineSeconds''],
      IgnoreFields ''PodSpec'' [''DNSPolicy'', ''SchedulerName'', ''DeprecatedServiceAccount''],
      IgnoreFields ''Container'' [''TerminationMessagePath'', ''TerminationMessagePolicy'', ''ImagePullPolicy''],
      SortSlices ''Container'', SortSlices ''Volume'', SortSlices ''VolumeMount'', SortSlices ''EnvFromSource'']"

definition configmapDiffOpts :: "cmp_option list" where
  "configmapDiffOpts = [IgnoreFields ''ConfigMap'' [''TypeMeta'', ''ObjectMeta'']]"

definition secretDiffOpts :: "cmp_option list" where
  "secretDiffOpts = [IgnoreFields ''Secret'' [''TypeMeta'', ''ObjectMeta'']]"

definition routingDiffOpts :: "cmp_option list" where
  "routingDiffOpts = [IgnoreFields ''DevWorkspaceRouting'' [''ObjectMeta'', ''TypeMeta'', ''Status'']]"

definition routeDiffOpts :: "cmp_option list" where
  "routeDiffOpts = [IgnoreFields ''Route'' [''TypeMeta'', ''ObjectMeta'', ''Status''],
     IgnoreFields ''RouteSpec'' [''WildcardPolicy'', ''Host''], IgnoreFields ''RouteTargetReference'' [''Weight'']]"

definition ingressDiffOpts :: "cmp_option list" where
  "ingressDiffOpts = [IgnoreFields ''Ingress'' [''TypeMeta'', ''ObjectMeta'', ''Status''], IgnoreFields ''HTTPIngressPath'' [''PathType'']]"

type_synonym 'q diffFunc = "'q object \<Rightarrow> 'q object \<Rightarrow> bool \<times> bool"  \<comment> \<open>whether to delete and whether to update\<close>

definition basicDiffFunc :: "'q api_env \<Rightarrow> cmp_option list \<Rightarrow> 'q diffFunc" where
  "basicDiffFunc env diffOpt spec cluster = (False, \<not> ae_cmp env diffOpt (o_Content spec) (o_Content cluster))"

fun boolPtrsEqual :: "bool option \<Rightarrow> bool option \<Rightarrow> bool" where
  "boolPtrsEqual None b \<longleftrightarrow> b \<noteq> Some True"
| "boolPtrsEqual (Some a) None \<longleftrightarrow> \<not> a"
| "boolPtrsEqual (Some a) (Some b) \<longleftrightarrow> a = b"

definition containsOwnerRef :: "OwnerReference \<Rightarrow> OwnerReference list \<Rightarrow> bool" where
  "containsOwnerRef toCheck listRefs \<longleftrightarrow>
     list_ex (\<lambda>ref. or_Kind toCheck = or_Kind ref \<and> or_Name toCheck = or_Name ref \<and> or_UID toCheck = or_UID ref \<and>
       boolPtrsEqual (or_Controller toCheck) (or_Controller ref)) listRefs"

definition metadataDiffFunc :: "'q diffFunc" where
  "metadataDiffFunc spec cluster =
     (False,
      list_ex (\<lambda>(k, v). go_at (o_Annotations cluster) k \<noteq> v) (go_items (o_Annotations spec)) \<or>
      list_ex (\<lambda>(k, v). go_at (o_Labels cluster) k \<noteq> v) (go_items (o_Labels spec)) \<or>
      list_ex (\<lambda>ref. \<not> containsOwnerRef ref (o_OwnerReferences cluster)) (o_OwnerReferences spec))"

definition allDiffFuncs :: "'q diffFunc list \<Rightarrow> 'q diffFunc" where
  "allDiffFuncs funcs spec cluster = (list_ex (\<lambda>df. fst (df spec cluster)) funcs, list_ex (\<lambda>df. snd (df spec cluster)) funcs)"

fun deploymentDiffFunc :: "'q diffFunc" where
  "deploymentDiffFunc spec cluster =
     (case (o_Content spec, o_Content cluster) of
        (DeploymentContent d, DeploymentContent d') \<Rightarrow> (\<not> go_map_eq (d_Selector d) (d_Selector d'), False)
      | _ \<Rightarrow> (False, False))"

fun routingDiffFunc :: "'q diffFunc" where
  "routingDiffFunc spec cluster =
     (case (o_Content spec, o_Content cluster) of
        (RoutingContent r, RoutingContent r') \<Rightarrow> (rg_RoutingClass r \<noteq> rg_RoutingClass r', False)
      | _ \<Rightarrow> (False, False))"

fun jobDiffFunc :: "'q api_env \<Rightarrow> 'q diffFunc" where
  "jobDiffFunc env spec cluster =
     (case (o_Content spec, o_Content cluster) of
        (JobContent job, JobContent job') \<Rightarrow> (\<not> ae_derivative_job env job job', False)
      | _ \<Rightarrow> (False, False))"

text \<open>The ports in descending order of their names, which are distinct in a valid service.\<close>

definition sorted_ports :: "ServicePort list \<Rightarrow> ServicePort list" where
  "sorted_ports ports = rev (sort_key spt_Name ports)"

fun serviceDiffFunc :: "'q diffFunc" where
  "serviceDiffFunc spec cluster =
     (case (o_Content spec, o_Content cluster) of
        (ServiceContent s, ServiceContent c) \<Rightarrow>
          (False,
           \<not> go_map_eq (svc_Selector s) (svc_Selector c) \<or>
           map (\<lambda>p. p\<lparr>spt_Protocol := []\<rparr>) (sorted_ports (svc_Ports s)) \<noteq> map (\<lambda>p. p\<lparr>spt_Protocol := []\<rparr>) (sorted_ports (svc_Ports c)) \<or>
           \<not> (svc_Type s = [] \<or> svc_Type s = svc_Type c))
      | _ \<Rightarrow> (False, False))"

fun containersDiffFunc :: "'q api_env \<Rightarrow> 'q Container list \<Rightarrow> 'q Container list \<Rightarrow> bool \<times> bool" where
  "containersDiffFunc env spec [] = (False, False)"
| "containersDiffFunc env spec (clusterContainer # cluster) =
     (case find (\<lambda>c. c_Name c = c_Name clusterContainer) spec of
        None \<Rightarrow> (True, False)
      | Some specContainer \<Rightarrow>
          if \<not> ae_derivative_container env (specContainer\<lparr>c_Image := c_Image clusterContainer\<rparr>) clusterContainer then (True, False)
          else if c_Image specContainer \<noteq> c_Image clusterContainer then (False, True)
          else containersDiffFunc env spec cluster)"

abbreviation pod_list :: "'a list option \<Rightarrow> 'a list" where
  "pod_list xs \<equiv> case_option [] (\<lambda>xs. xs) xs"

text \<open>
  The pointers \<^verbatim>\<open>ActiveDeadlineSeconds\<close> and \<^verbatim>\<open>TerminationGracePeriodSeconds\<close> are compared as pointers: two
  objects never share one, so a pointer that is set differs from every other, and none equals the fresh
  \<^verbatim>\<open>pointer.Int64(-1)\<close>.
\<close>

definition podSpecDiff :: "'q api_env \<Rightarrow> 'q PodSpec \<Rightarrow> 'q PodSpec \<Rightarrow> bool \<times> bool" where
  "podSpecDiff env specPod clusterPod =
     (if list_ex (\<lambda>v. \<not> list_ex (ae_derivative_volume env v) (pod_list (p_Volumes clusterPod))) (pod_list (p_Volumes specPod)) then (True, False)
      else if \<not> ae_derivative_pod env
         (specPod\<lparr>p_ActiveDeadlineSeconds := p_ActiveDeadlineSeconds clusterPod,
                  p_TerminationGracePeriodSeconds := p_TerminationGracePeriodSeconds clusterPod,
                  p_Tolerations := p_Tolerations clusterPod, p_Containers := None, p_InitContainers := None, p_Volumes := None\<rparr>)
         clusterPod then (True, False)
      else if p_ActiveDeadlineSeconds specPod \<noteq> None then (False, True)
      else if p_TerminationGracePeriodSeconds specPod \<noteq> None then (True, False)
      else if p_Tolerations specPod \<noteq> [] \<and>
        list_ex (\<lambda>t. \<not> list_ex (\<lambda>t'. t = t') (p_Tolerations clusterPod)) (p_Tolerations clusterPod) then (True, False)
      else
        let (shouldDelete, shouldUpdate) = containersDiffFunc env (pod_list (p_Containers specPod)) (pod_list (p_Containers clusterPod)) in
        if shouldDelete \<or> shouldUpdate then (shouldDelete, shouldUpdate)
        else containersDiffFunc env (pod_list (p_InitContainers specPod)) (pod_list (p_InitContainers clusterPod)))"

fun podDiffFunc :: "'q api_env \<Rightarrow> 'q diffFunc" where
  "podDiffFunc env spec cluster =
     (case (o_Content spec, o_Content cluster) of
        (PodContent specPod, PodContent clusterPod) \<Rightarrow> podSpecDiff env specPod clusterPod
      | _ \<Rightarrow> (False, False))"

fun diffFuncs :: "'q api_env \<Rightarrow> obj_kind \<Rightarrow> 'q diffFunc option" where
  "diffFuncs env RoleObj = Some (allDiffFuncs [metadataDiffFunc, basicDiffFunc env roleDiffOpts])"
| "diffFuncs env RoleBindingObj = Some (allDiffFuncs [metadataDiffFunc, basicDiffFunc env rolebindingDiffOpts])"
| "diffFuncs env ServiceAccountObj = Some metadataDiffFunc"
| "diffFuncs env DeploymentObj = Some (allDiffFuncs [deploymentDiffFunc, metadataDiffFunc, basicDiffFunc env deploymentDiffOpts])"
| "diffFuncs env PodObj = Some (allDiffFuncs [podDiffFunc env, metadataDiffFunc])"
| "diffFuncs env ConfigMapObj = Some (allDiffFuncs [metadataDiffFunc, basicDiffFunc env configmapDiffOpts])"
| "diffFuncs env SecretObj = Some (allDiffFuncs [metadataDiffFunc, basicDiffFunc env secretDiffOpts])"
| "diffFuncs env RoutingObj = Some (allDiffFuncs [routingDiffFunc, metadataDiffFunc, basicDiffFunc env routingDiffOpts])"
| "diffFuncs env JobObj = Some (allDiffFuncs [metadataDiffFunc, jobDiffFunc env])"
| "diffFuncs env ServiceObj = Some (allDiffFuncs [metadataDiffFunc, serviceDiffFunc])"
| "diffFuncs env IngressObj = Some (allDiffFuncs [metadataDiffFunc, basicDiffFunc env ingressDiffOpts])"
| "diffFuncs env RouteObj = Some (allDiffFuncs [metadataDiffFunc, basicDiffFunc env routeDiffOpts])"
| "diffFuncs env PVCObj = None"
| "diffFuncs env (UnrecognizedObj _) = None"

definition IsRecognizedObject :: "'q api_env \<Rightarrow> 'q object \<Rightarrow> bool" where
  "IsRecognizedObject env specObj \<longleftrightarrow> diffFuncs env (kind_of (o_Content specObj)) \<noteq> None"

section \<open>What is written\<close>

type_synonym 'q updateFunc = "'q object \<Rightarrow> 'q object option \<Rightarrow> err + 'q object"

definition defaultUpdateFunc :: "'q updateFunc" where
  "defaultUpdateFunc spec cluster =
     Inr (case cluster of None \<Rightarrow> spec | Some c \<Rightarrow> spec\<lparr>o_ResourceVersion := o_ResourceVersion c\<rparr>)"

definition serviceUpdateFunc :: "'q updateFunc" where
  "serviceUpdateFunc spec cluster =
     (case cluster of
        None \<Rightarrow> Inl ''updating a service requires the cluster instance''
      | Some c \<Rightarrow> Inr (spec\<lparr>o_ResourceVersion := o_ResourceVersion c,
          o_Content := (case (o_Content spec, o_Content c) of
             (ServiceContent s, ServiceContent s') \<Rightarrow> ServiceContent (s\<lparr>svc_ClusterIP := svc_ClusterIP s'\<rparr>)
           | (content, _) \<Rightarrow> content)\<rparr>))"

fun add_owner_refs :: "OwnerReference list \<Rightarrow> OwnerReference list \<Rightarrow> OwnerReference list" where
  "add_owner_refs ownerrefs [] = ownerrefs"
| "add_owner_refs ownerrefs (clusterOwnerref # refs) =
     add_owner_refs (if containsOwnerRef clusterOwnerref ownerrefs then ownerrefs else ownerrefs @ [clusterOwnerref]) refs"

definition serviceAccountUpdateFunc :: "'q updateFunc" where
  "serviceAccountUpdateFunc spec cluster =
     (case cluster of
        None \<Rightarrow> Inr spec
      | Some c \<Rightarrow> Inr (spec\<lparr>o_ResourceVersion := o_ResourceVersion c,
          o_OwnerReferences := add_owner_refs (o_OwnerReferences spec) (o_OwnerReferences c)\<rparr>))"

definition getUpdateFunc :: "'q object \<Rightarrow> 'q updateFunc" where
  "getUpdateFunc obj =
     (case kind_of (o_Content obj) of
        ServiceObj \<Rightarrow> serviceUpdateFunc
      | ServiceAccountObj \<Rightarrow> serviceAccountUpdateFunc
      | _ \<Rightarrow> defaultUpdateFunc)"

text \<open>A store into a nil map of labels or annotations panics.\<close>

fun put_all :: "(string, string) gomap \<Rightarrow> (string \<times> string) list \<Rightarrow> (string, string) gomap option" where
  "put_all m [] = Some m"
| "put_all m ((k, v) # kvs) = (case go_put m k v of None \<Rightarrow> None | Some m' \<Rightarrow> put_all m' kvs)"

definition unrecognizedObjectUpdateFunc :: "'q object \<Rightarrow> 'q object option \<Rightarrow> 'q object go_result" where
  "unrecognizedObjectUpdateFunc spec cluster =
     (case cluster of
        None \<Rightarrow> Err ''updating unrecognized object requires the cluster instance''
      | Some c \<Rightarrow>
     (case put_all (o_Labels c) (go_items (o_Labels spec)) of
        None \<Rightarrow> Panic
      | Some newLabels \<Rightarrow>
     (case put_all (o_Annotations c) (go_items (o_Annotations spec)) of
        None \<Rightarrow> Panic
      | Some newAnnotations \<Rightarrow>
          Ok (c\<lparr>o_Labels := newLabels, o_Annotations := newAnnotations,
                o_OwnerReferences := o_OwnerReferences c @
                  [ref \<leftarrow> o_OwnerReferences spec. \<not> list_ex (\<lambda>r. or_Kind ref = or_Kind r \<and> or_Name ref = or_Name r \<and> or_UID ref = or_UID r)
                     (o_OwnerReferences c)]\<rparr>))))"

definition unrecognizedObjectDiffFunc :: "'q diffFunc" where
  "unrecognizedObjectDiffFunc spec cluster = metadataDiffFunc spec cluster"

section \<open>Synchronisation\<close>

datatype NotInSyncReason = UpdatedObjectReason | CreatedObjectReason | DeletedObjectReason | NeedRetryReason

fun reason_text :: "NotInSyncReason \<Rightarrow> string" where
  "reason_text UpdatedObjectReason = ''Updated object''"
| "reason_text CreatedObjectReason = ''Created object''"
| "reason_text DeletedObjectReason = ''Deleted object''"
| "reason_text NeedRetryReason = ''Need to retry''"

datatype 'q sync_err = NotInSyncError NotInSyncReason "'q object" | UnrecoverableSyncError err | SyncWarning string "'q object" | ApiError api_err

fun sync_err_text :: "'q sync_err \<Rightarrow> string" where
  "sync_err_text (NotInSyncError reason obj) = type_name (kind_of (o_Content obj)) @ '' '' @ o_Name obj @ '' is not ready: '' @ reason_text reason"
| "sync_err_text (UnrecoverableSyncError cause) = cause"
| "sync_err_text (SyncWarning message _) = message"
| "sync_err_text (ApiError e) = api_err_text e"

fun WrapSyncError :: "'q sync_err \<Rightarrow> dw_error" where
  "WrapSyncError (NotInSyncError reason obj) = RetryError (sync_err_text (NotInSyncError reason obj)) 0"
| "WrapSyncError (UnrecoverableSyncError cause) = FailError cause"
| "WrapSyncError (SyncWarning message _) = WarningError message"
| "WrapSyncError (ApiError e) = OtherError (api_err_text e)"

definition isMutableObject :: "'q object \<Rightarrow> bool" where
  "isMutableObject obj \<longleftrightarrow> kind_of (o_Content obj) \<noteq> PVCObj"

definition update_outcome :: "'q object \<Rightarrow> api_err option \<Rightarrow> 'q sync_err" where
  "update_outcome specObj res =
     (case res of
        None \<Rightarrow> NotInSyncError UpdatedObjectReason specObj
      | Some (Conflict _) \<Rightarrow> NotInSyncError NeedRetryReason specObj
      | Some (NotFound _) \<Rightarrow> NotInSyncError NeedRetryReason specObj
      | Some (Invalid e) \<Rightarrow> UnrecoverableSyncError e
      | Some (Forbidden e) \<Rightarrow> UnrecoverableSyncError e
      | Some e \<Rightarrow> ApiError e)"

definition updateObjectGeneric :: "'q api_env \<Rightarrow> 'q object \<Rightarrow> 'q object option \<Rightarrow> 'q objects \<Rightarrow> 'q sync_err \<times> 'q objects" where
  "updateObjectGeneric env specObj clusterObj cl =
     (case getUpdateFunc specObj specObj clusterObj of
        Inl _ \<Rightarrow>
          (case client_Delete env specObj cl of
             (Some e, cl') \<Rightarrow> (ApiError e, cl')
           | (None, cl') \<Rightarrow> (NotInSyncError DeletedObjectReason specObj, cl'))
      | Inr updatedObj \<Rightarrow> (case client_Update env updatedObj cl of (res, cl') \<Rightarrow> (update_outcome specObj res, cl')))"

definition createObjectGeneric :: "'q api_env \<Rightarrow> 'q object \<Rightarrow> 'q objects \<Rightarrow> 'q sync_err \<times> 'q objects" where
  "createObjectGeneric env specObj cl =
     (case client_Create env specObj cl of
        (None, cl') \<Rightarrow> (NotInSyncError CreatedObjectReason specObj, cl')
      | (Some (AlreadyExists _), cl') \<Rightarrow> updateObjectGeneric env specObj None cl'
      | (Some (Invalid e), cl') \<Rightarrow> (UnrecoverableSyncError e, cl')
      | (Some (Forbidden e), cl') \<Rightarrow> (UnrecoverableSyncError e, cl')
      | (Some e, cl') \<Rightarrow> (ApiError e, cl'))"

definition SyncObjectWithCluster :: "'q api_env \<Rightarrow> 'q object \<Rightarrow> 'q objects \<Rightarrow> ('q sync_err + 'q object) \<times> 'q objects" where
  "SyncObjectWithCluster env specObj cl =
     (case client_Get env (obj_key_of specObj) cl of
        Inl (NotFound _) \<Rightarrow> (case createObjectGeneric env specObj cl of (e, cl') \<Rightarrow> (Inl e, cl'))
      | Inl e \<Rightarrow> (Inl (ApiError e), cl)
      | Inr clusterObj \<Rightarrow>
          if \<not> isMutableObject specObj then (Inr clusterObj, cl)
          else (case diffFuncs env (kind_of (o_Content specObj)) of
             None \<Rightarrow> (Inl (UnrecoverableSyncError (''attempting to sync unrecognized object '' @ type_name (kind_of (o_Content specObj)))), cl)
           | Some diffFunc \<Rightarrow>
               (case diffFunc specObj clusterObj of
                  (True, _) \<Rightarrow>
                    (case client_Delete env specObj cl of
                       (Some e, cl') \<Rightarrow> (Inl (ApiError e), cl')
                     | (None, cl') \<Rightarrow> (Inl (NotInSyncError DeletedObjectReason specObj), cl'))
                | (False, True) \<Rightarrow> (case updateObjectGeneric env specObj (Some clusterObj) cl of (e, cl') \<Rightarrow> (Inl e, cl'))
                | (False, False) \<Rightarrow> (Inr clusterObj, cl))))"

text \<open>\<open>None\<close> is a panic.\<close>

definition SyncUnrecognizedObjectWithCluster ::
  "'q api_env \<Rightarrow> 'q object \<Rightarrow> 'q objects \<Rightarrow> (('q sync_err + 'q object) \<times> 'q objects) option" where
  "SyncUnrecognizedObjectWithCluster env specObj cl =
     (case client_Get env (obj_key_of specObj) cl of
        Inl (NotFound _) \<Rightarrow> Some (case createObjectGeneric env specObj cl of (e, cl') \<Rightarrow> (Inl e, cl'))
      | Inl e \<Rightarrow> Some (Inl (ApiError e), cl)
      | Inr clusterObj \<Rightarrow>
          let (update, del) = unrecognizedObjectDiffFunc specObj clusterObj in
          if update then
            (case unrecognizedObjectUpdateFunc specObj (Some clusterObj) of
               Panic \<Rightarrow> None
             | Err e \<Rightarrow> Some (Inl (UnrecoverableSyncError e), cl)
             | Ok toUpdate \<Rightarrow>
                 (case client_Update env toUpdate cl of
                    (None, cl') \<Rightarrow> Some (Inl (NotInSyncError UpdatedObjectReason specObj), cl')
                  | (Some (Conflict _), cl') \<Rightarrow> Some (Inl (NotInSyncError NeedRetryReason specObj), cl')
                  | (Some (Invalid e), cl') \<Rightarrow> Some (Inl (UnrecoverableSyncError e), cl')
                  | (Some (Forbidden e), cl') \<Rightarrow> Some (Inl (UnrecoverableSyncError e), cl')
                  | (Some e, cl') \<Rightarrow> Some (Inl (ApiError e), cl')))
          else if del then
            (case client_Delete env clusterObj cl of
               (None, cl') \<Rightarrow> Some (Inl (NotInSyncError DeletedObjectReason specObj), cl')
             | (Some (Forbidden e), cl') \<Rightarrow>
                 Some (Inl (UnrecoverableSyncError (''failed to delete object '' @ o_Name clusterObj @ '': '' @ e)), cl')
             | (Some e, cl') \<Rightarrow> Some (Inl (ApiError e), cl'))
          else Some (Inl (SyncWarning (''Unrecognized object kind '' @ type_name (kind_of (o_Content specObj)) @
                                      ''. Object will not be updated on cluster'') clusterObj), cl))"

end
