(* ===== verification/Automount.thy ===== *)
theory Automount
  imports Containers Sync "HOL-Library.Sublist"
begin

text \<open>
  Automounted resources (\<^verbatim>\<open>src/pkg/provision/automount\<close>): config maps, secrets and volume claims that are mounted into every workspace of their namespace,
  the git configuration that is built from labelled objects, the merging of mounts with the same path into projected volumes, and
  the check for collisions.

  What the functions list on the cluster is in the record \<open>automount_env\<close>. The deployment of a running workspace is what the code
  reads of it. The order in which a map is visited is the order of its association list.
\<close>

section \<open>Objects and resources\<close>

record automount_object =
  am_Name :: string
  am_Annotations :: "(string, string) gomap"
  am_Data :: "(string \<times> string) list"
  am_BinaryData :: "(string \<times> string) list"  \<comment> \<open>empty for secrets and claims\<close>

record running_deployment =
  rd_Volumes :: "string list"
  rd_EnvFrom :: "EnvFromSource list list"

record 'q AutomountResources =
  ar_Volumes :: "'q Volume list"
  ar_VolumeMounts :: "VolumeMount list"
  ar_EnvFromSource :: "EnvFromSource list"

definition no_automount :: "'q AutomountResources" where
  "no_automount = \<lparr>ar_Volumes = [], ar_VolumeMounts = [], ar_EnvFromSource = []\<rparr>"

record mountPathEntry =
  mpe_Path :: string
  mpe_SubPath :: string

record 'q automount_env =
  ae_api :: "'q api_env"
  ae_configmaps :: "err + automount_object list"
  ae_secrets :: "err + automount_object list"
  ae_pvcs :: "err + automount_object list"
  ae_gitCredentials :: "err + automount_object list"
  ae_gitTLS :: "err + automount_object list"
  ae_parseEntries :: "string \<Rightarrow> err + mountPathEntry list"  \<comment> \<open>\<^verbatim>\<open>json.Unmarshal\<close>\<close>
  ae_sha :: "string \<Rightarrow> string"

definition annotation :: "automount_object \<Rightarrow> string \<Rightarrow> string" where
  "annotation obj key = go_at (am_Annotations obj) key"

definition MountOnStartAttribute :: string where "MountOnStartAttribute = ''controller.devfile.io/mount-on-start''"
definition DevWorkspaceMountIncludeAnnotation :: string where "DevWorkspaceMountIncludeAnnotation = ''controller.devfile.io/mount-to-devworkspace-include''"
definition DevWorkspaceMountExcludeAnnotation :: string where "DevWorkspaceMountExcludeAnnotation = ''controller.devfile.io/mount-to-devworkspace-exclude''"
definition DevWorkspaceMountPathAnnotation :: string where "DevWorkspaceMountPathAnnotation = ''controller.devfile.io/mount-path''"
definition DevWorkspaceMountAsAnnotation :: string where "DevWorkspaceMountAsAnnotation = ''controller.devfile.io/mount-as''"
definition DevWorkspaceMountAccessModeAnnotation :: string where "DevWorkspaceMountAccessModeAnnotation = ''controller.devfile.io/mount-access-mode''"
definition DevWorkspaceMountReadyOnlyAnnotation :: string where "DevWorkspaceMountReadyOnlyAnnotation = ''controller.devfile.io/read-only''"
definition GitCredentialsConfigMapName :: string where "GitCredentialsConfigMapName = ''devworkspace-gitconfig''"
definition GitCredentialsMergedSecretName :: string where "GitCredentialsMergedSecretName = ''devworkspace-merged-git-credentials''"
definition DevWorkspaceMountAsEnv :: string where "DevWorkspaceMountAsEnv = ''env''"
definition DevWorkspaceMountAsFile :: string where "DevWorkspaceMountAsFile = ''file''"
definition DevWorkspaceMountAsSubpath :: string where "DevWorkspaceMountAsSubpath = ''subpath''"

lemmas mount_as_defs = DevWorkspaceMountAsEnv_def DevWorkspaceMountAsFile_def DevWorkspaceMountAsSubpath_def

section \<open>Which workspaces\<close>

text \<open>\<^verbatim>\<open>strings.TrimSpace\<close> on ASCII text.\<close>

definition is_space :: "char \<Rightarrow> bool" where
  "is_space c \<longleftrightarrow> c \<in> {CHR 0x09, CHR 0x0A, CHR 0x0B, CHR 0x0C, CHR 0x0D, CHR '' ''}"

definition TrimSpace :: "string \<Rightarrow> string" where
  "TrimSpace s = rev (dropWhile is_space (rev (dropWhile is_space s)))"

definition matches_pattern :: "string \<Rightarrow> string \<Rightarrow> bool" where
  "matches_pattern pattern workspaceName =
     (if pattern = ''*'' then True
      else
        let startsWithWildcard = prefix ''*'' pattern; endsWithWildcard = suffix ''*'' pattern in
        if startsWithWildcard \<and> endsWithWildcard then sublist (butlast (tl pattern)) workspaceName
        else if endsWithWildcard then prefix (butlast pattern) workspaceName
        else if startsWithWildcard then suffix (tl pattern) workspaceName
        else workspaceName = pattern)"

definition matchesAnyPattern :: "string \<Rightarrow> string \<Rightarrow> bool" where
  "matchesAnyPattern patternsStr workspaceName =
     list_ex (\<lambda>pattern. TrimSpace pattern \<noteq> [] \<and> matches_pattern (TrimSpace pattern) workspaceName) (strings_split (CHR '','') patternsStr)"

definition MatchesWorkspaceTarget :: "automount_object \<Rightarrow> string \<Rightarrow> bool" where
  "MatchesWorkspaceTarget obj workspaceName =
     (let includePatterns = TrimSpace (annotation obj DevWorkspaceMountIncludeAnnotation);
          excludePatterns = TrimSpace (annotation obj DevWorkspaceMountExcludeAnnotation);
          included = (includePatterns = [] \<or> matchesAnyPattern includePatterns workspaceName);
          excluded = (excludePatterns \<noteq> [] \<and> matchesAnyPattern excludePatterns workspaceName) in
      included \<and> \<not> excluded)"

section \<open>Running workspaces\<close>

definition isMountOnStart :: "automount_object \<Rightarrow> bool" where
  "isMountOnStart obj \<longleftrightarrow> annotation obj MountOnStartAttribute = ''true''"

definition isVolumeMountExistsInDeployment :: "'q AutomountResources \<Rightarrow> running_deployment \<Rightarrow> bool" where
  "isVolumeMountExistsInDeployment automountResource workspaceDeployment \<longleftrightarrow>
     list_ex (\<lambda>v. v_Name v \<in> set (rd_Volumes workspaceDeployment)) (ar_Volumes automountResource)"

definition same_env_source :: "EnvFromSource \<Rightarrow> EnvFromSource \<Rightarrow> bool" where
  "same_env_source a b \<longleftrightarrow>
     ef_ConfigMapRef a \<noteq> None \<and> ef_ConfigMapRef a = ef_ConfigMapRef b \<or> ef_SecretRef a \<noteq> None \<and> ef_SecretRef a = ef_SecretRef b"

definition isEnvFromSourceExistsInDeployment :: "'q AutomountResources \<Rightarrow> running_deployment \<Rightarrow> bool" where
  "isEnvFromSourceExistsInDeployment automountResource workspaceDeployment \<longleftrightarrow>
     list_ex (\<lambda>envFrom. list_ex (\<lambda>a. list_ex (same_env_source a) envFrom) (ar_EnvFromSource automountResource)) (rd_EnvFrom workspaceDeployment)"

definition existsInDeployment :: "'q AutomountResources \<Rightarrow> running_deployment \<Rightarrow> bool" where
  "existsInDeployment automountResource workspaceDeployment \<longleftrightarrow>
     isVolumeMountExistsInDeployment automountResource workspaceDeployment \<or> isEnvFromSourceExistsInDeployment automountResource workspaceDeployment"

definition canMountWithoutRestart :: "automount_object \<Rightarrow> 'q AutomountResources \<Rightarrow> running_deployment option \<Rightarrow> bool" where
  "canMountWithoutRestart obj automountResource workspaceDeployment =
     (case workspaceDeployment of
        None \<Rightarrow> True
      | Some d \<Rightarrow> \<not> isMountOnStart obj \<or> existsInDeployment automountResource d)"

section \<open>Access mode\<close>

text \<open>\<^verbatim>\<open>strconv.ParseInt(s, 0, 32)\<close>: a sign, a prefix for the base, digits and underscores between them.\<close>

definition digit_of :: "char \<Rightarrow> nat option" where
  "digit_of c =
     (let n = of_char c :: nat; l = of_char (lower_char c) :: nat in
      if 48 \<le> n \<and> n \<le> 57 then Some (n - 48) else if 97 \<le> l \<and> l \<le> 122 then Some (l - 97 + 10) else None)"

text \<open>The error is whether the value is out of range: of 32 bits as soon as that shows, before later characters are read.\<close>

fun parse_digits :: "nat \<Rightarrow> string \<Rightarrow> nat \<Rightarrow> bool + nat" where
  "parse_digits base [] n = Inr n"
| "parse_digits base (c # cs) n =
     (if c = CHR ''_'' then parse_digits base cs n
      else case digit_of c of
             None \<Rightarrow> Inl False
           | Some d \<Rightarrow>
               if d \<ge> base then Inl False
               else if n * base + d \<ge> 2 ^ 32 then Inl True
               else parse_digits base cs (n * base + d))"

text \<open>An underscore follows a digit, or the prefix, and is followed by a digit; \<open>saw\<close> is \<open>0\<close> after a digit and \<open>_\<close> after an underscore.\<close>

fun underscoreOK_from :: "bool \<Rightarrow> char \<Rightarrow> string \<Rightarrow> bool" where
  "underscoreOK_from hex saw [] \<longleftrightarrow> saw \<noteq> CHR ''_''"
| "underscoreOK_from hex saw (c # cs) =
     (if (case digit_of c of None \<Rightarrow> False | Some d \<Rightarrow> d < 10 \<or> hex \<and> d < 16) then underscoreOK_from hex (CHR ''0'') cs
      else if c = CHR ''_'' then saw = CHR ''0'' \<and> underscoreOK_from hex (CHR ''_'') cs
      else saw \<noteq> CHR ''_'' \<and> underscoreOK_from hex (CHR ''!'') cs)"

definition parse_unsigned :: "string \<Rightarrow> bool + nat" where
  "parse_unsigned s =
     (let marker = (if length s \<ge> 3 \<and> hd s = CHR ''0'' then lower_char (s ! 1) else CHR '' '');
          (base, digits) =
            (if marker = CHR ''b'' then (2, drop 2 s)
             else if marker = CHR ''o'' then (8, drop 2 s)
             else if marker = CHR ''x'' then (16, drop 2 s)
             else if hd s = CHR ''0'' then (8, drop 1 s)
             else (10, s));
          prefixed = (length s \<ge> 2 \<and> hd s = CHR ''0'' \<and> lower_char (s ! 1) \<in> {CHR ''b'', CHR ''o'', CHR ''x''}) in
      case parse_digits base digits 0 of Inl e \<Rightarrow> Inl e | Inr n \<Rightarrow>
      if CHR ''_'' \<in> set digits \<and>
         \<not> underscoreOK_from (prefixed \<and> lower_char (s ! 1) = CHR ''x'') (if prefixed then CHR ''0'' else CHR ''^'') (if prefixed then drop 2 s else s)
      then Inl False else Inr n)"

definition ParseInt32 :: "string \<Rightarrow> err + int" where
  "ParseInt32 s =
     (let syntax_err = Inl (''strconv.ParseInt: parsing '' @ dq @ s @ dq @ '': invalid syntax'');
          range_err = Inl (''strconv.ParseInt: parsing '' @ dq @ s @ dq @ '': value out of range'');
          (neg, body) = (case s of CHR ''+'' # r \<Rightarrow> (False, r) | CHR ''-'' # r \<Rightarrow> (True, r) | _ \<Rightarrow> (False, s)) in
      if body = [] then syntax_err
      else case parse_unsigned body of
             Inl False \<Rightarrow> syntax_err
           | Inl True \<Rightarrow> range_err
           | Inr n \<Rightarrow>
               if \<not> neg \<and> n \<ge> 2 ^ 31 \<or> neg \<and> n > 2 ^ 31 then range_err
               else Inr (if neg then - int n else int n))"

fun format_octal :: "nat \<Rightarrow> string" where
  "format_octal n = (if n < 8 then [digit_char n] else format_octal (n div 8) @ [digit_char (n mod 8)])"

declare format_octal.simps [simp del]

text \<open>
  The mode is \<open>None\<close> for the pointer \<^verbatim>\<open>defaultAccessMode\<close>, with which the code compares the pointer, not its value.
\<close>

definition defaultAccessMode :: int where "defaultAccessMode = 416"  \<comment> \<open>0640\<close>

definition mode_value :: "int option \<Rightarrow> int" where
  "mode_value m = (case m of None \<Rightarrow> defaultAccessMode | Some v \<Rightarrow> v)"

definition getAccessModeForAutomount :: "automount_object \<Rightarrow> err + int option" where
  "getAccessModeForAutomount obj =
     (let accessModeStr = annotation obj DevWorkspaceMountAccessModeAnnotation in
      if accessModeStr = [] then Inr None
      else (case ParseInt32 accessModeStr of
              Inl e \<Rightarrow> Inl e
            | Inr accessMode \<Rightarrow>
                if accessMode < 0 \<or> accessMode > 511
                then Inl (''invalid access mode annotation: value '' @ sq @ accessModeStr @ sq @ '' parsed to '' @
                          (if accessMode < 0 then ''-'' else []) @ format_octal (nat \<bar>accessMode\<bar>) @ '' (octal)'')
                else Inr (Some accessMode)))"

section \<open>Mounting one object\<close>

definition plain_item :: "int option \<Rightarrow> string \<Rightarrow> KeyToPath" where
  "plain_item mode key = \<lparr>ktp_Key = key, ktp_Path = key, ktp_Mode = Some (mode_value mode)\<rparr>"

text \<open>The items of a volume, sorted by key: only where the mode is not the default one.\<close>

definition volume_items :: "int option \<Rightarrow> string list \<Rightarrow> KeyToPath list" where
  "volume_items mode keys = (if mode = None then [] else sort_key ktp_Key (map (plain_item mode) keys))"

definition read_only_mount :: "string \<Rightarrow> string \<Rightarrow> string \<Rightarrow> VolumeMount" where
  "read_only_mount name path sub = (plain_mount name path)\<lparr>vm_ReadOnly := True, vm_SubPath := sub\<rparr>"

definition object_keys :: "automount_object \<Rightarrow> string list" where
  "object_keys obj = map fst (am_Data obj) @ map fst (am_BinaryData obj)"

text \<open>What mounting an object with a given volume and source of environment variables requires.\<close>

definition mount_object ::
  "'q Volume \<Rightarrow> EnvFromSource \<Rightarrow> string list \<Rightarrow> string \<Rightarrow> string \<Rightarrow> 'q AutomountResources" where
  "mount_object volume envFrom keys mountPath mountAs =
     (if mountAs = DevWorkspaceMountAsEnv then no_automount\<lparr>ar_EnvFromSource := [envFrom]\<rparr>
      else if mountAs = DevWorkspaceMountAsSubpath
      then no_automount\<lparr>ar_Volumes := [volume], ar_VolumeMounts := map (\<lambda>key. read_only_mount (v_Name volume) (path_Join [mountPath, key]) key) keys\<rparr>
      else if mountAs = [] \<or> mountAs = DevWorkspaceMountAsFile
      then no_automount\<lparr>ar_Volumes := [volume], ar_VolumeMounts := [read_only_mount (v_Name volume) mountPath []]\<rparr>
      else no_automount)"

definition getAutomountConfigmap :: "string \<Rightarrow> string \<Rightarrow> int option \<Rightarrow> automount_object \<Rightarrow> 'q AutomountResources" where
  "getAutomountConfigmap mountPath mountAs accessMode configmap =
     mount_object
       (volume_of (AutoMountConfigMapVolumeName (am_Name configmap)) ConfigMap
          (ConfigMapData (am_Name configmap) (volume_items accessMode (object_keys configmap)) (Some (mode_value accessMode)) None))
       \<lparr>ef_ConfigMapRef = Some (am_Name configmap), ef_SecretRef = None\<rparr> (object_keys configmap) mountPath mountAs"

definition getAutomountSecret :: "string \<Rightarrow> string \<Rightarrow> int option \<Rightarrow> automount_object \<Rightarrow> 'q AutomountResources" where
  "getAutomountSecret mountPath mountAs accessMode secret =
     mount_object
       (volume_of (AutoMountSecretVolumeName (am_Name secret)) Secret
          (SecretData (am_Name secret) (volume_items accessMode (map fst (am_Data secret))) (Some (mode_value accessMode))))
       \<lparr>ef_ConfigMapRef = None, ef_SecretRef = Some (am_Name secret)\<rparr> (map fst (am_Data secret)) mountPath mountAs"

definition checkAutomountVolumeForPotentialError :: "string \<Rightarrow> automount_object \<Rightarrow> string" where
  "checkAutomountVolumeForPotentialError kind obj =
     (let objDesc = kind @ '' '' @ am_Name obj; mountAs = annotation obj DevWorkspaceMountAsAnnotation;
          mountPath = annotation obj DevWorkspaceMountPathAnnotation in
      if mountAs = DevWorkspaceMountAsEnv then
        (if mountPath \<noteq> []
         then ''automatically mounted '' @ objDesc @ '' should not define a mount path if it is mounted as environment variables'' else [])
      else if mountAs = DevWorkspaceMountAsFile then
        (let mountPath = (if suffix ''/'' mountPath then mountPath else mountPath @ ''/'') in
         if CHR '':'' \<in> set mountPath then ''automatically mounted '' @ objDesc @ '' mount path cannot contain '' @ sq @ '':'' @ sq
         else if mountPath \<in> {''/etc/'', ''/usr/'', ''/lib/'', ''/tmp/''}
         then ''automatically mounted '' @ objDesc @ '' is mounted as files but collides with system path '' @ mountPath @ '' -- mount as subpath instead''
         else [])
      else [])"

definition flattenAutomountResources :: "'q AutomountResources list \<Rightarrow> 'q AutomountResources" where
  "flattenAutomountResources resources =
     \<lparr>ar_Volumes = concat (map ar_Volumes resources), ar_VolumeMounts = concat (map ar_VolumeMounts resources),
      ar_EnvFromSource = concat (map ar_EnvFromSource resources)\<rparr>"

text \<open>Nil arguments are skipped.\<close>

definition mergeAutomountResources :: "'q AutomountResources option list \<Rightarrow> 'q AutomountResources" where
  "mergeAutomountResources resources = flattenAutomountResources (List.map_filter (\<lambda>r. r) resources)"

section \<open>Mounting all objects\<close>

text \<open>The loop over the objects of one kind: \<open>defaultPath\<close> is the path for an object without one.\<close>

fun collect_objects ::
  "string \<Rightarrow> (automount_object \<Rightarrow> string) \<Rightarrow> (string \<Rightarrow> string \<Rightarrow> int option \<Rightarrow> automount_object \<Rightarrow> 'q AutomountResources) \<Rightarrow>
   string \<Rightarrow> running_deployment option \<Rightarrow> automount_object list \<Rightarrow> 'q AutomountResources list dw_result" where
  "collect_objects kind defaultPath automount workspaceName workspaceDeployment [] = DwOk []"
| "collect_objects kind defaultPath automount workspaceName workspaceDeployment (obj # objs) =
     (if \<not> MatchesWorkspaceTarget obj workspaceName then collect_objects kind defaultPath automount workspaceName workspaceDeployment objs
      else
        let mountAs = annotation obj DevWorkspaceMountAsAnnotation; path = annotation obj DevWorkspaceMountPathAnnotation;
            mountPath = (if path = [] then defaultPath obj else path) in
        dw_bind (dw_fail (''failed to process '' @ kind @ '' '' @ am_Name obj) (getAccessModeForAutomount obj)) (\<lambda>accessMode.
          let resource = automount mountPath mountAs accessMode obj in
          if \<not> canMountWithoutRestart obj resource workspaceDeployment
          then collect_objects kind defaultPath automount workspaceName workspaceDeployment objs
          else if checkAutomountVolumeForPotentialError kind obj \<noteq> [] then DwErr (FailError (checkAutomountVolumeForPotentialError kind obj))
          else dw_bind (collect_objects kind defaultPath automount workspaceName workspaceDeployment objs) (\<lambda>rs. DwOk (resource # rs))))"

definition sort_objects :: "automount_object list \<Rightarrow> automount_object list" where
  "sort_objects = sort_key am_Name"

definition getDevWorkspaceConfigmaps :: "'q automount_env \<Rightarrow> string \<Rightarrow> running_deployment option \<Rightarrow> 'q AutomountResources dw_result" where
  "getDevWorkspaceConfigmaps env workspaceName workspaceDeployment =
     dw_bind (dw_plain (ae_configmaps env)) (\<lambda>configmaps.
     dw_bind (collect_objects ''configmap'' (\<lambda>cm. path_Join [''/etc/config/'', am_Name cm]) getAutomountConfigmap workspaceName workspaceDeployment
                (sort_objects configmaps)) (\<lambda>rs.
     DwOk (flattenAutomountResources rs)))"

definition getDevWorkspaceSecrets :: "'q automount_env \<Rightarrow> string \<Rightarrow> running_deployment option \<Rightarrow> 'q AutomountResources dw_result" where
  "getDevWorkspaceSecrets env workspaceName workspaceDeployment =
     dw_bind (dw_plain (ae_secrets env)) (\<lambda>secrets.
     dw_bind (collect_objects ''secret'' (\<lambda>secret. path_Join [''/etc/'', ''secret/'', am_Name secret]) getAutomountSecret workspaceName workspaceDeployment
                (sort_objects secrets)) (\<lambda>rs.
     DwOk (flattenAutomountResources rs)))"

fun first_missing :: "nat \<Rightarrow> mountPathEntry list \<Rightarrow> nat option" where
  "first_missing i [] = None"
| "first_missing i (entry # entries) = (if mpe_Path entry = [] then Some i else first_missing (Suc i) entries)"

definition parseMountPathAnnotation :: "'q automount_env \<Rightarrow> string \<Rightarrow> string \<Rightarrow> err + mountPathEntry list" where
  "parseMountPathAnnotation env annot pvcName =
     (let default = [\<lparr>mpe_Path = path_Join [''/tmp/'', pvcName], mpe_SubPath = []\<rparr>] in
      if annot = [] then Inr default
      else if \<not> prefix ''['' annot then Inr [\<lparr>mpe_Path = annot, mpe_SubPath = []\<rparr>]
      else (case ae_parseEntries env annot of
              Inl e \<Rightarrow> Inl (''failed to parse mount-path annotation on PVC '' @ pvcName @ '': '' @ e)
            | Inr [] \<Rightarrow> Inr default
            | Inr entries \<Rightarrow>
                (case first_missing 0 entries of
                   Some i \<Rightarrow> Inl (''mount-path annotation on PVC '' @ pvcName @ '': entry '' @ format_nat i @ '' is missing required field '' @ sq @ ''path'' @ sq)
                 | None \<Rightarrow> Inr entries)))"

definition automount_pvc :: "automount_object \<Rightarrow> mountPathEntry list \<Rightarrow> 'q AutomountResources" where
  "automount_pvc pvc entries =
     no_automount\<lparr>ar_Volumes := [volume_of (AutoMountPVCVolumeName (am_Name pvc)) PersistentVolumeClaim
         (ClaimData (am_Name pvc) (annotation pvc DevWorkspaceMountReadyOnlyAnnotation = ''true''))],
       ar_VolumeMounts := map (\<lambda>entry. (plain_mount (AutoMountPVCVolumeName (am_Name pvc)) (mpe_Path entry))\<lparr>vm_SubPath := mpe_SubPath entry\<rparr>) entries\<rparr>"

fun collect_pvcs :: "'q automount_env \<Rightarrow> string \<Rightarrow> running_deployment option \<Rightarrow> automount_object list \<Rightarrow> 'q AutomountResources list dw_result" where
  "collect_pvcs env workspaceName workspaceDeployment [] = DwOk []"
| "collect_pvcs env workspaceName workspaceDeployment (pvc # pvcs) =
     (if \<not> MatchesWorkspaceTarget pvc workspaceName then collect_pvcs env workspaceName workspaceDeployment pvcs
      else
        dw_bind (dw_plain (parseMountPathAnnotation env (annotation pvc DevWorkspaceMountPathAnnotation) (am_Name pvc))) (\<lambda>entries.
          if \<not> canMountWithoutRestart pvc (automount_pvc pvc entries :: 'q AutomountResources) workspaceDeployment
          then collect_pvcs env workspaceName workspaceDeployment pvcs
          else dw_bind (collect_pvcs env workspaceName workspaceDeployment pvcs) (\<lambda>rs. DwOk (automount_pvc pvc entries # rs))))"

definition getAutoMountPVCs :: "'q automount_env \<Rightarrow> string \<Rightarrow> running_deployment option \<Rightarrow> 'q AutomountResources option dw_result" where
  "getAutoMountPVCs env workspaceName workspaceDeployment =
     dw_bind (dw_plain (ae_pvcs env)) (\<lambda>pvcs.
       if pvcs = [] then DwOk None
       else dw_bind (collect_pvcs env workspaceName workspaceDeployment pvcs) (\<lambda>rs. DwOk (Some (flattenAutomountResources rs))))"

section \<open>Projected volumes\<close>

definition formatVolumeDescription :: "'q Volume \<Rightarrow> string" where
  "formatVolumeDescription vol =
     (case v_Source vol Secret of
        Some (SecretData name _ _) \<Rightarrow> ''secret '' @ sq @ name @ sq
      | _ \<Rightarrow> (case v_Source vol ConfigMap of
          Some (ConfigMapData name _ _ _) \<Rightarrow> ''configmap '' @ sq @ name @ sq
        | _ \<Rightarrow> (case v_Source vol PersistentVolumeClaim of
            Some (ClaimData name _) \<Rightarrow> ''pvc '' @ sq @ name @ sq
          | _ \<Rightarrow> sq @ v_Name vol @ sq)))"

definition getVolumeDescriptionFromVolumeMount :: "VolumeMount \<Rightarrow> 'q Volume list \<Rightarrow> string" where
  "getVolumeDescriptionFromVolumeMount vm volumes =
     (case find (\<lambda>v. v_Name v = vm_Name vm) volumes of None \<Rightarrow> vm_Name vm | Some v \<Rightarrow> formatVolumeDescription v)"

text \<open>The volume of a name in the map that the loop builds: the last one, or the zero value.\<close>

definition volume_named :: "'q Volume list \<Rightarrow> string \<Rightarrow> 'q Volume" where
  "volume_named volumes name = (case find (\<lambda>v. v_Name v = name) (rev volumes) of None \<Rightarrow> \<lparr>v_Name = [], v_Source = (\<lambda>_. None)\<rparr> | Some v \<Rightarrow> v)"

definition checkCanUseProjectedVolumes :: "'q Volume list \<Rightarrow> VolumeMount list \<Rightarrow> unit dw_result" where
  "checkCanUseProjectedVolumes volumes volumeMounts =
     (if list_ex (\<lambda>vm. vm_SubPath vm \<noteq> [] \<or> vm_SubPathExpr vm \<noteq> [] \<or> v_Source (volume_named volumes (vm_Name vm)) PersistentVolumeClaim \<noteq> None) volumeMounts
      then DwErr (FailError (''auto-mounted volumes from ('' @
             strings_join '', '' (map (\<lambda>vm. formatVolumeDescription (volume_named volumes (vm_Name vm))) volumeMounts) @ '') have the same mount path''))
      else DwOk ())"

definition projection_of :: "'q Volume \<Rightarrow> err + VolumeProjection" where
  "projection_of volume =
     (case v_Source volume Secret of
        Some (SecretData name items _) \<Rightarrow> Inr (SecretProjection name items)
      | _ \<Rightarrow> (case v_Source volume ConfigMap of
          Some (ConfigMapData name items _ _) \<Rightarrow> Inr (ConfigMapProjection name items)
        | _ \<Rightarrow> Inl (''unrecognized volume type for volume '' @ v_Name volume)))"

fun projections :: "'q Volume list \<Rightarrow> VolumeMount list \<Rightarrow> err + VolumeProjection list" where
  "projections volumes [] = Inr []"
| "projections volumes (vm # vms) =
     (case projection_of (volume_named volumes (vm_Name vm)) of
        Inl e \<Rightarrow> Inl e
      | Inr p \<Rightarrow> map_sum id ((#) p) (projections volumes vms))"

fun projection_name :: "VolumeProjection \<Rightarrow> string" where
  "projection_name (SecretProjection name _) = name"
| "projection_name (ConfigMapProjection name _) = name"
| "projection_name (TokenProjection _ _ _) = []"

fun is_configmap_projection :: "VolumeProjection \<Rightarrow> bool" where
  "is_configmap_projection (SecretProjection _ _) = False"
| "is_configmap_projection (ConfigMapProjection _ _) = True"
| "is_configmap_projection (TokenProjection _ _ _) = False"

text \<open>Config maps first, then secrets, each by name.\<close>

definition sort_projections :: "VolumeProjection list \<Rightarrow> VolumeProjection list" where
  "sort_projections ps =
     sort_key projection_name [p \<leftarrow> ps. is_configmap_projection p] @ sort_key projection_name [p \<leftarrow> ps. \<not> is_configmap_projection p]"

definition generateProjectedVolume ::
  "(string \<Rightarrow> string) \<Rightarrow> 'q Volume list \<Rightarrow> string \<Rightarrow> VolumeMount list \<Rightarrow> (VolumeMount \<times> 'q Volume) dw_result" where
  "generateProjectedVolume sha volumes mountPath volumeMounts =
     dw_bind (checkCanUseProjectedVolumes volumes volumeMounts) (\<lambda>_.
     dw_bind (dw_plain (projections volumes volumeMounts)) (\<lambda>sources.
       let volumeName = AutoMountProjectedVolumeName sha mountPath in
       DwOk (read_only_mount volumeName mountPath [],
             volume_of volumeName Projected (ProjectedData (sort_projections sources) (Some 416)))))"

fun merge_paths ::
  "(string \<Rightarrow> string) \<Rightarrow> 'q AutomountResources \<Rightarrow> string list \<Rightarrow> string list \<Rightarrow> 'q AutomountResources \<Rightarrow> 'q AutomountResources dw_result" where
  "merge_paths sha resources [] mergedVolumeNames merged = DwOk merged"
| "merge_paths sha resources (mountPath # mountPaths) mergedVolumeNames merged =
     (case [vm \<leftarrow> ar_VolumeMounts resources. vm_MountPath vm = mountPath] of
        [] \<Rightarrow> merge_paths sha resources mountPaths mergedVolumeNames merged
      | [vm] \<Rightarrow>
          let volume = volume_named (ar_Volumes resources) (vm_Name vm); isMerged = (v_Name volume \<in> set mergedVolumeNames) in
          merge_paths sha resources mountPaths (if isMerged then mergedVolumeNames else v_Name volume # mergedVolumeNames)
            (merged\<lparr>ar_VolumeMounts := ar_VolumeMounts merged @ [vm],
                    ar_Volumes := ar_Volumes merged @ (if isMerged then [] else [volume])\<rparr>)
      | volumeMounts \<Rightarrow>
          dw_bind (generateProjectedVolume sha (ar_Volumes resources) mountPath volumeMounts) (\<lambda>(vm, vol).
            merge_paths sha resources mountPaths mergedVolumeNames
              (merged\<lparr>ar_VolumeMounts := ar_VolumeMounts merged @ [vm], ar_Volumes := ar_Volumes merged @ [vol]\<rparr>)))"

text \<open>The paths in order, each once; nothing is done when all differ.\<close>

definition mergeProjectedVolumes :: "(string \<Rightarrow> string) \<Rightarrow> 'q AutomountResources \<Rightarrow> 'q AutomountResources dw_result" where
  "mergeProjectedVolumes sha resources =
     (let mountPaths = map vm_MountPath (ar_VolumeMounts resources) in
      if distinct mountPaths then DwOk resources
      else dw_bind (merge_paths sha resources (sort (remdups mountPaths)) [] no_automount)
             (\<lambda>merged. DwOk (merged\<lparr>ar_EnvFromSource := ar_EnvFromSource resources\<rparr>)))"

text \<open>The items of config maps and secrets are dropped.\<close>

definition drop_items :: "'q Volume \<Rightarrow> 'q Volume" where
  "drop_items volume =
     (case v_Source volume ConfigMap of
        Some (ConfigMapData name _ mode optional) \<Rightarrow> volume\<lparr>v_Source := (v_Source volume)(ConfigMap := Some (ConfigMapData name [] mode optional))\<rparr>
      | Some _ \<Rightarrow> volume
      | None \<Rightarrow> (case v_Source volume Secret of
          Some (SecretData name _ mode) \<Rightarrow> volume\<lparr>v_Source := (v_Source volume)(Secret := Some (SecretData name [] mode))\<rparr>
        | _ \<Rightarrow> volume))"

definition dropItemsFieldFromVolumes :: "'q Volume list \<Rightarrow> 'q Volume list" where
  "dropItemsFieldFromVolumes = map drop_items"

section \<open>Git configuration\<close>

definition gitTLSHostKey :: string where "gitTLSHostKey = ''host''"
definition gitTLSCertificateKey :: string where "gitTLSCertificateKey = ''certificate''"
definition gitConfigName :: string where "gitConfigName = ''gitconfig''"
definition gitConfigLocation :: string where "gitConfigLocation = ''/etc/gitconfig''"
definition gitCredentialsSecretKey :: string where "gitCredentialsSecretKey = ''credentials''"
definition mergedGitCredentialsMountPath :: string where "mergedGitCredentialsMountPath = ''/.git-credentials/''"

definition gitLFSConfig :: string where
  "gitLFSConfig = ''[filter '' @ dq @ ''lfs'' @ dq @ '']'' @ nl @ ''    clean = git-lfs clean -- %f'' @ nl @ ''    smudge = git-lfs smudge -- %f'' @ nl @
     ''    process = git-lfs filter-process'' @ nl @ ''    required = true'' @ nl"

definition credentialTemplate :: "string \<Rightarrow> string" where
  "credentialTemplate file =
     (let bs = [CHR 0x5C] @ dq in
      ''[credential]'' @ nl @ ''    helper = '' @ dq @ ''!f() { test '' @ bs @ ''$1'' @ bs @ '' = get && git credential-store --file '' @ file @
      '' '' @ bs @ ''$@'' @ bs @ ''; }; f'' @ dq @ nl)"

definition gitServerTemplate :: "string \<Rightarrow> string \<Rightarrow> string" where
  "gitServerTemplate host certificate = ''[http '' @ dq @ host @ dq @ '']'' @ nl @ ''    sslCAInfo = '' @ certificate @ nl"

definition defaultGitServerTemplate :: "string \<Rightarrow> string" where
  "defaultGitServerTemplate certificate = ''[http]'' @ nl @ ''    sslCAInfo = '' @ certificate @ nl"

fun tls_settings :: "automount_object list \<Rightarrow> bool \<Rightarrow> err + string list" where
  "tls_settings [] defaultTLSFound = Inr []"
| "tls_settings (cm # cms) defaultTLSFound =
     (if map_of (am_Data cm) gitTLSCertificateKey = None then Inl (''could not find certificate field in configmap '' @ am_Name cm)
      else
        let path = annotation cm DevWorkspaceMountPathAnnotation; mountPath = (if path = [] then ''/etc/config/'' @ am_Name cm else path);
            certificatePath = path_Join [mountPath, gitTLSCertificateKey] in
        case map_of (am_Data cm) gitTLSHostKey of
          None \<Rightarrow>
            if defaultTLSFound then Inl ''multiple git tls credentials do not have host specified''
            else map_sum id ((#) (defaultGitServerTemplate certificatePath)) (tls_settings cms True)
        | Some host \<Rightarrow> map_sum id ((#) (gitServerTemplate host certificatePath)) (tls_settings cms defaultTLSFound))"

definition merged_object :: "string \<Rightarrow> string \<Rightarrow> string \<Rightarrow> 'q content \<Rightarrow> 'q object" where
  "merged_object name namespace watchLabel content =
     \<lparr>o_Name = name, o_Namespace = namespace,
      o_Labels = Some [(''app.kubernetes.io/defaultName'', ''git-config-secret''), (''app.kubernetes.io/part-of'', ''devworkspace-operator''), (watchLabel, ''true'')],
      o_Annotations = None, o_OwnerReferences = [], o_UID = [], o_ResourceVersion = [], o_Terminating = False, o_Finalizers = [], o_Content = content\<rparr>"

definition constructGitConfig :: "string \<Rightarrow> string \<Rightarrow> automount_object list \<Rightarrow> string option \<Rightarrow> err + 'q object \<times> automount_object" where
  "constructGitConfig namespace credentialMountPath certificatesConfigMaps baseGitConfig =
     (case tls_settings certificatesConfigMaps False of
        Inl e \<Rightarrow> Inl e
      | Inr settings \<Rightarrow>
          let gitConfig = strings_join nl ([gitLFSConfig] @
                (if credentialMountPath \<noteq> [] then [credentialTemplate (path_Join [credentialMountPath, gitCredentialsSecretKey])] else []) @
                (case baseGitConfig of None \<Rightarrow> [] | Some c \<Rightarrow> [c]) @ settings);
              data = [(gitConfigName, gitConfig)] in
          Inr (merged_object GitCredentialsConfigMapName namespace ''controller.devfile.io/watch-configmap'' (ConfigMapContent (Some data)),
               \<lparr>am_Name = GitCredentialsConfigMapName, am_Annotations = None, am_Data = data, am_BinaryData = []\<rparr>))"

fun all_credentials :: "automount_object list \<Rightarrow> err + string list" where
  "all_credentials [] = Inr []"
| "all_credentials (secret # secrets) =
     (case map_of (am_Data secret) gitCredentialsSecretKey of
        None \<Rightarrow> Inl (''git-credentials secret '' @ am_Name secret @ '' does not contain data in key '' @ gitCredentialsSecretKey)
      | Some credential \<Rightarrow> map_sum id ((#) credential) (all_credentials secrets))"

definition mergeGitCredentials :: "string \<Rightarrow> automount_object list \<Rightarrow> err + 'q object \<times> automount_object" where
  "mergeGitCredentials namespace credentialSecrets =
     (case all_credentials credentialSecrets of
        Inl e \<Rightarrow> Inl e
      | Inr allCredentials \<Rightarrow>
          let data = [(gitCredentialsSecretKey, strings_join nl allCredentials)] in
          Inr (merged_object GitCredentialsMergedSecretName namespace ''controller.devfile.io/watch-secret'' (SecretContent (Some data)),
               \<lparr>am_Name = GitCredentialsMergedSecretName, am_Annotations = None, am_Data = data, am_BinaryData = []\<rparr>))"

definition canGitObjectsMountWithoutRestart :: "automount_object list \<Rightarrow> string \<Rightarrow> running_deployment option \<Rightarrow> bool" where
  "canGitObjectsMountWithoutRestart objs volumeName workspaceDeployment =
     (case workspaceDeployment of
        None \<Rightarrow> True
      | Some d \<Rightarrow> \<not> list_all isMountOnStart objs \<or> volumeName \<in> set (rd_Volumes d))"

definition canGitCredentialsMountWithoutRestart :: "automount_object list \<Rightarrow> running_deployment option \<Rightarrow> bool" where
  "canGitCredentialsMountWithoutRestart secrets =
     canGitObjectsMountWithoutRestart secrets (AutoMountSecretVolumeName GitCredentialsMergedSecretName)"

definition canGitConfigsMountWithoutRestart :: "automount_object list \<Rightarrow> running_deployment option \<Rightarrow> bool" where
  "canGitConfigsMountWithoutRestart configMaps =
     canGitObjectsMountWithoutRestart configMaps (AutoMountConfigMapVolumeName GitCredentialsConfigMapName)"

definition getGitResources ::
  "'q automount_env \<Rightarrow> string \<Rightarrow> running_deployment option \<Rightarrow> err + automount_object list \<times> automount_object list" where
  "getGitResources env workspaceName workspaceDeployment =
     (case ae_gitCredentials env of
        Inl e \<Rightarrow> Inl e
      | Inr secretList \<Rightarrow>
          let secrets = [secret \<leftarrow> secretList. MatchesWorkspaceTarget secret workspaceName];
              secrets = (if secrets \<noteq> [] \<and> \<not> canGitCredentialsMountWithoutRestart secrets workspaceDeployment then [] else sort_objects secrets) in
     (case ae_gitTLS env of
        Inl e \<Rightarrow> Inl e
      | Inr configmapList \<Rightarrow>
          let configmaps = [cm \<leftarrow> configmapList. MatchesWorkspaceTarget cm workspaceName];
              configmaps = (if configmaps \<noteq> [] \<and> \<not> (secrets \<noteq> [] \<or> canGitConfigsMountWithoutRestart configmaps workspaceDeployment) then []
                            else sort_objects configmaps) in
          Inr (secrets, configmaps)))"

text \<open>The values of the keys that are mounted as the system-wide git configuration, over all objects of one kind.\<close>

definition gitconfigs_in :: "string \<Rightarrow> automount_object list \<Rightarrow> string list" where
  "gitconfigs_in workspaceName objs =
     concat (map (\<lambda>obj. map snd [(key, _) \<leftarrow> am_Data obj. path_Join [annotation obj DevWorkspaceMountPathAnnotation, key] = gitConfigLocation])
       [obj \<leftarrow> objs. annotation obj DevWorkspaceMountAsAnnotation = DevWorkspaceMountAsSubpath \<and> MatchesWorkspaceTarget obj workspaceName])"

definition findGitconfigAutomount :: "'q automount_env \<Rightarrow> string \<Rightarrow> err + string option" where
  "findGitconfigAutomount env workspaceName =
     (case ae_configmaps env of
        Inl e \<Rightarrow> Inl e
      | Inr configmapList \<Rightarrow>
          let found = gitconfigs_in workspaceName configmapList in
          if length found > 1 then Inl ''duplicate automount keys on path /etc/gitconfig''
          else (case ae_secrets env of
             Inl e \<Rightarrow> Inl e
           | Inr secretList \<Rightarrow>
               (case found @ gitconfigs_in workspaceName secretList of
                  [] \<Rightarrow> Inr None
                | [c] \<Rightarrow> Inr (Some c)
                | _ \<Rightarrow> Inl ''duplicate automount keys on path /etc/gitconfig'')))"

definition delete_if_present :: "'q automount_env \<Rightarrow> obj_key \<Rightarrow> 'q objects \<Rightarrow> err option \<times> 'q objects" where
  "delete_if_present env key cl =
     (case client_Get (ae_api env) key cl of
        Inl (NotFound _) \<Rightarrow> (None, cl)
      | Inl e \<Rightarrow> (Some (api_err_text e), cl)
      | Inr obj \<Rightarrow> (case client_Delete (ae_api env) obj cl of
          (None, cl') \<Rightarrow> (None, cl')
        | (Some (NotFound _), cl') \<Rightarrow> (None, cl')
        | (Some e, cl') \<Rightarrow> (Some (api_err_text e), cl')))"

definition cleanupGitConfig :: "'q automount_env \<Rightarrow> string \<Rightarrow> 'q objects \<Rightarrow> err option \<times> 'q objects" where
  "cleanupGitConfig env namespace cl =
     (case delete_if_present env (SecretObj, namespace, GitCredentialsMergedSecretName) cl of
        (Some e, cl') \<Rightarrow> (Some e, cl')
      | (None, cl') \<Rightarrow> delete_if_present env (ConfigMapObj, namespace, GitCredentialsConfigMapName) cl')"

definition ProvisionGitConfiguration ::
  "'q automount_env \<Rightarrow> string \<Rightarrow> string \<Rightarrow> running_deployment option \<Rightarrow> 'q objects \<Rightarrow> 'q AutomountResources option dw_result \<times> 'q objects" where
  "ProvisionGitConfiguration env namespace workspaceName workspaceDeployment cl =
     (case getGitResources env workspaceName workspaceDeployment of
        Inl e \<Rightarrow> (DwErr (OtherError e), cl)
      | Inr (credentialsSecrets, tlsConfigMaps) \<Rightarrow>
     (case findGitconfigAutomount env workspaceName of
        Inl e \<Rightarrow> (DwErr (OtherError e), cl)
      | Inr baseGitConfig \<Rightarrow>
          if credentialsSecrets = [] \<and> tlsConfigMaps = [] \<and> baseGitConfig = None
          then (case cleanupGitConfig env namespace cl of (None, cl') \<Rightarrow> (DwOk None, cl') | (Some e, cl') \<Rightarrow> (DwErr (OtherError e), cl'))
          else
     (case mergeGitCredentials namespace credentialsSecrets of
        Inl e \<Rightarrow> (DwErr (FailError (''Failed to collect git credentials secrets: '' @ e)), cl)
      | Inr (mergedCredentialsSecret, secret) \<Rightarrow>
     (case constructGitConfig namespace mergedGitCredentialsMountPath tlsConfigMaps baseGitConfig of
        Inl e \<Rightarrow> (DwErr (FailError (''Failed to prepare git config for workspace: '' @ e)), cl)
      | Inr (gitConfigMap, configmap) \<Rightarrow>
     (case SyncObjectWithCluster (ae_api env) mergedCredentialsSecret cl of
        (Inl e, cl') \<Rightarrow> (DwErr (WrapSyncError e), cl')
      | (Inr _, cl') \<Rightarrow>
     (case SyncObjectWithCluster (ae_api env) gitConfigMap cl' of
        (Inl e, cl'') \<Rightarrow> (DwErr (WrapSyncError e), cl'')
      | (Inr _, cl'') \<Rightarrow>
          (DwOk (Some (flattenAutomountResources
             [getAutomountSecret mergedGitCredentialsMountPath DevWorkspaceMountAsFile None secret,
              getAutomountConfigmap ''/etc/'' DevWorkspaceMountAsSubpath None configmap])), cl'')))))))"

section \<open>All automounted resources\<close>

text \<open>The mount of a git configuration is removed, and its volume unless it has other mounts.\<close>

definition filterGitconfigAutomountVolume :: "'q AutomountResources \<Rightarrow> 'q AutomountResources" where
  "filterGitconfigAutomountVolume resources =
     (let filteredVolumeMounts = [vm \<leftarrow> ar_VolumeMounts resources. vm_MountPath vm \<noteq> gitConfigLocation];
          gitConfigVolumeName = (case rev [vm \<leftarrow> ar_VolumeMounts resources. vm_MountPath vm = gitConfigLocation] of [] \<Rightarrow> [] | vm # _ \<Rightarrow> vm_Name vm);
          removeGitconfigVolume = \<not> list_ex (\<lambda>vm. vm_Name vm = gitConfigVolumeName) filteredVolumeMounts in
      resources\<lparr>ar_VolumeMounts := filteredVolumeMounts,
        ar_Volumes := [v \<leftarrow> ar_Volumes resources. \<not> (v_Name v = gitConfigVolumeName \<and> removeGitconfigVolume)]\<rparr>)"

definition getAutomountResources ::
  "'q automount_env \<Rightarrow> string \<Rightarrow> string \<Rightarrow> running_deployment option \<Rightarrow> 'q objects \<Rightarrow> 'q AutomountResources dw_result \<times> 'q objects" where
  "getAutomountResources env namespace workspaceName workspaceDeployment cl =
     (case ProvisionGitConfiguration env namespace workspaceName workspaceDeployment cl of (git, cl') \<Rightarrow>
       (dw_bind git (\<lambda>gitResources.
        dw_bind (getDevWorkspaceConfigmaps env workspaceName workspaceDeployment) (\<lambda>cmResources.
        dw_bind (getDevWorkspaceSecrets env workspaceName workspaceDeployment) (\<lambda>secretResources.
          let filtered = (case gitResources of None \<Rightarrow> False | Some r \<Rightarrow> ar_Volumes r \<noteq> []);
              cmResources = (if filtered then filterGitconfigAutomountVolume cmResources else cmResources);
              secretResources = (if filtered then filterGitconfigAutomountVolume secretResources else secretResources) in
        dw_bind (mergeProjectedVolumes (ae_sha env) (mergeAutomountResources [Some cmResources, Some secretResources])) (\<lambda>merged.
        dw_bind (getAutoMountPVCs env workspaceName workspaceDeployment) (\<lambda>pvcResources.
        DwOk (mergeAutomountResources
          [gitResources, Some (merged\<lparr>ar_Volumes := dropItemsFieldFromVolumes (ar_Volumes merged)\<rparr>), pvcResources])))))), cl'))"

fun colliding_mount :: "VolumeMount list \<Rightarrow> (string \<times> VolumeMount) list \<Rightarrow> (VolumeMount \<times> VolumeMount) option" where
  "colliding_mount [] seen = None"
| "colliding_mount (vm # vms) seen =
     (case map_of seen (vm_MountPath vm) of
        Some conflict \<Rightarrow> Some (vm, conflict)
      | None \<Rightarrow> colliding_mount vms ((vm_MountPath vm, vm) # seen))"

definition checkAutomountVolumesForCollision :: "'q PodAdditions \<Rightarrow> 'q AutomountResources \<Rightarrow> unit dw_result" where
  "checkAutomountVolumesForCollision podAdditions automount =
     (case find (\<lambda>v. v_Name v \<in> v_Name ` set (ar_Volumes automount)) (pa_Volumes podAdditions) of
        Some volume \<Rightarrow>
          DwErr (FailError (''DevWorkspace volume '' @ sq @ v_Name volume @ sq @ '' conflicts with automounted volume from '' @
            formatVolumeDescription (volume_named (ar_Volumes automount) (v_Name volume))))
      | None \<Rightarrow>
     (case colliding_mount (ar_VolumeMounts automount) [] of
        Some (vm, conflict) \<Rightarrow>
          DwErr (FailError (''auto-mounted volumes from '' @ getVolumeDescriptionFromVolumeMount vm (ar_Volumes automount) @ '' and '' @
            getVolumeDescriptionFromVolumeMount conflict (ar_Volumes automount) @ '' have the same mount path''))
      | None \<Rightarrow>
     (case find (\<lambda>(c, vm). vm_MountPath vm \<in> vm_MountPath ` set (ar_VolumeMounts automount))
             (concat (map (\<lambda>c. map (Pair c) (c_VolumeMounts c)) (pa_Containers podAdditions))) of
        Some (c, vm) \<Rightarrow>
          DwErr (FailError (''DevWorkspace volume '' @ getVolumeDescriptionFromVolumeMount vm (pa_Volumes podAdditions) @ '' in container '' @ c_Name c @
            '' has same mountpath as auto-mounted volume from '' @
            (case find (\<lambda>a. vm_MountPath a = vm_MountPath vm) (ar_VolumeMounts automount) of
               None \<Rightarrow> [] | Some conflict \<Rightarrow> getVolumeDescriptionFromVolumeMount conflict (ar_Volumes automount))))
      | None \<Rightarrow> DwOk ())))"

definition add_automount :: "'q AutomountResources \<Rightarrow> 'q Container \<Rightarrow> 'q Container" where
  "add_automount resources container =
     container\<lparr>c_VolumeMounts := c_VolumeMounts container @ ar_VolumeMounts resources, c_EnvFrom := c_EnvFrom container @ ar_EnvFromSource resources\<rparr>"

definition ProvisionAutoMountResourcesInto ::
  "'q automount_env \<Rightarrow> string \<Rightarrow> string \<Rightarrow> bool \<Rightarrow> running_deployment option \<Rightarrow> 'q PodAdditions \<Rightarrow> 'q objects \<Rightarrow>
   'q PodAdditions dw_result \<times> 'q objects" where
  "ProvisionAutoMountResourcesInto env namespace workspaceName persistentHome workspaceDeployment podAdditions cl =
     (case getAutomountResources env namespace workspaceName workspaceDeployment cl of (res, cl') \<Rightarrow>
       (dw_bind res (\<lambda>resources.
        dw_bind (checkAutomountVolumesForCollision podAdditions resources) (\<lambda>_.
          DwOk (podAdditions\<lparr>
            pa_Containers := map (add_automount resources) (pa_Containers podAdditions),
            pa_InitContainers := map (\<lambda>c. if persistentHome \<and> c_Name c = HomeInitComponentName then c else add_automount resources c) (pa_InitContainers podAdditions),
            pa_Volumes := pa_Volumes podAdditions @ ar_Volumes resources\<rparr>))), cl'))"

end
