(* ===== verification/Server_Laws.thy ===== *)
theory Server_Laws
  imports Sync
begin

text \<open>
  What synchronisation relies on of the API server and of the comparison libraries, as their documentation states it: which fields
  \<^verbatim>\<open>cmp.Equal\<close> skips under \<^verbatim>\<open>cmpopts.IgnoreFields\<close>, what \<^verbatim>\<open>equality.Semantic.DeepDerivative\<close> skips, and which unset fields the
  server fills in when it stores an object. The comparison functions of the operator are then shown to find no difference between an object
  and what the server makes of it.
\<close>

section \<open>Fields that a comparison ignores\<close>

definition ignores :: "cmp_option list \<Rightarrow> string \<Rightarrow> string \<Rightarrow> bool" where
  "ignores opts type field \<longleftrightarrow>
     list_ex (\<lambda>opt. case opt of IgnoreFields t fs \<Rightarrow> t = type \<and> field \<in> set fs | SortSlices _ \<Rightarrow> False) opts"

definition unless :: "bool \<Rightarrow> 'a \<Rightarrow> 'a \<Rightarrow> 'a" where
  "unless b d x = (if b then d else x)"

definition strip_container :: "cmp_option list \<Rightarrow> 'q Container \<Rightarrow> 'q Container" where
  "strip_container opts c = c\<lparr>
     c_TerminationMessagePath := unless (ignores opts ''Container'' ''TerminationMessagePath'') [] (c_TerminationMessagePath c),
     c_TerminationMessagePolicy := unless (ignores opts ''Container'' ''TerminationMessagePolicy'') [] (c_TerminationMessagePolicy c),
     c_ImagePullPolicy := unless (ignores opts ''Container'' ''ImagePullPolicy'') [] (c_ImagePullPolicy c)\<rparr>"

definition strip_pod :: "cmp_option list \<Rightarrow> 'q PodSpec \<Rightarrow> 'q PodSpec" where
  "strip_pod opts p = p\<lparr>
     p_InitContainers := map_option (map (strip_container opts)) (p_InitContainers p),
     p_Containers := map_option (map (strip_container opts)) (p_Containers p),
     p_DNSPolicy := unless (ignores opts ''PodSpec'' ''DNSPolicy'') [] (p_DNSPolicy p),
     p_DeprecatedServiceAccount := unless (ignores opts ''PodSpec'' ''DeprecatedServiceAccount'') [] (p_DeprecatedServiceAccount p),
     p_SchedulerName := unless (ignores opts ''PodSpec'' ''SchedulerName'') [] (p_SchedulerName p)\<rparr>"

definition strip_deployment :: "cmp_option list \<Rightarrow> 'q Deployment \<Rightarrow> 'q Deployment" where
  "strip_deployment opts d =
     (let status = ignores opts ''Deployment'' ''Status'' in d\<lparr>
     d_Generation := unless (ignores opts ''Deployment'' ''ObjectMeta'') 0 (d_Generation d),
     d_ProgressDeadlineSeconds := unless (ignores opts ''DeploymentSpec'' ''ProgressDeadlineSeconds'') None (d_ProgressDeadlineSeconds d),
     d_Template := (d_Template d)\<lparr>pt_Spec := strip_pod opts (pt_Spec (d_Template d))\<rparr>,
     d_ObservedGeneration := unless status 0 (d_ObservedGeneration d), d_ReadyReplicas := unless status 0 (d_ReadyReplicas d),
     d_UpdatedReplicas := unless status 0 (d_UpdatedReplicas d), d_AvailableReplicas := unless status 0 (d_AvailableReplicas d),
     d_Conditions := unless status [] (d_Conditions d)\<rparr>)"

definition strip_routing :: "cmp_option list \<Rightarrow> 'q Routing \<Rightarrow> 'q Routing" where
  "strip_routing opts r =
     (let status = ignores opts ''DevWorkspaceRouting'' ''Status'' in r\<lparr>
     rg_Finalizers := unless (ignores opts ''DevWorkspaceRouting'' ''ObjectMeta'') [] (rg_Finalizers r),
     rg_PodAdditions := unless status None (rg_PodAdditions r), rg_ExposedEndpoints := unless status None (rg_ExposedEndpoints r),
     rg_Phase := unless status NoRoutingPhase (rg_Phase r), rg_Message := unless status [] (rg_Message r)\<rparr>)"

definition strip_path :: "cmp_option list \<Rightarrow> IngressPath \<Rightarrow> IngressPath" where
  "strip_path opts p = p\<lparr>ip_PathType := unless (ignores opts ''HTTPIngressPath'' ''PathType'') [] (ip_PathType p)\<rparr>"

text \<open>The part of an object that \<^verbatim>\<open>cmp.Equal\<close> compares under the options.\<close>

fun strip :: "cmp_option list \<Rightarrow> 'q content \<Rightarrow> 'q content" where
  "strip opts (DeploymentContent d) = DeploymentContent (strip_deployment opts d)"
| "strip opts (RoutingContent r) = RoutingContent (strip_routing opts r)"
| "strip opts (RouteContent r) = RouteContent (r\<lparr>rt_Host := unless (ignores opts ''RouteSpec'' ''Host'') [] (rt_Host r)\<rparr>)"
| "strip opts (IngressContent i) =
     IngressContent (i\<lparr>ig_Rules := map (\<lambda>r. r\<lparr>ir_Paths := map (strip_path opts) (ir_Paths r)\<rparr>) (ig_Rules i)\<rparr>)"
| "strip opts c = c"

section \<open>Fields that the server fills in\<close>

text \<open>A string that is filled in only where it is empty, and an optional value only where it is missing.\<close>

definition fills :: "string \<Rightarrow> string \<Rightarrow> bool" where
  "fills x x' \<longleftrightarrow> x = [] \<or> x' = x"

definition fills_opt :: "'a option \<Rightarrow> 'a option \<Rightarrow> bool" where
  "fills_opt x x' \<longleftrightarrow> x = None \<or> x' = x"

definition container_filled :: "'q Container \<Rightarrow> 'q Container \<Rightarrow> bool" where
  "container_filled c c' \<longleftrightarrow>
     fills (c_TerminationMessagePath c) (c_TerminationMessagePath c') \<and> fills (c_TerminationMessagePolicy c) (c_TerminationMessagePolicy c') \<and>
     fills (c_ImagePullPolicy c) (c_ImagePullPolicy c') \<and>
     c' = c\<lparr>c_TerminationMessagePath := c_TerminationMessagePath c', c_TerminationMessagePolicy := c_TerminationMessagePolicy c',
             c_ImagePullPolicy := c_ImagePullPolicy c'\<rparr>"

definition pod_filled :: "'q PodSpec \<Rightarrow> 'q PodSpec \<Rightarrow> bool" where
  "pod_filled p p' \<longleftrightarrow>
     rel_option (list_all2 container_filled) (p_InitContainers p) (p_InitContainers p') \<and>
     rel_option (list_all2 container_filled) (p_Containers p) (p_Containers p') \<and>
     fills (p_RestartPolicy p) (p_RestartPolicy p') \<and> fills_opt (p_TerminationGracePeriodSeconds p) (p_TerminationGracePeriodSeconds p') \<and>
     fills (p_DNSPolicy p) (p_DNSPolicy p') \<and> fills (p_DeprecatedServiceAccount p) (p_DeprecatedServiceAccount p') \<and>
     fills_opt (p_SecurityContext p) (p_SecurityContext p') \<and> fills (p_SchedulerName p) (p_SchedulerName p') \<and>
     p' = p\<lparr>p_InitContainers := p_InitContainers p', p_Containers := p_Containers p', p_RestartPolicy := p_RestartPolicy p',
             p_TerminationGracePeriodSeconds := p_TerminationGracePeriodSeconds p', p_DNSPolicy := p_DNSPolicy p',
             p_DeprecatedServiceAccount := p_DeprecatedServiceAccount p', p_SecurityContext := p_SecurityContext p',
             p_SchedulerName := p_SchedulerName p'\<rparr>"

definition deployment_filled :: "'q Deployment \<Rightarrow> 'q Deployment \<Rightarrow> bool" where
  "deployment_filled d d' \<longleftrightarrow>
     fills_opt (d_Replicas d) (d_Replicas d') \<and> fills (d_StrategyType d) (d_StrategyType d') \<and>
     (d_StrategyType d' = ''RollingUpdate'' \<and> d_RollingUpdate d = None \<or> d_RollingUpdate d' = d_RollingUpdate d) \<and>
     pod_filled (pt_Spec (d_Template d)) (pt_Spec (d_Template d')) \<and>
     d' = d\<lparr>d_Generation := d_Generation d', d_Replicas := d_Replicas d', d_StrategyType := d_StrategyType d',
             d_RollingUpdate := d_RollingUpdate d', d_ProgressDeadlineSeconds := d_ProgressDeadlineSeconds d',
             d_Template := (d_Template d)\<lparr>pt_Spec := pt_Spec (d_Template d')\<rparr>, d_ObservedGeneration := d_ObservedGeneration d',
             d_ReadyReplicas := d_ReadyReplicas d', d_UpdatedReplicas := d_UpdatedReplicas d',
             d_AvailableReplicas := d_AvailableReplicas d', d_Conditions := d_Conditions d'\<rparr>"

text \<open>A node port is allocated only for types of service that have one.\<close>

definition port_filled :: "string \<Rightarrow> ServicePort \<Rightarrow> ServicePort \<Rightarrow> bool" where
  "port_filled type p p' \<longleftrightarrow> fills (spt_Protocol p) (spt_Protocol p') \<and>
     (spt_TargetPort p \<in> {[], ''0''} \<or> spt_TargetPort p' = spt_TargetPort p) \<and>
     (type \<notin> {[], ''ClusterIP''} \<or> spt_NodePort p' = spt_NodePort p) \<and>
     p' = p\<lparr>spt_Protocol := spt_Protocol p', spt_TargetPort := spt_TargetPort p', spt_NodePort := spt_NodePort p'\<rparr>"

definition service_filled :: "Service \<Rightarrow> Service \<Rightarrow> bool" where
  "service_filled s s' \<longleftrightarrow> list_all2 (port_filled (svc_Type s)) (svc_Ports s) (svc_Ports s') \<and> fills (svc_Type s) (svc_Type s') \<and>
     s' = s\<lparr>svc_Ports := svc_Ports s', svc_Type := svc_Type s', svc_ClusterIP := svc_ClusterIP s', svc_Rest := svc_Rest s'\<rparr>"

definition routing_filled :: "'q Routing \<Rightarrow> 'q Routing \<Rightarrow> bool" where
  "routing_filled r r' \<longleftrightarrow> r' = r\<lparr>rg_Finalizers := rg_Finalizers r', rg_PodAdditions := rg_PodAdditions r',
     rg_ExposedEndpoints := rg_ExposedEndpoints r', rg_Phase := rg_Phase r', rg_Message := rg_Message r'\<rparr>"

text \<open>The entries of a map are kept, and others may be added, as the job controller adds labels to the pods of a job.\<close>

definition map_kept :: "(string, string) gomap \<Rightarrow> (string, string) gomap \<Rightarrow> bool" where
  "map_kept m m' \<longleftrightarrow> list_all (\<lambda>(k, _). go_get m' k = go_get m k) (go_items m)"

definition job_filled :: "'q Job \<Rightarrow> 'q Job \<Rightarrow> bool" where
  "job_filled j j' \<longleftrightarrow>
     fills_opt (job_Completions j) (job_Completions j') \<and> fills_opt (job_BackoffLimit j) (job_BackoffLimit j') \<and>
     fills_opt (job_TTLSecondsAfterFinished j) (job_TTLSecondsAfterFinished j') \<and>
     map_kept (job_TemplateLabels j) (job_TemplateLabels j') \<and> map_kept (job_TemplateAnnotations j) (job_TemplateAnnotations j') \<and>
     pod_filled (job_PodSpec j) (job_PodSpec j')"

text \<open>What the server stores for the content that is written. Everything that is not named here is stored as it is.\<close>

fun stored_as :: "'q content \<Rightarrow> 'q content \<Rightarrow> bool" where
  "stored_as (DeploymentContent d) c' \<longleftrightarrow> (\<exists>d'. c' = DeploymentContent d' \<and> deployment_filled d d')"
| "stored_as (RoutingContent r) c' \<longleftrightarrow> (\<exists>r'. c' = RoutingContent r' \<and> routing_filled r r')"
| "stored_as (ServiceContent s) c' \<longleftrightarrow> (\<exists>s'. c' = ServiceContent s' \<and> service_filled s s')"
| "stored_as (JobContent j) c' \<longleftrightarrow> (\<exists>j'. c' = JobContent j' \<and> job_filled j j')"
| "stored_as (RouteContent r) c' \<longleftrightarrow> (\<exists>h. c' = RouteContent (r\<lparr>rt_Host := h\<rparr>) \<and> fills (rt_Host r) h)"
| "stored_as (ServiceAccountContent a) c' \<longleftrightarrow> kind_of c' = ServiceAccountObj"
| "stored_as (PodContent p) c' \<longleftrightarrow> (\<exists>p'. c' = PodContent p' \<and> pod_filled p p')"
| "stored_as c c' \<longleftrightarrow> c' = c"

text \<open>
  The laws: an object is stored under its name, labels, annotations and owners are stored as written, with perhaps others beside them, and the content with
  the documented defaults; \<^verbatim>\<open>cmp.Equal\<close> holds of values that agree outside the ignored fields; \<^verbatim>\<open>DeepDerivative\<close> does not compare
  fields that are unset in its first argument, nor keys of maps that are not in it.
\<close>

definition store_laws :: "'q api_env \<Rightarrow> bool" where
  "store_laws env \<longleftrightarrow> (\<forall>old obj.
     o_Name (ae_store env old obj) = o_Name obj \<and> o_Namespace (ae_store env old obj) = o_Namespace obj \<and>
     map_kept (o_Labels obj) (o_Labels (ae_store env old obj)) \<and> map_kept (o_Annotations obj) (o_Annotations (ae_store env old obj)) \<and>
     set (o_OwnerReferences obj) \<subseteq> set (o_OwnerReferences (ae_store env old obj)) \<and>
     stored_as (o_Content obj) (o_Content (ae_store env old obj)))"

definition compare_laws :: "'q api_env \<Rightarrow> bool" where
  "compare_laws env \<longleftrightarrow> (\<forall>opts c c'. strip opts c = strip opts c' \<longrightarrow> ae_cmp env opts c c') \<and>
     (\<forall>j j'. job_filled j j' \<longrightarrow> ae_derivative_job env j j')"

text \<open>
  The fields with a default that the comparison does not ignore have to be set: the operator sets them in the deployment of a workspace,
  and its services have no node port. A pod has pointers that the comparison never finds equal.
\<close>

fun fully_set :: "'q content \<Rightarrow> bool" where
  "fully_set (DeploymentContent d) \<longleftrightarrow>
     d_Replicas d \<noteq> None \<and> d_StrategyType d \<noteq> [] \<and> (d_StrategyType d = ''RollingUpdate'' \<longrightarrow> d_RollingUpdate d \<noteq> None) \<and>
     p_RestartPolicy (pt_Spec (d_Template d)) \<noteq> [] \<and> p_TerminationGracePeriodSeconds (pt_Spec (d_Template d)) \<noteq> None \<and>
     p_SecurityContext (pt_Spec (d_Template d)) \<noteq> None"
| "fully_set (ServiceContent s) \<longleftrightarrow> svc_Type s \<in> {[], ''ClusterIP''} \<and> list_all (\<lambda>p. spt_TargetPort p \<notin> {[], ''0''}) (svc_Ports s)"
| "fully_set (PodContent _) \<longleftrightarrow> False"
| "fully_set _ \<longleftrightarrow> True"

lemma stored_as_kind: "stored_as c c' \<Longrightarrow> kind_of c' = kind_of c"
  by (cases c) auto

lemma stored_key: "store_laws env \<Longrightarrow> obj_key_of (ae_store env old obj) = obj_key_of obj"
  by (simp add: store_laws_def obj_key_of_def stored_as_kind)

section \<open>No difference to what is stored\<close>

lemma unless_simps [simp]: "unless True d x = d" "unless False d x = x"
  by (simp_all add: unless_def)

lemma ignores_code [simp]:
  "ignores [] t f = False" "ignores (IgnoreFields t' fs # opts) t f \<longleftrightarrow> t' = t \<and> f \<in> set fs \<or> ignores opts t f"
  "ignores (SortSlices t' # opts) t f = ignores opts t f"
  by (simp_all add: ignores_def)

lemma containers_stripped:
  assumes "rel_option (list_all2 container_filled) cs cs'"
  shows "map_option (map (strip_container deploymentDiffOpts)) cs' = map_option (map (strip_container deploymentDiffOpts)) cs"
proof -
  have one: "strip_container deploymentDiffOpts c' = strip_container deploymentDiffOpts c" if "container_filled c c'" for c c' :: "'a Container"
  proof -
    from that have "c' = c\<lparr>c_TerminationMessagePath := c_TerminationMessagePath c', c_TerminationMessagePolicy := c_TerminationMessagePolicy c',
      c_ImagePullPolicy := c_ImagePullPolicy c'\<rparr>" by (simp add: container_filled_def)
    then obtain a b e where "c' = c\<lparr>c_TerminationMessagePath := a, c_TerminationMessagePolicy := b, c_ImagePullPolicy := e\<rparr>" by blast
    then show ?thesis by (simp add: strip_container_def deploymentDiffOpts_def)
  qed
  from assms show ?thesis
    by (cases cs; cases cs') (auto simp: list_all2_conv_all_nth one intro!: nth_equalityI)
qed

lemma pod_stripped:
  assumes "pod_filled p p'" "p_RestartPolicy p \<noteq> []" "p_TerminationGracePeriodSeconds p \<noteq> None" "p_SecurityContext p \<noteq> None"
  shows "strip_pod deploymentDiffOpts p' = strip_pod deploymentDiffOpts p"
proof -
  define dns sa sch where "dns = p_DNSPolicy p'" and "sa = p_DeprecatedServiceAccount p'" and "sch = p_SchedulerName p'"
  have kept: "p_RestartPolicy p' = p_RestartPolicy p" "p_TerminationGracePeriodSeconds p' = p_TerminationGracePeriodSeconds p"
    "p_SecurityContext p' = p_SecurityContext p"
    using assms by (auto simp: pod_filled_def fills_def fills_opt_def)
  have p': "p' = p\<lparr>p_InitContainers := p_InitContainers p', p_Containers := p_Containers p', p_RestartPolicy := p_RestartPolicy p,
      p_TerminationGracePeriodSeconds := p_TerminationGracePeriodSeconds p, p_DNSPolicy := dns, p_DeprecatedServiceAccount := sa,
      p_SecurityContext := p_SecurityContext p, p_SchedulerName := sch\<rparr>"
    using assms(1) unfolding pod_filled_def kept dns_def sa_def sch_def by blast
  have "rel_option (list_all2 container_filled) (p_InitContainers p) (p_InitContainers p')"
    "rel_option (list_all2 container_filled) (p_Containers p) (p_Containers p')"
    using assms(1) by (simp_all add: pod_filled_def)
  note cs = this [THEN containers_stripped]
  show ?thesis
    unfolding strip_pod_def cs by (subst p', cases p) (simp add: deploymentDiffOpts_def)
qed

lemma deployment_stripped:
  assumes "deployment_filled d d'" "fully_set (DeploymentContent d)"
  shows "strip_deployment deploymentDiffOpts d' = strip_deployment deploymentDiffOpts d" "d_Selector d' = d_Selector d"
proof -
  define g pd og rr ur ar cs where "g = d_Generation d'" and "pd = d_ProgressDeadlineSeconds d'" and "og = d_ObservedGeneration d'"
    and "rr = d_ReadyReplicas d'" and "ur = d_UpdatedReplicas d'" and "ar = d_AvailableReplicas d'" and "cs = d_Conditions d'"
  have kept: "d_Replicas d' = d_Replicas d" "d_StrategyType d' = d_StrategyType d" "d_RollingUpdate d' = d_RollingUpdate d"
    using assms by (auto simp: deployment_filled_def fills_def fills_opt_def)
  have d': "d' = d\<lparr>d_Generation := g, d_Replicas := d_Replicas d, d_StrategyType := d_StrategyType d, d_RollingUpdate := d_RollingUpdate d,
      d_ProgressDeadlineSeconds := pd, d_Template := (d_Template d)\<lparr>pt_Spec := pt_Spec (d_Template d')\<rparr>, d_ObservedGeneration := og,
      d_ReadyReplicas := rr, d_UpdatedReplicas := ur, d_AvailableReplicas := ar, d_Conditions := cs\<rparr>"
    using assms(1) unfolding deployment_filled_def kept g_def pd_def og_def rr_def ur_def ar_def cs_def by blast
  have pod: "strip_pod deploymentDiffOpts (pt_Spec (d_Template d')) = strip_pod deploymentDiffOpts (pt_Spec (d_Template d))"
    using assms by (intro pod_stripped) (simp_all add: deployment_filled_def)
  show "d_Selector d' = d_Selector d" by (subst d') simp
  have t: "(d_Template d')\<lparr>pt_Spec := x\<rparr> = (d_Template d)\<lparr>pt_Spec := x\<rparr>" for x by (subst d') simp
  show "strip_deployment deploymentDiffOpts d' = strip_deployment deploymentDiffOpts d"
    unfolding strip_deployment_def Let_def t pod by (subst d', cases d) (simp add: deploymentDiffOpts_def)
qed

lemma routing_stripped:
  assumes "routing_filled r r'"
  shows "strip_routing routingDiffOpts r' = strip_routing routingDiffOpts r" "rg_RoutingClass r' = rg_RoutingClass r"
proof -
  from assms obtain fs pa xs ph m where "r' = r\<lparr>rg_Finalizers := fs, rg_PodAdditions := pa, rg_ExposedEndpoints := xs, rg_Phase := ph, rg_Message := m\<rparr>"
    unfolding routing_filled_def by blast
  then show "strip_routing routingDiffOpts r' = strip_routing routingDiffOpts r" "rg_RoutingClass r' = rg_RoutingClass r"
    by (simp_all add: strip_routing_def routingDiffOpts_def Let_def)
qed

lemma go_map_eq_refl [simp]: "go_map_eq m m"
  by (auto simp: go_map_eq_def list_all_iff)

lemma sort_key_map: "(\<And>x. k (f x) = k x) \<Longrightarrow> sort_key k (map f xs) = map f (sort_key k xs)"
  for k :: "'a \<Rightarrow> 'b::linorder"
proof (induction xs)
  case (Cons x xs)
  then have "insort_key k (f x) (map f ys) = map f (insort_key k x ys)" for ys by (induction ys) simp_all
  with Cons show ?case by simp
qed simp

lemma ports_compared:
  assumes "list_all2 (port_filled type) ps ps'" "type \<in> {[], ''ClusterIP''}" "list_all (\<lambda>p. spt_TargetPort p \<notin> {[], ''0''}) ps"
  shows "map (\<lambda>p. p\<lparr>spt_Protocol := []\<rparr>) (sorted_ports ps') = map (\<lambda>p. p\<lparr>spt_Protocol := []\<rparr>) (sorted_ports ps)"
proof -
  let ?f = "\<lambda>p::ServicePort. p\<lparr>spt_Protocol := []\<rparr>"
  have "?f p' = ?f p" if "port_filled type p p'" "spt_TargetPort p \<notin> {[], ''0''}" for p p'
    using that assms(2) by (cases p; cases p') (auto simp: port_filled_def)
  with assms(1,3) have "map ?f ps' = map ?f ps"
    by (auto simp: list_all2_conv_all_nth list_all_length intro!: nth_equalityI)
  then have "map ?f (sort_key spt_Name ps') = map ?f (sort_key spt_Name ps)"
    by (simp flip: sort_key_map [of spt_Name ?f])
  then show ?thesis by (simp add: sorted_ports_def flip: rev_map)
qed

text \<open>
  The comparison for the kind of the object finds nothing to update or delete in what the server stores for it, if the metadata has been
  applied and the contents that were written differ at most in the cluster address of a service.
\<close>

definition same_content :: "'q content \<Rightarrow> 'q content \<Rightarrow> bool" where
  "same_content c c' \<longleftrightarrow> c' = c \<or> (\<exists>s ip. c = ServiceContent s \<and> c' = ServiceContent (s\<lparr>svc_ClusterIP := ip\<rparr>))"

lemma service_compared:
  assumes "service_filled s s'" "fully_set (ServiceContent s)"
  shows "go_map_eq (svc_Selector s) (svc_Selector s')" "svc_Type s = [] \<or> svc_Type s = svc_Type s'"
    "map (\<lambda>p. p\<lparr>spt_Protocol := []\<rparr>) (sorted_ports (svc_Ports s)) = map (\<lambda>p. p\<lparr>spt_Protocol := []\<rparr>) (sorted_ports (svc_Ports s'))"
proof -
  have eq: "s' = s\<lparr>svc_Ports := svc_Ports s', svc_Type := svc_Type s', svc_ClusterIP := svc_ClusterIP s', svc_Rest := svc_Rest s'\<rparr>"
    using assms(1) by (simp add: service_filled_def)
  show "go_map_eq (svc_Selector s) (svc_Selector s')" by (subst eq) simp
  show "svc_Type s = [] \<or> svc_Type s = svc_Type s'" using assms(1) by (auto simp: service_filled_def fills_def)
  show "map (\<lambda>p. p\<lparr>spt_Protocol := []\<rparr>) (sorted_ports (svc_Ports s)) = map (\<lambda>p. p\<lparr>spt_Protocol := []\<rparr>) (sorted_ports (svc_Ports s'))"
    using ports_compared [of "svc_Type s" "svc_Ports s" "svc_Ports s'"] assms by (simp add: service_filled_def)
qed

lemma allDiffFuncs_none_iff:
  "allDiffFuncs fs spec obj = (False, False) \<longleftrightarrow> list_all (\<lambda>f. f spec obj = (False, False)) fs"
  by (auto simp: allDiffFuncs_def list_ex_iff list_all_iff prod_eq_iff)

lemma stored_no_difference:
  assumes "diffFuncs env (kind_of (o_Content spec)) = Some f" "metadataDiffFunc spec s = (False, False)" "compare_laws env"
    "same_content (o_Content spec) c" "stored_as c (o_Content s)" "fully_set (o_Content spec)"
  shows "f spec s = (False, False)"
proof -
  have cmp: "ae_cmp env opts (o_Content spec) (o_Content s)" if "strip opts (o_Content s) = strip opts (o_Content spec)" for opts
    using assms(3) that unfolding compare_laws_def by metis
  show ?thesis
  proof (cases "o_Content spec")
    case (DeploymentContent d)
    with assms(4,5) obtain d' where d': "o_Content s = DeploymentContent d'" "deployment_filled d d'" by (auto simp: same_content_def)
    note st = deployment_stripped [OF d'(2) assms(6) [unfolded DeploymentContent]]
    have "ae_cmp env deploymentDiffOpts (o_Content spec) (o_Content s)" by (rule cmp) (simp add: DeploymentContent d' st)
    then show ?thesis using assms(1,2) DeploymentContent d' st by (auto simp: allDiffFuncs_none_iff basicDiffFunc_def)
  next
    case (RoutingContent r)
    with assms(4,5) obtain r' where r': "o_Content s = RoutingContent r'" "routing_filled r r'" by (auto simp: same_content_def)
    have "ae_cmp env routingDiffOpts (o_Content spec) (o_Content s)" by (rule cmp) (simp add: RoutingContent r' routing_stripped [OF r'(2)])
    then show ?thesis using assms(1,2) RoutingContent r' routing_stripped [OF r'(2)] by (auto simp: allDiffFuncs_none_iff basicDiffFunc_def)
  next
    case (ServiceContent sv)
    with assms(4,5) obtain sv' ip where sv': "o_Content s = ServiceContent sv'" "service_filled (sv\<lparr>svc_ClusterIP := ip\<rparr>) sv'"
      unfolding same_content_def by (metis (no_types, lifting) Service.surjective Service.update_convs(4) content.inject(4) stored_as.simps(3))
    from service_compared [OF sv'(2)] assms(6) ServiceContent show ?thesis
      using assms(1,2) sv' by (auto simp: allDiffFuncs_none_iff)
  next
    case (JobContent j)
    with assms(4,5) obtain j' where j': "o_Content s = JobContent j'" "job_filled j j'" by (auto simp: same_content_def)
    with assms(3) have "ae_derivative_job env j j'" by (simp add: compare_laws_def)
    then show ?thesis using assms(1,2) JobContent j' by (auto simp: allDiffFuncs_none_iff)
  next
    case (RouteContent r)
    with assms(4,5) obtain h where r': "o_Content s = RouteContent (r\<lparr>rt_Host := h\<rparr>)" by (auto simp: same_content_def)
    have "ae_cmp env routeDiffOpts (o_Content spec) (o_Content s)" by (rule cmp) (simp add: RouteContent r' routeDiffOpts_def)
    then show ?thesis using assms(1,2) RouteContent by (auto simp: allDiffFuncs_none_iff basicDiffFunc_def)
  next
    case (PodContent p)
    with assms(6) show ?thesis by simp
  qed (use assms cmp in \<open>auto simp: same_content_def allDiffFuncs_none_iff basicDiffFunc_def\<close>)
qed

end
