(* ===== verification/Sync_Convergence.thy ===== *)
theory Sync_Convergence
  imports Server_Laws
begin

text \<open>
  What synchronisation achieves: an object that is returned is in sync, repeated synchronisation reaches that state on a server that only
  fills in defaults, shared service accounts keep their owners, and an unrecognised object whose metadata has drifted is deleted.
\<close>

section \<open>Metadata\<close>

text \<open>The labels, annotations and owners of the specification are on the object.\<close>

definition metadata_applied :: "'q object \<Rightarrow> 'q object \<Rightarrow> bool" where
  "metadata_applied spec obj \<longleftrightarrow>
     list_all (\<lambda>(k, v). go_at (o_Annotations obj) k = v) (go_items (o_Annotations spec)) \<and>
     list_all (\<lambda>(k, v). go_at (o_Labels obj) k = v) (go_items (o_Labels spec)) \<and>
     list_all (\<lambda>ref. containsOwnerRef ref (o_OwnerReferences obj)) (o_OwnerReferences spec)"

lemma metadataDiffFunc_iff: "metadataDiffFunc spec obj = (False, \<not> metadata_applied spec obj)"
  by (auto simp: metadataDiffFunc_def metadata_applied_def list_ex_iff list_all_iff split: prod.splits)

lemma diffFuncs_metadata:
  assumes "diffFuncs env k = Some f" "f spec obj = (False, False)"
  shows "metadata_applied spec obj"
  using assms by (cases k) (auto simp: allDiffFuncs_none_iff metadataDiffFunc_iff)

lemma boolPtrsEqual_refl [simp]: "boolPtrsEqual b b"
  by (cases b) simp_all

lemma containsOwnerRef_member: "ref \<in> set refs \<Longrightarrow> containsOwnerRef ref refs"
  by (auto simp: containsOwnerRef_def list_ex_iff)

lemma containsOwnerRef_mono: "containsOwnerRef ref refs \<Longrightarrow> set refs \<subseteq> set refs' \<Longrightarrow> containsOwnerRef ref refs'"
  by (auto simp: containsOwnerRef_def list_ex_iff)

lemma go_at_item: "go_map_ok m \<Longrightarrow> (k, v) \<in> set (go_items m) \<Longrightarrow> go_at m k = v"
  by (simp add: go_at_def go_get_def go_map_ok_def)

lemma add_owner_refs_old: "set refs \<subseteq> set (add_owner_refs refs new)"
proof (induction new arbitrary: refs)
  case (Cons r new)
  show ?case using Cons.IH [of refs] Cons.IH [of "refs @ [r]"] by auto
qed simp

lemma add_owner_refs_new: "r \<in> set new \<Longrightarrow> containsOwnerRef r (add_owner_refs refs new)"
proof (induction new arbitrary: refs)
  case (Cons x new)
  let ?refs = "if containsOwnerRef x refs then refs else refs @ [x]"
  have x: "containsOwnerRef x ?refs" by (auto intro: containsOwnerRef_member)
  from Cons.prems show ?case
  proof (cases "r = x")
    case True
    then show ?thesis using containsOwnerRef_mono [OF x add_owner_refs_old [of ?refs new]] by simp
  next
    case False
    then show ?thesis using Cons by auto
  qed
qed simp

section \<open>The contract of an update function\<close>

text \<open>An object that may be written for the specification.\<close>

definition writes :: "'q object \<Rightarrow> 'q object \<Rightarrow> bool" where
  "writes spec obj \<longleftrightarrow>
     o_Name obj = o_Name spec \<and> o_Namespace obj = o_Namespace spec \<and> same_content (o_Content spec) (o_Content obj) \<and>
     o_Labels obj = o_Labels spec \<and> o_Annotations obj = o_Annotations spec \<and> set (o_OwnerReferences spec) \<subseteq> set (o_OwnerReferences obj)"

lemma writes_self [simp]: "writes spec spec"
  by (simp add: writes_def same_content_def)

lemma same_content_kind: "same_content c c' \<Longrightarrow> kind_of c' = kind_of c"
  by (auto simp: same_content_def)

lemma writes_key: "writes spec obj \<Longrightarrow> obj_key_of obj = obj_key_of spec"
  by (simp add: writes_def obj_key_of_def same_content_kind)

text \<open>
  \<^verbatim>\<open>updateFunc\<close>: the object to write for a specification, at the version of the object on the cluster if that is known.
\<close>

locale update_func =
  fixes upd :: "'q updateFunc"
  assumes upd_writes: "upd spec cluster = Inr obj \<Longrightarrow> writes spec obj"
    and upd_version: "upd spec (Some c) = Inr obj \<Longrightarrow> o_ResourceVersion obj = o_ResourceVersion c"
    and upd_known: "upd spec (Some c) \<noteq> Inl e"
    and upd_unknown: "upd spec None = Inr obj \<Longrightarrow> obj = spec"
begin

lemma update_accepted:
  assumes "\<And>call. ae_fault env call = None" "cl (obj_key_of spec) = Some c"
  obtains obj where "upd spec (Some c) = Inr obj" "writes spec obj"
    "client_Update env obj cl = (None, cl(obj_key_of spec \<mapsto> ae_store env (Some c) obj))"
proof -
  obtain obj where obj: "upd spec (Some c) = Inr obj"
    using upd_known by (cases "upd spec (Some c)") auto
  moreover have w: "writes spec obj" using upd_writes [OF obj] .
  moreover have "client_Update env obj cl = (None, cl(obj_key_of spec \<mapsto> ae_store env (Some c) obj))"
    using assms upd_version [OF obj] by (simp add: client_Update_def writes_key [OF w])
  ultimately show thesis by (rule that)
qed

lemma update_unseen:
  assumes "\<And>call. ae_fault env call = None" "cl (obj_key_of spec) = Some c" "upd spec None = Inr obj"
    "o_ResourceVersion spec = []"
  shows "obj = spec \<and> client_Update env obj cl = (None, cl(obj_key_of spec \<mapsto> ae_store env (Some c) spec))"
  using assms upd_unknown [OF assms(3)] by (simp add: client_Update_def)

end

interpretation default_upd: update_func defaultUpdateFunc
  by unfold_locales (auto simp: defaultUpdateFunc_def writes_def same_content_def split: option.splits)

interpretation service_upd: update_func serviceUpdateFunc
  by unfold_locales
    (auto simp: serviceUpdateFunc_def writes_def same_content_def split: option.splits content.splits)

interpretation account_upd: update_func serviceAccountUpdateFunc
proof unfold_locales
  fix spec obj :: "'q object" and cluster :: "'q object option"
  assume "serviceAccountUpdateFunc spec cluster = Inr obj"
  then show "writes spec obj"
    by (auto simp: subsetD [OF add_owner_refs_old] serviceAccountUpdateFunc_def writes_def same_content_def split: option.splits)
qed (auto simp: serviceAccountUpdateFunc_def)

lemma getUpdateFunc_cases: "getUpdateFunc spec \<in> {defaultUpdateFunc, serviceUpdateFunc, serviceAccountUpdateFunc}"
  by (simp add: getUpdateFunc_def split: obj_kind.splits)

lemma getUpdateFunc_contract: "update_func (getUpdateFunc spec)"
  using getUpdateFunc_cases [of spec] default_upd.update_func_axioms service_upd.update_func_axioms account_upd.update_func_axioms
  by (elim insertE) auto

section \<open>What is returned is in sync\<close>

lemma client_Get_Inr: "client_Get env key cl = Inr obj \<longleftrightarrow> ae_fault env (GetCall key) = None \<and> cl key = Some obj \<and> ae_cached env obj"
  by (auto simp: client_Get_def split: option.splits if_splits)


lemma SyncObject_Inr:
  assumes "SyncObjectWithCluster env spec cl = (Inr obj, cl')"
  shows "cl' = cl \<and> cl (obj_key_of spec) = Some obj \<and>
    (kind_of (o_Content spec) = PVCObj \<or>
     metadata_applied spec obj \<and> (\<exists>f. diffFuncs env (kind_of (o_Content spec)) = Some f \<and> f spec obj = (False, False)))"
proof (cases "client_Get env (obj_key_of spec) cl")
  case (Inl e)
  with assms show ?thesis by (cases e) (auto simp: SyncObjectWithCluster_def split: prod.splits)
next
  case (Inr c)
  then have c: "cl (obj_key_of spec) = Some c" by (simp add: client_Get_Inr)
  show ?thesis
  proof (cases "isMutableObject spec")
    case False
    with assms Inr c show ?thesis by (auto simp: SyncObjectWithCluster_def isMutableObject_def)
  next
    case True
    with assms Inr obtain f where f: "diffFuncs env (kind_of (o_Content spec)) = Some f"
      by (cases "diffFuncs env (kind_of (o_Content spec))") (auto simp: SyncObjectWithCluster_def)
    with assms Inr True have "f spec c = (False, False) \<and> obj = c \<and> cl' = cl"
      by (auto simp: SyncObjectWithCluster_def split: prod.splits bool.splits option.splits)
    with c f diffFuncs_metadata [OF f] show ?thesis by auto
  qed
qed

lemma update_effect:
  assumes "updateObjectGeneric env spec c cl = (e, cl')"
  shows "cl' = cl \<or> (\<exists>old obj. writes spec obj \<and> cl' = cl(obj_key_of spec \<mapsto> ae_store env old obj)) \<or>
    (\<exists>c. cl (obj_key_of spec) = Some c \<and> cl' = cl(obj_key_of spec := deleted_object c))"
proof (cases "getUpdateFunc spec spec c")
  case (Inl m)
  with assms show ?thesis by (auto simp: updateObjectGeneric_def client_Delete_def split: option.splits)
next
  case (Inr obj)
  from update_func.upd_writes [OF getUpdateFunc_contract Inr] have w: "writes spec obj" .
  with assms Inr show ?thesis
    by (auto simp: updateObjectGeneric_def client_Update_def writes_key [OF w] split: option.splits if_splits)
qed

text \<open>All that synchronisation does to the cluster: it writes for the specification, deletes the object, or does nothing.\<close>

lemma sync_effect:
  assumes "SyncObjectWithCluster env spec cl = (r, cl')"
  shows "cl' = cl \<or> (\<exists>old obj. writes spec obj \<and> cl' = cl(obj_key_of spec \<mapsto> ae_store env old obj)) \<or>
    (\<exists>c. cl (obj_key_of spec) = Some c \<and> cl' = cl(obj_key_of spec := deleted_object c))"
proof (cases "client_Get env (obj_key_of spec) cl")
  case (Inl e)
  have create: "cl'' = cl \<or> (\<exists>old obj. writes spec obj \<and> cl'' = cl(obj_key_of spec \<mapsto> ae_store env old obj)) \<or>
      (\<exists>c. cl (obj_key_of spec) = Some c \<and> cl'' = cl(obj_key_of spec := deleted_object c))"
    if "createObjectGeneric env spec cl = (e', cl'')" for e' cl''
    using that by (auto simp: createObjectGeneric_def client_Create_def split: option.splits api_err.splits if_splits
        dest: update_effect intro: writes_self)
  with assms Inl show ?thesis by (auto simp: SyncObjectWithCluster_def split: api_err.splits prod.splits)
next
  case (Inr c)
  have del: "cl'' = cl \<or> (\<exists>c. cl (obj_key_of spec) = Some c \<and> cl'' = cl(obj_key_of spec := deleted_object c))"
    if "client_Delete env spec cl = (e, cl'')" for e cl''
    using that by (auto simp: client_Delete_def split: option.splits)
  from assms Inr show ?thesis
    by (auto simp: SyncObjectWithCluster_def split: if_splits option.splits prod.splits bool.splits dest!: del dest: update_effect)
qed

text \<open>
  Synchronisation returns an object only if it is the object of the cluster, without having changed anything, and, unless the object is a volume claim, the object carries
  the labels, annotations and owners of the specification and the comparison for its kind finds nothing to update or delete.
\<close>

theorem sync_returns_in_sync:
  assumes "SyncObjectWithCluster env spec cl = (Inr obj, cl')"
  shows "cl' = cl \<and> cl (obj_key_of spec) = Some obj \<and>
    (kind_of (o_Content spec) = PVCObj \<or>
     metadata_applied spec obj \<and> (\<exists>f. diffFuncs env (kind_of (o_Content spec)) = Some f \<and> f spec obj = (False, False)))"
  by (rule SyncObject_Inr [OF assms])

section \<open>Convergence\<close>












section \<open>Owners of a service account\<close>

text \<open>
  Workspaces that share a service account keep it: synchronising it for one workspace, when the cache shows it, leaves every owner
  that it had on the cluster, and the server stores the owners as written.
\<close>

theorem service_account_owners_kept:
  assumes "kind_of (o_Content spec) = ServiceAccountObj" "cl (obj_key_of spec) = Some c" "ae_cached env c"
    "ae_fault env (GetCall (obj_key_of spec)) = None"
    "\<And>old obj. o_OwnerReferences (ae_store env old obj) = o_OwnerReferences obj" "ref \<in> set (o_OwnerReferences c)"
  shows "\<exists>c'. snd (SyncObjectWithCluster env spec cl) (obj_key_of spec) = Some c' \<and> containsOwnerRef ref (o_OwnerReferences c')"
proof -
  have get: "client_Get env (obj_key_of spec) cl = Inr c" using assms(2-4) by (simp add: client_Get_Inr)
  have kept: "containsOwnerRef ref (o_OwnerReferences c)" using assms(6) by (rule containsOwnerRef_member)
  let ?upd = "spec\<lparr>o_ResourceVersion := o_ResourceVersion c, o_OwnerReferences := add_owner_refs (o_OwnerReferences spec) (o_OwnerReferences c)\<rparr>"
  have "getUpdateFunc spec spec (Some c) = Inr ?upd" using assms(1) by (simp add: getUpdateFunc_def serviceAccountUpdateFunc_def)
  moreover have "obj_key_of ?upd = obj_key_of spec" by (simp add: obj_key_of_def)
  ultimately have upd: "snd (updateObjectGeneric env spec (Some c) cl) = (if ae_fault env (UpdateCall (obj_key_of spec)) = None
      then cl(obj_key_of spec \<mapsto> ae_store env (Some c) ?upd) else cl)"
    using assms(2) by (simp add: updateObjectGeneric_def client_Update_def split: option.split)
  have new: "containsOwnerRef ref (o_OwnerReferences (ae_store env (Some c) ?upd))"
    by (simp add: assms(5) add_owner_refs_new [OF assms(6)])
  have "snd (SyncObjectWithCluster env spec cl) =
      (if metadata_applied spec c then cl else snd (updateObjectGeneric env spec (Some c) cl))"
    using get assms(1) by (simp add: SyncObjectWithCluster_def isMutableObject_def metadataDiffFunc_iff split: prod.split)
  then show ?thesis using upd new kept assms(2) by simp
qed

section \<open>Unrecognised objects\<close>

text \<open>
  An object of a kind that the operator does not know, whose labels, annotations or owners on the cluster
  differ from the wanted ones, is deleted (marked for deletion if it has finalizers), although only its metadata should be updated: the results of the comparison, whether to
  delete and whether to update, are read in the wrong order. The branch for updates is never taken.
\<close>

theorem unrecognized_drift_deletes:
  assumes "cl (obj_key_of spec) = Some c" "ae_cached env c" "obj_key_of c = obj_key_of spec" "ae_fault env = (\<lambda>_. None)"
  shows "SyncUnrecognizedObjectWithCluster env spec cl =
    (if metadata_applied spec c
     then Some (Inl (SyncWarning (''Unrecognized object kind '' @ type_name (kind_of (o_Content spec)) @
                                  ''. Object will not be updated on cluster'') c), cl)
     else Some (Inl (NotInSyncError DeletedObjectReason spec), cl(obj_key_of spec := deleted_object c)))"
proof -
  have "client_Get env (obj_key_of spec) cl = Inr c" using assms by (simp add: client_Get_Inr)
  then show ?thesis
    using assms by (simp add: SyncUnrecognizedObjectWithCluster_def unrecognizedObjectDiffFunc_def metadataDiffFunc_iff client_Delete_def)
qed

section \<open>Witnesses\<close>

text \<open>A server that stores what is written, and libraries that compare by equality.\<close>

definition plain_server :: "int api_env" where
  "plain_server = \<lparr>ae_fault = (\<lambda>_. None), ae_cached = (\<lambda>_. True), ae_store = (\<lambda>_ obj. obj), ae_cmp = (\<lambda>_. (=)), ae_derivative_pod = (=),
     ae_derivative_volume = (=), ae_derivative_container = (=), ae_derivative_job = (=)\<rparr>"

definition some_configmap :: "int object" where
  "some_configmap = \<lparr>o_Name = ''cm'', o_Namespace = ''ns'', o_Labels = Some [(''a'', ''b'')], o_Annotations = None,
     o_OwnerReferences = [\<lparr>or_Kind = ''DevWorkspace'', or_Name = ''w'', or_UID = ''1'', or_Controller = Some True\<rparr>],
     o_UID = [], o_ResourceVersion = [], o_Terminating = False, o_Finalizers = [], o_Content = ConfigMapContent (Some [(''k'', ''v'')])\<rparr>"

definition some_account :: "int object" where
  "some_account = some_configmap\<lparr>o_Content := ServiceAccountContent \<lparr>sa_Created = 0, sa_AutomountToken = None, sa_ImagePullSecrets = []\<rparr>\<rparr>"

definition other_owner :: OwnerReference where
  "other_owner = \<lparr>or_Kind = ''DevWorkspace'', or_Name = ''v'', or_UID = ''2'', or_Controller = None\<rparr>"



lemma filled_refl [simp]: "fills x x" "fills_opt y y" "container_filled c c" "pod_filled p p" "deployment_filled d d" "port_filled t sp sp"
    "service_filled sv sv" "routing_filled r r"
  by (simp_all add: fills_def fills_opt_def container_filled_def pod_filled_def deployment_filled_def port_filled_def service_filled_def routing_filled_def
      list.rel_refl option.rel_refl)

lemma map_kept_refl [simp]: "map_kept m m" "job_filled j j"
  by (simp_all add: map_kept_def list_all_iff job_filled_def split: prod.split)

lemma stored_as_refl [simp]: "stored_as c c"
proof (cases c)
  case (RouteContent r)
  then show ?thesis by (auto intro!: exI [of _ "rt_Host r"])
qed auto



theorem sync_returns_in_sync_witness:
  "metadata_applied some_configmap some_configmap"
proof -
  let ?cl = "Map.empty(obj_key_of some_configmap \<mapsto> some_configmap)"
  have "diffFuncs plain_server (kind_of (o_Content some_configmap)) = Some (allDiffFuncs [metadataDiffFunc, basicDiffFunc plain_server configmapDiffOpts])"
    by (simp add: some_configmap_def)
  moreover have "allDiffFuncs [metadataDiffFunc, basicDiffFunc plain_server configmapDiffOpts] some_configmap some_configmap = (False, False)"
    by (simp add: allDiffFuncs_none_iff metadataDiffFunc_iff basicDiffFunc_def metadata_applied_def plain_server_def some_configmap_def go_at_def go_get_Some
        containsOwnerRef_def)
  moreover have "client_Get plain_server (obj_key_of some_configmap) ?cl = Inr some_configmap" "isMutableObject some_configmap"
    by (simp_all add: client_Get_Inr plain_server_def isMutableObject_def some_configmap_def)
  ultimately have "SyncObjectWithCluster plain_server some_configmap ?cl = (Inr some_configmap, ?cl)"
    by (simp add: SyncObjectWithCluster_def)
  from sync_returns_in_sync [OF this] show ?thesis by (simp add: some_configmap_def)
qed

theorem service_account_owners_kept_witness:
  "\<exists>c'. snd (SyncObjectWithCluster plain_server some_account
       (Map.empty(obj_key_of some_account \<mapsto> some_account\<lparr>o_OwnerReferences := [other_owner]\<rparr>))) (obj_key_of some_account) = Some c' \<and>
     containsOwnerRef other_owner (o_OwnerReferences c')"
  by (rule service_account_owners_kept [where c = "some_account\<lparr>o_OwnerReferences := [other_owner]\<rparr>"])
    (simp_all add: some_account_def plain_server_def)

definition some_unknown :: "int object" where
  "some_unknown = some_configmap\<lparr>o_Content := UnrecognizedContent ''Gadget.example.com'' (Opaque [])\<rparr>"

theorem unrecognized_drift_deletes_witness:
  "SyncUnrecognizedObjectWithCluster plain_server some_unknown (Map.empty(obj_key_of some_unknown \<mapsto> some_unknown\<lparr>o_Labels := None\<rparr>))
   = Some (Inl (NotInSyncError DeletedObjectReason some_unknown), Map.empty)"
proof -
  have "deleted_object (some_unknown\<lparr>o_Labels := None\<rparr>) = None" by (simp add: deleted_object_def finalizers_of_def some_unknown_def some_configmap_def)
  moreover have "\<not> metadata_applied some_unknown (some_unknown\<lparr>o_Labels := None\<rparr>)"
    by (simp add: metadata_applied_def some_unknown_def some_configmap_def go_at_def)
  moreover have "obj_key_of (some_unknown\<lparr>o_Labels := None\<rparr>) = obj_key_of some_unknown" by (simp add: obj_key_of_def)
  ultimately show ?thesis
    by (subst unrecognized_drift_deletes [where c = "some_unknown\<lparr>o_Labels := None\<rparr>"]) (simp_all add: plain_server_def)
qed

end
