(* ===== verification/Automount_Mounts.thy ===== *)
theory Automount_Mounts
  imports Automount Sync_Convergence
begin

text \<open>
  What automounting guarantees: names and patterns select workspaces as globs do, access modes written in octal are read back,
  mounts with the same path are merged without losing an object, and containers never get two mounts with one path. One theorem
  shows where the code falls short: objects that are mounted on start only, and share a path, are dropped from the running workspace.
\<close>

section \<open>Patterns\<close>

text \<open>The reference meaning of a pattern: a star stands for any text.\<close>

fun glob :: "string \<Rightarrow> string \<Rightarrow> bool" where
  "glob [] s \<longleftrightarrow> s = []"
| "glob (c # p) s =
     (if c = CHR ''*'' then list_ex (\<lambda>n. glob p (drop n s)) [0..<Suc (length s)]
      else (case s of [] \<Rightarrow> False | d # s' \<Rightarrow> c = d \<and> glob p s'))"

lemma glob_star: "glob (CHR ''*'' # p) s \<longleftrightarrow> (\<exists>t u. s = t @ u \<and> glob p u)"
proof
  assume "glob (CHR ''*'' # p) s"
  then obtain n where "glob p (drop n s)" by (simp only: glob.simps if_True refl list_ex_iff) blast
  moreover have "s = take n s @ drop n s" by simp
  ultimately show "\<exists>t u. s = t @ u \<and> glob p u" by blast
next
  assume "\<exists>t u. s = t @ u \<and> glob p u"
  then obtain t u where "s = t @ u" "glob p u" by blast
  then have "length t \<in> set [0..<Suc (length s)]" "glob p (drop (length t) s)" by simp_all
  then show "glob (CHR ''*'' # p) s" by (simp only: glob.simps if_True refl list_ex_iff) blast
qed

lemma glob_char: "c \<noteq> CHR ''*'' \<Longrightarrow> glob (c # p) s \<longleftrightarrow> (\<exists>s'. s = c # s' \<and> glob p s')"
  by (cases s) auto

lemma glob_literal: "CHR ''*'' \<notin> set p \<Longrightarrow> glob (p @ q) s \<longleftrightarrow> (\<exists>u. s = p @ u \<and> glob q u)"
proof (induction p arbitrary: s)
  case (Cons c p)
  then show ?case by (auto simp: glob_char simp del: glob.simps)
qed simp

lemma glob_last_star: "glob ''*'' s"
  by (simp add: glob_star del: glob.simps(2))

lemmas glob_rules = glob_star glob_literal glob_literal [where q = "[]", simplified] glob_last_star

text \<open>(C40) With stars only as the first and the last character, a pattern of the include and exclude annotations selects exactly the
  names that it matches as a glob.\<close>

theorem matches_pattern_glob:
  assumes "pattern \<noteq> []" "CHR ''*'' \<notin> set (butlast (tl pattern))"
  shows "matches_pattern pattern name \<longleftrightarrow> glob pattern name"
proof (cases "length pattern = 1")
  case True
  then obtain c where "pattern = [c]" by (auto simp: length_Suc_conv)
  then show ?thesis
    by (cases "c = CHR ''*''") (auto simp: matches_pattern_def glob_last_star glob_char suffix_def simp del: glob.simps(2))
next
  case False
  with \<open>pattern \<noteq> []\<close> obtain a m b where p: "pattern = a # m @ [b]"
    by (metis append_butlast_last_id length_Cons list.exhaust list.size(3) One_nat_def)
  with assms have m: "CHR ''*'' \<notin> set m" by simp
  have lit: "CHR ''*'' \<notin> set (a # m)" if "a \<noteq> CHR ''*''" using that m by simp
  show ?thesis
  proof (cases "a = CHR ''*''"; cases "b = CHR ''*''")
    assume "a = CHR ''*''" "b = CHR ''*''"
    then show ?thesis
      using m by (auto simp: p matches_pattern_def suffix_def glob_rules sublist_def simp del: glob.simps(2))
  next
    assume "a = CHR ''*''" "b \<noteq> CHR ''*''"
    moreover from this m have "CHR ''*'' \<notin> set (m @ [b])" by simp
    ultimately show ?thesis
      using m by (auto simp: p matches_pattern_def glob_star glob_literal [where q = "[]" and p = "m @ [b]", simplified] suffix_def
          simp del: glob.simps(2))
  next
    assume "a \<noteq> CHR ''*''" "b = CHR ''*''"
    then show ?thesis
      using glob_literal [OF lit, of "''*''" name]
      by (auto simp: p matches_pattern_def glob_last_star prefix_def suffix_def simp del: glob.simps(2))
  next
    assume "a \<noteq> CHR ''*''" "b \<noteq> CHR ''*''"
    moreover from this m have "CHR ''*'' \<notin> set (a # m @ [b])" by simp
    ultimately show ?thesis
      using glob_literal [where q = "[]" and p = "a # m @ [b]" and s = name] by (auto simp: p matches_pattern_def suffix_def prefix_def)
  qed
qed

theorem matches_pattern_glob_witness: "matches_pattern ''*-dev'' ''team-dev'' \<longleftrightarrow> glob ''*-dev'' ''team-dev''"
  by (rule matches_pattern_glob) simp_all

section \<open>Access modes\<close>

definition octal_digit :: "char \<Rightarrow> bool" where
  "octal_digit c \<longleftrightarrow> (\<exists>d < 8. c = digit_char d)"

lemma octal_digit_mod: "octal_digit (digit_char (n mod 8))"
  unfolding octal_digit_def by (rule exI [of _ "n mod 8"]) simp

lemma octal_digit_small: "n < 8 \<Longrightarrow> octal_digit (digit_char n)"
  using octal_digit_mod [of n] by simp

lemma octal_digitE:
  assumes "octal_digit c"
  obtains d where "d < 8" "c = digit_char d" "digit_of c = Some d" "c \<noteq> CHR ''_''" "lower_char c \<notin> {CHR ''b'', CHR ''o'', CHR ''x''}"
proof -
  from assms obtain d where d: "d < 8" "c = digit_char d" by (auto simp: octal_digit_def)
  then have n: "of_char c = 48 + d" by (simp add: of_char_digit_char)
  have l: "lower_char c = c" using n d by (simp add: lower_char_def)
  have "c \<noteq> x" if "55 < (of_char x :: nat)" for x using that n d by auto
  then show thesis using that [OF d] n d l by (simp add: digit_of_def)
qed

lemma parse_digits_append:
  "parse_digits b (xs @ ys) n = (case parse_digits b xs n of Inl e \<Rightarrow> Inl e | Inr m \<Rightarrow> parse_digits b ys m)"
  by (induction xs arbitrary: n) (auto split: option.splits)

lemma octal_digits: "c \<in> set (format_octal n) \<Longrightarrow> octal_digit c"
proof (induction n rule: format_octal.induct)
  case (1 n)
  then show ?case by (subst (asm) (2) format_octal.simps) (auto simp: octal_digit_mod octal_digit_small split: if_splits)
qed

lemma digit_char_facts: "d < 8 \<Longrightarrow> digit_char d \<noteq> CHR ''_''" "d < 8 \<Longrightarrow> digit_of (digit_char d) = Some d"
proof -
  assume "d < 8"
  then have n: "of_char (digit_char d) = (48 + d :: nat)" by (simp add: of_char_digit_char)
  then show "digit_char d \<noteq> CHR ''_''" using \<open>d < 8\<close> by auto
  show "digit_of (digit_char d) = Some d" using n \<open>d < 8\<close> by (simp add: digit_of_def)
qed

lemma parse_format_octal: "n < 2 ^ 32 \<Longrightarrow> parse_digits 8 (format_octal n) 0 = Inr n"
proof (induction n rule: format_octal.induct)
  case (1 n)
  have "n mod 8 < 8" by simp
  with 1 show ?case
    by (cases "n < 8"; subst format_octal.simps) (simp_all add: parse_digits_append digit_char_facts)
qed

lemma ParseInt32_octal:
  assumes "n < 2 ^ 31"
  shows "ParseInt32 (CHR ''0'' # format_octal n) = Inr (int n)"
proof -
  have "format_octal n \<noteq> []" by (subst format_octal.simps) simp
  then obtain c cs where cs: "format_octal n = c # cs" by (cases "format_octal n") auto
  then have "octal_digit c" using octal_digits [of c n] by simp
  then have c: "lower_char c \<notin> {CHR ''b'', CHR ''o'', CHR ''x''}" by (rule octal_digitE)
  have u: "CHR ''_'' \<notin> set (c # cs)" using octal_digits [of _ n] cs by (metis octal_digitE)
  have "parse_unsigned (CHR ''0'' # c # cs) = Inr n"
    using parse_format_octal [of n] assms c u by (simp add: parse_unsigned_def cs)
  then show ?thesis using assms by (simp add: ParseInt32_def cs)
qed

text \<open>A file mode that is written in octal with a leading zero in the annotation is used as it is where it is a permission
  (at most 0777), and is refused otherwise.\<close>

theorem access_mode_roundtrip:
  assumes "annotation obj DevWorkspaceMountAccessModeAnnotation = CHR ''0'' # format_octal n" "n < 2 ^ 31"
  shows "(case getAccessModeForAutomount obj of Inl e \<Rightarrow> n > 511 | Inr mode \<Rightarrow> n \<le> 511 \<and> mode = Some (int n))"
  using ParseInt32_octal [of n] assms by (simp add: getAccessModeForAutomount_def)

definition mode_object :: "nat \<Rightarrow> automount_object" where
  "mode_object n = \<lparr>am_Name = ''cm'', am_Annotations = Some [(DevWorkspaceMountAccessModeAnnotation, CHR ''0'' # format_octal n)],
     am_Data = [(''k'', ''v'')], am_BinaryData = []\<rparr>"

theorem access_mode_roundtrip_witness: "getAccessModeForAutomount (mode_object 416) = Inr (Some 416)"
  using access_mode_roundtrip [of "mode_object 416" 416]
  by (simp add: mode_object_def annotation_def go_at_def go_get_Some split: sum.splits)

section \<open>Mounts and their volumes\<close>

text \<open>Every mount names a volume.\<close>

definition resolved :: "'q AutomountResources \<Rightarrow> bool" where
  "resolved r \<longleftrightarrow> vm_Name ` set (ar_VolumeMounts r) \<subseteq> v_Name ` set (ar_Volumes r)"

abbreviation mount_paths :: "'q AutomountResources \<Rightarrow> string list" where
  "mount_paths r \<equiv> map vm_MountPath (ar_VolumeMounts r)"

lemma resolved_no_automount [simp]: "resolved no_automount"
  by (simp add: resolved_def no_automount_def)

lemma vm_Name_read_only_mount [simp]: "vm_Name (read_only_mount n p sub) = n" "vm_MountPath (read_only_mount n p sub) = p"
  by (simp_all add: read_only_mount_def plain_mount_def)

lemma v_Name_volume_of [simp]: "v_Name (volume_of n k d) = n"
  by (simp add: volume_of_def)

lemma resolved_mount_object [simp]: "resolved (mount_object v e ks p m)"
  by (auto simp: mount_object_def resolved_def no_automount_def)

lemma resolved_configmap [simp]: "resolved (getAutomountConfigmap p m a obj)"
  by (simp add: getAutomountConfigmap_def)

lemma resolved_secret [simp]: "resolved (getAutomountSecret p m a obj)"
  by (simp add: getAutomountSecret_def)

lemma resolved_pvc [simp]: "resolved (automount_pvc pvc es)"
  by (auto simp: automount_pvc_def resolved_def no_automount_def plain_mount_def)

lemma resolved_flatten: "list_all resolved rs \<Longrightarrow> resolved (flattenAutomountResources rs)"
  by (fastforce simp: resolved_def flattenAutomountResources_def list_all_iff image_iff subset_iff)

lemma resolved_merge: "(\<And>r. Some r \<in> set rs \<Longrightarrow> resolved r) \<Longrightarrow> resolved (mergeAutomountResources rs)"
  unfolding mergeAutomountResources_def by (rule resolved_flatten) (auto simp: list_all_iff map_filter_def)

lemma resolved_collect:
  "collect_objects kind dp f w d objs = DwOk rs \<Longrightarrow> (\<And>p m a obj. resolved (f p m a obj)) \<Longrightarrow> list_all resolved rs"
proof (induction objs arbitrary: rs)
  case (Cons obj objs)
  then show ?case by (auto simp: Let_def dw_results split: if_splits)
qed simp

lemma resolved_pvcs: "collect_pvcs env w d pvcs = DwOk rs \<Longrightarrow> list_all resolved rs"
proof (induction pvcs arbitrary: rs)
  case (Cons pvc pvcs)
  then show ?case by (auto simp: dw_results split: if_splits)
qed simp

lemma getAutomount_resolved:
  "getDevWorkspaceConfigmaps env w d = DwOk r \<Longrightarrow> resolved r"
  "getDevWorkspaceSecrets env w d = DwOk r \<Longrightarrow> resolved r"
  "getAutoMountPVCs env w d = DwOk (Some r) \<Longrightarrow> resolved r"
  unfolding getDevWorkspaceConfigmaps_def getDevWorkspaceSecrets_def getAutoMountPVCs_def
  by (auto simp: dw_results intro!: resolved_flatten dest: resolved_collect resolved_pvcs split: if_splits)

lemma ProvisionGit_resolved: "ProvisionGitConfiguration env ns w d cl = (DwOk (Some r), cl') \<Longrightarrow> resolved r"
  unfolding ProvisionGitConfiguration_def
  by (auto split: sum.splits prod.splits option.splits if_splits intro!: resolved_flatten)

lemma resolved_filterGitconfig: "resolved r \<Longrightarrow> resolved (filterGitconfigAutomountVolume r)"
  unfolding resolved_def filterGitconfigAutomountVolume_def Let_def
  by (simp add: list_ex_iff image_iff subset_iff) metis

lemma v_Name_drop_items [simp]: "v_Name (drop_items v) = v_Name v"
  by (simp add: drop_items_def split: option.splits VolumeData.splits)

lemma resolved_dropItems: "resolved r \<Longrightarrow> resolved (r\<lparr>ar_Volumes := dropItemsFieldFromVolumes (ar_Volumes r)\<rparr>)"
  by (simp add: resolved_def dropItemsFieldFromVolumes_def image_image)

section \<open>Merging mounts with one path\<close>

lemma volume_named_found:
  "n \<in> v_Name ` set vs \<Longrightarrow> volume_named vs n \<in> set vs \<and> v_Name (volume_named vs n) = n"
proof -
  assume "n \<in> v_Name ` set vs"
  then obtain v where "find (\<lambda>v. v_Name v = n) (rev vs) = Some v"
    by (cases "find (\<lambda>v. v_Name v = n) (rev vs)") (auto simp: find_None_iff)
  then show ?thesis using find_Some_mem [of "\<lambda>v. v_Name v = n" "rev vs" v] by (simp add: volume_named_def)
qed

lemma resolved_volume:
  "resolved r \<Longrightarrow> vm \<in> set (ar_VolumeMounts r) \<Longrightarrow>
   volume_named (ar_Volumes r) (vm_Name vm) \<in> set (ar_Volumes r) \<and> v_Name (volume_named (ar_Volumes r) (vm_Name vm)) = vm_Name vm"
  by (rule volume_named_found) (auto simp: resolved_def)

text \<open>What \<open>vm\<close> mounts is mounted at its path in \<open>r\<close>: by itself, or as one of the sources of a projected volume.\<close>

definition served :: "'q Volume list \<Rightarrow> VolumeMount \<Rightarrow> 'q AutomountResources \<Rightarrow> bool" where
  "served vs vm r \<longleftrightarrow>
     (\<exists>vm' \<in> set (ar_VolumeMounts r). vm_MountPath vm' = vm_MountPath vm \<and>
        (vm' = vm \<and> volume_named vs (vm_Name vm) \<in> set (ar_Volumes r) \<or>
         (\<exists>sources mode p. volume_of (vm_Name vm') Projected (ProjectedData sources mode) \<in> set (ar_Volumes r) \<and>
            projection_of (volume_named vs (vm_Name vm)) = Inr p \<and> p \<in> set sources)))"

lemma served_mono:
  "served vs vm r \<Longrightarrow> set (ar_VolumeMounts r) \<subseteq> set (ar_VolumeMounts r') \<Longrightarrow> set (ar_Volumes r) \<subseteq> set (ar_Volumes r') \<Longrightarrow> served vs vm r'"
  unfolding served_def by blast

lemma projections_Inr: "projections vs vms = Inr ps \<Longrightarrow> vm \<in> set vms \<Longrightarrow> \<exists>p \<in> set ps. projection_of (volume_named vs (vm_Name vm)) = Inr p"
proof (induction vms arbitrary: ps)
  case (Cons v vms)
  then obtain p qs where "projection_of (volume_named vs (vm_Name v)) = Inr p" "projections vs vms = Inr qs" "ps = p # qs"
    by (auto simp: map_sum_id_Inr split: sum.splits)
  with Cons show ?case by auto
qed simp

lemma set_sort_projections [simp]: "set (sort_projections ps) = set ps"
  by (auto simp: sort_projections_def)

lemma generateProjectedVolume_Ok:
  assumes "generateProjectedVolume sha vs p vms = DwOk (vm, vol)"
  obtains sources where "vm = read_only_mount (AutoMountProjectedVolumeName sha p) p []"
    "vol = volume_of (AutoMountProjectedVolumeName sha p) Projected (ProjectedData sources (Some 416))"
    "\<And>m. m \<in> set vms \<Longrightarrow> \<exists>q \<in> set sources. projection_of (volume_named vs (vm_Name m)) = Inr q"
proof -
  from assms obtain ps where "projections vs vms = Inr ps" "vm = read_only_mount (AutoMountProjectedVolumeName sha p) p []"
    "vol = volume_of (AutoMountProjectedVolumeName sha p) Projected (ProjectedData (sort_projections ps) (Some 416))"
    by (auto simp: generateProjectedVolume_def dw_results Let_def)
  then show thesis by (intro that [of "sort_projections ps"]) (simp_all add: projections_Inr)
qed

text \<open>The volumes that are recorded as merged are there, under their names.\<close>

definition merged_ok :: "'q AutomountResources \<Rightarrow> string list \<Rightarrow> 'q AutomountResources \<Rightarrow> bool" where
  "merged_ok r names m \<longleftrightarrow> resolved m \<and> (\<forall>n \<in> set names. volume_named (ar_Volumes r) n \<in> set (ar_Volumes m))"

definition grows :: "'q AutomountResources \<Rightarrow> 'q AutomountResources \<Rightarrow> bool" where
  "grows m m' \<longleftrightarrow> set (ar_VolumeMounts m) \<subseteq> set (ar_VolumeMounts m') \<and> set (ar_Volumes m) \<subseteq> set (ar_Volumes m')"

lemma grows_trans: "grows a b \<Longrightarrow> grows b c \<Longrightarrow> grows a c"
  unfolding grows_def by blast

lemma grows_served: "grows m m' \<Longrightarrow> served vs vm m \<Longrightarrow> served vs vm m'"
  unfolding grows_def by (blast intro: served_mono)

abbreviation mounts_at :: "'q AutomountResources \<Rightarrow> string \<Rightarrow> VolumeMount list" where
  "mounts_at r p \<equiv> [vm \<leftarrow> ar_VolumeMounts r. vm_MountPath vm = p]"

text \<open>One step of the loop, for a path with a single mount and for one with several.\<close>

lemma merge_single:
  assumes "resolved r" "mounts_at r p = [vm]" "merged_ok r names m"
  defines "v \<equiv> volume_named (ar_Volumes r) (vm_Name vm)"
  defines "old \<equiv> v_Name v \<in> set names"
  defines "m' \<equiv> m\<lparr>ar_VolumeMounts := ar_VolumeMounts m @ [vm], ar_Volumes := ar_Volumes m @ (if old then [] else [v])\<rparr>"
  shows "merged_ok r (if old then names else v_Name v # names) m'" "grows m m'" "served (ar_Volumes r) vm m'"
    "mount_paths m' = mount_paths m @ [p]"
proof -
  from assms(2) have vm: "vm \<in> set (ar_VolumeMounts r)" "vm_MountPath vm = p" by (auto dest: filter_eq_ConsD)
  then have v: "v \<in> set (ar_Volumes r)" "v_Name v = vm_Name vm" using resolved_volume [OF assms(1)] by (auto simp: v_def)
  then have in': "v \<in> set (ar_Volumes m')" using assms(3) by (auto simp: m'_def old_def merged_ok_def v_def)
  show "merged_ok r (if old then names else v_Name v # names) m'"
    using assms(3) v in' by (auto simp: merged_ok_def resolved_def m'_def v_def [symmetric] image_iff intro: bexI [of _ v])
  show "grows m m'" by (auto simp: grows_def m'_def)
  show "served (ar_Volumes r) vm m'" using in' by (auto simp: served_def v_def [symmetric]) (simp add: m'_def)
  show "mount_paths m' = mount_paths m @ [p]" using vm by (simp add: m'_def)
qed

lemma merge_several:
  assumes "generateProjectedVolume sha (ar_Volumes r) p (mounts_at r p) = DwOk (pm, vol)" "merged_ok r names m"
  defines "m' \<equiv> m\<lparr>ar_VolumeMounts := ar_VolumeMounts m @ [pm], ar_Volumes := ar_Volumes m @ [vol]\<rparr>"
  shows "merged_ok r names m'" "grows m m'" "vm \<in> set (mounts_at r p) \<Longrightarrow> served (ar_Volumes r) vm m'"
    "mount_paths m' = mount_paths m @ [p]"
proof -
  from assms(1) obtain sources where pm: "pm = read_only_mount (AutoMountProjectedVolumeName sha p) p []"
    "vol = volume_of (AutoMountProjectedVolumeName sha p) Projected (ProjectedData sources (Some 416))"
    and all: "\<And>m. m \<in> set (mounts_at r p) \<Longrightarrow> \<exists>q \<in> set sources. projection_of (volume_named (ar_Volumes r) (vm_Name m)) = Inr q"
    by (rule generateProjectedVolume_Ok) blast
  show "merged_ok r names m'" using assms(2) pm by (auto simp: merged_ok_def resolved_def m'_def)
  show "grows m m'" by (auto simp: grows_def m'_def)
  show "mount_paths m' = mount_paths m @ [p]" using pm by (simp add: m'_def)
  assume vm: "vm \<in> set (mounts_at r p)"
  then obtain q where "q \<in> set sources" "projection_of (volume_named (ar_Volumes r) (vm_Name vm)) = Inr q" using all by blast
  moreover have "pm \<in> set (ar_VolumeMounts m')" "volume_of (vm_Name pm) Projected (ProjectedData sources (Some 416)) \<in> set (ar_Volumes m')"
    "vm_MountPath pm = vm_MountPath vm" using pm vm by (simp_all add: m'_def)
  ultimately show "served (ar_Volumes r) vm m'" unfolding served_def by blast
qed

lemma merge_paths_Ok:
  assumes "resolved r"
  shows "merge_paths sha r ps names m = DwOk m' \<Longrightarrow> set ps \<subseteq> set (mount_paths r) \<Longrightarrow> merged_ok r names m \<Longrightarrow>
    resolved m' \<and> grows m m' \<and> mount_paths m' = mount_paths m @ ps \<and>
    (\<forall>vm \<in> set (ar_VolumeMounts r). vm_MountPath vm \<in> set ps \<longrightarrow> served (ar_Volumes r) vm m')"
proof (induction ps arbitrary: names m)
  case Nil
  then show ?case by (auto simp: merged_ok_def grows_def)
next
  case (Cons p ps)
  from Cons.prems(2) have ne: "mounts_at r p \<noteq> []" and ps: "set ps \<subseteq> set (mount_paths r)" by (auto simp: filter_empty_conv)
  have step: "\<exists>names' m1. merge_paths sha r ps names' m1 = DwOk m' \<and> merged_ok r names' m1 \<and> grows m m1 \<and> mount_paths m1 = mount_paths m @ [p] \<and>
    (\<forall>vm \<in> set (mounts_at r p). served (ar_Volumes r) vm m1)"
  proof (cases "\<exists>vm. mounts_at r p = [vm]")
    case True
    then obtain vm where vm: "mounts_at r p = [vm]" by blast
    note one = merge_single [OF assms vm Cons.prems(3)]
    let ?v = "volume_named (ar_Volumes r) (vm_Name vm)"
    let ?old = "v_Name ?v \<in> set names"
    let ?m1 = "m\<lparr>ar_VolumeMounts := ar_VolumeMounts m @ [vm], ar_Volumes := ar_Volumes m @ (if ?old then [] else [?v])\<rparr>"
    have rest: "merge_paths sha r ps (if ?old then names else v_Name ?v # names) ?m1 = DwOk m'"
      using Cons.prems(1) by (simp add: vm Let_def)
    have "\<forall>x \<in> set (mounts_at r p). served (ar_Volumes r) x ?m1" using one(3) by (simp only: vm) simp
    with rest one(1,2,4) show ?thesis by blast
  next
    case False
    with ne obtain a b cs where abc: "mounts_at r p = a # b # cs" by (metis neq_Nil_conv)
    with Cons.prems(1) obtain pm vol where g: "generateProjectedVolume sha (ar_Volumes r) p (mounts_at r p) = DwOk (pm, vol)"
      and rest: "merge_paths sha r ps names (m\<lparr>ar_VolumeMounts := ar_VolumeMounts m @ [pm], ar_Volumes := ar_Volumes m @ [vol]\<rparr>) = DwOk m'"
      by (auto simp: dw_bind_Ok_iff)
    from rest merge_several [OF g Cons.prems(3)] show ?thesis by blast
  qed
  then obtain names' m1 where m1: "merge_paths sha r ps names' m1 = DwOk m'" "merged_ok r names' m1" "grows m m1"
    "mount_paths m1 = mount_paths m @ [p]" "\<And>vm. vm \<in> set (mounts_at r p) \<Longrightarrow> served (ar_Volumes r) vm m1" by blast
  from Cons.IH [OF m1(1) ps m1(2)] m1(3-5) show ?case by (auto intro: grows_trans grows_served)
qed

lemma mergeProjectedVolumes_Ok:
  assumes "resolved r" "mergeProjectedVolumes sha r = DwOk r'"
  shows "resolved r' \<and> distinct (mount_paths r') \<and> set (mount_paths r') = set (mount_paths r) \<and> ar_EnvFromSource r' = ar_EnvFromSource r \<and>
    (\<forall>vm \<in> set (ar_VolumeMounts r). served (ar_Volumes r) vm r')"
proof (cases "distinct (mount_paths r)")
  case True
  with assms(2) have "r' = r" by (simp add: mergeProjectedVolumes_def Let_def)
  with True assms(1) resolved_volume [OF assms(1)] show ?thesis by (auto simp: served_def)
next
  case False
  with assms(2) obtain m where m: "merge_paths sha r (sort (remdups (mount_paths r))) [] no_automount = DwOk m"
    and r': "r' = m\<lparr>ar_EnvFromSource := ar_EnvFromSource r\<rparr>"
    by (auto simp: mergeProjectedVolumes_def Let_def dw_bind_Ok_iff)
  have "resolved m \<and> mount_paths m = sort (remdups (mount_paths r)) \<and> (\<forall>vm \<in> set (ar_VolumeMounts r). served (ar_Volumes r) vm m)"
    using merge_paths_Ok [OF assms(1) m] by (simp add: merged_ok_def) (simp add: no_automount_def)
  then show ?thesis by (auto simp: r' resolved_def served_def)
qed

text \<open>Merging the mounts that share a path leaves one mount per path, loses no path, keeps the environment, and everything that was
  mounted is still mounted there: by its own volume, or as a source of a projected volume.\<close>

theorem projected_volumes_complete:
  assumes "vm_Name ` set (ar_VolumeMounts r) \<subseteq> v_Name ` set (ar_Volumes r)" "mergeProjectedVolumes sha r = DwOk r'"
  shows "distinct (map vm_MountPath (ar_VolumeMounts r')) \<and>
    set (map vm_MountPath (ar_VolumeMounts r')) = set (map vm_MountPath (ar_VolumeMounts r)) \<and> ar_EnvFromSource r' = ar_EnvFromSource r \<and>
    (\<forall>vm \<in> set (ar_VolumeMounts r). served (ar_Volumes r) vm r')"
  using mergeProjectedVolumes_Ok [of r sha r'] assms by (simp add: resolved_def)

section \<open>The whole of automounting\<close>

lemma getAutomountResources_resolved:
  assumes "getAutomountResources env ns w d cl = (DwOk r, cl')"
  shows "resolved r"
proof -
  obtain git where git: "ProvisionGitConfiguration env ns w d cl = (git, cl')"
    using assms by (auto simp: getAutomountResources_def split: prod.splits)
  with assms obtain g cm0 sec0 cm sec m pvc where g: "git = DwOk g" and cms: "getDevWorkspaceConfigmaps env w d = DwOk cm0"
    and secs: "getDevWorkspaceSecrets env w d = DwOk sec0" and pvcs: "getAutoMountPVCs env w d = DwOk pvc"
    and filtered: "cm = cm0 \<or> cm = filterGitconfigAutomountVolume cm0" "sec = sec0 \<or> sec = filterGitconfigAutomountVolume sec0"
    and m: "mergeProjectedVolumes (ae_sha env) (mergeAutomountResources [Some cm, Some sec]) = DwOk m"
    and r: "r = mergeAutomountResources [g, Some (m\<lparr>ar_Volumes := dropItemsFieldFromVolumes (ar_Volumes m)\<rparr>), pvc]"
    by (fastforce simp: getAutomountResources_def dw_bind_Ok_iff Let_def split: if_splits)
  have "resolved cm" "resolved sec" using filtered getAutomount_resolved(1) [OF cms] getAutomount_resolved(2) [OF secs]
    by (auto intro: resolved_filterGitconfig)
  then have "resolved (mergeAutomountResources [Some cm, Some sec])" by (intro resolved_merge) auto
  from mergeProjectedVolumes_Ok [OF this m] have "resolved m" by blast
  then show ?thesis unfolding r
    by (intro resolved_merge) (use git g pvcs in \<open>auto intro: resolved_dropItems dest: ProvisionGit_resolved getAutomount_resolved(3)\<close>)
qed

lemma colliding_mount_None:
  "colliding_mount vms seen = None \<Longrightarrow> distinct (map vm_MountPath vms) \<and> vm_MountPath ` set vms \<inter> fst ` set seen = {}"
proof (induction vms arbitrary: seen)
  case (Cons vm vms)
  then have "vm_MountPath vm \<notin> fst ` set seen" "colliding_mount vms ((vm_MountPath vm, vm) # seen) = None"
    by (auto split: option.splits simp: map_of_eq_None_iff)
  with Cons.IH [OF this(2)] show ?case by auto
qed simp

lemma no_collision:
  assumes "checkAutomountVolumesForCollision pa r = DwOk u"
  shows "v_Name ` set (pa_Volumes pa) \<inter> v_Name ` set (ar_Volumes r) = {}" "distinct (mount_paths r)"
    "c \<in> set (pa_Containers pa) \<Longrightarrow> vm_MountPath ` set (c_VolumeMounts c) \<inter> set (mount_paths r) = {}"
  using assms colliding_mount_None [of "ar_VolumeMounts r" "[]"]
  by (fastforce simp: checkAutomountVolumesForCollision_def find_None_iff split: option.splits)+

lemma ProvisionAutoMountResourcesInto_Ok:
  assumes "ProvisionAutoMountResourcesInto env ns w ph d pa cl = (DwOk pa', cl')"
  obtains r where "getAutomountResources env ns w d cl = (DwOk r, cl')" "checkAutomountVolumesForCollision pa r = DwOk ()"
    "pa_Containers pa' = map (add_automount r) (pa_Containers pa)" "pa_Volumes pa' = pa_Volumes pa @ ar_Volumes r"
    "pa_InitContainers pa' = map (\<lambda>c. if ph \<and> c_Name c = HomeInitComponentName then c else add_automount r c) (pa_InitContainers pa)"
  using assms by (auto simp: ProvisionAutoMountResourcesInto_def dw_bind_Ok_iff split: prod.splits)

abbreviation container_mounts_ok :: "'q PodAdditions \<Rightarrow> 'q Container \<Rightarrow> bool" where
  "container_mounts_ok pa c \<equiv>
     distinct (map vm_MountPath (c_VolumeMounts c)) \<and> vm_Name ` set (c_VolumeMounts c) \<subseteq> v_Name ` set (pa_Volumes pa)"

text \<open>
  (C39) Automounting keeps the mounts of the main containers valid: if none of them had two mounts with one path and all their mounts named volumes of the pod, and automounting succeeds,
  then the same holds afterwards. The mounts of init containers still name volumes of the pod if they did before; their paths are not compared, and may occur twice. No added volume
  takes the name of a volume of the workspace.
\<close>

theorem automount_keeps_mounts_valid:
  assumes "ProvisionAutoMountResourcesInto env ns w ph d pa cl = (DwOk pa', cl')" "\<And>c. c \<in> set (pa_Containers pa) \<Longrightarrow> container_mounts_ok pa c"
  shows "(\<forall>c \<in> set (pa_Containers pa'). container_mounts_ok pa' c) \<and>
    ((\<forall>c \<in> set (pa_InitContainers pa). vm_Name ` set (c_VolumeMounts c) \<subseteq> v_Name ` set (pa_Volumes pa)) \<longrightarrow>
     (\<forall>c \<in> set (pa_InitContainers pa'). vm_Name ` set (c_VolumeMounts c) \<subseteq> v_Name ` set (pa_Volumes pa'))) \<and>
    (\<exists>vs. pa_Volumes pa' = pa_Volumes pa @ vs \<and> v_Name ` set (pa_Volumes pa) \<inter> v_Name ` set vs = {})"
proof -
  from assms(1) obtain r where r: "getAutomountResources env ns w d cl = (DwOk r, cl')" "checkAutomountVolumesForCollision pa r = DwOk ()"
    "pa_Containers pa' = map (add_automount r) (pa_Containers pa)" "pa_Volumes pa' = pa_Volumes pa @ ar_Volumes r"
    "pa_InitContainers pa' = map (\<lambda>c. if ph \<and> c_Name c = HomeInitComponentName then c else add_automount r c) (pa_InitContainers pa)"
    by (rule ProvisionAutoMountResourcesInto_Ok)
  have names: "vm_Name ` set (ar_VolumeMounts r) \<subseteq> v_Name ` set (ar_Volumes r)"
    using getAutomountResources_resolved [OF r(1)] by (simp add: resolved_def)
  then have "container_mounts_ok pa' (add_automount r c)" if "c \<in> set (pa_Containers pa)" for c
    using assms(2) [OF that] no_collision(2) [OF r(2)] no_collision(3) [OF r(2) that] r(4) by (auto simp: add_automount_def)
  moreover have "vm_Name ` set (c_VolumeMounts (if ph \<and> c_Name c = HomeInitComponentName then c else add_automount r c)) \<subseteq> v_Name ` set (pa_Volumes pa')"
    if "vm_Name ` set (c_VolumeMounts c) \<subseteq> v_Name ` set (pa_Volumes pa)" for c
    using that names r(4) by (auto simp: add_automount_def)
  then have "(\<forall>c \<in> set (pa_InitContainers pa). vm_Name ` set (c_VolumeMounts c) \<subseteq> v_Name ` set (pa_Volumes pa)) \<longrightarrow>
     (\<forall>c \<in> set (pa_InitContainers pa'). vm_Name ` set (c_VolumeMounts c) \<subseteq> v_Name ` set (pa_Volumes pa'))"
    unfolding r(5) set_map by (simp only: ball_simps) blast
  ultimately show ?thesis using r(3,4) no_collision(1) [OF r(2)] by auto
qed

section \<open>Objects that are mounted on start\<close>

definition on_start :: "string \<Rightarrow> automount_object \<Rightarrow> bool" where
  "on_start p obj \<longleftrightarrow> am_Annotations obj = Some [(MountOnStartAttribute, ''true''), (DevWorkspaceMountPathAnnotation, p)]"

lemma on_start_annotations:
  assumes "on_start p obj"
  shows "isMountOnStart obj" "annotation obj DevWorkspaceMountPathAnnotation = p" "annotation obj DevWorkspaceMountAsAnnotation = []"
    "MatchesWorkspaceTarget obj w" "getAccessModeForAutomount obj = Inr None" "checkAutomountVolumeForPotentialError kind obj = []"
proof -
  have at: "annotation obj k = (case map_of [(MountOnStartAttribute, ''true''), (DevWorkspaceMountPathAnnotation, p)] k of None \<Rightarrow> [] | Some v \<Rightarrow> v)" for k
    using assms by (simp add: on_start_def annotation_def go_at_def go_get_Some)
  show "isMountOnStart obj" by (simp add: isMountOnStart_def at)
  show "annotation obj DevWorkspaceMountPathAnnotation = p" by (simp add: at MountOnStartAttribute_def DevWorkspaceMountPathAnnotation_def)
  show as: "annotation obj DevWorkspaceMountAsAnnotation = []"
    by (simp add: at MountOnStartAttribute_def DevWorkspaceMountPathAnnotation_def DevWorkspaceMountAsAnnotation_def)
  show "MatchesWorkspaceTarget obj w"
    by (simp add: MatchesWorkspaceTarget_def at MountOnStartAttribute_def DevWorkspaceMountPathAnnotation_def DevWorkspaceMountIncludeAnnotation_def
        DevWorkspaceMountExcludeAnnotation_def TrimSpace_def)
  show "getAccessModeForAutomount obj = Inr None"
    by (simp add: getAccessModeForAutomount_def at MountOnStartAttribute_def DevWorkspaceMountPathAnnotation_def DevWorkspaceMountAccessModeAnnotation_def)
  show "checkAutomountVolumeForPotentialError kind obj = []"
    by (simp add: checkAutomountVolumeForPotentialError_def as mount_as_defs)
qed

text \<open>The resources of a config map that is mounted as files.\<close>

definition file_configmap :: "string \<Rightarrow> automount_object \<Rightarrow> 'q AutomountResources" where
  "file_configmap p cm = no_automount\<lparr>ar_Volumes := [volume_of (am_Name cm) ConfigMap (ConfigMapData (am_Name cm) [] (Some 416) None)],
     ar_VolumeMounts := [read_only_mount (am_Name cm) p []]\<rparr>"

lemma on_start_configmap: "on_start p cm \<Longrightarrow> getAutomountConfigmap p [] None cm = file_configmap p cm"
  by (simp add: getAutomountConfigmap_def mount_object_def mount_as_defs file_configmap_def volume_items_def mode_value_def defaultAccessMode_def
      AutoMountConfigMapVolumeName_def)

lemma collect_on_start:
  assumes "p \<noteq> []" "\<And>cm. cm \<in> set cms \<Longrightarrow> on_start p cm"
  shows "collect_objects kind dp getAutomountConfigmap w d cms =
    DwOk (map (file_configmap p :: automount_object \<Rightarrow> 'q AutomountResources) [cm \<leftarrow> cms. case d of None \<Rightarrow> True | Some dep \<Rightarrow> am_Name cm \<in> set (rd_Volumes dep)])"
  using assms(2)
proof (induction cms)
  case (Cons cm cms)
  then have cm: "on_start p cm" and IH: "collect_objects kind dp getAutomountConfigmap w d cms =
    DwOk (map (file_configmap p :: automount_object \<Rightarrow> 'q AutomountResources) [cm \<leftarrow> cms. case d of None \<Rightarrow> True | Some dep \<Rightarrow> am_Name cm \<in> set (rd_Volumes dep)])" by auto
  have "existsInDeployment (file_configmap p cm :: 'q AutomountResources) dep \<longleftrightarrow> am_Name cm \<in> set (rd_Volumes dep)" for dep
    by (simp add: existsInDeployment_def isVolumeMountExistsInDeployment_def isEnvFromSourceExistsInDeployment_def file_configmap_def no_automount_def
        list_ex_iff)
  then show ?case
    using assms(1) on_start_annotations [OF cm] on_start_configmap [OF cm, where 'a = 'q]
    using IH by (cases d) (simp_all add: canMountWithoutRestart_def Let_def)
qed simp

text \<open>Two config maps that are mounted on start only, as files and at one path, are mounted into a starting workspace through a
  projected volume. In the running workspace the check for their own volumes does not find them, so the next reconcile leaves them out and
  thereby changes the deployment that the annotation is meant to leave alone.\<close>

theorem projected_on_start_dropped:
  assumes "ae_configmaps env = Inr [a, b]" "on_start p a" "on_start p b" "p \<noteq> []" "am_Name a < am_Name b"
    "AutoMountProjectedVolumeName (ae_sha env) p \<notin> {am_Name a, am_Name b}"
  shows "\<exists>r merged. getDevWorkspaceConfigmaps env w None = DwOk r \<and> mergeProjectedVolumes (ae_sha env) r = DwOk merged \<and>
    map vm_MountPath (ar_VolumeMounts merged) = [p] \<and>
    getDevWorkspaceConfigmaps env w (Some \<lparr>rd_Volumes = map v_Name (ar_Volumes merged), rd_EnvFrom = envFrom\<rparr>) = DwOk no_automount"
proof -
  have s: "sort_objects [a, b] = [a, b]" using assms(5) by (simp add: sort_objects_def)
  have at: "getDevWorkspaceConfigmaps env w d = DwOk (flattenAutomountResources (map (file_configmap p)
      [cm \<leftarrow> [a, b]. case d of None \<Rightarrow> True | Some dep \<Rightarrow> am_Name cm \<in> set (rd_Volumes dep)]))" for d
    by (subst getDevWorkspaceConfigmaps_def, subst assms(1), subst dw_plain.simps, subst dw_bind.simps, subst s, subst collect_on_start [of p])
      (use assms(2-4) in \<open>auto simp del: filter.simps\<close>)
  let ?r = "flattenAutomountResources [file_configmap p a, file_configmap p b]"
  let ?merged = "no_automount\<lparr>ar_VolumeMounts := [read_only_mount (AutoMountProjectedVolumeName (ae_sha env) p) p []],
    ar_Volumes := [volume_of (AutoMountProjectedVolumeName (ae_sha env) p) Projected
      (ProjectedData [ConfigMapProjection (am_Name a) [], ConfigMapProjection (am_Name b) []] (Some 416))]\<rparr>"
  have r: "mergeProjectedVolumes (ae_sha env) ?r = DwOk ?merged"
    using assms(5) less_imp_le [OF assms(5)] less_imp_neq [OF assms(5)] by (simp add: mergeProjectedVolumes_def flattenAutomountResources_def file_configmap_def no_automount_def generateProjectedVolume_def
        checkCanUseProjectedVolumes_def volume_named_def projection_of_def read_only_mount_def plain_mount_def volume_of_def sort_projections_def Let_def eq_commute)
  have "getDevWorkspaceConfigmaps env w None = DwOk ?r" by (simp add: at)
  moreover have "mount_paths ?merged = [p]" "map v_Name (ar_Volumes ?merged) = [AutoMountProjectedVolumeName (ae_sha env) p]"
    by (simp_all add: no_automount_def)
  moreover from assms(6) have
    "getDevWorkspaceConfigmaps env w (Some \<lparr>rd_Volumes = [AutoMountProjectedVolumeName (ae_sha env) p], rd_EnvFrom = envFrom\<rparr>) = DwOk no_automount"
    by (auto simp: at no_automount_def flattenAutomountResources_def)
  ultimately show ?thesis using r by (intro exI [of _ ?r] exI [of _ ?merged] conjI) simp_all
qed

section \<open>Witnesses\<close>

definition start_configmap :: "string \<Rightarrow> automount_object" where
  "start_configmap name = \<lparr>am_Name = name, am_Annotations = Some [(MountOnStartAttribute, ''true''), (DevWorkspaceMountPathAnnotation, ''/config'')],
     am_Data = [(''k'', ''v'')], am_BinaryData = []\<rparr>"

definition some_automount :: "int automount_env" where
  "some_automount = \<lparr>ae_api = plain_server, ae_configmaps = Inr [start_configmap ''a'', start_configmap ''b''], ae_secrets = Inr [], ae_pvcs = Inr [],
     ae_gitCredentials = Inr [], ae_gitTLS = Inr [], ae_parseEntries = (\<lambda>_. Inr []), ae_sha = (\<lambda>s. ''hash'')\<rparr>"

lemma on_start_some: "on_start ''/config'' (start_configmap name)"
  by (simp add: on_start_def start_configmap_def)

theorem projected_on_start_dropped_witness:
  "\<exists>r merged. getDevWorkspaceConfigmaps some_automount ''w'' None = DwOk r \<and> mergeProjectedVolumes (ae_sha some_automount) r = DwOk merged \<and>
    map vm_MountPath (ar_VolumeMounts merged) = [''/config''] \<and>
    getDevWorkspaceConfigmaps some_automount ''w'' (Some \<lparr>rd_Volumes = map v_Name (ar_Volumes merged), rd_EnvFrom = []\<rparr>) = DwOk no_automount"
  by (rule projected_on_start_dropped [OF _ on_start_some [of "''a''"] on_start_some [of "''b''"]])
    (simp_all add: some_automount_def start_configmap_def AutoMountProjectedVolumeName_def)

definition shared_mounts :: "int AutomountResources" where
  "shared_mounts = flattenAutomountResources [file_configmap ''/p'' (start_configmap ''a''), file_configmap ''/p'' (start_configmap ''b'')]"

theorem projected_volumes_complete_witness:
  "\<exists>r'. mergeProjectedVolumes (\<lambda>s. ''hash'') shared_mounts = DwOk r' \<and> served (ar_Volumes shared_mounts) (read_only_mount ''b'' ''/p'' []) r'"
proof -
  have ok: "vm_Name ` set (ar_VolumeMounts shared_mounts) \<subseteq> v_Name ` set (ar_Volumes shared_mounts)" by code_simp
  have "case mergeProjectedVolumes (\<lambda>s. ''hash'') shared_mounts of DwOk _ \<Rightarrow> True | _ \<Rightarrow> False" by code_simp
  then obtain r' where r': "mergeProjectedVolumes (\<lambda>s. ''hash'') shared_mounts = DwOk r'" by (auto split: dw_result.splits)
  have "read_only_mount ''b'' ''/p'' [] \<in> set (ar_VolumeMounts shared_mounts)" by code_simp
  with projected_volumes_complete [OF ok r'] r' show ?thesis by blast
qed

definition two_mounts :: "int PodAdditions" where
  "two_mounts = empty_pod_additions\<lparr>pa_Containers := [empty_container\<lparr>c_VolumeMounts := [plain_mount ''projects'' ''/projects'']\<rparr>],
     pa_Volumes := [volume_of ''projects'' EmptyDir (EmptyDirData None)]\<rparr>"

theorem automount_keeps_mounts_valid_witness:
  "\<exists>pa' cl'. ProvisionAutoMountResourcesInto some_automount ''ns'' ''w'' False None two_mounts Map.empty = (DwOk pa', cl') \<and>
    container_mounts_ok pa' (hd (pa_Containers pa'))"
proof -
  let ?run = "ProvisionAutoMountResourcesInto some_automount ''ns'' ''w'' False None two_mounts Map.empty"
  have "case fst ?run of DwOk pa' \<Rightarrow> pa_Containers pa' \<noteq> [] | _ \<Rightarrow> False" by code_simp
  then obtain pa' cl' where run: "?run = (DwOk pa', cl')" and "pa_Containers pa' \<noteq> []"
    by (cases ?run) (auto split: dw_result.splits)
  moreover have "container_mounts_ok two_mounts c" if "c \<in> set (pa_Containers two_mounts)" for c
    using that by (simp add: two_mounts_def plain_mount_def)
  ultimately show ?thesis using automount_keeps_mounts_valid [OF run] by auto
qed

end
