(* ===== verification/Storage.thy ===== *)
theory Storage
  imports Containers Sync
begin

text \<open>
  Storage of a workspace (\<^verbatim>\<open>src/pkg/provision/storage\<close>, \<^verbatim>\<open>src/pkg/provision/config/config.go\<close>,
  \<^verbatim>\<open>src/pkg/library/storage/storage.go\<close>): the common (per-user), per-workspace and ephemeral strategies, which add volumes to the
  pod and redirect the volume mounts of its containers, and the clean-up of a deleted workspace.
  The asynchronous strategy is in the theory \<open>Async_Storage\<close>.

  On an error the pod additions are discarded by the reconcile, so a failing function returns none. A nil pointer in the
  configuration, which a complete configuration does not have, is a panic.
\<close>

section \<open>The workspace and its surroundings\<close>

record 'q WorkspaceWithConfig =
  wwc_Name :: string
  wwc_Namespace :: string
  wwc_UID :: string
  wwc_Id :: string
  wwc_Labels :: "(string, string) gomap"
  wwc_Annotations :: "(string, string) gomap"
  wwc_RoutingClass :: string
  wwc_Template :: DevWorkspaceTemplateSpec
  wwc_Config :: "'q OperatorConfiguration"
  wwc_Workspace :: "'q WorkspaceConfig"  \<comment> \<open>the workspace section of the configuration\<close>

record storage_pod =
  spod_Phase :: string
  spod_NodeName :: string
  spod_Claims :: "string list"  \<comment> \<open>the claims of its volumes\<close>

text \<open>
  What the functions read from the cluster by listing, and what they call in other packages: the per-namespace config maps (name and data), the annotations of
  the namespace with the parsers of their JSON, the pods and the workspaces of the namespace (whether terminating, and the storage type), the errors of
  \<^verbatim>\<open>SetControllerReference\<close>, the image of the clean-up job, \<^verbatim>\<open>resource.MustParse\<close> and the answer of \<^verbatim>\<open>status.CheckPodsState\<close>.
\<close>

record 'q storage_env =
  se_api :: "'q api_env"
  se_configmaps :: "err + (string \<times> (string, string) gomap) list"
  se_namespace :: "err + (string, string) gomap"
  se_tolerations :: "string \<Rightarrow> err + opaque list"
  se_nodeSelector :: "string \<Rightarrow> err + (string \<times> string) list"
  se_pods :: "err + storage_pod list"
  se_workspaces :: "err + (bool \<times> string) list"
  se_setOwner :: "err option"
  se_image :: string
  se_mustParse :: "string \<Rightarrow> 'q"
  se_checkPods :: "err + string"

definition owner_of :: "'q WorkspaceWithConfig \<Rightarrow> OwnerReference" where
  "owner_of w = \<lparr>or_Kind = ''DevWorkspace'', or_Name = wwc_Name w, or_UID = wwc_UID w, or_Controller = Some True\<rparr>"

definition SetControllerReference :: "'q storage_env \<Rightarrow> 'q WorkspaceWithConfig \<Rightarrow> 'q object \<Rightarrow> err + 'q object" where
  "SetControllerReference env w obj =
     (case se_setOwner env of Some e \<Rightarrow> Inl e | None \<Rightarrow> Inr (obj\<lparr>o_OwnerReferences := upsert_owner (owner_of w) (o_OwnerReferences obj)\<rparr>))"

section \<open>Configuration of the namespace\<close>

record NamespacedConfig =
  CommonPVCSize :: string
  PerWorkspacePVCSize :: string

definition commonPVCSizeKey :: string where "commonPVCSizeKey = ''commonPVCSize''"
definition perWorkspacePVCSizeKey :: string where "perWorkspacePVCSizeKey = ''perWorkspacePVCSize''"

definition ReadNamespacedConfig :: "'q storage_env \<Rightarrow> err + NamespacedConfig option" where
  "ReadNamespacedConfig env =
     (case se_configmaps env of
        Inl e \<Rightarrow> Inl e
      | Inr [] \<Rightarrow> Inr None
      | Inr [(name, data)] \<Rightarrow>
          (if data = None then Inr None
           else Inr (Some \<lparr>CommonPVCSize = go_at data commonPVCSizeKey, PerWorkspacePVCSize = go_at data perWorkspacePVCSizeKey\<rparr>))
      | Inr cms \<Rightarrow> Inl (''multiple per-namespace configs found: '' @ strings_join '', '' (map fst cms)))"

definition NamespacePodTolerationsAnnotation :: string where
  "NamespacePodTolerationsAnnotation = ''controller.devfile.io/pod-tolerations''"
definition NamespaceNodeSelectorAnnotation :: string where
  "NamespaceNodeSelectorAnnotation = ''controller.devfile.io/node-selector''"

definition GetNamespacePodTolerationsAndNodeSelector :: "'q storage_env \<Rightarrow> err + opaque list \<times> (string \<times> string) list" where
  "GetNamespacePodTolerationsAndNodeSelector env =
     (case se_namespace env of
        Inl e \<Rightarrow> Inl e
      | Inr annotations \<Rightarrow>
          let podTolerationsAnnot = go_at annotations NamespacePodTolerationsAnnotation;
              nodeSelectorAnnot = go_at annotations NamespaceNodeSelectorAnnotation in
     (case (if podTolerationsAnnot = [] then Inr [] else se_tolerations env podTolerationsAnnot) of
        Inl e \<Rightarrow> Inl (''failed to parse '' @ NamespacePodTolerationsAnnotation @ '' annotation: '' @ e)
      | Inr podTolerations \<Rightarrow>
     (case (if nodeSelectorAnnot = [] then Inr [] else se_nodeSelector env nodeSelectorAnnot) of
        Inl e \<Rightarrow> Inl (''failed to parse '' @ NamespaceNodeSelectorAnnotation @ '' annotation: '' @ e)
      | Inr nodeSelector \<Rightarrow> Inr (podTolerations, nodeSelector))))"

section \<open>Volumes of the devfile\<close>

definition isEphemeral :: "VolumeComponent \<Rightarrow> bool" where
  "isEphemeral volume \<longleftrightarrow> vc_Ephemeral volume = Some True"

definition WorkspaceNeedsStorage :: "DevWorkspaceTemplateSpec \<Rightarrow> bool" where
  "WorkspaceNeedsStorage workspace =
     (if list_ex (\<lambda>c. case comp_Volume c of None \<Rightarrow> False | Some v \<Rightarrow> \<not> isEphemeral v) (ts_Components workspace) then True
      else if list_ex (\<lambda>c. comp_Volume c \<noteq> None \<and> comp_Name c = ProjectsVolumeName) (ts_Components workspace) then False
      else AnyMountSources (ts_Components workspace))"

definition ephemeral_component :: "DevfileComponent \<Rightarrow> bool" where
  "ephemeral_component c \<longleftrightarrow> (case comp_Volume c of None \<Rightarrow> False | Some v \<Rightarrow> isEphemeral v)"

text \<open>The persistent and the ephemeral volume components, and the last component for the projects volume.\<close>

definition getWorkspaceVolumes :: "DevWorkspaceTemplateSpec \<Rightarrow> DevfileComponent list \<times> DevfileComponent list \<times> DevfileComponent option" where
  "getWorkspaceVolumes workspace =
     (let volumes = [c \<leftarrow> ts_Components workspace. comp_Volume c \<noteq> None];
          others = [c \<leftarrow> volumes. comp_Name c \<noteq> ProjectsVolumeName] in
      ([c \<leftarrow> others. \<not> ephemeral_component c], [c \<leftarrow> others. ephemeral_component c], find (\<lambda>c. comp_Name c = ProjectsVolumeName) (rev volumes)))"

fun addEphemeralVolumesToPodAdditions :: "'q library \<Rightarrow> DevfileComponent list \<Rightarrow> 'q PodAdditions \<Rightarrow> err + 'q PodAdditions" where
  "addEphemeralVolumesToPodAdditions L [] podAdditions = Inr podAdditions"
| "addEphemeralVolumesToPodAdditions L (component # workspaceVolumes) podAdditions =
     (case comp_Volume component of
        None \<Rightarrow> addEphemeralVolumesToPodAdditions L workspaceVolumes podAdditions
      | Some volume \<Rightarrow>
     (case (if vc_Size volume = [] then Inr None else map_sum id Some (lib_parse L (vc_Size volume))) of
        Inl e \<Rightarrow> Inl (''failed to parse size for Volume '' @ comp_Name component @ '': '' @ e)
      | Inr sizeLimit \<Rightarrow>
          addEphemeralVolumesToPodAdditions L workspaceVolumes
            (podAdditions\<lparr>pa_Volumes := pa_Volumes podAdditions @ [volume_of (comp_Name component) EmptyDir (EmptyDirData sizeLimit)]\<rparr>)))"

definition addEphemeralVolumesFromWorkspace :: "'q library \<Rightarrow> DevWorkspaceTemplateSpec \<Rightarrow> 'q PodAdditions \<Rightarrow> 'q PodAdditions dw_result" where
  "addEphemeralVolumesFromWorkspace L workspace podAdditions =
     (case getWorkspaceVolumes workspace of (_, ephemeralVolumes, projectsVolume) \<Rightarrow>
        dw_bind (dw_fail ''Failed to add ephemeral volumes to workspace'' (addEphemeralVolumesToPodAdditions L ephemeralVolumes podAdditions))
          (\<lambda>pa. case projectsVolume of
             Some c \<Rightarrow>
               if ephemeral_component c
               then dw_fail ''Failed to add projects volume to workspace'' (addEphemeralVolumesToPodAdditions L [c] pa)
               else DwOk pa
           | None \<Rightarrow> DwOk pa))"

section \<open>Redirecting volume mounts\<close>

definition PVCStorageSize :: string where "PVCStorageSize = ''10Gi''"

fun devfile_volumes :: "DevfileComponent list \<Rightarrow> (string \<times> VolumeComponent) list \<Rightarrow> err + (string \<times> VolumeComponent) list" where
  "devfile_volumes [] devfileVolumes = Inr devfileVolumes"
| "devfile_volumes (component # components) devfileVolumes =
     (case comp_Volume component of
        None \<Rightarrow> devfile_volumes components devfileVolumes
      | Some volume \<Rightarrow>
          if map_of devfileVolumes (comp_Name component) \<noteq> None
          then Inl (''volume component '' @ [CHR 0x27] @ comp_Name component @ [CHR 0x27] @ '' is defined multiple times'')
          else devfile_volumes components ((comp_Name component, volume) # devfileVolumes))"

text \<open>\<open>subPath\<close> gives the directory of a volume within the claim, in which the two strategies differ.\<close>

fun rewriteMounts ::
  "(string \<Rightarrow> string) \<Rightarrow> string \<Rightarrow> (string \<times> VolumeComponent) list \<Rightarrow> string list \<Rightarrow> string \<Rightarrow> VolumeMount list \<Rightarrow> err + VolumeMount list" where
  "rewriteMounts subPath pvcName devfileVolumes additionalVolumes container [] = Inr []"
| "rewriteMounts subPath pvcName devfileVolumes additionalVolumes container (vm # vms) =
     (case (case map_of devfileVolumes (vm_Name vm) of
              None \<Rightarrow>
                if vm_Name vm \<in> set additionalVolumes then Inr vm
                else Inl (''container '' @ [CHR 0x27] @ container @ [CHR 0x27] @ '' references undefined volume '' @ [CHR 0x27] @ vm_Name vm @ [CHR 0x27])
            | Some volume \<Rightarrow>
                Inr (if isEphemeral volume then vm else vm\<lparr>vm_SubPath := subPath (vm_Name vm), vm_Name := pvcName\<rparr>)) of
        Inl e \<Rightarrow> Inl e
      | Inr vm' \<Rightarrow> map_sum id ((#) vm') (rewriteMounts subPath pvcName devfileVolumes additionalVolumes container vms))"

fun rewriteVolumeMounts ::
  "(string \<Rightarrow> string) \<Rightarrow> string \<Rightarrow> (string \<times> VolumeComponent) list \<Rightarrow> string list \<Rightarrow> 'q Container list \<Rightarrow> err + 'q Container list" where
  "rewriteVolumeMounts subPath pvcName devfileVolumes additionalVolumes [] = Inr []"
| "rewriteVolumeMounts subPath pvcName devfileVolumes additionalVolumes (container # containers) =
     (case rewriteMounts subPath pvcName devfileVolumes additionalVolumes (c_Name container) (c_VolumeMounts container) of
        Inl e \<Rightarrow> Inl e
      | Inr vms \<Rightarrow> map_sum id ((#) (container\<lparr>c_VolumeMounts := vms\<rparr>))
          (rewriteVolumeMounts subPath pvcName devfileVolumes additionalVolumes containers))"

definition rewrite_with ::
  "'q library \<Rightarrow> (string \<Rightarrow> string) \<Rightarrow> string \<Rightarrow> DevWorkspaceTemplateSpec \<Rightarrow> string list \<Rightarrow> 'q PodAdditions \<Rightarrow> err + 'q PodAdditions" where
  "rewrite_with L subPath pvcName workspace restrictedFields podAdditions =
     (case devfile_volumes (ts_Components workspace) [] of
        Inl e \<Rightarrow> Inl e
      | Inr devfileVolumes \<Rightarrow>
     (case GetVolumesFromOverrides (lib_json L) workspace restrictedFields of
        Inl e \<Rightarrow> Inl e
      | Inr overridesVolumes \<Rightarrow>
          let additionalVolumes = map v_Name (pa_Volumes podAdditions) @ overridesVolumes;
              devfileVolumes = (if map_of devfileVolumes ProjectsVolumeName = None
                                then (ProjectsVolumeName, \<lparr>vc_Size = PVCStorageSize, vc_Ephemeral = None\<rparr>) # devfileVolumes else devfileVolumes) in
     (case rewriteVolumeMounts subPath pvcName devfileVolumes additionalVolumes (pa_Containers podAdditions) of
        Inl e \<Rightarrow> Inl e
      | Inr containers \<Rightarrow>
     (case rewriteVolumeMounts subPath pvcName devfileVolumes additionalVolumes (pa_InitContainers podAdditions) of
        Inl e \<Rightarrow> Inl e
      | Inr initContainers \<Rightarrow>
          Inr (podAdditions\<lparr>pa_Containers := containers, pa_InitContainers := initContainers,
                 pa_Volumes := pa_Volumes podAdditions @ [volume_of pvcName PersistentVolumeClaim (ClaimData pvcName False)]\<rparr>)))))"

definition common_rewriteContainerVolumeMounts ::
  "'q library \<Rightarrow> string \<Rightarrow> string \<Rightarrow> DevWorkspaceTemplateSpec \<Rightarrow> string list \<Rightarrow> 'q PodAdditions \<Rightarrow> err + 'q PodAdditions" where
  "common_rewriteContainerVolumeMounts L workspaceId pvcName = rewrite_with L (\<lambda>volume. workspaceId @ ''/'' @ volume) pvcName"

definition perWorkspace_rewriteContainerVolumeMounts ::
  "'q library \<Rightarrow> string \<Rightarrow> string \<Rightarrow> DevWorkspaceTemplateSpec \<Rightarrow> string list \<Rightarrow> 'q PodAdditions \<Rightarrow> err + 'q PodAdditions" where
  "perWorkspace_rewriteContainerVolumeMounts L workspaceId pvcName = rewrite_with L (\<lambda>volume. volume) pvcName"

section \<open>Claims\<close>

definition CheCommonPVCName :: string where "CheCommonPVCName = ''claim-che-workspace''"
definition DevWorkspacePVCTypeLabel :: string where "DevWorkspacePVCTypeLabel = ''controller.devfile.io/devworkspace_pvc_type''"
definition DevWorkspaceStorageTypeAttribute :: string where "DevWorkspaceStorageTypeAttribute = ''controller.devfile.io/storage-type''"
definition CommonStorageClassType :: string where "CommonStorageClassType = ''common''"
definition PerUserStorageClassType :: string where "PerUserStorageClassType = ''per-user''"
definition AsyncStorageClassType :: string where "AsyncStorageClassType = ''async''"
definition EphemeralStorageClassType :: string where "EphemeralStorageClassType = ''ephemeral''"
definition PerWorkspaceStorageClassType :: string where "PerWorkspaceStorageClassType = ''per-workspace''"

definition pvc_key :: "string \<Rightarrow> string \<Rightarrow> obj_key" where
  "pvc_key namespace name = (PVCObj, namespace, name)"

definition getPVCSpec :: "string \<Rightarrow> string \<Rightarrow> string option \<Rightarrow> 'q \<Rightarrow> string list option \<Rightarrow> 'q object" where
  "getPVCSpec name namespace storageClass pvcSize storageAccessMode =
     \<lparr>o_Name = name, o_Namespace = namespace, o_Labels = None, o_Annotations = None, o_OwnerReferences = [], o_UID = [], o_ResourceVersion = [], o_Terminating = False, o_Finalizers = [],
      o_Content = PVCContent \<lparr>
        pvc_AccessModes = (case storageAccessMode of Some (m # ms) \<Rightarrow> m # ms | _ \<Rightarrow> [''ReadWriteOnce'']),
        pvc_Storage = pvcSize, pvc_StorageClassName = storageClass\<rparr>\<rparr>"

text \<open>The result of the synchronisation of a claim.\<close>

definition synced_pvc :: "string \<Rightarrow> 'q object \<Rightarrow> 'q sync_err + 'q object \<Rightarrow> 'q object dw_result" where
  "synced_pvc what pvc res =
     (case res of
        Inl (NotInSyncError _ _) \<Rightarrow> DwErr (RetryError (''Updated '' @ o_Name pvc @ '' PVC on cluster'') 0)
      | Inl (UnrecoverableSyncError cause) \<Rightarrow> DwErr (FailError (wrapped_text (''Failed to sync '' @ o_Name pvc @ '' PVC to cluster'') cause))
      | Inl e \<Rightarrow> DwErr (OtherError (sync_err_text e))
      | Inr currObject \<Rightarrow>
          (case o_Content currObject of
             PVCContent _ \<Rightarrow> DwOk currObject
           | _ \<Rightarrow> DwErr (OtherError (''tried to sync '' @ what @ '' PVC to cluster but did not get a PVC back''))))"

definition syncCommonPVC :: "'q library \<Rightarrow> 'q storage_env \<Rightarrow> 'q WorkspaceWithConfig \<Rightarrow> 'q objects \<Rightarrow> 'q object dw_result \<times> 'q objects" where
  "syncCommonPVC L env w cl =
     (case ReadNamespacedConfig env of
        Inl e \<Rightarrow> (DwErr (OtherError (''failed to read namespace-specific configuration: '' @ e)), cl)
      | Inr namespacedConfig \<Rightarrow>
     (case Option.bind (wc_DefaultStorageSize (wwc_Workspace w)) ss_Common of
        None \<Rightarrow> (DwPanic, cl)
      | Some defaultSize \<Rightarrow>
     (case (case namespacedConfig of
              Some nc \<Rightarrow> if CommonPVCSize nc \<noteq> [] then lib_parse L (CommonPVCSize nc) else Inr defaultSize
            | None \<Rightarrow> Inr defaultSize) of
        Inl e \<Rightarrow> (DwErr (OtherError e), cl)
      | Inr pvcSize \<Rightarrow>
          let pvc = (getPVCSpec (wc_PVCName (wwc_Workspace w)) (wwc_Namespace w) (wc_StorageClassName (wwc_Workspace w)) pvcSize
                       (wc_StorageAccessMode (wwc_Workspace w)))\<lparr>o_Labels := Some [(DevWorkspacePVCTypeLabel, PerUserStorageClassType)]\<rparr> in
          (case SyncObjectWithCluster (se_api env) pvc cl of (res, cl') \<Rightarrow> (synced_pvc ''common'' pvc res, cl')))))"

definition checkForAlternatePVC :: "'q storage_env \<Rightarrow> string \<Rightarrow> 'q objects \<Rightarrow> err + bool \<times> string" where
  "checkForAlternatePVC env namespace cl =
     (case client_Get (se_api env) (pvc_key namespace CheCommonPVCName) cl of
        Inl (NotFound _) \<Rightarrow> Inr (False, [])
      | Inl e \<Rightarrow> Inl (api_err_text e)
      | Inr existingPVC \<Rightarrow> Inr (True, o_Name existingPVC))"

definition checkPVCTerminating :: "'q storage_env \<Rightarrow> string \<Rightarrow> string \<Rightarrow> 'q objects \<Rightarrow> err + bool" where
  "checkPVCTerminating env name namespace cl =
     (if name = [] then Inl ''attempted to read deletion status of PVC with empty name''
      else (case client_Get (se_api env) (pvc_key namespace name) cl of
              Inl (NotFound _) \<Rightarrow> Inr False
            | Inl e \<Rightarrow> Inl (api_err_text e)
            | Inr pvc \<Rightarrow> Inr (o_Terminating pvc)))"

fun volume_sizes :: "'q::ordered_ab_group_add library \<Rightarrow> DevfileComponent list \<Rightarrow> bool \<times> 'q \<Rightarrow> err + bool \<times> 'q" where
  "volume_sizes L [] (allVolumeSizesDefined, requiredPVCSize) = Inr (allVolumeSizesDefined, requiredPVCSize)"
| "volume_sizes L (component # components) (allVolumeSizesDefined, requiredPVCSize) =
     (case comp_Volume component of
        None \<Rightarrow> volume_sizes L components (allVolumeSizesDefined, requiredPVCSize)
      | Some volume \<Rightarrow>
          if isEphemeral volume then volume_sizes L components (allVolumeSizesDefined, requiredPVCSize)
          else if vc_Size volume = [] then volume_sizes L components (False, requiredPVCSize)
          else (case lib_parse L (vc_Size volume) of
                  Inl e \<Rightarrow> Inl e
                | Inr volumeSize \<Rightarrow> volume_sizes L components (allVolumeSizesDefined, requiredPVCSize + volumeSize)))"

definition getPVCSize :: "'q::linordered_ab_group_add library \<Rightarrow> 'q WorkspaceWithConfig \<Rightarrow> NamespacedConfig option \<Rightarrow> 'q dw_result" where
  "getPVCSize L w namespacedConfig =
     (case Option.bind (wc_DefaultStorageSize (wwc_Workspace w)) ss_PerWorkspace of
        None \<Rightarrow> DwPanic
      | Some defaultPVCSize \<Rightarrow>
     (case volume_sizes L (ts_Components (wwc_Template w)) (True, 0) of
        Inl e \<Rightarrow> DwErr (OtherError e)
      | Inr (allVolumeSizesDefined, requiredPVCSize) \<Rightarrow>
          if allVolumeSizesDefined \<or> requiredPVCSize > defaultPVCSize then DwOk requiredPVCSize
          else (case namespacedConfig of
                  Some nc \<Rightarrow> if PerWorkspacePVCSize nc \<noteq> [] then dw_plain (lib_parse L (PerWorkspacePVCSize nc)) else DwOk defaultPVCSize
                | None \<Rightarrow> DwOk defaultPVCSize)))"

definition syncPerWorkspacePVC ::
  "'q::linordered_ab_group_add library \<Rightarrow> 'q storage_env \<Rightarrow> 'q WorkspaceWithConfig \<Rightarrow> 'q objects \<Rightarrow> 'q object dw_result \<times> 'q objects" where
  "syncPerWorkspacePVC L env w cl =
     (case ReadNamespacedConfig env of
        Inl e \<Rightarrow> (DwErr (OtherError (''failed to read namespace-specific configuration: '' @ e)), cl)
      | Inr namespacedConfig \<Rightarrow>
     (case getPVCSize L w namespacedConfig of
        DwPanic \<Rightarrow> (DwPanic, cl)
      | DwErr e \<Rightarrow> (DwErr e, cl)
      | DwOk pvcSize \<Rightarrow>
          let pvc = (getPVCSpec (PerWorkspacePVCName (wwc_Id w)) (wwc_Namespace w) (wc_StorageClassName (wwc_Workspace w)) pvcSize
                       (wc_StorageAccessMode (wwc_Workspace w)))
                    \<lparr>o_Labels := Some [(DevWorkspaceIDLabel, wwc_Id w), (DevWorkspacePVCTypeLabel, PerWorkspaceStorageClassType)]\<rparr> in
     (case SetControllerReference env w pvc of
        Inl e \<Rightarrow> (DwErr (OtherError e), cl)
      | Inr pvc \<Rightarrow> (case SyncObjectWithCluster (se_api env) pvc cl of (res, cl') \<Rightarrow> (synced_pvc ''per-workspace'' pvc res, cl')))))"

section \<open>The strategies\<close>

type_synonym 'q provision = "'q WorkspaceWithConfig \<Rightarrow> 'q PodAdditions \<Rightarrow> 'q objects \<Rightarrow> 'q PodAdditions dw_result \<times> 'q objects"

definition restricted_fields :: "'q WorkspaceWithConfig \<Rightarrow> string list" where
  "restricted_fields w = GetRestrictedPodOverrideFields (Some (wwc_Config w))"

definition common_ProvisionStorage :: "'q library \<Rightarrow> 'q storage_env \<Rightarrow> 'q provision" where
  "common_ProvisionStorage L env w podAdditions cl =
     (case addEphemeralVolumesFromWorkspace L (wwc_Template w) podAdditions of
        DwPanic \<Rightarrow> (DwPanic, cl)
      | DwErr e \<Rightarrow> (DwErr e, cl)
      | DwOk podAdditions \<Rightarrow>
          if \<not> WorkspaceNeedsStorage (wwc_Template w) then (DwOk podAdditions, cl)
          else
     (case checkForAlternatePVC env (wwc_Namespace w) cl of
        Inl e \<Rightarrow> (DwErr (OtherError e), cl)
      | Inr (usingAlternatePVC, alternate) \<Rightarrow>
          let pvcName = (if alternate = [] then wc_PVCName (wwc_Workspace w) else alternate) in
     (case checkPVCTerminating env pvcName (wwc_Namespace w) cl of
        Inl e \<Rightarrow> (DwErr (OtherError e), cl)
      | Inr True \<Rightarrow> (DwErr (RetryError ''Shared PVC is in terminating state'' 2000000000), cl)
      | Inr False \<Rightarrow>
     (case (if usingAlternatePVC then (DwOk pvcName, cl)
            else (case syncCommonPVC L env w cl of (res, cl') \<Rightarrow> (dw_bind res (\<lambda>pvc. DwOk (o_Name pvc)), cl'))) of
        (DwPanic, cl') \<Rightarrow> (DwPanic, cl')
      | (DwErr e, cl') \<Rightarrow> (DwErr e, cl')
      | (DwOk pvcName, cl') \<Rightarrow>
          (dw_fail ''Could not rewrite container volume mounts''
             (common_rewriteContainerVolumeMounts L (wwc_Id w) pvcName (wwc_Template w) (restricted_fields w) podAdditions), cl')))))"

definition perWorkspace_ProvisionStorage :: "'q::linordered_ab_group_add library \<Rightarrow> 'q storage_env \<Rightarrow> 'q provision" where
  "perWorkspace_ProvisionStorage L env w podAdditions cl =
     (case addEphemeralVolumesFromWorkspace L (wwc_Template w) podAdditions of
        DwPanic \<Rightarrow> (DwPanic, cl)
      | DwErr e \<Rightarrow> (DwErr e, cl)
      | DwOk podAdditions \<Rightarrow>
          if \<not> WorkspaceNeedsStorage (wwc_Template w) then (DwOk podAdditions, cl)
          else
     (case syncPerWorkspacePVC L env w cl of
        (DwPanic, cl') \<Rightarrow> (DwPanic, cl')
      | (DwErr e, cl') \<Rightarrow> (DwErr e, cl')
      | (DwOk pvc, cl') \<Rightarrow>
          if o_Terminating pvc then (DwErr (FailError ''DevWorkspace PVC is being deleted''), cl')
          else (dw_fail ''Could not rewrite container volume mounts''
                  (perWorkspace_rewriteContainerVolumeMounts L (wwc_Id w) (o_Name pvc) (wwc_Template w) (restricted_fields w) podAdditions), cl')))"

definition projects_component :: DevfileComponent where
  "projects_component = \<lparr>comp_Name = ''projects'', comp_Attributes = [], comp_Container = None, comp_Plugin = None,
     comp_Volume = Some \<lparr>vc_Size = [], vc_Ephemeral = None\<rparr>, comp_Kubernetes = None, comp_Openshift = None\<rparr>"

definition ephemeral_ProvisionStorage :: "'q library \<Rightarrow> 'q provision" where
  "ephemeral_ProvisionStorage L w podAdditions cl =
     (case getWorkspaceVolumes (wwc_Template w) of (persistent, ephemeral, projects) \<Rightarrow>
        (dw_bind (dw_plain (addEphemeralVolumesToPodAdditions L persistent podAdditions)) (\<lambda>podAdditions.
         dw_bind (dw_plain (addEphemeralVolumesToPodAdditions L ephemeral podAdditions)) (\<lambda>podAdditions.
         dw_plain (case projects of
            Some c \<Rightarrow> addEphemeralVolumesToPodAdditions L [c] podAdditions
          | None \<Rightarrow>
              if AnyMountSources (ts_Components (wwc_Template w)) then addEphemeralVolumesToPodAdditions L [projects_component] podAdditions
              else Inr podAdditions))), cl))"

datatype Provisioner = CommonStorageProvisioner | PerWorkspaceStorageProvisioner | AsyncStorageProvisioner | EphemeralStorageProvisioner

definition storage_type :: "'q library \<Rightarrow> DevWorkspaceTemplateSpec \<Rightarrow> string" where
  "storage_type L workspace = (case lib_getString L (ts_Attributes workspace) DevWorkspaceStorageTypeAttribute of Inl _ \<Rightarrow> [] | Inr s \<Rightarrow> s)"

definition GetProvisioner :: "'q library \<Rightarrow> DevWorkspaceTemplateSpec \<Rightarrow> err + Provisioner" where
  "GetProvisioner L workspace =
     (let storageClass = storage_type L workspace in
      if storageClass = [] then Inr CommonStorageProvisioner
      else if storageClass = CommonStorageClassType then Inr CommonStorageProvisioner
      else if storageClass = PerWorkspaceStorageClassType then Inr PerWorkspaceStorageProvisioner
      else if storageClass = AsyncStorageClassType then Inr AsyncStorageProvisioner
      else if storageClass = EphemeralStorageClassType then Inr EphemeralStorageProvisioner
      else if storageClass = PerUserStorageClassType then Inr CommonStorageProvisioner
      else Inl ''configured storage type not supported'')"

text \<open>The claim of a workspace and the directory of its projects in it; both empty where it has none.\<close>

definition GetWorkspacePVCInfo :: "'q library \<Rightarrow> 'q WorkspaceWithConfig \<Rightarrow> err + string \<times> string" where
  "GetWorkspacePVCInfo L w =
     (case GetProvisioner L (wwc_Template w) of
        Inl e \<Rightarrow> Inl e
      | Inr PerWorkspaceStorageProvisioner \<Rightarrow> Inr (PerWorkspacePVCName (wwc_Id w), DefaultProjectsSourcesRoot)
      | Inr CommonStorageProvisioner \<Rightarrow>
          if \<not> WorkspaceNeedsStorage (wwc_Template w) then Inr ([], [])
          else Inr (if wc_PVCName (wwc_Workspace w) \<noteq> [] then wc_PVCName (wwc_Workspace w) else ''claim-devworkspace'',
                    wwc_Id w @ DefaultProjectsSourcesRoot)
      | Inr _ \<Rightarrow> Inr ([], []))"

section \<open>Clean-up\<close>

text \<open>The workspaces of the namespace that use the shared claim and are not being deleted.\<close>

definition getSharedPVCWorkspaceCount :: "'q storage_env \<Rightarrow> err + nat" where
  "getSharedPVCWorkspaceCount env =
     (case se_workspaces env of
        Inl e \<Rightarrow> Inl e
      | Inr workspaces \<Rightarrow>
          Inr (length [(terminating, storageClass) \<leftarrow> workspaces. \<not> terminating \<and>
            storageClass \<in> {AsyncStorageClassType, CommonStorageClassType, PerUserStorageClassType, []}]))"

definition commonPVCExists :: "'q storage_env \<Rightarrow> 'q WorkspaceWithConfig \<Rightarrow> 'q objects \<Rightarrow> err + bool" where
  "commonPVCExists env w cl =
     (case client_Get (se_api env) (pvc_key (wwc_Namespace w) (wc_PVCName (wwc_Workspace w))) cl of
        Inl (NotFound _) \<Rightarrow> Inr False
      | Inl e \<Rightarrow> Inl (api_err_text e)
      | Inr _ \<Rightarrow> Inr True)"

definition getNodeNameWithPVC :: "storage_pod list \<Rightarrow> string \<Rightarrow> string" where
  "getNodeNameWithPVC pods pvcName =
     (case find (\<lambda>pod. spod_Phase pod = ''Running'' \<and> pvcName \<in> set (spod_Claims pod)) pods of None \<Rightarrow> [] | Some pod \<Rightarrow> spod_NodeName pod)"

definition getTargetNodeName :: "'q storage_env \<Rightarrow> 'q WorkspaceWithConfig \<Rightarrow> err + string" where
  "getTargetNodeName env w =
     (case se_pods env of Inl e \<Rightarrow> Inl e | Inr found \<Rightarrow> Inr (getNodeNameWithPVC found (wc_PVCName (wwc_Workspace w))))"

definition pvcClaimMountPath :: string where "pvcClaimMountPath = ''/tmp/devworkspaces/''"


definition cleanup_command :: "string \<Rightarrow> string" where
  "cleanup_command workspaceId = ''rm -rf '' @ path_Join [pvcClaimMountPath, workspaceId]"

definition cleanup_container :: "'q storage_env \<Rightarrow> string \<Rightarrow> string \<Rightarrow> 'q Container" where
  "cleanup_container env workspaceId pvcName =
     empty_container\<lparr>c_Name := PVCCleanupJobName workspaceId, c_Image := se_image env, c_Command := Some [''/bin/sh''],
       c_Args := Some [''-c'', cleanup_command workspaceId],
       c_Resources := \<lparr>rr_Limits = Some [(ResourceMemory, se_mustParse env ''100Mi''), (ResourceCPU, se_mustParse env ''50m'')],
                       rr_Requests = Some [(ResourceMemory, se_mustParse env ''32Mi''), (ResourceCPU, se_mustParse env ''5m'')], rr_Claims = []\<rparr>,
       c_VolumeMounts := [plain_mount pvcName pvcClaimMountPath]\<rparr>"

text \<open>The affinity of the job as its JSON text: none, or to the node of a pod that has mounted the claim.\<close>

definition node_affinity :: "string \<Rightarrow> opaque" where
  "node_affinity targetNode =
     (let q = [CHR 0x22]; key = (\<lambda>k. q @ k @ q @ '':'') in
      Opaque (if targetNode = [] then ''{}''
        else ''{'' @ key ''nodeAffinity'' @ ''{'' @ key ''requiredDuringSchedulingIgnoredDuringExecution'' @ ''{'' @ key ''nodeSelectorTerms'' @
          ''[{'' @ key ''matchExpressions'' @ ''[{'' @ key ''key'' @ q @ ''kubernetes.io/hostname'' @ q @ '','' @ key ''operator'' @ q @ ''In'' @ q @ '','' @
          key ''values'' @ ''['' @ q @ targetNode @ q @ '']}]}]}}}''))"

definition job_labels :: "'q WorkspaceWithConfig \<Rightarrow> (string, string) gomap" where
  "job_labels w =
     Some ([(DevWorkspaceIDLabel, wwc_Id w), (DevWorkspaceNameLabel, wwc_Name w), (DevWorkspaceCreatorLabel, go_at (wwc_Labels w) DevWorkspaceCreatorLabel)] @
           (case go_get (wwc_Annotations w) DevWorkspaceRestrictedAccessAnnotation of None \<Rightarrow> [] | Some r \<Rightarrow> [(DevWorkspaceRestrictedAccessAnnotation, r)]))"

text \<open>An error of the search for a node is only logged.\<close>

definition getSpecCommonPVCCleanupJob :: "'q storage_env \<Rightarrow> 'q WorkspaceWithConfig \<Rightarrow> 'q objects \<Rightarrow> err + 'q object" where
  "getSpecCommonPVCCleanupJob env w cl =
     (case checkForAlternatePVC env (wwc_Namespace w) cl of
        Inl e \<Rightarrow> Inl e
      | Inr (_, alternate) \<Rightarrow>
          let pvcName = (if alternate = [] then wc_PVCName (wwc_Workspace w) else alternate);
              targetNode = (case getTargetNodeName env w of Inl _ \<Rightarrow> [] | Inr n \<Rightarrow> n) in
     (case GetNamespacePodTolerationsAndNodeSelector env of
        Inl e \<Rightarrow> Inl e
      | Inr (podTolerations, nodeSelector) \<Rightarrow>
          SetControllerReference env w
            \<lparr>o_Name = PVCCleanupJobName (wwc_Id w), o_Namespace = wwc_Namespace w, o_Labels = job_labels w, o_Annotations = None,
             o_OwnerReferences = [], o_UID = [], o_ResourceVersion = [], o_Terminating = False, o_Finalizers = [],
             o_Content = JobContent \<lparr>job_Completions = Some 1, job_BackoffLimit = Some 3, job_TTLSecondsAfterFinished = None, job_TemplateLabels = job_labels w,
               job_TemplateAnnotations = None,
               job_PodSpec = empty_pod_spec\<lparr>p_RestartPolicy := ''Never'', p_SecurityContext := wc_PodSecurityContext (wwc_Workspace w),
                 p_Volumes := Some [volume_of pvcName PersistentVolumeClaim (ClaimData pvcName False)],
                 p_Containers := Some [cleanup_container env (wwc_Id w) pvcName], p_Affinity := Some (node_affinity targetNode),
                 p_Tolerations := podTolerations, p_NodeSelector := nodeSelector\<rparr>,
               job_Conditions = []\<rparr>\<rparr>))"

text \<open>The first condition of the job that holds and tells that it is complete or has failed.\<close>

fun job_outcome :: "string \<Rightarrow> (string \<times> string) list \<Rightarrow> unit dw_result option" where
  "job_outcome name [] = None"
| "job_outcome name ((type, status) # conditions) =
     (if status \<noteq> ''True'' then job_outcome name conditions
      else if type = ''Complete'' then Some (DwOk ())
      else if type = ''Failed'' then
        Some (DwErr (FailError (''DevWorkspace PVC cleanup job failed: see logs for job '' @ [CHR 0x22] @ name @ [CHR 0x22] @ '' for details'')))
      else job_outcome name conditions)"

definition runCommonPVCCleanupJob :: "'q storage_env \<Rightarrow> 'q WorkspaceWithConfig \<Rightarrow> 'q objects \<Rightarrow> unit dw_result \<times> 'q objects" where
  "runCommonPVCCleanupJob env w cl =
     (case commonPVCExists env w cl of
        Inl e \<Rightarrow> (DwErr (OtherError e), cl)
      | Inr False \<Rightarrow> (DwOk (), cl)
      | Inr True \<Rightarrow>
     (case getSpecCommonPVCCleanupJob env w cl of
        Inl e \<Rightarrow> (DwErr (OtherError e), cl)
      | Inr specJob \<Rightarrow>
     (case SyncObjectWithCluster (se_api env) specJob cl of
        (Inl e, cl') \<Rightarrow> (DwErr (WrapSyncError e), cl')
      | (Inr clusterJob, cl') \<Rightarrow>
     (case o_Content clusterJob of
        JobContent job \<Rightarrow>
          (case job_outcome (o_Name clusterJob) (job_Conditions job) of
             Some r \<Rightarrow> (r, cl')
           | None \<Rightarrow>
          (case se_checkPods env of
             Inl e \<Rightarrow> (DwErr (FailError (wrapped_text ''Error while checking cleanup job pods state'' e)), cl')
           | Inr msg \<Rightarrow>
               (if msg \<noteq> []
                then DwErr (FailError (''DevWorkspace common PVC cleanup job failed: see logs for job '' @ [CHR 0x22] @ o_Name clusterJob @ [CHR 0x22] @
                       '' for details. Additional information: '' @ msg))
                else DwErr (RetryError ''Cleanup job is not in completed state'' 10000000000), cl')))
      | _ \<Rightarrow> (DwPanic, cl')))))"

definition common_CleanupWorkspaceStorage :: "'q storage_env \<Rightarrow> 'q WorkspaceWithConfig \<Rightarrow> 'q objects \<Rightarrow> unit dw_result \<times> 'q objects" where
  "common_CleanupWorkspaceStorage env w cl =
     (case getSharedPVCWorkspaceCount env of
        Inl e \<Rightarrow> (DwErr (OtherError e), cl)
      | Inr totalWorkspaces \<Rightarrow>
          if totalWorkspaces > 0 then runCommonPVCCleanupJob env w cl
          else
     (case client_Get (se_api env) (pvc_key (wwc_Namespace w) (wc_PVCName (wwc_Workspace w))) cl of
        Inl (NotFound _) \<Rightarrow> (DwOk (), cl)
      | Inl e \<Rightarrow> (DwErr (OtherError (api_err_text e)), cl)
      | Inr sharedPVC \<Rightarrow>
          (case client_Delete (se_api env) sharedPVC cl of
             (None, cl') \<Rightarrow> (DwOk (), cl')
           | (Some (NotFound _), cl') \<Rightarrow> (DwOk (), cl')
           | (Some e, cl') \<Rightarrow> (DwErr (OtherError (api_err_text e)), cl'))))"

end
