(* ===== verification/Attributes.thy ===== *)
theory Attributes
  imports Devfile
begin

text \<open>
  Free-form attributes of endpoints (\<^verbatim>\<open>src/apis/controller/v1alpha1/attributes.go\<close>): reading an attribute as a string, a number or
  a Boolean, with the conversions between them. The JSON decoder and the parser of floating-point numbers are parameters; a number
  is represented by its shortest decimal text, which \<^verbatim>\<open>strconv.FormatFloat\<close> prints.
\<close>

section \<open>JSON\<close>

datatype json = JNull | JBool bool | JNumber string | JString string | JArray | JObject

record json_lib =
  jl_decode :: "string \<Rightarrow> err + json"
  jl_ParseFloat :: "string \<Rightarrow> err + string"

datatype result_type = StringT | BooleanT | NumberT

datatype primitive = PString string | PBool bool | PNumber string

fun zero_value :: "result_type \<Rightarrow> primitive" where
  "zero_value StringT = PString []"
| "zero_value BooleanT = PBool False"
| "zero_value NumberT = PNumber ''0''"

text \<open>Decoding into a variable of the type; the error is the kind of the value, and null leaves the variable alone.\<close>

fun unmarshal :: "result_type \<Rightarrow> json \<Rightarrow> string + primitive" where
  "unmarshal t JNull = Inr (zero_value t)"
| "unmarshal t (JBool b) = (if t = BooleanT then Inr (PBool b) else Inl ''bool'')"
| "unmarshal t (JNumber n) = (if t = NumberT then Inr (PNumber n) else Inl ''number'')"
| "unmarshal t (JString s) = (if t = StringT then Inr (PString s) else Inl ''string'')"
| "unmarshal t JArray = Inl ''array''"
| "unmarshal t JObject = Inl ''object''"

definition ParseBool :: "string \<Rightarrow> err + bool" where
  "ParseBool s =
     (if s \<in> {''1'', ''t'', ''T'', ''TRUE'', ''true'', ''True''} then Inr True
      else if s \<in> {''0'', ''f'', ''F'', ''FALSE'', ''false'', ''False''} then Inr False
      else Inl (''strconv.ParseBool: parsing '' @ [CHR 0x22] @ s @ [CHR 0x22] @ '': invalid syntax''))"

definition FormatBool :: "bool \<Rightarrow> string" where
  "FormatBool b = (if b then ''true'' else ''false'')"

fun string_of :: "primitive \<Rightarrow> string" where
  "string_of (PString s) = s"
| "string_of _ = []"

fun bool_of :: "primitive \<Rightarrow> bool" where
  "bool_of (PBool b) = b"
| "bool_of _ = False"

fun number_of :: "primitive \<Rightarrow> string" where
  "number_of (PNumber n) = n"
| "number_of _ = ''0''"

section \<open>Reading\<close>

text \<open>
  The attribute is \<open>None\<close> when absent and an error when it is not JSON. The conversion reads it again as another type, which then
  succeeds at once.
\<close>

definition type_error :: "string \<Rightarrow> result_type \<Rightarrow> err" where
  "type_error kind t = ''json: cannot unmarshal '' @ kind @ '' into Go value of type '' @
     (case t of StringT \<Rightarrow> ''string'' | BooleanT \<Rightarrow> ''bool'' | NumberT \<Rightarrow> ''float64'')"

fun depth :: "result_type \<Rightarrow> (err + json) option \<Rightarrow> nat" where
  "depth t (Some (Inr j)) = (case unmarshal t j of Inl _ \<Rightarrow> 1 | Inr _ \<Rightarrow> 0)"
| "depth t _ = 0"

function getPrimitive :: "json_lib \<Rightarrow> string \<Rightarrow> result_type \<Rightarrow> (err + json) option \<Rightarrow> err option \<times> primitive" where
  "getPrimitive L key t attribute =
     (case attribute of
        None \<Rightarrow> (Some (''Attribute with key '' @ [CHR 0x22] @ key @ [CHR 0x22] @ '' does not exist''), zero_value t)
      | Some (Inl e) \<Rightarrow> (Some e, zero_value t)
      | Some (Inr j) \<Rightarrow>
          (case unmarshal t j of
             Inr result \<Rightarrow> (None, result)
           | Inl kind \<Rightarrow>
               let failed = (Some (type_error kind t), zero_value t) in
               if t = StringT \<and> kind = ''bool'' then
                 (case getPrimitive L key BooleanT attribute of
                    (None, v) \<Rightarrow> (None, PString (FormatBool (bool_of v))) | _ \<Rightarrow> failed)
               else if t = StringT \<and> kind = ''number'' then
                 (case getPrimitive L key NumberT attribute of
                    (None, v) \<Rightarrow> (None, PString (number_of v)) | _ \<Rightarrow> failed)
               else if t = BooleanT \<and> kind = ''string'' then
                 (case getPrimitive L key StringT attribute of
                    (None, v) \<Rightarrow> (case ParseBool (string_of v) of Inr b \<Rightarrow> (None, PBool b) | Inl _ \<Rightarrow> failed) | _ \<Rightarrow> failed)
               else if t = NumberT \<and> kind = ''string'' then
                 (case getPrimitive L key StringT attribute of
                    (None, v) \<Rightarrow> (case jl_ParseFloat L (string_of v) of Inr n \<Rightarrow> (None, PNumber n) | Inl _ \<Rightarrow> failed) | _ \<Rightarrow> failed)
               else failed))"
  by pat_completeness auto

lemma depth_retry:
  assumes "unmarshal t j = Inl kind"
  shows "t = StringT \<Longrightarrow> kind = ''bool'' \<Longrightarrow> depth BooleanT (Some (Inr j)) < depth t (Some (Inr j))"
    and "t = StringT \<Longrightarrow> kind = ''number'' \<Longrightarrow> depth NumberT (Some (Inr j)) < depth t (Some (Inr j))"
    and "t \<noteq> StringT \<Longrightarrow> kind = ''string'' \<Longrightarrow> depth StringT (Some (Inr j)) < depth t (Some (Inr j))"
  using assms by (cases j; simp split: if_splits)+

termination getPrimitive
  by (relation "measure (\<lambda>(L, key, t, attribute). depth t attribute)") (simp_all add: depth_retry del: depth.simps)

declare getPrimitive.simps [simp del]

definition attribute :: "json_lib \<Rightarrow> attributes \<Rightarrow> string \<Rightarrow> (err + json) option" where
  "attribute L attributes key = map_option (jl_decode L) (map_of attributes key)"

definition GetString :: "json_lib \<Rightarrow> attributes \<Rightarrow> string \<Rightarrow> err option \<times> string" where
  "GetString L attributes key = map_prod id string_of (getPrimitive L key StringT (attribute L attributes key))"

definition GetNumber :: "json_lib \<Rightarrow> attributes \<Rightarrow> string \<Rightarrow> err option \<times> string" where
  "GetNumber L attributes key = map_prod id number_of (getPrimitive L key NumberT (attribute L attributes key))"

definition GetBoolean :: "json_lib \<Rightarrow> attributes \<Rightarrow> string \<Rightarrow> err option \<times> bool" where
  "GetBoolean L attributes key = map_prod id bool_of (getPrimitive L key BooleanT (attribute L attributes key))"

section \<open>What is read\<close>

lemma getPrimitive_string: "getPrimitive L key StringT (Some (Inr (JString s))) = (None, PString s)"
  by (simp add: getPrimitive.simps)

lemma getPrimitive_boolean: "getPrimitive L key BooleanT (Some (Inr (JBool b))) = (None, PBool b)"
  by (simp add: getPrimitive.simps)

lemma getPrimitive_number: "getPrimitive L key NumberT (Some (Inr (JNumber n))) = (None, PNumber n)"
  by (simp add: getPrimitive.simps)

lemmas getPrimitive_direct = getPrimitive_string getPrimitive_boolean getPrimitive_number

text \<open>A Boolean attribute is true exactly for the JSON value true and for the strings that \<^verbatim>\<open>strconv.ParseBool\<close> accepts as true.\<close>

theorem GetBoolean_iff:
  "snd (GetBoolean L attributes key) \<longleftrightarrow>
     (\<exists>raw. map_of attributes key = Some raw \<and>
        (jl_decode L raw = Inr (JBool True) \<or> (\<exists>s. jl_decode L raw = Inr (JString s) \<and> s \<in> {''1'', ''t'', ''T'', ''TRUE'', ''true'', ''True''})))"
proof (cases "map_of attributes key")
  case None
  then show ?thesis by (simp add: GetBoolean_def attribute_def getPrimitive.simps)
next
  case (Some raw)
  show ?thesis
  proof (cases "jl_decode L raw")
    case (Inl e)
    with Some show ?thesis by (simp add: GetBoolean_def attribute_def getPrimitive.simps)
  next
    case (Inr j)
    with Some show ?thesis
      by (cases j) (simp_all add: GetBoolean_def attribute_def getPrimitive.simps [of L key BooleanT] getPrimitive_direct ParseBool_def)
  qed
qed

text \<open>Reading a Boolean attribute as a string and the string as a Boolean gives it back.\<close>

lemma ParseBool_FormatBool: "ParseBool (FormatBool b) = Inr b"
  by (simp add: ParseBool_def FormatBool_def)

lemma GetString_boolean:
  "map_of attributes key = Some raw \<Longrightarrow> jl_decode L raw = Inr (JBool b) \<Longrightarrow> GetString L attributes key = (None, FormatBool b)"
  by (simp add: GetString_def attribute_def getPrimitive.simps [of L key StringT] getPrimitive_direct)

end
