(* ===== verification/Routing.thy ===== *)
theory Routing
  imports Attributes Sync Containers Workspace_Controller
begin

text \<open>
  The routing controller (\<^verbatim>\<open>src/controllers/controller/devworkspacerouting\<close>): the solvers that turn the endpoints of a workspace into
  services, ingresses and routes and read the URLs back, the synchronisation of these objects, and the reconcile of a routing with its
  status.

  The controller is generic in the solver, the record \<open>RoutingSolver\<close>, as the interface of the code is; the built-in solvers are its
  instances. Parameters are the lists of the cluster, the URL library, the platform and the host suffix of the configuration.
\<close>

section \<open>Data\<close>

record DevWorkspaceMetadata =
  mt_DevWorkspaceId :: string
  mt_Namespace :: string
  mt_PodSelector :: "(string, string) gomap"

record 'q RoutingObjects =
  ro_Services :: "'q object list"
  ro_Ingresses :: "'q object list"
  ro_Routes :: "'q object list"
  ro_PodAdditions :: "'q PodAdditions option"

definition no_routing_objects :: "'q RoutingObjects" where
  "no_routing_objects = \<lparr>ro_Services = [], ro_Ingresses = [], ro_Routes = [], ro_PodAdditions = None\<rparr>"

text \<open>\<^verbatim>\<open>url.URL\<close>, of which the fields besides path, query and fragment stay together.\<close>

record URL =
  url_Base :: opaque
  url_Path :: string
  url_RawQuery :: string
  url_Fragment :: string

record url_lib =
  ul_Parse :: "string \<Rightarrow> err + URL"  \<comment> \<open>\<^verbatim>\<open>url.Parse\<close>\<close>
  ul_ParseIn :: "URL \<Rightarrow> string \<Rightarrow> err + URL"  \<comment> \<open>the method \<^verbatim>\<open>Parse\<close> of a URL\<close>
  ul_String :: "URL \<Rightarrow> string"

definition PublicEndpointExposure :: string where "PublicEndpointExposure = ''public''"
definition InternalEndpointExposure :: string where "InternalEndpointExposure = ''internal''"
definition NoneEndpointExposure :: string where "NoneEndpointExposure = ''none''"
definition DiscoverableAttribute :: string where "DiscoverableAttribute = ''discoverable''"
definition DevWorkspaceEndpointNameAnnotation :: string where "DevWorkspaceEndpointNameAnnotation = ''controller.devfile.io/endpoint_name''"
definition DevWorkspaceDiscoverableServiceAnnotation :: string where
  "DevWorkspaceDiscoverableServiceAnnotation = ''controller.devfile.io/discoverable-service''"
definition serviceServingCertAnnot :: string where "serviceServingCertAnnot = ''service.beta.openshift.io/serving-cert-secret-name''"
definition devWorkspaceRoutingFinalizer :: string where "devWorkspaceRoutingFinalizer = ''devworkspacerouting.controller.devfile.io''"

definition map_Append :: "(string, string) gomap \<Rightarrow> string \<Rightarrow> string \<Rightarrow> (string, string) gomap" where
  "map_Append target key v = Some (AList.update key v (go_items target))"

section \<open>Endpoints of a devfile\<close>

definition convertSecure :: "bool option \<Rightarrow> bool" where
  "convertSecure secure = (case secure of None \<Rightarrow> False | Some b \<Rightarrow> b)"

definition convertDevfileEndpoint :: "Endpoint \<Rightarrow> RoutingEndpoint" where
  "convertDevfileEndpoint dwEndpoint =
     \<lparr>re_Name = ep_Name dwEndpoint, re_TargetPort = ep_TargetPort dwEndpoint,
      re_Exposure = (if ep_Exposure dwEndpoint = [] then PublicEndpointExposure else ep_Exposure dwEndpoint),
      re_Protocol = (if ep_Protocol dwEndpoint = [] then ''http'' else ep_Protocol dwEndpoint),
      re_Secure = convertSecure (ep_Secure dwEndpoint), re_Path = ep_Path dwEndpoint, re_Attributes = ep_Attributes dwEndpoint,
      re_Annotations = ep_Annotations dwEndpoint\<rparr>"

definition ConvertAllDevfileEndpoints :: "Endpoint list \<Rightarrow> RoutingEndpoint list" where
  "ConvertAllDevfileEndpoints = map convertDevfileEndpoint"

section \<open>Objects for endpoints\<close>

abbreviation all_endpoints :: "endpoints \<Rightarrow> RoutingEndpoint list" where
  "all_endpoints endpoints \<equiv> concat (map snd endpoints)"

definition routeAnnotations :: "string \<Rightarrow> (string, string) gomap \<Rightarrow> (string, string) gomap" where
  "routeAnnotations endpointName endpointAnnotations =
     map_Append (map_Append endpointAnnotations ''haproxy.router.openshift.io/rewrite-target'' ''/'') DevWorkspaceEndpointNameAnnotation endpointName"

definition nginxIngressAnnotations :: "string \<Rightarrow> (string, string) gomap \<Rightarrow> (string, string) gomap" where
  "nginxIngressAnnotations endpointName endpointAnnotations =
     map_Append (map_Append (map_Append endpointAnnotations ''nginx.ingress.kubernetes.io/rewrite-target'' ''/'')
       ''nginx.ingress.kubernetes.io/ssl-redirect'' ''false'') DevWorkspaceEndpointNameAnnotation endpointName"

definition routing_object :: "string \<Rightarrow> (string, string) gomap \<Rightarrow> 'q content \<Rightarrow> DevWorkspaceMetadata \<Rightarrow> 'q object" where
  "routing_object name annotations content meta =
     \<lparr>o_Name = name, o_Namespace = mt_Namespace meta, o_Labels = Some [(DevWorkspaceIDLabel, mt_DevWorkspaceId meta)], o_Annotations = annotations,
      o_OwnerReferences = [], o_UID = [], o_ResourceVersion = [], o_Terminating = False, o_Finalizers = [], o_Content = content\<rparr>"

definition endpoint_port :: "RoutingEndpoint \<Rightarrow> ServicePort" where
  "endpoint_port endpoint =
     \<lparr>spt_Name = EndpointName (re_Name endpoint), spt_Protocol = ''TCP'', spt_AppProtocol = None, spt_Port = int32 (re_TargetPort endpoint),
      spt_TargetPort = format_int (int32 (re_TargetPort endpoint)), spt_NodePort = 0\<rparr>"

definition service_with :: "DevWorkspaceMetadata \<Rightarrow> ServicePort list \<Rightarrow> Service" where
  "service_with meta ports =
     \<lparr>svc_Selector = mt_PodSelector meta, svc_Ports = ports, svc_Type = ''ClusterIP'', svc_ClusterIP = [], svc_Rest = Opaque []\<rparr>"

definition discoverable :: "json_lib \<Rightarrow> RoutingEndpoint \<Rightarrow> bool" where
  "discoverable L endpoint \<longleftrightarrow> snd (GetBoolean L (re_Attributes endpoint) DiscoverableAttribute)"

definition GetDiscoverableServicesForEndpoints :: "json_lib \<Rightarrow> endpoints \<Rightarrow> DevWorkspaceMetadata \<Rightarrow> 'q object list" where
  "GetDiscoverableServicesForEndpoints L endpoints meta =
     map (\<lambda>endpoint. routing_object (EndpointName (re_Name endpoint)) (Some [(DevWorkspaceDiscoverableServiceAnnotation, ''true'')])
            (ServiceContent (service_with meta [endpoint_port endpoint])) meta)
       [endpoint \<leftarrow> all_endpoints endpoints. re_Exposure endpoint \<noteq> NoneEndpointExposure \<and> discoverable L endpoint]"

text \<open>The loop over the endpoints: \<open>ports\<close> are the target ports that are not exposed yet.\<close>

fun expose_ports :: "json_lib \<Rightarrow> bool \<Rightarrow> string list \<Rightarrow> int list \<Rightarrow> RoutingEndpoint list \<Rightarrow> ServicePort list" where
  "expose_ports L includeDiscoverable validExposures ports [] = []"
| "expose_ports L includeDiscoverable validExposures ports (endpoint # endpoints) =
     (if re_Exposure endpoint \<notin> set validExposures then expose_ports L includeDiscoverable validExposures ports endpoints
      else if \<not> includeDiscoverable \<and> discoverable L endpoint then expose_ports L includeDiscoverable validExposures ports endpoints
      else if re_TargetPort endpoint \<in> set ports
      then endpoint_port endpoint # expose_ports L includeDiscoverable validExposures (removeAll (re_TargetPort endpoint) ports) endpoints
      else expose_ports L includeDiscoverable validExposures ports endpoints)"

definition GetServiceForEndpoints :: "json_lib \<Rightarrow> endpoints \<Rightarrow> DevWorkspaceMetadata \<Rightarrow> bool \<Rightarrow> string list \<Rightarrow> 'q object option" where
  "GetServiceForEndpoints L endpoints meta includeDiscoverable exposureType =
     (let exposedPorts = expose_ports L includeDiscoverable exposureType (map re_TargetPort (all_endpoints endpoints)) (all_endpoints endpoints) in
      if exposedPorts = [] then None
      else Some (routing_object (ServiceName (mt_DevWorkspaceId meta)) None (ServiceContent (service_with meta exposedPorts)) meta))"

definition getServicesForEndpoints :: "json_lib \<Rightarrow> endpoints \<Rightarrow> DevWorkspaceMetadata \<Rightarrow> 'q object list" where
  "getServicesForEndpoints L endpoints meta =
     (if endpoints = [] then []
      else case GetServiceForEndpoints L endpoints meta True [PublicEndpointExposure, InternalEndpointExposure] of
             None \<Rightarrow> [] | Some service \<Rightarrow> [service])"

definition getRouteForEndpoint :: "string \<Rightarrow> RoutingEndpoint \<Rightarrow> DevWorkspaceMetadata \<Rightarrow> 'q object" where
  "getRouteForEndpoint routingSuffix endpoint meta =
     (let endpointName = EndpointName (re_Name endpoint) in
      routing_object (RouteName (mt_DevWorkspaceId meta) endpointName) (routeAnnotations endpointName (re_Annotations endpoint))
        (RouteContent \<lparr>rt_Host = WorkspaceHostname routingSuffix (mt_DevWorkspaceId meta), rt_Path = EndpointPath endpointName,
           rt_TLS = Some (''edge'', ''Redirect''), rt_ToKind = ''Service'', rt_ToName = ServiceName (mt_DevWorkspaceId meta),
           rt_TargetPort = Some (format_int (int32 (re_TargetPort endpoint)))\<rparr>) meta)"

definition getIngressForEndpoint :: "string \<Rightarrow> RoutingEndpoint \<Rightarrow> DevWorkspaceMetadata \<Rightarrow> 'q object" where
  "getIngressForEndpoint routingSuffix endpoint meta =
     (let endpointName = EndpointName (re_Name endpoint);
          hostname = EndpointHostname routingSuffix (mt_DevWorkspaceId meta) endpointName (re_TargetPort endpoint) in
      routing_object (RouteName (mt_DevWorkspaceId meta) endpointName) (nginxIngressAnnotations (re_Name endpoint) (re_Annotations endpoint))
        (IngressContent \<lparr>ig_ClassName = Some ''nginx'', ig_Rules = [\<lparr>ir_Host = hostname, ir_Paths =
           [\<lparr>ip_Service = ServiceName (mt_DevWorkspaceId meta), ip_Port = int32 (re_TargetPort endpoint), ip_PathType = ''ImplementationSpecific'', ip_Path = ''/''\<rparr>]\<rparr>]\<rparr>)
        meta)"

definition public_endpoints :: "endpoints \<Rightarrow> RoutingEndpoint list" where
  "public_endpoints endpoints = [endpoint \<leftarrow> all_endpoints endpoints. re_Exposure endpoint = PublicEndpointExposure]"

definition getRoutesForSpec :: "string \<Rightarrow> endpoints \<Rightarrow> DevWorkspaceMetadata \<Rightarrow> 'q object list" where
  "getRoutesForSpec routingSuffix endpoints meta = map (\<lambda>endpoint. getRouteForEndpoint routingSuffix endpoint meta) (public_endpoints endpoints)"

definition getIngressesForSpec :: "string \<Rightarrow> endpoints \<Rightarrow> DevWorkspaceMetadata \<Rightarrow> 'q object list" where
  "getIngressesForSpec routingSuffix endpoints meta = map (\<lambda>endpoint. getIngressForEndpoint routingSuffix endpoint meta) (public_endpoints endpoints)"

section \<open>URLs of endpoints\<close>

definition getSecureProtocol :: "string \<Rightarrow> string" where
  "getSecureProtocol protocol = (if protocol = ''ws'' then ''wss'' else if protocol = ''http'' then ''https'' else protocol)"

definition ends_with_slash :: "string \<Rightarrow> bool" where
  "ends_with_slash s \<longleftrightarrow> s \<noteq> [] \<and> last s = CHR ''/''"

definition getURLForEndpoint :: "url_lib \<Rightarrow> RoutingEndpoint \<Rightarrow> string \<Rightarrow> string \<Rightarrow> bool \<Rightarrow> err + string" where
  "getURLForEndpoint U endpoint host basePath secure =
     (let protocol = (if secure \<and> re_Secure endpoint then getSecureProtocol (re_Protocol endpoint) else re_Protocol endpoint) in
      case ul_Parse U (protocol @ ''://'' @ host) of
        Inl e \<Rightarrow> Inl e
      | Inr hostUrl \<Rightarrow>
     (case ul_ParseIn U hostUrl basePath of
        Inl e \<Rightarrow> Inl e
      | Inr resolvedUrl \<Rightarrow>
          if re_Path endpoint = [] then Inr (ul_String U resolvedUrl)
          else
     (case ul_ParseIn U hostUrl (re_Path endpoint) of
        Inl e \<Rightarrow> Inl e
      | Inr endpointUrl \<Rightarrow>
          let joined = path_Join [url_Path resolvedUrl, url_Path endpointUrl];
              path = (if url_Path endpointUrl = [] then url_Path resolvedUrl
                      else if ends_with_slash (url_Path endpointUrl) then joined @ ''/'' else joined);
              path = (if path = [] then ''/'' else path) in
          Inr (ul_String U (resolvedUrl\<lparr>url_Path := path, url_Fragment := url_Fragment endpointUrl, url_RawQuery := url_RawQuery endpointUrl\<rparr>)))))"

definition named_by :: "RoutingEndpoint \<Rightarrow> 'q object \<Rightarrow> bool" where
  "named_by endpoint obj \<longleftrightarrow> go_at (o_Annotations obj) DevWorkspaceEndpointNameAnnotation = re_Name endpoint"

definition resolveURLForEndpoint :: "url_lib \<Rightarrow> RoutingEndpoint \<Rightarrow> 'q RoutingObjects \<Rightarrow> err + string" where
  "resolveURLForEndpoint U endpoint routingObj =
     (case find (named_by endpoint) (ro_Routes routingObj) of
        Some route \<Rightarrow>
          (case o_Content route of
             RouteContent r \<Rightarrow> getURLForEndpoint U endpoint (rt_Host r) (rt_Path r) (rt_TLS r \<noteq> None)
           | _ \<Rightarrow> Inl ''not a route'')
      | None \<Rightarrow>
     (case find (named_by endpoint) (ro_Ingresses routingObj) of
        Some ingress \<Rightarrow>
          (case o_Content ingress of
             IngressContent i \<Rightarrow>
               (case ig_Rules i of
                  [rule] \<Rightarrow> getURLForEndpoint U endpoint (ir_Host rule) [] False
                | _ \<Rightarrow> Inl (''ingress '' @ o_Name ingress @ '' contains multiple rules''))
           | _ \<Rightarrow> Inl ''not an ingress'')
      | None \<Rightarrow> Inl (''could not find ingress/route for endpoint '' @ [CHR 0x27] @ re_Name endpoint @ [CHR 0x27])))"

text \<open>The endpoints of a machine that \<open>exposes\<close> selects, with their URLs.\<close>

fun expose_machine :: "(RoutingEndpoint \<Rightarrow> bool) \<Rightarrow> (RoutingEndpoint \<Rightarrow> err + string) \<Rightarrow> RoutingEndpoint list \<Rightarrow> err + ExposedUrl list" where
  "expose_machine exposes url [] = Inr []"
| "expose_machine exposes url (endpoint # endpoints) =
     (if \<not> exposes endpoint then expose_machine exposes url endpoints
      else case url endpoint of
             Inl e \<Rightarrow> Inl e
           | Inr u \<Rightarrow> map_sum id ((#) \<lparr>xe_Name = re_Name endpoint, xe_Url = u, xe_Attributes = re_Attributes endpoint\<rparr>) (expose_machine exposes url endpoints))"

fun expose_all :: "(RoutingEndpoint \<Rightarrow> bool) \<Rightarrow> (RoutingEndpoint \<Rightarrow> err + string) \<Rightarrow> endpoints \<Rightarrow> err + exposed" where
  "expose_all exposes url [] = Inr []"
| "expose_all exposes url ((machineName, machineEndpoints) # endpoints) =
     (case expose_machine exposes url machineEndpoints of
        Inl e \<Rightarrow> Inl e
      | Inr xs \<Rightarrow> map_sum id (\<lambda>ys. if xs = [] then ys else (machineName, xs) # ys) (expose_all exposes url endpoints))"

definition getExposedEndpoints :: "url_lib \<Rightarrow> endpoints \<Rightarrow> 'q RoutingObjects \<Rightarrow> err + exposed \<times> bool" where
  "getExposedEndpoints U endpoints routingObj =
     map_sum id (\<lambda>xs. (xs, list_all (\<lambda>(_, es). list_all (\<lambda>e. xe_Url e \<noteq> []) es) xs))
       (expose_all (\<lambda>endpoint. re_Exposure endpoint = PublicEndpointExposure) (\<lambda>endpoint. resolveURLForEndpoint U endpoint routingObj) endpoints)"

section \<open>Solvers\<close>

text \<open>Why a solver gives no objects, and the solver as its interface has it.\<close>

datatype spec_err = RoutingNotReady int | RoutingInvalid string | OtherSpecErr err

definition invalid_text :: "string \<Rightarrow> string" where
  "invalid_text reason = ''workspace routing is invalid: '' @ (if reason = [] then ''<no reason given>'' else reason)"

record 'q RoutingSolver =
  sv_FinalizerRequired :: "'q object \<Rightarrow> bool"
  sv_Finalize :: "'q object \<Rightarrow> err option"
  sv_GetSpecObjects :: "'q Routing \<Rightarrow> DevWorkspaceMetadata \<Rightarrow> spec_err + 'q RoutingObjects"
  sv_GetExposedEndpoints :: "endpoints \<Rightarrow> 'q RoutingObjects \<Rightarrow> err + exposed \<times> bool"

datatype solver_err = RoutingNotSupported | OtherSolverErr err

record 'q routing_env =
  rv_api :: "'q api_env"
  rv_list :: "obj_kind \<Rightarrow> string \<Rightarrow> string \<Rightarrow> 'q objects \<Rightarrow> api_err + 'q object list"  \<comment> \<open>kind, namespace and workspace\<close>
  rv_json :: json_lib
  rv_url :: url_lib
  rv_openshift :: bool
  rv_suffix :: string
  rv_owner :: "'q object \<Rightarrow> 'q object \<Rightarrow> err + OwnerReference"  \<comment> \<open>\<^verbatim>\<open>SetControllerReference\<close>: owner and object\<close>
  rv_status :: "api_err option"  \<comment> \<open>the error of writing the status, if any\<close>

definition basic_GetSpecObjects :: "'q routing_env \<Rightarrow> 'q Routing \<Rightarrow> DevWorkspaceMetadata \<Rightarrow> spec_err + 'q RoutingObjects" where
  "basic_GetSpecObjects env routing workspaceMeta =
     (let routingSuffix = rv_suffix env; endpoints = rg_Endpoints routing in
      if routingSuffix = [] then Inl (RoutingInvalid ''basic routing requires .config.routing.clusterHostSuffix to be set in operator config'')
      else
        let services = getServicesForEndpoints (rv_json env) endpoints workspaceMeta @
              GetDiscoverableServicesForEndpoints (rv_json env) endpoints workspaceMeta in
        Inr (if rv_openshift env
             then no_routing_objects\<lparr>ro_Services := services, ro_Routes := getRoutesForSpec routingSuffix endpoints workspaceMeta\<rparr>
             else no_routing_objects\<lparr>ro_Services := services, ro_Ingresses := getIngressesForSpec routingSuffix endpoints workspaceMeta\<rparr>))"

definition BasicSolver :: "'q routing_env \<Rightarrow> 'q RoutingSolver" where
  "BasicSolver env = \<lparr>sv_FinalizerRequired = (\<lambda>_. False), sv_Finalize = (\<lambda>_. None), sv_GetSpecObjects = basic_GetSpecObjects env,
     sv_GetExposedEndpoints = getExposedEndpoints (rv_url env)\<rparr>"

definition with_serving_cert :: "'q object \<Rightarrow> 'q object" where
  "with_serving_cert service = service\<lparr>o_Annotations := map_Append (o_Annotations service) serviceServingCertAnnot (o_Name service)\<rparr>"

definition serving_cert_volume :: "'q object \<Rightarrow> 'q Volume" where
  "serving_cert_volume service = volume_of (ServingCertVolumeName (o_Name service)) Secret (SecretData (o_Name service) [] (Some 420))"

definition serving_cert_mount :: "'q object \<Rightarrow> VolumeMount" where
  "serving_cert_mount service = (plain_mount (ServingCertVolumeName (o_Name service)) ''/var/serving-cert/'')\<lparr>vm_ReadOnly := True\<rparr>"

definition cluster_GetSpecObjects :: "'q routing_env \<Rightarrow> bool \<Rightarrow> 'q Routing \<Rightarrow> DevWorkspaceMetadata \<Rightarrow> spec_err + 'q RoutingObjects" where
  "cluster_GetSpecObjects env TLS routing workspaceMeta =
     (let services = getServicesForEndpoints (rv_json env) (rg_Endpoints routing) workspaceMeta in
      Inr (if TLS
           then no_routing_objects\<lparr>ro_Services := map with_serving_cert services,
                  ro_PodAdditions := Some (empty_pod_additions\<lparr>pa_Volumes := map serving_cert_volume services,
                    pa_VolumeMounts := map serving_cert_mount services\<rparr>)\<rparr>
           else no_routing_objects\<lparr>ro_Services := services, ro_PodAdditions := Some empty_pod_additions\<rparr>))"

definition getHostnameFromService :: "'q object \<Rightarrow> int \<Rightarrow> string" where
  "getHostnameFromService service port =
     (if go_get (o_Annotations service) serviceServingCertAnnot \<noteq> None then ''https'' else ''http'') @ ''://'' @ o_Name service @ ''.'' @
     o_Namespace service @ ''.svc:'' @ format_int port"

definition service_ports :: "'q object \<Rightarrow> ServicePort list" where
  "service_ports service = (case o_Content service of ServiceContent s \<Rightarrow> svc_Ports s | _ \<Rightarrow> [])"

definition resolveServiceHostnameForEndpoint :: "RoutingEndpoint \<Rightarrow> 'q object list \<Rightarrow> err + string" where
  "resolveServiceHostnameForEndpoint endpoint services =
     (case concat (map (\<lambda>service. map (Pair service) [port \<leftarrow> service_ports service. spt_Port port = int32 (re_TargetPort endpoint)])
             [service \<leftarrow> services. go_at (o_Annotations service) DevWorkspaceDiscoverableServiceAnnotation \<noteq> ''true'']) of
        [] \<Rightarrow> Inl (''could not find service for endpoint '' @ re_Name endpoint)
      | (service, port) # _ \<Rightarrow> Inr (getHostnameFromService service (spt_Port port)))"

definition cluster_GetExposedEndpoints :: "endpoints \<Rightarrow> 'q RoutingObjects \<Rightarrow> err + exposed \<times> bool" where
  "cluster_GetExposedEndpoints endpoints routingObj =
     map_sum id (\<lambda>xs. (xs, True))
       (expose_all (\<lambda>endpoint. re_Exposure endpoint \<noteq> NoneEndpointExposure)
          (\<lambda>endpoint. resolveServiceHostnameForEndpoint endpoint (ro_Services routingObj)) endpoints)"

definition ClusterSolver :: "'q routing_env \<Rightarrow> bool \<Rightarrow> 'q RoutingSolver" where
  "ClusterSolver env TLS = \<lparr>sv_FinalizerRequired = (\<lambda>_. False), sv_Finalize = (\<lambda>_. None), sv_GetSpecObjects = cluster_GetSpecObjects env TLS,
     sv_GetExposedEndpoints = cluster_GetExposedEndpoints\<rparr>"

definition HasSolver :: "string \<Rightarrow> bool" where
  "HasSolver routingClass \<longleftrightarrow> routingClass \<in> {[], ''basic'', ''cluster'', ''cluster-tls'', ''web-terminal''}"

definition GetSolver :: "'q routing_env \<Rightarrow> string \<Rightarrow> solver_err + 'q RoutingSolver" where
  "GetSolver env routingClass =
     (if routingClass = ''basic'' then Inr (BasicSolver env)
      else if routingClass = ''cluster'' then Inr (ClusterSolver env False)
      else if routingClass \<in> {''cluster-tls'', ''web-terminal''} then
        (if \<not> rv_openshift env then Inl (OtherSolverErr (''routing class '' @ routingClass @ '' only supported on OpenShift''))
         else Inr (ClusterSolver env True))
      else Inl RoutingNotSupported)"

section \<open>Synchronisation of the objects\<close>

text \<open>Objects of the cluster that are not wanted, by name.\<close>

definition getObjectsToDelete :: "'q object list \<Rightarrow> 'q object list \<Rightarrow> 'q object list" where
  "getObjectsToDelete clusterObjects specObjects = [obj \<leftarrow> clusterObjects. o_Name obj \<notin> o_Name ` set specObjects]"

fun delete_all :: "'q api_env \<Rightarrow> 'q object list \<Rightarrow> 'q objects \<Rightarrow> api_err option \<times> 'q objects" where
  "delete_all env [] cl = (None, cl)"
| "delete_all env (obj # objs) cl =
     (case client_Delete env obj cl of (Some e, cl') \<Rightarrow> (Some e, cl') | (None, cl') \<Rightarrow> delete_all env objs cl')"

fun sync_all :: "'q api_env \<Rightarrow> 'q object list \<Rightarrow> 'q objects \<Rightarrow> ('q sync_err + bool \<times> 'q object list) \<times> 'q objects" where
  "sync_all env [] cl = (Inr (True, []), cl)"
| "sync_all env (spec # specs) cl =
     (case SyncObjectWithCluster env spec cl of
        (Inr clusterObj, cl') \<Rightarrow>
          (case sync_all env specs cl' of (res, cl'') \<Rightarrow> (map_sum id (\<lambda>(inSync, objs). (inSync, clusterObj # objs)) res, cl''))
      | (Inl (NotInSyncError _ _), cl') \<Rightarrow>
          (case sync_all env specs cl' of (res, cl'') \<Rightarrow> (map_sum id (\<lambda>(_, objs). (False, objs)) res, cl''))
      | (Inl e, cl') \<Rightarrow> (Inl e, cl'))"

definition syncObjects ::
  "'q routing_env \<Rightarrow> api_err + 'q object list \<Rightarrow> 'q object list \<Rightarrow> 'q objects \<Rightarrow> ('q sync_err + bool \<times> 'q object list) \<times> 'q objects" where
  "syncObjects env clusterObjects specObjects cl =
     (case clusterObjects of
        Inl e \<Rightarrow> (Inl (ApiError e), cl)
      | Inr objs \<Rightarrow>
          let toDelete = getObjectsToDelete objs specObjects in
     (case delete_all (rv_api env) toDelete cl of
        (Some e, cl') \<Rightarrow> (Inl (ApiError e), cl')
      | (None, cl') \<Rightarrow>
     (case sync_all (rv_api env) specObjects cl' of
        (res, cl'') \<Rightarrow> (map_sum id (\<lambda>(inSync, objs). (inSync \<and> toDelete = [], objs)) res, cl''))))"

definition getClusterServices :: "'q routing_env \<Rightarrow> string \<Rightarrow> 'q Routing \<Rightarrow> 'q objects \<Rightarrow> api_err + 'q object list" where
  "getClusterServices env namespace routing cl = rv_list env ServiceObj namespace (rg_DevWorkspaceId routing) cl"

definition getClusterIngresses :: "'q routing_env \<Rightarrow> string \<Rightarrow> 'q Routing \<Rightarrow> 'q objects \<Rightarrow> api_err + 'q object list" where
  "getClusterIngresses env namespace routing cl = rv_list env IngressObj namespace (rg_DevWorkspaceId routing) cl"

text \<open>A route is listed once per owner that is not an ingress.\<close>

definition getClusterRoutes :: "'q routing_env \<Rightarrow> string \<Rightarrow> 'q Routing \<Rightarrow> 'q objects \<Rightarrow> api_err + 'q object list" where
  "getClusterRoutes env namespace routing cl =
     map_sum id (\<lambda>found. concat (map (\<lambda>route. map (\<lambda>_. route) [ownerref \<leftarrow> o_OwnerReferences route. or_Kind ownerref \<noteq> ''Ingress'']) found))
       (rv_list env RouteObj namespace (rg_DevWorkspaceId routing) cl)"

definition syncServices :: "'q routing_env \<Rightarrow> string \<Rightarrow> 'q Routing \<Rightarrow> 'q object list \<Rightarrow> 'q objects \<Rightarrow> ('q sync_err + bool \<times> 'q object list) \<times> 'q objects" where
  "syncServices env namespace routing specServices cl = syncObjects env (getClusterServices env namespace routing cl) specServices cl"

definition syncIngresses :: "'q routing_env \<Rightarrow> string \<Rightarrow> 'q Routing \<Rightarrow> 'q object list \<Rightarrow> 'q objects \<Rightarrow> ('q sync_err + bool \<times> 'q object list) \<times> 'q objects" where
  "syncIngresses env namespace routing specIngresses cl = syncObjects env (getClusterIngresses env namespace routing cl) specIngresses cl"

definition syncRoutes :: "'q routing_env \<Rightarrow> string \<Rightarrow> 'q Routing \<Rightarrow> 'q object list \<Rightarrow> 'q objects \<Rightarrow> ('q sync_err + bool \<times> 'q object list) \<times> 'q objects" where
  "syncRoutes env namespace routing specRoutes cl = syncObjects env (getClusterRoutes env namespace routing cl) specRoutes cl"

section \<open>The controller\<close>

text \<open>
  \<^verbatim>\<open>remove\<close> deletes from the slice over which it loops: \<open>arr\<close> is the array behind the slice, \<open>n\<close> the length of the slice after
  the deletions so far. The loop visits the positions of the original slice; slicing from a position beyond the current length panics.
\<close>

fun remove_from :: "nat list \<Rightarrow> string \<Rightarrow> string list \<Rightarrow> nat \<Rightarrow> string list go_result" where
  "remove_from [] s arr n = Ok (take n arr)"
| "remove_from (i # is) s arr n =
     (if arr ! i \<noteq> s then remove_from is s arr n
      else if Suc i > n then Panic
      else remove_from is s (take i arr @ drop (Suc i) (take n arr) @ drop (n - 1) arr) (n - 1))"

definition remove_string :: "string list \<Rightarrow> string \<Rightarrow> string list go_result" where
  "remove_string xs s = remove_from [0..<length xs] s xs (length xs)"

definition update_status :: "'q routing_env \<Rightarrow> 'q object \<Rightarrow> 'q Routing \<Rightarrow> 'q objects \<Rightarrow> unit go_result \<times> 'q objects" where
  "update_status env instance routing cl =
     (case rv_status env of
        Some e \<Rightarrow> (Err (api_err_text e), cl)
      | None \<Rightarrow> (Ok (), cl(obj_key_of instance \<mapsto> instance\<lparr>o_Content := RoutingContent routing\<rparr>)))"

definition update_routing :: "'q routing_env \<Rightarrow> 'q object \<Rightarrow> 'q Routing \<Rightarrow> 'q objects \<Rightarrow> unit go_result \<times> 'q objects" where
  "update_routing env instance routing cl =
     (case client_Update (rv_api env) (instance\<lparr>o_Content := RoutingContent routing\<rparr>) cl of
        (None, cl') \<Rightarrow> (Ok (), cl')
      | (Some e, cl') \<Rightarrow> (Err (api_err_text e), cl'))"

definition setFinalizer ::
  "'q routing_env \<Rightarrow> 'q RoutingSolver \<Rightarrow> 'q object \<Rightarrow> 'q Routing \<Rightarrow> 'q objects \<Rightarrow> unit go_result \<times> 'q Routing \<times> 'q objects" where
  "setFinalizer env solver instance routing cl =
     (if \<not> sv_FinalizerRequired solver instance \<or> devWorkspaceRoutingFinalizer \<in> set (rg_Finalizers routing) then (Ok (), routing, cl)
      else
        let routing' = routing\<lparr>rg_Finalizers := rg_Finalizers routing @ [devWorkspaceRoutingFinalizer]\<rparr> in
        case update_routing env instance routing' cl of (res, cl') \<Rightarrow> (res, routing', cl'))"

definition routing_finalize :: "'q routing_env \<Rightarrow> 'q RoutingSolver \<Rightarrow> 'q object \<Rightarrow> 'q Routing \<Rightarrow> 'q objects \<Rightarrow> unit go_result \<times> 'q objects" where
  "routing_finalize env solver instance routing cl =
     (if devWorkspaceRoutingFinalizer \<in> set (rg_Finalizers routing) then
        (case sv_Finalize solver instance of
           Some e \<Rightarrow> (Err e, cl)
         | None \<Rightarrow>
             (case remove_string (rg_Finalizers routing) devWorkspaceRoutingFinalizer of
                Ok finalizers \<Rightarrow> update_routing env instance (routing\<lparr>rg_Finalizers := finalizers\<rparr>) cl
              | Err e \<Rightarrow> (Err e, cl)
              | Panic \<Rightarrow> (Panic, cl)))
      else (Ok (), cl))"

definition markRoutingFailed :: "'q routing_env \<Rightarrow> 'q object \<Rightarrow> 'q Routing \<Rightarrow> string \<Rightarrow> 'q objects \<Rightarrow> unit go_result \<times> 'q objects" where
  "markRoutingFailed env instance routing message cl =
     update_status env instance (routing\<lparr>rg_Message := message, rg_Phase := RoutingPhaseFailed\<rparr>) cl"

definition reconcileStatus ::
  "'q routing_env \<Rightarrow> 'q object \<Rightarrow> 'q Routing \<Rightarrow> 'q PodAdditions option \<Rightarrow> exposed option \<Rightarrow> bool \<Rightarrow> string \<Rightarrow> 'q objects \<Rightarrow> unit go_result \<times> 'q objects" where
  "reconcileStatus env instance routing podAdditions exposedEndpoints endpointsReady message cl =
     (if \<not> endpointsReady
      then update_status env instance (routing\<lparr>rg_Phase := RoutingPhasePreparing, rg_Message := message\<rparr>) cl
      else if rg_Phase routing = RoutingPhaseReady \<and> rg_PodAdditions routing = podAdditions \<and> rg_ExposedEndpoints routing = exposedEndpoints
      then (Ok (), cl)
      else update_status env instance
             (routing\<lparr>rg_Phase := RoutingPhaseReady, rg_Message := ''DevWorkspaceRouting prepared'', rg_PodAdditions := podAdditions,
                      rg_ExposedEndpoints := exposedEndpoints\<rparr>) cl)"

definition setStatusStopped :: "'q routing_env \<Rightarrow> 'q object \<Rightarrow> 'q Routing \<Rightarrow> 'q objects \<Rightarrow> unit go_result \<times> 'q objects" where
  "setStatusStopped env instance routing cl =
     update_status env instance
       (routing\<lparr>rg_Phase := RoutingPhaseStopped, rg_Message := ''DevWorkspace is not started'', rg_PodAdditions := None, rg_ExposedEndpoints := None\<rparr>) cl"

text \<open>The owner and the annotation for restricted access, on each object.\<close>

fun prepare_objects :: "'q routing_env \<Rightarrow> 'q object \<Rightarrow> 'q object list \<Rightarrow> err + 'q object list" where
  "prepare_objects env instance [] = Inr []"
| "prepare_objects env instance (obj # objs) =
     (case rv_owner env instance obj of
        Inl e \<Rightarrow> Inl e
      | Inr owner \<Rightarrow>
          let obj' = obj\<lparr>o_OwnerReferences := o_OwnerReferences obj @ [owner]\<rparr>;
              obj'' = (case go_get (o_Annotations instance) DevWorkspaceRestrictedAccessAnnotation of
                         None \<Rightarrow> obj' | Some v \<Rightarrow> obj'\<lparr>o_Annotations := map_Append (o_Annotations obj') DevWorkspaceRestrictedAccessAnnotation v\<rparr>) in
          map_sum id ((#) obj'') (prepare_objects env instance objs))"

type_synonym 'q routing_outcome = "(Result \<times> unit go_result) \<times> 'q objects"

definition with_result :: "Result \<Rightarrow> unit go_result \<times> 'q objects \<Rightarrow> 'q routing_outcome" where
  "with_result result res = (case res of (e, cl) \<Rightarrow> ((result, e), cl))"

text \<open>One kind of object: failed for good, to be tried again, or in sync and on with \<open>continue\<close>.\<close>

definition sync_step ::
  "'q routing_env \<Rightarrow> 'q object \<Rightarrow> 'q Routing \<Rightarrow> string \<Rightarrow> ('q sync_err + bool \<times> 'q object list) \<times> 'q objects \<Rightarrow>
   ('q object list \<Rightarrow> 'q objects \<Rightarrow> 'q routing_outcome) \<Rightarrow> 'q routing_outcome" where
  "sync_step env instance routing message res continue =
     (case res of
        (Inl (UnrecoverableSyncError cause), cl) \<Rightarrow> with_result no_result (markRoutingFailed env instance routing cause cl)
      | (Inl _, cl) \<Rightarrow> with_result requeue (reconcileStatus env instance routing None None False message cl)
      | (Inr (False, _), cl) \<Rightarrow> with_result requeue (reconcileStatus env instance routing None None False message cl)
      | (Inr (True, objs), cl) \<Rightarrow> continue objs cl)"

definition not_ready_delay :: "int \<Rightarrow> int" where
  "not_ready_delay retry = (if \<bar>retry\<bar> < 1000000 then 1000000000 else retry)"

definition finish_routing ::
  "'q routing_env \<Rightarrow> 'q RoutingSolver \<Rightarrow> 'q object \<Rightarrow> 'q Routing \<Rightarrow> 'q PodAdditions option \<Rightarrow> 'q RoutingObjects \<Rightarrow> 'q objects \<Rightarrow> 'q routing_outcome" where
  "finish_routing env solver instance routing podAdditions clusterRoutingObj cl =
     (case sv_GetExposedEndpoints solver (rg_Endpoints routing) clusterRoutingObj of
        Inl e \<Rightarrow> with_result no_result (markRoutingFailed env instance routing (''Could not get exposed endpoints for DevWorkspace: '' @ e) cl)
      | Inr (exposedEndpoints, endpointsAreReady) \<Rightarrow> with_result no_result
          (reconcileStatus env instance routing podAdditions (Some exposedEndpoints) endpointsAreReady [] cl))"

definition expose_services ::
  "'q routing_env \<Rightarrow> 'q RoutingSolver \<Rightarrow> 'q object \<Rightarrow> 'q Routing \<Rightarrow> 'q PodAdditions option \<Rightarrow> 'q object list \<Rightarrow> 'q object list \<Rightarrow>
   'q object list \<Rightarrow> 'q objects \<Rightarrow> 'q routing_outcome" where
  "expose_services env solver instance routing podAdditions ingresses routes clusterServices cl =
     (if rv_openshift env
      then sync_step env instance routing ''Preparing routes'' (syncRoutes env (o_Namespace instance) routing routes cl) (\<lambda>clusterRoutes.
             finish_routing env solver instance routing podAdditions (no_routing_objects\<lparr>ro_Services := clusterServices, ro_Routes := clusterRoutes\<rparr>))
      else sync_step env instance routing ''Preparing ingresses'' (syncIngresses env (o_Namespace instance) routing ingresses cl) (\<lambda>clusterIngresses.
             finish_routing env solver instance routing podAdditions (no_routing_objects\<lparr>ro_Services := clusterServices, ro_Ingresses := clusterIngresses\<rparr>)))"

definition provision_routing ::
  "'q routing_env \<Rightarrow> 'q RoutingSolver \<Rightarrow> 'q object \<Rightarrow> 'q Routing \<Rightarrow> 'q RoutingObjects \<Rightarrow> 'q objects \<Rightarrow> 'q routing_outcome" where
  "provision_routing env solver instance routing routingObjects cl =
     (case prepare_objects env instance (ro_Services routingObjects) of
        Inl e \<Rightarrow> ((no_result, Err e), cl)
      | Inr services \<Rightarrow>
     (case prepare_objects env instance (ro_Ingresses routingObjects) of
        Inl e \<Rightarrow> ((no_result, Err e), cl)
      | Inr ingresses \<Rightarrow>
     (case prepare_objects env instance (ro_Routes routingObjects) of
        Inl e \<Rightarrow> ((no_result, Err e), cl)
      | Inr routes \<Rightarrow>
          sync_step env instance routing ''Preparing services'' (syncServices env (o_Namespace instance) routing services cl)
            (expose_services env solver instance routing (ro_PodAdditions routingObjects) ingresses routes))))"

definition route_live :: "'q routing_env \<Rightarrow> 'q RoutingSolver \<Rightarrow> 'q object \<Rightarrow> 'q Routing \<Rightarrow> 'q objects \<Rightarrow> 'q routing_outcome" where
  "route_live env solver instance routing cl =
     (case setFinalizer env solver instance routing cl of
        (Ok _, routing, cl) \<Rightarrow>
          (case sv_GetSpecObjects solver routing
                  \<lparr>mt_DevWorkspaceId = rg_DevWorkspaceId routing, mt_Namespace = o_Namespace instance, mt_PodSelector = rg_PodSelector routing\<rparr> of
             Inl (RoutingNotReady retry) \<Rightarrow> with_result \<lparr>res_Requeue = False, res_RequeueAfter = not_ready_delay retry\<rparr>
               (reconcileStatus env instance routing None None False ''Waiting for DevWorkspaceRouting controller to be ready'' cl)
           | Inl (RoutingInvalid reason) \<Rightarrow> with_result no_result
               (markRoutingFailed env instance routing (''Unable to provision networking for DevWorkspace: '' @ invalid_text reason) cl)
           | Inl (OtherSpecErr e) \<Rightarrow> ((no_result, Err e), cl)
           | Inr routingObjects \<Rightarrow> provision_routing env solver instance routing routingObjects cl)
      | (res, _, cl) \<Rightarrow> ((no_result, res), cl))"

definition routing_Reconcile ::
  "'q routing_env \<Rightarrow> (string \<Rightarrow> solver_err + 'q RoutingSolver) \<Rightarrow> obj_key \<Rightarrow> 'q objects \<Rightarrow> 'q routing_outcome" where
  "routing_Reconcile env getSolver key cl =
     (case client_Get (rv_api env) key cl of
        Inl (NotFound _) \<Rightarrow> ((no_result, Ok ()), cl)
      | Inl e \<Rightarrow> ((no_result, Err (api_err_text e)), cl)
      | Inr instance \<Rightarrow>
     (case o_Content instance of
        RoutingContent routing \<Rightarrow>
          if rg_RoutingClass routing = []
          then with_result no_result (markRoutingFailed env instance routing ''DevWorkspaceRouting requires field routingClass to be set'' cl)
          else
     (case getSolver (rg_RoutingClass routing) of
        Inl RoutingNotSupported \<Rightarrow> ((no_result, Ok ()), cl)
      | Inl (OtherSolverErr e) \<Rightarrow> with_result no_result (markRoutingFailed env instance routing (''Invalid routingClass for DevWorkspace: '' @ e) cl)
      | Inr solver \<Rightarrow>
          if o_Terminating instance then with_result no_result (routing_finalize env solver instance routing cl)
          else if go_at (o_Annotations instance) DevWorkspaceStartedStatusAnnotation = ''false''
          then with_result no_result (setStatusStopped env instance routing cl)
          else if rg_Phase routing = RoutingPhaseFailed then ((no_result, Ok ()), cl)
          else route_live env solver instance routing cl)
      | _ \<Rightarrow> ((no_result, Ok ()), cl)))"

section \<open>Which events are reconciled\<close>

datatype 'q routing_event = CreateEvent "'q object" | DeleteEvent "'q object" | UpdateEvent "'q object" | GenericEvent "'q object"

definition supported_object :: "'q object \<Rightarrow> bool" where
  "supported_object obj = (case o_Content obj of RoutingContent routing \<Rightarrow> HasSolver (rg_RoutingClass routing) | _ \<Rightarrow> True)"

fun getRoutingPredicatesForSolverFunc :: "'q routing_event \<Rightarrow> bool" where
  "getRoutingPredicatesForSolverFunc (CreateEvent obj) = supported_object obj"
| "getRoutingPredicatesForSolverFunc (DeleteEvent obj) = True"
| "getRoutingPredicatesForSolverFunc (UpdateEvent newObj) = supported_object newObj"
| "getRoutingPredicatesForSolverFunc (GenericEvent obj) = supported_object obj"

end
