(* ===== verification/Pod_Status.thy ===== *)
theory Pod_Status
  imports Naming K8s_Types
begin

text \<open>
  Whether a workspace comes up (\<^verbatim>\<open>src/pkg/library/status/check.go\<close>): the status and the conditions of its deployment, the states of
  its containers and the events of its pods, and the message for the user when a postStart hook fails. The pods and events that the
  cluster lists are parameters. A regular expression of the code is the function that reads its match at the start of a text.
\<close>

section \<open>Regular expressions\<close>

definition is_digit :: "char \<Rightarrow> bool" where
  "is_digit c \<longleftrightarrow> c \<in> set ''0123456789''"

definition regex_space :: "char \<Rightarrow> bool" where
  "regex_space c \<longleftrightarrow> c \<in> {CHR '' '', CHR 0x09, CHR 0x0A, CHR 0x0C, CHR 0x0D}"

text \<open>The leftmost match, and the text after a literal prefix.\<close>

fun find_match :: "(string \<Rightarrow> 'a option) \<Rightarrow> string \<Rightarrow> 'a option" where
  "find_match m [] = m []"
| "find_match m (c # s) = (case m (c # s) of Some x \<Rightarrow> Some x | None \<Rightarrow> find_match m s)"

definition after :: "string \<Rightarrow> string \<Rightarrow> string option" where
  "after p s = (if take (length p) s = p then Some (drop (length p) s) else None)"

text \<open>\<^verbatim>\<open>before\d+[^\)]+?behind\<close>, where \<open>behind\<close> starts with a closing parenthesis, and \<^verbatim>\<open>before\d+behind\<close>.\<close>

definition duration_match :: "string \<Rightarrow> string \<Rightarrow> string \<Rightarrow> string option" where
  "duration_match before behind s =
     Option.bind (after before s) (\<lambda>rest.
       let run = takeWhile (\<lambda>c. c \<noteq> CHR '')'') rest in
       if 2 \<le> length run \<and> is_digit (hd run) \<and> after behind (drop (length run) rest) \<noteq> None then Some (before @ run @ behind) else None)"

definition digits_match :: "string \<Rightarrow> string \<Rightarrow> string \<Rightarrow> string option" where
  "digits_match before behind s =
     Option.bind (after before s) (\<lambda>rest.
       let run = takeWhile is_digit rest in
       if run \<noteq> [] \<and> after behind (drop (length run) rest) \<noteq> None then Some run else None)"

definition sigterm_before :: string where "sigterm_before = ''[postStart hook] Commands terminated by SIGTERM (likely timed out after ''"
definition sigkill_before :: string where "sigkill_before = ''[postStart hook] Commands forcefully killed by SIGKILL (likely after --kill-after ''"
definition exit_code_before :: string where "exit_code_before = ''[postStart hook] Commands failed with exit code ''"

definition reTerminatedSigterm :: "string \<Rightarrow> string option" where
  "reTerminatedSigterm = find_match (duration_match sigterm_before ''). Exit code 143.'')"

definition reKilledSigkill :: "string \<Rightarrow> string option" where
  "reKilledSigkill = find_match (duration_match sigkill_before ''). Exit code 137.'')"

definition reGenericFailedExitCode :: "string \<Rightarrow> string option" where
  "reGenericFailedExitCode = find_match (\<lambda>s. map_option (\<lambda>d. exit_code_before @ d @ ''.'') (digits_match exit_code_before ''.'' s))"

text \<open>The group of \<^verbatim>\<open>message:\s*"([^"]*)"\<close> and of \<^verbatim>\<open>exited with (\d+):\<close>.\<close>

definition quoted :: "string \<Rightarrow> string option" where
  "quoted s =
     Option.bind (after ''message:'' s) (\<lambda>rest.
       case dropWhile regex_space rest of
         [] \<Rightarrow> None
       | c # rest' \<Rightarrow>
           let run = takeWhile (\<lambda>c. c \<noteq> CHR 0x22) rest' in
           if c = CHR 0x22 \<and> length run < length rest' then Some run else None)"

definition reKubeletInternalMessage :: "string \<Rightarrow> string option" where
  "reKubeletInternalMessage = find_match quoted"

definition reKubeletExitCode :: "string \<Rightarrow> string option" where
  "reKubeletExitCode = find_match (digits_match ''exited with '' '':'')"

section \<open>The message of a failed hook\<close>

definition decimal :: "string \<Rightarrow> int" where
  "decimal s = foldl (\<lambda>n c. 10 * n + (int (of_char c) - 48)) 0 s"

text \<open>\<^verbatim>\<open>fmt.Sscanf\<close> leaves the variable at zero where the number does not fit into 64 bits.\<close>

definition scan_int :: "string \<Rightarrow> int" where
  "scan_int s = (if decimal s < 2 ^ 63 then decimal s else 0)"

definition script_output :: "string \<Rightarrow> string option" where
  "script_output msg =
     (case reTerminatedSigterm msg of Some m \<Rightarrow> Some m | None \<Rightarrow>
     (case reKilledSigkill msg of Some m \<Rightarrow> Some m | None \<Rightarrow> reGenericFailedExitCode msg))"

definition exit_code_message :: "string \<Rightarrow> string option" where
  "exit_code_message kubeletMsg =
     Option.bind (reKubeletExitCode kubeletMsg) (\<lambda>exitCodeStr.
       let exitCode = scan_int exitCodeStr in
       if exitCode = 143 then Some ''[postStart hook] Commands terminated by SIGTERM due to timeout''
       else if exitCode = 137 then Some ''[postStart hook] Commands forcefully killed by SIGKILL due to timeout''
       else if exitCode \<noteq> 0 then Some (''[postStart hook] Commands failed (Kubelet reported exit code '' @ exitCodeStr @ '')'')
       else None)"

definition getConcisePostStartFailureMessage :: "string \<Rightarrow> string" where
  "getConcisePostStartFailureMessage kubeletMsg =
     (case (case reKubeletInternalMessage kubeletMsg of
              None \<Rightarrow> None
            | Some internalMsg \<Rightarrow> if internalMsg = [] then None else script_output internalMsg) of
        Some m \<Rightarrow> m
      | None \<Rightarrow>
     (case exit_code_message kubeletMsg of
        Some m \<Rightarrow> m
      | None \<Rightarrow>
     (case script_output kubeletMsg of
        Some m \<Rightarrow> m
      | None \<Rightarrow> ''[postStart hook] failed with an unknown error (see pod events or container logs for more details)'')))"

section \<open>The deployment\<close>

definition unrecoverableDeploymentConditionReasons :: "string list" where
  "unrecoverableDeploymentConditionReasons = [''FailedCreate'', ''ProgressDeadlineExceeded'']"

definition RollingUpdateDeploymentStrategyType :: string where "RollingUpdateDeploymentStrategyType = ''RollingUpdate''"

definition checkRollingUpdateDeploymentStatus :: "'q Deployment \<Rightarrow> bool" where
  "checkRollingUpdateDeploymentStatus deployment =
     (if d_Generation deployment > d_ObservedGeneration deployment then False
      else if d_UpdatedReplicas deployment < 1 then False
      else if d_AvailableReplicas deployment < 1 then False
      else True)"

definition CheckDeploymentStatus :: "'q Deployment \<Rightarrow> string \<Rightarrow> bool" where
  "CheckDeploymentStatus deployment strategy =
     (if strategy = RollingUpdateDeploymentStrategyType then checkRollingUpdateDeploymentStatus deployment
      else d_ReadyReplicas deployment > 0)"

definition CheckDeploymentConditions :: "'q Deployment \<Rightarrow> string option" where
  "CheckDeploymentConditions deployment =
     (case find (\<lambda>condition. dc_Reason condition \<in> set unrecoverableDeploymentConditionReasons) (d_Conditions deployment) of
        Some condition \<Rightarrow> Some (''Detected unrecoverable deployment condition: '' @ dc_Reason condition @ '' '' @ dc_Message condition)
      | None \<Rightarrow> None)"

section \<open>Pods and events\<close>

record ContainerStatus =
  cs_Name :: string
  cs_Waiting :: "(string \<times> string) option"  \<comment> \<open>reason and message\<close>
  cs_Terminated :: "string option"  \<comment> \<open>reason\<close>

record PodStatus =
  ps_Name :: string
  ps_Namespace :: string
  ps_ContainerStatuses :: "ContainerStatus list"
  ps_InitContainerStatuses :: "ContainerStatus list"

record Event =
  evt_InvolvedKind :: string
  evt_Reason :: string
  evt_Message :: string
  evt_Series :: "int option"  \<comment> \<open>the count of the series\<close>
  evt_Count :: int

text \<open>What the cluster lists: the pods with the label of the workspace, and the events of a pod, whose name must make a valid selector.\<close>

record pods_env =
  pe_pods :: "err + PodStatus list"
  pe_selector :: "string \<Rightarrow> err option"
  pe_events :: "PodStatus \<Rightarrow> err + Event list"
  pe_openshift :: bool

definition containerFailureStateReasons :: "string list" where
  "containerFailureStateReasons = [''CrashLoopBackOff'', ''ImagePullBackOff'', ''CreateContainerError'', ''RunContainerError'']"

definition unrecoverablePodEventReasons :: "(string \<times> int) list" where
  "unrecoverablePodEventReasons =
     [(''FailedPostStartHook'', 1), (''FailedMount'', 3), (''FailedScheduling'', 1), (''FailedCreate'', 1), (''ReplicaSetCreateError'', 1)]"

definition checkIfUnrecoverableEventIgnored :: "string \<Rightarrow> string list \<Rightarrow> bool" where
  "checkIfUnrecoverableEventIgnored reason ignoredEvents \<longleftrightarrow> list_ex (\<lambda>ignoredReason. ignoredReason = reason) ignoredEvents"

definition getEventCount :: "Event \<Rightarrow> int" where
  "getEventCount event = (case evt_Series event of Some count \<Rightarrow> count | None \<Rightarrow> if evt_Count event > 0 then evt_Count event else 1)"

definition terminated_failure :: "ContainerStatus \<Rightarrow> string list \<Rightarrow> bool \<times> string" where
  "terminated_failure status ignoredEvents =
     (case cs_Terminated status of
        None \<Rightarrow> (True, [])
      | Some reason \<Rightarrow>
          if reason \<in> set containerFailureStateReasons then (checkIfUnrecoverableEventIgnored reason ignoredEvents, reason) else (True, []))"

definition CheckContainerStatusForFailure :: "ContainerStatus \<Rightarrow> string list \<Rightarrow> bool \<times> string" where
  "CheckContainerStatusForFailure status ignoredEvents =
     (case cs_Waiting status of
        None \<Rightarrow> terminated_failure status ignoredEvents
      | Some (reason, message) \<Rightarrow>
          if reason = ''PostStartHookError''
          then (checkIfUnrecoverableEventIgnored ''FailedPostStartHook'' ignoredEvents, getConcisePostStartFailureMessage message)
          else if reason \<in> set containerFailureStateReasons then (checkIfUnrecoverableEventIgnored reason ignoredEvents, reason)
          else terminated_failure status ignoredEvents)"

text \<open>\<^verbatim>\<open>strings.Contains\<close>.\<close>

fun strings_contains :: "string \<Rightarrow> string \<Rightarrow> bool" where
  "strings_contains [] sub \<longleftrightarrow> sub = []"
| "strings_contains (c # s) sub \<longleftrightarrow> after sub (c # s) \<noteq> None \<or> strings_contains s sub"

definition event_failure :: "pods_env \<Rightarrow> string \<Rightarrow> string list \<Rightarrow> Event \<Rightarrow> string option" where
  "event_failure env workspaceID ignoredEvents ev =
     (if evt_InvolvedKind ev \<noteq> ''Pod'' then None
      else if pe_openshift env \<and> evt_Reason ev = ''FailedMount'' \<and>
              strings_contains (evt_Message ev) (ServingCertVolumeName (ServiceName workspaceID)) then None
      else
     (case map_of unrecoverablePodEventReasons (evt_Reason ev) of
        None \<Rightarrow> None
      | Some maxCount \<Rightarrow>
          if \<not> checkIfUnrecoverableEventIgnored (evt_Reason ev) ignoredEvents \<and> getEventCount ev \<ge> maxCount
          then
            let eventMessage = (if evt_Reason ev = ''FailedPostStartHook'' then getConcisePostStartFailureMessage (evt_Message ev) else evt_Message ev) in
            Some (if getEventCount ev > 1
                  then ''Detected unrecoverable event '' @ evt_Reason ev @ '' '' @ format_int (getEventCount ev) @ '' times: '' @ eventMessage
                  else ''Detected unrecoverable event '' @ evt_Reason ev @ '': '' @ eventMessage)
          else None))"

text \<open>The message is empty where nothing is wrong.\<close>

definition CheckPodEvents :: "pods_env \<Rightarrow> PodStatus \<Rightarrow> string \<Rightarrow> string list \<Rightarrow> err + string" where
  "CheckPodEvents env pod workspaceID ignoredEvents =
     (case pe_selector env (ps_Name pod) of
        Some e \<Rightarrow> Inl (''failed to parse field selector: '' @ e)
      | None \<Rightarrow>
     (case pe_events env pod of
        Inl e \<Rightarrow> Inl (''failed to list events in namespace '' @ ps_Namespace pod @ '': '' @ e)
      | Inr evs \<Rightarrow> Inr (case List.map_filter (event_failure env workspaceID ignoredEvents) evs of [] \<Rightarrow> [] | msg # _ \<Rightarrow> msg)))"

fun check_statuses :: "string \<Rightarrow> string list \<Rightarrow> ContainerStatus list \<Rightarrow> string" where
  "check_statuses what ignoredEvents [] = []"
| "check_statuses what ignoredEvents (status # statuses) =
     (case CheckContainerStatusForFailure status ignoredEvents of
        (False, reason) \<Rightarrow> what @ '' '' @ cs_Name status @ '' has state '' @ reason
      | (True, _) \<Rightarrow> check_statuses what ignoredEvents statuses)"

definition check_pod :: "pods_env \<Rightarrow> string \<Rightarrow> string list \<Rightarrow> PodStatus \<Rightarrow> err + string" where
  "check_pod env workspaceID ignoredEvents pod =
     (let msg = check_statuses ''Container'' ignoredEvents (ps_ContainerStatuses pod) in
      if msg \<noteq> [] then Inr msg
      else
        let msg = check_statuses ''Init Container'' ignoredEvents (ps_InitContainerStatuses pod) in
        if msg \<noteq> [] then Inr msg else CheckPodEvents env pod workspaceID ignoredEvents)"

fun check_pods :: "pods_env \<Rightarrow> string \<Rightarrow> string list \<Rightarrow> PodStatus list \<Rightarrow> err + string" where
  "check_pods env workspaceID ignoredEvents [] = Inr []"
| "check_pods env workspaceID ignoredEvents (pod # pods) =
     (case check_pod env workspaceID ignoredEvents pod of
        Inr [] \<Rightarrow> check_pods env workspaceID ignoredEvents pods
      | res \<Rightarrow> res)"

definition CheckPodsState :: "pods_env \<Rightarrow> string \<Rightarrow> string list \<Rightarrow> err + string" where
  "CheckPodsState env workspaceID ignoredEvents =
     (case pe_pods env of Inl e \<Rightarrow> Inl e | Inr pods \<Rightarrow> check_pods env workspaceID ignoredEvents pods)"

definition CheckForIgnoredWorkspacePodEvents :: "pods_env \<Rightarrow> string \<Rightarrow> string" where
  "CheckForIgnoredWorkspacePodEvents env workspaceID = (case CheckPodsState env workspaceID [] of Inl e \<Rightarrow> e | Inr msg \<Rightarrow> msg)"

end
