(* ===== verification/Workspace_Deployment.thy ===== *)
theory Workspace_Deployment
  imports Storage Routing Pod_Status Complex_Main
begin

text \<open>
  The deployment and the routing object of a workspace (\<^verbatim>\<open>src/pkg/provision/workspace/deployment.go\<close> and
  \<^verbatim>\<open>routing.go\<close>): merging what the parts contribute to the pod, building the deployment, keeping it on the cluster and waiting for
  it; handing the endpoints to the routing controller and taking its answer.

  Parameters besides those of storage and pods: \<open>de_Seconds\<close> is \<^verbatim>\<open>time.ParseDuration\<close> followed by \<^verbatim>\<open>Seconds\<close>, and
  \<open>de_int32\<close> the conversion of a floating-point number to 32 bits, which Go leaves open out of range.
\<close>

record 'q deploy_env =
  de_storage :: "'q storage_env"
  de_lib :: "'q library"
  de_pods :: pods_env
  de_Seconds :: "string \<Rightarrow> err + rat"
  de_int32 :: "rat \<Rightarrow> int"

abbreviation de_api :: "'q deploy_env \<Rightarrow> 'q api_env" where
  "de_api env \<equiv> se_api (de_storage env)"

definition RuntimeClassNameAttribute :: string where "RuntimeClassNameAttribute = ''controller.devfile.io/runtime-class''"
definition RoutingAnnotationInfix :: string where "RoutingAnnotationInfix = ''.routing.controller.devfile.io/''"
definition RollingUpdateMaxUnavailable :: int where "RollingUpdateMaxUnavailable = 0"
definition RollingUpdateMaximumSurge :: int where "RollingUpdateMaximumSurge = 1"

section \<open>Pod additions\<close>

text \<open>Elements are added one by one; the names that are taken are those of the elements added before.\<close>

fun add_unique :: "string \<Rightarrow> ('a \<Rightarrow> string) \<Rightarrow> 'a list \<Rightarrow> 'a list \<Rightarrow> err + 'a list" where
  "add_unique what name acc [] = Inr acc"
| "add_unique what name acc (x # xs) =
     (if name x \<in> set (map name acc) then Inl (what @ '': '' @ name x) else add_unique what name (acc @ [x]) xs)"

fun add_new :: "'a list \<Rightarrow> 'a list \<Rightarrow> 'a list" where
  "add_new acc [] = acc"
| "add_new acc (x # xs) = (if x \<in> set acc then add_new acc xs else add_new (acc @ [x]) xs)"

definition put_entries :: "(string, string) gomap \<Rightarrow> (string, string) gomap \<Rightarrow> (string, string) gomap" where
  "put_entries target entries = foldl (\<lambda>m (k, v). map_Append m k v) target (go_items entries)"

definition merge_additions :: "'q PodAdditions \<Rightarrow> 'q PodAdditions \<Rightarrow> err + 'q PodAdditions" where
  "merge_additions podAdditions additions =
     (case add_unique ''duplicate containers in the workspace definition'' c_Name (pa_Containers podAdditions) (pa_Containers additions) of
        Inl e \<Rightarrow> Inl e
      | Inr containers \<Rightarrow>
     (case add_unique ''duplicate init containers in the workspace definition'' c_Name (pa_InitContainers podAdditions) (pa_InitContainers additions) of
        Inl e \<Rightarrow> Inl e
      | Inr initContainers \<Rightarrow>
     (case add_unique ''duplicate volumes in the workspace definition'' v_Name (pa_Volumes podAdditions) (pa_Volumes additions) of
        Inl e \<Rightarrow> Inl e
      | Inr volumes \<Rightarrow>
     (case add_unique ''duplicated volumeMounts in workspace definition'' vm_Name (pa_VolumeMounts podAdditions) (pa_VolumeMounts additions) of
        Inl e \<Rightarrow> Inl e
      | Inr volumeMounts \<Rightarrow>
          Inr (podAdditions\<lparr>pa_Annotations := put_entries (pa_Annotations podAdditions) (pa_Annotations additions),
            pa_Labels := put_entries (pa_Labels podAdditions) (pa_Labels additions),
            pa_Containers := containers, pa_InitContainers := initContainers, pa_Volumes := volumes, pa_VolumeMounts := volumeMounts,
            pa_PullSecrets := add_new (pa_PullSecrets podAdditions) (pa_PullSecrets additions)\<rparr>)))))"

fun merge_all :: "'q PodAdditions \<Rightarrow> 'q PodAdditions list \<Rightarrow> err + 'q PodAdditions" where
  "merge_all podAdditions [] = Inr podAdditions"
| "merge_all podAdditions (additions # toMerge) =
     (case merge_additions podAdditions additions of Inl e \<Rightarrow> Inl e | Inr podAdditions' \<Rightarrow> merge_all podAdditions' toMerge)"

definition mergePodAdditions :: "'q PodAdditions list \<Rightarrow> err + 'q PodAdditions" where
  "mergePodAdditions toMerge = merge_all empty_pod_additions toMerge"

section \<open>The deployment\<close>

definition getWorkspaceSubpathVolumeMount :: "string \<Rightarrow> string \<Rightarrow> VolumeMount" where
  "getWorkspaceSubpathVolumeMount workspaceId pvcName =
     \<lparr>vm_Name = pvcName, vm_ReadOnly = False, vm_RecursiveReadOnly = None, vm_MountPath = ''/tmp/workspace-storage'', vm_SubPath = workspaceId,
      vm_MountPropagation = None, vm_SubPathExpr = []\<rparr>"

definition needsPVCWorkaround :: "'q PodAdditions \<Rightarrow> string \<Rightarrow> string option" where
  "needsPVCWorkaround podAdditions pvcName =
     map_option (\<lambda>vol. if v_Name vol = pvcName then pvcName else CheCommonPVCName)
       (find (\<lambda>vol. v_Name vol = pvcName \<or> v_Name vol = CheCommonPVCName) (pa_Volumes podAdditions))"

fun add_annotations :: "(string \<times> string) list \<Rightarrow> (string \<times> string) list \<Rightarrow> err + (string \<times> string) list" where
  "add_annotations annotations [] = Inr annotations"
| "add_annotations annotations ((k, v) # kvs) =
     (if map_of annotations k \<notin> {None, Some v} then Inl (''conflicting annotations found on container components for key '' @ k)
      else add_annotations (AList.update k v annotations) kvs)"

definition component_annotations :: "DevfileComponent \<Rightarrow> (string \<times> string) list" where
  "component_annotations component = (case comp_Container component of None \<Rightarrow> [] | Some c \<Rightarrow> go_items (cc_DeploymentAnnotations c))"

fun collect_annotations :: "(string \<times> string) list \<Rightarrow> DevfileComponent list \<Rightarrow> err + (string \<times> string) list" where
  "collect_annotations annotations [] = Inr annotations"
| "collect_annotations annotations (component # components) =
     (case add_annotations annotations (component_annotations component) of
        Inl e \<Rightarrow> Inl e | Inr annotations' \<Rightarrow> collect_annotations annotations' components)"

definition getAdditionalDeploymentAnnotations :: "DevWorkspaceTemplateSpec \<Rightarrow> err + (string, string) gomap" where
  "getAdditionalDeploymentAnnotations workspace = map_sum id Some (collect_annotations [] (ts_Components workspace))"

definition getProgressDeadlineSeconds :: "'q deploy_env \<Rightarrow> string \<Rightarrow> err + int" where
  "getProgressDeadlineSeconds env timeout =
     (case de_Seconds env timeout of
        Inl e \<Rightarrow> Inl (''invalid duration specified for workspace progress timeout: '' @ e)
      | Inr seconds \<Rightarrow>
          if seconds > 2147483647 then Inl (''duration specified for workspace progress timeout is too long: '' @ timeout)
          else Inr (de_int32 env seconds))"

definition nil_list :: "'a list \<Rightarrow> 'a list option" where
  "nil_list xs = (if xs = [] then None else Some xs)"

abbreviation with_mounts :: "VolumeMount list \<Rightarrow> 'q Container list \<Rightarrow> 'q Container list" where
  "with_mounts mounts containers \<equiv> map (\<lambda>c. c\<lparr>c_VolumeMounts := c_VolumeMounts c @ mounts\<rparr>) containers"

definition workspace_template :: "'q WorkspaceWithConfig \<Rightarrow> 'q PodAdditions \<Rightarrow> string \<Rightarrow> 'q PodTemplateSpec" where
  "workspace_template w podAdditions saName =
     \<lparr>pt_Name = wwc_Id w, pt_Namespace = wwc_Namespace w,
      pt_Labels = Some [(DevWorkspaceIDLabel, wwc_Id w), (DevWorkspaceNameLabel, wwc_Name w)],
      pt_Annotations = pa_Annotations podAdditions, pt_Metadata = Opaque [],
      pt_Spec = empty_pod_spec\<lparr>
        p_InitContainers := nil_list (with_mounts (pa_VolumeMounts podAdditions) (pa_InitContainers podAdditions)),
        p_Containers := nil_list (with_mounts (pa_VolumeMounts podAdditions) (pa_Containers podAdditions)),
        p_ImagePullSecrets := pa_PullSecrets podAdditions, p_Volumes := nil_list (pa_Volumes podAdditions),
        p_RestartPolicy := ''Always'', p_TerminationGracePeriodSeconds := Some 10,
        p_SchedulerName := wc_SchedulerName (wwc_Workspace w), p_SecurityContext := wc_PodSecurityContext (wwc_Workspace w),
        p_ServiceAccountName := saName, p_AutomountServiceAccountToken := None,
        p_RuntimeClassName := wc_RuntimeClassName (wwc_Workspace w), p_HostUsers := wc_HostUsers (wwc_Workspace w)\<rparr>\<rparr>"

definition base_deployment :: "'q WorkspaceWithConfig \<Rightarrow> 'q PodAdditions \<Rightarrow> string \<Rightarrow> int \<Rightarrow> 'q Deployment" where
  "base_deployment w podAdditions saName progressDeadlineSeconds =
     empty_deployment\<lparr>d_Replicas := Some 1, d_Selector := Some [(DevWorkspaceIDLabel, wwc_Id w)],
       d_StrategyType := wc_DeploymentStrategy (wwc_Workspace w),
       d_RollingUpdate :=
         (if wc_DeploymentStrategy (wwc_Workspace w) = RollingUpdateDeploymentStrategyType
          then Some (RollingUpdateMaxUnavailable, RollingUpdateMaximumSurge) else None),
       d_ProgressDeadlineSeconds := Some progressDeadlineSeconds, d_Template := workspace_template w podAdditions saName\<rparr>"

abbreviation map_spec :: "('q PodSpec \<Rightarrow> 'q PodSpec) \<Rightarrow> 'q Deployment \<Rightarrow> 'q Deployment" where
  "map_spec f deployment \<equiv> deployment\<lparr>d_Template := (d_Template deployment)\<lparr>pt_Spec := f (pt_Spec (d_Template deployment))\<rparr>\<rparr>"

definition set_runtime_class :: "'q library \<Rightarrow> DevWorkspaceTemplateSpec \<Rightarrow> 'q PodSpec \<Rightarrow> 'q PodSpec" where
  "set_runtime_class L template spec =
     (if attr_exists (ts_Attributes template) RuntimeClassNameAttribute then
        (case lib_getString L (ts_Attributes template) RuntimeClassNameAttribute of
           Inr runtimeClassName \<Rightarrow> if runtimeClassName \<noteq> [] then spec\<lparr>p_RuntimeClassName := Some runtimeClassName\<rparr> else spec
         | Inl _ \<Rightarrow> spec)
      else spec)"

definition schedule_on :: "opaque list \<Rightarrow> (string \<times> string) list \<Rightarrow> 'q PodSpec \<Rightarrow> 'q PodSpec" where
  "schedule_on podTolerations nodeSelector spec =
     (let spec' = (if podTolerations \<noteq> [] then spec\<lparr>p_Tolerations := podTolerations\<rparr> else spec) in
      if nodeSelector \<noteq> [] then spec'\<lparr>p_NodeSelector := nodeSelector\<rparr> else spec')"

text \<open>The mount of the workspace's directory goes to the first container; a pod without containers is an index out of range.\<close>

definition prepend_mount :: "VolumeMount \<Rightarrow> 'q Container \<Rightarrow> 'q Container" where
  "prepend_mount mount container = container\<lparr>c_VolumeMounts := mount # c_VolumeMounts container\<rparr>"

definition pvc_workaround :: "string \<Rightarrow> string option \<Rightarrow> 'q PodSpec \<Rightarrow> 'q PodSpec go_result" where
  "pvc_workaround workspaceId pvc spec =
     (case pvc of
        None \<Rightarrow> Ok spec
      | Some pvcName \<Rightarrow>
          let mount = getWorkspaceSubpathVolumeMount workspaceId pvcName in
     (case pod_list (p_InitContainers spec) of
        c # cs \<Rightarrow> Ok (spec\<lparr>p_InitContainers := Some (prepend_mount mount c # cs)\<rparr>)
      | [] \<Rightarrow>
     (case pod_list (p_Containers spec) of
        c # cs \<Rightarrow> Ok (spec\<lparr>p_Containers := Some (prepend_mount mount c # cs)\<rparr>)
      | [] \<Rightarrow> Panic)))"

text \<open>A store into the nil map of labels panics.\<close>

definition label_creator :: "string \<Rightarrow> 'q PodTemplateSpec \<Rightarrow> 'q PodTemplateSpec go_result" where
  "label_creator creator template =
     (case go_put (pt_Labels template) DevWorkspaceCreatorLabel creator of
        None \<Rightarrow> Panic | Some labels \<Rightarrow> Ok (template\<lparr>pt_Labels := labels\<rparr>))"

definition deployment_object :: "'q WorkspaceWithConfig \<Rightarrow> (string, string) gomap \<Rightarrow> string \<Rightarrow> 'q Deployment \<Rightarrow> 'q object" where
  "deployment_object w annotations creator deployment =
     (let restricted = (\<lambda>m. case go_get (wwc_Annotations w) DevWorkspaceRestrictedAccessAnnotation of None \<Rightarrow> m | Some v \<Rightarrow> map_Append m DevWorkspaceRestrictedAccessAnnotation v);
          template = d_Template deployment in
      \<lparr>o_Name = DeploymentName (wwc_Id w), o_Namespace = wwc_Namespace w,
       o_Labels = Some [(DevWorkspaceIDLabel, wwc_Id w), (DevWorkspaceNameLabel, wwc_Name w), (DevWorkspaceCreatorLabel, creator)],
       o_Annotations = restricted annotations, o_OwnerReferences = [], o_UID = [], o_ResourceVersion = [], o_Terminating = False, o_Finalizers = [],
       o_Content = DeploymentContent (deployment\<lparr>d_Template := template\<lparr>pt_Annotations := restricted (pt_Annotations template)\<rparr>\<rparr>)\<rparr>)"

text \<open>The template that the overrides of the workspace leave.\<close>

definition overridden :: "'q deploy_env \<Rightarrow> 'q WorkspaceWithConfig \<Rightarrow> 'q Deployment \<Rightarrow> err + 'q Deployment" where
  "overridden env w deployment =
     (if NeedsPodOverrides (wwc_Template w)
      then ApplyPodOverrides (lib_json (de_lib env)) (wwc_Template w) (Some (wwc_Config w)) deployment else Inr deployment)"

definition finish_deployment ::
  "'q deploy_env \<Rightarrow> 'q WorkspaceWithConfig \<Rightarrow> (string, string) gomap \<Rightarrow> string option \<Rightarrow> opaque list \<Rightarrow> (string \<times> string) list \<Rightarrow>
   'q Deployment \<Rightarrow> 'q object go_result" where
  "finish_deployment env w annotations pvc podTolerations nodeSelector deployment =
     go_bind (pvc_workaround (wwc_Id w) pvc
                (set_runtime_class (de_lib env) (wwc_Template w) (schedule_on podTolerations nodeSelector (pt_Spec (d_Template deployment))))) (\<lambda>spec.
     case go_get (wwc_Labels w) DevWorkspaceCreatorLabel of
       None \<Rightarrow> Err ''workspace must have creator specified to be run. Recreate it to fix an issue''
     | Some creator \<Rightarrow>
         go_bind (label_creator creator ((d_Template deployment)\<lparr>pt_Spec := spec\<rparr>)) (\<lambda>template.
           of_sum (SetControllerReference (de_storage env) w (deployment_object w annotations creator (deployment\<lparr>d_Template := template\<rparr>)))))"

definition getSpecDeployment ::
  "'q deploy_env \<Rightarrow> 'q WorkspaceWithConfig \<Rightarrow> 'q PodAdditions list \<Rightarrow> string \<Rightarrow> opaque list \<Rightarrow> (string \<times> string) list \<Rightarrow> 'q object go_result" where
  "getSpecDeployment env w podAdditionsList saName podTolerations nodeSelector =
     go_bind (of_sum (mergePodAdditions podAdditionsList)) (\<lambda>podAdditions.
     go_bind (of_sum (getAdditionalDeploymentAnnotations (wwc_Template w))) (\<lambda>annotations.
     go_bind (of_sum (getProgressDeadlineSeconds env (wc_ProgressTimeout (wwc_Workspace w)))) (\<lambda>progressDeadlineSeconds.
     go_bind (of_sum (overridden env w (base_deployment w podAdditions saName progressDeadlineSeconds))) (\<lambda>deployment.
       finish_deployment env w annotations (needsPVCWorkaround podAdditions (wc_PVCName (wwc_Workspace w))) podTolerations nodeSelector deployment))))"

fun deployment_in :: "'q content \<Rightarrow> 'q Deployment" where
  "deployment_in (DeploymentContent deployment) = deployment"
| "deployment_in _ = empty_deployment"

text \<open>The deployment on the cluster: ready, failed for good, or to be waited for.\<close>

definition check_deployment :: "'q deploy_env \<Rightarrow> 'q WorkspaceWithConfig \<Rightarrow> 'q Deployment \<Rightarrow> unit dw_result" where
  "check_deployment env w clusterDeployment =
     (if CheckDeploymentStatus clusterDeployment (wc_DeploymentStrategy (wwc_Workspace w)) then DwOk ()
      else
     (case CheckDeploymentConditions clusterDeployment of
        Some deploymentErrMsg \<Rightarrow> DwErr (FailError deploymentErrMsg)
      | None \<Rightarrow>
     (case CheckPodsState (de_pods env) (wwc_Id w) (case_option [] (\<lambda>xs. xs) (wc_IgnoredUnrecoverableEvents (wwc_Workspace w))) of
        Inl checkErr \<Rightarrow> DwOk ()
      | Inr failureMsg \<Rightarrow> if failureMsg \<noteq> [] then DwErr (FailError failureMsg) else DwErr (RetryError ''Deployment is not ready'' 0))))"

definition SyncDeploymentToCluster ::
  "'q deploy_env \<Rightarrow> 'q WorkspaceWithConfig \<Rightarrow> 'q PodAdditions list \<Rightarrow> string \<Rightarrow> 'q objects \<Rightarrow> unit dw_result \<times> 'q objects" where
  "SyncDeploymentToCluster env w podAdditions saName cl =
     (case GetNamespacePodTolerationsAndNodeSelector (de_storage env) of
        Inl e \<Rightarrow> (DwErr (FailError (wrapped_text ''Failed to read pod tolerations and node selector from namespace'' e)), cl)
      | Inr (podTolerations, nodeSelector) \<Rightarrow>
     (case getSpecDeployment env w podAdditions saName podTolerations nodeSelector of
        Panic \<Rightarrow> (DwPanic, cl)
      | Err e \<Rightarrow> (DwErr (FailError (wrapped_text ''Error while creating workspace deployment'' e)), cl)
      | Ok specDeployment \<Rightarrow>
          if pod_list (p_Containers (pt_Spec (d_Template (deployment_in (o_Content specDeployment))))) = [] then (DwOk (), cl)
          else
     (case SyncObjectWithCluster (de_api env) specDeployment cl of
        (Inl e, cl') \<Rightarrow> (DwErr (WrapSyncError e), cl')
      | (Inr clusterObj, cl') \<Rightarrow> (check_deployment env w (deployment_in (o_Content clusterObj)), cl'))))"

definition deployment_key :: "'q WorkspaceWithConfig \<Rightarrow> obj_key" where
  "deployment_key w = (DeploymentObj, wwc_Namespace w, DeploymentName (wwc_Id w))"

text \<open>Whether to wait for the deployment to go.\<close>

definition DeleteWorkspaceDeployment :: "'q api_env \<Rightarrow> 'q WorkspaceWithConfig \<Rightarrow> 'q objects \<Rightarrow> (err + bool) \<times> 'q objects" where
  "DeleteWorkspaceDeployment env w cl =
     (case client_Delete env
             \<lparr>o_Name = DeploymentName (wwc_Id w), o_Namespace = wwc_Namespace w, o_Labels = None, o_Annotations = None, o_OwnerReferences = [],
              o_UID = [], o_ResourceVersion = [], o_Terminating = False, o_Finalizers = [], o_Content = DeploymentContent empty_deployment\<rparr> cl of
        (None, cl') \<Rightarrow> (Inr True, cl')
      | (Some (NotFound _), cl') \<Rightarrow> (Inr False, cl')
      | (Some e, cl') \<Rightarrow> (Inl (api_err_text e), cl'))"

text \<open>A patch of the stored deployment: a write that fails as an update does, without a check of the version.\<close>

definition patch_replicas :: "'q api_env \<Rightarrow> int \<Rightarrow> obj_key \<Rightarrow> 'q objects \<Rightarrow> api_err option \<times> 'q objects" where
  "patch_replicas env n key cl =
     (case ae_fault env (UpdateCall key) of
        Some e \<Rightarrow> (Some e, cl)
      | None \<Rightarrow> (case cl key of
          None \<Rightarrow> (Some (NotFound ''not found''), cl)
        | Some old \<Rightarrow>
            (None, cl(key \<mapsto> ae_store env (Some old) (old\<lparr>o_Content := DeploymentContent ((deployment_in (o_Content old))\<lparr>d_Replicas := Some n\<rparr>)\<rparr>)))))"

definition ScaleDeploymentToZero :: "'q api_env \<Rightarrow> 'q WorkspaceWithConfig \<Rightarrow> 'q objects \<Rightarrow> err option \<times> 'q objects" where
  "ScaleDeploymentToZero env w cl =
     (case patch_replicas env 0 (deployment_key w) cl of
        (None, cl') \<Rightarrow> (None, cl')
      | (Some (NotFound _), cl') \<Rightarrow> (None, cl')
      | (Some e, cl') \<Rightarrow> (Some (api_err_text e), cl'))"

definition GetClusterDeployment :: "'q api_env \<Rightarrow> 'q WorkspaceWithConfig \<Rightarrow> 'q objects \<Rightarrow> err + 'q object option" where
  "GetClusterDeployment env w cl =
     (case client_Get env (deployment_key w) cl of
        Inr obj \<Rightarrow> Inr (Some obj)
      | Inl (NotFound _) \<Rightarrow> Inr None
      | Inl e \<Rightarrow> Inl (api_err_text e))"

section \<open>The routing object\<close>

text \<open>The endpoints by component; a later component with the same name appends.\<close>

fun collect_endpoints :: "endpoints \<Rightarrow> DevfileComponent list \<Rightarrow> endpoints" where
  "collect_endpoints es [] = es"
| "collect_endpoints es (component # components) =
     (case comp_Container component of
        None \<Rightarrow> collect_endpoints es components
      | Some c \<Rightarrow>
          if cc_Endpoints c = [] then collect_endpoints es components
          else collect_endpoints
                 (AList.update (comp_Name component)
                    ((case map_of es (comp_Name component) of None \<Rightarrow> [] | Some old \<Rightarrow> old) @ ConvertAllDevfileEndpoints (cc_Endpoints c)) es)
                 components)"

definition routing_annotations :: "'q WorkspaceWithConfig \<Rightarrow> (string, string) gomap" where
  "routing_annotations w =
     (let restricted = (case go_get (wwc_Annotations w) DevWorkspaceRestrictedAccessAnnotation of
                          None \<Rightarrow> None | Some val \<Rightarrow> map_Append None DevWorkspaceRestrictedAccessAnnotation val);
          expectedAnnotationPrefix = wwc_RoutingClass w @ RoutingAnnotationInfix in
      foldl (\<lambda>m (k, v). if after expectedAnnotationPrefix k \<noteq> None then map_Append m k v else m)
        (map_Append restricted DevWorkspaceStartedStatusAnnotation ''true'') (go_items (wwc_Annotations w)))"

definition routing_class :: "'q WorkspaceWithConfig \<Rightarrow> string option" where
  "routing_class w = (if wwc_RoutingClass w = [] then map_option DefaultRoutingClass (oc_Routing (wwc_Config w)) else Some (wwc_RoutingClass w))"

definition getSpecRouting :: "'q storage_env \<Rightarrow> 'q WorkspaceWithConfig \<Rightarrow> 'q object go_result" where
  "getSpecRouting env w =
     (case routing_class w of
        None \<Rightarrow> Panic
      | Some routingClass \<Rightarrow> of_sum (SetControllerReference env w
          \<lparr>o_Name = DevWorkspaceRoutingName (wwc_Id w), o_Namespace = wwc_Namespace w, o_Labels = Some [(DevWorkspaceIDLabel, wwc_Id w)],
           o_Annotations = routing_annotations w, o_OwnerReferences = [], o_UID = [], o_ResourceVersion = [], o_Terminating = False, o_Finalizers = [],
           o_Content = RoutingContent
             \<lparr>rg_Finalizers = [], rg_DevWorkspaceId = wwc_Id w, rg_RoutingClass = routingClass,
              rg_Endpoints = collect_endpoints [] (ts_Components (wwc_Template w)), rg_PodSelector = Some [(DevWorkspaceIDLabel, wwc_Id w)],
              rg_PodAdditions = None, rg_ExposedEndpoints = None, rg_Phase = NoRoutingPhase, rg_Message = []\<rparr>\<rparr>))"

definition secure_containers :: "SecurityContext option \<Rightarrow> 'q PodAdditions \<Rightarrow> 'q PodAdditions" where
  "secure_containers context podAdditions =
     (if context = None then podAdditions
      else podAdditions\<lparr>pa_Containers := map (\<lambda>c. if c_SecurityContext c = None then c\<lparr>c_SecurityContext := context\<rparr> else c) (pa_Containers podAdditions)\<rparr>)"

definition routing_answer :: "'q WorkspaceWithConfig \<Rightarrow> 'q Routing \<Rightarrow> string \<times> ('q PodAdditions option \<times> exposed option) dw_result" where
  "routing_answer w routing =
     (rg_Message routing,
      if rg_Phase routing = RoutingPhaseFailed then DwErr (FailError (rg_Message routing))
      else if rg_Phase routing \<noteq> RoutingPhaseReady then DwErr (RetryError (rg_Message routing) 5000000000)
      else DwOk (map_option (secure_containers (wc_ContainerSecurityContext (wwc_Workspace w))) (rg_PodAdditions routing), rg_ExposedEndpoints routing))"

text \<open>The status message comes with the result.\<close>

definition SyncRoutingToCluster ::
  "'q storage_env \<Rightarrow> 'q WorkspaceWithConfig \<Rightarrow> 'q objects \<Rightarrow> (string \<times> ('q PodAdditions option \<times> exposed option) dw_result) \<times> 'q objects" where
  "SyncRoutingToCluster env w cl =
     (case getSpecRouting env w of
        Panic \<Rightarrow> (([], DwPanic), cl)
      | Err e \<Rightarrow> (([], DwErr (OtherError e)), cl)
      | Ok specRouting \<Rightarrow>
     (case SyncObjectWithCluster (se_api env) specRouting cl of
        (Inl e, cl') \<Rightarrow> (([], DwErr (WrapSyncError e)), cl')
      | (Inr clusterObj, cl') \<Rightarrow>
          (case o_Content clusterObj of RoutingContent routing \<Rightarrow> (routing_answer w routing, cl') | _ \<Rightarrow> (([], DwPanic), cl'))))"

end
