(* ===== verification/Routing_Ready.thy ===== *)
theory Routing_Ready
  imports Routing Sync_Convergence
begin

text \<open>
  What routing guarantees: the service of a workspace has each port once, the URLs of endpoints are read back from the objects made for
  them, nothing private is exposed, and a routing is ready only when its objects are on the cluster. One theorem shows where the code
  falls short: an endpoint whose name is not its own sanitised form cannot be routed on OpenShift.
\<close>

section \<open>Ports\<close>

abbreviation service_exposure :: "RoutingEndpoint \<Rightarrow> bool" where
  "service_exposure e \<equiv> re_Exposure e \<in> {PublicEndpointExposure, InternalEndpointExposure}"

lemma expose_ports_set:
  "set (map spt_Port (expose_ports L True exposures ports es)) =
     int32 ` (set ports \<inter> re_TargetPort ` {e \<in> set es. re_Exposure e \<in> set exposures})"
proof (induction es arbitrary: ports)
  case (Cons e es)
  then show ?case by (auto simp: endpoint_port_def)
qed simp

lemma int32_port: "0 \<le> n \<Longrightarrow> n \<le> 65535 \<Longrightarrow> int32 n = n"
  by (simp add: int32_def)

lemma expose_ports_distinct:
  "(\<And>e. e \<in> set es \<Longrightarrow> 0 \<le> re_TargetPort e \<and> re_TargetPort e \<le> 65535) \<Longrightarrow>
   distinct (map spt_Port (expose_ports L True exposures ports es))"
proof (induction es arbitrary: ports)
  case (Cons e es)
  have "int32 (re_TargetPort e) \<notin> set (map spt_Port (expose_ports L True exposures (removeAll (re_TargetPort e) ports) es))"
  proof
    assume "int32 (re_TargetPort e) \<in> set (map spt_Port (expose_ports L True exposures (removeAll (re_TargetPort e) ports) es))"
    then obtain e' where "e' \<in> set es" "int32 (re_TargetPort e) = int32 (re_TargetPort e')" "re_TargetPort e' \<noteq> re_TargetPort e"
      unfolding expose_ports_set by auto
    then show False using Cons.prems [of e] Cons.prems [of e'] by (simp add: int32_port)
  qed
  then show ?case using Cons by (simp add: endpoint_port_def)
qed simp

text \<open>With valid port numbers, the service of a workspace exists exactly if an endpoint is public or internal, and it has the
  target ports of these endpoints, each once.\<close>

theorem service_ports_exact:
  assumes "\<And>e. e \<in> set (all_endpoints endpoints) \<Longrightarrow> 0 \<le> re_TargetPort e \<and> re_TargetPort e \<le> 65535"
  shows "case getServicesForEndpoints L endpoints meta of
      [] \<Rightarrow> \<not> list_ex service_exposure (all_endpoints endpoints)
    | services \<Rightarrow> \<exists>service. services = [service] \<and> o_Name service = ServiceName (mt_DevWorkspaceId meta) \<and>
        distinct (map spt_Port (service_ports service)) \<and>
        set (map spt_Port (service_ports service)) = re_TargetPort ` {e \<in> set (all_endpoints endpoints). service_exposure e}"
proof -
  let ?es = "all_endpoints endpoints"
  let ?ports = "expose_ports L True [PublicEndpointExposure, InternalEndpointExposure] (map re_TargetPort ?es) ?es"
  have "set (map spt_Port ?ports) = int32 ` re_TargetPort ` {e \<in> set ?es. service_exposure e}"
    unfolding expose_ports_set by auto
  also have "\<dots> = re_TargetPort ` {e \<in> set ?es. service_exposure e}"
    using assms by (force simp: image_image int32_port)
  finally have ports: "set (map spt_Port ?ports) = re_TargetPort ` {e \<in> set ?es. service_exposure e}" .
  have d: "distinct (map spt_Port ?ports)" by (rule expose_ports_distinct [OF assms])
  show ?thesis
  proof (cases "?ports = []")
    case True
    then have "{e \<in> set ?es. service_exposure e} = {}" using ports by simp
    with True show ?thesis by (auto simp: getServicesForEndpoints_def GetServiceForEndpoints_def list_ex_iff)
  next
    case False
    then have "endpoints \<noteq> []" by auto
    with False ports d show ?thesis
      by (simp add: getServicesForEndpoints_def GetServiceForEndpoints_def service_ports_def routing_object_def service_with_def)
  qed
qed

section \<open>URLs\<close>

lemma EndpointName_idem: "EndpointName (EndpointName s) = EndpointName s"
  by (rule EndpointName_id [OF EndpointName_groups])

lemma map_Append_get [simp]: "go_get (map_Append m k v) k' = (if k' = k then Some v else go_get m k')"
  by (simp add: map_Append_def go_get_def update_conv')

lemma go_at_Append [simp]: "go_at (map_Append m k v) k = v"
  by (simp add: go_at_def)

lemma route_name: "go_at (o_Annotations (getRouteForEndpoint suffix e meta)) DevWorkspaceEndpointNameAnnotation = EndpointName (re_Name e)"
  by (simp add: getRouteForEndpoint_def routing_object_def routeAnnotations_def Let_def)

lemma ingress_name: "go_at (o_Annotations (getIngressForEndpoint suffix e meta)) DevWorkspaceEndpointNameAnnotation = re_Name e"
  by (simp add: getIngressForEndpoint_def routing_object_def nginxIngressAnnotations_def Let_def)

lemma find_map_unique:
  assumes "e \<in> set es" "\<And>e'. e' \<in> set es \<Longrightarrow> P (f e') \<longleftrightarrow> e' = e"
  shows "find P (map f es) = Some (f e)"
  using assms by (induction es) auto

lemma find_map_none: "(\<And>e'. e' \<in> set es \<Longrightarrow> \<not> P (f e')) \<Longrightarrow> find P (map f es) = None"
  by (auto simp: find_None_iff)

lemma basic_objects:
  assumes "basic_GetSpecObjects env routing meta = Inr objs"
  shows "rv_openshift env \<Longrightarrow> ro_Routes objs = getRoutesForSpec (rv_suffix env) (rg_Endpoints routing) meta \<and> ro_Ingresses objs = []"
    "\<not> rv_openshift env \<Longrightarrow> ro_Ingresses objs = getIngressesForSpec (rv_suffix env) (rg_Endpoints routing) meta \<and> ro_Routes objs = []"
  using assms by (auto simp: basic_GetSpecObjects_def no_routing_objects_def Let_def split: if_splits)

text \<open>With distinct endpoint names, the basic solver on Kubernetes reads the URL of every public endpoint from the ingress that it
  made for it: the URL on the host of that endpoint.\<close>

theorem basic_urls_on_kubernetes:
  assumes "basic_GetSpecObjects env routing meta = Inr objs" "\<not> rv_openshift env" "distinct (map re_Name (public_endpoints (rg_Endpoints routing)))"
    "e \<in> set (public_endpoints (rg_Endpoints routing))"
  shows "resolveURLForEndpoint U e objs =
    getURLForEndpoint U e (EndpointHostname (rv_suffix env) (mt_DevWorkspaceId meta) (EndpointName (re_Name e)) (re_TargetPort e)) [] False"
proof -
  let ?es = "public_endpoints (rg_Endpoints routing)"
  have "find (named_by e) (ro_Ingresses objs) = Some (getIngressForEndpoint (rv_suffix env) e meta)"
    unfolding basic_objects(2) [OF assms(1,2), THEN conjunct1] getIngressesForSpec_def
    by (rule find_map_unique [OF assms(4)]) (use assms(3,4) in \<open>auto simp: named_by_def ingress_name distinct_map inj_on_def\<close>)
  then show ?thesis
    using basic_objects(2) [OF assms(1,2)] by (simp add: resolveURLForEndpoint_def) (simp add: getIngressForEndpoint_def routing_object_def Let_def)
qed

text \<open>On OpenShift the basic solver names a route by the sanitised name of its endpoint but looks it up by the name itself: it finds
  the route of an endpoint exactly if sanitising does not change the name. An endpoint such as \<open>web--ui\<close>, which the schema allows,
  makes the whole routing fail.\<close>

theorem basic_urls_on_openshift:
  assumes "basic_GetSpecObjects env routing meta = Inr objs" "rv_openshift env" "e \<in> set (public_endpoints (rg_Endpoints routing))"
  shows "if EndpointName (re_Name e) = re_Name e then find (named_by e) (ro_Routes objs) \<noteq> None
    else \<exists>msg. resolveURLForEndpoint U e objs = Inl msg"
proof -
  let ?es = "public_endpoints (rg_Endpoints routing)"
  have "find (named_by e) (ro_Routes objs) \<noteq> None \<longleftrightarrow> (\<exists>e' \<in> set ?es. EndpointName (re_Name e') = re_Name e)"
    unfolding basic_objects(1) [OF assms(1,2), THEN conjunct1] getRoutesForSpec_def by (auto simp: find_None_iff named_by_def route_name)
  then have "EndpointName (re_Name e) = re_Name e \<longleftrightarrow> find (named_by e) (ro_Routes objs) \<noteq> None"
    using assms(3) EndpointName_idem by metis
  then show ?thesis using basic_objects(1) [OF assms(1,2)] by (simp add: resolveURLForEndpoint_def)
qed

section \<open>Synchronised objects\<close>

definition in_place :: "'q objects \<Rightarrow> 'q object \<Rightarrow> 'q object \<Rightarrow> bool" where
  "in_place cl spec obj \<longleftrightarrow> cl (obj_key_of spec) = Some obj \<and> (kind_of (o_Content spec) = PVCObj \<or> metadata_applied spec obj)"

lemma sync_all_in_sync:
  "sync_all env specs cl = (Inr (True, objs), cl') \<Longrightarrow> cl' = cl \<and> list_all2 (in_place cl) specs objs"
proof (induction specs arbitrary: objs)
  case (Cons spec specs)
  show ?case
  proof (cases "SyncObjectWithCluster env spec cl")
    case (Pair res cl1)
    show ?thesis
    proof (cases res)
      case (Inl e)
      with Pair Cons.prems show ?thesis by (cases e) (auto simp: map_sum_id_Inr split: prod.splits)
    next
      case (Inr obj)
      note one = SyncObject_Inr [OF Pair [unfolded Inr]]
      from Cons.prems Pair Inr one obtain objs' where "sync_all env specs cl = (Inr (True, objs'), cl')" "objs = obj # objs'"
        by (auto simp: map_sum_id_Inr split: prod.splits)
      with Cons.IH one show ?thesis by (auto simp: in_place_def)
    qed
  qed
qed simp

lemma syncObjects_in_sync:
  assumes "syncObjects env listed specs cl = (Inr (True, objs), cl')"
  shows "cl' = cl \<and> list_all2 (in_place cl) specs objs \<and> (\<exists>xs. listed = Inr xs \<and> o_Name ` set xs \<subseteq> o_Name ` set specs)"
proof -
  from assms obtain xs where xs: "listed = Inr xs" "getObjectsToDelete xs specs = []" and "sync_all (rv_api env) specs cl = (Inr (True, objs), cl')"
    by (auto simp: syncObjects_def Let_def map_sum_id_Inr split: sum.splits prod.splits option.splits)
  from sync_all_in_sync [OF this(3)] xs show ?thesis by (auto simp: getObjectsToDelete_def filter_empty_conv)
qed

section \<open>Ready routings\<close>

definition ready_at :: "'q objects \<Rightarrow> obj_key \<Rightarrow> bool" where
  "ready_at cl key \<longleftrightarrow>
     (case cl key of Some obj \<Rightarrow> (case o_Content obj of RoutingContent r \<Rightarrow> rg_Phase r = RoutingPhaseReady | _ \<Rightarrow> False) | None \<Rightarrow> False)"

lemma update_status_Ok:
  "update_status env inst r cl = (Ok (), cl') \<longleftrightarrow> rv_status env = None \<and> cl' = cl(obj_key_of inst \<mapsto> inst\<lparr>o_Content := RoutingContent r\<rparr>)"
  by (auto simp: update_status_def split: option.splits)

lemma ready_at_written: "ready_at (cl(key \<mapsto> inst\<lparr>o_Content := RoutingContent r\<rparr>)) key \<longleftrightarrow> rg_Phase r = RoutingPhaseReady"
  by (simp add: ready_at_def)

lemmas status_writes = markRoutingFailed_def reconcileStatus_def setStatusStopped_def with_result_def update_status_Ok ready_at_written

lemma sync_step_ready:
  assumes "sync_step env inst r msg res continue = ((result, Ok ()), cl')" "ready_at cl' (obj_key_of inst)"
  obtains objs cl1 where "res = (Inr (True, objs), cl1)" "continue objs cl1 = ((result, Ok ()), cl')"
proof (cases res)
  case (Pair out cl1)
  show thesis
  proof (cases out)
    case (Inl e)
    with Pair assms show thesis by (cases e) (auto simp: sync_step_def status_writes split: prod.splits)
  next
    case (Inr p)
    obtain inSync objs where "p = (inSync, objs)" by (cases p)
    with Pair Inr assms that show thesis by (cases inSync) (auto simp: sync_step_def status_writes split: prod.splits)
  qed
qed

text \<open>The objects that a reconcile keeps on the cluster: services, and routes or ingresses.\<close>

definition wanted :: "'q routing_env \<Rightarrow> 'q object \<Rightarrow> 'q RoutingObjects \<Rightarrow> 'q object list \<Rightarrow> 'q object list \<Rightarrow> bool" where
  "wanted env inst objs services others \<longleftrightarrow>
     prepare_objects env inst (ro_Services objs) = Inr services \<and>
     prepare_objects env inst (if rv_openshift env then ro_Routes objs else ro_Ingresses objs) = Inr others"

lemma finish_ready:
  assumes "finish_routing env solver inst r additions onCluster cl = ((result, Ok ()), cl')" "ready_at cl' (obj_key_of inst)" "\<not> ready_at cl (obj_key_of inst)"
  obtains xs where "sv_GetExposedEndpoints solver (rg_Endpoints r) onCluster = Inr (xs, True)"
    "cl' = cl(obj_key_of inst \<mapsto> inst\<lparr>o_Content := RoutingContent (r\<lparr>rg_Phase := RoutingPhaseReady, rg_Message := ''DevWorkspaceRouting prepared'',
       rg_PodAdditions := additions, rg_ExposedEndpoints := Some xs\<rparr>)\<rparr>)"
proof (cases "sv_GetExposedEndpoints solver (rg_Endpoints r) onCluster")
  case (Inl e)
  with assms show thesis by (auto simp: finish_routing_def status_writes split: prod.splits)
next
  case (Inr p)
  obtain xs ready where "p = (xs, ready)" by (cases p)
  with Inr assms that show thesis by (cases ready) (auto simp: finish_routing_def status_writes split: prod.splits if_splits)
qed

lemma expose_ready:
  assumes "expose_services env solver inst r additions ingresses routes clusterServices cl = ((result, Ok ()), cl')" "ready_at cl' (obj_key_of inst)"
  obtains clusterOthers onCluster where "list_all2 (in_place cl) (if rv_openshift env then routes else ingresses) clusterOthers"
    "finish_routing env solver inst r additions onCluster cl = ((result, Ok ()), cl')"
proof (cases "rv_openshift env")
  case True
  with assms(1) have "sync_step env inst r ''Preparing routes'' (syncRoutes env (o_Namespace inst) r routes cl) (\<lambda>clusterRoutes.
      finish_routing env solver inst r additions (no_routing_objects\<lparr>ro_Services := clusterServices, ro_Routes := clusterRoutes\<rparr>)) = ((result, Ok ()), cl')"
    by (simp add: expose_services_def)
  from sync_step_ready [OF this assms(2)] obtain objs cl1 where "syncObjects env (getClusterRoutes env (o_Namespace inst) r cl) routes cl = (Inr (True, objs), cl1)"
    "finish_routing env solver inst r additions (no_routing_objects\<lparr>ro_Services := clusterServices, ro_Routes := objs\<rparr>) cl1 = ((result, Ok ()), cl')"
    unfolding syncRoutes_def .
  with True that syncObjects_in_sync [OF this(1)] show thesis by auto
next
  case False
  with assms(1) have "sync_step env inst r ''Preparing ingresses'' (syncIngresses env (o_Namespace inst) r ingresses cl) (\<lambda>clusterIngresses.
      finish_routing env solver inst r additions (no_routing_objects\<lparr>ro_Services := clusterServices, ro_Ingresses := clusterIngresses\<rparr>)) = ((result, Ok ()), cl')"
    by (simp add: expose_services_def)
  from sync_step_ready [OF this assms(2)] obtain objs cl1 where "syncObjects env (getClusterIngresses env (o_Namespace inst) r cl) ingresses cl = (Inr (True, objs), cl1)"
    "finish_routing env solver inst r additions (no_routing_objects\<lparr>ro_Services := clusterServices, ro_Ingresses := objs\<rparr>) cl1 = ((result, Ok ()), cl')"
    unfolding syncIngresses_def .
  with False that syncObjects_in_sync [OF this(1)] show thesis by auto
qed

lemma in_place_all: "list_all2 (in_place cl) specs objs \<Longrightarrow> spec \<in> set specs \<Longrightarrow> \<exists>obj. in_place cl spec obj"
  by (auto simp: list_all2_conv_all_nth in_set_conv_nth)

lemma provision_ready:
  assumes "provision_routing env solver inst r objs cl = ((result, Ok ()), cl')" "ready_at cl' (obj_key_of inst)" "\<not> ready_at cl (obj_key_of inst)"
  obtains services others onCluster xs where "wanted env inst objs services others"
    "\<And>spec. spec \<in> set (services @ others) \<Longrightarrow> \<exists>obj. in_place cl spec obj"
    "sv_GetExposedEndpoints solver (rg_Endpoints r) onCluster = Inr (xs, True)"
    "cl' = cl(obj_key_of inst \<mapsto> inst\<lparr>o_Content := RoutingContent (r\<lparr>rg_Phase := RoutingPhaseReady, rg_Message := ''DevWorkspaceRouting prepared'',
       rg_PodAdditions := ro_PodAdditions objs, rg_ExposedEndpoints := Some xs\<rparr>)\<rparr>)"
proof -
  obtain services ingresses routes where prep: "prepare_objects env inst (ro_Services objs) = Inr services"
    "prepare_objects env inst (ro_Ingresses objs) = Inr ingresses" "prepare_objects env inst (ro_Routes objs) = Inr routes"
    and run: "sync_step env inst r ''Preparing services'' (syncServices env (o_Namespace inst) r services cl)
      (expose_services env solver inst r (ro_PodAdditions objs) ingresses routes) = ((result, Ok ()), cl')"
    using assms(1) by (auto simp: provision_routing_def split: sum.splits)
  from sync_step_ready [OF run assms(2)] obtain clusterServices cl1 where
    svc: "syncObjects env (getClusterServices env (o_Namespace inst) r cl) services cl = (Inr (True, clusterServices), cl1)"
    and rest: "expose_services env solver inst r (ro_PodAdditions objs) ingresses routes clusterServices cl1 = ((result, Ok ()), cl')"
    unfolding syncServices_def .
  from syncObjects_in_sync [OF svc] have s: "cl1 = cl" "list_all2 (in_place cl) services clusterServices" by auto
  from expose_ready [OF rest [unfolded s(1)] assms(2)] obtain clusterOthers onCluster where
    o: "list_all2 (in_place cl) (if rv_openshift env then routes else ingresses) clusterOthers"
    and fin: "finish_routing env solver inst r (ro_PodAdditions objs) onCluster cl = ((result, Ok ()), cl')" .
  have w: "wanted env inst objs services (if rv_openshift env then routes else ingresses)" using prep by (simp add: wanted_def)
  from finish_ready [OF fin assms(2,3)] obtain xs where xs: "sv_GetExposedEndpoints solver (rg_Endpoints r) onCluster = Inr (xs, True)"
    "cl' = cl(obj_key_of inst \<mapsto> inst\<lparr>o_Content := RoutingContent (r\<lparr>rg_Phase := RoutingPhaseReady, rg_Message := ''DevWorkspaceRouting prepared'',
       rg_PodAdditions := ro_PodAdditions objs, rg_ExposedEndpoints := Some xs\<rparr>)\<rparr>)" .
  show thesis by (rule that [OF w _ xs]) (use in_place_all [OF s(2)] in_place_all [OF o] in auto)
qed

section \<open>What a solver promises\<close>

definition exposed_ok :: "endpoints \<Rightarrow> exposed \<Rightarrow> bool" where
  "exposed_ok endpoints xs \<longleftrightarrow>
     (\<forall>x \<in> set (concat (map snd xs)). \<exists>e \<in> set (all_endpoints endpoints). re_Name e = xe_Name x \<and> re_Exposure e \<noteq> NoneEndpointExposure)"

locale routing_solver =
  fixes solver :: "'q RoutingSolver"
  assumes no_finalizer: "\<not> sv_FinalizerRequired solver inst"
    and exposes_public: "sv_GetExposedEndpoints solver endpoints objs = Inr (xs, ready) \<Longrightarrow> exposed_ok endpoints xs"
    and ready_urls: "sv_GetExposedEndpoints solver endpoints objs = Inr (xs, True) \<Longrightarrow> x \<in> set (concat (map snd xs)) \<Longrightarrow> xe_Url x \<noteq> []"
begin

lemma live_ready:
  assumes "route_live env solver inst r cl = ((result, Ok ()), cl')" "ready_at cl' (obj_key_of inst)" "\<not> ready_at cl (obj_key_of inst)"
  shows "\<exists>objs services others xs r'.
    sv_GetSpecObjects solver r \<lparr>mt_DevWorkspaceId = rg_DevWorkspaceId r, mt_Namespace = o_Namespace inst, mt_PodSelector = rg_PodSelector r\<rparr> = Inr objs \<and>
    wanted env inst objs services others \<and> (\<forall>spec \<in> set (services @ others). \<exists>obj. in_place cl spec obj) \<and>
    cl' = cl(obj_key_of inst \<mapsto> inst\<lparr>o_Content := RoutingContent r'\<rparr>) \<and> rg_ExposedEndpoints r' = Some xs \<and>
    exposed_ok (rg_Endpoints r) xs \<and> (\<forall>x \<in> set (concat (map snd xs)). xe_Url x \<noteq> [])"
proof -
  let ?meta = "\<lparr>mt_DevWorkspaceId = rg_DevWorkspaceId r, mt_Namespace = o_Namespace inst, mt_PodSelector = rg_PodSelector r\<rparr>"
  have "setFinalizer env solver inst r cl = (Ok (), r, cl)" by (simp add: setFinalizer_def no_finalizer)
  note live = assms(1) [unfolded route_live_def this prod.case go_result.case unit.case]
  obtain objs where objs: "sv_GetSpecObjects solver r ?meta = Inr objs" and run: "provision_routing env solver inst r objs cl = ((result, Ok ()), cl')"
  proof (cases "sv_GetSpecObjects solver r ?meta")
    case (Inl e)
    with live assms(2) that show thesis by (cases e) (auto simp: status_writes split: prod.splits)
  next
    case (Inr objs)
    with live that show thesis by simp
  qed
  from provision_ready [OF run assms(2,3)] obtain services others onCluster xs where w: "wanted env inst objs services others"
    "\<And>spec. spec \<in> set (services @ others) \<Longrightarrow> \<exists>obj. in_place cl spec obj"
    and xs: "sv_GetExposedEndpoints solver (rg_Endpoints r) onCluster = Inr (xs, True)"
    and cl': "cl' = cl(obj_key_of inst \<mapsto> inst\<lparr>o_Content := RoutingContent (r\<lparr>rg_Phase := RoutingPhaseReady, rg_Message := ''DevWorkspaceRouting prepared'',
       rg_PodAdditions := ro_PodAdditions objs, rg_ExposedEndpoints := Some xs\<rparr>)\<rparr>)" by blast
  have "\<forall>spec \<in> set (services @ others). \<exists>obj. in_place cl spec obj" "\<forall>x \<in> set (concat (map snd xs)). xe_Url x \<noteq> []"
    using w(2) ready_urls [OF xs] by blast+
  then show ?thesis by (intro exI conjI) (rule objs w(1) cl' exposes_public [OF xs] | assumption | simp)+
qed

end

lemma expose_machine_ok:
  "expose_machine p url es = Inr xs \<Longrightarrow> x \<in> set xs \<Longrightarrow> \<exists>e \<in> set es. re_Name e = xe_Name x \<and> p e \<and> url e = Inr (xe_Url x)"
proof (induction es arbitrary: xs)
  case (Cons e es)
  then show ?case by (auto simp: map_sum_id_Inr split: if_splits sum.splits)
qed simp

lemma expose_all_ok:
  "expose_all p url endpoints = Inr xs \<Longrightarrow> x \<in> set (concat (map snd xs)) \<Longrightarrow>
   \<exists>e \<in> set (all_endpoints endpoints). re_Name e = xe_Name x \<and> p e \<and> url e = Inr (xe_Url x)"
proof (induction endpoints arbitrary: xs)
  case (Cons m endpoints)
  obtain name es where m: "m = (name, es)" by (cases m)
  with Cons.prems obtain ys zs where ys: "expose_machine p url es = Inr ys" and zs: "expose_all p url endpoints = Inr zs"
    and xs: "xs = (if ys = [] then zs else (name, ys) # zs)"
    by (auto simp: map_sum_id_Inr split: sum.splits)
  from xs Cons.prems(2) have "x \<in> set ys \<or> x \<in> set (concat (map snd zs))" by (auto split: if_splits)
  then show ?case
  proof
    assume "x \<in> set ys"
    with expose_machine_ok [OF ys] obtain e where "e \<in> set es" "re_Name e = xe_Name x \<and> p e \<and> url e = Inr (xe_Url x)" by blast
    then show ?thesis by (intro bexI [of _ e]) (auto simp: m)
  next
    assume "x \<in> set (concat (map snd zs))"
    from Cons.IH [OF zs this] obtain e where "e \<in> set (all_endpoints endpoints)" "re_Name e = xe_Name x \<and> p e \<and> url e = Inr (xe_Url x)" by blast
    then show ?thesis by (intro bexI [of _ e]) auto
  qed
qed simp

interpretation basic: routing_solver "BasicSolver env" for env :: "'q routing_env"
proof
  fix endpoints :: endpoints and objs :: "'q RoutingObjects" and xs ready x
  have none: "PublicEndpointExposure \<noteq> NoneEndpointExposure" by (simp add: PublicEndpointExposure_def NoneEndpointExposure_def)
  show "\<not> sv_FinalizerRequired (BasicSolver env) inst" for inst by (simp add: BasicSolver_def)
  show "exposed_ok endpoints xs" if "sv_GetExposedEndpoints (BasicSolver env) endpoints objs = Inr (xs, ready)"
    using that none by (fastforce simp: BasicSolver_def getExposedEndpoints_def exposed_ok_def map_sum_id_Inr dest: expose_all_ok)
  show "xe_Url x \<noteq> []" if "sv_GetExposedEndpoints (BasicSolver env) endpoints objs = Inr (xs, True)" "x \<in> set (concat (map snd xs))"
    using that by (fastforce simp: BasicSolver_def getExposedEndpoints_def map_sum_id_Inr list_all_iff split: prod.splits)
qed

lemma service_url: "resolveServiceHostnameForEndpoint e services = Inr url \<Longrightarrow> url \<noteq> []"
  by (auto simp: resolveServiceHostnameForEndpoint_def getHostnameFromService_def split: list.splits)

interpretation cluster: routing_solver "ClusterSolver env tls" for env :: "'q routing_env" and tls
proof
  fix endpoints :: endpoints and objs :: "'q RoutingObjects" and xs ready x
  show "\<not> sv_FinalizerRequired (ClusterSolver env tls) inst" for inst by (simp add: ClusterSolver_def)
  show "exposed_ok endpoints xs" if "sv_GetExposedEndpoints (ClusterSolver env tls) endpoints objs = Inr (xs, ready)"
    using that by (fastforce simp: ClusterSolver_def cluster_GetExposedEndpoints_def exposed_ok_def map_sum_id_Inr dest: expose_all_ok)
  show "xe_Url x \<noteq> []" if "sv_GetExposedEndpoints (ClusterSolver env tls) endpoints objs = Inr (xs, True)" "x \<in> set (concat (map snd xs))"
  proof -
    from that(1) have "expose_all (\<lambda>e. re_Exposure e \<noteq> NoneEndpointExposure) (\<lambda>e. resolveServiceHostnameForEndpoint e (ro_Services objs)) endpoints = Inr xs"
      by (auto simp: ClusterSolver_def cluster_GetExposedEndpoints_def map_sum_id_Inr)
    from expose_all_ok [OF this that(2)] show ?thesis by (auto dest: service_url)
  qed
qed

lemma GetSolver_contract: "GetSolver env class = Inr solver \<Longrightarrow> routing_solver solver"
  using basic.routing_solver_axioms cluster.routing_solver_axioms by (auto simp: GetSolver_def split: if_splits)

text \<open>(C38) A routing becomes ready only in a reconcile in which all its services and its routes or ingresses are on the cluster with their
  labels, annotations and owners, that writes nothing but the status, and in which every exposed endpoint has a URL and is an endpoint of
  the routing that is not private.\<close>

theorem routing_ready_provisioned:
  assumes "routing_Reconcile env (GetSolver env) key cl = ((result, Ok ()), cl')" "ready_at cl' key" "\<not> ready_at cl key"
    "cl key = Some inst" "o_Content inst = RoutingContent r" "obj_key_of inst = key" "\<not> o_Terminating inst"
  shows "\<exists>solver. GetSolver env (rg_RoutingClass r) = Inr solver \<and> (\<exists>objs services others xs r'.
    sv_GetSpecObjects solver r \<lparr>mt_DevWorkspaceId = rg_DevWorkspaceId r, mt_Namespace = o_Namespace inst, mt_PodSelector = rg_PodSelector r\<rparr> = Inr objs \<and>
    wanted env inst objs services others \<and> (\<forall>spec \<in> set (services @ others). \<exists>obj. in_place cl spec obj) \<and>
    cl' = cl(key \<mapsto> inst\<lparr>o_Content := RoutingContent r'\<rparr>) \<and> rg_ExposedEndpoints r' = Some xs \<and>
    exposed_ok (rg_Endpoints r) xs \<and> (\<forall>x \<in> set (concat (map snd xs)). xe_Url x \<noteq> []))"
proof -
  have unchanged: "cl' \<noteq> cl" using assms(2,3) by auto
  have get: "client_Get (rv_api env) key cl = Inr inst"
  proof (cases "client_Get (rv_api env) key cl")
    case (Inl e)
    with assms(1) unchanged show ?thesis by (cases e) (auto simp: routing_Reconcile_def)
  qed (use assms(4) in \<open>auto simp: client_Get_Inr\<close>)
  obtain solver where solver: "GetSolver env (rg_RoutingClass r) = Inr solver"
  proof (cases "GetSolver env (rg_RoutingClass r)")
    case (Inl e)
    with assms get unchanged show ?thesis by (cases e) (auto simp: routing_Reconcile_def status_writes split: if_splits prod.splits)
  qed (use that in auto)
  have live: "route_live env solver inst r cl = ((result, Ok ()), cl')"
    using assms get solver unchanged by (auto simp: routing_Reconcile_def status_writes split: if_splits prod.splits)
  show ?thesis
    using routing_solver.live_ready [OF GetSolver_contract [OF solver] live, unfolded assms(6), OF assms(2,3)] solver by (intro exI [of _ solver] conjI)
qed

section \<open>Finalizers\<close>

text \<open>Removing from a list without duplicates, though the loop changes the array that it reads: what follows the removed entry is read
  one position later, and the last entry a second time.\<close>

lemma remove_from_absent: "(\<And>i. i \<in> set is \<Longrightarrow> arr ! i \<noteq> s) \<Longrightarrow> remove_from is s arr n = Ok (take n arr)"
  by (induction "is") auto

lemma remove_string_distinct:
  assumes "distinct xs"
  shows "remove_string xs s = Ok (remove1 s xs)"
proof (cases "s \<in> set xs")
  case False
  then have "remove_string xs s = Ok (take (length xs) xs)"
    unfolding remove_string_def by (intro remove_from_absent) (auto simp: in_set_conv_nth)
  with False show ?thesis by (simp add: remove1_idem)
next
  case True
  then obtain as bs where xs: "xs = as @ s # bs" "s \<notin> set as" by (meson split_list_first)
  with assms have bs: "s \<notin> set bs" by simp
  let ?arr = "as @ bs @ drop (length as + length bs) xs"
  have idx: "[0..<length xs] = [0..<length as] @ length as # [Suc (length as)..<length xs]"
  proof -
    have "[0..<length as + Suc (length bs)] = [0..<length as] @ [length as..<length as + Suc (length bs)]" by (rule upt_add_eq_append) simp
    also have "[length as..<length as + Suc (length bs)] = length as # [Suc (length as)..<length as + Suc (length bs)]" by (rule upt_conv_Cons) simp
    finally show ?thesis by (simp add: xs(1))
  qed
  have before: "remove_from (is @ rest) s xs n = remove_from rest s xs n" if "\<And>i. i \<in> set is \<Longrightarrow> xs ! i \<noteq> s" for "is" rest n
    using that by (induction "is") auto
  have "xs ! i \<noteq> s" if "i \<in> set [0..<length as]" for i
    using that xs by (auto simp: nth_append in_set_conv_nth)
  then have "remove_string xs s = remove_from (length as # [Suc (length as)..<length xs]) s xs (length xs)"
    unfolding remove_string_def idx by (rule before)
  also have "\<dots> = remove_from [Suc (length as)..<length xs] s ?arr (length xs - 1)"
    by (simp add: xs(1) nth_append)
  also have "\<dots> = Ok (take (length xs - 1) ?arr)"
  proof (rule remove_from_absent)
    fix i assume i: "i \<in> set [Suc (length as)..<length xs]"
    show "?arr ! i \<noteq> s"
    proof (cases "i < length as + length bs")
      case True
      with i have "?arr ! i = bs ! (i - length as)" "i - length as < length bs" by (auto simp: nth_append)
      with bs show ?thesis by (metis nth_mem)
    next
      case False
      with i have "i = length as + length bs" "bs \<noteq> []" by (auto simp: xs(1))
      then have "?arr ! i = last bs" by (simp add: xs(1) nth_append last_conv_nth drop_Cons' split: if_splits)
      with bs \<open>bs \<noteq> []\<close> show ?thesis by auto
    qed
  qed
  also have "take (length xs - 1) ?arr = remove1 s xs" using xs(2) by (simp add: xs(1) remove1_append)
  finally show ?thesis .
qed

text \<open>Deleting a routing with a finalizer: the solver finalizes it, then the finalizer alone is removed, and no other finalizer is lost.\<close>

theorem routing_finalized:
  assumes "routing_finalize env solver inst r cl = (Ok (), cl')" "devWorkspaceRoutingFinalizer \<in> set (rg_Finalizers r)" "distinct (rg_Finalizers r)"
  shows "sv_Finalize solver inst = None \<and>
    client_Update (rv_api env) (inst\<lparr>o_Content := RoutingContent (r\<lparr>rg_Finalizers := remove1 devWorkspaceRoutingFinalizer (rg_Finalizers r)\<rparr>)\<rparr>) cl = (None, cl')"
  using assms by (auto simp: routing_finalize_def remove_string_distinct update_routing_def split: option.splits prod.splits)

section \<open>Witnesses\<close>

definition some_endpoint :: "string \<Rightarrow> RoutingEndpoint" where
  "some_endpoint name = \<lparr>re_Name = name, re_TargetPort = 8080, re_Exposure = PublicEndpointExposure, re_Protocol = ''http'', re_Secure = False,
     re_Path = [], re_Attributes = [], re_Annotations = None\<rparr>"

definition some_routing :: "string \<Rightarrow> int Routing" where
  "some_routing name = \<lparr>rg_Finalizers = [devWorkspaceRoutingFinalizer], rg_DevWorkspaceId = ''w1'', rg_RoutingClass = ''basic'',
     rg_Endpoints = [(''tools'', [some_endpoint name])], rg_PodSelector = Some [(DevWorkspaceIDLabel, ''w1'')], rg_PodAdditions = None,
     rg_ExposedEndpoints = None, rg_Phase = RoutingPhasePreparing, rg_Message = []\<rparr>"

definition some_meta :: DevWorkspaceMetadata where
  "some_meta = \<lparr>mt_DevWorkspaceId = ''w1'', mt_Namespace = ''ns'', mt_PodSelector = Some [(DevWorkspaceIDLabel, ''w1'')]\<rparr>"

definition some_urls :: url_lib where
  "some_urls = \<lparr>ul_Parse = (\<lambda>s. Inr \<lparr>url_Base = Opaque s, url_Path = [], url_RawQuery = [], url_Fragment = []\<rparr>),
     ul_ParseIn = (\<lambda>u p. Inr (u\<lparr>url_Path := p\<rparr>)), ul_String = (\<lambda>u. (case url_Base u of Opaque s \<Rightarrow> s) @ url_Path u)\<rparr>"

definition some_routing_env :: "bool \<Rightarrow> int routing_env" where
  "some_routing_env openshift = \<lparr>rv_api = plain_server, rv_list = (\<lambda>_ _ _ _. Inr []),
     rv_json = \<lparr>jl_decode = (\<lambda>_. Inr JNull), jl_ParseFloat = (\<lambda>_. Inl [])\<rparr>, rv_url = some_urls, rv_openshift = openshift, rv_suffix = ''example.com'',
     rv_owner = (\<lambda>_ _. Inr \<lparr>or_Kind = ''DevWorkspaceRouting'', or_Name = ''routing-w1'', or_UID = ''1'', or_Controller = Some True\<rparr>), rv_status = None\<rparr>"

text \<open>A routing of the class \<open>cluster\<close>, on the cluster with its service.\<close>

definition cluster_routing :: "int Routing" where
  "cluster_routing = some_routing ''web''\<lparr>rg_RoutingClass := ''cluster''\<rparr>"

definition some_instance :: "int object" where
  "some_instance = routing_object ''routing-w1'' None (RoutingContent cluster_routing) some_meta"

definition some_service :: "int object" where
  "some_service = routing_object ''w1-service'' None (ServiceContent (service_with some_meta [endpoint_port (some_endpoint ''web'')])) some_meta"

definition owned :: "int object \<Rightarrow> int object" where
  "owned obj = obj\<lparr>o_OwnerReferences := [\<lparr>or_Kind = ''DevWorkspaceRouting'', or_Name = ''routing-w1'', or_UID = ''1'', or_Controller = Some True\<rparr>]\<rparr>"

definition routed_cluster :: "int objects" where
  "routed_cluster = Map.empty(obj_key_of some_instance \<mapsto> some_instance, obj_key_of some_service \<mapsto> owned some_service)"

lemma some_keys: "obj_key_of some_instance = (RoutingObj, ''ns'', ''routing-w1'')" "obj_key_of some_service = (ServiceObj, ''ns'', ''w1-service'')"
  "obj_key_of (owned some_service) = (ServiceObj, ''ns'', ''w1-service'')" "o_Content (owned some_service) = o_Content some_service"
  "kind_of (o_Content some_service) = ServiceObj"
  by (simp_all add: some_instance_def some_service_def owned_def obj_key_of_def routing_object_def some_meta_def)

lemma some_service_in_sync: "SyncObjectWithCluster plain_server (owned some_service) routed_cluster = (Inr (owned some_service), routed_cluster)"
proof -
  have "client_Get plain_server (ServiceObj, ''ns'', ''w1-service'') routed_cluster = Inr (owned some_service)"
    by (simp add: client_Get_Inr plain_server_def routed_cluster_def some_keys)
  moreover have "serviceDiffFunc (owned some_service) (owned some_service) = (False, False)"
    by (simp add: some_keys) (simp add: some_service_def routing_object_def service_with_def go_map_eq_def list_all_iff)
  moreover have "metadataDiffFunc (owned some_service) (owned some_service) = (False, False)"
    by (simp add: metadataDiffFunc_iff metadata_applied_def containsOwnerRef_def) (simp add: owned_def some_service_def routing_object_def go_at_def go_get_Some)
  ultimately show ?thesis
    by (simp add: SyncObjectWithCluster_def some_keys isMutableObject_def allDiffFuncs_def del: serviceDiffFunc.simps)
qed

lemma some_spec: "cluster_GetSpecObjects (some_routing_env False) False cluster_routing some_meta =
  Inr (no_routing_objects\<lparr>ro_Services := [some_service], ro_PodAdditions := Some empty_pod_additions\<rparr>)"
  by (simp add: cluster_GetSpecObjects_def getServicesForEndpoints_def GetServiceForEndpoints_def cluster_routing_def some_routing_def some_endpoint_def
      some_service_def ServiceName_def some_meta_def)

lemma some_port: "format_int 8080 = ''8080''"
  by (simp add: format_int_def format_nat.simps digit_char_def) code_simp

lemma some_exposed: "cluster_GetExposedEndpoints (rg_Endpoints cluster_routing) (no_routing_objects\<lparr>ro_Services := [owned some_service], ro_Ingresses := []\<rparr>) =
  Inr ([(''tools'', [\<lparr>xe_Name = ''web'', xe_Url = ''http://w1-service.ns.svc:8080'', xe_Attributes = []\<rparr>])], True)"
  by (simp add: cluster_GetExposedEndpoints_def cluster_routing_def some_routing_def some_endpoint_def NoneEndpointExposure_def PublicEndpointExposure_def
      resolveServiceHostnameForEndpoint_def service_ports_def some_keys)
    (simp add: some_service_def owned_def routing_object_def service_with_def endpoint_port_def some_endpoint_def go_at_def
      DevWorkspaceDiscoverableServiceAnnotation_def getHostnameFromService_def some_meta_def int32_def some_port)

lemma some_prepared: "prepare_objects (some_routing_env False) some_instance [some_service] = Inr [owned some_service]"
  by (simp add: some_routing_env_def) (simp add: some_instance_def some_service_def routing_object_def owned_def)

lemma some_synced: "syncServices (some_routing_env False) ''ns'' cluster_routing [owned some_service] routed_cluster = (Inr (True, [owned some_service]), routed_cluster)"
  "syncIngresses (some_routing_env False) ''ns'' cluster_routing [] routed_cluster = (Inr (True, []), routed_cluster)"
  by (simp_all add: syncServices_def syncIngresses_def syncObjects_def getClusterServices_def getClusterIngresses_def getObjectsToDelete_def
      some_routing_env_def some_service_in_sync)

lemma some_run: "routing_Reconcile (some_routing_env False) (GetSolver (some_routing_env False)) (obj_key_of some_instance) routed_cluster =
  ((no_result, Ok ()), routed_cluster(obj_key_of some_instance \<mapsto> some_instance\<lparr>o_Content := RoutingContent (cluster_routing\<lparr>rg_Phase := RoutingPhaseReady,
     rg_Message := ''DevWorkspaceRouting prepared'', rg_PodAdditions := Some empty_pod_additions,
     rg_ExposedEndpoints := Some [(''tools'', [\<lparr>xe_Name = ''web'', xe_Url = ''http://w1-service.ns.svc:8080'', xe_Attributes = []\<rparr>])]\<rparr>)\<rparr>))"
proof -
  let ?env = "some_routing_env False"
  have env: "rv_api ?env = plain_server" "rv_openshift ?env = False" "rv_status ?env = None" by (simp_all add: some_routing_env_def)
  have get: "client_Get plain_server (obj_key_of some_instance) routed_cluster = Inr some_instance"
    by (simp add: client_Get_Inr plain_server_def routed_cluster_def some_keys)
  have inst: "o_Content some_instance = RoutingContent cluster_routing" "\<not> o_Terminating some_instance" "o_Annotations some_instance = None"
    "o_Namespace some_instance = ''ns''"
    by (simp_all add: some_instance_def routing_object_def some_meta_def)
  have r: "rg_RoutingClass cluster_routing = ''cluster''" "rg_Phase cluster_routing = RoutingPhasePreparing"
    "devWorkspaceRoutingFinalizer \<in> set (rg_Finalizers cluster_routing)" "rg_DevWorkspaceId cluster_routing = ''w1''"
    "rg_PodSelector cluster_routing = Some [(DevWorkspaceIDLabel, ''w1'')]"
    by (simp_all add: cluster_routing_def some_routing_def)
  have solver: "GetSolver ?env ''cluster'' = Inr (ClusterSolver ?env False)" by (simp add: GetSolver_def)
  have prov: "provision_routing ?env (ClusterSolver ?env False) some_instance cluster_routing
      (no_routing_objects\<lparr>ro_Services := [some_service], ro_PodAdditions := Some empty_pod_additions\<rparr>) routed_cluster =
    ((no_result, Ok ()), routed_cluster(obj_key_of some_instance \<mapsto> some_instance\<lparr>o_Content := RoutingContent (cluster_routing\<lparr>rg_Phase := RoutingPhaseReady,
     rg_Message := ''DevWorkspaceRouting prepared'', rg_PodAdditions := Some empty_pod_additions,
     rg_ExposedEndpoints := Some [(''tools'', [\<lparr>xe_Name = ''web'', xe_Url = ''http://w1-service.ns.svc:8080'', xe_Attributes = []\<rparr>])]\<rparr>)\<rparr>))"
    by (simp add: provision_routing_def some_prepared no_routing_objects_def sync_step_def some_synced inst
      del: prepare_objects.simps(2))
      (simp add: expose_services_def env inst some_synced sync_step_def finish_routing_def ClusterSolver_def some_exposed reconcileStatus_def r update_status_def
        with_result_def)
  have fin: "setFinalizer ?env (ClusterSolver ?env False) some_instance cluster_routing routed_cluster = (Ok (), cluster_routing, routed_cluster)"
    using r(3) by (simp add: setFinalizer_def)
  have spec: "sv_GetSpecObjects (ClusterSolver ?env False) cluster_routing some_meta =
    Inr (no_routing_objects\<lparr>ro_Services := [some_service], ro_PodAdditions := Some empty_pod_additions\<rparr>)"
    by (simp add: ClusterSolver_def some_spec)
  have "route_live ?env (ClusterSolver ?env False) some_instance cluster_routing routed_cluster =
    ((no_result, Ok ()), routed_cluster(obj_key_of some_instance \<mapsto> some_instance\<lparr>o_Content := RoutingContent (cluster_routing\<lparr>rg_Phase := RoutingPhaseReady,
     rg_Message := ''DevWorkspaceRouting prepared'', rg_PodAdditions := Some empty_pod_additions,
     rg_ExposedEndpoints := Some [(''tools'', [\<lparr>xe_Name = ''web'', xe_Url = ''http://w1-service.ns.svc:8080'', xe_Attributes = []\<rparr>])]\<rparr>)\<rparr>))"
    by (simp add: route_live_def fin r inst flip: some_meta_def) (simp add: spec prov)
  then show ?thesis
    by (simp add: routing_Reconcile_def env get inst r solver go_at_def)
qed

theorem routing_ready_provisioned_witness:
  "\<exists>solver objs services others. GetSolver (some_routing_env False) ''cluster'' = Inr solver \<and>
     sv_GetSpecObjects solver cluster_routing some_meta = Inr objs \<and> wanted (some_routing_env False) some_instance objs services others"
proof -
  let ?key = "obj_key_of some_instance"
  have i: "routed_cluster ?key = Some some_instance" "o_Content some_instance = RoutingContent cluster_routing" "\<not> o_Terminating some_instance"
    by (simp add: routed_cluster_def some_keys) (simp_all add: some_instance_def routing_object_def)
  have "\<not> ready_at routed_cluster ?key"
    by (simp add: ready_at_def i) (simp add: cluster_routing_def some_routing_def)
  moreover have m: "rg_RoutingClass cluster_routing = ''cluster''"
    "\<lparr>mt_DevWorkspaceId = rg_DevWorkspaceId cluster_routing, mt_Namespace = o_Namespace some_instance, mt_PodSelector = rg_PodSelector cluster_routing\<rparr> = some_meta"
    by (simp_all add: cluster_routing_def some_routing_def some_meta_def some_instance_def routing_object_def)
  ultimately show ?thesis
    using routing_ready_provisioned [OF some_run _ _ i(1,2) refl i(3), unfolded m] by (simp add: ready_at_written) blast
qed

theorem service_ports_exact_witness:
  "\<exists>service. getServicesForEndpoints (rv_json (some_routing_env False)) (rg_Endpoints cluster_routing) some_meta = [service] \<and>
     set (map spt_Port (service_ports (service :: int object))) = {8080}"
proof -
  have e: "all_endpoints (rg_Endpoints cluster_routing) = [some_endpoint ''web'']" by (simp add: cluster_routing_def some_routing_def)
  have "service_exposure (some_endpoint ''web'')" "re_TargetPort (some_endpoint ''web'') = 8080" by (simp_all add: some_endpoint_def)
  then show ?thesis
    using service_ports_exact [of "rg_Endpoints cluster_routing" some_meta "rv_json (some_routing_env False)", where 'a = int, unfolded e]
    by (simp split: list.splits) (auto simp: Collect_conv_if)
qed

lemma some_objects: "\<exists>objs. basic_GetSpecObjects (some_routing_env os) (some_routing name) some_meta = Inr objs"
  by (simp add: basic_GetSpecObjects_def some_routing_def some_routing_env_def Let_def)

lemma some_public: "public_endpoints (rg_Endpoints (some_routing name)) = [some_endpoint name]"
  by (simp add: public_endpoints_def some_routing_def some_endpoint_def)

theorem basic_urls_on_kubernetes_witness:
  "\<exists>objs. basic_GetSpecObjects (some_routing_env False) (some_routing ''web'') some_meta = Inr objs \<and>
     resolveURLForEndpoint some_urls (some_endpoint ''web'') objs =
       getURLForEndpoint some_urls (some_endpoint ''web'') (EndpointHostname ''example.com'' ''w1'' (EndpointName ''web'') 8080) [] False"
proof -
  obtain objs where o: "basic_GetSpecObjects (some_routing_env False) (some_routing ''web'') some_meta = Inr objs" using some_objects by blast
  have "\<not> rv_openshift (some_routing_env False)" "rv_suffix (some_routing_env False) = ''example.com''" "mt_DevWorkspaceId some_meta = ''w1''"
    "re_Name (some_endpoint ''web'') = ''web''" "re_TargetPort (some_endpoint ''web'') = 8080"
    by (simp_all add: some_routing_env_def some_meta_def some_endpoint_def)
  with basic_urls_on_kubernetes [OF o, of "some_endpoint ''web''" some_urls] o show ?thesis by (simp add: some_public)
qed

theorem basic_urls_on_openshift_witness:
  "\<exists>objs msg. basic_GetSpecObjects (some_routing_env True) (some_routing ''web--ui'') some_meta = Inr objs \<and>
     resolveURLForEndpoint some_urls (some_endpoint ''web--ui'') objs = Inl msg"
proof -
  obtain objs where o: "basic_GetSpecObjects (some_routing_env True) (some_routing ''web--ui'') some_meta = Inr objs" using some_objects by blast
  have "EndpointName ''web--ui'' \<noteq> ''web--ui''" by code_simp
  then have n: "EndpointName (re_Name (some_endpoint ''web--ui'')) \<noteq> re_Name (some_endpoint ''web--ui'')" by (simp add: some_endpoint_def)
  have "rv_openshift (some_routing_env True)" "some_endpoint ''web--ui'' \<in> set (public_endpoints (rg_Endpoints (some_routing ''web--ui'')))"
    by (simp_all add: some_routing_env_def some_public)
  from basic_urls_on_openshift [OF o this, of some_urls] n o show ?thesis by auto
qed

theorem routing_finalized_witness:
  "client_Update plain_server (some_instance\<lparr>o_Content := RoutingContent (cluster_routing\<lparr>rg_Finalizers := []\<rparr>)\<rparr>) routed_cluster =
     (None, snd (routing_finalize (some_routing_env False) (ClusterSolver (some_routing_env False) False) some_instance cluster_routing routed_cluster))"
proof -
  let ?run = "routing_finalize (some_routing_env False) (ClusterSolver (some_routing_env False) False) some_instance cluster_routing routed_cluster"
  have f: "rg_Finalizers cluster_routing = [devWorkspaceRoutingFinalizer]" by (simp add: cluster_routing_def some_routing_def)
  have "fst ?run = Ok ()"
    by (simp add: routing_finalize_def f remove_string_def ClusterSolver_def update_routing_def)
      (simp add: some_routing_env_def client_Update_def plain_server_def some_instance_def routed_cluster_def obj_key_of_def routing_object_def)
  then have run: "?run = (Ok (), snd ?run)" by (simp add: prod_eq_iff)
  from routing_finalized [OF run] f show ?thesis by (simp add: some_routing_env_def)
qed

end
