(* ===== verification/Storage_Mounts.thy ===== *)
theory Storage_Mounts
  imports Storage Sync_Convergence
begin

text \<open>
  What the storage strategies guarantee: containers keep everything but the volumes they mount, every mount names a volume of the pod, workspaces on a shared claim use
  separate directories, and the claim is not deleted while another workspace uses it. Two theorems show where the code falls short:
  a per-workspace claim of size zero, and data that is not removed from the claim of Che.
\<close>

section \<open>Redirected mounts\<close>

definition redirected :: "(string \<Rightarrow> string) \<Rightarrow> string \<Rightarrow> (string \<times> VolumeComponent) list \<Rightarrow> string list \<Rightarrow> VolumeMount \<Rightarrow> VolumeMount \<Rightarrow> bool" where
  "redirected subPath pvc dv av vm vm' \<longleftrightarrow>
     (case map_of dv (vm_Name vm) of
        None \<Rightarrow> vm_Name vm \<in> set av \<and> vm' = vm
      | Some v \<Rightarrow> vm' = (if isEphemeral v then vm else vm\<lparr>vm_SubPath := subPath (vm_Name vm), vm_Name := pvc\<rparr>))"

lemma redirected_cases:
  "map_of dv (vm_Name vm) = None \<Longrightarrow> redirected subPath pvc dv av vm vm' \<longleftrightarrow> vm_Name vm \<in> set av \<and> vm' = vm"
  "map_of dv (vm_Name vm) = Some v \<Longrightarrow> redirected subPath pvc dv av vm vm' \<longleftrightarrow>
     vm' = (if isEphemeral v then vm else vm\<lparr>vm_SubPath := subPath (vm_Name vm), vm_Name := pvc\<rparr>)"
  by (simp_all add: redirected_def)

lemma rewriteMounts_Inr: "rewriteMounts subPath pvc dv av c vms = Inr vms' \<Longrightarrow> list_all2 (redirected subPath pvc dv av) vms vms'"
proof (induction vms arbitrary: vms')
  case (Cons vm vms)
  then show ?case
    by (cases "map_of dv (vm_Name vm)") (auto simp: map_sum_id_Inr redirected_cases split: if_splits)
qed simp

text \<open>The container with other mounts, which only name another volume and directory.\<close>

definition remounted :: "'q Container \<Rightarrow> 'q Container \<Rightarrow> bool" where
  "remounted c c' \<longleftrightarrow> (\<exists>vms. c' = c\<lparr>c_VolumeMounts := vms\<rparr> \<and>
     list_all2 (\<lambda>vm vm'. \<exists>n s. vm' = vm\<lparr>vm_SubPath := s, vm_Name := n\<rparr>) (c_VolumeMounts c) vms)"

lemma mount_same: "\<exists>n s. vm = vm\<lparr>vm_SubPath := s, vm_Name := n\<rparr>" for vm :: VolumeMount
proof (intro exI)
  show "vm = vm\<lparr>vm_SubPath := vm_SubPath vm, vm_Name := vm_Name vm\<rparr>" by simp
qed

lemma remounted_refl [simp]: "remounted c c"
  unfolding remounted_def
proof (intro exI conjI)
  show "c = c\<lparr>c_VolumeMounts := c_VolumeMounts c\<rparr>" by simp
  show "list_all2 (\<lambda>vm vm'. \<exists>n s. vm' = vm\<lparr>vm_SubPath := s, vm_Name := n\<rparr>) (c_VolumeMounts c) (c_VolumeMounts c)"
    by (rule list.rel_refl) (rule mount_same)
qed

lemma redirected_remounts: "redirected subPath pvc dv av vm vm' \<Longrightarrow> \<exists>n s. vm' = vm\<lparr>vm_SubPath := s, vm_Name := n\<rparr>"
  by (cases "map_of dv (vm_Name vm)") (auto simp: redirected_cases intro: mount_same split: if_splits)

lemma rewriteVolumeMounts_Inr:
  "rewriteVolumeMounts subPath pvc dv av cs = Inr cs' \<Longrightarrow>
   list_all2 (\<lambda>c c'. remounted c c' \<and> list_all2 (redirected subPath pvc dv av) (c_VolumeMounts c) (c_VolumeMounts c')) cs cs'"
proof (induction cs arbitrary: cs')
  case (Cons c cs)
  then obtain vms cs2 where vms: "rewriteMounts subPath pvc dv av (c_Name c) (c_VolumeMounts c) = Inr vms"
    and "rewriteVolumeMounts subPath pvc dv av cs = Inr cs2" "cs' = c\<lparr>c_VolumeMounts := vms\<rparr> # cs2"
    by (auto simp: map_sum_id_Inr split: sum.splits)
  moreover from rewriteMounts_Inr [OF vms] have "remounted c (c\<lparr>c_VolumeMounts := vms\<rparr>)"
    unfolding remounted_def by (auto elim!: list_all2_mono dest: redirected_remounts)
  ultimately show ?case using Cons.IH rewriteMounts_Inr [OF vms] by simp
qed simp

section \<open>Added volumes\<close>

lemma addEphemeral_Inr:
  "addEphemeralVolumesToPodAdditions L cs pa = Inr pa' \<Longrightarrow>
   \<exists>vs. pa' = pa\<lparr>pa_Volumes := pa_Volumes pa @ vs\<rparr> \<and> map v_Name vs = map comp_Name [c \<leftarrow> cs. comp_Volume c \<noteq> None]"
proof (induction cs arbitrary: pa)
  case Nil
  then show ?case by (auto intro: exI [of _ "[]"])
next
  case (Cons c cs)
  show ?case
  proof (cases "comp_Volume c")
    case None
    with Cons show ?thesis by simp
  next
    case (Some v)
    with Cons.prems obtain d where
      "addEphemeralVolumesToPodAdditions L cs (pa\<lparr>pa_Volumes := pa_Volumes pa @ [volume_of (comp_Name c) EmptyDir (EmptyDirData d)]\<rparr>) = Inr pa'"
      by (auto split: sum.splits)
    from Cons.IH [OF this] obtain vs where
      "pa' = pa\<lparr>pa_Volumes := pa_Volumes pa @ volume_of (comp_Name c) EmptyDir (EmptyDirData d) # vs\<rparr>"
      "map v_Name vs = map comp_Name [c \<leftarrow> cs. comp_Volume c \<noteq> None]" by auto
    with Some show ?thesis by (intro exI [of _ "volume_of (comp_Name c) EmptyDir (EmptyDirData d) # vs"]) simp
  qed
qed

lemma addEphemeralFromWorkspace_Ok:
  assumes "addEphemeralVolumesFromWorkspace L w pa = DwOk pa'"
  shows "\<exists>vs. pa' = pa\<lparr>pa_Volumes := pa_Volumes pa @ vs\<rparr> \<and>
    (\<forall>c. c \<in> set (ts_Components w) \<longrightarrow> ephemeral_component c \<longrightarrow>
       comp_Name c \<noteq> ProjectsVolumeName \<or> find (\<lambda>c. comp_Name c = ProjectsVolumeName) (rev [c \<leftarrow> ts_Components w. comp_Volume c \<noteq> None]) = Some c \<longrightarrow>
       comp_Name c \<in> v_Name ` set vs)"
proof -
  obtain ps es pr where v: "getWorkspaceVolumes w = (ps, es, pr)" by (metis prod_cases3)
  then have es: "es = [c \<leftarrow> [c \<leftarrow> [c \<leftarrow> ts_Components w. comp_Volume c \<noteq> None]. comp_Name c \<noteq> ProjectsVolumeName]. ephemeral_component c]"
    and pr: "pr = find (\<lambda>c. comp_Name c = ProjectsVolumeName) (rev [c \<leftarrow> ts_Components w. comp_Volume c \<noteq> None])"
    by (auto simp: getWorkspaceVolumes_def Let_def)
  from assms v obtain pa1 where 1: "addEphemeralVolumesToPodAdditions L es pa = Inr pa1"
    and 2: "(case pr of Some c \<Rightarrow> if ephemeral_component c
        then dw_fail ''Failed to add projects volume to workspace'' (addEphemeralVolumesToPodAdditions L [c] pa1) else DwOk pa1
      | None \<Rightarrow> DwOk pa1) = DwOk pa'"
    by (auto simp: addEphemeralVolumesFromWorkspace_def dw_results)
  from addEphemeral_Inr [OF 1] obtain vs1 where vs1: "pa1 = pa\<lparr>pa_Volumes := pa_Volumes pa @ vs1\<rparr>"
    "map v_Name vs1 = map comp_Name [c \<leftarrow> es. comp_Volume c \<noteq> None]" by blast
  then have "v_Name ` set vs1 = comp_Name ` set [c \<leftarrow> es. comp_Volume c \<noteq> None]" by (metis set_map)
  then have names1: "comp_Name c \<in> v_Name ` set vs1"
    if "c \<in> set (ts_Components w)" "ephemeral_component c" "comp_Name c \<noteq> ProjectsVolumeName" for c
    using that by (auto simp: es ephemeral_component_def split: option.splits)
  show ?thesis
  proof (cases "\<exists>c. pr = Some c \<and> ephemeral_component c")
    case True
    then obtain c where c: "pr = Some c" "ephemeral_component c" by blast
    with 2 have "addEphemeralVolumesToPodAdditions L [c] pa1 = Inr pa'" by (simp add: dw_results)
    from addEphemeral_Inr [OF this] obtain vs2 where vs2: "pa' = pa1\<lparr>pa_Volumes := pa_Volumes pa1 @ vs2\<rparr>"
      "map v_Name vs2 = map comp_Name [c \<leftarrow> [c]. comp_Volume c \<noteq> None]" by blast
    have "comp_Volume c \<noteq> None" using c(2) by (auto simp: ephemeral_component_def split: option.splits)
    with vs2(2) have "v_Name ` set vs2 = {comp_Name c}" by (metis (mono_tags) filter.simps list.simps(8,9,15) set_map empty_set)
    then show ?thesis
      using vs1(1) vs2(1) names1 c(1) pr by (intro exI [of _ "vs1 @ vs2"]) auto
  next
    case False
    with 2 have "pa' = pa1" by (auto split: option.splits if_splits)
    with False vs1(1) names1 pr show ?thesis by (intro exI [of _ vs1]) auto
  qed
qed

section \<open>The contract of a strategy\<close>

text \<open>
  The interface \<^verbatim>\<open>Provisioner\<close>: a strategy keeps the containers and only redirects their mounts, and only adds volumes.
\<close>

locale provisioner =
  fixes provision :: "'q provision"
  assumes containers_kept: "provision w pa cl = (DwOk pa', cl') \<Longrightarrow>
      list_all2 remounted (pa_Containers pa) (pa_Containers pa') \<and> list_all2 remounted (pa_InitContainers pa) (pa_InitContainers pa')"
    and volumes_added: "provision w pa cl = (DwOk pa', cl') \<Longrightarrow> \<exists>vs. pa_Volumes pa' = pa_Volumes pa @ vs"
begin

lemma mount_paths_kept:
  assumes "provision w pa cl = (DwOk pa', cl')"
  shows "map (\<lambda>c. (c_Name c, map vm_MountPath (c_VolumeMounts c))) (pa_Containers pa') =
    map (\<lambda>c. (c_Name c, map vm_MountPath (c_VolumeMounts c))) (pa_Containers pa)"
proof -
  have *: "list_all2 (\<lambda>vm vm'. \<exists>n s. vm' = vm\<lparr>vm_SubPath := s, vm_Name := n\<rparr>) vms vms' \<Longrightarrow> map vm_MountPath vms' = map vm_MountPath vms" for vms vms'
    by (induction rule: list_all2_induct) auto
  have "list_all2 remounted cs cs' \<Longrightarrow>
      map (\<lambda>c. (c_Name c, map vm_MountPath (c_VolumeMounts c))) cs' = map (\<lambda>c. (c_Name c, map vm_MountPath (c_VolumeMounts c))) cs" for cs cs' :: "'q Container list"
    by (induction rule: list_all2_induct) (auto simp: remounted_def dest: *)
  with containers_kept [OF assms] show ?thesis by blast
qed

end

text \<open>The volumes that the mounts may name: those of the devfile, where the projects volume is implicit.\<close>

definition with_projects :: "(string \<times> VolumeComponent) list \<Rightarrow> (string \<times> VolumeComponent) list" where
  "with_projects dv = (if map_of dv ProjectsVolumeName = None then (ProjectsVolumeName, \<lparr>vc_Size = PVCStorageSize, vc_Ephemeral = None\<rparr>) # dv else dv)"

lemma rewrite_with_Inr:
  assumes "rewrite_with L sub pvc w fs pa = Inr pa'"
  obtains dv ovs where "devfile_volumes (ts_Components w) [] = Inr dv" "GetVolumesFromOverrides (lib_json L) w fs = Inr ovs"
    "pa_Volumes pa' = pa_Volumes pa @ [volume_of pvc PersistentVolumeClaim (ClaimData pvc False)]"
    "list_all2 (\<lambda>c c'. remounted c c' \<and> list_all2 (redirected sub pvc (with_projects dv) (map v_Name (pa_Volumes pa) @ ovs)) (c_VolumeMounts c) (c_VolumeMounts c'))
       (pa_Containers pa @ pa_InitContainers pa) (pa_Containers pa' @ pa_InitContainers pa')"
    "length (pa_Containers pa') = length (pa_Containers pa)"
proof -
  obtain dv ovs cs ics where *: "devfile_volumes (ts_Components w) [] = Inr dv" "GetVolumesFromOverrides (lib_json L) w fs = Inr ovs"
    "rewriteVolumeMounts sub pvc (with_projects dv) (map v_Name (pa_Volumes pa) @ ovs) (pa_Containers pa) = Inr cs"
    "rewriteVolumeMounts sub pvc (with_projects dv) (map v_Name (pa_Volumes pa) @ ovs) (pa_InitContainers pa) = Inr ics"
    "pa' = pa\<lparr>pa_Containers := cs, pa_InitContainers := ics, pa_Volumes := pa_Volumes pa @ [volume_of pvc PersistentVolumeClaim (ClaimData pvc False)]\<rparr>"
    using assms unfolding rewrite_with_def with_projects_def Let_def by (auto split: sum.splits)
  note cs = rewriteVolumeMounts_Inr [OF *(3)] and ics = rewriteVolumeMounts_Inr [OF *(4)]
  show thesis
    by (rule that [OF *(1,2)]) (use *(5) list_all2_appendI [OF cs ics] list_all2_lengthD [OF cs] in simp_all)
qed

lemma devfile_volumes_Inr:
  "devfile_volumes cs acc = Inr dv \<Longrightarrow> distinct (map fst acc) \<Longrightarrow>
   distinct (map fst dv) \<and> (\<forall>n v. (n, v) \<in> set dv \<longleftrightarrow> (n, v) \<in> set acc \<or> (\<exists>c \<in> set cs. comp_Name c = n \<and> comp_Volume c = Some v))"
proof (induction cs arbitrary: acc)
  case (Cons c cs)
  show ?case
  proof (cases "comp_Volume c")
    case None
    with Cons show ?thesis by auto
  next
    case (Some v)
    with Cons.prems(1) have n: "map_of acc (comp_Name c) = None"
      by (cases "map_of acc (comp_Name c)") simp_all
    with Cons.prems(1) Some have "devfile_volumes cs ((comp_Name c, v) # acc) = Inr dv" by simp
    moreover from n have "comp_Name c \<notin> fst ` set acc" by (simp add: map_of_eq_None_iff)
    ultimately show ?thesis using Cons.IH [of "(comp_Name c, v) # acc"] Cons.prems(2) Some by auto
  qed
qed simp

lemma find_SomeD: "find P xs = Some x \<Longrightarrow> x \<in> set xs \<and> P x"
  by (induction xs) (auto split: if_splits)

lemma map_of_with_projects:
  assumes "devfile_volumes cs [] = Inr dv" "map_of (with_projects dv) n = Some v" "isEphemeral v"
  shows "\<exists>c \<in> set cs. comp_Name c = n \<and> comp_Volume c = Some v"
proof -
  have "map_of dv n = Some v"
    using assms(2,3) by (auto simp: with_projects_def isEphemeral_def split: if_splits)
  then have "(n, v) \<in> set dv" by (rule map_of_SomeD)
  with devfile_volumes_Inr [OF assms(1)] show ?thesis by auto
qed

lemma last_projects_unique:
  assumes "devfile_volumes cs [] = Inr dv" "c \<in> set cs" "comp_Volume c = Some v" "comp_Name c = ProjectsVolumeName"
  obtains c' where "find (\<lambda>c. comp_Name c = ProjectsVolumeName) (rev [c \<leftarrow> cs. comp_Volume c \<noteq> None]) = Some c'" "comp_Volume c' = Some v"
    "comp_Name c' = ProjectsVolumeName" "c' \<in> set cs"
proof -
  let ?xs = "rev [c \<leftarrow> cs. comp_Volume c \<noteq> None]"
  have "c \<in> set ?xs" using assms by auto
  then obtain c' where c': "find (\<lambda>c. comp_Name c = ProjectsVolumeName) ?xs = Some c'"
    using assms(4) by (metis (mono_tags, lifting) find_None_iff not_None_eq)
  then have m: "c' \<in> set cs" "comp_Volume c' \<noteq> None" "comp_Name c' = ProjectsVolumeName"
    by (auto dest: find_SomeD)
  then obtain v' where "comp_Volume c' = Some v'" by auto
  with m assms(2-4) devfile_volumes_Inr [OF assms(1)] have "(ProjectsVolumeName, v) \<in> set dv" "(ProjectsVolumeName, v') \<in> set dv" "distinct (map fst dv)"
    by auto
  then have "v' = v" by (metis eq_key_imp_eq_value)
  with \<open>comp_Volume c' = Some v'\<close> c' m show thesis by (intro that) auto
qed

lemma list_all2_in_set2: "list_all2 P xs ys \<Longrightarrow> y \<in> set ys \<Longrightarrow> \<exists>x \<in> set xs. P x y"
  by (induction rule: list_all2_induct) auto

text \<open>A strategy that redirects mounts to a claim.\<close>

locale claim_provisioner =
  fixes L :: "'q library" and provision :: "'q provision" and directory :: "'q WorkspaceWithConfig \<Rightarrow> string \<Rightarrow> string"
  assumes adds_ephemeral: "provision w pa cl = (DwOk pa', cl') \<Longrightarrow> \<exists>pa1. addEphemeralVolumesFromWorkspace L (wwc_Template w) pa = DwOk pa1 \<and>
      (if WorkspaceNeedsStorage (wwc_Template w) then \<exists>pvc. rewrite_with L (directory w) pvc (wwc_Template w) (restricted_fields w) pa1 = Inr pa' else pa' = pa1)"
begin

lemma redirects:
  assumes "provision w pa cl = (DwOk pa', cl')"
  obtains (Unneeded) vs where "\<not> WorkspaceNeedsStorage (wwc_Template w)" "pa' = pa\<lparr>pa_Volumes := pa_Volumes pa @ vs\<rparr>"
  | (Needed) vs pvc dv ovs where "WorkspaceNeedsStorage (wwc_Template w)"
    "addEphemeralVolumesFromWorkspace L (wwc_Template w) pa = DwOk (pa\<lparr>pa_Volumes := pa_Volumes pa @ vs\<rparr>)"
    "devfile_volumes (ts_Components (wwc_Template w)) [] = Inr dv"
    "GetVolumesFromOverrides (lib_json L) (wwc_Template w) (restricted_fields w) = Inr ovs"
    "pa_Volumes pa' = pa_Volumes pa @ vs @ [volume_of pvc PersistentVolumeClaim (ClaimData pvc False)]"
    "list_all2 (\<lambda>c c'. remounted c c' \<and>
        list_all2 (redirected (directory w) pvc (with_projects dv) (map v_Name (pa_Volumes pa @ vs) @ ovs)) (c_VolumeMounts c) (c_VolumeMounts c'))
       (pa_Containers pa @ pa_InitContainers pa) (pa_Containers pa' @ pa_InitContainers pa')"
    "length (pa_Containers pa') = length (pa_Containers pa)"
proof -
  from adds_ephemeral [OF assms] obtain pa1 where 1: "addEphemeralVolumesFromWorkspace L (wwc_Template w) pa = DwOk pa1"
    and 2: "if WorkspaceNeedsStorage (wwc_Template w) then \<exists>pvc. rewrite_with L (directory w) pvc (wwc_Template w) (restricted_fields w) pa1 = Inr pa' else pa' = pa1"
    by blast
  from addEphemeralFromWorkspace_Ok [OF 1] obtain vs where vs: "pa1 = pa\<lparr>pa_Volumes := pa_Volumes pa @ vs\<rparr>" by blast
  show thesis
  proof (cases "WorkspaceNeedsStorage (wwc_Template w)")
    case False
    with 2 vs show thesis by (auto intro: Unneeded)
  next
    case True
    with 2 obtain pvc where "rewrite_with L (directory w) pvc (wwc_Template w) (restricted_fields w) pa1 = Inr pa'" by auto
    then show thesis
      by (rule rewrite_with_Inr) (use True 1 vs in \<open>auto intro!: Needed\<close>)
  qed
qed

lemma keeps_containers:
  assumes "provision w pa cl = (DwOk pa', cl')"
  shows "list_all2 remounted (pa_Containers pa) (pa_Containers pa') \<and> list_all2 remounted (pa_InitContainers pa) (pa_InitContainers pa')"
  using assms
proof (cases rule: redirects)
  case (Needed vs pvc dv ovs)
  then have "list_all2 remounted (pa_Containers pa @ pa_InitContainers pa) (pa_Containers pa' @ pa_InitContainers pa')"
    by (auto elim!: list_all2_mono)
  with Needed(7) show ?thesis by (simp add: list_all2_append)
qed (simp add: list.rel_refl)

lemma adds_volumes: "provision w pa cl = (DwOk pa', cl') \<Longrightarrow> \<exists>vs. pa_Volumes pa' = pa_Volumes pa @ vs"
  by (erule redirects) auto

lemma redirected_resolves:
  assumes "addEphemeralVolumesFromWorkspace L w pa = DwOk (pa\<lparr>pa_Volumes := pa_Volumes pa @ vs\<rparr>)"
    "devfile_volumes (ts_Components w) [] = Inr dv" "redirected sub pvc (with_projects dv) (map v_Name (pa_Volumes pa @ vs) @ ovs) vm vm'"
  shows "vm_Name vm' \<in> set (map v_Name (pa_Volumes pa @ vs) @ pvc # ovs)"
proof (cases "map_of (with_projects dv) (vm_Name vm)")
  case None
  with assms(3) show ?thesis by (auto simp: redirected_cases)
next
  case (Some v)
  show ?thesis
  proof (cases "isEphemeral v")
    case False
    with Some assms(3) show ?thesis by (simp add: redirected_cases)
  next
    case True
    with Some assms(3) have vm': "vm' = vm" by (simp add: redirected_cases)
    from map_of_with_projects [OF assms(2) Some True] obtain c where
      c: "c \<in> set (ts_Components w)" "comp_Name c = vm_Name vm" "comp_Volume c = Some v" by blast
    from addEphemeralFromWorkspace_Ok [OF assms(1)] obtain vs' where e: "pa\<lparr>pa_Volumes := pa_Volumes pa @ vs\<rparr> = pa\<lparr>pa_Volumes := pa_Volumes pa @ vs'\<rparr>" and
      vs': "\<And>c. c \<in> set (ts_Components w) \<Longrightarrow> ephemeral_component c \<Longrightarrow>
        comp_Name c \<noteq> ProjectsVolumeName \<or> find (\<lambda>c. comp_Name c = ProjectsVolumeName) (rev [c \<leftarrow> ts_Components w. comp_Volume c \<noteq> None]) = Some c \<Longrightarrow>
        comp_Name c \<in> v_Name ` set vs'"
      by blast
    from arg_cong [OF e, of pa_Volumes] have "vs' = vs" by simp
    show ?thesis
    proof (cases "vm_Name vm = ProjectsVolumeName")
      case False
      with vs' [of c] c True \<open>vs' = vs\<close> vm' show ?thesis by (auto simp: ephemeral_component_def)
    next
      case p: True
      with c obtain c' where "find (\<lambda>c. comp_Name c = ProjectsVolumeName) (rev [c \<leftarrow> ts_Components w. comp_Volume c \<noteq> None]) = Some c'"
        "comp_Volume c' = Some v" "comp_Name c' = ProjectsVolumeName" "c' \<in> set (ts_Components w)"
        by (auto elim: last_projects_unique [OF assms(2) c(1,3)])
      with vs' [of c'] True \<open>vs' = vs\<close> vm' p show ?thesis by (auto simp: ephemeral_component_def)
    qed
  qed
qed

lemma mounts_resolve:
  assumes "provision w pa cl = (DwOk pa', cl')" "WorkspaceNeedsStorage (wwc_Template w)"
  shows "\<exists>ovs. GetVolumesFromOverrides (lib_json L) (wwc_Template w) (restricted_fields w) = Inr ovs \<and>
    (\<forall>c \<in> set (pa_Containers pa' @ pa_InitContainers pa'). \<forall>vm \<in> set (c_VolumeMounts c). vm_Name vm \<in> set (map v_Name (pa_Volumes pa') @ ovs))"
  using assms(1)
proof (cases rule: redirects)
  case (Needed vs pvc dv ovs)
  have "vm_Name vm' \<in> set (map v_Name (pa_Volumes pa') @ ovs)"
    if "c' \<in> set (pa_Containers pa' @ pa_InitContainers pa')" "vm' \<in> set (c_VolumeMounts c')" for c' vm'
  proof -
    from list_all2_in_set2 [OF Needed(6) that(1)] obtain c :: "'q Container" where
      "list_all2 (redirected (directory w) pvc (with_projects dv) (map v_Name (pa_Volumes pa @ vs) @ ovs)) (c_VolumeMounts c) (c_VolumeMounts c')" by blast
    from list_all2_in_set2 [OF this that(2)] obtain vm where
      "redirected (directory w) pvc (with_projects dv) (map v_Name (pa_Volumes pa @ vs) @ ovs) vm vm'" by blast
    from redirected_resolves [OF Needed(2,3) this] show ?thesis by (auto simp: Needed(5))
  qed
  with Needed(4) show ?thesis by blast
qed (use assms(2) in simp)

lemma redirected_directory:
  assumes "provision w pa cl = (DwOk pa', cl')" "c' \<in> set (pa_Containers pa' @ pa_InitContainers pa')" "vm' \<in> set (c_VolumeMounts c')"
    "\<forall>c \<in> set (pa_Containers pa @ pa_InitContainers pa). vm' \<notin> set (c_VolumeMounts c)"
  shows "\<exists>volume. vm_SubPath vm' = directory w volume"
  using assms(1)
proof (cases rule: redirects)
  case Unneeded
  with assms(2-4) show ?thesis by auto
next
  case (Needed vs pvc dv ovs)
  from list_all2_in_set2 [OF Needed(6) assms(2)] obtain c where c: "c \<in> set (pa_Containers pa @ pa_InitContainers pa)"
    "list_all2 (redirected (directory w) pvc (with_projects dv) (map v_Name (pa_Volumes pa @ vs) @ ovs)) (c_VolumeMounts c) (c_VolumeMounts c')"
    by blast
  from list_all2_in_set2 [OF c(2) assms(3)] obtain vm where "vm \<in> set (c_VolumeMounts c)"
    "redirected (directory w) pvc (with_projects dv) (map v_Name (pa_Volumes pa @ vs) @ ovs) vm vm'"
    by blast
  moreover from this c(1) assms(4) have "vm' \<noteq> vm" by blast
  ultimately show ?thesis
    by (cases "map_of (with_projects dv) (vm_Name vm)") (auto simp: redirected_cases split: if_splits)
qed

end

sublocale claim_provisioner \<subseteq> provisioner provision
  by unfold_locales (rule keeps_containers adds_volumes, assumption)+

section \<open>The strategies of the operator\<close>

lemma common_Ok:
  assumes "common_ProvisionStorage L env w pa cl = (DwOk pa', cl')"
  shows "\<exists>pa1. addEphemeralVolumesFromWorkspace L (wwc_Template w) pa = DwOk pa1 \<and>
    (if WorkspaceNeedsStorage (wwc_Template w)
     then \<exists>pvc. rewrite_with L (\<lambda>volume. wwc_Id w @ ''/'' @ volume) pvc (wwc_Template w) (restricted_fields w) pa1 = Inr pa' else pa' = pa1)"
proof (cases "addEphemeralVolumesFromWorkspace L (wwc_Template w) pa")
  case (DwOk pa1)
  with assms show ?thesis
    by (auto simp: common_ProvisionStorage_def Let_def dw_results common_rewriteContainerVolumeMounts_def
        split: if_splits sum.splits prod.splits bool.splits dw_result.splits)
qed (use assms in \<open>simp_all add: common_ProvisionStorage_def\<close>)

lemma perWorkspace_Ok:
  fixes L :: "'q::linordered_ab_group_add library"
  assumes "perWorkspace_ProvisionStorage L env w pa cl = (DwOk pa', cl')"
  shows "\<exists>pa1. addEphemeralVolumesFromWorkspace L (wwc_Template w) pa = DwOk pa1 \<and>
    (if WorkspaceNeedsStorage (wwc_Template w)
     then \<exists>pvc. rewrite_with L (\<lambda>volume. volume) pvc (wwc_Template w) (restricted_fields w) pa1 = Inr pa' else pa' = pa1)"
proof (cases "addEphemeralVolumesFromWorkspace L (wwc_Template w) pa")
  case (DwOk pa1)
  with assms show ?thesis
    by (auto simp: perWorkspace_ProvisionStorage_def dw_results perWorkspace_rewriteContainerVolumeMounts_def
        split: if_splits prod.splits dw_result.splits)
qed (use assms in \<open>simp_all add: perWorkspace_ProvisionStorage_def\<close>)

interpretation common: claim_provisioner L "common_ProvisionStorage L env" "\<lambda>w volume. wwc_Id w @ ''/'' @ volume" for L env
  by unfold_locales (rule common_Ok)

interpretation per_workspace: claim_provisioner L "perWorkspace_ProvisionStorage L env" "\<lambda>w volume. volume"
  for L :: "'q::linordered_ab_group_add library" and env
  by unfold_locales (rule perWorkspace_Ok)

interpretation ephemeral: provisioner "ephemeral_ProvisionStorage L" for L
proof unfold_locales
  fix w pa cl pa' cl'
  assume "ephemeral_ProvisionStorage L w pa cl = (DwOk pa', cl')"
  then have "pa_Containers pa' = pa_Containers pa \<and> pa_InitContainers pa' = pa_InitContainers pa \<and> (\<exists>vs. pa_Volumes pa' = pa_Volumes pa @ vs)"
    by (auto simp: ephemeral_ProvisionStorage_def dw_results split: prod.splits option.splits if_splits dest!: addEphemeral_Inr simp del: addEphemeralVolumesToPodAdditions.simps)
  then show "list_all2 remounted (pa_Containers pa) (pa_Containers pa') \<and> list_all2 remounted (pa_InitContainers pa) (pa_InitContainers pa')"
    and "\<exists>vs. pa_Volumes pa' = pa_Volumes pa @ vs"
    by (auto simp: list.rel_refl)
qed

section \<open>Properties\<close>

text \<open>
  (C21) When common storage has been provisioned for a workspace that needs it, every container and init container mounts only volumes
  that the pod has, or that the pod overrides of the workspace define.
\<close>

theorem common_storage_mounts_resolve:
  assumes "common_ProvisionStorage L env w pa cl = (DwOk pa', cl')" "WorkspaceNeedsStorage (wwc_Template w)"
  shows "\<exists>ovs. GetVolumesFromOverrides (lib_json L) (wwc_Template w) (restricted_fields w) = Inr ovs \<and>
    (\<forall>c \<in> set (pa_Containers pa' @ pa_InitContainers pa'). \<forall>vm \<in> set (c_VolumeMounts c). vm_Name vm \<in> set (map v_Name (pa_Volumes pa') @ ovs))"
  by (rule common.mounts_resolve [OF assms])

text \<open>The path that is removed for a workspace whose identifier is a plain file name.\<close>

lemma split_char_not_in: "c \<notin> set s \<Longrightarrow> split_char c s = [s]"
  by (induction s) auto

lemma cleanup_command_directory:
  assumes "CHR ''/'' \<notin> set i" "i \<notin> {[], ''.'', ''..''}"
  shows "cleanup_command i = ''rm -rf /tmp/devworkspaces/'' @ i"
proof -
  have "split_char (CHR ''/'') (''/tmp/devworkspaces//'' @ i) = [[], ''tmp'', ''devworkspaces'', [], i]"
    by (simp add: split_char_not_in [OF assms(1)])
  then show ?thesis
    using assms(2) by (simp add: cleanup_command_def pvcClaimMountPath_def path_Join_def path_Clean_def Let_def)
qed

text \<open>
  (C22) Workspaces that share a claim do not share directories: every mount that common storage redirects to the claim is in the directory named by the
  identifier of its workspace, so that the mounts of two workspaces lie in different directories, and the clean-up of a workspace removes its own directory only.
\<close>

theorem common_storage_isolated:
  assumes "common_ProvisionStorage L env w pa cl = (DwOk pa', cl')" "CHR ''/'' \<notin> set (wwc_Id w)" "wwc_Id w \<notin> {[], ''.'', ''..''}"
    "c \<in> set (pa_Containers pa' @ pa_InitContainers pa')" "vm \<in> set (c_VolumeMounts c)"
    "\<forall>c \<in> set (pa_Containers pa @ pa_InitContainers pa). vm \<notin> set (c_VolumeMounts c)"
  shows "hd (split_char (CHR ''/'') (vm_SubPath vm)) = wwc_Id w \<and> cleanup_command (wwc_Id w) = ''rm -rf /tmp/devworkspaces/'' @ wwc_Id w"
proof -
  have split: "split_char c (i @ c # v) = i # split_char c v" if "c \<notin> set i" for c i v
    using that by (induction i) auto
  from common.redirected_directory [OF assms(1,4-6)] obtain v where "vm_SubPath vm = wwc_Id w @ ''/'' @ v" by auto
  with split [OF assms(2), of v] cleanup_command_directory [OF assms(2,3)] show ?thesis by simp
qed

lemma updateObject_frame:
  assumes "key \<noteq> obj_key_of spec" "updateObjectGeneric env spec c cl = (e, cl')"
  shows "cl' key = cl key"
proof (cases "getUpdateFunc spec spec c")
  case (Inr obj)
  from update_func.upd_writes [OF getUpdateFunc_contract Inr] have "obj_key_of obj = obj_key_of spec" by (rule writes_key)
  with Inr assms show ?thesis
    by (auto simp: updateObjectGeneric_def client_Update_def split: prod.splits option.splits if_splits)
qed (use assms in \<open>auto simp: updateObjectGeneric_def client_Delete_def split: prod.splits option.splits if_splits\<close>)

lemma createObject_frame:
  assumes "key \<noteq> obj_key_of spec" "createObjectGeneric env spec cl = (e, cl')"
  shows "cl' key = cl key"
proof (cases "client_Create env spec cl")
  case (Pair r cl1)
  then have "cl1 key = cl key" using assms(1) by (auto simp: client_Create_def split: option.splits if_splits)
  with Pair assms show ?thesis by (auto simp: createObjectGeneric_def split: option.splits api_err.splits dest: updateObject_frame)
qed

lemma sync_frame: "key \<noteq> obj_key_of spec \<Longrightarrow> snd (SyncObjectWithCluster env spec cl) key = cl key"
  by (auto simp: SyncObjectWithCluster_def client_Delete_def dest: updateObject_frame createObject_frame
      split: sum.splits api_err.splits prod.splits bool.splits option.splits)

lemma job_key: "getSpecCommonPVCCleanupJob env w cl = Inr job \<Longrightarrow> fst (obj_key_of job) = JobObj"
  by (auto simp: getSpecCommonPVCCleanupJob_def SetControllerReference_def obj_key_of_def Let_def split: sum.splits prod.splits option.splits)

lemma clean_up_job:
  assumes "getSpecCommonPVCCleanupJob env w cl = Inr job"
  shows "\<exists>j container. o_Content job = JobContent j \<and> p_Containers (job_PodSpec j) = Some [container] \<and>
    c_Args container = Some [''-c'', cleanup_command (wwc_Id w)]"
  using assms
  by (auto simp: getSpecCommonPVCCleanupJob_def SetControllerReference_def cleanup_container_def Let_def split: sum.splits prod.splits option.splits)

lemma job_outcome_complete: "job_outcome name conditions = Some (DwOk ()) \<Longrightarrow> (''Complete'', ''True'') \<in> set conditions"
  by (induction name conditions rule: job_outcome.induct) (auto split: if_splits)

lemma clean_up_completed:
  assumes "runCommonPVCCleanupJob env w cl = (DwOk (), cl')"
  shows "(\<exists>e. client_Get (se_api env) (pvc_key (wwc_Namespace w) (wc_PVCName (wwc_Workspace w))) cl = Inl (NotFound e)) \<or>
    (\<exists>job obj j. getSpecCommonPVCCleanupJob env w cl = Inr job \<and> cl (obj_key_of job) = Some obj \<and> metadata_applied job obj \<and>
       o_Content obj = JobContent j \<and> (''Complete'', ''True'') \<in> set (job_Conditions j) \<and>
       (\<exists>wanted. o_Content job = JobContent wanted \<and> ae_derivative_job (se_api env) wanted j))"
proof (cases "commonPVCExists env w cl")
  case (Inr found)
  show ?thesis
  proof (cases found)
    case False
    with Inr show ?thesis by (auto simp: commonPVCExists_def split: sum.splits api_err.splits)
  next
    case True
    with assms Inr obtain job obj j where job: "getSpecCommonPVCCleanupJob env w cl = Inr job"
      and sync: "SyncObjectWithCluster (se_api env) job cl = (Inr obj, cl')" and j: "o_Content obj = JobContent j"
      "job_outcome (o_Name obj) (job_Conditions j) = Some (DwOk ())"
      by (auto simp: runCommonPVCCleanupJob_def split: sum.splits prod.splits content.splits option.splits if_splits)
    from clean_up_job [OF job] obtain wanted where wanted: "o_Content job = JobContent wanted" by blast
    from SyncObject_Inr [OF sync] wanted have "cl (obj_key_of job) = Some obj" "metadata_applied job obj"
      "allDiffFuncs [metadataDiffFunc, jobDiffFunc (se_api env)] job obj = (False, False)" by auto
    with job j wanted job_outcome_complete [OF j(2)] show ?thesis by (auto simp: allDiffFuncs_none_iff)
  qed
qed (use assms in \<open>simp add: runCommonPVCCleanupJob_def\<close>)

lemma clean_up_started:
  assumes "client_Get (se_api env) (pvc_key (wwc_Namespace w) (wc_PVCName (wwc_Workspace w))) cl = Inr claim"
    "getSpecCommonPVCCleanupJob env w cl = Inr job" "cl (obj_key_of job) = None"
    "ae_fault (se_api env) (GetCall (obj_key_of job)) = None" "ae_fault (se_api env) (CreateCall (obj_key_of job)) = None"
  shows "snd (runCommonPVCCleanupJob env w cl) (obj_key_of job) = Some (ae_store (se_api env) None job)"
  using assms
  by (simp add: runCommonPVCCleanupJob_def commonPVCExists_def SyncObjectWithCluster_def client_Get_def [of _ "obj_key_of job"]
      createObjectGeneric_def client_Create_def)

text \<open>
  (C23) While another workspace of the namespace uses the shared claim, the clean-up of a workspace changes no volume claim. Where there is a claim,
  it creates a job that removes the directory of the workspace, unless the cluster has the job already, and it reports success only when the cache shows no claim, or when the
  job on the cluster is the wanted one and is complete.
\<close>

theorem shared_claim_kept:
  assumes "getSharedPVCWorkspaceCount env = Inr n" "n > 0" "common_CleanupWorkspaceStorage env w cl = (r, cl')"
  shows "cl' (pvc_key namespace name) = cl (pvc_key namespace name) \<and>
    (client_Get (se_api env) (pvc_key (wwc_Namespace w) (wc_PVCName (wwc_Workspace w))) cl = Inr claim \<longrightarrow>
     getSpecCommonPVCCleanupJob env w cl = Inr job \<longrightarrow>
       (\<exists>j container. o_Content job = JobContent j \<and> p_Containers (job_PodSpec j) = Some [container] \<and>
          c_Args container = Some [''-c'', cleanup_command (wwc_Id w)]) \<and>
       (cl (obj_key_of job) = None \<longrightarrow> ae_fault (se_api env) (GetCall (obj_key_of job)) = None \<longrightarrow>
        ae_fault (se_api env) (CreateCall (obj_key_of job)) = None \<longrightarrow> cl' (obj_key_of job) = Some (ae_store (se_api env) None job))) \<and>
    (r = DwOk () \<longrightarrow>
      (\<exists>e. client_Get (se_api env) (pvc_key (wwc_Namespace w) (wc_PVCName (wwc_Workspace w))) cl = Inl (NotFound e)) \<or>
      (\<exists>job obj j. getSpecCommonPVCCleanupJob env w cl = Inr job \<and> cl (obj_key_of job) = Some obj \<and> metadata_applied job obj \<and>
         o_Content obj = JobContent j \<and> (''Complete'', ''True'') \<in> set (job_Conditions j) \<and>
         (\<exists>wanted. o_Content job = JobContent wanted \<and> ae_derivative_job (se_api env) wanted j)))"
proof -
  have run: "runCommonPVCCleanupJob env w cl = (r, cl')" using assms by (simp add: common_CleanupWorkspaceStorage_def)
  have "snd (SyncObjectWithCluster (se_api env) job cl) (pvc_key namespace name) = cl (pvc_key namespace name)"
    if "getSpecCommonPVCCleanupJob env w cl = Inr job" for job
    using job_key [OF that] by (intro sync_frame notI) (drule arg_cong [of _ _ fst], simp add: pvc_key_def)
  then have j: "cl' (pvc_key namespace name) = cl (pvc_key namespace name)"
    if "getSpecCommonPVCCleanupJob env w cl = Inr job" "SyncObjectWithCluster (se_api env) job cl = (r, cl')" for job r cl'
    using that by (metis snd_conv)
  then have "cl' (pvc_key namespace name) = cl (pvc_key namespace name)"
    using run by (auto simp: runCommonPVCCleanupJob_def split: sum.splits bool.splits prod.splits content.splits option.splits)
  with run clean_up_job clean_up_started [of env w cl claim job] clean_up_completed [of env w cl cl'] show ?thesis
    by (intro conjI impI) simp_all
qed

section \<open>Where the strategies fall short\<close>

text \<open>
  A per-workspace claim gets the size zero when the devfile has no volume component, although the projects volume, which is then implicit, is stored in it: the sizes
  of all volumes count as defined when there is none.
\<close>

theorem no_volumes_zero_claim:
  fixes L :: "'q::linordered_ab_group_add library"
  assumes "list_all (\<lambda>c. comp_Volume c = None) (ts_Components (wwc_Template w))" "AnyMountSources (ts_Components (wwc_Template w))"
    "Option.bind (wc_DefaultStorageSize (wwc_Workspace w)) ss_PerWorkspace = Some d"
  shows "WorkspaceNeedsStorage (wwc_Template w) \<and> getPVCSize L w namespacedConfig = DwOk 0"
proof -
  have "list_all (\<lambda>c. comp_Volume c = None) cs \<Longrightarrow> volume_sizes L cs (True, 0) = Inr (True, 0)" for cs
    by (induction cs) auto
  with assms show ?thesis
    by (auto simp: getPVCSize_def WorkspaceNeedsStorage_def list_ex_iff list_all_iff)
qed

text \<open>
  Where the claim of Che is used for storage and the claim of the operator does not exist, the clean-up of a workspace reports success at once and
  removes nothing: the workspace has its data in the claim of Che, but the clean-up looks for the claim of the operator.
\<close>

theorem alternate_claim_not_cleaned:
  assumes "common_ProvisionStorage L env w pa cl = (DwOk pa', cl')" "WorkspaceNeedsStorage (wwc_Template w)"
    "checkForAlternatePVC env (wwc_Namespace w) cl = Inr (True, alternate)" "alternate \<noteq> []"
    "getSharedPVCWorkspaceCount env = Inr n" "n > 0" "commonPVCExists env w cl = Inr False"
  shows "volume_of alternate PersistentVolumeClaim (ClaimData alternate False) \<in> set (pa_Volumes pa') \<and>
    common_CleanupWorkspaceStorage env w cl = (DwOk (), cl)"
proof -
  obtain pa1 where "addEphemeralVolumesFromWorkspace L (wwc_Template w) pa = DwOk pa1"
    using common_Ok [OF assms(1)] by blast
  with assms(1-4) have "rewrite_with L (\<lambda>volume. wwc_Id w @ ''/'' @ volume) alternate (wwc_Template w) (restricted_fields w) pa1 = Inr pa'"
    by (auto simp: common_ProvisionStorage_def dw_results common_rewriteContainerVolumeMounts_def split: sum.splits bool.splits)
  then have "volume_of alternate PersistentVolumeClaim (ClaimData alternate False) \<in> set (pa_Volumes pa')"
    by (rule rewrite_with_Inr) simp
  with assms(5-7) show ?thesis by (simp add: common_CleanupWorkspaceStorage_def runCommonPVCCleanupJob_def)
qed

section \<open>Witnesses\<close>

definition some_storage :: "int storage_env" where
  "some_storage = \<lparr>se_api = plain_server, se_configmaps = Inr [], se_namespace = Inr None, se_tolerations = (\<lambda>_. Inr []), se_nodeSelector = (\<lambda>_. Inr []),
     se_pods = Inr [], se_workspaces = Inr [(False, ''common'')], se_setOwner = None, se_image = ''image'', se_mustParse = (\<lambda>_. 1), se_checkPods = Inr []\<rparr>"

definition stored_workspace :: "int WorkspaceWithConfig" where
  "stored_workspace = \<lparr>wwc_Name = ''w'', wwc_Namespace = ''ns'', wwc_UID = ''1'', wwc_Id = ''workspace1'', wwc_Labels = None, wwc_Annotations = None, wwc_RoutingClass = [],
     wwc_Template = sample_devfile, wwc_Config = zero_OperatorConfiguration,
     wwc_Workspace = zero_WorkspaceConfig\<lparr>wc_PVCName := ''claim-devworkspace'', wc_DefaultStorageSize := Some \<lparr>ss_Common = Some 10, ss_PerWorkspace = Some 5\<rparr>\<rparr>\<rparr>"

definition che_claims :: "int objects" where
  "che_claims = Map.empty(pvc_key ''ns'' CheCommonPVCName \<mapsto> getPVCSpec CheCommonPVCName ''ns'' None 10 None)"

definition some_additions :: "int PodAdditions" where
  "some_additions = container_additions [empty_container\<lparr>c_Name := ''ide'', c_VolumeMounts := [plain_mount ProjectsVolumeName ''/projects'']\<rparr>] []"

lemma some_provision:
  "case common_ProvisionStorage sample_library some_storage stored_workspace some_additions che_claims of
     (DwOk pa, _) \<Rightarrow> map (\<lambda>c. map (\<lambda>vm. (vm_Name vm, vm_SubPath vm)) (c_VolumeMounts c)) (pa_Containers pa @ pa_InitContainers pa) =
       [[(CheCommonPVCName, ''workspace1/projects'')]]
   | _ \<Rightarrow> False"
  by code_simp

lemma some_provision_Ok:
  obtains pa cl' c vm where "common_ProvisionStorage sample_library some_storage stored_workspace some_additions che_claims = (DwOk pa, cl')"
    "c \<in> set (pa_Containers pa @ pa_InitContainers pa)" "vm \<in> set (c_VolumeMounts c)" "vm_SubPath vm = ''workspace1/projects''"
proof -
  from some_provision obtain pa cl' where "common_ProvisionStorage sample_library some_storage stored_workspace some_additions che_claims = (DwOk pa, cl')"
    and m: "map (\<lambda>c. map (\<lambda>vm. (vm_Name vm, vm_SubPath vm)) (c_VolumeMounts c)) (pa_Containers pa @ pa_InitContainers pa) =
      [[(CheCommonPVCName, ''workspace1/projects'')]]"
    by (auto split: prod.splits dw_result.splits)
  moreover define cs where "cs = pa_Containers pa @ pa_InitContainers pa"
  moreover from m [folded cs_def] obtain c where cs: "cs = [c]" and c: "map (\<lambda>vm. (vm_Name vm, vm_SubPath vm)) (c_VolumeMounts c) = [(CheCommonPVCName, ''workspace1/projects'')]"
    by (cases cs) auto
  moreover from c obtain vm where "c_VolumeMounts c = [vm]" "vm_SubPath vm = ''workspace1/projects''"
    by (cases "c_VolumeMounts c") auto
  moreover from cs have "c \<in> set cs" by simp
  ultimately show thesis unfolding cs_def by (intro that [of pa cl' c vm]) simp_all
qed

lemma stored_needs: "WorkspaceNeedsStorage (wwc_Template stored_workspace)"
  by code_simp

theorem common_storage_mounts_resolve_witness:
  "\<exists>ovs. GetVolumesFromOverrides (lib_json sample_library) (wwc_Template stored_workspace) (restricted_fields stored_workspace) = Inr ovs"
  by (rule some_provision_Ok) (use common_storage_mounts_resolve [OF _ stored_needs] in blast)

theorem common_storage_isolated_witness:
  "\<exists>pa cl' c vm. common_ProvisionStorage sample_library some_storage stored_workspace some_additions che_claims = (DwOk pa, cl') \<and>
     c \<in> set (pa_Containers pa) \<union> set (pa_InitContainers pa) \<and> vm \<in> set (c_VolumeMounts c) \<and> hd (split_char (CHR ''/'') (vm_SubPath vm)) = ''workspace1''"
proof (rule some_provision_Ok)
  fix pa cl' c vm
  assume run: "common_ProvisionStorage sample_library some_storage stored_workspace some_additions che_claims = (DwOk pa, cl')"
    "c \<in> set (pa_Containers pa @ pa_InitContainers pa)" "vm \<in> set (c_VolumeMounts c)" "vm_SubPath vm = ''workspace1/projects''"
  then have "\<forall>c \<in> set (pa_Containers some_additions @ pa_InitContainers some_additions). vm \<notin> set (c_VolumeMounts c)"
    by (auto simp: some_additions_def plain_mount_def)
  moreover have i: "wwc_Id stored_workspace = ''workspace1''" by (simp add: stored_workspace_def)
  ultimately have "hd (split_char (CHR ''/'') (vm_SubPath vm)) = ''workspace1''"
    using common_storage_isolated [OF run(1) _ _ run(2,3)] by simp
  with run(1-3) show ?thesis by (metis Un_iff set_append)
qed

definition held_claim :: "int objects" where
  "held_claim = che_claims(pvc_key ''ns'' (wc_PVCName (wwc_Workspace stored_workspace)) \<mapsto>
     getPVCSpec (wc_PVCName (wwc_Workspace stored_workspace)) ''ns'' None 10 None)"

theorem shared_claim_kept_witness:
  "\<exists>job. getSpecCommonPVCCleanupJob some_storage stored_workspace held_claim = Inr job \<and>
     snd (common_CleanupWorkspaceStorage some_storage stored_workspace held_claim) (obj_key_of job) = Some job"
proof -
  have n: "getSharedPVCWorkspaceCount some_storage = Inr 1" by code_simp
  obtain r cl' where run: "common_CleanupWorkspaceStorage some_storage stored_workspace held_claim = (r, cl')" by fastforce
  have claim: "client_Get (se_api some_storage) (pvc_key (wwc_Namespace stored_workspace) (wc_PVCName (wwc_Workspace stored_workspace))) held_claim =
      Inr (getPVCSpec (wc_PVCName (wwc_Workspace stored_workspace)) ''ns'' None 10 None)" by code_simp
  have "\<not> isl (getSpecCommonPVCCleanupJob some_storage stored_workspace held_claim)" by code_simp
  then obtain job where job: "getSpecCommonPVCCleanupJob some_storage stored_workspace held_claim = Inr job"
    by (cases "getSpecCommonPVCCleanupJob some_storage stored_workspace held_claim") auto
  have "held_claim (obj_key_of job) = None"
    using job_key [OF job] by (cases "obj_key_of job") (auto simp: held_claim_def che_claims_def pvc_key_def)
  with shared_claim_kept [OF n _ run, of _ _ "getPVCSpec (wc_PVCName (wwc_Workspace stored_workspace)) ''ns'' None 10 None" job] claim job run
  show ?thesis by (simp add: some_storage_def plain_server_def)
qed

theorem no_volumes_zero_claim_witness: "getPVCSize sample_library stored_workspace None = DwOk 0"
proof -
  have "list_all (\<lambda>c. comp_Volume c = None) (ts_Components (wwc_Template stored_workspace))" by code_simp
  moreover have "AnyMountSources (ts_Components (wwc_Template stored_workspace))" by code_simp
  moreover have "Option.bind (wc_DefaultStorageSize (wwc_Workspace stored_workspace)) ss_PerWorkspace = Some 5" by code_simp
  ultimately show ?thesis using no_volumes_zero_claim by blast
qed

theorem alternate_claim_not_cleaned_witness:
  "common_CleanupWorkspaceStorage some_storage stored_workspace che_claims = (DwOk (), che_claims)"
proof (rule some_provision_Ok)
  fix pa cl' c vm
  assume run: "common_ProvisionStorage sample_library some_storage stored_workspace some_additions che_claims = (DwOk pa, cl')"
  have "checkForAlternatePVC some_storage (wwc_Namespace stored_workspace) che_claims = Inr (True, CheCommonPVCName)" by code_simp
  moreover have "CheCommonPVCName \<noteq> []" by code_simp
  moreover have "getSharedPVCWorkspaceCount some_storage = Inr 1" by code_simp
  moreover have "commonPVCExists some_storage stored_workspace che_claims = Inr False" by code_simp
  ultimately show ?thesis using alternate_claim_not_cleaned [OF run stored_needs] by simp
qed

end
