(* ===== verification/Deployment_Ready.thy ===== *)
theory Deployment_Ready
  imports Workspace_Deployment Routing_Ready Storage_Mounts
begin

text \<open>
  What the deployment of a workspace guarantees: the additions of all parts are merged without losing or duplicating anything, the pod
  carries the identity of the workspace whatever the overrides say, the deployment is reported ready only in the listed cases, the
  endpoints handed to the routing controller are complete, and a failed hook is reported with the line that its script printed. Some theorems show
  where the code falls short: a deployment that is reported ready because its pods cannot be listed, and inputs that panic.
\<close>

section \<open>Merged additions\<close>

lemma add_unique_iff: "distinct (map name acc) \<Longrightarrow> add_unique what name acc xs = Inr ys \<longleftrightarrow> distinct (map name (acc @ xs)) \<and> ys = acc @ xs"
  by (induction xs arbitrary: acc) auto

lemma add_unique_distinct: "distinct (map name acc) \<Longrightarrow> add_unique what name acc xs = Inr ys \<Longrightarrow> distinct (map name ys)"
  by (simp add: add_unique_iff)

definition first_occurrences :: "'a list \<Rightarrow> 'a list" where
  "first_occurrences xs = rev (remdups (rev xs))"

lemma first_occurrences_snoc: "first_occurrences (xs @ [x]) = (if x \<in> set xs then first_occurrences xs else first_occurrences xs @ [x])"
  by (simp add: first_occurrences_def)

lemma set_first_occurrences [simp]: "set (first_occurrences xs) = set xs"
  by (simp add: first_occurrences_def)

lemma add_new_first: "add_new (first_occurrences xs) ys = first_occurrences (xs @ ys)"
proof (induction ys arbitrary: xs)
  case (Cons y ys)
  show ?case using Cons.IH [of "xs @ [y]"] by (cases "y \<in> set xs") (simp_all add: first_occurrences_snoc)
qed simp

text \<open>The reference: everything of every part, in order, entries of later parts winning.\<close>

definition merged :: "'q PodAdditions list \<Rightarrow> 'q PodAdditions" where
  "merged adds = empty_pod_additions\<lparr>
     pa_Annotations := foldl put_entries None (map pa_Annotations adds), pa_Labels := foldl put_entries None (map pa_Labels adds),
     pa_Containers := concat (map pa_Containers adds), pa_InitContainers := concat (map pa_InitContainers adds),
     pa_Volumes := concat (map pa_Volumes adds), pa_VolumeMounts := concat (map pa_VolumeMounts adds),
     pa_PullSecrets := first_occurrences (concat (map pa_PullSecrets adds))\<rparr>"

definition names_distinct :: "'q PodAdditions \<Rightarrow> bool" where
  "names_distinct pa \<longleftrightarrow> distinct (map c_Name (pa_Containers pa)) \<and> distinct (map c_Name (pa_InitContainers pa)) \<and>
     distinct (map v_Name (pa_Volumes pa)) \<and> distinct (map vm_Name (pa_VolumeMounts pa))"

lemma merged_snoc: "merged (adds @ [a]) = (merged adds)\<lparr>
  pa_Annotations := put_entries (pa_Annotations (merged adds)) (pa_Annotations a), pa_Labels := put_entries (pa_Labels (merged adds)) (pa_Labels a),
  pa_Containers := pa_Containers (merged adds) @ pa_Containers a, pa_InitContainers := pa_InitContainers (merged adds) @ pa_InitContainers a,
  pa_Volumes := pa_Volumes (merged adds) @ pa_Volumes a, pa_VolumeMounts := pa_VolumeMounts (merged adds) @ pa_VolumeMounts a,
  pa_PullSecrets := add_new (pa_PullSecrets (merged adds)) (pa_PullSecrets a)\<rparr>"
  by (simp add: merged_def add_new_first)

lemma names_distinct_snoc: "names_distinct (merged (adds @ [a])) \<longleftrightarrow>
  distinct (map c_Name (pa_Containers (merged adds) @ pa_Containers a)) \<and> distinct (map c_Name (pa_InitContainers (merged adds) @ pa_InitContainers a)) \<and>
  distinct (map v_Name (pa_Volumes (merged adds) @ pa_Volumes a)) \<and> distinct (map vm_Name (pa_VolumeMounts (merged adds) @ pa_VolumeMounts a))"
  by (simp add: names_distinct_def merged_snoc)

lemma merge_additions_iff:
  assumes "names_distinct (merged adds)"
  shows "merge_additions (merged adds) a = Inr pa \<longleftrightarrow> names_distinct (merged (adds @ [a])) \<and> pa = merged (adds @ [a])"
proof -
  let ?m = "merged adds"
  have d: "distinct (map c_Name (pa_Containers ?m))" "distinct (map c_Name (pa_InitContainers ?m))" "distinct (map v_Name (pa_Volumes ?m))"
    "distinct (map vm_Name (pa_VolumeMounts ?m))"
    using assms by (simp_all add: names_distinct_def)
  note iffs = add_unique_iff [OF d(1)] add_unique_iff [OF d(2)] add_unique_iff [OF d(3)] add_unique_iff [OF d(4)]
  show ?thesis
  proof
    assume "merge_additions ?m a = Inr pa"
    then show "names_distinct (merged (adds @ [a])) \<and> pa = merged (adds @ [a])"
      unfolding names_distinct_snoc unfolding merged_snoc merge_additions_def by (auto simp only: iffs sum.inject sum.distinct split: sum.splits)
  next
    assume "names_distinct (merged (adds @ [a])) \<and> pa = merged (adds @ [a])"
    then have n: "names_distinct (merged (adds @ [a]))" "pa = merged (adds @ [a])" by simp_all
    from n(1) have u: "add_unique w1 c_Name (pa_Containers ?m) (pa_Containers a) = Inr (pa_Containers ?m @ pa_Containers a)"
      "add_unique w2 c_Name (pa_InitContainers ?m) (pa_InitContainers a) = Inr (pa_InitContainers ?m @ pa_InitContainers a)"
      "add_unique w3 v_Name (pa_Volumes ?m) (pa_Volumes a) = Inr (pa_Volumes ?m @ pa_Volumes a)"
      "add_unique w4 vm_Name (pa_VolumeMounts ?m) (pa_VolumeMounts a) = Inr (pa_VolumeMounts ?m @ pa_VolumeMounts a)" for w1 w2 w3 w4
      unfolding names_distinct_snoc iffs by simp_all
    show "merge_additions ?m a = Inr pa" unfolding merge_additions_def u n(2) merged_snoc by simp
  qed
qed

lemma names_distinct_prefix: "names_distinct (merged (xs @ ys)) \<Longrightarrow> names_distinct (merged xs)"
  by (simp add: names_distinct_def merged_def)

lemma merge_all_iff:
  "names_distinct (merged adds) \<Longrightarrow>
   merge_all (merged adds) rest = Inr pa \<longleftrightarrow> names_distinct (merged (adds @ rest)) \<and> pa = merged (adds @ rest)"
proof (induction rest arbitrary: adds)
  case Nil
  then show ?case by auto
next
  case (Cons a rest)
  have *: "names_distinct (merged (adds @ [a]))" if "names_distinct (merged (adds @ a # rest))"
    using that names_distinct_prefix [of "adds @ [a]" rest] by simp
  show ?case
  proof (cases "names_distinct (merged (adds @ [a]))")
    case True
    then have "merge_additions (merged adds) a = Inr (merged (adds @ [a]))" using merge_additions_iff [OF Cons.prems] by simp
    with Cons.IH [OF True] show ?thesis by simp
  next
    case False
    then have "merge_additions (merged adds) a \<noteq> Inr x" for x using merge_additions_iff [OF Cons.prems] by simp
    with False * show ?thesis by (cases "merge_additions (merged adds) a") auto
  qed
qed

text \<open>The additions of the parts of a workspace are merged exactly if no two containers, init containers, volumes or mounts share a name,
  and then nothing is lost: the result has all of them in order, every pull secret once, and the annotations and labels of all parts.
  The annotations for the service account are left out.\<close>

theorem mergePodAdditions_iff: "mergePodAdditions adds = Inr pa \<longleftrightarrow> names_distinct (merged adds) \<and> pa = merged adds"
proof -
  have e: "merged [] = empty_pod_additions" by (simp add: merged_def empty_pod_additions_def first_occurrences_def)
  have "names_distinct (merged [])" by (simp add: merged_def names_distinct_def)
  from merge_all_iff [OF this, of adds pa] show ?thesis by (simp add: mergePodAdditions_def e)
qed

section \<open>The identity of the pod\<close>

lemma SetController_Inr: "SetControllerReference env w obj = Inr obj' \<Longrightarrow> obj' = obj\<lparr>o_OwnerReferences := upsert_owner (owner_of w) (o_OwnerReferences obj)\<rparr>"
  by (simp add: SetControllerReference_def split: option.splits)

lemma overridden_template:
  assumes "overridden env w d = Inr d'"
  shows "\<exists>t. d' = d\<lparr>d_Template := t\<rparr> \<and> p_Containers (pt_Spec t) = p_Containers (pt_Spec (d_Template d)) \<and>
    p_InitContainers (pt_Spec t) = p_InitContainers (pt_Spec (d_Template d))"
proof (cases "NeedsPodOverrides (wwc_Template w)")
  case True
  with assms show ?thesis by (auto simp: overridden_def ApplyPodOverrides_def Let_def split: sum.splits)
next
  case False
  with assms show ?thesis by (auto simp: overridden_def intro!: exI [of _ "d_Template d"])
qed

lemma finish_deployment_Ok:
  assumes "finish_deployment env w annotations pvc tolerations selector d = Ok obj"
  obtains creator spec template where
    "pvc_workaround (wwc_Id w) pvc (set_runtime_class (de_lib env) (wwc_Template w) (schedule_on tolerations selector (pt_Spec (d_Template d)))) = Ok spec"
    "go_get (wwc_Labels w) DevWorkspaceCreatorLabel = Some creator"
    "label_creator creator ((d_Template d)\<lparr>pt_Spec := spec\<rparr>) = Ok template"
    "obj = (deployment_object w annotations creator (d\<lparr>d_Template := template\<rparr>))\<lparr>o_OwnerReferences := [owner_of w]\<rparr>"
proof -
  from assms obtain spec creator template where
    "pvc_workaround (wwc_Id w) pvc (set_runtime_class (de_lib env) (wwc_Template w) (schedule_on tolerations selector (pt_Spec (d_Template d)))) = Ok spec"
    "go_get (wwc_Labels w) DevWorkspaceCreatorLabel = Some creator"
    "label_creator creator ((d_Template d)\<lparr>pt_Spec := spec\<rparr>) = Ok template"
    "SetControllerReference (de_storage env) w (deployment_object w annotations creator (d\<lparr>d_Template := template\<rparr>)) = Inr obj"
    by (auto simp: finish_deployment_def go_bind_Ok_iff of_sum_Ok_iff split: option.splits)
  with SetController_Inr [OF this(4)] show thesis by (auto intro!: that simp: deployment_object_def Let_def)
qed

lemma label_creator_Ok:
  "label_creator creator t = Ok t' \<Longrightarrow> go_get (pt_Labels t') DevWorkspaceCreatorLabel = Some creator \<and> pt_Spec t' = pt_Spec t \<and> pt_Annotations t' = pt_Annotations t"
  by (auto simp: label_creator_def go_get_put split: option.splits)

text \<open>(C26) Whatever the overrides of the devfile are, the deployment and its pod carry the creator of the workspace and its restricted-access
  annotation, by which the webhooks decide who may enter; the deployment selects the pods of the workspace and is controlled by it.\<close>

theorem deployment_identity:
  assumes "getSpecDeployment env w additions saName tolerations selector = Ok obj"
  shows "\<exists>creator d. go_get (wwc_Labels w) DevWorkspaceCreatorLabel = Some creator \<and> o_Content obj = DeploymentContent d \<and>
    obj_key_of obj = deployment_key w \<and> o_OwnerReferences obj = [owner_of w] \<and> d_Selector d = Some [(DevWorkspaceIDLabel, wwc_Id w)] \<and>
    go_get (o_Labels obj) DevWorkspaceIDLabel = Some (wwc_Id w) \<and>
    go_get (o_Labels obj) DevWorkspaceCreatorLabel = Some creator \<and> go_get (pt_Labels (d_Template d)) DevWorkspaceCreatorLabel = Some creator \<and>
    (case go_get (wwc_Annotations w) DevWorkspaceRestrictedAccessAnnotation of
       None \<Rightarrow> True
     | Some v \<Rightarrow> go_get (o_Annotations obj) DevWorkspaceRestrictedAccessAnnotation = Some v \<and>
         go_get (pt_Annotations (d_Template d)) DevWorkspaceRestrictedAccessAnnotation = Some v)"
proof -
  from assms obtain pa annotations deadline d where d: "overridden env w (base_deployment w pa saName deadline) = Inr d"
    and f: "finish_deployment env w annotations (needsPVCWorkaround pa (wc_PVCName (wwc_Workspace w))) tolerations selector d = Ok obj"
    by (auto simp: getSpecDeployment_def go_bind_Ok_iff of_sum_Ok_iff)
  from overridden_template [OF d] have "d_Selector d = Some [(DevWorkspaceIDLabel, wwc_Id w)]" by (auto simp: base_deployment_def)
  moreover from f obtain creator spec template where c: "go_get (wwc_Labels w) DevWorkspaceCreatorLabel = Some creator"
    and l: "label_creator creator ((d_Template d)\<lparr>pt_Spec := spec\<rparr>) = Ok template"
    and o: "obj = (deployment_object w annotations creator (d\<lparr>d_Template := template\<rparr>))\<lparr>o_OwnerReferences := [owner_of w]\<rparr>"
    by (rule finish_deployment_Ok)
  ultimately show ?thesis
    using label_creator_Ok [OF l] unfolding o deployment_object_def Let_def
    by (auto simp: obj_key_of_def deployment_key_def go_get_Some metadata_keys split: option.splits)
qed

section \<open>Panics\<close>

lemma pvc_workaround_Panic:
  "pvc_workaround i pvc spec = Panic \<longleftrightarrow> pvc \<noteq> None \<and> pod_list (p_InitContainers spec) = [] \<and> pod_list (p_Containers spec) = []"
  by (auto simp: pvc_workaround_def Let_def split: option.splits list.splits)

lemma pvc_workaround_not_Err: "pvc_workaround i pvc spec \<noteq> Err e"
  by (auto simp: pvc_workaround_def Let_def split: option.splits list.splits)

lemma scheduling_keeps_containers:
  "p_InitContainers (set_runtime_class L t (schedule_on tolerations selector spec)) = p_InitContainers spec"
  "p_Containers (set_runtime_class L t (schedule_on tolerations selector spec)) = p_Containers spec"
  by (auto simp: set_runtime_class_def schedule_on_def Let_def split: sum.splits)

lemma finish_deployment_Panic:
  "finish_deployment env w annotations pvc tolerations selector d = Panic \<longleftrightarrow>
     pvc \<noteq> None \<and> pod_list (p_InitContainers (pt_Spec (d_Template d))) = [] \<and> pod_list (p_Containers (pt_Spec (d_Template d))) = [] \<or>
     go_get (wwc_Labels w) DevWorkspaceCreatorLabel \<noteq> None \<and> pt_Labels (d_Template d) = None"
proof -
  let ?run = "pvc_workaround (wwc_Id w) pvc (set_runtime_class (de_lib env) (wwc_Template w) (schedule_on tolerations selector (pt_Spec (d_Template d))))"
  have run: "?run = Panic \<longleftrightarrow>
    pvc \<noteq> None \<and> pod_list (p_InitContainers (pt_Spec (d_Template d))) = [] \<and> pod_list (p_Containers (pt_Spec (d_Template d))) = []"
    by (simp add: pvc_workaround_Panic scheduling_keeps_containers)
  show ?thesis
  proof (cases ?run)
    case (Ok spec)
    then have "\<not> (pvc \<noteq> None \<and> pod_list (p_InitContainers (pt_Spec (d_Template d))) = [] \<and> pod_list (p_Containers (pt_Spec (d_Template d))) = [])"
      using run by simp
    moreover have "finish_deployment env w annotations pvc tolerations selector d = Panic \<longleftrightarrow>
      go_get (wwc_Labels w) DevWorkspaceCreatorLabel \<noteq> None \<and> pt_Labels (d_Template d) = None"
      by (cases "go_get (wwc_Labels w) DevWorkspaceCreatorLabel"; cases "pt_Labels (d_Template d)")
        (simp_all add: finish_deployment_def label_creator_def Ok)
    ultimately show ?thesis by blast
  next
    case (Err e)
    then show ?thesis by (simp add: pvc_workaround_not_Err)
  next
    case Panic
    then show ?thesis using run by (simp add: finish_deployment_def)
  qed
qed

lemma pod_list_nil_list [simp]: "pod_list (nil_list xs) = xs"
  by (simp add: nil_list_def)

text \<open>Building the deployment panics in exactly two cases: the pod mounts the common claim but has no container to mount it in, although
  a workspace without containers is meant to be accepted; or the overrides of the devfile remove the labels of the pod (\<open>labels: null\<close>),
  into whose nil map the creator is then stored.\<close>

theorem spec_deployment_panics_iff:
  assumes "mergePodAdditions additions = Inr pa" "getAdditionalDeploymentAnnotations (wwc_Template w) = Inr annotations"
    "getProgressDeadlineSeconds env (wc_ProgressTimeout (wwc_Workspace w)) = Inr deadline"
    "overridden env w (base_deployment w pa saName deadline) = Inr d"
  shows "getSpecDeployment env w additions saName tolerations selector = Panic \<longleftrightarrow>
    needsPVCWorkaround pa (wc_PVCName (wwc_Workspace w)) \<noteq> None \<and> pa_InitContainers pa = [] \<and> pa_Containers pa = [] \<or>
    go_get (wwc_Labels w) DevWorkspaceCreatorLabel \<noteq> None \<and> pt_Labels (d_Template d) = None"
proof -
  from overridden_template [OF assms(4)]
  have "pod_list (p_InitContainers (pt_Spec (d_Template d))) = [] \<longleftrightarrow> pa_InitContainers pa = []"
    "pod_list (p_Containers (pt_Spec (d_Template d))) = [] \<longleftrightarrow> pa_Containers pa = []"
    by (auto simp: base_deployment_def workspace_template_def)
  with assms show ?thesis by (simp add: getSpecDeployment_def finish_deployment_Panic)
qed

section \<open>Readiness\<close>

lemma check_deployment_Ok:
  "check_deployment env w d = DwOk () \<longleftrightarrow>
     CheckDeploymentStatus d (wc_DeploymentStrategy (wwc_Workspace w)) \<or>
     CheckDeploymentConditions d = None \<and>
       (\<exists>e. CheckPodsState (de_pods env) (wwc_Id w) (case_option [] (\<lambda>xs. xs) (wc_IgnoredUnrecoverableEvents (wwc_Workspace w))) = Inl e)"
  by (auto simp: check_deployment_def split: option.splits sum.splits)

text \<open>(C27) When the deployment of a workspace with containers is reported ready, the wanted deployment is on the cluster with its metadata
  and either its replicas are ready, or --- the error of the check is dropped --- the pods could not be checked.\<close>

theorem deployment_ready_cases:
  assumes "SyncDeploymentToCluster env w additions saName cl = (DwOk (), cl')"
  shows "cl' = cl \<and> (\<exists>tolerations selector spec. GetNamespacePodTolerationsAndNodeSelector (de_storage env) = Inr (tolerations, selector) \<and>
    getSpecDeployment env w additions saName tolerations selector = Ok spec \<and>
    (pod_list (p_Containers (pt_Spec (d_Template (deployment_in (o_Content spec))))) = [] \<or>
     (\<exists>obj. in_place cl spec obj \<and>
       (CheckDeploymentStatus (deployment_in (o_Content obj)) (wc_DeploymentStrategy (wwc_Workspace w)) \<or>
        CheckDeploymentConditions (deployment_in (o_Content obj)) = None \<and>
        (\<exists>e. CheckPodsState (de_pods env) (wwc_Id w) (case_option [] (\<lambda>xs. xs) (wc_IgnoredUnrecoverableEvents (wwc_Workspace w))) = Inl e)))))"
proof -
  from assms obtain tolerations selector spec where
    n: "GetNamespacePodTolerationsAndNodeSelector (de_storage env) = Inr (tolerations, selector)" and
    s: "getSpecDeployment env w additions saName tolerations selector = Ok spec"
    by (auto simp: SyncDeploymentToCluster_def split: sum.splits go_result.splits)
  show ?thesis
  proof (cases "pod_list (p_Containers (pt_Spec (d_Template (deployment_in (o_Content spec))))) = []")
    case True
    with assms n s show ?thesis by (auto simp: SyncDeploymentToCluster_def)
  next
    case False
    with assms n s obtain obj where o: "SyncObjectWithCluster (de_api env) spec cl = (Inr obj, cl')"
      and c: "check_deployment env w (deployment_in (o_Content obj)) = DwOk ()"
      by (auto simp: SyncDeploymentToCluster_def split: prod.splits sum.splits)
    from SyncObject_Inr [OF o] have "cl' = cl" "in_place cl spec obj" by (auto simp: in_place_def)
    with n s c show ?thesis unfolding check_deployment_Ok by blast
  qed
qed

section \<open>The progress deadline\<close>

text \<open>Where the conversion truncates numbers that fit, the deadline of a deployment is the progress timeout in whole seconds and
  within 32 bits; timeouts that do not fit are refused.\<close>

theorem progress_deadline_bounds:
  assumes "\<And>x. 0 \<le> x \<Longrightarrow> x < 2147483648 \<Longrightarrow> de_int32 env x = \<lfloor>x\<rfloor>" "de_Seconds env timeout = Inr seconds" "0 \<le> seconds"
  shows "case getProgressDeadlineSeconds env timeout of
      Inl _ \<Rightarrow> seconds > 2147483647
    | Inr n \<Rightarrow> 0 \<le> n \<and> n < 2 ^ 31 \<and> of_int n \<le> seconds \<and> seconds < of_int n + 1"
proof (cases "seconds > 2147483647")
  case False
  then have "de_int32 env seconds = \<lfloor>seconds\<rfloor>" using assms by simp
  moreover from False have "\<lfloor>seconds\<rfloor> < 2147483648" by (simp add: floor_less_iff)
  ultimately show ?thesis using False assms by (simp add: getProgressDeadlineSeconds_def) linarith
qed (simp add: getProgressDeadlineSeconds_def assms)

section \<open>Endpoints for the routing controller\<close>

definition container_endpoints :: "string \<Rightarrow> DevfileComponent list \<Rightarrow> RoutingEndpoint list" where
  "container_endpoints name components =
     concat [ConvertAllDevfileEndpoints (case comp_Container c of None \<Rightarrow> [] | Some cc \<Rightarrow> cc_Endpoints cc). c \<leftarrow> components, comp_Name c = name]"

abbreviation endpoints_of :: "endpoints \<Rightarrow> string \<Rightarrow> RoutingEndpoint list" where
  "endpoints_of es name \<equiv> case_option [] (\<lambda>xs. xs) (map_of es name)"

lemma Convert_Nil [simp]: "ConvertAllDevfileEndpoints [] = []"
  by (simp add: ConvertAllDevfileEndpoints_def)

lemma collect_endpoints_of:
  "endpoints_of (collect_endpoints es components) name = endpoints_of es name @ container_endpoints name components"
proof (induction components arbitrary: es)
  case (Cons c cs)
  show ?case
  proof (cases "comp_Container c")
    case (Some cc)
    then show ?thesis
      by (auto simp: Cons.IH container_endpoints_def update_conv' split: option.splits)
  qed (simp add: Cons.IH container_endpoints_def)
qed (simp add: container_endpoints_def)

lemma collect_endpoints_distinct: "distinct (map fst es) \<Longrightarrow> distinct (map fst (collect_endpoints es components))"
  by (induction es components rule: collect_endpoints.induct) (auto simp: distinct_update split: option.splits)

lemma started_not_copied: "after (cls @ RoutingAnnotationInfix) DevWorkspaceStartedStatusAnnotation = None"
proof (rule ccontr)
  let ?key = DevWorkspaceStartedStatusAnnotation
  assume "\<not> ?thesis"
  then have "take (length (cls @ RoutingAnnotationInfix)) ?key = cls @ RoutingAnnotationInfix" by (auto simp: after_def split: if_splits)
  then have "set RoutingAnnotationInfix \<subseteq> set ?key" using set_take_subset by (metis Un_subset_iff set_append)
  moreover have "CHR ''u'' \<in> set RoutingAnnotationInfix" "CHR ''u'' \<notin> set ?key" by (simp_all add: RoutingAnnotationInfix_def metadata_keys)
  ultimately show False by blast
qed

lemma copy_keeps_started:
  assumes "go_get m DevWorkspaceStartedStatusAnnotation = Some v"
  shows "go_get (foldl (\<lambda>m (k, v). if after (cls @ RoutingAnnotationInfix) k \<noteq> None then map_Append m k v else m) m kvs) DevWorkspaceStartedStatusAnnotation = Some v"
  using assms by (induction kvs arbitrary: m) (auto simp: started_not_copied)

text \<open>The routing object of a workspace has all endpoints of its containers, each machine once, converted and in order; it is marked as started
  whatever annotations the workspace has, so the routing controller does not take it for stopped; and it has the class of the workspace, or the default.\<close>

theorem spec_routing_complete:
  assumes "getSpecRouting env w = Ok obj"
  shows "\<exists>r. o_Content obj = RoutingContent r \<and> rg_DevWorkspaceId r = wwc_Id w \<and> routing_class w = Some (rg_RoutingClass r) \<and>
    endpoints_of (rg_Endpoints r) = (\<lambda>name. container_endpoints name (ts_Components (wwc_Template w))) \<and> distinct (map fst (rg_Endpoints r)) \<and>
    go_get (o_Annotations obj) DevWorkspaceStartedStatusAnnotation = Some ''true'' \<and> o_OwnerReferences obj = [owner_of w]"
proof -
  from assms obtain cls where "routing_class w = Some cls" "SetControllerReference env w
          \<lparr>o_Name = DevWorkspaceRoutingName (wwc_Id w), o_Namespace = wwc_Namespace w, o_Labels = Some [(DevWorkspaceIDLabel, wwc_Id w)],
           o_Annotations = routing_annotations w, o_OwnerReferences = [], o_UID = [], o_ResourceVersion = [], o_Terminating = False, o_Finalizers = [],
           o_Content = RoutingContent
             \<lparr>rg_Finalizers = [], rg_DevWorkspaceId = wwc_Id w, rg_RoutingClass = cls,
              rg_Endpoints = collect_endpoints [] (ts_Components (wwc_Template w)), rg_PodSelector = Some [(DevWorkspaceIDLabel, wwc_Id w)],
              rg_PodAdditions = None, rg_ExposedEndpoints = None, rg_Phase = NoRoutingPhase, rg_Message = []\<rparr>\<rparr> = Inr obj"
    by (auto simp: getSpecRouting_def of_sum_Ok_iff split: option.splits)
  moreover have "go_get (routing_annotations w) DevWorkspaceStartedStatusAnnotation = Some ''true''"
    unfolding routing_annotations_def Let_def by (rule copy_keeps_started) simp
  ultimately show ?thesis
    using SetController_Inr by (fastforce simp: collect_endpoints_of collect_endpoints_distinct fun_eq_iff)
qed

section \<open>Pods\<close>

lemma check_statuses_empty: "check_statuses what ignored statuses = [] \<longleftrightarrow> list_all (\<lambda>s. fst (CheckContainerStatusForFailure s ignored)) statuses"
  by (induction statuses) (auto split: prod.splits bool.splits)

lemma event_failure_not_empty: "event_failure env i ignored ev \<noteq> Some []"
  by (auto simp: event_failure_def Let_def split: option.splits if_splits)

lemma first_failure_empty:
  "(case List.map_filter (event_failure env i ignored) evs of [] \<Rightarrow> [] | msg # _ \<Rightarrow> msg) = [] \<longleftrightarrow>
   list_all (\<lambda>ev. event_failure env i ignored ev = None) evs"
proof (induction evs)
  case (Cons ev evs)
  show ?case
  proof (cases "event_failure env i ignored ev")
    case None
    with Cons show ?thesis by (simp add: List.map_filter_def)
  next
    case (Some msg)
    then show ?thesis using event_failure_not_empty [of env i ignored ev] by (simp add: List.map_filter_def)
  qed
qed (simp add: List.map_filter_def)

text \<open>A pod without a failed container, whose events are known and harmless.\<close>

definition pod_fine :: "pods_env \<Rightarrow> string \<Rightarrow> string list \<Rightarrow> PodStatus \<Rightarrow> bool" where
  "pod_fine env i ignored pod \<longleftrightarrow>
     list_all (\<lambda>s. fst (CheckContainerStatusForFailure s ignored)) (ps_ContainerStatuses pod @ ps_InitContainerStatuses pod) \<and>
     pe_selector env (ps_Name pod) = None \<and>
     (case pe_events env pod of Inl _ \<Rightarrow> False | Inr evs \<Rightarrow> list_all (\<lambda>ev. event_failure env i ignored ev = None) evs)"

lemma check_pod_empty: "check_pod env i ignored pod = Inr [] \<longleftrightarrow> pod_fine env i ignored pod"
proof -
  have "CheckPodEvents env pod i ignored = Inr [] \<longleftrightarrow> pe_selector env (ps_Name pod) = None \<and>
     (case pe_events env pod of Inl _ \<Rightarrow> False | Inr evs \<Rightarrow> list_all (\<lambda>ev. event_failure env i ignored ev = None) evs)"
    by (auto simp: CheckPodEvents_def first_failure_empty split: option.splits sum.splits)
  then show ?thesis by (auto simp: check_pod_def pod_fine_def Let_def check_statuses_empty)
qed

lemma check_pods_empty: "check_pods env i ignored pods = Inr [] \<longleftrightarrow> list_all (pod_fine env i ignored) pods"
proof (induction pods)
  case (Cons pod pods)
  show ?case
    using check_pod_empty [of env i ignored pod] Cons by (auto split: sum.splits list.splits)
qed simp

text \<open>The pods of a workspace are reported healthy exactly if they can be listed and each of them is fine; and no failure is ignored that
  the configuration does not name: with nothing ignored, a container that waits in a crash loop, or an event such as a failed schedule, always fails the workspace.\<close>

theorem pods_healthy_iff:
  "CheckPodsState env i ignored = Inr [] \<longleftrightarrow> (\<exists>pods. pe_pods env = Inr pods \<and> list_all (pod_fine env i ignored) pods)"
  by (auto simp: CheckPodsState_def check_pods_empty split: sum.splits)

section \<open>Failed hooks\<close>

lemma find_match_skip: "(\<And>c s. c \<in> set a \<Longrightarrow> m (c # s) = None) \<Longrightarrow> find_match m (a @ s) = find_match m s"
  by (induction a) auto

lemma find_match_None: "(\<And>c s. c \<in> set a \<Longrightarrow> m (c # s) = None) \<Longrightarrow> m [] = None \<Longrightarrow> find_match m a = None"
  using find_match_skip [of a m "[]"] by simp

lemma find_match_here: "m s = Some x \<Longrightarrow> find_match m s = Some x"
  by (cases s) simp_all

lemma after_append [simp]: "after p (p @ s) = Some s"
  by (simp add: after_def)

lemma takeWhile_run: "(\<And>x. x \<in> set run \<Longrightarrow> P x) \<Longrightarrow> (s = [] \<or> \<not> P (hd s)) \<Longrightarrow> takeWhile P (run @ s) = run"
  by (cases s) (simp_all add: takeWhile_tail)

lemma duration_match_here:
  assumes "CHR '')'' \<notin> set run" "2 \<le> length run" "is_digit (hd run)" "behind \<noteq> []" "hd behind = CHR '')''"
  shows "duration_match before behind (before @ run @ behind @ s) = Some (before @ run @ behind)"
proof -
  have "takeWhile (\<lambda>c. c \<noteq> CHR '')'') (run @ behind @ s) = run" using assms by (intro takeWhile_run) auto
  then show ?thesis using assms by (simp add: duration_match_def)
qed

lemma digits_match_here:
  assumes "list_all is_digit run" "run \<noteq> []" "behind \<noteq> []" "\<not> is_digit (hd behind)"
  shows "digits_match before behind (before @ run @ behind @ s) = Some run"
proof -
  have "takeWhile is_digit (run @ behind @ s) = run" using assms by (intro takeWhile_run) (auto simp: list_all_iff)
  then show ?thesis using assms by (simp add: digits_match_def)
qed

text \<open>What the script of a hook prints for an exit code, with the durations of the timeout and of the kill.\<close>

definition hook_line :: "nat \<Rightarrow> nat \<Rightarrow> nat \<Rightarrow> string" where
  "hook_line exitCode timeout kill =
     (if exitCode = 143 then sigterm_before @ (format_nat timeout @ ''s'') @ ''). Exit code 143.''
      else if exitCode = 137 then sigkill_before @ (format_nat kill @ ''s expired'') @ ''). Exit code 137.''
      else exit_code_before @ format_nat exitCode @ ''.'')"

lemma format_nat_is_digit: "list_all is_digit (format_nat n)"
proof -
  have "list_all (\<lambda>d. is_digit (digit_char d)) [0..<10]" by code_simp
  then show ?thesis by (auto simp: list_all_iff dest!: format_nat_digits)
qed

lemma no_bracket:
  assumes "CHR ''['' \<notin> set s" "before \<noteq> []" "hd before = CHR ''[''"
  shows "find_match (duration_match before behind) s = None" "find_match (\<lambda>s. map_option f (digits_match before behind s)) s = None"
proof -
  have "after before (c # t) = None" if "c \<in> set s" for c t
    using assms that by (cases before) (auto simp: after_def)
  moreover have "after before [] = None" using assms by (simp add: after_def)
  ultimately show "find_match (duration_match before behind) s = None" "find_match (\<lambda>s. map_option f (digits_match before behind s)) s = None"
    by (auto intro!: find_match_None simp: duration_match_def digits_match_def)
qed

lemma skip_text:
  assumes "CHR ''['' \<notin> set a" "before \<noteq> []" "hd before = CHR ''[''"
  shows "find_match (duration_match before behind) (a @ s) = find_match (duration_match before behind) s"
    "find_match (\<lambda>s. map_option f (digits_match before behind s)) (a @ s) = find_match (\<lambda>s. map_option f (digits_match before behind s)) s"
proof -
  have "after before (c # t) = None" if "c \<in> set a" for c t
    using assms that by (cases before) (auto simp: after_def)
  then show "find_match (duration_match before behind) (a @ s) = find_match (duration_match before behind) s"
    "find_match (\<lambda>s. map_option f (digits_match before behind s)) (a @ s) = find_match (\<lambda>s. map_option f (digits_match before behind s)) s"
    by (auto intro!: find_match_skip simp: duration_match_def digits_match_def)
qed

lemma format_nat_hd: "is_digit (hd (format_nat n @ s))" "CHR '')'' \<notin> set (format_nat n)" "CHR ''['' \<notin> set (format_nat n)"
proof -
  note d = format_nat_is_digit [of n, unfolded list_all_iff]
  show "is_digit (hd (format_nat n @ s))" using d by (cases "format_nat n") auto
  have "\<not> is_digit (CHR '')'')" "\<not> is_digit (CHR ''['')" by (simp_all add: is_digit_def)
  then show "CHR '')'' \<notin> set (format_nat n)" "CHR ''['' \<notin> set (format_nat n)" using d by auto
qed

lemma duration_line:
  assumes "CHR '')'' \<notin> set s" "s \<noteq> []" "behind \<noteq> []" "hd behind = CHR '')''"
  shows "duration_match before behind (before @ format_nat n @ s @ behind @ b) = Some (before @ format_nat n @ s @ behind)"
proof -
  obtain c cs where "format_nat n = c # cs" by (cases "format_nat n") auto
  then have "2 \<le> length (format_nat n @ s)" using assms(2) by (cases s) simp_all
  from duration_match_here [OF _ this format_nat_hd(1) assms(3,4), of before b] show ?thesis using assms(1) format_nat_hd(2) by simp
qed

lemma other_line:
  assumes "i < length before" "i < length other" "before ! i \<noteq> other ! i" "CHR ''['' \<notin> set (tl other)" "CHR ''['' \<notin> set t" "hd before = CHR ''[''"
  shows "find_match (duration_match before behind) (other @ t) = None"
proof -
  obtain c cs where other: "other = c # cs" using assms(2) by (cases other) auto
  have "take (length before) (other @ t) \<noteq> before"
  proof
    assume "take (length before) (other @ t) = before"
    then have "before ! i = (other @ t) ! i" using assms(1) by (metis nth_take)
    then show False using assms(2,3) by (simp add: nth_append)
  qed
  then have "duration_match before behind (other @ t) = None" by (simp add: duration_match_def after_def)
  moreover have "find_match (duration_match before behind) (cs @ t) = None" using assms other by (intro no_bracket(1)) auto
  ultimately show ?thesis by (simp add: other)
qed

lemmas hook_texts = sigterm_before_def sigkill_before_def exit_code_before_def

lemma script_output_line:
  assumes "CHR ''['' \<notin> set a" "CHR ''['' \<notin> set b"
  shows "script_output (a @ hook_line exitCode timeout kill @ b) = Some (hook_line exitCode timeout kill)"
proof -
  have h: "sigterm_before \<noteq> []" "hd sigterm_before = CHR ''[''" "sigkill_before \<noteq> []" "hd sigkill_before = CHR ''[''"
    "exit_code_before \<noteq> []" "hd exit_code_before = CHR ''[''" by (simp_all add: hook_texts)
  consider "exitCode = 143" | "exitCode = 137" | "exitCode \<noteq> 143" "exitCode \<noteq> 137" by blast
  then show ?thesis
  proof cases
    case 1
    have "reTerminatedSigterm (a @ hook_line exitCode timeout kill @ b) = Some (hook_line exitCode timeout kill)"
      unfolding reTerminatedSigterm_def skip_text(1) [OF assms(1) h(1,2)]
      using 1 duration_line [of "''s''" "''). Exit code 143.''" sigterm_before timeout b] by (intro find_match_here) (simp add: hook_line_def)
    then show ?thesis by (simp add: script_output_def)
  next
    case 2
    then have l: "hook_line exitCode timeout kill = sigkill_before @ format_nat kill @ ''s expired'' @ ''). Exit code 137.''" by (simp add: hook_line_def)
    have "reTerminatedSigterm (a @ hook_line exitCode timeout kill @ b) = None"
      unfolding reTerminatedSigterm_def skip_text(1) [OF assms(1) h(1,2)] l append_assoc
      by (rule other_line [where i = 26]) (simp_all add: hook_texts format_nat_hd assms)
    moreover have "reKilledSigkill (a @ hook_line exitCode timeout kill @ b) = Some (hook_line exitCode timeout kill)"
      unfolding reKilledSigkill_def skip_text(1) [OF assms(1) h(3,4)]
      using 2 duration_line [of "''s expired''" "''). Exit code 137.''" sigkill_before kill b] by (intro find_match_here) (simp add: hook_line_def)
    ultimately show ?thesis by (simp add: script_output_def)
  next
    case 3
    then have l: "hook_line exitCode timeout kill = exit_code_before @ format_nat exitCode @ ''.''" by (simp add: hook_line_def)
    have "reTerminatedSigterm (a @ hook_line exitCode timeout kill @ b) = None"
      unfolding reTerminatedSigterm_def skip_text(1) [OF assms(1) h(1,2)] l append_assoc
      by (rule other_line [where i = 26]) (simp_all add: hook_texts format_nat_hd assms)
    moreover have "reKilledSigkill (a @ hook_line exitCode timeout kill @ b) = None"
      unfolding reKilledSigkill_def skip_text(1) [OF assms(1) h(3,4)] l append_assoc
      by (rule other_line [where i = 27]) (simp_all add: hook_texts format_nat_hd assms)
    moreover have "reGenericFailedExitCode (a @ hook_line exitCode timeout kill @ b) = Some (hook_line exitCode timeout kill)"
      unfolding reGenericFailedExitCode_def skip_text(2) [OF assms(1) h(5,6)] l
      using digits_match_here [of "format_nat exitCode" "''.''" exit_code_before b]
      by (intro find_match_here) (simp add: format_nat_is_digit is_digit_def)
    ultimately show ?thesis by (simp add: script_output_def)
  qed
qed

text \<open>When the kubelet quotes the output of a failed hook and the script printed its outcome, the user gets exactly the line that the
  script printed, for a timeout, a kill and any other exit code.\<close>

theorem failed_hook_reported:
  assumes "reKubeletInternalMessage msg = Some (a @ hook_line exitCode timeout kill @ b)" "CHR ''['' \<notin> set a" "CHR ''['' \<notin> set b"
  shows "getConcisePostStartFailureMessage msg = hook_line exitCode timeout kill"
proof -
  have "hook_line exitCode timeout kill \<noteq> []" by (simp add: hook_line_def)
  then show ?thesis using script_output_line [OF assms(2,3)] assms(1) by (simp add: getConcisePostStartFailureMessage_def)
qed

section \<open>Witnesses\<close>

definition some_deploy :: "int deploy_env" where
  "some_deploy = \<lparr>de_storage = some_storage, de_lib = sample_library,
     de_pods = \<lparr>pe_pods = Inl ''forbidden'', pe_selector = (\<lambda>_. None), pe_events = (\<lambda>_. Inr []), pe_openshift = False\<rparr>,
     de_Seconds = (\<lambda>_. Inr 300), de_int32 = floor\<rparr>"

definition owned_workspace :: "int WorkspaceWithConfig" where
  "owned_workspace = stored_workspace\<lparr>wwc_Labels := Some [(DevWorkspaceCreatorLabel, ''u1'')],
     wwc_Annotations := Some [(DevWorkspaceRestrictedAccessAnnotation, ''true'')], wwc_RoutingClass := ''cluster''\<rparr>"

lemma owned_annotations: "getAdditionalDeploymentAnnotations (wwc_Template owned_workspace) = Inr (Some [])"
  by code_simp

lemma owned_deadline: "getProgressDeadlineSeconds some_deploy timeout = Inr 300"
  by (simp add: getProgressDeadlineSeconds_def some_deploy_def)

lemma owned_overridden: "overridden some_deploy owned_workspace d = Inr d"
proof -
  have "\<not> NeedsPodOverrides (wwc_Template owned_workspace)" by code_simp
  then show ?thesis by (simp add: overridden_def)
qed

lemma owned_labels: "go_get (wwc_Labels owned_workspace) DevWorkspaceCreatorLabel = Some ''u1''"
  by (simp add: owned_workspace_def go_get_Some)

lemma merge_one: "names_distinct (merged [a]) \<Longrightarrow> mergePodAdditions [a] = Inr (merged [a])"
  using merge_additions_iff [of "[]" a "merged [a]"]
  by (simp add: mergePodAdditions_def merged_def names_distinct_def first_occurrences_def empty_pod_additions_def)

lemma some_additions_distinct: "names_distinct (merged [some_additions])"
  by (simp add: names_distinct_def merged_def some_additions_def empty_pod_additions_def)

definition owned_deployment :: "int object" where
  "owned_deployment =
     (case getSpecDeployment some_deploy owned_workspace [some_additions] ''sa'' [] [] of Ok obj \<Rightarrow> obj | _ \<Rightarrow> routing_object [] None (SecretContent None) some_meta)"

lemma owned_deployment: "getSpecDeployment some_deploy owned_workspace [some_additions] ''sa'' [] [] = Ok owned_deployment"
proof -
  have "needsPVCWorkaround (merged [some_additions]) pvc = None" for pvc
    by (simp add: needsPVCWorkaround_def merged_def some_additions_def empty_pod_additions_def)
  moreover have "se_setOwner (de_storage some_deploy) = None" by (simp add: some_deploy_def some_storage_def)
  ultimately have "\<exists>obj. getSpecDeployment some_deploy owned_workspace [some_additions] ''sa'' [] [] = Ok obj"
    by (simp add: getSpecDeployment_def merge_one [OF some_additions_distinct] owned_annotations owned_deadline owned_overridden finish_deployment_def
        pvc_workaround_def owned_labels label_creator_def base_deployment_def workspace_template_def SetControllerReference_def)
  then show ?thesis by (auto simp: owned_deployment_def)
qed

theorem deployment_identity_witness:
  "\<exists>d. o_Content owned_deployment = DeploymentContent d \<and> go_get (pt_Labels (d_Template d)) DevWorkspaceCreatorLabel = Some ''u1'' \<and>
     go_get (pt_Annotations (d_Template d)) DevWorkspaceRestrictedAccessAnnotation = Some ''true''"
proof -
  have "go_get (wwc_Annotations owned_workspace) DevWorkspaceRestrictedAccessAnnotation = Some ''true''" by (simp add: owned_workspace_def go_get_Some)
  with deployment_identity [OF owned_deployment] owned_labels show ?thesis by auto
qed

definition claim_only :: "int PodAdditions" where
  "claim_only = empty_pod_additions\<lparr>pa_Volumes := [volume_of CheCommonPVCName PersistentVolumeClaim (ClaimData CheCommonPVCName False)]\<rparr>"

theorem spec_deployment_panics_iff_witness: "getSpecDeployment some_deploy owned_workspace [claim_only] ''sa'' [] [] = Panic"
proof -
  have d: "names_distinct (merged [claim_only])" by (simp add: names_distinct_def merged_def claim_only_def empty_pod_additions_def)
  have "needsPVCWorkaround (merged [claim_only]) (wc_PVCName (wwc_Workspace owned_workspace)) \<noteq> None"
    "pa_InitContainers (merged [claim_only]) = []" "pa_Containers (merged [claim_only]) = []"
    by (simp_all add: needsPVCWorkaround_def merged_def claim_only_def empty_pod_additions_def)
  with spec_deployment_panics_iff [OF merge_one [OF d] owned_annotations owned_deadline owned_overridden] show ?thesis by simp
qed

lemma owned_object: "\<exists>d. owned_deployment = (deployment_object owned_workspace (Some []) ''u1'' d)\<lparr>o_OwnerReferences := [owner_of owned_workspace]\<rparr> \<and>
  d_ReadyReplicas d = 0 \<and> d_Conditions d = [] \<and> d_Selector d = Some [(DevWorkspaceIDLabel, wwc_Id owned_workspace)]"
proof -
  from owned_deployment have "finish_deployment some_deploy owned_workspace (Some []) (needsPVCWorkaround (merged [some_additions]) (wc_PVCName (wwc_Workspace owned_workspace))) [] []
      (base_deployment owned_workspace (merged [some_additions]) ''sa'' 300) = Ok owned_deployment"
    by (simp add: getSpecDeployment_def merge_one [OF some_additions_distinct] owned_annotations owned_deadline owned_overridden)
  from finish_deployment_Ok [OF this] obtain template where
    "owned_deployment = (deployment_object owned_workspace (Some []) ''u1'' ((base_deployment owned_workspace (merged [some_additions]) ''sa'' 300)\<lparr>d_Template := template\<rparr>))\<lparr>
      o_OwnerReferences := [owner_of owned_workspace]\<rparr>"
    by (metis owned_labels option.inject)
  then show ?thesis by (intro exI conjI) (assumption, simp_all add: base_deployment_def empty_deployment_def)
qed

lemma owned_in_sync: "SyncObjectWithCluster plain_server owned_deployment (Map.empty(obj_key_of owned_deployment \<mapsto> owned_deployment)) =
  (Inr owned_deployment, Map.empty(obj_key_of owned_deployment \<mapsto> owned_deployment))"
proof -
  obtain d where o: "owned_deployment = (deployment_object owned_workspace (Some []) ''u1'' d)\<lparr>o_OwnerReferences := [owner_of owned_workspace]\<rparr>"
    using owned_object by blast
  have k: "kind_of (o_Content owned_deployment) = DeploymentObj" by (simp add: o deployment_object_def Let_def)
  have "client_Get plain_server (obj_key_of owned_deployment) (Map.empty(obj_key_of owned_deployment \<mapsto> owned_deployment)) = Inr owned_deployment"
    by (simp add: client_Get_Inr plain_server_def)
  moreover have "metadataDiffFunc owned_deployment owned_deployment = (False, False)"
    by (simp add: metadataDiffFunc_iff metadata_applied_def containsOwnerRef_def)
      (simp add: o deployment_object_def Let_def owner_of_def go_at_def go_get_Some owned_workspace_def metadata_keys map_Append_def)
  moreover have "deploymentDiffFunc owned_deployment owned_deployment = (False, False)"
    by (simp add: o deployment_object_def Let_def go_map_eq_def list_all_iff)
  moreover have "basicDiffFunc plain_server deploymentDiffOpts owned_deployment owned_deployment = (False, False)"
    by (simp add: basicDiffFunc_def plain_server_def)
  ultimately show ?thesis
    by (simp add: SyncObjectWithCluster_def k isMutableObject_def allDiffFuncs_def del: deploymentDiffFunc.simps)
qed

theorem deployment_ready_cases_witness:
  "fst (SyncDeploymentToCluster some_deploy owned_workspace [some_additions] ''sa'' (Map.empty(obj_key_of owned_deployment \<mapsto> owned_deployment))) = DwOk () \<and>
   \<not> CheckDeploymentStatus (deployment_in (o_Content owned_deployment)) [] \<and>
   (\<exists>e. CheckPodsState (de_pods some_deploy) (wwc_Id owned_workspace) [] = Inl e)"
proof -
  let ?cl = "Map.empty(obj_key_of owned_deployment \<mapsto> owned_deployment)"
  have pods: "CheckPodsState (de_pods some_deploy) i ignored = Inl ''forbidden''" for i ignored
    by (simp add: CheckPodsState_def some_deploy_def)
  have n: "GetNamespacePodTolerationsAndNodeSelector (de_storage some_deploy) = Inr ([], [])" by code_simp
  obtain d' where o: "owned_deployment = (deployment_object owned_workspace (Some []) ''u1'' d')\<lparr>o_OwnerReferences := [owner_of owned_workspace]\<rparr>"
    and d': "d_ReadyReplicas d' = 0" "d_Conditions d' = []"
    using owned_object by blast
  have d: "d_ReadyReplicas (deployment_in (o_Content owned_deployment)) = 0" "d_Conditions (deployment_in (o_Content owned_deployment)) = []"
    unfolding o by (simp_all add: deployment_object_def Let_def d')
  have strategy: "wc_DeploymentStrategy (wwc_Workspace owned_workspace) = []" "wc_IgnoredUnrecoverableEvents (wwc_Workspace owned_workspace) = None"
    by (simp_all add: owned_workspace_def stored_workspace_def zero_WorkspaceConfig_def)
  have unready: "\<not> CheckDeploymentStatus (deployment_in (o_Content owned_deployment)) []"
    using d by (simp add: CheckDeploymentStatus_def RollingUpdateDeploymentStrategyType_def)
  have "check_deployment some_deploy owned_workspace (deployment_in (o_Content owned_deployment)) = DwOk ()"
    using unready pods d by (simp add: check_deployment_def strategy CheckDeploymentConditions_def)
  moreover have "de_api some_deploy = plain_server" by (simp add: some_deploy_def some_storage_def)
  ultimately have run: "SyncDeploymentToCluster some_deploy owned_workspace [some_additions] ''sa'' ?cl = (DwOk (), ?cl)"
    by (simp add: SyncDeploymentToCluster_def n owned_deployment owned_in_sync)
  have "(CheckDeploymentStatus (deployment_in (o_Content owned_deployment)) [] \<or> (\<exists>e. CheckPodsState (de_pods some_deploy) (wwc_Id owned_workspace) [] = Inl e))
    \<or> pod_list (p_Containers (pt_Spec (d_Template (deployment_in (o_Content owned_deployment))))) = []"
    using deployment_ready_cases [OF run] by (auto simp: n owned_deployment in_place_def strategy split: if_splits)
  with run unready pods show ?thesis by simp
qed

theorem progress_deadline_bounds_witness: "getProgressDeadlineSeconds some_deploy ''5m'' = Inr 300"
proof -
  have "de_int32 some_deploy = floor" "de_Seconds some_deploy ''5m'' = Inr 300" by (simp_all add: some_deploy_def)
  with progress_deadline_bounds [of some_deploy "''5m''" 300] show ?thesis by (auto split: sum.splits)
qed

theorem spec_routing_complete_witness:
  "\<exists>obj r. getSpecRouting some_storage owned_workspace = Ok obj \<and> o_Content obj = RoutingContent r \<and> rg_RoutingClass r = ''cluster''"
proof -
  have c: "routing_class owned_workspace = Some ''cluster''" by (simp add: routing_class_def owned_workspace_def)
  then obtain obj where o: "getSpecRouting some_storage owned_workspace = Ok obj"
    by (auto simp: getSpecRouting_def SetControllerReference_def some_storage_def)
  from spec_routing_complete [OF o] c o show ?thesis by auto
qed

theorem failed_hook_reported_witness:
  "getConcisePostStartFailureMessage (''failed - error: command exited with 143: , message: '' @ CHR 0x22 # hook_line 143 30 5 @ [CHR 0x22]) = hook_line 143 30 5"
proof -
  let ?msg = "''failed - error: command exited with 143: , message: '' @ CHR 0x22 # hook_line 143 30 5 @ [CHR 0x22]"
  have "reKubeletInternalMessage ?msg = Some ([] @ hook_line 143 30 5 @ [])" by code_simp
  from failed_hook_reported [OF this] show ?thesis by simp
qed

end
