(* ===== verification/Workspace_Accounts.thy ===== *)
theory Workspace_Accounts
  imports Storage
begin

text \<open>
  The service account of a workspace and what comes with it (\<^verbatim>\<open>src/pkg/provision/workspace/serviceaccount.go\<close>,
  \<^verbatim>\<open>rbac\<close>, \<^verbatim>\<open>pull_secret.go\<close>, \<^verbatim>\<open>tokens.go\<close>, \<^verbatim>\<open>ssh.go\<close>, and
  \<^verbatim>\<open>src/pkg/provision/metadata\<close>): the account, the roles and bindings that it needs and their removal, the secrets for pulling images,
  projected tokens, and the config maps that every workspace mounts.

  Parameters are what the functions list on the cluster, the library for attributes, the platform, the clock, the hash of a path, the
  embedded script, the YAML printer and the client without a cache for the security context constraints of OpenShift.
\<close>

record 'q account_env =
  ac_storage :: "'q storage_env"
  ac_getString :: "attributes \<Rightarrow> string \<Rightarrow> err + string"
  ac_openshift :: bool
  ac_workspaces :: "err + (bool \<times> attributes) list"  \<comment> \<open>of the namespace: whether being deleted, and the attributes\<close>
  ac_labelErr :: "err option"  \<comment> \<open>of parsing the label selector\<close>
  ac_pullSecrets :: "api_err + (string \<times> string) list"  \<comment> \<open>the labelled secrets: name and type\<close>
  ac_now :: int
  ac_sha :: "string \<Rightarrow> string"
  ac_askpass :: string
  ac_yaml :: "DevWorkspaceTemplateSpec \<Rightarrow> err + string"

abbreviation ac_api :: "'q account_env \<Rightarrow> 'q api_env" where
  "ac_api env \<equiv> se_api (ac_storage env)"

type_synonym ('q, 'a) account_result = "'a dw_result \<times> 'q objects"

definition dw_seq :: "('q, 'a) account_result \<Rightarrow> ('a \<Rightarrow> 'q objects \<Rightarrow> ('q, 'b) account_result) \<Rightarrow> ('q, 'b) account_result" where
  "dw_seq m f = (case m of (DwOk x, cl) \<Rightarrow> f x cl | (DwErr e, cl) \<Rightarrow> (DwErr e, cl) | (DwPanic, cl) \<Rightarrow> (DwPanic, cl))"

definition sync_wrapped :: "'q api_env \<Rightarrow> 'q object \<Rightarrow> 'q objects \<Rightarrow> ('q, unit) account_result" where
  "sync_wrapped env obj cl =
     (case SyncObjectWithCluster env obj cl of (Inr _, cl') \<Rightarrow> (DwOk (), cl') | (Inl e, cl') \<Rightarrow> (DwErr (WrapSyncError e), cl'))"

text \<open>\<^verbatim>\<open>GetString\<close> without an error holder gives the empty string where the attribute cannot be read.\<close>

definition attribute_string :: "'q account_env \<Rightarrow> attributes \<Rightarrow> string \<Rightarrow> string" where
  "attribute_string env as key = (case ac_getString env as key of Inr s \<Rightarrow> s | Inl _ \<Rightarrow> [])"

section \<open>The service account\<close>

definition account_object :: "ServiceAccountConfig \<Rightarrow> 'q WorkspaceWithConfig \<Rightarrow> (string, string) gomap \<Rightarrow> 'q object" where
  "account_object config w additionalAnnotations =
     \<lparr>o_Name = ServiceAccountName_of config (wwc_Id w), o_Namespace = wwc_Namespace w,
      o_Labels = Some (ServiceAccountLabels config (wwc_Id w) (wwc_Name w)),
      o_Annotations = (if go_items additionalAnnotations = [] then None else Some (go_items additionalAnnotations)),
      o_OwnerReferences = [], o_UID = [], o_ResourceVersion = [], o_Terminating = False, o_Finalizers = [],
      o_Content = ServiceAccountContent \<lparr>sa_Created = 0, sa_AutomountToken = Some True, sa_ImagePullSecrets = []\<rparr>\<rparr>"

text \<open>\<^verbatim>\<open>SetOwnerReference\<close>: an owner that does not control, for a shared account.\<close>

definition SetOwnerReference :: "'q storage_env \<Rightarrow> 'q WorkspaceWithConfig \<Rightarrow> 'q object \<Rightarrow> err + 'q object" where
  "SetOwnerReference env w obj =
     (case se_setOwner env of
        Some e \<Rightarrow> Inl e
      | None \<Rightarrow> Inr (obj\<lparr>o_OwnerReferences := upsert_owner ((owner_of w)\<lparr>or_Controller := None\<rparr>) (o_OwnerReferences obj)\<rparr>))"

definition SyncServiceAccount :: "'q account_env \<Rightarrow> 'q WorkspaceWithConfig \<Rightarrow> (string, string) gomap \<Rightarrow> 'q objects \<Rightarrow> ('q, string) account_result" where
  "SyncServiceAccount env w additionalAnnotations cl =
     (case wc_ServiceAccount (wwc_Workspace w) of
        None \<Rightarrow> (DwPanic, cl)
      | Some config \<Rightarrow>
          let specSA = account_object config w additionalAnnotations in
     (case (if ServiceAccountName config \<noteq> [] then SetOwnerReference (ac_storage env) w specSA else SetControllerReference (ac_storage env) w specSA) of
        Inl e \<Rightarrow> (DwErr (OtherError e), cl)
      | Inr specSA' \<Rightarrow> dw_seq (sync_wrapped (ac_api env) specSA' cl) (\<lambda>_ cl'. (DwOk (ServiceAccountName_of config (wwc_Id w)), cl'))))"

text \<open>The users of a security context constraint, read and written without the cache: whether to retry, and the users afterwards.\<close>

definition removeSCCFromServiceAccount ::
  "string \<Rightarrow> string \<Rightarrow> string \<Rightarrow> api_err + string list \<Rightarrow> api_err option \<Rightarrow> (err + bool) \<times> string list option" where
  "removeSCCFromServiceAccount saName namespace sccName scc update =
     (let serviceaccount = ''system:serviceaccount:'' @ namespace @ '':'' @ saName in
      case scc of
        Inl (Forbidden _) \<Rightarrow> (Inl (''operator does not have permissions to get the '' @ sq @ sccName @ sq @ '' SecurityContextConstraints''), None)
      | Inl (NotFound _) \<Rightarrow> (Inl (''requested SecurityContextConstraints '' @ sq @ sccName @ sq @ '' not found on cluster''), None)
      | Inl e \<Rightarrow> (Inl (api_err_text e), None)
      | Inr users \<Rightarrow>
          if serviceaccount \<notin> set users then (Inr False, Some users)
          else
     (case update of
        None \<Rightarrow> (Inr False, Some [user \<leftarrow> users. user \<noteq> serviceaccount])
      | Some (Forbidden _) \<Rightarrow> (Inl (''operator does not have permissions to update the '' @ sq @ sccName @ sq @ '' SecurityContextConstraints''), Some users)
      | Some (Conflict _) \<Rightarrow> (Inr True, Some users)
      | Some e \<Rightarrow> (Inl (api_err_text e), Some users)))"

definition FinalizeServiceAccount ::
  "'q account_env \<Rightarrow> 'q WorkspaceWithConfig \<Rightarrow> ServiceAccountConfig \<Rightarrow> (string \<Rightarrow> api_err + string list) \<Rightarrow> api_err option \<Rightarrow> (err + bool) \<times> string list option" where
  "FinalizeServiceAccount env w config scc update =
     (if \<not> attr_exists (ts_Attributes (wwc_Template w)) WorkspaceSCCAttribute then (Inr False, None)
      else
        let sccName = attribute_string env (ts_Attributes (wwc_Template w)) WorkspaceSCCAttribute in
        removeSCCFromServiceAccount (ServiceAccountName_of config (wwc_Id w)) (wwc_Namespace w) sccName (scc sccName) update)"

section \<open>Roles and bindings\<close>

definition rbacLabels :: "(string, string) gomap" where
  "rbacLabels = Some [(''app.kubernetes.io/name'', ''devworkspace-workspaces''), (''app.kubernetes.io/part-of'', ''devworkspace-operator''),
     (''controller.devfile.io/workspace-rbac'', ''true'')]"

definition rbac_object :: "string \<Rightarrow> string \<Rightarrow> (string, string) gomap \<Rightarrow> 'q content \<Rightarrow> 'q object" where
  "rbac_object name namespace labels content =
     \<lparr>o_Name = name, o_Namespace = namespace, o_Labels = labels, o_Annotations = None, o_OwnerReferences = [], o_UID = [], o_ResourceVersion = [],
      o_Terminating = False, o_Finalizers = [], o_Content = content\<rparr>"

definition rule :: "string list \<Rightarrow> string list \<Rightarrow> string list \<Rightarrow> PolicyRule" where
  "rule resources groups verbs = \<lparr>ru_Resources = resources, ru_APIGroups = groups, ru_Verbs = verbs, ru_ResourceNames = []\<rparr>"

definition generateDefaultRole :: "string \<Rightarrow> 'q object" where
  "generateDefaultRole namespace = rbac_object WorkspaceRoleName namespace rbacLabels (RoleContent
     [rule [''pods/exec''] [[]] [''create''],
      rule [''pods''] [[]] [''get'', ''list'', ''watch''],
      rule [''pods''] [''metrics.k8s.io''] [''get'', ''list'', ''watch''],
      rule [''deployments'', ''replicasets''] [''apps'', ''extensions''] [''get'', ''list'', ''watch''],
      rule [''secrets''] [[]] [''get'', ''list'', ''create'', ''patch'', ''update'', ''delete''],
      rule [''configmaps''] [[]] [''get'', ''list'', ''create'', ''patch'', ''update'', ''delete''],
      rule [''devworkspaces''] [''workspace.devfile.io''] [''get'', ''watch'', ''list'', ''patch'', ''update''],
      rule [''devworkspaceroutings''] [''controller.devfile.io''] [''get'', ''list'', ''watch''],
      rule [''devworkspacetemplates''] [''workspace.devfile.io''] [''get'', ''create'', ''patch'', ''update'', ''delete'', ''list'', ''watch'']])"

definition generateUseRoleForSCC :: "string \<Rightarrow> string \<Rightarrow> 'q object" where
  "generateUseRoleForSCC namespace sccName = rbac_object (WorkspaceSCCRoleName sccName) namespace rbacLabels (RoleContent
     [\<lparr>ru_Resources = [''securitycontextconstraints''], ru_APIGroups = [''security.openshift.io''], ru_Verbs = [''use''], ru_ResourceNames = [sccName]\<rparr>])"

definition generateDefaultRolebinding :: "string \<Rightarrow> string \<Rightarrow> string \<Rightarrow> string \<Rightarrow> 'q object" where
  "generateDefaultRolebinding name namespace roleName roleKind =
     rbac_object name namespace rbacLabels (RoleBindingContent \<lparr>rb_RoleKind = roleKind, rb_RoleName = roleName, rb_Subjects = []\<rparr>)"

definition OldWorkspaceRoleName :: string where "OldWorkspaceRoleName = ''workspace''"
definition OldWorkspaceRolebindingName :: string where "OldWorkspaceRolebindingName = ''devworkspacedw''"
definition RegistryImagePullerRoleName :: string where "RegistryImagePullerRoleName = ''system:image-puller''"
definition RbacRoleKind :: string where "RbacRoleKind = ''Role''"
definition RbacClusterRoleKind :: string where "RbacClusterRoleKind = ''ClusterRole''"

text \<open>
  Where the new object is missing, the old one is deleted. The error of the deletion is not looked at: the code tests the error of the lookup again.
\<close>

definition delete_deprecated :: "'q api_env \<Rightarrow> obj_key \<Rightarrow> 'q object \<Rightarrow> string \<Rightarrow> 'q objects \<Rightarrow> ('q, unit) account_result" where
  "delete_deprecated env newKey oldObj message cl =
     (case client_Get env newKey cl of
        Inr _ \<Rightarrow> (DwOk (), cl)
      | Inl (NotFound _) \<Rightarrow>
          (case client_Delete env oldObj cl of
             (None, cl') \<Rightarrow> (DwErr (RetryError message 0), cl')
           | (Some _, cl') \<Rightarrow> (DwOk (), cl'))
      | Inl e \<Rightarrow> (DwErr (OtherError (api_err_text e)), cl))"

definition cleanupDeprecatedRBAC :: "'q api_env \<Rightarrow> string \<Rightarrow> 'q objects \<Rightarrow> ('q, unit) account_result" where
  "cleanupDeprecatedRBAC env namespace cl =
     dw_seq (delete_deprecated env (RoleObj, namespace, WorkspaceRoleName) (rbac_object OldWorkspaceRoleName namespace None (RoleContent []))
               ''deleted deprecated DevWorkspace Role'' cl)
       (\<lambda>_. delete_deprecated env (RoleBindingObj, namespace, WorkspaceRolebindingName)
              (rbac_object OldWorkspaceRolebindingName namespace None (RoleBindingContent \<lparr>rb_RoleKind = [], rb_RoleName = [], rb_Subjects = []\<rparr>))
              ''deleted deprecated DevWorkspace RoleBinding'')"

definition syncRoles :: "'q account_env \<Rightarrow> 'q WorkspaceWithConfig \<Rightarrow> 'q objects \<Rightarrow> ('q, unit) account_result" where
  "syncRoles env w cl =
     dw_seq (sync_wrapped (ac_api env) (generateDefaultRole (wwc_Namespace w)) cl) (\<lambda>_ cl'.
       if \<not> attr_exists (ts_Attributes (wwc_Template w)) WorkspaceSCCAttribute then (DwOk (), cl')
       else sync_wrapped (ac_api env)
              (generateUseRoleForSCC (wwc_Namespace w) (attribute_string env (ts_Attributes (wwc_Template w)) WorkspaceSCCAttribute)) cl')"

definition account_subject :: "string \<Rightarrow> string \<Rightarrow> Subject" where
  "account_subject saName namespace = \<lparr>sj_Kind = ''ServiceAccount'', sj_Name = saName, sj_Namespace = namespace\<rparr>"

fun subjects :: "'q content \<Rightarrow> Subject list" where
  "subjects (RoleBindingContent binding) = rb_Subjects binding"
| "subjects _ = []"

fun with_subjects :: "Subject list \<Rightarrow> 'q content \<Rightarrow> 'q content" where
  "with_subjects xs (RoleBindingContent binding) = RoleBindingContent (binding\<lparr>rb_Subjects := xs\<rparr>)"
| "with_subjects xs content = content"

definition rolebindingHasSubject :: "'q object \<Rightarrow> string \<Rightarrow> string \<Rightarrow> bool" where
  "rolebindingHasSubject rolebinding saName namespace \<longleftrightarrow> account_subject saName namespace \<in> set (subjects (o_Content rolebinding))"

definition add_subject :: "'q object \<Rightarrow> string \<Rightarrow> string \<Rightarrow> 'q object" where
  "add_subject rolebinding saName namespace =
     (if rolebindingHasSubject rolebinding saName namespace then rolebinding
      else rolebinding\<lparr>o_Content := with_subjects (subjects (o_Content rolebinding) @ [account_subject saName namespace]) (o_Content rolebinding)\<rparr>)"

definition addServiceAccountToRolebinding ::
  "'q api_env \<Rightarrow> string \<Rightarrow> string \<Rightarrow> string \<Rightarrow> string \<Rightarrow> string \<Rightarrow> 'q objects \<Rightarrow> ('q, unit) account_result" where
  "addServiceAccountToRolebinding env saName namespace roleName rolebindingName roleKind cl =
     (case client_Get env (RoleBindingObj, namespace, rolebindingName) cl of
        Inr rolebinding \<Rightarrow> sync_wrapped env (add_subject rolebinding saName namespace) cl
      | Inl (NotFound _) \<Rightarrow> sync_wrapped env (add_subject (generateDefaultRolebinding rolebindingName namespace roleName roleKind) saName namespace) cl
      | Inl e \<Rightarrow> (DwErr (OtherError (api_err_text e)), cl))"

definition syncRolebindings :: "'q account_env \<Rightarrow> 'q WorkspaceWithConfig \<Rightarrow> string \<Rightarrow> 'q objects \<Rightarrow> ('q, unit) account_result" where
  "syncRolebindings env w saName cl =
     (let sccName = attribute_string env (ts_Attributes (wwc_Template w)) WorkspaceSCCAttribute in
      dw_seq (addServiceAccountToRolebinding (ac_api env) saName (wwc_Namespace w) WorkspaceRoleName WorkspaceRolebindingName RbacRoleKind cl) (\<lambda>_ cl'.
      dw_seq (if attr_exists (ts_Attributes (wwc_Template w)) WorkspaceSCCAttribute
              then addServiceAccountToRolebinding (ac_api env) saName (wwc_Namespace w) (WorkspaceSCCRoleName sccName) (WorkspaceSCCRolebindingName sccName) RbacRoleKind cl'
              else (DwOk (), cl')) (\<lambda>_ cl''.
        if ac_openshift env
        then addServiceAccountToRolebinding (ac_api env) saName (wwc_Namespace w) RegistryImagePullerRoleName
               (RegistryImagePullerRolebindingName (wwc_Namespace w)) RbacClusterRoleKind cl''
        else (DwOk (), cl''))))"

definition SyncRBAC :: "'q account_env \<Rightarrow> 'q WorkspaceWithConfig \<Rightarrow> 'q objects \<Rightarrow> ('q, unit) account_result" where
  "SyncRBAC env w cl =
     dw_seq (cleanupDeprecatedRBAC (ac_api env) (wwc_Namespace w) cl) (\<lambda>_ cl'.
     dw_seq (syncRoles env w cl') (\<lambda>_ cl''.
       case wc_ServiceAccount (wwc_Workspace w) of
         None \<Rightarrow> (DwPanic, cl'')
       | Some config \<Rightarrow> syncRolebindings env w (ServiceAccountName_of config (wwc_Id w)) cl''))"

section \<open>Removal of roles and bindings\<close>

definition countNonDeletedWorkspaces :: "'q account_env \<Rightarrow> err + nat" where
  "countNonDeletedWorkspaces env = map_sum id (\<lambda>ws. length [w \<leftarrow> ws. \<not> fst w]) (ac_workspaces env)"

definition countNonDeletedWorkspacesUsingSCC :: "'q account_env \<Rightarrow> string \<Rightarrow> err + nat" where
  "countNonDeletedWorkspacesUsingSCC env sccName =
     map_sum id (\<lambda>ws. length [w \<leftarrow> ws. \<not> fst w \<and> attr_exists (snd w) WorkspaceSCCAttribute \<and> attribute_string env (snd w) WorkspaceSCCAttribute = sccName])
       (ac_workspaces env)"

definition delete_rbac :: "'q api_env \<Rightarrow> string \<Rightarrow> obj_kind \<Rightarrow> string \<Rightarrow> string \<Rightarrow> 'q objects \<Rightarrow> ('q, unit) account_result" where
  "delete_rbac env what kind name namespace cl =
     (case client_Get env (kind, namespace, name) cl of
        Inr obj \<Rightarrow>
          (case client_Delete env obj cl of
             (Some e, cl') \<Rightarrow> (DwErr (RetryError (wrapped_text (''failed to delete '' @ what @ '' '' @ name @ '' in namespace '' @ namespace) (api_err_text e)) 0), cl')
           | (None, cl') \<Rightarrow> (DwErr (RetryError (''deleted '' @ what @ '' '' @ name @ '' in namespace '' @ namespace) 0), cl'))
      | Inl (NotFound _) \<Rightarrow> (DwOk (), cl)
      | Inl e \<Rightarrow> (DwErr (OtherError (api_err_text e)), cl))"

definition deleteRole :: "'q api_env \<Rightarrow> string \<Rightarrow> string \<Rightarrow> 'q objects \<Rightarrow> ('q, unit) account_result" where
  "deleteRole env = delete_rbac env ''role'' RoleObj"

definition deleteRolebinding :: "'q api_env \<Rightarrow> string \<Rightarrow> string \<Rightarrow> 'q objects \<Rightarrow> ('q, unit) account_result" where
  "deleteRolebinding env = delete_rbac env ''rolebinding'' RoleBindingObj"

definition removeServiceAccountFromRolebinding :: "'q api_env \<Rightarrow> string \<Rightarrow> string \<Rightarrow> string \<Rightarrow> 'q objects \<Rightarrow> ('q, unit) account_result" where
  "removeServiceAccountFromRolebinding env saName namespace roleBindingName cl =
     (case client_Get env (RoleBindingObj, namespace, roleBindingName) cl of
        Inr rolebinding \<Rightarrow>
          if \<not> rolebindingHasSubject rolebinding saName namespace then (DwOk (), cl)
          else sync_wrapped env
                 (rolebinding\<lparr>o_Content := with_subjects [s \<leftarrow> subjects (o_Content rolebinding). s \<noteq> account_subject saName namespace] (o_Content rolebinding)\<rparr>) cl
      | Inl (NotFound _) \<Rightarrow> (DwOk (), cl)
      | Inl e \<Rightarrow> (DwErr (OtherError (api_err_text e)), cl))"

definition finalizeSCCRBAC :: "'q account_env \<Rightarrow> 'q WorkspaceWithConfig \<Rightarrow> string \<Rightarrow> 'q objects \<Rightarrow> ('q, unit) account_result" where
  "finalizeSCCRBAC env w saName cl =
     (let sccName = attribute_string env (ts_Attributes (wwc_Template w)) WorkspaceSCCAttribute in
      case countNonDeletedWorkspacesUsingSCC env sccName of
        Inl e \<Rightarrow> (DwErr (OtherError e), cl)
      | Inr numWorkspaces \<Rightarrow>
          if numWorkspaces = 0
          then dw_seq (deleteRole (ac_api env) (WorkspaceSCCRoleName sccName) (wwc_Namespace w) cl)
                 (\<lambda>_. deleteRolebinding (ac_api env) (WorkspaceSCCRolebindingName sccName) (wwc_Namespace w))
          else removeServiceAccountFromRolebinding (ac_api env) saName (wwc_Namespace w) (WorkspaceSCCRolebindingName sccName) cl)"

definition finalizeRegistryRBAC :: "'q account_env \<Rightarrow> 'q WorkspaceWithConfig \<Rightarrow> string \<Rightarrow> 'q objects \<Rightarrow> ('q, unit) account_result" where
  "finalizeRegistryRBAC env w saName cl =
     (case countNonDeletedWorkspaces env of
        Inl e \<Rightarrow> (DwErr (OtherError e), cl)
      | Inr numWorkspaces \<Rightarrow>
          if numWorkspaces = 0 then deleteRolebinding (ac_api env) (RegistryImagePullerRolebindingName (wwc_Namespace w)) (wwc_Namespace w) cl
          else removeServiceAccountFromRolebinding (ac_api env) saName (wwc_Namespace w) (RegistryImagePullerRolebindingName (wwc_Namespace w)) cl)"

definition FinalizeRBAC :: "'q account_env \<Rightarrow> 'q WorkspaceWithConfig \<Rightarrow> ServiceAccountConfig \<Rightarrow> 'q objects \<Rightarrow> ('q, unit) account_result" where
  "FinalizeRBAC env w config cl =
     (let saName = ServiceAccountName_of config (wwc_Id w) in
      dw_seq (if attr_exists (ts_Attributes (wwc_Template w)) WorkspaceSCCAttribute then finalizeSCCRBAC env w saName cl else (DwOk (), cl)) (\<lambda>_ cl'.
      case countNonDeletedWorkspaces env of
        Inl e \<Rightarrow> (DwErr (OtherError e), cl')
      | Inr numWorkspaces \<Rightarrow>
          dw_seq (if numWorkspaces = 0
                  then dw_seq (deleteRole (ac_api env) WorkspaceRoleName (wwc_Namespace w) cl') (\<lambda>_. deleteRolebinding (ac_api env) WorkspaceRolebindingName (wwc_Namespace w))
                  else removeServiceAccountFromRolebinding (ac_api env) saName (wwc_Namespace w) WorkspaceRolebindingName cl') (\<lambda>_ cl''.
            if ac_openshift env then finalizeRegistryRBAC env w saName cl'' else (DwOk (), cl''))))"

section \<open>Pull secrets\<close>

definition pullSecretCreationTimeout :: int where "pullSecretCreationTimeout = 5000000000"

text \<open>\<^verbatim>\<open>labels.Parse\<close> is called for its selector only; the order of equal names is not observable.\<close>

definition pull_secret_names :: "'q account_env \<Rightarrow> (string \<times> string) list \<Rightarrow> ServiceAccount \<Rightarrow> string list" where
  "pull_secret_names env secrets serviceAccount =
     sort (sa_ImagePullSecrets serviceAccount @
       map fst [s \<leftarrow> secrets. snd s = ''kubernetes.io/dockercfg'' \<or> snd s = ''kubernetes.io/dockerconfigjson''])"

definition PullSecrets :: "'q account_env \<Rightarrow> string \<Rightarrow> string \<Rightarrow> 'q objects \<Rightarrow> 'q PodAdditions dw_result" where
  "PullSecrets env serviceAccountName namespace cl =
     (case ac_labelErr env of
        Some e \<Rightarrow> DwErr (FailError (wrapped_text ''Failed to get pull secrets'' e))
      | None \<Rightarrow>
     (case ac_pullSecrets env of
        Inl e \<Rightarrow> DwErr (OtherError (api_err_text e))
      | Inr secrets \<Rightarrow>
     (case client_Get (ac_api env) (ServiceAccountObj, namespace, serviceAccountName) cl of
        Inl (NotFound _) \<Rightarrow> DwOk empty_pod_additions
      | Inl e \<Rightarrow> DwErr (OtherError (api_err_text e))
      | Inr obj \<Rightarrow>
     (case o_Content obj of
        ServiceAccountContent serviceAccount \<Rightarrow>
          if ac_openshift env \<and> sa_ImagePullSecrets serviceAccount = [] \<and> sa_Created serviceAccount + pullSecretCreationTimeout > ac_now env
          then DwErr (RetryError ''Waiting for image pull secrets'' 0)
          else DwOk (empty_pod_additions\<lparr>pa_PullSecrets := pull_secret_names env secrets serviceAccount\<rparr>)
      | _ \<Rightarrow> DwPanic))))"

section \<open>Tokens\<close>

text \<open>The paths that two tokens share; their order is not observable, as the names are sorted.\<close>

definition problem_paths :: "ServiceAccountToken list \<Rightarrow> string list" where
  "problem_paths saTokens = [p \<leftarrow> remdups (map sat_Path saTokens). 1 < length [t \<leftarrow> saTokens. sat_Path t = p]]"

definition checkSATokenPathCollisions :: "ServiceAccountToken list \<Rightarrow> string \<Rightarrow> err option" where
  "checkSATokenPathCollisions saTokens mountPath =
     (let problemPaths = problem_paths saTokens;
          problemNames = strings_join '', '' (sort (concat (map (\<lambda>p. map sat_Name [t \<leftarrow> saTokens. sat_Path t = p]) problemPaths))) in
      case problemPaths of
        [] \<Rightarrow> None
      | [path] \<Rightarrow> Some (''the following ServiceAccount tokens have the same path ('' @ path @ '') and mount path ('' @ mountPath @ ''): '' @ problemNames)
      | _ \<Rightarrow> Some (''multiple ServiceAccount tokens share the same path and mount path: '' @ problemNames))"

definition generateSATokenProjectedVolume ::
  "(string \<Rightarrow> string) \<Rightarrow> string \<Rightarrow> ServiceAccountToken list \<Rightarrow> err + VolumeMount \<times> 'q Volume" where
  "generateSATokenProjectedVolume sha mountPath saTokens =
     (case checkSATokenPathCollisions saTokens mountPath of
        Some e \<Rightarrow> Inl e
      | None \<Rightarrow>
          let volumeName = (case saTokens of [t] \<Rightarrow> sat_Name t | _ \<Rightarrow> ServiceAccountTokenProjectionName sha mountPath) in
          Inr (\<lparr>vm_Name = volumeName, vm_ReadOnly = True, vm_RecursiveReadOnly = None, vm_MountPath = mountPath, vm_SubPath = [],
                vm_MountPropagation = None, vm_SubPathExpr = []\<rparr>,
               volume_of volumeName Projected
                 (ProjectedData (map (\<lambda>t. TokenProjection (sat_Audience t) (sat_ExpirationSeconds t) (sat_Path t)) saTokens) (Some 416))))"

fun project_tokens ::
  "(string \<Rightarrow> string) \<Rightarrow> ServiceAccountToken list \<Rightarrow> string list \<Rightarrow> err + (VolumeMount \<times> 'q Volume) list" where
  "project_tokens sha tokens [] = Inr []"
| "project_tokens sha tokens (mountPath # mountPaths) =
     (case generateSATokenProjectedVolume sha mountPath [t \<leftarrow> tokens. sat_MountPath t = mountPath] of
        Inl e \<Rightarrow> Inl e
      | Inr v \<Rightarrow> map_sum id ((#) v) (project_tokens sha tokens mountPaths))"

definition getSATokensVolumesAndVolumeMounts ::
  "(string \<Rightarrow> string) \<Rightarrow> ServiceAccountToken list \<Rightarrow> err + VolumeMount list \<times> 'q Volume list" where
  "getSATokensVolumesAndVolumeMounts sha serviceAccountTokens =
     map_sum id (\<lambda>vs. (map fst vs, map snd vs)) (project_tokens sha serviceAccountTokens (sort (remdups (map sat_MountPath serviceAccountTokens))))"

definition ProvisionServiceAccountTokensInto :: "(string \<Rightarrow> string) \<Rightarrow> ServiceAccountConfig \<Rightarrow> 'q PodAdditions \<Rightarrow> err + 'q PodAdditions" where
  "ProvisionServiceAccountTokensInto sha config podAdditions =
     map_sum id (\<lambda>(mounts, volumes). podAdditions\<lparr>pa_VolumeMounts := pa_VolumeMounts podAdditions @ mounts, pa_Volumes := pa_Volumes podAdditions @ volumes\<rparr>)
       (getSATokensVolumesAndVolumeMounts sha (case_option [] (\<lambda>xs. xs) (ServiceAccountTokens config)))"

section \<open>Config maps of every workspace\<close>

definition SshAskPassMountPath :: string where "SshAskPassMountPath = ''/.ssh-askpass/''"
definition SshAskPassScriptFileName :: string where "SshAskPassScriptFileName = ''ssh-askpass.sh''"
definition SshAskPassConfigMapName :: string where "SshAskPassConfigMapName = ''devworkspace-ssh-askpass''"

definition constructSshAskPassCM :: "string \<Rightarrow> string \<Rightarrow> 'q object" where
  "constructSshAskPassCM script namespace = rbac_object SshAskPassConfigMapName namespace
     (Some [(''app.kubernetes.io/defaultName'', ''ssh-askpass-secret''), (''app.kubernetes.io/part-of'', ''devworkspace-operator''),
            (''controller.devfile.io/watch-configmap'', ''true'')])
     (ConfigMapContent (Some [(SshAskPassScriptFileName, script)]))"

definition sshAskPassVolume :: "'q Volume" where
  "sshAskPassVolume = volume_of ''ssh-askpass'' ConfigMap (ConfigMapData SshAskPassConfigMapName [] (Some 493) None)"

definition sshAskPassVolumeMount :: VolumeMount where
  "sshAskPassVolumeMount =
     \<lparr>vm_Name = ''ssh-askpass'', vm_ReadOnly = True, vm_RecursiveReadOnly = None, vm_MountPath = path_Join [SshAskPassMountPath, SshAskPassScriptFileName],
      vm_SubPath = SshAskPassScriptFileName, vm_MountPropagation = None, vm_SubPathExpr = []\<rparr>"

definition ProvisionSshAskPass :: "'q account_env \<Rightarrow> string \<Rightarrow> 'q PodAdditions \<Rightarrow> 'q objects \<Rightarrow> ('q, 'q PodAdditions) account_result" where
  "ProvisionSshAskPass env namespace podAdditions cl =
     (let podAdditions' = podAdditions\<lparr>pa_VolumeMounts := pa_VolumeMounts podAdditions @ [sshAskPassVolumeMount],
                                       pa_Volumes := pa_Volumes podAdditions @ [sshAskPassVolume]\<rparr> in
      case SyncObjectWithCluster (ac_api env) (constructSshAskPassCM (ac_askpass env) namespace) cl of
        (Inr _, cl') \<Rightarrow> (DwOk podAdditions', cl')
      | (Inl (NotInSyncError _ _), cl') \<Rightarrow> (DwOk podAdditions', cl')
      | (Inl e, cl') \<Rightarrow> (DwErr (WrapSyncError e), cl'))"

definition originalYamlFilename :: string where "originalYamlFilename = ''original.devworkspace.yaml''"
definition flattenedYamlFilename :: string where "flattenedYamlFilename = ''flattened.devworkspace.yaml''"
definition metadataMountPath :: string where "metadataMountPath = ''/devworkspace-metadata''"

definition getWorkspaceMetaEnvVar :: "EnvVar list" where
  "getWorkspaceMetaEnvVar =
     [\<lparr>ev_Name = ''DEVWORKSPACE_METADATA'', ev_Value = metadataMountPath, ev_ValueFrom = None\<rparr>,
      \<lparr>ev_Name = ''DEVWORKSPACE_FLATTENED_DEVFILE'', ev_Value = path_Join [metadataMountPath, flattenedYamlFilename], ev_ValueFrom = None\<rparr>,
      \<lparr>ev_Name = ''DEVWORKSPACE_ORIGINAL_DEVFILE'', ev_Value = path_Join [metadataMountPath, originalYamlFilename], ev_ValueFrom = None\<rparr>]"

definition ControllerAppLabels :: "(string \<times> string) list" where
  "ControllerAppLabels = [(''app.kubernetes.io/name'', ''devworkspace-controller''), (''app.kubernetes.io/part-of'', ''devworkspace-operator'')]"

definition getSpecMetadataConfigMap :: "'q account_env \<Rightarrow> 'q WorkspaceWithConfig \<Rightarrow> DevWorkspaceTemplateSpec \<Rightarrow> err + 'q object" where
  "getSpecMetadataConfigMap env original flattened =
     (case ac_yaml env (wwc_Template original) of
        Inl e \<Rightarrow> Inl (''failed to marshal original DevWorkspace yaml: '' @ e)
      | Inr originalYaml \<Rightarrow>
     (case ac_yaml env flattened of
        Inl e \<Rightarrow> Inl (''failed to marshal flattened DevWorkspace yaml: '' @ e)
      | Inr flattenedYaml \<Rightarrow> Inr (rbac_object (MetadataConfigMapName (wwc_Id original)) (wwc_Namespace original)
          (Some (ControllerAppLabels @ [(''controller.devfile.io/watch-configmap'', ''true''), (DevWorkspaceIDLabel, wwc_Id original)]))
          (ConfigMapContent (Some [(originalYamlFilename, originalYaml), (flattenedYamlFilename, flattenedYaml)])))))"

definition getVolumeFromConfigMap :: "'q object \<Rightarrow> 'q Volume" where
  "getVolumeFromConfigMap cm = volume_of ''workspace-metadata'' ConfigMap (ConfigMapData (o_Name cm) [] (Some 420) (Some True))"

definition getVolumeMountFromVolume :: "'q Volume \<Rightarrow> VolumeMount" where
  "getVolumeMountFromVolume vol =
     \<lparr>vm_Name = v_Name vol, vm_ReadOnly = True, vm_RecursiveReadOnly = None, vm_MountPath = metadataMountPath, vm_SubPath = [],
      vm_MountPropagation = None, vm_SubPathExpr = []\<rparr>"

definition with_env :: "EnvVar list \<Rightarrow> 'q Container \<Rightarrow> 'q Container" where
  "with_env env c = c\<lparr>c_Env := Some (case_option [] (\<lambda>xs. xs) (c_Env c) @ env)\<rparr>"

text \<open>The result of the synchronisation is wrapped and then dropped.\<close>

definition ProvisionWorkspaceMetadata ::
  "'q account_env \<Rightarrow> 'q PodAdditions \<Rightarrow> 'q WorkspaceWithConfig \<Rightarrow> DevWorkspaceTemplateSpec \<Rightarrow> 'q objects \<Rightarrow> (err + 'q PodAdditions) \<times> 'q objects" where
  "ProvisionWorkspaceMetadata env podAdditions original flattened cl =
     (case getSpecMetadataConfigMap env original flattened of
        Inl e \<Rightarrow> (Inl e, cl)
      | Inr cm \<Rightarrow>
     (case SetControllerReference (ac_storage env) original cm of
        Inl e \<Rightarrow> (Inl e, cl)
      | Inr cm' \<Rightarrow>
          let cl' = snd (SyncObjectWithCluster (ac_api env) cm' cl);
              vol = getVolumeFromConfigMap cm' in
          (Inr (podAdditions\<lparr>pa_Volumes := pa_Volumes podAdditions @ [vol],
             pa_VolumeMounts := pa_VolumeMounts podAdditions @ [getVolumeMountFromVolume vol],
             pa_Containers := map (with_env getWorkspaceMetaEnvVar) (pa_Containers podAdditions),
             pa_InitContainers := map (with_env getWorkspaceMetaEnvVar) (pa_InitContainers podAdditions)\<rparr>), cl')))"

end
