(* ===== verification/Workspace_Bindings.thy ===== *)
theory Workspace_Bindings
  imports Workspace_Accounts Routing_Ready Storage_Mounts
begin

text \<open>
  The role bindings of a namespace over time: what the synchronisation and the removal of roles, by any of its workspaces and with any faults, do to
  them. The bindings under the operator's names always refer to the role for which the name stands, and carry the label for which the cache selects.
\<close>

section \<open>Bindings\<close>

text \<open>Objects are stored under their key.\<close>

definition keyed :: "'q objects \<Rightarrow> bool" where
  "keyed cl \<longleftrightarrow> (\<forall>key obj. cl key = Some obj \<longrightarrow> obj_key_of obj = key)"

text \<open>The service account is among the subjects of the binding.\<close>

definition listed_in :: "'q objects \<Rightarrow> string \<Rightarrow> string \<Rightarrow> string \<Rightarrow> bool" where
  "listed_in cl namespace binding saName \<longleftrightarrow>
     (case cl (RoleBindingObj, namespace, binding) of None \<Rightarrow> False | Some obj \<Rightarrow> rolebindingHasSubject obj saName namespace)"

text \<open>The binding binds the service account to the role of the kind and name.\<close>

definition account_bound :: "'q objects \<Rightarrow> string \<Rightarrow> string \<Rightarrow> string \<times> string \<Rightarrow> string \<Rightarrow> bool" where
  "account_bound cl namespace binding role saName \<longleftrightarrow>
     (case cl (RoleBindingObj, namespace, binding) of
        Some obj \<Rightarrow> (case o_Content obj of
            RoleBindingContent b \<Rightarrow> (rb_RoleKind b, rb_RoleName b) = role \<and> account_subject saName namespace \<in> set (rb_Subjects b)
          | _ \<Rightarrow> False)
      | None \<Rightarrow> False)"

section \<open>The states of the bindings\<close>

text \<open>The role for which the operator uses a name of a binding.\<close>

definition binding_role :: "string \<Rightarrow> string \<Rightarrow> (string \<times> string) option" where
  "binding_role namespace name =
     (if name = WorkspaceRolebindingName then Some (''Role'', WorkspaceRoleName)
      else if name = RegistryImagePullerRolebindingName namespace then Some (''ClusterRole'', ''system:image-puller'')
      else if take 17 name = ''devworkspace-use-'' then Some (''Role'', name) else None)"

lemma binding_role_simps [simp]:
  "binding_role ns WorkspaceRolebindingName = Some (RbacRoleKind, WorkspaceRoleName)"
  "binding_role ns (RegistryImagePullerRolebindingName ns) = Some (RbacClusterRoleKind, RegistryImagePullerRoleName)"
  "binding_role ns (WorkspaceSCCRolebindingName scc) = Some (RbacRoleKind, WorkspaceSCCRoleName scc)"
  by (simp_all add: binding_role_def WorkspaceRolebindingName_def RegistryImagePullerRolebindingName_def WorkspaceSCCRolebindingName_def
      WorkspaceSCCRoleName_def RbacRoleKind_def RbacClusterRoleKind_def RegistryImagePullerRoleName_def)

definition rbac_label :: string where "rbac_label = ''controller.devfile.io/workspace-rbac''"

definition binding_ok :: "string \<times> string \<Rightarrow> 'q object \<Rightarrow> bool" where
  "binding_ok role obj \<longleftrightarrow>
     (\<exists>b. o_Content obj = RoleBindingContent b \<and> (rb_RoleKind b, rb_RoleName b) = role) \<and> go_at (o_Labels obj) rbac_label = ''true''"

text \<open>
  The states of a cluster while workspaces of a namespace get and lose their roles: there is no binding under a name of the operator
  at first; then any workspace of the namespace synchronises its roles or finalises them, in any order, each time with other faults and
  another state of the cache, and others change the cluster as they like except for these bindings.
\<close>

inductive rbac_reachable :: "string \<Rightarrow> 'q objects \<Rightarrow> bool" for namespace where
  start: "rbac_reachable namespace cl"
    if "keyed cl" "\<And>name. binding_role namespace name \<noteq> None \<Longrightarrow> cl (RoleBindingObj, namespace, name) = None"
| sync: "rbac_reachable namespace (snd (SyncRBAC env w cl))"
    if "rbac_reachable namespace cl" "wwc_Namespace w = namespace" "store_laws (ac_api env)"
| finalize: "rbac_reachable namespace (snd (FinalizeRBAC env w config cl))"
    if "rbac_reachable namespace cl" "wwc_Namespace w = namespace" "store_laws (ac_api env)"
| others: "rbac_reachable namespace cl'"
    if "rbac_reachable namespace cl" "keyed cl'"
      "\<And>name. binding_role namespace name \<noteq> None \<Longrightarrow> cl' (RoleBindingObj, namespace, name) = cl (RoleBindingObj, namespace, name)"

definition bindings_ok :: "string \<Rightarrow> 'q objects \<Rightarrow> bool" where
  "bindings_ok namespace cl \<longleftrightarrow> keyed cl \<and>
     (\<forall>name role obj. binding_role namespace name = Some role \<longrightarrow> cl (RoleBindingObj, namespace, name) = Some obj \<longrightarrow> binding_ok role obj)"

lemma keyedD: "keyed cl \<Longrightarrow> cl key = Some obj \<Longrightarrow> obj_key_of obj = key"
  unfolding keyed_def by blast

lemma bindings_okD:
  assumes "bindings_ok ns cl"
  shows "keyed cl" "binding_role ns name = Some role \<Longrightarrow> cl (RoleBindingObj, ns, name) = Some obj \<Longrightarrow> binding_ok role obj"
  using assms unfolding bindings_ok_def by blast+

lemma bindings_okI:
  assumes "keyed cl" "\<And>name role obj. binding_role ns name = Some role \<Longrightarrow> cl (RoleBindingObj, ns, name) = Some obj \<Longrightarrow> binding_ok role obj"
  shows "bindings_ok ns cl"
  using assms unfolding bindings_ok_def by blast

lemma bindings_ok_update:
  assumes "bindings_ok ns cl" "\<And>obj. x = Some obj \<Longrightarrow> obj_key_of obj = key"
    "\<And>obj name role. x = Some obj \<Longrightarrow> key = (RoleBindingObj, ns, name) \<Longrightarrow> binding_role ns name = Some role \<Longrightarrow> binding_ok role obj"
  shows "bindings_ok ns (cl(key := x))"
  using assms unfolding bindings_ok_def keyed_def by (auto simp: fun_upd_def)

lemma deleted_bindings_ok:
  assumes "bindings_ok ns cl" "cl key = Some c"
  shows "bindings_ok ns (cl(key := deleted_object c))"
proof (rule bindings_ok_update [OF assms(1)])
  fix obj assume obj: "deleted_object c = Some obj"
  then have eq: "obj = c\<lparr>o_Terminating := True\<rparr>" by (simp add: deleted_object_def split: if_splits)
  have "obj_key_of c = key" using keyedD [OF bindings_okD(1) [OF assms(1)] assms(2)] .
  with eq show "obj_key_of obj = key" by (simp add: obj_key_of_def)
  fix name role assume "key = (RoleBindingObj, ns, name)" "binding_role ns name = Some role"
  with assms have "binding_ok role c" using bindings_okD(2) by blast
  with eq show "binding_ok role obj" by (simp add: binding_ok_def)
qed

lemma client_Delete_bindings_ok: "bindings_ok ns cl \<Longrightarrow> client_Delete env obj cl = (e, cl') \<Longrightarrow> bindings_ok ns cl'"
  by (auto simp: client_Delete_def deleted_bindings_ok split: option.splits)

lemma map_kept_at:
  assumes "map_kept m m'" "go_at m k = v" "v \<noteq> []"
  shows "go_at m' k = v"
proof -
  from assms(2,3) have v: "map_of (go_items m) k = Some v" by (auto simp: go_at_def go_get_def split: option.splits)
  from map_of_SomeD [OF this] assms(1) have "map_of (go_items m') k = map_of (go_items m) k"
    by (auto simp: map_kept_def list_all_iff go_get_def)
  with v show ?thesis by (simp add: go_at_def go_get_def)
qed

text \<open>A binding that is written with its role and label is stored with them.\<close>

lemma stored_binding_ok:
  assumes "store_laws env" "writes spec obj" "binding_ok role spec"
  shows "binding_ok role (ae_store env old obj)"
proof -
  from assms(3) obtain b where b: "o_Content spec = RoleBindingContent b" "(rb_RoleKind b, rb_RoleName b) = role" "go_at (o_Labels spec) rbac_label = ''true''"
    by (auto simp: binding_ok_def)
  with assms(2) have obj: "o_Content obj = RoleBindingContent b" "o_Labels obj = o_Labels spec" by (auto simp: writes_def same_content_def)
  then have "o_Content (ae_store env old obj) = RoleBindingContent b"
    using assms(1) unfolding store_laws_def by (metis stored_as.simps(12))
  moreover have "map_kept (o_Labels spec) (o_Labels (ae_store env old obj))" using assms(1) obj by (metis store_laws_def)
  then have "go_at (o_Labels (ae_store env old obj)) rbac_label = ''true''" using b(3) by (rule map_kept_at) simp
  ultimately show ?thesis using b by (simp add: binding_ok_def)
qed

lemma sync_bindings_ok:
  assumes "bindings_ok ns cl" "store_laws env"
    "\<And>name role. obj_key_of spec = (RoleBindingObj, ns, name) \<Longrightarrow> binding_role ns name = Some role \<Longrightarrow> binding_ok role spec"
  shows "bindings_ok ns (snd (sync_wrapped env spec cl))"
proof -
  obtain r cl' where run: "SyncObjectWithCluster env spec cl = (r, cl')" by fastforce
  from sync_effect [OF run] have "bindings_ok ns cl'"
  proof (elim disjE exE conjE)
    fix old obj assume w: "writes spec obj" and cl': "cl' = cl(obj_key_of spec \<mapsto> ae_store env old obj)"
    show ?thesis unfolding cl'
      by (rule bindings_ok_update [OF assms(1)])
        (use stored_binding_ok [OF assms(2) w assms(3)] stored_key [OF assms(2)] writes_key [OF w] in auto)
  qed (use assms(1) deleted_bindings_ok [OF assms(1), of "obj_key_of spec"] in simp_all)
  then show ?thesis using run by (auto simp: sync_wrapped_def split: sum.splits)
qed

lemma keyed_binding:
  assumes "keyed cl" "cl (RoleBindingObj, ns, name) = Some obj"
  obtains b where "o_Content obj = RoleBindingContent b" "obj_key_of obj = (RoleBindingObj, ns, name)"
proof -
  have k: "obj_key_of obj = (RoleBindingObj, ns, name)" using assms by (simp only: keyed_def)
  then have "kind_of (o_Content obj) = RoleBindingObj" by (simp add: obj_key_of_def)
  with k that show thesis by (cases "o_Content obj") simp_all
qed

lemma dw_seq_inv: "P (snd m) \<Longrightarrow> (\<And>x cl. P cl \<Longrightarrow> P (snd (f x cl))) \<Longrightarrow> P (snd (dw_seq m f))"
  by (cases m; cases "fst m") (auto simp: dw_seq_def)

section \<open>The invariant\<close>

lemma delete_deprecated_inv: "bindings_ok ns cl \<Longrightarrow> bindings_ok ns (snd (delete_deprecated env key obj message cl))"
  by (auto simp: delete_deprecated_def split: sum.splits api_err.splits prod.splits option.splits dest: client_Delete_bindings_ok)

lemma delete_rbac_inv: "bindings_ok ns cl \<Longrightarrow> bindings_ok ns (snd (delete_rbac env what kind name namespace cl))"
  by (auto simp: delete_rbac_def split: sum.splits api_err.splits prod.splits option.splits dest: client_Delete_bindings_ok)

lemma role_sync_inv:
  "bindings_ok ns cl \<Longrightarrow> store_laws env \<Longrightarrow> bindings_ok ns (snd (sync_wrapped env (rbac_object name namespace labels (RoleContent rules)) cl))"
  by (rule sync_bindings_ok) (simp_all add: rbac_object_def obj_key_of_def)

lemma subjects_binding_ok:
  assumes "binding_ok role obj"
  shows "binding_ok role (obj\<lparr>o_Content := with_subjects xs (o_Content obj)\<rparr>)" "binding_ok role (add_subject obj sa ns)"
  using assms by (auto simp: binding_ok_def add_subject_def)

lemma new_binding_ok: "binding_ok (kind, role) (generateDefaultRolebinding name ns role kind)"
  by (simp add: binding_ok_def generateDefaultRolebinding_def rbac_object_def rbacLabels_def rbac_label_def go_at_def go_get_Some)

lemma subjects_key:
  "obj_key_of (obj\<lparr>o_Content := with_subjects xs (o_Content obj)\<rparr>) = obj_key_of obj" "obj_key_of (add_subject obj sa ns) = obj_key_of obj"
  by (cases "o_Content obj"; simp add: obj_key_of_def add_subject_def)+

lemma existing_binding_ok:
  assumes "bindings_ok ns cl" "client_Get env (RoleBindingObj, ns, name) cl = Inr obj"
  shows "obj_key_of obj = (RoleBindingObj, ns, name)" "binding_role ns name = Some role \<Longrightarrow> binding_ok role obj"
  using bindings_okD [OF assms(1)] keyedD [of cl "(RoleBindingObj, ns, name)" obj] assms(2) by (simp_all add: client_Get_Inr)

lemma add_account_inv:
  assumes "bindings_ok ns cl" "store_laws env" "binding_role ns name = Some (kind, role)"
  shows "bindings_ok ns (snd (addServiceAccountToRolebinding env sa ns role name kind cl))"
proof -
  have new: "bindings_ok ns (snd (sync_wrapped env (add_subject (generateDefaultRolebinding name ns role kind) sa ns) cl))"
    using assms(3) subjects_binding_ok(2) [OF new_binding_ok]
    by (intro sync_bindings_ok [OF assms(1,2)])
      (auto simp: subjects_key(2), simp add: generateDefaultRolebinding_def rbac_object_def obj_key_of_def)
  have old: "bindings_ok ns (snd (sync_wrapped env (add_subject obj sa ns) cl))" if "client_Get env (RoleBindingObj, ns, name) cl = Inr obj" for obj
    using existing_binding_ok [OF assms(1) that] subjects_binding_ok(2)
    by (intro sync_bindings_ok [OF assms(1,2)]) (auto simp: subjects_key(2))
  from new old assms(1) show ?thesis by (auto simp: addServiceAccountToRolebinding_def split: sum.splits api_err.splits)
qed

lemma remove_account_inv:
  assumes "bindings_ok ns cl" "store_laws env"
  shows "bindings_ok ns (snd (removeServiceAccountFromRolebinding env sa ns name cl))"
proof -
  have "bindings_ok ns (snd (sync_wrapped env (obj\<lparr>o_Content := with_subjects xs (o_Content obj)\<rparr>) cl))"
    if "client_Get env (RoleBindingObj, ns, name) cl = Inr obj" for obj xs
    using existing_binding_ok [OF assms(1) that] subjects_binding_ok(1)
    by (intro sync_bindings_ok [OF assms]) (auto simp: subjects_key(1))
  with assms(1) show ?thesis by (auto simp: removeServiceAccountFromRolebinding_def split: sum.splits api_err.splits)
qed

lemmas binding_steps = dw_seq_inv [where P = "bindings_ok ns" for ns] delete_deprecated_inv delete_rbac_inv role_sync_inv add_account_inv remove_account_inv

lemma SyncRBAC_inv:
  assumes "bindings_ok (wwc_Namespace w) cl" "store_laws (ac_api env)"
  shows "bindings_ok (wwc_Namespace w) (snd (SyncRBAC env w cl))"
  unfolding SyncRBAC_def cleanupDeprecatedRBAC_def syncRoles_def syncRolebindings_def generateDefaultRole_def generateUseRoleForSCC_def Let_def
  using assms by (auto intro!: binding_steps split: option.split)

lemma FinalizeRBAC_inv:
  assumes "bindings_ok (wwc_Namespace w) cl" "store_laws (ac_api env)"
  shows "bindings_ok (wwc_Namespace w) (snd (FinalizeRBAC env w config cl))"
  unfolding FinalizeRBAC_def finalizeSCCRBAC_def finalizeRegistryRBAC_def deleteRole_def deleteRolebinding_def Let_def
  using assms by (auto intro!: binding_steps split: sum.split)

text \<open>In every state the bindings under the operator's names refer to their roles and carry the label.\<close>

lemma rbac_reachable_ok: "rbac_reachable ns cl \<Longrightarrow> bindings_ok ns cl"
proof (induction rule: rbac_reachable.induct)
  case (start cl)
  then show ?case by (intro bindings_okI) auto
next
  case (others cl cl')
  then show ?case by (intro bindings_okI) (auto dest: bindings_okD(2))
qed (use SyncRBAC_inv FinalizeRBAC_inv in blast)+

lemma rbac_reachable_keyed: "rbac_reachable ns cl \<Longrightarrow> keyed cl"
  by (rule bindings_okD(1) [OF rbac_reachable_ok])

end
