(* ===== verification/Workspace_Rights.thy ===== *)
theory Workspace_Rights
  imports Workspace_Bindings
begin

text \<open>
  What the roles and tokens of a workspace guarantee: once they are reported as synchronised the service account is bound to the
  roles that it needs, once they are finalised it is bound to none of them --- also where the account is shared with workspaces that still
  run --- and tokens are projected to distinct files.
\<close>

section \<open>Bindings\<close>

text \<open>\<^verbatim>\<open>cmp.Equal\<close> with the options for role bindings compares the subjects.\<close>

definition compares_subjects :: "'q api_env \<Rightarrow> bool" where
  "compares_subjects env \<longleftrightarrow>
     (\<forall>a b. ae_cmp env rolebindingDiffOpts (RoleBindingContent a) (RoleBindingContent b) \<longrightarrow> rb_Subjects a = rb_Subjects b)"

text \<open>
  The cache of the client holds the role bindings with the label of the operator, as its selector says, and no call is answered as if an object were
  absent that is there.
\<close>

definition caches_bindings :: "'q api_env \<Rightarrow> bool" where
  "caches_bindings env \<longleftrightarrow> (\<forall>key m. ae_fault env (GetCall key) \<noteq> Some (NotFound m)) \<and>
     (\<forall>obj. kind_of (o_Content obj) = RoleBindingObj \<longrightarrow> go_at (o_Labels obj) rbac_label = ''true'' \<longrightarrow> ae_cached env obj)"

lemma dw_seq_Ok: "dw_seq m f = (DwOk y, cl') \<longleftrightarrow> (\<exists>x cl1. m = (DwOk x, cl1) \<and> f x cl1 = (DwOk y, cl'))"
  by (cases m; cases "fst m") (auto simp: dw_seq_def)

lemma dw_seq_unit_Ok: "dw_seq (m :: ('q, unit) account_result) f = (DwOk y, cl') \<longleftrightarrow> (\<exists>cl1. m = (DwOk (), cl1) \<and> f () cl1 = (DwOk y, cl'))"
  by (simp add: dw_seq_Ok)

lemma sync_wrapped_Ok:
  "sync_wrapped env obj cl = (DwOk (), cl') \<Longrightarrow> \<exists>c. SyncObjectWithCluster env obj cl = (Inr c, cl')"
  by (auto simp: sync_wrapped_def split: prod.splits sum.splits)

text \<open>A binding that is in sync has the wanted subjects.\<close>

lemma binding_in_sync:
  assumes "sync_wrapped env spec cl = (DwOk (), cl')" "keyed cl" "compares_subjects env"
    "o_Content spec = RoleBindingContent b" "obj_key_of spec = (RoleBindingObj, ns, name)"
  shows "cl' = cl" "\<exists>c. cl (RoleBindingObj, ns, name) = Some c \<and> subjects (o_Content c) = rb_Subjects b"
proof -
  from sync_wrapped_Ok [OF assms(1)] obtain c where c: "SyncObjectWithCluster env spec cl = (Inr c, cl')" by blast
  from SyncObject_Inr [OF this] assms(4,5) have s: "cl' = cl" "cl (RoleBindingObj, ns, name) = Some c"
    "allDiffFuncs [metadataDiffFunc, basicDiffFunc env rolebindingDiffOpts] spec c = (False, False)"
    by auto
  from keyed_binding [OF assms(2) s(2)] obtain b' where b': "o_Content c = RoleBindingContent b'" by blast
  with s(3) assms(3,4) have "rb_Subjects b = rb_Subjects b'" by (auto simp: allDiffFuncs_none_iff basicDiffFunc_def compares_subjects_def)
  with s b' show "cl' = cl" "\<exists>c. cl (RoleBindingObj, ns, name) = Some c \<and> subjects (o_Content c) = rb_Subjects b" by auto
qed

lemma add_subject_binding:
  assumes "o_Content rolebinding = RoleBindingContent b" "obj_key_of rolebinding = (RoleBindingObj, ns, name)"
  obtains b' where "o_Content (add_subject rolebinding sa ns') = RoleBindingContent b'"
    "obj_key_of (add_subject rolebinding sa ns') = (RoleBindingObj, ns, name)" "account_subject sa ns' \<in> set (rb_Subjects b')"
proof (cases "rolebindingHasSubject rolebinding sa ns'")
  case True
  with assms show thesis by (intro that [of b]) (simp_all add: add_subject_def rolebindingHasSubject_def)
next
  case False
  with assms show thesis by (intro that [of "b\<lparr>rb_Subjects := rb_Subjects b @ [account_subject sa ns']\<rparr>"]) (simp_all add: add_subject_def obj_key_of_def)
qed

lemma add_binds:
  assumes "addServiceAccountToRolebinding env sa ns role name kind cl = (DwOk (), cl')" "keyed cl" "compares_subjects env"
  shows "cl' = cl \<and> listed_in cl ns name sa"
proof -
  have "\<exists>spec b. sync_wrapped env (add_subject spec sa ns) cl = (DwOk (), cl') \<and> o_Content spec = RoleBindingContent b \<and> obj_key_of spec = (RoleBindingObj, ns, name)"
  proof (cases "client_Get env (RoleBindingObj, ns, name) cl")
    case (Inl e)
    with assms(1) show ?thesis
      by (cases e) (auto simp: addServiceAccountToRolebinding_def generateDefaultRolebinding_def rbac_object_def obj_key_of_def
          intro!: exI [of _ "generateDefaultRolebinding name ns role kind"])
  next
    case (Inr rb)
    then have "cl (RoleBindingObj, ns, name) = Some rb" by (simp add: client_Get_Inr)
    from keyed_binding [OF assms(2) this] obtain b where "o_Content rb = RoleBindingContent b" "obj_key_of rb = (RoleBindingObj, ns, name)" .
    with Inr assms(1) show ?thesis by (intro exI [of _ rb] exI [of _ b]) (simp add: addServiceAccountToRolebinding_def)
  qed
  then obtain spec b where s: "sync_wrapped env (add_subject spec sa ns) cl = (DwOk (), cl')" "o_Content spec = RoleBindingContent b"
    "obj_key_of spec = (RoleBindingObj, ns, name)" by blast
  from add_subject_binding [OF s(2,3)] obtain b' where b': "o_Content (add_subject spec sa ns) = RoleBindingContent b'"
    "obj_key_of (add_subject spec sa ns) = (RoleBindingObj, ns, name)" "account_subject sa ns \<in> set (rb_Subjects b')" .
  from binding_in_sync [OF s(1) assms(2,3) b'(1,2)] b'(3) show ?thesis by (auto simp: listed_in_def rolebindingHasSubject_def)
qed

lemma listed_bound:
  assumes "listed_in cl ns name sa" "bindings_ok ns cl" "binding_role ns name = Some role"
  shows "account_bound cl ns name role sa"
  using assms bindings_okD(2) [OF assms(2,3)]
  by (auto simp: listed_in_def account_bound_def binding_ok_def rolebindingHasSubject_def split: option.splits)

text \<open>A binding of the operator that the client does not find is not there.\<close>

lemma binding_absent:
  assumes "client_Get env (RoleBindingObj, ns, name) cl = Inl (NotFound m)" "bindings_ok ns cl" "binding_role ns name = Some role" "caches_bindings env"
  shows "cl (RoleBindingObj, ns, name) = None"
proof (rule ccontr)
  assume "cl (RoleBindingObj, ns, name) \<noteq> None"
  then obtain obj where obj: "cl (RoleBindingObj, ns, name) = Some obj" by blast
  from bindings_okD(2) [OF assms(2,3) this] have "ae_cached env obj" using assms(4) by (auto simp: binding_ok_def caches_bindings_def)
  moreover have "ae_fault env (GetCall (RoleBindingObj, ns, name)) \<noteq> Some (NotFound m)" using assms(4) unfolding caches_bindings_def by blast
  ultimately show False using assms(1) obj by (auto simp: client_Get_def split: option.splits)
qed

lemma remove_unbinds:
  assumes "removeServiceAccountFromRolebinding env sa ns name cl = (DwOk (), cl')" "bindings_ok ns cl" "compares_subjects env" "caches_bindings env"
    "binding_role ns name = Some role"
  shows "cl' = cl \<and> \<not> listed_in cl ns name sa"
proof (cases "client_Get env (RoleBindingObj, ns, name) cl")
  case (Inl e)
  with assms(1) obtain m where "client_Get env (RoleBindingObj, ns, name) cl = Inl (NotFound m)" "cl' = cl"
    by (cases e) (auto simp: removeServiceAccountFromRolebinding_def)
  then have "cl (RoleBindingObj, ns, name) = None" using binding_absent [OF _ assms(2,5,4)] by blast
  then show ?thesis using \<open>cl' = cl\<close> by (simp add: listed_in_def)
next
  case (Inr rb)
  then have rb: "cl (RoleBindingObj, ns, name) = Some rb" by (simp add: client_Get_Inr)
  from keyed_binding [OF bindings_okD(1) [OF assms(2)] this] obtain b where b: "o_Content rb = RoleBindingContent b" "obj_key_of rb = (RoleBindingObj, ns, name)" .
  show ?thesis
  proof (cases "rolebindingHasSubject rb sa ns")
    case False
    with Inr assms(1) rb show ?thesis by (auto simp: removeServiceAccountFromRolebinding_def listed_in_def)
  next
    case True
    let ?b = "b\<lparr>rb_Subjects := [s \<leftarrow> rb_Subjects b. s \<noteq> account_subject sa ns]\<rparr>"
    have s: "sync_wrapped env (rb\<lparr>o_Content := RoleBindingContent ?b\<rparr>) cl = (DwOk (), cl')"
      using True Inr assms(1) b by (simp add: removeServiceAccountFromRolebinding_def)
    have "o_Content (rb\<lparr>o_Content := RoleBindingContent ?b\<rparr>) = RoleBindingContent ?b" "obj_key_of (rb\<lparr>o_Content := RoleBindingContent ?b\<rparr>) = (RoleBindingObj, ns, name)"
      using b by (simp_all add: obj_key_of_def)
    from binding_in_sync [OF s bindings_okD(1) [OF assms(2)] assms(3) this] rb have "subjects (o_Content rb) = [s \<leftarrow> rb_Subjects b. s \<noteq> account_subject sa ns]" "cl' = cl" by auto
    then show ?thesis using True by (simp add: rolebindingHasSubject_def)
  qed
qed

lemma delete_gone:
  assumes "deleteRolebinding env name ns cl = (DwOk (), cl')" "bindings_ok ns cl" "caches_bindings env" "binding_role ns name = Some role"
  shows "cl' = cl \<and> \<not> listed_in cl ns name sa"
proof -
  from assms(1) obtain m where "client_Get env (RoleBindingObj, ns, name) cl = Inl (NotFound m)" "cl' = cl"
    by (auto simp: deleteRolebinding_def delete_rbac_def split: sum.splits prod.splits api_err.splits option.splits)
  with binding_absent [OF _ assms(2,4,3)] show ?thesis by (auto simp: listed_in_def)
qed

lemma deleteRole_Ok: "deleteRole env name ns cl = (DwOk (), cl') \<Longrightarrow> cl' = cl"
  by (auto simp: deleteRole_def delete_rbac_def split: sum.splits prod.splits api_err.splits option.splits)

lemma delete_deprecated_Ok: "delete_deprecated env key obj msg cl = (DwOk (), cl') \<Longrightarrow> cl' = cl"
  by (auto simp: delete_deprecated_def client_Delete_def split: sum.splits prod.splits api_err.splits option.splits if_splits)

lemma cleanupDeprecated_Ok: "cleanupDeprecatedRBAC env ns cl = (DwOk (), cl') \<Longrightarrow> cl' = cl"
  by (auto simp: cleanupDeprecatedRBAC_def dw_seq_Ok dest!: delete_deprecated_Ok)

lemma role_in_place:
  assumes "sync_wrapped env spec cl = (DwOk (), cl')"
  shows "cl' = cl \<and> (\<exists>obj. in_place cl spec obj)"
proof -
  from sync_wrapped_Ok [OF assms] obtain c where "SyncObjectWithCluster env spec cl = (Inr c, cl')" by blast
  from SyncObject_Inr [OF this] show ?thesis by (auto simp: in_place_def)
qed

lemma syncRoles_Ok:
  assumes "syncRoles env w cl = (DwOk (), cl')"
  shows "cl' = cl \<and> (\<exists>obj. in_place cl (generateDefaultRole (wwc_Namespace w)) obj) \<and>
    (attr_exists (ts_Attributes (wwc_Template w)) WorkspaceSCCAttribute \<longrightarrow>
     (\<exists>obj. in_place cl (generateUseRoleForSCC (wwc_Namespace w) (attribute_string env (ts_Attributes (wwc_Template w)) WorkspaceSCCAttribute)) obj))"
  using assms by (auto simp: syncRoles_def dw_seq_Ok split: if_splits dest!: role_in_place)

text \<open>
  (C31) Whatever the workspaces of a namespace have done to their roles before, and whatever failed then: when the roles of a workspace are reported as
  synchronised, nothing is left to write. The default role is on the cluster, and the role for the security context constraint if the workspace asks for one, the service account is
  bound to these roles, and on OpenShift to the cluster role for pulling images: the bindings have the account as a subject and refer to these roles. The comparison
  library, under the options for role bindings, calls two bindings equal only if their subjects are.
\<close>

theorem rbac_granted:
  assumes "rbac_reachable (wwc_Namespace w) cl" "SyncRBAC env w cl = (DwOk (), cl')" "compares_subjects (ac_api env)"
    "wc_ServiceAccount (wwc_Workspace w) = Some config"
    "saName = ServiceAccountName_of config (wwc_Id w)" "sccName = attribute_string env (ts_Attributes (wwc_Template w)) WorkspaceSCCAttribute"
  shows "cl' = cl \<and> (\<exists>obj. in_place cl (generateDefaultRole (wwc_Namespace w)) obj) \<and>
    account_bound cl (wwc_Namespace w) WorkspaceRolebindingName (''Role'', WorkspaceRoleName) saName \<and>
    (attr_exists (ts_Attributes (wwc_Template w)) WorkspaceSCCAttribute \<longrightarrow>
      (\<exists>obj. in_place cl (generateUseRoleForSCC (wwc_Namespace w) sccName) obj) \<and>
      account_bound cl (wwc_Namespace w) (WorkspaceSCCRolebindingName sccName) (''Role'', WorkspaceSCCRoleName sccName) saName) \<and>
    (ac_openshift env \<longrightarrow>
      account_bound cl (wwc_Namespace w) (RegistryImagePullerRolebindingName (wwc_Namespace w)) (''ClusterRole'', ''system:image-puller'') saName)"
proof -
  note ok = rbac_reachable_ok [OF assms(1)]
  from assms obtain cl1 cl2 where "cleanupDeprecatedRBAC (ac_api env) (wwc_Namespace w) cl = (DwOk (), cl1)" "syncRoles env w cl1 = (DwOk (), cl2)"
    "syncRolebindings env w saName cl2 = (DwOk (), cl')"
    by (auto simp: SyncRBAC_def dw_seq_Ok)
  with cleanupDeprecated_Ok syncRoles_Ok have roles: "\<exists>obj. in_place cl (generateDefaultRole (wwc_Namespace w)) obj"
      "attr_exists (ts_Attributes (wwc_Template w)) WorkspaceSCCAttribute \<longrightarrow> (\<exists>obj. in_place cl (generateUseRoleForSCC (wwc_Namespace w) sccName) obj)"
    and "syncRolebindings env w saName cl = (DwOk (), cl')" unfolding assms(6) by blast+
  then obtain cl3 cl4 where
    first: "addServiceAccountToRolebinding (ac_api env) saName (wwc_Namespace w) WorkspaceRoleName WorkspaceRolebindingName RbacRoleKind cl = (DwOk (), cl3)" and
    second: "(if attr_exists (ts_Attributes (wwc_Template w)) WorkspaceSCCAttribute
       then addServiceAccountToRolebinding (ac_api env) saName (wwc_Namespace w) (WorkspaceSCCRoleName sccName) (WorkspaceSCCRolebindingName sccName) RbacRoleKind cl3
       else (DwOk (), cl3)) = (DwOk (), cl4)" and
    third: "(if ac_openshift env
       then addServiceAccountToRolebinding (ac_api env) saName (wwc_Namespace w) RegistryImagePullerRoleName
              (RegistryImagePullerRolebindingName (wwc_Namespace w)) RbacClusterRoleKind cl4
       else (DwOk (), cl4)) = (DwOk (), cl')"
    unfolding syncRolebindings_def Let_def dw_seq_Ok assms(6) by auto
  have bound: "cl5 = cl \<and> account_bound cl (wwc_Namespace w) name role saName"
    if "addServiceAccountToRolebinding (ac_api env) saName (wwc_Namespace w) r name k cl = (DwOk (), cl5)" "binding_role (wwc_Namespace w) name = Some role" for r name k role cl5
    using add_binds [OF that(1) bindings_okD(1) [OF ok] assms(3)] listed_bound [OF _ ok that(2)] by blast
  from bound [OF first binding_role_simps(1)] have 1: "cl3 = cl" "account_bound cl (wwc_Namespace w) WorkspaceRolebindingName (RbacRoleKind, WorkspaceRoleName) saName" by simp_all
  from second 1 have 2: "cl4 = cl \<and> (attr_exists (ts_Attributes (wwc_Template w)) WorkspaceSCCAttribute \<longrightarrow>
      account_bound cl (wwc_Namespace w) (WorkspaceSCCRolebindingName sccName) (RbacRoleKind, WorkspaceSCCRoleName sccName) saName)"
    using bound [OF _ binding_role_simps(3)] by (auto split: if_splits)
  from third 2 have 3: "cl' = cl \<and> (ac_openshift env \<longrightarrow>
      account_bound cl (wwc_Namespace w) (RegistryImagePullerRolebindingName (wwc_Namespace w)) (RbacClusterRoleKind, RegistryImagePullerRoleName) saName)"
    using bound [OF _ binding_role_simps(2)] by (auto split: if_splits)
  with 1 2 roles show ?thesis by (simp add: RbacRoleKind_def RbacClusterRoleKind_def RegistryImagePullerRoleName_def)
qed

text \<open>
  (C32) In every state that the workspaces of a namespace can have brought about: when the roles of a workspace are reported as finalised, its service account is a subject of none of the
  bindings any more: not of the default one, nor of the one for its security context constraint, nor on OpenShift of the one for pulling images. This also holds where the
  account is shared with workspaces that still run. The client holds the labelled bindings in its cache, which is what its selector asks for,
  no call fails with a false answer that an object is absent, and the comparison library calls two bindings equal only if their subjects are.
\<close>

theorem rbac_revoked:
  assumes "rbac_reachable (wwc_Namespace w) cl" "FinalizeRBAC env w config cl = (DwOk (), cl')" "compares_subjects (ac_api env)" "caches_bindings (ac_api env)"
    "saName = ServiceAccountName_of config (wwc_Id w)" "sccName = attribute_string env (ts_Attributes (wwc_Template w)) WorkspaceSCCAttribute"
  shows "cl' = cl \<and> \<not> listed_in cl (wwc_Namespace w) WorkspaceRolebindingName saName \<and>
    (attr_exists (ts_Attributes (wwc_Template w)) WorkspaceSCCAttribute \<longrightarrow> \<not> listed_in cl (wwc_Namespace w) (WorkspaceSCCRolebindingName sccName) saName) \<and>
    (ac_openshift env \<longrightarrow> \<not> listed_in cl (wwc_Namespace w) (RegistryImagePullerRolebindingName (wwc_Namespace w)) saName)"
proof -
  note ok = rbac_reachable_ok [OF assms(1)]
  have unbind: "cl2 = cl \<and> \<not> listed_in cl (wwc_Namespace w) name saName"
    if "removeServiceAccountFromRolebinding (ac_api env) saName (wwc_Namespace w) name cl = (DwOk (), cl2)" "binding_role (wwc_Namespace w) name = Some role" for name role cl2
    using remove_unbinds [OF that(1) ok assms(3,4) that(2)] .
  have gone: "cl2 = cl \<and> \<not> listed_in cl (wwc_Namespace w) name saName"
    if "dw_seq (deleteRole (ac_api env) role (wwc_Namespace w) cl) (\<lambda>_. deleteRolebinding (ac_api env) name (wwc_Namespace w)) = (DwOk (), cl2)"
      "binding_role (wwc_Namespace w) name = Some r" for role name r cl2
    using that delete_gone [OF _ ok assms(4) that(2)] by (auto simp: dw_seq_Ok dest!: deleteRole_Ok)
  have scc: "cl1 = cl \<and> \<not> listed_in cl (wwc_Namespace w) (WorkspaceSCCRolebindingName sccName) saName"
    if "finalizeSCCRBAC env w saName cl = (DwOk (), cl1)" for cl1
    using that unbind [OF _ binding_role_simps(3)] gone [OF _ binding_role_simps(3)] unfolding finalizeSCCRBAC_def Let_def assms(6) by (auto split: sum.splits if_splits)
  have registry: "cl1 = cl \<and> \<not> listed_in cl (wwc_Namespace w) (RegistryImagePullerRolebindingName (wwc_Namespace w)) saName"
    if "finalizeRegistryRBAC env w saName cl = (DwOk (), cl1)" for cl1
    using that unbind [OF _ binding_role_simps(2)] delete_gone [OF _ ok assms(4) binding_role_simps(2)] unfolding finalizeRegistryRBAC_def by (auto split: sum.splits if_splits)
  obtain n where n: "countNonDeletedWorkspaces env = Inr n"
    using assms(2) by (cases "countNonDeletedWorkspaces env") (auto simp: FinalizeRBAC_def Let_def dw_seq_unit_Ok)
  from assms(2) obtain cl1 cl2 where
    first: "(if attr_exists (ts_Attributes (wwc_Template w)) WorkspaceSCCAttribute then finalizeSCCRBAC env w saName cl else (DwOk (), cl)) = (DwOk (), cl1)" and
    second: "(if n = 0
       then dw_seq (deleteRole (ac_api env) WorkspaceRoleName (wwc_Namespace w) cl1) (\<lambda>_. deleteRolebinding (ac_api env) WorkspaceRolebindingName (wwc_Namespace w))
       else removeServiceAccountFromRolebinding (ac_api env) saName (wwc_Namespace w) WorkspaceRolebindingName cl1) = (DwOk (), cl2)" and
    third: "(if ac_openshift env then finalizeRegistryRBAC env w saName cl2 else (DwOk (), cl2)) = (DwOk (), cl')"
    unfolding FinalizeRBAC_def Let_def dw_seq_unit_Ok n sum.case assms(5) [symmetric] by blast
  from first scc have 1: "cl1 = cl \<and> (attr_exists (ts_Attributes (wwc_Template w)) WorkspaceSCCAttribute \<longrightarrow> \<not> listed_in cl (wwc_Namespace w) (WorkspaceSCCRolebindingName sccName) saName)"
    by (auto split: if_splits)
  from second 1 unbind [OF _ binding_role_simps(1)] gone [OF _ binding_role_simps(1)] have 2: "cl2 = cl \<and> \<not> listed_in cl (wwc_Namespace w) WorkspaceRolebindingName saName"
    by (auto split: if_splits)
  from third 2 registry have "cl' = cl \<and> (ac_openshift env \<longrightarrow> \<not> listed_in cl (wwc_Namespace w) (RegistryImagePullerRolebindingName (wwc_Namespace w)) saName)"
    by (auto split: if_splits)
  with 1 2 show ?thesis by blast
qed

section \<open>Tokens\<close>

lemma distinct_map_filter: "distinct (map f xs) \<longleftrightarrow> (\<forall>x \<in> set xs. length [y \<leftarrow> xs. f y = f x] \<le> 1)"
proof (induction xs)
  case (Cons a xs)
  have "(\<forall>x \<in> set (a # xs). length [y \<leftarrow> a # xs. f y = f x] \<le> 1) \<longleftrightarrow> f a \<notin> f ` set xs \<and> (\<forall>x \<in> set xs. length [y \<leftarrow> xs. f y = f x] \<le> 1)"
    by (auto simp: filter_empty_conv image_iff)
  with Cons show ?case by simp
qed simp

lemma no_collisions: "checkSATokenPathCollisions saTokens mountPath = None \<longleftrightarrow> distinct (map sat_Path saTokens)"
proof -
  have "problem_paths saTokens = [] \<longleftrightarrow> distinct (map sat_Path saTokens)"
    unfolding distinct_map_filter by (auto simp: problem_paths_def filter_empty_conv not_less)
  moreover have "checkSATokenPathCollisions saTokens mountPath = None \<longleftrightarrow> problem_paths saTokens = []"
    by (auto simp: checkSATokenPathCollisions_def Let_def split: list.splits)
  ultimately show ?thesis by simp
qed

definition token_volume :: "ServiceAccountToken list \<Rightarrow> string \<Rightarrow> 'q VolumeData" where
  "token_volume tokens mountPath = ProjectedData
     (map (\<lambda>t. TokenProjection (sat_Audience t) (sat_ExpirationSeconds t) (sat_Path t)) [t \<leftarrow> tokens. sat_MountPath t = mountPath]) (Some 416)"

lemma project_tokens_cases:
  "case project_tokens sha tokens mountPaths of
     Inl _ \<Rightarrow> \<exists>p \<in> set mountPaths. \<not> distinct (map sat_Path [t \<leftarrow> tokens. sat_MountPath t = p])
   | Inr vs \<Rightarrow> (\<forall>p \<in> set mountPaths. distinct (map sat_Path [t \<leftarrow> tokens. sat_MountPath t = p])) \<and> map (vm_MountPath \<circ> fst) vs = mountPaths \<and>
       map (v_Name \<circ> snd) vs = map (vm_Name \<circ> fst) vs \<and> map (\<lambda>v. v_Source (snd v) Projected) vs = map (\<lambda>p. Some (token_volume tokens p)) mountPaths"
proof (induction mountPaths)
  case (Cons p ps)
  show ?case
  proof (cases "checkSATokenPathCollisions [t \<leftarrow> tokens. sat_MountPath t = p] p")
    case None
    then show ?thesis using Cons no_collisions [of "[t \<leftarrow> tokens. sat_MountPath t = p]" p]
      by (auto simp: generateSATokenProjectedVolume_def Let_def token_volume_def split: sum.splits)
  next
    case (Some e)
    then show ?thesis using no_collisions [of "[t \<leftarrow> tokens. sat_MountPath t = p]" p] by (simp add: generateSATokenProjectedVolume_def)
  qed
qed simp

lemma project_tokens_Inl:
  "project_tokens sha tokens mountPaths = Inl e \<Longrightarrow> \<exists>p \<in> set mountPaths. \<not> distinct (map sat_Path [t \<leftarrow> tokens. sat_MountPath t = p])"
  using project_tokens_cases [where 'a = 'a and sha = sha and tokens = tokens and mountPaths = mountPaths] by simp

lemma project_tokens_Inr:
  "project_tokens sha tokens mountPaths = Inr vs \<Longrightarrow>
   (\<forall>p \<in> set mountPaths. distinct (map sat_Path [t \<leftarrow> tokens. sat_MountPath t = p])) \<and> map (vm_MountPath \<circ> fst) vs = mountPaths \<and>
   map (v_Name \<circ> snd) vs = map (vm_Name \<circ> fst) vs \<and> map (\<lambda>v. v_Source (snd v) Projected) vs = map (\<lambda>p. Some (token_volume tokens p)) mountPaths"
  using project_tokens_cases [where 'a = 'a and sha = sha and tokens = tokens and mountPaths = mountPaths] by simp

lemma distinct_by_mount:
  "distinct (map (\<lambda>t. (sat_MountPath t, sat_Path t)) tokens) \<longleftrightarrow>
   (\<forall>p \<in> sat_MountPath ` set tokens. distinct (map sat_Path [t \<leftarrow> tokens. sat_MountPath t = p]))"
proof -
  have "length [y \<leftarrow> tokens. (sat_MountPath y, sat_Path y) = (sat_MountPath t, sat_Path t)] =
    length [y \<leftarrow> [y \<leftarrow> tokens. sat_MountPath y = sat_MountPath t]. sat_Path y = sat_Path t]" for t
    by (simp add: conj_commute)
  then show ?thesis unfolding distinct_map_filter by auto
qed

text \<open>Service account tokens are projected exactly if no two of them have the same file, that is mount path and path. Then there is one mount for every
  mount path, in order, of a volume that projects the tokens for that path and no others.\<close>

theorem tokens_projected:
  "case getSATokensVolumesAndVolumeMounts sha tokens :: err + VolumeMount list \<times> 'q Volume list of
     Inl _ \<Rightarrow> \<not> distinct (map (\<lambda>t. (sat_MountPath t, sat_Path t)) tokens)
   | Inr (mounts, volumes) \<Rightarrow> distinct (map (\<lambda>t. (sat_MountPath t, sat_Path t)) tokens) \<and>
       map vm_MountPath mounts = sort (remdups (map sat_MountPath tokens)) \<and> map v_Name volumes = map vm_Name mounts \<and>
       map (\<lambda>v. v_Source v Projected) volumes = map (\<lambda>p. Some (token_volume tokens p)) (sort (remdups (map sat_MountPath tokens)))"
proof (cases "getSATokensVolumesAndVolumeMounts sha tokens :: err + VolumeMount list \<times> 'q Volume list")
  case (Inl e)
  then have "project_tokens sha tokens (sort (remdups (map sat_MountPath tokens))) = (Inl e :: err + (VolumeMount \<times> 'q Volume) list)"
    by (auto simp: getSATokensVolumesAndVolumeMounts_def map_sum_def split: sum.splits)
  from project_tokens_Inl [OF this] Inl show ?thesis by (auto simp: distinct_by_mount)
next
  case (Inr r)
  then obtain vs where r: "r = (map fst vs, map snd vs)"
    and vs: "project_tokens sha tokens (sort (remdups (map sat_MountPath tokens))) = (Inr vs :: err + (VolumeMount \<times> 'q Volume) list)"
    by (auto simp: getSATokensVolumesAndVolumeMounts_def map_sum_def split: sum.splits)
  from project_tokens_Inr [OF vs] Inr r show ?thesis by (simp add: distinct_by_mount comp_def)
qed

section \<open>Other config maps\<close>

text \<open>Whether the metadata of a workspace is provisioned does not depend on the cluster: errors of its synchronisation are dropped.\<close>

lemma metadata_errors_dropped:
  "ac_yaml env = ac_yaml env' \<Longrightarrow> se_setOwner (ac_storage env) = se_setOwner (ac_storage env') \<Longrightarrow>
   fst (ProvisionWorkspaceMetadata env pa w flattened cl) = fst (ProvisionWorkspaceMetadata env' pa w flattened cl')"
  by (auto simp: ProvisionWorkspaceMetadata_def getSpecMetadataConfigMap_def SetControllerReference_def Let_def split: sum.splits option.splits)

section \<open>Witnesses\<close>

definition some_accounts :: "int account_env" where
  "some_accounts = \<lparr>ac_storage = some_storage, ac_getString = (\<lambda>_ _. Inl []), ac_openshift = False, ac_workspaces = Inr [(False, [])], ac_labelErr = None,
     ac_pullSecrets = Inr [], ac_now = 0, ac_sha = id, ac_askpass = [], ac_yaml = (\<lambda>_. Inr [])\<rparr>"

definition shared_account :: ServiceAccountConfig where
  "shared_account = \<lparr>ServiceAccountName = ''shared'', DisableCreation = None, ServiceAccountTokens = None\<rparr>"

definition account_workspace :: "int WorkspaceWithConfig" where
  "account_workspace = stored_workspace\<lparr>wwc_Workspace := (wwc_Workspace stored_workspace)\<lparr>wc_ServiceAccount := Some shared_account\<rparr>\<rparr>"

definition binding_of :: "Subject list \<Rightarrow> int object" where
  "binding_of xs = rbac_object WorkspaceRolebindingName ''ns'' rbacLabels (RoleBindingContent \<lparr>rb_RoleKind = RbacRoleKind, rb_RoleName = WorkspaceRoleName, rb_Subjects = xs\<rparr>)"

definition rbac_cluster :: "Subject list \<Rightarrow> int objects" where
  "rbac_cluster xs = Map.empty((RoleObj, ''ns'', WorkspaceRoleName) \<mapsto> generateDefaultRole ''ns'', (RoleBindingObj, ''ns'', WorkspaceRolebindingName) \<mapsto> binding_of xs)"

lemma plain_binds: "compares_subjects plain_server" "caches_bindings plain_server" "store_laws plain_server"
  by (simp_all add: compares_subjects_def caches_bindings_def store_laws_def plain_server_def)

lemma plain_get: "client_Get plain_server key cl = (case cl key of None \<Rightarrow> Inl (NotFound ''not found'') | Some obj \<Rightarrow> Inr obj)"
  by (simp add: client_Get_def plain_server_def split: option.splits)

lemma plain_in_sync:
  assumes "cl (obj_key_of obj) = Some obj" "kind_of (o_Content obj) \<in> {RoleObj, RoleBindingObj}" "metadata_applied obj obj"
  shows "sync_wrapped plain_server obj cl = (DwOk (), cl)"
proof -
  have "client_Get plain_server (obj_key_of obj) cl = Inr obj" using assms(1) by (simp add: plain_get)
  moreover have "basicDiffFunc plain_server opts obj obj = (False, False)" for opts by (simp add: basicDiffFunc_def plain_server_def)
  ultimately show ?thesis
    using assms by (auto simp: sync_wrapped_def SyncObjectWithCluster_def isMutableObject_def allDiffFuncs_def metadataDiffFunc_iff)
qed

lemma rbac_metadata: "metadata_applied (rbac_object name ns rbacLabels content) (rbac_object name ns rbacLabels content)"
  by (simp add: metadata_applied_def rbac_object_def rbacLabels_def go_at_def go_get_Some)

lemma role_in_sync: "sync_wrapped plain_server (generateDefaultRole ''ns'') (rbac_cluster xs) = (DwOk (), rbac_cluster xs)"
  by (rule plain_in_sync) (simp_all add: generateDefaultRole_def rbac_metadata, simp_all add: rbac_cluster_def rbac_object_def obj_key_of_def generateDefaultRole_def)

lemma binding_stored: "rbac_cluster xs (RoleBindingObj, ''ns'', WorkspaceRolebindingName) = Some (binding_of xs)"
  "rbac_cluster xs (RoleObj, ''ns'', WorkspaceRoleName) = Some (generateDefaultRole ''ns'')"
  by (simp_all add: rbac_cluster_def)

lemma account_facts: "wwc_Namespace account_workspace = ''ns''" "wc_ServiceAccount (wwc_Workspace account_workspace) = Some shared_account"
  "map_of (ts_Attributes (wwc_Template account_workspace)) k = None" "ServiceAccountName_of shared_account i = ''shared''"
  "ac_api some_accounts = plain_server" "ac_openshift some_accounts = False" "countNonDeletedWorkspaces some_accounts = Inr 1"
  by (simp_all add: account_workspace_def stored_workspace_def sample_devfile_def shared_account_def ServiceAccountName_of_def some_accounts_def some_storage_def
      countNonDeletedWorkspaces_def)

text \<open>The first two rounds of a workspace in an empty namespace create the role and the binding.\<close>

lemma role_key: "obj_key_of (generateDefaultRole ns) = (RoleObj, ns, WorkspaceRoleName)"
  by (simp add: generateDefaultRole_def rbac_object_def obj_key_of_def)

lemma plain_delete: "client_Delete plain_server obj cl =
    (case cl (obj_key_of obj) of None \<Rightarrow> (Some (NotFound ''not found''), cl) | Some old \<Rightarrow> (None, cl(obj_key_of obj := deleted_object old)))"
  by (simp add: client_Delete_def plain_server_def)

lemma plain_create: "cl (obj_key_of obj) = None \<Longrightarrow>
    sync_wrapped plain_server obj cl = (DwErr (WrapSyncError (NotInSyncError CreatedObjectReason obj)), cl(obj_key_of obj \<mapsto> obj))"
  by (simp add: sync_wrapped_def SyncObjectWithCluster_def plain_get createObjectGeneric_def client_Create_def)
    (simp add: plain_server_def)

lemma old_names: "OldWorkspaceRoleName \<noteq> WorkspaceRoleName" "OldWorkspaceRolebindingName \<noteq> WorkspaceRolebindingName"
  by (simp_all add: OldWorkspaceRoleName_def WorkspaceRoleName_def OldWorkspaceRolebindingName_def WorkspaceRolebindingName_def)

lemma old_keys: "obj_key_of (rbac_object name ns labels content) = (kind_of content, ns, name)"
  by (simp add: rbac_object_def obj_key_of_def)

lemma first_round: "snd (SyncRBAC some_accounts account_workspace Map.empty) = Map.empty((RoleObj, ''ns'', WorkspaceRoleName) \<mapsto> generateDefaultRole ''ns'')"
  by (simp add: SyncRBAC_def cleanupDeprecatedRBAC_def delete_deprecated_def syncRoles_def dw_seq_def plain_get plain_delete account_facts plain_create role_key)

lemma new_binding: "add_subject (generateDefaultRolebinding WorkspaceRolebindingName ''ns'' WorkspaceRoleName RbacRoleKind) ''shared'' ''ns'' =
    binding_of [account_subject ''shared'' ''ns'']"
  by (simp add: add_subject_def rolebindingHasSubject_def generateDefaultRolebinding_def binding_of_def rbac_object_def)

lemma second_round: "snd (SyncRBAC some_accounts account_workspace (Map.empty((RoleObj, ''ns'', WorkspaceRoleName) \<mapsto> generateDefaultRole ''ns''))) =
    rbac_cluster [account_subject ''shared'' ''ns'']"
proof -
  let ?cl = "Map.empty((RoleObj, ''ns'', WorkspaceRoleName) \<mapsto> generateDefaultRole ''ns'')"
  have role: "sync_wrapped plain_server (generateDefaultRole ''ns'') ?cl = (DwOk (), ?cl)"
    by (rule plain_in_sync) (simp_all add: role_key, simp_all add: generateDefaultRole_def rbac_metadata, simp add: rbac_object_def)
  have key: "obj_key_of (binding_of xs) = (RoleBindingObj, ''ns'', WorkspaceRolebindingName)" for xs by (simp add: binding_of_def old_keys)
  show ?thesis
    by (simp add: SyncRBAC_def cleanupDeprecatedRBAC_def delete_deprecated_def syncRoles_def dw_seq_def plain_get plain_delete account_facts role
        syncRolebindings_def addServiceAccountToRolebinding_def new_binding plain_create key old_keys old_names rbac_cluster_def Let_def)
qed

lemma granted_reachable: "rbac_reachable ''ns'' (rbac_cluster [account_subject ''shared'' ''ns''])"
proof -
  have "rbac_reachable ''ns'' (Map.empty :: int objects)" by (rule rbac_reachable.start) (simp_all add: keyed_def)
  from rbac_reachable.sync [OF this, of account_workspace some_accounts] have "rbac_reachable ''ns'' (Map.empty((RoleObj, ''ns'', WorkspaceRoleName) \<mapsto> generateDefaultRole ''ns'' :: int object))"
    by (simp add: first_round account_facts plain_binds)
  from rbac_reachable.sync [OF this, of account_workspace some_accounts] show ?thesis by (simp add: second_round account_facts plain_binds)
qed

theorem rbac_granted_witness:
  "account_bound (rbac_cluster [account_subject ''shared'' ''ns'']) ''ns'' WorkspaceRolebindingName (''Role'', WorkspaceRoleName) ''shared''"
proof -
  let ?cl = "rbac_cluster [account_subject ''shared'' ''ns'']" and ?b = "binding_of [account_subject ''shared'' ''ns'']"
  have "sync_wrapped plain_server ?b ?cl = (DwOk (), ?cl)"
    by (rule plain_in_sync) (simp_all add: binding_of_def rbac_metadata, simp_all add: rbac_cluster_def rbac_object_def obj_key_of_def binding_of_def)
  moreover have "add_subject ?b ''shared'' ''ns'' = ?b"
    by (simp add: add_subject_def rolebindingHasSubject_def binding_of_def rbac_object_def)
  ultimately have "SyncRBAC some_accounts account_workspace ?cl = (DwOk (), ?cl)"
    by (simp add: SyncRBAC_def cleanupDeprecatedRBAC_def delete_deprecated_def syncRoles_def syncRolebindings_def addServiceAccountToRolebinding_def dw_seq_def
        plain_get binding_stored account_facts role_in_sync)
  from rbac_granted [OF _ this, unfolded account_facts, OF granted_reachable plain_binds(1)] show ?thesis by (simp add: account_facts)
qed

lemma revoking_round: "snd (FinalizeRBAC some_accounts account_workspace shared_account (rbac_cluster [account_subject ''shared'' ''ns''])) = rbac_cluster []"
proof -
  let ?cl = "rbac_cluster [account_subject ''shared'' ''ns'']"
  have has: "rolebindingHasSubject (binding_of [account_subject ''shared'' ''ns'']) ''shared'' ''ns''"
    by (simp add: rolebindingHasSubject_def binding_of_def rbac_object_def)
  have written: "binding_of [account_subject ''shared'' ''ns'']\<lparr>o_Content := with_subjects [s \<leftarrow> subjects (o_Content (binding_of [account_subject ''shared'' ''ns''])).
      s \<noteq> account_subject ''shared'' ''ns''] (o_Content (binding_of [account_subject ''shared'' ''ns'']))\<rparr> = binding_of []"
    by (simp add: binding_of_def rbac_object_def)
  have key: "obj_key_of (binding_of xs) = (RoleBindingObj, ''ns'', WorkspaceRolebindingName)" "kind_of (o_Content (binding_of xs)) = RoleBindingObj"
    "o_ResourceVersion (binding_of xs) = []" "binding_of xs\<lparr>o_ResourceVersion := []\<rparr> = binding_of xs" for xs
    by (simp_all add: binding_of_def rbac_object_def obj_key_of_def)
  have diff: "metadataDiffFunc (binding_of []) (binding_of xs) = (False, False)" "basicDiffFunc plain_server opts (binding_of []) (binding_of xs) = (False, xs \<noteq> [])" for xs opts
    by (auto simp: metadataDiffFunc_iff metadata_applied_def basicDiffFunc_def plain_server_def binding_of_def rbac_object_def rbacLabels_def go_at_def go_get_Some)
  have "client_Update plain_server (binding_of []) ?cl = (None, ?cl((RoleBindingObj, ''ns'', WorkspaceRolebindingName) \<mapsto> binding_of []))"
    by (simp add: client_Update_def key binding_stored plain_server_def)
  then have "updateObjectGeneric plain_server (binding_of []) (Some (binding_of [account_subject ''shared'' ''ns''])) ?cl =
      (NotInSyncError UpdatedObjectReason (binding_of []), ?cl((RoleBindingObj, ''ns'', WorkspaceRolebindingName) \<mapsto> binding_of []))"
    by (simp add: updateObjectGeneric_def getUpdateFunc_def key defaultUpdateFunc_def update_outcome_def)
  then have "snd (sync_wrapped plain_server (binding_of []) ?cl) = ?cl((RoleBindingObj, ''ns'', WorkspaceRolebindingName) \<mapsto> binding_of [])"
    by (simp add: sync_wrapped_def SyncObjectWithCluster_def plain_get isMutableObject_def key binding_stored allDiffFuncs_def diff)
  also have "\<dots> = rbac_cluster []" by (simp add: rbac_cluster_def)
  finally show ?thesis
    by (auto simp: FinalizeRBAC_def removeServiceAccountFromRolebinding_def dw_seq_def plain_get binding_stored account_facts Let_def has written
        split: prod.split dw_result.split)
qed

theorem rbac_revoked_witness: "\<not> listed_in (rbac_cluster []) ''ns'' WorkspaceRolebindingName ''shared''"
proof -
  have "\<not> rolebindingHasSubject (binding_of []) ''shared'' ''ns''" by (simp add: rolebindingHasSubject_def binding_of_def rbac_object_def)
  then have run: "FinalizeRBAC some_accounts account_workspace shared_account (rbac_cluster []) = (DwOk (), rbac_cluster [])"
    by (simp add: FinalizeRBAC_def removeServiceAccountFromRolebinding_def dw_seq_def plain_get binding_stored account_facts Let_def)
  have "rbac_reachable ''ns'' (rbac_cluster [])"
    using rbac_reachable.finalize [OF granted_reachable, of account_workspace some_accounts shared_account] by (simp add: revoking_round account_facts plain_binds)
  from rbac_revoked [OF _ run, unfolded account_facts, OF this plain_binds(1,2)] show ?thesis by (simp add: account_facts)
qed

end
