(* ===== verification/Flatten_Merge.thy ===== *)
theory Flatten_Merge
  imports Containers
begin

text \<open>
  Flattening of a devfile, first part (\<^verbatim>\<open>src/pkg/library/flatten/merge.go\<close>, \<^verbatim>\<open>src/pkg/library/annotate/plugins.go\<close>): volumes that the
  devfile, its parent and its plugins share, the marks of where an element comes from, and container contributions, which are merged
  into one container of the devfile.

  A volume component is a pointer that the map of volumes shares with the components, so a merge changes the component that was found
  first; the model threads the map through and writes its final values into the components at the end. Merging and overriding of whole
  devfiles, the attribute codec, the quantity parser and the replacement of variables belong to other modules and are parameters.
\<close>

section \<open>The devfile library\<close>

record VariableWarning =
  vw_Commands :: "(string, string list) gomap"
  vw_Components :: "(string, string list) gomap"
  vw_Projects :: "(string, string list) gomap"
  vw_StarterProjects :: "(string, string list) gomap"

record Devfile =
  df_SchemaVersion :: string
  df_Spec :: DevWorkspaceTemplateSpec

text \<open>
  \<open>fl_encode\<close> is the JSON text of a string, \<open>fl_toOverride\<close> the conversion of a component to an override through JSON, \<open>fl_parseURL\<close> gives
  the path of a URL and prints the URL with another path. The last three read a document as a devfile, a DevWorkspace and a DevWorkspaceTemplate.
\<close>

record 'q flatten_lib =
  fl_parse :: "string \<Rightarrow> err + 'q"
  fl_qstring :: "'q \<Rightarrow> string"
  fl_getString :: "attributes \<Rightarrow> string \<Rightarrow> err + string"
  fl_getBoolean :: "attributes \<Rightarrow> string \<Rightarrow> err + bool"
  fl_encode :: "string \<Rightarrow> string"
  fl_toOverride :: "DevfileComponent \<Rightarrow> err + opaque"
  fl_override :: "DevWorkspaceTemplateSpec \<Rightarrow> ParentOverrides \<Rightarrow> err + DevWorkspaceTemplateSpec"
  fl_merge :: "DevWorkspaceTemplateSpec \<Rightarrow> DevWorkspaceTemplateSpec \<Rightarrow> DevWorkspaceTemplateSpec list \<Rightarrow> err + DevWorkspaceTemplateSpec"
  fl_variables :: "DevWorkspaceTemplateSpec \<Rightarrow> DevWorkspaceTemplateSpec \<times> VariableWarning"
  fl_parseURL :: "string \<Rightarrow> err + string \<times> (string \<Rightarrow> string)"
  fl_devfile :: "string \<Rightarrow> err + Devfile"
  fl_devworkspace :: "string \<Rightarrow> err + string \<times> DevWorkspaceTemplateSpec"
  fl_template :: "string \<Rightarrow> err + string \<times> DevWorkspaceTemplateSpec"

text \<open>Reading without an error holder gives the zero value where the attribute is absent or has another type.\<close>

definition bool_attribute :: "'q flatten_lib \<Rightarrow> attributes \<Rightarrow> string \<Rightarrow> bool" where
  "bool_attribute L as key = (case fl_getBoolean L as key of Inr b \<Rightarrow> b | Inl _ \<Rightarrow> False)"

definition string_attribute :: "'q flatten_lib \<Rightarrow> attributes \<Rightarrow> string \<Rightarrow> string" where
  "string_attribute L as key = (case fl_getString L as key of Inr s \<Rightarrow> s | Inl _ \<Rightarrow> [])"

definition PutString :: "'q flatten_lib \<Rightarrow> string \<Rightarrow> string \<Rightarrow> attributes \<Rightarrow> attributes" where
  "PutString L key value as = AList.update key (fl_encode L value) as"

section \<open>Marks of the source\<close>

definition AddSourceAttributesForTemplate :: "'q flatten_lib \<Rightarrow> string \<Rightarrow> DevWorkspaceTemplateSpec \<Rightarrow> DevWorkspaceTemplateSpec" where
  "AddSourceAttributesForTemplate L sourceID template =
     (let put = PutString L PluginSourceAttribute sourceID in
      template\<lparr>
        ts_Components := map (\<lambda>c. c\<lparr>comp_Attributes := put (comp_Attributes c)\<rparr>) (ts_Components template),
        ts_Commands := map_option (map (\<lambda>c. c\<lparr>cmd_Attributes := put (cmd_Attributes c)\<rparr>)) (ts_Commands template),
        ts_Projects := map (\<lambda>p. p\<lparr>prj_Attributes := put (prj_Attributes p)\<rparr>) (ts_Projects template),
        ts_StarterProjects := map (\<lambda>p. p\<lparr>sp_Attributes := put (sp_Attributes p)\<rparr>) (ts_StarterProjects template),
        ts_DependentProjects := map (\<lambda>p. p\<lparr>prj_Attributes := put (prj_Attributes p)\<rparr>) (ts_DependentProjects template)\<rparr>)"

section \<open>Shared volumes\<close>

definition mergeVolume :: "(string \<Rightarrow> err + 'q::linorder) \<Rightarrow> VolumeComponent \<Rightarrow> VolumeComponent \<Rightarrow> err + VolumeComponent" where
  "mergeVolume parse into from =
     (let ephemeral = (case vc_Ephemeral from of None \<Rightarrow> None | Some e \<Rightarrow> if \<not> e then Some False else vc_Ephemeral into);
          intoSize = (if vc_Size into = [] then ''0'' else vc_Size into) in
      case parse intoSize of Inl e \<Rightarrow> Inl e | Inr intoSizeQty \<Rightarrow>
        let fromSize = (if vc_Size from = [] then ''0'' else vc_Size from) in
      case parse fromSize of Inl e \<Rightarrow> Inl e | Inr fromSizeQty \<Rightarrow>
        Inr (into\<lparr>vc_Ephemeral := ephemeral, vc_Size := (if fromSizeQty > intoSizeQty then vc_Size from else vc_Size into)\<rparr>))"

type_synonym volumes = "(string \<times> VolumeComponent) list"

fun main_volumes :: "DevfileComponent list \<Rightarrow> volumes \<Rightarrow> err + volumes" where
  "main_volumes [] vols = Inr vols"
| "main_volumes (component # components) vols =
     (case comp_Volume component of
        None \<Rightarrow> main_volumes components vols
      | Some volume \<Rightarrow>
          if map_of vols (comp_Name component) \<noteq> None then Inl (''duplicate volume found in devfile: '' @ comp_Name component)
          else main_volumes components ((comp_Name component, volume) # vols))"

text \<open>The inner function: the components that stay, and the map of volumes after them.\<close>

fun merge_spec_volumes :: "(string \<Rightarrow> err + 'q::linorder) \<Rightarrow> DevfileComponent list \<Rightarrow> volumes \<Rightarrow> err + DevfileComponent list \<times> volumes" where
  "merge_spec_volumes parse [] vols = Inr ([], vols)"
| "merge_spec_volumes parse (component # components) vols =
     (case comp_Volume component of
        None \<Rightarrow> map_sum id (\<lambda>(newComponents, vols'). (component # newComponents, vols')) (merge_spec_volumes parse components vols)
      | Some volume \<Rightarrow>
          (case map_of vols (comp_Name component) of
             Some existingVol \<Rightarrow>
               (case mergeVolume parse existingVol volume of
                  Inl e \<Rightarrow> Inl e
                | Inr merged \<Rightarrow> merge_spec_volumes parse components (AList.update (comp_Name component) merged vols))
           | None \<Rightarrow> map_sum id (\<lambda>(newComponents, vols'). (component # newComponents, vols'))
               (merge_spec_volumes parse components ((comp_Name component, volume) # vols))))"

fun merge_specs_volumes :: "(string \<Rightarrow> err + 'q::linorder) \<Rightarrow> DevfileComponent list list \<Rightarrow> volumes \<Rightarrow> err + DevfileComponent list list \<times> volumes" where
  "merge_specs_volumes parse [] vols = Inr ([], vols)"
| "merge_specs_volumes parse (components # specs) vols =
     (case merge_spec_volumes parse components vols of
        Inl e \<Rightarrow> Inl e
      | Inr (newComponents, vols') \<Rightarrow> map_sum id (\<lambda>(rest, vols''). (newComponents # rest, vols'')) (merge_specs_volumes parse specs vols'))"

definition shared_volume :: "volumes \<Rightarrow> DevfileComponent \<Rightarrow> DevfileComponent" where
  "shared_volume vols component =
     (case comp_Volume component of
        None \<Rightarrow> component
      | Some volume \<Rightarrow> component\<lparr>comp_Volume := Some (case map_of vols (comp_Name component) of None \<Rightarrow> volume | Some v \<Rightarrow> v)\<rparr>)"

definition share_volumes :: "volumes \<Rightarrow> DevfileComponent list \<Rightarrow> DevWorkspaceTemplateSpec \<Rightarrow> DevWorkspaceTemplateSpec" where
  "share_volumes vols components spec = spec\<lparr>ts_Components := map (shared_volume vols) components\<rparr>"

text \<open>The parent is merged first, then the plugins in order.\<close>

definition mergeVolumeComponents ::
  "(string \<Rightarrow> err + 'q::linorder) \<Rightarrow> DevWorkspaceTemplateSpec \<Rightarrow> DevWorkspaceTemplateSpec \<Rightarrow> DevWorkspaceTemplateSpec list \<Rightarrow>
   err + DevWorkspaceTemplateSpec \<times> DevWorkspaceTemplateSpec \<times> DevWorkspaceTemplateSpec list" where
  "mergeVolumeComponents parse main parent plugins =
     (case main_volumes (ts_Components main) [] of
        Inl e \<Rightarrow> Inl e
      | Inr vols \<Rightarrow>
     (case merge_spec_volumes parse (ts_Components parent) vols of
        Inl e \<Rightarrow> Inl e
      | Inr (parentComponents, vols) \<Rightarrow>
     (case merge_specs_volumes parse (map ts_Components plugins) vols of
        Inl e \<Rightarrow> Inl e
      | Inr (pluginComponents, vols) \<Rightarrow>
          Inr (share_volumes vols (ts_Components main) main, share_volumes vols parentComponents parent,
               map2 (share_volumes vols) pluginComponents plugins))))"

definition mergeDevWorkspaceElements ::
  "'q::linorder flatten_lib \<Rightarrow> DevWorkspaceTemplateSpec \<Rightarrow> DevWorkspaceTemplateSpec \<Rightarrow> DevWorkspaceTemplateSpec list \<Rightarrow> err + DevWorkspaceTemplateSpec" where
  "mergeDevWorkspaceElements L main parent plugins =
     (case mergeVolumeComponents (fl_parse L) main parent plugins of
        Inl e \<Rightarrow> Inl (''failed to merge DevWorkspace volumes: '' @ e)
      | Inr (main', parent', plugins') \<Rightarrow>
          (case fl_merge L main' parent' plugins' of
             Inl e \<Rightarrow> Inl (''failed to merge DevWorkspace parents/plugins: '' @ e)
           | Inr merged \<Rightarrow> Inr merged))"

section \<open>Container contributions\<close>

definition parse_failed :: "string \<Rightarrow> DevfileComponent \<Rightarrow> err" where
  "parse_failed key component = ''failed to parse '' @ key @ '' attribute on component '' @ comp_Name component @ '' as true or false''"

definition imported_by_plugin :: "'q flatten_lib \<Rightarrow> DevfileComponent \<Rightarrow> bool" where
  "imported_by_plugin L component \<longleftrightarrow>
     (let pluginSource = string_attribute L (comp_Attributes component) PluginSourceAttribute in pluginSource \<noteq> [] \<and> pluginSource \<noteq> ''parent'')"

fun contribution_scan :: "'q flatten_lib \<Rightarrow> DevfileComponent list \<Rightarrow> bool \<times> bool \<times> bool \<Rightarrow> err + bool" where
  "contribution_scan L [] (hasContribution, hasTarget, explicitTarget) = Inr (hasContribution \<and> hasTarget)"
| "contribution_scan L (component # components) (hasContribution, hasTarget, explicitTarget) =
     (if comp_Container component = None then contribution_scan L components (hasContribution, hasTarget, explicitTarget)
      else if attr_exists (comp_Attributes component) ContainerContributionAttribute then
        (case fl_getBoolean L (comp_Attributes component) ContainerContributionAttribute of
           Inl _ \<Rightarrow> Inl (parse_failed ContainerContributionAttribute component)
         | Inr b \<Rightarrow> contribution_scan L components (hasContribution \<or> b, hasTarget, explicitTarget))
      else if attr_exists (comp_Attributes component) MergeContributionAttribute then
        (case fl_getBoolean L (comp_Attributes component) MergeContributionAttribute of
           Inl _ \<Rightarrow> Inl (parse_failed MergeContributionAttribute component)
         | Inr b \<Rightarrow>
             if b \<and> explicitTarget
             then Inl (''multiple components have the '' @ MergeContributionAttribute @ '' attribute set to true. Only a single component may have the '' @
                       MergeContributionAttribute @ '' attribute set to true'')
             else contribution_scan L components (hasContribution, hasTarget \<or> b, explicitTarget \<or> b))
      else contribution_scan L components (hasContribution, hasTarget \<or> \<not> imported_by_plugin L component, explicitTarget))"

definition needsContainerContributionMerge :: "'q flatten_lib \<Rightarrow> DevWorkspaceTemplateSpec \<Rightarrow> err + bool" where
  "needsContainerContributionMerge L flattenedSpec = contribution_scan L (ts_Components flattenedSpec) (False, False, False)"

fun target_scan :: "'q flatten_lib \<Rightarrow> DevfileComponent list \<Rightarrow> string \<Rightarrow> err + string" where
  "target_scan L [] firstComponent =
     (if firstComponent \<noteq> [] then Inr firstComponent else Inl (''couldn'' @ sq @ ''t find any merge contribution target component''))"
| "target_scan L (component # components) firstComponent =
     (if comp_Container component = None then target_scan L components firstComponent
      else if attr_exists (comp_Attributes component) MergeContributionAttribute then
        (if bool_attribute L (comp_Attributes component) MergeContributionAttribute then Inr (comp_Name component)
         else target_scan L components firstComponent)
      else if imported_by_plugin L component then target_scan L components firstComponent
      else target_scan L components (if firstComponent = [] then comp_Name component else firstComponent))"

definition findMergeTarget :: "'q flatten_lib \<Rightarrow> DevWorkspaceTemplateSpec \<Rightarrow> err + string" where
  "findMergeTarget L flattenedSpec = target_scan L (ts_Components flattenedSpec) []"

text \<open>
  A contribution is turned into an override of the target: with the name of the target, without image, source and resources. The loop
  collects the sources, the sum of the resources and the overrides.
\<close>

definition contribution_override :: "string \<Rightarrow> DevfileComponent \<Rightarrow> ContainerComponent \<Rightarrow> DevfileComponent" where
  "contribution_override target component container =
     component\<lparr>comp_Name := target, comp_Container := Some (container\<lparr>cc_Image := []\<rparr>),
       comp_Attributes := AList.delete PluginSourceAttribute (comp_Attributes component)\<rparr>"

definition without_resources :: "DevfileComponent \<Rightarrow> DevfileComponent" where
  "without_resources component =
     component\<lparr>comp_Container := map_option (\<lambda>c. c\<lparr>cc_MemoryLimit := [], cc_MemoryRequest := [], cc_CpuLimit := [], cc_CpuRequest := []\<rparr>)
       (comp_Container component)\<rparr>"

fun collect_contributions ::
  "'q::linordered_ab_group_add flatten_lib \<Rightarrow> string \<Rightarrow> DevfileComponent list \<Rightarrow> 'q ResourceRequirements \<Rightarrow> string list \<Rightarrow> opaque list \<Rightarrow>
   ('q ResourceRequirements \<times> string list \<times> opaque list) go_result" where
  "collect_contributions L target [] totalResources mergedComponentNames toMerge = Ok (totalResources, mergedComponentNames, toMerge)"
| "collect_contributions L target (component # contributions) totalResources mergedComponentNames toMerge =
     (case comp_Container component of
        None \<Rightarrow> Err ''attempting to merge container contribution from a non-container component''
      | Some container \<Rightarrow>
          let mergedComponentNames =
                (if attr_exists (comp_Attributes component) PluginSourceAttribute
                 then mergedComponentNames @ [string_attribute L (comp_Attributes component) PluginSourceAttribute] else mergedComponentNames);
              component = contribution_override target component container in
          go_bind (of_sum (ParseResourcesFromComponent (fl_parse L) component)) (\<lambda>componentResources.
          go_bind (of_option (AddResourceRequirements totalResources componentResources)) (\<lambda>totalResources.
          go_bind (of_sum (fl_toOverride L (without_resources component))) (\<lambda>componentPluginOverride.
          collect_contributions L target contributions totalResources mergedComponentNames (toMerge @ [componentPluginOverride])))))"

definition no_overrides :: ParentOverrides where
  "no_overrides = \<lparr>ov_Components = None, ov_Commands = None, ov_Projects = None, ov_StarterProjects = None, ov_DependentProjects = None,
     ov_Attributes = None, ov_Variables = None\<rparr>"

definition empty_spec :: DevWorkspaceTemplateSpec where
  "empty_spec = \<lparr>ts_Parent = None, ts_Attributes = [], ts_Components = [], ts_Commands = None, ts_Events = None, ts_Projects = [],
     ts_StarterProjects = [], ts_DependentProjects = [], ts_Variables = None\<rparr>"

text \<open>Writing resources through a nil container panics, where there is anything to write.\<close>

definition resources_onto :: "'q::linordered_ab_group_add flatten_lib \<Rightarrow> 'q ResourceRequirements \<Rightarrow> DevfileComponent \<Rightarrow> DevfileComponent go_result" where
  "resources_onto L totalResources component =
     (case comp_Container component of
        Some container \<Rightarrow> Ok (component\<lparr>comp_Container := Some (ApplyResourceRequirementsToComponent (fl_qstring L) container totalResources)\<rparr>)
      | None \<Rightarrow>
          if rr_at (rr_Limits totalResources) ResourceMemory = 0 \<and> rr_at (rr_Limits totalResources) ResourceCPU = 0 \<and>
             rr_at (rr_Requests totalResources) ResourceMemory = 0 \<and> rr_at (rr_Requests totalResources) ResourceCPU = 0
          then Ok component else Panic)"

definition mergeContributionsInto ::
  "'q::linordered_ab_group_add flatten_lib \<Rightarrow> DevfileComponent \<Rightarrow> DevfileComponent list \<Rightarrow> 'q ResourceRequirements option \<Rightarrow> DevfileComponent go_result" where
  "mergeContributionsInto L mergeInto contributions defaultResources =
     (if comp_Container mergeInto = None then Err ''attempting to merge container contributions into a non-container component''
      else
        go_bind (of_sum (ParseResourcesFromComponent (fl_parse L) mergeInto)) (\<lambda>totalResources.
        go_bind (of_option (ApplyDefaults totalResources defaultResources)) (\<lambda>totalResources.
        go_bind (collect_contributions L (comp_Name mergeInto) contributions totalResources [] []) (\<lambda>(totalResources, mergedComponentNames, toMerge).
        go_bind (of_sum (fl_override L (empty_spec\<lparr>ts_Components := [mergeInto]\<rparr>)
                   (no_overrides\<lparr>ov_Components := (if toMerge = [] then None else Some toMerge)\<rparr>))) (\<lambda>mergedSpecContent.
        case ts_Components mergedSpecContent of
          [] \<Rightarrow> Panic
        | mergedComponent # _ \<Rightarrow>
            go_bind (resources_onto L totalResources mergedComponent) (\<lambda>mergedComponent.
            Ok (mergedComponent\<lparr>comp_Attributes :=
              AList.delete ContainerContributionAttribute (AList.delete MergeContributionAttribute
                (PutString L MergedContributionsAttribute (strings_join '','' mergedComponentNames) (comp_Attributes mergedComponent)))\<rparr>)))))))"

definition is_contribution :: "'q flatten_lib \<Rightarrow> DevfileComponent \<Rightarrow> bool" where
  "is_contribution L component \<longleftrightarrow>
     comp_Container component \<noteq> None \<and> bool_attribute L (comp_Attributes component) ContainerContributionAttribute"

definition retarget_command :: "string \<Rightarrow> string list \<Rightarrow> Command \<Rightarrow> err + Command" where
  "retarget_command mergedName contributionNames command =
     (case cmd_Exec command of
        Some ex \<Rightarrow>
          Inr (if ex_Component ex \<in> set contributionNames then command\<lparr>cmd_Exec := Some (ex\<lparr>ex_Component := mergedName\<rparr>)\<rparr> else command)
      | None \<Rightarrow>
          (case cmd_Apply command of
             Some ap \<Rightarrow>
               if ap_Component ap \<in> set contributionNames
               then Inl (''apply command '' @ cmd_Id command @ '' uses container contribution '' @ ap_Component ap @ '' as component'')
               else Inr command
           | None \<Rightarrow> Inr command))"

fun retarget_commands :: "string \<Rightarrow> string list \<Rightarrow> Command list \<Rightarrow> err + Command list" where
  "retarget_commands mergedName contributionNames [] = Inr []"
| "retarget_commands mergedName contributionNames (command # commands) =
     (case retarget_command mergedName contributionNames command of
        Inl e \<Rightarrow> Inl e
      | Inr command' \<Rightarrow> map_sum id ((#) command') (retarget_commands mergedName contributionNames commands))"

definition updateCommandTargetsAfterMerge :: "string \<Rightarrow> string list \<Rightarrow> DevWorkspaceTemplateSpec \<Rightarrow> err + DevWorkspaceTemplateSpec" where
  "updateCommandTargetsAfterMerge mergedName contributionNames flattenedSpec =
     map_sum id (\<lambda>newCommands. flattenedSpec\<lparr>ts_Commands := (if newCommands = [] then None else Some newCommands)\<rparr>)
       (retarget_commands mergedName contributionNames (ts_commands flattenedSpec))"

text \<open>The components without the contributions, with the first component of the target's name replaced; and whether there was one.\<close>

fun merge_loop ::
  "'q::linordered_ab_group_add flatten_lib \<Rightarrow> string \<Rightarrow> DevfileComponent list \<Rightarrow> 'q ResourceRequirements option \<Rightarrow> DevfileComponent list \<Rightarrow> bool \<Rightarrow>
   (DevfileComponent list \<times> bool) go_result" where
  "merge_loop L target contributions defaultResources [] mergeDone = Ok ([], mergeDone)"
| "merge_loop L target contributions defaultResources (component # components) mergeDone =
     (if comp_Container component = None
      then go_bind (merge_loop L target contributions defaultResources components mergeDone) (\<lambda>(newComponents, d). Ok (component # newComponents, d))
      else if bool_attribute L (comp_Attributes component) ContainerContributionAttribute
      then merge_loop L target contributions defaultResources components mergeDone
      else if comp_Name component = target \<and> \<not> mergeDone
      then go_bind (wrap_err ''failed to merge container contributions: '' (mergeContributionsInto L component contributions defaultResources)) (\<lambda>mergedComponent.
           go_bind (merge_loop L target contributions defaultResources components True) (\<lambda>(newComponents, d). Ok (mergedComponent # newComponents, d)))
      else go_bind (merge_loop L target contributions defaultResources components mergeDone) (\<lambda>(newComponents, d). Ok (component # newComponents, d)))"

definition mergeContainerContributions ::
  "'q::linordered_ab_group_add flatten_lib \<Rightarrow> DevWorkspaceTemplateSpec \<Rightarrow> 'q ResourceRequirements option \<Rightarrow> DevWorkspaceTemplateSpec go_result" where
  "mergeContainerContributions L flattenedSpec defaultResources =
     (let contributions = [component \<leftarrow> ts_Components flattenedSpec. is_contribution L component] in
      go_bind (of_sum (findMergeTarget L flattenedSpec)) (\<lambda>targetComponentName.
      go_bind (merge_loop L targetComponentName contributions defaultResources (ts_Components flattenedSpec) False) (\<lambda>(newComponents, mergeDone).
      if mergeDone
      then go_bind (of_sum (updateCommandTargetsAfterMerge targetComponentName (map comp_Name contributions) flattenedSpec)) (\<lambda>spec.
           Ok (spec\<lparr>ts_Components := newComponents\<rparr>))
      else Ok flattenedSpec)))"

end
