(* ===== verification/Flatten.thy ===== *)
theory Flatten
  imports Flatten_Merge
begin

text \<open>
  Flattening of a devfile, second part (\<^verbatim>\<open>src/pkg/library/flatten/flatten.go\<close>, \<^verbatim>\<open>helper.go\<close>, \<^verbatim>\<open>network\<close>): the resolution of
  the parent and the plugins, which may import plugins themselves. What the cluster and the network answer does not change during a
  resolution. The resolution may run forever where a server answers with ever new references, so it takes a bound on the depth of the
  recursion, and \<open>None\<close> is a resolution that has not returned within the bound.
\<close>

section \<open>Tools\<close>

record DevWorkspaceTemplate =
  dwt_Namespace :: string
  dwt_Annotations :: "(string, string) gomap"
  dwt_Spec :: DevWorkspaceTemplateSpec

datatype template_answer = TemplateFound DevWorkspaceTemplate | TemplateNotFound | TemplateError err

record http_response =
  hr_StatusCode :: int
  hr_Body :: "err + string"

text \<open>A client that is not provided is nil. The Kubernetes client takes namespace and name.\<close>

record 'q ResolverTools =
  rt_WorkspaceNamespace :: string
  rt_K8sClient :: "(string \<Rightarrow> string \<Rightarrow> template_answer) option"
  rt_HttpClient :: "(string \<Rightarrow> err + http_response) option"
  rt_DefaultResourceRequirements :: "'q ResourceRequirements option"

section \<open>Fetching\<close>

text \<open>\<^verbatim>\<open>^2\..+\<close>\<close>

definition supported_schema_version :: "string \<Rightarrow> bool" where
  "supported_schema_version s \<longleftrightarrow>
     (case s of a # b # c # _ \<Rightarrow> a = CHR ''2'' \<and> b = CHR ''.'' \<and> c \<noteq> CHR 0x0A | _ \<Rightarrow> False)"

definition ConvertDevfileToDevWorkspaceTemplate :: "Devfile \<Rightarrow> err + DevWorkspaceTemplateSpec" where
  "ConvertDevfileToDevWorkspaceTemplate devfile =
     (if \<not> supported_schema_version (df_SchemaVersion devfile)
      then Inl (''could not process devfile: unsupported schemaVersion '' @ sq @ df_SchemaVersion devfile @ sq)
      else Inr (df_Spec devfile))"

definition template_of_document :: "'q flatten_lib \<Rightarrow> string \<Rightarrow> string \<Rightarrow> err + DevWorkspaceTemplateSpec" where
  "template_of_document L location bytes =
     (case fl_devfile L bytes of
        Inl e \<Rightarrow> Inl (''could not unmarshal devfile from response: '' @ e)
      | Inr devfile \<Rightarrow>
          if df_SchemaVersion devfile \<noteq> [] then
            (case ConvertDevfileToDevWorkspaceTemplate devfile of
               Inl e \<Rightarrow> Inl (''failed to convert devfile to DevWorkspaceTemplate: '' @ e)
             | Inr spec \<Rightarrow> Inr spec)
          else
     (case fl_devworkspace L bytes of
        Inl e \<Rightarrow> Inl (''could not unmarshal devworkspace from response: '' @ e)
      | Inr (kind, template) \<Rightarrow>
          if kind = ''DevWorkspace'' then Inr template
          else
     (case fl_template L bytes of
        Inl e \<Rightarrow> Inl (''could not unmarshal devworkspacetemplate from response: '' @ e)
      | Inr (kind, spec) \<Rightarrow>
          if kind = ''DevWorkspaceTemplate'' then Inr spec
          else Inl (''could not find devfile or devworkspace object at '' @ sq @ location @ sq))))"

definition FetchDevWorkspaceTemplate :: "'q flatten_lib \<Rightarrow> string \<Rightarrow> (string \<Rightarrow> err + http_response) \<Rightarrow> err + DevWorkspaceTemplateSpec" where
  "FetchDevWorkspaceTemplate L location httpClient =
     (case httpClient location of
        Inl e \<Rightarrow> Inl (''failed to fetch file from '' @ location @ '': '' @ e)
      | Inr resp \<Rightarrow>
          if hr_StatusCode resp \<noteq> 200
          then Inl (''could not fetch file from '' @ location @ '': got status '' @ format_int (hr_StatusCode resp))
          else
            (case hr_Body resp of
               Inl e \<Rightarrow> Inl (''could not read data from '' @ location @ '': '' @ e)
             | Inr bytes \<Rightarrow> template_of_document L location bytes))"

section \<open>References\<close>

definition DWTSupportedNamespacesAnnotation :: string where
  "DWTSupportedNamespacesAnnotation = ''controller.devfile.io/allow-import-from''"

definition canImportDWT :: "string \<Rightarrow> DevWorkspaceTemplate \<Rightarrow> bool" where
  "canImportDWT dwNamespace dwt =
     (if dwNamespace = dwt_Namespace dwt then True
      else if dwt_Annotations dwt = None then False
      else
        let namespacesAnnotation = (case go_get (dwt_Annotations dwt) DWTSupportedNamespacesAnnotation of None \<Rightarrow> [] | Some v \<Rightarrow> v) in
        if namespacesAnnotation = [] then False
        else if namespacesAnnotation = ''*'' then True
        else list_ex (\<lambda>ns. ns = dwNamespace) (strings_split (CHR '','') namespacesAnnotation))"

definition resolveElementByKubernetesImport ::
  "string \<Rightarrow> KubernetesReference \<Rightarrow> 'q ResolverTools \<Rightarrow> err + DevWorkspaceTemplateSpec" where
  "resolveElementByKubernetesImport name kubeReference tools =
     (case rt_K8sClient tools of
        None \<Rightarrow> Inl ''cannot resolve resources by kubernetes reference: no kubernetes client provided''
      | Some get \<Rightarrow>
          if kir_Namespace kubeReference = [] \<and> rt_WorkspaceNamespace tools = []
          then Inl (sq @ name @ sq @ '' specifies a kubernetes reference without namespace and a default is not provided'')
          else
            let namespace = (if kir_Namespace kubeReference = [] then rt_WorkspaceNamespace tools else kir_Namespace kubeReference) in
            (case get namespace (kir_Name kubeReference) of
               TemplateNotFound \<Rightarrow> Inl (''plugin for component '' @ name @ '' not found'')
             | TemplateError e \<Rightarrow> Inl (''failed to retrieve plugin referenced by kubernetes name and namespace '' @ sq @ name @ sq @ '': '' @ e)
             | TemplateFound dwTemplate \<Rightarrow>
                 if \<not> canImportDWT (rt_WorkspaceNamespace tools) dwTemplate then Inl (''plugin for component '' @ name @ '' not found'')
                 else Inr (dwt_Spec dwTemplate)))"

definition resolveElementById ::
  "'q flatten_lib \<Rightarrow> string \<Rightarrow> string \<Rightarrow> string \<Rightarrow> 'q ResolverTools \<Rightarrow> err + DevWorkspaceTemplateSpec" where
  "resolveElementById L name elementId registryUrl tools =
     (if registryUrl = [] then Inl (''plugin '' @ name @ '' does not specify a registryUrl'')
      else case rt_HttpClient tools of
        None \<Rightarrow> Inl ''cannot resolve resources by id: no HTTP client provided''
      | Some httpClient \<Rightarrow>
     (case fl_parseURL L registryUrl of
        Inl e \<Rightarrow> Inl (''failed to parse registry URL for component '' @ name @ '': '' @ e)
      | Inr (urlPath, with_path) \<Rightarrow>
     (case FetchDevWorkspaceTemplate L (with_path (path_Join [urlPath, ''devfiles'', elementId])) httpClient of
        Inl e \<Rightarrow> Inl (''failed to resolve component '' @ name @ '' from registry '' @ registryUrl @ '': '' @ e)
      | Inr dwt \<Rightarrow> Inr dwt)))"

definition resolveElementByURI :: "'q flatten_lib \<Rightarrow> string \<Rightarrow> string \<Rightarrow> 'q ResolverTools \<Rightarrow> err + DevWorkspaceTemplateSpec" where
  "resolveElementByURI L name uri tools =
     (case rt_HttpClient tools of
        None \<Rightarrow> Inl ''cannot resolve resources by id: no HTTP client provided''
      | Some httpClient \<Rightarrow>
     (case FetchDevWorkspaceTemplate L uri httpClient of
        Inl e \<Rightarrow> Inl (''failed to resolve component '' @ name @ '' by URI: '' @ e)
      | Inr dwt \<Rightarrow> Inr dwt))"

text \<open>The overriding functions see the content of a template, and leave its parent alone.\<close>

definition content_of :: "DevWorkspaceTemplateSpec \<Rightarrow> DevWorkspaceTemplateSpec" where
  "content_of spec = spec\<lparr>ts_Parent := None\<rparr>"

definition with_content :: "DevWorkspaceTemplateSpec \<Rightarrow> DevWorkspaceTemplateSpec \<Rightarrow> DevWorkspaceTemplateSpec" where
  "with_content spec content = content\<lparr>ts_Parent := ts_Parent spec\<rparr>"

definition override_content :: "'q flatten_lib \<Rightarrow> bool \<Rightarrow> ParentOverrides \<Rightarrow> DevWorkspaceTemplateSpec \<Rightarrow> err + DevWorkspaceTemplateSpec" where
  "override_content L needed overrides resolved =
     (if needed then map_sum id (with_content resolved) (fl_override L (content_of resolved) overrides) else Inr resolved)"

definition resolveParentComponent :: "'q flatten_lib \<Rightarrow> Parent \<Rightarrow> 'q ResolverTools \<Rightarrow> err + DevWorkspaceTemplateSpec" where
  "resolveParentComponent L parent tools =
     (let ref = par_Import parent; overrides = par_Overrides parent in
      case (case imp_Kubernetes ref of
              Some kubernetes \<Rightarrow>
                resolveElementByKubernetesImport ''parent''
                  (if kir_Namespace kubernetes = [] then kubernetes\<lparr>kir_Namespace := rt_WorkspaceNamespace tools\<rparr> else kubernetes) tools
            | None \<Rightarrow>
                if imp_Uri ref \<noteq> [] then resolveElementByURI L ''parent'' (imp_Uri ref) tools
                else if imp_Id ref \<noteq> [] then resolveElementById L ''parent'' (imp_Id ref) (imp_RegistryUrl ref) tools
                else Inl ''devfile parent does not define any resources'') of
        Inl e \<Rightarrow> Inl e
      | Inr resolvedParent \<Rightarrow>
          override_content L (ov_Components overrides \<noteq> None \<or> ov_Commands overrides \<noteq> None \<or> ov_Projects overrides \<noteq> None \<or>
            ov_StarterProjects overrides \<noteq> None) overrides resolvedParent)"

definition resolvePluginComponent :: "'q flatten_lib \<Rightarrow> string \<Rightarrow> PluginComponent \<Rightarrow> 'q ResolverTools \<Rightarrow> err + DevWorkspaceTemplateSpec" where
  "resolvePluginComponent L name plugin tools =
     (let ref = pl_Import plugin in
      case (case imp_Kubernetes ref of
              Some kubernetes \<Rightarrow> resolveElementByKubernetesImport name kubernetes tools
            | None \<Rightarrow>
                if imp_Uri ref \<noteq> [] then resolveElementByURI L name (imp_Uri ref) tools
                else if imp_Id ref \<noteq> [] then resolveElementById L name (imp_Id ref) (imp_RegistryUrl ref) tools
                else Inl (''plugin '' @ name @ '' does not define any resources'')) of
        Inl e \<Rightarrow> Inl e
      | Inr resolvedPlugin \<Rightarrow>
          override_content L (pl_Components plugin \<noteq> None \<or> pl_Commands plugin \<noteq> None)
            (no_overrides\<lparr>ov_Components := pl_Components plugin, ov_Commands := pl_Commands plugin\<rparr>) resolvedPlugin)"

section \<open>Cycles\<close>

text \<open>The context of a resolution is the path to the root: names and references of the plugins, the innermost first.\<close>

type_synonym resolution_context = "(string \<times> ImportReference) list"

definition addPlugin :: "string \<Rightarrow> PluginComponent \<Rightarrow> resolution_context \<Rightarrow> resolution_context" where
  "addPlugin name plugin ctx = (name, pl_Import plugin) # ctx"

fun cycle_loop :: "resolution_context \<Rightarrow> string \<Rightarrow> string" where
  "cycle_loop [] cycle = ''devworkspace -> '' @ cycle"
| "cycle_loop ((name, _) # ctx) cycle = cycle_loop ctx (name @ '' -> '' @ cycle)"

fun formatImportCycle :: "resolution_context \<Rightarrow> string" where
  "formatImportCycle [] = []"
| "formatImportCycle ((name, _) # ctx) = cycle_loop ctx name"

fun has_cycle_loop :: "resolution_context \<Rightarrow> ImportReference list \<Rightarrow> bool" where
  "has_cycle_loop [] seenRefs = False"
| "has_cycle_loop ((_, importReference) # ctx) seenRefs =
     (if importReference \<in> set seenRefs then True else has_cycle_loop ctx (seenRefs @ [importReference]))"

definition hasCycle :: "resolution_context \<Rightarrow> err option" where
  "hasCycle ctx =
     (if has_cycle_loop ctx [] then Some (''DevWorkspace has an cycle in references: '' @ formatImportCycle ctx) else None)"

section \<open>Resolution\<close>

type_synonym resolution = "(err + DevWorkspaceTemplateSpec) option"

text \<open>
  One plugin, which both loops of \<^verbatim>\<open>recursiveResolve\<close> treat alike; \<open>again\<close> is the recursive call. The result is the content of the
  resolved plugin with the marks of its source.
\<close>

definition resolve_plugin ::
  "(DevWorkspaceTemplateSpec \<Rightarrow> resolution_context \<Rightarrow> resolution) \<Rightarrow> 'q flatten_lib \<Rightarrow> 'q ResolverTools \<Rightarrow> resolution_context \<Rightarrow>
   string \<times> PluginComponent \<Rightarrow> resolution" where
  "resolve_plugin again L tools ctx contribution =
     (case contribution of (name, plugin) \<Rightarrow>
     (case resolvePluginComponent L name plugin tools of
        Inl e \<Rightarrow> Some (Inl e)
      | Inr pluginComponent \<Rightarrow>
          let newCtx = addPlugin name plugin ctx in
     (case hasCycle newCtx of
        Some e \<Rightarrow> Some (Inl e)
      | None \<Rightarrow>
          map_option (map_sum id (\<lambda>resolvedPlugin. content_of (AddSourceAttributesForTemplate L name resolvedPlugin))) (again pluginComponent newCtx))))"

fun resolve_plugins ::
  "(DevWorkspaceTemplateSpec \<Rightarrow> resolution_context \<Rightarrow> resolution) \<Rightarrow> 'q flatten_lib \<Rightarrow> 'q ResolverTools \<Rightarrow> resolution_context \<Rightarrow>
   (string \<times> PluginComponent) list \<Rightarrow> (err + DevWorkspaceTemplateSpec list) option" where
  "resolve_plugins again L tools ctx [] = Some (Inr [])"
| "resolve_plugins again L tools ctx (contribution # contributions) =
     (case resolve_plugin again L tools ctx contribution of
        None \<Rightarrow> None
      | Some (Inl e) \<Rightarrow> Some (Inl e)
      | Some (Inr content) \<Rightarrow> map_option (map_sum id ((#) content)) (resolve_plugins again L tools ctx contributions))"

definition resolve_parent :: "'q flatten_lib \<Rightarrow> 'q ResolverTools \<Rightarrow> Parent option \<Rightarrow> err + DevWorkspaceTemplateSpec" where
  "resolve_parent L tools parent =
     (case parent of
        None \<Rightarrow> Inr empty_spec
      | Some p \<Rightarrow>
     (case resolveParentComponent L p tools of
        Inl e \<Rightarrow> Inl e
      | Inr resolvedParentSpec \<Rightarrow>
          if \<not> DevWorkspaceIsFlattened (Some resolvedParentSpec) ([] :: unit list)
          then Inl ''parents containing plugins or parents are not supported''
          else Inr (content_of (AddSourceAttributesForTemplate L ''parent'' resolvedParentSpec))))"

definition plugins_of :: "DevWorkspaceTemplateSpec \<Rightarrow> (string \<times> PluginComponent) list" where
  "plugins_of workspace = List.map_filter (\<lambda>component. map_option (Pair (comp_Name component)) (comp_Plugin component)) (ts_Components workspace)"

definition own_content :: "DevWorkspaceTemplateSpec \<Rightarrow> DevWorkspaceTemplateSpec" where
  "own_content workspace =
     content_of (workspace\<lparr>ts_Components := [component \<leftarrow> ts_Components workspace. comp_Plugin component = None]\<rparr>)"

text \<open>Contributions first, then the parent, then the plugins of the workspace. Every caller passes a workspace that is not nil.\<close>

primrec recursiveResolve ::
  "nat \<Rightarrow> 'q::linorder flatten_lib \<Rightarrow> 'q ResolverTools \<Rightarrow> (string \<times> PluginComponent) list \<Rightarrow> DevWorkspaceTemplateSpec \<Rightarrow> resolution_context \<Rightarrow> resolution" where
  "recursiveResolve 0 L tools contributions workspace ctx = None"
| "recursiveResolve (Suc bound) L tools contributions workspace ctx =
     (if DevWorkspaceIsFlattened (Some workspace) contributions then Some (Inr workspace)
      else
     (case resolve_plugins (recursiveResolve bound L tools []) L tools ctx contributions of
        None \<Rightarrow> None
      | Some (Inl e) \<Rightarrow> Some (Inl e)
      | Some (Inr contributed) \<Rightarrow>
     (case resolve_parent L tools (ts_Parent workspace) of
        Inl e \<Rightarrow> Some (Inl e)
      | Inr resolvedParent \<Rightarrow>
     (case resolve_plugins (recursiveResolve bound L tools []) L tools ctx (plugins_of workspace) of
        None \<Rightarrow> None
      | Some (Inl e) \<Rightarrow> Some (Inl e)
      | Some (Inr plugged) \<Rightarrow>
          Some (map_sum id content_of (mergeDevWorkspaceElements L (own_content workspace) resolvedParent (contributed @ plugged)))))))"

definition has_warnings :: "VariableWarning \<Rightarrow> bool" where
  "has_warnings warnings \<longleftrightarrow> go_items (vw_Commands warnings) \<noteq> [] \<or> go_items (vw_Components warnings) \<noteq> [] \<or>
     go_items (vw_Projects warnings) \<noteq> [] \<or> go_items (vw_StarterProjects warnings) \<noteq> []"

definition finish_resolve ::
  "'q::linordered_ab_group_add flatten_lib \<Rightarrow> 'q ResolverTools \<Rightarrow> DevWorkspaceTemplateSpec \<Rightarrow> (DevWorkspaceTemplateSpec \<times> VariableWarning option) go_result" where
  "finish_resolve L tools resolvedDW =
     (case fl_variables L resolvedDW of (resolvedDW, warnings) \<Rightarrow>
      if has_warnings warnings then Ok (resolvedDW, Some warnings)
      else
        (case needsContainerContributionMerge L resolvedDW of
           Inl e \<Rightarrow> Err e
         | Inr needsMerge \<Rightarrow>
             if needsMerge
             then go_bind (mergeContainerContributions L resolvedDW (rt_DefaultResourceRequirements tools)) (\<lambda>spec. Ok (spec, None))
             else Ok (resolvedDW, None)))"

definition ResolveDevWorkspace ::
  "nat \<Rightarrow> 'q::linordered_ab_group_add flatten_lib \<Rightarrow> 'q ResolverTools \<Rightarrow> DevWorkspaceTemplateSpec \<Rightarrow> (string \<times> PluginComponent) list \<Rightarrow>
   (DevWorkspaceTemplateSpec \<times> VariableWarning option) go_result option" where
  "ResolveDevWorkspace bound L tools workspace contributions =
     map_option (\<lambda>r. go_bind (of_sum r) (finish_resolve L tools)) (recursiveResolve bound L tools contributions workspace [])"

section \<open>Warnings\<close>

definition warning_lines :: "string \<Rightarrow> (string, string list) gomap \<Rightarrow> string list" where
  "warning_lines what warnings =
     map (\<lambda>(name, ws). ''invalid variables in '' @ what @ name @ '': '' @ sq @ strings_join (sq @ '', '' @ sq) ws @ sq) (go_items warnings)"

definition FormatVariablesWarning :: "VariableWarning \<Rightarrow> string" where
  "FormatVariablesWarning warn =
     ''Error processing variable replacements: '' @
     strings_join ''; '' (warning_lines ''component '' (vw_Components warn) @ warning_lines ''component '' (vw_Commands warn) @
       warning_lines ''project '' (vw_Projects warn) @ warning_lines ''starter project '' (vw_StarterProjects warn))"

end
