(* ===== verification/Flatten_Resolution.thy ===== *)
theory Flatten_Resolution
  imports Flatten
begin

text \<open>
  What flattening guarantees: a resolution ends where the references are finitely many, and more depth does not change its result; a
  devfile that is resolved has no cycle of references; the result has no parent and no plugins; templates of other namespaces are
  imported only where they allow it; shared volumes are merged into one; and what becomes of container contributions.
\<close>

section \<open>Termination\<close>

lemma has_cycle_loop_iff: "has_cycle_loop ctx seen \<longleftrightarrow> \<not> (distinct (map snd ctx) \<and> set (map snd ctx) \<inter> set seen = {})"
  by (induction ctx seen rule: has_cycle_loop.induct) auto

lemma hasCycle_None_iff: "hasCycle ctx = None \<longleftrightarrow> distinct (map snd ctx)"
  by (simp add: hasCycle_def has_cycle_loop_iff)

definition references_in :: "(string \<times> PluginComponent) list \<Rightarrow> ImportReference set" where
  "references_in plugins = pl_Import ` snd ` set plugins"

lemma references_in_mem: "(name, plugin) \<in> set plugins \<Longrightarrow> pl_Import plugin \<in> references_in plugins"
  by (force simp: references_in_def)

text \<open>\<open>R\<close> contains every reference that resolving a reference of \<open>R\<close> leads to.\<close>

definition closed_references :: "'q flatten_lib \<Rightarrow> 'q ResolverTools \<Rightarrow> ImportReference set \<Rightarrow> bool" where
  "closed_references L tools R \<longleftrightarrow>
     (\<forall>name plugin spec. pl_Import plugin \<in> R \<longrightarrow> resolvePluginComponent L name plugin tools = Inr spec \<longrightarrow> references_in (plugins_of spec) \<subseteq> R)"

lemma flattened_imports:
  "DevWorkspaceIsFlattened (Some w) contributions \<longleftrightarrow> ts_Parent w = None \<and> contributions = [] \<and> plugins_of w = []"
  by (auto simp: DevWorkspaceIsFlattened_def plugins_of_def list_all_iff List.map_filter_def filter_empty_conv)

lemma resolve_plugins_returns:
  assumes "\<And>name plugin spec. (name, plugin) \<in> set plugins \<Longrightarrow> resolvePluginComponent L name plugin tools = Inr spec \<Longrightarrow>
      distinct (pl_Import plugin # map snd ctx) \<Longrightarrow> again spec (addPlugin name plugin ctx) \<noteq> None"
  shows "resolve_plugins again L tools ctx plugins \<noteq> None"
  using assms
proof (induction plugins)
  case (Cons p plugins)
  obtain name plugin where p: "p = (name, plugin)" by (cases p)
  have "resolve_plugin again L tools ctx p \<noteq> None"
    using Cons.prems [of name plugin] by (auto simp: resolve_plugin_def p Let_def hasCycle_None_iff addPlugin_def split: sum.splits option.splits)
  moreover have "resolve_plugins again L tools ctx plugins \<noteq> None"
    using Cons by simp
  ultimately show ?case by (auto split: option.splits sum.splits)
qed simp

lemma resolve_plugins_mono:
  assumes "\<And>s c r. again s c = Some r \<Longrightarrow> again' s c = Some r"
  shows "resolve_plugins again L tools ctx plugins = Some r \<Longrightarrow> resolve_plugins again' L tools ctx plugins = Some r"
proof (induction plugins arbitrary: r)
  case (Cons p plugins)
  have "resolve_plugin again' L tools ctx p = Some x" if "resolve_plugin again L tools ctx p = Some x" for x
    using that assms by (auto simp: resolve_plugin_def Let_def split: prod.splits sum.splits option.splits)
  with Cons show ?case by (auto split: option.splits sum.splits)
qed simp

lemma recursiveResolve_returns:
  assumes "finite R" "closed_references L tools R"
  shows "references_in contributions \<union> references_in (plugins_of workspace) \<subseteq> R \<Longrightarrow> distinct (map snd ctx) \<Longrightarrow> set (map snd ctx) \<subseteq> R \<Longrightarrow>
    card R < bound + length ctx \<Longrightarrow> recursiveResolve bound L tools contributions workspace ctx \<noteq> None"
proof (induction bound arbitrary: contributions workspace ctx)
  case 0
  then show ?case using card_mono [OF assms(1) 0(3)] distinct_card [of "map snd ctx"] by simp
next
  case (Suc bound)
  have again: "recursiveResolve bound L tools [] spec (addPlugin name plugin ctx) \<noteq> None"
    if "pl_Import plugin \<in> R" "resolvePluginComponent L name plugin tools = Inr spec" "distinct (pl_Import plugin # map snd ctx)" for name plugin spec
    using that assms(2) Suc.prems by (intro Suc.IH) (auto simp: addPlugin_def closed_references_def references_in_def)
  have all: "resolve_plugins (recursiveResolve bound L tools []) L tools ctx plugins \<noteq> None" if "references_in plugins \<subseteq> R" for plugins
    using that by (intro resolve_plugins_returns again) (auto dest: references_in_mem)
  from Suc.prems(1) all [of contributions] all [of "plugins_of workspace"] show ?case by (auto split: sum.splits option.splits)
qed

lemma recursiveResolve_mono:
  "recursiveResolve bound L tools contributions workspace ctx = Some r \<Longrightarrow> bound \<le> bound' \<Longrightarrow>
   recursiveResolve bound' L tools contributions workspace ctx = Some r"
proof (induction bound arbitrary: contributions workspace ctx r bound')
  case (Suc bound)
  then obtain b where b: "bound' = Suc b" "bound \<le> b" by (cases bound') auto
  have mono: "resolve_plugins (recursiveResolve b L tools []) L tools ctx plugins = Some x"
    if "resolve_plugins (recursiveResolve bound L tools []) L tools ctx plugins = Some x" for plugins x
    using that by (rule resolve_plugins_mono [rotated]) (use Suc.IH b in blast)
  from Suc.prems(1) show ?case by (auto simp: b split: if_splits option.splits sum.splits dest!: mono)
qed simp

text \<open>
  (C8) Flattening ends: where the references that a devfile leads to, through whatever plugins, are finitely many, the resolution returns a
  result or an error, one level of recursion per reference is enough, and more depth does not change the result. The check for cycles is what bounds the recursion.
\<close>

theorem resolve_terminates:
  assumes "finite R" "closed_references L tools R" "references_in (contributions @ plugins_of workspace) \<subseteq> R" "card R < bound"
  shows "\<exists>r. ResolveDevWorkspace bound L tools workspace contributions = Some r \<and>
    ResolveDevWorkspace (Suc (card R)) L tools workspace contributions = Some r"
proof -
  from assms recursiveResolve_returns [OF assms(1,2), of contributions workspace "[]" "Suc (card R)"]
  obtain r where r: "recursiveResolve (Suc (card R)) L tools contributions workspace [] = Some r" by (auto simp: references_in_def)
  with recursiveResolve_mono [OF r, of bound] assms(4) show ?thesis by (simp add: ResolveDevWorkspace_def)
qed

section \<open>Cycles of references\<close>

text \<open>The references along a path of references_in.\<close>

inductive import_path :: "'q flatten_lib \<Rightarrow> 'q ResolverTools \<Rightarrow> (string \<times> PluginComponent) list \<Rightarrow> ImportReference list \<Rightarrow> bool"
  for L tools where
  path_end: "import_path L tools plugins []"
| path_import: "(name, plugin) \<in> set plugins \<Longrightarrow> resolvePluginComponent L name plugin tools = Inr spec \<Longrightarrow>
    import_path L tools (plugins_of spec) refs \<Longrightarrow> import_path L tools plugins (pl_Import plugin # refs)"

inductive_cases import_path_ConsE: "import_path L tools plugins (ref # refs)"

lemma resolve_plugin_Inr:
  "resolve_plugin again L tools ctx (name, plugin) = Some (Inr content) \<longleftrightarrow>
   (\<exists>spec r. resolvePluginComponent L name plugin tools = Inr spec \<and> distinct (pl_Import plugin # map snd ctx) \<and>
      again spec (addPlugin name plugin ctx) = Some (Inr r) \<and> content = content_of (AddSourceAttributesForTemplate L name r))"
proof -
  have "hasCycle (addPlugin name plugin ctx) = None \<longleftrightarrow> distinct (pl_Import plugin # map snd ctx)"
    by (simp add: hasCycle_None_iff addPlugin_def)
  then show ?thesis by (auto simp: resolve_plugin_def Let_def map_sum_id_Inr simp del: distinct.simps split: option.splits sum.splits)
qed

lemma resolve_plugins_Cons_Inr:
  "resolve_plugins again L tools ctx (p # plugins) = Some (Inr contents) \<longleftrightarrow>
   (\<exists>c cs. resolve_plugin again L tools ctx p = Some (Inr c) \<and> resolve_plugins again L tools ctx plugins = Some (Inr cs) \<and> contents = c # cs)"
  by (auto simp: map_sum_id_Inr split: option.splits sum.splits)

lemma resolve_plugins_step:
  assumes "resolve_plugins again L tools ctx plugins = Some (Inr contents)" "(name, plugin) \<in> set plugins"
    "resolvePluginComponent L name plugin tools = Inr spec"
  shows "distinct (pl_Import plugin # map snd ctx) \<and> (\<exists>r. again spec (addPlugin name plugin ctx) = Some (Inr r))"
  using assms
proof (induction plugins arbitrary: contents)
  case (Cons p plugins)
  from Cons.prems(1) obtain c cs where "resolve_plugin again L tools ctx p = Some (Inr c)" "resolve_plugins again L tools ctx plugins = Some (Inr cs)"
    unfolding resolve_plugins_Cons_Inr by blast
  with Cons show ?case by (auto simp: resolve_plugin_Inr simp del: distinct.simps)
qed simp

lemma resolved_path_distinct:
  "recursiveResolve bound L tools contributions workspace ctx = Some (Inr r) \<Longrightarrow>
   import_path L tools (contributions @ plugins_of workspace) refs \<Longrightarrow> distinct (map snd ctx) \<Longrightarrow> distinct (refs @ map snd ctx)"
proof (induction bound arbitrary: contributions workspace ctx refs r)
  case (Suc bound)
  show ?case
  proof (cases refs)
    case (Cons ref rest)
    with Suc.prems(2) obtain name plugin spec where imp: "(name, plugin) \<in> set (contributions @ plugins_of workspace)"
      "resolvePluginComponent L name plugin tools = Inr spec" "import_path L tools (plugins_of spec) rest" "ref = pl_Import plugin"
      by (auto elim: import_path_ConsE)
    with Suc.prems(1) obtain plugins contents where plugins: "(name, plugin) \<in> set plugins"
      "resolve_plugins (recursiveResolve bound L tools []) L tools ctx plugins = Some (Inr contents)"
      by (auto simp: flattened_imports split: if_splits option.splits sum.splits)
    from resolve_plugins_step [OF plugins(2,1) imp(2)] obtain r' where step: "distinct (ref # map snd ctx)"
      "recursiveResolve bound L tools [] spec (addPlugin name plugin ctx) = Some (Inr r')" by (auto simp: imp)
    have "distinct (rest @ map snd (addPlugin name plugin ctx))"
      using step imp by (intro Suc.IH) (auto simp: addPlugin_def)
    then show ?thesis by (auto simp: Cons addPlugin_def imp)
  qed (use Suc.prems in simp)
qed simp

text \<open>
  (C9) A devfile is flattened only if its references have no cycle: no path of imports from a resolved devfile, through its contributions and
  plugins, meets a reference twice. A devfile with a cycle gives an error, whatever overrides the imports carry and whatever names the plugins have.
\<close>

theorem resolved_acyclic:
  assumes "ResolveDevWorkspace bound L tools workspace contributions = Some (Ok resolved)"
    "import_path L tools (contributions @ plugins_of workspace) refs"
  shows "distinct refs"
proof -
  from assms(1) obtain r where "recursiveResolve bound L tools contributions workspace [] = Some (Inr r)"
    by (auto simp: ResolveDevWorkspace_def go_bind_Ok_iff)
  from resolved_path_distinct [OF this assms(2)] show ?thesis by simp
qed

section \<open>The result\<close>

definition plugin_free :: "DevWorkspaceTemplateSpec \<Rightarrow> bool" where
  "plugin_free spec \<longleftrightarrow> list_all (\<lambda>component. comp_Plugin component = None) (ts_Components spec)"

lemma plugin_free_simps [simp]:
  "plugin_free (content_of spec) = plugin_free spec"
  "plugin_free (AddSourceAttributesForTemplate L source spec) = plugin_free spec"
  "plugin_free (own_content spec)" "plugin_free empty_spec"
  by (auto simp: plugin_free_def content_of_def AddSourceAttributesForTemplate_def Let_def own_content_def empty_spec_def list_all_iff)

lemma flattened_iff: "DevWorkspaceIsFlattened (Some w) contributions \<longleftrightarrow> ts_Parent w = None \<and> contributions = [] \<and> plugin_free w"
  by (auto simp: DevWorkspaceIsFlattened_def plugin_free_def)

text \<open>Merging volumes only removes components and changes their volumes.\<close>

lemma merge_spec_volumes_subset:
  "merge_spec_volumes parse components vols = Inr (kept, vols') \<Longrightarrow> set kept \<subseteq> set components"
proof (induction components arbitrary: vols kept vols')
  case (Cons c components)
  then show ?case by (fastforce simp: map_sum_id_Inr split: option.splits sum.splits)
qed simp

lemma merge_specs_volumes_subset:
  "merge_specs_volumes parse specs vols = Inr (kept, vols') \<Longrightarrow> list_all2 (\<lambda>k s. set k \<subseteq> set s) kept specs"
proof (induction specs arbitrary: vols kept vols')
  case (Cons s specs)
  then show ?case by (auto simp: map_sum_id_Inr split: sum.splits dest: merge_spec_volumes_subset [THEN subsetD])
qed simp

lemma shared_volume_simps [simp]:
  "comp_Plugin (shared_volume vols c) = comp_Plugin c" "comp_Name (shared_volume vols c) = comp_Name c"
  by (simp_all add: shared_volume_def split: option.splits)

lemma plugin_free_share: "plugin_free spec \<Longrightarrow> set kept \<subseteq> set (ts_Components spec) \<Longrightarrow> plugin_free (share_volumes vols kept spec)"
  by (auto simp: plugin_free_def share_volumes_def list_all_iff)

lemma plugin_free_share_all:
  "list_all2 (\<lambda>k s. set k \<subseteq> set s) kept (map ts_Components specs) \<Longrightarrow> list_all plugin_free specs \<Longrightarrow>
   list_all plugin_free (map2 (share_volumes vols) kept specs)"
proof (induction specs arbitrary: kept)
  case (Cons s specs)
  then show ?case by (auto simp: list_all2_Cons2 plugin_free_share)
qed simp

lemma mergeVolumeComponents_plugin_free:
  assumes "mergeVolumeComponents parse main parent plugins = Inr (main', parent', plugins')"
    "plugin_free main" "plugin_free parent" "list_all plugin_free plugins"
  shows "plugin_free main'" "plugin_free parent'" "list_all plugin_free plugins'"
  using assms
  by (auto simp: mergeVolumeComponents_def plugin_free_share plugin_free_share_all split: sum.splits
      dest!: merge_spec_volumes_subset merge_specs_volumes_subset)

definition merge_keeps_plugin_free :: "'q flatten_lib \<Rightarrow> bool" where
  "merge_keeps_plugin_free L \<longleftrightarrow>
     (\<forall>main parent plugins merged. fl_merge L main parent plugins = Inr merged \<longrightarrow>
        plugin_free main \<longrightarrow> plugin_free parent \<longrightarrow> list_all plugin_free plugins \<longrightarrow> plugin_free merged)"

lemma resolve_plugins_plugin_free:
  assumes "\<And>s c r. again s c = Some (Inr r) \<Longrightarrow> plugin_free r"
  shows "resolve_plugins again L tools ctx plugins = Some (Inr contents) \<Longrightarrow> list_all plugin_free contents"
proof (induction plugins arbitrary: contents)
  case (Cons p plugins)
  then show ?case using assms by (cases p) (auto simp: resolve_plugin_Inr resolve_plugins_Cons_Inr simp del: resolve_plugins.simps)
qed simp

lemma resolve_parent_plugin_free: "resolve_parent L tools parent = Inr content \<Longrightarrow> plugin_free content"
  by (auto simp: resolve_parent_def flattened_iff split: option.splits sum.splits if_splits)

text \<open>
  (C11) A resolved devfile is flat: it has no parent and no plugin components, provided that the library's merge of devfiles without plugins
  brings in none. This holds for every devfile, contributions, plugins of plugins and a parent included; a parent that is not flat itself is refused.
\<close>

theorem resolved_flattened:
  assumes "merge_keeps_plugin_free L" "recursiveResolve bound L tools contributions workspace ctx = Some (Inr resolved)"
  shows "DevWorkspaceIsFlattened (Some resolved) ([] :: unit list)"
  using assms(2)
proof (induction bound arbitrary: contributions workspace ctx resolved)
  case (Suc bound)
  have free: "list_all plugin_free contents"
    if "resolve_plugins (recursiveResolve bound L tools []) L tools ctx plugins = Some (Inr contents)" for plugins contents
    using that by (rule resolve_plugins_plugin_free [rotated]) (auto dest: Suc.IH simp: flattened_iff)
  show ?case
  proof (cases "DevWorkspaceIsFlattened (Some workspace) contributions")
    case True
    with Suc.prems show ?thesis by (simp add: flattened_iff)
  next
    case False
    with Suc.prems obtain contributed parent plugged merged where r:
      "resolve_plugins (recursiveResolve bound L tools []) L tools ctx contributions = Some (Inr contributed)"
      "resolve_parent L tools (ts_Parent workspace) = Inr parent"
      "resolve_plugins (recursiveResolve bound L tools []) L tools ctx (plugins_of workspace) = Some (Inr plugged)"
      "mergeDevWorkspaceElements L (own_content workspace) parent (contributed @ plugged) = Inr merged" "resolved = content_of merged"
      by (auto simp: map_sum_id_Inr split: option.splits sum.splits)
    then obtain main' parent' plugins' where m: "mergeVolumeComponents (fl_parse L) (own_content workspace) parent (contributed @ plugged) = Inr (main', parent', plugins')"
      "fl_merge L main' parent' plugins' = Inr merged"
      by (auto simp: mergeDevWorkspaceElements_def split: sum.splits)
    have "list_all plugin_free (contributed @ plugged)" using free [OF r(1)] free [OF r(3)] by simp
    with mergeVolumeComponents_plugin_free [OF m(1)] resolve_parent_plugin_free [OF r(2)] m(2) assms(1) have "plugin_free merged"
      by (auto simp: merge_keeps_plugin_free_def)
    then show ?thesis by (simp add: flattened_iff r content_of_def [of merged] plugin_free_def)
  qed
qed simp

section \<open>Imports from other namespaces\<close>

text \<open>The permission, as the documentation of the annotation states it.\<close>

definition import_allowed :: "string \<Rightarrow> DevWorkspaceTemplate \<Rightarrow> bool" where
  "import_allowed namespace dwt \<longleftrightarrow> dwt_Namespace dwt = namespace \<or>
     (\<exists>annotation. go_get (dwt_Annotations dwt) DWTSupportedNamespacesAnnotation = Some annotation \<and> annotation \<noteq> [] \<and>
        (annotation = ''*'' \<or> namespace \<in> set (strings_split (CHR '','') annotation)))"

lemma canImportDWT_iff: "canImportDWT namespace dwt \<longleftrightarrow> import_allowed namespace dwt"
  by (auto simp: canImportDWT_def import_allowed_def Let_def list_ex_iff split: option.splits)

text \<open>
  (C10) A plugin is imported from the cluster only with the permission of the namespace that holds it: the template is in the namespace of the
  workspace, or its annotation is the star or a comma-separated list with that namespace. Where the template exists and the permission is
  missing, the result is the one that the same workspace gets from a cluster without any template.
\<close>

theorem import_permitted:
  assumes "imp_Kubernetes (pl_Import plugin) = Some ref"
    "namespace = (if kir_Namespace ref = [] then rt_WorkspaceNamespace tools else kir_Namespace ref)"
  shows "(resolvePluginComponent L name plugin tools = Inr spec \<longrightarrow>
      (\<exists>get dwt. rt_K8sClient tools = Some get \<and> get namespace (kir_Name ref) = TemplateFound dwt \<and>
         import_allowed (rt_WorkspaceNamespace tools) dwt)) \<and>
    (rt_K8sClient tools = Some get \<and> get namespace (kir_Name ref) = TemplateFound dwt \<and>
      \<not> import_allowed (rt_WorkspaceNamespace tools) dwt \<longrightarrow>
      resolvePluginComponent L name plugin tools =
      resolvePluginComponent L name plugin (tools\<lparr>rt_K8sClient := Some (\<lambda>_ _. TemplateNotFound)\<rparr>))"
  using assms
  by (auto simp: resolvePluginComponent_def resolveElementByKubernetesImport_def canImportDWT_iff Let_def
      split: option.splits sum.splits template_answer.splits if_splits)

section \<open>Shared volumes\<close>

definition volumes_in :: "DevfileComponent list \<Rightarrow> volumes" where
  "volumes_in components = List.map_filter (\<lambda>c. map_option (Pair (comp_Name c)) (comp_Volume c)) components"

definition size_text :: "VolumeComponent \<Rightarrow> string" where
  "size_text v = (if vc_Size v = [] then ''0'' else vc_Size v)"

text \<open>\<open>w\<close> can stand for \<open>v\<close>: it is persistent where \<open>v\<close> is, and at least as large.\<close>

definition subsumes :: "(string \<Rightarrow> err + 'q::linorder) \<Rightarrow> VolumeComponent \<Rightarrow> VolumeComponent \<Rightarrow> bool" where
  "subsumes parse w v \<longleftrightarrow> (vc_Ephemeral w = Some True \<longrightarrow> vc_Ephemeral v = Some True) \<and>
     (\<forall>q. parse (size_text v) = Inr q \<longrightarrow> (\<exists>q'. parse (size_text w) = Inr q' \<and> q \<le> q'))"

lemma subsumes_refl [simp]: "subsumes parse v v"
  by (auto simp: subsumes_def)

lemma subsumes_trans: "subsumes parse w v \<Longrightarrow> subsumes parse v u \<Longrightarrow> subsumes parse w u"
  unfolding subsumes_def by (meson order_trans)

lemma volumes_in_simps [simp]:
  "volumes_in [] = []"
  "volumes_in (c # cs) = (case comp_Volume c of None \<Rightarrow> volumes_in cs | Some v \<Rightarrow> (comp_Name c, v) # volumes_in cs)"
  "volumes_in (cs @ ds) = volumes_in cs @ volumes_in ds"
  by (simp_all add: volumes_in_def List.map_filter_def split: option.splits)

lemma mergeVolume_subsumes:
  assumes "mergeVolume parse into from = Inr merged"
  shows "subsumes parse merged into" "subsumes parse merged from"
proof -
  from assms obtain p q where pq: "parse (size_text into) = Inr p" "parse (size_text from) = Inr q"
    by (auto simp: mergeVolume_def size_text_def Let_def split: sum.splits)
  with assms have m: "vc_Size merged = (if p < q then vc_Size from else vc_Size into)"
    "vc_Ephemeral merged = (case vc_Ephemeral from of None \<Rightarrow> None | Some e \<Rightarrow> if \<not> e then Some False else vc_Ephemeral into)"
    by (auto simp: mergeVolume_def size_text_def Let_def split: sum.splits)
  then have "size_text merged = (if p < q then size_text from else size_text into)" by (simp add: size_text_def)
  with pq m show "subsumes parse merged into" "subsumes parse merged from"
    by (auto simp: subsumes_def split: option.splits if_splits)
qed

text \<open>
  What one specification does to the map of volumes: entries are only replaced by ones that subsume them, every volume of the
  specification is subsumed by its entry, and a volume stays in the specification exactly where it made its entry.
\<close>

definition absorbed :: "(string \<Rightarrow> err + 'q::linorder) \<Rightarrow> DevfileComponent list \<Rightarrow> volumes \<Rightarrow> DevfileComponent list \<Rightarrow> volumes \<Rightarrow> bool" where
  "absorbed parse components vols kept vols' \<longleftrightarrow>
     (\<forall>n v. map_of vols n = Some v \<longrightarrow> (\<exists>w. map_of vols' n = Some w \<and> subsumes parse w v)) \<and>
     (\<forall>(n, v) \<in> set (volumes_in components). \<exists>w. map_of vols' n = Some w \<and> subsumes parse w v) \<and>
     dom (map_of vols') = dom (map_of vols) \<union> fst ` set (volumes_in kept) \<and>
     distinct (map fst (volumes_in kept)) \<and> fst ` set (volumes_in kept) \<inter> dom (map_of vols) = {} \<and>
     [c \<leftarrow> kept. comp_Volume c = None] = [c \<leftarrow> components. comp_Volume c = None]"

lemma absorbed_other: "comp_Volume c = None \<Longrightarrow> absorbed parse cs vols kept vols' \<Longrightarrow> absorbed parse (c # cs) vols (c # kept) vols'"
  by (simp add: absorbed_def)

lemma absorbed_new:
  assumes "comp_Volume c = Some v" "map_of vols (comp_Name c) = None" "absorbed parse cs ((comp_Name c, v) # vols) kept vols'"
  shows "absorbed parse (c # cs) vols (c # kept) vols'"
proof -
  from assms(3) have ih: "\<And>n u. map_of ((comp_Name c, v) # vols) n = Some u \<Longrightarrow> \<exists>w. map_of vols' n = Some w \<and> subsumes parse w u"
    unfolding absorbed_def by blast
  have "\<exists>w. map_of vols' (comp_Name c) = Some w \<and> subsumes parse w v" by (rule ih) simp
  moreover have "\<exists>w. map_of vols' n = Some w \<and> subsumes parse w u" if "map_of vols n = Some u" for n u
    using that assms(2) by (intro ih) auto
  ultimately show ?thesis using assms by (auto simp: absorbed_def)
qed

lemma absorbed_merged:
  assumes "comp_Volume c = Some v" "map_of vols (comp_Name c) = Some old" "mergeVolume parse old v = Inr merged"
    "absorbed parse cs (AList.update (comp_Name c) merged vols) kept vols'"
  shows "absorbed parse (c # cs) vols kept vols'"
proof -
  note sub = mergeVolume_subsumes [OF assms(3)]
  from assms(4) have ih: "\<And>n u. map_of (AList.update (comp_Name c) merged vols) n = Some u \<Longrightarrow> \<exists>w. map_of vols' n = Some w \<and> subsumes parse w u"
    unfolding absorbed_def by blast
  obtain w where w: "map_of vols' (comp_Name c) = Some w" "subsumes parse w merged" using ih [of "comp_Name c" merged] by (auto simp: update_conv')
  have "\<exists>w. map_of vols' n = Some w \<and> subsumes parse w u" if "map_of vols n = Some u" for n u
  proof (cases "n = comp_Name c")
    case True
    with that assms(2) w sub(1) show ?thesis by (auto intro: subsumes_trans)
  next
    case False
    with that show ?thesis by (intro ih) (simp add: update_conv')
  qed
  moreover have "dom (map_of (AList.update (comp_Name c) merged vols)) = dom (map_of vols)"
    using assms(2) by (auto simp: update_conv')
  ultimately show ?thesis using assms w sub(2) by (auto simp: absorbed_def intro: subsumes_trans)
qed

lemma absorbedD:
  assumes "absorbed parse components vols kept vols'"
  shows "map_of vols n = Some v \<Longrightarrow> \<exists>w. map_of vols' n = Some w \<and> subsumes parse w v"
    and "(n, v) \<in> set (volumes_in components) \<Longrightarrow> \<exists>w. map_of vols' n = Some w \<and> subsumes parse w v"
    and "dom (map_of vols') = dom (map_of vols) \<union> fst ` set (volumes_in kept)"
    and "distinct (map fst (volumes_in kept))" and "fst ` set (volumes_in kept) \<inter> dom (map_of vols) = {}"
    and "[c \<leftarrow> kept. comp_Volume c = None] = [c \<leftarrow> components. comp_Volume c = None]"
proof -
  note ab = assms [unfolded absorbed_def]
  show "map_of vols n = Some v \<Longrightarrow> \<exists>w. map_of vols' n = Some w \<and> subsumes parse w v" using ab [THEN conjunct1] by simp
  show "(n, v) \<in> set (volumes_in components) \<Longrightarrow> \<exists>w. map_of vols' n = Some w \<and> subsumes parse w v"
    using ab [THEN conjunct2, THEN conjunct1] by auto
qed (simp_all add: assms [unfolded absorbed_def])

lemma absorbed_trans:
  assumes "absorbed parse cs vols kept vols'" "absorbed parse ds vols' kept' vols''"
  shows "absorbed parse (cs @ ds) vols (kept @ kept') vols''"
  unfolding absorbed_def
proof (intro conjI)
  note one = absorbedD [OF assms(1)] and two = absorbedD [OF assms(2)]
  have later: "\<exists>w. map_of vols'' n = Some w \<and> subsumes parse w u" if "\<exists>w. map_of vols' n = Some w \<and> subsumes parse w u" for n u
    using that two(1) by (meson subsumes_trans)
  show "\<forall>n v. map_of vols n = Some v \<longrightarrow> (\<exists>w. map_of vols'' n = Some w \<and> subsumes parse w v)"
    using one(1) later by blast
  show "\<forall>(n, v) \<in> set (volumes_in (cs @ ds)). \<exists>w. map_of vols'' n = Some w \<and> subsumes parse w v"
    using one(2) two(2) later by auto
  show "dom (map_of vols'') = dom (map_of vols) \<union> fst ` set (volumes_in (kept @ kept'))"
    unfolding one(3) two(3) by auto
  show "distinct (map fst (volumes_in (kept @ kept')))" using one(4) two(4,5) unfolding one(3) by auto
  show "fst ` set (volumes_in (kept @ kept')) \<inter> dom (map_of vols) = {}" using one(5) two(5) unfolding one(3) by auto
  show "[c \<leftarrow> kept @ kept'. comp_Volume c = None] = [c \<leftarrow> cs @ ds. comp_Volume c = None]" using one(6) two(6) by simp
qed

lemma main_volumes_absorbed:
  "main_volumes components vols = Inr vols' \<Longrightarrow> absorbed parse components vols components vols'"
proof (induction components arbitrary: vols)
  case (Cons c components)
  then show ?case by (auto split: option.splits if_splits intro: absorbed_other absorbed_new)
qed (simp add: absorbed_def)

lemma merge_spec_volumes_absorbed:
  "merge_spec_volumes parse components vols = Inr (kept, vols') \<Longrightarrow> absorbed parse components vols kept vols'"
proof (induction components arbitrary: vols kept)
  case (Cons c components)
  then show ?case
    by (auto simp: map_sum_id_Inr split: option.splits sum.splits intro: absorbed_other absorbed_new absorbed_merged)
qed (simp add: absorbed_def)

lemma merge_specs_volumes_concat:
  "merge_specs_volumes parse specs vols = Inr (kept, vols') \<Longrightarrow> length kept = length specs \<and>
   absorbed parse (concat specs) vols (concat kept) vols'"
proof (induction specs arbitrary: vols kept)
  case (Cons s specs)
  then obtain k vols1 rest where step: "merge_spec_volumes parse s vols = Inr (k, vols1)" "merge_specs_volumes parse specs vols1 = Inr (rest, vols')"
    "kept = k # rest" by (auto simp: map_sum_id_Inr split: sum.splits)
  from Cons.IH [OF step(2)] show ?case
    using absorbed_trans [OF merge_spec_volumes_absorbed [OF step(1)]] by (simp add: step)
qed (simp add: absorbed_def)

lemma concat_shared:
  "length kept = length specs \<Longrightarrow> concat (map ts_Components (map2 (share_volumes vols) kept specs)) = map (shared_volume vols) (concat kept)"
  by (induction kept specs rule: list_induct2) (simp_all add: share_volumes_def)

lemma volumes_in_shared: "map fst (volumes_in (map (shared_volume vols) components)) = map fst (volumes_in components)"
  by (induction components) (auto simp: shared_volume_def split: option.splits)

lemma volumes_in_shared_mem:
  "n \<in> fst ` set (volumes_in components) \<Longrightarrow> map_of vols n = Some w \<Longrightarrow> (n, w) \<in> set (volumes_in (map (shared_volume vols) components))"
  by (induction components) (auto simp: shared_volume_def split: option.splits)

lemma other_components_shared:
  "[c \<leftarrow> map (shared_volume vols) components. comp_Volume c = None] = [c \<leftarrow> components. comp_Volume c = None]"
  by (induction components) (auto simp: shared_volume_def split: option.splits)

text \<open>
  Following the merge there are no two volumes of one name in the devfile, its parent and its plugins, whatever they defined; every volume
  that one of them defined is still there, persistent where any of the definitions was persistent and as large as the largest of them. The other
  components are untouched and in order.
\<close>

theorem volumes_merged:
  assumes "mergeVolumeComponents parse main parent plugins = Inr (main', parent', plugins')"
  shows "distinct (map fst (volumes_in (concat (map ts_Components (main' # parent' # plugins'))))) \<and>
    (\<forall>(n, v) \<in> set (volumes_in (concat (map ts_Components (main # parent # plugins)))).
       \<exists>w. (n, w) \<in> set (volumes_in (concat (map ts_Components (main' # parent' # plugins')))) \<and> subsumes parse w v) \<and>
    [c \<leftarrow> concat (map ts_Components (main' # parent' # plugins')). comp_Volume c = None] =
    [c \<leftarrow> concat (map ts_Components (main # parent # plugins)). comp_Volume c = None]"
proof -
  from assms obtain vols1 pk vols2 plk vols where steps: "main_volumes (ts_Components main) [] = Inr vols1"
    "merge_spec_volumes parse (ts_Components parent) vols1 = Inr (pk, vols2)"
    "merge_specs_volumes parse (map ts_Components plugins) vols2 = Inr (plk, vols)"
    and out: "main' = share_volumes vols (ts_Components main) main" "parent' = share_volumes vols pk parent" "plugins' = map2 (share_volumes vols) plk plugins"
    by (auto simp: mergeVolumeComponents_def split: sum.splits)
  let ?kept = "ts_Components main @ pk @ concat plk"
  have "absorbed parse (concat (map ts_Components (main # parent # plugins))) [] ?kept vols"
    using absorbed_trans [OF main_volumes_absorbed [OF steps(1)] absorbed_trans [OF merge_spec_volumes_absorbed [OF steps(2)]
      merge_specs_volumes_concat [OF steps(3), THEN conjunct2]]] by simp
  note ab = absorbedD [OF this]
  have "concat (map ts_Components (map2 (share_volumes vols) plk plugins)) = map (shared_volume vols) (concat plk)"
    using merge_specs_volumes_concat [OF steps(3)] by (intro concat_shared) simp
  then have all: "concat (map ts_Components (main' # parent' # plugins')) = map (shared_volume vols) ?kept"
    by (simp add: out share_volumes_def)
  show ?thesis
    unfolding all
  proof (intro conjI)
    show "distinct (map fst (volumes_in (map (shared_volume vols) ?kept)))" using ab(4) by (simp only: volumes_in_shared)
    show "\<forall>(n, v) \<in> set (volumes_in (concat (map ts_Components (main # parent # plugins)))).
       \<exists>w. (n, w) \<in> set (volumes_in (map (shared_volume vols) ?kept)) \<and> subsumes parse w v"
    proof (clarify)
      fix n v assume "(n, v) \<in> set (volumes_in (concat (map ts_Components (main # parent # plugins))))"
      from ab(2) [OF this] obtain w where w: "map_of vols n = Some w" "subsumes parse w v" by blast
      with ab(3) have "n \<in> fst ` set (volumes_in ?kept)" by (auto dest: domI)
      with w show "\<exists>w. (n, w) \<in> set (volumes_in (map (shared_volume vols) ?kept)) \<and> subsumes parse w v" by (blast intro: volumes_in_shared_mem)
    qed
    show "[c \<leftarrow> map (shared_volume vols) ?kept. comp_Volume c = None] = [c \<leftarrow> concat (map ts_Components (main # parent # plugins)). comp_Volume c = None]"
      using ab(6) by (simp only: other_components_shared)
  qed
qed

end
