(* ===== verification/Flatten_Contributions.thy ===== *)
theory Flatten_Contributions
  imports Flatten_Resolution
begin

text \<open>
  What becomes of container contributions when a devfile is flattened, and witnesses for the theorems on flattening.
\<close>

section \<open>Merging\<close>

definition retarget :: "string \<Rightarrow> string list \<Rightarrow> Command \<Rightarrow> Command" where
  "retarget mergedName names command =
     command\<lparr>cmd_Exec := map_option (\<lambda>ex. if ex_Component ex \<in> set names then ex\<lparr>ex_Component := mergedName\<rparr> else ex) (cmd_Exec command)\<rparr>"

definition applies_to :: "string list \<Rightarrow> Command \<Rightarrow> bool" where
  "applies_to names command \<longleftrightarrow> cmd_Exec command = None \<and> (\<exists>ap. cmd_Apply command = Some ap \<and> ap_Component ap \<in> set names)"

lemma retarget_command_Inr:
  "retarget_command mergedName names c = Inr c' \<longleftrightarrow> \<not> applies_to names c \<and> c' = retarget mergedName names c"
  by (cases "cmd_Exec c"; cases "cmd_Apply c") (auto simp: retarget_command_def applies_to_def retarget_def)

lemma retarget_commands_Inr:
  "retarget_commands mergedName names commands = Inr commands' \<longleftrightarrow>
   list_all (\<lambda>c. \<not> applies_to names c) commands \<and> commands' = map (retarget mergedName names) commands"
proof (induction commands arbitrary: commands')
  case (Cons c commands)
  show ?case
  proof (cases "retarget_command mergedName names c")
    case (Inl e)
    then have "applies_to names c" using retarget_command_Inr [of mergedName names c] by auto
    with Inl show ?thesis by simp
  next
    case (Inr c')
    from Inr [unfolded retarget_command_Inr] Inr Cons.IH show ?thesis by (auto simp: map_sum_id_Inr)
  qed
qed auto

definition is_target :: "string \<Rightarrow> DevfileComponent \<Rightarrow> bool" where
  "is_target target component \<longleftrightarrow> comp_Container component \<noteq> None \<and> comp_Name component = target"

lemma merge_loop_done: "merge_loop L target contributions dflt components True = Ok ([c \<leftarrow> components. \<not> is_contribution L c], True)"
  by (induction components) (auto simp: is_contribution_def)

definition merged_at ::
  "'q::linordered_ab_group_add flatten_lib \<Rightarrow> string \<Rightarrow> DevfileComponent list \<Rightarrow> 'q ResourceRequirements option \<Rightarrow> DevfileComponent list \<Rightarrow>
   DevfileComponent list \<Rightarrow> bool" where
  "merged_at L target contributions dflt components newComponents \<longleftrightarrow>
     (\<exists>pre c post merged. components = pre @ c # post \<and> newComponents = pre @ merged # post \<and>
        is_target target c \<and> list_all (\<lambda>x. \<not> is_target target x) pre \<and> mergeContributionsInto L c contributions dflt = Ok merged)"

lemma merged_at_here:
  "is_target target c \<Longrightarrow> mergeContributionsInto L c contributions dflt = Ok merged \<Longrightarrow> merged_at L target contributions dflt (c # cs) (merged # cs)"
  unfolding merged_at_def by (rule exI [of _ "[]"]) auto

lemma merged_at_later:
  assumes "\<not> is_target target c" "merged_at L target contributions dflt cs new"
  shows "merged_at L target contributions dflt (c # cs) (c # new)"
proof -
  from assms(2) obtain pre x post merged where "cs = pre @ x # post" "new = pre @ merged # post" "is_target target x"
    "list_all (\<lambda>x. \<not> is_target target x) pre" "mergeContributionsInto L x contributions dflt = Ok merged"
    unfolding merged_at_def by blast
  with assms(1) show ?thesis
    unfolding merged_at_def by (intro exI [of _ "c # pre"] exI [of _ x] exI [of _ post] exI [of _ merged]) simp
qed

lemma merged_at_target: "merged_at L target contributions dflt components new \<Longrightarrow> list_ex (is_target target) components"
  by (auto simp: merged_at_def)

lemma merge_loop_cases:
  assumes "merge_loop L target contributions dflt components False = Ok (new, mergeDone)"
  shows "if mergeDone then merged_at L target contributions dflt [c \<leftarrow> components. \<not> is_contribution L c] new
    else list_all (\<lambda>x. \<not> is_target target x) [c \<leftarrow> components. \<not> is_contribution L c]"
  using assms
proof (induction components arbitrary: new)
  case (Cons c components)
  show ?case
  proof (cases "is_contribution L c")
    case True
    with Cons show ?thesis by (auto simp: is_contribution_def)
  next
    case False
    then have nc: "comp_Container c = None \<or> \<not> bool_attribute L (comp_Attributes c) ContainerContributionAttribute" by (simp add: is_contribution_def)
    show ?thesis
    proof (cases "is_target target c")
      case True
      with Cons.prems nc obtain merged where "mergeContributionsInto L c contributions dflt = Ok merged" "mergeDone"
        "new = merged # [c \<leftarrow> components. \<not> is_contribution L c]"
        by (auto simp: is_target_def go_bind_Ok_iff merge_loop_done)
      with True False show ?thesis by (simp add: merged_at_here)
    next
      case no_target: False
      with Cons.prems nc obtain rest where "merge_loop L target contributions dflt components False = Ok (rest, mergeDone)" "new = c # rest"
        by (auto simp: is_target_def go_bind_Ok_iff split: if_splits)
      with Cons.IH [of rest] no_target False show ?thesis by (auto simp: merged_at_later)
    qed
  qed
qed simp

text \<open>
  (C12) Where contributions are merged, exactly one component takes them: the first container with the name of the target that is not itself a
  contribution. The contributions are gone, all other components stay in order, every command that ran in a contribution now runs in the target,
  no command applies a contribution, and the rest of the devfile is unchanged. Otherwise the devfile as a whole is unchanged.
\<close>

theorem contributions_merged:
  assumes "mergeContainerContributions L spec dflt = Ok spec'" "findMergeTarget L spec = Inr target"
  shows "let contributions = [c \<leftarrow> ts_Components spec. is_contribution L c]; others = [c \<leftarrow> ts_Components spec. \<not> is_contribution L c] in
    if list_ex (is_target target) others
    then merged_at L target contributions dflt others (ts_Components spec') \<and>
      ts_commands spec' = map (retarget target (map comp_Name contributions)) (ts_commands spec) \<and>
      list_all (\<lambda>c. \<not> applies_to (map comp_Name contributions) c) (ts_commands spec) \<and>
      spec'\<lparr>ts_Components := [], ts_Commands := None\<rparr> = spec\<lparr>ts_Components := [], ts_Commands := None\<rparr>
    else spec' = spec"
proof -
  let ?contributions = "[c \<leftarrow> ts_Components spec. is_contribution L c]"
  let ?others = "[c \<leftarrow> ts_Components spec. \<not> is_contribution L c]"
  from assms obtain new mergeDone where loop: "merge_loop L target ?contributions dflt (ts_Components spec) False = Ok (new, mergeDone)"
    and fin: "if mergeDone then \<exists>s. updateCommandTargetsAfterMerge target (map comp_Name ?contributions) spec = Inr s \<and> spec' = s\<lparr>ts_Components := new\<rparr>
      else spec' = spec"
    by (auto simp: mergeContainerContributions_def Let_def go_bind_Ok_iff split: if_splits)
  note cases = merge_loop_cases [OF loop]
  have target: "list_ex (is_target target) ?others \<longleftrightarrow> mergeDone"
    using cases by (cases mergeDone) (auto simp: list_ex_iff list_all_iff dest!: merged_at_target)
  show ?thesis
  proof (cases mergeDone)
    case True
    with fin obtain cs where "retarget_commands target (map comp_Name ?contributions) (ts_commands spec) = Inr cs"
      and s: "spec' = spec\<lparr>ts_Commands := (if cs = [] then None else Some cs), ts_Components := new\<rparr>"
      by (auto simp: updateCommandTargetsAfterMerge_def map_sum_id_Inr)
    then have "cs = map (retarget target (map comp_Name ?contributions)) (ts_commands spec)"
      "list_all (\<lambda>c. \<not> applies_to (map comp_Name ?contributions) c) (ts_commands spec)" by (simp_all add: retarget_commands_Inr)
    with True target cases s show ?thesis by (simp add: Let_def)
  next
    case False
    with target fin show ?thesis by (simp add: Let_def)
  qed
qed

text \<open>A merge that is needed has a target, as long as components have names.\<close>

lemma target_scan_first: "f \<noteq> [] \<Longrightarrow> \<exists>t. target_scan L components f = Inr t"
  by (induction components arbitrary: f) auto

lemma contribution_scan_target:
  "contribution_scan L components (hc, False, e) = Inr True \<Longrightarrow> list_all (\<lambda>c. comp_Name c \<noteq> []) components \<Longrightarrow> \<exists>t. target_scan L components f = Inr t"
proof (induction components arbitrary: hc e f)
  case (Cons c components)
  then show ?case
    by (auto simp: bool_attribute_def target_scan_first split: if_splits sum.splits)
qed simp

lemma needed_merge_has_target:
  "needsContainerContributionMerge L spec = Inr True \<Longrightarrow> list_all (\<lambda>c. comp_Name c \<noteq> []) (ts_Components spec) \<Longrightarrow> \<exists>t. findMergeTarget L spec = Inr t"
  unfolding needsContainerContributionMerge_def findMergeTarget_def by (rule contribution_scan_target)

section \<open>Contributions of the devfile itself\<close>

text \<open>
  The search for a target does not leave out contributions. Where the devfile itself begins with one, that component is chosen and then dropped by the loop
  before it could take the contributions, so nothing is merged and no error is reported, also if another component could be the target.
\<close>

lemma target_scan_keeps_first:
  "f \<noteq> [] \<Longrightarrow> list_all (\<lambda>c. comp_Container c = None \<or> \<not> bool_attribute L (comp_Attributes c) MergeContributionAttribute) components \<Longrightarrow>
   target_scan L components f = Inr f"
  by (induction components) auto

lemma merge_loop_no_target:
  "list_all (\<lambda>c. is_target target c \<longrightarrow> is_contribution L c) components \<Longrightarrow>
   merge_loop L target contributions dflt components False = Ok ([c \<leftarrow> components. \<not> is_contribution L c], False)"
  by (induction components) (auto simp: is_contribution_def is_target_def)

text \<open>
  A devfile whose first container is a contribution of its own, without a component that asks for contributions explicitly, is left as it is:
  its contributions, those of plugins included, stay separate containers, although the check before says that a merge is needed.
\<close>

theorem own_contribution_blocks_merge:
  assumes "ts_Components spec = c # components" "is_contribution L c" "comp_Name c \<noteq> []" "\<not> imported_by_plugin L c"
    "\<not> attr_exists (comp_Attributes c) MergeContributionAttribute"
    "list_all (\<lambda>x. comp_Container x = None \<or> \<not> bool_attribute L (comp_Attributes x) MergeContributionAttribute) components"
    "comp_Name c \<notin> comp_Name ` set components"
  shows "mergeContainerContributions L spec dflt = Ok spec"
proof -
  have "findMergeTarget L spec = Inr (comp_Name c)"
    using assms by (auto simp: findMergeTarget_def is_contribution_def target_scan_keeps_first)
  moreover have "list_all (\<lambda>x. is_target (comp_Name c) x \<longrightarrow> is_contribution L x) (ts_Components spec)"
    using assms by (auto simp: list_all_iff is_target_def image_iff)
  ultimately show ?thesis by (simp add: mergeContainerContributions_def Let_def merge_loop_no_target)
qed

section \<open>A sample\<close>

text \<open>Two templates at two addresses, of which the first imports the second, and a library that concatenates what it merges.\<close>

definition sample_reference :: "string \<Rightarrow> ImportReference" where
  "sample_reference uri = \<lparr>imp_ImportReferenceType = [], imp_Uri = uri, imp_Id = [], imp_Kubernetes = None, imp_RegistryUrl = [], imp_Version = []\<rparr>"

definition sample_plugin :: "string \<Rightarrow> PluginComponent" where
  "sample_plugin uri = \<lparr>pl_Import = sample_reference uri, pl_Components = None, pl_Commands = None\<rparr>"

definition component_named :: "string \<Rightarrow> DevfileComponent" where
  "component_named name = \<lparr>comp_Name = name, comp_Attributes = [], comp_Container = None, comp_Plugin = None, comp_Volume = None,
     comp_Kubernetes = None, comp_Openshift = None\<rparr>"

definition spec_of :: "DevfileComponent list \<Rightarrow> DevWorkspaceTemplateSpec" where
  "spec_of components = empty_spec\<lparr>ts_Components := components\<rparr>"

definition plugin_component :: "string \<Rightarrow> DevfileComponent" where
  "plugin_component uri = (component_named uri)\<lparr>comp_Plugin := Some (sample_plugin uri)\<rparr>"

definition sample_document :: "string \<Rightarrow> Devfile" where
  "sample_document uri = \<lparr>df_SchemaVersion = ''2.2.0'',
     df_Spec = spec_of (if uri = ''a'' then [plugin_component ''b''] else [component_named ''tools''])\<rparr>"

definition no_warning :: VariableWarning where
  "no_warning = \<lparr>vw_Commands = None, vw_Components = None, vw_Projects = None, vw_StarterProjects = None\<rparr>"

definition sample_flatten :: "int flatten_lib" where
  "sample_flatten = \<lparr>fl_parse = (\<lambda>s. Inr (int (length s))), fl_qstring = format_int,
     fl_getString = (\<lambda>as k. case map_of as k of None \<Rightarrow> Inl [] | Some s \<Rightarrow> Inr s),
     fl_getBoolean = (\<lambda>as k. case map_of as k of None \<Rightarrow> Inl [] | Some s \<Rightarrow> Inr (s = ''true'')),
     fl_encode = (\<lambda>s. s), fl_toOverride = (\<lambda>c. Inr (Opaque (comp_Name c))), fl_override = (\<lambda>s _. Inr s),
     fl_merge = (\<lambda>main parent plugins. Inr (main\<lparr>ts_Components := concat (map ts_Components (main # parent # plugins))\<rparr>)),
     fl_variables = (\<lambda>s. (s, no_warning)), fl_parseURL = (\<lambda>s. Inr (s, \<lambda>p. p)), fl_devfile = (\<lambda>uri. Inr (sample_document uri)),
     fl_devworkspace = (\<lambda>_. Inl []), fl_template = (\<lambda>_. Inl [])\<rparr>"

definition sample_tools :: "int ResolverTools" where
  "sample_tools = \<lparr>rt_WorkspaceNamespace = ''dev'',
     rt_K8sClient = Some (\<lambda>ns name. TemplateFound \<lparr>dwt_Namespace = ns,
       dwt_Annotations = Some [(DWTSupportedNamespacesAnnotation, ''qa,dev'')], dwt_Spec = spec_of [component_named name]\<rparr>),
     rt_HttpClient = Some (\<lambda>uri. Inr \<lparr>hr_StatusCode = 200, hr_Body = Inr uri\<rparr>), rt_DefaultResourceRequirements = None\<rparr>"

lemmas sample_defs = sample_reference_def sample_plugin_def component_named_def spec_of_def plugin_component_def sample_document_def
  no_warning_def sample_flatten_def sample_tools_def empty_spec_def

lemma sample_plugin_resolved:
  assumes "pl_Import plugin \<in> {sample_reference ''a'', sample_reference ''b''}" "resolvePluginComponent sample_flatten name plugin sample_tools = Inr spec"
  shows "spec = df_Spec (sample_document (imp_Uri (pl_Import plugin)))"
  using assms
  by (auto simp: resolvePluginComponent_def Let_def sample_reference_def resolveElementByURI_def FetchDevWorkspaceTemplate_def template_of_document_def
      ConvertDevfileToDevWorkspaceTemplate_def supported_schema_version_def sample_flatten_def sample_tools_def override_content_def
      with_content_def content_of_def sample_document_def spec_of_def empty_spec_def split: if_splits)

lemma sample_closed: "closed_references sample_flatten sample_tools {sample_reference ''a'', sample_reference ''b''}"
  unfolding closed_references_def
proof (intro allI impI)
  fix name plugin spec
  assume "pl_Import plugin \<in> {sample_reference ''a'', sample_reference ''b''}" "resolvePluginComponent sample_flatten name plugin sample_tools = Inr spec"
  from sample_plugin_resolved [OF this] have "spec = df_Spec (sample_document (imp_Uri (pl_Import plugin)))" .
  then show "references_in (plugins_of spec) \<subseteq> {sample_reference ''a'', sample_reference ''b''}"
    by (simp add: sample_document_def spec_of_def plugins_of_def references_in_def map_filter_simps plugin_component_def component_named_def sample_plugin_def)
qed

lemma sample_references: "references_in (plugins_of (spec_of [plugin_component ''a''])) = {sample_reference ''a''}"
  by (simp add: spec_of_def plugins_of_def references_in_def map_filter_simps plugin_component_def component_named_def sample_plugin_def)

theorem resolve_terminates_witness:
  "\<exists>r. ResolveDevWorkspace 4 sample_flatten sample_tools (spec_of [plugin_component ''a'']) [] = Some r"
proof -
  have "card {sample_reference ''a'', sample_reference ''b''} < 4" by (simp add: card_insert_if)
  from resolve_terminates [OF _ sample_closed _ this, of "[]" "spec_of [plugin_component ''a'']"] show ?thesis
    by (auto simp: sample_references)
qed

fun resolves :: "'a go_result option \<Rightarrow> bool" where
  "resolves (Some (Ok _)) = True"
| "resolves _ = False"

lemma resolves_iff: "resolves x \<longleftrightarrow> (\<exists>r. x = Some (Ok r))"
  by (cases x rule: resolves.cases) auto

lemma sample_resolves: "resolves (ResolveDevWorkspace 4 sample_flatten sample_tools (spec_of [plugin_component ''a'']) [])"
  by code_simp

lemma sample_path: "import_path sample_flatten sample_tools ([] @ plugins_of (spec_of [plugin_component ''a''])) [sample_reference ''a'', sample_reference ''b'']"
proof -
  have "import_path sample_flatten sample_tools (plugins_of (df_Spec (sample_document ''a''))) [pl_Import (sample_plugin ''b'')]"
    by (rule path_import [where name = "''b''" and spec = "df_Spec (sample_document ''b'')", OF _ _ path_end]) code_simp+
  then have "import_path sample_flatten sample_tools (plugins_of (spec_of [plugin_component ''a''])) [pl_Import (sample_plugin ''a''), pl_Import (sample_plugin ''b'')]"
    by (rule path_import [where name = "''a''" and spec = "df_Spec (sample_document ''a'')", rotated 2]) code_simp+
  then show ?thesis by (simp add: sample_plugin_def)
qed

theorem resolved_acyclic_witness: "sample_reference ''a'' \<noteq> sample_reference ''b''"
proof -
  from sample_resolves obtain r where "ResolveDevWorkspace 4 sample_flatten sample_tools (spec_of [plugin_component ''a'']) [] = Some (Ok r)"
    by (auto simp: resolves_iff)
  from resolved_acyclic [OF this sample_path] show ?thesis by simp
qed

theorem resolved_flattened_witness:
  "\<exists>r. recursiveResolve 4 sample_flatten sample_tools [] (spec_of [plugin_component ''a'']) [] = Some (Inr r) \<and>
     DevWorkspaceIsFlattened (Some r) ([] :: unit list)"
proof -
  have keeps: "merge_keeps_plugin_free sample_flatten"
    by (auto simp: merge_keeps_plugin_free_def sample_flatten_def plugin_free_def list_all_iff)
  from sample_resolves obtain r where "recursiveResolve 4 sample_flatten sample_tools [] (spec_of [plugin_component ''a'']) [] = Some (Inr r)"
    by (auto simp: resolves_iff ResolveDevWorkspace_def go_bind_Ok_iff)
  with resolved_flattened [OF keeps this] show ?thesis by blast
qed

definition cluster_plugin :: PluginComponent where
  "cluster_plugin = (sample_plugin [])\<lparr>pl_Import := (sample_reference [])\<lparr>imp_Kubernetes := Some \<lparr>kir_Name = ''tools'', kir_Namespace = ''templates''\<rparr>\<rparr>\<rparr>"

definition cluster_template :: DevWorkspaceTemplate where
  "cluster_template = \<lparr>dwt_Namespace = ''templates'', dwt_Annotations = Some [(DWTSupportedNamespacesAnnotation, ''qa,dev'')],
     dwt_Spec = spec_of [component_named ''tools'']\<rparr>"

lemma cluster_plugin_ref: "imp_Kubernetes (pl_Import cluster_plugin) = Some \<lparr>kir_Name = ''tools'', kir_Namespace = ''templates''\<rparr>"
  by (simp add: cluster_plugin_def)

theorem import_permitted_witness:
  "import_allowed ''dev'' cluster_template \<and>
   resolvePluginComponent sample_flatten ''p'' cluster_plugin (sample_tools\<lparr>rt_WorkspaceNamespace := ''ops''\<rparr>) =
     Inl ''plugin for component p not found''"
proof
  have "resolvePluginComponent sample_flatten ''p'' cluster_plugin sample_tools = Inr (spec_of [component_named ''tools''])" by code_simp
  then show "import_allowed ''dev'' cluster_template"
    using import_permitted [OF cluster_plugin_ref refl, of sample_flatten "''p''" sample_tools]
    by (auto simp: sample_tools_def cluster_template_def)
next
  have "\<not> import_allowed ''ops'' cluster_template"
    by (simp add: import_allowed_def cluster_template_def go_get_Some)
  then have "resolvePluginComponent sample_flatten ''p'' cluster_plugin (sample_tools\<lparr>rt_WorkspaceNamespace := ''ops''\<rparr>) =
      resolvePluginComponent sample_flatten ''p'' cluster_plugin
        (sample_tools\<lparr>rt_WorkspaceNamespace := ''ops'', rt_K8sClient := Some (\<lambda>_ _. TemplateNotFound)\<rparr>)"
    using import_permitted [OF cluster_plugin_ref refl, of sample_flatten "''p''" "sample_tools\<lparr>rt_WorkspaceNamespace := ''ops''\<rparr>"]
    by (auto simp: sample_tools_def cluster_template_def)
  also have "\<dots> = Inl ''plugin for component p not found''"
    by (simp add: resolvePluginComponent_def resolveElementByKubernetesImport_def cluster_plugin_ref Let_def sample_tools_def)
  finally show "resolvePluginComponent sample_flatten ''p'' cluster_plugin (sample_tools\<lparr>rt_WorkspaceNamespace := ''ops''\<rparr>) =
     Inl ''plugin for component p not found''" .
qed

definition volume_named :: "string \<Rightarrow> string \<Rightarrow> bool \<Rightarrow> DevfileComponent" where
  "volume_named name sz eph = (component_named name)\<lparr>comp_Volume := Some \<lparr>vc_Size = sz, vc_Ephemeral = Some eph\<rparr>\<rparr>"

theorem volumes_merged_witness:
  "mergeVolumeComponents (fl_parse sample_flatten) (spec_of [volume_named ''m2'' ''1G'' True]) (spec_of []) [spec_of [volume_named ''m2'' ''10G'' False]] =
     Inr (spec_of [volume_named ''m2'' ''10G'' False], spec_of [], [spec_of []]) \<and>
   distinct (map fst (volumes_in [volume_named ''m2'' ''10G'' False]))"
proof -
  have merged: "mergeVolumeComponents (fl_parse sample_flatten) (spec_of [volume_named ''m2'' ''1G'' True]) (spec_of []) [spec_of [volume_named ''m2'' ''10G'' False]] =
     Inr (spec_of [volume_named ''m2'' ''10G'' False], spec_of [], [spec_of []])" by code_simp
  from volumes_merged [OF this] merged show ?thesis by (simp add: spec_of_def)
qed

definition container_named :: "string \<Rightarrow> attributes \<Rightarrow> DevfileComponent" where
  "container_named name as = (component_named name)\<lparr>comp_Attributes := as, comp_Container := Some
     \<lparr>cc_Image = name, cc_Env = [], cc_VolumeMounts = [], cc_MemoryLimit = [], cc_MemoryRequest = [], cc_CpuLimit = [], cc_CpuRequest = [],
      cc_Command = None, cc_Args = None, cc_MountSources = None, cc_SourceMapping = [], cc_Endpoints = [], cc_DeploymentAnnotations = None\<rparr>\<rparr>"

definition contributed :: "DevfileComponent \<Rightarrow> DevfileComponent" where
  "contributed c = c\<lparr>comp_Attributes := [(ContainerContributionAttribute, ''true'')]\<rparr>"

definition merged_sample :: DevWorkspaceTemplateSpec where
  "merged_sample = spec_of [container_named ''main'' [(MergedContributionsAttribute, [])]]"

theorem contributions_merged_witness:
  "mergeContainerContributions sample_flatten (spec_of [container_named ''main'' [], contributed (container_named ''editor'' [])]) None = Ok merged_sample \<and>
   merged_at sample_flatten ''main'' [contributed (container_named ''editor'' [])] None [container_named ''main'' []] (ts_Components merged_sample)"
proof -
  let ?spec = "spec_of [container_named ''main'' [], contributed (container_named ''editor'' [])]"
  have merged: "mergeContainerContributions sample_flatten ?spec None = Ok merged_sample" by code_simp
  have target: "findMergeTarget sample_flatten ?spec = Inr ''main''" by code_simp
  have "[c \<leftarrow> ts_Components ?spec. is_contribution sample_flatten c] = [contributed (container_named ''editor'' [])]" by code_simp
  moreover have "[c \<leftarrow> ts_Components ?spec. \<not> is_contribution sample_flatten c] = [container_named ''main'' []]" by code_simp
  moreover have "list_ex (is_target ''main'') [container_named ''main'' []]" by code_simp
  ultimately show ?thesis using contributions_merged [OF merged target] merged by (simp add: Let_def)
qed

theorem own_contribution_blocks_merge_witness:
  "needsContainerContributionMerge sample_flatten (spec_of [contributed (container_named ''editor'' []), container_named ''main'' []]) = Inr True \<and>
   mergeContainerContributions sample_flatten (spec_of [contributed (container_named ''editor'' []), container_named ''main'' []]) None =
     Ok (spec_of [contributed (container_named ''editor'' []), container_named ''main'' []])"
proof
  show "needsContainerContributionMerge sample_flatten (spec_of [contributed (container_named ''editor'' []), container_named ''main'' []]) = Inr True"
    by code_simp
  show "mergeContainerContributions sample_flatten (spec_of [contributed (container_named ''editor'' []), container_named ''main'' []]) None =
     Ok (spec_of [contributed (container_named ''editor'' []), container_named ''main'' []])"
  proof (rule own_contribution_blocks_merge)
    show "ts_Components (spec_of [contributed (container_named ''editor'' []), container_named ''main'' []]) =
      contributed (container_named ''editor'' []) # [container_named ''main'' []]" by (simp add: spec_of_def)
  qed code_simp+
qed

end
