(* ===== verification/Workspace_Additions.thy ===== *)
theory Workspace_Additions
  imports Flatten_Merge Workspace_Accounts
begin

text \<open>
  What the operator adds to a workspace between flattening and deployment (\<^verbatim>\<open>src/pkg/library/env\<close>, \<^verbatim>\<open>home\<close>, \<^verbatim>\<open>initcontainers\<close>,
  \<^verbatim>\<open>ssh\<close>, \<^verbatim>\<open>restore\<close>, \<^verbatim>\<open>kubernetes\<close>, \<^verbatim>\<open>defaults\<close>, \<^verbatim>\<open>annotate/urls.go\<close> and \<^verbatim>\<open>src/pkg/secrets/backup.go\<close>): environment variables, a
  persistent home directory, configured init containers, the start of an ssh agent, the restore of a backup, the objects of Kubernetes components,
  the default template and the URLs of endpoints.

  Parameters are the readers of attributes, the order in which Go visits a map, the validation of the devfile library, the strategic merge, the
  decoder of Kubernetes objects, and what the operator reads from its own environment.
\<close>

record 'q additions_env =
  ad_flatten :: "'q flatten_lib"
  ad_library :: "'q library"
  ad_storage :: "'q storage_env"
  ad_readEnv :: "attributes \<Rightarrow> string \<Rightarrow> err + DwEnvVar list"  \<comment> \<open>\<^verbatim>\<open>GetInto\<close> for a list of variables\<close>
  ad_iter :: "(string \<times> string) list \<Rightarrow> (string \<times> string) list"
  ad_kubernetesServiceHost :: string
  ad_validate :: "DevfileComponent list \<Rightarrow> err option"
  ad_merge :: "'q Container list \<Rightarrow> 'q Container list \<Rightarrow> err + 'q Container list"
  ad_decode :: "(string \<Rightarrow> err + string \<times> 'q object option) option"  \<comment> \<open>the kind, and the object if it has metadata; nil before the start\<close>
  ad_backupImage :: string
  ad_operatorNamespace :: "err + string"

abbreviation ad_api :: "'q additions_env \<Rightarrow> 'q api_env" where
  "ad_api env \<equiv> se_api (ad_storage env)"

section \<open>Environment variables\<close>

definition getSshAskPassEnvVars :: "EnvVar list" where
  "getSshAskPassEnvVars = [plain_env ''SSH_ASKPASS'' (SshAskPassMountPath @ SshAskPassScriptFileName), plain_env ''DISPLAY'' '':0'']"

definition getProxyEnvVars :: "string \<Rightarrow> Proxy option \<Rightarrow> EnvVar list" where
  "getProxyEnvVars kubernetesServiceHost proxyConfig =
     (case proxyConfig of
        None \<Rightarrow> []
      | Some p \<Rightarrow>
          if px_HttpProxy p = None \<and> px_HttpsProxy p = None then []
          else
            (case px_HttpProxy p of None \<Rightarrow> [] | Some v \<Rightarrow> [plain_env ''http_proxy'' v, plain_env ''HTTP_PROXY'' v]) @
            (case px_HttpsProxy p of None \<Rightarrow> [] | Some v \<Rightarrow> [plain_env ''https_proxy'' v, plain_env ''HTTPS_PROXY'' v]) @
            (case px_NoProxy p of None \<Rightarrow> [] | Some v \<Rightarrow>
               [plain_env ''no_proxy'' (v @ '','' @ kubernetesServiceHost), plain_env ''NO_PROXY'' (v @ '','' @ kubernetesServiceHost)]))"

text \<open>A configuration without routing section panics.\<close>

definition commonEnvironmentVariables :: "'q additions_env \<Rightarrow> 'q WorkspaceWithConfig \<Rightarrow> EnvVar list go_result" where
  "commonEnvironmentVariables env w =
     go_bind (of_option (oc_Routing (wwc_Config w))) (\<lambda>routing.
     Ok ([plain_env ''DEVWORKSPACE_NAMESPACE'' (wwc_Namespace w), plain_env ''DEVWORKSPACE_NAME'' (wwc_Name w),
          plain_env ''DEVWORKSPACE_ID'' (wwc_Id w), plain_env ''DEVWORKSPACE_CREATOR'' (go_at (wwc_Labels w) DevWorkspaceCreatorLabel),
          plain_env ''DEVWORKSPACE_IDLE_TIMEOUT'' (wc_IdleTimeout (wwc_Workspace w))] @
         (if wc_HostUsers (wwc_Workspace w) = Some False then [plain_env ''HOST_USERS'' ''false''] else []) @
         getProxyEnvVars (ad_kubernetesServiceHost env) (ProxyConfig routing) @ getSshAskPassEnvVars))"

definition WorkspaceEnvAttribute :: string where "WorkspaceEnvAttribute = ''workspaceEnv''"

definition getSourceForComponent :: "'q additions_env \<Rightarrow> DevfileComponent \<Rightarrow> string" where
  "getSourceForComponent env component =
     (let own = ''component '' @ comp_Name component in
      if attr_exists (comp_Attributes component) PluginSourceAttribute then
        (case fl_getString (ad_flatten env) (comp_Attributes component) PluginSourceAttribute of
           Inr componentName \<Rightarrow> ''component '' @ componentName
         | Inl _ \<Rightarrow> own)
      else own)"

text \<open>The variables with their values and with the component that set them last.\<close>

type_synonym env_maps = "(string \<times> string) list \<times> (string \<times> string) list"

fun add_env :: "(string \<Rightarrow> string option \<Rightarrow> err) \<Rightarrow> string \<Rightarrow> DwEnvVar list \<Rightarrow> env_maps \<Rightarrow> err + env_maps" where
  "add_env conflict source [] maps = Inr maps"
| "add_env conflict source (envVar # envVars) (workspaceEnvMap, envVarToComponent) =
     (let name = dev_Name envVar in
      case map_of workspaceEnvMap name of
        Some existingVal \<Rightarrow>
          if existingVal \<noteq> dev_Value envVar then Inl (conflict name (map_of envVarToComponent name))
          else add_env conflict source envVars (AList.update name (dev_Value envVar) workspaceEnvMap, AList.update name source envVarToComponent)
      | None \<Rightarrow> add_env conflict source envVars (AList.update name (dev_Value envVar) workspaceEnvMap, AList.update name source envVarToComponent))"

definition conflict_text :: "string \<Rightarrow> string \<Rightarrow> string option \<Rightarrow> err" where
  "conflict_text source name earlier =
     ''conflicting definition of environment variable '' @ name @ '' in '' @ (case earlier of None \<Rightarrow> [] | Some e \<Rightarrow> e) @ '' and '' @ source"

fun component_envs :: "'q additions_env \<Rightarrow> DevfileComponent list \<Rightarrow> env_maps \<Rightarrow> err + env_maps" where
  "component_envs env [] maps = Inr maps"
| "component_envs env (component # components) maps =
     (if \<not> attr_exists (comp_Attributes component) WorkspaceEnvAttribute then component_envs env components maps
      else
        (case ad_readEnv env (comp_Attributes component) WorkspaceEnvAttribute of
           Inl e \<Rightarrow> Inl (''failed to read attribute '' @ WorkspaceEnvAttribute @ '' on '' @ getSourceForComponent env component @ '': '' @ e)
         | Inr componentEnv \<Rightarrow>
             (case add_env (conflict_text (getSourceForComponent env component)) (getSourceForComponent env component) componentEnv maps of
                Inl e \<Rightarrow> Inl e
              | Inr maps' \<Rightarrow> component_envs env components maps')))"

definition collectWorkspaceEnv :: "'q additions_env \<Rightarrow> DevWorkspaceTemplateSpec \<Rightarrow> err + EnvVar list" where
  "collectWorkspaceEnv env flattenedDW =
     (case (if attr_exists (ts_Attributes flattenedDW) WorkspaceEnvAttribute
            then (case ad_readEnv env (ts_Attributes flattenedDW) WorkspaceEnvAttribute of
                    Inl e \<Rightarrow> Inl (''failed to read attribute '' @ WorkspaceEnvAttribute @ '' in DevWorkspace attributes: '' @ e)
                  | Inr dwEnv \<Rightarrow>
                      add_env (\<lambda>name _. ''conflicting definition of environment variable '' @ name @ '' in DevWorkspace attributes'')
                        ''DevWorkspace attributes'' dwEnv ([], []))
            else Inr ([], [])) of
        Inl e \<Rightarrow> Inl e
      | Inr maps \<Rightarrow>
          map_sum id (\<lambda>(workspaceEnvMap, _). map (\<lambda>(name, value). plain_env name value) (ad_iter env workspaceEnvMap))
            (component_envs env (ts_Components flattenedDW) maps))"

definition AddCommonEnvironmentVariables ::
  "'q additions_env \<Rightarrow> 'q PodAdditions \<Rightarrow> 'q WorkspaceWithConfig \<Rightarrow> DevWorkspaceTemplateSpec \<Rightarrow> 'q PodAdditions go_result" where
  "AddCommonEnvironmentVariables env podAdditions clusterDW flattenedDW =
     go_bind (commonEnvironmentVariables env clusterDW) (\<lambda>commonEnv.
     go_bind (of_sum (collectWorkspaceEnv env flattenedDW)) (\<lambda>workspaceEnv.
     Ok (podAdditions\<lparr>pa_Containers := map (with_env (commonEnv @ workspaceEnv)) (pa_Containers podAdditions),
                      pa_InitContainers := map (with_env (commonEnv @ workspaceEnv)) (pa_InitContainers podAdditions)\<rparr>)))"

definition configured_env :: "EnvVar list option \<Rightarrow> EnvVar list" where
  "configured_env xs = (case xs of None \<Rightarrow> [] | Some es \<Rightarrow> es)"

definition GetEnvironmentVariablesForProjectRestore :: "'q additions_env \<Rightarrow> 'q WorkspaceWithConfig \<Rightarrow> EnvVar list go_result" where
  "GetEnvironmentVariablesForProjectRestore env w =
     go_bind (of_option (wc_RestoreConfig (wwc_Workspace w))) (\<lambda>restoreConfig.
     go_bind (commonEnvironmentVariables env w) (\<lambda>commonEnv.
     Ok (configured_env (rc_Env restoreConfig) @ commonEnv @ [plain_env ''PROJECTS_ROOT'' DefaultProjectsSourcesRoot] @
         (case wc_BackupCronJob (wwc_Workspace w) of
            None \<Rightarrow> []
          | Some backup \<Rightarrow>
              (case bj_OrasConfig backup of None \<Rightarrow> [] | Some oras \<Rightarrow> [plain_env ''ORAS_EXTRA_ARGS'' (oras_ExtraArgs oras)])))))"

definition GetEnvironmentVariablesForProjectClone :: "'q additions_env \<Rightarrow> 'q WorkspaceWithConfig \<Rightarrow> EnvVar list go_result" where
  "GetEnvironmentVariablesForProjectClone env w =
     go_bind (of_option (wc_ProjectCloneConfig (wwc_Workspace w))) (\<lambda>cloneConfig.
     go_bind (commonEnvironmentVariables env w) (\<lambda>commonEnv.
     Ok (configured_env (pcc_Env cloneConfig) @ commonEnv @ [plain_env ''PROJECTS_ROOT'' DefaultProjectsSourcesRoot])))"

section \<open>The home directory\<close>

definition HomeUserDirectory :: string where "HomeUserDirectory = ''/home/user/''"
definition HomeVolumeName :: string where "HomeVolumeName = ''persistent-home''"
definition HomeInitEventId :: string where "HomeInitEventId = ''init-persistent-home''"

definition initScript :: string where
  "initScript =
     ''(echo '' @ [CHR 0x22] @ ''Checking for stow command'' @ [CHR 0x22] @ nl @
     ''STOW_COMPLETE=/home/user/.stow_completed'' @ nl @
     ''if command -v stow &> /dev/null; then'' @ nl @
     ''  if  [ ! -f $STOW_COMPLETE ]; then'' @ nl @
     ''    echo '' @ [CHR 0x22] @ ''Running stow command'' @ [CHR 0x22] @ nl @
     ''    stow . -t /home/user/ -d /home/tooling/ --no-folding -v 2 > /home/user/.stow.log 2>&1'' @ nl @
     ''    cp -n /home/tooling/.viminfo /home/user/.viminfo'' @ nl @
     ''    cp -n /home/tooling/.bashrc /home/user/.bashrc'' @ nl @
     ''    cp -n /home/tooling/.bash_profile /home/user/.bash_profile'' @ nl @
     ''    touch $STOW_COMPLETE'' @ nl @
     ''  else'' @ nl @
     ''    echo '' @ [CHR 0x22] @ ''Stow command already run. If you wish to re-run it, delete $STOW_COMPLETE from the persistent volume and restart the workspace.'' @ [CHR 0x22] @ nl @
     ''  fi'' @ nl @
     ''else'' @ nl @
     ''  echo '' @ [CHR 0x22] @ ''Stow command not found'' @ [CHR 0x22] @ nl @
     ''fi) || true'' @ nl @
     []"

definition no_component :: DevfileComponent where
  "no_component = \<lparr>comp_Name = [], comp_Attributes = [], comp_Container = None, comp_Plugin = None, comp_Volume = None, comp_Kubernetes = None,
     comp_Openshift = None\<rparr>"

definition no_container_component :: ContainerComponent where
  "no_container_component = \<lparr>cc_Image = [], cc_Env = [], cc_VolumeMounts = [], cc_MemoryLimit = [], cc_MemoryRequest = [], cc_CpuLimit = [],
     cc_CpuRequest = [], cc_Command = None, cc_Args = None, cc_MountSources = None, cc_SourceMapping = [], cc_Endpoints = [], cc_DeploymentAnnotations = None\<rparr>"

definition no_events :: Events where
  "no_events = \<lparr>events_PreStart = [], events_PostStart = [], events_PreStop = [], events_PostStop = []\<rparr>"

definition no_command :: Command where
  "no_command = \<lparr>cmd_Id = [], cmd_Exec = None, cmd_Apply = None, cmd_Composite = None, cmd_Custom = None, cmd_Attributes = []\<rparr>"

definition InferWorkspaceImage :: "'q additions_env \<Rightarrow> DevWorkspaceTemplateSpec \<Rightarrow> string" where
  "InferWorkspaceImage env dwTemplate =
     (case find (\<lambda>c. comp_Container c \<noteq> None \<and> \<not> imported_by_plugin (ad_flatten env) c) (ts_Components dwTemplate) of
        None \<Rightarrow> []
      | Some c \<Rightarrow> (case comp_Container c of None \<Rightarrow> [] | Some container \<Rightarrow> cc_Image container))"

definition inferInitContainer :: "'q additions_env \<Rightarrow> DevWorkspaceTemplateSpec \<Rightarrow> ContainerComponent option" where
  "inferInitContainer env dwTemplateSpec =
     (let img = InferWorkspaceImage env dwTemplateSpec in
      if img \<noteq> [] then Some (no_container_component\<lparr>cc_Image := img, cc_Command := Some [''/bin/sh'', ''-c''], cc_Args := Some [initScript]\<rparr>) else None)"

definition initComponentExists :: "DevWorkspaceTemplateSpec \<Rightarrow> bool" where
  "initComponentExists spec \<longleftrightarrow> list_ex (\<lambda>c. comp_Name c = HomeInitComponentName) (ts_Components spec)"

definition initCommandExists :: "DevWorkspaceTemplateSpec \<Rightarrow> bool" where
  "initCommandExists spec \<longleftrightarrow> list_ex (\<lambda>c. cmd_Id c = HomeInitEventId) (ts_commands spec)"

definition initEventExists :: "DevWorkspaceTemplateSpec \<Rightarrow> bool" where
  "initEventExists spec \<longleftrightarrow> (case ts_Events spec of None \<Rightarrow> False | Some events \<Rightarrow> HomeInitEventId \<in> set (events_PreStart events))"

definition addInitContainerComponent :: "DevWorkspaceTemplateSpec \<Rightarrow> ContainerComponent \<Rightarrow> DevWorkspaceTemplateSpec" where
  "addInitContainerComponent spec initContainer =
     spec\<lparr>ts_Components := ts_Components spec @ [no_component\<lparr>comp_Name := HomeInitComponentName, comp_Container := Some initContainer\<rparr>]\<rparr>"

definition addInitContainer :: "'q additions_env \<Rightarrow> DevWorkspaceTemplateSpec \<Rightarrow> err + DevWorkspaceTemplateSpec" where
  "addInitContainer env spec =
     (if initComponentExists spec then Inl (''component named '' @ HomeInitComponentName @ '' already exists in the devworkspace'')
      else if initCommandExists spec then Inl (''command with id '' @ HomeInitEventId @ '' already exists in the devworkspace'')
      else if initEventExists spec then Inl (''event with id '' @ HomeInitEventId @ '' already exists in the devworkspace'')
      else case inferInitContainer env spec of
        None \<Rightarrow> Inl ''cannot infer initcontainer for home persistence setup''
      | Some initContainer \<Rightarrow>
          let events = (case ts_Events spec of None \<Rightarrow> no_events | Some e \<Rightarrow> e) in
          Inr ((addInitContainerComponent spec initContainer)\<lparr>
            ts_Commands := Some (ts_commands spec @ [no_command\<lparr>cmd_Id := HomeInitEventId, cmd_Apply := Some \<lparr>ap_Component = HomeInitComponentName\<rparr>\<rparr>]),
            ts_Events := Some (events\<lparr>events_PreStart := events_PreStart events @ [HomeInitEventId]\<rparr>)\<rparr>))"

definition homeVolume :: DevfileComponent where
  "homeVolume = no_component\<lparr>comp_Name := HomeVolumeName, comp_Volume := Some \<lparr>vc_Size = [], vc_Ephemeral = None\<rparr>\<rparr>"

definition homeVolumeMount :: DwVolumeMount where
  "homeVolumeMount = \<lparr>dvm_Name = HomeVolumeName, dvm_Path = HomeUserDirectory\<rparr>"

definition mount_home :: "DevfileComponent \<Rightarrow> DevfileComponent" where
  "mount_home component =
     component\<lparr>comp_Container := map_option (\<lambda>c. c\<lparr>cc_VolumeMounts := cc_VolumeMounts c @ [homeVolumeMount]\<rparr>) (comp_Container component)\<rparr>"

definition AddPersistentHomeVolume :: "'q additions_env \<Rightarrow> 'q WorkspaceWithConfig \<Rightarrow> DevWorkspaceTemplateSpec go_result" where
  "AddPersistentHomeVolume env w =
     go_bind (of_option (wc_PersistUserHome (wwc_Workspace w))) (\<lambda>persistUserHome.
     go_bind (if ph_DisableInitContainer persistUserHome \<noteq> Some True
              then wrap_err ''failed to add init container for home persistence setup: '' (of_sum (addInitContainer env (wwc_Template w)))
              else Ok (wwc_Template w)) (\<lambda>spec.
     let components = map mount_home (ts_Components spec @ [homeVolume]) in
     (case ad_validate env components of
        Some e \<Rightarrow> Err (''addition of '' @ HomeVolumeName @ '' volume would render DevWorkspace invalid: '' @ e)
      | None \<Rightarrow> Ok (spec\<lparr>ts_Components := components\<rparr>))))"

definition PersistUserHomeEnabled :: "'q WorkspaceWithConfig \<Rightarrow> bool go_result" where
  "PersistUserHomeEnabled w = go_bind (of_option (wc_PersistUserHome (wwc_Workspace w))) (\<lambda>home. Ok (ph_Enabled home = Some True))"

definition hasInitPersistentHomeInConfig :: "'q WorkspaceWithConfig \<Rightarrow> bool" where
  "hasInitPersistentHomeInConfig w \<longleftrightarrow>
     list_ex (\<lambda>container. c_Name container = HomeInitComponentName) (case wc_InitContainers (wwc_Workspace w) of None \<Rightarrow> [] | Some cs \<Rightarrow> cs)"

definition mounts_home :: "DevfileComponent \<Rightarrow> bool" where
  "mounts_home component \<longleftrightarrow>
     (case comp_Container component of None \<Rightarrow> False | Some c \<Rightarrow> list_ex (\<lambda>m. dvm_Path m = HomeUserDirectory) (cc_VolumeMounts c))"

definition NeedsPersistentHomeDirectory :: "'q additions_env \<Rightarrow> 'q WorkspaceWithConfig \<Rightarrow> bool go_result" where
  "NeedsPersistentHomeDirectory env w =
     go_bind (PersistUserHomeEnabled w) (\<lambda>enabled.
     Ok (if \<not> enabled then False
         else if list_ex mounts_home (ts_Components (wwc_Template w)) then False
         else if \<not> list_ex (\<lambda>c. comp_Container c \<noteq> None) (ts_Components (wwc_Template w)) then False
         else if string_attribute (ad_flatten env) (ts_Attributes (wwc_Template w)) DevWorkspaceStorageTypeAttribute = EphemeralStorageClassType
         then hasInitPersistentHomeInConfig w
         else True))"

definition EnsureHomeInitContainerFields :: "'q Container \<Rightarrow> 'q Container" where
  "EnsureHomeInitContainerFields c =
     c\<lparr>c_Command := (case c_Command c of Some (x # xs) \<Rightarrow> Some (x # xs) | _ \<Rightarrow> Some [''/bin/sh'', ''-c'']),
       c_VolumeMounts := [plain_mount HomeVolumeName HomeUserDirectory]\<rparr>"

section \<open>Configured init containers\<close>

text \<open>
  The strategic merge may reorder the containers, so they are put back in order: first the base, with the merged container of the same name taken once, then
  the new ones of the patches.
\<close>

fun restore_base :: "'q Container list \<Rightarrow> (string \<times> 'q Container) list \<Rightarrow> 'q Container list \<times> (string \<times> 'q Container) list" where
  "restore_base [] mergedMap = ([], mergedMap)"
| "restore_base (baseContainer # base) mergedMap =
     (case map_of mergedMap (c_Name baseContainer) of
        Some merged \<Rightarrow> apfst ((#) merged) (restore_base base (AList.delete (c_Name baseContainer) mergedMap))
      | None \<Rightarrow> apfst ((#) baseContainer) (restore_base base mergedMap))"

definition MergeInitContainers :: "'q additions_env \<Rightarrow> 'q Container list \<Rightarrow> 'q Container list \<Rightarrow> err + 'q Container list" where
  "MergeInitContainers env base patches =
     (if patches = [] then Inr base
      else case ad_merge env base patches of
        Inl e \<Rightarrow> Inl e
      | Inr merged \<Rightarrow>
          (case restore_base base (fold (\<lambda>c. AList.update (c_Name c) c) merged []) of (result, mergedMap) \<Rightarrow>
             Inr (result @ map (\<lambda>p. case map_of mergedMap (c_Name p) of Some m \<Rightarrow> m | None \<Rightarrow> p)
               [p \<leftarrow> patches. c_Name p \<notin> c_Name ` set base])))"

section \<open>The ssh agent\<close>

definition SshAgentStartEventId :: string where "SshAgentStartEventId = ''init-ssh-agent-command''"

definition ssh_commandLine :: string where
  "ssh_commandLine =
     ''('' @ nl @
     ''SSH_ENV_PATH=$HOME/ssh-environment && '' @ [CHR 0x5C] @ nl @
     ''if [ -f /etc/ssh/passphrase ] && [ -w $HOME ] && command -v ssh-add >/dev/null && command -v ssh-agent >/dev/null; then'' @ nl @
     ''    ssh-agent | sed '' @ [CHR 0x27] @ ''s/^echo/#echo/'' @ [CHR 0x27] @ '' > $SSH_ENV_PATH '' @ [CHR 0x5C] @ nl @
     ''    && chmod 600 $SSH_ENV_PATH '' @ [CHR 0x5C] @ nl @
     ''    && source $SSH_ENV_PATH '' @ [CHR 0x5C] @ nl @
     ''    && if timeout 3 ssh-add /etc/ssh/dwo_ssh_key < /etc/ssh/passphrase && [ -f $HOME/.bashrc ] && [ -w $HOME/.bashrc ]; then'' @ nl @
     ''        echo '' @ [CHR 0x22] @ ''source ${SSH_ENV_PATH}'' @ [CHR 0x22] @ '' >> $HOME/.bashrc'' @ nl @
     ''    fi'' @ nl @
     ''fi'' @ nl @
     '') || true''"

definition ssh_command :: "nat \<times> DevfileComponent \<Rightarrow> Command" where
  "ssh_command idc = (case idc of (position, component) \<Rightarrow>
     no_command\<lparr>cmd_Id := SshAgentStartEventId @ ''-'' @ format_nat position,
       cmd_Exec := Some \<lparr>ex_CommandLine = ssh_commandLine, ex_Component = comp_Name component, ex_WorkingDir = [], ex_Env = []\<rparr>\<rparr>)"

text \<open>The specification with the commands and events, and the error of finding the main containers, which leaves only the empty lists.\<close>

definition AddSshAgentPostStartEvent :: "'q additions_env \<Rightarrow> DevWorkspaceTemplateSpec \<Rightarrow> (DevWorkspaceTemplateSpec \<times> err option) go_result" where
  "AddSshAgentPostStartEvent env spec =
     (let commands = ts_commands spec; events = (case ts_Events spec of None \<Rightarrow> no_events | Some e \<Rightarrow> e) in
      case GetInitContainers (lib_Normalize (ad_library env)) (spec\<lparr>ts_Commands := Some commands, ts_Events := Some events\<rparr>) of
        Panic \<Rightarrow> Panic
      | Err e \<Rightarrow> Ok (spec\<lparr>ts_Commands := Some commands, ts_Events := Some events\<rparr>, Some e)
      | Ok (_, mainComponents) \<Rightarrow>
          let started = map ssh_command [(i, c) \<leftarrow> List.enumerate 0 mainComponents. comp_Container c \<noteq> None] in
          Ok (spec\<lparr>ts_Commands := Some (commands @ started),
                   ts_Events := Some (events\<lparr>events_PostStart := events_PostStart events @ map cmd_Id started\<rparr>)\<rparr>, None))"

definition SSHSecretName :: string where "SSHSecretName = ''git-ssh-key''"
definition SSHSecretPassphraseKey :: string where "SSHSecretPassphraseKey = ''passphrase''"

definition secret_data :: "'q object \<Rightarrow> (string, string) gomap" where
  "secret_data obj = (case o_Content obj of SecretContent data \<Rightarrow> data | _ \<Rightarrow> None)"

definition NeedsSSHPostStartEvent :: "'q additions_env \<Rightarrow> string \<Rightarrow> 'q objects \<Rightarrow> err + bool" where
  "NeedsSSHPostStartEvent env namespace cl =
     (case client_Get (ad_api env) (SecretObj, namespace, SSHSecretName) cl of
        Inl (NotFound _) \<Rightarrow> Inr False
      | Inl e \<Rightarrow> Inl (api_err_text e)
      | Inr sshSecret \<Rightarrow> Inr (go_get (secret_data sshSecret) SSHSecretPassphraseKey \<noteq> None))"

section \<open>Default template and endpoint URLs\<close>

definition NeedsDefaultTemplate :: "'q WorkspaceWithConfig \<Rightarrow> bool" where
  "NeedsDefaultTemplate w \<longleftrightarrow> ts_Components (wwc_Template w) = [] \<and> wc_DefaultTemplate (wwc_Workspace w) \<noteq> None"

definition ApplyDefaultTemplate :: "'q WorkspaceWithConfig \<Rightarrow> 'q WorkspaceWithConfig" where
  "ApplyDefaultTemplate w =
     (case wc_DefaultTemplate (wwc_Workspace w) of
        None \<Rightarrow> w
      | Some defaultCopy \<Rightarrow>
          w\<lparr>wwc_Template := defaultCopy\<lparr>ts_Parent := ts_Parent (wwc_Template w),
              ts_Projects := ts_Projects defaultCopy @ ts_Projects (wwc_Template w),
              ts_DependentProjects := ts_DependentProjects defaultCopy @ ts_DependentProjects (wwc_Template w)\<rparr>\<rparr>)"

definition EndpointURLAttribute :: string where "EndpointURLAttribute = ''controller.devfile.io/endpoint-url''"

text \<open>\<^verbatim>\<open>getContainerEndpointByName\<close> and the write through the pointer that it returns: the first endpoint of the name.\<close>

fun put_endpoint_url :: "'q flatten_lib \<Rightarrow> ExposedUrl \<Rightarrow> Endpoint list \<Rightarrow> Endpoint list" where
  "put_endpoint_url L exposedEndpoint [] = []"
| "put_endpoint_url L exposedEndpoint (endpoint # endpoints) =
     (if ep_Name endpoint = xe_Name exposedEndpoint
      then endpoint\<lparr>ep_Attributes := PutString L EndpointURLAttribute (xe_Url exposedEndpoint) (ep_Attributes endpoint)\<rparr> # endpoints
      else endpoint # put_endpoint_url L exposedEndpoint endpoints)"

definition AddURLAttributesToEndpoints :: "'q flatten_lib \<Rightarrow> exposed \<Rightarrow> DevWorkspaceTemplateSpec \<Rightarrow> DevWorkspaceTemplateSpec" where
  "AddURLAttributesToEndpoints L exposedEndpoints workspace =
     workspace\<lparr>ts_Components := map (\<lambda>component.
       component\<lparr>comp_Container := map_option (\<lambda>container.
         container\<lparr>cc_Endpoints := fold (put_endpoint_url L) (case map_of exposedEndpoints (comp_Name component) of None \<Rightarrow> [] | Some es \<Rightarrow> es)
           (cc_Endpoints container)\<rparr>) (comp_Container component)\<rparr>) (ts_Components workspace)\<rparr>"

section \<open>Registry secret and restore\<close>

definition DevWorkspaceBackupAuthSecretName :: string where "DevWorkspaceBackupAuthSecretName = ''devworkspace-backup-registry-auth''"
definition DevWorkspaceWatchSecretLabel :: string where "DevWorkspaceWatchSecretLabel = ''controller.devfile.io/watch-secret''"
definition DevWorkspaceWatchConfigMapLabel :: string where "DevWorkspaceWatchConfigMapLabel = ''controller.devfile.io/watch-configmap''"

definition backup_secret_key :: "'q WorkspaceWithConfig \<Rightarrow> obj_key" where
  "backup_secret_key w = (SecretObj, wwc_Namespace w, DevWorkspaceBackupAuthSecretName)"

definition CopySecret :: "'q additions_env \<Rightarrow> 'q WorkspaceWithConfig \<Rightarrow> 'q object \<Rightarrow> 'q objects \<Rightarrow> (err + 'q object) \<times> 'q objects" where
  "CopySecret env w sourceSecret cl =
     (let desiredSecret = rbac_object DevWorkspaceBackupAuthSecretName (wwc_Namespace w) (Some [(DevWorkspaceWatchSecretLabel, ''true'')]) (o_Content sourceSecret) in
      case client_Create (ad_api env) desiredSecret cl of
        (None, cl') \<Rightarrow> (Inr desiredSecret, cl')
      | (Some (AlreadyExists _), cl') \<Rightarrow>
          (case client_Get (ad_api env) (backup_secret_key w) cl' of Inl e \<Rightarrow> (Inl (api_err_text e), cl') | Inr existing \<Rightarrow> (Inr existing, cl'))
      | (Some e, cl') \<Rightarrow> (Inl (api_err_text e), cl'))"

definition HandleRegistryAuthSecret ::
  "'q additions_env \<Rightarrow> 'q WorkspaceWithConfig \<Rightarrow> string \<Rightarrow> 'q objects \<Rightarrow> (err + 'q object option) \<times> 'q objects" where
  "HandleRegistryAuthSecret env w operatorConfigNamespace cl =
     (case Option.bind (wc_BackupCronJob (wwc_Workspace w)) bj_Registry of
        None \<Rightarrow> (Inl ''backup/restore configuration not properly set in DevWorkspaceOperatorConfig'', cl)
      | Some registry \<Rightarrow>
     (case client_Get (ad_api env) (backup_secret_key w) cl of
        Inr registryAuthSecret \<Rightarrow> (Inr (Some registryAuthSecret), cl)
      | Inl (NotFound _) \<Rightarrow>
          if reg_AuthSecret registry = [] then (Inr None, cl)
          else
     (case (if operatorConfigNamespace \<noteq> [] then Inr operatorConfigNamespace else ad_operatorNamespace env) of
        Inl e \<Rightarrow> (Inl (''cannot resolve operator namespace to copy registry auth secret: '' @ e), cl)
      | Inr ns \<Rightarrow>
     (case client_Get (ad_api env) (SecretObj, ns, reg_AuthSecret registry) cl of
        Inl e \<Rightarrow> (Inl (api_err_text e), cl)
      | Inr registryAuthSecret \<Rightarrow> apfst (map_sum id Some) (CopySecret env w registryAuthSecret cl)))
      | Inl e \<Rightarrow> (Inl (api_err_text e), cl)))"

definition GetNamespaceRegistryAuthSecret :: "'q additions_env \<Rightarrow> 'q WorkspaceWithConfig \<Rightarrow> 'q objects \<Rightarrow> (err + 'q object option) \<times> 'q objects" where
  "GetNamespaceRegistryAuthSecret env w cl = HandleRegistryAuthSecret env w [] cl"

definition WorkspaceRestoreAttribute :: string where "WorkspaceRestoreAttribute = ''controller.devfile.io/restore-workspace''"
definition WorkspaceRestoreSourceImageAttribute :: string where "WorkspaceRestoreSourceImageAttribute = ''controller.devfile.io/restore-source-image''"

definition IsWorkspaceRestoreRequested :: "'q additions_env \<Rightarrow> DevWorkspaceTemplateSpec \<Rightarrow> bool" where
  "IsWorkspaceRestoreRequested env workspace \<longleftrightarrow>
     (if \<not> attr_exists (ts_Attributes workspace) WorkspaceRestoreAttribute then False
      else bool_attribute (ad_flatten env) (ts_Attributes workspace) WorkspaceRestoreAttribute)"

definition trim_right :: "char \<Rightarrow> string \<Rightarrow> string" where
  "trim_right c s = rev (dropWhile (\<lambda>x. x = c) (rev s))"

definition restore_source :: "'q additions_env \<Rightarrow> 'q WorkspaceWithConfig \<Rightarrow> err + string" where
  "restore_source env w =
     (if attr_exists (ts_Attributes (wwc_Template w)) WorkspaceRestoreSourceImageAttribute then
        (case fl_getString (ad_flatten env) (ts_Attributes (wwc_Template w)) WorkspaceRestoreSourceImageAttribute of
           Inl e \<Rightarrow> Inl (''failed to read '' @ WorkspaceRestoreSourceImageAttribute @ '' attribute on workspace: '' @ e)
         | Inr img \<Rightarrow> Inr img)
      else case wc_BackupCronJob (wwc_Workspace w) of
        None \<Rightarrow> Inl ''workspace restore requested but backup cron job configuration is missing''
      | Some backup \<Rightarrow>
     (case bj_Registry backup of
        None \<Rightarrow> Inl ''workspace restore requested but backup cron job registry is not configured''
      | Some registry \<Rightarrow>
          if reg_Path registry = [] then Inl ''workspace restore requested but backup cron job registry is not configured''
          else Inr (trim_right (CHR ''/'') (reg_Path registry) @ ''/'' @ wwc_Namespace w @ ''/'' @ wwc_Name w @ '':latest'')))"

definition restore_container ::
  "'q additions_env \<Rightarrow> 'q clone_options \<Rightarrow> 'q ResourceRequirements \<Rightarrow> string \<Rightarrow> bool \<Rightarrow> 'q Container" where
  "restore_container env options resources sourceImage auth =
     empty_container\<lparr>c_Name := ''workspace-restore'', c_Image := ad_backupImage env, c_Command := Some [''/workspace-recovery.sh''], c_Args := Some [''--restore''],
       c_Env := Some (configured_env (opt_Env options) @ [plain_env ''BACKUP_IMAGE'' sourceImage] @
         (if auth then [plain_env ''REGISTRY_AUTH_FILE'' ''/tmp/.docker/.dockerconfigjson''] else [])),
       c_Resources := resources,
       c_VolumeMounts := plain_mount ProjectsVolumeName DefaultProjectsSourcesRoot #
         (if auth then [(plain_mount ''registry-auth-secret'' ''/tmp/.docker'')\<lparr>vm_ReadOnly := True\<rparr>] else []),
       c_ImagePullPolicy := opt_PullPolicy options\<rparr>"

definition GetWorkspaceRestoreInitContainer ::
  "'q::linordered_ab_group_add additions_env \<Rightarrow> 'q WorkspaceWithConfig \<Rightarrow> 'q clone_options \<Rightarrow> 'q objects \<Rightarrow>
   (err + ('q Container \<times> 'q object option) option) \<times> 'q objects" where
  "GetWorkspaceRestoreInitContainer env w options cl =
     (case restore_source env w of
        Inl e \<Rightarrow> (Inl e, cl)
      | Inr restoreSourceImage \<Rightarrow>
          if restoreSourceImage = [] then (Inl (''empty value for attribute '' @ WorkspaceRestoreSourceImageAttribute @ '' is invalid''), cl)
          else if \<not> hasContainerComponents (wwc_Template w) then (Inr None, cl)
          else
            let resources = FilterResources (opt_Resources options) in
     (case ValidateResources (lib_qstring (ad_library env)) resources of
        Some e \<Rightarrow> (Inl (''invalid resources for workspace restore container: '' @ e), cl)
      | None \<Rightarrow>
     (case GetNamespaceRegistryAuthSecret env w cl of
        (Inl e, cl') \<Rightarrow> (Inl (''handling registry auth secret for workspace restore: '' @ e), cl')
      | (Inr secret, cl') \<Rightarrow> (Inr (Some (restore_container env options resources restoreSourceImage (secret \<noteq> None), secret)), cl'))))"

section \<open>Kubernetes components\<close>

definition getK8sLikeComponent :: "DevfileComponent \<Rightarrow> K8sLikeComponent option" where
  "getK8sLikeComponent component = (case comp_Kubernetes component of Some k \<Rightarrow> Some k | None \<Rightarrow> comp_Openshift component)"

definition HasKubelikeComponent :: "DevfileComponent list \<Rightarrow> bool" where
  "HasKubelikeComponent components \<longleftrightarrow> list_ex (\<lambda>c. comp_Kubernetes c \<noteq> None \<or> comp_Openshift c \<noteq> None) components"

fun filterForKubeLikeComponents :: "DevfileComponent list \<Rightarrow> DevfileComponent list \<times> string list" where
  "filterForKubeLikeComponents [] = ([], [])"
| "filterForKubeLikeComponents (component # components) =
     (case filterForKubeLikeComponents components of (kubeComponents, warnings) \<Rightarrow>
     (case getK8sLikeComponent component of
        None \<Rightarrow> (kubeComponents, warnings)
      | Some k \<Rightarrow>
          if \<not> k8_DeployByDefault k then (kubeComponents, warnings)
          else if k8_Uri k \<noteq> [] then (kubeComponents, (''component '' @ comp_Name component @ '' defines a Kubernetes/OpenShift component via URI'') # warnings)
          else if k8_Inlined k = [] then (kubeComponents, warnings)
          else (component # kubeComponents, warnings)))"

definition deserializeToObject :: "'q additions_env \<Rightarrow> string \<Rightarrow> err + 'q object" where
  "deserializeToObject env jsonObj =
     (case ad_decode env of
        None \<Rightarrow> Inl ''kubernetes object deserializer is not initialized''
      | Some decode \<Rightarrow>
     (case decode jsonObj of
        Inl e \<Rightarrow> Inl e
      | Inr (kind, obj) \<Rightarrow>
          if kind = ''List'' then Inl (''objects of kind '' @ sq @ ''List'' @ sq @ '' are unsupported'')
          else (case obj of None \<Rightarrow> Inl ''object does not have standard metadata and cannot be processed'' | Some clientObj \<Rightarrow> Inr clientObj)))"

definition addMetadata :: "'q additions_env \<Rightarrow> 'q WorkspaceWithConfig \<Rightarrow> 'q object \<Rightarrow> err + 'q object" where
  "addMetadata env w obj =
     map_sum id (\<lambda>obj. obj\<lparr>o_Labels := Some (
         (if kind_of (o_Content obj) = ConfigMapObj then AList.update DevWorkspaceWatchConfigMapLabel ''true'' else id)
         ((if kind_of (o_Content obj) = SecretObj then AList.update DevWorkspaceWatchSecretLabel ''true'' else id)
          (AList.update DevWorkspaceCreatorLabel (go_at (wwc_Labels w) DevWorkspaceCreatorLabel)
             (AList.update DevWorkspaceIDLabel (wwc_Id w) (go_items (o_Labels obj))))))\<rparr>)
       (SetOwnerReference (ad_storage env) w (obj\<lparr>o_Namespace := wwc_Namespace w\<rparr>))"

definition checkOwnerrefs :: "OwnerReference list \<Rightarrow> OwnerReference list \<Rightarrow> err option" where
  "checkOwnerrefs ownerrefs wanted =
     (if list_all (\<lambda>s. list_ex (\<lambda>r. or_Name r = or_Name s \<and> or_UID r = or_UID s) ownerrefs) wanted then None else Some ''ownerref not found'')"

definition checkForExistingObject :: "'q additions_env \<Rightarrow> 'q object \<Rightarrow> 'q objects \<Rightarrow> err option" where
  "checkForExistingObject env obj cl =
     (case client_Get (ad_api env) (obj_key_of obj) cl of
        Inl (NotFound _) \<Rightarrow> None
      | Inl e \<Rightarrow> Some (api_err_text e)
      | Inr clusterObj \<Rightarrow>
          if go_at (o_Labels clusterObj) DevWorkspaceIDLabel \<noteq> go_at (o_Labels obj) DevWorkspaceIDLabel \<or>
             checkOwnerrefs (o_OwnerReferences clusterObj) (o_OwnerReferences obj) \<noteq> None
          then Some (''object '' @ o_Name obj @ '' exists and is not owned by this workspace'') else None)"

text \<open>One component, up to the error that ends the loop.\<close>

definition sync_component :: "'q additions_env \<Rightarrow> 'q WorkspaceWithConfig \<Rightarrow> DevfileComponent \<Rightarrow> 'q objects \<Rightarrow> unit dw_result \<times> 'q objects" where
  "sync_component env w component cl =
     (case deserializeToObject env (case getK8sLikeComponent component of None \<Rightarrow> [] | Some k \<Rightarrow> k8_Inlined k) of
        Inl e \<Rightarrow> (DwErr (FailError (wrapped_text (''could not process component '' @ comp_Name component) e)), cl)
      | Inr obj \<Rightarrow>
     (case addMetadata env w obj of
        Inl e \<Rightarrow> (DwErr (RetryError (wrapped_text (''failed to add ownerref for component '' @ comp_Name component) e) 0), cl)
      | Inr obj \<Rightarrow>
     (case checkForExistingObject env obj cl of
        Some e \<Rightarrow> (DwErr (FailError (wrapped_text (''could not process component '' @ comp_Name component) e)), cl)
      | None \<Rightarrow>
     (case (if IsRecognizedObject (ad_api env) obj then Some (SyncObjectWithCluster (ad_api env) obj cl)
            else SyncUnrecognizedObjectWithCluster (ad_api env) obj cl) of
        None \<Rightarrow> (DwPanic, cl)
      | Some (Inr _, cl') \<Rightarrow> (DwOk (), cl')
      | Some (Inl syncErr, cl') \<Rightarrow> (DwErr (WrapSyncError syncErr), cl')))))"

fun sync_components :: "'q additions_env \<Rightarrow> 'q WorkspaceWithConfig \<Rightarrow> DevfileComponent list \<Rightarrow> 'q objects \<Rightarrow> unit dw_result \<times> 'q objects" where
  "sync_components env w [] cl = (DwOk (), cl)"
| "sync_components env w (component # components) cl =
     (case sync_component env w component cl of
        (DwOk _, cl') \<Rightarrow> sync_components env w components cl'
      | stopped \<Rightarrow> stopped)"

definition HandleKubernetesComponents :: "'q additions_env \<Rightarrow> 'q WorkspaceWithConfig \<Rightarrow> 'q objects \<Rightarrow> unit dw_result \<times> 'q objects" where
  "HandleKubernetesComponents env w cl =
     (case filterForKubeLikeComponents (ts_Components (wwc_Template w)) of (kubeComponents, warnings) \<Rightarrow>
     (case sync_components env w kubeComponents cl of
        (DwOk _, cl') \<Rightarrow>
          (if warnings \<noteq> [] then DwErr (WarningError (''Ignored components that use unsupported features: '' @ strings_join '', '' warnings)) else DwOk (), cl')
      | stopped \<Rightarrow> stopped))"

end
