(* ===== verification/Additions_Correct.thy ===== *)
theory Additions_Correct
  imports Workspace_Additions Workspace_Rights
begin

text \<open>
  Correctness of what is added to a workspace: the variables of its attributes, the home directory, the order of init containers, and the
  objects of Kubernetes components.
\<close>

section \<open>Environment variables\<close>

text \<open>The definitions of a list of attributes, in order, if all of them can be read.\<close>

fun declared_in :: "'q additions_env \<Rightarrow> attributes list \<Rightarrow> DwEnvVar list option" where
  "declared_in env [] = Some []"
| "declared_in env (as # rest) =
     (if \<not> attr_exists as WorkspaceEnvAttribute then declared_in env rest
      else case ad_readEnv env as WorkspaceEnvAttribute of
        Inl _ \<Rightarrow> None
      | Inr vars \<Rightarrow> map_option ((@) vars) (declared_in env rest))"

definition declared_env :: "'q additions_env \<Rightarrow> DevWorkspaceTemplateSpec \<Rightarrow> DwEnvVar list option" where
  "declared_env env spec = declared_in env (ts_Attributes spec # map comp_Attributes (ts_Components spec))"

definition consistent :: "DwEnvVar list \<Rightarrow> bool" where
  "consistent vars \<longleftrightarrow> (\<forall>v \<in> set vars. \<forall>w \<in> set vars. dev_Name v = dev_Name w \<longrightarrow> dev_Value v = dev_Value w)"

definition assigned :: "DwEnvVar list \<Rightarrow> (string \<times> string) set" where
  "assigned vars = (\<lambda>v. (dev_Name v, dev_Value v)) ` set vars"

text \<open>The map holds exactly the definitions so far.\<close>

definition env_map_ok :: "DwEnvVar list \<Rightarrow> (string \<times> string) list \<Rightarrow> bool" where
  "env_map_ok vars m \<longleftrightarrow> distinct (map fst m) \<and> set m = assigned vars"

lemma env_map_lookup: "env_map_ok vars m \<Longrightarrow> map_of m n = Some x \<longleftrightarrow> (n, x) \<in> assigned vars"
  by (auto simp: env_map_ok_def)

lemma env_map_ok_consistent: "env_map_ok vars m \<Longrightarrow> consistent vars"
  unfolding consistent_def assigned_def env_map_ok_def by (metis (no_types, lifting) eq_key_imp_eq_value image_eqI)

lemma consistent_Cons_iff:
  "env_map_ok done m \<Longrightarrow> consistent (done @ v # vars) \<Longrightarrow> map_of m (dev_Name v) \<in> {None, Some (dev_Value v)}"
  using map_of_SomeD [of m "dev_Name v"] by (cases "map_of m (dev_Name v)") (auto simp: env_map_ok_def assigned_def consistent_def)

lemma env_map_ok_update:
  assumes "env_map_ok done m" "map_of m (dev_Name v) \<in> {None, Some (dev_Value v)}"
  shows "env_map_ok (done @ [v]) (AList.update (dev_Name v) (dev_Value v) m)"
proof (cases "map_of m (dev_Name v)")
  case None
  then have "AList.update (dev_Name v) (dev_Value v) m = m @ [(dev_Name v, dev_Value v)]"
    by (induction m) (auto split: if_splits)
  with assms None show ?thesis by (auto simp: env_map_ok_def assigned_def map_of_eq_None_iff)
next
  case (Some x)
  with assms have m: "(dev_Name v, dev_Value v) \<in> set m" "distinct (map fst m)" by (auto simp: env_map_ok_def dest: map_of_SomeD)
  then have "AList.update (dev_Name v) (dev_Value v) m = m" by (induction m) (auto simp: rev_image_eqI)
  with assms m show ?thesis by (auto simp: env_map_ok_def assigned_def)
qed

lemma add_env_iff:
  assumes "env_map_ok done (fst maps)"
  shows "add_env conflict source vars maps = Inl e \<Longrightarrow> \<not> consistent (done @ vars)"
    and "add_env conflict source vars maps = Inr maps' \<Longrightarrow> env_map_ok (done @ vars) (fst maps')"
proof -
  have "(\<forall>e. add_env conflict source vars maps = Inl e \<longrightarrow> \<not> consistent (done @ vars)) \<and>
    (\<forall>maps'. add_env conflict source vars maps = Inr maps' \<longrightarrow> env_map_ok (done @ vars) (fst maps'))"
    using assms
  proof (induction vars arbitrary: maps "done")
    case (Cons v vars)
    obtain m s where maps: "maps = (m, s)" by (cases maps)
    show ?case
    proof (cases "map_of m (dev_Name v) \<in> {None, Some (dev_Value v)}")
      case True
      let ?maps = "(AList.update (dev_Name v) (dev_Value v) m, AList.update (dev_Name v) source s)"
      have "add_env conflict source (v # vars) maps = add_env conflict source vars ?maps" using True by (auto simp: maps Let_def)
      moreover have "env_map_ok (done @ [v]) (fst ?maps)" using env_map_ok_update Cons.prems True by (simp add: maps)
      ultimately show ?thesis using Cons.IH [of "done @ [v]" ?maps] by simp
    next
      case False
      with Cons.prems consistent_Cons_iff [of "done" m v vars] show ?thesis by (auto simp: maps Let_def split: option.splits)
    qed
  qed simp
  then show "add_env conflict source vars maps = Inl e \<Longrightarrow> \<not> consistent (done @ vars)"
    and "add_env conflict source vars maps = Inr maps' \<Longrightarrow> env_map_ok (done @ vars) (fst maps')" by blast+
qed

lemma inconsistent_append: "\<not> consistent xs \<Longrightarrow> \<not> consistent (xs @ ys)"
  by (auto simp: consistent_def)

text \<open>What both parts of the collection do: an error where the declarations cannot be read or conflict, otherwise the map of all of them.\<close>

definition collects :: "DwEnvVar list \<Rightarrow> DwEnvVar list option \<Rightarrow> err + env_maps \<Rightarrow> bool" where
  "collects done declared result \<longleftrightarrow>
     (\<forall>e. result = Inl e \<longrightarrow> \<not> (\<exists>vars. declared = Some vars \<and> consistent (done @ vars))) \<and>
     (\<forall>maps. result = Inr maps \<longrightarrow> (\<exists>vars. declared = Some vars \<and> env_map_ok (done @ vars) (fst maps)))"

lemma component_envs_collects:
  "env_map_ok done (fst maps) \<Longrightarrow> collects done (declared_in env (map comp_Attributes components)) (component_envs env components maps)"
proof (induction components arbitrary: maps "done")
  case (Cons c components)
  let ?add = "\<lambda>vars. add_env (conflict_text (getSourceForComponent env c)) (getSourceForComponent env c) vars maps"
  note add = add_env_iff [OF Cons.prems]
  show ?case
  proof (cases "attr_exists (comp_Attributes c) WorkspaceEnvAttribute")
    case True
    show ?thesis
    proof (cases "ad_readEnv env (comp_Attributes c) WorkspaceEnvAttribute")
      case (Inr vars)
      show ?thesis
      proof (cases "?add vars")
        case (Inl e)
        from inconsistent_append [OF add(1) [OF this]] Inl Inr True show ?thesis by (auto simp: collects_def)
      next
        case ok: (Inr maps')
        from Cons.IH [OF add(2) [OF this]] ok Inr True show ?thesis by (auto simp: collects_def)
      qed
    qed (use True in \<open>auto simp: collects_def\<close>)
  qed (use Cons in simp)
qed (simp add: collects_def)

lemma collectWorkspaceEnv_collects:
  obtains result where "collects [] (declared_env env spec) result"
    "collectWorkspaceEnv env spec = map_sum id (\<lambda>(m, _). map (\<lambda>(name, value). plain_env name value) (ad_iter env m)) result"
proof -
  have empty: "env_map_ok [] (fst ([], []))" by (simp add: env_map_ok_def assigned_def)
  show thesis
  proof (cases "attr_exists (ts_Attributes spec) WorkspaceEnvAttribute")
    case False
    with that component_envs_collects [OF empty, of env "ts_Components spec"] show thesis
      by (auto simp: collectWorkspaceEnv_def declared_env_def)
  next
    case True
    show thesis
    proof (cases "ad_readEnv env (ts_Attributes spec) WorkspaceEnvAttribute")
      case (Inl e)
      with True that [of "Inl _"] show thesis by (auto simp: collectWorkspaceEnv_def declared_env_def collects_def)
    next
      case vars: (Inr vars)
      let ?conflict = "\<lambda>name _. ''conflicting definition of environment variable '' @ name @ '' in DevWorkspace attributes''"
      show thesis
      proof (cases "add_env ?conflict ''DevWorkspace attributes'' vars ([], [])")
        case (Inl e)
        from inconsistent_append [OF add_env_iff(1) [OF empty this]] Inl vars True that [of "Inl e"] show thesis
          by (auto simp: collectWorkspaceEnv_def declared_env_def collects_def)
      next
        case (Inr maps)
        from component_envs_collects [OF add_env_iff(2) [OF empty this], of env "ts_Components spec"]
        have "collects [] (declared_env env spec) (component_envs env (ts_Components spec) maps)"
          using vars True by (auto simp: declared_env_def collects_def)
        with that Inr vars True show thesis by (simp add: collectWorkspaceEnv_def)
      qed
    qed
  qed
qed

lemma collected_env:
  assumes "\<And>m. mset (ad_iter env m) = mset m"
  shows "case collectWorkspaceEnv env spec of
      Inl _ \<Rightarrow> \<not> (\<exists>vars. declared_env env spec = Some vars \<and> consistent vars)
    | Inr envVars \<Rightarrow> \<exists>vars. declared_env env spec = Some vars \<and> consistent vars \<and> distinct (map ev_Name envVars) \<and>
        (\<lambda>v. (ev_Name v, ev_Value v)) ` set envVars = assigned vars"
proof -
  obtain result where r: "collects [] (declared_env env spec) result"
    "collectWorkspaceEnv env spec = map_sum id (\<lambda>(m, _). map (\<lambda>(name, value). plain_env name value) (ad_iter env m)) result"
    by (rule collectWorkspaceEnv_collects)
  show ?thesis
  proof (cases result)
    case (Inl e)
    with r show ?thesis by (simp add: collects_def)
  next
    case (Inr maps)
    with r(1) obtain vars where vars: "declared_env env spec = Some vars" "env_map_ok vars (fst maps)" by (auto simp: collects_def)
    let ?it = "ad_iter env (fst maps)"
    have "mset (map fst ?it) = mset (map fst (fst maps))" by (simp add: assms)
    from mset_eq_imp_distinct_iff [OF this] mset_eq_setD [OF assms] have it: "distinct (map fst ?it)" "set ?it = set (fst maps)"
      using vars(2) by (simp_all add: env_map_ok_def)
    have "collectWorkspaceEnv env spec = Inr (map (\<lambda>(name, value). plain_env name value) ?it)"
      using r(2) Inr by (simp add: case_prod_beta)
    moreover have "map ev_Name (map (\<lambda>(name, value). plain_env name value) ?it) = map fst ?it"
      by (simp add: plain_env_def case_prod_beta)
    moreover have "(\<lambda>v. (ev_Name v, ev_Value v)) ` set (map (\<lambda>(name, value). plain_env name value) ?it) = set ?it"
      by (force simp: plain_env_def)
    ultimately show ?thesis using vars it env_map_ok_consistent [OF vars(2)]
      by (simp only: sum.case) (auto simp only: env_map_ok_def option.inject)
  qed
qed

text \<open>The value of a variable in a container: the last of several entries with its name counts.\<close>

definition container_value :: "'q Container \<Rightarrow> string \<Rightarrow> string option" where
  "container_value c name = map_of (rev (map (\<lambda>v. (ev_Name v, ev_Value v)) (case_option [] (\<lambda>vs. vs) (c_Env c)))) name"

lemma container_value_with_env:
  assumes "distinct (map ev_Name own)" "(name, value) \<in> (\<lambda>v. (ev_Name v, ev_Value v)) ` set own"
  shows "container_value (with_env (common @ own) c) name = Some value"
proof -
  have "distinct (map fst (rev (map (\<lambda>v. (ev_Name v, ev_Value v)) own)))"
    using assms(1) by (simp add: comp_def flip: rev_map)
  moreover have "(name, value) \<in> set (rev (map (\<lambda>v. (ev_Name v, ev_Value v)) own))" using assms(2) by auto
  ultimately have "map_of (rev (map (\<lambda>v. (ev_Name v, ev_Value v)) own)) name = Some value" by (rule map_of_is_SomeI)
  then show ?thesis by (simp add: container_value_def with_env_def)
qed

text \<open>
  (C28) The variables that a devfile declares for all containers, in its attributes and those of its components, are added to the pod exactly if every such attribute can be read and no two
  declarations give a variable different values, wherever they are. Then every container and every init container, which keep their own variables and their other fields, gets the common
  variables of the operator and after them each declared variable once, so that there its value is the declared one, and no others. The configuration has a routing section, without which the common variables
  cannot be made, and a map is visited in any order.
\<close>

theorem workspace_env_exact:
  assumes "\<And>m. mset (ad_iter env m) = mset m" "commonEnvironmentVariables env w = Ok common"
  shows "case AddCommonEnvironmentVariables env pa w spec of
      Panic \<Rightarrow> False
    | Err _ \<Rightarrow> \<not> (\<exists>vars. declared_env env spec = Some vars \<and> consistent vars)
    | Ok pa' \<Rightarrow> \<exists>vars own. declared_env env spec = Some vars \<and> consistent vars \<and>
        distinct (map ev_Name own) \<and> (\<lambda>v. (ev_Name v, ev_Value v)) ` set own = assigned vars \<and>
        pa_Containers pa' = map (\<lambda>c. c\<lparr>c_Env := Some (case_option [] (\<lambda>vs. vs) (c_Env c) @ common @ own)\<rparr>) (pa_Containers pa) \<and>
        pa_InitContainers pa' = map (\<lambda>c. c\<lparr>c_Env := Some (case_option [] (\<lambda>vs. vs) (c_Env c) @ common @ own)\<rparr>) (pa_InitContainers pa) \<and>
        (\<forall>c \<in> set (pa_Containers pa' @ pa_InitContainers pa'). \<forall>(name, value) \<in> assigned vars. container_value c name = Some value)"
proof (cases "collectWorkspaceEnv env spec")
  case (Inl e)
  with collected_env [OF assms(1), of spec] assms(2) show ?thesis by (simp add: AddCommonEnvironmentVariables_def of_sum_def)
next
  case (Inr own)
  with collected_env [OF assms(1), of spec] obtain vars where vars: "declared_env env spec = Some vars" "consistent vars"
    "distinct (map ev_Name own)" "(\<lambda>v. (ev_Name v, ev_Value v)) ` set own = assigned vars" by auto
  let ?pa = "pa\<lparr>pa_Containers := map (with_env (common @ own)) (pa_Containers pa), pa_InitContainers := map (with_env (common @ own)) (pa_InitContainers pa)\<rparr>"
  have "AddCommonEnvironmentVariables env pa w spec = Ok ?pa"
    using Inr assms(2) by (simp add: AddCommonEnvironmentVariables_def of_sum_def)
  moreover have "\<forall>c \<in> set (pa_Containers ?pa @ pa_InitContainers ?pa). \<forall>(name, value) \<in> assigned vars. container_value c name = Some value"
    using container_value_with_env [OF vars(3)] vars(4) by auto
  ultimately show ?thesis using vars by (auto simp: with_env_def intro!: exI [of _ vars] exI [of _ own])
qed

section \<open>The home directory\<close>

definition home_mounts :: "DevfileComponent \<Rightarrow> DwVolumeMount list" where
  "home_mounts component = (case comp_Container component of None \<Rightarrow> [] | Some c \<Rightarrow> [m \<leftarrow> cc_VolumeMounts c. dvm_Path m = HomeUserDirectory])"

lemma home_mounts_none: "\<not> mounts_home c \<Longrightarrow> home_mounts c = []"
  by (auto simp: mounts_home_def home_mounts_def list_ex_iff filter_empty_conv split: option.splits)

lemma mount_home_container [simp]: "comp_Container (mount_home c) = None \<longleftrightarrow> comp_Container c = None"
  by (simp add: mount_home_def)

lemma home_mounts_mount: "home_mounts (mount_home c) = (if comp_Container c = None then [] else home_mounts c @ [homeVolumeMount])"
  by (auto simp: home_mounts_def mount_home_def homeVolumeMount_def)

lemma addInitContainer_components:
  assumes "addInitContainer env spec = Inr spec'"
  shows "\<exists>c. ts_Components spec' = ts_Components spec @ [c] \<and> \<not> mounts_home c \<and> comp_Name c = HomeInitComponentName \<and> comp_Container c \<noteq> None \<and>
    HomeInitEventId \<in> set (case ts_Events spec' of None \<Rightarrow> [] | Some e \<Rightarrow> events_PreStart e)"
proof -
  from assms obtain container where c: "inferInitContainer env spec = Some container"
    "ts_Components spec' = ts_Components spec @ [no_component\<lparr>comp_Name := HomeInitComponentName, comp_Container := Some container\<rparr>]"
    and events: "HomeInitEventId \<in> set (case ts_Events spec' of None \<Rightarrow> [] | Some e \<Rightarrow> events_PreStart e)"
    by (auto simp: addInitContainer_def addInitContainerComponent_def Let_def split: option.splits if_splits)
  from c(1) have "cc_VolumeMounts container = []"
    by (auto simp: inferInitContainer_def Let_def no_container_component_def split: if_splits)
  with c events show ?thesis by (simp add: mounts_home_def)
qed

text \<open>
  (C29) Where the operator decides that a workspace needs a persistent home and adds it, the result has the home volume, and every container component mounts it at the home
  directory exactly once and nothing else there: a workspace with a mount of its own at that path is left alone.
\<close>

theorem home_mounted_once:
  assumes "NeedsPersistentHomeDirectory env w = Ok True" "AddPersistentHomeVolume env w = Ok spec"
  shows "mount_home homeVolume \<in> set (ts_Components spec) \<and>
    (\<forall>c \<in> set (ts_Components spec). home_mounts c = (if comp_Container c = None then [] else [homeVolumeMount])) \<and>
    ad_validate env (ts_Components spec) = None"
proof -
  from assms(1) have none: "\<not> list_ex mounts_home (ts_Components (wwc_Template w))"
    by (auto simp: NeedsPersistentHomeDirectory_def go_bind_Ok_iff split: if_splits)
  from assms(2) obtain base where base: "ts_Components spec = map mount_home (ts_Components base @ [homeVolume])" "ad_validate env (ts_Components spec) = None"
    "base = wwc_Template w \<or> addInitContainer env (wwc_Template w) = Inr base"
    by (auto simp: AddPersistentHomeVolume_def go_bind_Ok_iff Let_def split: option.splits if_splits)
  have "\<not> mounts_home c" if "c \<in> set (ts_Components base @ [homeVolume])" for c
    using that base(3) none addInitContainer_components [of env "wwc_Template w" base]
    by (auto simp: list_ex_iff homeVolume_def mounts_home_def no_component_def)
  then have "home_mounts (mount_home c) = (if comp_Container (mount_home c) = None then [] else [homeVolumeMount])"
    if "c \<in> set (ts_Components base @ [homeVolume])" for c
    using that home_mounts_none by (simp add: home_mounts_mount)
  with base show ?thesis by auto
qed

section \<open>Init containers\<close>

definition named_containers :: "(string \<times> 'q Container) list \<Rightarrow> bool" where
  "named_containers m \<longleftrightarrow> (\<forall>n c. map_of m n = Some c \<longrightarrow> c_Name c = n)"

lemma named_containers_fold: "named_containers m \<Longrightarrow> named_containers (fold (\<lambda>c. AList.update (c_Name c) c) cs m)"
proof (induction cs arbitrary: m)
  case (Cons c cs)
  have "named_containers (AList.update (c_Name c) c m)"
    using Cons.prems by (auto simp: named_containers_def update_conv')
  with Cons.IH show ?case by simp
qed simp

lemma named_containers_lookup: "named_containers m \<Longrightarrow> map_of m n = Some c \<Longrightarrow> c_Name c = n"
  by (auto simp: named_containers_def)

lemma restore_base_names:
  "named_containers m \<Longrightarrow> map c_Name (fst (restore_base base m)) = map c_Name base \<and> named_containers (snd (restore_base base m))"
proof (induction base arbitrary: m)
  case (Cons b base)
  have "named_containers (AList.delete (c_Name b) m)" using Cons.prems by (auto simp: named_containers_def delete_conv' split: if_splits)
  with Cons show ?case by (cases "map_of m (c_Name b)") (auto dest: named_containers_lookup)
qed simp

text \<open>
  Whatever order the strategic merge returns, the init containers that the configuration adds come out in order: first those of the workspace, in their order,
  then the new ones in the order of the configuration. None is lost or duplicated.
\<close>

theorem init_containers_in_order:
  assumes "MergeInitContainers env base patches = Inr result"
  shows "map c_Name result = map c_Name base @ [n \<leftarrow> map c_Name patches. n \<notin> c_Name ` set base]"
proof (cases "patches = []")
  case False
  with assms obtain merged where "result = fst (restore_base base (fold (\<lambda>c. AList.update (c_Name c) c) merged [])) @
      map (\<lambda>p. case map_of (snd (restore_base base (fold (\<lambda>c. AList.update (c_Name c) c) merged []))) (c_Name p) of Some m \<Rightarrow> m | None \<Rightarrow> p)
        [p \<leftarrow> patches. c_Name p \<notin> c_Name ` set base]"
    by (auto simp: MergeInitContainers_def case_prod_beta split: sum.splits)
  moreover have "named_containers (fold (\<lambda>c. AList.update (c_Name c) c) merged [])" by (rule named_containers_fold) (simp add: named_containers_def)
  note restore_base_names [OF this, of base]
  moreover have "c_Name (case map_of m (c_Name p) of Some x \<Rightarrow> x | None \<Rightarrow> p) = c_Name p" if "named_containers m" for m and p :: "'a Container"
    using named_containers_lookup [OF that, of "c_Name p"] by (cases "map_of m (c_Name p)") auto
  ultimately show ?thesis by (simp add: filter_map comp_def)
qed (use assms in \<open>simp add: MergeInitContainers_def\<close>)

section \<open>Kubernetes components\<close>

lemma unrecognized_frame:
  assumes "keyed cl" "key \<noteq> obj_key_of spec" "SyncUnrecognizedObjectWithCluster env spec cl = Some (r, cl')"
  shows "cl' key = cl key"
proof (cases "client_Get env (obj_key_of spec) cl")
  case (Inl e)
  with assms show ?thesis
    by (auto simp: SyncUnrecognizedObjectWithCluster_def split: api_err.splits prod.splits dest: createObject_frame)
next
  case (Inr c)
  then have "cl (obj_key_of spec) = Some c" by (simp add: client_Get_Inr)
  with assms(1) have c: "obj_key_of c = obj_key_of spec" unfolding keyed_def by blast
  have "obj_key_of c' = obj_key_of spec" if "unrecognizedObjectUpdateFunc spec (Some c) = Ok c'" for c'
    using that c by (auto simp: unrecognizedObjectUpdateFunc_def obj_key_of_def split: option.splits)
  then have upd: "cl' key = cl key" if "unrecognizedObjectUpdateFunc spec (Some c) = Ok c'" "client_Update env c' cl = (e, cl')" for c' e cl'
    using that assms(2) by (auto simp: client_Update_def split: option.splits if_splits)
  have del: "cl' key = cl key" if "client_Delete env c cl = (e, cl')" for e cl'
    using that assms(2) c by (auto simp: client_Delete_def split: option.splits if_splits)
  from assms(3) Inr show ?thesis
    by (auto simp: SyncUnrecognizedObjectWithCluster_def Let_def split: prod.splits if_splits go_result.splits option.splits api_err.splits dest: upd del)
qed

lemma sync_component_Ok: "sync_component env w c cl = (DwOk u, cl') \<Longrightarrow> cl' = cl"
proof -
  assume ok: "sync_component env w c cl = (DwOk u, cl')"
  have "SyncUnrecognizedObjectWithCluster e obj cl \<noteq> Some (Inr x, cl'')" for e obj x cl''
    by (auto simp: SyncUnrecognizedObjectWithCluster_def Let_def split: sum.splits api_err.splits prod.splits if_splits go_result.splits option.splits)
  with ok show ?thesis
    by (auto simp: sync_component_def split: sum.splits option.splits if_splits prod.splits dest: SyncObject_Inr)
qed

lemma addMetadata_Inr:
  assumes "addMetadata env w obj = Inr obj'"
  shows "go_at (o_Labels obj') DevWorkspaceIDLabel = wwc_Id w"
  using assms
  by (auto simp: addMetadata_def map_sum_id_Inr go_at_def go_get_Some update_conv' metadata_keys DevWorkspaceWatchSecretLabel_def DevWorkspaceWatchConfigMapLabel_def)

text \<open>The client shows the object under the key: the cache holds it, and no call for it is answered as if it were absent.\<close>

definition visible_at :: "'q api_env \<Rightarrow> obj_key \<Rightarrow> 'q object \<Rightarrow> bool" where
  "visible_at env key obj \<longleftrightarrow> ae_cached env obj \<and> (\<forall>e. ae_fault env (GetCall key) \<noteq> Some (NotFound e))"

lemma foreign_refused:
  assumes "visible_at (ad_api env) key obj" "cl key = Some obj" "go_at (o_Labels obj) DevWorkspaceIDLabel \<noteq> wwc_Id w"
    "go_at (o_Labels spec) DevWorkspaceIDLabel = wwc_Id w" "obj_key_of spec = key"
  shows "\<exists>e. checkForExistingObject env spec cl = Some e"
  using assms by (auto simp: checkForExistingObject_def client_Get_def visible_at_def split: option.splits api_err.splits)

lemma sync_component_keeps:
  assumes "visible_at (ad_api env) key obj" "keyed cl" "cl key = Some obj" "go_at (o_Labels obj) DevWorkspaceIDLabel \<noteq> wwc_Id w"
    "sync_component env w c cl = (r, cl')"
  shows "cl' key = Some obj"
proof (cases "deserializeToObject env (case getK8sLikeComponent c of None \<Rightarrow> [] | Some k \<Rightarrow> k8_Inlined k)")
  case decoded: (Inr spec0)
  show ?thesis
  proof (cases "addMetadata env w spec0")
    case added: (Inr spec)
    show ?thesis
    proof (cases "checkForExistingObject env spec cl")
      case (Some e)
      with decoded added assms show ?thesis by (simp add: sync_component_def)
    next
      case None
      have other: "key \<noteq> obj_key_of spec"
        using None foreign_refused [of env key obj cl w spec, OF assms(1,3,4) addMetadata_Inr [OF added]] by fastforce
      have "cl'' key = cl key" if "SyncObjectWithCluster (ad_api env) spec cl = (x, cl'')" for x cl''
        using sync_frame [OF other, of "ad_api env" cl] that by simp
      with decoded added None assms other show ?thesis
        by (auto simp: sync_component_def split: if_splits option.splits prod.splits sum.splits dest: unrecognized_frame [OF assms(2) other])
    qed
  qed (use decoded assms in \<open>simp add: sync_component_def\<close>)
qed (use assms in \<open>simp add: sync_component_def\<close>)

lemma sync_components_last:
  assumes "\<And>c r cl'. sync_component env w c cl = (r, cl') \<Longrightarrow> P cl'" "P cl"
  shows "P (snd (sync_components env w components cl))"
proof (induction components)
  case (Cons c components)
  obtain r cl' where one: "sync_component env w c cl = (r, cl')" by fastforce
  show ?case
  proof (cases r)
    case (DwOk u)
    with one sync_component_Ok have "cl' = cl" by blast
    with Cons one DwOk show ?thesis by simp
  qed (use assms(1) [OF one] one in simp_all)
qed (use assms(2) in simp)

lemma sync_components_refused:
  assumes "sync_component env w component cl = (DwErr e, cl)"
  shows "sync_components env w (before @ component # after) cl =
    (case sync_components env w before cl of (DwOk _, _) \<Rightarrow> (DwErr e, cl) | stopped \<Rightarrow> stopped)"
proof (induction before)
  case (Cons c before)
  obtain r cl' where one: "sync_component env w c cl = (r, cl')" by fastforce
  show ?case
  proof (cases r)
    case (DwOk u)
    with one sync_component_Ok have "cl' = cl" by blast
    with Cons one DwOk show ?thesis by simp
  qed (use one in simp_all)
qed (use assms in simp)

text \<open>
  (C30) The Kubernetes components of a workspace never change an object of the cluster that the client shows and that does not carry the identifier of the
  workspace: whatever the components contain, the object is left as it is. A component that asks for an object under its key ends the loop with
  a failure, before anything is written for it, unless an earlier component has ended the loop.
\<close>

theorem foreign_objects_kept:
  assumes "visible_at (ad_api env) key obj" "keyed cl" "cl key = Some obj" "go_at (o_Labels obj) DevWorkspaceIDLabel \<noteq> wwc_Id w"
  shows "snd (HandleKubernetesComponents env w cl) key = Some obj \<and>
    (filterForKubeLikeComponents (ts_Components (wwc_Template w)) = (before @ component # after, warnings) \<and>
     deserializeToObject env (case getK8sLikeComponent component of None \<Rightarrow> [] | Some k \<Rightarrow> k8_Inlined k) = Inr decoded \<and>
     addMetadata env w decoded = Inr spec \<and> obj_key_of spec = key \<longrightarrow>
       (\<exists>e. HandleKubernetesComponents env w cl =
          (case sync_components env w before cl of (DwOk _, _) \<Rightarrow> (DwErr (FailError e), cl) | stopped \<Rightarrow> stopped)))"
proof (intro conjI impI)
  obtain kube warnings where f: "filterForKubeLikeComponents (ts_Components (wwc_Template w)) = (kube, warnings)" by fastforce
  have "snd (sync_components env w kube cl) key = Some obj"
    using sync_component_keeps [OF assms] assms(3) by (rule sync_components_last [where P = "\<lambda>cl. cl key = Some obj"])
  then show "snd (HandleKubernetesComponents env w cl) key = Some obj"
    by (auto simp: HandleKubernetesComponents_def f split: prod.splits dw_result.splits)
next
  assume c: "filterForKubeLikeComponents (ts_Components (wwc_Template w)) = (before @ component # after, warnings) \<and>
     deserializeToObject env (case getK8sLikeComponent component of None \<Rightarrow> [] | Some k \<Rightarrow> k8_Inlined k) = Inr decoded \<and>
     addMetadata env w decoded = Inr spec \<and> obj_key_of spec = key"
  then obtain e where "checkForExistingObject env spec cl = Some e"
    using foreign_refused [of env key obj cl w spec, OF assms(1,3,4) addMetadata_Inr [of env w decoded spec]] by blast
  with c have "\<exists>e. sync_component env w component cl = (DwErr (FailError e), cl)" by (simp add: sync_component_def)
  then obtain e where "sync_component env w component cl = (DwErr (FailError e), cl)" by blast
  from sync_components_refused [OF this, of before "after"] c
  show "\<exists>e. HandleKubernetesComponents env w cl =
      (case sync_components env w before cl of (DwOk _, _) \<Rightarrow> (DwErr (FailError e), cl) | stopped \<Rightarrow> stopped)"
    by (auto simp: HandleKubernetesComponents_def split: prod.split dw_result.split)
qed

text \<open>
  The proviso matters: the client is a cache of labelled objects. An object that the cache does not hold, such as a config map without the operator's label, passes for
  absent, the creation then fails because it exists, and the object is overwritten with the content of the component, whoever owns it.
\<close>

theorem hidden_object_overwritten:
  assumes "ts_Components (wwc_Template w) = [component]" "getK8sLikeComponent component = Some \<lparr>k8_Uri = [], k8_Inlined = inlined, k8_DeployByDefault = True\<rparr>" "inlined \<noteq> []"
    "deserializeToObject env inlined = Inr spec0" "addMetadata env w spec0 = Inr spec" "kind_of (o_Content spec) = ConfigMapObj" "o_ResourceVersion spec = []"
    "\<And>call. ae_fault (ad_api env) call = None" "cl (obj_key_of spec) = Some old" "\<not> ae_cached (ad_api env) old"
  shows "snd (HandleKubernetesComponents env w cl) (obj_key_of spec) = Some (ae_store (ad_api env) (Some old) spec)"
proof -
  have f: "filterForKubeLikeComponents (ts_Components (wwc_Template w)) = ([component], [])" using assms(1-3) by simp
  have get: "client_Get (ad_api env) (obj_key_of spec) cl = Inl (NotFound ''not found'')" using assms(8-10) by (simp add: client_Get_def)
  then have "checkForExistingObject env spec cl = None" by (simp add: checkForExistingObject_def)
  moreover have "IsRecognizedObject (ad_api env) spec" using assms(6) by (simp add: IsRecognizedObject_def)
  moreover have "SyncObjectWithCluster (ad_api env) spec cl =
      (Inl (NotInSyncError UpdatedObjectReason spec), cl(obj_key_of spec \<mapsto> ae_store (ad_api env) (Some old) spec))"
    using assms(6-9) get by (simp add: SyncObjectWithCluster_def createObjectGeneric_def client_Create_def updateObjectGeneric_def getUpdateFunc_def
        defaultUpdateFunc_def client_Update_def update_outcome_def)
  ultimately show ?thesis using assms(2,4,5) by (simp add: HandleKubernetesComponents_def f sync_component_def)
qed

text \<open>
  Components after one of an unrecognised kind are never created: once that object is on the cluster as wanted, its synchronisation gives a warning, which ends the loop
  as an error would, while the workspace starts. What the other components contain does not matter.
\<close>

theorem unrecognized_component_blocks_rest:
  assumes "filterForKubeLikeComponents (ts_Components (wwc_Template w)) = (component # components, warnings)"
    "deserializeToObject env (case getK8sLikeComponent component of None \<Rightarrow> [] | Some k \<Rightarrow> k8_Inlined k) = Inr spec0" "addMetadata env w spec0 = Inr spec"
    "\<not> IsRecognizedObject (ad_api env) spec" "checkForExistingObject env spec cl = None"
    "client_Get (ad_api env) (obj_key_of spec) cl = Inr clusterObj" "metadata_applied spec clusterObj"
  shows "\<exists>message. HandleKubernetesComponents env w cl = (DwErr (WarningError message), cl)"
proof -
  have "unrecognizedObjectDiffFunc spec clusterObj = (False, False)"
    using assms(7) by (simp add: unrecognizedObjectDiffFunc_def metadataDiffFunc_iff)
  with assms show ?thesis
    by (simp add: HandleKubernetesComponents_def sync_component_def SyncUnrecognizedObjectWithCluster_def)
qed

section \<open>Witnesses\<close>

definition gadget :: "int object" where
  "gadget = rbac_object ''gadget'' [] None (UnrecognizedContent ''Gadget.example.com'' (Opaque []))"

definition settings :: "string \<Rightarrow> int object" where
  "settings v = rbac_object ''settings'' [] None (ConfigMapContent (Some [(''k'', v)]))"

definition reader :: "int flatten_lib" where
  "reader = \<lparr>fl_parse = (\<lambda>_. Inr 1), fl_qstring = format_int, fl_getString = (\<lambda>_ _. Inl []), fl_getBoolean = (\<lambda>_ _. Inl []), fl_encode = (\<lambda>s. s),
     fl_toOverride = (\<lambda>_. Inl []), fl_override = (\<lambda>s _. Inr s), fl_merge = (\<lambda>m _ _. Inr m),
     fl_variables = (\<lambda>s. (s, \<lparr>vw_Commands = None, vw_Components = None, vw_Projects = None, vw_StarterProjects = None\<rparr>)),
     fl_parseURL = (\<lambda>_. Inl []), fl_devfile = (\<lambda>_. Inl []), fl_devworkspace = (\<lambda>_. Inl []), fl_template = (\<lambda>_. Inl [])\<rparr>"

definition env_on :: "int api_env \<Rightarrow> int additions_env" where
  "env_on api = \<lparr>ad_flatten = reader, ad_library = sample_library, ad_storage = some_storage\<lparr>se_api := api\<rparr>,
     ad_readEnv = (\<lambda>_ _. Inr [\<lparr>dev_Name = ''A'', dev_Value = ''1''\<rparr>]), ad_iter = (\<lambda>m. m), ad_kubernetesServiceHost = [], ad_validate = (\<lambda>_. None),
     ad_merge = (\<lambda>base patches. Inr (patches @ base)),
     ad_decode = Some (\<lambda>text. Inr (if text = ''gadget'' then (''Gadget'', Some gadget) else (''ConfigMap'', Some (settings text)))),
     ad_backupImage = [], ad_operatorNamespace = Inr []\<rparr>"

definition kube_component :: "string \<Rightarrow> DevfileComponent" where
  "kube_component text = no_component\<lparr>comp_Name := text, comp_Kubernetes := Some \<lparr>k8_Uri = [], k8_Inlined = text, k8_DeployByDefault = True\<rparr>\<rparr>"

definition workspace_with :: "DevfileComponent list \<Rightarrow> int WorkspaceWithConfig" where
  "workspace_with components = stored_workspace\<lparr>wwc_Template := sample_devfile\<lparr>ts_Components := components\<rparr>,
     wwc_Workspace := zero_WorkspaceConfig\<lparr>wc_PersistUserHome := Some \<lparr>ph_Enabled = Some True, ph_DisableInitContainer = Some True\<rparr>\<rparr>\<rparr>"

definition in_namespace :: "int object \<Rightarrow> int object" where
  "in_namespace obj = obj\<lparr>o_Namespace := ''ns''\<rparr>"

abbreviation settings_key :: obj_key where
  "settings_key \<equiv> (ConfigMapObj, ''ns'', ''settings'')"

lemma settings_keyed: "keyed (Map.empty(settings_key \<mapsto> in_namespace (settings v)))"
  by (auto simp: keyed_def obj_key_of_def in_namespace_def settings_def rbac_object_def split: if_splits)

definition completed :: "int object \<Rightarrow> int object" where
  "completed obj = (case addMetadata (env_on plain_server) (workspace_with []) obj of Inr x \<Rightarrow> x | Inl _ \<Rightarrow> obj)"

lemma completed_Inr: "addMetadata (env_on api) (workspace_with components) obj = Inr (completed obj)"
  by (simp add: completed_def addMetadata_def SetOwnerReference_def env_on_def some_storage_def workspace_with_def stored_workspace_def owner_of_def)

theorem foreign_objects_kept_witness:
  "\<exists>e. HandleKubernetesComponents (env_on plain_server) (workspace_with [kube_component ''new'']) (Map.empty(settings_key \<mapsto> in_namespace (settings ''theirs''))) =
     (DwErr (FailError e), Map.empty(settings_key \<mapsto> in_namespace (settings ''theirs'')))"
proof -
  let ?w = "workspace_with [kube_component ''new'']" and ?theirs = "in_namespace (settings ''theirs'')"
  have "visible_at (ad_api (env_on plain_server)) settings_key ?theirs"
    by (simp add: visible_at_def env_on_def plain_server_def)
  moreover have "go_at (o_Labels ?theirs) DevWorkspaceIDLabel \<noteq> wwc_Id ?w"
    by (simp add: in_namespace_def settings_def rbac_object_def workspace_with_def stored_workspace_def go_at_def)
  moreover have "filterForKubeLikeComponents (ts_Components (wwc_Template ?w)) = ([] @ kube_component ''new'' # [], [])" by code_simp
  moreover have "deserializeToObject (env_on plain_server) (case getK8sLikeComponent (kube_component ''new'') of None \<Rightarrow> [] | Some k \<Rightarrow> k8_Inlined k) = Inr (settings ''new'')"
    by (simp add: deserializeToObject_def env_on_def getK8sLikeComponent_def kube_component_def)
  moreover have "obj_key_of (completed (settings ''new'')) = settings_key" by code_simp
  ultimately show ?thesis
    using foreign_objects_kept [OF _ settings_keyed, of "env_on plain_server" settings_key ?theirs "''theirs''" ?w "[]" "kube_component ''new''" "[]" "[]"
      "settings ''new''" "completed (settings ''new'')"] completed_Inr [of plain_server "[kube_component ''new'']" "settings ''new''"]
    by simp
qed

theorem hidden_object_overwritten_witness:
  "snd (HandleKubernetesComponents (env_on (plain_server\<lparr>ae_cached := (\<lambda>_. False)\<rparr>)) (workspace_with [kube_component ''new''])
     (Map.empty(settings_key \<mapsto> in_namespace (settings ''theirs'')))) settings_key = Some (completed (settings ''new''))"
proof -
  have key: "obj_key_of (completed (settings ''new'')) = settings_key" by code_simp
  have "snd (HandleKubernetesComponents (env_on (plain_server\<lparr>ae_cached := (\<lambda>_. False)\<rparr>)) (workspace_with [kube_component ''new''])
     (Map.empty(settings_key \<mapsto> in_namespace (settings ''theirs'')))) (obj_key_of (completed (settings ''new''))) =
     Some (ae_store (ad_api (env_on (plain_server\<lparr>ae_cached := (\<lambda>_. False)\<rparr>))) (Some (in_namespace (settings ''theirs''))) (completed (settings ''new'')))"
    by (rule hidden_object_overwritten [OF _ _ _ _ completed_Inr, where component = "kube_component ''new''" and inlined = "''new''"])
      (code_simp | simp add: key | simp add: env_on_def plain_server_def workspace_with_def)+
  then show ?thesis by (simp add: key env_on_def plain_server_def)
qed

theorem unrecognized_component_blocks_rest_witness:
  "\<exists>message. HandleKubernetesComponents (env_on plain_server) (workspace_with [kube_component ''gadget'', kube_component ''new''])
     (Map.empty(obj_key_of (completed gadget) \<mapsto> completed gadget)) = (DwErr (WarningError message), Map.empty(obj_key_of (completed gadget) \<mapsto> completed gadget))"
proof (rule unrecognized_component_blocks_rest [OF _ _ completed_Inr])
  show "filterForKubeLikeComponents (ts_Components (wwc_Template (workspace_with [kube_component ''gadget'', kube_component ''new'']))) =
    (kube_component ''gadget'' # [kube_component ''new''], [])" by code_simp
  show "deserializeToObject (env_on plain_server) (case getK8sLikeComponent (kube_component ''gadget'') of None \<Rightarrow> [] | Some k \<Rightarrow> k8_Inlined k) = Inr gadget"
    by (simp add: deserializeToObject_def env_on_def getK8sLikeComponent_def kube_component_def)
  show get: "client_Get (ad_api (env_on plain_server)) (obj_key_of (completed gadget)) (Map.empty(obj_key_of (completed gadget) \<mapsto> completed gadget)) = Inr (completed gadget)"
    by (simp add: client_Get_Inr env_on_def plain_server_def)
  show "\<not> IsRecognizedObject (ad_api (env_on plain_server)) (completed gadget)" by code_simp
  show "checkForExistingObject (env_on plain_server) (completed gadget) (Map.empty(obj_key_of (completed gadget) \<mapsto> completed gadget)) = None"
    unfolding checkForExistingObject_def get by (auto simp: checkOwnerrefs_def list_all_iff list_ex_iff)
  show "metadata_applied (completed gadget) (completed gadget)" by code_simp
qed

theorem home_mounted_once_witness:
  "case AddPersistentHomeVolume (env_on plain_server) (workspace_with [sample_component ''ide'']) of
     Ok spec \<Rightarrow> home_mounts (hd (ts_Components spec)) = [homeVolumeMount] | _ \<Rightarrow> False"
proof -
  obtain spec where ok: "AddPersistentHomeVolume (env_on plain_server) (workspace_with [sample_component ''ide'']) = Ok spec"
    by (simp add: AddPersistentHomeVolume_def workspace_with_def of_option_def env_on_def)
  have needs: "NeedsPersistentHomeDirectory (env_on plain_server) (workspace_with [sample_component ''ide'']) = Ok True" by code_simp
  have hd: "hd (ts_Components spec) = mount_home (sample_component ''ide'')" "ts_Components spec \<noteq> []"
    using ok by (auto simp: AddPersistentHomeVolume_def workspace_with_def of_option_def env_on_def)
  from hd(2) have "hd (ts_Components spec) \<in> set (ts_Components spec)" by simp
  with home_mounted_once [OF needs ok] have "home_mounts (hd (ts_Components spec)) = (if comp_Container (hd (ts_Components spec)) = None then [] else [homeVolumeMount])"
    by blast
  with ok hd show ?thesis by (simp add: sample_component_def)
qed

theorem init_containers_in_order_witness:
  "case MergeInitContainers (env_on plain_server) [empty_container\<lparr>c_Name := ''b''\<rparr>, empty_container\<lparr>c_Name := ''a''\<rparr>] [empty_container\<lparr>c_Name := ''c''\<rparr>, empty_container\<lparr>c_Name := ''a''\<rparr>] of
     Inr result \<Rightarrow> map c_Name result = [''b'', ''a'', ''c''] | Inl _ \<Rightarrow> False"
proof -
  obtain result where ok: "MergeInitContainers (env_on plain_server) [empty_container\<lparr>c_Name := ''b''\<rparr>, empty_container\<lparr>c_Name := ''a''\<rparr>]
      [empty_container\<lparr>c_Name := ''c''\<rparr>, empty_container\<lparr>c_Name := ''a''\<rparr>] = Inr result"
    by (simp add: MergeInitContainers_def env_on_def case_prod_beta)
  from init_containers_in_order [OF this] ok show ?thesis by simp
qed

definition routed_workspace :: "int WorkspaceWithConfig" where
  "routed_workspace = (workspace_with [])\<lparr>wwc_Config := zero_OperatorConfiguration\<lparr>oc_Routing := Some zero_RoutingConfig\<rparr>\<rparr>"

theorem workspace_env_exact_witness:
  "case AddCommonEnvironmentVariables (env_on plain_server) (container_additions [] [empty_container]) routed_workspace
       (sample_devfile\<lparr>ts_Attributes := [(WorkspaceEnvAttribute, [])]\<rparr>) of
     Ok pa \<Rightarrow> map (\<lambda>c. container_value c ''A'') (pa_InitContainers pa) = [Some ''1''] | _ \<Rightarrow> False"
proof -
  let ?spec = "sample_devfile\<lparr>ts_Attributes := [(WorkspaceEnvAttribute, [])]\<rparr>" and ?w = routed_workspace and ?pa = "container_additions [] [empty_container]"
  have declared: "declared_env (env_on plain_server) ?spec = Some [\<lparr>dev_Name = ''A'', dev_Value = ''1''\<rparr>]" by code_simp
  have iter: "\<And>m. mset (ad_iter (env_on plain_server) m) = mset m" by (simp add: env_on_def)
  obtain common where "commonEnvironmentVariables (env_on plain_server) ?w = Ok common"
    by (simp add: commonEnvironmentVariables_def routed_workspace_def of_option_def)
  from workspace_env_exact [OF iter this, where pa = ?pa and spec = ?spec] declared show ?thesis
    by (auto simp: consistent_def assigned_def split: go_result.splits)
qed

end
