(* ===== verification/Async_Storage.thy ===== *)
theory Async_Storage
  imports Storage_Mounts
begin

text \<open>
  Asynchronous storage (\<^verbatim>\<open>src/pkg/provision/storage/asyncStorage.go\<close>, \<^verbatim>\<open>src/pkg/provision/storage/asyncstorage\<close>): the pod of a workspace has only
  ephemeral volumes, which a sidecar copies through ssh to a server in the namespace that keeps the claim. Every workspace has a secret with its private key; the public
  keys are in one config map, a line each.

  Parameters are the images, the platform, the list of workspaces with the type of their storage and whether they are started, and the key functions:
  a new pair of keys, and the public key of a private one as a line of \<^verbatim>\<open>authorized_keys\<close>.
\<close>

record 'q async_env =
  as_storage :: "'q storage_env"
  as_serverImage :: string
  as_sidecarImage :: string
  as_openshift :: bool
  as_workspaces :: "err + (string \<times> bool) list"  \<comment> \<open>storage type, and whether started\<close>
  as_keyPair :: "err + string \<times> string"  \<comment> \<open>public and private\<close>
  as_publicKey :: "string \<Rightarrow> err + string"

abbreviation as_api :: "'q async_env \<Rightarrow> 'q api_env" where
  "as_api env \<equiv> se_api (as_storage env)"

section \<open>Constants\<close>

definition rsyncPort :: int where "rsyncPort = 2222"
definition asyncServerServiceName :: string where "asyncServerServiceName = ''async-storage''"
definition asyncServerDeploymentName :: string where "asyncServerDeploymentName = ''async-storage''"
definition asyncSecretVolumeName :: string where "asyncSecretVolumeName = ''async-storage-ssh''"
definition asyncSidecarContainerName :: string where "asyncSidecarContainerName = ''async-storage-sidecar''"
definition asyncStorageFinalizer :: string where "asyncStorageFinalizer = ''controller.devfile.io/async-storage''"
definition sshAuthorizedKeysConfigMapName :: string where "sshAuthorizedKeysConfigMapName = ''async-storage-config''"
definition authorizedKeysFilename :: string where "authorizedKeysFilename = ''authorized_keys''"
definition rsyncSSHKeyFilename :: string where "rsyncSSHKeyFilename = ''rsync-via-ssh''"

definition asyncServerLabels :: "(string, string) gomap" where
  "asyncServerLabels = Some [(''app.kubernetes.io/name'', ''async-storage''), (''app.kubernetes.io/part-of'', ''devworkspace-operator''),
     (''controller.devfile.io/devworkspace_id'', [])]"

definition checkConfigured :: "'q async_env \<Rightarrow> err option" where
  "checkConfigured env =
     (if as_serverImage env = [] then Some ''asynchronous storage server image is not configured''
      else if as_sidecarImage env = [] then Some ''asynchronous storage sidecar image is not configured''
      else None)"

definition memory_only :: "'q async_env \<Rightarrow> string \<Rightarrow> string \<Rightarrow> 'q ResourceRequirements" where
  "memory_only env lim req =
     \<lparr>rr_Limits = Some [(ResourceMemory, se_mustParse (as_storage env) lim)], rr_Requests = Some [(ResourceMemory, se_mustParse (as_storage env) req)], rr_Claims = []\<rparr>"

definition async_object :: "string \<Rightarrow> string \<Rightarrow> (string, string) gomap \<Rightarrow> 'q content \<Rightarrow> 'q object" where
  "async_object name namespace labels content =
     \<lparr>o_Name = name, o_Namespace = namespace, o_Labels = labels, o_Annotations = None, o_OwnerReferences = [], o_UID = [], o_ResourceVersion = [],
      o_Terminating = False, o_Finalizers = [], o_Content = content\<rparr>"

section \<open>Authorized keys\<close>

definition newline :: char where "newline = CHR 0x0A"

definition TrimRight :: "char \<Rightarrow> string \<Rightarrow> string" where
  "TrimRight c s = rev (dropWhile (\<lambda>x. x = c) (rev s))"

definition config_data :: "'q object \<Rightarrow> (string, string) gomap" where
  "config_data cm = (case o_Content cm of ConfigMapContent data \<Rightarrow> data | _ \<Rightarrow> None)"

definition with_keys :: "'q object \<Rightarrow> string \<Rightarrow> 'q object" where
  "with_keys cm keys = cm\<lparr>o_Content := ConfigMapContent (map_option (AList.update authorizedKeysFilename keys) (config_data cm))\<rparr>"

definition no_keys_error :: "'q object \<Rightarrow> err" where
  "no_keys_error cm = ''could not find authorized_keys in configmap '' @ o_Name cm"

definition addAuthorizedKeyToConfigMap :: "'q object \<Rightarrow> string \<Rightarrow> err + bool \<times> 'q object" where
  "addAuthorizedKeyToConfigMap configmap authorizedKey =
     (case go_get (config_data configmap) authorizedKeysFilename of
        None \<Rightarrow> Inl (no_keys_error configmap)
      | Some authorizedKeys \<Rightarrow>
          if list_ex (\<lambda>key. key = TrimRight newline authorizedKey) (strings_split newline authorizedKeys) then Inr (False, configmap)
          else Inr (True, with_keys configmap (authorizedKeys @ authorizedKey)))"

definition removeAuthorizedKeyFromConfigMap :: "'q object \<Rightarrow> string \<Rightarrow> err + bool \<times> 'q object" where
  "removeAuthorizedKeyFromConfigMap configmap authorizedKey =
     (case go_get (config_data configmap) authorizedKeysFilename of
        None \<Rightarrow> Inl (no_keys_error configmap)
      | Some authorizedKeys \<Rightarrow>
          let keys = strings_split newline authorizedKeys; newKeys = [key \<leftarrow> keys. key \<noteq> TrimRight newline authorizedKey] in
          if list_ex (\<lambda>key. key = TrimRight newline authorizedKey) keys then Inr (True, with_keys configmap (strings_join [newline] newKeys))
          else Inr (False, configmap))"

definition getSSHAuthorizedKeysConfigMapSpec :: "string \<Rightarrow> string \<Rightarrow> 'q object" where
  "getSSHAuthorizedKeysConfigMapSpec namespace authorizedKeys = async_object sshAuthorizedKeysConfigMapName namespace
     (Some [(''app.kubernetes.io/name'', ''async-storage''), (''app.kubernetes.io/part-of'', ''devworkspace-operator''), (''controller.devfile.io/watch-configmap'', ''true'')])
     (ConfigMapContent (Some [(authorizedKeysFilename, authorizedKeys)]))"

definition getSSHAuthorizedKeysConfigMapCluster :: "'q async_env \<Rightarrow> string \<Rightarrow> 'q objects \<Rightarrow> api_err + 'q object" where
  "getSSHAuthorizedKeysConfigMapCluster env namespace cl = client_Get (as_api env) (ConfigMapObj, namespace, sshAuthorizedKeysConfigMapName) cl"

section \<open>Keys of a workspace\<close>

definition GetSSHSidecarSecretName :: "string \<Rightarrow> string" where
  "GetSSHSidecarSecretName workspaceId = workspaceId @ ''-asyncsshkey''"

definition getSSHSidecarSecretSpec :: "'q WorkspaceWithConfig \<Rightarrow> string \<Rightarrow> 'q object" where
  "getSSHSidecarSecretSpec w privateKey =
     (async_object (GetSSHSidecarSecretName (wwc_Id w)) (wwc_Namespace w)
        (Some [(''app.kubernetes.io/name'', ''async-storage''), (''app.kubernetes.io/part-of'', ''devworkspace-operator''), (''controller.devfile.io/watch-secret'', ''true'')])
        (SecretContent (Some [(rsyncSSHKeyFilename, privateKey)])))\<lparr>o_Finalizers := [asyncStorageFinalizer]\<rparr>"

definition getSSHSidecarSecretCluster :: "'q async_env \<Rightarrow> 'q WorkspaceWithConfig \<Rightarrow> 'q objects \<Rightarrow> api_err + 'q object" where
  "getSSHSidecarSecretCluster env w cl = client_Get (as_api env) (SecretObj, wwc_Namespace w, GetSSHSidecarSecretName (wwc_Id w)) cl"

definition ExtractSSHKeyPairFromSecret :: "'q async_env \<Rightarrow> 'q object \<Rightarrow> err + string" where
  "ExtractSSHKeyPairFromSecret env secret =
     (case go_get (case o_Content secret of SecretContent data \<Rightarrow> data | _ \<Rightarrow> None) rsyncSSHKeyFilename of
        None \<Rightarrow> Inl (''could not find async storage SSH key in secret '' @ o_Name secret)
      | Some privateKey \<Rightarrow> as_publicKey env privateKey)"

text \<open>The result of a function that may also report that a component is not ready.\<close>

datatype 'a async_result = AsyncOk 'a | NotReady | AsyncErr "unit sync_err"

definition api_failed :: "api_err \<Rightarrow> 'a async_result" where
  "api_failed e = AsyncErr (ApiError e)"

definition plain_failed :: "err \<Rightarrow> 'a async_result" where
  "plain_failed e = AsyncErr (ApiError (OtherApiErr e))"

definition GetOrCreateSSHConfig :: "'q async_env \<Rightarrow> 'q WorkspaceWithConfig \<Rightarrow> 'q objects \<Rightarrow> ('q object \<times> 'q object) async_result \<times> 'q objects" where
  "GetOrCreateSSHConfig env w cl =
     (case getSSHSidecarSecretCluster env w cl of
        Inl (NotFound _) \<Rightarrow>
          (case as_keyPair env of
             Inl e \<Rightarrow> (plain_failed e, cl)
           | Inr (pubKey, privateKey) \<Rightarrow>
          (case SetControllerReference (as_storage env) w (getSSHSidecarSecretSpec w privateKey) of
             Inl e \<Rightarrow> (plain_failed e, cl)
           | Inr specSecret \<Rightarrow>
          (case client_Create (as_api env) specSecret cl of
             (None, cl') \<Rightarrow> (NotReady, cl')
           | (Some (AlreadyExists _), cl') \<Rightarrow> (NotReady, cl')
           | (Some e, cl') \<Rightarrow> (api_failed e, cl'))))
      | Inl e \<Rightarrow> (api_failed e, cl)
      | Inr clusterSecret \<Rightarrow>
     (case ExtractSSHKeyPairFromSecret env clusterSecret of
        Inl e \<Rightarrow> (plain_failed e, cl)
      | Inr pubKey \<Rightarrow>
     (case getSSHAuthorizedKeysConfigMapCluster env (wwc_Namespace w) cl of
        Inl (NotFound _) \<Rightarrow>
          (case client_Create (as_api env) (getSSHAuthorizedKeysConfigMapSpec (wwc_Namespace w) pubKey) cl of
             (None, cl') \<Rightarrow> (NotReady, cl')
           | (Some (AlreadyExists _), cl') \<Rightarrow> (NotReady, cl')
           | (Some e, cl') \<Rightarrow> (api_failed e, cl'))
      | Inl e \<Rightarrow> (api_failed e, cl)
      | Inr clusterConfigMap \<Rightarrow>
     (case addAuthorizedKeyToConfigMap clusterConfigMap pubKey of
        Inl e \<Rightarrow> (plain_failed e, cl)
      | Inr (False, _) \<Rightarrow> (AsyncOk (clusterSecret, clusterConfigMap), cl)
      | Inr (True, changed) \<Rightarrow>
          (case client_Update (as_api env) changed cl of
             (None, cl') \<Rightarrow> (NotReady, cl')
           | (Some (Conflict _), cl') \<Rightarrow> (NotReady, cl')
           | (Some e, cl') \<Rightarrow> (api_failed e, cl'))))))"

section \<open>The server\<close>

definition async_volumes :: "string \<Rightarrow> string \<Rightarrow> 'q Volume list" where
  "async_volumes pvcName configMapName =
     [volume_of ''async-storage-data'' PersistentVolumeClaim (ClaimData pvcName False),
      volume_of ''async-storage-config'' ConfigMap (ConfigMapData configMapName [] (Some 416) None)]"

definition async_server_container :: "'q async_env \<Rightarrow> 'q Container" where
  "async_server_container env =
     empty_container\<lparr>c_Name := ''async-storage-server'', c_Image := as_serverImage env,
       c_Ports := Some [\<lparr>cp_Name = [], cp_ContainerPort = rsyncPort, cp_Protocol = ''TCP''\<rparr>],
       c_Resources := memory_only env ''512Mi'' ''256Mi'',
       c_VolumeMounts := [plain_mount ''async-storage-data'' ''/async-storage'',
         (plain_mount ''async-storage-config'' ''/.ssh/authorized_keys'')\<lparr>vm_ReadOnly := True, vm_SubPath := ''authorized_keys''\<rparr>]\<rparr>"

definition getWorkspaceSyncDeploymentSpec ::
  "'q async_env \<Rightarrow> 'q WorkspaceWithConfig \<Rightarrow> 'q object \<Rightarrow> string \<Rightarrow> opaque list \<Rightarrow> (string \<times> string) list \<Rightarrow> 'q object" where
  "getWorkspaceSyncDeploymentSpec env w sshConfigMap pvcName tolerations nodeSelector =
     async_object asyncServerDeploymentName (wwc_Namespace w) asyncServerLabels (DeploymentContent (empty_deployment\<lparr>
       d_Replicas := Some 1, d_Selector := asyncServerLabels, d_StrategyType := ''Recreate'',
       d_Template := empty_template\<lparr>pt_Name := ''async-storage-server'', pt_Namespace := wwc_Namespace w, pt_Labels := asyncServerLabels,
         pt_Spec := empty_pod_spec\<lparr>p_RestartPolicy := ''Always'', p_Containers := Some [async_server_container env],
           p_Volumes := Some (async_volumes pvcName (o_Name sshConfigMap)), p_TerminationGracePeriodSeconds := Some 1,
           p_SecurityContext := (if as_openshift env then Some no_pod_security_context else wc_PodSecurityContext (wwc_Workspace w)),
           p_Tolerations := tolerations, p_NodeSelector := nodeSelector\<rparr>\<rparr>\<rparr>))"

definition ready_replicas :: "'q object \<Rightarrow> int" where
  "ready_replicas obj = (case o_Content obj of DeploymentContent d \<Rightarrow> d_ReadyReplicas d | _ \<Rightarrow> 0)"

text \<open>An error of a synchronisation, without the object that it names.\<close>

fun forget_object :: "'q sync_err \<Rightarrow> unit sync_err" where
  "forget_object (UnrecoverableSyncError cause) = UnrecoverableSyncError cause"
| "forget_object e = ApiError (OtherApiErr (sync_err_text e))"

definition synced_or_not_ready :: "'q sync_err + 'q object \<Rightarrow> 'q object async_result" where
  "synced_or_not_ready res =
     (case res of Inr obj \<Rightarrow> AsyncOk obj | Inl (NotInSyncError _ _) \<Rightarrow> NotReady | Inl e \<Rightarrow> AsyncErr (forget_object e))"

definition SyncWorkspaceSyncDeploymentToCluster ::
  "'q async_env \<Rightarrow> 'q WorkspaceWithConfig \<Rightarrow> 'q object \<Rightarrow> string \<Rightarrow> 'q objects \<Rightarrow> 'q object async_result \<times> 'q objects" where
  "SyncWorkspaceSyncDeploymentToCluster env w sshConfigMap pvcName cl =
     (case GetNamespacePodTolerationsAndNodeSelector (as_storage env) of
        Inl e \<Rightarrow> (plain_failed e, cl)
      | Inr (podTolerations, nodeSelector) \<Rightarrow>
     (case SyncObjectWithCluster (as_api env) (getWorkspaceSyncDeploymentSpec env w sshConfigMap pvcName podTolerations nodeSelector) cl of
        (res, cl') \<Rightarrow>
          (case synced_or_not_ready res of
             AsyncOk clusterDeployment \<Rightarrow> if ready_replicas clusterDeployment > 0 then (AsyncOk clusterDeployment, cl') else (NotReady, cl')
           | other \<Rightarrow> (other, cl'))))"

definition GetWorkspaceSyncDeploymentCluster :: "'q async_env \<Rightarrow> string \<Rightarrow> 'q objects \<Rightarrow> api_err + 'q object" where
  "GetWorkspaceSyncDeploymentCluster env namespace cl = client_Get (as_api env) (DeploymentObj, namespace, ''async-storage'') cl"

definition owner_reference :: "'q object \<Rightarrow> OwnerReference" where
  "owner_reference obj = \<lparr>or_Kind = ''Deployment'', or_Name = o_Name obj, or_UID = o_UID obj, or_Controller = None\<rparr>"

text \<open>\<^verbatim>\<open>SetOwnerReference\<close> replaces an earlier reference to the same owner.\<close>

definition owned_by :: "'q storage_env \<Rightarrow> 'q object \<Rightarrow> 'q object \<Rightarrow> err + 'q object" where
  "owned_by env owner obj =
     (case se_setOwner env of
        Some e \<Rightarrow> Inl e
      | None \<Rightarrow> Inr (obj\<lparr>o_OwnerReferences := upsert_owner (owner_reference owner) (o_OwnerReferences obj)\<rparr>))"

definition getWorkspaceSyncServiceSpec :: "'q object \<Rightarrow> 'q object" where
  "getWorkspaceSyncServiceSpec asyncDeploy =
     async_object asyncServerServiceName (o_Namespace asyncDeploy)
       (Some [(''app.kubernetes.io/name'', ''async-storage''), (''app.kubernetes.io/part-of'', ''devworkspace-operator''), (DevWorkspaceIDLabel, [])])
       (ServiceContent \<lparr>svc_Selector = (case o_Content asyncDeploy of DeploymentContent d \<Rightarrow> d_Selector d | _ \<Rightarrow> None),
          svc_Ports = [\<lparr>spt_Name = ''rsync-port'', spt_Protocol = ''TCP'', spt_AppProtocol = None, spt_Port = rsyncPort, spt_TargetPort = format_int rsyncPort, spt_NodePort = 0\<rparr>],
          svc_Type = ''ClusterIP'', svc_ClusterIP = [], svc_Rest = Opaque []\<rparr>)"

definition SyncWorkspaceSyncServiceToCluster :: "'q async_env \<Rightarrow> 'q object \<Rightarrow> 'q objects \<Rightarrow> 'q object async_result \<times> 'q objects" where
  "SyncWorkspaceSyncServiceToCluster env asyncDeploy cl =
     (case owned_by (as_storage env) asyncDeploy (getWorkspaceSyncServiceSpec asyncDeploy) of
        Inl e \<Rightarrow> (plain_failed e, cl)
      | Inr specService \<Rightarrow> (case SyncObjectWithCluster (as_api env) specService cl of (res, cl') \<Rightarrow> (synced_or_not_ready res, cl')))"

section \<open>The sidecar\<close>

definition GetVolumeFromSecret :: "'q object \<Rightarrow> 'q Volume" where
  "GetVolumeFromSecret secret = volume_of asyncSecretVolumeName Secret (SecretData (o_Name secret) [] (Some 416))"

definition GetAsyncSidecar :: "'q async_env \<Rightarrow> string \<Rightarrow> string \<Rightarrow> 'q Volume list \<Rightarrow> 'q Container" where
  "GetAsyncSidecar env devworkspaceID sshVolumeName volumes =
     empty_container\<lparr>c_Name := asyncSidecarContainerName, c_Image := as_sidecarImage env,
       c_Ports := Some [\<lparr>cp_Name = [], cp_ContainerPort = 4445, cp_Protocol = ''TCP''\<rparr>],
       c_Env := Some [plain_env ''RSYNC_PORT'' (format_int rsyncPort), plain_env ''CHE_PROJECTS_ROOT'' ''/projects'', plain_env ''CHE_WORKSPACE_ID'' devworkspaceID],
       c_Resources := memory_only env ''512Mi'' ''64Mi'',
       c_VolumeMounts := (plain_mount sshVolumeName ''/etc/ssh/private'')\<lparr>vm_ReadOnly := True\<rparr> # map (\<lambda>vol. plain_mount (v_Name vol) (''/'' @ v_Name vol)) volumes,
       c_Lifecycle := Some (empty_lifecycle\<lparr>lc_PreStop := Some (ExecHandler [''/bin/sh'', ''-c'', ''/scripts/backup.sh''])\<rparr>)\<rparr>"

definition processProjectsVolume :: "DevWorkspaceTemplateSpec \<Rightarrow> DevfileComponent option \<times> bool" where
  "processProjectsVolume workspace =
     (let projectsComponent = find (\<lambda>c. comp_Volume c \<noteq> None \<and> comp_Name c = ProjectsVolumeName) (rev (ts_Components workspace)) in
      (projectsComponent, AnyMountSources (ts_Components workspace) \<or> projectsComponent \<noteq> None))"

text \<open>The volumes that a step has appended to the pod.\<close>

definition added_volumes :: "'q PodAdditions \<Rightarrow> 'q PodAdditions \<Rightarrow> 'q Volume list" where
  "added_volumes before behind = drop (length (pa_Volumes before)) (pa_Volumes behind)"

definition addVolumesForAsyncStorage :: "'q library \<Rightarrow> 'q PodAdditions \<Rightarrow> DevWorkspaceTemplateSpec \<Rightarrow> err + 'q Volume list \<times> 'q PodAdditions" where
  "addVolumesForAsyncStorage L podAdditions workspace =
     (case addEphemeralVolumesToPodAdditions L (fst (getWorkspaceVolumes workspace)) podAdditions of
        Inl e \<Rightarrow> Inl e
      | Inr pa \<Rightarrow>
     (case processProjectsVolume workspace of (projectsVolume, needed) \<Rightarrow>
        if \<not> needed then Inr (added_volumes podAdditions pa, pa)
        else (case projectsVolume of
           None \<Rightarrow>
             let pa' = pa\<lparr>pa_Volumes := pa_Volumes pa @ [volume_of ProjectsVolumeName EmptyDir (EmptyDirData None)]\<rparr> in
             Inr (added_volumes podAdditions pa', pa')
         | Some c \<Rightarrow>
             if ephemeral_component c then Inr (added_volumes podAdditions pa, pa)
             else map_sum id (\<lambda>pa'. (added_volumes podAdditions pa', pa')) (addEphemeralVolumesToPodAdditions L [c] pa))))"

section \<open>Provisioning\<close>

definition getAsyncWorkspaceCount :: "'q async_env \<Rightarrow> err + nat \<times> nat" where
  "getAsyncWorkspaceCount env =
     map_sum id (\<lambda>workspaces. let asyncs = [w \<leftarrow> workspaces. fst w = AsyncStorageClassType] in (length [w \<leftarrow> asyncs. snd w], length asyncs)) (as_workspaces env)"

definition async_dw :: "string \<Rightarrow> 'a async_result \<Rightarrow> 'a dw_result" where
  "async_dw waiting res =
     (case res of
        AsyncOk x \<Rightarrow> DwOk x
      | NotReady \<Rightarrow> DwErr (RetryError waiting 1000000000)
      | AsyncErr e \<Rightarrow> DwErr (OtherError (sync_err_text e)))"

definition service_dw :: "'a async_result \<Rightarrow> 'a dw_result" where
  "service_dw res =
     (case res of
        AsyncErr (UnrecoverableSyncError cause) \<Rightarrow> DwErr (FailError (wrapped_text ''Failed to set up async storage service'' cause))
      | _ \<Rightarrow> async_dw ''waiting for async storage service to be ready'' res)"

definition and_then :: "'a dw_result \<times> 'q objects \<Rightarrow> ('a \<Rightarrow> 'q objects \<Rightarrow> 'b dw_result \<times> 'q objects) \<Rightarrow> 'b dw_result \<times> 'q objects" where
  "and_then m f = (case m of (DwOk x, cl) \<Rightarrow> f x cl | (DwErr e, cl) \<Rightarrow> (DwErr e, cl) | (DwPanic, cl) \<Rightarrow> (DwPanic, cl))"

definition async_claim :: "'q library \<Rightarrow> 'q async_env \<Rightarrow> 'q WorkspaceWithConfig \<Rightarrow> 'q objects \<Rightarrow> string dw_result \<times> 'q objects" where
  "async_claim L env w cl =
     (case checkForAlternatePVC (as_storage env) (wwc_Namespace w) cl of
        Inl e \<Rightarrow> (DwErr (OtherError e), cl)
      | Inr (usingAlternatePVC, alternate) \<Rightarrow>
          let pvcName = (if alternate = [] then wc_PVCName (wwc_Workspace w) else alternate) in
     (case checkPVCTerminating (as_storage env) pvcName (wwc_Namespace w) cl of
        Inl e \<Rightarrow> (DwErr (OtherError e), cl)
      | Inr True \<Rightarrow> (DwErr (RetryError ''Shared PVC is in terminating state'' 2000000000), cl)
      | Inr False \<Rightarrow>
          if usingAlternatePVC then (DwOk pvcName, cl)
          else (case syncCommonPVC L (as_storage env) w cl of (res, cl') \<Rightarrow> (dw_bind res (\<lambda>pvc. DwOk (o_Name pvc)), cl'))))"

definition own_configmap :: "'q async_env \<Rightarrow> 'q object \<Rightarrow> 'q object \<Rightarrow> 'q objects \<Rightarrow> unit dw_result \<times> 'q objects" where
  "own_configmap env deploy configmap cl =
     (case owned_by (as_storage env) deploy configmap of
        Inl e \<Rightarrow> (DwErr (OtherError e), cl)
      | Inr owned \<Rightarrow>
          (case client_Update (as_api env) owned cl of
             (None, cl') \<Rightarrow> (DwOk (), cl')
           | (Some (Conflict _), cl') \<Rightarrow> (DwErr (RetryError ''Updated asynchonous storage configmap'' 0), cl')
           | (Some e, cl') \<Rightarrow> (DwErr (OtherError (api_err_text e)), cl')))"

text \<open>\<open>phase\<close> is the phase in the status of the workspace.\<close>

definition async_ProvisionStorage :: "'q library \<Rightarrow> 'q async_env \<Rightarrow> string \<Rightarrow> 'q provision" where
  "async_ProvisionStorage L env phase w podAdditions cl =
     (case checkConfigured env of
        Some e \<Rightarrow> (DwErr (FailError (wrapped_text ''Asynchronous storage is not configured. Contact an administrator to resolve this issue.'' e)), cl)
      | None \<Rightarrow>
     (case getAsyncWorkspaceCount env of
        Inl e \<Rightarrow> (DwErr (OtherError e), cl)
      | Inr (numWorkspaces, _) \<Rightarrow>
          if numWorkspaces > 1 \<and> phase \<noteq> ''Running''
          then (DwErr (FailError (wrapped_text (''Cannot provision storage for workspace '' @ wwc_Name w)
                  ''at most one workspace using async storage can be running in a namespace'')), cl)
          else
            and_then (addEphemeralVolumesFromWorkspace L (wwc_Template w) podAdditions, cl) (\<lambda>podAdditions cl.
            if \<not> WorkspaceNeedsStorage (wwc_Template w) then (DwOk podAdditions, cl)
            else
              and_then (apfst (async_dw ''Setting up configuration for async storage'') (GetOrCreateSSHConfig env w cl)) (\<lambda>(secret, configmap) cl.
              and_then (async_claim L env w cl) (\<lambda>pvcName cl.
              and_then (apfst (async_dw ''waiting for async storage server deployment to be ready'')
                          (SyncWorkspaceSyncDeploymentToCluster env w configmap pvcName cl)) (\<lambda>deploy cl.
              and_then (own_configmap env deploy configmap cl) (\<lambda>_ cl.
              and_then (apfst service_dw (SyncWorkspaceSyncServiceToCluster env deploy cl)) (\<lambda>_ cl.
              and_then (dw_plain (addVolumesForAsyncStorage L podAdditions (wwc_Template w)), cl) (\<lambda>(volumes, podAdditions) cl.
              let sshSecretVolume = GetVolumeFromSecret secret in
              (DwOk (podAdditions\<lparr>
                 pa_Containers := pa_Containers podAdditions @ [GetAsyncSidecar env (wwc_Id w) (v_Name sshSecretVolume) volumes],
                 pa_Volumes := pa_Volumes podAdditions @ [sshSecretVolume]\<rparr>), cl))))))))))"

section \<open>Clean-up\<close>

definition RemoveAuthorizedKeyFromConfigMap :: "'q async_env \<Rightarrow> 'q WorkspaceWithConfig \<Rightarrow> 'q objects \<Rightarrow> (err + bool) \<times> 'q objects" where
  "RemoveAuthorizedKeyFromConfigMap env w cl =
     (case getSSHSidecarSecretCluster env w cl of
        Inl (NotFound _) \<Rightarrow> (Inr False, cl)
      | Inl e \<Rightarrow> (Inl (api_err_text e), cl)
      | Inr sshSecret \<Rightarrow>
     (case ExtractSSHKeyPairFromSecret env sshSecret of
        Inl e \<Rightarrow> (Inl e, cl)
      | Inr pubkey \<Rightarrow>
     (case getSSHAuthorizedKeysConfigMapCluster env (wwc_Namespace w) cl of
        Inl (NotFound _) \<Rightarrow> (Inr False, cl)
      | Inl e \<Rightarrow> (Inl (api_err_text e), cl)
      | Inr configmap \<Rightarrow>
     (case removeAuthorizedKeyFromConfigMap configmap pubkey of
        Inl e \<Rightarrow> (Inl e, cl)
      | Inr (False, _) \<Rightarrow> (Inr False, cl)
      | Inr (True, changed) \<Rightarrow>
     (case client_Update (as_api env) changed cl of
        (Some (Conflict _), cl') \<Rightarrow> (Inr True, cl')
      | (Some e, cl') \<Rightarrow> (Inl (api_err_text e), cl')
      | (None, cl') \<Rightarrow>
          if asyncStorageFinalizer \<in> set (o_Finalizers sshSecret) then
            (case client_Update (as_api env) (sshSecret\<lparr>o_Finalizers := removeAll asyncStorageFinalizer (o_Finalizers sshSecret)\<rparr>) cl' of
               (None, cl'') \<Rightarrow> (Inr True, cl'')
             | (Some (Conflict _), cl'') \<Rightarrow> (Inr True, cl'')
             | (Some e, cl'') \<Rightarrow> (Inl (api_err_text e), cl''))
          else (Inr False, cl'))))))"

definition scale_down :: "'q object \<Rightarrow> 'q object option" where
  "scale_down asyncDeploy =
     (case o_Content asyncDeploy of
        DeploymentContent d \<Rightarrow> if d_Replicas d = Some 0 then None else Some (asyncDeploy\<lparr>o_Content := DeploymentContent (d\<lparr>d_Replicas := Some 0\<rparr>)\<rparr>)
      | _ \<Rightarrow> None)"

definition async_in_use :: "bool \<Rightarrow> nat \<Rightarrow> dw_error option" where
  "async_in_use started numWorkspaces =
     (if numWorkspaces = 0 \<or> numWorkspaces = 1 \<and> started then None
      else if numWorkspaces = 1
      then Some (FailError (wrapped_text ''Cannot clean up DevWorkspace until other async-storage workspaces are stopped'' ''another workspace is using the async server''))
      else Some (FailError (wrapped_text ''Cannot clean up DevWorkspace: multiple devworkspaces are using async server'' ''multiple workspaces are using using the async server'')))"

text \<open>\<open>started\<close> tells whether the specification of the workspace asks for it to run.\<close>

definition async_CleanupWorkspaceStorage :: "'q async_env \<Rightarrow> bool \<Rightarrow> 'q WorkspaceWithConfig \<Rightarrow> 'q objects \<Rightarrow> unit dw_result \<times> 'q objects" where
  "async_CleanupWorkspaceStorage env started w cl =
     (case GetWorkspaceSyncDeploymentCluster env (wwc_Namespace w) cl of
        Inl (NotFound _) \<Rightarrow> runCommonPVCCleanupJob (as_storage env) w cl
      | Inl e \<Rightarrow> (DwErr (OtherError (api_err_text e)), cl)
      | Inr asyncDeploy \<Rightarrow>
     (case getAsyncWorkspaceCount env of
        Inl e \<Rightarrow> (DwErr (OtherError e), cl)
      | Inr (numWorkspaces, totalWorkspaces) \<Rightarrow>
     (case async_in_use started numWorkspaces of
        Some e \<Rightarrow> (DwErr e, cl)
      | None \<Rightarrow>
     (case scale_down asyncDeploy of
        Some scaled \<Rightarrow>
          (case client_Update (as_api env) scaled cl of
             (None, cl') \<Rightarrow> (DwErr (RetryError ''Scaling down async storage deployment to 0'' 0), cl')
           | (Some (Conflict _), cl') \<Rightarrow> (DwErr (RetryError ''Scaling down async storage deployment to 0'' 0), cl')
           | (Some e, cl') \<Rightarrow> (DwErr (OtherError (api_err_text e)), cl'))
      | None \<Rightarrow>
          and_then (runCommonPVCCleanupJob (as_storage env) w cl) (\<lambda>_ cl.
          (case RemoveAuthorizedKeyFromConfigMap env w cl of
             (Inl e, cl') \<Rightarrow> (DwErr (FailError (wrapped_text ''Failed to remove authorized key from async storage configmap'' e)), cl')
           | (Inr True, cl') \<Rightarrow> (DwErr (RetryError ''Removing authorized key from async storage configmap'' 0), cl')
           | (Inr False, cl') \<Rightarrow>
               if totalWorkspaces \<le> 1 then
                 (case client_Delete (as_api env) asyncDeploy cl' of
                    (None, cl'') \<Rightarrow> (DwOk (), cl'')
                  | (Some (NotFound _), cl'') \<Rightarrow> (DwOk (), cl'')
                  | (Some e, cl'') \<Rightarrow> (DwErr (OtherError (api_err_text e)), cl''))
               else (DwOk (), cl')))))))"

end
