(* ===== verification/Async_Correct.thy ===== *)
theory Async_Correct
  imports Async_Storage
begin

text \<open>
  Asynchronous storage: the file of authorized keys behaves as a list of keys, the sidecar sees exactly the volumes that have to be kept, one workspace at a time
  uses the server, and a conflict at the wrong moment leaves the finalizer of the ssh secret in place.
\<close>

section \<open>Authorized keys as lines\<close>

text \<open>The text of a file of keys, one to a line.\<close>

definition keys_text :: "string list \<Rightarrow> string" where
  "keys_text ks = concat (map (\<lambda>k. k @ [newline]) ks)"

definition key_line :: "string \<Rightarrow> bool" where
  "key_line k \<longleftrightarrow> k \<noteq> [] \<and> newline \<notin> set k"

definition holds_keys :: "'q object \<Rightarrow> string list \<Rightarrow> bool" where
  "holds_keys cm ks \<longleftrightarrow> list_all key_line ks \<and> go_get (config_data cm) authorizedKeysFilename = Some (keys_text ks)"

lemma split_keys_text: "list_all key_line ks \<Longrightarrow> strings_split newline (keys_text ks) = ks @ [[]]"
proof (induction ks)
  case (Cons k ks)
  then show ?case using strings_split_at [of newline k "keys_text ks"] by (simp add: keys_text_def key_line_def)
qed (simp add: keys_text_def)

lemma join_keys_text: "strings_join [newline] (ks @ [[]]) = keys_text ks"
proof (induction ks)
  case (Cons k ks)
  then show ?case by (cases ks) (simp_all add: keys_text_def)
qed (simp add: keys_text_def)

lemma trimmed_key: "key_line k \<Longrightarrow> TrimRight newline (k @ [newline]) = k"
proof -
  assume k: "key_line k"
  then have "dropWhile (\<lambda>x. x = newline) (rev k) = rev k"
    by (cases "rev k") (auto simp: key_line_def)
  then show ?thesis by (simp add: TrimRight_def)
qed

lemma holds_with_keys: "go_get (config_data cm) authorizedKeysFilename \<noteq> None \<Longrightarrow> list_all key_line ks \<Longrightarrow> holds_keys (with_keys cm (keys_text ks)) ks"
  by (cases "config_data cm") (auto simp: holds_keys_def with_keys_def config_data_def go_get_def update_conv')

lemma with_keys_frame: "obj_key_of (with_keys cm t) = obj_key_of cm \<longleftrightarrow> kind_of (o_Content cm) = ConfigMapObj"
  by (auto simp: with_keys_def obj_key_of_def)

lemma add_key:
  assumes "holds_keys cm ks" "key_line k"
  shows "addAuthorizedKeyToConfigMap cm (k @ [newline]) = (if k \<in> set ks then Inr (False, cm) else Inr (True, with_keys cm (keys_text (ks @ [k]))))"
proof -
  from assms have keys: "go_get (config_data cm) authorizedKeysFilename = Some (keys_text ks)" "strings_split newline (keys_text ks) = ks @ [[]]" "k \<noteq> []"
    by (auto simp: holds_keys_def split_keys_text key_line_def)
  have "keys_text (ks @ [k]) = keys_text ks @ k @ [newline]" by (simp add: keys_text_def)
  with keys show ?thesis by (auto simp: addAuthorizedKeyToConfigMap_def trimmed_key [OF assms(2)] list_ex_iff)
qed

lemma remove_key:
  assumes "holds_keys cm ks" "key_line k"
  shows "removeAuthorizedKeyFromConfigMap cm (k @ [newline]) = (if k \<in> set ks then Inr (True, with_keys cm (keys_text (removeAll k ks))) else Inr (False, cm))"
proof -
  from assms have keys: "go_get (config_data cm) authorizedKeysFilename = Some (keys_text ks)" "strings_split newline (keys_text ks) = ks @ [[]]" "k \<noteq> []"
    by (auto simp: holds_keys_def split_keys_text key_line_def)
  then have "[key \<leftarrow> ks @ [[]]. key \<noteq> k] = removeAll k ks @ [[]]" by (auto simp: removeAll_filter_not_eq intro: filter_cong)
  with keys show ?thesis
    by (auto simp: removeAuthorizedKeyFromConfigMap_def trimmed_key [OF assms(2)] list_ex_iff join_keys_text Let_def)
qed

text \<open>
  (C24) The config map of authorized keys is a set of lines: adding a key appends its line unless it is there, removing a key removes
  its line and no other, and both report whether they changed the file.
\<close>

theorem authorized_keys_lines:
  assumes "holds_keys cm ks" "key_line k"
  shows "\<exists>added removed. addAuthorizedKeyToConfigMap cm (k @ [newline]) = Inr (k \<notin> set ks, added) \<and> holds_keys added (if k \<in> set ks then ks else ks @ [k]) \<and>
    removeAuthorizedKeyFromConfigMap cm (k @ [newline]) = Inr (k \<in> set ks, removed) \<and> holds_keys removed (removeAll k ks)"
proof -
  from assms have "go_get (config_data cm) authorizedKeysFilename \<noteq> None" "list_all key_line (ks @ [k])" "list_all key_line (removeAll k ks)"
    by (auto simp: holds_keys_def list_all_iff)
  with assms show ?thesis
    by (cases "k \<in> set ks") (auto simp: add_key remove_key intro: holds_with_keys)
qed

section \<open>Provisioning\<close>

lemma and_then_Ok: "and_then m f = (DwOk y, cl') \<longleftrightarrow> (\<exists>x cl. m = (DwOk x, cl) \<and> f x cl = (DwOk y, cl'))"
  by (auto simp: and_then_def split: prod.splits dw_result.splits)

lemma added_volumes_append [simp]: "added_volumes pa (pa\<lparr>pa_Volumes := pa_Volumes pa @ vs\<rparr>) = vs"
  by (simp add: added_volumes_def)

text \<open>The names of the volumes of the persistent components, and of the projects volume where the workspace has sources.\<close>

definition persistent_names :: "DevWorkspaceTemplateSpec \<Rightarrow> string list" where
  "persistent_names t = map comp_Name [c \<leftarrow> ts_Components t. comp_Volume c \<noteq> None \<and> \<not> ephemeral_component c \<and> comp_Name c \<noteq> ProjectsVolumeName]"

definition kept_volume :: "DevWorkspaceTemplateSpec \<Rightarrow> string \<Rightarrow> bool" where
  "kept_volume t name \<longleftrightarrow> name \<in> set (persistent_names t) \<or>
     name = ProjectsVolumeName \<and> snd (processProjectsVolume t) \<and> (case fst (processProjectsVolume t) of None \<Rightarrow> True | Some c \<Rightarrow> \<not> ephemeral_component c)"

lemma projects_component_name: "fst (processProjectsVolume t) = Some c \<Longrightarrow> comp_Name c = ProjectsVolumeName \<and> comp_Volume c \<noteq> None"
  by (auto simp: processProjectsVolume_def Let_def dest!: find_SomeD)

lemma async_volumes_Inr:
  assumes "addVolumesForAsyncStorage L pa t = Inr (vs, pa')"
  shows "pa' = pa\<lparr>pa_Volumes := pa_Volumes pa @ vs\<rparr> \<and> (\<forall>name. name \<in> v_Name ` set vs \<longleftrightarrow> kept_volume t name)"
proof -
  obtain pc needed where p: "processProjectsVolume t = (pc, needed)" by (meson surj_pair)
  from assms obtain pa1 where 1: "addEphemeralVolumesToPodAdditions L (fst (getWorkspaceVolumes t)) pa = Inr pa1"
    by (auto simp: addVolumesForAsyncStorage_def split: sum.splits)
  from addEphemeral_Inr [OF 1] obtain ps where ps: "pa1 = pa\<lparr>pa_Volumes := pa_Volumes pa @ ps\<rparr>"
    "map v_Name ps = map comp_Name [c \<leftarrow> fst (getWorkspaceVolumes t). comp_Volume c \<noteq> None]" by blast
  from arg_cong [OF ps(2), of set] have names: "v_Name ` set ps = set (persistent_names t)"
    by (auto simp: persistent_names_def getWorkspaceVolumes_def Let_def)
  consider (none) "\<not> needed \<or> (\<exists>c. pc = Some c \<and> ephemeral_component c)" | (implicit) "needed" "pc = None"
    | (explicit) c where "needed" "pc = Some c" "\<not> ephemeral_component c" by (cases pc) auto
  then show ?thesis
  proof cases
    case none
    with assms 1 p ps show ?thesis
      by (auto simp: addVolumesForAsyncStorage_def kept_volume_def names [symmetric] split: if_splits)
  next
    case implicit
    with assms 1 p ps show ?thesis
      by (auto simp: addVolumesForAsyncStorage_def kept_volume_def names [symmetric] Let_def added_volumes_def volume_of_def)
  next
    case (explicit c)
    with assms 1 p obtain pa2 where 2: "addEphemeralVolumesToPodAdditions L [c] pa1 = Inr pa2" and v: "vs = added_volumes pa pa2" "pa' = pa2"
      by (auto simp: addVolumesForAsyncStorage_def map_sum_id_Inr simp del: addEphemeralVolumesToPodAdditions.simps)
    have c: "comp_Name c = ProjectsVolumeName" "comp_Volume c \<noteq> None" using projects_component_name [of t c] p explicit by auto
    from addEphemeral_Inr [OF 2] c obtain v' where "pa2 = pa1\<lparr>pa_Volumes := pa_Volumes pa1 @ [v']\<rparr>" "v_Name v' = ProjectsVolumeName"
      by auto
    with v ps p explicit show ?thesis by (auto simp: kept_volume_def names [symmetric] added_volumes_def)
  qed
qed

lemma async_Ok:
  assumes "async_ProvisionStorage L env phase w pa cl = (DwOk pa', cl')"
  obtains pa1 started total where "checkConfigured env = None" "getAsyncWorkspaceCount env = Inr (started, total)" "started \<le> 1 \<or> phase = ''Running''"
    "addEphemeralVolumesFromWorkspace L (wwc_Template w) pa = DwOk pa1"
    "if WorkspaceNeedsStorage (wwc_Template w)
     then \<exists>secret vs pa2. addVolumesForAsyncStorage L pa1 (wwc_Template w) = Inr (vs, pa2) \<and>
       pa' = pa2\<lparr>pa_Containers := pa_Containers pa2 @ [GetAsyncSidecar env (wwc_Id w) asyncSecretVolumeName vs], pa_Volumes := pa_Volumes pa2 @ [GetVolumeFromSecret secret]\<rparr>
     else pa' = pa1"
proof -
  from assms have conf: "checkConfigured env = None" by (auto simp: async_ProvisionStorage_def split: option.splits)
  with assms obtain started total where count: "getAsyncWorkspaceCount env = Inr (started, total)"
    by (auto simp: async_ProvisionStorage_def split: sum.splits)
  with assms conf have few: "started \<le> 1 \<or> phase = ''Running''" by (auto simp: async_ProvisionStorage_def split: if_splits)
  then have "\<not> (started > 1 \<and> phase \<noteq> ''Running'')" by auto
  note body = assms [unfolded async_ProvisionStorage_def, simplified conf count option.case sum.case prod.case if_not_P [OF this] and_then_Ok]
  from body obtain pa1 where pa1: "addEphemeralVolumesFromWorkspace L (wwc_Template w) pa = DwOk pa1" by auto
  show thesis
    by (rule that [OF conf count few pa1])
      (use body pa1 in \<open>auto simp: and_then_Ok dw_results GetVolumeFromSecret_def volume_of_def Let_def split: if_splits; blast\<close>)
qed

text \<open>
  (C25) A workspace that needs storage gets one more container, the sidecar. Beside its ssh key the sidecar mounts the volume of every persistent component, and
  the projects volume if it is to be kept, and nothing else; every mount names a volume that the pod has. The other containers are as before.
\<close>

theorem async_sidecar_syncs_kept_volumes:
  assumes "async_ProvisionStorage L env phase w pa cl = (DwOk pa', cl')" "WorkspaceNeedsStorage (wwc_Template w)"
  shows "\<exists>sidecar. pa_Containers pa' = pa_Containers pa @ [sidecar] \<and>
    (\<forall>name. name \<in> vm_Name ` set (c_VolumeMounts sidecar) \<longleftrightarrow> name = asyncSecretVolumeName \<or> kept_volume (wwc_Template w) name) \<and>
    vm_Name ` set (c_VolumeMounts sidecar) \<subseteq> v_Name ` set (pa_Volumes pa')"
proof (rule async_Ok [OF assms(1)])
  fix pa1 started total
  assume e: "addEphemeralVolumesFromWorkspace L (wwc_Template w) pa = DwOk pa1"
    and "if WorkspaceNeedsStorage (wwc_Template w)
     then \<exists>secret vs pa2. addVolumesForAsyncStorage L pa1 (wwc_Template w) = Inr (vs, pa2) \<and>
       pa' = pa2\<lparr>pa_Containers := pa_Containers pa2 @ [GetAsyncSidecar env (wwc_Id w) asyncSecretVolumeName vs], pa_Volumes := pa_Volumes pa2 @ [GetVolumeFromSecret secret]\<rparr>
     else pa' = pa1"
  with assms(2) obtain secret vs pa2 where v: "addVolumesForAsyncStorage L pa1 (wwc_Template w) = Inr (vs, pa2)"
    and pa': "pa' = pa2\<lparr>pa_Containers := pa_Containers pa2 @ [GetAsyncSidecar env (wwc_Id w) asyncSecretVolumeName vs], pa_Volumes := pa_Volumes pa2 @ [GetVolumeFromSecret secret]\<rparr>"
    by auto
  from addEphemeralFromWorkspace_Ok [OF e] have "pa_Containers pa1 = pa_Containers pa" by auto
  with async_volumes_Inr [OF v] pa' show ?thesis
    by (auto simp: GetAsyncSidecar_def plain_mount_def GetVolumeFromSecret_def volume_of_def image_image)
qed

text \<open>
  Storage of this type is provisioned only while at most one of the started workspaces of the namespace uses it, or for a workspace that is
  running already; otherwise the workspace fails and the cluster is as it was.
\<close>

theorem async_one_workspace:
  assumes "getAsyncWorkspaceCount env = Inr (started, all)" "1 < started" "phase \<noteq> ''Running''"
  shows "\<exists>e. async_ProvisionStorage L env phase w pa cl = (DwErr (FailError e), cl)"
  using assms by (auto simp: async_ProvisionStorage_def split: option.splits)

section \<open>Clean-up\<close>

text \<open>The ssh secret of the workspace with the finalizer, the public key of which is \<open>key\<close>, and the keys in the config map.\<close>

definition secret_key :: "'q WorkspaceWithConfig \<Rightarrow> obj_key" where
  "secret_key w = (SecretObj, wwc_Namespace w, GetSSHSidecarSecretName (wwc_Id w))"

definition keys_key :: "'q WorkspaceWithConfig \<Rightarrow> obj_key" where
  "keys_key w = (ConfigMapObj, wwc_Namespace w, sshAuthorizedKeysConfigMapName)"

lemma remove_without_key:
  assumes "client_Get (as_api env) (secret_key w) cl = Inr secret" "ExtractSSHKeyPairFromSecret env secret = Inr (k @ [newline])"
    "client_Get (as_api env) (keys_key w) cl = Inr cm" "holds_keys cm ks" "key_line k" "k \<notin> set ks"
  shows "RemoveAuthorizedKeyFromConfigMap env w cl = (Inr False, cl)"
  using assms
  by (simp add: RemoveAuthorizedKeyFromConfigMap_def getSSHSidecarSecretCluster_def getSSHAuthorizedKeysConfigMapCluster_def secret_key_def keys_key_def remove_key)

lemma remove_with_conflict:
  assumes "client_Get (as_api env) (secret_key w) cl = Inr secret" "ExtractSSHKeyPairFromSecret env secret = Inr (k @ [newline])"
    "client_Get (as_api env) (keys_key w) cl = Inr cm" "holds_keys cm ks" "key_line k" "k \<in> set ks" "asyncStorageFinalizer \<in> set (o_Finalizers secret)"
    "client_Update (as_api env) (with_keys cm (keys_text (removeAll k ks))) cl = (None, cl1)"
    "obj_key_of secret = secret_key w" "\<And>obj. obj_key_of obj = secret_key w \<Longrightarrow> client_Update (as_api env) obj cl1 = (Some (Conflict msg), cl1)"
  shows "RemoveAuthorizedKeyFromConfigMap env w cl = (Inr True, cl1)"
proof -
  have "client_Update (as_api env) (secret\<lparr>o_Finalizers := removeAll asyncStorageFinalizer (o_Finalizers secret)\<rparr>) cl1 = (Some (Conflict msg), cl1)"
    using assms(9) by (intro assms(10)) (simp add: obj_key_of_def)
  with assms(1-8) show ?thesis
    by (simp add: RemoveAuthorizedKeyFromConfigMap_def getSSHSidecarSecretCluster_def getSSHAuthorizedKeysConfigMapCluster_def secret_key_def keys_key_def remove_key)
qed

text \<open>
  The finalizer of the ssh secret depends on one uninterrupted pass: when the update that removes it conflicts after the key has been removed from the config map,
  the next pass, with a server that refuses nothing, finds no key, changes nothing and reports that there is no more to do. The secret keeps the finalizer.
\<close>

theorem async_finalizer_stuck:
  fixes env env' :: "'q async_env"
  assumes faults: "ae_fault (as_api env) = (\<lambda>call. if call = UpdateCall (secret_key w) then Some (Conflict msg) else None)"
    and server: "as_api env' = (as_api env)\<lparr>ae_fault := \<lambda>_. None\<rparr>" "as_publicKey env' = as_publicKey env" "\<And>obj. ae_cached (as_api env) obj"
    and stores: "\<And>old new. ae_store (as_api env) old new = new"
    and secret: "cl (secret_key w) = Some secret" "obj_key_of secret = secret_key w" "asyncStorageFinalizer \<in> set (o_Finalizers secret)"
      "ExtractSSHKeyPairFromSecret env secret = Inr (k @ [newline])"
    and keys: "cl (keys_key w) = Some cm" "obj_key_of cm = keys_key w" "holds_keys cm ks" "key_line k" "k \<in> set ks"
  shows "\<exists>cl1. RemoveAuthorizedKeyFromConfigMap env w cl = (Inr True, cl1) \<and> RemoveAuthorizedKeyFromConfigMap env' w cl1 = (Inr False, cl1) \<and> cl1 (secret_key w) = Some secret"
proof -
  define cm' where "cm' = with_keys cm (keys_text (removeAll k ks))"
  define cl1 where "cl1 = cl(keys_key w \<mapsto> cm')"
  have different: "secret_key w \<noteq> keys_key w" by (simp add: secret_key_def keys_key_def)
  have cm': "obj_key_of cm' = keys_key w" "o_ResourceVersion cm' = o_ResourceVersion cm" "holds_keys cm' (removeAll k ks)"
    using keys with_keys_frame [of cm "keys_text (removeAll k ks)"] holds_with_keys [of cm "removeAll k ks"]
    by (auto simp: cm'_def obj_key_of_def keys_key_def with_keys_def holds_keys_def list_all_iff)
  have "client_Update (as_api env) cm' cl = (None, cl1)"
    using keys(1) cm' different stores by (simp add: client_Update_def faults cl1_def)
  moreover have "client_Update (as_api env) obj cl1 = (Some (Conflict msg), cl1)" if "obj_key_of obj = secret_key w" for obj
    using that by (simp add: client_Update_def faults)
  ultimately have "RemoveAuthorizedKeyFromConfigMap env w cl = (Inr True, cl1)"
    using secret keys server(3) by (intro remove_with_conflict [where msg = msg]) (simp_all add: client_Get_Inr faults cm'_def)
  moreover have "RemoveAuthorizedKeyFromConfigMap env' w cl1 = (Inr False, cl1)"
  proof (rule remove_without_key [where cm = cm' and ks = "removeAll k ks"])
    show "k \<notin> set (removeAll k ks)" by simp
    show "ExtractSSHKeyPairFromSecret env' secret = Inr (k @ [newline])"
      using secret(4) by (simp only: ExtractSSHKeyPairFromSecret_def server(2))
  qed (use secret keys(4) server cm' different in \<open>simp_all add: client_Get_Inr cl1_def\<close>)
  ultimately show ?thesis using secret(1) different by (auto simp: cl1_def)
qed

section \<open>Witnesses\<close>

definition sample_key :: string where "sample_key = ''ssh-rsa AAA''"

definition keys_map :: "int object" where
  "keys_map = getSSHAuthorizedKeysConfigMapSpec ''ns'' (keys_text [''ssh-rsa BBB'', sample_key])"

definition ssh_secret :: "int object" where
  "ssh_secret = getSSHSidecarSecretSpec stored_workspace ''private''"

definition async_server_spec :: "int async_env" where
  "async_server_spec = \<lparr>as_storage = some_storage, as_serverImage = ''server'', as_sidecarImage = ''sidecar'', as_openshift = True,
     as_workspaces = Inr [(''async'', True), (''common'', True)], as_keyPair = Inr (sample_key @ [newline], ''private''), as_publicKey = (\<lambda>_. Inr (sample_key @ [newline]))\<rparr>"

definition conflicting :: "int async_env" where
  "conflicting = async_server_spec\<lparr>as_storage := some_storage\<lparr>se_api := plain_server\<lparr>ae_fault :=
     \<lambda>call. if call = UpdateCall (secret_key stored_workspace) then Some (Conflict ''modified'') else None\<rparr>\<rparr>\<rparr>"

definition async_objects :: "int objects" where
  "async_objects = che_claims(secret_key stored_workspace \<mapsto> ssh_secret, keys_key stored_workspace \<mapsto> keys_map)"

lemma sample_lines: "holds_keys keys_map [''ssh-rsa BBB'', sample_key]" "key_line sample_key"
  by (simp_all add: holds_keys_def keys_map_def getSSHAuthorizedKeysConfigMapSpec_def async_object_def config_data_def go_get_def key_line_def sample_key_def newline_def)

theorem authorized_keys_lines_witness:
  "\<exists>added removed. addAuthorizedKeyToConfigMap keys_map (sample_key @ [newline]) = Inr (False, added) \<and>
     removeAuthorizedKeyFromConfigMap keys_map (sample_key @ [newline]) = Inr (True, removed) \<and> holds_keys removed [''ssh-rsa BBB'']"
  using authorized_keys_lines [OF sample_lines] by (auto simp: sample_key_def)

theorem async_finalizer_stuck_witness:
  "\<exists>cl1. RemoveAuthorizedKeyFromConfigMap conflicting stored_workspace async_objects = (Inr True, cl1) \<and>
     RemoveAuthorizedKeyFromConfigMap async_server_spec stored_workspace cl1 = (Inr False, cl1) \<and> cl1 (secret_key stored_workspace) = Some ssh_secret"
proof (rule async_finalizer_stuck [where msg = "''modified''" and k = sample_key and cm = keys_map and ks = "[''ssh-rsa BBB'', sample_key]"])
  show "obj_key_of ssh_secret = secret_key stored_workspace" "obj_key_of keys_map = keys_key stored_workspace" by code_simp+
  show "asyncStorageFinalizer \<in> set (o_Finalizers ssh_secret)" by (simp add: ssh_secret_def getSSHSidecarSecretSpec_def)
  show "ExtractSSHKeyPairFromSecret conflicting ssh_secret = Inr (sample_key @ [newline])" by code_simp
qed (simp_all add: conflicting_def async_server_spec_def some_storage_def plain_server_def async_objects_def secret_key_def keys_key_def sample_lines)

definition settled_server :: "int async_env" where
  "settled_server = async_server_spec\<lparr>as_storage := some_storage\<lparr>se_api := plain_server\<lparr>ae_cmp := \<lambda>_ _ _. True, ae_derivative_pod := \<lambda>_ _. True,
     ae_derivative_volume := \<lambda>_ _. True, ae_derivative_container := \<lambda>_ _. True\<rparr>\<rparr>\<rparr>"

definition ready_server :: "int object" where
  "ready_server = (let obj = getWorkspaceSyncDeploymentSpec settled_server stored_workspace keys_map CheCommonPVCName [] [] in
     case o_Content obj of DeploymentContent d \<Rightarrow> obj\<lparr>o_Content := DeploymentContent (d\<lparr>d_ReadyReplicas := 1\<rparr>)\<rparr> | _ \<Rightarrow> obj)"

definition ready_objects :: "int objects" where
  "ready_objects = async_objects(obj_key_of ready_server \<mapsto> ready_server,
     (ServiceObj, ''ns'', asyncServerServiceName) \<mapsto> (getWorkspaceSyncServiceSpec ready_server)\<lparr>o_OwnerReferences := [owner_reference ready_server]\<rparr>)"

lemma ready_run:
  "case async_ProvisionStorage sample_library settled_server ''Starting'' stored_workspace some_additions ready_objects of (DwOk _, _) \<Rightarrow> True | _ \<Rightarrow> False"
  by code_simp

theorem async_sidecar_syncs_kept_volumes_witness:
  "\<exists>pa' cl' sidecar. async_ProvisionStorage sample_library settled_server ''Starting'' stored_workspace some_additions ready_objects = (DwOk pa', cl') \<and>
     pa_Containers pa' = pa_Containers some_additions @ [sidecar] \<and> ProjectsVolumeName \<in> vm_Name ` set (c_VolumeMounts sidecar)"
proof -
  from ready_run obtain pa' cl' where run: "async_ProvisionStorage sample_library settled_server ''Starting'' stored_workspace some_additions ready_objects = (DwOk pa', cl')"
    by (auto split: prod.splits dw_result.splits)
  have "kept_volume (wwc_Template stored_workspace) ProjectsVolumeName" by code_simp
  with async_sidecar_syncs_kept_volumes [OF run stored_needs] run show ?thesis by blast
qed

theorem async_one_workspace_witness:
  "\<exists>e. async_ProvisionStorage sample_library (async_server_spec\<lparr>as_workspaces := Inr [(''async'', True), (''async'', True)]\<rparr>) ''Starting''
     stored_workspace some_additions async_objects = (DwErr (FailError e), async_objects)"
  by (rule async_one_workspace [where started = 2 and all = 2]) (simp_all add: getAsyncWorkspaceCount_def AsyncStorageClassType_def)

end
