(* ===== verification/Cron_Jobs.thy ===== *)
theory Cron_Jobs
  imports Workspace_Additions Workspace_Controller Config_Sync
begin

text \<open>
  The two scheduled jobs of the operator (\<^verbatim>\<open>src/controllers/cleanupcronjob\<close>, \<^verbatim>\<open>src/controllers/backupcronjob\<close>): deletion of workspaces that have not been
  used for long, and back-up of the claims of stopped workspaces. A reconciler of each follows the operator's configuration and keeps a scheduler.

  Parameters are the scheduler (\<^verbatim>\<open>robfig/cron\<close>), the pruner (\<^verbatim>\<open>operator-lib\<close>), the clock, the texts of times, and the names that the server generates. Times are
  in nanoseconds.
\<close>

section \<open>The scheduler\<close>

record ('c, 't) cron_lib =
  cr_Entries :: "'c \<Rightarrow> (nat \<times> string \<times> 't) list"  \<comment> \<open>number, schedule and task\<close>
  cr_Remove :: "nat \<Rightarrow> 'c \<Rightarrow> 'c"
  cr_AddFunc :: "string \<Rightarrow> 't \<Rightarrow> 'c \<Rightarrow> err + 'c"
  cr_Start :: "'c \<Rightarrow> 'c"
  cr_Stop :: "'c \<Rightarrow> 'c"

definition remove_entries :: "('c, 't) cron_lib \<Rightarrow> 'c \<Rightarrow> 'c" where
  "remove_entries lib c = fold (\<lambda>entry. cr_Remove lib (fst entry)) (cr_Entries lib c) c"

text \<open>Both reconcilers replace what is scheduled by one task, and stop the scheduler otherwise.\<close>

definition schedule_task :: "('c, 't) cron_lib \<Rightarrow> string \<Rightarrow> 't \<Rightarrow> 'c \<Rightarrow> 'c" where
  "schedule_task lib schedule task c =
     (let cleared = remove_entries lib c in
      case cr_AddFunc lib schedule task cleared of Inl _ \<Rightarrow> cleared | Inr added \<Rightarrow> cr_Start lib added)"

definition stopCron :: "('c, 't) cron_lib \<Rightarrow> 'c \<Rightarrow> 'c" where
  "stopCron lib c = cr_Stop lib (remove_entries lib c)"

definition backup_stopCron :: "('c, 't) cron_lib \<Rightarrow> 'c \<Rightarrow> 'c" where
  "backup_stopCron lib c = cr_Stop lib (remove_entries lib c)"

text \<open>The events of configurations that make a request: those of the operator's own object.\<close>

definition operator_config_requests :: "err + string \<Rightarrow> 'q DevWorkspaceOperatorConfig \<Rightarrow> (string \<times> string) list" where
  "operator_config_requests operatorNamespace object =
     (case operatorNamespace of
        Inl _ \<Rightarrow> []
      | Inr ns \<Rightarrow> if dwoc_Namespace object \<noteq> ns \<or> dwoc_Name object \<noteq> OperatorConfigName then [] else [(dwoc_Namespace object, dwoc_Name object)])"

datatype 'q config_event = ConfigCreated "'q DevWorkspaceOperatorConfig" | ConfigDeleted "'q DevWorkspaceOperatorConfig"
  | ConfigUpdated "'q DevWorkspaceOperatorConfig" "'q DevWorkspaceOperatorConfig" | ConfigGeneric "'q DevWorkspaceOperatorConfig"

text \<open>\<^verbatim>\<open>client.IgnoreNotFound\<close>.\<close>

fun IgnoreNotFound :: "api_err \<Rightarrow> api_err option" where
  "IgnoreNotFound (api_err.NotFound _) = None"
| "IgnoreNotFound e = Some e"

text \<open>The workspace section of a configuration, where both it and the configuration are there.\<close>

definition workspace_section :: "'q DevWorkspaceOperatorConfig \<Rightarrow> 'q WorkspaceConfig option" where
  "workspace_section dwoc = Option.bind (dwoc_Config dwoc) oc_Workspace"

section \<open>Clean-up: configuration\<close>

text \<open>
  The filter of updates reads the workspace sections without a test for nil, which panics, the outer \<open>None\<close>. \<open>different\<close> compares two pointers by what
  they point to.
\<close>

definition different :: "'a option \<Rightarrow> 'a option \<Rightarrow> bool" where
  "different a b = (case (a, b) of (None, None) \<Rightarrow> False | (Some x, Some y) \<Rightarrow> x \<noteq> y | _ \<Rightarrow> True)"

definition cleanup_changed :: "CleanupCronJobConfig option \<Rightarrow> CleanupCronJobConfig option \<Rightarrow> bool" where
  "cleanup_changed oldCleanup newCleanup =
     (case (oldCleanup, newCleanup) of
        (None, None) \<Rightarrow> False
      | (Some old, Some new) \<Rightarrow>
          if different (cj_Enable old) (cj_Enable new) then True
          else if different (cj_DryRun old) (cj_DryRun new) then True
          else if different (cj_RetainTime old) (cj_RetainTime new) then True
          else cj_Schedule old \<noteq> cj_Schedule new
      | _ \<Rightarrow> True)"

definition cleanup_shouldReconcileOnUpdate :: "'q DevWorkspaceOperatorConfig \<Rightarrow> 'q DevWorkspaceOperatorConfig \<Rightarrow> bool option" where
  "cleanup_shouldReconcileOnUpdate oldConfig newConfig =
     (case workspace_section oldConfig of
        None \<Rightarrow> None
      | Some old \<Rightarrow>
     (case workspace_section newConfig of
        None \<Rightarrow> None
      | Some new \<Rightarrow> Some (cleanup_changed (wc_CleanupCronJob old) (wc_CleanupCronJob new))))"

fun cleanup_configPredicate :: "'q config_event \<Rightarrow> bool option" where
  "cleanup_configPredicate (ConfigUpdated old new) = cleanup_shouldReconcileOnUpdate old new"
| "cleanup_configPredicate (ConfigCreated _) = Some True"
| "cleanup_configPredicate (ConfigDeleted _) = Some True"
| "cleanup_configPredicate (ConfigGeneric _) = Some False"

definition cleanup_startCron :: "('c, CleanupCronJobConfig) cron_lib \<Rightarrow> CleanupCronJobConfig \<Rightarrow> 'c \<Rightarrow> 'c" where
  "cleanup_startCron lib cleanupConfig c = schedule_task lib (cj_Schedule cleanupConfig) cleanupConfig c"

definition cleanup_Reconcile ::
  "('c, CleanupCronJobConfig) cron_lib \<Rightarrow> api_err + 'q DevWorkspaceOperatorConfig \<Rightarrow> 'c \<Rightarrow> api_err option \<times> 'c" where
  "cleanup_Reconcile lib got c =
     (case got of
        Inl e \<Rightarrow> (IgnoreNotFound e, stopCron lib c)
      | Inr dwOperatorConfig \<Rightarrow>
     (case dwoc_Config dwOperatorConfig of
        None \<Rightarrow> (None, stopCron lib c)
      | Some config \<Rightarrow>
     (case oc_Workspace config of
        None \<Rightarrow> (None, stopCron lib c)
      | Some workspace \<Rightarrow>
     (case wc_CleanupCronJob workspace of
        None \<Rightarrow> (None, stopCron lib c)
      | Some cleanupConfig \<Rightarrow>
          if cj_Enable cleanupConfig \<noteq> Some True then (None, stopCron lib c)
          else if cj_Schedule cleanupConfig = [] then (None, stopCron lib c)
          else (None, cleanup_startCron lib cleanupConfig c)))))"

section \<open>Clean-up: pruning\<close>

text \<open>An object that the pruner lists: a workspace, or something that is not one.\<close>

datatype prune_object = ListedWorkspace DevWorkspace | ListedOther string

definition canPrune :: "int \<Rightarrow> DevWorkspace \<Rightarrow> int \<Rightarrow> bool" where
  "canPrune now dw retainTime =
     (if dw_Started dw then False
      else case GetConditionByType (ws_Conditions (dw_Status dw)) Started of
        None \<Rightarrow> False
      | Some startedCondition \<Rightarrow> if now - cond_Time startedCondition \<le> retainTime then False else True)"

definition filterByInactivityTime :: "int \<Rightarrow> prune_object list \<Rightarrow> int \<Rightarrow> prune_object list" where
  "filterByInactivityTime now objs retainTime =
     [obj \<leftarrow> objs. case obj of ListedWorkspace devWorkspace \<Rightarrow> canPrune now devWorkspace retainTime | ListedOther _ \<Rightarrow> False]"

type_synonym prune_strategy = "prune_object list \<Rightarrow> err + prune_object list"

definition pruneStrategy :: "int \<Rightarrow> int \<Rightarrow> prune_strategy" where
  "pruneStrategy now retainTime objs = Inr (filterByInactivityTime now objs retainTime)"

definition dryRunPruneStrategy :: "int \<Rightarrow> int \<Rightarrow> prune_strategy" where
  "dryRunPruneStrategy now retainTime objs = Inr []"

text \<open>
  \<open>prune\<close> makes a pruner with a strategy and runs it: its result are the objects that it has deleted, also before an error, and the error, if any.
\<close>

type_synonym pruner = "prune_strategy \<Rightarrow> prune_object list \<times> err option"

definition pruneDevWorkspaces :: "int \<Rightarrow> pruner \<Rightarrow> int \<Rightarrow> bool \<Rightarrow> prune_object list \<times> err option" where
  "pruneDevWorkspaces now prune retainTime dryRun =
     (case prune (if dryRun then dryRunPruneStrategy now retainTime else pruneStrategy now retainTime) of
        (deletedObjects, Some e) \<Rightarrow> (deletedObjects, Some (''failed to prune objects: '' @ e))
      | (deletedObjects, None) \<Rightarrow> (deletedObjects, None))"

text \<open>The scheduled task; an error is only logged, \<open>None\<close> is a panic.\<close>

definition cleanup_task :: "int \<Rightarrow> pruner \<Rightarrow> CleanupCronJobConfig \<Rightarrow> (prune_object list \<times> err option) option" where
  "cleanup_task now prune cleanupConfig =
     map_option (\<lambda>retain. pruneDevWorkspaces now prune (retain * 1000000000) (cj_DryRun cleanupConfig = Some True)) (cj_RetainTime cleanupConfig)"

section \<open>Back-up: configuration\<close>

definition isBackupEnabled :: "'q DevWorkspaceOperatorConfig \<Rightarrow> bool" where
  "isBackupEnabled config = (case Option.bind (workspace_section config) wc_BackupCronJob of None \<Rightarrow> False | Some backup \<Rightarrow> bj_Enable backup = Some True)"

definition backup_shouldReconcileOnUpdate :: "'q DevWorkspaceOperatorConfig \<Rightarrow> 'q DevWorkspaceOperatorConfig \<Rightarrow> bool option" where
  "backup_shouldReconcileOnUpdate oldConfig newConfig =
     (case workspace_section oldConfig of
        None \<Rightarrow> None
      | Some old \<Rightarrow>
     (case workspace_section newConfig of
        None \<Rightarrow> None
      | Some new \<Rightarrow> Some (wc_BackupCronJob old \<noteq> wc_BackupCronJob new)))"

fun backup_configPredicate :: "'q config_event \<Rightarrow> bool option" where
  "backup_configPredicate (ConfigUpdated old new) = backup_shouldReconcileOnUpdate old new"
| "backup_configPredicate (ConfigCreated _) = Some True"
| "backup_configPredicate (ConfigDeleted _) = Some True"
| "backup_configPredicate (ConfigGeneric _) = Some False"

text \<open>The task is the configuration that it uses. An enabled job has a back-up section, so the schedule can be read.\<close>

definition backup_Reconcile ::
  "('c, 'q DevWorkspaceOperatorConfig) cron_lib \<Rightarrow> api_err + 'q DevWorkspaceOperatorConfig \<Rightarrow> 'c \<Rightarrow> api_err option \<times> 'c" where
  "backup_Reconcile lib got c =
     (case got of
        Inl e \<Rightarrow> (IgnoreNotFound e, backup_stopCron lib c)
      | Inr dwOperatorConfig \<Rightarrow>
          if \<not> isBackupEnabled dwOperatorConfig then (None, backup_stopCron lib c)
          else (case Option.bind (workspace_section dwOperatorConfig) wc_BackupCronJob of
             None \<Rightarrow> (None, remove_entries lib c)
           | Some backUpConfig \<Rightarrow> (None, schedule_task lib (bj_Schedule backUpConfig) dwOperatorConfig c)))"

section \<open>Back-up: workspaces\<close>

definition DevWorkspaceBackupJobNamePrefix :: string where "DevWorkspaceBackupJobNamePrefix = ''devworkspace-backup-''"
definition DevWorkspaceBackupJobLabel :: string where "DevWorkspaceBackupJobLabel = ''controller.devfile.io/backup-job''"
definition DevWorkspaceLastBackupSuccessfulAnnotation :: string where
  "DevWorkspaceLastBackupSuccessfulAnnotation = ''controller.devfile.io/last-backup-successful''"
definition DevWorkspaceLastBackupFinishedAtAnnotation :: string where
  "DevWorkspaceLastBackupFinishedAtAnnotation = ''controller.devfile.io/last-backup-finished-at''"
definition DevWorkspaceLastBackupErrorAnnotation :: string where
  "DevWorkspaceLastBackupErrorAnnotation = ''controller.devfile.io/last-backup-error''"
definition JobRunnerSAName :: string where "JobRunnerSAName = ''devworkspace-job-runner''"
definition RegistryAuthVolumeName :: string where "RegistryAuthVolumeName = ''registry-auth-secret''"
definition RegistryImageBuilderRoleName :: string where "RegistryImageBuilderRoleName = ''system:image-builder''"

lemmas backup_annotations = DevWorkspaceLastBackupSuccessfulAnnotation_def DevWorkspaceLastBackupFinishedAtAnnotation_def DevWorkspaceLastBackupErrorAnnotation_def

text \<open>A workspace as the job sees it: the object, and what its names and template are.\<close>

record 'q backup_workspace =
  bw_Object :: DevWorkspace
  bw_Workspace :: "'q WorkspaceWithConfig"

record 'q backup_env =
  bk_additions :: "'q additions_env"
  bk_openshift :: bool
  bk_now :: int
  bk_parseTime :: "string \<Rightarrow> err + int"
  bk_formatTime :: "int \<Rightarrow> string"
  bk_generateName :: "string \<Rightarrow> 'q objects \<Rightarrow> string"
  bk_workspaces :: "api_err + 'q backup_workspace list"
  bk_patchStatus :: "api_err option"  \<comment> \<open>of the configuration\<close>

text \<open>The zero value of \<^verbatim>\<open>time.Time\<close>, the first of January of year one.\<close>

definition zero_time :: int where "zero_time = -62135596800000000000"

definition lastTimeStopped :: "Condition list \<Rightarrow> int" where
  "lastTimeStopped conditions =
     fold (\<lambda>condition time. if cond_Type condition = Started \<and> cond_Status condition = ConditionFalse then cond_Time condition else time) conditions zero_time"

definition wasStoppedSinceLastBackup :: "(string \<Rightarrow> err + int) \<Rightarrow> DevWorkspace \<Rightarrow> int option \<Rightarrow> bool" where
  "wasStoppedSinceLastBackup parseTime devWorkspace globalLastBackupTime =
     (if dw_Phase devWorkspace \<noteq> PhaseStopped then False
      else
        let annotated = (case map_of (dw_Annotations devWorkspace) DevWorkspaceLastBackupFinishedAtAnnotation of
               None \<Rightarrow> None
             | Some lastBackupFinishedAtStr \<Rightarrow> (case parseTime lastBackupFinishedAtStr of Inl _ \<Rightarrow> None | Inr parsedTime \<Rightarrow> Some parsedTime));
            (lastBackupFinishedAt, lastBackupSuccessful) =
              (if annotated = None then (globalLastBackupTime, True)
               else (annotated, map_of (dw_Annotations devWorkspace) DevWorkspaceLastBackupSuccessfulAnnotation = Some ''true'')) in
        (case lastBackupFinishedAt of
           None \<Rightarrow> True
         | Some finished \<Rightarrow>
             if \<not> lastBackupSuccessful then True
             else
               let stopped = lastTimeStopped (ws_Conditions (dw_Status devWorkspace)) in
               if stopped \<noteq> zero_time then stopped > finished else False))"

section \<open>Back-up: rights of the job\<close>

abbreviation bk_api :: "'q backup_env \<Rightarrow> 'q api_env" where
  "bk_api env \<equiv> ad_api (bk_additions env)"

definition id_label :: "'q WorkspaceWithConfig \<Rightarrow> (string, string) gomap" where
  "id_label w = Some [(DevWorkspaceIDLabel, wwc_Id w)]"

text \<open>An object that is not yet in sync is good enough.\<close>

definition ensure_synced :: "'q backup_env \<Rightarrow> string \<Rightarrow> 'q object \<Rightarrow> 'q objects \<Rightarrow> err option \<times> 'q objects" where
  "ensure_synced env message obj cl =
     (case SyncObjectWithCluster (bk_api env) obj cl of
        (Inr _, cl') \<Rightarrow> (None, cl')
      | (Inl (NotInSyncError _ _), cl') \<Rightarrow> (None, cl')
      | (Inl e, cl') \<Rightarrow> (Some (message @ sync_err_text e), cl'))"

definition job_runner :: "'q WorkspaceWithConfig \<Rightarrow> string" where
  "job_runner w = JobRunnerSAName @ ''-'' @ wwc_Id w"

definition ensureImagePushRoleBinding :: "'q backup_env \<Rightarrow> string \<Rightarrow> 'q WorkspaceWithConfig \<Rightarrow> 'q objects \<Rightarrow> err option \<times> 'q objects" where
  "ensureImagePushRoleBinding env saName w cl =
     (let roleBinding = rbac_object (''devworkspace-image-builder-'' @ wwc_Id w) (wwc_Namespace w) (id_label w)
            (RoleBindingContent \<lparr>rb_RoleKind = RbacClusterRoleKind, rb_RoleName = RegistryImageBuilderRoleName, rb_Subjects = [account_subject saName (wwc_Namespace w)]\<rparr>) in
      case SetControllerReference (ad_storage (bk_additions env)) w roleBinding of
        Inl e \<Rightarrow> (Some (''failed to set controller reference for RoleBinding '' @ o_Namespace roleBinding @ ''/'' @ o_Name roleBinding @ '': '' @ e), cl)
      | Inr owned \<Rightarrow> ensure_synced env ''ensuring RoleBinding: '' owned cl)"

text \<open>\<^verbatim>\<open>CreateOrUpdate\<close> with a function that changes nothing.\<close>

definition ensureImageStreamForBackup :: "'q backup_env \<Rightarrow> 'q WorkspaceWithConfig \<Rightarrow> 'q objects \<Rightarrow> err option \<times> 'q objects" where
  "ensureImageStreamForBackup env w cl =
     (let imageStream = rbac_object (wwc_Name w) (wwc_Namespace w) (id_label w) (UnrecognizedContent ''ImageStream'' (Opaque ''lookupPolicy.local=true'')) in
      case client_Get (bk_api env) (obj_key_of imageStream) cl of
        Inr _ \<Rightarrow> (None, cl)
      | Inl (api_err.NotFound _) \<Rightarrow>
          (case client_Create (bk_api env) imageStream cl of
             (None, cl') \<Rightarrow> (None, cl')
           | (Some e, cl') \<Rightarrow> (Some (''ensuring ImageStream: '' @ api_err_text e), cl'))
      | Inl e \<Rightarrow> (Some (''ensuring ImageStream: '' @ api_err_text e), cl))"

definition ensureJobRunnerRBAC :: "'q backup_env \<Rightarrow> 'q WorkspaceWithConfig \<Rightarrow> 'q objects \<Rightarrow> err option \<times> 'q objects" where
  "ensureJobRunnerRBAC env w cl =
     (let sa = rbac_object (job_runner w) (wwc_Namespace w) (id_label w) (ServiceAccountContent \<lparr>sa_Created = 0, sa_AutomountToken = None, sa_ImagePullSecrets = []\<rparr>) in
      case SetControllerReference (ad_storage (bk_additions env)) w sa of
        Inl e \<Rightarrow> (Some e, cl)
      | Inr owned \<Rightarrow>
     (case ensure_synced env ''synchronizing ServiceAccount: '' owned cl of
        (Some e, cl') \<Rightarrow> (Some e, cl')
      | (None, cl') \<Rightarrow>
          if \<not> bk_openshift env then (None, cl')
          else
     (case ensureImagePushRoleBinding env (job_runner w) w cl' of
        (Some e, cl'') \<Rightarrow> (Some (''ensuring image push ClusterRoleBinding: '' @ e), cl'')
      | (None, cl'') \<Rightarrow>
     (case ensureImageStreamForBackup env w cl'' of
        (Some e, cl3) \<Rightarrow> (Some (''ensuring ImageStream for backup: '' @ e), cl3)
      | (None, cl3) \<Rightarrow> (None, cl3)))))"

section \<open>Back-up: the job\<close>

definition getImagePullPolicy :: "'q WorkspaceConfig \<Rightarrow> string" where
  "getImagePullPolicy config = (if wc_ImagePullPolicy config \<noteq> [] then wc_ImagePullPolicy config else ''Always'')"

definition backup_container :: "'q backup_env \<Rightarrow> 'q WorkspaceWithConfig \<Rightarrow> 'q WorkspaceConfig \<Rightarrow> string \<Rightarrow> string \<Rightarrow> string \<Rightarrow> 'q object option \<Rightarrow> 'q Container" where
  "backup_container env w config workspacePath registryPath orasExtraArgs registryAuthSecret =
     empty_container\<lparr>c_Name := ''backup-workspace'',
       c_Env := Some ([plain_env ''DEVWORKSPACE_NAME'' (wwc_Name w), plain_env ''DEVWORKSPACE_NAMESPACE'' (wwc_Namespace w), plain_env ''WORKSPACE_ID'' (wwc_Id w),
         plain_env ''BACKUP_SOURCE_PATH'' (''/workspace/'' @ workspacePath), plain_env ''DEVWORKSPACE_BACKUP_REGISTRY'' registryPath,
         plain_env ''ORAS_EXTRA_ARGS'' orasExtraArgs] @
         (if registryAuthSecret = None then [] else [plain_env ''REGISTRY_AUTH_FILE'' ''/tmp/.docker/.dockerconfigjson''])),
       c_Image := ad_backupImage (bk_additions env), c_ImagePullPolicy := getImagePullPolicy config,
       c_Args := Some [''/workspace-recovery.sh'', ''--backup''],
       c_VolumeMounts := [plain_mount ''workspace-data'' ''/workspace'', plain_mount ''build-storage'' ''/var/lib/containers''] @
         (if registryAuthSecret = None then [] else [(plain_mount RegistryAuthVolumeName ''/tmp/.docker'')\<lparr>vm_ReadOnly := True\<rparr>]),
       c_SecurityContext := Some (no_security_context\<lparr>sc_AllowPrivilegeEscalation := Some False\<rparr>)\<rparr>"

definition backup_job ::
  "'q backup_env \<Rightarrow> 'q WorkspaceWithConfig \<Rightarrow> 'q WorkspaceConfig \<Rightarrow> BackupCronJobConfig \<Rightarrow> string \<Rightarrow> string \<Rightarrow> string \<Rightarrow> 'q object option \<Rightarrow> string \<Rightarrow> 'q object" where
  "backup_job env w config backUpConfig registryPath pvcName workspacePath registryAuthSecret name =
     rbac_object name (wwc_Namespace w)
       (Some [(DevWorkspaceIDLabel, wwc_Id w), (DevWorkspaceNameLabel, wwc_Name w), (DevWorkspaceBackupJobLabel, ''true'')])
       (JobContent \<lparr>job_Completions = None, job_BackoffLimit = bj_BackoffLimit backUpConfig, job_TTLSecondsAfterFinished = Some 120, job_TemplateLabels = None,
          job_TemplateAnnotations = Some [(''io.kubernetes.cri-o.Devices'', ''/dev/fuse'')],
          job_PodSpec = empty_pod_spec\<lparr>p_ServiceAccountName := job_runner w, p_RestartPolicy := ''Never'', p_SecurityContext := wc_PodSecurityContext config,
            p_Containers := Some [backup_container env w config workspacePath registryPath
              (case bj_OrasConfig backUpConfig of None \<Rightarrow> [] | Some oras \<Rightarrow> oras_ExtraArgs oras) registryAuthSecret],
            p_Volumes := Some ([volume_of ''workspace-data'' PersistentVolumeClaim (ClaimData pvcName False), volume_of ''build-storage'' EmptyDir (EmptyDirData None)] @
              (case registryAuthSecret of None \<Rightarrow> [] | Some secret \<Rightarrow> [volume_of RegistryAuthVolumeName Secret (SecretData (o_Name secret) [] None)]))\<rparr>,
          job_Conditions = []\<rparr>)"

text \<open>
  The configuration is the one of the operator, not the one resolved for the workspace. Reading a section that is not there panics. Without a claim there is nothing
  to do.
\<close>

definition createBackupJob ::
  "'q backup_env \<Rightarrow> 'q WorkspaceWithConfig \<Rightarrow> 'q DevWorkspaceOperatorConfig \<Rightarrow> 'q objects \<Rightarrow> unit go_result \<times> 'q objects" where
  "createBackupJob env workspace dwOperatorConfig cl =
     (case dwoc_Config dwOperatorConfig of
        None \<Rightarrow> (Panic, cl)
      | Some config \<Rightarrow>
     (case oc_Workspace config of
        None \<Rightarrow> (Panic, cl)
      | Some section \<Rightarrow>
          let w = workspace\<lparr>wwc_Config := config, wwc_Workspace := section\<rparr> in
     (case HandleRegistryAuthSecret (bk_additions env) w (dwoc_Namespace dwOperatorConfig) cl of
        (Inl e, cl') \<Rightarrow> (Err e, cl')
      | (Inr registryAuthSecret, cl') \<Rightarrow>
     (case GetWorkspacePVCInfo (ad_library (bk_additions env)) w of
        Inl e \<Rightarrow> (Err e, cl')
      | Inr (pvcName, workspacePath) \<Rightarrow>
          if pvcName = [] then (Ok (), cl')
          else
     (case client_Get (bk_api env) (pvc_key (wwc_Namespace w) pvcName) cl' of
        Inl e \<Rightarrow> (Err (api_err_text e), cl')
      | Inr pvc \<Rightarrow>
     (case wc_BackupCronJob section of
        None \<Rightarrow> (Panic, cl')
      | Some backUpConfig \<Rightarrow>
     (case bj_Registry backUpConfig of
        None \<Rightarrow> (Panic, cl')
      | Some registry \<Rightarrow>
     (case SetControllerReference (ad_storage (bk_additions env)) w
             (backup_job env w section backUpConfig (reg_Path registry) (o_Name pvc) workspacePath registryAuthSecret
               (bk_generateName env DevWorkspaceBackupJobNamePrefix cl')) of
        Inl e \<Rightarrow> (Err e, cl')
      | Inr job \<Rightarrow>
     (case client_Create (bk_api env) job cl' of
        (None, cl'') \<Rightarrow> (Ok (), cl'')
      | (Some e, cl'') \<Rightarrow> (Err (api_err_text e), cl''))))))))))"

text \<open>One workspace after the other; an error ends the work on the workspace, a panic the whole.\<close>

fun backup_workspaces ::
  "'q backup_env \<Rightarrow> 'q DevWorkspaceOperatorConfig \<Rightarrow> int option \<Rightarrow> 'q backup_workspace list \<Rightarrow> 'q objects \<Rightarrow> unit go_result \<times> 'q objects" where
  "backup_workspaces env dwOperatorConfig lastBackupTime [] cl = (Ok (), cl)"
| "backup_workspaces env dwOperatorConfig lastBackupTime (dw # items) cl =
     (if \<not> wasStoppedSinceLastBackup (bk_parseTime env) (bw_Object dw) lastBackupTime then backup_workspaces env dwOperatorConfig lastBackupTime items cl
      else
     (case ensureJobRunnerRBAC env (bw_Workspace dw) cl of
        (Some _, cl') \<Rightarrow> backup_workspaces env dwOperatorConfig lastBackupTime items cl'
      | (None, cl') \<Rightarrow>
     (case createBackupJob env (bw_Workspace dw) dwOperatorConfig cl' of
        (Panic, cl'') \<Rightarrow> (Panic, cl'')
      | (_, cl'') \<Rightarrow> backup_workspaces env dwOperatorConfig lastBackupTime items cl'')))"

text \<open>The time of the last run is part of the state of the task.\<close>

definition executeBackupSync ::
  "'q backup_env \<Rightarrow> 'q DevWorkspaceOperatorConfig \<Rightarrow> int option \<Rightarrow> 'q objects \<Rightarrow> unit go_result \<times> int option \<times> 'q objects" where
  "executeBackupSync env dwOperatorConfig lastBackupTime cl =
     (case bk_workspaces env of
        Inl e \<Rightarrow> (Err (api_err_text e), lastBackupTime, cl)
      | Inr items \<Rightarrow>
     (case backup_workspaces env dwOperatorConfig lastBackupTime items cl of
        (Panic, cl') \<Rightarrow> (Panic, lastBackupTime, cl')
      | (_, cl') \<Rightarrow>
          ((case bk_patchStatus env of None \<Rightarrow> Ok () | Some e \<Rightarrow> Err (api_err_text e)), Some (bk_now env), cl')))"

section \<open>Back-up: outcome of a job\<close>

record JobCondition =
  jc_Type :: string
  jc_Status :: string
  jc_Time :: int
  jc_Message :: string

record finished_job =
  fj_Name :: string
  fj_Namespace :: string
  fj_Labels :: "(string, string) gomap"
  fj_Conditions :: "JobCondition list"

definition backup_job_predicate :: "finished_job \<Rightarrow> bool" where
  "backup_job_predicate job \<longleftrightarrow> go_at (fj_Labels job) DevWorkspaceBackupJobLabel = ''true'' \<and> go_at (fj_Labels job) DevWorkspaceNameLabel \<noteq> []"

definition recordBackupSuccess :: "(int \<Rightarrow> string) \<Rightarrow> JobCondition \<Rightarrow> DevWorkspace \<Rightarrow> DevWorkspace" where
  "recordBackupSuccess formatTime condition devWorkspace =
     devWorkspace\<lparr>dw_Annotations :=
       AList.delete DevWorkspaceLastBackupErrorAnnotation
         (AList.update DevWorkspaceLastBackupFinishedAtAnnotation (formatTime (jc_Time condition))
           (AList.update DevWorkspaceLastBackupSuccessfulAnnotation ''true'' (dw_Annotations devWorkspace)))\<rparr>"

definition maxLength :: nat where "maxLength = 1024"

definition truncated_message :: "string \<Rightarrow> string" where
  "truncated_message errorMsg = (if length errorMsg > maxLength then take (maxLength - 3) errorMsg @ ''...'' else errorMsg)"

definition recordBackupFailure :: "(int \<Rightarrow> string) \<Rightarrow> JobCondition \<Rightarrow> DevWorkspace \<Rightarrow> DevWorkspace" where
  "recordBackupFailure formatTime condition devWorkspace =
     devWorkspace\<lparr>dw_Annotations :=
       AList.update DevWorkspaceLastBackupErrorAnnotation (truncated_message (jc_Message condition))
         (AList.update DevWorkspaceLastBackupFinishedAtAnnotation (formatTime (jc_Time condition))
           (AList.update DevWorkspaceLastBackupSuccessfulAnnotation ''false'' (dw_Annotations devWorkspace)))\<rparr>"

text \<open>The workspace of the label, by namespace and name.\<close>

definition getWorkspaceFromJob :: "(string \<Rightarrow> string \<Rightarrow> err + DevWorkspace) \<Rightarrow> finished_job \<Rightarrow> err + DevWorkspace" where
  "getWorkspaceFromJob get job =
     (case go_get (fj_Labels job) DevWorkspaceNameLabel of
        None \<Rightarrow> Inl (''DevWorkspace name label not found for job '' @ fj_Name job @ '' in namespace '' @ fj_Namespace job)
      | Some devWorkspaceName \<Rightarrow>
          if devWorkspaceName = [] then Inl (''DevWorkspace name label not found for job '' @ fj_Name job @ '' in namespace '' @ fj_Namespace job)
          else get (fj_Namespace job) devWorkspaceName)"

text \<open>The workspace as it is patched, if a condition tells that the job has ended. A patch that fails is only logged.\<close>

fun backup_outcome ::
  "(int \<Rightarrow> string) \<Rightarrow> (string \<Rightarrow> string \<Rightarrow> err + DevWorkspace) \<Rightarrow> finished_job \<Rightarrow> JobCondition list \<Rightarrow> err + DevWorkspace option" where
  "backup_outcome formatTime get job [] = Inr None"
| "backup_outcome formatTime get job (condition # conditions) =
     (if jc_Status condition \<noteq> ''True'' then backup_outcome formatTime get job conditions
      else if jc_Type condition \<noteq> ''Complete'' \<and> jc_Type condition \<noteq> ''Failed'' then backup_outcome formatTime get job conditions
      else
     (case getWorkspaceFromJob get job of
        Inl e \<Rightarrow> Inl e
      | Inr devWorkspace \<Rightarrow>
          Inr (Some ((if jc_Type condition = ''Complete'' then recordBackupSuccess else recordBackupFailure) formatTime condition devWorkspace))))"

definition handleBackupJobStatus :: "(int \<Rightarrow> string) \<Rightarrow> (string \<Rightarrow> string \<Rightarrow> err + DevWorkspace) \<Rightarrow> finished_job \<Rightarrow> err + DevWorkspace option" where
  "handleBackupJobStatus formatTime get job = backup_outcome formatTime get job (fj_Conditions job)"

end
