(* ===== verification/Cron_Correct.thy ===== *)
theory Cron_Correct
  imports Cron_Jobs Additions_Correct
begin

text \<open>
  The scheduled jobs: what is scheduled is what the last configuration asks for, only stale workspaces are pruned, a recorded back-up is taken into account, and a
  scheduled back-up does not panic. Two ways in which a back-up is lost are at the end.
\<close>

section \<open>The schedule\<close>

text \<open>What the code relies on of the scheduler: \<open>valid\<close> are the schedules that it can parse.\<close>

definition cron_laws :: "('c, 't) cron_lib \<Rightarrow> (string \<Rightarrow> bool) \<Rightarrow> bool" where
  "cron_laws lib valid \<longleftrightarrow>
     (\<forall>n c. cr_Entries lib (cr_Remove lib n c) = [e \<leftarrow> cr_Entries lib c. fst e \<noteq> n]) \<and>
     (\<forall>s t c. case cr_AddFunc lib s t c of
        Inl _ \<Rightarrow> \<not> valid s
      | Inr c' \<Rightarrow> valid s \<and> (\<exists>n. cr_Entries lib c' = cr_Entries lib c @ [(n, s, t)])) \<and>
     (\<forall>c. cr_Entries lib (cr_Start lib c) = cr_Entries lib c \<and> cr_Entries lib (cr_Stop lib c) = cr_Entries lib c)"

lemma remove_listed:
  assumes "\<And>n c. cr_Entries lib (cr_Remove lib n c) = [e \<leftarrow> cr_Entries lib c. fst e \<noteq> n]"
  shows "cr_Entries lib (fold (\<lambda>entry. cr_Remove lib (fst entry)) es c) = [e \<leftarrow> cr_Entries lib c. fst e \<notin> fst ` set es]"
  by (induction es arbitrary: c) (auto simp: assms intro: filter_cong)

lemma remove_entries_all: "cron_laws lib valid \<Longrightarrow> cr_Entries lib (remove_entries lib c) = []"
  using remove_listed [of lib "cr_Entries lib c" c] by (auto simp: cron_laws_def remove_entries_def filter_empty_conv)

text \<open>A reconciler that schedules the task that \<open>asked\<close> reads from the configuration, and stops the scheduler where there is none.\<close>

locale cron_reconciler =
  fixes reconcile :: "('c, 't) cron_lib \<Rightarrow> api_err + 'q DevWorkspaceOperatorConfig \<Rightarrow> 'c \<Rightarrow> api_err option \<times> 'c"
    and asked :: "'q DevWorkspaceOperatorConfig \<Rightarrow> (string \<times> 't) option"
  assumes reconcile_cron: "snd (reconcile lib got c) =
    (case got of Inl _ \<Rightarrow> stopCron lib c | Inr dwoc \<Rightarrow> (case asked dwoc of None \<Rightarrow> stopCron lib c | Some (schedule, task) \<Rightarrow> schedule_task lib schedule task c))"
begin

lemma scheduled_once:
  assumes "cron_laws lib valid"
  shows "map snd (cr_Entries lib (snd (reconcile lib got c))) =
    (case got of Inl _ \<Rightarrow> [] | Inr dwoc \<Rightarrow> [st \<leftarrow> case_option [] (\<lambda>st. [st]) (asked dwoc). valid (fst st)])"
proof -
  have stop: "cr_Entries lib (stopCron lib c) = []"
    using assms remove_entries_all [OF assms] by (simp add: stopCron_def cron_laws_def)
  have "map snd (cr_Entries lib (schedule_task lib s t c)) = (if valid s then [(s, t)] else [])" for s t
    using assms remove_entries_all [OF assms, of c]
    by (auto simp: schedule_task_def cron_laws_def Let_def split: sum.splits) (metis (no_types, lifting) append_Nil list.simps(8,9) snd_conv sum.sel)+
  then show ?thesis by (auto simp: reconcile_cron stop split: sum.splits option.splits)
qed

text \<open>Whatever was reconciled before, the last configuration decides.\<close>

lemma last_decides:
  assumes "cron_laws lib valid"
  shows "map snd (cr_Entries lib (fold (\<lambda>got c. snd (reconcile lib got c)) (gots @ [got]) c)) =
    (case got of Inl _ \<Rightarrow> [] | Inr dwoc \<Rightarrow> [st \<leftarrow> case_option [] (\<lambda>st. [st]) (asked dwoc). valid (fst st)])"
  using scheduled_once [OF assms] by simp

end

definition cleanup_asked :: "'q DevWorkspaceOperatorConfig \<Rightarrow> (string \<times> CleanupCronJobConfig) option" where
  "cleanup_asked dwoc = (case Option.bind (workspace_section dwoc) wc_CleanupCronJob of
     None \<Rightarrow> None | Some config \<Rightarrow> if cj_Enable config = Some True \<and> cj_Schedule config \<noteq> [] then Some (cj_Schedule config, config) else None)"

definition backup_asked :: "'q DevWorkspaceOperatorConfig \<Rightarrow> (string \<times> 'q DevWorkspaceOperatorConfig) option" where
  "backup_asked dwoc = (case Option.bind (workspace_section dwoc) wc_BackupCronJob of
     None \<Rightarrow> None | Some config \<Rightarrow> if bj_Enable config = Some True then Some (bj_Schedule config, dwoc) else None)"

interpretation cleanup_cron: cron_reconciler cleanup_Reconcile cleanup_asked
  by unfold_locales (auto simp: cleanup_Reconcile_def cleanup_startCron_def cleanup_asked_def workspace_section_def split: sum.splits option.splits)

interpretation backup_cron: cron_reconciler backup_Reconcile backup_asked
  by unfold_locales (auto simp: backup_Reconcile_def backup_stopCron_def stopCron_def backup_asked_def isBackupEnabled_def split: sum.splits option.splits)

text \<open>
  (C33) After any sequence of configurations the clean-up reconciler has scheduled the job of the last one and nothing else: one task with the schedule and the settings
  of the configuration if it is enabled and the schedule is valid, none otherwise, whatever was scheduled before.
\<close>

theorem cleanup_schedule_follows_last:
  assumes "cron_laws lib valid"
  shows "map snd (cr_Entries lib (fold (\<lambda>got c. snd (cleanup_Reconcile lib got c)) (gots @ [got]) c)) =
    (case got of Inl _ \<Rightarrow> [] | Inr dwoc \<Rightarrow> [st \<leftarrow> case_option [] (\<lambda>st. [st]) (cleanup_asked dwoc). valid (fst st)])"
  by (rule cleanup_cron.last_decides [OF assms])

text \<open>
  The filters of updates do not have the tests that the reconcilers have: an update of the configuration to or from one without a workspace section panics, where a
  reconcile of the same configuration stops the scheduler.
\<close>

lemma update_without_section_panics:
  assumes "workspace_section old = None \<or> workspace_section new = None"
  shows "cleanup_configPredicate (ConfigUpdated old new) = None \<and> backup_configPredicate (ConfigUpdated old new) = None"
  using assms by (auto simp: cleanup_shouldReconcileOnUpdate_def backup_shouldReconcileOnUpdate_def split: option.splits)

section \<open>Pruning\<close>

text \<open>What the code relies on of the pruner: it deletes only what the strategy selects from what it has listed.\<close>

definition prunes_selected :: "pruner \<Rightarrow> bool" where
  "prunes_selected prune \<longleftrightarrow>
     (\<forall>strategy deleted e. prune strategy = (deleted, e) \<longrightarrow> deleted \<noteq> [] \<longrightarrow> (\<exists>objs selected. strategy objs = Inr selected \<and> set deleted \<subseteq> set selected))"

lemma pruned_by_strategy:
  assumes "pruneDevWorkspaces now prune retain dry = (deleted, e)"
  shows "\<exists>e'. prune (if dry then dryRunPruneStrategy now retain else pruneStrategy now retain) = (deleted, e')"
  using assms by (cases "prune (if dry then dryRunPruneStrategy now retain else pruneStrategy now retain)")
    (simp add: pruneDevWorkspaces_def split: option.splits)

text \<open>
  The clean-up job, also one that ends with an error, deletes only workspaces that are not started and whose \<^verbatim>\<open>Started\<close> condition has last changed longer ago
  than the time to retain, and in a dry run nothing. For a workspace that is not started the last change is the stop: the code measures from there, although the
  documentation of the time to retain says that it counts from the last start.
\<close>

theorem pruned_workspaces_stale:
  assumes "cleanup_task now prune config = Some (deleted, e)" "prunes_selected prune" "obj \<in> set deleted"
  shows "cj_DryRun config \<noteq> Some True \<and>
    (\<exists>w condition retain. obj = ListedWorkspace w \<and> \<not> dw_Started w \<and> GetConditionByType (ws_Conditions (dw_Status w)) Started = Some condition \<and>
       cj_RetainTime config = Some retain \<and> cond_Time condition < now - retain * 1000000000)"
proof -
  define dry where "dry \<longleftrightarrow> cj_DryRun config = Some True"
  from assms(1) obtain retain e' where retain: "cj_RetainTime config = Some retain"
    and run: "prune (if dry then dryRunPruneStrategy now (retain * 1000000000) else pruneStrategy now (retain * 1000000000)) = (deleted, e')"
    by (auto simp: cleanup_task_def dry_def dest: pruned_by_strategy)
  from assms(2) obtain objs selected where
    sel: "(if dry then dryRunPruneStrategy now (retain * 1000000000) else pruneStrategy now (retain * 1000000000)) objs = Inr selected" "set deleted \<subseteq> set selected"
    using assms(3) run unfolding prunes_selected_def by (metis empty_iff empty_set)
  from sel assms(3) have "\<not> dry" by (auto simp: dryRunPruneStrategy_def)
  with sel assms(3) have "obj \<in> set (filterByInactivityTime now objs (retain * 1000000000))" by (auto simp: pruneStrategy_def)
  with \<open>\<not> dry\<close> retain show ?thesis
    by (auto simp: dry_def filterByInactivityTime_def canPrune_def split: prune_object.splits if_splits option.splits)
qed

section \<open>Selection for a back-up\<close>

lemma after_record [simp]:
  "dw_Status (recordBackupSuccess formatTime c w) = dw_Status w" "dw_Status (recordBackupFailure formatTime c w) = dw_Status w"
  by (simp_all add: recordBackupSuccess_def recordBackupFailure_def)

text \<open>
  (C35) What the outcome of a job records decides the next run: after a success a stopped workspace is backed up again only if it was stopped after the end of that
  back-up, after a failure it is backed up again in any case, whatever the time of the last run of the operator. The text of the error fits an annotation.
\<close>

theorem recorded_backup_decides:
  assumes "parseTime (formatTime (jc_Time condition)) = Inr (jc_Time condition)"
  shows "(wasStoppedSinceLastBackup parseTime (recordBackupSuccess formatTime condition w) lastRun \<longleftrightarrow>
      dw_Phase w = PhaseStopped \<and> lastTimeStopped (ws_Conditions (dw_Status w)) \<noteq> zero_time \<and> jc_Time condition < lastTimeStopped (ws_Conditions (dw_Status w))) \<and>
    (wasStoppedSinceLastBackup parseTime (recordBackupFailure formatTime condition w) lastRun \<longleftrightarrow> dw_Phase w = PhaseStopped) \<and>
    (\<exists>m. map_of (dw_Annotations (recordBackupFailure formatTime condition w)) DevWorkspaceLastBackupErrorAnnotation = Some m \<and> length m \<le> maxLength)"
proof -
  have "length (truncated_message m) \<le> maxLength" for m by (simp add: truncated_message_def maxLength_def)
  then show ?thesis
    using assms
    by (simp add: wasStoppedSinceLastBackup_def recordBackupSuccess_def recordBackupFailure_def backup_annotations update_conv' delete_conv' Let_def)
qed

section \<open>Back-up runs\<close>

lemma auth_secret_configured:
  "HandleRegistryAuthSecret env w ns cl = (Inr s, cl') \<Longrightarrow> \<exists>backup registry. wc_BackupCronJob (wwc_Workspace w) = Some backup \<and> bj_Registry backup = Some registry"
  by (auto simp: HandleRegistryAuthSecret_def split: option.splits bind_splits)

lemma createBackupJob_no_panic: "workspace_section dwoc \<noteq> None \<Longrightarrow> fst (createBackupJob env w dwoc cl) \<noteq> Panic"
  by (cases "dwoc_Config dwoc")
    (auto simp: createBackupJob_def workspace_section_def Let_def split: option.splits sum.splits prod.splits dest!: auth_secret_configured)

lemma backup_workspaces_no_panic: "workspace_section dwoc \<noteq> None \<Longrightarrow> fst (backup_workspaces env dwoc lastRun items cl) \<noteq> Panic"
proof (induction items arbitrary: cl)
  case (Cons item items)
  have "createBackupJob env (bw_Workspace item) dwoc cl1 \<noteq> (Panic, cl2)" for cl1 cl2
    using createBackupJob_no_panic [OF Cons.prems, of env "bw_Workspace item" cl1] by auto
  with Cons show ?case by (auto split: prod.splits option.splits go_result.splits)
qed simp

text \<open>
  (C36) A back-up that the reconciler has scheduled never panics: only configurations with a back-up section are scheduled, and a missing registry, claim or secret
  is an error of that workspace.
\<close>

theorem scheduled_backup_no_panic:
  assumes "cron_laws lib valid" "task \<in> (snd \<circ> snd) ` set (cr_Entries lib (snd (backup_Reconcile lib got c)))"
  shows "fst (executeBackupSync env task lastRun cl) \<noteq> Panic"
proof -
  from assms(2) have "task \<in> snd ` set (map snd (cr_Entries lib (snd (backup_Reconcile lib got c))))" by (auto simp: image_comp)
  then obtain dwoc where "task = dwoc" "backup_asked dwoc \<noteq> None"
    by (auto simp: backup_cron.scheduled_once [OF assms(1)] backup_asked_def split: sum.splits option.splits if_splits)
  then have "workspace_section task \<noteq> None" by (auto simp: backup_asked_def split: option.splits bind_splits)
  from backup_workspaces_no_panic [OF this] have "backup_workspaces env task lastRun items cl \<noteq> (Panic, cl')" for items cl' by (metis fst_conv)
  then show ?thesis by (auto simp: executeBackupSync_def split: sum.splits prod.splits go_result.splits option.splits)
qed

text \<open>
  A failed attempt is forgotten: when the rights for the job of a workspace that has never been backed up cannot be set up, the run creates no job for it, sets the
  time of the last run all the same, and from then on the workspace counts as backed up until it is stopped again.
\<close>

theorem failed_backup_forgotten:
  assumes "bk_workspaces env = Inr [item]" "wasStoppedSinceLastBackup (bk_parseTime env) (bw_Object item) lastRun"
    and "map_of (dw_Annotations (bw_Object item)) DevWorkspaceLastBackupFinishedAtAnnotation = None"
    and "lastTimeStopped (ws_Conditions (dw_Status (bw_Object item))) \<le> bk_now env"
    and "ensureJobRunnerRBAC env (bw_Workspace item) cl = (Some e, cl')" "bk_patchStatus env = None"
  shows "\<exists>now. executeBackupSync env dwoc lastRun cl = (Ok (), now, cl') \<and> \<not> wasStoppedSinceLastBackup (bk_parseTime env) (bw_Object item) now"
proof -
  from assms have "executeBackupSync env dwoc lastRun cl = (Ok (), Some (bk_now env), cl')" by (simp add: executeBackupSync_def)
  moreover from assms(3,4) have "\<not> wasStoppedSinceLastBackup (bk_parseTime env) (bw_Object item) (Some (bk_now env))"
    by (simp add: wasStoppedSinceLastBackup_def)
  ultimately show ?thesis by blast
qed

text \<open>A workspace that is still stopping during a run is lost in the same way once it has stopped.\<close>

lemma stopping_workspace_missed:
  assumes "map_of (dw_Annotations w) DevWorkspaceLastBackupFinishedAtAnnotation = None" "dw_Phase w = PhaseStopping"
    and "lastTimeStopped (ws_Conditions (dw_Status w)) \<le> now"
  shows "\<not> wasStoppedSinceLastBackup parseTime w lastRun \<and>
    \<not> wasStoppedSinceLastBackup parseTime (w\<lparr>dw_Status := (dw_Status w)\<lparr>ws_Phase := PhaseStopped\<rparr>\<rparr>) (Some now)"
  using assms by (simp add: wasStoppedSinceLastBackup_def)

lemma registry_secret_frame: "snd (snd key) \<noteq> DevWorkspaceBackupAuthSecretName \<Longrightarrow> HandleRegistryAuthSecret env w ns cl = (r, cl') \<Longrightarrow> cl' key = cl key"
  by (auto simp: HandleRegistryAuthSecret_def CopySecret_def client_Create_def rbac_object_def obj_key_of_def Let_def apfst_def map_prod_def
      split: option.splits sum.splits api_err.splits if_splits prod.splits)

text \<open>The job looks for the claim of the operator's configuration; where that is missing, the back-up ends with an error.\<close>

lemma missing_claim_not_backed_up:
  assumes w: "GetProvisioner (ad_library (bk_additions env)) (wwc_Template w) = Inr CommonStorageProvisioner" "WorkspaceNeedsStorage (wwc_Template w)"
    and c: "dwoc_Config dwoc = Some config" "oc_Workspace config = Some conf" "wc_PVCName conf \<noteq> []"
    and name: "wc_PVCName conf \<noteq> DevWorkspaceBackupAuthSecretName"
    and absent: "cl (pvc_key (wwc_Namespace w) (wc_PVCName conf)) = None"
  shows "\<exists>e cl'. createBackupJob env w dwoc cl = (Err e, cl')"
proof -
  define w' where "w' = w\<lparr>wwc_Config := config, wwc_Workspace := conf\<rparr>"
  obtain r cl' where r: "HandleRegistryAuthSecret (bk_additions env) w' (dwoc_Namespace dwoc) cl = (r, cl')" by (meson surj_pair)
  with absent have "cl' (pvc_key (wwc_Namespace w) (wc_PVCName conf)) = None"
    using registry_secret_frame [OF _ r, of "pvc_key (wwc_Namespace w) (wc_PVCName conf)"] name by (simp add: pvc_key_def)
  then have "\<exists>e. client_Get (bk_api env) (pvc_key (wwc_Namespace w) (wc_PVCName conf)) cl' = Inl e" by (auto simp: client_Get_def split: option.splits)
  with r w c show ?thesis
    by (cases r) (auto simp: createBackupJob_def GetWorkspacePVCInfo_def w'_def Let_def)
qed

section \<open>Witnesses\<close>

text \<open>A scheduler that is the list of its entries; every schedule but the text \<open>bad\<close> is valid.\<close>

definition list_cron :: "((nat \<times> string \<times> 't) list, 't) cron_lib" where
  "list_cron = \<lparr>cr_Entries = (\<lambda>c. c), cr_Remove = (\<lambda>n c. [e \<leftarrow> c. fst e \<noteq> n]),
     cr_AddFunc = (\<lambda>s t c. if s = ''bad'' then Inl ''invalid schedule'' else Inr (c @ [(length c, s, t)])), cr_Start = (\<lambda>c. c), cr_Stop = (\<lambda>c. c)\<rparr>"

lemma list_cron_laws: "cron_laws list_cron (\<lambda>s. s \<noteq> ''bad'')"
  by (simp add: cron_laws_def list_cron_def)

definition daily :: CleanupCronJobConfig where
  "daily = \<lparr>cj_Enable = Some True, cj_RetainTime = Some 60, cj_DryRun = None, cj_Schedule = ''0 0 * * *''\<rparr>"

definition nightly :: BackupCronJobConfig where
  "nightly = \<lparr>bj_Enable = Some True, bj_Registry = Some \<lparr>reg_Path = ''registry'', reg_AuthSecret = []\<rparr>, bj_OrasConfig = None, bj_Schedule = ''0 1 * * *'', bj_BackoffLimit = Some 1\<rparr>"

definition jobs_section :: "int WorkspaceConfig" where
  "jobs_section = zero_WorkspaceConfig\<lparr>wc_PVCName := ''claim-devworkspace'', wc_CleanupCronJob := Some daily, wc_BackupCronJob := Some nightly\<rparr>"

definition jobs_config :: "int DevWorkspaceOperatorConfig" where
  "jobs_config = \<lparr>dwoc_Name = ''devworkspace-operator-config'', dwoc_Namespace = ''operator'',
     dwoc_Config = Some (zero_OperatorConfiguration\<lparr>oc_Workspace := Some jobs_section\<rparr>)\<rparr>"

theorem cleanup_schedule_follows_last_witness:
  "map snd (fold (\<lambda>got c. snd (cleanup_Reconcile list_cron got c)) ([Inl (api_err.NotFound []), Inr jobs_config] @ [Inr jobs_config]) [(7, ''@daily'', daily\<lparr>cj_DryRun := Some True\<rparr>)]) =
   [(''0 0 * * *'', daily)]"
proof -
  have "cleanup_asked jobs_config = Some (''0 0 * * *'', daily)"
    by (simp add: cleanup_asked_def workspace_section_def jobs_config_def jobs_section_def daily_def)
  moreover have "cr_Entries list_cron c = c" for c :: "(nat \<times> string \<times> CleanupCronJobConfig) list" by (simp add: list_cron_def)
  ultimately show ?thesis
    using cleanup_schedule_follows_last [OF list_cron_laws, of "[Inl (api_err.NotFound []), Inr jobs_config]" "Inr jobs_config" "[(7, ''@daily'', daily\<lparr>cj_DryRun := Some True\<rparr>)]"]
    by simp
qed

definition idle_workspace :: DevWorkspace where
  "idle_workspace = \<lparr>dw_UID = ''1'', dw_Started = False, dw_Deleted = False, dw_Created = 0, dw_Annotations = [], dw_Labels = [], dw_Finalizers = [],
     dw_Status = \<lparr>ws_Id = ''workspace1'', ws_Conditions = [\<lparr>cond_Type = Started, cond_Status = ConditionFalse, cond_Time = 5, cond_Message = [], cond_Reason = []\<rparr>],
       ws_MainUrl = [], ws_Phase = PhaseStopped, ws_Message = []\<rparr>\<rparr>"

definition prune_listed :: "prune_object list \<Rightarrow> pruner" where
  "prune_listed objs strategy = (case strategy objs of Inl e \<Rightarrow> ([], Some e) | Inr selected \<Rightarrow> (selected, None))"

lemma prune_listed_selected: "prunes_selected (prune_listed objs)"
  unfolding prunes_selected_def prune_listed_def
proof (intro allI impI)
  fix strategy :: prune_strategy and deleted e
  assume "(case strategy objs of Inl e \<Rightarrow> ([], Some e) | Inr selected \<Rightarrow> (selected, None)) = (deleted, e)" "deleted \<noteq> []"
  then have "strategy objs = Inr deleted" by (auto split: sum.splits)
  then show "\<exists>objs selected. strategy objs = Inr selected \<and> set deleted \<subseteq> set selected" by blast
qed

theorem pruned_workspaces_stale_witness:
  "cleanup_task 100000000000 (prune_listed [ListedWorkspace idle_workspace]) daily = Some ([ListedWorkspace idle_workspace], None) \<and> cj_DryRun daily \<noteq> Some True"
proof -
  have run: "cleanup_task 100000000000 (prune_listed [ListedWorkspace idle_workspace]) daily = Some ([ListedWorkspace idle_workspace], None)" by code_simp
  from pruned_workspaces_stale [OF run prune_listed_selected, of "ListedWorkspace idle_workspace"] run show ?thesis by simp
qed

definition failed_condition :: JobCondition where
  "failed_condition = \<lparr>jc_Type = ''Failed'', jc_Status = ''True'', jc_Time = 9, jc_Message = ''no space''\<rparr>"

theorem recorded_backup_decides_witness:
  "wasStoppedSinceLastBackup (\<lambda>_. Inr 9) (recordBackupFailure format_int failed_condition idle_workspace) (Some 50) \<and>
   \<not> wasStoppedSinceLastBackup (\<lambda>_. Inr 9) (recordBackupSuccess format_int failed_condition idle_workspace) None"
proof -
  have "lastTimeStopped (ws_Conditions (dw_Status idle_workspace)) = 5" "dw_Phase idle_workspace = PhaseStopped" by code_simp+
  then show ?thesis
    using recorded_backup_decides [of "\<lambda>_. Inr 9" format_int failed_condition idle_workspace "Some 50"]
      recorded_backup_decides [of "\<lambda>_. Inr 9" format_int failed_condition idle_workspace None]
    by (simp add: failed_condition_def)
qed

definition backup_on :: "int api_env \<Rightarrow> int backup_env" where
  "backup_on api = \<lparr>bk_additions = env_on api, bk_openshift = False, bk_now = 100, bk_parseTime = (\<lambda>_. Inr 9), bk_formatTime = format_int,
     bk_generateName = (\<lambda>prefix _. prefix @ ''x''), bk_workspaces = Inr [\<lparr>bw_Object = idle_workspace, bw_Workspace = stored_workspace\<rparr>], bk_patchStatus = None\<rparr>"

theorem scheduled_backup_no_panic_witness: "fst (executeBackupSync (backup_on plain_server) jobs_config None che_claims) \<noteq> Panic"
proof -
  have "map snd (cr_Entries list_cron (snd (backup_Reconcile list_cron (Inr jobs_config) []))) = [(''0 1 * * *'', jobs_config)]"
    unfolding backup_cron.scheduled_once [OF list_cron_laws] by (simp add: backup_asked_def workspace_section_def jobs_config_def jobs_section_def nightly_def)
  then have "jobs_config \<in> snd ` set (map snd (cr_Entries list_cron (snd (backup_Reconcile list_cron (Inr jobs_config) []))))" by simp
  then have "jobs_config \<in> (snd \<circ> snd) ` set (cr_Entries list_cron (snd (backup_Reconcile list_cron (Inr jobs_config) [])))"
    by (simp only: set_map image_comp)
  from scheduled_backup_no_panic [OF list_cron_laws this] show ?thesis .
qed

text \<open>A server that refuses to create service accounts.\<close>

definition no_accounts :: "int api_env" where
  "no_accounts = plain_server\<lparr>ae_fault := \<lambda>call. case call of CreateCall (kind, _) \<Rightarrow> if kind = ServiceAccountObj then Some (Forbidden ''quota'') else None | _ \<Rightarrow> None\<rparr>"

theorem failed_backup_forgotten_witness:
  "\<exists>now cl'. executeBackupSync (backup_on no_accounts) jobs_config None che_claims = (Ok (), now, cl') \<and>
     \<not> wasStoppedSinceLastBackup (bk_parseTime (backup_on no_accounts)) idle_workspace now"
proof -
  have "\<exists>e cl'. ensureJobRunnerRBAC (backup_on no_accounts) stored_workspace che_claims = (Some e, cl')"
  proof (cases "ensureJobRunnerRBAC (backup_on no_accounts) stored_workspace che_claims")
    case (Pair r cl')
    have "fst (ensureJobRunnerRBAC (backup_on no_accounts) stored_workspace che_claims) \<noteq> None" by code_simp
    with Pair show ?thesis by auto
  qed
  then obtain e cl' where fails: "ensureJobRunnerRBAC (backup_on no_accounts) stored_workspace che_claims = (Some e, cl')" by blast
  have selected: "wasStoppedSinceLastBackup (bk_parseTime (backup_on no_accounts)) idle_workspace None"
    "map_of (dw_Annotations idle_workspace) DevWorkspaceLastBackupFinishedAtAnnotation = None"
    "lastTimeStopped (ws_Conditions (dw_Status idle_workspace)) \<le> bk_now (backup_on no_accounts)" by code_simp+
  show ?thesis
    using failed_backup_forgotten [of "backup_on no_accounts" "\<lparr>bw_Object = idle_workspace, bw_Workspace = stored_workspace\<rparr>" None che_claims e cl' jobs_config]
      fails selected by (auto simp: backup_on_def)
qed

text \<open>
  The alternate claim of the namespace: storage is provisioned on it, and the back-up of the workspace looks for the other one in vain.
\<close>

theorem alternate_claim_not_backed_up:
  "(\<exists>pa cl'. common_ProvisionStorage sample_library some_storage stored_workspace some_additions che_claims = (DwOk pa, cl')) \<and>
   (\<exists>e cl'. createBackupJob (backup_on plain_server) stored_workspace jobs_config che_claims = (Err e, cl'))"
proof
  show "\<exists>pa cl'. common_ProvisionStorage sample_library some_storage stored_workspace some_additions che_claims = (DwOk pa, cl')"
    by (rule some_provision_Ok) blast
  have "GetProvisioner (ad_library (bk_additions (backup_on plain_server))) (wwc_Template stored_workspace) = Inr CommonStorageProvisioner" by code_simp
  moreover have "che_claims (pvc_key (wwc_Namespace stored_workspace) ''claim-devworkspace'') = None" by code_simp
  ultimately show "\<exists>e cl'. createBackupJob (backup_on plain_server) stored_workspace jobs_config che_claims = (Err e, cl')"
    by (intro missing_claim_not_backed_up [OF _ stored_needs, where conf = jobs_section and config = "zero_OperatorConfiguration\<lparr>oc_Workspace := Some jobs_section\<rparr>"])
      (simp_all add: jobs_config_def jobs_section_def DevWorkspaceBackupAuthSecretName_def)
qed

end
