(* ===== verification/Watches.thy ===== *)
theory Watches
  imports Config_Sync Automount_Mounts Cron_Jobs Async_Storage Workspace_Deployment
begin

text \<open>
  What wakes the workspace controller and what its client can see: the filters of events (\<^verbatim>\<open>src/controllers/workspace/predicates.go\<close>), the handlers that turn an event of
  another object into requests for workspaces (\<^verbatim>\<open>eventhandlers.go\<close>), and the selectors of the caches (\<^verbatim>\<open>src/pkg/cache/cache.go\<close>).

  A request is a namespace and a name. The panic of a nil pointer in the configuration is the result \<open>None\<close>.
\<close>

type_synonym request = "string \<times> string"

section \<open>Filters\<close>

text \<open>The objects of an event: the kinds that the filters tell apart. \<open>spec\<close> and \<open>status\<close> are compared semantically.\<close>

record ('s, 'q) watched_workspace =
  wk_Name :: string
  wk_Namespace :: string
  wk_Phase :: Phase
  wk_Deleted :: bool
  wk_Started :: bool
  wk_Spec :: 's
  wk_Template :: DevWorkspaceTemplateSpec
  wk_ConfigAttribute :: "(err + string \<times> string) option"  \<comment> \<open>of the external configuration, as \<^verbatim>\<open>ResolveConfigForWorkspace\<close> reads it\<close>

record 's watched_pod =
  pd_Labels :: "(string, string) gomap"
  pd_Status :: 's

definition devworkspace_UpdateFunc :: "('s \<Rightarrow> 's \<Rightarrow> bool) \<Rightarrow> ('s, 'q) watched_workspace option \<Rightarrow> ('s, 'q) watched_workspace option \<Rightarrow> bool" where
  "devworkspace_UpdateFunc DeepEqual old new =
     (case new of
        None \<Rightarrow> True
      | Some newObj \<Rightarrow>
          if wk_Phase newObj \<noteq> PhaseFailed then True
          else (case old of
             None \<Rightarrow> True
           | Some oldObj \<Rightarrow> if wk_Deleted newObj then True else \<not> DeepEqual (wk_Spec oldObj) (wk_Spec newObj)))"

definition pod_UpdateFunc :: "('s \<Rightarrow> 's \<Rightarrow> bool) \<Rightarrow> 's watched_pod option \<Rightarrow> 's watched_pod option \<Rightarrow> bool" where
  "pod_UpdateFunc DeepEqual old new =
     (case new of
        None \<Rightarrow> True
      | Some newObj \<Rightarrow>
     (case old of
        None \<Rightarrow> True
      | Some oldObj \<Rightarrow>
          if go_get (pd_Labels newObj) DevWorkspaceNameLabel = None then False
          else if DeepEqual (pd_Status oldObj) (pd_Status newObj) then False
          else True))"

definition DevWorkspaceMountLabel :: string where "DevWorkspaceMountLabel = ''controller.devfile.io/mount-to-devworkspace''"
definition DevWorkspaceGitCredentialLabel :: string where "DevWorkspaceGitCredentialLabel = ''controller.devfile.io/git-credential''"
definition DevWorkspaceGitTLSLabel :: string where "DevWorkspaceGitTLSLabel = ''controller.devfile.io/git-tls-credential''"
definition DevWorkspacePullSecretLabel :: string where "DevWorkspacePullSecretLabel = ''controller.devfile.io/devworkspace_pullsecret''"

definition objectIsAutomountResource :: "'q object \<Rightarrow> bool" where
  "objectIsAutomountResource obj \<longleftrightarrow>
     go_at (o_Labels obj) DevWorkspaceMountLabel = ''true'' \<or> go_at (o_Labels obj) DevWorkspaceGitCredentialLabel = ''true'' \<or>
     go_at (o_Labels obj) DevWorkspaceGitTLSLabel = ''true'' \<or> go_at (o_Labels obj) DevWorkspacePullSecretLabel = ''true''"

text \<open>Creation, deletion and update are filtered by the object, the new one of an update.\<close>

datatype 'q watch_event = CreateEvent "'q object" | DeleteEvent "'q object" | UpdateEvent "'q object" "'q object" | GenericEvent "'q object"

fun automountPredicates :: "'q watch_event \<Rightarrow> bool" where
  "automountPredicates (CreateEvent obj) = objectIsAutomountResource obj"
| "automountPredicates (DeleteEvent obj) = objectIsAutomountResource obj"
| "automountPredicates (UpdateEvent old new) = objectIsAutomountResource new"
| "automountPredicates (GenericEvent obj) = False"

section \<open>Handlers\<close>

definition dwRelatedPodsHandler :: "'q object \<Rightarrow> request list" where
  "dwRelatedPodsHandler obj =
     (case go_get (o_Labels obj) DevWorkspaceNameLabel of
        None \<Rightarrow> []
      | Some name \<Rightarrow> if go_get (o_Labels obj) DevWorkspaceIDLabel = None then [] else [(o_Namespace obj, name)])"

text \<open>What a handler reads: the workspaces of a namespace, and the configuration with the means to resolve an external one.\<close>

record ('s, 'q) watch_env =
  we_list :: "string \<Rightarrow> err + ('s, 'q) watched_workspace list"
  we_library :: "'q library"
  we_json :: k8s_json
  we_get :: "string \<Rightarrow> string \<Rightarrow> err + 'q DevWorkspaceOperatorConfig"
  we_config :: "'q config_state"

definition pvc_name_of :: "'q OperatorConfiguration option \<Rightarrow> string option" where
  "pvc_name_of config = map_option wc_PVCName (Option.bind config oc_Workspace)"

text \<open>The name of the shared claim of a workspace: of its external configuration if it has one that can be resolved, else of the operator.\<close>

definition workspace_pvc_name :: "('s, 'q) watch_env \<Rightarrow> ('s, 'q) watched_workspace \<Rightarrow> string option" where
  "workspace_pvc_name env workspace =
     (case pvc_name_of (cs_internal (we_config env)) of
        None \<Rightarrow> None
      | Some workspacePVCName \<Rightarrow>
          if attr_exists (ts_Attributes (wk_Template workspace)) ExternalDevWorkspaceConfiguration then
            (case ResolveConfigForWorkspace (we_json env) (wk_ConfigAttribute workspace) (we_get env) (we_config env) of
               Inl _ \<Rightarrow> Some workspacePVCName
             | Inr externalConfig \<Rightarrow> pvc_name_of externalConfig)
          else Some workspacePVCName)"

fun pvc_requests :: "('s, 'q) watch_env \<Rightarrow> string \<Rightarrow> ('s, 'q) watched_workspace list \<Rightarrow> request list option" where
  "pvc_requests env claim [] = Some []"
| "pvc_requests env claim (workspace # items) =
     (let storageType = storage_type (we_library env) (wk_Template workspace) in
      if storageType = CommonStorageClassType \<or> storageType = PerUserStorageClassType \<or> storageType = [] then
        (case workspace_pvc_name env workspace of
           None \<Rightarrow> None
         | Some workspacePVCName \<Rightarrow>
             map_option (\<lambda>reconciles. (if claim = workspacePVCName then [(wk_Namespace workspace, wk_Name workspace)] else []) @ reconciles)
               (pvc_requests env claim items))
      else pvc_requests env claim items)"

definition dwPVCHandler :: "('s, 'q) watch_env \<Rightarrow> 'q object \<Rightarrow> request list option" where
  "dwPVCHandler env obj =
     (if \<not> o_Terminating obj then Some []
      else case find (\<lambda>ownerref. or_Kind ownerref = ''DevWorkspace'') (o_OwnerReferences obj) of
        Some ownerref \<Rightarrow> Some [(o_Namespace obj, or_Name ownerref)]
      | None \<Rightarrow>
     (case (if go_at (o_Labels obj) DevWorkspacePVCTypeLabel = []
            then map_option (\<lambda>name. o_Name obj = name) (pvc_name_of (cs_internal (we_config env))) else Some True) of
        None \<Rightarrow> None
      | Some False \<Rightarrow> Some []
      | Some True \<Rightarrow> (case we_list env (o_Namespace obj) of Inl _ \<Rightarrow> Some [] | Inr items \<Rightarrow> pvc_requests env (o_Name obj) items)))"

definition as_automount :: "'q object \<Rightarrow> automount_object" where
  "as_automount obj = \<lparr>am_Name = o_Name obj, am_Annotations = o_Annotations obj, am_Data = [], am_BinaryData = []\<rparr>"

definition runningWorkspacesHandler :: "('s, 'q) watch_env \<Rightarrow> 'q object \<Rightarrow> request list" where
  "runningWorkspacesHandler env obj =
     (case we_list env (o_Namespace obj) of
        Inl _ \<Rightarrow> []
      | Inr items \<Rightarrow>
          map (\<lambda>workspace. (wk_Namespace workspace, wk_Name workspace))
            [workspace \<leftarrow> items. wk_Started workspace \<and> MatchesWorkspaceTarget (as_automount obj) (wk_Name workspace)])"

section \<open>Caches\<close>

text \<open>A selector asks for a label, or for a label with the value \<^verbatim>\<open>true\<close>; without a selector the cache holds every object of the kind.\<close>

datatype selector = HasLabel string | LabelTrue string

fun selects :: "selector \<Rightarrow> (string, string) gomap \<Rightarrow> bool" where
  "selects (HasLabel key) labels \<longleftrightarrow> go_get labels key \<noteq> None"
| "selects (LabelTrue key) labels \<longleftrightarrow> go_get labels key = Some ''true''"

definition GetCacheFunc :: "bool \<Rightarrow> obj_kind \<Rightarrow> selector option" where
  "GetCacheFunc openshift kind =
     (case kind of
        DeploymentObj \<Rightarrow> Some (HasLabel DevWorkspaceIDLabel)
      | PodObj \<Rightarrow> Some (HasLabel DevWorkspaceIDLabel)
      | JobObj \<Rightarrow> Some (HasLabel DevWorkspaceIDLabel)
      | ServiceAccountObj \<Rightarrow> Some (HasLabel DevWorkspaceIDLabel)
      | ServiceObj \<Rightarrow> Some (HasLabel DevWorkspaceIDLabel)
      | IngressObj \<Rightarrow> Some (HasLabel DevWorkspaceIDLabel)
      | ConfigMapObj \<Rightarrow> Some (LabelTrue DevWorkspaceWatchConfigMapLabel)
      | SecretObj \<Rightarrow> Some (LabelTrue DevWorkspaceWatchSecretLabel)
      | RoleObj \<Rightarrow> Some (LabelTrue ''controller.devfile.io/workspace-rbac'')
      | RoleBindingObj \<Rightarrow> Some (LabelTrue ''controller.devfile.io/workspace-rbac'')
      | RouteObj \<Rightarrow> if openshift then Some (HasLabel DevWorkspaceIDLabel) else None
      | UnrecognizedObj name \<Rightarrow> if name = ''CronJob'' then Some (LabelTrue ''controller.devfile.io/watch-cronjob'') else None
      | _ \<Rightarrow> None)"

text \<open>The cache of the webhooks: the selectors, and the namespaces that it is restricted to.\<close>

definition GetWebhooksCacheFunc :: "string \<Rightarrow> (obj_kind \<Rightarrow> selector option) \<times> string list" where
  "GetWebhooksCacheFunc namespace = (\<lambda>kind. case kind of PodObj \<Rightarrow> Some (HasLabel DevWorkspaceIDLabel) | _ \<Rightarrow> None, [namespace])"

definition cache_sees :: "bool \<Rightarrow> 'q object \<Rightarrow> bool" where
  "cache_sees openshift obj = (case GetCacheFunc openshift (kind_of (o_Content obj)) of None \<Rightarrow> True | Some s \<Rightarrow> selects s (o_Labels obj))"

section \<open>Properties\<close>

lemmas cache_defs = cache_sees_def GetCacheFunc_def metadata_keys DevWorkspaceWatchConfigMapLabel_def DevWorkspaceWatchSecretLabel_def go_get_def

lemma cache_sees_owned: "SetControllerReference env w obj = Inr owned \<Longrightarrow> cache_sees b owned = cache_sees b obj"
  by (auto simp: SetControllerReference_def cache_sees_def split: option.splits)

















text \<open>
  The binding that lets the back-up jobs push images is not among them: it has the label with the identifier only, by which no binding is selected. However often it is
  ensured, with a client that sees what the cache selects, it is written again, and the client does not find it afterwards.
\<close>

theorem image_push_binding_hidden:
  fixes env :: "'q backup_env"
  assumes "\<And>call. ae_fault (bk_api env) call = None" "\<And>obj. ae_cached (bk_api env) obj = cache_sees openshift obj"
    "\<And>old obj. o_Labels (ae_store (bk_api env) old obj) = o_Labels obj" "\<And>old obj. obj_key_of (ae_store (bk_api env) old obj) = obj_key_of obj"
    "se_setOwner (ad_storage (bk_additions env)) = None" "key = (RoleBindingObj, wwc_Namespace w, ''devworkspace-image-builder-'' @ wwc_Id w)"
    "client_Get (bk_api env) key cl = Inl (api_err.NotFound e)"
  shows "\<exists>obj. ensureImagePushRoleBinding env saName w cl = (None, cl(key \<mapsto> obj)) \<and> client_Get (bk_api env) key (cl(key \<mapsto> obj)) = Inl (api_err.NotFound ''not found'')"
proof -
  define spec :: "'q object" where "spec = (rbac_object (''devworkspace-image-builder-'' @ wwc_Id w) (wwc_Namespace w) (id_label w)
     (RoleBindingContent \<lparr>rb_RoleKind = RbacClusterRoleKind, rb_RoleName = RegistryImageBuilderRoleName, rb_Subjects = [account_subject saName (wwc_Namespace w)]\<rparr>))
       \<lparr>o_OwnerReferences := upsert_owner (owner_of w) []\<rparr>"
  have spec: "obj_key_of spec = key" "kind_of (o_Content spec) = RoleBindingObj" "o_ResourceVersion spec = []" "o_Labels spec = id_label w"
    by (simp_all add: spec_def rbac_object_def obj_key_of_def assms(6))
  have "ensureImagePushRoleBinding env saName w cl = ensure_synced env ''ensuring RoleBinding: '' spec cl"
    using assms(5) by (simp add: ensureImagePushRoleBinding_def SetControllerReference_def spec_def rbac_object_def Let_def)
  moreover obtain old reason where "SyncObjectWithCluster (bk_api env) spec cl = (Inl (NotInSyncError reason spec), cl(key \<mapsto> ae_store (bk_api env) old spec))"
    using assms(1,7) spec
    by (cases "cl key") (auto simp: SyncObjectWithCluster_def createObjectGeneric_def client_Create_def updateObjectGeneric_def getUpdateFunc_def defaultUpdateFunc_def
        client_Update_def update_outcome_def)
  moreover have "\<not> cache_sees openshift (ae_store (bk_api env) old spec)"
  proof -
    have "kind_of (o_Content (ae_store (bk_api env) old spec)) = RoleBindingObj"
      using assms(4) [of old spec] spec(1) assms(6) by (simp add: obj_key_of_def)
    then show ?thesis by (simp add: cache_defs assms(3) spec(4) id_label_def)
  qed
  ultimately show ?thesis using assms(1,2) by (intro exI [of _ "ae_store (bk_api env) old spec"]) (simp add: ensure_synced_def client_Get_def)
qed

section \<open>Deleted claims\<close>

lemma complete_claim_name: "struct_with config_complete c \<Longrightarrow> pvc_name_of c \<noteq> None"
  by (cases c; cases "oc_Workspace (the c)") (auto simp: pvc_name_of_def config_complete_def)

lemma resolved_complete:
  assumes "state_complete s" "ResolveConfigForWorkspace J attr get s = Inr c"
  shows "struct_with config_complete c"
proof -
  from assms(1) obtain base where base: "cs_internal s = Some base" "config_complete base" by (cases "cs_internal s") (auto simp: state_complete_def)
  from assms(2) show ?thesis
    by (auto simp: base ResolveConfigForWorkspace_def getMergedConfig_def mergeConfig_complete split: option.splits sum.splits prod.splits if_splits)
qed

lemma claim_name_known: "state_complete (we_config env) \<Longrightarrow> workspace_pvc_name env w \<noteq> None"
  using complete_claim_name [of "cs_internal (we_config env)"] resolved_complete [of "we_config env", THEN complete_claim_name]
  by (auto simp: workspace_pvc_name_def state_complete_def split: option.splits sum.splits)

lemma common_provisioner_iff:
  "GetProvisioner L t = Inr CommonStorageProvisioner \<longleftrightarrow> storage_type L t = CommonStorageClassType \<or> storage_type L t = PerUserStorageClassType \<or> storage_type L t = []"
  by (auto simp: GetProvisioner_def Let_def CommonStorageClassType_def PerUserStorageClassType_def PerWorkspaceStorageClassType_def AsyncStorageClassType_def
      EphemeralStorageClassType_def)

definition uses_claim :: "('s, 'q) watch_env \<Rightarrow> string \<Rightarrow> ('s, 'q) watched_workspace \<Rightarrow> bool" where
  "uses_claim env claim w \<longleftrightarrow> GetProvisioner (we_library env) (wk_Template w) = Inr CommonStorageProvisioner \<and> workspace_pvc_name env w = Some claim"

lemma pvc_requests_exact:
  assumes "state_complete (we_config env)"
  shows "pvc_requests env claim items = Some (map (\<lambda>w. (wk_Namespace w, wk_Name w)) (filter (uses_claim env claim) items))"
proof (induction items)
  case (Cons w items)
  obtain name where "workspace_pvc_name env w = Some name" using claim_name_known [OF assms] by blast
  with Cons show ?case by (auto simp: uses_claim_def common_provisioner_iff Let_def)
qed simp

text \<open>
  When the shared claim is deleted, exactly the workspaces of the namespace that the operator provisions on it are reconciled: those whose strategy is the common one
  and whose resolved configuration names the claim. In a state that the operator can reach the handler does not panic.
\<close>

theorem deleted_claim_requeues:
  assumes "reachable (we_json env) mustParse (we_config env)" "o_Terminating claim" "o_OwnerReferences claim = []"
    and "o_Labels claim = Some [(DevWorkspacePVCTypeLabel, PerUserStorageClassType)]" "we_list env (o_Namespace claim) = Inr items"
  shows "dwPVCHandler env claim = Some (map (\<lambda>w. (wk_Namespace w, wk_Name w)) (filter (uses_claim env (o_Name claim)) items))"
proof -
  have "go_at (o_Labels claim) DevWorkspacePVCTypeLabel \<noteq> []" using assms(4) by (simp add: go_at_def go_get_def PerUserStorageClassType_def)
  with assms(2-) show ?thesis
    using pvc_requests_exact [OF reachable_state_complete [OF assms(1)], of "o_Name claim" items] by (simp add: dwPVCHandler_def)
qed

section \<open>Witnesses\<close>

definition config_in_force :: "int config_state" where
  "config_in_force = fst (SetupControllerConfig replacing_json sample_env (initial_state (\<lambda>_. 0)))"

definition watching :: "(unit, int) watched_workspace list \<Rightarrow> (unit, int) watch_env" where
  "watching items = \<lparr>we_list = (\<lambda>_. Inr items), we_library = sample_library, we_json = replacing_json, we_get = (\<lambda>_ _. Inl []), we_config = config_in_force\<rparr>"

definition watched :: "string \<Rightarrow> (unit, int) watched_workspace" where
  "watched name = \<lparr>wk_Name = name, wk_Namespace = ''ns'', wk_Phase = PhaseRunning, wk_Deleted = False, wk_Started = True, wk_Spec = (), wk_Template = sample_devfile,
     wk_ConfigAttribute = None\<rparr>"

definition deleted_claim :: "string \<Rightarrow> int object" where
  "deleted_claim name = (getPVCSpec name ''ns'' None 10 None)\<lparr>o_Labels := Some [(DevWorkspacePVCTypeLabel, PerUserStorageClassType)], o_Terminating := True\<rparr>"

lemma watched_use_claim: "list_all (uses_claim (watching [watched ''a'', watched ''b'']) ''claim-devworkspace'') [watched ''a'', watched ''b'']"
  by code_simp

theorem deleted_claim_requeues_witness:
  "dwPVCHandler (watching [watched ''a'', watched ''b'']) (deleted_claim ''claim-devworkspace'') = Some [(''ns'', ''a''), (''ns'', ''b'')]"
proof -
  have "dwPVCHandler (watching [watched ''a'', watched ''b'']) (deleted_claim ''claim-devworkspace'') = Some (map (\<lambda>w. (wk_Namespace w, wk_Name w))
     (filter (uses_claim (watching [watched ''a'', watched ''b'']) (o_Name (deleted_claim ''claim-devworkspace''))) [watched ''a'', watched ''b'']))"
    by (rule deleted_claim_requeues [where mustParse = "\<lambda>_. 0"])
      (simp_all add: watching_def config_in_force_def deleted_claim_def getPVCSpec_def reachable.start [OF sample_env_honest sample_setup])
  also have "o_Name (deleted_claim ''claim-devworkspace'') = ''claim-devworkspace''" by (simp add: deleted_claim_def getPVCSpec_def)
  finally show ?thesis using watched_use_claim by (simp add: watched_def)
qed

end
