(* ===== verification/Clone_Files.thy ===== *)
theory Clone_Files
  imports Containers "HOL-Library.Sublist" "HOL-Library.Char_ord" "HOL-Library.List_Lexorder"
begin

text \<open>
  The file system as the project clone program (\<^verbatim>\<open>src/project-clone\<close>) sees it through the package \<^verbatim>\<open>os\<close>: a map from paths to
  directories and regular files. The root always exists. Links, permissions and times are left out.

  Every call may fail for reasons outside this model (a full disk, missing rights): a \<open>faults\<close> function says for a call and a file system
  whether it does, with which error, and what it leaves behind.
\<close>

section \<open>Paths and nodes\<close>

datatype node = Directory | RegularFile string

type_synonym file_path = "string list"
type_synonym files = "(file_path \<times> node) list"

text \<open>The working directory of the program is the root.\<close>

definition file_path :: "string \<Rightarrow> file_path" where
  "file_path s = [e \<leftarrow> split_char (CHR ''/'') s. e \<noteq> [] \<and> e \<noteq> ''.'']"

definition at_path :: "files \<Rightarrow> file_path \<Rightarrow> node option" where
  "at_path fs p = (if p = [] then Some Directory else map_of fs p)"

text \<open>\<^verbatim>\<open>path.Dir\<close>: everything up to the last slash, cleaned.\<close>

definition path_Dir :: "string \<Rightarrow> string" where
  "path_Dir s = path_Clean (rev (dropWhile (\<lambda>c. c \<noteq> CHR ''/'') (rev s)))"

text \<open>\<^verbatim>\<open>filepath.Ext\<close>: the suffix from the last dot of the last element.\<close>

definition filepath_Ext :: "string \<Rightarrow> string" where
  "filepath_Ext s = (let back = takeWhile (\<lambda>c. c \<noteq> CHR ''/'') (rev s) in
     if CHR ''.'' \<in> set back then rev (takeWhile (\<lambda>c. c \<noteq> CHR ''.'') back @ ''.'') else [])"

section \<open>Calls\<close>

datatype io_call =
    StatCall file_path
  | MkdirCall file_path
  | RenameCall file_path file_path
  | RemoveCall file_path
  | RemoveAllCall file_path
  | ReadDirCall file_path
  | ReadCall file_path
  | CreateCall file_path
  | WriteCall file_path
  | SyncCall file_path
  | CloseCall file_path

type_synonym faults = "io_call \<Rightarrow> files \<Rightarrow> (err \<times> files) option"

text \<open>What a reading call answers; \<open>Missing\<close> is the error that \<^verbatim>\<open>os.IsNotExist\<close> recognises.\<close>

datatype 'a os_answer = Missing | Failed err | Found 'a

definition reading :: "faults \<Rightarrow> io_call \<Rightarrow> files \<Rightarrow> 'a os_answer \<Rightarrow> 'a os_answer" where
  "reading faults call fs answer = (case faults call fs of Some (e, _) \<Rightarrow> Failed e | None \<Rightarrow> answer)"

definition calling :: "faults \<Rightarrow> io_call \<Rightarrow> files \<Rightarrow> unit go_result \<times> files \<Rightarrow> unit go_result \<times> files" where
  "calling faults call fs answer = (case faults call fs of Some (e, fs') \<Rightarrow> (Err e, fs') | None \<Rightarrow> answer)"

text \<open>A path below a regular file does not count as missing: the system answers that the file is not a directory.\<close>

definition below_file :: "files \<Rightarrow> file_path \<Rightarrow> bool" where
  "below_file fs p = list_ex (\<lambda>q. case at_path fs q of Some (RegularFile _) \<Rightarrow> True | _ \<Rightarrow> False) (prefixes (butlast p))"

definition look :: "files \<Rightarrow> file_path \<Rightarrow> node os_answer" where
  "look fs p = (if below_file fs p then Failed ''not a directory'' else case at_path fs p of None \<Rightarrow> Missing | Some n \<Rightarrow> Found n)"

definition os_Stat :: "faults \<Rightarrow> files \<Rightarrow> string \<Rightarrow> node os_answer" where
  "os_Stat faults fs path = reading faults (StatCall (file_path path)) fs (look fs (file_path path))"

definition os_ReadFile :: "faults \<Rightarrow> files \<Rightarrow> string \<Rightarrow> string os_answer" where
  "os_ReadFile faults fs path = reading faults (ReadCall (file_path path)) fs
     (case look fs (file_path path) of
        Missing \<Rightarrow> Missing
      | Failed e \<Rightarrow> Failed e
      | Found Directory \<Rightarrow> Failed ''is a directory''
      | Found (RegularFile text) \<Rightarrow> Found text)"

text \<open>\<^verbatim>\<open>os.ReadDir\<close> lists names in order, each with whether it is a directory.\<close>

definition entries :: "files \<Rightarrow> file_path \<Rightarrow> (string \<times> bool) list" where
  "entries fs p = map (\<lambda>name. (name, at_path fs (p @ [name]) = Some Directory))
     (sort (remdups (map last [q \<leftarrow> map fst fs. q \<noteq> [] \<and> butlast q = p])))"

definition os_ReadDir :: "faults \<Rightarrow> files \<Rightarrow> string \<Rightarrow> (string \<times> bool) list os_answer" where
  "os_ReadDir faults fs path = reading faults (ReadDirCall (file_path path)) fs
     (case look fs (file_path path) of
        Missing \<Rightarrow> Missing
      | Failed e \<Rightarrow> Failed e
      | Found Directory \<Rightarrow> Found (entries fs (file_path path))
      | Found (RegularFile _) \<Rightarrow> Failed ''not a directory'')"

text \<open>\<^verbatim>\<open>os.MkdirAll\<close> creates what is missing, from the root down.\<close>

fun mkdir_each :: "faults \<Rightarrow> file_path list \<Rightarrow> files \<Rightarrow> unit go_result \<times> files" where
  "mkdir_each faults [] fs = (Ok (), fs)"
| "mkdir_each faults (p # ps) fs =
     (case at_path fs p of
        Some Directory \<Rightarrow> mkdir_each faults ps fs
      | Some (RegularFile _) \<Rightarrow> (Err ''not a directory'', fs)
      | None \<Rightarrow>
          (case faults (MkdirCall p) fs of
             Some (e, fs') \<Rightarrow> (Err e, fs')
           | None \<Rightarrow> mkdir_each faults ps (AList.update p Directory fs)))"

definition os_MkdirAll :: "faults \<Rightarrow> string \<Rightarrow> files \<Rightarrow> unit go_result \<times> files" where
  "os_MkdirAll faults path fs = mkdir_each faults (prefixes (file_path path)) fs"

text \<open>
  \<^verbatim>\<open>os.Rename\<close>: Go refuses to replace a directory, the system refuses to move a directory into itself or onto a file; a regular file is
  replaced. The tree moves as a whole.
\<close>

definition move_tree :: "file_path \<Rightarrow> file_path \<Rightarrow> files \<Rightarrow> files" where
  "move_tree old new fs = map (\<lambda>(q, n). (if prefix old q then new @ drop (length old) q else q, n)) [(q, n) \<leftarrow> fs. \<not> prefix new q]"

definition rename_path :: "file_path \<Rightarrow> file_path \<Rightarrow> files \<Rightarrow> unit go_result \<times> files" where
  "rename_path old new fs =
     (case at_path fs old of
        None \<Rightarrow> (Err ''no such file or directory'', fs)
      | Some n \<Rightarrow>
          if at_path fs new = Some Directory then (Err ''file exists'', fs)
          else if at_path fs (butlast new) \<noteq> Some Directory then (Err ''no such file or directory'', fs)
          else if old = new then (Ok (), fs)
          else if prefix old new then (Err ''invalid argument'', fs)
          else if n = Directory \<and> at_path fs new \<noteq> None then (Err ''not a directory'', fs)
          else (Ok (), move_tree old new fs))"

definition os_Rename :: "faults \<Rightarrow> string \<Rightarrow> string \<Rightarrow> files \<Rightarrow> unit go_result \<times> files" where
  "os_Rename faults old new fs =
     calling faults (RenameCall (file_path old) (file_path new)) fs (rename_path (file_path old) (file_path new) fs)"

definition os_Remove :: "faults \<Rightarrow> string \<Rightarrow> files \<Rightarrow> unit go_result \<times> files" where
  "os_Remove faults path fs = (let p = file_path path in calling faults (RemoveCall p) fs
     (if at_path fs p = None then (Err ''no such file or directory'', fs)
      else if list_ex (\<lambda>q. strict_prefix p q) (map fst fs) then (Err ''directory not empty'', fs)
      else (Ok (), [(q, n) \<leftarrow> fs. q \<noteq> p])))"

definition os_RemoveAll :: "faults \<Rightarrow> string \<Rightarrow> files \<Rightarrow> unit go_result \<times> files" where
  "os_RemoveAll faults path fs = (let p = file_path path in calling faults (RemoveAllCall p) fs (Ok (), [(q, n) \<leftarrow> fs. \<not> prefix p q]))"

text \<open>
  A file that is opened for writing is created or truncated; then its content is written and, where the caller asks for it, flushed to the disk.
\<close>

definition os_Create :: "faults \<Rightarrow> string \<Rightarrow> files \<Rightarrow> unit go_result \<times> files" where
  "os_Create faults path fs = (let p = file_path path in calling faults (CreateCall p) fs
     (if at_path fs p = Some Directory then (Err ''is a directory'', fs)
      else if at_path fs (butlast p) \<noteq> Some Directory then (Err ''no such file or directory'', fs)
      else (Ok (), AList.update p (RegularFile []) fs)))"

definition os_Write :: "faults \<Rightarrow> string \<Rightarrow> string \<Rightarrow> files \<Rightarrow> unit go_result \<times> files" where
  "os_Write faults path text fs = (let p = file_path path in calling faults (WriteCall p) fs (Ok (), AList.update p (RegularFile text) fs))"

definition os_Sync :: "faults \<Rightarrow> string \<Rightarrow> files \<Rightarrow> unit go_result \<times> files" where
  "os_Sync faults path fs = calling faults (SyncCall (file_path path)) fs (Ok (), fs)"

section \<open>Sequences of calls\<close>

definition io_then :: "'a go_result \<times> 's \<Rightarrow> ('a \<Rightarrow> 's \<Rightarrow> 'b go_result \<times> 's) \<Rightarrow> 'b go_result \<times> 's" where
  "io_then r f = (case r of (Ok x, s) \<Rightarrow> f x s | (Err e, s) \<Rightarrow> (Err e, s) | (Panic, s) \<Rightarrow> (Panic, s))"

definition io_wrap :: "string \<Rightarrow> 'a go_result \<times> 's \<Rightarrow> 'a go_result \<times> 's" where
  "io_wrap p r = (wrap_err p (fst r), snd r)"

lemma io_then_simps [simp]: "io_then (Ok x, s) f = f x s" "io_then (Err e, s) f = (Err e, s)" "io_then (Panic, s) f = (Panic, s)"
  by (simp_all add: io_then_def)

lemma io_wrap_simps [simp]: "io_wrap p (Ok x, s) = (Ok x, s)" "io_wrap p (Err e, s) = (Err (p @ e), s)" "io_wrap p (Panic, s) = (Panic, s)"
  "snd (io_wrap p r) = snd r"
  by (simp_all add: io_wrap_def)

lemma io_then_Ok_iff: "io_then r f = (Ok y, s') \<longleftrightarrow> (\<exists>x s. r = (Ok x, s) \<and> f x s = (Ok y, s'))"
  by (auto simp: io_then_def split: prod.splits go_result.splits)

lemma io_wrap_Ok_iff: "io_wrap p r = (Ok y, s) \<longleftrightarrow> r = (Ok y, s)"
  by (cases r) (auto simp: io_wrap_def)

text \<open>
  A relation between the states before and after that every step of a sequence respects and that is transitive, the whole sequence respects.
\<close>

lemma io_then_related:
  assumes "R s (snd r)" "\<And>x s'. r = (Ok x, s') \<Longrightarrow> R s' (snd (f x s'))" "\<And>a b c. R a b \<Longrightarrow> R b c \<Longrightarrow> R a c"
  shows "R s (snd (io_then r f))"
proof (cases r)
  case (Pair x s')
  with assms show ?thesis by (cases x) auto
qed

section \<open>Absolute paths\<close>

text \<open>An absolute path that has been cleaned has the elements that the cleaning has left, and its directory has all but the last of them.\<close>

definition plain_element :: "string \<Rightarrow> bool" where
  "plain_element e \<longleftrightarrow> e \<noteq> [] \<and> e \<noteq> ''.'' \<and> e \<noteq> ''..'' \<and> CHR ''/'' \<notin> set e"

lemma split_char_not_Nil [simp]: "split_char c s \<noteq> []"
  by (induction s) (auto split: list.splits)

lemma split_char_append: "split_char c (a @ c # b) = split_char c a @ split_char c b"
  by (induction a) (auto split: list.splits)

lemma split_char_no: "c \<notin> set a \<Longrightarrow> split_char c a = [a]"
  by (induction a) auto

lemma split_char_elements: "e \<in> set (split_char c s) \<Longrightarrow> c \<notin> set e"
  by (induction s arbitrary: e) (auto split: if_splits list.splits)

lemma file_path_join:
  "list_all plain_element ps \<Longrightarrow> file_path (strings_join ''/'' ps) = ps"
proof (induction "''/''" ps rule: strings_join.induct)
  case (3 x y ys)
  then have "split_char (CHR ''/'') (strings_join ''/'' (x # y # ys)) = x # split_char (CHR ''/'') (strings_join ''/'' (y # ys))"
    using split_char_append [of "CHR ''/''" x "strings_join ''/'' (y # ys)"] by (simp add: plain_element_def split_char_no)
  with 3 show ?case by (simp add: file_path_def plain_element_def)
qed (simp_all add: file_path_def plain_element_def split_char_no)

lemma file_path_slash: "file_path (a @ ''/'' @ b) = file_path a @ file_path b"
  by (simp add: file_path_def split_char_append)

lemma file_path_Nil [simp]: "file_path [] = []"
  by (simp add: file_path_def)

lemma clean_parts_plain:
  "list_all (\<lambda>e. CHR ''/'' \<notin> set e) ps \<Longrightarrow> list_all plain_element acc \<Longrightarrow> list_all plain_element (clean_parts True ps acc)"
proof (induction ps arbitrary: acc)
  case (Cons p ps)
  show ?case
  proof (cases "p = [] \<or> p = ''.''")
    case False
    with Cons show ?thesis by (cases "p = ''..''"; cases acc) (auto simp: plain_element_def)
  qed (use Cons in auto)
qed (simp add: list_all_iff)

lemma clean_parts_id: "list_all plain_element ps \<Longrightarrow> clean_parts True ps acc = rev acc @ ps"
  by (induction ps arbitrary: acc) (auto simp: plain_element_def)

lemma path_Clean_absolute:
  "path_Clean (CHR ''/'' # s) = ''/'' @ strings_join ''/'' (clean_parts True (split_char (CHR ''/'') s) [])"
  by (simp add: path_Clean_def Let_def)

lemma path_Clean_elements:
  "\<exists>ps. list_all plain_element ps \<and> path_Clean (CHR ''/'' # s) = ''/'' @ strings_join ''/'' ps"
proof -
  have "list_all plain_element (clean_parts True (split_char (CHR ''/'') s) [])"
    by (rule clean_parts_plain) (auto simp: list_all_iff dest: split_char_elements)
  then show ?thesis unfolding path_Clean_absolute by blast
qed

lemma path_Dir_elements:
  assumes "list_all plain_element ps"
  shows "file_path (path_Dir (''/'' @ strings_join ''/'' ps)) = butlast ps"
proof (cases ps rule: rev_cases)
  case (snoc qs p)
  have join: "strings_join ''/'' (qs @ [p]) = (if qs = [] then p else strings_join ''/'' qs @ ''/'' @ p)" for qs
    by (induction "''/''" qs rule: strings_join.induct) auto
  from assms snoc have p: "CHR ''/'' \<notin> set p" "list_all plain_element qs" by (auto simp: plain_element_def)
  have cut: "rev (dropWhile (\<lambda>c. c \<noteq> CHR ''/'') (rev (a @ ''/'' @ p))) = a @ ''/''" for a
  proof -
    from p(1) have "dropWhile (\<lambda>c. c \<noteq> CHR ''/'') (rev p @ CHR ''/'' # rev a) = CHR ''/'' # rev a"
      by (subst dropWhile_append2) auto
    then show ?thesis by simp
  qed
  show ?thesis
  proof (cases "qs = []")
    case True
    with cut [of "[]"] snoc show ?thesis by (simp add: path_Dir_def path_Clean_absolute file_path_def)
  next
    case False
    have "split_char (CHR ''/'') (strings_join ''/'' qs @ ''/'') = split_char (CHR ''/'') (strings_join ''/'' qs) @ [[]]"
      using split_char_append [of "CHR ''/''" "strings_join ''/'' qs" "[]"] by simp
    moreover have "split_char (CHR ''/'') (strings_join ''/'' qs) = qs"
      using p(2) False
    proof (induction "''/''" qs rule: strings_join.induct)
      case (3 x y ys)
      then show ?case
        using split_char_append [of "CHR ''/''" x "strings_join ''/'' (y # ys)"] by (simp add: plain_element_def split_char_no)
    qed (simp_all add: plain_element_def split_char_no)
    moreover have "clean_parts True (qs @ [[]]) acc = rev acc @ qs" for acc
      using p(2) by (induction qs arbitrary: acc) (auto simp: plain_element_def)
    moreover have "path_Dir (''/'' @ strings_join ''/'' ps) = path_Clean (CHR ''/'' # strings_join ''/'' qs @ ''/'')"
      using cut [of "''/'' @ strings_join ''/'' qs"] False snoc by (simp add: path_Dir_def join)
    ultimately show ?thesis
      using snoc p(2) file_path_slash [of "[]" "strings_join ''/'' qs"] by (simp add: path_Clean_absolute file_path_join)
  qed
qed (simp add: path_Dir_def path_Clean_absolute file_path_def)

lemma path_Join_absolute:
  assumes "prefix ''/'' a"
  obtains ps where "list_all plain_element ps" "path_Join (a # bs) = ''/'' @ strings_join ''/'' ps"
proof -
  from assms obtain a' where a: "a = CHR ''/'' # a'" by (auto simp: prefix_def)
  have "strings_join ''/'' (a # xs) = CHR ''/'' # a' @ (if xs = [] then [] else ''/'' @ strings_join ''/'' xs)" for xs
    by (cases xs) (simp_all add: a)
  then have "path_Join (a # bs) = path_Clean (CHR ''/'' # a' @ (let xs = [e \<leftarrow> bs. e \<noteq> []] in if xs = [] then [] else ''/'' @ strings_join ''/'' xs))"
    by (simp add: path_Join_def a Let_def)
  with path_Clean_elements that show ?thesis by metis
qed

lemma path_Dir_butlast: "prefix ''/'' a \<Longrightarrow> file_path (path_Dir (path_Join (a # bs))) = butlast (file_path (path_Join (a # bs)))"
proof (erule path_Join_absolute [of a bs])
  fix ps assume ps: "list_all plain_element ps" and join: "path_Join (a # bs) = ''/'' @ strings_join ''/'' ps"
  have "file_path (''/'' @ strings_join ''/'' ps) = ps"
    using file_path_slash [of "[]" "strings_join ''/'' ps"] file_path_join [OF ps] by simp
  then show ?thesis unfolding join path_Dir_elements [OF ps] by simp
qed

lemma clean_parts_filter: "''..'' \<notin> set ps \<Longrightarrow> clean_parts rooted ps acc = rev acc @ [e \<leftarrow> ps. e \<noteq> [] \<and> e \<noteq> ''.'']"
  by (induction ps arbitrary: acc) auto

lemma file_path_Clean:
  assumes "''..'' \<notin> set (split_char (CHR ''/'') s)"
  shows "file_path (path_Clean (CHR ''/'' # s)) = file_path s"
proof -
  have "list_all plain_element (file_path s)"
    using assms by (auto simp: file_path_def list_all_iff plain_element_def dest: split_char_elements)
  with assms file_path_slash [of "[]" "strings_join ''/'' (file_path s)"] show ?thesis
    by (simp add: path_Clean_absolute clean_parts_filter file_path_def [symmetric] file_path_join)
qed

text \<open>Without parent references, joining paths appends their elements.\<close>

lemma file_path_Join:
  assumes "prefix ''/'' a" "''..'' \<notin> set (split_char (CHR ''/'') a)" "''..'' \<notin> set (split_char (CHR ''/'') b)"
  shows "file_path (path_Join [a, b]) = file_path a @ file_path b"
proof -
  from assms(1) obtain a' where a: "a = CHR ''/'' # a'" by (auto simp: prefix_def)
  with assms(2) have "''..'' \<notin> set (split_char (CHR ''/'') a')" by auto
  moreover from this assms(3) have "''..'' \<notin> set (split_char (CHR ''/'') (a' @ CHR ''/'' # b))" by (simp add: split_char_append)
  moreover have "file_path a = file_path a'" using file_path_slash [of "[]" a'] by (simp add: a)
  ultimately show ?thesis
    using file_path_slash [of a' b] by (simp add: path_Join_def a file_path_Clean)
qed

section \<open>What a call changes\<close>

definition same_below :: "file_path \<Rightarrow> files \<Rightarrow> files \<Rightarrow> bool" where
  "same_below p fs fs' \<longleftrightarrow> (\<forall>q. prefix p q \<longrightarrow> at_path fs' q = at_path fs q)"

text \<open>What the program may rely on of a failing call: only removals and writes leave something behind, and only where they work.\<close>

fun may_change :: "io_call \<Rightarrow> file_path \<Rightarrow> bool" where
  "may_change (RemoveAllCall p) q = prefix p q"
| "may_change (WriteCall p) q = (p = q)"
| "may_change _ q = False"

definition faults_local :: "faults \<Rightarrow> bool" where
  "faults_local faults \<longleftrightarrow> (\<forall>call fs e fs' q. faults call fs = Some (e, fs') \<longrightarrow> \<not> may_change call q \<longrightarrow> at_path fs' q = at_path fs q)"

lemma same_below_refl [simp]: "same_below p fs fs" by (simp add: same_below_def)
lemma same_below_trans: "same_below p a b \<Longrightarrow> same_below p b c \<Longrightarrow> same_below p a c" by (simp add: same_below_def)

lemma at_path_update: "p \<noteq> q \<Longrightarrow> at_path (AList.update p n fs) q = at_path fs q"
  by (simp add: at_path_def update_conv')

lemma at_path_update_same: "p \<noteq> [] \<Longrightarrow> at_path (AList.update p n fs) p = Some n"
  by (simp add: at_path_def update_conv')

lemma at_path_filter: "P q \<Longrightarrow> at_path [(q, n) \<leftarrow> fs. P q] q = at_path fs q"
  by (induction fs) (auto simp: at_path_def)

lemma fault_at:
  "faults_local faults \<Longrightarrow> faults call fs = Some (e, fs') \<Longrightarrow> \<not> may_change call q \<Longrightarrow> at_path fs' q = at_path fs q"
  unfolding faults_local_def by blast

lemma calling_at:
  assumes "faults_local faults" "\<not> may_change call q" "at_path (snd answer) q = at_path fs q"
  shows "at_path (snd (calling faults call fs answer)) q = at_path fs q"
  using assms fault_at [OF assms(1) _ assms(2)] by (auto simp: calling_def split: option.split)

lemma mkdir_each_at:
  assumes "faults_local faults" "q \<notin> set ps"
  shows "at_path (snd (mkdir_each faults ps fs)) q = at_path fs q"
  using assms(2)
proof (induction ps arbitrary: fs)
  case (Cons a ps)
  have "at_path fs' q = at_path fs q" if "faults (MkdirCall a) fs = Some (e, fs')" for e fs'
    using assms(1) that by (rule fault_at) simp
  with Cons show ?case by (auto simp: at_path_update split: option.split node.split)
qed simp

lemma MkdirAll_at:
  assumes "faults_local faults" "\<not> prefix q (file_path path)"
  shows "at_path (snd (os_MkdirAll faults path fs)) q = at_path fs q"
  unfolding os_MkdirAll_def using assms by (intro mkdir_each_at) (simp_all add: in_set_prefixes)

lemma Create_at:
  assumes "faults_local faults" "file_path path \<noteq> q"
  shows "at_path (snd (os_Create faults path fs)) q = at_path fs q"
  unfolding os_Create_def Let_def using assms by (intro calling_at) (simp_all add: at_path_update)

lemma Write_at:
  assumes "faults_local faults" "file_path path \<noteq> q"
  shows "at_path (snd (os_Write faults path text fs)) q = at_path fs q"
  unfolding os_Write_def Let_def using assms by (intro calling_at) (simp_all add: at_path_update)

lemma Sync_at: "faults_local faults \<Longrightarrow> at_path (snd (os_Sync faults path fs)) q = at_path fs q"
  unfolding os_Sync_def by (intro calling_at) simp_all

lemma MkdirAll_same:
  assumes "faults_local faults" "\<not> prefix p (file_path path)"
  shows "same_below p fs (snd (os_MkdirAll faults path fs))"
  unfolding same_below_def using assms by (auto intro!: MkdirAll_at dest: prefix_order.trans)

lemma RemoveAll_same:
  assumes "faults_local faults" "parallel p (file_path path)"
  shows "same_below p fs (snd (os_RemoveAll faults path fs))"
  unfolding same_below_def os_RemoveAll_def Let_def
proof (intro allI impI calling_at assms(1))
  fix q assume "prefix p q"
  with assms(2) have q: "\<not> prefix (file_path path) q" using prefix_same_cases by (auto simp: parallel_def)
  then show "\<not> may_change (RemoveAllCall (file_path path)) q" by simp
  from q show "at_path (snd (Ok (), [(q, n) \<leftarrow> fs. \<not> prefix (file_path path) q])) q = at_path fs q" by (auto intro: at_path_filter)
qed

lemma rename_fails_same: "rename_path old new fs = (r, fs') \<Longrightarrow> r \<noteq> Ok () \<Longrightarrow> fs' = fs"
  by (auto simp: rename_path_def split: option.splits if_splits)

lemma Rename_fails_same:
  assumes "faults_local faults" "os_Rename faults old new fs = (r, fs')" "r \<noteq> Ok ()"
  shows "same_below p fs fs'"
proof (cases "faults (RenameCall (file_path old) (file_path new)) fs")
  case None
  with assms(2,3) rename_fails_same show ?thesis by (fastforce simp: os_Rename_def calling_def)
next
  case (Some a)
  with assms(2) have "faults (RenameCall (file_path old) (file_path new)) fs = Some (fst a, fs')"
    by (cases a) (simp add: os_Rename_def calling_def)
  with fault_at [OF assms(1)] show ?thesis by (auto simp: same_below_def)
qed

text \<open>A rename that succeeds moves the whole tree onto a place where no directory was.\<close>

lemma map_of_move:
  "\<not> prefix old new \<Longrightarrow> \<not> prefix new old \<Longrightarrow>
   map_of (move_tree old new fs) q =
     (if prefix new q then map_of fs (old @ drop (length new) q) else if prefix old q then None else map_of fs q)"
proof (induction fs)
  case (Cons x fs)
  obtain p n where x: "x = (p, n)" by fastforce
  have step: "map_of (move_tree old new (x # fs)) q =
    (if \<not> prefix new p \<and> q = (if prefix old p then new @ drop (length old) p else p) then Some n else map_of (move_tree old new fs) q)"
    by (simp add: x move_tree_def)
  have apart: "\<not> (prefix old q \<and> prefix new q)" for q using Cons.prems prefix_same_cases by blast
  have target: "q = new @ drop (length old) p \<longleftrightarrow> prefix new q \<and> p = old @ drop (length new) q" if "prefix old p"
    using that by (auto simp: prefix_def)
  have IH: "map_of (move_tree old new fs) q =
    (if prefix new q then map_of fs (old @ drop (length new) q) else if prefix old q then None else map_of fs q)"
    using Cons by blast
  show ?case
  proof (cases "prefix old p")
    case True
    with apart [of p] apart [of q] target [OF True] show ?thesis unfolding step IH by (auto simp: x)
  next
    case False
    then have "p \<noteq> old @ drop (length new) q" by auto
    with False show ?thesis unfolding step IH by (auto simp: x)
  qed
qed (simp add: move_tree_def)

lemma rename_Ok:
  assumes "rename_path old new fs = (Ok (), fs')" "old \<noteq> new"
  shows "\<not> prefix old new \<and> at_path fs new \<noteq> Some Directory \<and> at_path fs old \<noteq> None \<and> fs' = move_tree old new fs"
  using assms by (auto simp: rename_path_def split: option.splits if_splits)

lemma Rename_Ok:
  assumes "os_Rename faults old new fs = (Ok (), fs')" "parallel (file_path old) (file_path new)"
  shows "at_path fs (file_path new) \<noteq> Some Directory \<and> at_path fs (file_path old) \<noteq> None \<and>
    (\<forall>r. at_path fs' (file_path new @ r) = at_path fs (file_path old @ r))"
proof -
  from assms(1) have r: "rename_path (file_path old) (file_path new) fs = (Ok (), fs')"
    by (auto simp: os_Rename_def calling_def split: option.splits)
  from assms(2) have ne: "file_path old \<noteq> file_path new" "\<not> prefix (file_path new) (file_path old)" "file_path old \<noteq> []" "file_path new \<noteq> []" by auto
  from rename_Ok [OF r ne(1)] ne show ?thesis by (auto simp: at_path_def map_of_move)
qed

end
