(* ===== verification/Project_Clone.thy ===== *)
theory Project_Clone
  imports Clone_Files
begin

text \<open>
  The project clone program (\<^verbatim>\<open>src/project-clone\<close>), which runs in an init container and puts the projects of a workspace into the
  directory \<^verbatim>\<open>$PROJECTS_ROOT\<close>.

  The state is the file system, the commands that have been run and the time spent waiting between attempts. The programs and libraries that
  the code calls are parameters: the \<^verbatim>\<open>git\<close> binary, which may answer differently each time and so sees the commands run before; the
  go-git library; the archive, YAML, ssh and certificate libraries; the HTTP client. The text of log messages is left out.
\<close>

section \<open>Interface to libraries and programs\<close>

record machine =
  m_files :: files
  m_commands :: "string list list"
  m_slept :: int  \<comment> \<open>nanoseconds\<close>

datatype open_answer = RepositoryOpened | ErrRepositoryNotExists | OpenError err
datatype remote_answer = RemoteURLs "string list" | ErrRemoteNotFound | RemoteError err
datatype create_answer = RemoteCreated | ErrRemoteExists | CreateError err

record BasicAuth =
  ba_Username :: string
  ba_Password :: string

datatype AuthMethod = NoAuth | TokenAuth BasicAuth | PublicKeysAuth opaque

record clone_globals =
  g_ProjectsRoot :: string
  g_CloneTmpDir :: string
  g_CloneRetries :: nat
  g_tokenAuthMethod :: "(string \<times> BasicAuth) list"

text \<open>What reading gives: the bytes before the end or before an error.\<close>

type_synonym stream = "string \<times> err option"

text \<open>A file of an archive; opening it, reading it and closing it may fail.\<close>

record zip_file =
  zf_Name :: string
  zf_IsDir :: bool
  zf_Open :: "err option"
  zf_Content :: stream
  zf_Close :: "err option"

text \<open>A response: its status and its body.\<close>

type_synonym http_answer = "int \<times> stream"

record 'q clone_env =
  ce_globals :: clone_globals
  ce_faults :: faults
  ce_run :: "string list list \<Rightarrow> string list \<Rightarrow> files \<Rightarrow> err option \<times> files"
  ce_PlainOpen :: "files \<Rightarrow> string \<Rightarrow> open_answer"
  ce_Remote :: "files \<Rightarrow> string \<Rightarrow> string \<Rightarrow> remote_answer"
  ce_CreateRemote :: "string \<Rightarrow> string \<Rightarrow> string list \<Rightarrow> files \<Rightarrow> create_answer \<times> files"
  ce_lib :: "'q library"
  ce_getBoolean :: "attributes \<Rightarrow> string \<Rightarrow> err + bool"
  ce_encode :: "string \<Rightarrow> string"
  ce_getenv :: "string \<Rightarrow> string"
  ce_unmarshal :: "string \<Rightarrow> err + DevWorkspaceTemplateSpec"
  ce_OpenReader :: "string \<Rightarrow> err + zip_file list"

abbreviation ce_ProjectsRoot :: "'q clone_env \<Rightarrow> string" where "ce_ProjectsRoot env \<equiv> g_ProjectsRoot (ce_globals env)"
abbreviation ce_CloneTmpDir :: "'q clone_env \<Rightarrow> string" where "ce_CloneTmpDir env \<equiv> g_CloneTmpDir (ce_globals env)"
abbreviation ce_CloneRetries :: "'q clone_env \<Rightarrow> nat" where "ce_CloneRetries env \<equiv> g_CloneRetries (ce_globals env)"

definition on_files :: "(files \<Rightarrow> 'a go_result \<times> files) \<Rightarrow> machine \<Rightarrow> 'a go_result \<times> machine" where
  "on_files f m = (case f (m_files m) of (r, fs) \<Rightarrow> (r, m\<lparr>m_files := fs\<rparr>))"

section \<open>Start-up (global.go)\<close>

definition line_break :: char where "line_break = CHR 0x0A"

text \<open>
  The expression \<^verbatim>\<open>https://(.+):(.+)@(.+)\<close>. A dot does not match a line break, so a match lies in one line; repetitions take as much as
  they can. The last group ends at the end of the line, the separator before it is therefore the last \<^verbatim>\<open>@\<close> that something follows, and the
  one before that the last colon that leaves something on both sides.
\<close>

definition last_index :: "(nat \<Rightarrow> bool) \<Rightarrow> nat \<Rightarrow> nat option" where
  "last_index P n = find P (rev [0..<n])"

definition credential_parts :: "string \<Rightarrow> (string \<times> string \<times> string) option" where
  "credential_parts rest =
     (case last_index (\<lambda>j. rest ! j = CHR ''@'') (length rest - 1) of
        None \<Rightarrow> None
      | Some j \<Rightarrow>
          (case last_index (\<lambda>i. 0 < i \<and> rest ! i = CHR '':'') (j - 1) of
             None \<Rightarrow> None
           | Some i \<Rightarrow> Some (take i rest, take (j - Suc i) (drop (Suc i) rest), drop (Suc j) rest)))"

fun credential_in :: "string \<Rightarrow> (string \<times> string \<times> string) option" where
  "credential_in [] = None"
| "credential_in (c # cs) =
     (case if prefix ''https://'' (c # cs) then credential_parts (drop 8 (c # cs)) else None of
        Some m \<Rightarrow> Some m
      | None \<Rightarrow> credential_in cs)"

definition parseCredentialsFile :: "string \<Rightarrow> (string \<times> BasicAuth) list" where
  "parseCredentialsFile gitCredentials =
     fold (\<lambda>(username, pat, url). AList.update url \<lparr>ba_Username = username, ba_Password = pat\<rparr>)
       (List.map_filter credential_in (strings_split line_break gitCredentials)) []"

definition credentialsMountPath :: string where "credentialsMountPath = ''/.git-credentials/credentials''"

text \<open>\<^verbatim>\<open>os.Exit\<close> ends the program with a code.\<close>

datatype 'a startup = ExitCode int | Continue 'a

definition setupAuth :: "faults \<Rightarrow> files \<Rightarrow> (string \<times> BasicAuth) list startup" where
  "setupAuth faults fs =
     (case os_ReadFile faults fs credentialsMountPath of
        Missing \<Rightarrow> Continue []
      | Failed _ \<Rightarrow> ExitCode 1
      | Found gitCredentials \<Rightarrow> Continue (parseCredentialsFile gitCredentials))"

text \<open>\<^verbatim>\<open>strconv.Atoi\<close>: an optional sign and decimal digits, within 64 bits.\<close>

definition is_digit :: "char \<Rightarrow> bool" where "is_digit c \<longleftrightarrow> 48 \<le> (of_char c :: int) \<and> (of_char c :: int) \<le> 57"

definition strconv_Atoi :: "string \<Rightarrow> int option" where
  "strconv_Atoi s =
     (let negative = prefix ''-'' s; digits = (if negative \<or> prefix ''+'' s then tl s else s);
          n = foldl (\<lambda>n c. 10 * n + (of_char c - 48)) 0 digits; value = (if negative then - n else n) in
      if digits = [] \<or> \<not> list_all is_digit digits \<or> value < - (2 ^ 63) \<or> value \<ge> 2 ^ 63 then None else Some value)"

definition defaultCloneRetries :: nat where "defaultCloneRetries = 3"
definition maxCloneRetries :: nat where "maxCloneRetries = 10"
definition BaseRetryDelay :: int where "BaseRetryDelay = 1000000000"

definition cloneRetries :: "string \<Rightarrow> nat" where
  "cloneRetries val =
     (if val = [] then defaultCloneRetries
      else case strconv_Atoi val of
        None \<Rightarrow> defaultCloneRetries
      | Some parsed \<Rightarrow>
          if parsed < 0 then defaultCloneRetries
          else if parsed > int maxCloneRetries then maxCloneRetries
          else nat parsed)"

text \<open>
  \<^verbatim>\<open>init\<close>: \<open>random\<close> is what \<^verbatim>\<open>os.MkdirTemp\<close> appends to the pattern, a name that is not in use.
\<close>

definition os_MkdirTemp :: "faults \<Rightarrow> string \<Rightarrow> string \<Rightarrow> files \<Rightarrow> (err + string) \<times> files" where
  "os_MkdirTemp faults dir name fs =
     (let path = path_Join [dir, name]; p = file_path path in
      case faults (MkdirCall p) fs of
        Some (e, fs') \<Rightarrow> (Inl e, fs')
      | None \<Rightarrow>
          if at_path fs (butlast p) \<noteq> Some Directory then (Inl ''no such file or directory'', fs)
          else (Inr path, AList.update p Directory fs))"

definition init_clone :: "faults \<Rightarrow> (string \<Rightarrow> string) \<Rightarrow> string \<Rightarrow> files \<Rightarrow> clone_globals startup \<times> files" where
  "init_clone faults getenv random fs =
     (let projectsRoot = getenv ''PROJECTS_ROOT'' in
      if projectsRoot = [] then (ExitCode 1, fs)
      else case os_MkdirTemp faults projectsRoot (''project-clone-'' @ random) fs of
        (Inl _, fs) \<Rightarrow> (ExitCode 1, fs)
      | (Inr tmpDir, fs) \<Rightarrow>
          (case setupAuth faults fs of
             ExitCode code \<Rightarrow> (ExitCode code, fs)
           | Continue auth \<Rightarrow>
               (Continue \<lparr>g_ProjectsRoot = projectsRoot, g_CloneTmpDir = tmpDir, g_CloneRetries = cloneRetries (getenv ''PROJECT_CLONE_RETRIES''),
                  g_tokenAuthMethod = auth\<rparr>, fs)))"

text \<open>
  \<^verbatim>\<open>GetAuthForHost\<close>: the parser of addresses gives the protocol and the host, the ssh configuration the keys and the user of a host.
\<close>

record ssh_lib =
  sl_NewEndpoint :: "string \<Rightarrow> err + string \<times> string"
  sl_GetAll :: "string \<Rightarrow> string list"
  sl_Get :: "string \<Rightarrow> string"
  sl_NewPublicKeysFromFile :: "string \<Rightarrow> string \<Rightarrow> err + opaque"

definition GetAuthForHost :: "ssh_lib \<Rightarrow> clone_globals \<Rightarrow> string \<Rightarrow> AuthMethod go_result" where
  "GetAuthForHost L globals repoURLStr =
     (case sl_NewEndpoint L repoURLStr of
        Inl e \<Rightarrow> Err (''failed to parse url: '' @ e)
      | Inr (protocol, host) \<Rightarrow>
          if protocol = ''ssh'' then
            (let configured = sl_Get L host; user = (if configured = [] then ''git'' else configured) in
             case sl_GetAll L host of
               [] \<Rightarrow> Panic
             | identityFile # _ \<Rightarrow>
                 (case sl_NewPublicKeysFromFile L user identityFile of
                    Inl e \<Rightarrow> Err (''failed to set up SSH: '' @ e)
                  | Inr pubkeys \<Rightarrow> Ok (PublicKeysAuth pubkeys)))
          else if protocol = ''http'' \<or> protocol = ''https'' then
            Ok (case map_of (g_tokenAuthMethod globals) host of None \<Rightarrow> NoAuth | Some authMethod \<Rightarrow> TokenAuth authMethod)
          else Ok NoAuth)"

section \<open>The devfile (devfile.go)\<close>

definition ProjectSparseCheckout :: string where "ProjectSparseCheckout = ''sparseCheckout''"
definition ProjectSubDir :: string where "ProjectSubDir = ''subDir''"

definition ReadFlattenedDevWorkspace :: "'q clone_env \<Rightarrow> files \<Rightarrow> err + DevWorkspaceTemplateSpec" where
  "ReadFlattenedDevWorkspace env fs =
     (let flattenedDevWorkspacePath = ce_getenv env ''DEVWORKSPACE_FLATTENED_DEVFILE'' in
      if flattenedDevWorkspacePath = [] then Inl ''required environment variable DEVWORKSPACE_FLATTENED_DEVFILE is unset''
      else case os_ReadFile (ce_faults env) fs flattenedDevWorkspacePath of
        Missing \<Rightarrow> Inl ''error reading YAML file: no such file or directory''
      | Failed e \<Rightarrow> Inl (''error reading YAML file: '' @ e)
      | Found fileBytes \<Rightarrow>
          (case ce_unmarshal env fileBytes of
             Inl e \<Rightarrow> Inl (''error unmarshalling DevWorkspace YAML: '' @ e)
           | Inr dwts \<Rightarrow> Inr dwts))"

definition StarterProjectToRegularProject :: "'q clone_env \<Rightarrow> StarterProject \<Rightarrow> Project" where
  "StarterProjectToRegularProject env starterProject =
     \<lparr>prj_Name = sp_Name starterProject, prj_ClonePath = [],
      prj_Attributes =
        (if sp_SubDir starterProject \<noteq> [] then AList.update ProjectSubDir (ce_encode env (sp_SubDir starterProject)) (sp_Attributes starterProject)
         else sp_Attributes starterProject),
      prj_Git = sp_Git starterProject, prj_Zip = sp_Zip starterProject\<rparr>"

section \<open>State of a project (utils.go)\<close>

definition projectPath_of :: "'q clone_env \<Rightarrow> Project \<Rightarrow> string" where
  "projectPath_of env project = path_Join [ce_ProjectsRoot env, GetClonePath project]"

definition tmpPath_of :: "'q clone_env \<Rightarrow> Project \<Rightarrow> string" where
  "tmpPath_of env project = path_Join [ce_CloneTmpDir env, GetClonePath project]"

definition OpenRepo :: "'q clone_env \<Rightarrow> files \<Rightarrow> string \<Rightarrow> err + bool" where
  "OpenRepo env fs repoPath =
     (case ce_PlainOpen env fs repoPath of
        RepositoryOpened \<Rightarrow> Inr True
      | ErrRepositoryNotExists \<Rightarrow> Inr False
      | OpenError e \<Rightarrow> Inl (''encountered error reading git repo at '' @ repoPath @ '': '' @ e))"

definition DirExists :: "'q clone_env \<Rightarrow> files \<Rightarrow> string \<Rightarrow> bool \<times> err option" where
  "DirExists env fs dir =
     (case os_Stat (ce_faults env) fs dir of
        Missing \<Rightarrow> (False, None)
      | Failed e \<Rightarrow> (False, Some e)
      | Found Directory \<Rightarrow> (True, None)
      | Found (RegularFile _) \<Rightarrow> (False, Some (''path '' @ dir @ '' already exists and is not a directory'')))"

text \<open>The error of reading the attribute is stored in another variable than the one that is tested, so it is not seen.\<close>

definition checkSubPathProjectState :: "'q clone_env \<Rightarrow> files \<Rightarrow> Project \<Rightarrow> (bool \<times> bool) go_result" where
  "checkSubPathProjectState env fs project =
     (case os_Stat (ce_faults env) fs (projectPath_of env project) of
        Missing \<Rightarrow> Ok (True, False)
      | Failed e \<Rightarrow> Err e
      | Found Directory \<Rightarrow> Ok (False, False)
      | Found (RegularFile _) \<Rightarrow>
          Err (''could not check project state for project '' @ prj_Name project @ '' -- path '' @ projectPath_of env project @
            '' exists and is not a directory''))"

fun check_remotes :: "'q clone_env \<Rightarrow> files \<Rightarrow> string \<Rightarrow> (string \<times> string) list \<Rightarrow> (bool \<times> bool) go_result" where
  "check_remotes env fs repoPath [] = Ok (False, False)"
| "check_remotes env fs repoPath ((projRemote, projRemoteURL) # remotes) =
     (case ce_Remote env fs repoPath projRemote of
        ErrRemoteNotFound \<Rightarrow> Ok (False, True)
      | RemoteError e \<Rightarrow> Err (''error reading remotes: '' @ e)
      | RemoteURLs urls \<Rightarrow> if projRemoteURL \<in> set urls then check_remotes env fs repoPath remotes else Ok (False, True))"

definition CheckProjectState :: "'q clone_env \<Rightarrow> files \<Rightarrow> Project \<Rightarrow> (bool \<times> bool) go_result" where
  "CheckProjectState env fs project =
     (if attr_exists (prj_Attributes project) ProjectSubDir then checkSubPathProjectState env fs project
      else case OpenRepo env fs (projectPath_of env project) of
        Inl e \<Rightarrow> Err e
      | Inr False \<Rightarrow> Ok (True, False)
      | Inr True \<Rightarrow>
          (case prj_Git project of
             None \<Rightarrow> Panic
           | Some git \<Rightarrow> check_remotes env fs (projectPath_of env project) (go_items (gs_Remotes git))))"

text \<open>
  \<^verbatim>\<open>GetAdditionalCerts\<close>: the certificates of the system, if they can be read, extended with the files of a directory; \<open>addPEM\<close> adds the
  certificates of a file to the pool, if there are any.
\<close>

definition publicCertsDir :: string where "publicCertsDir = ''/public-certs''"

fun append_certs :: "faults \<Rightarrow> files \<Rightarrow> ('p \<Rightarrow> string \<Rightarrow> 'p option) \<Rightarrow> (string \<times> bool) list \<Rightarrow> 'p \<Rightarrow> string list \<Rightarrow> 'p \<times> string list" where
  "append_certs faults fs addPEM [] pool warnings = (pool, warnings)"
| "append_certs faults fs addPEM ((name, isDir) # certFiles) pool warnings =
     (if isDir \<or> filepath_Ext name \<noteq> ''.crt'' \<and> filepath_Ext name \<noteq> ''.pem'' then append_certs faults fs addPEM certFiles pool warnings
      else
        let fullPath = path_Join [publicCertsDir, name];
            (fileBytes, warnings) = (case os_ReadFile faults fs fullPath of
               Found text \<Rightarrow> (text, warnings)
             | Missing \<Rightarrow> ([], warnings @ [''Failed to read certificate '' @ fullPath @ '': no such file or directory''])
             | Failed e \<Rightarrow> ([], warnings @ [''Failed to read certificate '' @ fullPath @ '': '' @ e])) in
        case addPEM pool fileBytes of
          Some pool \<Rightarrow> append_certs faults fs addPEM certFiles pool warnings
        | None \<Rightarrow> append_certs faults fs addPEM certFiles pool (warnings @ [''Failed to append certificate '' @ fullPath @ '' to pool'']))"

definition GetAdditionalCerts ::
  "faults \<Rightarrow> files \<Rightarrow> err + 'p \<Rightarrow> ('p \<Rightarrow> string \<Rightarrow> 'p option) \<Rightarrow> (err + 'p) \<times> string list" where
  "GetAdditionalCerts faults fs systemPool addPEM =
     (case systemPool of
        Inl e \<Rightarrow> (Inl (''could not read system certificates pool: '' @ e), [])
      | Inr rootCAs \<Rightarrow>
          (case os_ReadDir faults fs publicCertsDir of
             Missing \<Rightarrow> (Inr rootCAs, [])
           | Failed e \<Rightarrow> (Inl (''could not read files in '' @ publicCertsDir @ '': '' @ e), [])
           | Found certFiles \<Rightarrow> apfst Inr (append_certs faults fs addPEM certFiles rootCAs [])))"

end
