(* ===== verification/Project_Setup.thy ===== *)
theory Project_Setup
  imports Project_Clone
begin

text \<open>
  Git projects of the project clone program: the commands it runs (\<^verbatim>\<open>project-clone/internal/shell\<close>) and what it does with them
  (\<^verbatim>\<open>internal/git\<close>).
\<close>

section \<open>Commands (shell/execute.go)\<close>

datatype GitRefType = GitRefUnknown | GitRefLocalBranch | GitRefRemoteBranch | GitRefTag | GitRefHash

definition executeCommand :: "'q clone_env \<Rightarrow> string list \<Rightarrow> machine \<Rightarrow> unit go_result \<times> machine" where
  "executeCommand env command m =
     (case ce_run env (m_commands m) command (m_files m) of
        (e, fs) \<Rightarrow> (case e of None \<Rightarrow> Ok () | Some e \<Rightarrow> Err e, m\<lparr>m_files := fs, m_commands := m_commands m @ [command]\<rparr>))"

definition GitCloneProject :: "'q clone_env \<Rightarrow> string \<Rightarrow> string \<Rightarrow> string \<Rightarrow> machine \<Rightarrow> unit go_result \<times> machine" where
  "GitCloneProject env repoUrl defaultRemoteName destPath =
     executeCommand env [''git'', ''clone'', repoUrl, ''--origin'', defaultRemoteName, ''--'', destPath]"

definition GitSparseCloneProject :: "'q clone_env \<Rightarrow> string \<Rightarrow> string \<Rightarrow> string \<Rightarrow> machine \<Rightarrow> unit go_result \<times> machine" where
  "GitSparseCloneProject env repoUrl defaultRemoteName destPath =
     executeCommand env [''git'', ''clone'', ''--sparse'', repoUrl, ''--origin'', defaultRemoteName, ''--'', destPath]"

definition GitSetupSparseCheckout :: "'q clone_env \<Rightarrow> string \<Rightarrow> string \<Rightarrow> machine \<Rightarrow> unit go_result \<times> machine" where
  "GitSetupSparseCheckout env projectPath sparseCheckoutDir =
     executeCommand env [''git'', ''-C'', projectPath, ''sparse-checkout'', ''set'', sparseCheckoutDir]"

definition GitFetchRemote :: "'q clone_env \<Rightarrow> string \<Rightarrow> string \<Rightarrow> machine \<Rightarrow> unit go_result \<times> machine" where
  "GitFetchRemote env projectPath remote = executeCommand env [''git'', ''-C'', projectPath, ''fetch'', remote]"

definition GitCheckoutRef :: "'q clone_env \<Rightarrow> string \<Rightarrow> string \<Rightarrow> machine \<Rightarrow> unit go_result \<times> machine" where
  "GitCheckoutRef env projectPath reference = executeCommand env [''git'', ''-C'', projectPath, ''checkout'', reference]"

definition GitCheckoutBranch :: "'q clone_env \<Rightarrow> string \<Rightarrow> string \<Rightarrow> string \<Rightarrow> machine \<Rightarrow> unit go_result \<times> machine" where
  "GitCheckoutBranch env projectPath branchName remote =
     executeCommand env [''git'', ''-C'', projectPath, ''checkout'', ''-b'', branchName, ''--track'', remote @ ''/'' @ branchName]"

definition GitCheckoutBranchLocal :: "'q clone_env \<Rightarrow> string \<Rightarrow> string \<Rightarrow> machine \<Rightarrow> unit go_result \<times> machine" where
  "GitCheckoutBranchLocal env projectPath branchName = executeCommand env [''git'', ''-C'', projectPath, ''checkout'', branchName]"

definition GitSetTrackingRemoteBranch :: "'q clone_env \<Rightarrow> string \<Rightarrow> string \<Rightarrow> string \<Rightarrow> machine \<Rightarrow> unit go_result \<times> machine" where
  "GitSetTrackingRemoteBranch env projectPath branchName remote =
     executeCommand env [''git'', ''-C'', projectPath, ''branch'', ''--set-upstream-to'', remote @ ''/'' @ branchName, branchName]"

text \<open>The four tests of \<^verbatim>\<open>GitResolveReference\<close>, in order; the first that succeeds decides.\<close>

fun first_success :: "'q clone_env \<Rightarrow> (string list \<times> GitRefType) list \<Rightarrow> machine \<Rightarrow> GitRefType go_result \<times> machine" where
  "first_success env [] m = (Ok GitRefUnknown, m)"
| "first_success env ((command, refType) # rest) m =
     (case executeCommand env command m of
        (Ok _, m) \<Rightarrow> (Ok refType, m)
      | (_, m) \<Rightarrow> first_success env rest m)"

definition GitResolveReference :: "'q clone_env \<Rightarrow> string \<Rightarrow> string \<Rightarrow> string \<Rightarrow> machine \<Rightarrow> GitRefType go_result \<times> machine" where
  "GitResolveReference env projectPath remote revision =
     first_success env
       [([''git'', ''-C'', projectPath, ''show-ref'', ''-q'', ''--verify'', ''refs/heads/'' @ revision], GitRefLocalBranch),
        ([''git'', ''-C'', projectPath, ''show-ref'', ''-q'', ''--verify'', ''refs/remotes/'' @ remote @ ''/'' @ revision], GitRefRemoteBranch),
        ([''git'', ''-C'', projectPath, ''show-ref'', ''-q'', ''--verify'', ''refs/tags/'' @ revision], GitRefTag),
        ([''git'', ''-C'', projectPath, ''rev-parse'', ''-q'', ''--verify'', revision @ ''^{commit}''], GitRefHash)]"

definition GitInitSubmodules :: "'q clone_env \<Rightarrow> string \<Rightarrow> machine \<Rightarrow> unit go_result \<times> machine" where
  "GitInitSubmodules env projectPath = executeCommand env [''git'', ''-C'', projectPath, ''submodule'', ''update'', ''--init'', ''--recursive'']"

section \<open>Git operations (git/operations.go)\<close>

text \<open>The remote that \<^verbatim>\<open>CloneProject\<close> clones from.\<close>

definition default_remote :: "GitProjectSource \<Rightarrow> err + string \<times> string" where
  "default_remote git =
     (let remotes = go_items (gs_Remotes git) in
      if remotes = [] then Inl ''project does not define remotes''
      else case gs_CheckoutFrom git of
        Some checkoutFrom \<Rightarrow>
          if co_Remote checkoutFrom = [] \<and> length remotes \<noteq> 1 then Inl ''project checkoutFrom remote can't be omitted with multiple remotes''
          else
            let defaultRemoteName = (if co_Remote checkoutFrom = [] then fst (hd remotes) else co_Remote checkoutFrom) in
            (case go_get (gs_Remotes git) defaultRemoteName of
               None \<Rightarrow> Inl (''project checkoutFrom refers to non-existing remote '' @ defaultRemoteName)
             | Some remoteURL \<Rightarrow> Inr (defaultRemoteName, remoteURL))
      | None \<Rightarrow>
          if length remotes > 1 then Inl ''project checkoutFrom field is required when a project defines multiple remotes''
          else Inr (hd remotes))"

definition CloneProject :: "'q clone_env \<Rightarrow> Project \<Rightarrow> string \<Rightarrow> machine \<Rightarrow> unit go_result \<times> machine" where
  "CloneProject env project projectPath m =
     (case prj_Git project of
        None \<Rightarrow> (Panic, m)
      | Some git \<Rightarrow>
          (case default_remote git of
             Inl e \<Rightarrow> (Err e, m)
           | Inr (defaultRemoteName, defaultRemoteURL) \<Rightarrow>
               if attr_exists (prj_Attributes project) ProjectSparseCheckout then
                 io_wrap (''failed to sparsely git clone from '' @ defaultRemoteURL @ '': '')
                   (GitSparseCloneProject env defaultRemoteURL defaultRemoteName projectPath m)
               else
                 io_wrap (''failed to git clone from '' @ defaultRemoteURL @ '': '')
                   (GitCloneProject env defaultRemoteURL defaultRemoteName projectPath m)))"

definition SetupSparseCheckout :: "'q clone_env \<Rightarrow> Project \<Rightarrow> string \<Rightarrow> machine \<Rightarrow> unit go_result \<times> machine" where
  "SetupSparseCheckout env project projectPath m =
     (case lib_getString (ce_lib env) (prj_Attributes project) ProjectSparseCheckout of
        Inl _ \<Rightarrow> (Err (''failed to read '' @ ProjectSparseCheckout @ '' attribute on project '' @ prj_Name project), m)
      | Inr sparseCheckoutDir \<Rightarrow>
          if sparseCheckoutDir = [] then (Ok (), m)
          else io_wrap ''error running sparse-checkout set: '' (GitSetupSparseCheckout env projectPath sparseCheckoutDir m))"

fun setup_each_remote :: "'q clone_env \<Rightarrow> string \<Rightarrow> (string \<times> string) list \<Rightarrow> machine \<Rightarrow> unit go_result \<times> machine" where
  "setup_each_remote env projectPath [] m = (Ok (), m)"
| "setup_each_remote env projectPath ((remoteName, remoteUrl) # remotes) m =
     (case ce_CreateRemote env projectPath remoteName [remoteUrl] (m_files m) of
        (CreateError e, fs) \<Rightarrow> (Err (''failed to add remote '' @ remoteName @ '': '' @ e), m\<lparr>m_files := fs\<rparr>)
      | (_, fs) \<Rightarrow>
          io_then (io_wrap (''failed to fetch from remote '' @ remoteUrl @ '': '') (GitFetchRemote env projectPath remoteName (m\<lparr>m_files := fs\<rparr>)))
            (\<lambda>_. setup_each_remote env projectPath remotes))"

definition SetupRemotes :: "'q clone_env \<Rightarrow> Project \<Rightarrow> string \<Rightarrow> machine \<Rightarrow> unit go_result \<times> machine" where
  "SetupRemotes env project projectPath m =
     (case prj_Git project of
        None \<Rightarrow> (Panic, m)
      | Some git \<Rightarrow> setup_each_remote env projectPath (go_items (gs_Remotes git)) m)"

definition SetupSubmodules :: "'q clone_env \<Rightarrow> string \<Rightarrow> machine \<Rightarrow> unit go_result \<times> machine" where
  "SetupSubmodules env projectPath m =
     (case os_Stat (ce_faults env) (m_files m) (path_Join [projectPath, ''.gitmodules'']) of
        Missing \<Rightarrow> (Ok (), m)
      | _ \<Rightarrow> io_wrap ''git submodule update --init --recursive failed: '' (GitInitSubmodules env projectPath m))"

definition checkoutLocalBranch :: "'q clone_env \<Rightarrow> string \<Rightarrow> string \<Rightarrow> string \<Rightarrow> machine \<Rightarrow> unit go_result \<times> machine" where
  "checkoutLocalBranch env projectPath branchName remote m =
     io_then (io_wrap (''failed to checkout branch '' @ branchName @ '': '') (GitCheckoutBranchLocal env projectPath branchName m))
       (\<lambda>_ m. io_wrap (''failed to set tracking for branch '' @ branchName @ '': '') (GitSetTrackingRemoteBranch env projectPath branchName remote m))"

definition checkoutRemoteBranch :: "'q clone_env \<Rightarrow> string \<Rightarrow> string \<Rightarrow> string \<Rightarrow> machine \<Rightarrow> unit go_result \<times> machine" where
  "checkoutRemoteBranch env projectPath branchName remote m =
     io_wrap (''failed to checkout branch '' @ branchName @ '': '') (GitCheckoutBranch env projectPath branchName remote m)"

definition checkoutTag :: "'q clone_env \<Rightarrow> string \<Rightarrow> string \<Rightarrow> machine \<Rightarrow> unit go_result \<times> machine" where
  "checkoutTag env projectPath tagName m = io_wrap (''failed to checkout tag '' @ tagName @ '': '') (GitCheckoutRef env projectPath tagName m)"

definition checkoutCommit :: "'q clone_env \<Rightarrow> string \<Rightarrow> string \<Rightarrow> machine \<Rightarrow> unit go_result \<times> machine" where
  "checkoutCommit env projectPath hash m = io_wrap (''failed to checkout commit '' @ hash @ '': '') (GitCheckoutRef env projectPath hash m)"

definition CheckoutReference :: "'q clone_env \<Rightarrow> Project \<Rightarrow> string \<Rightarrow> machine \<Rightarrow> unit go_result \<times> machine" where
  "CheckoutReference env project projectPath m =
     (case prj_Git project of
        None \<Rightarrow> (Panic, m)
      | Some git \<Rightarrow>
          (case gs_CheckoutFrom git of
             None \<Rightarrow> (Ok (), m)
           | Some checkoutFrom \<Rightarrow>
               if co_Revision checkoutFrom = [] then (Ok (), m)
               else
                 let remotes = go_items (gs_Remotes git); revision = co_Revision checkoutFrom;
                     defaultRemoteName = (if co_Remote checkoutFrom = [] \<and> length remotes = 1 then fst (hd remotes) else co_Remote checkoutFrom) in
                 io_then (io_wrap (''failed to resolve git revision '' @ revision @ '': '') (GitResolveReference env projectPath defaultRemoteName revision m))
                   (\<lambda>refType m. case refType of
                      GitRefLocalBranch \<Rightarrow> checkoutLocalBranch env projectPath revision defaultRemoteName m
                    | GitRefRemoteBranch \<Rightarrow> checkoutRemoteBranch env projectPath revision defaultRemoteName m
                    | GitRefTag \<Rightarrow> checkoutTag env projectPath revision m
                    | GitRefHash \<Rightarrow> checkoutCommit env projectPath revision m
                    | GitRefUnknown \<Rightarrow> (Ok (), m))))"

section \<open>Git projects (git/setup.go)\<close>

definition delayBeforeRetry :: "nat \<Rightarrow> machine \<Rightarrow> machine" where
  "delayBeforeRetry attempt m = m\<lparr>m_slept := m_slept m + BaseRetryDelay * 2 ^ (attempt - 1)\<rparr>"

text \<open>
  One attempt, after the first with a delay and the removal of what the one before has left, whose error is only logged; and the loop over the
  attempts, from \<open>attempt\<close> with \<open>left\<close> more after it.
\<close>

definition clone_attempt :: "'q clone_env \<Rightarrow> Project \<Rightarrow> string \<Rightarrow> nat \<Rightarrow> machine \<Rightarrow> unit go_result \<times> machine" where
  "clone_attempt env project tmpClonePath attempt m =
     CloneProject env project tmpClonePath
       (if attempt > 0 then snd (on_files (os_RemoveAll (ce_faults env) tmpClonePath) (delayBeforeRetry attempt m)) else m)"

fun clone_attempts :: "'q clone_env \<Rightarrow> Project \<Rightarrow> string \<Rightarrow> nat \<Rightarrow> nat \<Rightarrow> machine \<Rightarrow> unit go_result \<times> machine" where
  "clone_attempts env project tmpClonePath attempt 0 m = clone_attempt env project tmpClonePath attempt m"
| "clone_attempts env project tmpClonePath attempt (Suc left) m =
     (case clone_attempt env project tmpClonePath attempt m of
        (Err _, m) \<Rightarrow> clone_attempts env project tmpClonePath (Suc attempt) left m
      | result \<Rightarrow> result)"

text \<open>What both callers of \<^verbatim>\<open>OpenRepo\<close> do with its answer.\<close>

definition open_existing :: "'q clone_env \<Rightarrow> string \<Rightarrow> machine \<Rightarrow> unit go_result \<times> machine" where
  "open_existing env path m =
     (case OpenRepo env (m_files m) path of
        Inl e \<Rightarrow> (Err (''failed to open existing project in filesystem: '' @ e), m)
      | Inr False \<Rightarrow> (Err ''unexpected error while setting up remotes for project: git repository not present'', m)
      | Inr True \<Rightarrow> (Ok (), m))"

definition copyProjectFromTmpDir :: "'q clone_env \<Rightarrow> Project \<Rightarrow> string \<Rightarrow> machine \<Rightarrow> unit go_result \<times> machine" where
  "copyProjectFromTmpDir env project tmpClonePath m =
     (let projectPath = projectPath_of env project in
      io_then (io_wrap (''failed to create parent directories for project path '' @ projectPath @ '': '')
          (on_files (os_MkdirAll (ce_faults env) (path_Dir projectPath)) m)) (\<lambda>_ m.
      if attr_exists (prj_Attributes project) ProjectSubDir then
        (case lib_getString (ce_lib env) (prj_Attributes project) ProjectSubDir of
           Inl e \<Rightarrow> (Err (''failed to process subDir on project: '' @ e), m)
         | Inr subDirSubPath \<Rightarrow>
             io_wrap (''failed to move subdirectory of cloned project to '' @ ce_ProjectsRoot env @ '': '')
               (on_files (os_Rename (ce_faults env) (path_Join [tmpClonePath, subDirSubPath]) projectPath) m))
      else
        io_wrap (''failed to move cloned project to '' @ ce_ProjectsRoot env @ '': '')
          (on_files (os_Rename (ce_faults env) tmpClonePath projectPath) m)))"

text \<open>Everything between the clone and the final move; an error of the submodules is only logged.\<close>

definition prepare_clone :: "'q clone_env \<Rightarrow> Project \<Rightarrow> string \<Rightarrow> machine \<Rightarrow> unit go_result \<times> machine" where
  "prepare_clone env project tmpClonePath m =
     io_then
       (if attr_exists (prj_Attributes project) ProjectSparseCheckout
        then io_wrap (''failed to set up sparse checkout on project '' @ prj_Name project @ '': '') (SetupSparseCheckout env project tmpClonePath m)
        else (Ok (), m)) (\<lambda>_ m.
     io_then (open_existing env tmpClonePath m) (\<lambda>_ m.
     io_then (io_wrap ''failed to set up remotes for project: '' (SetupRemotes env project tmpClonePath m)) (\<lambda>_ m.
     io_then (io_wrap ''failed to checkout revision: '' (CheckoutReference env project tmpClonePath m)) (\<lambda>_ m.
     (Ok (), snd (SetupSubmodules env tmpClonePath m))))))"

definition doInitialGitClone :: "'q clone_env \<Rightarrow> Project \<Rightarrow> machine \<Rightarrow> unit go_result \<times> machine" where
  "doInitialGitClone env project m =
     (let tmpClonePath = tmpPath_of env project in
      io_then (io_wrap (''failed to create parent directories for temp clone path '' @ tmpClonePath @ '': '')
          (on_files (os_MkdirAll (ce_faults env) (path_Dir tmpClonePath)) m)) (\<lambda>_ m.
      io_then (io_wrap ''failed to clone project: '' (clone_attempts env project tmpClonePath 0 (ce_CloneRetries env) m)) (\<lambda>_ m.
      io_then (prepare_clone env project tmpClonePath m) (\<lambda>_ m.
      copyProjectFromTmpDir env project tmpClonePath m))))"

definition setupRemotesForExistingProject :: "'q clone_env \<Rightarrow> Project \<Rightarrow> machine \<Rightarrow> unit go_result \<times> machine" where
  "setupRemotesForExistingProject env project m =
     (let projectPath = projectPath_of env project in
      io_then (open_existing env projectPath m) (\<lambda>_ m.
      io_wrap ''failed to set up remotes for project: '' (SetupRemotes env project projectPath m)))"

definition SetupGitProject :: "'q clone_env \<Rightarrow> Project \<Rightarrow> machine \<Rightarrow> unit go_result \<times> machine" where
  "SetupGitProject env project m =
     (case CheckProjectState env (m_files m) project of
        Panic \<Rightarrow> (Panic, m)
      | Err e \<Rightarrow> (Err (''failed to check state of repo on disk: '' @ e), m)
      | Ok (needClone, needRemotes) \<Rightarrow>
          if needClone then doInitialGitClone env project m
          else if needRemotes then setupRemotesForExistingProject env project m
          else (Ok (), m))"

end
