(* ===== verification/Project_Main.thy ===== *)
theory Project_Main
  imports Project_Setup
begin

text \<open>
  Archives (\<^verbatim>\<open>project-clone/internal/zip\<close>), the update of the workspace from a devfile found in a project
  (\<^verbatim>\<open>internal/bootstrap\<close>) and \<^verbatim>\<open>main\<close>. The answers of the HTTP client and of the cluster are parameters.
\<close>

section \<open>Archives (zip/setup.go)\<close>

text \<open>\<^verbatim>\<open>io.Copy\<close> into an open file.\<close>

definition copy_into :: "'q clone_env \<Rightarrow> string \<Rightarrow> stream \<Rightarrow> files \<Rightarrow> unit go_result \<times> files" where
  "copy_into env path body fs =
     io_then (os_Write (ce_faults env) path (fst body) fs) (\<lambda>_ fs. (case snd body of None \<Rightarrow> Ok () | Some e \<Rightarrow> Err e, fs))"

definition downloadZip :: "'q clone_env \<Rightarrow> (string \<Rightarrow> err + http_answer) \<Rightarrow> string \<Rightarrow> string \<Rightarrow> files \<Rightarrow> unit go_result \<times> files" where
  "downloadZip env httpGet url destPath fs =
     (case httpGet url of
        Inl e \<Rightarrow> (Err e, fs)
      | Inr (statusCode, body) \<Rightarrow>
          if statusCode \<noteq> 200 then (Err (''request at '' @ url @ '' returned status code '' @ format_int statusCode), fs)
          else
            io_then (os_Create (ce_faults env) destPath fs) (\<lambda>_ fs.
            io_then (copy_into env destPath body fs) (\<lambda>_ fs.
            os_Sync (ce_faults env) destPath fs)))"

text \<open>
  The closure that extracts one file. Both files are closed when it returns, in whatever way, and an error of closing is a panic.
\<close>

definition extractAndWriteFile :: "'q clone_env \<Rightarrow> string \<Rightarrow> zip_file \<Rightarrow> files \<Rightarrow> unit go_result \<times> files" where
  "extractAndWriteFile env destPath f fs =
     (case zf_Open f of
        Some e \<Rightarrow> (Err e, fs)
      | None \<Rightarrow>
          let extractPath = path_Join [destPath, zf_Name f];
              (result, fs) =
                (if zf_IsDir f then os_MkdirAll (ce_faults env) extractPath fs
                 else
                   io_then (os_MkdirAll (ce_faults env) (path_Dir extractPath) fs) (\<lambda>_ fs.
                   io_then (os_Create (ce_faults env) extractPath fs) (\<lambda>_ fs.
                   let (result, fs) =
                     io_then (copy_into env extractPath (zf_Content f) fs) (\<lambda>_ fs. os_Sync (ce_faults env) extractPath fs) in
                   (if ce_faults env (CloseCall (file_path extractPath)) fs = None then result else Panic, fs)))) in
          (if zf_Close f = None then result else Panic, fs))"

fun extract_each :: "'q clone_env \<Rightarrow> string \<Rightarrow> zip_file list \<Rightarrow> files \<Rightarrow> unit go_result \<times> files" where
  "extract_each env destPath [] fs = (Ok (), fs)"
| "extract_each env destPath (f # zipFiles) fs =
     io_then (extractAndWriteFile env destPath f fs) (\<lambda>_. extract_each env destPath zipFiles)"

definition unzip :: "'q clone_env \<Rightarrow> string \<Rightarrow> string \<Rightarrow> files \<Rightarrow> unit go_result \<times> files" where
  "unzip env archivePath destPath fs =
     (case os_ReadFile (ce_faults env) fs archivePath of
        Missing \<Rightarrow> (Err ''no such file or directory'', fs)
      | Failed e \<Rightarrow> (Err e, fs)
      | Found archive \<Rightarrow>
          (case ce_OpenReader env archive of
             Inl e \<Rightarrow> (Err e, fs)
           | Inr zipFiles \<Rightarrow>
               io_then (os_MkdirAll (ce_faults env) destPath fs) (\<lambda>_. extract_each env destPath zipFiles)))"

fun move_each :: "'q clone_env \<Rightarrow> string \<Rightarrow> string \<Rightarrow> string list \<Rightarrow> files \<Rightarrow> unit go_result \<times> files" where
  "move_each env topLevelPath projectPath [] fs = (Ok (), fs)"
| "move_each env topLevelPath projectPath (name # names) fs =
     io_then (os_Rename (ce_faults env) (path_Join [topLevelPath, name]) (path_Join [projectPath, name]) fs)
       (\<lambda>_. move_each env topLevelPath projectPath names)"

definition dropTopLevelFolder :: "'q clone_env \<Rightarrow> string \<Rightarrow> files \<Rightarrow> unit go_result \<times> files" where
  "dropTopLevelFolder env projectPath fs =
     (case os_ReadDir (ce_faults env) fs projectPath of
        Missing \<Rightarrow> (Err ''no such file or directory'', fs)
      | Failed e \<Rightarrow> (Err e, fs)
      | Found [(name, isDir)] \<Rightarrow>
          if \<not> isDir then (Ok (), fs)
          else
            let topLevelPath = path_Join [projectPath, name] in
            (case os_ReadDir (ce_faults env) fs topLevelPath of
               Missing \<Rightarrow> (Err ''no such file or directory'', fs)
             | Failed e \<Rightarrow> (Err e, fs)
             | Found topLevelContents \<Rightarrow>
                 io_then (move_each env topLevelPath projectPath (map fst topLevelContents) fs) (\<lambda>_ fs.
                 os_Remove (ce_faults env) topLevelPath fs))
      | Found _ \<Rightarrow> (Ok (), fs))"

definition SetupZipProject :: "'q clone_env \<Rightarrow> (string \<Rightarrow> err + http_answer) \<Rightarrow> Project \<Rightarrow> files \<Rightarrow> unit go_result \<times> files" where
  "SetupZipProject env httpGet project fs =
     (case prj_Zip project of
        None \<Rightarrow> (Err ''project has no 'zip' source'', fs)
      | Some source \<Rightarrow>
          let projectPath = projectPath_of env project in
          (case DirExists env fs projectPath of
             (True, _) \<Rightarrow> (Ok (), fs)
           | (False, Some e) \<Rightarrow> (Err (''failed to check path '' @ projectPath @ '': '' @ e), fs)
           | (False, None) \<Rightarrow>
               let tmpProjectsPath = tmpPath_of env project; zipFilePath = path_Join [''/tmp/'', GetClonePath project @ ''.zip''] in
               io_then (io_wrap (''failed to create parent directories for temp path '' @ tmpProjectsPath @ '': '')
                   (os_MkdirAll (ce_faults env) (path_Dir tmpProjectsPath) fs)) (\<lambda>_ fs.
               io_then (io_wrap ''failed to download archive: '' (downloadZip env httpGet (zs_Location source) zipFilePath fs)) (\<lambda>_ fs.
               io_then (io_wrap ''failed to extract project zip archive: '' (unzip env zipFilePath tmpProjectsPath fs)) (\<lambda>_ fs.
               io_then (io_wrap (''failed to create parent directories for project path '' @ projectPath @ '': '')
                   (os_MkdirAll (ce_faults env) (path_Dir projectPath) fs)) (\<lambda>_ fs.
               io_then (io_wrap ''failed to move unzipped project to PROJECTS_ROOT: '' (os_Rename (ce_faults env) tmpProjectsPath projectPath fs)) (\<lambda>_ fs.
               io_wrap ''failed to process extracted project archive: '' (dropTopLevelFolder env projectPath fs))))))))"

section \<open>Update from a devfile (bootstrap)\<close>

definition BootstrapDevWorkspaceAttribute :: string where
  "BootstrapDevWorkspaceAttribute = ''controller.devfile.io/bootstrap-devworkspace''"

definition NeedsBootstrap :: "'q clone_env \<Rightarrow> DevWorkspaceTemplateSpec \<Rightarrow> err + bool" where
  "NeedsBootstrap env spec =
     (if \<not> attr_exists (ts_Attributes spec) BootstrapDevWorkspaceAttribute then Inr False
      else ce_getBoolean env (ts_Attributes spec) BootstrapDevWorkspaceAttribute)"

definition devfileNames :: "string list" where "devfileNames = [''devfile.yaml'', ''.devfile.yaml'']"

fun first_devfile :: "'q clone_env \<Rightarrow> files \<Rightarrow> Project \<Rightarrow> string list \<Rightarrow> string option" where
  "first_devfile env fs project [] = None"
| "first_devfile env fs project (name # names) =
     (case os_ReadFile (ce_faults env) fs (path_Join [ce_ProjectsRoot env, GetClonePath project, name]) of
        Found text \<Rightarrow> Some text
      | _ \<Rightarrow> first_devfile env fs project names)"

definition getDevfileFromProject :: "'q clone_env \<Rightarrow> files \<Rightarrow> Project \<Rightarrow> string option" where
  "getDevfileFromProject env fs project = first_devfile env fs project devfileNames"

fun find_devfile :: "'q clone_env \<Rightarrow> files \<Rightarrow> Project list \<Rightarrow> (string \<times> string) option" where
  "find_devfile env fs [] = None"
| "find_devfile env fs (project # projects) =
     (case getDevfileFromProject env fs project of
        Some (c # cs) \<Rightarrow> Some (c # cs, prj_Name project)
      | _ \<Rightarrow> find_devfile env fs projects)"

definition getBootstrapDevfile :: "'q clone_env \<Rightarrow> files \<Rightarrow> Project list \<Rightarrow> err + DevWorkspaceTemplateSpec \<times> string" where
  "getBootstrapDevfile env fs projects =
     (case find_devfile env fs projects of
        None \<Rightarrow> Inl ''could not find devfile in any project''
      | Some (devfileBytes, devfileProject) \<Rightarrow>
          (case ce_unmarshal env devfileBytes of
             Inl e \<Rightarrow> Inl (''failed to read devfile in project '' @ devfileProject @ '': '' @ e)
           | Inr devfile \<Rightarrow> Inr (devfile, devfileProject)))"

text \<open>The workspace on the cluster: its template and everything else.\<close>

record cluster_workspace =
  cw_Template :: DevWorkspaceTemplateSpec
  cw_Rest :: opaque

fun add_projects :: "Project list \<Rightarrow> string list \<Rightarrow> Project list" where
  "add_projects [] names = []"
| "add_projects (project # projects) names =
     (if prj_Name project \<in> set names then add_projects projects names
      else project # add_projects projects (prj_Name project # names))"

definition mergeProjects :: "Project list \<Rightarrow> Project list \<Rightarrow> Project list" where
  "mergeProjects workspaceProjects devfileProjects = workspaceProjects @ add_projects devfileProjects (map prj_Name workspaceProjects)"

definition updateWorkspaceFromDevfile :: "cluster_workspace \<Rightarrow> DevWorkspaceTemplateSpec \<Rightarrow> cluster_workspace" where
  "updateWorkspaceFromDevfile workspace devfile =
     (let template = cw_Template workspace;
          attributes = fold (\<lambda>(key, value). AList.update key value) (ts_Attributes template) (ts_Attributes devfile) in
      workspace\<lparr>cw_Template := devfile\<lparr>
        ts_Attributes := AList.delete BootstrapDevWorkspaceAttribute attributes,
        ts_Projects := mergeProjects (ts_Projects template) (ts_Projects devfile)\<rparr>\<rparr>)"

text \<open>
  The client: whether it can be set up, what it reads for a name and namespace and whether an update succeeds. The result is the workspace
  that has been written.
\<close>

record kube_client =
  kc_setup :: "err option"
  kc_get :: "string \<Rightarrow> string \<Rightarrow> err + cluster_workspace"
  kc_update :: "cluster_workspace \<Rightarrow> err option"

definition setupKubeClient :: "kube_client \<Rightarrow> err option" where
  "setupKubeClient client = kc_setup client"

definition getWorkspaceNamespacedName :: "(string \<Rightarrow> string) \<Rightarrow> err + string \<times> string" where
  "getWorkspaceNamespacedName getenv =
     (let name = getenv ''DEVWORKSPACE_NAME''; namespace = getenv ''DEVWORKSPACE_NAMESPACE'' in
      if name = [] \<or> namespace = [] then Inl ''could not get workspace name or namespace from environment variables'' else Inr (name, namespace))"

definition BootstrapWorkspace :: "'q clone_env \<Rightarrow> kube_client \<Rightarrow> files \<Rightarrow> DevWorkspaceTemplateSpec \<Rightarrow> err + cluster_workspace" where
  "BootstrapWorkspace env client fs flattenedWorkspace =
     (case getBootstrapDevfile env fs (ts_Projects flattenedWorkspace) of
        Inl e \<Rightarrow> Inl e
      | Inr (devfile, _) \<Rightarrow>
     (case setupKubeClient client of
        Some e \<Rightarrow> Inl e
      | None \<Rightarrow>
     (case getWorkspaceNamespacedName (ce_getenv env) of
        Inl e \<Rightarrow> Inl e
      | Inr (name, namespace) \<Rightarrow>
     (case kc_get client name namespace of
        Inl e \<Rightarrow> Inl (''failed to read DevWorkspace from cluster: '' @ e)
      | Inr clusterWorkspace \<Rightarrow>
          let updatedWorkspace = updateWorkspaceFromDevfile clusterWorkspace devfile in
          (case kc_update client updatedWorkspace of
             Some e \<Rightarrow> Inl (''failed to update DevWorkspace on cluster: '' @ e)
           | None \<Rightarrow> Inr updatedWorkspace)))))"

section \<open>The program (main.go)\<close>

definition logFileName :: string where "logFileName = ''project-clone-errors.log''"
definition tmpLogFilePath :: string where "tmpLogFilePath = ''/tmp/'' @ logFileName"

text \<open>The errors of all steps are only logged; the file is created also where there is nothing to copy.\<close>

definition copyLogFileToProjectsRoot :: "'q clone_env \<Rightarrow> files \<Rightarrow> files" where
  "copyLogFileToProjectsRoot env fs =
     (let path = path_Join [ce_ProjectsRoot env, logFileName]; infile = os_ReadFile (ce_faults env) fs tmpLogFilePath in
      snd (io_then (os_Create (ce_faults env) path fs) (\<lambda>_ fs.
        case infile of Found text \<Rightarrow> os_Write (ce_faults env) path text fs | _ \<Rightarrow> (Ok (), fs))))"

text \<open>How the loop over the projects ends: normally, with whether there was an error, or with \<^verbatim>\<open>os.Exit(0)\<close>.\<close>

datatype loop_end = LoopDone bool | LoopExit

fun setup_projects ::
  "'q clone_env \<Rightarrow> (string \<Rightarrow> err + http_answer) \<Rightarrow> Project list \<Rightarrow> bool \<Rightarrow> machine \<Rightarrow> loop_end go_result \<times> machine" where
  "setup_projects env httpGet [] encounteredError m = (Ok (LoopDone encounteredError), m)"
| "setup_projects env httpGet (project # projects) encounteredError m =
     (if prj_Git project = None \<and> prj_Zip project = None then (Ok LoopExit, m\<lparr>m_files := copyLogFileToProjectsRoot env (m_files m)\<rparr>)
      else
        case if prj_Git project \<noteq> None then SetupGitProject env project m else on_files (SetupZipProject env httpGet project) m of
          (Ok _, m) \<Rightarrow> setup_projects env httpGet projects encounteredError m
        | (Err _, m) \<Rightarrow> setup_projects env httpGet projects True m
        | (Panic, m) \<Rightarrow> (Panic, m))"

definition projects_of :: "'q clone_env \<Rightarrow> DevWorkspaceTemplateSpec \<Rightarrow> Project list" where
  "projects_of env workspace =
     ts_Projects workspace @ ts_DependentProjects workspace @
     (case GetStarterProject (ce_lib env) workspace of
        Inr (Some starterProject) \<Rightarrow> [StarterProjectToRegularProject env starterProject]
      | _ \<Rightarrow> [])"

text \<open>
  \<^verbatim>\<open>main\<close> after \<^verbatim>\<open>init\<close>: \<open>httpGet\<close> is the request of a client with the given pool of certificates, or of the default one. The
  result is the exit code, the workspace that has been written to the cluster, if any, and the state. The deferred removal of the temporary
  directory happens where \<^verbatim>\<open>main\<close> returns or panics, not where it calls \<^verbatim>\<open>os.Exit\<close>.
\<close>

definition clone_main ::
  "'q clone_env \<Rightarrow> kube_client \<Rightarrow> err + 'p \<Rightarrow> ('p \<Rightarrow> string \<Rightarrow> 'p option) \<Rightarrow> ('p option \<Rightarrow> string \<Rightarrow> err + http_answer) \<Rightarrow> machine \<Rightarrow>
   int \<times> cluster_workspace option \<times> machine" where
  "clone_main env client systemPool addPEM httpGet m =
     (let m = m\<lparr>m_files := snd (os_Create (ce_faults env) tmpLogFilePath (m_files m))\<rparr>;
          returned = (\<lambda>m. m\<lparr>m_files := snd (os_RemoveAll (ce_faults env) (ce_CloneTmpDir env) (m_files m))\<rparr>);
          logged = (\<lambda>m. m\<lparr>m_files := copyLogFileToProjectsRoot env (m_files m)\<rparr>) in
      case ReadFlattenedDevWorkspace env (m_files m) of
        Inl _ \<Rightarrow> (1, None, m)
      | Inr workspace \<Rightarrow>
          let certs = (case GetAdditionalCerts (ce_faults env) (m_files m) systemPool addPEM of (Inr pool, _) \<Rightarrow> Some pool | (Inl _, _) \<Rightarrow> None) in
          (case setup_projects env (httpGet certs) (projects_of env workspace) False m of
             (Ok LoopExit, m) \<Rightarrow> (0, None, m)
           | (Ok (LoopDone True), m) \<Rightarrow> (0, None, logged m)
           | (Ok (LoopDone False), m) \<Rightarrow>
               (case NeedsBootstrap env workspace of
                  Inl _ \<Rightarrow> (0, None, returned (logged m))
                | Inr False \<Rightarrow> (0, None, returned m)
                | Inr True \<Rightarrow>
                    (case BootstrapWorkspace env client (m_files m) workspace of
                       Inl _ \<Rightarrow> (0, None, returned (logged m))
                     | Inr updated \<Rightarrow> (0, Some updated, returned m)))
           | (_, m) \<Rightarrow> (2, None, returned m)))"

text \<open>The handler of \<^verbatim>\<open>SIGINT\<close> and \<^verbatim>\<open>SIGTERM\<close>.\<close>

definition on_signal :: "'q clone_env \<Rightarrow> machine \<Rightarrow> int \<times> machine" where
  "on_signal env m = (0, m\<lparr>m_files := snd (os_RemoveAll (ce_faults env) (ce_CloneTmpDir env) (m_files m))\<rparr>)"

end
