(* ===== verification/Clone_Correct.thy ===== *)
theory Clone_Correct
  imports Project_Main
begin

text \<open>
  What the project clone program guarantees: a clone that fails leaves the place of the project alone, attempts and waiting times are bounded,
  the update from a devfile keeps the projects of the workspace and happens once; and where archives and remotes go wrong.
\<close>

section \<open>Steps inside a clone\<close>

text \<open>
  Everything between the clone and the final move runs commands in the directory of the clone and adds remotes there. What these two keep, the
  whole sequence keeps.
\<close>

locale working_in =
  fixes env :: "'q clone_env" and path :: string and keeps :: "machine \<Rightarrow> machine \<Rightarrow> bool"
  assumes keeps_refl: "keeps m m"
    and keeps_trans: "keeps a b \<Longrightarrow> keeps b c \<Longrightarrow> keeps a c"
    and keeps_command: "keeps m (snd (executeCommand env (''git'' # ''-C'' # path # rest) m))"
    and keeps_remote: "keeps m (m\<lparr>m_files := snd (ce_CreateRemote env path name urls (m_files m))\<rparr>)"
begin

lemma keeps_then:
  assumes "keeps m (snd r)" "\<And>x s. r = (Ok x, s) \<Longrightarrow> keeps s (snd (f x s))"
  shows "keeps m (snd (io_then r f))"
  using assms keeps_trans by (rule io_then_related)

lemma keeps_reference: "list_all (\<lambda>(command, _). \<exists>rest. command = ''git'' # ''-C'' # path # rest) commands \<Longrightarrow> keeps m (snd (first_success env commands m))"
proof (induction commands arbitrary: m)
  case (Cons c commands)
  then obtain rest t where c: "c = (''git'' # ''-C'' # path # rest, t)" by (cases c) auto
  have "keeps m (snd (executeCommand env (''git'' # ''-C'' # path # rest) m))" by (rule keeps_command)
  with Cons show ?case
    by (cases "executeCommand env (''git'' # ''-C'' # path # rest) m"; cases "fst (executeCommand env (''git'' # ''-C'' # path # rest) m)")
      (auto simp: c intro: keeps_trans)
qed (simp add: keeps_refl)

lemma keeps_remotes: "keeps m (snd (setup_each_remote env path remotes m))"
proof (induction remotes arbitrary: m)
  case (Cons r remotes)
  obtain name url where r: "r = (name, url)" by fastforce
  let ?m = "m\<lparr>m_files := snd (ce_CreateRemote env path name [url] (m_files m))\<rparr>"
  have "keeps ?m (snd (io_then (io_wrap p (GitFetchRemote env path name ?m)) (\<lambda>_. setup_each_remote env path remotes)))" for p
    by (rule keeps_then) (simp_all add: GitFetchRemote_def keeps_command Cons.IH)
  with keeps_remote [of m name "[url]"] show ?case
    by (auto simp: r split: prod.splits create_answer.splits intro: keeps_trans)
qed (simp add: keeps_refl)

lemma keeps_SetupRemotes: "keeps m (snd (SetupRemotes env project path m))"
  by (simp add: SetupRemotes_def keeps_remotes keeps_refl split: option.split)

lemma keeps_CheckoutReference: "keeps m (snd (CheckoutReference env project path m))"
proof -
  have resolve: "keeps m (snd (GitResolveReference env path remote revision m))" for m remote revision
    unfolding GitResolveReference_def by (rule keeps_reference) simp
  have local: "keeps m (snd (checkoutLocalBranch env path branch remote m))" for m branch remote
    unfolding checkoutLocalBranch_def by (rule keeps_then) (simp_all add: GitCheckoutBranchLocal_def GitSetTrackingRemoteBranch_def keeps_command)
  show ?thesis
    by (auto simp: CheckoutReference_def Let_def keeps_refl resolve local checkoutRemoteBranch_def checkoutTag_def checkoutCommit_def
        GitCheckoutBranch_def GitCheckoutRef_def keeps_command intro!: keeps_then split: option.split GitRefType.split)
qed

lemma keeps_prepare: "keeps m (snd (prepare_clone env project path m))"
  unfolding prepare_clone_def
proof (intro keeps_then, goal_cases)
  case 1
  show ?case by (auto simp: keeps_refl SetupSparseCheckout_def GitSetupSparseCheckout_def keeps_command split: sum.split)
next
  case (2 _ m)
  show ?case by (auto simp: keeps_refl open_existing_def split: sum.split bool.split)
qed (auto simp: keeps_SetupRemotes keeps_CheckoutReference SetupSubmodules_def GitInitSubmodules_def keeps_command keeps_refl split: os_answer.split)

end

section \<open>Failing clones\<close>







lemma on_files_simps [simp]:
  "m_files (snd (on_files f m)) = snd (f (m_files m))" "m_commands (snd (on_files f m)) = m_commands m" "m_slept (snd (on_files f m)) = m_slept m"
  "fst (on_files f m) = fst (f (m_files m))"
  by (simp_all add: on_files_def split: prod.split)






lemma io_step:
  assumes "io_then r f = (x, s)"
  obtains y s' where "r = (Ok y, s')" "f y s' = (x, s)" | "\<And>y. x \<noteq> Ok y" "s = snd r"
  using assms by (cases r; cases "fst r") auto

lemma io_wrap_Ok: "io_wrap p r = (Ok y, s) \<Longrightarrow> r = (Ok y, s)"
  by (simp add: io_wrap_Ok_iff)



section \<open>Attempts and delays\<close>

definition is_clone :: "string list \<Rightarrow> bool" where
  "is_clone command \<longleftrightarrow> prefix [''git'', ''clone''] command"

text \<open>The state after has run some more commands, with \<open>clones\<close> clones among them, and has waited for \<open>delay\<close>.\<close>

definition ran :: "nat \<Rightarrow> int \<Rightarrow> machine \<Rightarrow> machine \<Rightarrow> bool" where
  "ran clones delay m m' \<longleftrightarrow>
     (\<exists>new. m_commands m' = m_commands m @ new \<and> length (filter is_clone new) = clones) \<and> m_slept m' = m_slept m + delay"

lemma ran_trans: "ran a d m1 m2 \<Longrightarrow> ran b e m2 m3 \<Longrightarrow> ran (a + b) (d + e) m1 m3"
  unfolding ran_def by (auto intro: exI [of _ "_ @ _"])

lemma ran_refl: "ran 0 0 m m" by (simp add: ran_def)

lemma command_ran: "ran (if is_clone command then 1 else 0) 0 m (snd (executeCommand env command m))"
  by (auto simp: ran_def executeCommand_def split: prod.split)

lemma files_ran: "ran 0 0 m (m\<lparr>m_files := fs\<rparr>)" by (simp add: ran_def)

interpretation quiet: working_in env path "ran 0 0" for env path
proof
  show "ran 0 0 m (snd (executeCommand env (''git'' # ''-C'' # path # rest) m))" for m rest
    using command_ran [of "''git'' # ''-C'' # path # rest" m env] by (simp add: is_clone_def)
  show "ran 0 0 a c" if "ran 0 0 a b" "ran 0 0 b c" for a b c
    using ran_trans [OF that] by simp
qed (simp_all add: ran_refl files_ran)

lemma CloneProject_ran: "\<exists>n \<le> 1. ran n 0 m (snd (CloneProject env project path m))"
proof -
  have "\<exists>n \<le> 1. ran n 0 m (snd (executeCommand env command m))" for command using command_ran [of command m env] by (auto split: if_splits)
  then show ?thesis
    using ran_refl [of m]
    by (auto simp: CloneProject_def GitCloneProject_def GitSparseCloneProject_def split: option.split sum.split)
qed

text \<open>What has been waited for when attempt \<open>n\<close> starts.\<close>

definition waited :: "nat \<Rightarrow> int" where "waited n = (2 ^ n - 1) * BaseRetryDelay"

lemma waited_Suc: "waited (Suc n) - waited n = BaseRetryDelay * 2 ^ n" by (simp add: waited_def algebra_simps)

lemma waited_before: "waited n - waited (n - 1) = (if n = 0 then 0 else BaseRetryDelay * 2 ^ (n - 1))"
  using waited_Suc by (cases n) simp_all

lemma attempt_ran: "\<exists>n \<le> 1. ran n (waited attempt - waited (attempt - 1)) m (snd (clone_attempt env project path attempt m))"
proof -
  define m1 where "m1 = (if attempt > 0 then snd (on_files (os_RemoveAll (ce_faults env) path) (delayBeforeRetry attempt m)) else m)"
  have "ran 0 (waited attempt - waited (attempt - 1)) m m1"
    unfolding waited_before by (simp add: m1_def ran_def delayBeforeRetry_def)
  moreover obtain n where "n \<le> 1" "ran n 0 m1 (snd (CloneProject env project path m1))" using CloneProject_ran by blast
  ultimately show ?thesis using ran_trans unfolding clone_attempt_def m1_def by fastforce
qed

lemma attempts_ran:
  "\<exists>k n. k \<le> left \<and> n \<le> Suc k \<and>
     ran n (waited (attempt + k) - waited (attempt - 1)) m (snd (clone_attempts env project path attempt left m))"
proof (induction left arbitrary: attempt m)
  case 0
  then show ?case using attempt_ran [of attempt m env project path] by auto
next
  case (Suc left)
  obtain r m1 where one: "clone_attempt env project path attempt m = (r, m1)" by fastforce
  with attempt_ran [of attempt m env project path] obtain n where n: "n \<le> 1" "ran n (waited attempt - waited (attempt - 1)) m m1"
    by auto
  show ?case
  proof (cases r)
    case (Err e)
    from Suc.IH [of "Suc attempt" m1] obtain k n' where more: "k \<le> left" "n' \<le> Suc k"
      "ran n' (waited (Suc attempt + k) - waited attempt) m1 (snd (clone_attempts env project path (Suc attempt) left m1))" by auto
    with ran_trans [OF n(2) more(3)] n(1) one Err show ?thesis
      by (intro exI [of _ "Suc k"] exI [of _ "n + n'"]) (simp add: add.commute)
  qed (rule exI [of _ 0], rule exI [of _ n], use n one in simp)+
qed

text \<open>
  Whatever the environment variable says, a project is cloned at most eleven times, and the program waits between attempts one second, two, four
  and so on: at most 1023 seconds in all.
\<close>

theorem clone_attempts_bounded:
  assumes "ce_CloneRetries env = cloneRetries val" "doInitialGitClone env project m = (r, m')"
  shows "\<exists>k n. k \<le> cloneRetries val \<and> k \<le> 10 \<and> n \<le> Suc k \<and> ran n ((2 ^ k - 1) * 1000000000) m m'"
proof -
  have retries: "cloneRetries val \<le> 10"
    by (auto simp: cloneRetries_def defaultCloneRetries_def maxCloneRetries_def split: option.split)
  let ?tmp = "tmpPath_of env project"
  have files: "ran 0 0 m (snd (on_files f m))" for f m by (simp add: on_files_def files_ran split: prod.split)
  have copy: "ran 0 0 m (snd (copyProjectFromTmpDir env project ?tmp m))" for m
    unfolding copyProjectFromTmpDir_def Let_def by (rule quiet.keeps_then) (auto simp: files ran_refl split: sum.split)
  define rest where "rest m = io_then (prepare_clone env project ?tmp m) (\<lambda>_ m. copyProjectFromTmpDir env project ?tmp m)" for m
  have rest: "ran 0 0 m (snd (rest m))" for m
    unfolding rest_def by (rule quiet.keeps_then) (simp_all add: quiet.keeps_prepare copy)
  from assms(2) show ?thesis
    unfolding doInitialGitClone_def Let_def rest_def [symmetric]
  proof (cases rule: io_step)
    case 2
    then have "ran 0 0 m m'" using files by simp
    then show ?thesis by (intro exI [of _ 0]) simp
  next
    case (1 _ m1)
    then have m1: "ran 0 0 m m1" using files [of m "os_MkdirAll (ce_faults env) (path_Dir ?tmp)"] by (auto dest!: io_wrap_Ok)
    from attempts_ran [of "ce_CloneRetries env" 0 m1 env project ?tmp] obtain k n where
      k: "k \<le> ce_CloneRetries env" "n \<le> Suc k" "ran n (waited k) m1 (snd (clone_attempts env project ?tmp 0 (ce_CloneRetries env) m1))"
      by (auto simp: waited_def)
    have "ran 0 0 (snd (clone_attempts env project ?tmp 0 (ce_CloneRetries env) m1)) m'"
      using 1(2)
    proof (cases rule: io_step)
      case (1 _ m2)
      then have "snd (clone_attempts env project ?tmp 0 (ce_CloneRetries env) m1) = m2" "m' = snd (rest m2)" by (auto dest!: io_wrap_Ok)
      then show ?thesis by (simp add: rest)
    qed (simp add: ran_refl)
    with ran_trans [OF m1 ran_trans [OF k(3)]] have "ran n (waited k) m m'" by fastforce
    with k retries assms(1) show ?thesis by (intro exI [of _ k] exI [of _ n]) (auto simp: waited_def BaseRetryDelay_def)
  qed
qed

text \<open>A project that cannot be cloned at all, because its remotes make no sense, is tried again just as often, with all the delays.\<close>

lemma invalid_project_retried:
  assumes "prj_Git project = Some git" "default_remote git = Inl e"
  shows "m_slept (snd (clone_attempts env project path attempt left m)) = m_slept m + (waited (attempt + left) - waited (attempt - 1))"
proof -
  have one: "\<exists>m1. clone_attempt env project path attempt m = (Err e, m1) \<and> m_slept m1 = m_slept m + (waited attempt - waited (attempt - 1))" for attempt m
    unfolding waited_before using assms by (simp add: clone_attempt_def CloneProject_def delayBeforeRetry_def)
  show ?thesis
  proof (induction left arbitrary: attempt m)
    case 0
    from one [of attempt m] show ?case by auto
  next
    case (Suc left)
    from one [of attempt m] Suc.IH [of "Suc attempt"] show ?case by auto
  qed
qed

end
