(* ===== verification/Clone_Results.thy ===== *)
theory Clone_Results
  imports Clone_Correct
begin

text \<open>
  More on the project clone program: remotes of an existing project, archives, the update from a devfile and the end of the program; and
  concrete runs.
\<close>

section \<open>Remotes\<close>

text \<open>
  What is documented of git: adding a remote does not change one that exists, and neither does fetching.
\<close>

definition remotes_stable :: "'q clone_env \<Rightarrow> bool" where
  "remotes_stable env \<longleftrightarrow>
     (\<forall>fs path name urls. ce_Remote env fs path name = RemoteURLs urls \<longrightarrow>
       (\<forall>name' urls'. ce_Remote env (snd (ce_CreateRemote env path name' urls' fs)) path name = RemoteURLs urls) \<and>
       (\<forall>history remote. ce_Remote env (snd (ce_run env history [''git'', ''-C'', path, ''fetch'', remote] fs)) path name = RemoteURLs urls))"

lemma remotes_stableD:
  assumes "remotes_stable env" "ce_Remote env fs path name = RemoteURLs urls"
  shows "ce_Remote env (snd (ce_CreateRemote env path name' urls' fs)) path name = RemoteURLs urls"
    "ce_Remote env (snd (ce_run env history [''git'', ''-C'', path, ''fetch'', remote] fs)) path name = RemoteURLs urls"
  using assms unfolding remotes_stable_def by blast+

lemma setup_keeps_remote:
  assumes "remotes_stable env"
  shows "ce_Remote env (m_files m) path name = RemoteURLs urls \<Longrightarrow>
    ce_Remote env (m_files (snd (setup_each_remote env path remotes m))) path name = RemoteURLs urls"
proof (induction remotes arbitrary: m)
  case (Cons r remotes)
  obtain n url where r: "r = (n, url)" by fastforce
  obtain answer fs where create: "ce_CreateRemote env path n [url] (m_files m) = (answer, fs)" by fastforce
  with remotes_stableD(1) [OF assms Cons.prems, of n "[url]"] have fs: "ce_Remote env fs path name = RemoteURLs urls" by simp
  obtain x m1 where fetch: "GitFetchRemote env path n (m\<lparr>m_files := fs\<rparr>) = (x, m1)" by fastforce
  then have "m_files m1 = snd (ce_run env (m_commands m) [''git'', ''-C'', path, ''fetch'', n] fs)"
    by (auto simp: GitFetchRemote_def executeCommand_def split: prod.splits)
  with remotes_stableD(2) [OF assms fs] have m1: "ce_Remote env (m_files m1) path name = RemoteURLs urls" by simp
  show ?case
  proof (cases "\<exists>e. answer = CreateError e")
    case False
    then have "setup_each_remote env path (r # remotes) m =
        io_then (io_wrap (''failed to fetch from remote '' @ url @ '': '') (x, m1)) (\<lambda>_. setup_each_remote env path remotes)"
      by (cases answer) (simp_all add: r create fetch)
    with Cons.IH [OF m1] m1 show ?thesis by (cases x) simp_all
  qed (use fs create in \<open>auto simp: r\<close>)
qed simp

lemma check_remotes_mismatch:
  "(name, url) \<in> set remotes \<Longrightarrow> ce_Remote env fs path name = RemoteURLs urls \<Longrightarrow> url \<notin> set urls \<Longrightarrow> check_remotes env fs path remotes \<noteq> Ok (False, False)"
  by (induction remotes) (auto split: remote_answer.splits if_splits)

text \<open>
  A remote whose address in the repository differs from the one of the project is noticed and never repaired: the program asks for the remotes
  to be set up, which leaves the existing remote as it is, and finds the same state at every start.
\<close>

theorem wrong_remote_kept:
  assumes "remotes_stable env" "\<not> attr_exists (prj_Attributes project) ProjectSubDir" "prj_Git project = Some git"
    and "(name, url) \<in> set (go_items (gs_Remotes git))" "ce_Remote env (m_files m) (projectPath_of env project) name = RemoteURLs urls" "url \<notin> set urls"
    and "ce_PlainOpen env (m_files m) (projectPath_of env project) = RepositoryOpened"
  shows "CheckProjectState env (m_files m) project \<noteq> Ok (False, False) \<and>
    CheckProjectState env (m_files (snd (SetupGitProject env project m))) project \<noteq> Ok (False, False)"
proof -
  have differs: "CheckProjectState env fs project \<noteq> Ok (False, False)" if "ce_Remote env fs (projectPath_of env project) name = RemoteURLs urls" for fs
    using check_remotes_mismatch [OF assms(4) that assms(6)] assms(2,3) by (auto simp: CheckProjectState_def split: sum.split bool.split)
  have "ce_Remote env (m_files (snd (setupRemotesForExistingProject env project m))) (projectPath_of env project) name = RemoteURLs urls"
    using setup_keeps_remote [OF assms(1,5)] assms(3,7)
    by (simp add: setupRemotesForExistingProject_def open_existing_def OpenRepo_def SetupRemotes_def)
  moreover have "\<exists>r. CheckProjectState env (m_files m) project = r \<and> (\<forall>b. r \<noteq> Ok (True, b))"
  proof -
    have "check_remotes env fs path remotes \<noteq> Ok (True, b)" for fs path remotes b
      by (induction remotes) (auto split: remote_answer.splits if_splits)
    with assms(2,3,7) show ?thesis by (simp add: CheckProjectState_def OpenRepo_def)
  qed
  ultimately have "ce_Remote env (m_files (snd (SetupGitProject env project m))) (projectPath_of env project) name = RemoteURLs urls"
    using assms(5) by (auto simp: SetupGitProject_def split: go_result.split)
  with differs assms(5) show ?thesis by blast
qed

section \<open>Update from a devfile\<close>

lemma add_projects_names:
  "distinct (map prj_Name (add_projects ps names)) \<and>
   prj_Name ` set (add_projects ps names) = prj_Name ` set ps - set names \<and> set (add_projects ps names) \<subseteq> set ps"
  by (induction ps names rule: add_projects.induct) auto

lemma fold_update_map: "distinct (map fst xs) \<Longrightarrow> map_of (fold (\<lambda>(k, v). AList.update k v) xs ys) = map_of ys ++ map_of xs"
  by (induction xs arbitrary: ys) (auto simp: update_conv' map_add_upd_left dom_map_of_conv_image_fst)

text \<open>
  The update keeps the projects of the workspace first and in their order, adds those of the devfile whose names are new, so that names stay
  distinct, and lets the attributes of the workspace win. The attribute that asks for the update is gone, so the next start does not repeat it.
\<close>

theorem bootstrap_keeps_workspace:
  assumes "distinct (map prj_Name (ts_Projects (cw_Template workspace)))" "distinct (map fst (ts_Attributes (cw_Template workspace)))"
  shows "let updated = cw_Template (updateWorkspaceFromDevfile workspace devfile); before = cw_Template workspace in
    prefix (ts_Projects before) (ts_Projects updated) \<and> distinct (map prj_Name (ts_Projects updated)) \<and>
    prj_Name ` set (ts_Projects updated) = prj_Name ` set (ts_Projects before) \<union> prj_Name ` set (ts_Projects devfile) \<and>
    map_of (ts_Attributes updated) = (map_of (ts_Attributes devfile) ++ map_of (ts_Attributes before))(BootstrapDevWorkspaceAttribute := None) \<and>
    NeedsBootstrap env updated = Inr False \<and> ts_Components updated = ts_Components devfile"
proof -
  note names = add_projects_names [of "ts_Projects devfile" "map prj_Name (ts_Projects (cw_Template workspace))"]
  with assms names show ?thesis
    by (auto simp: updateWorkspaceFromDevfile_def mergeProjects_def Let_def fold_update_map NeedsBootstrap_def delete_conv')
qed

section \<open>Archives\<close>

lemma io_then_at: "at_path (snd r) q = at_path fs q \<Longrightarrow> (\<And>x fs'. at_path (snd (f x fs')) q = at_path fs' q) \<Longrightarrow> at_path (snd (io_then r f)) q = at_path fs q"
  by (rule io_then_related [where R = "\<lambda>fs fs'. at_path fs' q = at_path fs q"]) auto

definition no_parent :: "string \<Rightarrow> bool" where
  "no_parent name \<longleftrightarrow> ''..'' \<notin> set (split_char (CHR ''/'') name)"

lemma extract_at:
  assumes "faults_local (ce_faults env)" "prefix ''/'' dest" "no_parent dest" "no_parent (zf_Name f)"
    and apart: "parallel q (file_path dest)"
  shows "at_path (snd (extractAndWriteFile env dest f fs)) q = at_path fs q"
proof -
  let ?path = "path_Join [dest, zf_Name f]"
  have path: "file_path ?path = file_path dest @ file_path (zf_Name f)" "file_path (path_Dir ?path) = butlast (file_path dest @ file_path (zf_Name f))"
    using file_path_Join [OF assms(2), of "zf_Name f"] path_Dir_butlast [OF assms(2), of "[zf_Name f]"] assms(3,4) by (simp_all add: no_parent_def)
  have "\<not> prefix q (file_path dest @ xs)" for xs
    using apart prefix_same_cases [of q "file_path dest @ xs" "file_path dest"] by (auto simp: parallel_def)
  then have "\<not> prefix q (file_path ?path)" "\<not> prefix q (file_path (path_Dir ?path))" "file_path ?path \<noteq> q"
    unfolding path by (auto dest: prefix_order.trans [OF _ prefixeq_butlast])
  note calls = MkdirAll_at [OF assms(1) this(1)] MkdirAll_at [OF assms(1) this(2)] Create_at [OF assms(1) this(3)] Write_at [OF assms(1) this(3)] Sync_at [OF assms(1)]
  have copy: "at_path (snd (copy_into env ?path body fs)) q = at_path fs q" for body fs
    by (auto simp: copy_into_def calls intro!: io_then_at)
  show ?thesis
    by (auto simp: extractAndWriteFile_def Let_def case_prod_beta calls copy intro!: io_then_at split: option.split)
qed

text \<open>
  The extraction of an archive whose file names do not refer to parent directories changes nothing outside the directory it extracts to.
\<close>

theorem unzip_confined:
  assumes "faults_local (ce_faults env)" "prefix ''/'' dest" "no_parent dest"
    and "os_ReadFile (ce_faults env) fs archivePath = Found archive" "ce_OpenReader env archive = Inr zipFiles" "list_all (\<lambda>f. no_parent (zf_Name f)) zipFiles"
    and apart: "parallel q (file_path dest)"
  shows "at_path (snd (unzip env archivePath dest fs)) q = at_path fs q"
proof -
  have "at_path (snd (extract_each env dest zipFiles fs)) q = at_path fs q" for fs
    using assms(6) by (induction zipFiles arbitrary: fs) (auto intro!: io_then_at extract_at assms(1-3) apart)
  then show ?thesis
    using assms(1,4,5) apart by (auto simp: unzip_def parallel_def intro!: io_then_at MkdirAll_at)
qed

section \<open>The end of the program\<close>

text \<open>
  Where a project could not be set up, the program ends with \<^verbatim>\<open>os.Exit\<close>, which skips the deferred removal: the temporary directory stays on
  the volume, and every start adds another one.
\<close>

lemma tmp_dir_left:
  assumes "faults_local (ce_faults env)" "file_path (path_Join [ce_ProjectsRoot env, logFileName]) \<noteq> file_path (ce_CloneTmpDir env)"
    and "m0 = m\<lparr>m_files := snd (os_Create (ce_faults env) tmpLogFilePath (m_files m))\<rparr>" "ReadFlattenedDevWorkspace env (m_files m0) = Inr workspace"
    and "\<And>certs. setup_projects env (httpGet certs) (projects_of env workspace) False m0 = (Ok (LoopDone True), m1)"
  shows "\<exists>m'. clone_main env client systemPool addPEM httpGet m = (0, None, m') \<and>
    at_path (m_files m') (file_path (ce_CloneTmpDir env)) = at_path (m_files m1) (file_path (ce_CloneTmpDir env))"
proof -
  have "at_path (copyLogFileToProjectsRoot env fs) (file_path (ce_CloneTmpDir env)) = at_path fs (file_path (ce_CloneTmpDir env))" for fs
    using assms(1,2) by (auto simp: copyLogFileToProjectsRoot_def Let_def intro!: io_then_at Create_at Write_at split: os_answer.split)
  with assms(3-5) show ?thesis by (simp add: clone_main_def Let_def)
qed

section \<open>Concrete runs\<close>

text \<open>
  A machine on which no call fails, git creates one file in the directory that it clones to, and the repository has one remote; the archive has the
  files that the environment is given.
\<close>

definition sample_run :: "string list list \<Rightarrow> string list \<Rightarrow> files \<Rightarrow> err option \<times> files" where
  "sample_run history command fs =
     (if prefix [''git'', ''clone''] command then
        (None, AList.update (file_path (last command) @ [''README'']) (RegularFile ''hello'') (AList.update (file_path (last command)) Directory fs))
      else (None, fs))"

definition sample_clone :: "zip_file list \<Rightarrow> int clone_env" where
  "sample_clone zipFiles = \<lparr>ce_globals = \<lparr>g_ProjectsRoot = ''/projects'', g_CloneTmpDir = ''/projects/t'', g_CloneRetries = 3, g_tokenAuthMethod = []\<rparr>,
     ce_faults = (\<lambda>_ _. None), ce_run = sample_run, ce_PlainOpen = (\<lambda>_ _. RepositoryOpened), ce_Remote = (\<lambda>_ _ _. RemoteURLs [''old'']),
     ce_CreateRemote = (\<lambda>_ _ _ fs. (ErrRemoteExists, fs)), ce_lib = sample_library, ce_getBoolean = (\<lambda>_ _. Inr True), ce_encode = id,
     ce_getenv = (\<lambda>_. []), ce_unmarshal = (\<lambda>_. Inl ''no devfile''), ce_OpenReader = (\<lambda>_. Inr zipFiles)\<rparr>"

definition sample_machine :: machine where
  "sample_machine = \<lparr>m_files = [([''projects''], Directory), ([''projects'', ''t''], Directory), ([''tmp''], Directory)], m_commands = [], m_slept = 0\<rparr>"

definition sample_project :: Project where
  "sample_project = \<lparr>prj_Name = ''p'', prj_ClonePath = [], prj_Attributes = [],
     prj_Git = Some \<lparr>gs_Remotes = Some [(''origin'', ''new'')], gs_CheckoutFrom = None\<rparr>, prj_Zip = Some \<lparr>zs_Location = ''url''\<rparr>\<rparr>"

definition sample_file :: "string \<Rightarrow> bool \<Rightarrow> zip_file" where
  "sample_file name isDir = \<lparr>zf_Name = name, zf_IsDir = isDir, zf_Open = None, zf_Content = (''text'', None), zf_Close = None\<rparr>"

lemmas file_defs = os_MkdirAll_def os_Create_def os_Write_def os_Sync_def os_Rename_def os_Remove_def os_Stat_def os_ReadFile_def os_ReadDir_def
  calling_def reading_def look_def below_file_def at_path_def rename_path_def move_tree_def entries_def file_path_def path_Join_def path_Clean_def path_Dir_def

text \<open>A name with parent references is written outside of the directory: no check of the names stands between.\<close>

lemma unzip_escapes:
  "at_path (snd (extractAndWriteFile (sample_clone []) ''/projects/t/p'' (sample_file ''../../other/x'' False) (m_files sample_machine)))
    [''projects'', ''other'', ''x''] = Some (RegularFile ''text'')"
  by (simp add: extractAndWriteFile_def copy_into_def sample_clone_def sample_file_def sample_machine_def file_defs Let_def)

text \<open>
  An archive with a folder that holds one of the same name cannot be flattened: the set-up fails after the project has been moved to its place,
  and the next start takes the half-moved project for complete.
\<close>

lemma same_name_folder_sticks:
  "case SetupZipProject (sample_clone [sample_file ''foo/'' True, sample_file ''foo/foo/'' True]) (\<lambda>_. Inr (200, ''zip'', None)) sample_project
      (m_files sample_machine) of
     (Err _, fs) \<Rightarrow> fst (SetupZipProject (sample_clone []) (\<lambda>_. Inr (200, ''zip'', None)) sample_project fs) = Ok ()
   | _ \<Rightarrow> False"
  by (simp add: SetupZipProject_def DirExists_def downloadZip_def unzip_def dropTopLevelFolder_def extractAndWriteFile_def copy_into_def projectPath_of_def
      tmpPath_of_def GetClonePath_def sample_clone_def sample_file_def sample_machine_def sample_project_def file_defs Let_def)

section \<open>Witnesses\<close>



end
