(* ===== verification/Spec2Isabelle.thy ===== *)
theory Spec2Isabelle
  imports Config_Sync Workspace_Stop Webhook_Access Automount_Mounts Deployment_Ready Workspace_Rights Flatten_Contributions Additions_Correct Async_Correct Cron_Correct Watches Clone_Results
begin

text \<open>
  A verification library of the DevWorkspace operator, a Kubernetes operator that turns a \<^verbatim>\<open>DevWorkspace\<close> object, which
  holds a devfile, into a running development environment.

  \<^bold>\<open>The parts of the program and how they interact.\<close> The workspace controller (\<^verbatim>\<open>src/controllers/workspace\<close>) reconciles
  a workspace: it flattens the devfile, converts its components to containers (\<^verbatim>\<open>src/pkg/library\<close>), provisions storage,
  automounted objects, networking and the deployment (\<^verbatim>\<open>src/pkg/provision\<close>), and reports phases and conditions. The
  provisioning packages keep objects on the cluster through one synchronisation package (\<^verbatim>\<open>src/pkg/provision/sync\<close>). The
  routing controller (\<^verbatim>\<open>src/controllers/controller/devworkspacerouting\<close>) turns the endpoints that the workspace controller
  hands to it in a \<^verbatim>\<open>DevWorkspaceRouting\<close> into services, ingresses and routes and reports their URLs. The admission
  webhooks (\<^verbatim>\<open>src/webhook\<close>) guard the objects of a workspace. Two more controllers schedule jobs that back workspaces up and
  remove stale ones (\<^verbatim>\<open>src/controllers/backupcronjob\<close>, \<^verbatim>\<open>src/controllers/cleanupcronjob\<close>). The project clone program
  (\<^verbatim>\<open>src/project-clone\<close>) runs in an init container of a workspace and puts its projects on the volume. All parts of the operator read the operator's configuration
  (\<^verbatim>\<open>src/pkg/config\<close>).

  \<^bold>\<open>Theories, source and state.\<close> A Go struct is a record, an enumeration a datatype, an error a value of a sum type, a panic
  the result \<open>Panic\<close> or \<open>None\<close>; a map is an optional association list, whose order is one of the orders in which
  \<^verbatim>\<open>range\<close> may visit it. Definitions keep the names of the code where HOL allows it.

  \<^item> \<open>Go_Prelude\<close>: the fragment of Go and of its standard library, with the lemmas that all theories share. \<open>K8s_Types\<close>,
    \<open>Devfile\<close>, \<open>Cluster_Objects\<close>: the structs of Kubernetes, OpenShift and the devfile API as far as the operator reads or writes
    them; the type variable \<open>'q\<close> is \<^verbatim>\<open>resource.Quantity\<close>.
  \<^item> \<open>Restrictions\<close>, \<open>Container_Restrictions\<close>, \<open>Pod_Restrictions\<close>, \<open>Overrides\<close> (\<^verbatim>\<open>pkg/library/overrides\<close>): the language
    of restrictions and all field checks; overrides never change a field that the default restrictions of Kubernetes forbid, and
    keep what the operator itself sets. The contract of a restriction loop is the locale of \<open>Restrictions\<close>.
  \<^item> \<open>Resources\<close> (\<^verbatim>\<open>pkg/library/resources\<close>): defaults and caps refine a pointwise specification, keep limits above requests
    and stay within the caps.
  \<^item> \<open>Config_Types\<close>, \<open>Config_Merge\<close>, \<open>Config_Sync\<close> (\<^verbatim>\<open>pkg/config\<close>): the state is the package's global variables and
    every event on a configuration object a step of an inductive relation; in every reachable state the configuration is complete,
    so that the dereferences of the other parts do not panic.
  \<^item> \<open>Naming\<close> (\<^verbatim>\<open>pkg/common/naming.go\<close>): names, host names and their bounds.
  \<^item> \<open>Lifecycle\<close> (\<^verbatim>\<open>pkg/library/lifecycle\<close>): init containers and hooks; the generated scripts quote user commands safely.
  \<^item> \<open>Containers\<close> (\<^verbatim>\<open>pkg/library/container\<close>, \<^verbatim>\<open>pkg/library/projects\<close>): from components to containers.
  \<^item> \<open>Conditions\<close>, \<open>DW_Errors\<close>, \<open>Workspace_Controller\<close>, \<open>Finalize\<close>, \<open>Reconcile\<close>, \<open>Workspace_Phases\<close>, \<open>Workspace_Stop\<close>
    (\<^verbatim>\<open>controllers/workspace\<close>, \<^verbatim>\<open>pkg/dwerrors\<close>): one reconcile is a list of steps over the status being
    collected, the workspace in memory and the workspace stored, given the answers of everything it calls. The lemmas show the
    phases that a reconcile can lead to, what a running workspace has gone through, and that stops and deletions end.
  \<^item> \<open>Webhook\<close>, \<open>Webhook_Workspace\<close>, \<open>Webhook_Access\<close> (\<^verbatim>\<open>webhook/workspace\<close>): the handlers and their dispatch; identity,
    restricted access and reviewed permissions are invariants of what they admit.
  \<^item> \<open>Sync\<close>, \<open>Server_Laws\<close>, \<open>Sync_Convergence\<close> (\<^verbatim>\<open>pkg/provision/sync\<close>): the cluster is the map of its objects, a call may fail, and
    what the server stores of an object is a parameter. The deletion of an object with finalizers only marks it as terminating.
    \<open>Server_Laws\<close> states what the server does with the fields that a client leaves out and how the comparison libraries
    treat them, and derives that the comparisons of the code find nothing to do on a stored object. Repeated synchronisation
    converges, and an object that is returned is in sync.
  \<^item> \<open>Storage\<close>, \<open>Storage_Mounts\<close> (\<^verbatim>\<open>pkg/provision/storage\<close>): the common, per-workspace and ephemeral strategies and the
    clean-up; every mount names a volume of the pod, workspaces on one claim are separate.
  \<^item> \<open>Automount\<close>, \<open>Automount_Mounts\<close> (\<^verbatim>\<open>pkg/provision/automount\<close>): objects mounted into every workspace of a namespace,
    the git configuration, projected volumes; the main containers never get two mounts with one path.
  \<^item> \<open>Attributes\<close>, \<open>Routing\<close>, \<open>Routing_Ready\<close> (\<^verbatim>\<open>apis/controller/v1alpha1/attributes.go\<close>,
    \<^verbatim>\<open>controllers/controller/devworkspacerouting\<close>): the routing controller, generic in the solver; the contract of a solver is
    the locale \<open>routing_solver\<close>, interpreted on both built-in solvers. A routing is ready only when its objects are on the cluster.
  \<^item> \<open>Metadata_Keys\<close> (\<^verbatim>\<open>pkg/constants\<close>): the labels and annotations. \<open>Pod_Status\<close>, \<open>Workspace_Deployment\<close>,
    \<open>Deployment_Ready\<close> (\<^verbatim>\<open>pkg/provision/workspace/deployment.go\<close>, \<^verbatim>\<open>routing.go\<close>, \<^verbatim>\<open>pkg/library/status\<close>): the
    deployment and routing objects and the state of the pods; overrides do not change the identity of a deployment, and the lemmas
    say when it counts as ready, when building it panics and what is reported of a failed hook.
  \<^item> \<open>Workspace_Accounts\<close>, \<open>Workspace_Bindings\<close>, \<open>Workspace_Rights\<close> (\<^verbatim>\<open>pkg/provision/workspace\<close>,
    \<^verbatim>\<open>pkg/provision/metadata\<close>): service accounts, roles, bindings, tokens and config maps. \<open>Workspace_Bindings\<close> has the
    states that rounds of the operator can reach, in which every binding refers to its role; in them a provisioned workspace has its
    rights, and a finalized one has none left.
  \<^item> \<open>Flatten_Merge\<close>, \<open>Flatten\<close>, \<open>Flatten_Resolution\<close>, \<open>Flatten_Contributions\<close> (\<^verbatim>\<open>pkg/library/flatten\<close>,
    \<^verbatim>\<open>pkg/library/annotate\<close>): resolution of parents, plugins and contributions. It ends where the references that can be
    reached are finitely many, finds every cycle, imports templates of other namespaces only with permission, leaves no plugin and
    no parent behind, and merges contributions and volumes as specified.
  \<^item> \<open>Workspace_Additions\<close>, \<open>Additions_Correct\<close> (\<^verbatim>\<open>pkg/library/env\<close>, \<^verbatim>\<open>home\<close>, \<^verbatim>\<open>initcontainers\<close>,
    \<^verbatim>\<open>ssh\<close>, \<^verbatim>\<open>restore\<close>, \<^verbatim>\<open>kubernetes\<close>, \<^verbatim>\<open>defaults\<close>, \<^verbatim>\<open>pkg/secrets\<close>): what is added
    to the template and the pod; exact environment, one home mount, ordered init containers, and no change of foreign objects.
  \<^item> \<open>Async_Storage\<close>, \<open>Async_Correct\<close> (\<^verbatim>\<open>pkg/provision/storage/asyncStorage.go\<close>, \<^verbatim>\<open>asyncstorage\<close>): the
    asynchronous strategy; the file of authorized keys refines a set of lines, the sidecar mounts what is to be kept.
  \<^item> \<open>Cron_Jobs\<close>, \<open>Cron_Correct\<close> (\<^verbatim>\<open>controllers/cleanupcronjob\<close>, \<^verbatim>\<open>controllers/backupcronjob\<close>): what both
    reconcilers do with the scheduler is the locale \<open>cron_reconciler\<close>, interpreted on each; the schedule follows the last
    configuration, only workspaces that have been stopped for the time to retain are removed, and a recorded back-up decides about
    the next one.
  \<^item> \<open>Watches\<close> (\<^verbatim>\<open>controllers/workspace/eventhandlers.go\<close>, \<^verbatim>\<open>predicates.go\<close>, \<^verbatim>\<open>pkg/cache\<close>): which
    events lead to a reconcile and which objects the caching client holds. It holds what the functions of the other theories build for
    a workspace, the objects of the solvers and of the git configuration included, but not the binding of the back-up jobs.
  \<^item> \<open>Clone_Files\<close>, \<open>Project_Clone\<close>, \<open>Project_Setup\<close>, \<open>Project_Main\<close>, \<open>Clone_Correct\<close>, \<open>Clone_Results\<close>
    (\<^verbatim>\<open>project-clone\<close>): the state is the file tree with the commands run and the time slept; every call on a file may fail.
    What the steps inside a repository share is the locale \<open>working_in\<close>, interpreted for the files outside of it and for the
    number of clones. A failed clone leaves the place of a project as it was, the attempts and delays are bounded, archives stay in
    their directory unless a name refers to a parent, and a bootstrap keeps the rest of the workspace.

  \<^bold>\<open>Parameters.\<close> Code outside the repository is an argument of the definitions that use it, usually a field of a record: the API
  server and its faults, the client's cache, the JSON and strategic merge libraries, the comparison libraries, the URL parser, the
  devfile library, the getter of documents by HTTP, the quantity parser, the cron scheduler, the pruner of workspaces, the generators of
  keys and names, the git program and library, the libraries for archives, YAML and certificates, and the clock. Where a
  theorem needs something of them, it is a named hypothesis with a witness that instantiates the parameter.

  \<^bold>\<open>Bounds and fuel.\<close> Loops are structural recursions over the data they visit, and the recursive reading of attributes has a
  termination proof. The resolution of a devfile follows references to documents that may refer to others without end; it has a bound on
  its depth and the result \<open>None\<close> where the bound is reached. One more than the number of references that can be reached is
  enough, and a larger bound gives the same result. The liveness theorems count rounds of reconciliation explicitly: two for a stop, one per
  finalizer for a deletion, two for the synchronisation of an object, with a third that changes nothing. The loop over the clone
  attempts runs once more than the configured number of retries. Integers are unbounded where the code bounds them by
  validation, and \<open>int32\<close> writes the wrap-around out where the code converts.

  \<^bold>\<open>Not modelled.\<close> The HTTP clients, metrics, the server of the webhooks and the entry points of the operator are input and output or
  registration with controller-runtime. The migration of old config maps, the text of the configuration for the log and the
  accessors of attributes that nothing calls are left out; deep copies are generated.
\<close>

end
